(* ===== verification/Framing.thy ===== *)
theory Framing
  imports Prelude
begin

text \<open>
  The interface between a frame codec and the task that reads a byte stream through it
  (\<open>FramedRead\<close> in \<open>connection.rs\<close>): the reader appends what arrives to a buffer and
  decodes until the decoder asks for more bytes or fails. The locale \<open>frame_codec\<close> states
  what the reader relies on; inside it the reader's result is shown not to depend on how
  the stream was cut into chunks.
\<close>

text \<open>Decode until the decoder wants more bytes. One unit of fuel per frame; a frame takes
  at least one byte, so the length of the buffer plus one is always enough.\<close>

fun drain :: "('b list \<Rightarrow> ('e + 'f option) \<times> 'b list) \<Rightarrow> nat \<Rightarrow> 'b list \<Rightarrow> 'f list \<times> 'e option \<times> 'b list" where
  "drain dec 0 buf = ([], None, buf)"
| "drain dec (Suc n) buf =
     (case dec buf of
        (Inl e, rest) \<Rightarrow> ([], Some e, rest)
      | (Inr None, rest) \<Rightarrow> ([], None, rest)
      | (Inr (Some f), rest) \<Rightarrow> (let (fs, e, b) = drain dec n rest in (f # fs, e, b)))"

text \<open>One arrival of bytes, and a list of arrivals; after an error the stream is over.\<close>

definition feed :: "('b list \<Rightarrow> ('e + 'f option) \<times> 'b list) \<Rightarrow> 'b list
    \<Rightarrow> 'f list \<times> 'e option \<times> 'b list \<Rightarrow> 'f list \<times> 'e option \<times> 'b list" where
  "feed dec chunk st =
     (case st of (out, err, buf) \<Rightarrow>
        if err \<noteq> None then st
        else (let (fs, e, b) = drain dec (Suc (length (buf @ chunk))) (buf @ chunk)
              in (out @ fs, e, b)))"

fun feed_all :: "('b list \<Rightarrow> ('e + 'f option) \<times> 'b list) \<Rightarrow> 'b list list
    \<Rightarrow> 'f list \<times> 'e option \<times> 'b list \<Rightarrow> 'f list \<times> 'e option \<times> 'b list" where
  "feed_all dec [] st = st"
| "feed_all dec (c # cs) st = feed_all dec cs (feed dec c st)"

locale frame_codec =
  fixes enc :: "'f \<Rightarrow> 'b list"
    and dec :: "'b list \<Rightarrow> ('e + 'f option) \<times> 'b list"
    and ok :: "'f \<Rightarrow> bool"
  assumes dec_enc: "ok f \<Longrightarrow> dec (enc f @ rest) = (Inr (Some f), rest)"
    and dec_waits: "ok f \<Longrightarrow> strict_prefix xs (enc f) \<Longrightarrow> dec xs = (Inr None, xs)"
    and dec_nothing: "dec [] = (Inr None, [])"
    and enc_nonempty: "ok f \<Longrightarrow> enc f \<noteq> []"
begin

abbreviation stream :: "'f list \<Rightarrow> 'b list" where
  "stream fs \<equiv> concat (map enc fs)"

text \<open>What is left in the buffer between two arrivals: nothing, or a proper prefix of the
  next frame to come.\<close>

definition pending :: "'b list \<Rightarrow> 'f list \<Rightarrow> bool" where
  "pending t fs \<longleftrightarrow> t = [] \<or> (fs \<noteq> [] \<and> strict_prefix t (enc (hd fs)))"

lemma dec_pending: "\<forall>f \<in> set fs. ok f \<Longrightarrow> pending t fs \<Longrightarrow> dec t = (Inr None, t)"
  by (cases fs) (auto simp: pending_def dec_nothing intro: dec_waits)

text \<open>A prefix of a stream is whole frames followed by a pending part.\<close>

lemma prefix_stream:
  assumes "prefix xs (stream fs)"
  obtains k t where "xs = stream (take k fs) @ t" and "pending t (drop k fs)"
  using assms
proof (induction fs arbitrary: xs thesis)
  case Nil
  then show ?case by (auto simp: pending_def)
next
  case (Cons f fs)
  show ?case
  proof (cases "prefix (enc f) xs")
    case True
    then obtain ys where xs: "xs = enc f @ ys" by (auto simp: prefix_def)
    with Cons.prems(2) have "prefix ys (stream fs)" by simp
    then obtain k t where "ys = stream (take k fs) @ t" "pending t (drop k fs)"
      using Cons.IH by blast
    then show ?thesis using Cons.prems(1) [of "Suc k" t] xs by auto
  next
    case False
    with Cons.prems(2) have "strict_prefix xs (enc f)"
      by (auto simp: prefix_append strict_prefix_def)
    then show ?thesis using Cons.prems(1) [of 0 xs] by (auto simp: pending_def)
  qed
qed

lemma stream_length: "\<forall>f \<in> set fs. ok f \<Longrightarrow> length fs \<le> length (stream fs)"
proof (induction fs)
  case (Cons f fs)
  then have "enc f \<noteq> []" by (simp add: enc_nonempty)
  then have "1 \<le> length (enc f)" by (cases "enc f") auto
  with Cons show ?case by simp
qed simp

lemma stream_pending_self:
  assumes "\<forall>f \<in> set fs. ok f" and "pending (stream fs) fs"
  shows "fs = []"
proof (cases fs)
  case (Cons f gs)
  with assms(2) have "stream fs = [] \<or> strict_prefix (enc f @ stream gs) (enc f)"
    by (simp add: pending_def)
  moreover have "stream fs \<noteq> []" using stream_length [OF assms(1)] Cons
    by (metis le_zero_eq length_0_conv list.distinct(1))
  moreover have "\<not> strict_prefix (enc f @ stream gs) (enc f)"
    using prefix_length_less by fastforce
  ultimately show ?thesis by blast
qed simp

lemma drain_stream:
  assumes "\<forall>f \<in> set fs. ok f" and "length fs < n" and "dec t = (Inr None, t)"
  shows "drain dec n (stream fs @ t) = (fs, None, t)"
  using assms(1,2)
proof (induction fs arbitrary: n)
  case Nil
  then obtain m where "n = Suc m" by (cases n) auto
  with assms(3) show ?case by simp
next
  case (Cons f fs)
  then obtain m where n: "n = Suc m" by (cases n) auto
  with Cons show ?case by (simp add: dec_enc)
qed

lemma feed_stream:
  assumes ok: "\<forall>f \<in> set fs. ok f" and bc: "buf @ c = stream (take k fs) @ t"
    and t: "pending t (drop k fs)"
  shows "feed dec c (out, None, buf) = (out @ take k fs, None, t)"
proof -
  have ok1: "\<forall>f \<in> set (take k fs). ok f" and ok2: "\<forall>f \<in> set (drop k fs). ok f"
    using ok by (auto dest: in_set_takeD in_set_dropD)
  have "length (take k fs) < Suc (length (buf @ c))"
    using stream_length [OF ok1] unfolding bc by simp
  then have "drain dec (Suc (length (buf @ c))) (buf @ c) = (take k fs, None, t)"
    unfolding bc by (rule drain_stream [OF ok1 _ dec_pending [OF ok2 t]])
  then show ?thesis by (simp add: feed_def)
qed

text \<open>However the stream is cut, the reader hands on the same frames in the same order.\<close>

lemma feed_all_stream:
  assumes "\<forall>f \<in> set fs. ok f" and "buf @ concat cs = stream fs" and "pending buf fs"
  shows "feed_all dec cs (out, None, buf) = (out @ fs, None, [])"
  using assms
proof (induction cs arbitrary: buf fs out)
  case Nil
  then have "fs = []" by (simp add: stream_pending_self)
  with Nil show ?case by simp
next
  case (Cons c cs)
  have "prefix (buf @ c) (stream fs)"
    using Cons.prems(2) by (metis append.assoc concat.simps(2) prefixI)
  then obtain k t where bc: "buf @ c = stream (take k fs) @ t" and t: "pending t (drop k fs)"
    by (rule prefix_stream)
  have split: "stream fs = stream (take k fs) @ stream (drop k fs)"
    by (metis append_take_drop_id concat_append map_append)
  have "(buf @ c) @ concat cs = stream fs" using Cons.prems(2) by simp
  then have rest: "t @ concat cs = stream (drop k fs)"
    unfolding bc split by simp
  have "\<forall>f \<in> set (drop k fs). ok f" using Cons.prems(1) by (auto dest: in_set_dropD)
  then have "feed_all dec cs (out @ take k fs, None, t) = ((out @ take k fs) @ drop k fs, None, [])"
    using rest t by (rule Cons.IH)
  then show ?case by (simp add: feed_stream [OF Cons.prems(1) bc t])
qed

end

end
