(* ===== verification/Codec.thy ===== *)
theory Codec
  imports Framing
begin

text \<open>
  The plaintext wire format of the native API (\<open>crates/rshome-native-api/src/codec.rs\<close>):
  a frame is a zero byte, the payload length and the message type as varints, and the
  payload. A byte buffer is a list; \<open>advance(n)\<close> is \<open>drop n\<close>. The decoder returns its
  result together with the buffer it leaves behind.

  The lemmas show: the varint reader inverts the varint writer and never reads past ten
  bytes; the frame decoder inverts the encoder, waits on every proper prefix of a frame,
  leaves the buffer alone unless it returns a frame, and never accepts an oversized payload.
\<close>

section \<open>Varints\<close>

definition MAX_FRAME_PAYLOAD :: nat where
  "MAX_FRAME_PAYLOAD = 64 * 1024"

definition MAX_VARINT_BYTES :: nat where
  "MAX_VARINT_BYTES = 10"

text \<open>The loop of \<open>peek_varint\<close>: index, accumulated value and shift are the loop's variables.\<close>

fun peek_varint_loop :: "nat \<Rightarrow> u64 \<Rightarrow> nat \<Rightarrow> u8 list \<Rightarrow> (u64 \<times> nat) option" where
  "peek_varint_loop i result shift [] = None"
| "peek_varint_loop i result shift (byte # src) =
     (if i \<ge> MAX_VARINT_BYTES then None
      else
        let result' = result OR push_bit shift (ucast (byte AND 0x7F));
            shift' = shift + 7
        in if byte AND 0x80 = 0 then Some (result', i + 1)
           else if shift' \<ge> 64 then None
           else peek_varint_loop (i + 1) result' shift' src)"

definition peek_varint :: "u8 list \<Rightarrow> (u64 \<times> nat) option" where
  "peek_varint src = peek_varint_loop 0 0 0 src"

lemma drop_bit_7_less:
  fixes v :: u64
  assumes "drop_bit 7 v \<noteq> 0"
  shows "unat (drop_bit 7 v) < unat v"
proof -
  have eq: "unat (drop_bit 7 v) = unat v div 2 ^ 7"
    by (rule trans [OF unat_drop_bit_eq drop_bit_eq_div])
  moreover have "unat (drop_bit 7 v) \<noteq> 0"
    using assms by (simp only: unat_eq_0 not_False_eq_True)
  ultimately show ?thesis by simp
qed

function write_varint :: "u64 \<Rightarrow> u8 list \<Rightarrow> u8 list" where
  "write_varint v dst =
     (let byte = ucast (v AND 0x7F) :: u8;
          v' = drop_bit 7 v
      in if v' = 0 then dst @ [byte] else write_varint v' (dst @ [byte OR 0x80]))"
  by pat_completeness auto
termination
  by (relation "measure (\<lambda>(v, dst). unat v)") (auto intro: drop_bit_7_less)

declare write_varint.simps [simp del]

section \<open>Frames\<close>

datatype codec_error = InvalidPreamble u8 | PayloadTooLarge u64

type_synonym frame = "u32 \<times> u8 list"

definition decode :: "u8 list \<Rightarrow> (codec_error + frame option) \<times> u8 list" where
  "decode src =
     (case src of
        [] \<Rightarrow> (Inr None, src)
      | preamble # after_preamble \<Rightarrow>
          if preamble \<noteq> 0 then (Inl (InvalidPreamble preamble), src)
          else if length src < 2 then (Inr None, src)
          else (case peek_varint after_preamble of
              None \<Rightarrow> (Inr None, src)
            | Some (payload_len, len_bytes) \<Rightarrow>
                if unat payload_len > MAX_FRAME_PAYLOAD
                then (Inl (PayloadTooLarge payload_len), src)
                else
                  let type_offset = 1 + len_bytes in
                  if length src \<le> type_offset then (Inr None, src)
                  else (case peek_varint (drop type_offset src) of
                      None \<Rightarrow> (Inr None, src)
                    | Some (msg_type, type_bytes) \<Rightarrow>
                        let header_len = 1 + len_bytes + type_bytes;
                            total_len = header_len + unat payload_len
                        in if length src < total_len then (Inr None, src)
                           else
                             let src' = drop header_len src;
                                 payload = take (unat payload_len) src'
                             in (Inr (Some (ucast msg_type, payload)),
                                 drop (unat payload_len) src'))))"

definition encode :: "frame \<Rightarrow> u8 list \<Rightarrow> u8 list" where
  "encode item dst =
     (case item of (msg_type, payload) \<Rightarrow>
        write_varint (ucast msg_type) (write_varint (of_nat (length payload)) (dst @ [0])) @ payload)"

section \<open>The varint writer as a list of bytes\<close>

abbreviation varint :: "u64 \<Rightarrow> u8 list" where
  "varint v \<equiv> write_varint v []"

lemma write_varint_append: "write_varint v dst = dst @ varint v"
proof (induction v arbitrary: dst rule: measure_induct_rule [of unat])
  case (less v)
  show ?case
  proof (cases "drop_bit 7 v = 0")
    case True
    then show ?thesis by (simp add: write_varint.simps [of v])
  next
    case False
    then have step: "write_varint v d = write_varint (drop_bit 7 v) (d @ [ucast (v AND 0x7F) OR 0x80])" for d
      by (simp add: write_varint.simps [of v] Let_def)
    have IH: "write_varint (drop_bit 7 v) d = d @ varint (drop_bit 7 v)" for d
      by (rule less.IH) (rule drop_bit_7_less [OF False])
    show ?thesis by (simp add: step IH [of "_ @ _"] IH [of "[_]"])
  qed
qed

lemma varint_unfold:
  "varint v = (if drop_bit 7 v = 0 then [ucast (v AND 0x7F)]
               else (ucast (v AND 0x7F) OR 0x80) # varint (drop_bit 7 v))"
  by (subst write_varint.simps) (simp add: Let_def write_varint_append [of _ "[_]"])

lemma varint_nonempty [simp]: "varint v \<noteq> []"
  by (subst varint_unfold) simp

lemma varint_cases:
  obtains (last) "drop_bit 7 v = 0" and "varint v = [ucast (v AND 0x7F)]"
  | (more) "drop_bit 7 v \<noteq> 0" and "varint v = (ucast (v AND 0x7F) OR 0x80) # varint (drop_bit 7 v)"
  using varint_unfold [of v] by (cases "drop_bit 7 v = 0") simp_all

section \<open>Reading back what was written\<close>

text \<open>Bit facts about one varint byte.\<close>

lemma bit_127: "bit (0x7F :: int) n \<longleftrightarrow> n < 7"
proof -
  have e: "(0x7F :: int) = mask 7" by (simp add: mask_eq_exp_minus_1)
  show ?thesis unfolding e by (simp add: bit_mask_iff)
qed

lemma bit_128: "bit (0x80 :: int) n \<longleftrightarrow> n = 7"
proof -
  have e: "(0x80 :: int) = 2 ^ 7" by simp
  show ?thesis unfolding e by (simp add: bit_exp_iff del: power_numeral)
qed

lemmas varint_bits = bit_simps bit_127 bit_128

lemma last_byte_clear: "(ucast (v AND 0x7F) :: u8) AND 0x80 = 0" for v :: u64
  by (rule bit_word_eqI) (auto simp: varint_bits)

lemma cont_byte_set: "(b OR 0x80) AND 0x80 \<noteq> (0 :: u8)"
proof
  assume "(b OR 0x80) AND 0x80 = (0 :: u8)"
  then have "bit ((b OR 0x80) AND 0x80 :: u8) 7 = bit (0 :: u8) 7" by simp
  then show False by (simp add: varint_bits)
qed

lemma low_bits_last: "ucast ((ucast (v AND 0x7F) :: u8) AND 0x7F) = v AND 0x7F" for v :: u64
  by (rule bit_word_eqI) (auto simp: varint_bits)

lemma low_bits_cont: "ucast (((ucast (v AND 0x7F) :: u8) OR 0x80) AND 0x7F) = v AND 0x7F" for v :: u64
  by (rule bit_word_eqI) (auto simp: varint_bits)

lemma low_high_join: "push_bit s (v AND 0x7F) OR push_bit (s + 7) (drop_bit 7 v) = push_bit s v" for v :: u64
proof (rule bit_word_eqI)
  fix n
  assume "n < LENGTH(64)"
  moreover have "7 + (n - (s + 7)) = n - s" if "s + 7 \<le> n" using that by simp
  ultimately show "bit (push_bit s (v AND 0x7F) OR push_bit (s + 7) (drop_bit 7 v)) n = bit (push_bit s v) n"
    by (cases "s + 7 \<le> n") (auto simp: varint_bits)
qed

lemma drop_bit_0_low: "drop_bit 7 v = 0 \<Longrightarrow> v AND 0x7F = v" for v :: u64
proof (rule bit_word_eqI)
  fix n assume z: "drop_bit 7 v = 0" and n: "n < LENGTH(64)"
  have "\<not> bit v n" if "7 \<le> n"
  proof -
    have "bit (drop_bit 7 v) (n - 7) = bit v n" using that by (simp add: bit_simps)
    with z show ?thesis by simp
  qed
  then show "bit (v AND 0x7F) n = bit v n" using n by (cases "7 \<le> n") (auto simp: varint_bits)
qed

section \<open>Reading back a varint\<close>

text \<open>The reader stopped in the middle: \<open>i\<close> bytes read, \<open>7 * i\<close> bits accumulated in \<open>r\<close>.\<close>

lemma peek_varint_loop_varint:
  assumes "i \<le> 9" and "unat v < 2 ^ (64 - 7 * i)"
  shows "peek_varint_loop i r (7 * i) (varint v @ rest)
       = Some (r OR push_bit (7 * i) v, i + length (varint v))"
  using assms
proof (induction v arbitrary: i r rule: measure_induct_rule [of unat])
  case (less v)
  show ?case
  proof (cases v rule: varint_cases)
    case last
    have "peek_varint_loop i r (7 * i) (varint v @ rest) = Some (r OR push_bit (7 * i) (v AND 0x7F), i + 1)"
      using less.prems(1) unfolding last(2)
      by (simp add: MAX_VARINT_BYTES_def last_byte_clear low_bits_last Let_def)
    then show ?thesis using drop_bit_0_low [OF last(1)] by (simp add: last(2))
  next
    case more
    have big: "128 \<le> unat v"
    proof (rule ccontr)
      assume "\<not> 128 \<le> unat v"
      then have "unat (drop_bit 7 v) = 0"
        by (simp add: trans [OF unat_drop_bit_eq drop_bit_eq_div])
      with more(1) show False by (simp only: unat_eq_0)
    qed
    have i8: "i \<le> 8"
    proof (rule ccontr)
      assume "\<not> i \<le> 8"
      with less.prems(1) have "i = 9" by simp
      with less.prems(2) big show False by simp
    qed
    have small: "unat (drop_bit 7 v) < 2 ^ (64 - 7 * (i + 1))"
    proof -
      have "64 - 7 * i = 7 + (64 - 7 * (i + 1))" using i8 by simp
      with less.prems(2) have "unat v < 2 ^ 7 * 2 ^ (64 - 7 * (i + 1))"
        by (metis power_add)
      then show ?thesis
        by (simp only: trans [OF unat_drop_bit_eq drop_bit_eq_div] less_mult_imp_div_less mult.commute)
    qed
    have IH: "peek_varint_loop (i + 1) r' (7 * (i + 1)) (varint (drop_bit 7 v) @ rest)
        = Some (r' OR push_bit (7 * (i + 1)) (drop_bit 7 v), (i + 1) + length (varint (drop_bit 7 v)))" for r'
      using less.IH [OF drop_bit_7_less [OF more(1)] _ small] i8 by simp
    have join: "(r OR push_bit (7 * i) (v AND 0x7F)) OR push_bit (7 * (i + 1)) (drop_bit 7 v)
        = r OR push_bit (7 * i) v"
      using low_high_join [of "7 * i" v] by (simp add: ac_simps)
    have more2: "varint v @ rest = (ucast (v AND 0x7F) OR 0x80) # (varint (drop_bit 7 v) @ rest)"
      by (simp add: more(2))
    have "peek_varint_loop i r (7 * i) (varint v @ rest)
        = peek_varint_loop (i + 1) (r OR push_bit (7 * i) (v AND 0x7F)) (7 * (i + 1)) (varint (drop_bit 7 v) @ rest)"
      using i8 unfolding more2 by (simp add: MAX_VARINT_BYTES_def cont_byte_set low_bits_cont Let_def add.commute [of 7])
    also have "\<dots> = Some (r OR push_bit (7 * i) v, i + length (varint v))"
      by (simp only: IH join more(2)) simp
    finally show ?thesis .
  qed
qed

lemma peek_varint_varint: "peek_varint (varint v @ rest) = Some (v, length (varint v))"
  using peek_varint_loop_varint [of 0 v 0 rest] unsigned_less [of v, where ?'a = nat] by (simp add: peek_varint_def)

section \<open>Bounds and incomplete varints\<close>

definition continues :: "u8 \<Rightarrow> bool" where
  "continues b \<longleftrightarrow> b AND 0x80 \<noteq> 0"

lemma peek_varint_loop_None:
  assumes "\<forall>b \<in> set (take (10 - i) xs). continues b" and "i < 10"
  shows "peek_varint_loop i r (7 * i) xs = None"
  using assms
proof (induction xs arbitrary: i r)
  case Nil
  show ?case by simp
next
  case (Cons b xs)
  have t: "take (10 - i) (b # xs) = b # take (10 - Suc i) xs"
    using Cons.prems(2) by (simp add: take_Cons')
  with Cons.prems have b: "b AND 0x80 \<noteq> 0"
    by (simp add: continues_def)
  show ?case
  proof (cases "i = 9")
    case True
    with b show ?thesis by (simp add: MAX_VARINT_BYTES_def Let_def)
  next
    case False
    with Cons.prems t have "\<forall>c \<in> set (take (10 - Suc i) xs). continues c" and "Suc i < 10"
      by auto
    then have "peek_varint_loop (Suc i) r' (7 * Suc i) xs = None" for r'
      by (rule Cons.IH)
    with b False Cons.prems(2) show ?thesis
      by (simp add: MAX_VARINT_BYTES_def Let_def add.commute [of 7])
  qed
qed

lemma peek_varint_None: "\<forall>b \<in> set (take 10 xs). continues b \<Longrightarrow> peek_varint xs = None"
  using peek_varint_loop_None [of 0 xs 0] by (simp add: peek_varint_def)

lemma varint_prefix_continues:
  assumes "strict_prefix xs (varint v)" and "b \<in> set xs"
  shows "continues b"
  using assms
proof (induction v arbitrary: xs rule: measure_induct_rule [of unat])
  case (less v)
  show ?case
  proof (cases v rule: varint_cases)
    case last
    with less.prems show ?thesis by (cases xs) auto
  next
    case more
    with less.prems obtain ys where "xs = (ucast (v AND 0x7F) OR 0x80) # ys"
      and "strict_prefix ys (varint (drop_bit 7 v))"
      by (cases xs) auto
    with less.IH [OF drop_bit_7_less [OF more(1)]] less.prems(2) show ?thesis
      using cont_byte_set by (auto simp: continues_def)
  qed
qed

lemma peek_varint_prefix: "strict_prefix xs (varint v) \<Longrightarrow> peek_varint xs = None"
  by (rule peek_varint_None) (auto dest: varint_prefix_continues in_set_takeD)

lemma peek_varint_loop_bounds:
  assumes "peek_varint_loop i r s xs = Some (v, n)"
  shows "i < n \<and> n \<le> i + length xs \<and> n \<le> 10"
  using assms
proof (induction i r s xs rule: peek_varint_loop.induct)
  case (2 i r s b xs)
  then show ?case
    by (fastforce simp: MAX_VARINT_BYTES_def Let_def split: if_splits)
qed simp

lemma peek_varint_bounds: "peek_varint xs = Some (v, n) \<Longrightarrow> 0 < n \<and> n \<le> length xs \<and> n \<le> 10"
  using peek_varint_loop_bounds [of 0 0 0 xs v n] by (simp add: peek_varint_def)

lemma length_varint: "0 < length (varint v) \<and> length (varint v) \<le> 10"
  using peek_varint_bounds [OF peek_varint_varint [of v "[]"]] by simp

section \<open>Frames: round trip, waiting, safety\<close>

abbreviation frame_bytes :: "frame \<Rightarrow> u8 list" where
  "frame_bytes f \<equiv> encode f []"

definition header_bytes :: "frame \<Rightarrow> u8 list" where
  "header_bytes f = 0 # varint (of_nat (length (snd f))) @ varint (ucast (fst f))"

definition frame_ok :: "frame \<Rightarrow> bool" where
  "frame_ok f \<longleftrightarrow> length (snd f) \<le> MAX_FRAME_PAYLOAD"

lemma encode_append: "encode f dst = dst @ header_bytes f @ snd f"
  by (cases f) (simp add: encode_def header_bytes_def write_varint_append [of _ "_ @ _"])

lemma frame_ok_unat: "frame_ok f \<Longrightarrow> unat (of_nat (length (snd f)) :: u64) = length (snd f)"
  by (simp add: frame_ok_def MAX_FRAME_PAYLOAD_def unsigned_of_nat take_bit_nat_eq_self)

lemma ucast_back: "ucast (ucast (t :: u32) :: u64) = t"
  by (rule bit_word_eqI) (simp add: bit_simps)

lemma decode_encode:
  assumes "frame_ok f"
  shows "decode (frame_bytes f @ rest) = (Inr (Some f), rest)"
proof -
  obtain t p where f: "f = (t, p)" by (cases f)
  let ?l = "of_nat (length p) :: u64" and ?t = "ucast t :: u64"
  let ?L = "varint ?l" and ?T = "varint ?t"
  have l: "unat ?l = length p" using frame_ok_unat [OF assms] f by simp
  have ok: "length p \<le> MAX_FRAME_PAYLOAD" using assms f by (simp add: frame_ok_def)
  have bytes: "frame_bytes f @ rest = 0 # (?L @ (?T @ p @ rest))"
    by (simp add: encode_append header_bytes_def f)
  have p1: "peek_varint (?L @ (?T @ p @ rest)) = Some (?l, length ?L)"
    by (rule peek_varint_varint)
  have d: "drop (1 + length ?L) (0 # (?L @ (?T @ p @ rest))) = ?T @ (p @ rest)"
    by simp
  have p2: "peek_varint (?T @ (p @ rest)) = Some (?t, length ?T)"
    by (rule peek_varint_varint)
  have d2: "drop (1 + length ?L + length ?T) (0 # (?L @ (?T @ p @ rest))) = p @ rest"
    by simp
  show ?thesis unfolding bytes decode_def list.case p1 option.case prod.case Let_def d p2 d2 l
    using ok by (simp add: ucast_back f)
qed

lemma decode_empty [simp]: "decode [] = (Inr None, [])"
  by (simp add: decode_def)

text \<open>Whatever the result, a buffer the decoder does not take a frame from is unchanged.\<close>

lemma decode_unchanged: "decode src = (r, rest) \<Longrightarrow> \<nexists>f. r = Inr (Some f) \<Longrightarrow> rest = src"
  by (auto simp: decode_def Let_def split: list.splits if_splits option.splits prod.splits)

lemma decode_Some:
  assumes "decode src = (Inr (Some (t, p)), rest)"
  obtains h where "src = h @ p @ rest" and "3 \<le> length h" and "length h \<le> 21"
    and "length p \<le> MAX_FRAME_PAYLOAD" and "hd h = 0"
proof -
  from assms obtain xs l m t' n where src: "src = 0 # xs"
    and p1: "peek_varint xs = Some (l, m)" and l: "unat l \<le> MAX_FRAME_PAYLOAD"
    and p2: "peek_varint (drop m xs) = Some (t', n)"
    and len: "1 + m + n + unat l \<le> length src"
    and p: "p = take (unat l) (drop (1 + m + n) src)"
    and rest: "rest = drop (unat l) (drop (1 + m + n) src)"
    by (auto simp: decode_def Let_def split: list.splits if_splits option.splits prod.splits)
  have m: "0 < m \<and> m \<le> 10" and n: "0 < n \<and> n \<le> 10"
    using peek_varint_bounds [OF p1] peek_varint_bounds [OF p2] by auto
  show ?thesis
  proof (rule that [of "take (1 + m + n) src"])
    show "src = take (1 + m + n) src @ p @ rest"
      unfolding p rest by (simp only: append_take_drop_id)
    show "3 \<le> length (take (1 + m + n) src)" and "length (take (1 + m + n) src) \<le> 21"
      using len m n by auto
    show "length p \<le> MAX_FRAME_PAYLOAD" using l p by simp
    show "hd (take (1 + m + n) src) = 0" by (simp add: src)
  qed
qed

lemma decode_prefix:
  assumes "frame_ok f" and "strict_prefix xs (frame_bytes f)"
  shows "decode xs = (Inr None, xs)"
proof -
  obtain t p where f: "f = (t, p)" by (cases f)
  let ?l = "of_nat (length p) :: u64" and ?t = "ucast t :: u64"
  let ?L = "varint ?l" and ?T = "varint ?t"
  have l: "unat ?l = length p" using frame_ok_unat [OF assms(1)] f by simp
  have ok: "length p \<le> MAX_FRAME_PAYLOAD" using assms(1) f by (simp add: frame_ok_def)
  have bytes: "frame_bytes f = 0 # (?L @ (?T @ p))"
    by (simp add: encode_append header_bytes_def f)
  show ?thesis
  proof (cases xs)
    case Nil
    then show ?thesis by simp
  next
    case (Cons b ys)
    with assms(2) bytes have xs: "xs = 0 # ys" and ys: "strict_prefix ys (?L @ (?T @ p))"
      by auto
    from strict_prefix_append_cases [OF ys] show ?thesis
    proof
      assume "strict_prefix ys ?L"
      then have "peek_varint ys = None" by (rule peek_varint_prefix)
      then show ?thesis by (simp add: decode_def xs)
    next
      assume "\<exists>zs. ys = ?L @ zs \<and> strict_prefix zs (?T @ p)"
      then obtain zs where ys: "ys = ?L @ zs" and zs: "strict_prefix zs (?T @ p)" by blast
      have p1: "peek_varint ys = Some (?l, length ?L)"
        unfolding ys by (rule peek_varint_varint)
      from strict_prefix_append_cases [OF zs] show ?thesis
      proof
        assume "strict_prefix zs ?T"
        then have "peek_varint zs = None" by (rule peek_varint_prefix)
        then show ?thesis using ok l by (simp add: decode_def xs p1 Let_def) (simp add: ys)
      next
        assume "\<exists>qs. zs = ?T @ qs \<and> strict_prefix qs p"
        then obtain qs where zs: "zs = ?T @ qs" and qs: "length qs < length p"
          by (auto dest: prefix_length_less)
        have p2: "peek_varint zs = Some (?t, length ?T)"
          unfolding zs by (rule peek_varint_varint)
        have d: "drop (length ?L) ys = zs" by (simp add: ys)
        have "length xs < 1 + length ?L + length ?T + length p"
          using qs by (simp add: xs ys zs)
        then show ?thesis using ok l by (simp add: decode_def xs p1 Let_def d p2)
      qed
    qed
  qed
qed

section \<open>The codec as a frame codec\<close>

interpretation esphome: frame_codec frame_bytes decode frame_ok
proof unfold_locales
  show "frame_bytes f \<noteq> []" if "frame_ok f" for f
    by (simp add: encode_append header_bytes_def)
qed (simp_all add: decode_encode decode_prefix)

section \<open>A length field that never ends\<close>

text \<open>A zero byte followed by nothing but continuation bytes, at least as far as the tenth.\<close>

definition overlong :: "u8 list \<Rightarrow> bool" where
  "overlong src \<longleftrightarrow> src = [] \<or> (hd src = 0 \<and> (\<forall>b \<in> set (take 10 (tl src)). continues b))"

lemma decode_overlong: "overlong src \<Longrightarrow> decode src = (Inr None, src)"
  by (cases src) (auto simp: overlong_def decode_def peek_varint_None)

lemma overlong_prefix: "overlong (xs @ ys) \<Longrightarrow> overlong xs"
  by (cases xs) (auto simp: overlong_def)

lemma feed_all_overlong:
  assumes "overlong (buf @ concat cs)"
  shows "feed_all decode cs (out, None, buf) = (out, None, buf @ concat cs)"
  using assms
proof (induction cs arbitrary: buf)
  case (Cons c cs)
  have "overlong (buf @ c)" using Cons.prems overlong_prefix [of "buf @ c" "concat cs"] by simp
  then have "feed decode c (out, None, buf) = (out, None, buf @ c)"
    by (simp add: feed_def decode_overlong)
  with Cons show ?case by simp
qed simp

section \<open>Properties\<close>

text \<open>The frame reader returns exactly the frames that were sent, in order and with an
  empty buffer, however the network cut the byte stream into chunks.\<close>

theorem reader_chunk_independent:
  assumes "\<forall>f \<in> set fs. frame_ok f" and "concat cs = concat (map frame_bytes fs)"
  shows "feed_all decode cs ([], None, []) = (fs, None, [])"
  using esphome.feed_all_stream [OF assms(1), of "[]" cs "[]"] assms(2)
  by (simp add: esphome.pending_def)

theorem reader_chunk_independent_witness:
  "feed_all decode [[0, 2], [1, 5], [6, 0, 0, 7]] ([], None, []) = ([(1, [5, 6]), (7, [])], None, [])"
  by (rule reader_chunk_independent)
     (simp_all add: frame_ok_def MAX_FRAME_PAYLOAD_def encode_def write_varint.simps)

text \<open>C35. The decoder inverts the encoder: a frame whose payload is at most 64 KiB is read
  back with its type and payload, and the bytes behind it are left in the buffer.\<close>

theorem codec_roundtrip:
  assumes "length payload \<le> MAX_FRAME_PAYLOAD"
  shows "decode (encode (t, payload) [] @ rest) = (Inr (Some (t, payload)), rest)"
  using assms by (simp add: decode_encode frame_ok_def)

theorem codec_roundtrip_witness:
  "decode (encode (300, [1, 2, 3]) [] @ [9]) = (Inr (Some (300, [1, 2, 3])), [9])"
  by (rule codec_roundtrip) (simp add: MAX_FRAME_PAYLOAD_def)

text \<open>What a decoded frame can be: on any input a frame is a slice of the buffer behind a
  header of 3 to 21 bytes with a payload of at most 64 KiB, what remains is the rest of the
  buffer, and every other result (incomplete, bad preamble, too large) consumes nothing.\<close>

theorem decode_consumes_frame:
  assumes "decode src = (r, rest)"
  shows "case r of
      Inr (Some (t, payload)) \<Rightarrow>
        \<exists>h. src = h @ payload @ rest \<and> 3 \<le> length h \<and> length h \<le> 21 \<and> hd h = 0
            \<and> length payload \<le> MAX_FRAME_PAYLOAD
    | Inr None \<Rightarrow> rest = src
    | Inl (InvalidPreamble b) \<Rightarrow> rest = src \<and> b = hd src \<and> b \<noteq> 0
    | Inl (PayloadTooLarge n) \<Rightarrow> rest = src \<and> MAX_FRAME_PAYLOAD < unat n"
proof (cases "\<exists>t payload. r = Inr (Some (t, payload))")
  case True
  then obtain t payload where r: "r = Inr (Some (t, payload))" by blast
  show ?thesis using assms unfolding r by (auto elim!: decode_Some)
next
  case False
  with assms show ?thesis
    by (auto simp: decode_def Let_def split: list.splits if_splits option.splits prod.splits)
qed

theorem decode_consumes_frame_witness:
  "\<exists>h. [0, 1, 5, 9, 7] = h @ [9 :: u8] @ [7] \<and> 3 \<le> length h \<and> length h \<le> 21 \<and> hd h = 0
       \<and> length [9 :: u8] \<le> MAX_FRAME_PAYLOAD"
proof -
  have "decode [0, 1, 5, 9, 7] = (Inr (Some (5, [9])), [7])"
    by (simp add: decode_def peek_varint_def MAX_VARINT_BYTES_def MAX_FRAME_PAYLOAD_def)
  from decode_consumes_frame [OF this] show ?thesis by simp
qed

text \<open>A varint of more than ten bytes is not rejected: once the length field of a frame
  consists of ten continuation bytes the reader reports no error, whatever arrives next,
  and keeps every byte in its buffer.\<close>

theorem overlong_length_stalls:
  assumes "length xs = 10" and "\<forall>b \<in> set xs. continues b" and "concat cs = 0 # xs @ ys"
  shows "feed_all decode cs ([], None, []) = ([], None, 0 # xs @ ys)"
proof -
  have "overlong ([] @ concat cs)" using assms by (simp add: overlong_def)
  from feed_all_overlong [OF this] assms(3) show ?thesis by simp
qed

theorem overlong_length_stalls_witness:
  "feed_all decode [0 # replicate 10 255, [1, 2]] ([], None, []) = ([], None, 0 # replicate 10 255 @ [1, 2])"
  by (rule overlong_length_stalls) (simp_all add: continues_def)

end
