(* ===== verification/F64.thy ===== *)
theory F64
  imports Prelude
begin

text \<open>
  Rust's \<open>f64\<close> as the configuration compiler uses it: values that come out of JSON, the
  conversion of an integer (\<open>as_f64\<close>), comparison and \<open>Display\<close>. A finite value is its sign
  and its magnitude in units of \<open>2 ^ -1074\<close>, the smallest subnormal, so every finite
  double is an integer here and comparison is integer comparison.
\<close>

datatype f64 = F_NaN | F_Inf bool | F_Fin bool nat

definition f64_unit :: nat where
  "f64_unit = 2 ^ 1074"

definition f64_limit :: nat where
  "f64_limit = 2 ^ 2098"

text \<open>Length of the binary numeral.\<close>

fun bit_len :: "nat \<Rightarrow> nat" where
  "bit_len n = (if n = 0 then 0 else Suc (bit_len (n div 2)))"

declare bit_len.simps [simp del]

text \<open>Round a quotient to an integer, ties to the even neighbour.\<close>

definition div_even :: "nat \<Rightarrow> nat \<Rightarrow> nat" where
  "div_even a b =
     (let q = a div b; r = a mod b
      in if b < 2 * r \<or> (2 * r = b \<and> odd q) then q + 1 else q)"

text \<open>The 53-bit significand nearest to an exact magnitude \<open>a / b\<close> (in units).\<close>

definition round_mag :: "nat \<Rightarrow> nat \<Rightarrow> nat" where
  "round_mag a b =
     (let k = bit_len (a div b) - 53 in div_even a (b * 2 ^ k) * 2 ^ k)"

definition f64_of_ratio :: "bool \<Rightarrow> nat \<Rightarrow> nat \<Rightarrow> f64" where
  "f64_of_ratio neg a b =
     (let m = round_mag (a * f64_unit) b
      in if m \<ge> f64_limit then F_Inf neg else F_Fin neg m)"

definition f64_of_nat :: "nat \<Rightarrow> f64" where
  "f64_of_nat n = f64_of_ratio False n 1"

definition f64_of_int :: "int \<Rightarrow> f64" where
  "f64_of_int i = f64_of_ratio (i < 0) (nat \<bar>i\<bar>) 1"

definition f64_signed :: "bool \<Rightarrow> nat \<Rightarrow> int" where
  "f64_signed neg m = (if neg then - int m else int m)"

text \<open>IEEE comparison: every comparison with a NaN is false.\<close>

fun f64_lt :: "f64 \<Rightarrow> f64 \<Rightarrow> bool" where
  "f64_lt (F_Fin s m) (F_Fin t n) = (f64_signed s m < f64_signed t n)"
| "f64_lt (F_Fin _ _) (F_Inf t) = (\<not> t)"
| "f64_lt (F_Inf s) (F_Fin _ _) = s"
| "f64_lt (F_Inf s) (F_Inf t) = (s \<and> \<not> t)"
| "f64_lt _ _ = False"

fun f64_eq :: "f64 \<Rightarrow> f64 \<Rightarrow> bool" where
  "f64_eq (F_Fin s m) (F_Fin t n) = (f64_signed s m = f64_signed t n)"
| "f64_eq (F_Inf s) (F_Inf t) = (s = t)"
| "f64_eq _ _ = False"

definition f64_le :: "f64 \<Rightarrow> f64 \<Rightarrow> bool" where
  "f64_le x y \<longleftrightarrow> f64_lt x y \<or> f64_eq x y"

section \<open>Arithmetic\<close>

text \<open>
  The operations of the command encoders: the quotient and the product of two doubles are
  the exact ratio rounded once, \<open>round\<close> goes to the nearest integer with ties away from
  zero, and \<open>as u8\<close> truncates, saturates and maps NaN to zero.
\<close>

fun f64_div :: "f64 \<Rightarrow> f64 \<Rightarrow> f64" where
  "f64_div (F_Fin s m) (F_Fin t n) =
     (if n = 0 then (if m = 0 then F_NaN else F_Inf (s \<noteq> t)) else f64_of_ratio (s \<noteq> t) m n)"
| "f64_div (F_Fin s m) (F_Inf t) = F_Fin (s \<noteq> t) 0"
| "f64_div (F_Inf s) (F_Fin t n) = F_Inf (s \<noteq> t)"
| "f64_div _ _ = F_NaN"

fun f64_mul :: "f64 \<Rightarrow> f64 \<Rightarrow> f64" where
  "f64_mul (F_Fin s m) (F_Fin t n) = f64_of_ratio (s \<noteq> t) (m * n) (f64_unit * f64_unit)"
| "f64_mul (F_Fin s m) (F_Inf t) = (if m = 0 then F_NaN else F_Inf (s \<noteq> t))"
| "f64_mul (F_Inf s) (F_Fin t n) = (if n = 0 then F_NaN else F_Inf (s \<noteq> t))"
| "f64_mul (F_Inf s) (F_Inf t) = F_Inf (s \<noteq> t)"
| "f64_mul _ _ = F_NaN"

fun f64_round :: "f64 \<Rightarrow> f64" where
  "f64_round (F_Fin s m) =
     (let q = m div f64_unit; r = m mod f64_unit
      in F_Fin s ((if f64_unit \<le> 2 * r then q + 1 else q) * f64_unit))"
| "f64_round x = x"

fun f64_as_u8 :: "f64 \<Rightarrow> u8" where
  "f64_as_u8 F_NaN = 0"
| "f64_as_u8 (F_Inf s) = (if s then 0 else 255)"
| "f64_as_u8 (F_Fin s m) = (if s then 0 else of_nat (min 255 (m div f64_unit)))"

section \<open>Single precision\<close>

text \<open>
  An \<open>f32\<close> is represented by the double of the same value. Rounding keeps 24 significant
  bits, never below the smallest subnormal \<open>2 ^ -149\<close>, that is \<open>2 ^ 925\<close> units, and
  magnitudes of \<open>2 ^ 128\<close> and more are infinite.
\<close>

type_synonym f32 = f64

definition round_mag32 :: "nat \<Rightarrow> nat \<Rightarrow> nat" where
  "round_mag32 a b =
     (let k = max 925 (bit_len (a div b) - 24) in div_even a (b * 2 ^ k) * 2 ^ k)"

definition f32_limit :: nat where
  "f32_limit = 2 ^ 1202"

definition f32_of_ratio :: "bool \<Rightarrow> nat \<Rightarrow> nat \<Rightarrow> f32" where
  "f32_of_ratio neg a b =
     (let m = round_mag32 (a * f64_unit) b
      in if m \<ge> f32_limit then F_Inf neg else F_Fin neg m)"

fun f64_as_f32 :: "f64 \<Rightarrow> f32" where
  "f64_as_f32 (F_Fin s m) = f32_of_ratio s m f64_unit"
| "f64_as_f32 x = x"

text \<open>Multiplication by and division by a positive integer constant.\<close>

fun f32_times :: "f32 \<Rightarrow> nat \<Rightarrow> f32" where
  "f32_times (F_Fin s m) n = f32_of_ratio s (m * n) f64_unit"
| "f32_times x n = x"

fun f32_over :: "f32 \<Rightarrow> nat \<Rightarrow> f32" where
  "f32_over (F_Fin s m) n = f32_of_ratio s m (f64_unit * n)"
| "f32_over x n = x"

definition f32_of_u8 :: "u8 \<Rightarrow> f32" where
  "f32_of_u8 b = F_Fin False (unat b * f64_unit)"

section \<open>Display\<close>

text \<open>
  \<open>Display\<close> prints the shortest decimal that reads back as the same double, in plain
  positional notation. A decimal is \<open>d * 10 ^ k\<close>; \<open>reads_as\<close> is the rounding of the
  decimal back to a magnitude.
\<close>

definition dec_ratio :: "nat \<Rightarrow> int \<Rightarrow> nat \<times> nat" where
  "dec_ratio d k = (if 0 \<le> k then (d * 10 ^ nat k, 1) else (d, 10 ^ nat (- k)))"

definition reads_as :: "nat \<Rightarrow> int \<Rightarrow> nat \<Rightarrow> bool" where
  "reads_as d k m = (case dec_ratio d k of (a, b) \<Rightarrow> round_mag (a * f64_unit) b = m)"

text \<open>The magnitude \<open>m\<close> divided by \<open>10 ^ k\<close>, as a ratio.\<close>

definition scaled :: "nat \<Rightarrow> int \<Rightarrow> nat \<times> nat" where
  "scaled m k = (if 0 \<le> k then (m, f64_unit * 10 ^ nat k) else (m * 10 ^ nat (- k), f64_unit))"

definition candidate :: "nat \<Rightarrow> int \<Rightarrow> nat option" where
  "candidate m k =
     (case scaled m k of (a, b) \<Rightarrow>
        let lo = a div b; r = a mod b;
            okl = reads_as lo k m; okh = reads_as (lo + 1) k m
        in if okl \<and> okh then Some (if b < 2 * r \<or> (2 * r = b \<and> odd lo) then lo + 1 else lo)
           else if okl then Some lo else if okh then Some (lo + 1) else None)"

text \<open>Exponents are tried from the coarsest down; 309 is above every double.\<close>

fun shortest_from :: "nat \<Rightarrow> nat \<Rightarrow> int \<Rightarrow> nat \<times> int" where
  "shortest_from 0 m k = (0, 0)"
| "shortest_from (Suc fuel) m k =
     (case candidate m k of
        Some d \<Rightarrow> if d = 0 then shortest_from fuel m (k - 1) else (d, k)
      | None \<Rightarrow> shortest_from fuel m (k - 1))"

definition shortest :: "nat \<Rightarrow> nat \<times> int" where
  "shortest m = shortest_from 700 m 309"

definition pad_zeros :: "nat \<Rightarrow> string" where
  "pad_zeros n = replicate n (CHR ''0'')"

definition show_dec :: "nat \<Rightarrow> int \<Rightarrow> string" where
  "show_dec d k =
     (let ds = show_nat d in
      if 0 \<le> k then ds @ pad_zeros (nat k)
      else let f = nat (- k) in
        if f < length ds
        then take (length ds - f) ds @ ''.'' @ drop (length ds - f) ds
        else ''0.'' @ pad_zeros (f - length ds) @ ds)"

fun show_f64 :: "f64 \<Rightarrow> string" where
  "show_f64 F_NaN = ''NaN''"
| "show_f64 (F_Inf s) = (if s then ''-inf'' else ''inf'')"
| "show_f64 (F_Fin s m) =
     (if s then ''-'' else []) @
     (if m = 0 then ''0'' else case shortest m of (d, k) \<Rightarrow> show_dec d k)"

section \<open>Difference and parsing\<close>

text \<open>The exact sum of two finite values rounded once; a zero sum is negative only when both
  operands are.\<close>

fun f64_neg :: "f64 \<Rightarrow> f64" where
  "f64_neg (F_Fin s m) = F_Fin (\<not> s) m"
| "f64_neg (F_Inf s) = F_Inf (\<not> s)"
| "f64_neg F_NaN = F_NaN"

fun f64_add :: "f64 \<Rightarrow> f64 \<Rightarrow> f64" where
  "f64_add (F_Fin s m) (F_Fin t n) =
     (let d = f64_signed s m + f64_signed t n
      in if d = 0 then F_Fin (s \<and> t) 0 else f64_of_ratio (d < 0) (nat \<bar>d\<bar>) f64_unit)"
| "f64_add (F_Fin s m) (F_Inf t) = F_Inf t"
| "f64_add (F_Inf s) (F_Fin t n) = F_Inf s"
| "f64_add (F_Inf s) (F_Inf t) = (if s = t then F_Inf s else F_NaN)"
| "f64_add _ _ = F_NaN"

definition f64_sub :: "f64 \<Rightarrow> f64 \<Rightarrow> f64" where
  "f64_sub x y = f64_add x (f64_neg y)"

fun f64_abs :: "f64 \<Rightarrow> f64" where
  "f64_abs (F_Fin s m) = F_Fin False m"
| "f64_abs (F_Inf s) = F_Inf False"
| "f64_abs F_NaN = F_NaN"

definition f64_epsilon :: f64 where
  "f64_epsilon = F_Fin False (2 ^ 1022)"

text \<open>
  \<open>str::parse::<f64>\<close>: an optional sign, then \<open>inf\<close>, \<open>infinity\<close> or \<open>nan\<close> in any case, or digits
  with an optional point and at least one digit, and an optional exponent.
\<close>

definition is_digit :: "char \<Rightarrow> bool" where
  "is_digit c \<longleftrightarrow> 48 \<le> (of_char c :: nat) \<and> (of_char c :: nat) \<le> 57"

definition digits_value :: "string \<Rightarrow> nat" where
  "digits_value ds = fold (\<lambda>c n. 10 * n + (of_char c - 48)) ds 0"

definition parse_sign :: "string \<Rightarrow> bool \<times> string" where
  "parse_sign s =
     (case s of
        c # cs \<Rightarrow> if c = CHR ''-'' then (True, cs) else if c = CHR ''+'' then (False, cs) else (False, s)
      | [] \<Rightarrow> (False, s))"

definition parse_exponent :: "string \<Rightarrow> int option" where
  "parse_exponent s =
     (case s of
        [] \<Rightarrow> Some 0
      | c # cs \<Rightarrow>
          if c = CHR ''e'' \<or> c = CHR ''E'' then
            (case parse_sign cs of
               (neg, ds) \<Rightarrow> if ds \<noteq> [] \<and> list_all is_digit ds
                 then Some (if neg then - int (digits_value ds) else int (digits_value ds)) else None)
          else None)"

definition parse_decimal :: "bool \<Rightarrow> string \<Rightarrow> f64 option" where
  "parse_decimal neg s =
     (let whole = takeWhile is_digit s; rest = dropWhile is_digit s;
          (frac, tail) = (case rest of
             c # cs \<Rightarrow> if c = CHR ''.'' then (takeWhile is_digit cs, dropWhile is_digit cs) else ([], rest)
           | [] \<Rightarrow> ([], rest))
      in if whole = [] \<and> frac = [] then None
         else map_option (\<lambda>e. case dec_ratio (digits_value (whole @ frac)) (e - int (length frac)) of
                (a, b) \<Rightarrow> f64_of_ratio neg a b)
              (parse_exponent tail))"

definition parse_f64 :: "string \<Rightarrow> f64 option" where
  "parse_f64 s =
     (case parse_sign s of
        (neg, body) \<Rightarrow>
          (let word = map (\<lambda>c. if 65 \<le> (of_char c :: nat) \<and> (of_char c :: nat) \<le> 90
                               then char_of ((of_char c :: nat) + 32) else c) body
           in if word = ''inf'' \<or> word = ''infinity'' then Some (F_Inf neg)
              else if word = ''nan'' then Some F_NaN
              else parse_decimal neg body))"

end
