(* ===== verification/Json.thy ===== *)
theory Json
  imports F64
begin

text \<open>
  \<open>serde_json::Value\<close>, the data every configuration is made of. Objects are \<open>BTreeMap\<close>s
  (the workspace does not enable \<open>preserve_order\<close>): association lists whose keys increase,
  with \<open>obj_insert\<close> as the map's insertion. Numbers keep serde's three representations.

  The lemmas show that insertion behaves as a map update and keeps the keys increasing, so
  that an object of the model is determined by its lookups.
\<close>

section \<open>Values\<close>

datatype jnum = PosInt u64 | NegInt u64 | Float f64

datatype json =
    JNull
  | JBool bool
  | JNum jnum
  | JStr string
  | JArr "json list"
  | JObj "(string \<times> json) list"

fun as_str :: "json \<Rightarrow> string option" where
  "as_str (JStr s) = Some s"
| "as_str _ = None"

fun as_array :: "json \<Rightarrow> json list option" where
  "as_array (JArr xs) = Some xs"
| "as_array _ = None"

fun as_object :: "json \<Rightarrow> (string \<times> json) list option" where
  "as_object (JObj m) = Some m"
| "as_object _ = None"

definition is_object :: "json \<Rightarrow> bool" where
  "is_object v \<longleftrightarrow> as_object v \<noteq> None"

text \<open>\<open>as_u64\<close>, \<open>as_i64\<close> and \<open>as_f64\<close>: a positive integer above \<open>i64::MAX\<close> is no \<open>i64\<close>,
  a float is never an integer, and every number is an \<open>f64\<close>.\<close>

fun as_u64 :: "json \<Rightarrow> nat option" where
  "as_u64 (JNum (PosInt n)) = Some (unat n)"
| "as_u64 _ = None"

fun as_i64 :: "json \<Rightarrow> int option" where
  "as_i64 (JNum (PosInt n)) = (if unat n < 2 ^ 63 then Some (uint n) else None)"
| "as_i64 (JNum (NegInt n)) = Some (sint n)"
| "as_i64 _ = None"

fun as_f64 :: "json \<Rightarrow> f64 option" where
  "as_f64 (JNum (PosInt n)) = Some (f64_of_nat (unat n))"
| "as_f64 (JNum (NegInt n)) = Some (f64_of_int (sint n))"
| "as_f64 (JNum (Float x)) = Some x"
| "as_f64 _ = None"

text \<open>\<open>Value::get\<close> with a string key: \<open>None\<close> on anything but an object.\<close>

definition json_get :: "string \<Rightarrow> json \<Rightarrow> json option" where
  "json_get k v = (case v of JObj m \<Rightarrow> map_of m k | _ \<Rightarrow> None)"

definition get_str :: "string \<Rightarrow> json \<Rightarrow> string option" where
  "get_str k v = Option.bind (json_get k v) as_str"

fun obj_insert :: "string \<Rightarrow> json \<Rightarrow> (string \<times> json) list \<Rightarrow> (string \<times> json) list" where
  "obj_insert k v [] = [(k, v)]"
| "obj_insert k v ((l, w) # m) =
     (if k = l then (k, v) # m
      else if k < l then (k, v) # (l, w) # m
      else (l, w) # obj_insert k v m)"

section \<open>Well-formed values\<close>

definition sorted_keys :: "(string \<times> 'v) list \<Rightarrow> bool" where
  "sorted_keys m \<longleftrightarrow> sorted_wrt (<) (map fst m)"

fun wf_json :: "json \<Rightarrow> bool" where
  "wf_json (JArr xs) = list_all wf_json xs"
| "wf_json (JObj m) = (sorted_keys m \<and> list_all (\<lambda>p. wf_json (snd p)) m)"
| "wf_json _ = True"

lemma sorted_keys_Nil [simp]: "sorted_keys []"
  by (simp add: sorted_keys_def)

lemma sorted_keys_Cons [simp]:
  "sorted_keys ((k, v) # m) \<longleftrightarrow> (\<forall>l \<in> fst ` set m. k < l) \<and> sorted_keys m"
  by (auto simp: sorted_keys_def)

lemma sorted_keys_distinct: "sorted_keys m \<Longrightarrow> distinct (map fst m)"
  by (simp add: sorted_keys_def strict_sorted_iff)

lemma map_of_obj_insert: "map_of (obj_insert k v m) = (map_of m)(k \<mapsto> v)"
  by (induction m) auto

lemma keys_obj_insert: "fst ` set (obj_insert k v m) = insert k (fst ` set m)"
  using arg_cong [OF map_of_obj_insert, of dom k v m] by (simp add: dom_map_of_conv_image_fst)

lemma sorted_obj_insert: "sorted_keys m \<Longrightarrow> sorted_keys (obj_insert k v m)"
proof (induction m)
  case (Cons p m)
  obtain l w where p: "p = (l, w)" by (cases p)
  with Cons show ?case
    by (auto simp: keys_obj_insert intro: less_trans)
qed simp

lemma values_obj_insert: "snd ` set (obj_insert k v m) \<subseteq> insert v (snd ` set m)"
  by (induction k v m rule: obj_insert.induct) (auto split: if_splits)

lemma map_of_below: "\<forall>l \<in> fst ` set m. k < l \<Longrightarrow> map_of m k = None" for k :: string
  by (auto simp: map_of_eq_None_iff)

text \<open>An object is determined by its lookups.\<close>

lemma sorted_keys_ext:
  assumes "sorted_keys m" and "sorted_keys n" and "map_of m = map_of n"
  shows "m = n"
  using assms
proof (induction m arbitrary: n)
  case Nil
  then show ?case by (metis map_of_eq_empty_iff map_of.simps(1))
next
  case (Cons p m)
  obtain k v where p: "p = (k, v)" by (cases p)
  from Cons.prems(3) p have "map_of n k = Some v" by (metis map_of_Cons_code(2))
  then obtain l w n' where n: "n = (l, w) # n'" by (cases n) auto
  have keys: "fst ` set (p # m) = fst ` set n"
    using Cons.prems(3) by (metis dom_map_of_conv_image_fst)
  have "l \<in> fst ` set (p # m)" and "k \<in> fst ` set n" using keys n p by auto
  then have kl: "k = l" using Cons.prems(1,2) n p by (auto dest: less_trans)
  then have vw: "v = w" using Cons.prems(3) n p by (metis map_of_Cons_code(2) option.inject)
  have "map_of m j = map_of n' j" for j
  proof (cases "j = k")
    case True
    then show ?thesis using Cons.prems(1,2) n p kl by (simp add: map_of_below)
  next
    case False
    then show ?thesis using fun_cong [OF Cons.prems(3), of j] n p kl by simp
  qed
  then have "m = n'" using Cons.IH Cons.prems(1,2) n p by auto
  then show ?case using n p kl vw by simp
qed

lemma obj_insert_same:
  assumes "sorted_keys m" and "map_of m k = Some v"
  shows "obj_insert k v m = m"
  by (rule sorted_keys_ext) (use assms in \<open>auto simp: sorted_obj_insert map_of_obj_insert fun_upd_idem\<close>)

lemma wf_obj_insert:
  assumes "wf_json (JObj m)" and "wf_json v"
  shows "wf_json (JObj (obj_insert k v m))"
  using assms values_obj_insert [of k v m] by (fastforce simp: sorted_obj_insert list_all_iff)

lemma wf_map_of: "wf_json (JObj m) \<Longrightarrow> map_of m k = Some v \<Longrightarrow> wf_json v"
  by (auto simp: list_all_iff dest!: map_of_SomeD)

lemma is_object_iff: "is_object v \<longleftrightarrow> (\<exists>m. v = JObj m)"
  by (cases v) (simp_all add: is_object_def)

end
