(* ===== verification/ConfigTypes.thy ===== *)
theory ConfigTypes
  imports Json
begin

text \<open>
  The configuration as the user wrote it (\<open>raw.rs\<close>) and the diagnostics the stages of the
  validation pipeline produce (\<open>error.rs\<close>). A stage takes the configuration and returns the
  changed configuration together with the diagnostics it pushed, in order. A \<open>HashMap\<close> that
  is only looked up is a partial function.
\<close>

section \<open>Raw configuration\<close>

record component_config =
  cc_type :: string
  cc_platform :: "string option"
  cc_config :: json

record idf_component_ref =
  ic_name :: string
  ic_version :: "string option"
  ic_git :: "string option"
  ic_path :: "string option"

record framework_config =
  fc_type :: string
  fc_version :: "string option"
  fc_components :: "idf_component_ref list"
  fc_sdkconfig :: "string \<rightharpoonup> string"

record project_config =
  pj_name :: string
  pj_version :: string

record esphome_block =
  eb_name :: string
  eb_platform :: string
  eb_board :: string
  eb_friendly_name :: "string option"
  eb_framework :: "framework_config option"
  eb_includes :: "string list"
  eb_libraries :: "string list"
  eb_project :: "project_config option"
  eb_area :: "string option"
  eb_min_version :: "string option"
  eb_profile :: "string option"
  eb_solution :: "string option"
  eb_variant :: "string option"

record package_ref =
  pk_name :: string
  pk_url :: "string option"
  pk_file :: "string option"
  pk_git_ref :: "string option"
  pk_config_path :: "string option"

record raw_config =
  rc_esphome :: esphome_block
  rc_packages :: "package_ref list"
  rc_subs :: "string \<rightharpoonup> string"
  rc_components :: "component_config list"

type_synonym package_store = "string \<rightharpoonup> raw_config"

definition is_extend :: "component_config \<Rightarrow> bool" where
  "is_extend c \<longleftrightarrow> starts_with ''!extend'' (cc_type c)"

definition is_remove :: "component_config \<Rightarrow> bool" where
  "is_remove c \<longleftrightarrow> starts_with ''!remove'' (cc_type c)"

definition directive_target :: "component_config \<Rightarrow> string option" where
  "directive_target c =
     (if is_extend c \<or> is_remove c then nth_piece (CHR '' '') 1 (cc_type c) else None)"

section \<open>Diagnostics\<close>

datatype validation_stage =
    PackageMerge | Substitutions | ExtendRemove | VariantResolution | ExternalComponents
  | Preload | ComponentLoading | SchemaValidation | IdResolution | FinalValidation
  | PinConflicts | ExclusiveGroup | ProfileValidation | SecretFields

datatype severity = Info | Warning | Error

record validation_error =
  ve_path :: string
  ve_message :: string
  ve_severity :: severity
  ve_suggestion :: "string option"
  ve_stage :: validation_stage

definition verror :: "validation_stage \<Rightarrow> string \<Rightarrow> string \<Rightarrow> validation_error" where
  "verror st path msg = \<lparr>ve_path = path, ve_message = msg, ve_severity = Error,
     ve_suggestion = None, ve_stage = st\<rparr>"

definition vwarning :: "validation_stage \<Rightarrow> string \<Rightarrow> string \<Rightarrow> validation_error" where
  "vwarning st path msg = \<lparr>ve_path = path, ve_message = msg, ve_severity = Warning,
     ve_suggestion = None, ve_stage = st\<rparr>"

definition vinfo :: "validation_stage \<Rightarrow> string \<Rightarrow> string \<Rightarrow> validation_error" where
  "vinfo st path msg = \<lparr>ve_path = path, ve_message = msg, ve_severity = Info,
     ve_suggestion = None, ve_stage = st\<rparr>"

definition with_suggestion :: "string \<Rightarrow> validation_error \<Rightarrow> validation_error" where
  "with_suggestion s e = e\<lparr>ve_suggestion := Some s\<rparr>"

definition is_fatal :: "validation_error \<Rightarrow> bool" where
  "is_fatal e \<longleftrightarrow> ve_severity e = Error"

definition has_errors :: "validation_error list \<Rightarrow> bool" where
  "has_errors es \<longleftrightarrow> list_ex (\<lambda>e. ve_severity e = Error) es"

definition partition_errors :: "validation_error list \<Rightarrow> validation_error list \<times> validation_error list" where
  "partition_errors es = partition (\<lambda>e. ve_severity e = Error) es"

fun show_severity :: "severity \<Rightarrow> string" where
  "show_severity Info = ''Info''"
| "show_severity Warning = ''Warning''"
| "show_severity Error = ''Error''"

fun show_stage :: "validation_stage \<Rightarrow> string" where
  "show_stage PackageMerge = ''package_merge''"
| "show_stage Substitutions = ''substitutions''"
| "show_stage ExtendRemove = ''extend_remove''"
| "show_stage VariantResolution = ''variant_resolution''"
| "show_stage ExternalComponents = ''external_components''"
| "show_stage Preload = ''preload''"
| "show_stage ComponentLoading = ''component_loading''"
| "show_stage SchemaValidation = ''schema_validation''"
| "show_stage IdResolution = ''id_resolution''"
| "show_stage FinalValidation = ''final_validation''"
| "show_stage PinConflicts = ''pin_conflicts''"
| "show_stage ExclusiveGroup = ''exclusive_group''"
| "show_stage ProfileValidation = ''profile_validation''"
| "show_stage SecretFields = ''secret_fields''"

definition show_error :: "validation_error \<Rightarrow> string" where
  "show_error e = ''['' @ show_severity (ve_severity e) @ ''@'' @ show_stage (ve_stage e) @ ''] '' @
     ve_path e @ '': '' @ ve_message e @
     (case ve_suggestion e of Some s \<Rightarrow> '' (hint: '' @ s @ '')'' | None \<Rightarrow> [])"

named_theorems verr_simps \<open>the fields of a diagnostic built by a constructor\<close>

lemma verr_fields [verr_simps, simp]:
  "ve_severity (verror st p m) = Error" "ve_stage (verror st p m) = st"
  "ve_path (verror st p m) = p" "ve_message (verror st p m) = m"
  "ve_severity (vwarning st p m) = Warning" "ve_stage (vwarning st p m) = st"
  "ve_path (vwarning st p m) = p" "ve_message (vwarning st p m) = m"
  "ve_severity (vinfo st p m) = Info" "ve_stage (vinfo st p m) = st"
  "ve_severity (with_suggestion s e) = ve_severity e" "ve_stage (with_suggestion s e) = ve_stage e"
  "ve_path (with_suggestion s e) = ve_path e" "ve_message (with_suggestion s e) = ve_message e"
  by (simp_all add: verror_def vwarning_def vinfo_def with_suggestion_def)

lemma is_fatal_simps [verr_simps, simp]:
  "is_fatal (verror st p m)" "\<not> is_fatal (vwarning st p m)" "\<not> is_fatal (vinfo st p m)"
  "is_fatal (with_suggestion s e) = is_fatal e"
  by (simp_all add: is_fatal_def)

abbreviation no_fatal :: "validation_error list \<Rightarrow> bool" where
  "no_fatal es \<equiv> \<forall>e \<in> set es. \<not> is_fatal e"

lemma has_errors_iff: "has_errors es \<longleftrightarrow> \<not> no_fatal es"
  by (auto simp: has_errors_def is_fatal_def list_ex_iff)

section \<open>A small configuration, for concrete instances\<close>

definition minimal_esphome :: esphome_block where
  "minimal_esphome = \<lparr>eb_name = ''node'', eb_platform = ''esp32'', eb_board = ''esp32dev'',
     eb_friendly_name = None, eb_framework = None, eb_includes = [], eb_libraries = [], eb_project = None,
     eb_area = None, eb_min_version = None, eb_profile = None, eb_solution = None, eb_variant = None\<rparr>"

definition config_of :: "component_config list \<Rightarrow> raw_config" where
  "config_of comps = \<lparr>rc_esphome = minimal_esphome, rc_packages = [], rc_subs = Map.empty, rc_components = comps\<rparr>"

end
