(* ===== verification/StageMerge.thy ===== *)
theory StageMerge
  imports ConfigTypes
begin

text \<open>
  The stages that rewrite the configuration before anything is checked: package merge
  (stage 1, \<open>s1_package_merge.rs\<close>), substitutions (stage 2, \<open>s2_substitutions.rs\<close>) and the
  \<open>!extend\<close> and \<open>!remove\<close> directives (stage 3, \<open>s3_extend_remove.rs\<close>).

  The lemmas show: substitutions of the user survive every merge; placeholder resolution
  agrees with the meaning of a template; the deep merge is a pointwise override that
  keeps objects well formed and is idempotent; and which directives stage 3 consumes.
\<close>

section \<open>Stage 1: package merge\<close>

definition package_missing :: "package_ref \<Rightarrow> validation_error" where
  "package_missing pkg = verror PackageMerge (''packages.'' @ pk_name pkg)
     (case pk_url pkg of
        Some url \<Rightarrow> ''package '' @ quoted (pk_name pkg) @ '' from '' @ quoted url @ '' not found in package store''
      | None \<Rightarrow> ''package '' @ quoted (pk_name pkg) @ '' not found in package store'')"

fun merge_packages :: "package_store \<Rightarrow> package_ref list \<Rightarrow> raw_config \<Rightarrow> raw_config \<times> validation_error list" where
  "merge_packages store [] config = (config, [])"
| "merge_packages store (pkg # pkgs) config =
     (case store (pk_name pkg) of
        None \<Rightarrow>
          let (config', errors) = merge_packages store pkgs config
          in (config', package_missing pkg # errors)
      | Some pkg_config \<Rightarrow>
          merge_packages store pkgs
            (config\<lparr>rc_components := rc_components config @ rc_components pkg_config,
                    rc_subs := rc_subs pkg_config ++ rc_subs config\<rparr>))"

definition stage_1_merge_packages :: "package_store \<Rightarrow> raw_config \<Rightarrow> raw_config \<times> validation_error list" where
  "stage_1_merge_packages store config = merge_packages store (rc_packages config) config"

section \<open>Stage 2: substitutions\<close>

function resolve_string :: "(string \<rightharpoonup> string) \<Rightarrow> string \<Rightarrow> string \<Rightarrow> string \<times> validation_error list" where
  "resolve_string subs path remaining =
     (case split_once ''${'' remaining of
        None \<Rightarrow> (remaining, [])
      | Some (before, remaining') \<Rightarrow>
          (case split_once ''}'' remaining' of
             None \<Rightarrow>
               let (r, es) = resolve_string subs path remaining' in (before @ ''${'' @ r, es)
           | Some (expr, after) \<Rightarrow>
               let (var_name, dflt) =
                     (case split_once '':='' expr of
                        Some (v, d) \<Rightarrow> (v, Some d)
                      | None \<Rightarrow> (expr, None));
                   (piece, warn) =
                     (case subs var_name of
                        Some val \<Rightarrow> (val, [])
                      | None \<Rightarrow>
                          (case dflt of
                             Some d \<Rightarrow> (d, [])
                           | None \<Rightarrow>
                               (''${'' @ expr @ ''}'',
                                [vwarning Substitutions path
                                   (''substitution variable '' @ quoted (''${'' @ var_name @ ''}'') @ '' is undefined'')])));
                   (r, es) = resolve_string subs path after
               in (before @ piece @ r, warn @ es)))"
  by pat_completeness auto
termination
  by (relation "measure (\<lambda>(subs, path, s). length s)") (auto dest!: split_once_length)

declare resolve_string.simps [simp del]

fun apply_to_value :: "(string \<rightharpoonup> string) \<Rightarrow> string \<Rightarrow> json \<Rightarrow> json \<times> validation_error list"
  and apply_to_items :: "(string \<rightharpoonup> string) \<Rightarrow> string \<Rightarrow> nat \<Rightarrow> json list \<Rightarrow> json list \<times> validation_error list"
  and apply_to_fields :: "(string \<rightharpoonup> string) \<Rightarrow> string \<Rightarrow> (string \<times> json) list \<Rightarrow> (string \<times> json) list \<times> validation_error list"
where
  "apply_to_value subs path (JStr s) = (let (s', es) = resolve_string subs path s in (JStr s', es))"
| "apply_to_value subs path (JArr arr) = (let (arr', es) = apply_to_items subs path 0 arr in (JArr arr', es))"
| "apply_to_value subs path (JObj m) = (let (m', es) = apply_to_fields subs path m in (JObj m', es))"
| "apply_to_value subs path v = (v, [])"
| "apply_to_items subs path i [] = ([], [])"
| "apply_to_items subs path i (item # arr) =
     (let (item', es) = apply_to_value subs (path @ ''['' @ show_nat i @ '']'') item;
          (arr', fs) = apply_to_items subs path (Suc i) arr
      in (item' # arr', es @ fs))"
| "apply_to_fields subs path [] = ([], [])"
| "apply_to_fields subs path ((k, v) # m) =
     (let (v', es) = apply_to_value subs (path @ ''.'' @ k) v;
          (m', fs) = apply_to_fields subs path m
      in ((k, v') # m', es @ fs))"

definition substitute_component :: "(string \<rightharpoonup> string) \<Rightarrow> nat \<Rightarrow> component_config \<Rightarrow> component_config \<times> validation_error list" where
  "substitute_component subs i c =
     (let path = ''components['' @ show_nat i @ '']'';
          (v, es) = apply_to_value subs path (cc_config c);
          c' = c\<lparr>cc_config := v\<rparr>
      in case cc_platform c of
           None \<Rightarrow> (c', es)
         | Some platform \<Rightarrow>
             let (p, fs) = resolve_string subs path platform
             in (c'\<lparr>cc_platform := Some p\<rparr>, es @ fs))"

definition stage_2_apply_substitutions :: "raw_config \<Rightarrow> raw_config \<times> validation_error list" where
  "stage_2_apply_substitutions config =
     (let rs = map (\<lambda>(i, c). substitute_component (rc_subs config) i c) (enumerated (rc_components config))
      in (config\<lparr>rc_components := map fst rs\<rparr>, concat (map snd rs)))"

section \<open>Stage 3: extend and remove directives\<close>

fun deep_merge :: "json \<Rightarrow> json \<Rightarrow> json"
  and merge_fields :: "(string \<times> json) list \<Rightarrow> (string \<times> json) list \<Rightarrow> (string \<times> json) list"
where
  "deep_merge (JObj d) (JObj s) = JObj (merge_fields d s)"
| "deep_merge dst src = src"
| "merge_fields d [] = d"
| "merge_fields d ((key, sv) # s) =
     (let entry = (case map_of d key of Some e \<Rightarrow> e | None \<Rightarrow> JNull)
      in merge_fields
           (obj_insert key (if is_object entry \<and> is_object sv then deep_merge entry sv else sv) d) s)"

definition extend_missing_target :: validation_error where
  "extend_missing_target = verror ExtendRemove ''components''
     ''!extend directive is missing a target component type''"

definition extend_not_found :: "string \<Rightarrow> validation_error" where
  "extend_not_found t = verror ExtendRemove (''!extend '' @ t)
     (''!extend target '' @ quoted t @ '' not found in component list'')"

definition remove_missing_target :: validation_error where
  "remove_missing_target = verror ExtendRemove ''components''
     ''!remove directive is missing a target component type''"

definition remove_not_found :: "string \<Rightarrow> validation_error" where
  "remove_not_found t = vwarning ExtendRemove (''!remove '' @ t)
     (''!remove target '' @ quoted t @ '' not found; nothing removed'')"

text \<open>The body of the loop for a directive: \<open>comps\<close> is the list without it.\<close>

definition apply_extend :: "component_config \<Rightarrow> component_config list \<Rightarrow> component_config list \<times> validation_error list" where
  "apply_extend directive comps =
     (case directive_target directive of
        None \<Rightarrow> (comps, [extend_missing_target])
      | Some t \<Rightarrow>
          (case position (\<lambda>c. cc_type c = t) comps of
             None \<Rightarrow> (comps, [extend_not_found t])
           | Some j \<Rightarrow>
               (comps[j := (comps ! j)\<lparr>cc_config := deep_merge (cc_config (comps ! j)) (cc_config directive)\<rparr>], [])))"

definition apply_remove :: "component_config \<Rightarrow> component_config list \<Rightarrow> component_config list \<times> validation_error list" where
  "apply_remove directive comps =
     (case directive_target directive of
        None \<Rightarrow> (comps, [remove_missing_target])
      | Some t \<Rightarrow>
          (case position (\<lambda>c. cc_type c = t) comps of
             None \<Rightarrow> (comps, [remove_not_found t])
           | Some j \<Rightarrow> (remove_nth j comps, [])))"

lemma length_apply_extend: "length (fst (apply_extend c cs)) = length cs"
  by (simp add: apply_extend_def split: option.splits)

lemma length_apply_remove: "length (fst (apply_remove c cs)) \<le> length cs"
  by (auto simp: apply_remove_def position_Some split: option.splits)

function directive_loop :: "nat \<Rightarrow> component_config list \<Rightarrow> component_config list \<times> validation_error list" where
  "directive_loop i comps =
     (if i < length comps then
        let c = comps ! i in
        if is_extend c then
          let (comps', es) = apply_extend c (remove_nth i comps);
              (comps'', fs) = directive_loop i comps'
          in (comps'', es @ fs)
        else if is_remove c then
          let (comps', es) = apply_remove c (remove_nth i comps);
              (comps'', fs) = directive_loop i comps'
          in (comps'', es @ fs)
        else directive_loop (i + 1) comps
      else (comps, []))"
  by pat_completeness auto
termination
proof (relation "measure (\<lambda>(i, comps). length comps - i)", goal_cases)
  case (2 i comps c x comps' es)
  then have "comps' = fst (apply_extend c (remove_nth i comps))" by (metis fst_conv)
  with 2 show ?case using length_apply_extend [of c "remove_nth i comps"] by auto
next
  case (3 i comps c x comps' es)
  then have "comps' = fst (apply_remove c (remove_nth i comps))" by (metis fst_conv)
  with 3 show ?case using length_apply_remove [of c "remove_nth i comps"] by auto
qed auto

declare directive_loop.simps [simp del]

definition stage_3_process_extend_remove :: "raw_config \<Rightarrow> raw_config \<times> validation_error list" where
  "stage_3_process_extend_remove config =
     (let (comps, errors) = directive_loop 0 (rc_components config)
      in (config\<lparr>rc_components := comps\<rparr>, errors))"

section \<open>Package merge, in closed form\<close>

definition found_packages :: "package_store \<Rightarrow> package_ref list \<Rightarrow> raw_config list" where
  "found_packages store pkgs = List.map_filter (\<lambda>p. store (pk_name p)) pkgs"

definition first_some :: "'v option list \<Rightarrow> 'v option" where
  "first_some vs = Option.bind (find (\<lambda>v. v \<noteq> None) vs) id"

lemma first_some_simps [simp]:
  "first_some [] = None"
  "first_some (None # vs) = first_some vs"
  "first_some (Some v # vs) = Some v"
  by (simp_all add: first_some_def)

lemma found_packages_simps [simp]:
  "found_packages store [] = []"
  "found_packages store (p # ps) =
     (case store (pk_name p) of Some c \<Rightarrow> c # found_packages store ps | None \<Rightarrow> found_packages store ps)"
  by (simp_all add: found_packages_def List.map_filter_simps split: option.splits)

lemma first_some_override:
  "first_some ((p ++ u) k # vs) = first_some (u k # p k # vs)"
  by (cases "u k"; cases "p k") (simp_all add: map_add_def)

lemma merge_packages_closed:
  "merge_packages store pkgs config =
     (config\<lparr>rc_components := rc_components config @ concat (map rc_components (found_packages store pkgs)),
             rc_subs := (\<lambda>k. first_some (rc_subs config k # map (\<lambda>c. rc_subs c k) (found_packages store pkgs)))\<rparr>,
      map package_missing (filter (\<lambda>p. store (pk_name p) = None) pkgs))"
proof (induction pkgs arbitrary: config)
  case Nil
  have "(\<lambda>k. first_some [rc_subs config k]) = rc_subs config"
    by (rule ext) (metis first_some_simps option.exhaust)
  then show ?case by simp
next
  case (Cons pkg pkgs)
  then show ?case by (auto simp: first_some_override split: option.splits)
qed

section \<open>Templates\<close>

text \<open>What a string with placeholders means: text, \<open>${v}\<close> and \<open>${v:=d}\<close>.\<close>

datatype segment = Lit string | Var string | VarOr string string

fun print_segment :: "segment \<Rightarrow> string" where
  "print_segment (Lit s) = s"
| "print_segment (Var v) = ''${'' @ v @ ''}''"
| "print_segment (VarOr v d) = ''${'' @ v @ '':='' @ d @ ''}''"

definition print_template :: "segment list \<Rightarrow> string" where
  "print_template ss = concat (map print_segment ss)"

fun segment_ok :: "segment \<Rightarrow> bool" where
  "segment_ok (Lit s) = (\<not> contains ''${'' s)"
| "segment_ok (Var v) = (CHR ''}'' \<notin> set v \<and> \<not> contains '':='' v)"
| "segment_ok (VarOr v d) = (CHR ''}'' \<notin> set v \<and> CHR ''}'' \<notin> set d \<and> \<not> contains '':='' v)"

text \<open>No two texts in a row, so that no placeholder can arise across their border.\<close>

fun template_ok :: "segment list \<Rightarrow> bool" where
  "template_ok [] = True"
| "template_ok (Lit s # Lit t # ss) = False"
| "template_ok (x # ss) = (segment_ok x \<and> template_ok ss)"

fun eval_segment :: "(string \<rightharpoonup> string) \<Rightarrow> segment \<Rightarrow> string" where
  "eval_segment subs (Lit s) = s"
| "eval_segment subs (Var v) = (case subs v of Some x \<Rightarrow> x | None \<Rightarrow> print_segment (Var v))"
| "eval_segment subs (VarOr v d) = (case subs v of Some x \<Rightarrow> x | None \<Rightarrow> d)"

definition undefined_var :: "string \<Rightarrow> string \<Rightarrow> validation_error" where
  "undefined_var path v = vwarning Substitutions path
     (''substitution variable '' @ quoted (''${'' @ v @ ''}'') @ '' is undefined'')"

fun segment_warnings :: "(string \<rightharpoonup> string) \<Rightarrow> string \<Rightarrow> segment \<Rightarrow> validation_error list" where
  "segment_warnings subs path (Var v) = (if subs v = None then [undefined_var path v] else [])"
| "segment_warnings subs path _ = []"

lemma split_once_first:
  "x \<noteq> y \<Longrightarrow> \<not> contains [x, y] a \<Longrightarrow> split_once [x, y] (a @ x # y # b) = Some (a, b)"
proof (induction a)
  case (Cons c a)
  then have "\<not> prefix [x, y] (c # a)" and "\<not> contains [x, y] a"
    by (auto simp: contains_iff sublist_Cons_right)
  with Cons show ?case by (cases a) auto
qed simp

lemma split_once_first1: "x \<notin> set a \<Longrightarrow> split_once [x] (a @ x # b) = Some (a, b)"
  by (induction a) auto

lemma contains_append_left: "contains pat a \<Longrightarrow> contains pat (a @ b)"
  by (auto simp: contains_iff sublist_append)

text \<open>One placeholder behind a text without placeholders.\<close>

lemma resolve_string_plain: "\<not> contains ''${'' s \<Longrightarrow> resolve_string subs path s = (s, [])"
  by (cases "split_once ''${'' s") (simp_all add: contains_def resolve_string.simps [of subs path s])

lemma resolve_string_var:
  assumes "\<not> contains ''${'' t" and "CHR ''}'' \<notin> set v" and "\<not> contains '':='' v"
  shows "resolve_string subs path (t @ print_segment (Var v) @ rest) =
    (let (r, es) = resolve_string subs path rest
     in (t @ eval_segment subs (Var v) @ r, segment_warnings subs path (Var v) @ es))"
  using split_once_first [OF _ assms(1), of "v @ ''}'' @ rest"] split_once_first1 [OF assms(2), of rest] assms(3)
  by (subst resolve_string.simps)
     (simp add: contains_def undefined_var_def split: option.splits prod.splits)

lemma resolve_string_var_or:
  assumes "\<not> contains ''${'' t" and "CHR ''}'' \<notin> set v" and "CHR ''}'' \<notin> set d"
    and "\<not> contains '':='' v"
  shows "resolve_string subs path (t @ print_segment (VarOr v d) @ rest) =
    (let (r, es) = resolve_string subs path rest
     in (t @ eval_segment subs (VarOr v d) @ r, es))"
proof -
  have e: "CHR ''}'' \<notin> set (v @ '':='' @ d)" using assms by simp
  show ?thesis
    using split_once_first [OF _ assms(1), of "v @ '':='' @ d @ ''}'' @ rest"]
      split_once_first1 [OF e, of rest] split_once_first [OF _ assms(4), of d]
    by (subst resolve_string.simps) (simp split: option.splits prod.splits)
qed

lemmas resolve_string_segments = resolve_string_plain resolve_string_var resolve_string_var_or

lemma not_contains_Nil [simp]: "\<not> contains ''${'' []"
  by (simp add: contains_def)

lemma template_ok_tail: "template_ok (x # ss) \<Longrightarrow> segment_ok x \<and> template_ok ss"
  by (cases x; cases ss) (auto elim: template_ok.elims)

lemma resolve_template:
  assumes "template_ok ss"
  shows "resolve_string subs path (print_template ss) =
    (concat (map (eval_segment subs) ss), concat (map (segment_warnings subs path) ss))"
  using assms
proof (induction ss rule: induct_list012)
  case 1
  then show ?case by (simp add: print_template_def resolve_string_plain)
next
  case (2 x)
  then show ?case
    using resolve_string_var [of "[]" _ subs path "[]"] resolve_string_var_or [of "[]" _ _ subs path "[]"]
    by (cases x) (simp_all add: print_template_def resolve_string_plain)
next
  case (3 x y ss)
  note ok = template_ok_tail [OF "3.prems"]
  note ok2 = template_ok_tail [OF conjunct2 [OF ok]]
  have step: "resolve_string subs path (print_template ss) =
      (concat (map (eval_segment subs) ss), concat (map (segment_warnings subs path) ss))"
    using "3.IH"(1) ok2 by blast
  have step2: "resolve_string subs path (print_template (y # ss)) =
      (concat (map (eval_segment subs) (y # ss)), concat (map (segment_warnings subs path) (y # ss)))"
    using "3.IH"(2) ok by blast
  show ?case
  proof (cases x)
    case (Lit t)
    with "3.prems" ok ok2 step show ?thesis
      using resolve_string_var [of t _ subs path "print_template ss"]
        resolve_string_var_or [of t _ _ subs path "print_template ss"]
      by (cases y) (simp_all add: print_template_def del: print_segment.simps(2,3) eval_segment.simps(2,3))
  next
    case (Var v)
    with ok step2 show ?thesis
      using resolve_string_var [of "[]" v subs path "print_template (y # ss)"]
      by (simp add: print_template_def del: print_segment.simps(2,3) eval_segment.simps(2,3))
  next
    case (VarOr v d)
    with ok step2 show ?thesis
      using resolve_string_var_or [of "[]" v d subs path "print_template (y # ss)"]
      by (simp add: print_template_def del: print_segment.simps(2,3) eval_segment.simps(2,3))
  qed
qed

section \<open>The deep merge\<close>

text \<open>What one key of the source does to the destination's entry.\<close>

definition merge_entry :: "json option \<Rightarrow> json \<Rightarrow> json" where
  "merge_entry e sv =
     (case e of Some x \<Rightarrow> if is_object x \<and> is_object sv then deep_merge x sv else sv | None \<Rightarrow> sv)"

lemma merge_fields_Cons:
  "merge_fields d ((k, sv) # s) = merge_fields (obj_insert k (merge_entry (map_of d k) sv) d) s"
  by (simp add: merge_entry_def is_object_iff split: option.splits)

declare merge_fields.simps(2) [simp del]

lemma map_of_merge_fields:
  "distinct (map fst s) \<Longrightarrow> map_of (merge_fields d s) k =
     (case map_of s k of None \<Rightarrow> map_of d k | Some sv \<Rightarrow> Some (merge_entry (map_of d k) sv))"
proof (induction s arbitrary: d)
  case (Cons p s)
  obtain l sv where p: "p = (l, sv)" by (cases p)
  have "map_of s l = None" using Cons.prems p by (simp add: map_of_eq_None_iff)
  with Cons p show ?case
    by (auto simp: merge_fields_Cons map_of_obj_insert split: option.splits)
qed simp

lemma sorted_merge_fields: "sorted_keys d \<Longrightarrow> sorted_keys (merge_fields d s)"
proof (induction s arbitrary: d)
  case (Cons p s)
  then show ?case by (cases p) (simp add: merge_fields_Cons sorted_obj_insert)
qed simp

lemma deep_merge_not_object: "\<not> is_object s \<Longrightarrow> deep_merge d s = s" "\<not> is_object d \<Longrightarrow> deep_merge d s = s"
  by (cases d; cases s; simp add: is_object_iff)+

lemma json_size_map_of: "map_of m k = Some v \<Longrightarrow> size v < size (JObj m)"
  by (induction m) (auto split: if_splits)

lemma deep_merge_fixed:
  assumes "wf_json s" and "wf_json d"
  shows "deep_merge s s = s \<and> deep_merge (deep_merge d s) s = deep_merge d s"
  using assms
proof (induction s arbitrary: d rule: measure_induct_rule [of size])
  case (less s)
  show ?case
  proof (cases s)
    case (JObj m)
    have wf: "sorted_keys m" "wf_json d" using less.prems JObj by auto
    have dm: "distinct (map fst m)" by (rule sorted_keys_distinct [OF wf(1)])
    have IH: "deep_merge v v = v" "wf_json e \<Longrightarrow> deep_merge (deep_merge e v) v = deep_merge e v"
      if "map_of m k = Some v" for k v e
      using less.IH [of v] json_size_map_of [OF that] wf_map_of [OF _ that] less.prems(1) JObj by blast+
    have entry: "merge_entry (Some v) v = v" if "map_of m k = Some v" for k v
      using IH [OF that] by (simp add: merge_entry_def)
    have self: "deep_merge s s = s"
    proof -
      have "merge_fields m m = m"
        by (rule sorted_keys_ext [OF sorted_merge_fields [OF wf(1)] wf(1)])
           (rule ext, auto simp: map_of_merge_fields [OF dm] entry split: option.splits)
      then show ?thesis by (simp add: JObj)
    qed
    have "deep_merge (deep_merge d s) s = deep_merge d s"
    proof (cases d)
      case (JObj n)
      have n: "sorted_keys n" using wf(2) JObj by simp
      have entry2: "merge_entry (Some (merge_entry (map_of n k) v)) v = merge_entry (map_of n k) v"
        if "map_of m k = Some v" for k v
      proof (cases "\<exists>x. map_of n k = Some x \<and> is_object x \<and> is_object v")
        case True
        then obtain x y z where x: "map_of n k = Some x" "x = JObj y" and v: "v = JObj z"
          by (auto simp: is_object_iff)
        have "wf_json x" using wf_map_of [OF _ x(1)] wf(2) JObj by blast
        from IH(2) [OF that this] x v show ?thesis by (simp add: merge_entry_def is_object_iff)
      next
        case False
        then have "merge_entry (map_of n k) v = v" by (auto simp: merge_entry_def split: option.splits)
        then show ?thesis by (simp add: entry [OF that])
      qed
      have "merge_fields (merge_fields n m) m = merge_fields n m"
        by (rule sorted_keys_ext) (use sorted_merge_fields n in \<open>auto simp: map_of_merge_fields [OF dm] entry2 intro!: ext split: option.splits\<close>)
      then show ?thesis using \<open>s = JObj m\<close> JObj by simp
    qed (use self JObj in simp_all)
    with self show ?thesis by blast
  qed (simp_all add: deep_merge_not_object is_object_iff)
qed

lemma wf_merge:
  "wf_json d \<Longrightarrow> wf_json s \<Longrightarrow> wf_json (deep_merge d s)"
  "wf_json (JObj m) \<Longrightarrow> list_all (\<lambda>p. wf_json (snd p)) n \<Longrightarrow> wf_json (JObj (merge_fields m n))"
proof (induction d s and m n rule: deep_merge_merge_fields.induct)
  case (4 d key sv s)
  have "wf_json (merge_entry (map_of d key) sv)"
  proof (cases "\<exists>x. map_of d key = Some x \<and> is_object x \<and> is_object sv")
    case True
    then obtain x where x: "map_of d key = Some x" "is_object x" "is_object sv" by blast
    then have "wf_json (deep_merge x sv)"
      using 4 wf_map_of [OF "4.prems"(1) x(1)] by simp
    with x show ?thesis by (simp add: merge_entry_def)
  next
    case False
    then have "merge_entry (map_of d key) sv = sv" by (auto simp: merge_entry_def split: option.splits)
    with "4.prems"(2) show ?thesis by simp
  qed
  then have "wf_json (JObj (obj_insert key (merge_entry (map_of d key) sv) d))"
    by (rule wf_obj_insert [OF "4.prems"(1)])
  moreover have "(let entry = (case map_of d key of Some e \<Rightarrow> e | None \<Rightarrow> JNull)
      in if is_object entry \<and> is_object sv then deep_merge entry sv else sv) = merge_entry (map_of d key) sv"
    by (simp add: merge_entry_def is_object_iff split: option.splits)
  ultimately show ?case
    using "4.IH"(2) [OF refl] "4.prems"(2) by (simp add: merge_fields_Cons Let_def)
qed simp_all

section \<open>The directive loop\<close>

abbreviation types :: "component_config list \<Rightarrow> string list" where
  "types cs \<equiv> map cc_type cs"

lemma types_apply_extend: "types (fst (apply_extend c cs)) = types cs"
  by (auto simp: apply_extend_def position_Some map_update list_update_same_conv split: option.splits)

lemma map_remove_nth: "map f (remove_nth i xs) = remove_nth i (map f xs)"
  by (simp add: remove_nth_def take_map drop_map)

lemma filter_remove_nth: "i < length xs \<Longrightarrow> \<not> P (xs ! i) \<Longrightarrow> filter P (remove_nth i xs) = filter P xs"
  by (metis (no_types, lifting) append_take_drop_id Cons_nth_drop_Suc filter.simps(2) filter_append remove_nth_def)

lemma take_remove_nth: "i < length xs \<Longrightarrow> take i (remove_nth i xs) = take i xs"
  by (simp add: remove_nth_def)

lemma directive_loop_extends:
  assumes "\<forall>t \<in> set (types comps). \<not> starts_with ''!remove'' t"
    and "\<forall>t \<in> set (take i (types comps)). \<not> starts_with ''!extend'' t"
  shows "types (fst (directive_loop i comps)) = filter (\<lambda>t. \<not> starts_with ''!extend'' t) (types comps)"
  using assms
proof (induction i comps rule: directive_loop.induct)
  case (1 i comps)
  show ?case
  proof (cases "i < length comps")
    case False
    then have "directive_loop i comps = (comps, [])" and "take i (types comps) = types comps"
      by (simp_all add: directive_loop.simps)
    with "1.prems"(2) show ?thesis by (simp add: filter_id_conv)
  next
    case i: True
    let ?c = "comps ! i" and ?rest = "remove_nth i comps"
    show ?thesis
    proof (cases "is_extend ?c")
      case True
      obtain comps' es where ae: "apply_extend ?c ?rest = (comps', es)" by (cases "apply_extend ?c ?rest")
      have ts: "types comps' = remove_nth i (types comps)"
        using types_apply_extend [of ?c ?rest] by (simp add: ae map_remove_nth)
      have "types (fst (directive_loop i comps')) = filter (\<lambda>t. \<not> starts_with ''!extend'' t) (types comps')"
        using "1.prems" i ts set_remove_nth [of i "types comps"]
        by (intro "1.IH"(1) [OF i refl True ae [symmetric] refl])
           (auto simp: take_remove_nth)
      then show ?thesis using i True ae ts
        by (simp add: directive_loop.simps [of i comps] Let_def filter_remove_nth is_extend_def split_beta)
    next
      case False
      have nr: "\<not> is_remove ?c" using "1.prems"(1) i by (auto simp: is_remove_def)
      have "types (fst (directive_loop (i + 1) comps)) = filter (\<lambda>t. \<not> starts_with ''!extend'' t) (types comps)"
        using "1.prems" i False by (intro "1.IH"(3) [OF i refl False nr])
          (auto simp: take_Suc_conv_app_nth is_extend_def)
      then show ?thesis using i False nr by (simp add: directive_loop.simps [of i comps] Let_def)
    qed
  qed
qed

text \<open>Entries that are no directives are passed over.\<close>

lemma directive_loop_skip:
  assumes "k \<le> length comps" and "\<forall>c \<in> set (take k comps). \<not> is_extend c \<and> \<not> is_remove c"
  shows "directive_loop 0 comps = directive_loop k comps"
  using assms
proof (induction k)
  case (Suc k)
  then have "directive_loop 0 comps = directive_loop k comps"
    by (auto simp: take_Suc_conv_app_nth)
  also have "\<dots> = directive_loop (Suc k) comps"
    using Suc.prems by (auto simp: take_Suc_conv_app_nth directive_loop.simps [of k comps] Let_def)
  finally show ?case .
qed simp

section \<open>Properties\<close>

text \<open>Package merge appends the components of every package that is in the store, in
  the order of the references, reports exactly the missing ones, and never overrides a
  substitution: the user's value wins, then the first package that defines the variable.\<close>

theorem stage_1_closed_form:
  "stage_1_merge_packages store config =
     (config\<lparr>rc_components := rc_components config @
                concat (map rc_components (found_packages store (rc_packages config))),
             rc_subs := (\<lambda>k. first_some (rc_subs config k #
                map (\<lambda>c. rc_subs c k) (found_packages store (rc_packages config))))\<rparr>,
      map package_missing (filter (\<lambda>p. store (pk_name p) = None) (rc_packages config)))"
  by (simp add: stage_1_merge_packages_def merge_packages_closed)

text \<open>Placeholder resolution computes the meaning of the template: text is copied,
  \<open>${v}\<close> and \<open>${v:=d}\<close> become the value of \<open>v\<close>, an undefined \<open>${v:=d}\<close> becomes \<open>d\<close>, an
  undefined \<open>${v}\<close> is kept and warned about once, in the order of the text; substituted
  values are not expanded again.\<close>

theorem resolve_string_template:
  assumes "template_ok ss"
  shows "resolve_string subs path (print_template ss) =
    (concat (map (eval_segment subs) ss), concat (map (segment_warnings subs path) ss))"
  using assms by (rule resolve_template)

theorem resolve_string_template_witness:
  "resolve_string [''a'' \<mapsto> ''${b}''] ''p'' (print_template [Lit ''x$'', Var ''a'', VarOr ''b'' ''7'', Var ''c''])
     = (''x$${b}7${c}'', [undefined_var ''p'' ''c''])"
  by (subst resolve_string_template) (simp_all add: contains_def)

text \<open>The deep merge of two objects is the pointwise override that recurses only where
  both sides hold an object; it keeps keys unique and increasing, and merging the same
  source twice changes nothing.\<close>

theorem deep_merge_override:
  assumes "wf_json (JObj d)" and "wf_json (JObj s)"
  shows "json_get k (deep_merge (JObj d) (JObj s)) =
      (case map_of s k of
         None \<Rightarrow> map_of d k
       | Some sv \<Rightarrow> Some (case map_of d k of
           Some e \<Rightarrow> if is_object e \<and> is_object sv then deep_merge e sv else sv
         | None \<Rightarrow> sv))
    \<and> wf_json (deep_merge (JObj d) (JObj s))
    \<and> deep_merge (deep_merge (JObj d) (JObj s)) (JObj s) = deep_merge (JObj d) (JObj s)"
proof (intro conjI)
  have "distinct (map fst s)" using assms(2) by (simp add: sorted_keys_distinct)
  then show "json_get k (deep_merge (JObj d) (JObj s)) =
      (case map_of s k of
         None \<Rightarrow> map_of d k
       | Some sv \<Rightarrow> Some (case map_of d k of
           Some e \<Rightarrow> if is_object e \<and> is_object sv then deep_merge e sv else sv
         | None \<Rightarrow> sv))"
    by (auto simp: json_get_def map_of_merge_fields merge_entry_def split: option.splits)
  show "wf_json (deep_merge (JObj d) (JObj s))" using assms by (rule wf_merge)
  show "deep_merge (deep_merge (JObj d) (JObj s)) (JObj s) = deep_merge (JObj d) (JObj s)"
    using deep_merge_fixed [OF assms(2,1)] by blast
qed

theorem deep_merge_override_witness:
  "json_get ''a'' (deep_merge (JObj [(''a'', JNull)]) (JObj [(''a'', JBool True)])) = Some (JBool True)"
  using deep_merge_override [of "[(''a'', JNull)]" "[(''a'', JBool True)]" "''a''"]
  by (simp add: is_object_def)

text \<open>Without \<open>!remove\<close> entries stage 3 consumes every directive and keeps every other
  component, in order and with its type.\<close>

theorem stage_3_consumes_extends:
  assumes "\<forall>c \<in> set (rc_components config). \<not> is_remove c"
  shows "types (rc_components (fst (stage_3_process_extend_remove config))) =
         types (filter (\<lambda>c. \<not> is_extend c) (rc_components config))"
  using directive_loop_extends [of "rc_components config" 0] assms
  by (simp add: stage_3_process_extend_remove_def is_extend_def is_remove_def split_beta filter_map o_def)

theorem stage_3_consumes_extends_witness:
  "types (rc_components (fst (stage_3_process_extend_remove
      (config_of [\<lparr>cc_type = ''wifi'', cc_platform = None, cc_config = JNull\<rparr>,
         \<lparr>cc_type = ''!extend wifi'', cc_platform = None, cc_config = JBool True\<rparr>])))) = [''wifi'']"
  by (subst stage_3_consumes_extends) (simp_all add: is_remove_def is_extend_def config_of_def)

text \<open>A successful \<open>!remove\<close> of an earlier component skips the entry behind it: that
  entry stays in the configuration even if it is itself a directive.\<close>

theorem stage_3_remove_skips_next:
  assumes "\<forall>c \<in> set xs. \<not> is_extend c \<and> \<not> is_remove c"
    and "is_remove r" and "directive_target r = Some t" and "position (\<lambda>c. cc_type c = t) xs = Some j"
    and "rc_components config = xs @ [r, d]"
  shows "stage_3_process_extend_remove config = (config\<lparr>rc_components := remove_nth j xs @ [d]\<rparr>, [])"
proof -
  let ?n = "length xs"
  have j: "j < ?n" "cc_type (xs ! j) = t" "\<forall>i < j. cc_type (xs ! i) \<noteq> t" using assms(4) by (auto simp: position_Some)
  have ne: "\<not> is_extend r" using assms(2) by (auto simp: is_remove_def is_extend_def prefix_def)
  have pos: "position (\<lambda>c. cc_type c = t) (xs @ [d]) = Some j"
    unfolding position_Some using j by (auto simp: nth_append)
  have "apply_remove r (xs @ [d]) = (remove_nth j (xs @ [d]), [])"
    by (simp add: apply_remove_def assms(3) pos)
  moreover have "remove_nth ?n (xs @ [r, d]) = xs @ [d]" by (simp add: remove_nth_def)
  moreover have "remove_nth j (xs @ [d]) = remove_nth j xs @ [d]" using j by (simp add: remove_nth_def)
  moreover have "directive_loop ?n (remove_nth j xs @ [d]) = (remove_nth j xs @ [d], [])"
  proof -
    have "length (remove_nth j xs @ [d]) = ?n" using j(1) by simp
    then show ?thesis by (subst directive_loop.simps) simp
  qed
  moreover have "directive_loop 0 (xs @ [r, d]) = directive_loop ?n (xs @ [r, d])"
    using assms(1) by (intro directive_loop_skip) simp_all
  ultimately have "directive_loop 0 (xs @ [r, d]) = (remove_nth j xs @ [d], [])"
    using assms(2) ne by (simp add: directive_loop.simps [of ?n "xs @ [r, d]"] Let_def)
  then show ?thesis by (simp add: stage_3_process_extend_remove_def assms(5))
qed

theorem stage_3_remove_skips_next_witness:
  "let entry = (\<lambda>t. \<lparr>cc_type = t, cc_platform = None, cc_config = JNull\<rparr>) in
   stage_3_process_extend_remove (config_of (map entry [''wifi'', ''logger'', ''!remove wifi'', ''!remove logger'']))
   = (config_of (map entry [''logger'', ''!remove logger'']), [])"
  unfolding Let_def
  by (rule trans [OF stage_3_remove_skips_next
        [where xs = "[\<lparr>cc_type = ''wifi'', cc_platform = None, cc_config = JNull\<rparr>,
                      \<lparr>cc_type = ''logger'', cc_platform = None, cc_config = JNull\<rparr>]"
           and r = "\<lparr>cc_type = ''!remove wifi'', cc_platform = None, cc_config = JNull\<rparr>"
           and t = "''wifi''" and j = 0]])
     (simp_all add: is_extend_def is_remove_def directive_target_def nth_piece_def remove_nth_def config_of_def)

end
