(* ===== verification/Solution.thy ===== *)
theory Solution
  imports ConfigTypes
begin

text \<open>
  Solutions and their variants (\<open>rshome-schema/src/solution.rs\<close>), restricted to the fields
  the validation pipeline reads, the retry policy of an orchestration step
  (\<open>orchestration.rs\<close>) and the chip targets (\<open>platform.rs\<close>). The catalogue of solutions
  is data and stays a parameter of the stages that look it up.
\<close>

section \<open>Chip targets\<close>

datatype chip_target = Esp32 | Esp32S2 | Esp32S3 | Esp32C2 | Esp32C3 | Esp32C5 | Esp32C6
  | Esp32C61 | Esp32H2 | Esp32P4

fun to_idf_target :: "chip_target \<Rightarrow> string" where
  "to_idf_target Esp32 = ''esp32''"
| "to_idf_target Esp32S2 = ''esp32s2''"
| "to_idf_target Esp32S3 = ''esp32s3''"
| "to_idf_target Esp32C2 = ''esp32c2''"
| "to_idf_target Esp32C3 = ''esp32c3''"
| "to_idf_target Esp32C5 = ''esp32c5''"
| "to_idf_target Esp32C6 = ''esp32c6''"
| "to_idf_target Esp32C61 = ''esp32c61''"
| "to_idf_target Esp32H2 = ''esp32h2''"
| "to_idf_target Esp32P4 = ''esp32p4''"

section \<open>Retry policies\<close>

record retry_policy =
  rp_max_attempts :: u8
  rp_backoff_initial :: u32
  rp_backoff_max :: u32
  rp_total_budget :: u32

datatype retry_policy_error =
    ZeroMaxAttempts
  | InitialExceedsMax u32 u32
  | MaxBackoffExceedsPerAttemptBudget u32 u32 u8 u32

definition new_retry_policy :: "u8 \<Rightarrow> u32 \<Rightarrow> u32 \<Rightarrow> u32 \<Rightarrow> retry_policy_error + retry_policy" where
  "new_retry_policy max_attempts backoff_initial backoff_max total_budget =
     (if max_attempts = 0 then Inl ZeroMaxAttempts
      else if backoff_initial > backoff_max then Inl (InitialExceedsMax backoff_initial backoff_max)
      else
        let per_attempt_budget = total_budget div ucast max_attempts
        in if backoff_max > per_attempt_budget
           then Inl (MaxBackoffExceedsPerAttemptBudget backoff_max total_budget max_attempts per_attempt_budget)
           else Inr \<lparr>rp_max_attempts = max_attempts, rp_backoff_initial = backoff_initial,
                      rp_backoff_max = backoff_max, rp_total_budget = total_budget\<rparr>)"

definition retry_policy_valid :: "retry_policy \<Rightarrow> bool" where
  "retry_policy_valid rp =
     (case new_retry_policy (rp_max_attempts rp) (rp_backoff_initial rp) (rp_backoff_max rp) (rp_total_budget rp)
      of Inr _ \<Rightarrow> True | Inl _ \<Rightarrow> False)"

section \<open>Solutions\<close>

record orchestration_step =
  os_id :: string
  os_label :: string
  os_depends_on :: "string list"
  os_retry_policy :: "retry_policy option"

record solution_variant =
  sv_id :: string
  sv_add_components :: "string list"
  sv_remove_components :: "string list"
  sv_active_flag_add :: "string list"
  sv_active_flag_remove :: "string list"

record component_bundle =
  cb_required :: "string list"
  cb_optional :: "string list"

record solution_def =
  sd_id :: string
  sd_fixed_orchestration :: "orchestration_step list"
  sd_variants :: "solution_variant list"
  sd_bundle :: component_bundle
  sd_watchdog_ms :: "u32 option"

type_synonym solution_registry = "string \<rightharpoonup> solution_def"

definition register_solution :: "solution_def \<Rightarrow> solution_registry \<Rightarrow> solution_registry" where
  "register_solution def reg = reg(sd_id def \<mapsto> def)"

section \<open>The budget of a retry policy\<close>

text \<open>What the constructor promises: all attempts at the largest backoff fit the budget.\<close>

lemma unat_div_ucast:
  fixes t :: u32 and m :: u8
  shows "unat (t div ucast m) = unat t div unat m"
proof -
  have "unat (ucast m :: u32) = unat m"
    using unsigned_less [of m, where ?'a = nat] by (simp add: unsigned_ucast_eq take_bit_nat_eq_self)
  then show ?thesis by (simp add: unat_div)
qed

lemma new_retry_policy_Inr:
  assumes "new_retry_policy m i b t = Inr rp"
  shows "0 < unat m \<and> unat i \<le> unat b \<and> unat m * unat b \<le> unat t
    \<and> rp = \<lparr>rp_max_attempts = m, rp_backoff_initial = i, rp_backoff_max = b, rp_total_budget = t\<rparr>"
proof -
  from assms have m: "m \<noteq> 0" and i: "i \<le> b" and b: "b \<le> t div ucast m"
    and rp: "rp = \<lparr>rp_max_attempts = m, rp_backoff_initial = i, rp_backoff_max = b, rp_total_budget = t\<rparr>"
    by (auto simp: new_retry_policy_def Let_def split: if_splits)
  have m0: "0 < unat m" using m by (simp add: unat_gt_0)
  have "unat b \<le> unat t div unat m" using b unat_div_ucast [of t m] by (simp add: word_le_nat_alt)
  then have "unat m * unat b \<le> unat m * (unat t div unat m)" by simp
  also have "\<dots> \<le> unat t" by simp
  finally show ?thesis using m0 i rp by (simp add: word_le_nat_alt)
qed

text \<open>A retry policy that is accepted makes at least one attempt, never starts above its
  largest backoff, and its attempts, each at the largest backoff, fit the total budget
  without overflow.\<close>

theorem retry_policy_fits_budget:
  assumes "retry_policy_valid rp"
  shows "0 < unat (rp_max_attempts rp)
    \<and> unat (rp_backoff_initial rp) \<le> unat (rp_backoff_max rp)
    \<and> unat (rp_max_attempts rp) * unat (rp_backoff_max rp) \<le> unat (rp_total_budget rp)"
  using assms by (auto simp: retry_policy_valid_def dest!: new_retry_policy_Inr split: sum.splits)

theorem retry_policy_fits_budget_witness:
  "unat (3 :: u8) * unat (100 :: u32) \<le> unat (300 :: u32)"
  using retry_policy_fits_budget
    [of "\<lparr>rp_max_attempts = 3, rp_backoff_initial = 10, rp_backoff_max = 100, rp_total_budget = 300\<rparr>"]
  by (simp add: retry_policy_valid_def new_retry_policy_def)

end
