(* ===== verification/StageTrust.thy ===== *)
theory StageTrust
  imports Solution "HOL-Library.Multiset"
begin

text \<open>
  Stage 3.5 (variant resolution, \<open>s3_5_variant_resolution.rs\<close>), stage 4 (trust of external
  sources, \<open>s4_external_components.rs\<close>) and stage 5 (the \<open>esphome:\<close> block,
  \<open>s5_preload.rs\<close>).

  The lemmas show what the variant overlay does to the component list, which URLs pass the
  trust check, and when the \<open>esphome:\<close> block is accepted.
\<close>

section \<open>Stage 3.5: variant resolution\<close>

record variant_resolution =
  vr_solution_id :: "string option"
  vr_variant_id :: "string option"
  vr_active_flag_add :: "string list"
  vr_active_flag_remove :: "string list"

definition default_resolution :: variant_resolution where
  "default_resolution = \<lparr>vr_solution_id = None, vr_variant_id = None,
     vr_active_flag_add = [], vr_active_flag_remove = []\<rparr>"

definition empty_component :: "string \<Rightarrow> component_config" where
  "empty_component t = \<lparr>cc_type = t, cc_platform = None, cc_config = JObj []\<rparr>"

fun overlay_add :: "string list \<Rightarrow> component_config list \<Rightarrow> component_config list" where
  "overlay_add [] comps = comps"
| "overlay_add (t # ts) comps =
     overlay_add ts (if list_ex (\<lambda>c. cc_type c = t) comps then comps else comps @ [empty_component t])"

fun overlay_remove :: "string list \<Rightarrow> component_config list \<Rightarrow> component_config list" where
  "overlay_remove [] comps = comps"
| "overlay_remove (t # ts) comps =
     overlay_remove ts
       (case position (\<lambda>c. cc_type c = t) comps of Some pos \<Rightarrow> remove_nth pos comps | None \<Rightarrow> comps)"

definition available_variants :: "solution_def \<Rightarrow> string" where
  "available_variants sol = ''available variants: '' @ join '', '' (map sv_id (sd_variants sol))"

definition no_variants_declared :: "string \<Rightarrow> string \<Rightarrow> validation_error" where
  "no_variants_declared solution_id vid = vwarning VariantResolution ''esphome.solution_variant''
     (''solution '' @ quoted solution_id @ '' declares no variants '' @ [CHR 0xE2, CHR 0x80, CHR 0x94] @
      '' ignoring variant id '' @ quoted vid)"

definition variant_required :: "solution_def \<Rightarrow> string \<Rightarrow> validation_error" where
  "variant_required sol solution_id = with_suggestion (available_variants sol)
     (verror VariantResolution ''esphome.solution_variant''
       (''solution '' @ quoted solution_id @ '' requires a variant selection but `solution_variant` is not set''))"

definition variant_unknown :: "solution_def \<Rightarrow> string \<Rightarrow> string \<Rightarrow> validation_error" where
  "variant_unknown sol solution_id variant_id = with_suggestion (available_variants sol)
     (verror VariantResolution ''esphome.solution_variant''
       (''solution '' @ quoted solution_id @ '' does not declare a variant '' @ quoted variant_id))"

definition stage_3_5_resolve_variant ::
    "solution_registry \<Rightarrow> raw_config \<Rightarrow> raw_config \<times> variant_resolution \<times> validation_error list" where
  "stage_3_5_resolve_variant solutions config =
     (case eb_solution (rc_esphome config) of
        None \<Rightarrow> (config, default_resolution, [])
      | Some solution_id \<Rightarrow>
          let resolution = default_resolution\<lparr>vr_solution_id := Some solution_id\<rparr> in
          (case solutions solution_id of
             None \<Rightarrow> (config, resolution, [])
           | Some sol \<Rightarrow>
               let declared_variant = eb_variant (rc_esphome config) in
               if sd_variants sol = [] then
                 (config, resolution,
                  case declared_variant of Some vid \<Rightarrow> [no_variants_declared solution_id vid] | None \<Rightarrow> [])
               else
                 (case declared_variant of
                    None \<Rightarrow> (config, resolution, [variant_required sol solution_id])
                  | Some variant_id \<Rightarrow>
                      (case find (\<lambda>v. sv_id v = variant_id) (sd_variants sol) of
                         None \<Rightarrow> (config, resolution, [variant_unknown sol solution_id variant_id])
                       | Some variant \<Rightarrow>
                           (config\<lparr>rc_components :=
                              overlay_remove (sv_remove_components variant)
                                (overlay_add (sv_add_components variant) (rc_components config))\<rparr>,
                            resolution\<lparr>vr_variant_id := Some (sv_id variant),
                                       vr_active_flag_add := sv_active_flag_add variant,
                                       vr_active_flag_remove := sv_active_flag_remove variant\<rparr>,
                            [])))))"

section \<open>Stage 4: external sources\<close>

datatype dependency_source = EspressifRegistry | GitHub string | GitLab string | Gitee string | Local string

definition from_url :: "string \<Rightarrow> dependency_source" where
  "from_url url =
     (if url = [] \<or> starts_with ''.'' url \<or> starts_with ''/'' url then Local url
      else if contains ''github.com'' url then GitHub url
      else if contains ''gitlab.com'' url then GitLab url
      else if contains ''gitee.com'' url then Gitee url
      else if contains ''components.espressif.com'' url \<or> \<not> contains ''://'' url then EspressifRegistry
      else GitHub url)"

fun is_trusted_by_default :: "dependency_source \<Rightarrow> bool" where
  "is_trusted_by_default EspressifRegistry = True"
| "is_trusted_by_default (Local _) = True"
| "is_trusted_by_default _ = False"

fun source_label :: "dependency_source \<Rightarrow> string" where
  "source_label EspressifRegistry = ''espressif_registry''"
| "source_label (GitHub _) = ''github''"
| "source_label (GitLab _) = ''gitlab''"
| "source_label (Gitee _) = ''gitee''"
| "source_label (Local _) = ''local''"

type_synonym allow_list = "string list"

definition is_allowed :: "allow_list \<Rightarrow> string \<Rightarrow> bool" where
  "is_allowed allowed_prefixes url \<longleftrightarrow> list_ex (\<lambda>p. starts_with p url) allowed_prefixes"

definition untrusted_source :: "string \<Rightarrow> string \<Rightarrow> validation_error" where
  "untrusted_source url path =
     with_suggestion ''Add the URL prefix to AllowList::allow_prefix() to permit it''
       (verror ExternalComponents path
         (''untrusted external source '' @ quoted url @ '' ('' @ source_label (from_url url) @
          '') requires explicit allow-list entry''))"

definition check_url :: "allow_list \<Rightarrow> string \<Rightarrow> string \<Rightarrow> validation_error list" where
  "check_url allow path url =
     (if is_trusted_by_default (from_url url) then []
      else if is_allowed allow url then []
      else [untrusted_source url path])"

definition check_framework :: "allow_list \<Rightarrow> esphome_block \<Rightarrow> validation_error list" where
  "check_framework allow esphome =
     (case eb_framework esphome of
        None \<Rightarrow> []
      | Some fw \<Rightarrow>
          concat (map (\<lambda>(idx, dep).
              case ic_git dep of
                Some git_url \<Rightarrow>
                  check_url allow (''esphome.framework.components['' @ show_nat idx @ '']'') git_url
              | None \<Rightarrow> [])
            (enumerated (fc_components fw))))"

definition check_component_urls :: "allow_list \<Rightarrow> nat \<Rightarrow> component_config \<Rightarrow> validation_error list" where
  "check_component_urls allow i c =
     (let path = ''components['' @ show_nat i @ '']'' in
      (case get_str ''git'' (cc_config c) of
         Some git_url \<Rightarrow> check_url allow (path @ ''.git'') git_url | None \<Rightarrow> []) @
      (case get_str ''url'' (cc_config c) of
         Some url \<Rightarrow> check_url allow (path @ ''.url'') url | None \<Rightarrow> []))"

definition stage_4_resolve_external_components :: "allow_list \<Rightarrow> raw_config \<Rightarrow> validation_error list" where
  "stage_4_resolve_external_components allow config =
     check_framework allow (rc_esphome config) @
     concat (map (\<lambda>(i, c). check_component_urls allow i c) (enumerated (rc_components config)))"

section \<open>Stage 5: the esphome block\<close>

datatype framework_type = EspIdf | Arduino

record preload_context =
  pc_chip_target :: chip_target
  pc_board :: string
  pc_framework_type :: framework_type
  pc_framework_version :: "string option"

text \<open>\<open>to_lowercase().replace('-', "")\<close>.\<close>

definition normalize_name :: "string \<Rightarrow> string" where
  "normalize_name s = filter (\<lambda>c. c \<noteq> CHR ''-'') (to_lower s)"

definition parse_platform :: "string \<Rightarrow> chip_target option" where
  "parse_platform p =
     (let s = normalize_name p in
      if s = ''esp32'' then Some Esp32
      else if s = ''esp32s2'' then Some Esp32S2
      else if s = ''esp32s3'' \<or> s = ''esp32s3box'' \<or> s = ''esp32s3n8r8'' then Some Esp32S3
      else if s = ''esp32c3'' then Some Esp32C3
      else if s = ''esp32c5'' then Some Esp32C5
      else if s = ''esp32c6'' then Some Esp32C6
      else if s = ''esp32h2'' then Some Esp32H2
      else if s = ''esp32p4'' then Some Esp32P4
      else None)"

definition parse_framework :: "string \<Rightarrow> framework_type option" where
  "parse_framework p =
     (let s = normalize_name p in
      if s = ''espidf'' \<or> s = ''idf'' then Some EspIdf
      else if s = ''arduino'' then Some Arduino
      else None)"

definition unsupported_platform :: "string \<Rightarrow> validation_error" where
  "unsupported_platform p =
     with_suggestion ''rshome supports ESP32, ESP32-S3, and ESP32-C6 targets only''
       (verror Preload ''esphome.platform''
         (''unsupported platform '' @ quoted (normalize_name p) @
          ''; supported: esp32, esp32s2, esp32s3, esp32c3, esp32c5, esp32c6, esp32h2, esp32p4''))"

definition unknown_framework :: "string \<Rightarrow> validation_error" where
  "unknown_framework p = verror Preload ''esphome.framework.type''
     (''unknown framework type '' @ quoted (normalize_name p) @ ''; supported: esp-idf, arduino'')"

definition resolve_framework :: "framework_config option \<Rightarrow> framework_type \<times> string option \<times> validation_error list" where
  "resolve_framework fw =
     (case fw of
        None \<Rightarrow> (EspIdf, None, [])
      | Some f \<Rightarrow>
          (case parse_framework (fc_type f) of
             Some ft \<Rightarrow> (ft, fc_version f, [])
           | None \<Rightarrow> (EspIdf, fc_version f, [unknown_framework (fc_type f)])))"

definition stage_5_preload_esphome_block :: "raw_config \<Rightarrow> validation_error list + preload_context" where
  "stage_5_preload_esphome_block config =
     (let esphome = rc_esphome config;
          name_errs = (if trim (eb_name esphome) = []
                       then [verror Preload ''esphome.name'' ''device name must not be empty''] else []);
          chip_target = parse_platform (eb_platform esphome);
          chip_errs = (if chip_target = None then [unsupported_platform (eb_platform esphome)] else []);
          board_errs = (if trim (eb_board esphome) = []
                        then [verror Preload ''esphome.board'' ''board identifier must not be empty''] else []);
          (framework_type, framework_version, fw_errs) = resolve_framework (eb_framework esphome);
          errors = name_errs @ chip_errs @ board_errs @ fw_errs
      in if errors \<noteq> [] then Inl errors
         else Inr \<lparr>pc_chip_target = the chip_target, pc_board = eb_board esphome,
                   pc_framework_type = framework_type, pc_framework_version = framework_version\<rparr>)"

section \<open>The variant overlay\<close>

abbreviation comp_types :: "component_config list \<Rightarrow> string list" where
  "comp_types cs \<equiv> map cc_type cs"

lemma cc_type_empty [simp]: "cc_type (empty_component t) = t"
  by (simp add: empty_component_def)

lemma overlay_add_closed:
  "\<exists>xs. overlay_add ts comps = comps @ map empty_component xs \<and> distinct xs
        \<and> set xs = set ts - set (comp_types comps)"
proof (induction ts arbitrary: comps)
  case Nil
  show ?case by simp
next
  case (Cons t ts)
  show ?case
  proof (cases "t \<in> set (comp_types comps)")
    case True
    then have "list_ex (\<lambda>c. cc_type c = t) comps" by (auto simp: list_ex_iff)
    with Cons [of comps] True show ?thesis by auto
  next
    case False
    then have "\<not> list_ex (\<lambda>c. cc_type c = t) comps" by (auto simp: list_ex_iff)
    moreover from Cons [of "comps @ [empty_component t]"] obtain xs
      where "overlay_add ts (comps @ [empty_component t]) = comps @ map empty_component (t # xs)"
        and "distinct xs" and "set xs = set ts - insert t (set (comp_types comps))"
      by auto
    ultimately show ?thesis using False by (intro exI [of _ "t # xs"]) auto
  qed
qed

lemma mset_remove_nth: "i < length xs \<Longrightarrow> mset (remove_nth i xs) = mset xs - {#xs ! i#}"
  unfolding remove_nth_def by (subst (2) id_take_nth_drop [of i xs]) simp_all

lemma subseq_remove_nth: "subseq (remove_nth i xs) xs"
  unfolding remove_nth_def by (metis append_take_drop_id list_emb_append_mono suffix_drop
      suffix_imp_subseq drop_Suc drop_drop plus_1_eq_Suc subseq_order.order_refl)

lemma overlay_remove_closed:
  "mset (comp_types (overlay_remove ts comps)) = mset (comp_types comps) - mset ts
   \<and> subseq (overlay_remove ts comps) comps"
proof (induction ts arbitrary: comps)
  case (Cons t ts)
  show ?case
  proof (cases "position (\<lambda>c. cc_type c = t) comps")
    case None
    then have "t \<notin># mset (comp_types comps)" by (auto simp: position_None)
    with Cons [of comps] None show ?thesis by (simp add: diff_single_trivial)
  next
    case (Some i)
    then have i: "i < length comps" "cc_type (comps ! i) = t" by (simp_all add: position_Some)
    have "mset (comp_types (remove_nth i comps)) = mset (comp_types comps) - {#t#}"
      using i mset_remove_nth [of i "comp_types comps"] by (simp add: remove_nth_def take_map drop_map)
    with Cons [of "remove_nth i comps"] Some show ?thesis
      using subseq_order.order_trans [OF _ subseq_remove_nth [of i comps]] by simp
  qed
qed simp

lemma stage_3_5_unresolved:
  assumes "stage_3_5_resolve_variant solutions config = (config', resolution, errors)"
    and "vr_variant_id resolution = None"
  shows "config' = config"
  using assms by (auto simp: stage_3_5_resolve_variant_def default_resolution_def Let_def
      split: option.splits if_splits)

lemma stage_3_5_resolved:
  assumes "stage_3_5_resolve_variant solutions config = (config', resolution, errors)"
    and "vr_variant_id resolution = Some v"
  obtains sol variant w where "Option.bind (eb_solution (rc_esphome config)) solutions = Some sol"
    and "eb_variant (rc_esphome config) = Some w"
    and "find (\<lambda>x. sv_id x = w) (sd_variants sol) = Some variant" and "sv_id variant = v"
    and "errors = []" and "rc_components config' = overlay_remove (sv_remove_components variant)
          (overlay_add (sv_add_components variant) (rc_components config))"
  using assms by (auto simp: stage_3_5_resolve_variant_def default_resolution_def Let_def
      split: option.splits if_splits)

section \<open>The trust check, per URL\<close>

definition external_urls :: "raw_config \<Rightarrow> string list" where
  "external_urls config =
     (case eb_framework (rc_esphome config) of
        None \<Rightarrow> [] | Some fw \<Rightarrow> List.map_filter ic_git (fc_components fw)) @
     List.map_filter (\<lambda>c. get_str ''git'' (cc_config c)) (rc_components config) @
     List.map_filter (\<lambda>c. get_str ''url'' (cc_config c)) (rc_components config)"

lemma trusted_iff:
  "is_trusted_by_default (from_url url) \<longleftrightarrow>
     url = [] \<or> starts_with ''.'' url \<or> starts_with ''/'' url \<or>
     (\<not> contains ''github.com'' url \<and> \<not> contains ''gitlab.com'' url \<and> \<not> contains ''gitee.com'' url
      \<and> (contains ''components.espressif.com'' url \<or> \<not> contains ''://'' url))"
  by (simp add: from_url_def)

lemma check_url_Nil: "check_url allow path url = [] \<longleftrightarrow> is_trusted_by_default (from_url url) \<or> is_allowed allow url"
  by (simp add: check_url_def)

lemma ball_enumerated:
  "(\<forall>p \<in> set (enumerated xs). P (fst p) (snd p)) \<longleftrightarrow> (\<forall>i < length xs. P i (xs ! i))"
  by (auto simp: Ball_def set_enumerated split_paired_All)

lemma stage_4_fatal: "e \<in> set (stage_4_resolve_external_components allow config) \<Longrightarrow> is_fatal e \<and> ve_stage e = ExternalComponents"
  by (auto simp: stage_4_resolve_external_components_def check_framework_def check_component_urls_def
      check_url_def untrusted_source_def Let_def split: option.splits if_splits)

lemma check_framework_Nil:
  "check_framework allow esphome = [] \<longleftrightarrow>
    (\<forall>fw. eb_framework esphome = Some fw \<longrightarrow>
       (\<forall>u \<in> set (List.map_filter ic_git (fc_components fw)).
          is_trusted_by_default (from_url u) \<or> is_allowed allow u))"
proof (cases "eb_framework esphome")
  case (Some fw)
  have "check_framework allow esphome = [] \<longleftrightarrow>
      (\<forall>p \<in> set (enumerated (fc_components fw)). \<forall>u. ic_git (snd p) = Some u \<longrightarrow>
         is_trusted_by_default (from_url u) \<or> is_allowed allow u)"
    by (auto simp: check_framework_def Some check_url_Nil split: option.splits)
  also have "\<dots> \<longleftrightarrow> (\<forall>i < length (fc_components fw). \<forall>u. ic_git (fc_components fw ! i) = Some u \<longrightarrow>
         is_trusted_by_default (from_url u) \<or> is_allowed allow u)"
    by (rule ball_enumerated)
  also have "\<dots> \<longleftrightarrow> (\<forall>u \<in> set (List.map_filter ic_git (fc_components fw)).
          is_trusted_by_default (from_url u) \<or> is_allowed allow u)"
    by (auto simp: List.map_filter_def all_set_conv_all_nth [symmetric] in_set_conv_nth)
  finally show ?thesis by (simp add: Some)
qed (simp add: check_framework_def)

lemma check_components_Nil:
  "concat (map (\<lambda>(i, c). check_component_urls allow i c) (enumerated comps)) = [] \<longleftrightarrow>
    (\<forall>u \<in> set (List.map_filter (\<lambda>c. get_str ''git'' (cc_config c)) comps @
                List.map_filter (\<lambda>c. get_str ''url'' (cc_config c)) comps).
       is_trusted_by_default (from_url u) \<or> is_allowed allow u)"
proof -
  have one: "check_component_urls allow i c = [] \<longleftrightarrow>
      (\<forall>k \<in> {''git'', ''url''}. \<forall>u. get_str k (cc_config c) = Some u \<longrightarrow>
         is_trusted_by_default (from_url u) \<or> is_allowed allow u)" for i c
    by (auto simp: check_component_urls_def check_url_Nil Let_def split: option.splits)
  have "concat (map (\<lambda>(i, c). check_component_urls allow i c) (enumerated comps)) = [] \<longleftrightarrow>
      (\<forall>p \<in> set (enumerated comps). check_component_urls allow (fst p) (snd p) = [])"
    by (auto simp: split_beta)
  also have "\<dots> \<longleftrightarrow> (\<forall>i < length comps. check_component_urls allow i (comps ! i) = [])"
    by (rule ball_enumerated)
  also have "\<dots> \<longleftrightarrow> (\<forall>c \<in> set comps. \<forall>k \<in> {''git'', ''url''}. \<forall>u. get_str k (cc_config c) = Some u \<longrightarrow>
         is_trusted_by_default (from_url u) \<or> is_allowed allow u)"
    unfolding one by (metis in_set_conv_nth)
  also have "\<dots> \<longleftrightarrow> (\<forall>u \<in> set (List.map_filter (\<lambda>c. get_str ''git'' (cc_config c)) comps @
                List.map_filter (\<lambda>c. get_str ''url'' (cc_config c)) comps).
       is_trusted_by_default (from_url u) \<or> is_allowed allow u)"
    by (simp add: Ball_def set_map_filter) blast
  finally show ?thesis .
qed

section \<open>Properties\<close>

text \<open>A resolved variant turns the component list into the user's list followed by one
  empty component for each added type that was missing, from which the variant's removals
  have been dropped one occurrence each; the order of what stays does not change. Without
  a resolved variant the configuration is untouched.\<close>

theorem variant_overlay:
  assumes "stage_3_5_resolve_variant solutions config = (config', resolution, errors)"
  shows "case vr_variant_id resolution of
      None \<Rightarrow> config' = config
    | Some v \<Rightarrow> errors = [] \<and> eb_variant (rc_esphome config) = Some v \<and>
        (\<exists>sol variant added.
           Option.bind (eb_solution (rc_esphome config)) solutions = Some sol \<and>
           variant \<in> set (sd_variants sol) \<and> sv_id variant = v \<and>
           distinct added \<and>
           set added = set (sv_add_components variant) - set (comp_types (rc_components config)) \<and>
           subseq (rc_components config') (rc_components config @ map empty_component added) \<and>
           mset (comp_types (rc_components config')) =
             mset (comp_types (rc_components config)) + mset added - mset (sv_remove_components variant))"
proof (cases "vr_variant_id resolution")
  case None
  with stage_3_5_unresolved [OF assms] show ?thesis by simp
next
  case (Some v)
  from stage_3_5_resolved [OF assms Some] obtain sol variant w
    where sol: "Option.bind (eb_solution (rc_esphome config)) solutions = Some sol"
    and w: "eb_variant (rc_esphome config) = Some w" "sv_id variant = v"
    and f: "find (\<lambda>x. sv_id x = w) (sd_variants sol) = Some variant"
    and e: "errors = []"
    and c: "rc_components config' = overlay_remove (sv_remove_components variant)
          (overlay_add (sv_add_components variant) (rc_components config))"
    by blast
  obtain added where a: "overlay_add (sv_add_components variant) (rc_components config) =
      rc_components config @ map empty_component added" "distinct added"
      "set added = set (sv_add_components variant) - set (comp_types (rc_components config))"
    using overlay_add_closed by blast
  have "comp_types (map empty_component added) = added" by (simp add: o_def)
  then have m: "mset (comp_types (rc_components config')) =
      mset (comp_types (rc_components config)) + mset added - mset (sv_remove_components variant)"
    and q: "subseq (rc_components config') (rc_components config @ map empty_component added)"
    using overlay_remove_closed [of "sv_remove_components variant" "rc_components config @ map empty_component added"]
    unfolding c a(1) by (simp_all only: map_append mset_append)
  show ?thesis unfolding Some option.case
    using sol find_Some_mem [OF f] w e a(2,3) q m by blast
qed

theorem variant_overlay_witness:
  "let v = \<lparr>sv_id = ''a'', sv_add_components = [''b''], sv_remove_components = [], sv_active_flag_add = [],
            sv_active_flag_remove = []\<rparr>;
       sol = \<lparr>sd_id = ''s'', sd_fixed_orchestration = [], sd_variants = [v],
              sd_bundle = \<lparr>cb_required = [], cb_optional = []\<rparr>, sd_watchdog_ms = None\<rparr>;
       esphome = minimal_esphome\<lparr>eb_solution := Some ''s'', eb_variant := Some ''a''\<rparr>;
       config = \<lparr>rc_esphome = esphome, rc_packages = [], rc_subs = Map.empty, rc_components = []\<rparr>
   in mset (comp_types (rc_components (fst (stage_3_5_resolve_variant [''s'' \<mapsto> sol] config)))) = {#''b''#}"
proof -
  define v where "v = \<lparr>sv_id = ''a'', sv_add_components = [''b''], sv_remove_components = [],
      sv_active_flag_add = [], sv_active_flag_remove = []\<rparr>"
  define sol where "sol = \<lparr>sd_id = ''s'', sd_fixed_orchestration = [], sd_variants = [v],
      sd_bundle = \<lparr>cb_required = [], cb_optional = []\<rparr>, sd_watchdog_ms = None\<rparr>"
  define config where "config = \<lparr>rc_esphome = minimal_esphome\<lparr>eb_solution := Some ''s'', eb_variant := Some ''a''\<rparr>,
      rc_packages = [], rc_subs = Map.empty, rc_components = []\<rparr>"
  define config' where "config' = config\<lparr>rc_components := [empty_component ''b'']\<rparr>"
  define res where "res = \<lparr>vr_solution_id = Some ''s'', vr_variant_id = Some ''a'', vr_active_flag_add = [],
      vr_active_flag_remove = []\<rparr>"
  have run: "stage_3_5_resolve_variant [''s'' \<mapsto> sol] config = (config', res, [])"
    by (simp add: stage_3_5_resolve_variant_def config_def config'_def sol_def v_def res_def default_resolution_def)
  obtain added where "distinct added" "set added = {''b''}"
    "mset (comp_types (rc_components config')) = mset added"
    using variant_overlay [OF run] by (auto simp: res_def config_def sol_def v_def)
  moreover from this have "mset added = mset_set {''b''}" by (metis mset_set_set)
  ultimately have "mset (comp_types (rc_components config')) = {#''b''#}" by simp
  then show ?thesis using run by (simp add: v_def sol_def config_def config'_def Let_def)
qed

text \<open>Stage 4 stops the pipeline exactly when some git dependency of the framework or some
  \<open>git\<close> or \<open>url\<close> field of a component is neither a local path, nor trusted by its text, nor
  covered by a prefix of the allow list.\<close>

theorem stage_4_passes_iff:
  "no_fatal (stage_4_resolve_external_components allow config) \<longleftrightarrow>
    (\<forall>u \<in> set (external_urls config).
       u = [] \<or> starts_with ''.'' u \<or> starts_with ''/'' u \<or>
       (\<not> contains ''github.com'' u \<and> \<not> contains ''gitlab.com'' u \<and> \<not> contains ''gitee.com'' u
        \<and> (contains ''components.espressif.com'' u \<or> \<not> contains ''://'' u)) \<or>
       (\<exists>p \<in> set allow. starts_with p u))"
proof -
  have allowed: "is_allowed allow u \<longleftrightarrow> (\<exists>p \<in> set allow. starts_with p u)" for u
    by (simp add: is_allowed_def list_ex_iff)
  have "no_fatal (stage_4_resolve_external_components allow config) \<longleftrightarrow>
      stage_4_resolve_external_components allow config = []"
    using stage_4_fatal by (metis list.set_intros(1) neq_Nil_conv empty_iff list.set(1))
  also have "\<dots> \<longleftrightarrow> (\<forall>u \<in> set (external_urls config).
      is_trusted_by_default (from_url u) \<or> is_allowed allow u)"
    unfolding stage_4_resolve_external_components_def append_is_Nil_conv check_framework_Nil
      check_components_Nil external_urls_def set_append
    by (cases "eb_framework (rc_esphome config)") auto
  finally show ?thesis unfolding trusted_iff allowed by blast
qed

theorem stage_4_passes_iff_witness:
  "filter is_fatal (stage_4_resolve_external_components [''https://github.com/me/'']
     \<lparr>rc_esphome = minimal_esphome, rc_packages = [], rc_subs = Map.empty,
      rc_components = [\<lparr>cc_type = ''x'', cc_platform = None, cc_config = JObj
        [(''git'', JStr ''https://github.com/me/x''), (''url'', JStr ''./local'')]\<rparr>]\<rparr>) = []"
  unfolding filter_empty_conv by (subst stage_4_passes_iff) (simp add: external_urls_def List.map_filter_def get_str_def json_get_def minimal_esphome_def)

text \<open>The check looks for the registry's host anywhere in the text: any URL that carries
  \<open>components.espressif.com\<close> behind a foreign host, and any address without a scheme, is
  taken for the official registry and needs no allow entry.\<close>

theorem foreign_url_trusted:
  assumes "eb_framework (rc_esphome config) = None"
    and "rc_components config = [c]"
    and "get_str ''git'' (cc_config c) = Some (''https://'' @ host @ ''/?components.espressif.com'')"
    and "get_str ''url'' (cc_config c) = Some (''git@'' @ host @ '':x/y'')"
    and "\<forall>h \<in> {''github.com'', ''gitlab.com'', ''gitee.com''}.
        \<not> contains h (''https://'' @ host @ ''/?components.espressif.com'') \<and> \<not> contains h (''git@'' @ host @ '':x/y'')"
    and "\<not> contains ''://'' (''git@'' @ host @ '':x/y'')"
  shows "stage_4_resolve_external_components [] config = []"
proof -
  have "contains ''components.espressif.com'' (''https://'' @ host @ ''/?components.espressif.com'')"
    by (simp add: contains_iff sublist_def) (metis append_Cons append_Nil append_assoc append_Nil2)
  with assms have "check_url [] p (''https://'' @ host @ ''/?components.espressif.com'') = []"
    and "check_url [] p (''git@'' @ host @ '':x/y'') = []" for p
    by (simp_all add: check_url_Nil trusted_iff)
  with assms(1-4) show ?thesis
    by (simp add: stage_4_resolve_external_components_def check_framework_def check_component_urls_def enumerated_def)
qed

theorem foreign_url_trusted_witness:
  "stage_4_resolve_external_components []
     \<lparr>rc_esphome = minimal_esphome, rc_packages = [], rc_subs = Map.empty,
      rc_components = [\<lparr>cc_type = ''x'', cc_platform = None, cc_config = JObj
        [(''git'', JStr (''https://'' @ ''evil.example'' @ ''/?components.espressif.com'')),
         (''url'', JStr (''git@'' @ ''evil.example'' @ '':x/y''))]\<rparr>]\<rparr> = []"
  by (rule foreign_url_trusted [where host = "''evil.example''" and
        c = "\<lparr>cc_type = ''x'', cc_platform = None, cc_config = JObj
        [(''git'', JStr (''https://'' @ ''evil.example'' @ ''/?components.espressif.com'')),
         (''url'', JStr (''git@'' @ ''evil.example'' @ '':x/y''))]\<rparr>"])
     (simp_all add: get_str_def json_get_def contains_def minimal_esphome_def)

text \<open>Stage 5 accepts the \<open>esphome:\<close> block exactly when name and board are not blank and
  platform and framework are known, and then hands on the parsed values; every chip target
  is accepted under its IDF name except the ESP32-C2 and the ESP32-C61.\<close>

theorem stage_5_accepts_iff:
  "((\<exists>ctx. stage_5_preload_esphome_block config = Inr ctx) \<longleftrightarrow>
      trim (eb_name (rc_esphome config)) \<noteq> [] \<and> trim (eb_board (rc_esphome config)) \<noteq> [] \<and>
      parse_platform (eb_platform (rc_esphome config)) \<noteq> None \<and>
      (case eb_framework (rc_esphome config) of None \<Rightarrow> True | Some fw \<Rightarrow> parse_framework (fc_type fw) \<noteq> None))
   \<and> (case stage_5_preload_esphome_block config of
        Inr ctx \<Rightarrow> parse_platform (eb_platform (rc_esphome config)) = Some (pc_chip_target ctx)
          \<and> pc_board ctx = eb_board (rc_esphome config)
      | Inl errors \<Rightarrow> errors \<noteq> [] \<and> list_all (\<lambda>e. is_fatal e \<and> ve_stage e = Preload) errors)
   \<and> parse_platform (to_idf_target t) = (if t = Esp32C2 \<or> t = Esp32C61 then None else Some t)"
proof (intro conjI)
  show "parse_platform (to_idf_target t) = (if t = Esp32C2 \<or> t = Esp32C61 then None else Some t)"
    by (cases t) (simp_all add: parse_platform_def normalize_name_def to_lower_def lower_char_def)
qed (auto simp: stage_5_preload_esphome_block_def resolve_framework_def unsupported_platform_def
      unknown_framework_def Let_def split: option.splits prod.splits)

end
