(* ===== verification/Maps.thy ===== *)
theory Maps
  imports Prelude
begin

text \<open>
  \<open>HashMap\<close> as an association list with different keys. The order of the list stands for
  the iteration order, which the code never relies on; insertion replaces in place.
\<close>

fun reg_insert :: "'k \<Rightarrow> 'v \<Rightarrow> ('k \<times> 'v) list \<Rightarrow> ('k \<times> 'v) list" where
  "reg_insert k v [] = [(k, v)]"
| "reg_insert k v ((l, w) # m) = (if k = l then (k, v) # m else (l, w) # reg_insert k v m)"

definition reg_remove :: "'k \<Rightarrow> ('k \<times> 'v) list \<Rightarrow> ('k \<times> 'v) list" where
  "reg_remove k m = filter (\<lambda>p. fst p \<noteq> k) m"

lemma map_of_reg_insert [simp]: "map_of (reg_insert k v m) = (map_of m)(k \<mapsto> v)"
  by (induction k v m rule: reg_insert.induct) auto

lemma reg_insert_new: "k \<notin> fst ` set m \<Longrightarrow> reg_insert k v m = m @ [(k, v)]"
  by (induction k v m rule: reg_insert.induct) auto

lemma keys_reg_insert: "set (map fst (reg_insert k v m)) = insert k (set (map fst m))"
  by (induction k v m rule: reg_insert.induct) auto

lemma distinct_reg_insert: "distinct (map fst m) \<Longrightarrow> distinct (map fst (reg_insert k v m))"
proof (induction k v m rule: reg_insert.induct)
  case (2 k v l w m)
  then show ?case using keys_reg_insert [of k v m] by auto
qed simp

lemma map_of_reg_remove [simp]: "map_of (reg_remove k m) = (map_of m)(k := None)"
  by (induction m) (auto simp: reg_remove_def)

lemma keys_reg_remove: "set (map fst (reg_remove k m)) = set (map fst m) - {k}"
  by (auto simp: reg_remove_def)

lemma distinct_reg_remove: "distinct (map fst m) \<Longrightarrow> distinct (map fst (reg_remove k m))"
  by (simp add: reg_remove_def distinct_map_filter)

lemma set_reg_insert: "distinct (map fst m) \<Longrightarrow> set (reg_insert k v m) = insert (k, v) {p \<in> set m. fst p \<noteq> k}"
  by (induction k v m rule: reg_insert.induct) (auto simp: rev_image_eqI)

lemma set_reg_remove [simp]: "set (reg_remove k m) = {p \<in> set m. fst p \<noteq> k}"
  by (auto simp: reg_remove_def)

lemma length_reg_insert: "length (reg_insert k v m) = (if k \<in> fst ` set m then length m else Suc (length m))"
  by (induction k v m rule: reg_insert.induct) auto

lemma length_reg_remove: "length (reg_remove k m) \<le> length m"
  by (simp add: reg_remove_def)

lemma map_of_remove_all: "map_of (fold reg_remove ks m) k = (if k \<in> set ks then None else map_of m k)"
  by (induction ks arbitrary: m) auto

lemma length_remove_all: "length (fold reg_remove ks m) \<le> length m"
  by (induction ks arbitrary: m) (auto intro: order_trans [OF _ length_reg_remove])

lemma distinct_remove_all: "distinct (map fst m) \<Longrightarrow> distinct (map fst (fold reg_remove ks m))"
  by (induction ks arbitrary: m) (auto simp: distinct_reg_remove)

lemma reg_insert_subset: "set (reg_insert k v m) \<subseteq> insert (k, v) (set m)"
  by (induction k v m rule: reg_insert.induct) auto

lemma reg_insert_all: "P (k, v) \<Longrightarrow> \<forall>e \<in> set m. P e \<Longrightarrow> \<forall>e \<in> set (reg_insert k v m). P e"
  using reg_insert_subset [of k v m] by blast

lemma reg_insert_key: "k \<in> fst ` set m \<Longrightarrow> k \<in> fst ` set (reg_insert l v m)"
  using keys_reg_insert [of l v m] by auto

end
