(* ===== verification/Registry.thy ===== *)
theory Registry
  imports Solution Maps
begin

text \<open>
  The component registry of \<open>rshome-schema\<close> (\<open>registry.rs\<close>), the feature flags computed from
  it (\<open>feature_flags.rs\<close>) and the profile registry (\<open>profile.rs\<close>). A registry is an
  association list without duplicate keys; its order stands for the iteration order of
  the \<open>HashMap\<close>, which only the hint of an unknown component depends on. The signal-flow
  annotations of a component (\<open>interaction\<close>) and, of its platform binding, everything but
  the supported targets are left out: no validation stage reads them.

  The lemmas show that the AUTO_LOAD expansion terminates and computes exactly the
  components reachable from the selection, and that the registry shipped with the crate
  is closed under the references the stages follow.
\<close>

section \<open>Component definitions\<close>

datatype entity_type = ET_Sensor | ET_BinarySensor | ET_Switch | ET_Number | ET_Select | ET_Text
  | ET_Button | ET_Event | ET_Light | ET_Climate | ET_Fan | ET_Cover | ET_Lock | ET_MediaPlayer
  | ET_AlarmControlPanel | ET_TextSensor

datatype instance_policy = Singleton | ExclusiveGroupPolicy string | MultiInstance

datatype config_mode = CompileTimeOnly | RuntimeMutable

record component_definition =
  cd_id :: string
  cd_description :: string
  cd_is_family :: bool
  cd_child_components :: "string list"
  cd_auto_load :: "string list"
  cd_dependencies :: "string list"
  cd_conflicts_with :: "string list"
  cd_entity_type :: "entity_type option"
  cd_exclusive_group :: "string option"
  cd_instance_policy :: instance_policy
  cd_config_mode :: config_mode
  cd_secret_fields :: "string list"
  cd_supported_targets :: "chip_target list option"

definition default_def :: component_definition where
  "default_def = \<lparr>cd_id = [], cd_description = [], cd_is_family = False, cd_child_components = [],
     cd_auto_load = [], cd_dependencies = [], cd_conflicts_with = [], cd_entity_type = None,
     cd_exclusive_group = None, cd_instance_policy = MultiInstance, cd_config_mode = RuntimeMutable,
     cd_secret_fields = [], cd_supported_targets = None\<rparr>"

definition all_targets :: "chip_target list" where
  "all_targets = [Esp32, Esp32S2, Esp32S3, Esp32C2, Esp32C3, Esp32C5, Esp32C6, Esp32C61, Esp32H2, Esp32P4]"

definition default_descriptions :: "(string \<times> string) list" where
  "default_descriptions = [
    (''sensor'', ''Parent platform for measurement-oriented sensor entities.''),
    (''binary_sensor'', ''Parent platform for on/off, occupancy, and contact-style entities.''),
    (''switch'', ''Parent platform for controllable on/off outputs.''),
    (''number'', ''Parent platform for numeric values that can be adjusted at runtime.''),
    (''select'', ''Parent platform for selecting one option from a predefined list.''),
    (''text'', ''Parent platform for writable text-based values.''),
    (''button'', ''Parent platform for stateless action buttons.''),
    (''event'', ''Parent platform for transient event emitters.''),
    (''light'', ''Parent platform for dimmable and color-capable light entities.''),
    (''climate'', ''Parent platform for HVAC and thermostat-style controllers.''),
    (''fan'', ''Parent platform for fan speed and direction control.''),
    (''cover'', ''Parent platform for blinds, shutters, and other covers.''),
    (''lock'', ''Parent platform for smart locks and latching actuators.''),
    (''media_player'', ''Parent platform for audio playback and media transport.''),
    (''alarm_control_panel'', ''Parent platform for arming and alarm-state control.''),
    (''text_sensor'', ''Parent platform for read-only text state and diagnostics.''),
    (''wifi'', ''Wi-Fi networking stack for station and provisioning flows.''),
    (''ethernet'', ''Wired networking stack for Ethernet-connected devices.''),
    (''api'', ''Native API server for Home Assistant and other clients.''),
    (''mqtt'', ''MQTT transport for broker-based automation and telemetry.''),
    (''ota'', ''Over-the-air firmware updates delivered across the network.''),
    (''logger'', ''Serial and runtime logging for diagnostics.''),
    (''time'', ''System time services for schedules, clocks, and timestamps.''),
    (''i2c'', ''Shared I2C bus support for digital peripherals.''),
    (''spi'', ''Shared SPI bus support for high-speed peripherals.''),
    (''uart'', ''Shared UART bus support for serial peripherals.''),
    (''deep_sleep'', ''Low-power deep sleep controller for battery-powered devices.''),
    (''restart'', ''Restart action and reboot control component.''),
    (''dht'', ''Single-bus temperature and humidity sensor such as DHT11 or DHT22.''),
    (''bme280_i2c'', ''I2C temperature, humidity, and pressure sensor.''),
    (''bme680_bsec'', ''I2C air-quality sensor with temperature, humidity, pressure, and gas readings.''),
    (''sht3x'', ''I2C temperature and humidity sensor from Sensirion.''),
    (''ds18x20'', ''1-Wire temperature sensor family such as DS18B20.''),
    (''adc'', ''Analog-to-digital input for voltage and sensor measurements.''),
    (''pulse_counter'', ''Pulse counter for meters, hall sensors, and reed switches.''),
    (''ultrasonic'', ''Distance sensor driven by trigger and echo GPIO pins.''),
    (''htu21d'', ''I2C temperature and humidity sensor from TE Connectivity.''),
    (''rotary_encoder'', ''Rotary encoder input for knobs, dials, and position tracking.''),
    (''bh1750'', ''I2C ambient light sensor that reports illuminance in lux.''),
    (''gpio'', ''GPIO-backed digital input or output component.''),
    (''status'', ''Binary sensor that reflects the device online and health state.''),
    (''esp32_touch'', ''Capacitive touch binary sensor for ESP32 touch-capable pins.''),
    (''neopixelbus'', ''Addressable LED strip or pixel light driven through NeoPixelBus.''),
    (''fastled_clockless'', ''Clockless addressable LED strip light driven through FastLED.''),
    (''thermostat'', ''Thermostat climate controller with setpoints and hysteresis.''),
    (''bang_bang'', ''Simple on/off climate controller for heating or cooling.''),
    (''pid'', ''PID-based climate controller for closed-loop temperature control.''),
    (''time_based'', ''Cover controller that estimates position from travel time.''),
    (''i2s_audio'', ''I2S audio output pipeline for speaker or DAC playback.''),
    (''esp32_hall'', ''ESP32 internal hall-effect sensor.''),
    (''sigrok'', ''sigrok-compatible logic analyzer (SUMP/OLS wire protocol, ESP32-S3 LCD_CAM).''),
    (''ld2410'', ''Hi-Link LD2410/LD2420 mmWave presence and distance sensor over UART.''),
    (''ct_clamp'', ''Current-transformer clamp input driven through an ADC + burden resistor.''),
    (''pms5003'', ''Plantower PMS5003/PMS7003 particulate-matter (PM1.0/2.5/10) sensor over UART.''),
    (''scd40'', ''Sensirion SCD40/SCD41 photoacoustic CO'' @ [CHR 0xE2] @ [CHR 0x82] @ [CHR 0x82] @ '', temperature, and humidity sensor (I'' @ [CHR 0xC2] @ [CHR 0xB2] @ ''C).''),
    (''sx1302'', ''Semtech SX1302/SX1303 LoRaWAN 8-channel concentrator over SPI.'')]"

definition default_component_description :: "string \<Rightarrow> string" where
  "default_component_description cid =
     (case map_of default_descriptions cid of Some d \<Rightarrow> d | None \<Rightarrow> [])"

section \<open>The registry\<close>

type_synonym registry = "(string \<times> component_definition) list"

definition register :: "component_definition \<Rightarrow> registry \<Rightarrow> registry" where
  "register def reg =
     (let def' = (if trim (cd_description def) = []
                  then def\<lparr>cd_description := default_component_description (cd_id def)\<rparr> else def)
      in reg_insert (cd_id def') def' reg)"

abbreviation reg_get :: "registry \<Rightarrow> string \<Rightarrow> component_definition option" where
  "reg_get reg cid \<equiv> map_of reg cid"

definition all_ids :: "registry \<Rightarrow> string list" where
  "all_ids reg = map fst reg"

text \<open>The worklist is a stack whose top is the head; \<open>push_new\<close> is the loop over the
  AUTO_LOAD list of one component.\<close>

fun push_new :: "string list \<Rightarrow> string list \<times> string list \<Rightarrow> string list \<times> string list" where
  "push_new [] (result, worklist) = (result, worklist)"
| "push_new (dep # deps) (result, worklist) =
     (if dep \<in> set result then push_new deps (result, worklist)
      else push_new deps (dep # result, dep # worklist))"

definition auto_loads :: "registry \<Rightarrow> string \<Rightarrow> string list" where
  "auto_loads reg cid = (case reg_get reg cid of Some def \<Rightarrow> cd_auto_load def | None \<Rightarrow> [])"

definition auto_universe :: "registry \<Rightarrow> string set" where
  "auto_universe reg = (\<Union>(_, def) \<in> set reg. set (cd_auto_load def))"

lemma finite_auto_universe [simp]: "finite (auto_universe reg)"
  by (auto simp: auto_universe_def)

lemma auto_loads_universe: "set (auto_loads reg cid) \<subseteq> auto_universe reg"
proof
  fix x
  assume "x \<in> set (auto_loads reg cid)"
  then obtain def where "map_of reg cid = Some def" and "x \<in> set (cd_auto_load def)"
    by (cases "map_of reg cid") (simp_all add: auto_loads_def)
  then show "x \<in> auto_universe reg"
    using map_of_SomeD [of reg cid def] unfolding auto_universe_def by blast
qed

lemma push_new_measure:
  assumes "set deps \<subseteq> U" and "finite U" and "push_new deps (r, w) = (r', w')"
  shows "card (U - set r') + length w' \<le> card (U - set r) + length w"
  using assms
proof (induction deps arbitrary: r w)
  case (Cons d deps)
  show ?case
  proof (cases "d \<in> set r")
    case True
    then have "push_new deps (r, w) = (r', w')" and "set deps \<subseteq> U" using Cons.prems by simp_all
    from Cons.IH [OF this(2) Cons.prems(2) this(1)] show ?thesis .
  next
    case False
    then have p: "push_new deps (d # r, d # w) = (r', w')" and "set deps \<subseteq> U"
      using Cons.prems by simp_all
    from Cons.IH [OF this(2) Cons.prems(2) p]
    have "card (U - set r') + length w' \<le> card (U - set (d # r)) + length (d # w)" .
    moreover have "card (U - set r) = Suc (card (U - set (d # r)))"
    proof -
      have "d \<in> U" using Cons.prems(1) by simp
      then have "U - set r = insert d (U - set (d # r))" using False by auto
      moreover have "d \<notin> U - set (d # r)" and "finite (U - set (d # r))" using Cons.prems(2) by simp_all
      ultimately show ?thesis by (metis card_insert_disjoint)
    qed
    ultimately show ?thesis by (simp only: list.size)
  qed
qed simp

function auto_load_loop :: "registry \<Rightarrow> string list \<Rightarrow> string list \<Rightarrow> string list" where
  "auto_load_loop reg result [] = result"
| "auto_load_loop reg result (cid # worklist) =
     (let (result', worklist') = push_new (auto_loads reg cid) (result, worklist)
      in auto_load_loop reg result' worklist')"
  by pat_completeness auto
termination
proof (relation "measure (\<lambda>(reg, result, worklist). card (auto_universe reg - set result) + length worklist)", goal_cases)
  case (2 reg result cid worklist x result' worklist')
  then have "push_new (auto_loads reg cid) (result, worklist) = (result', worklist')" by simp
  from push_new_measure [OF auto_loads_universe finite_auto_universe this] show ?case by simp
qed simp

definition resolve_auto_load :: "registry \<Rightarrow> string list \<Rightarrow> string list" where
  "resolve_auto_load reg selected = sort (auto_load_loop reg (remdups selected) (rev selected))"

text \<open>What the expansion computes: everything reachable over AUTO_LOAD.\<close>

definition auto_rel :: "registry \<Rightarrow> (string \<times> string) set" where
  "auto_rel reg = {(a, b). b \<in> set (auto_loads reg a)}"

lemma push_new_spec:
  assumes "push_new deps (r, w) = (r', w')"
  shows "set r' = set r \<union> set deps \<and> set w' = set w \<union> (set deps - set r)
    \<and> (distinct r \<longrightarrow> distinct r')"
  using assms by (induction deps arbitrary: r w) (fastforce split: if_splits)+

lemma auto_load_loop_reach:
  assumes "set worklist \<subseteq> set result"
    and "\<forall>x \<in> set result. x \<in> set worklist \<or> set (auto_loads reg x) \<subseteq> set result"
  shows "set (auto_load_loop reg result worklist) = (auto_rel reg)\<^sup>* `` set result
    \<and> (distinct result \<longrightarrow> distinct (auto_load_loop reg result worklist))"
  using assms
proof (induction reg result worklist rule: auto_load_loop.induct)
  case (1 reg result)
  have "y \<in> set result" if "(x, y) \<in> (auto_rel reg)\<^sup>*" "x \<in> set result" for x y
    using that by (induction rule: rtrancl_induct) (use "1.prems"(2) in \<open>auto simp: auto_rel_def\<close>)
  then show ?case by auto
next
  case (2 reg result cid worklist)
  obtain r' w' where p: "push_new (auto_loads reg cid) (result, worklist) = (r', w')"
    by (cases "push_new (auto_loads reg cid) (result, worklist)")
  note spec = push_new_spec [OF p]
  have cid: "cid \<in> set result" using "2.prems"(1) by simp
  have "set (auto_load_loop reg r' w') = (auto_rel reg)\<^sup>* `` set r'
      \<and> (distinct r' \<longrightarrow> distinct (auto_load_loop reg r' w'))"
    using "2.prems" spec by (intro "2.IH" [OF p [symmetric] refl]) auto
  moreover have "(auto_rel reg)\<^sup>* `` set r' = (auto_rel reg)\<^sup>* `` set result"
  proof -
    have "set r' = set result \<union> auto_rel reg `` {cid}" using spec by (auto simp: auto_rel_def)
    with cid show ?thesis by (auto intro: converse_rtrancl_into_rtrancl)
  qed
  ultimately show ?case using spec by (simp add: p)
qed

lemma resolve_auto_load_reach:
  "set (resolve_auto_load reg selected) = (auto_rel reg)\<^sup>* `` set selected"
  using auto_load_loop_reach [of "rev selected" "remdups selected" reg]
  by (simp add: resolve_auto_load_def)

lemma resolve_auto_load_sorted: "sorted (resolve_auto_load reg selected)"
  and resolve_auto_load_distinct: "distinct (resolve_auto_load reg selected)"
  using auto_load_loop_reach [of "rev selected" "remdups selected" reg]
  by (simp_all add: resolve_auto_load_def)

lemma resolve_auto_load_closed:
  "a \<in> set (resolve_auto_load reg selected) \<Longrightarrow> b \<in> set (auto_loads reg a)
    \<Longrightarrow> b \<in> set (resolve_auto_load reg selected)"
  unfolding resolve_auto_load_reach by (auto simp: auto_rel_def intro: rtrancl_into_rtrancl)

lemma resolve_auto_load_idem:
  "resolve_auto_load reg (resolve_auto_load reg selected) = resolve_auto_load reg selected"
  by (rule sorted_distinct_set_unique)
     (auto simp: resolve_auto_load_sorted resolve_auto_load_distinct resolve_auto_load_reach intro: rtrancl_trans)

record missing_dep =
  md_component :: string
  md_dependency :: string

record conflict =
  cf_a :: string
  cf_b :: string

text \<open>The set the components are visited in is a \<open>HashSet\<close>; \<open>iter\<close> is its iteration order.\<close>

definition check_dependencies ::
    "(string list \<Rightarrow> string list) \<Rightarrow> registry \<Rightarrow> string list \<Rightarrow> missing_dep list + unit" where
  "check_dependencies iter reg selected =
     (let expanded = resolve_auto_load reg selected;
          errors = concat (map (\<lambda>cid. case reg_get reg cid of
              None \<Rightarrow> []
            | Some def \<Rightarrow> map (\<lambda>dep. \<lparr>md_component = cid, md_dependency = dep\<rparr>)
                (filter (\<lambda>dep. dep \<notin> set expanded) (cd_dependencies def))) (iter expanded))
      in if errors = [] then Inr () else Inl errors)"

definition ordered_pair :: "string \<Rightarrow> string \<Rightarrow> string \<times> string" where
  "ordered_pair a b = (if a < b then (a, b) else (b, a))"

fun conflict_scan :: "string list \<Rightarrow> (string \<times> string) list \<Rightarrow> (string \<times> string) list \<Rightarrow> conflict list" where
  "conflict_scan expanded seen [] = []"
| "conflict_scan expanded seen ((cid, other) # pairs) =
     (if other \<in> set expanded \<and> ordered_pair cid other \<notin> set seen
      then \<lparr>cf_a = cid, cf_b = other\<rparr> # conflict_scan expanded (ordered_pair cid other # seen) pairs
      else conflict_scan expanded seen pairs)"

definition check_conflicts :: "registry \<Rightarrow> string list \<Rightarrow> conflict list + unit" where
  "check_conflicts reg selected =
     (let expanded = resolve_auto_load reg selected;
          pairs = concat (map (\<lambda>cid. case reg_get reg cid of
              None \<Rightarrow> []
            | Some def \<Rightarrow> map (Pair cid) (cd_conflicts_with def)) expanded);
          errors = conflict_scan expanded [] pairs
      in if errors = [] then Inr () else Inl errors)"

definition supports_target :: "chip_target \<Rightarrow> component_definition \<Rightarrow> bool" where
  "supports_target target def =
     (case cd_supported_targets def of Some ts \<Rightarrow> target \<in> set ts | None \<Rightarrow> True)"

definition all_for_target :: "chip_target \<Rightarrow> registry \<Rightarrow> component_definition list" where
  "all_for_target target reg = filter (supports_target target) (map snd reg)"

definition get_for_target :: "registry \<Rightarrow> string \<Rightarrow> chip_target \<Rightarrow> component_definition option" where
  "get_for_target reg cid target =
     (case reg_get reg cid of
        Some def \<Rightarrow> if supports_target target def then Some def else None
      | None \<Rightarrow> None)"

section \<open>The registry shipped with the crate\<close>

definition default_components_1 :: "component_definition list" where
  "default_components_1 = [
    default_def\<lparr>cd_id := ''sensor'', cd_is_family := True,
      cd_child_components := [''dht'', ''bme280_i2c'', ''bme680_bsec'', ''sht3x'', ''ds18x20'',
      ''adc'', ''pulse_counter'', ''ultrasonic'', ''htu21d'', ''bh1750'', ''ade7953_i2c'',
      ''homeassistant'', ''template'', ''esp32_hall'', ''rotary_encoder'', ''ld2410'', ''ct_clamp'',
      ''pms5003'', ''scd40''], cd_entity_type := Some ET_Sensor\<rparr>,
    default_def\<lparr>cd_id := ''binary_sensor'', cd_is_family := True,
      cd_child_components := [''gpio'', ''status'', ''homeassistant'', ''template'', ''esp32_touch''],
      cd_entity_type := Some ET_BinarySensor\<rparr>,
    default_def\<lparr>cd_id := ''switch'', cd_is_family := True,
      cd_child_components := [''gpio'', ''restart'', ''template'', ''uart''],
      cd_entity_type := Some ET_Switch\<rparr>,
    default_def\<lparr>cd_id := ''number'', cd_is_family := True,
      cd_child_components := [''template''], cd_entity_type := Some ET_Number\<rparr>,
    default_def\<lparr>cd_id := ''select'', cd_is_family := True,
      cd_child_components := [''template''], cd_entity_type := Some ET_Select\<rparr>,
    default_def\<lparr>cd_id := ''text'', cd_is_family := True, cd_child_components := [''template''],
      cd_entity_type := Some ET_Text\<rparr>,
    default_def\<lparr>cd_id := ''button'', cd_is_family := True,
      cd_child_components := [''template'', ''restart''], cd_entity_type := Some ET_Button\<rparr>,
    default_def\<lparr>cd_id := ''event'', cd_is_family := True, cd_child_components := [''template''],
      cd_entity_type := Some ET_Event\<rparr>,
    default_def\<lparr>cd_id := ''light'', cd_is_family := True,
      cd_child_components := [''binary'', ''monochromatic'', ''rgb'', ''rgbw'', ''rgbww'',
      ''neopixelbus'', ''fastled_clockless'', ''partition''], cd_entity_type := Some ET_Light\<rparr>,
    default_def\<lparr>cd_id := ''climate'', cd_is_family := True,
      cd_child_components := [''thermostat'', ''bang_bang'', ''pid''], cd_entity_type := Some ET_Climate\<rparr>]"

definition default_components_2 :: "component_definition list" where
  "default_components_2 = [
    default_def\<lparr>cd_id := ''fan'', cd_is_family := True,
      cd_child_components := [''speed'', ''template''], cd_entity_type := Some ET_Fan\<rparr>,
    default_def\<lparr>cd_id := ''cover'', cd_is_family := True,
      cd_child_components := [''time_based'', ''template'', ''endstop''],
      cd_entity_type := Some ET_Cover\<rparr>,
    default_def\<lparr>cd_id := ''lock'', cd_is_family := True,
      cd_child_components := [''template'', ''gpio''], cd_entity_type := Some ET_Lock\<rparr>,
    default_def\<lparr>cd_id := ''media_player'', cd_is_family := True,
      cd_child_components := [''i2s_audio''], cd_entity_type := Some ET_MediaPlayer\<rparr>,
    default_def\<lparr>cd_id := ''alarm_control_panel'', cd_is_family := True,
      cd_child_components := [''template''], cd_entity_type := Some ET_AlarmControlPanel\<rparr>,
    default_def\<lparr>cd_id := ''text_sensor'', cd_is_family := True,
      cd_child_components := [''template'', ''homeassistant'', ''wifi_info'', ''version''],
      cd_entity_type := Some ET_TextSensor\<rparr>,
    default_def\<lparr>cd_id := ''wifi'', cd_conflicts_with := [''ethernet''],
      cd_supported_targets := Some [Esp32, Esp32S2, Esp32S3, Esp32C3, Esp32C5, Esp32C6]\<rparr>,
    default_def\<lparr>cd_id := ''ethernet'', cd_conflicts_with := [''wifi'']\<rparr>,
    default_def\<lparr>cd_id := ''api''\<rparr>,
    default_def\<lparr>cd_id := ''mqtt''\<rparr>,
    default_def\<lparr>cd_id := ''ota'', cd_dependencies := [''wifi'']\<rparr>]"

definition default_components_3 :: "component_definition list" where
  "default_components_3 = [
    default_def\<lparr>cd_id := ''logger''\<rparr>,
    default_def\<lparr>cd_id := ''time'', cd_child_components := [''homeassistant'', ''sntp'', ''gps'']\<rparr>,
    default_def\<lparr>cd_id := ''i2c''\<rparr>,
    default_def\<lparr>cd_id := ''spi''\<rparr>,
    default_def\<lparr>cd_id := ''uart'', cd_supported_targets := Some all_targets\<rparr>,
    default_def\<lparr>cd_id := ''can_bus'',
      cd_description := ''Parent platform for CAN bus communication via ESP32 TWAI controller.'',
      cd_is_family := True, cd_child_components := [''can_esp32_twai''],
      cd_supported_targets := Some [Esp32]\<rparr>,
    default_def\<lparr>cd_id := ''can_esp32_twai'',
      cd_description := ''ESP32 TWAI (Two-Wire Automotive Interface) CAN controller driver.'',
      cd_auto_load := [''can_bus'']\<rparr>,
    default_def\<lparr>cd_id := ''rs485_bus'',
      cd_description := ''Parent platform for RS485 half-duplex serial communication.'',
      cd_is_family := True, cd_child_components := [''rs485_uart_half_duplex''],
      cd_dependencies := [''uart''], cd_supported_targets := Some [Esp32]\<rparr>,
    default_def\<lparr>cd_id := ''rs485_uart_half_duplex'',
      cd_description := ''UART-based RS485 half-duplex transceiver with automatic DE pin control.'',
      cd_auto_load := [''rs485_bus'', ''uart'']\<rparr>]"

definition default_components_4 :: "component_definition list" where
  "default_components_4 = [
    default_def\<lparr>cd_id := ''sd_card_spi'',
      cd_description := ''SPI-based SD card for data logging with FAT filesystem.'',
      cd_auto_load := [''spi''], cd_supported_targets := Some all_targets\<rparr>,
    default_def\<lparr>cd_id := ''deep_sleep''\<rparr>,
    default_def\<lparr>cd_id := ''restart''\<rparr>,
    default_def\<lparr>cd_id := ''dht'', cd_auto_load := [''sensor''], cd_entity_type := Some ET_Sensor\<rparr>,
    default_def\<lparr>cd_id := ''bme280_i2c'', cd_auto_load := [''sensor'', ''i2c''],
      cd_entity_type := Some ET_Sensor\<rparr>,
    default_def\<lparr>cd_id := ''bme680_bsec'', cd_auto_load := [''sensor'', ''i2c''],
      cd_entity_type := Some ET_Sensor\<rparr>,
    default_def\<lparr>cd_id := ''sht3x'', cd_auto_load := [''sensor'', ''i2c''],
      cd_entity_type := Some ET_Sensor\<rparr>,
    default_def\<lparr>cd_id := ''ds18x20'', cd_auto_load := [''sensor''],
      cd_entity_type := Some ET_Sensor\<rparr>,
    default_def\<lparr>cd_id := ''adc'', cd_auto_load := [''sensor''], cd_entity_type := Some ET_Sensor\<rparr>,
    default_def\<lparr>cd_id := ''ld2410'', cd_auto_load := [''sensor'', ''uart''],
      cd_entity_type := Some ET_Sensor\<rparr>,
    default_def\<lparr>cd_id := ''ct_clamp'', cd_auto_load := [''sensor'', ''adc''],
      cd_entity_type := Some ET_Sensor\<rparr>,
    default_def\<lparr>cd_id := ''pms5003'', cd_auto_load := [''sensor'', ''uart''],
      cd_entity_type := Some ET_Sensor\<rparr>]"

definition default_components_5 :: "component_definition list" where
  "default_components_5 = [
    default_def\<lparr>cd_id := ''scd40'', cd_auto_load := [''sensor'', ''i2c''],
      cd_entity_type := Some ET_Sensor\<rparr>,
    default_def\<lparr>cd_id := ''sx1302'', cd_auto_load := [''spi'']\<rparr>,
    default_def\<lparr>cd_id := ''pulse_counter'', cd_auto_load := [''sensor''],
      cd_entity_type := Some ET_Sensor\<rparr>,
    default_def\<lparr>cd_id := ''ultrasonic'', cd_auto_load := [''sensor''],
      cd_entity_type := Some ET_Sensor\<rparr>,
    default_def\<lparr>cd_id := ''htu21d'', cd_auto_load := [''sensor'', ''i2c''],
      cd_entity_type := Some ET_Sensor\<rparr>,
    default_def\<lparr>cd_id := ''bh1750'', cd_auto_load := [''sensor'', ''i2c''],
      cd_entity_type := Some ET_Sensor\<rparr>,
    default_def\<lparr>cd_id := ''rotary_encoder'', cd_auto_load := [''sensor''],
      cd_entity_type := Some ET_Sensor\<rparr>,
    default_def\<lparr>cd_id := ''gpio'', cd_entity_type := Some ET_BinarySensor\<rparr>,
    default_def\<lparr>cd_id := ''status'', cd_auto_load := [''binary_sensor''],
      cd_entity_type := Some ET_BinarySensor\<rparr>,
    default_def\<lparr>cd_id := ''esp32_touch'', cd_auto_load := [''binary_sensor''],
      cd_entity_type := Some ET_BinarySensor\<rparr>,
    default_def\<lparr>cd_id := ''neopixelbus'', cd_auto_load := [''light''],
      cd_entity_type := Some ET_Light\<rparr>,
    default_def\<lparr>cd_id := ''fastled_clockless'', cd_auto_load := [''light''],
      cd_entity_type := Some ET_Light\<rparr>,
    default_def\<lparr>cd_id := ''thermostat'', cd_auto_load := [''climate''],
      cd_entity_type := Some ET_Climate\<rparr>]"

definition default_components_6 :: "component_definition list" where
  "default_components_6 = [
    default_def\<lparr>cd_id := ''bang_bang'', cd_auto_load := [''climate''],
      cd_entity_type := Some ET_Climate\<rparr>,
    default_def\<lparr>cd_id := ''pid'', cd_auto_load := [''climate''],
      cd_entity_type := Some ET_Climate\<rparr>,
    default_def\<lparr>cd_id := ''time_based'', cd_auto_load := [''cover''],
      cd_entity_type := Some ET_Cover\<rparr>,
    default_def\<lparr>cd_id := ''i2s_audio'', cd_auto_load := [''media_player''],
      cd_entity_type := Some ET_MediaPlayer\<rparr>,
    default_def\<lparr>cd_id := ''esp32_hall'', cd_auto_load := [''sensor''],
      cd_entity_type := Some ET_Sensor\<rparr>,
    default_def\<lparr>cd_id := ''sigrok'', cd_instance_policy := Singleton,
      cd_config_mode := CompileTimeOnly, cd_supported_targets := Some [Esp32S3]\<rparr>]"

definition default_registry :: registry where
  "default_registry = fold register (default_components_1 @ default_components_2 @ default_components_3 @ default_components_4 @ default_components_5 @ default_components_6) []"

section \<open>Feature flags\<close>

definition component_to_flags :: "(string \<times> string list) list" where
  "component_to_flags = [
    (''logger'', [''USE_LOGGER'']),
    (''time'', [''USE_TIME'']),
    (''deep_sleep'', [''USE_DEEP_SLEEP'']),
    (''restart'', [''USE_RESTART'']),
    (''wifi'', [''USE_WIFI'']),
    (''ethernet'', [''USE_ETHERNET'']),
    (''sigrok'', [''USE_SIGROK'']),
    (''i2c'', [''USE_I2C'']),
    (''spi'', [''USE_SPI'']),
    (''uart'', [''USE_UART'']),
    (''api'', [''USE_API'']),
    (''mqtt'', [''USE_MQTT'']),
    (''ota'', [''USE_OTA'']),
    (''sensor'', [''USE_SENSOR'']),
    (''binary_sensor'', [''USE_BINARY_SENSOR'']),
    (''switch'', [''USE_SWITCH'']),
    (''number'', [''USE_NUMBER'']),
    (''select'', [''USE_SELECT'']),
    (''text'', [''USE_TEXT'']),
    (''button'', [''USE_BUTTON'']),
    (''event'', [''USE_EVENT'']),
    (''light'', [''USE_LIGHT'']),
    (''climate'', [''USE_CLIMATE'']),
    (''fan'', [''USE_FAN'']),
    (''cover'', [''USE_COVER'']),
    (''lock'', [''USE_LOCK'']),
    (''media_player'', [''USE_MEDIA_PLAYER'']),
    (''alarm_control_panel'', [''USE_ALARM_CONTROL_PANEL'']),
    (''text_sensor'', [''USE_TEXT_SENSOR'']),
    (''dht'', [''USE_DHT'', ''USE_SENSOR'']),
    (''bme280_i2c'', [''USE_BME280'', ''USE_SENSOR'', ''USE_I2C'']),
    (''bme680_bsec'', [''USE_BME680_BSEC'', ''USE_SENSOR'', ''USE_I2C'']),
    (''sht3x'', [''USE_SHT3X'', ''USE_SENSOR'', ''USE_I2C'']),
    (''ds18x20'', [''USE_DS18X20'', ''USE_SENSOR'']),
    (''adc'', [''USE_ADC'', ''USE_SENSOR'']),
    (''pulse_counter'', [''USE_PULSE_COUNTER'', ''USE_SENSOR'']),
    (''ultrasonic'', [''USE_ULTRASONIC'', ''USE_SENSOR'']),
    (''htu21d'', [''USE_HTU21D'', ''USE_SENSOR'', ''USE_I2C'']),
    (''bh1750'', [''USE_BH1750'', ''USE_SENSOR'', ''USE_I2C'']),
    (''rotary_encoder'', [''USE_ROTARY_ENCODER'', ''USE_SENSOR'']),
    (''esp32_hall'', [''USE_ESP32_HALL'', ''USE_SENSOR'']),
    (''gpio'', [''USE_GPIO'', ''USE_BINARY_SENSOR'']),
    (''status'', [''USE_STATUS'', ''USE_BINARY_SENSOR'']),
    (''esp32_touch'', [''USE_ESP32_TOUCH'', ''USE_BINARY_SENSOR'']),
    (''neopixelbus'', [''USE_NEOPIXELBUS_LIGHT'', ''USE_LIGHT'']),
    (''fastled_clockless'', [''USE_FASTLED_CLOCKLESS_LIGHT'', ''USE_LIGHT'']),
    (''thermostat'', [''USE_THERMOSTAT'', ''USE_CLIMATE'']),
    (''bang_bang'', [''USE_BANG_BANG'', ''USE_CLIMATE'']),
    (''pid'', [''USE_PID'', ''USE_CLIMATE'']),
    (''time_based'', [''USE_TIME_BASED_COVER'', ''USE_COVER'']),
    (''i2s_audio'', [''USE_I2S_AUDIO'', ''USE_MEDIA_PLAYER''])]"

text \<open>The flags are a \<open>HashSet\<close>, here a list without duplicates; the entity counts a map.\<close>

record feature_flag_set =
  ff_flags :: "string list"
  ff_entity_counts :: "entity_type \<Rightarrow> nat"

definition flags_of :: "string \<Rightarrow> string list" where
  "flags_of cid = (case map_of component_to_flags cid of Some fs \<Rightarrow> fs | None \<Rightarrow> [])"

definition counted_as :: "registry \<Rightarrow> entity_type \<Rightarrow> string \<Rightarrow> bool" where
  "counted_as reg et cid =
     (case reg_get reg cid of
        Some def \<Rightarrow> cd_entity_type def = Some et \<and> \<not> cd_is_family def | None \<Rightarrow> False)"

definition from_components :: "registry \<Rightarrow> string list \<Rightarrow> feature_flag_set" where
  "from_components reg components =
     (let expanded = resolve_auto_load reg components in
      \<lparr>ff_flags = remdups (concat (map flags_of expanded)),
       ff_entity_counts = (\<lambda>et. length (filter (counted_as reg et) expanded))\<rparr>)"

definition ff_contains :: "feature_flag_set \<Rightarrow> string \<Rightarrow> bool" where
  "ff_contains ff flag \<longleftrightarrow> flag \<in> set (ff_flags ff)"

text \<open>\<open>str::replace(pat, "")\<close>.\<close>

function remove_all :: "string \<Rightarrow> string \<Rightarrow> string" where
  "remove_all pat s =
     (if pat = [] then s
      else case split_once pat s of None \<Rightarrow> s | Some (a, b) \<Rightarrow> a @ remove_all pat b)"
  by pat_completeness auto
termination
  by (relation "measure (\<lambda>(pat, s). length s)") (auto dest: split_once_length)

declare remove_all.simps [simp del]

definition to_cargo_features :: "feature_flag_set \<Rightarrow> string list" where
  "to_cargo_features ff = remdups_adj (sort (map (\<lambda>f. remove_all ''use_'' (to_lower f)) (ff_flags ff)))"

fun count_prefix :: "entity_type \<Rightarrow> string" where
  "count_prefix ET_Sensor = ''ESPHOME_SENSOR_COUNT''"
| "count_prefix ET_BinarySensor = ''ESPHOME_BINARY_SENSOR_COUNT''"
| "count_prefix ET_Switch = ''ESPHOME_SWITCH_COUNT''"
| "count_prefix ET_Number = ''ESPHOME_NUMBER_COUNT''"
| "count_prefix ET_Select = ''ESPHOME_SELECT_COUNT''"
| "count_prefix ET_Text = ''ESPHOME_TEXT_COUNT''"
| "count_prefix ET_Button = ''ESPHOME_BUTTON_COUNT''"
| "count_prefix ET_Event = ''ESPHOME_EVENT_COUNT''"
| "count_prefix ET_Light = ''ESPHOME_LIGHT_COUNT''"
| "count_prefix ET_Climate = ''ESPHOME_CLIMATE_COUNT''"
| "count_prefix ET_Fan = ''ESPHOME_FAN_COUNT''"
| "count_prefix ET_Cover = ''ESPHOME_COVER_COUNT''"
| "count_prefix ET_Lock = ''ESPHOME_LOCK_COUNT''"
| "count_prefix ET_MediaPlayer = ''ESPHOME_MEDIA_PLAYER_COUNT''"
| "count_prefix ET_AlarmControlPanel = ''ESPHOME_ALARM_CONTROL_PANEL_COUNT''"
| "count_prefix ET_TextSensor = ''ESPHOME_TEXT_SENSOR_COUNT''"

definition all_entity_types :: "entity_type list" where
  "all_entity_types = [ET_Sensor, ET_BinarySensor, ET_Switch, ET_Number, ET_Select, ET_Text, ET_Button,
     ET_Event, ET_Light, ET_Climate, ET_Fan, ET_Cover, ET_Lock, ET_MediaPlayer, ET_AlarmControlPanel,
     ET_TextSensor]"

definition to_c_defines :: "feature_flag_set \<Rightarrow> string" where
  "to_c_defines ff =
     join [CHR 0x0A] (sort
       (map (\<lambda>f. ''#define '' @ f) (ff_flags ff) @
        map (\<lambda>et. ''#define '' @ count_prefix et @ '' '' @ show_nat (ff_entity_counts ff et))
          (filter (\<lambda>et. ff_entity_counts ff et \<noteq> 0) all_entity_types)))"

section \<open>Profiles\<close>

record profile_definition =
  pd_id :: string
  pd_role :: string
  pd_components :: "string list"
  pd_exclusive_selections :: "(string \<times> string) list"

type_synonym profile_registry = "string \<rightharpoonup> profile_definition"

definition register_profile :: "profile_definition \<Rightarrow> profile_registry \<Rightarrow> profile_registry" where
  "register_profile p reg = reg(pd_id p \<mapsto> p)"

definition default_profiles :: profile_registry where
  "default_profiles = Map.empty"

section \<open>Lookups in the shipped registry\<close>

abbreviation shipped :: "component_definition list" where
  "shipped \<equiv> default_components_1 @ default_components_2 @ default_components_3 @ default_components_4 @ default_components_5 @ default_components_6"

definition described :: "component_definition \<Rightarrow> component_definition" where
  "described def = (if trim (cd_description def) = []
     then def\<lparr>cd_description := default_component_description (cd_id def)\<rparr> else def)"

lemma described_fields [simp]:
  "cd_id (described def) = cd_id def" "cd_auto_load (described def) = cd_auto_load def"
  "cd_dependencies (described def) = cd_dependencies def"
  "cd_conflicts_with (described def) = cd_conflicts_with def"
  "cd_child_components (described def) = cd_child_components def"
  "cd_exclusive_group (described def) = cd_exclusive_group def"
  "cd_secret_fields (described def) = cd_secret_fields def"
  by (simp_all add: described_def)

lemma fold_register:
  assumes "distinct (map fst reg @ map cd_id defs)"
  shows "fold register defs reg = reg @ map (\<lambda>d. (cd_id d, described d)) defs"
  using assms
proof (induction defs arbitrary: reg)
  case (Cons d defs)
  have "register d reg = reg @ [(cd_id d, described d)]"
    using Cons.prems by (simp add: register_def described_def Let_def reg_insert_new)
  with Cons.IH [of "reg @ [(cd_id d, described d)]"] Cons.prems show ?case by simp
qed simp

lemma shipped_ids_distinct: "distinct (map cd_id shipped)"
  by code_simp

lemma default_registry_eq: "default_registry = map (\<lambda>d. (cd_id d, described d)) shipped"
  unfolding default_registry_def by (subst fold_register) (use shipped_ids_distinct in simp_all)

lemma default_registry_get:
  assumes "reg_get default_registry cid = Some def"
  obtains d where "d \<in> set shipped" and "def = described d" and "cid = cd_id d"
  using map_of_SomeD [OF assms] unfolding default_registry_eq by auto

lemma map_of_keys: "map_of (map (\<lambda>d. (f d, g d)) ds) k \<noteq> None \<longleftrightarrow> k \<in> set (map f ds)"
  by (induction ds) auto

lemma default_registry_has: "reg_get default_registry cid \<noteq> None \<longleftrightarrow> cid \<in> set (map cd_id shipped)"
  unfolding default_registry_eq by (rule map_of_keys)

lemma shipped_references:
  "list_all (\<lambda>d. list_all (\<lambda>x. x \<in> set (map cd_id shipped))
     (cd_auto_load d @ cd_dependencies d @ cd_conflicts_with d)) shipped"
  by code_simp

lemma shipped_conflicts_symmetric:
  "list_all (\<lambda>d. list_all (\<lambda>c. list_all (\<lambda>e. cd_id e = c \<longrightarrow> cd_id d \<in> set (cd_conflicts_with e)) shipped)
     (cd_conflicts_with d)) shipped"
  by code_simp

section \<open>Properties\<close>

text \<open>C40. AUTO_LOAD expansion returns exactly the components reachable from the selection
  over AUTO_LOAD references, each once, in increasing order; expanding the result again
  changes nothing.\<close>

theorem auto_load_is_reachability:
  "set (resolve_auto_load reg selected) = (auto_rel reg)\<^sup>* `` set selected
   \<and> sorted_wrt (<) (resolve_auto_load reg selected)
   \<and> resolve_auto_load reg (resolve_auto_load reg selected) = resolve_auto_load reg selected"
  by (simp add: resolve_auto_load_reach resolve_auto_load_sorted resolve_auto_load_distinct
      resolve_auto_load_idem strict_sorted_iff)

text \<open>The registry shipped with the crate is closed: whatever a registered component
  auto-loads, depends on or conflicts with is registered too, and conflicts are mutual.\<close>

theorem default_registry_closed:
  assumes "reg_get default_registry cid = Some def"
    and "other \<in> set (cd_auto_load def @ cd_dependencies def @ cd_conflicts_with def)"
  shows "\<exists>def'. reg_get default_registry other = Some def'
    \<and> (other \<in> set (cd_conflicts_with def) \<longrightarrow> cid \<in> set (cd_conflicts_with def'))"
proof -
  obtain d where d: "d \<in> set shipped" "def = described d" "cid = cd_id d"
    using assms(1) by (rule default_registry_get)
  have "other \<in> set (map cd_id shipped)"
    using shipped_references d(1) assms(2) unfolding list_all_iff d(2) described_fields by blast
  then obtain def' where def': "reg_get default_registry other = Some def'"
    unfolding default_registry_has [symmetric] by blast
  then obtain e where e: "e \<in> set shipped" "def' = described e" "other = cd_id e"
    by (rule default_registry_get)
  have "cid \<in> set (cd_conflicts_with def')" if "other \<in> set (cd_conflicts_with def)"
    using shipped_conflicts_symmetric d(1) e(1) that
    unfolding list_all_iff d(2,3) e(2,3) described_fields by blast
  with def' show ?thesis by blast
qed

theorem default_registry_closed_witness:
  "\<exists>def'. reg_get default_registry ''ethernet'' = Some def' \<and> ''wifi'' \<in> set (cd_conflicts_with def')"
proof -
  have "\<exists>def. reg_get default_registry ''wifi'' = Some def \<and> ''ethernet'' \<in> set (cd_conflicts_with def)"
    unfolding default_registry_eq
    by (simp add: default_components_1_def default_components_2_def default_def_def)
  then obtain def where "reg_get default_registry ''wifi'' = Some def"
    and "''ethernet'' \<in> set (cd_conflicts_with def)" by blast
  with default_registry_closed [of "''wifi''" def "''ethernet''"] show ?thesis by auto
qed

text \<open>Family parents list children the registry does not hold: \<open>template\<close> and
  \<open>homeassistant\<close> are children of \<open>sensor\<close> but no component of that name is registered.\<close>

theorem default_registry_missing_children:
  "\<exists>def. reg_get default_registry ''sensor'' = Some def
     \<and> {''template'', ''homeassistant''} \<subseteq> set (cd_child_components def)
     \<and> reg_get default_registry ''template'' = None
     \<and> reg_get default_registry ''homeassistant'' = None"
proof -
  have "reg_get default_registry c = None" if "c \<in> {''template'', ''homeassistant''}" for c
  proof -
    have "''template'' \<notin> set (map cd_id shipped)"
      and "''homeassistant'' \<notin> set (map cd_id shipped)" by code_simp+
    with that show ?thesis using default_registry_has by blast
  qed
  moreover have "\<exists>def. reg_get default_registry ''sensor'' = Some def
     \<and> {''template'', ''homeassistant''} \<subseteq> set (cd_child_components def)"
    unfolding default_registry_eq by (simp add: default_components_1_def default_def_def)
  ultimately show ?thesis by blast
qed

end
