(* ===== verification/StageLoad.thy ===== *)
theory StageLoad
  imports Registry
begin

text \<open>
  Stage 6 (\<open>s6_load_components.rs\<close>): every component must be registered, AUTO_LOAD is
  expanded, dependencies must be met and conflicts are excluded. The hint for an unknown
  component comes from an edit distance over characters.

  The lemmas show that the dynamic program computes the least number of single-character
  edits, and exactly which configurations stage 6 lets through.
\<close>

section \<open>Edit distance\<close>

text \<open>The characters of a string: a lead byte with its continuation bytes.\<close>

definition is_continuation :: "char \<Rightarrow> bool" where
  "is_continuation c \<longleftrightarrow> 128 \<le> (of_char c :: nat) \<and> (of_char c :: nat) < 192"

function utf8_chars :: "string \<Rightarrow> string list" where
  "utf8_chars [] = []"
| "utf8_chars (c # cs) = (c # takeWhile is_continuation cs) # utf8_chars (dropWhile is_continuation cs)"
  by pat_completeness auto
termination
  by (relation "measure length") (auto simp: length_dropWhile_le le_imp_less_Suc)

text \<open>One row of the table from the row above it: \<open>diag\<close>, \<open>up\<close> and \<open>left\<close> are the three
  neighbours of the cell.\<close>

fun dp_cells :: "'a \<Rightarrow> 'a list \<Rightarrow> nat list \<Rightarrow> nat \<Rightarrow> nat list" where
  "dp_cells x (y # ys) (diag # up # prev) left =
     (let c = (if x = y then diag else 1 + min (min up left) diag)
      in c # dp_cells x ys (up # prev) c)"
| "dp_cells x _ _ left = []"

fun dp_rows :: "nat \<Rightarrow> 'a list \<Rightarrow> 'a list \<Rightarrow> nat list \<Rightarrow> nat list" where
  "dp_rows i [] b row = row"
| "dp_rows i (x # a) b row = dp_rows (i + 1) a b ((i + 1) # dp_cells x b row (i + 1))"

definition edit_distance_chars :: "'a list \<Rightarrow> 'a list \<Rightarrow> nat" where
  "edit_distance_chars a b = last (dp_rows 0 a b [0..<length b + 1])"

definition edit_distance :: "string \<Rightarrow> string \<Rightarrow> nat" where
  "edit_distance a b = edit_distance_chars (utf8_chars a) (utf8_chars b)"

text \<open>\<open>min_by_key\<close>: the first element with the least key.\<close>

fun min_by_key :: "('a \<Rightarrow> nat) \<Rightarrow> 'a list \<Rightarrow> 'a option" where
  "min_by_key f [] = None"
| "min_by_key f (x # xs) =
     (case min_by_key f xs of None \<Rightarrow> Some x | Some y \<Rightarrow> if f x \<le> f y then Some x else Some y)"

definition closest_match :: "string \<Rightarrow> registry \<Rightarrow> string option" where
  "closest_match cid reg =
     (let threshold = max (length cid div 3) 1
      in min_by_key (edit_distance cid) (filter (\<lambda>c. edit_distance cid c \<le> threshold) (all_ids reg)))"

section \<open>Stage 6\<close>

definition component_effective_id :: "component_config \<Rightarrow> string" where
  "component_effective_id c =
     (case cc_platform c of
        Some platform \<Rightarrow> if platform \<noteq> [] then platform else cc_type c
      | None \<Rightarrow> cc_type c)"

definition unknown_component :: "registry \<Rightarrow> string \<Rightarrow> string \<Rightarrow> validation_error" where
  "unknown_component reg path cid =
     (let err = verror ComponentLoading path (''unknown component '' @ quoted cid)
      in case closest_match cid reg of
           Some m \<Rightarrow> with_suggestion (''Did you mean '' @ quoted m @ ''?'') err
         | None \<Rightarrow> err)"

definition unknown_platform :: "string \<Rightarrow> string \<Rightarrow> component_config \<Rightarrow> validation_error" where
  "unknown_platform path platform c = verror ComponentLoading (path @ ''.platform'')
     (''unknown platform '' @ quoted platform @ '' for component '' @ quoted (cc_type c))"

definition platform_errors :: "registry \<Rightarrow> string \<Rightarrow> component_config \<Rightarrow> component_definition \<Rightarrow> validation_error list" where
  "platform_errors reg path c def =
     (case cc_platform c of
        Some platform \<Rightarrow>
          if platform \<notin> set (cd_child_components def) \<and> reg_get reg platform = None
          then [unknown_platform path platform c] else []
      | None \<Rightarrow> [])"

fun collect_direct :: "registry \<Rightarrow> (nat \<times> component_config) list \<Rightarrow> string list \<Rightarrow> string list \<times> validation_error list" where
  "collect_direct reg [] direct = (direct, [])"
| "collect_direct reg ((i, c) # comps) direct =
     (let path = ''components['' @ show_nat i @ '']'';
          cid = component_effective_id c
      in case reg_get reg cid of
           None \<Rightarrow>
             let (d, es) = collect_direct reg comps direct
             in (d, unknown_component reg path cid # es)
         | Some def \<Rightarrow>
             let (d, es) = collect_direct reg comps (if cid \<in> set direct then direct else direct @ [cid])
             in (d, platform_errors reg path c def @ es))"

definition missing_dependency :: "string \<Rightarrow> string \<Rightarrow> validation_error" where
  "missing_dependency cid dep = verror ComponentLoading cid
     (''component '' @ quoted cid @ '' requires '' @ quoted dep @ '' which is not in the config'')"

definition conflict_found :: "string \<Rightarrow> string \<Rightarrow> validation_error" where
  "conflict_found cid other = verror ComponentLoading cid
     (''component '' @ quoted cid @ '' conflicts with '' @ quoted other)"

definition dependency_errors :: "registry \<Rightarrow> string list \<Rightarrow> validation_error list" where
  "dependency_errors reg resolved =
     concat (map (\<lambda>cid. case reg_get reg cid of
         Some def \<Rightarrow> map (missing_dependency cid) (filter (\<lambda>dep. dep \<notin> set resolved) (cd_dependencies def))
       | None \<Rightarrow> []) resolved)"

definition conflict_errors :: "registry \<Rightarrow> string list \<Rightarrow> validation_error list" where
  "conflict_errors reg resolved =
     concat (map (\<lambda>cid. case reg_get reg cid of
         Some def \<Rightarrow> map (conflict_found cid) (filter (\<lambda>x. x \<in> set resolved) (cd_conflicts_with def))
       | None \<Rightarrow> []) resolved)"

definition stage_6_load_components :: "registry \<Rightarrow> raw_config \<Rightarrow> string list \<times> validation_error list" where
  "stage_6_load_components reg config =
     (let (direct, errors) = collect_direct reg (enumerated (rc_components config)) []
      in if list_ex is_fatal errors then (direct, errors)
         else let resolved = resolve_auto_load reg direct
              in (resolved, errors @ dependency_errors reg resolved @ conflict_errors reg resolved))"

section \<open>The table computes the least number of edits\<close>

text \<open>Turning one list into the other from left to right, counting the changed, dropped
  and added elements.\<close>

inductive edits :: "nat \<Rightarrow> 'a list \<Rightarrow> 'a list \<Rightarrow> bool" where
  edits_Nil: "edits 0 [] []"
| edits_keep: "edits n a b \<Longrightarrow> edits n (a @ [x]) (b @ [x])"
| edits_change: "edits n a b \<Longrightarrow> edits (Suc n) (a @ [x]) (b @ [y])"
| edits_drop: "edits n a b \<Longrightarrow> edits (Suc n) (a @ [x]) b"
| edits_add: "edits n a b \<Longrightarrow> edits (Suc n) a (b @ [y])"

text \<open>The recurrence, on reversed lists.\<close>

fun lev :: "'a list \<Rightarrow> 'a list \<Rightarrow> nat" where
  "lev [] ys = length ys"
| "lev xs [] = length xs"
| "lev (x # xs) (y # ys) =
     (if x = y then lev xs ys
      else 1 + min (min (lev xs (y # ys)) (lev (x # xs) ys)) (lev xs ys))"

lemma lev_Nil2 [simp]: "lev xs [] = length xs"
  by (cases xs) auto

lemma lev_step:
  "lev xs ys \<le> Suc (lev (x # xs) ys) \<and> lev xs ys \<le> Suc (lev xs (y # ys))
   \<and> lev (x # xs) ys \<le> Suc (lev xs ys) \<and> lev xs (y # ys) \<le> Suc (lev xs ys)"
proof (induction "length xs + length ys" arbitrary: xs ys x y rule: less_induct)
  case less
  note IH = less.hyps [rule_format]
  show ?case
  proof (cases xs)
    case Nil
    have "lev [x] zs \<le> Suc (length zs) \<and> length zs \<le> Suc (lev [x] zs)" for zs
      by (induction zs) auto
    then show ?thesis by (simp add: Nil)
  next
    case xs: (Cons a xs')
    show ?thesis
    proof (cases ys)
      case Nil
      have "lev zs [y] \<le> Suc (length zs) \<and> length zs \<le> Suc (lev zs [y])" for zs
        by (induction zs) auto
      from this [of xs] show ?thesis by (simp add: Nil)
    next
      case ys: (Cons b ys')
      have 1: "lev xs' ys' \<le> Suc (lev xs ys')" "lev xs' ys' \<le> Suc (lev xs' ys)"
        "lev xs ys' \<le> Suc (lev xs' ys')" "lev xs' ys \<le> Suc (lev xs' ys')"
        using IH [of xs' ys' a b] xs ys by auto
      have 2: "lev xs ys' \<le> Suc (lev (x # xs) ys')" "lev xs ys' \<le> Suc (lev xs ys)"
        "lev (x # xs) ys' \<le> Suc (lev xs ys')" "lev xs ys \<le> Suc (lev xs ys')"
        using IH [of xs ys' x b] xs ys by auto
      have 3: "lev xs' ys \<le> Suc (lev xs ys)" "lev xs' ys \<le> Suc (lev xs' (y # ys))"
        "lev xs ys \<le> Suc (lev xs' ys)" "lev xs' (y # ys) \<le> Suc (lev xs' ys)"
        using IH [of xs' ys a y] xs ys by auto
      have x: "lev (x # xs) ys = (if x = b then lev xs ys'
          else 1 + min (min (lev xs ys) (lev (x # xs) ys')) (lev xs ys'))"
        by (simp add: ys)
      have y: "lev xs (y # ys) = (if a = y then lev xs' ys
          else 1 + min (min (lev xs' (y # ys)) (lev xs ys)) (lev xs' ys))"
        by (simp add: xs)
      show ?thesis unfolding x y using 1 2 3 by (auto simp: min_def)
    qed
  qed
qed

lemma lev_edits: "edits (lev (rev a) (rev b)) a b"
proof (induction "rev a" "rev b" arbitrary: a b rule: lev.induct)
  case (1 b)
  have "edits (length ys) [] ys" for ys :: "'a list"
    by (induction ys rule: rev_induct) (auto intro: edits.intros)
  with 1 show ?case by simp
next
  case (2 v va)
  have "edits (length xs) xs []" for xs :: "'a list"
    by (induction xs rule: rev_induct) (auto intro: edits.intros)
  with 2 show ?case by (metis lev_Nil2 length_rev rev_is_Nil_conv)
next
  case (3 x xs y ys)
  have a: "a = rev xs @ [x]" and b: "b = rev ys @ [y]" using 3(5,6) by (metis rev.simps(2) rev_rev_ident)+
  show ?case
  proof (cases "x = y")
    case True
    then have "edits (lev xs ys) (rev xs) (rev ys)" using 3(1) [of "rev xs" "rev ys"] by simp
    then show ?thesis using True by (simp add: a b edits_keep)
  next
    case False
    have "edits (lev xs (y # ys)) (rev xs) b" using 3(2) [OF False, of "rev xs" b] b by simp
    moreover have "edits (lev (x # xs) ys) a (rev ys)" using 3(3) [OF False, of a "rev ys"] a by simp
    moreover have "edits (lev xs ys) (rev xs) (rev ys)" using 3(4) [OF False, of "rev xs" "rev ys"] by simp
    ultimately have "edits (Suc (lev xs (y # ys))) a b" and "edits (Suc (lev (x # xs) ys)) a b"
      and "edits (Suc (lev xs ys)) a b"
      unfolding a b by (blast intro: edits.intros)+
    then show ?thesis using False by (auto simp: a b min_def)
  qed
qed

lemma edits_lev: "edits n a b \<Longrightarrow> lev (rev a) (rev b) \<le> n"
proof (induction rule: edits.induct)
  case (edits_change n a b x y)
  then show ?case by (auto simp: min_def)
next
  case (edits_drop n a b x)
  then show ?case using lev_step [of "rev a" "rev b" x x] by simp
next
  case (edits_add n a b y)
  then show ?case using lev_step [of "rev a" "rev b" y y] by simp
qed simp_all

text \<open>A row of the table: the distances of one prefix to all longer and longer prefixes.\<close>

fun table_row :: "'a list \<Rightarrow> 'a list \<Rightarrow> 'a list \<Rightarrow> nat list" where
  "table_row rp rq [] = [lev rp rq]"
| "table_row rp rq (y # ys) = lev rp rq # table_row rp (y # rq) ys"

lemma table_row_hd: "table_row rp rq ys = lev rp rq # tl (table_row rp rq ys)"
  by (cases ys) auto

lemma table_row_first: "table_row [] rq ys = [length rq..<length rq + length ys + 1]"
proof (induction ys arbitrary: rq)
  case (Cons y ys)
  then show ?case by (simp add: upt_conv_Cons del: upt_Suc)
qed simp

lemma table_row_last: "last (table_row rp rq ys) = lev rp (rev ys @ rq)"
  by (induction ys arbitrary: rq) (auto, metis list.discI table_row_hd)

lemma dp_cells_row: "dp_cells x ys (table_row rp rq ys) (lev (x # rp) rq) = tl (table_row (x # rp) rq ys)"
proof (induction ys arbitrary: rq)
  case (Cons y ys)
  obtain t where t: "table_row rp (y # rq) ys = lev rp (y # rq) # t"
    using table_row_hd by blast
  have "dp_cells x (y # ys) (table_row rp rq (y # ys)) (lev (x # rp) rq)
      = lev (x # rp) (y # rq) # dp_cells x ys (table_row rp (y # rq) ys) (lev (x # rp) (y # rq))"
    by (simp add: t Let_def)
  then show ?case using Cons.IH [of "y # rq"] table_row_hd [of "x # rp" "y # rq" ys] by simp
qed simp

lemma dp_rows_table: "length rp = i \<Longrightarrow> dp_rows i a b (table_row rp [] b) = table_row (rev a @ rp) [] b"
proof (induction a arbitrary: i rp)
  case (Cons x a)
  have "(i + 1) # dp_cells x b (table_row rp [] b) (i + 1) = table_row (x # rp) [] b"
    using dp_cells_row [of x b rp "[]"] table_row_hd [of "x # rp" "[]" b] Cons.prems by simp
  with Cons.IH [of "x # rp" "i + 1"] Cons.prems show ?case by simp
qed simp

lemma edit_distance_lev: "edit_distance_chars a b = lev (rev a) (rev b)"
  using dp_rows_table [of "[]" 0 a b] table_row_first [of "[]" b]
  by (simp add: edit_distance_chars_def table_row_last)

section \<open>Stage 6 in closed form\<close>

definition platform_ok :: "registry \<Rightarrow> component_config \<Rightarrow> bool" where
  "platform_ok reg c =
     (case reg_get reg (component_effective_id c) of
        None \<Rightarrow> False
      | Some def \<Rightarrow> \<forall>p. cc_platform c = Some p \<longrightarrow> p \<in> set (cd_child_components def) \<or> reg_get reg p \<noteq> None)"

lemma fatal_unknown [simp]: "is_fatal (unknown_component reg p cid)" "is_fatal (unknown_platform p q c)"
  "is_fatal (missing_dependency a b)" "is_fatal (conflict_found a b)"
  by (simp_all add: unknown_component_def unknown_platform_def missing_dependency_def conflict_found_def
      Let_def split: option.splits)

lemma collect_direct_spec:
  assumes "collect_direct reg ics direct = (d, es)"
  shows "(no_fatal es \<longleftrightarrow> (\<forall>(i, c) \<in> set ics. platform_ok reg c))
    \<and> (no_fatal es \<longrightarrow> set d = set direct \<union> component_effective_id ` snd ` set ics)
    \<and> (\<forall>e \<in> set es. is_fatal e)"
  using assms
proof (induction reg ics direct arbitrary: d es rule: collect_direct.induct)
  case (2 reg i c comps direct)
  show ?case
  proof (cases "reg_get reg (component_effective_id c)")
    case None
    with "2.prems" show ?thesis
      using "2.IH"(1) [OF refl refl None] by (auto simp: platform_ok_def split: prod.splits)
  next
    case (Some def)
    let ?cid = "component_effective_id c"
    obtain es' where es': "collect_direct reg comps (if ?cid \<in> set direct then direct else direct @ [?cid]) = (d, es')"
      and es: "es = platform_errors reg (''components['' @ show_nat i @ '']'') c def @ es'"
    proof -
      obtain d' es' where cd: "collect_direct reg comps (if ?cid \<in> set direct then direct else direct @ [?cid]) = (d', es')"
        by fastforce
      show thesis using "2.prems" Some cd by (intro that [of es']) (simp_all add: Let_def)
    qed
    have "no_fatal (platform_errors reg q c def) \<longleftrightarrow> platform_ok reg c" for q
      by (cases "cc_platform c") (simp_all add: platform_ok_def platform_errors_def Some)
    moreover have "\<forall>e \<in> set (platform_errors reg q c def). is_fatal e" for q
      by (cases "cc_platform c") (simp_all add: platform_errors_def)
    moreover obtain E where E: "component_effective_id ` snd ` set comps = E" by blast
    moreover from E have "component_effective_id ` snd ` set ((i, c) # comps) = insert ?cid E"
      by simp
    moreover have "set (if ?cid \<in> set direct then direct else direct @ [?cid]) = insert ?cid (set direct)"
      by auto
    ultimately show ?thesis
      using "2.IH"(2) [OF refl refl Some es', unfolded E] unfolding es by (simp only: set_append ball_Un) force
  qed
qed simp

definition closure_of :: "registry \<Rightarrow> raw_config \<Rightarrow> string set" where
  "closure_of reg config = (auto_rel reg)\<^sup>* `` (component_effective_id ` set (rc_components config))"

lemma collect_config:
  assumes "collect_direct reg (enumerated (rc_components config)) [] = (d, es)"
  shows "no_fatal es \<longleftrightarrow> (\<forall>c \<in> set (rc_components config). platform_ok reg c)"
    and "no_fatal es \<Longrightarrow> set (resolve_auto_load reg d) = closure_of reg config"
    and "\<forall>e \<in> set es. is_fatal e"
proof -
  have snd: "snd ` set (enumerated xs) = set xs" for xs :: "component_config list"
    by (force simp: enumerated_def in_set_conv_nth in_set_zip image_iff)
  note spec = collect_direct_spec [OF assms]
  show "no_fatal es \<longleftrightarrow> (\<forall>c \<in> set (rc_components config). platform_ok reg c)"
    using spec unfolding snd [symmetric] by (auto simp: split_beta)
  show "no_fatal es \<Longrightarrow> set (resolve_auto_load reg d) = closure_of reg config"
    using spec by (simp add: closure_of_def resolve_auto_load_reach snd)
  show "\<forall>e \<in> set es. is_fatal e" using spec by blast
qed

lemma no_fatal_concat: "no_fatal (concat (map f xs)) \<longleftrightarrow> (\<forall>x \<in> set xs. no_fatal (f x))"
  by auto

lemma dependency_errors_fatal: "no_fatal (dependency_errors reg rs) \<longleftrightarrow>
    (\<forall>a \<in> set rs. \<forall>def. reg_get reg a = Some def \<longrightarrow> set (cd_dependencies def) \<subseteq> set rs)"
  unfolding dependency_errors_def no_fatal_concat
proof (intro ball_cong refl)
  fix a
  show "no_fatal (case reg_get reg a of None \<Rightarrow> []
      | Some def \<Rightarrow> map (missing_dependency a) (filter (\<lambda>dep. dep \<notin> set rs) (cd_dependencies def)))
    \<longleftrightarrow> (\<forall>def. reg_get reg a = Some def \<longrightarrow> set (cd_dependencies def) \<subseteq> set rs)"
    by (cases "reg_get reg a") auto
qed

lemma conflict_errors_fatal: "no_fatal (conflict_errors reg rs) \<longleftrightarrow>
    (\<forall>a \<in> set rs. \<forall>def. reg_get reg a = Some def \<longrightarrow> set (cd_conflicts_with def) \<inter> set rs = {})"
  unfolding conflict_errors_def no_fatal_concat
proof (intro ball_cong refl)
  fix a
  show "no_fatal (case reg_get reg a of None \<Rightarrow> []
      | Some def \<Rightarrow> map (conflict_found a) (filter (\<lambda>x. x \<in> set rs) (cd_conflicts_with def)))
    \<longleftrightarrow> (\<forall>def. reg_get reg a = Some def \<longrightarrow> set (cd_conflicts_with def) \<inter> set rs = {})"
    by (cases "reg_get reg a") auto
qed

lemma stage_6_spec:
  assumes "stage_6_load_components reg config = (resolved, errors)"
  shows "(no_fatal errors \<longleftrightarrow>
      (\<forall>c \<in> set (rc_components config). platform_ok reg c) \<and>
      (\<forall>a \<in> closure_of reg config. \<forall>def. reg_get reg a = Some def \<longrightarrow>
         set (cd_dependencies def) \<subseteq> closure_of reg config \<and>
         set (cd_conflicts_with def) \<inter> closure_of reg config = {}))
   \<and> (no_fatal errors \<longrightarrow> set resolved = closure_of reg config \<and> sorted_wrt (<) resolved)"
proof -
  obtain d es where cd: "collect_direct reg (enumerated (rc_components config)) [] = (d, es)" by fastforce
  note spec = collect_config [OF cd]
  show ?thesis
  proof (cases "no_fatal es")
    case True
    then have "\<not> list_ex is_fatal es" by (auto simp: list_ex_iff)
    with assms cd have r: "resolved = resolve_auto_load reg d"
      and e: "errors = es @ dependency_errors reg resolved @ conflict_errors reg resolved"
      by (auto simp: stage_6_load_components_def Let_def)
    have set: "set resolved = closure_of reg config" using spec(2) [OF True] r by simp
    have "sorted_wrt (<) resolved"
      unfolding r by (simp add: strict_sorted_iff resolve_auto_load_sorted resolve_auto_load_distinct)
    moreover have "no_fatal errors \<longleftrightarrow> no_fatal (dependency_errors reg resolved) \<and> no_fatal (conflict_errors reg resolved)"
      using True unfolding e by auto
    ultimately show ?thesis
      unfolding dependency_errors_fatal conflict_errors_fatal set using spec(1) True by blast
  next
    case False
    then have "errors = es"
      using assms cd by (auto simp: stage_6_load_components_def Let_def list_ex_iff)
    with spec(1) False show ?thesis by blast
  qed
qed

section \<open>Properties\<close>

text \<open>The hint for an unknown component uses the true edit distance: the table's last cell
  is a number of single-character changes, drops and additions that turns one word into the
  other, and no smaller number does.\<close>

theorem edit_distance_minimal:
  "edits (edit_distance a b) (utf8_chars a) (utf8_chars b)
   \<and> (\<forall>n. edits n (utf8_chars a) (utf8_chars b) \<longrightarrow> edit_distance a b \<le> n)"
  unfolding edit_distance_def edit_distance_lev by (blast intro: lev_edits edits_lev)

theorem edit_distance_minimal_witness: "edit_distance ''senser'' ''sensor'' \<le> 1"
proof -
  have chars: "utf8_chars ''senser'' = [''s'', ''e'', ''n'', ''s''] @ [''e''] @ [''r'']"
    "utf8_chars ''sensor'' = [''s'', ''e'', ''n'', ''s''] @ [''o''] @ [''r'']"
    by (simp_all add: is_continuation_def)
  have keep: "edits 0 xs xs" for xs :: "string list"
    by (induction xs rule: rev_induct) (auto intro: edits.intros)
  have "edits 1 (utf8_chars ''senser'') (utf8_chars ''sensor'')"
    unfolding chars append_assoc [symmetric]
    using edits_keep [OF edits_change [OF keep [of "[''s'', ''e'', ''n'', ''s'']"], of "''e''" "''o''"], of "''r''"]
    by simp
  with edit_distance_minimal show ?thesis by blast
qed

text \<open>Stage 6 lets a configuration pass exactly when every component is registered (and
  its platform, if the text is empty, too), the AUTO_LOAD closure of the components contains
  all their dependencies, and no two members of the closure conflict; it then returns that
  closure in increasing order.\<close>

theorem stage_6_passes_iff:
  assumes "stage_6_load_components reg config = (resolved, errors)"
  shows "(no_fatal errors \<longleftrightarrow>
      (\<forall>c \<in> set (rc_components config). platform_ok reg c) \<and>
      (\<forall>a \<in> closure_of reg config. \<forall>def. reg_get reg a = Some def \<longrightarrow>
         set (cd_dependencies def) \<subseteq> closure_of reg config \<and>
         set (cd_conflicts_with def) \<inter> closure_of reg config = {}))
   \<and> (no_fatal errors \<longrightarrow> set resolved = closure_of reg config \<and> sorted_wrt (<) resolved)"
  by (rule stage_6_spec [OF assms])

theorem stage_6_passes_iff_witness:
  "list_ex is_fatal (snd (stage_6_load_components []
     (config_of [\<lparr>cc_type = ''wifi'', cc_platform = None, cc_config = JNull\<rparr>])))"
  (is "list_ex is_fatal (snd (stage_6_load_components [] ?config))")
proof -
  obtain rs es where r: "stage_6_load_components [] ?config = (rs, es)" by fastforce
  have "\<not> platform_ok [] \<lparr>cc_type = ''wifi'', cc_platform = None, cc_config = JNull\<rparr>"
    by (simp add: platform_ok_def)
  then show ?thesis using stage_6_passes_iff [OF r] r by (auto simp: list_ex_iff config_of_def)
qed

text \<open>The parent of a platform component is never looked at: replacing the component
  types of platform components changes nothing in the result of stage 6.\<close>

theorem stage_6_ignores_parent:
  assumes "\<forall>c \<in> set comps. \<exists>p. cc_platform c = Some p \<and> p \<noteq> []"
  shows "stage_6_load_components reg (config\<lparr>rc_components := map (\<lambda>c. c\<lparr>cc_type := parent c\<rparr>) comps\<rparr>)
       = stage_6_load_components reg (config\<lparr>rc_components := comps\<rparr>)"
proof -
  have "collect_direct reg (map (\<lambda>(i, c). (i, c\<lparr>cc_type := parent c\<rparr>)) ics) direct = collect_direct reg ics direct"
    if "\<forall>(i, c) \<in> set ics. \<exists>p. cc_platform c = Some p \<and> p \<noteq> []" for ics direct
    using that
  proof (induction reg ics direct rule: collect_direct.induct)
    case (2 reg i c comps direct)
    then obtain p where p: "cc_platform c = Some p" "p \<noteq> []" by auto
    then have id: "component_effective_id (c\<lparr>cc_type := t\<rparr>) = p" "component_effective_id c = p" for t
      by (simp_all add: component_effective_id_def)
    have none: "reg_get reg p = Some def \<Longrightarrow> platform_errors reg q (c\<lparr>cc_type := t\<rparr>) def = []"
      "reg_get reg p = Some def \<Longrightarrow> platform_errors reg q c def = []" for q def t
      by (simp_all add: platform_errors_def p)
    show ?case
    proof (cases "reg_get reg p")
      case None
      with 2 show ?thesis by (simp add: id Let_def)
    next
      case (Some def)
      with 2 none [OF Some] show ?thesis by (simp add: id Let_def)
    qed
  qed simp
  moreover have "enumerated (map f xs) = map (\<lambda>(i, c). (i, f c)) (enumerated xs)" for f :: "component_config \<Rightarrow> component_config" and xs
    by (simp add: enumerated_def zip_map2)
  moreover have "\<forall>(i, c) \<in> set (enumerated comps). \<exists>p. cc_platform c = Some p \<and> p \<noteq> []"
    using assms by (auto simp: set_enumerated)
  ultimately show ?thesis by (simp add: stage_6_load_components_def)
qed

theorem stage_6_ignores_parent_witness:
  "stage_6_load_components default_registry
      (config_of [\<lparr>cc_type = ''no_such_parent'', cc_platform = Some ''dht'', cc_config = JNull\<rparr>])
   = stage_6_load_components default_registry
      (config_of [\<lparr>cc_type = ''sensor'', cc_platform = Some ''dht'', cc_config = JNull\<rparr>])"
  using stage_6_ignores_parent [of "[\<lparr>cc_type = ''sensor'', cc_platform = Some ''dht'', cc_config = JNull\<rparr>]"
      default_registry "\<lambda>_. ''no_such_parent''" "config_of []"] by (simp add: config_of_def)

end
