(* ===== verification/StageSchema.thy ===== *)
theory StageSchema
  imports StageLoad
begin

text \<open>
  Stage 7 (\<open>s7_schema_validation.rs\<close>): the configuration of every component that has a
  built-in schema is checked field by field for presence, type, enumeration and range.

  The lemmas relate the comparison of doubles to the integers of the configuration and show
  what a configuration that passed stage 7 guarantees to the stages behind it.
\<close>

section \<open>Field descriptors\<close>

datatype field_type = FT_String | FT_Integer | FT_Float | FT_Boolean | FT_Object | FT_Array | FT_Any

record field_def =
  fd_name :: string
  fd_type :: field_type
  fd_required :: bool
  fd_enum_values :: "string list option"
  fd_min :: "f64 option"
  fd_max :: "f64 option"

definition fd_req :: "string \<Rightarrow> field_type \<Rightarrow> field_def" where
  "fd_req name t = \<lparr>fd_name = name, fd_type = t, fd_required = True, fd_enum_values = None,
     fd_min = None, fd_max = None\<rparr>"

definition fd_opt :: "string \<Rightarrow> field_type \<Rightarrow> field_def" where
  "fd_opt name t = \<lparr>fd_name = name, fd_type = t, fd_required = False, fd_enum_values = None,
     fd_min = None, fd_max = None\<rparr>"

definition with_enum :: "string list \<Rightarrow> field_def \<Rightarrow> field_def" where
  "with_enum variants fd = fd\<lparr>fd_enum_values := Some variants\<rparr>"

definition with_range :: "f64 \<Rightarrow> f64 \<Rightarrow> field_def \<Rightarrow> field_def" where
  "with_range mn mx fd = fd\<lparr>fd_min := Some mn, fd_max := Some mx\<rparr>"

section \<open>Built-in schemas\<close>

definition ENTITY_COMMON :: "field_def list" where
  "ENTITY_COMMON = [
     fd_req ''name'' FT_String,
     fd_opt ''id'' FT_String,
     fd_opt ''icon'' FT_String,
     fd_opt ''internal'' FT_Boolean,
     fd_opt ''disabled_by_default'' FT_Boolean,
     with_enum [''none'', ''config'', ''diagnostic''] (fd_opt ''entity_category'' FT_String)]"

definition SENSOR_FIELDS :: "field_def list" where
  "SENSOR_FIELDS = [
     fd_opt ''device_class'' FT_String,
     fd_opt ''unit_of_measurement'' FT_String,
     with_range (f64_of_nat 0) (f64_of_nat 10) (fd_opt ''accuracy_decimals'' FT_Integer),
     with_enum [''measurement'', ''total'', ''total_increasing''] (fd_opt ''state_class'' FT_String),
     fd_opt ''filters'' FT_Array,
     fd_opt ''force_update'' FT_Boolean,
     with_range (f64_of_nat 0) (f64_of_nat 4294967295) (fd_opt ''expire_after'' FT_Integer)]"

definition DHT_FIELDS :: "field_def list" where
  "DHT_FIELDS = [
     with_range (f64_of_nat 0) (f64_of_nat 48) (fd_req ''pin'' FT_Integer),
     with_enum [''AUTO_DETECT'', ''DHT11'', ''DHT22'', ''AM2302'', ''RHT03''] (fd_opt ''model'' FT_String),
     fd_opt ''update_interval'' FT_String,
     fd_opt ''temperature'' FT_Object,
     fd_opt ''humidity'' FT_Object]"

definition WIFI_FIELDS :: "field_def list" where
  "WIFI_FIELDS = [
     with_enum [''nvs'', ''build_input''] (fd_opt ''provisioning_mode'' FT_String),
     fd_opt ''ssid'' FT_String,
     fd_opt ''password'' FT_String,
     fd_opt ''service_name'' FT_String,
     fd_opt ''pop'' FT_String,
     fd_opt ''networks'' FT_Array,
     fd_opt ''ap'' FT_Object,
     fd_opt ''reboot_timeout'' FT_String,
     with_enum [''none'', ''light'', ''high''] (fd_opt ''power_save_mode'' FT_String),
     fd_opt ''fast_connect'' FT_Boolean,
     fd_opt ''domain'' FT_String]"

definition LOGGER_FIELDS :: "field_def list" where
  "LOGGER_FIELDS = [
     with_enum [''NONE'', ''ERROR'', ''WARN'', ''INFO'', ''DEBUG'', ''VERBOSE'', ''VERY_VERBOSE''] (fd_opt ''level'' FT_String),
     with_range (f64_of_nat 0) (f64_of_nat 921600) (fd_opt ''baud_rate'' FT_Integer),
     with_range (f64_of_nat 0) (f64_of_nat 65536) (fd_opt ''tx_buffer_size'' FT_Integer),
     fd_opt ''hardware_uart'' FT_String,
     fd_opt ''logs'' FT_Object]"

definition API_FIELDS :: "field_def list" where
  "API_FIELDS = [
     fd_opt ''password'' FT_String,
     with_range (f64_of_nat 1) (f64_of_nat 65535) (fd_opt ''port'' FT_Integer),
     fd_opt ''reboot_timeout'' FT_String,
     fd_opt ''encryption'' FT_Object,
     fd_opt ''services'' FT_Array]"

definition OTA_FIELDS :: "field_def list" where
  "OTA_FIELDS = [
     fd_opt ''password'' FT_String,
     fd_opt ''safe_mode'' FT_Boolean,
     fd_opt ''reboot_timeout'' FT_Integer,
     with_range (f64_of_nat 1) (f64_of_nat 100) (fd_opt ''num_attempts'' FT_Integer),
     fd_opt ''platform'' FT_String]"

definition I2C_FIELDS :: "field_def list" where
  "I2C_FIELDS = [
     with_range (f64_of_nat 0) (f64_of_nat 48) (fd_opt ''sda'' FT_Integer),
     with_range (f64_of_nat 0) (f64_of_nat 48) (fd_opt ''scl'' FT_Integer),
     fd_opt ''frequency'' FT_Integer,
     fd_opt ''scan'' FT_Boolean]"

definition SWITCH_FIELDS :: "field_def list" where
  "SWITCH_FIELDS = [
     with_enum [''RESTORE_DEFAULT_OFF'', ''RESTORE_DEFAULT_ON'', ''ALWAYS_OFF'', ''ALWAYS_ON'', ''RESTORE_INVERTED_DEFAULT_OFF'', ''RESTORE_INVERTED_DEFAULT_ON'', ''DISABLED''] (fd_opt ''restore_mode'' FT_String),
     fd_opt ''inverted'' FT_Boolean,
     fd_opt ''on_turn_on'' FT_Array,
     fd_opt ''on_turn_off'' FT_Array]"

definition GPIO_SWITCH_FIELDS :: "field_def list" where
  "GPIO_SWITCH_FIELDS = [
     with_range (f64_of_nat 0) (f64_of_nat 48) (fd_req ''pin'' FT_Integer)]"

definition BINARY_SENSOR_FIELDS :: "field_def list" where
  "BINARY_SENSOR_FIELDS = [
     fd_opt ''device_class'' FT_String,
     fd_opt ''filters'' FT_Array,
     fd_opt ''on_press'' FT_Array,
     fd_opt ''on_release'' FT_Array]"

definition GPIO_BINARY_SENSOR_FIELDS :: "field_def list" where
  "GPIO_BINARY_SENSOR_FIELDS = [
     with_range (f64_of_nat 0) (f64_of_nat 48) (fd_req ''pin'' FT_Integer)]"

text \<open>The fields of a component and whether the common entity fields apply too.\<close>

definition fields_for :: "string \<Rightarrow> (field_def list \<times> bool) option" where
  "fields_for component_id = map_of
     [(''dht'', (DHT_FIELDS, False)), (''wifi'', (WIFI_FIELDS, False)),
      (''logger'', (LOGGER_FIELDS, False)), (''api'', (API_FIELDS, False)),
      (''ota'', (OTA_FIELDS, False)), (''i2c'', (I2C_FIELDS, False)),
      (''sensor'', (SENSOR_FIELDS, True)), (''switch'', (SWITCH_FIELDS, True)),
      (''gpio'', (GPIO_SWITCH_FIELDS, False)), (''binary_sensor'', (BINARY_SENSOR_FIELDS, True))]
     component_id"

section \<open>Validation\<close>

text \<open>\<open>is_i64() || is_u64()\<close> holds of the two integer representations.\<close>

fun is_integer :: "json \<Rightarrow> bool" where
  "is_integer (JNum (PosInt _)) = True"
| "is_integer (JNum (NegInt _)) = True"
| "is_integer _ = False"

fun check_field_type :: "json \<Rightarrow> field_type \<Rightarrow> bool" where
  "check_field_type v FT_String = (as_str v \<noteq> None)"
| "check_field_type v FT_Integer = is_integer v"
| "check_field_type v FT_Float = (case v of JNum _ \<Rightarrow> True | _ \<Rightarrow> False)"
| "check_field_type v FT_Boolean = (case v of JBool _ \<Rightarrow> True | _ \<Rightarrow> False)"
| "check_field_type v FT_Object = is_object v"
| "check_field_type v FT_Array = (as_array v \<noteq> None)"
| "check_field_type v FT_Any = True"

fun json_type_name :: "json \<Rightarrow> string" where
  "json_type_name JNull = ''null''"
| "json_type_name (JBool _) = ''boolean''"
| "json_type_name (JNum _) = ''number''"
| "json_type_name (JStr _) = ''string''"
| "json_type_name (JArr _) = ''array''"
| "json_type_name (JObj _) = ''object''"

fun show_field_type :: "field_type \<Rightarrow> string" where
  "show_field_type FT_String = ''String''"
| "show_field_type FT_Integer = ''Integer''"
| "show_field_type FT_Float = ''Float''"
| "show_field_type FT_Boolean = ''Boolean''"
| "show_field_type FT_Object = ''Object''"
| "show_field_type FT_Array = ''Array''"
| "show_field_type FT_Any = ''Any''"

definition eq_ignore_ascii_case :: "string \<Rightarrow> string \<Rightarrow> bool" where
  "eq_ignore_ascii_case a b \<longleftrightarrow> map lower_char a = map lower_char b"

definition check_enum :: "string \<Rightarrow> field_def \<Rightarrow> json \<Rightarrow> validation_error list" where
  "check_enum field_path field val =
     (case (fd_enum_values field, as_str val) of
        (Some variants, Some s) \<Rightarrow>
          if list_ex (\<lambda>v. eq_ignore_ascii_case v s) variants then []
          else [with_suggestion (''valid values: '' @ join '', '' variants)
                 (verror SchemaValidation field_path
                   (''invalid value '' @ quoted s @ '' for '' @ quoted (fd_name field)))]
      | _ \<Rightarrow> [])"

definition check_range :: "string \<Rightarrow> field_def \<Rightarrow> json \<Rightarrow> validation_error list" where
  "check_range field_path field val =
     (case (fd_min field, fd_max field, as_f64 val) of
        (Some mn, Some mx, Some n) \<Rightarrow>
          if f64_lt n mn \<or> f64_lt mx n
          then [verror SchemaValidation field_path
                 (''value '' @ show_f64 n @ '' for '' @ quoted (fd_name field) @
                  '' is outside valid range ['' @ show_f64 mn @ '', '' @ show_f64 mx @ '']'')]
          else []
      | _ \<Rightarrow> [])"

definition validate_field :: "string \<Rightarrow> (string \<times> json) list \<Rightarrow> field_def \<Rightarrow> validation_error list" where
  "validate_field path obj field =
     (let field_path = path @ ''.'' @ fd_name field in
      case map_of obj (fd_name field) of
        None \<Rightarrow>
          if fd_required field
          then [verror SchemaValidation field_path (''required field '' @ quoted (fd_name field) @ '' is missing'')]
          else []
      | Some val \<Rightarrow>
          if val = JNull \<and> fd_required field
          then [verror SchemaValidation field_path (''required field '' @ quoted (fd_name field) @ '' must not be null'')]
          else if \<not> check_field_type val (fd_type field)
          then [verror SchemaValidation field_path
                 (''field '' @ quoted (fd_name field) @ '' expected '' @ show_field_type (fd_type field) @
                  '' but got '' @ json_type_name val)]
          else check_enum field_path field val @ check_range field_path field val)"

definition validate_fields :: "json \<Rightarrow> field_def list \<Rightarrow> string \<Rightarrow> validation_error list" where
  "validate_fields config fds path =
     (case as_object config of
        None \<Rightarrow> []
      | Some obj \<Rightarrow> concat (map (validate_field path obj) fds))"

definition validate_component :: "string \<Rightarrow> component_config \<Rightarrow> string \<Rightarrow> validation_error list" where
  "validate_component component_id c path =
     (case fields_for component_id of
        None \<Rightarrow> []
      | Some (fds, has_common) \<Rightarrow>
          (if has_common then validate_fields (cc_config c) ENTITY_COMMON path else []) @
          validate_fields (cc_config c) fds path)"

text \<open>The running index of a component among those of its type; \<open>ctr\<close> is the counter map.\<close>

fun type_indexed :: "(string \<Rightarrow> nat) \<Rightarrow> component_config list \<Rightarrow> (nat \<times> component_config) list" where
  "type_indexed ctr [] = []"
| "type_indexed ctr (c # cs) =
     (ctr (cc_type c), c) # type_indexed (ctr(cc_type c := ctr (cc_type c) + 1)) cs"

definition indexed_path :: "nat \<Rightarrow> component_config \<Rightarrow> string" where
  "indexed_path idx c = cc_type c @ ''['' @ show_nat idx @ '']''"

definition stage_7_validate_schemas :: "raw_config \<Rightarrow> validation_error list" where
  "stage_7_validate_schemas config =
     concat (map (\<lambda>(idx, c). validate_component (component_effective_id c) c (indexed_path idx c))
       (type_indexed (\<lambda>_. 0) (rc_components config)))"

section \<open>Integers as doubles\<close>

lemma bit_len_0 [simp]: "bit_len 0 = 0"
  by (simp add: bit_len.simps)

lemma bit_len_pos: "0 < n \<Longrightarrow> bit_len n = Suc (bit_len (n div 2))"
  by (subst bit_len.simps) simp

lemma bit_len_bounds: "0 < n \<Longrightarrow> 2 ^ (bit_len n - 1) \<le> n \<and> n < 2 ^ bit_len n \<and> 0 < bit_len n"
proof (induction n rule: bit_len.induct)
  case (1 n)
  show ?case
  proof (cases "n div 2 = 0")
    case True
    with 1(2) have "n = 1" by auto
    then show ?thesis by (simp add: bit_len_pos)
  next
    case False
    then have IH: "2 ^ (bit_len (n div 2) - 1) \<le> n div 2" "n div 2 < 2 ^ bit_len (n div 2)" "0 < bit_len (n div 2)"
      using 1 by auto
    have "2 ^ bit_len (n div 2) \<le> n" using IH(1,3) by (cases "bit_len (n div 2)") auto
    moreover have "n < 2 * 2 ^ bit_len (n div 2)" using IH(2) by linarith
    ultimately show ?thesis using 1(2) by (simp add: bit_len_pos)
  qed
qed

lemma bit_len_shift: "0 < n \<Longrightarrow> bit_len (n * 2 ^ j) = bit_len n + j"
proof (induction j)
  case (Suc j)
  have "n * 2 ^ Suc j div 2 = n * 2 ^ j" by simp
  with Suc show ?case by (simp add: bit_len_pos)
qed simp

lemma bit_len_le: "n < 2 ^ k \<Longrightarrow> bit_len n \<le> k"
proof (cases "n = 0")
  case False
  assume n: "n < 2 ^ k"
  have "2 ^ (bit_len n - 1) \<le> n" using bit_len_bounds [of n] False by simp
  with n have "(2 :: nat) ^ (bit_len n - 1) < 2 ^ k" by linarith
  then show ?thesis by (simp add: power_strict_increasing_iff)
qed simp

lemma div_even_exact: "0 < b \<Longrightarrow> b dvd a \<Longrightarrow> div_even a b = a div b"
  by (auto simp: div_even_def)

lemma div_even_ge: "a div b \<le> div_even a b"
  by (simp add: div_even_def Let_def)

lemma round_mag_exact: "n < 2 ^ 53 \<Longrightarrow> round_mag (n * f64_unit) 1 = n * f64_unit"
proof (cases "n = 0")
  case True
  then show ?thesis by (simp add: round_mag_def div_even_def)
next
  case False
  assume "n < 2 ^ 53"
  then have "bit_len n \<le> 53" by (rule bit_len_le)
  then have "bit_len (n * f64_unit) - 53 \<le> 1074"
    using False unfolding f64_unit_def by (simp add: bit_len_shift del: power_numeral)
  then have d: "2 ^ (bit_len (n * f64_unit) - 53) dvd n * f64_unit"
    unfolding f64_unit_def by (metis dvd_mult le_imp_power_dvd)
  then have "div_even (n * f64_unit) (2 ^ (bit_len (n * f64_unit) - 53))
      = n * f64_unit div 2 ^ (bit_len (n * f64_unit) - 53)"
    by (intro div_even_exact) simp_all
  with d show ?thesis by (simp add: round_mag_def Let_def)
qed

lemma round_mag_ge: "2 ^ 53 \<le> n \<Longrightarrow> 2 ^ 53 * f64_unit \<le> round_mag (n * f64_unit) 1"
proof -
  assume n: "2 ^ 53 \<le> n"
  then have n0: "0 < n" by (metis not_less not_numeral_le_zero power_eq_0_iff le_zero_eq)
  define k where "k = bit_len n + 1021"
  have b: "2 ^ (bit_len n - 1) \<le> n" "n < 2 ^ bit_len n" using bit_len_bounds [OF n0] by auto
  have "(2 :: nat) ^ 53 < 2 ^ bit_len n" using n b(2) by (rule le_less_trans)
  then have L: "53 < bit_len n" by (rule power_less_imp_less_exp [rotated]) simp
  have k: "bit_len (n * f64_unit) - 53 = k"
    using bit_len_shift [OF n0, of 1074] unfolding f64_unit_def k_def by (simp del: power_numeral)
  have split: "(2 :: nat) ^ (bit_len n - 1) * 2 ^ 1074 = 2 ^ 52 * 2 ^ k"
    unfolding power_add [symmetric] k_def using L by (intro arg_cong [of _ _ "(^) 2"]) simp
  have "2 ^ 52 * 2 ^ k \<le> n * f64_unit"
    unfolding split [symmetric] f64_unit_def using b(1) by (rule mult_le_mono1)
  then have "2 ^ 52 \<le> n * f64_unit div 2 ^ k"
    by (simp add: less_eq_div_iff_mult_less_eq del: power_numeral)
  also have "\<dots> \<le> div_even (n * f64_unit) (2 ^ k)" by (rule div_even_ge)
  finally have "2 ^ 52 * 2 ^ k \<le> div_even (n * f64_unit) (2 ^ k) * 2 ^ k" by (rule mult_le_mono1)
  then have "2 ^ (bit_len n - 1) * 2 ^ 1074 \<le> round_mag (n * f64_unit) 1"
    unfolding split by (simp add: round_mag_def k Let_def del: power_numeral)
  moreover have "(2 :: nat) ^ 53 * 2 ^ 1074 \<le> 2 ^ (bit_len n - 1) * 2 ^ 1074"
    using L by (intro mult_le_mono1 power_increasing) simp_all
  ultimately show ?thesis unfolding f64_unit_def by linarith
qed

lemma f64_unit_pos: "0 < f64_unit"
  by (simp add: f64_unit_def)

lemma f64_of_nat_exact: "n < 2 ^ 53 \<Longrightarrow> f64_of_nat n = F_Fin False (n * f64_unit)"
proof -
  assume n: "n < 2 ^ 53"
  have "n * f64_unit < f64_limit"
  proof -
    have "n * f64_unit < 2 ^ 53 * f64_unit" using n f64_unit_pos by simp
    also have "\<dots> \<le> f64_limit" unfolding f64_unit_def f64_limit_def power_add [symmetric]
      by (rule power_increasing) simp_all
    finally show ?thesis .
  qed
  then show ?thesis using round_mag_exact [OF n] by (simp add: f64_of_nat_def f64_of_ratio_def Let_def)
qed

lemma f64_lt_of_nat: "c < 2 ^ 53 \<Longrightarrow> f64_lt (f64_of_nat c) (f64_of_nat n) \<longleftrightarrow> c < n"
proof (cases "n < 2 ^ 53")
  case True
  assume "c < 2 ^ 53"
  with True show ?thesis using f64_unit_pos by (simp add: f64_of_nat_exact f64_signed_def)
next
  case False
  assume c: "c < 2 ^ 53"
  have "c * f64_unit < 2 ^ 53 * f64_unit" using c f64_unit_pos by simp
  also have "\<dots> \<le> round_mag (n * f64_unit) 1" using False by (intro round_mag_ge) simp
  finally have "int (c * f64_unit) < int (round_mag (n * f64_unit) 1)"
    by (simp only: of_nat_less_iff)
  then have "f64_lt (f64_of_nat c) (f64_of_nat n)"
    using c by (simp add: f64_of_nat_exact f64_of_nat_def [of n] f64_of_ratio_def f64_signed_def Let_def)
  with c False show ?thesis by linarith
qed

lemma f64_of_int_neg: "i < 0 \<Longrightarrow> f64_lt (f64_of_int i) (f64_of_nat 0)"
proof -
  assume i: "i < 0"
  define n where "n = nat \<bar>i\<bar>"
  have n: "0 < n" using i by (simp add: n_def)
  have "0 < round_mag (n * f64_unit) 1"
  proof (cases "n < 2 ^ 53")
    case True
    show ?thesis unfolding round_mag_exact [OF True] using n f64_unit_pos by simp
  next
    case False
    then have "2 ^ 53 * f64_unit \<le> round_mag (n * f64_unit) 1" by (intro round_mag_ge) simp
    then show ?thesis using f64_unit_pos by (metis le_zero_eq gr_zeroI mult_is_0 power_eq_0_iff zero_neq_numeral less_irrefl)
  qed
  moreover have "nat (- i) = n" using i by (simp add: n_def)
  ultimately show ?thesis using i
    by (simp add: f64_of_int_def f64_of_ratio_def f64_of_nat_exact f64_signed_def Let_def)
qed

section \<open>What stage 7 guarantees\<close>

lemma f64_lt_trans: "f64_lt x y \<Longrightarrow> f64_lt y z \<Longrightarrow> f64_lt x z"
  by (cases x; cases y; cases z) auto

text \<open>An integer field with the range \<open>0..m\<close>.\<close>

lemma integer_in_range:
  assumes "is_integer v" and "check_range p fd v = []"
    and "fd_min fd = Some (f64_of_nat 0)" and "fd_max fd = Some (f64_of_nat m)" and "m < 2 ^ 53"
  shows "\<exists>i. as_i64 v = Some i \<and> 0 \<le> i \<and> i \<le> int m"
proof -
  consider w where "v = JNum (PosInt w)" | w where "v = JNum (NegInt w)"
    using assms(1) by (cases v rule: is_integer.cases) auto
  then show ?thesis
  proof cases
    case 1
    then have "\<not> f64_lt (f64_of_nat m) (f64_of_nat (unat w))"
      using assms(2-4) by (auto simp: check_range_def split: if_splits)
    then have m: "unat w \<le> m" using assms(5) by (simp add: f64_lt_of_nat)
    with assms(5) have "unat w < 2 ^ 63" by simp
    moreover have "uint w \<le> int m" unfolding uint_nat using m by (rule of_nat_mono)
    ultimately show ?thesis using 1 by simp
  next
    case 2
    then have r: "\<not> f64_lt (f64_of_int (sint w)) (f64_of_nat 0)" "\<not> f64_lt (f64_of_nat m) (f64_of_int (sint w))"
      using assms(2-4) by (auto simp: check_range_def split: if_splits)
    have pos: "0 \<le> sint w" using f64_of_int_neg [of "sint w"] r(1) by linarith
    then have "f64_of_int (sint w) = f64_of_nat (nat (sint w))"
      by (simp add: f64_of_int_def f64_of_nat_def)
    with r(2) assms(5) have "nat (sint w) \<le> m" by (simp add: f64_lt_of_nat)
    with 2 pos show ?thesis by simp
  qed
qed

lemma no_fatal_checks:
  "no_fatal (check_enum p fd v) \<longleftrightarrow> check_enum p fd v = []"
  "no_fatal (check_range p fd v) \<longleftrightarrow> check_range p fd v = []"
  by (cases "fd_enum_values fd"; cases "as_str v"; simp add: check_enum_def)
     (cases "fd_min fd"; cases "fd_max fd"; cases "as_f64 v"; simp add: check_range_def)

lemma no_fatal_append: "no_fatal (es @ fs) \<longleftrightarrow> no_fatal es \<and> no_fatal fs"
  by auto

lemma no_fatal_validate_field: "no_fatal (validate_field path obj fd) \<longleftrightarrow> validate_field path obj fd = []"
proof (cases "map_of obj (fd_name fd)")
  case None
  then show ?thesis by (simp add: validate_field_def)
next
  case (Some v)
  then show ?thesis
    using no_fatal_checks [of "path @ ''.'' @ fd_name fd" fd v]
    by (simp add: validate_field_def Let_def no_fatal_append del: set_append)
qed

lemma set_type_indexed: "snd ` set (type_indexed ctr cs) = set cs"
  by (induction cs arbitrary: ctr) auto

lemma stage_7_component:
  assumes "no_fatal (stage_7_validate_schemas config)" and "c \<in> set (rc_components config)"
  obtains idx where "no_fatal (validate_component (component_effective_id c) c (indexed_path idx c))"
proof -
  have "c \<in> snd ` set (type_indexed (\<lambda>_. 0) (rc_components config))"
    using assms(2) by (simp add: set_type_indexed)
  then obtain idx where "(idx, c) \<in> set (type_indexed (\<lambda>_. 0) (rc_components config))" by auto
  then have "no_fatal (validate_component (component_effective_id c) c (indexed_path idx c))"
    using assms(1) unfolding stage_7_validate_schemas_def no_fatal_concat by fastforce
  then show ?thesis by (rule that)
qed

lemma validate_fields_field:
  assumes "no_fatal (validate_fields (JObj obj) fds path)" and "fd \<in> set fds"
  shows "validate_field path obj fd = []"
proof -
  have "\<forall>f \<in> set fds. no_fatal (validate_field path obj f)"
    using assms(1) unfolding validate_fields_def as_object.simps option.case no_fatal_concat .
  with assms(2) show ?thesis unfolding no_fatal_validate_field by blast
qed

lemma required_pin:
  assumes "validate_field path obj (with_range (f64_of_nat 0) (f64_of_nat m) (fd_req n FT_Integer)) = []"
    and "m < 2 ^ 53"
  shows "\<exists>v i. map_of obj n = Some v \<and> as_i64 v = Some i \<and> 0 \<le> i \<and> i \<le> int m"
proof -
  obtain v where v: "map_of obj n = Some v" and "is_integer v"
    and "check_range (path @ ''.'' @ n) (with_range (f64_of_nat 0) (f64_of_nat m) (fd_req n FT_Integer)) v = []"
    using assms(1) by (auto simp: validate_field_def with_range_def fd_req_def Let_def split: option.splits if_splits)
  from integer_in_range [OF this(2,3)] assms(2) v show ?thesis by (simp add: with_range_def fd_req_def)
qed

section \<open>Properties\<close>

text \<open>A configuration that passes stage 7 has, in every \<open>dht\<close> and \<open>gpio\<close> component whose
  configuration is an object, a pin that is an integer between 0 and 48, however the number
  was written and although the comparison is made on doubles.\<close>

theorem stage_7_pins_in_range:
  assumes "no_fatal (stage_7_validate_schemas config)" and "c \<in> set (rc_components config)"
    and "component_effective_id c = ''dht'' \<or> component_effective_id c = ''gpio''"
    and "cc_config c = JObj obj"
  shows "\<exists>v i. map_of obj ''pin'' = Some v \<and> as_i64 v = Some i \<and> 0 \<le> i \<and> i \<le> 48"
proof -
  let ?pin = "with_range (f64_of_nat 0) (f64_of_nat 48) (fd_req ''pin'' FT_Integer)"
  obtain idx where "no_fatal (validate_component (component_effective_id c) c (indexed_path idx c))"
    using assms(1,2) by (rule stage_7_component)
  moreover have "validate_component ''dht'' c p = validate_fields (JObj obj) DHT_FIELDS p"
    and "validate_component ''gpio'' c p = validate_fields (JObj obj) GPIO_SWITCH_FIELDS p" for p
    by (simp_all add: validate_component_def fields_for_def assms(4))
  ultimately have "no_fatal (validate_fields (JObj obj) DHT_FIELDS (indexed_path idx c)) \<or>
      no_fatal (validate_fields (JObj obj) GPIO_SWITCH_FIELDS (indexed_path idx c))"
    using assms(3) by metis
  moreover have "?pin \<in> set DHT_FIELDS" and "?pin \<in> set GPIO_SWITCH_FIELDS"
    unfolding DHT_FIELDS_def GPIO_SWITCH_FIELDS_def by simp_all
  ultimately have "validate_field (indexed_path idx c) obj ?pin = []"
    by (blast dest: validate_fields_field)
  from required_pin [OF this] show ?thesis by simp
qed

theorem stage_7_pins_in_range_witness:
  "\<exists>v i. map_of [(''pin'', JNum (PosInt 4))] ''pin'' = Some v \<and> as_i64 v = Some i \<and> 0 \<le> i \<and> i \<le> 48"
proof -
  let ?c = "\<lparr>cc_type = ''gpio'', cc_platform = None, cc_config = JObj [(''pin'', JNum (PosInt 4))]\<rparr>"
  let ?config = "config_of [?c]"
  have "\<not> f64_lt (f64_of_nat 4) (f64_of_nat 0)" and "\<not> f64_lt (f64_of_nat 48) (f64_of_nat 4)"
    by (simp_all add: f64_lt_of_nat)
  then have "no_fatal (stage_7_validate_schemas ?config)"
    by (simp add: stage_7_validate_schemas_def validate_component_def component_effective_id_def config_of_def
        fields_for_def validate_fields_def GPIO_SWITCH_FIELDS_def validate_field_def check_enum_def
        check_range_def with_range_def fd_req_def)
  then show ?thesis
    by (rule stage_7_pins_in_range [of ?config ?c]) (simp_all add: component_effective_id_def config_of_def)
qed

text \<open>A component whose configuration is no object is not checked at all: stage 7 reports
  nothing for it, whatever fields its schema requires.\<close>

theorem stage_7_skips_non_objects:
  assumes "\<forall>c \<in> set (rc_components config). as_object (cc_config c) = None"
  shows "stage_7_validate_schemas config = []"
proof -
  have "validate_component cid c p = []" if "c \<in> set (rc_components config)" for cid c p
    using assms that by (simp add: validate_component_def validate_fields_def split: option.splits prod.splits)
  moreover have "snd p \<in> set (rc_components config)" if "p \<in> set (type_indexed (\<lambda>_. 0) (rc_components config))" for p
    using that set_type_indexed [of "\<lambda>_. 0" "rc_components config"] by blast
  ultimately show ?thesis by (auto simp: stage_7_validate_schemas_def)
qed

theorem stage_7_skips_non_objects_witness:
  "stage_7_validate_schemas
     (config_of [\<lparr>cc_type = ''sensor'', cc_platform = Some ''dht'', cc_config = JNull\<rparr>]) = []"
  by (rule stage_7_skips_non_objects) (simp add: config_of_def)

end
