(* ===== verification/StageIds.thy ===== *)
theory StageIds
  imports StageSchema
begin

text \<open>
  Stage 8 (\<open>s8_id_resolution.rs\<close>): entity ids are collected, missing ids are generated from
  names, and references to ids are checked. The id table is an association list; a key is
  only ever inserted when it is absent.

  The lemmas show that the search for a free id ends, that generated ids never clash with
  another id of the configuration, and that after a run without errors the ids of the
  configuration are pairwise different and every reference is among them.
\<close>

section \<open>Slugs and unique ids\<close>

record id_entry =
  ie_id :: string
  ie_component_index :: nat
  ie_component_type :: string

type_synonym id_table = "(string \<times> id_entry) list"

text \<open>Rust's Unicode tables: \<open>str::to_lowercase\<close> and \<open>char::is_alphanumeric\<close>, a character being
  its UTF-8 bytes. The stage is modelled over any such tables; \<open>ascii_unicode\<close> are tables that
  agree with them on ASCII text.\<close>

record unicode =
  uc_lower :: "string \<Rightarrow> string"
  uc_alnum :: "string \<Rightarrow> bool"

definition ascii_unicode :: unicode where
  "ascii_unicode = \<lparr>uc_lower = to_lower, uc_alnum = list_all is_alnum\<rparr>"

definition trim_underscores :: "string \<Rightarrow> string" where
  "trim_underscores s = rev (dropWhile (\<lambda>c. c = CHR ''_'') (rev (dropWhile (\<lambda>c. c = CHR ''_'') s)))"

definition slugify :: "unicode \<Rightarrow> string \<Rightarrow> string" where
  "slugify uc name = trim_underscores
     (concat (map (\<lambda>c. if uc_alnum uc c then c else ''_'') (utf8_chars (uc_lower uc name))))"

definition suffixed :: "string \<Rightarrow> nat \<Rightarrow> string" where
  "suffixed base n = base @ ''_'' @ show_nat n"

lemma suffixed_inj: "suffixed base m = suffixed base n \<Longrightarrow> m = n"
  by (simp add: suffixed_def show_nat_inj)

abbreviation keys :: "(string \<times> 'v) list \<Rightarrow> string set" where
  "keys table \<equiv> fst ` set table"

text \<open>The keys the search may still meet from \<open>n\<close> on.\<close>

definition taken_from :: "string \<Rightarrow> id_table \<Rightarrow> nat \<Rightarrow> string set" where
  "taken_from base table n = {k \<in> keys table. \<exists>m \<ge> n. k = suffixed base m}"

lemma finite_taken_from [simp]: "finite (taken_from base table n)"
  by (simp add: taken_from_def)

lemma taken_from_less:
  assumes "suffixed base n \<in> keys table"
  shows "card (taken_from base table (n + 1)) < card (taken_from base table n)"
proof (rule psubset_card_mono)
  have "suffixed base n \<in> taken_from base table n" using assms by (auto simp: taken_from_def)
  moreover have "suffixed base n \<notin> taken_from base table (n + 1)"
    by (auto simp: taken_from_def dest: suffixed_inj)
  moreover have "taken_from base table (n + 1) \<subseteq> taken_from base table n"
  proof
    fix k
    assume "k \<in> taken_from base table (n + 1)"
    then obtain m where "k \<in> keys table" and m: "n + 1 \<le> m" and "k = suffixed base m"
      unfolding taken_from_def by blast
    moreover have "n \<le> m" using m by simp
    ultimately show "k \<in> taken_from base table n" unfolding taken_from_def by blast
  qed
  ultimately show "taken_from base table (n + 1) \<subset> taken_from base table n" by blast
qed simp

function unique_from :: "string \<Rightarrow> id_table \<Rightarrow> nat \<Rightarrow> string" where
  "unique_from base table n =
     (let candidate = suffixed base n
      in if map_of table candidate = None then candidate else unique_from base table (n + 1))"
  by pat_completeness auto
termination
  by (relation "measure (\<lambda>(base, table, n). card (taken_from base table n))")
     (auto simp: map_of_eq_None_iff taken_from_less [simplified])

declare unique_from.simps [simp del]

definition make_unique :: "string \<Rightarrow> id_table \<Rightarrow> string" where
  "make_unique base table = (if map_of table base = None then base else unique_from base table 2)"

section \<open>The three passes\<close>

definition duplicate_id :: "nat \<Rightarrow> string \<Rightarrow> id_entry \<Rightarrow> validation_error" where
  "duplicate_id i entity_id existing =
     verror IdResolution (''components['' @ show_nat i @ ''].id'')
       (''duplicate ID '' @ quoted entity_id @ '': already used by '' @ ie_component_type existing @
        '' at index '' @ show_nat (ie_component_index existing))"

definition id_not_string :: "nat \<Rightarrow> validation_error" where
  "id_not_string i = verror IdResolution (''components['' @ show_nat i @ ''].id'')
     (''entity '' @ quoted ''id'' @ '' field must be a string'')"

fun collect_ids :: "(nat \<times> component_config) list \<Rightarrow> id_table \<Rightarrow> id_table \<times> validation_error list" where
  "collect_ids [] table = (table, [])"
| "collect_ids ((i, c) # comps) table =
     (case json_get ''id'' (cc_config c) of
        None \<Rightarrow> collect_ids comps table
      | Some id_val \<Rightarrow>
          (case as_str id_val of
             Some entity_id \<Rightarrow>
               (case map_of table entity_id of
                  Some existing \<Rightarrow>
                    let (t, es) = collect_ids comps table in (t, duplicate_id i entity_id existing # es)
                | None \<Rightarrow>
                    collect_ids comps
                      ((entity_id, \<lparr>ie_id = entity_id, ie_component_index = i, ie_component_type = cc_type c\<rparr>) # table))
           | None \<Rightarrow>
               if id_val \<noteq> JNull
               then let (t, es) = collect_ids comps table in (t, id_not_string i # es)
               else collect_ids comps table))"

definition inject_id :: "string \<Rightarrow> json \<Rightarrow> json" where
  "inject_id entity_id v = (case v of JObj obj \<Rightarrow> JObj (obj_insert ''id'' (JStr entity_id) obj) | _ \<Rightarrow> v)"

fun assign_ids :: "unicode \<Rightarrow> (nat \<times> component_config) list \<Rightarrow> id_table \<Rightarrow> component_config list \<times> id_table" where
  "assign_ids uc [] table = ([], table)"
| "assign_ids uc ((i, c) # comps) table =
     (case (json_get ''id'' (cc_config c), get_str ''name'' (cc_config c)) of
        (None, Some name) \<Rightarrow>
          let unique_id = make_unique (slugify uc name) table;
              entry = \<lparr>ie_id = unique_id, ie_component_index = i, ie_component_type = cc_type c\<rparr>;
              (cs, t) = assign_ids uc comps ((unique_id, entry) # table)
          in (c\<lparr>cc_config := inject_id unique_id (cc_config c)\<rparr> # cs, t)
      | _ \<Rightarrow> let (cs, t) = assign_ids uc comps table in (c # cs, t))"

definition is_ref_key :: "string \<Rightarrow> bool" where
  "is_ref_key key \<longleftrightarrow> suffix ''_id'' key \<and> key \<noteq> ''id''"

definition dangling_ref :: "string \<Rightarrow> string \<Rightarrow> validation_error" where
  "dangling_ref field_path ref_id =
     verror IdResolution field_path (''cross-reference '' @ quoted ref_id @ '' not found in ID table'')"

definition check_ref :: "id_table \<Rightarrow> string \<Rightarrow> string \<Rightarrow> json \<Rightarrow> validation_error list" where
  "check_ref table field_path key v =
     (if is_ref_key key then
        (case as_str v of
           Some ref_id \<Rightarrow>
             if ref_id \<noteq> [] \<and> map_of table ref_id = None then [dangling_ref field_path ref_id] else []
         | None \<Rightarrow> [])
      else [])"

fun check_cross_refs :: "id_table \<Rightarrow> string \<Rightarrow> json \<Rightarrow> validation_error list"
  and check_ref_items :: "id_table \<Rightarrow> string \<Rightarrow> nat \<Rightarrow> json list \<Rightarrow> validation_error list"
  and check_ref_fields :: "id_table \<Rightarrow> string \<Rightarrow> (string \<times> json) list \<Rightarrow> validation_error list"
where
  "check_cross_refs table path (JObj obj) = check_ref_fields table path obj"
| "check_cross_refs table path (JArr arr) = check_ref_items table path 0 arr"
| "check_cross_refs table path v = []"
| "check_ref_items table path i [] = []"
| "check_ref_items table path i (item # arr) =
     check_cross_refs table (path @ ''['' @ show_nat i @ '']'') item @ check_ref_items table path (Suc i) arr"
| "check_ref_fields table path [] = []"
| "check_ref_fields table path ((key, v) # obj) =
     check_ref table (path @ ''.'' @ key) key v @
     check_cross_refs table (path @ ''.'' @ key) v @ check_ref_fields table path obj"

definition stage_8_resolve_ids :: "unicode \<Rightarrow> raw_config \<Rightarrow> raw_config \<times> id_table \<times> validation_error list" where
  "stage_8_resolve_ids uc config =
     (let (table1, errs1) = collect_ids (enumerated (rc_components config)) [];
          (comps, table2) = assign_ids uc (enumerated (rc_components config)) table1;
          errs3 = concat (map (\<lambda>(i, c). check_cross_refs table2 (''components['' @ show_nat i @ '']'') (cc_config c))
                    (enumerated comps))
      in (config\<lparr>rc_components := comps\<rparr>, table2, errs1 @ errs3))"

section \<open>Fresh ids\<close>

lemma unique_from_fresh: "unique_from base table n \<notin> keys table"
proof (induction base table n rule: unique_from.induct)
  case (1 base table n)
  then show ?case
    by (subst unique_from.simps) (auto simp: Let_def map_of_eq_None_iff simp del: keys_obj_insert)
qed

lemma make_unique_fresh: "make_unique base table \<notin> keys table"
  using unique_from_fresh by (simp add: make_unique_def map_of_eq_None_iff)

section \<open>The ids of a configuration\<close>

definition ids :: "component_config list \<Rightarrow> string list" where
  "ids comps = List.map_filter (\<lambda>c. get_str ''id'' (cc_config c)) comps"

lemma ids_simps [simp]:
  "ids [] = []"
  "ids (c # cs) = (case get_str ''id'' (cc_config c) of Some a \<Rightarrow> a # ids cs | None \<Rightarrow> ids cs)"
  by (simp_all add: ids_def List.map_filter_simps split: option.splits)

lemma collect_ids_spec:
  assumes "collect_ids ics table = (t, es)" and "no_fatal es"
  shows "keys t = keys table \<union> set (ids (map snd ics)) \<and> distinct (ids (map snd ics))
    \<and> keys table \<inter> set (ids (map snd ics)) = {}"
  using assms
proof (induction ics table arbitrary: t es rule: collect_ids.induct)
  case (2 i c comps table)
  show ?case
  proof (cases "json_get ''id'' (cc_config c)")
    case None
    with 2 show ?thesis by (simp add: get_str_def)
  next
    case (Some v)
    show ?thesis
    proof (cases "as_str v")
      case None
      then have "v = JNull" using "2.prems" Some by (auto simp: id_not_string_def split: if_splits prod.splits)
      with 2 Some None show ?thesis by (simp add: get_str_def)
    next
      case a: (Some a)
      have "map_of table a = None"
        using "2.prems" Some a by (auto simp: duplicate_id_def split: option.splits prod.splits)
      moreover from this "2.prems" Some a
      have "collect_ids comps ((a, \<lparr>ie_id = a, ie_component_index = i, ie_component_type = cc_type c\<rparr>) # table) = (t, es)"
        by simp
      ultimately show ?thesis
        using "2.IH"(4) [OF Some a] "2.prems"(2) Some a by (auto simp: get_str_def map_of_eq_None_iff)
    qed
  qed
qed simp

lemma json_get_inject:
  "json_get k (inject_id a v) =
     (if is_object v then if k = ''id'' then Some (JStr a) else json_get k v else None)"
  by (cases v) (simp_all add: inject_id_def json_get_def is_object_def map_of_obj_insert)

lemma named_is_object: "get_str k v = Some n \<Longrightarrow> is_object v"
  by (cases v) (simp_all add: get_str_def json_get_def is_object_def)

lemma assign_ids_spec:
  assumes "assign_ids uc ics table = (cs, t)"
    and "distinct (ids (map snd ics))" and "set (ids (map snd ics)) \<subseteq> keys table"
  shows "distinct (ids cs) \<and> keys t = keys table \<union> set (ids cs)
    \<and> set (ids cs) \<inter> keys table \<subseteq> set (ids (map snd ics))"
  using assms
proof (induction ics arbitrary: table cs t)
  case (Cons p comps)
  obtain i c where p: "p = (i, c)" by (cases p)
  note prems = Cons.prems [unfolded p]
  show ?case
  proof (cases "\<exists>name. json_get ''id'' (cc_config c) = None \<and> get_str ''name'' (cc_config c) = Some name")
    case True
    then obtain name where n: "json_get ''id'' (cc_config c) = None" "get_str ''name'' (cc_config c) = Some name"
      by blast
    define u where "u = make_unique (slugify uc name) table"
    let ?entry = "\<lparr>ie_id = u, ie_component_index = i, ie_component_type = cc_type c\<rparr>"
    obtain cs' where cs': "assign_ids uc comps ((u, ?entry) # table) = (cs', t)"
      and cs: "cs = c\<lparr>cc_config := inject_id u (cc_config c)\<rparr> # cs'"
      using prems(1) n by (auto simp: u_def Let_def split: prod.splits)
    have fresh: "u \<notin> keys table" unfolding u_def by (rule make_unique_fresh)
    have rest: "ids (map snd ((i, c) # comps)) = ids (map snd comps)"
      using n(1) by (simp add: get_str_def)
    have "get_str ''id'' (inject_id u (cc_config c)) = Some u"
      using named_is_object [OF n(2)] by (simp add: get_str_def json_get_inject)
    then have ids: "ids cs = u # ids cs'" by (simp add: cs)
    have "distinct (ids cs') \<and> keys t = keys ((u, ?entry) # table) \<union> set (ids cs')
        \<and> set (ids cs') \<inter> keys ((u, ?entry) # table) \<subseteq> set (ids (map snd comps))"
      using prems(2,3) unfolding rest
      by (intro Cons.IH [OF cs']) auto
    moreover have "u \<notin> set (ids (map snd comps))" using fresh prems(3) unfolding rest by blast
    ultimately show ?thesis using fresh unfolding p ids rest by auto
  next
    case False
    obtain cs' where cs': "assign_ids uc comps table = (cs', t)" and cs: "cs = c # cs'"
      using prems(1) False by (auto simp: Let_def split: prod.splits option.splits)
    have d: "distinct (ids (map snd comps))" "set (ids (map snd comps)) \<subseteq> keys table"
      using prems(2,3) by (auto split: option.splits)
    have IH: "distinct (ids cs') \<and> keys t = keys table \<union> set (ids cs')
        \<and> set (ids cs') \<inter> keys table \<subseteq> set (ids (map snd comps))"
      by (rule Cons.IH [OF cs' d])
    show ?thesis
    proof (cases "get_str ''id'' (cc_config c)")
      case None
      with IH show ?thesis by (simp add: cs p)
    next
      case (Some a)
      then have "a \<in> keys table" "a \<notin> set (ids (map snd comps))" using prems(2,3) by auto
      with IH Some show ?thesis by (auto simp: cs p)
    qed
  qed
qed simp

text \<open>Only ids are added: every other field, and everything but the configuration value,
  stays as it was.\<close>

lemma assign_ids_frame:
  "assign_ids uc ics table = (cs, t) \<Longrightarrow>
     list_all2 (\<lambda>c c'. cc_type c' = cc_type c \<and> cc_platform c' = cc_platform c
        \<and> (\<forall>k. k \<noteq> ''id'' \<longrightarrow> json_get k (cc_config c') = json_get k (cc_config c))
        \<and> (\<forall>v. json_get ''id'' (cc_config c) = Some v \<longrightarrow> cc_config c' = cc_config c)
        \<and> (get_str ''name'' (cc_config c) \<noteq> None \<longrightarrow> json_get ''id'' (cc_config c') \<noteq> None)) (map snd ics) cs"
proof (induction ics arbitrary: table cs t)
  case (Cons p comps)
  obtain i c where p: "p = (i, c)" by (cases p)
  note prems = Cons.prems [unfolded p]
  show ?case
  proof (cases "\<exists>name. json_get ''id'' (cc_config c) = None \<and> get_str ''name'' (cc_config c) = Some name")
    case True
    then obtain name where n: "json_get ''id'' (cc_config c) = None" "get_str ''name'' (cc_config c) = Some name"
      by blast
    define u where "u = make_unique (slugify uc name) table"
    let ?entry = "\<lparr>ie_id = u, ie_component_index = i, ie_component_type = cc_type c\<rparr>"
    obtain cs' where cs': "assign_ids uc comps ((u, ?entry) # table) = (cs', t)"
      and cs: "cs = c\<lparr>cc_config := inject_id u (cc_config c)\<rparr> # cs'"
      using prems n by (auto simp: u_def Let_def split: prod.splits)
    show ?thesis using Cons.IH [OF cs'] n named_is_object [OF n(2)]
      by (simp add: p cs json_get_inject)
  next
    case False
    obtain cs' where cs': "assign_ids uc comps table = (cs', t)" and cs: "cs = c # cs'"
      using prems False by (auto simp: Let_def split: prod.splits option.splits)
    show ?thesis using Cons.IH [OF cs'] False by (auto simp: p cs)
  qed
qed simp

section \<open>References\<close>

text \<open>The non-empty texts under keys that end in \<open>_id\<close>, anywhere in a value.\<close>

definition ref_of :: "string \<Rightarrow> json \<Rightarrow> string set" where
  "ref_of key v = {r. is_ref_key key \<and> as_str v = Some r \<and> r \<noteq> []}"

fun refs :: "json \<Rightarrow> string set"
  and refs_items :: "json list \<Rightarrow> string set"
  and refs_fields :: "(string \<times> json) list \<Rightarrow> string set"
where
  "refs (JObj obj) = refs_fields obj"
| "refs (JArr arr) = refs_items arr"
| "refs v = {}"
| "refs_items [] = {}"
| "refs_items (v # arr) = refs v \<union> refs_items arr"
| "refs_fields [] = {}"
| "refs_fields ((key, v) # obj) = ref_of key v \<union> refs v \<union> refs_fields obj"

lemma check_ref_fatal: "no_fatal (check_ref table p key v) \<longleftrightarrow> ref_of key v \<subseteq> keys table"
proof (cases "is_ref_key key \<and> as_str v \<noteq> None \<and> as_str v \<noteq> Some []")
  case True
  then obtain r where r: "is_ref_key key" "as_str v = Some r" "r \<noteq> []" by auto
  then have "check_ref table p key v = (if map_of table r = None then [dangling_ref p r] else [])"
    and "ref_of key v = {r}"
    by (auto simp: check_ref_def ref_of_def)
  then show ?thesis by (simp add: dangling_ref_def map_of_eq_None_iff)
next
  case False
  then have "check_ref table p key v = []" and "ref_of key v = {}"
    by (auto simp: check_ref_def ref_of_def split: option.splits)
  then show ?thesis by simp
qed

lemma check_refs_fatal:
  "no_fatal (check_cross_refs table p v) \<longleftrightarrow> refs v \<subseteq> keys table"
  "no_fatal (check_ref_items table q i arr) \<longleftrightarrow> refs_items arr \<subseteq> keys table"
  "no_fatal (check_ref_fields table q' obj) \<longleftrightarrow> refs_fields obj \<subseteq> keys table"
proof (induction table p v and table q i arr and table q' obj
      rule: check_cross_refs_check_ref_items_check_ref_fields.induct)
qed (simp_all add: no_fatal_append check_ref_fatal del: set_append)

lemma snd_enumerated [simp]: "map snd (enumerated xs) = xs"
  by (simp add: enumerated_def)

lemma stage_8_spec:
  assumes "stage_8_resolve_ids uc config = (config', table, errors)" and "no_fatal errors"
  shows "distinct (ids (rc_components config'))
    \<and> set (ids (rc_components config')) = keys table
    \<and> (\<forall>c \<in> set (rc_components config'). refs (cc_config c) \<subseteq> keys table)
    \<and> list_all2 (\<lambda>c c'. cc_type c' = cc_type c \<and> cc_platform c' = cc_platform c
        \<and> (\<forall>k. k \<noteq> ''id'' \<longrightarrow> json_get k (cc_config c') = json_get k (cc_config c))
        \<and> (\<forall>v. json_get ''id'' (cc_config c) = Some v \<longrightarrow> cc_config c' = cc_config c)
        \<and> (get_str ''name'' (cc_config c) \<noteq> None \<longrightarrow> json_get ''id'' (cc_config c') \<noteq> None))
      (rc_components config) (rc_components config')"
proof -
  let ?ics = "enumerated (rc_components config)"
  obtain t1 es1 where c1: "collect_ids ?ics [] = (t1, es1)" by fastforce
  obtain cs t2 where c2: "assign_ids uc ?ics t1 = (cs, t2)" by fastforce
  let ?es3 = "concat (map (\<lambda>(i, c). check_cross_refs t2 (''components['' @ show_nat i @ '']'') (cc_config c)) (enumerated cs))"
  have config': "config' = config\<lparr>rc_components := cs\<rparr>" "table = t2" "errors = es1 @ ?es3"
    using assms(1) c1 c2 by (auto simp: stage_8_resolve_ids_def)
  have f1: "no_fatal es1" and f3: "no_fatal ?es3"
    using assms(2) unfolding config'(3) no_fatal_append by simp_all
  note spec1 = collect_ids_spec [OF c1 f1]
  have d: "distinct (ids (map snd ?ics))" "set (ids (map snd ?ics)) \<subseteq> keys t1" using spec1 by auto
  note spec2 = assign_ids_spec [OF c2 d]
  have "set (ids (map snd ?ics)) \<subseteq> set (ids cs)"
  proof
    fix a
    assume "a \<in> set (ids (map snd ?ics))"
    then obtain c where c: "c \<in> set (rc_components config)" "get_str ''id'' (cc_config c) = Some a"
      by (auto simp: ids_def set_map_filter)
    then obtain n where n: "n < length (rc_components config)" "c = rc_components config ! n"
      by (auto simp: in_set_conv_nth)
    note frame = assign_ids_frame [OF c2, unfolded snd_enumerated]
    have "n < length cs" using list_all2_lengthD [OF frame] n(1) by simp
    moreover have "cc_config (cs ! n) = cc_config c"
      using list_all2_nthD [OF frame n(1)] c(2) n(2) by (auto simp: get_str_def bind_eq_Some_conv)
    ultimately show "a \<in> set (ids cs)" using c(2) by (auto simp: ids_def set_map_filter intro!: bexI [of _ "cs ! n"])
  qed
  moreover have "keys t1 = set (ids (map snd ?ics))" using spec1 by simp
  ultimately have keys: "set (ids cs) = keys t2" using spec2 by blast
  have refs: "\<forall>c \<in> set cs. refs (cc_config c) \<subseteq> keys t2"
  proof
    fix c
    assume "c \<in> set cs"
    then obtain i where "i < length cs" "c = cs ! i" by (auto simp: in_set_conv_nth)
    then have "(i, c) \<in> set (enumerated cs)" by (simp add: set_enumerated)
    from bspec [OF f3 [unfolded no_fatal_concat] this]
    have "no_fatal (check_cross_refs t2 (''components['' @ show_nat i @ '']'') (cc_config c))"
      by (simp only: prod.case)
    then show "refs (cc_config c) \<subseteq> keys t2" unfolding check_refs_fatal .
  qed
  have rc: "rc_components config' = cs" by (simp add: config'(1))
  have "distinct (ids cs)" using spec2 by blast
  then show ?thesis
    unfolding rc config'(2) by (intro conjI keys refs assign_ids_frame [OF c2, unfolded snd_enumerated])
qed

section \<open>Properties\<close>

text \<open>C25. After a run of stage 8 without errors the ids of the configuration are pairwise
  different, they are exactly the keys of the id table, every reference under a key ending
  in \<open>_id\<close> names one of them, every component with a name has an id, and nothing but ids has
  been added.\<close>

theorem stage_8_ids_unique:
  assumes "stage_8_resolve_ids uc config = (config', table, errors)" and "no_fatal errors"
  shows "distinct (ids (rc_components config'))
    \<and> set (ids (rc_components config')) = keys table
    \<and> (\<forall>c \<in> set (rc_components config'). refs (cc_config c) \<subseteq> keys table)
    \<and> list_all2 (\<lambda>c c'. cc_type c' = cc_type c \<and> cc_platform c' = cc_platform c
        \<and> (\<forall>k. k \<noteq> ''id'' \<longrightarrow> json_get k (cc_config c') = json_get k (cc_config c))
        \<and> (\<forall>v. json_get ''id'' (cc_config c) = Some v \<longrightarrow> cc_config c' = cc_config c)
        \<and> (get_str ''name'' (cc_config c) \<noteq> None \<longrightarrow> json_get ''id'' (cc_config c') \<noteq> None))
      (rc_components config) (rc_components config')"
  by (rule stage_8_spec [OF assms])

theorem stage_8_ids_unique_witness:
  "let comp = (\<lambda>n. \<lparr>cc_type = ''switch'', cc_platform = None, cc_config = JObj [(''name'', JStr n)]\<rparr>)
   in distinct (ids (rc_components (fst (stage_8_resolve_ids ascii_unicode (config_of [comp ''Lamp'', comp ''lamp''])))))
      \<and> ids (rc_components (fst (stage_8_resolve_ids ascii_unicode (config_of [comp ''Lamp'', comp ''lamp''])))) = [''lamp'', ''lamp_2'']"
proof -
  let ?comp = "\<lambda>n. \<lparr>cc_type = ''switch'', cc_platform = None, cc_config = JObj [(''name'', JStr n)]\<rparr>"
  have eval: "ids (rc_components (fst (stage_8_resolve_ids ascii_unicode (config_of [?comp ''Lamp'', ?comp ''lamp''])))) = [''lamp'', ''lamp_2'']
      \<and> snd (snd (stage_8_resolve_ids ascii_unicode (config_of [?comp ''Lamp'', ?comp ''lamp'']))) = []"
    by code_simp
  obtain config' table errors where run: "stage_8_resolve_ids ascii_unicode (config_of [?comp ''Lamp'', ?comp ''lamp'']) = (config', table, errors)"
    by (cases "stage_8_resolve_ids ascii_unicode (config_of [?comp ''Lamp'', ?comp ''lamp''])")
  with eval have "no_fatal errors" by simp
  from stage_8_ids_unique [OF run this] show ?thesis using eval run by simp
qed

end
