(* ===== verification/StageGuards.thy ===== *)
theory StageGuards
  imports StageIds
begin

text \<open>
  The last guards of the pipeline: exclusive groups (stage 11, \<open>s11_exclusive_groups.rs\<close>),
  profiles (stage 12, \<open>s12_profile_validation.rs\<close>) and secret fields (stage 13,
  \<open>s13_secret_fields.rs\<close>). The groups and the selections of a profile are hash maps; here
  their entries come in a fixed order, which only the order of the diagnostics shows.

  The lemmas show what each guard lets through and what that means for the registry and
  the profiles shipped with the crates.
\<close>

abbreviation selected_ids :: "raw_config \<Rightarrow> string list" where
  "selected_ids config \<equiv> map component_effective_id (rc_components config)"

section \<open>Stage 11: exclusive groups\<close>

definition group_of :: "registry \<Rightarrow> string \<Rightarrow> string option" where
  "group_of reg cid = Option.bind (reg_get reg cid) cd_exclusive_group"

definition group_members :: "registry \<Rightarrow> string list \<Rightarrow> string \<Rightarrow> string list" where
  "group_members reg expanded grp = filter (\<lambda>cid. group_of reg cid = Some grp) expanded"

definition group_conflict :: "string \<Rightarrow> string list \<Rightarrow> validation_error" where
  "group_conflict grp members = verror ExclusiveGroup ''components''
     (''exclusive group '' @ quoted grp @ '' has multiple selections: ['' @ join '', '' members @ '']'')"

definition stage_11_check_exclusive_groups :: "registry \<Rightarrow> raw_config \<Rightarrow> validation_error list" where
  "stage_11_check_exclusive_groups reg config =
     (let expanded = resolve_auto_load reg (selected_ids config);
          groups = remdups (List.map_filter (group_of reg) expanded)
      in concat (map (\<lambda>grp. let members = group_members reg expanded grp in
            if length members > 1 then [group_conflict grp members] else []) groups))"

section \<open>Stage 12: profiles\<close>

definition profile_not_found :: "string \<Rightarrow> validation_error" where
  "profile_not_found name = verror ProfileValidation ''esphome.profile''
     (''profile '' @ quoted name @ '' not found in profile registry'')"

definition profile_component_missing :: "string \<Rightarrow> string \<Rightarrow> validation_error" where
  "profile_component_missing name required = verror ProfileValidation ''components''
     (''profile '' @ quoted name @ '' requires component '' @ quoted required @ '' which is not selected'')"

definition profile_selection_missing :: "string \<Rightarrow> string \<Rightarrow> string \<Rightarrow> validation_error" where
  "profile_selection_missing name grp expected = verror ProfileValidation ''components''
     (''profile '' @ quoted name @ '' selects '' @ quoted expected @ '' for group '' @ quoted grp @
      '' but it is not in the config'')"

definition check_profile :: "registry \<Rightarrow> raw_config \<Rightarrow> string \<Rightarrow> profile_definition \<Rightarrow> validation_error list" where
  "check_profile reg config name profile =
     (let expanded = resolve_auto_load reg (selected_ids config) in
      map (profile_component_missing name) (filter (\<lambda>r. r \<notin> set expanded) (pd_components profile)) @
      map (\<lambda>(grp, expected). profile_selection_missing name grp expected)
        (filter (\<lambda>(grp, expected). expected \<notin> set expanded) (pd_exclusive_selections profile)))"

definition stage_12_validate_profile :: "registry \<Rightarrow> raw_config \<Rightarrow> validation_error list" where
  "stage_12_validate_profile reg config =
     (case eb_profile (rc_esphome config) of
        None \<Rightarrow> []
      | Some name \<Rightarrow>
          (case default_profiles name of
             None \<Rightarrow> [profile_not_found name]
           | Some profile \<Rightarrow> check_profile reg config name profile))"

section \<open>Stage 13: secret fields\<close>

definition plaintext_secret :: "string \<Rightarrow> string \<Rightarrow> validation_error" where
  "plaintext_secret component_id field_name =
     verror SecretFields (component_id @ ''.'' @ field_name)
       (''secret field '' @ quoted field_name @ '' for component '' @ quoted component_id @
        '' must not contain a plaintext value; provision via NVS'')"

definition check_secret :: "string \<Rightarrow> json \<Rightarrow> string \<Rightarrow> validation_error list" where
  "check_secret component_id config field_name =
     (case get_str field_name config of
        None \<Rightarrow> []
      | Some value \<Rightarrow>
          if value = [] then []
          else if starts_with ''!secret '' value then []
          else [plaintext_secret component_id field_name])"

definition stage_13_check_secret_fields :: "registry \<Rightarrow> raw_config \<Rightarrow> validation_error list" where
  "stage_13_check_secret_fields reg config =
     concat (map (\<lambda>c. case reg_get reg (component_effective_id c) of
         None \<Rightarrow> []
       | Some def \<Rightarrow> concat (map (check_secret (component_effective_id c) (cc_config c)) (cd_secret_fields def)))
       (rc_components config))"

section \<open>What the guards let through\<close>

lemma two_members:
  "1 < length (filter P xs) \<longleftrightarrow> (\<exists>a \<in> set xs. \<exists>b \<in> set xs. a \<noteq> b \<and> P a \<and> P b)" if "distinct xs" for xs
proof -
  have "card (set (filter P xs)) = length (filter P xs)" using that by (intro distinct_card) simp
  moreover have "1 < card (set (filter P xs)) \<longleftrightarrow> (\<exists>a \<in> set (filter P xs). \<exists>b \<in> set (filter P xs). a \<noteq> b)"
    using card_le_Suc0_iff_eq [of "set (filter P xs)"] by (auto simp: not_le [symmetric])
  ultimately show ?thesis by auto
qed

lemma check_secret_fatal:
  "no_fatal (check_secret cid v f) \<longleftrightarrow>
     (\<forall>s. get_str f v = Some s \<longrightarrow> s = [] \<or> starts_with ''!secret '' s)"
proof (cases "get_str f v")
  case None
  then have "check_secret cid v f = []" by (simp add: check_secret_def)
  with None show ?thesis by simp
next
  case (Some s)
  then have "check_secret cid v f = (if s = [] \<or> starts_with ''!secret '' s then [] else [plaintext_secret cid f])"
    by (simp add: check_secret_def)
  with Some show ?thesis by (simp add: plaintext_secret_def)
qed

lemma shipped_guard_fields:
  "list_all (\<lambda>d. cd_exclusive_group d = None \<and> cd_secret_fields d = []) shipped"
  by code_simp

lemma default_registry_guard_fields:
  "reg_get default_registry cid = Some def \<Longrightarrow> cd_exclusive_group def = None \<and> cd_secret_fields def = []"
  using shipped_guard_fields unfolding list_all_iff by (elim default_registry_get) simp

lemma stage_11_spec:
  "no_fatal (stage_11_check_exclusive_groups reg config) \<longleftrightarrow>
     (\<forall>a \<in> closure_of reg config. \<forall>b \<in> closure_of reg config. \<forall>g.
        group_of reg a = Some g \<longrightarrow> group_of reg b = Some g \<longrightarrow> a = b)"
proof -
  let ?e = "resolve_auto_load reg (selected_ids config)"
  have e: "set ?e = closure_of reg config" by (simp add: resolve_auto_load_reach closure_of_def)
  have group: "no_fatal (let members = group_members reg ?e g in
        if 1 < length members then [group_conflict g members] else []) \<longleftrightarrow>
      \<not> (\<exists>a \<in> set ?e. \<exists>b \<in> set ?e. a \<noteq> b \<and> group_of reg a = Some g \<and> group_of reg b = Some g)" for g
    unfolding two_members [OF resolve_auto_load_distinct, symmetric] group_members_def
    by (simp add: group_conflict_def Let_def)
  have "no_fatal (stage_11_check_exclusive_groups reg config) \<longleftrightarrow>
      (\<forall>g \<in> set (remdups (List.map_filter (group_of reg) ?e)).
        \<not> (\<exists>a \<in> set ?e. \<exists>b \<in> set ?e. a \<noteq> b \<and> group_of reg a = Some g \<and> group_of reg b = Some g))"
    unfolding stage_11_check_exclusive_groups_def Let_def [of ?e] Let_def [of "remdups _"] no_fatal_concat group ..
  also have "\<dots> \<longleftrightarrow> (\<forall>a \<in> set ?e. \<forall>b \<in> set ?e. \<forall>g.
      group_of reg a = Some g \<longrightarrow> group_of reg b = Some g \<longrightarrow> a = b)"
    unfolding set_remdups Ball_def set_map_filter by blast
  finally show ?thesis unfolding e .
qed

lemma stage_13_spec:
  "no_fatal (stage_13_check_secret_fields reg config) \<longleftrightarrow>
     (\<forall>c \<in> set (rc_components config). \<forall>def. reg_get reg (component_effective_id c) = Some def \<longrightarrow>
        (\<forall>f \<in> set (cd_secret_fields def). \<forall>s. get_str f (cc_config c) = Some s \<longrightarrow>
           s = [] \<or> starts_with ''!secret '' s))"
  unfolding stage_13_check_secret_fields_def no_fatal_concat
proof (intro ball_cong refl)
  fix c
  show "no_fatal (case reg_get reg (component_effective_id c) of None \<Rightarrow> []
      | Some def \<Rightarrow> concat (map (check_secret (component_effective_id c) (cc_config c)) (cd_secret_fields def)))
    \<longleftrightarrow> (\<forall>def. reg_get reg (component_effective_id c) = Some def \<longrightarrow>
        (\<forall>f \<in> set (cd_secret_fields def). \<forall>s. get_str f (cc_config c) = Some s \<longrightarrow>
           s = [] \<or> starts_with ''!secret '' s))"
  proof (cases "reg_get reg (component_effective_id c)")
    case (Some def)
    show ?thesis unfolding Some option.case no_fatal_concat check_secret_fatal by simp
  qed simp
qed

section \<open>Properties\<close>

text \<open>Stage 11 stops the pipeline exactly when two different components of the AUTO_LOAD
  closure belong to the same exclusive group.\<close>

theorem stage_11_passes_iff:
  "no_fatal (stage_11_check_exclusive_groups reg config) \<longleftrightarrow>
     (\<forall>a \<in> closure_of reg config. \<forall>b \<in> closure_of reg config. \<forall>g.
        group_of reg a = Some g \<longrightarrow> group_of reg b = Some g \<longrightarrow> a = b)"
  by (rule stage_11_spec)

text \<open>A registry with an exclusive group and one with a secret field, as the unit tests of the
  stages build them.\<close>

definition radio_registry :: registry where
  "radio_registry = map (\<lambda>n. (n, default_def\<lparr>cd_id := n, cd_exclusive_group := Some ''radio_band''\<rparr>))
     [''radio_2g4'', ''radio_5g'']"

definition connector_registry :: registry where
  "connector_registry =
     [(''cloud_connector'', default_def\<lparr>cd_id := ''cloud_connector'', cd_secret_fields := [''access_token'']\<rparr>)]"

theorem stage_11_passes_iff_witness:
  "list_ex is_fatal (stage_11_check_exclusive_groups radio_registry
     (config_of (map (\<lambda>n. \<lparr>cc_type = n, cc_platform = None, cc_config = JObj []\<rparr>) [''radio_2g4'', ''radio_5g''])))"
  (is "list_ex is_fatal (stage_11_check_exclusive_groups radio_registry ?config)")
proof -
  have sel: "selected_ids ?config = [''radio_2g4'', ''radio_5g'']"
    by (simp add: config_of_def component_effective_id_def)
  have groups: "group_of radio_registry ''radio_2g4'' = Some ''radio_band''"
    "group_of radio_registry ''radio_5g'' = Some ''radio_band''"
    by code_simp+
  have "{''radio_2g4'', ''radio_5g''} \<subseteq> closure_of radio_registry ?config"
    using sel by (auto simp: closure_of_def config_of_def component_effective_id_def)
  with groups stage_11_passes_iff [of radio_registry ?config]
  have "\<not> no_fatal (stage_11_check_exclusive_groups radio_registry ?config)" by auto
  then show ?thesis by (auto simp: list_ex_iff)
qed

text \<open>No profile can be used: the profile registry of stage 12 is empty, so every
  configuration that names a profile is rejected, whatever its components.\<close>

theorem stage_12_rejects_every_profile:
  "stage_12_validate_profile reg config =
     (case eb_profile (rc_esphome config) of None \<Rightarrow> [] | Some name \<Rightarrow> [profile_not_found name])"
  by (simp add: stage_12_validate_profile_def default_profiles_def split: option.splits)

text \<open>After stage 13 no registered component carries a secret in plain text: every string
  in a field its definition lists as secret is empty or a \<open>!secret\<close> reference.\<close>

theorem stage_13_passes_iff:
  "no_fatal (stage_13_check_secret_fields reg config) \<longleftrightarrow>
     (\<forall>c \<in> set (rc_components config). \<forall>def. reg_get reg (component_effective_id c) = Some def \<longrightarrow>
        (\<forall>f \<in> set (cd_secret_fields def). \<forall>s. get_str f (cc_config c) = Some s \<longrightarrow>
           s = [] \<or> starts_with ''!secret '' s))"
  by (rule stage_13_spec)

theorem stage_13_passes_iff_witness:
  "list_ex is_fatal (stage_13_check_secret_fields connector_registry
     (config_of [\<lparr>cc_type = ''cloud_connector'', cc_platform = None,
        cc_config = JObj [(''access_token'', JStr ''plaintext'')]\<rparr>]))"
  (is "list_ex is_fatal (stage_13_check_secret_fields connector_registry (config_of [?c]))")
proof -
  have eval: "reg_get connector_registry (component_effective_id ?c)
      = Some (default_def\<lparr>cd_id := ''cloud_connector'', cd_secret_fields := [''access_token'']\<rparr>)"
    "get_str ''access_token'' (cc_config ?c) = Some ''plaintext''" "\<not> starts_with ''!secret '' ''plaintext''"
    by code_simp+
  with stage_13_passes_iff [of connector_registry "config_of [?c]"]
  have "\<not> no_fatal (stage_13_check_secret_fields connector_registry (config_of [?c]))"
    by (auto simp: config_of_def)
  then show ?thesis by (auto simp: list_ex_iff)
qed

text \<open>With the registry shipped with the crate stages 11 and 13 never report anything: no
  definition in it has an exclusive group or a secret field.\<close>

theorem shipped_registry_has_no_guards:
  "stage_11_check_exclusive_groups default_registry config = []
   \<and> stage_13_check_secret_fields default_registry config = []"
proof
  have none: "group_of default_registry cid = None" for cid
    using default_registry_guard_fields [of cid]
    by (cases "reg_get default_registry cid") (auto simp: group_of_def)
  show "stage_11_check_exclusive_groups default_registry config = []"
    by (simp add: stage_11_check_exclusive_groups_def none List.map_filter_def Let_def)
  show "stage_13_check_secret_fields default_registry config = []"
    using default_registry_guard_fields
    by (auto simp: stage_13_check_secret_fields_def split: option.splits)
qed

end
