(* ===== verification/Claims.thy ===== *)
theory Claims
  imports Prelude
begin

text \<open>
  The interface of a resource table that gives every key to the first who asks. Its
  clients, the parser loops, hand a list of requests to it and collect the refusals. The
  laws say what one request does; the lemmas what a whole list of requests leads to.
\<close>

text \<open>A loop that makes the requests one after the other and goes on after a refusal.\<close>

fun claim_all :: "('a \<Rightarrow> 's \<Rightarrow> 'e + 's) \<Rightarrow> 'a list \<Rightarrow> 's \<Rightarrow> 's \<times> 'e list" where
  "claim_all claim [] s = (s, [])"
| "claim_all claim (a # as) s =
     (case claim a s of
        Inr s' \<Rightarrow> claim_all claim as s'
      | Inl e \<Rightarrow> (let (s', es) = claim_all claim as s in (s', e # es)))"

locale first_come =
  fixes claim :: "'a \<Rightarrow> 's \<Rightarrow> 'e + 's"
    and held :: "'s \<Rightarrow> 'b list"
    and entry :: "'a \<Rightarrow> 'b"
    and key :: "'b \<Rightarrow> 'k"
  assumes grant: "key (entry a) \<notin> key ` set (held s) \<Longrightarrow> \<exists>s'. claim a s = Inr s' \<and> held s' = held s @ [entry a]"
    and refuse: "key (entry a) \<in> key ` set (held s) \<Longrightarrow> \<exists>e. claim a s = Inl e"
begin

lemma claim_cases:
  obtains (granted) s' where "key (entry a) \<notin> key ` set (held s)" "claim a s = Inr s'" "held s' = held s @ [entry a]"
  | (refused) e where "key (entry a) \<in> key ` set (held s)" "claim a s = Inl e"
  using grant refuse by blast

text \<open>No key is ever held twice, every requested key ends up held, and nothing held is lost.\<close>

lemma claim_all_held:
  "distinct (map key (held s)) \<Longrightarrow>
     distinct (map key (held (fst (claim_all claim as s))))
     \<and> key ` set (held (fst (claim_all claim as s))) = key ` set (held s) \<union> key ` entry ` set as
     \<and> prefix (held s) (held (fst (claim_all claim as s)))"
proof (induction as arbitrary: s)
  case (Cons a as)
  show ?case
  proof (cases s a rule: claim_cases)
    case (granted s')
    have "distinct (map key (held s'))" using Cons.prems granted by auto
    from Cons.IH [OF this] granted show ?thesis by (auto simp: prefix_def)
  next
    case (refused e)
    from Cons.IH [OF Cons.prems] refused show ?thesis by (auto simp: split_beta)
  qed
qed simp

text \<open>There is no refusal exactly when the requests are for different keys nobody holds.\<close>

lemma claim_all_no_refusal:
  "snd (claim_all claim as s) = [] \<longleftrightarrow>
     distinct (map key (map entry as)) \<and> key ` entry ` set as \<inter> key ` set (held s) = {}"
proof (induction as arbitrary: s)
  case (Cons a as)
  show ?case
  proof (cases s a rule: claim_cases)
    case (granted s')
    with Cons.IH [of s'] show ?thesis by auto
  next
    case (refused e)
    then show ?thesis by (auto simp: split_beta)
  qed
qed simp

lemma claim_all_everything:
  "snd (claim_all claim as s) = [] \<Longrightarrow> held (fst (claim_all claim as s)) = held s @ map entry as"
proof (induction as arbitrary: s)
  case (Cons a as)
  show ?case
  proof (cases s a rule: claim_cases)
    case (granted s')
    with Cons show ?thesis by simp
  next
    case (refused e)
    with Cons.prems show ?thesis by (simp add: split_beta)
  qed
qed simp

end

end
