(* ===== verification/Pins.thy ===== *)
theory Pins
  imports StageGuards Claims
begin

text \<open>
  GPIO allocation (\<open>rshome-schema/src/pin.rs\<close>) and stage 10 of the pipeline
  (\<open>s10_pin_conflicts.rs\<close>), which reads the pins out of every component, claims them in a
  \<open>ResourceTracker\<close> and checks them against the chip. GPIO numbers are 8-bit words.

  The three claim operations are instances of the first-come table of \<open>Claims\<close>; the
  properties say which configurations get their pins and what they may rely on.
\<close>

section \<open>Pins and their errors\<close>

datatype pin_mode = PM_Input | PM_Output | PM_InputOutput | PM_Analog | PM_PwmOutput | PM_I2cSda
  | PM_I2cScl | PM_SpiMosi | PM_SpiMiso | PM_SpiClk | PM_SpiCs | PM_Uart | PM_Touch

fun show_mode :: "pin_mode \<Rightarrow> string" where
  "show_mode PM_Input = ''Input''"
| "show_mode PM_Output = ''Output''"
| "show_mode PM_InputOutput = ''InputOutput''"
| "show_mode PM_Analog = ''Analog''"
| "show_mode PM_PwmOutput = ''PwmOutput''"
| "show_mode PM_I2cSda = ''I2cSda''"
| "show_mode PM_I2cScl = ''I2cScl''"
| "show_mode PM_SpiMosi = ''SpiMosi''"
| "show_mode PM_SpiMiso = ''SpiMiso''"
| "show_mode PM_SpiClk = ''SpiClk''"
| "show_mode PM_SpiCs = ''SpiCs''"
| "show_mode PM_Uart = ''Uart''"
| "show_mode PM_Touch = ''Touch''"

definition requires_output :: "pin_mode \<Rightarrow> bool" where
  "requires_output m \<longleftrightarrow> m \<in> {PM_Output, PM_InputOutput, PM_PwmOutput, PM_I2cSda, PM_I2cScl, PM_SpiMosi,
     PM_SpiClk, PM_SpiCs, PM_Uart}"

datatype pull_mode = PullUp | PullDown | PullNone

record pin_allocation =
  pa_gpio_num :: u8
  pa_mode :: pin_mode
  pa_component :: string
  pa_pull_mode :: "pull_mode option"
  pa_inverted :: bool

record pin_conflict =
  px_gpio_num :: u8
  px_existing_owner :: string
  px_existing_mode :: pin_mode
  px_new_owner :: string
  px_new_mode :: pin_mode

record bus_conflict =
  bx_address :: u8
  bx_existing_owner :: string
  bx_new_owner :: string

datatype pin_error =
    InputOnlyPinUsedAsOutput u8 chip_target string pin_mode
  | GpioOutOfRange u8 chip_target u8
  | StrappingPinWarning u8 chip_target string
  | FlashReservedPin u8 chip_target string

section \<open>Chip capabilities\<close>

record chip_capabilities =
  ch_max_gpio :: u8
  ch_input_only :: "u8 list"
  ch_flash_reserved :: "u8 list"
  ch_strapping :: "u8 list"

fun capabilities_for :: "chip_target \<Rightarrow> chip_capabilities" where
  "capabilities_for Esp32 = \<lparr>ch_max_gpio = 39, ch_input_only = [34, 35, 36, 37, 38, 39],
     ch_flash_reserved = [6, 7, 8, 9, 10, 11], ch_strapping = [0, 2, 5, 12, 15]\<rparr>"
| "capabilities_for Esp32S2 = \<lparr>ch_max_gpio = 46, ch_input_only = [46],
     ch_flash_reserved = [26, 27, 28, 29, 30, 31, 32], ch_strapping = [0, 45, 46]\<rparr>"
| "capabilities_for Esp32S3 = \<lparr>ch_max_gpio = 48, ch_input_only = [],
     ch_flash_reserved = [26, 27, 28, 29, 30, 31, 32], ch_strapping = [0, 3, 45, 46]\<rparr>"
| "capabilities_for Esp32C2 = \<lparr>ch_max_gpio = 20, ch_input_only = [],
     ch_flash_reserved = [12, 13, 14, 15, 16, 17], ch_strapping = [8, 9]\<rparr>"
| "capabilities_for Esp32C3 = \<lparr>ch_max_gpio = 21, ch_input_only = [],
     ch_flash_reserved = [11, 12, 13, 14, 15, 16, 17], ch_strapping = [2, 8, 9]\<rparr>"
| "capabilities_for Esp32C5 = \<lparr>ch_max_gpio = 28, ch_input_only = [],
     ch_flash_reserved = [24, 25, 26, 27, 28], ch_strapping = [7, 8, 27]\<rparr>"
| "capabilities_for Esp32C6 = \<lparr>ch_max_gpio = 30, ch_input_only = [],
     ch_flash_reserved = [24, 25, 26, 27, 28, 29, 30], ch_strapping = [8, 9, 15]\<rparr>"
| "capabilities_for Esp32C61 = \<lparr>ch_max_gpio = 24, ch_input_only = [],
     ch_flash_reserved = [12, 13, 14, 15, 16, 17], ch_strapping = [5, 8, 9]\<rparr>"
| "capabilities_for Esp32H2 = \<lparr>ch_max_gpio = 27, ch_input_only = [],
     ch_flash_reserved = [15, 16, 17, 18, 19, 20, 21], ch_strapping = [8, 9, 25]\<rparr>"
| "capabilities_for Esp32P4 = \<lparr>ch_max_gpio = 54, ch_input_only = [],
     ch_flash_reserved = [], ch_strapping = [34, 35]\<rparr>"

section \<open>The resource tracker\<close>

record resource_tracker =
  rt_pins :: "pin_allocation list"
  rt_i2c :: "(u8 \<times> string) list"
  rt_spi_cs :: "(u8 \<times> string) list"
  rt_uart :: "(u8 \<times> string) list"

definition new_tracker :: resource_tracker where
  "new_tracker = \<lparr>rt_pins = [], rt_i2c = [], rt_spi_cs = [], rt_uart = []\<rparr>"

definition allocate_pin :: "pin_allocation \<Rightarrow> resource_tracker \<Rightarrow> pin_conflict + resource_tracker" where
  "allocate_pin alloc t =
     (case find (\<lambda>existing. pa_gpio_num existing = pa_gpio_num alloc) (rt_pins t) of
        Some existing \<Rightarrow> Inl \<lparr>px_gpio_num = pa_gpio_num alloc, px_existing_owner = pa_component existing,
            px_existing_mode = pa_mode existing, px_new_owner = pa_component alloc, px_new_mode = pa_mode alloc\<rparr>
      | None \<Rightarrow> Inr (t\<lparr>rt_pins := rt_pins t @ [alloc]\<rparr>))"

definition allocate_i2c :: "u8 \<times> string \<Rightarrow> resource_tracker \<Rightarrow> bus_conflict + resource_tracker" where
  "allocate_i2c req t =
     (case find (\<lambda>existing. fst existing = fst req) (rt_i2c t) of
        Some existing \<Rightarrow> Inl \<lparr>bx_address = fst req, bx_existing_owner = snd existing, bx_new_owner = snd req\<rparr>
      | None \<Rightarrow> Inr (t\<lparr>rt_i2c := rt_i2c t @ [req]\<rparr>))"

definition allocate_uart :: "u8 \<times> string \<Rightarrow> resource_tracker \<Rightarrow> bus_conflict + resource_tracker" where
  "allocate_uart req t =
     (case find (\<lambda>existing. fst existing = fst req) (rt_uart t) of
        Some existing \<Rightarrow> Inl \<lparr>bx_address = fst req, bx_existing_owner = snd existing, bx_new_owner = snd req\<rparr>
      | None \<Rightarrow> Inr (t\<lparr>rt_uart := rt_uart t @ [req]\<rparr>))"

definition pin_errors :: "chip_target \<Rightarrow> pin_allocation \<Rightarrow> pin_error list" where
  "pin_errors target alloc =
     (let caps = capabilities_for target; gpio = pa_gpio_num alloc in
      if gpio > ch_max_gpio caps then [GpioOutOfRange gpio target (ch_max_gpio caps)]
      else if gpio \<in> set (ch_flash_reserved caps) then [FlashReservedPin gpio target (pa_component alloc)]
      else
        (if gpio \<in> set (ch_input_only caps) \<and> requires_output (pa_mode alloc)
         then [InputOnlyPinUsedAsOutput gpio target (pa_component alloc) (pa_mode alloc)] else []) @
        (if gpio \<in> set (ch_strapping caps) then [StrappingPinWarning gpio target (pa_component alloc)] else []))"

definition validate_pin_capabilities :: "chip_target \<Rightarrow> resource_tracker \<Rightarrow> pin_error list + unit" where
  "validate_pin_capabilities target t =
     (let errors = concat (map (pin_errors target) (rt_pins t))
      in if errors = [] then Inr () else Inl errors)"

section \<open>Stage 10\<close>

record pin_usage =
  pu_gpio_num :: u8
  pu_mode :: pin_mode
  pu_pull_mode :: "pull_mode option"
  pu_inverted :: bool
  pu_component_id :: string
  pu_path :: string

definition field_modes :: "(string \<times> pin_mode) list" where
  "field_modes = [(''pin'', PM_InputOutput), (''sda'', PM_I2cSda), (''scl'', PM_I2cScl), (''mosi'', PM_SpiMosi),
     (''miso'', PM_SpiMiso), (''clk'', PM_SpiClk), (''cs'', PM_SpiCs), (''tx_pin'', PM_Uart),
     (''rx_pin'', PM_Uart), (''trigger_pin'', PM_Output), (''echo_pin'', PM_Input), (''output'', PM_Output),
     (''input_pin'', PM_Input)]"

text \<open>\<open>as_u64().and_then(|v| u8::try_from(v).ok())\<close>.\<close>

definition as_u8 :: "json \<Rightarrow> u8 option" where
  "as_u8 v = (case as_u64 v of Some n \<Rightarrow> if n < 256 then Some (of_nat n) else None | None \<Rightarrow> None)"

definition pull_of_mode :: "string \<Rightarrow> pull_mode option" where
  "pull_of_mode s =
     (if contains ''PULLUP'' s \<or> contains ''INPUT_PULLUP'' s then Some PullUp
      else if contains ''PULLDOWN'' s then Some PullDown else None)"

fun pin_value :: "json \<Rightarrow> u8 option \<times> pull_mode option \<times> bool" where
  "pin_value (JNum n) = (as_u8 (JNum n), None, False)"
| "pin_value (JObj pin_obj) =
     (Option.bind (map_of pin_obj ''number'') as_u8,
      Option.bind (get_str ''mode'' (JObj pin_obj)) pull_of_mode,
      (case map_of pin_obj ''inverted'' of Some (JBool b) \<Rightarrow> b | _ \<Rightarrow> False))"
| "pin_value _ = (None, None, False)"

definition extract_pin :: "(string \<times> json) list \<Rightarrow> string \<Rightarrow> string \<Rightarrow> string \<times> pin_mode \<Rightarrow> pin_usage list" where
  "extract_pin obj component_id base_path fm =
     (case map_of obj (fst fm) of
        None \<Rightarrow> []
      | Some val \<Rightarrow>
          (case pin_value val of
             (Some gpio, pull, inverted) \<Rightarrow>
               [\<lparr>pu_gpio_num = gpio, pu_mode = snd fm, pu_pull_mode = pull, pu_inverted = inverted,
                 pu_component_id = component_id, pu_path = base_path @ ''.'' @ fst fm\<rparr>]
           | (None, _, _) \<Rightarrow> []))"

definition extract_pins :: "json \<Rightarrow> string \<Rightarrow> string \<Rightarrow> pin_usage list" where
  "extract_pins config component_id base_path =
     (case as_object config of
        None \<Rightarrow> []
      | Some obj \<Rightarrow> concat (map (extract_pin obj component_id base_path) field_modes))"

definition alloc_of :: "pin_usage \<Rightarrow> pin_allocation" where
  "alloc_of u = \<lparr>pa_gpio_num = pu_gpio_num u, pa_mode = pu_mode u, pa_component = pu_component_id u,
     pa_pull_mode = pu_pull_mode u, pa_inverted = pu_inverted u\<rparr>"

definition pin_taken :: "string \<Rightarrow> pin_conflict \<Rightarrow> validation_error" where
  "pin_taken path x = verror PinConflicts path
     (''GPIO '' @ show_nat (unat (px_gpio_num x)) @ '' already allocated by '' @ quoted (px_existing_owner x) @
      '' (mode '' @ show_mode (px_existing_mode x) @ ''); '' @ quoted (px_new_owner x) @
      '' requested mode '' @ show_mode (px_new_mode x))"

definition claim_usage :: "pin_usage \<Rightarrow> resource_tracker \<Rightarrow> validation_error + resource_tracker" where
  "claim_usage u t =
     (case allocate_pin (alloc_of u) t of
        Inr t' \<Rightarrow> Inr t'
      | Inl x \<Rightarrow> Inl (pin_taken (pu_path u) x))"

fun show_chip :: "chip_target \<Rightarrow> string" where
  "show_chip Esp32 = ''Esp32''"
| "show_chip Esp32S2 = ''Esp32S2''"
| "show_chip Esp32S3 = ''Esp32S3''"
| "show_chip Esp32C2 = ''Esp32C2''"
| "show_chip Esp32C3 = ''Esp32C3''"
| "show_chip Esp32C5 = ''Esp32C5''"
| "show_chip Esp32C6 = ''Esp32C6''"
| "show_chip Esp32C61 = ''Esp32C61''"
| "show_chip Esp32H2 = ''Esp32H2''"
| "show_chip Esp32P4 = ''Esp32P4''"

definition gpio_path :: "u8 \<Rightarrow> string" where
  "gpio_path gpio = ''gpio_'' @ show_nat (unat gpio)"

fun pin_diagnostic :: "pin_error \<Rightarrow> validation_error" where
  "pin_diagnostic (InputOnlyPinUsedAsOutput gpio target component mode) =
     verror PinConflicts (gpio_path gpio)
       (''GPIO '' @ show_nat (unat gpio) @ '' is input-only on '' @ show_chip target @ '' but '' @
        quoted component @ '' requested output mode'')"
| "pin_diagnostic (GpioOutOfRange gpio target max_gpio) =
     verror PinConflicts (gpio_path gpio)
       (''GPIO '' @ show_nat (unat gpio) @ '' does not exist on '' @ show_chip target @ '' (max GPIO is '' @
        show_nat (unat max_gpio) @ '')'')"
| "pin_diagnostic (StrappingPinWarning gpio target component) =
     vwarning PinConflicts (gpio_path gpio)
       (''GPIO '' @ show_nat (unat gpio) @ '' is a strapping pin on '' @ show_chip target @ ''; '' @
        quoted component @ '' using it may affect boot reliability'')"
| "pin_diagnostic (FlashReservedPin gpio target component) =
     verror PinConflicts (gpio_path gpio)
       (''GPIO '' @ show_nat (unat gpio) @ '' is reserved for flash on '' @ show_chip target @
        '' and cannot be used by '' @ quoted component)"

definition pin_owner :: "component_config \<Rightarrow> string" where
  "pin_owner c = (case cc_platform c of Some p \<Rightarrow> p | None \<Rightarrow> cc_type c)"

definition all_usages :: "raw_config \<Rightarrow> pin_usage list" where
  "all_usages config =
     concat (map (\<lambda>(idx, c). extract_pins (cc_config c) (pin_owner c) (indexed_path idx c))
       (type_indexed (\<lambda>_. 0) (rc_components config)))"

definition stage_10_check_pin_conflicts :: "raw_config \<Rightarrow> chip_target \<Rightarrow> resource_tracker \<times> validation_error list" where
  "stage_10_check_pin_conflicts config target =
     (let (tracker, conflicts) = claim_all claim_usage (all_usages config) new_tracker
      in (tracker, conflicts @
            (case validate_pin_capabilities target tracker of
               Inr _ \<Rightarrow> []
             | Inl errors \<Rightarrow> map pin_diagnostic errors)))"

section \<open>The tracker's tables are first-come\<close>

lemma find_key_None: "find (\<lambda>x. k x = y) xs = None \<longleftrightarrow> y \<notin> k ` set xs"
  by (auto simp: find_None_iff)

lemma find_key_Some: "y \<in> k ` set xs \<Longrightarrow> \<exists>x. find (\<lambda>x. k x = y) xs = Some x"
  using find_key_None [of k y xs] by (cases "find (\<lambda>x. k x = y) xs") auto

lemma alloc_of_gpio [simp]: "pa_gpio_num (alloc_of u) = pu_gpio_num u"
  by (simp add: alloc_of_def)

interpretation pins: first_come allocate_pin rt_pins "\<lambda>a. a" pa_gpio_num
proof unfold_locales
  fix a s
  show "\<exists>s'. allocate_pin a s = Inr s' \<and> rt_pins s' = rt_pins s @ [a]"
    if "pa_gpio_num a \<notin> pa_gpio_num ` set (rt_pins s)"
    using that unfolding find_key_None [symmetric] by (simp add: allocate_pin_def)
  show "\<exists>e. allocate_pin a s = Inl e" if "pa_gpio_num a \<in> pa_gpio_num ` set (rt_pins s)"
    using find_key_Some [OF that] by (auto simp: allocate_pin_def)
qed

interpretation i2c: first_come allocate_i2c rt_i2c "\<lambda>a. a" fst
proof unfold_locales
  fix a s
  show "\<exists>s'. allocate_i2c a s = Inr s' \<and> rt_i2c s' = rt_i2c s @ [a]" if "fst a \<notin> fst ` set (rt_i2c s)"
    using that unfolding find_key_None [symmetric] by (simp add: allocate_i2c_def)
  show "\<exists>e. allocate_i2c a s = Inl e" if "fst a \<in> fst ` set (rt_i2c s)"
    using find_key_Some [OF that] by (auto simp: allocate_i2c_def)
qed

interpretation uart: first_come allocate_uart rt_uart "\<lambda>a. a" fst
proof unfold_locales
  fix a s
  show "\<exists>s'. allocate_uart a s = Inr s' \<and> rt_uart s' = rt_uart s @ [a]" if "fst a \<notin> fst ` set (rt_uart s)"
    using that unfolding find_key_None [symmetric] by (simp add: allocate_uart_def)
  show "\<exists>e. allocate_uart a s = Inl e" if "fst a \<in> fst ` set (rt_uart s)"
    using find_key_Some [OF that] by (auto simp: allocate_uart_def)
qed

interpretation usages: first_come claim_usage rt_pins alloc_of pa_gpio_num
proof unfold_locales
  fix u s
  show "\<exists>s'. claim_usage u s = Inr s' \<and> rt_pins s' = rt_pins s @ [alloc_of u]"
    if "pa_gpio_num (alloc_of u) \<notin> pa_gpio_num ` set (rt_pins s)"
    using pins.grant [OF that] by (auto simp: claim_usage_def)
  show "\<exists>e. claim_usage u s = Inl e" if "pa_gpio_num (alloc_of u) \<in> pa_gpio_num ` set (rt_pins s)"
    using pins.refuse [OF that] by (auto simp: claim_usage_def)
qed

section \<open>What stage 10 accepts\<close>

definition pin_fits :: "chip_target \<Rightarrow> pin_usage \<Rightarrow> bool" where
  "pin_fits target u \<longleftrightarrow>
     (let caps = capabilities_for target in
      pu_gpio_num u \<le> ch_max_gpio caps \<and> pu_gpio_num u \<notin> set (ch_flash_reserved caps) \<and>
      (pu_gpio_num u \<in> set (ch_input_only caps) \<longrightarrow> \<not> requires_output (pu_mode u)))"

lemma claim_errors_fatal: "e \<in> set (snd (claim_all claim_usage us t)) \<Longrightarrow> is_fatal e"
  by (induction us arbitrary: t)
     (auto simp: claim_usage_def pin_taken_def split_beta split: sum.splits)

lemma pin_errors_fatal:
  "no_fatal (map pin_diagnostic (pin_errors target (alloc_of u))) \<longleftrightarrow> pin_fits target u"
  by (auto simp: pin_errors_def pin_fits_def alloc_of_def Let_def not_less)

lemma pin_errors_fatal_all:
  "(\<forall>e \<in> set (pin_errors target (alloc_of u)). \<not> is_fatal (pin_diagnostic e)) \<longleftrightarrow> pin_fits target u"
  using pin_errors_fatal [of target u] by simp

lemma capability_diagnostics:
  "(case validate_pin_capabilities target t of Inr _ \<Rightarrow> [] | Inl errors \<Rightarrow> map pin_diagnostic errors)
   = concat (map (\<lambda>a. map pin_diagnostic (pin_errors target a)) (rt_pins t))"
  by (simp add: validate_pin_capabilities_def map_concat o_def Let_def)

lemma stage_10_spec:
  assumes "stage_10_check_pin_conflicts config target = (tracker, errors)"
  shows "(no_fatal errors \<longleftrightarrow>
      distinct (map pu_gpio_num (all_usages config)) \<and> list_all (pin_fits target) (all_usages config))
    \<and> (no_fatal errors \<longrightarrow> rt_pins tracker = map alloc_of (all_usages config))"
proof -
  let ?us = "all_usages config"
  have e: "errors = snd (claim_all claim_usage ?us new_tracker)
      @ concat (map (\<lambda>a. map pin_diagnostic (pin_errors target a)) (rt_pins tracker))"
    and t: "tracker = fst (claim_all claim_usage ?us new_tracker)"
    using assms by (auto simp: stage_10_check_pin_conflicts_def split_beta capability_diagnostics)
  have claims: "no_fatal (snd (claim_all claim_usage ?us new_tracker)) \<longleftrightarrow> distinct (map pu_gpio_num ?us)"
    using usages.claim_all_no_refusal [of ?us new_tracker] claim_errors_fatal [of _ ?us new_tracker]
    by (auto simp: new_tracker_def o_def dest: list.set_sel(1))
  show ?thesis
  proof (cases "distinct (map pu_gpio_num ?us)")
    case True
    then have "snd (claim_all claim_usage ?us new_tracker) = []"
      using usages.claim_all_no_refusal [of ?us new_tracker] by (simp add: new_tracker_def o_def)
    then have pins: "rt_pins tracker = map alloc_of ?us"
      unfolding t using usages.claim_all_everything [of ?us new_tracker] by (simp add: new_tracker_def)
    have "no_fatal errors \<longleftrightarrow> list_all (pin_fits target) ?us"
      unfolding e no_fatal_append claims no_fatal_concat pins using True
      by (simp add: pin_errors_fatal_all list_all_iff)
    with True pins show ?thesis by blast
  next
    case False
    then have "\<not> no_fatal errors" unfolding e no_fatal_append claims by blast
    with False show ?thesis by blast
  qed
qed

section \<open>Properties\<close>

text \<open>C23. Stage 10 stops the pipeline exactly when two pin fields of the configuration name the
  same GPIO or some pin does not exist on the chip, is reserved for its flash, or is
  input-only but used as an output. If it passes, the tracker holds every pin that was
  read, in order.\<close>

theorem stage_10_passes_iff:
  assumes "stage_10_check_pin_conflicts config target = (tracker, errors)"
  shows "(no_fatal errors \<longleftrightarrow>
      distinct (map pu_gpio_num (all_usages config)) \<and> list_all (pin_fits target) (all_usages config))
    \<and> (no_fatal errors \<longrightarrow> rt_pins tracker = map alloc_of (all_usages config))"
  by (rule stage_10_spec [OF assms])

theorem stage_10_passes_iff_witness:
  "list_ex is_fatal (snd (stage_10_check_pin_conflicts
     (config_of [\<lparr>cc_type = ''i2c'', cc_platform = None,
        cc_config = JObj [(''scl'', JNum (PosInt 21)), (''sda'', JNum (PosInt 21))]\<rparr>]) Esp32))"
  (is "list_ex is_fatal (snd (stage_10_check_pin_conflicts ?config Esp32))")
proof -
  obtain t es where run: "stage_10_check_pin_conflicts ?config Esp32 = (t, es)" by fastforce
  have "\<not> distinct (map pu_gpio_num (all_usages ?config))"
    by (simp add: all_usages_def config_of_def extract_pins_def extract_pin_def field_modes_def as_u8_def)
  then show ?thesis using stage_10_passes_iff [OF run] run by (auto simp: list_ex_iff)
qed

text \<open>Whatever a configuration asks for, and whether or not there are conflicts, the tracker
  of stage 10 never holds a GPIO twice and holds every GPIO that was asked for.\<close>

theorem tracker_first_come:
  "distinct (map pa_gpio_num (rt_pins (fst (stage_10_check_pin_conflicts config target))))
   \<and> pa_gpio_num ` set (rt_pins (fst (stage_10_check_pin_conflicts config target)))
     = pu_gpio_num ` set (all_usages config)"
  using usages.claim_all_held [of new_tracker "all_usages config"]
  by (simp add: stage_10_check_pin_conflicts_def split_beta new_tracker_def image_image)

text \<open>A pin number that does not fit eight bits is not out of range but invisible: stage 10
  reads no pin from the field and reports nothing, on any chip.\<close>

theorem stage_10_ignores_large_numbers:
  assumes "256 \<le> unat n"
  shows "stage_10_check_pin_conflicts
     (config\<lparr>rc_components := [\<lparr>cc_type = ''uart'', cc_platform = None,
        cc_config = JObj [(''tx_pin'', JNum (PosInt n))]\<rparr>]\<rparr>) target = (new_tracker, [])"
proof -
  have "all_usages (config\<lparr>rc_components := [\<lparr>cc_type = ''uart'', cc_platform = None,
        cc_config = JObj [(''tx_pin'', JNum (PosInt n))]\<rparr>]\<rparr>) = []"
    using assms by (simp add: all_usages_def extract_pins_def extract_pin_def field_modes_def as_u8_def)
  then show ?thesis
    by (simp add: stage_10_check_pin_conflicts_def validate_pin_capabilities_def new_tracker_def)
qed

theorem stage_10_ignores_large_numbers_witness:
  "stage_10_check_pin_conflicts
     (config_of [\<lparr>cc_type = ''uart'', cc_platform = None, cc_config = JObj [(''tx_pin'', JNum (PosInt 300))]\<rparr>]) Esp32
   = (new_tracker, [])"
  using stage_10_ignores_large_numbers [of 300 "config_of []" Esp32] by (simp add: config_of_def)

end
