(* ===== verification/StageFinal.thy ===== *)
theory StageFinal
  imports Pins
begin

text \<open>
  Stage 9 (\<open>s9_final_validation.rs\<close>): the rules that span components. Reading a sigrok block
  into its typed configuration is serde's derived code and a parameter, \<open>sigrok_from\<close>; so is
  the catalogue of solutions. The set of component types is a hash set; here its elements
  come in order of their last occurrence, which only the order of the warnings shows.

  The lemmas show exactly what passes, and what that means for the retry budgets of a
  solution and for the channels of the logic analyzer.
\<close>

section \<open>Solutions\<close>

definition em_dash :: string where
  "em_dash = [CHR 0xE2, CHR 0x80, CHR 0x94]"

definition less_equal_sign :: string where
  "less_equal_sign = [CHR 0xE2, CHR 0x89, CHR 0xA4]"

definition component_types :: "raw_config \<Rightarrow> string list" where
  "component_types config = remdups (map cc_type (rc_components config))"

definition required_missing :: "string \<Rightarrow> string \<Rightarrow> validation_error" where
  "required_missing solution_id required =
     with_suggestion (''Add a '' @ quoted (required @ '':'') @ '' block to your configuration'')
       (verror FinalValidation ''esphome.solution''
         (''solution '' @ quoted solution_id @ '' requires component '' @ quoted required @
          '' but it is not configured''))"

definition not_in_bundle :: "string \<Rightarrow> string \<Rightarrow> validation_error" where
  "not_in_bundle solution_id comp_type = vwarning FinalValidation ''esphome.solution''
     (''component '' @ quoted comp_type @ '' is not part of solution '' @ quoted solution_id @
      '' bundle; it may not be compatible'')"

definition validate_solution :: "solution_registry \<Rightarrow> string \<Rightarrow> string list \<Rightarrow> validation_error list" where
  "validate_solution solutions solution_id types =
     (case solutions solution_id of
        None \<Rightarrow> [verror FinalValidation ''esphome.solution''
          (''unknown solution '' @ quoted solution_id @ ''; not found in solution registry'')]
      | Some sol \<Rightarrow>
          map (required_missing solution_id)
            (filter (\<lambda>required. required \<notin> set types) (cb_required (sd_bundle sol))) @
          map (not_in_bundle solution_id)
            (filter (\<lambda>t. t \<notin> set (cb_required (sd_bundle sol)) \<union> set (cb_optional (sd_bundle sol))) types))"

definition budget_exceeded :: "string \<Rightarrow> u32 \<Rightarrow> nat \<Rightarrow> orchestration_step \<Rightarrow> retry_policy \<Rightarrow> validation_error" where
  "budget_exceeded solution_id watchdog_ms i step policy =
     (let half = show_nat (unat (watchdog_ms div 2)) in
      with_suggestion
        (''Reduce retry_policy.total_budget_ms to '' @ less_equal_sign @ '' '' @ half @
         '' ms (half of watchdog_ms = '' @ show_nat (unat watchdog_ms) @
         '' ms), or shorten max_attempts / backoff so the schedule fits'')
        (verror FinalValidation
          (''esphome.solution.fixed_orchestration['' @ show_nat i @ ''].retry_policy.total_budget_ms'')
          (''OrchestrationBudgetExceeded: solution '' @ quoted solution_id @ '' step '' @ quoted (os_id step) @
           '' total_budget_ms ('' @ show_nat (unat (rp_total_budget policy)) @ '') > watchdog_ms / 2 ('' @ half @
           ''); the retry budget would consume more than half the watchdog window and could mask a real '' @
           ''persistent failure'')))"

definition check_orchestration_budget ::
    "string \<Rightarrow> u32 \<Rightarrow> orchestration_step list \<Rightarrow> validation_error list" where
  "check_orchestration_budget solution_id watchdog_ms steps =
     (let half_watchdog = watchdog_ms div 2 in
      concat (map (\<lambda>(i, step). case os_retry_policy step of
          None \<Rightarrow> []
        | Some policy \<Rightarrow>
            if rp_total_budget policy > half_watchdog
            then [budget_exceeded solution_id watchdog_ms i step policy] else [])
        (enumerated steps)))"

definition validate_orchestration_budget :: "solution_registry \<Rightarrow> string \<Rightarrow> validation_error list" where
  "validate_orchestration_budget solutions solution_id =
     (case solutions solution_id of
        None \<Rightarrow> []
      | Some sol \<Rightarrow>
          (case sd_watchdog_ms sol of
             None \<Rightarrow> []
           | Some watchdog_ms \<Rightarrow>
               check_orchestration_budget solution_id watchdog_ms (sd_fixed_orchestration sol)))"

section \<open>Climate\<close>

definition get_f64 :: "string \<Rightarrow> (string \<times> json) list \<Rightarrow> f64 option" where
  "get_f64 k obj = Option.bind (map_of obj k) as_f64"

definition check_visual :: "string \<Rightarrow> (string \<times> json) list \<Rightarrow> validation_error list" where
  "check_visual path visual =
     (case (get_f64 ''min_temperature'' visual, get_f64 ''max_temperature'' visual) of
        (Some mn, Some mx) \<Rightarrow>
          if f64_le mx mn
          then [verror FinalValidation (path @ ''.visual'')
                 (''climate visual: min_temperature ('' @ show_f64 mn @ '') must be less than max_temperature ('' @
                  show_f64 mx @ '')'')]
          else []
      | _ \<Rightarrow> []) @
     (case get_f64 ''temperature_step'' visual of
        Some s \<Rightarrow>
          if f64_le s (f64_of_nat 0)
          then [verror FinalValidation (path @ ''.visual.temperature_step'')
                 (''climate visual: temperature_step must be positive, got '' @ show_f64 s)]
          else []
      | None \<Rightarrow> [])"

definition visual_of :: "component_config \<Rightarrow> (string \<times> json) list option" where
  "visual_of c = (if cc_type c \<noteq> ''climate'' then None
     else Option.bind (json_get ''visual'' (cc_config c)) as_object)"

definition validate_climate_visuals :: "raw_config \<Rightarrow> validation_error list" where
  "validate_climate_visuals config =
     concat (map (\<lambda>(i, c). case visual_of c of
         None \<Rightarrow> []
       | Some visual \<Rightarrow> check_visual (''climate['' @ show_nat i @ '']'') visual)
       (enumerated (rc_components config)))"

section \<open>The logic analyzer\<close>

datatype sigrok_trigger_mode = SG_Immediate | SG_Edge u8 bool | SG_Pattern u32 u32

datatype sigrok_transport = UsbSerialJtag | UsbOtgCdc

record sigrok_config =
  sg_channels :: "u8 list"
  sg_sample_rate_hz :: u32
  sg_max_sample_rate :: u32
  sg_buffer_depth :: u32
  sg_trigger_mode :: sigrok_trigger_mode
  sg_transport :: sigrok_transport

definition default_sigrok :: sigrok_config where
  "default_sigrok = \<lparr>sg_channels = [4, 5, 6, 7, 15, 16, 17, 18], sg_sample_rate_hz = 1000000,
     sg_max_sample_rate = 10000000, sg_buffer_depth = 32768, sg_trigger_mode = SG_Immediate,
     sg_transport = UsbSerialJtag\<rparr>"

definition STRAPPING_PINS :: "nat list" where
  "STRAPPING_PINS = [0, 3, 45, 46]"

definition USB_JTAG_PINS :: "nat list" where
  "USB_JTAG_PINS = [19, 20]"

definition FLASH_PINS :: "nat list" where
  "FLASH_PINS = [26, 27, 28, 29, 30, 31, 32]"

definition MAX_SAMPLE_RATE_HZ :: nat where
  "MAX_SAMPLE_RATE_HZ = 20000000"

definition MAX_BUFFER_DEPTH :: nat where
  "MAX_BUFFER_DEPTH = 200000"

definition channel_count_error :: "nat \<Rightarrow> validation_error" where
  "channel_count_error n = verror FinalValidation ''sigrok.channels''
     (''sigrok requires exactly 8 or 16 channels, got '' @ show_nat n)"

fun duplicate_channels :: "u8 set \<Rightarrow> u8 list \<Rightarrow> validation_error list" where
  "duplicate_channels seen [] = []"
| "duplicate_channels seen (pin # pins) =
     (if pin \<in> seen
      then [verror FinalValidation ''sigrok.channels''
             (''duplicate GPIO '' @ show_nat (unat pin) @ '' in sigrok channels'')]
      else []) @ duplicate_channels (insert pin seen) pins"

definition check_channel :: "u8 \<Rightarrow> validation_error list" where
  "check_channel pin =
     (let p = unat pin in
      (if p \<in> set STRAPPING_PINS
       then [vwarning FinalValidation ''sigrok.channels''
              (''GPIO '' @ show_nat p @ '' is a strapping pin '' @ em_dash @ '' may cause boot issues'')]
       else []) @
      (if p \<in> set USB_JTAG_PINS
       then [verror FinalValidation ''sigrok.channels''
              (''GPIO '' @ show_nat p @
               '' is used by USB Serial/JTAG (SUMP transport) and cannot be a sigrok channel'')]
       else []) @
      (if p \<in> set FLASH_PINS
       then [verror FinalValidation ''sigrok.channels''
              (''GPIO '' @ show_nat p @ '' is a SPI flash pin and cannot be used'')]
       else []))"

definition otg_warning :: validation_error where
  "otg_warning = vwarning FinalValidation ''sigrok.transport''
     (''USB-OTG mode disables the ESP32-S3'' @ [CHR 0x27] @ ''s built-in USB Serial/JTAG interface. '' @
      ''You will need a USB-UART bridge (e.g., CP2102) on GPIO 43/44 for flashing and serial monitor.'')"

definition check_sigrok :: "sigrok_config \<Rightarrow> validation_error list" where
  "check_sigrok sigrok =
     (if length (sg_channels sigrok) \<noteq> 8 \<and> length (sg_channels sigrok) \<noteq> 16
      then [channel_count_error (length (sg_channels sigrok))] else []) @
     duplicate_channels {} (sg_channels sigrok) @
     concat (map check_channel (sg_channels sigrok)) @
     (if sg_transport sigrok = UsbOtgCdc then [otg_warning] else []) @
     (if unat (sg_sample_rate_hz sigrok) > MAX_SAMPLE_RATE_HZ
      then [verror FinalValidation ''sigrok.sample_rate_hz''
             (''sample rate '' @ show_nat (unat (sg_sample_rate_hz sigrok)) @
              '' Hz exceeds the 20 MHz hardware maximum for ESP32-S3'')]
      else []) @
     (if unat (sg_buffer_depth sigrok) > MAX_BUFFER_DEPTH
      then [verror FinalValidation ''sigrok.buffer_depth''
             (''buffer depth '' @ show_nat (unat (sg_buffer_depth sigrok)) @ '' exceeds the '' @
              show_nat MAX_BUFFER_DEPTH @ '' sample SRAM limit'')]
      else [])"

type_synonym sigrok_reader = "json \<Rightarrow> string + sigrok_config"

definition validate_sigrok :: "sigrok_reader \<Rightarrow> raw_config \<Rightarrow> validation_error list" where
  "validate_sigrok sigrok_from config =
     (case find (\<lambda>c. cc_type c = ''sigrok'') (rc_components config) of
        None \<Rightarrow> []
      | Some c \<Rightarrow>
          if eb_platform (rc_esphome config) \<noteq> ''esp32s3''
          then [with_suggestion (''Change platform to '' @ quoted ''esp32s3'' @ '' or remove the sigrok component'')
                 (verror FinalValidation ''sigrok''
                   (''sigrok component requires ESP32-S3 but target is '' @ quoted (eb_platform (rc_esphome config))))]
          else
            (case sigrok_from (cc_config c) of
               Inl e \<Rightarrow> [verror FinalValidation ''sigrok'' (''invalid sigrok config: '' @ e)]
             | Inr sigrok \<Rightarrow> check_sigrok sigrok))"

section \<open>The stage\<close>

definition needs_network :: "string \<Rightarrow> string \<Rightarrow> validation_error" where
  "needs_network name hint = with_suggestion hint
     (verror FinalValidation name
       (''the '' @ quoted (name @ '':'') @ '' component requires '' @ quoted ''wifi:'' @ '' or '' @
        quoted ''ethernet:'' @ '' to be configured''))"

definition wifi_hint :: string where
  "wifi_hint = ''Add a '' @ quoted ''wifi:'' @ '' block with your SSID and password''"

definition logger_info :: "component_config \<Rightarrow> validation_error list" where
  "logger_info c =
     (if cc_type c = ''logger'' then
        (case Option.bind (json_get ''baud_rate'' (cc_config c)) as_u64 of
           Some baud \<Rightarrow>
             if baud > 0
             then [vinfo FinalValidation ''logger''
                    (''logger is active during deep_sleep wakeup; '' @
                     ''consider setting baud_rate: 0 to disable serial logging'')]
             else []
         | None \<Rightarrow> [])
      else [])"

definition stage_9_final_validation ::
    "solution_registry \<Rightarrow> sigrok_reader \<Rightarrow> raw_config \<Rightarrow> validation_error list" where
  "stage_9_final_validation solutions sigrok_from config =
     (let types = component_types config;
          has = (\<lambda>t. t \<in> set types);
          has_wifi = (has ''wifi'' \<or> has ''ethernet'')
      in
        (if has ''api'' \<and> \<not> has_wifi then [needs_network ''api'' wifi_hint] else []) @
        (if has ''mqtt'' \<and> has ''api''
         then [vwarning FinalValidation ''mqtt''
                (''both '' @ quoted ''mqtt:'' @ '' and '' @ quoted ''api:'' @ '' are configured; '' @
                 ''Home Assistant native API and MQTT can conflict '' @ em_dash @ '' consider using only one'')]
         else []) @
        (if has ''ota'' \<and> \<not> has_wifi
         then [needs_network ''ota'' ''OTA updates are delivered over the network''] else []) @
        (if has ''deep_sleep'' \<and> has ''api''
         then [vwarning FinalValidation ''deep_sleep''
                (''deep_sleep and api are both configured; '' @
                 ''the device will disconnect from Home Assistant during sleep cycles'')]
         else []) @
        (if has ''deep_sleep'' \<and> has ''logger'' then concat (map logger_info (rc_components config)) else []) @
        (if has ''climate'' then validate_climate_visuals config else []) @
        (if has ''mqtt'' \<and> \<not> has_wifi then [needs_network ''mqtt'' wifi_hint] else []) @
        (case eb_solution (rc_esphome config) of
           None \<Rightarrow> []
         | Some solution_id \<Rightarrow>
             validate_solution solutions solution_id types @
             validate_orchestration_budget solutions solution_id) @
        (if has ''sigrok'' then validate_sigrok sigrok_from config else []))"

section \<open>What each rule lets through\<close>

definition visual_ok :: "(string \<times> json) list \<Rightarrow> bool" where
  "visual_ok visual \<longleftrightarrow>
     (case (get_f64 ''min_temperature'' visual, get_f64 ''max_temperature'' visual) of
        (Some mn, Some mx) \<Rightarrow> \<not> f64_le mx mn | _ \<Rightarrow> True) \<and>
     (case get_f64 ''temperature_step'' visual of Some s \<Rightarrow> \<not> f64_le s (f64_of_nat 0) | None \<Rightarrow> True)"

definition budget_ok :: "solution_def \<Rightarrow> bool" where
  "budget_ok sol \<longleftrightarrow>
     (case sd_watchdog_ms sol of
        None \<Rightarrow> True
      | Some w \<Rightarrow> list_all (\<lambda>step. case os_retry_policy step of
            None \<Rightarrow> True | Some policy \<Rightarrow> rp_total_budget policy \<le> w div 2) (sd_fixed_orchestration sol))"

definition solution_ok :: "solution_registry \<Rightarrow> string \<Rightarrow> string set \<Rightarrow> bool" where
  "solution_ok solutions solution_id types \<longleftrightarrow>
     (case solutions solution_id of
        None \<Rightarrow> False
      | Some sol \<Rightarrow> set (cb_required (sd_bundle sol)) \<subseteq> types \<and> budget_ok sol)"

definition sigrok_ok :: "sigrok_config \<Rightarrow> bool" where
  "sigrok_ok sigrok \<longleftrightarrow>
     length (sg_channels sigrok) \<in> {8, 16} \<and> distinct (sg_channels sigrok) \<and>
     list_all (\<lambda>p. unat p \<notin> set USB_JTAG_PINS \<union> set FLASH_PINS) (sg_channels sigrok) \<and>
     unat (sg_sample_rate_hz sigrok) \<le> MAX_SAMPLE_RATE_HZ \<and>
     unat (sg_buffer_depth sigrok) \<le> MAX_BUFFER_DEPTH"

lemma no_fatal_enumerated:
  assumes "\<And>i x. no_fatal (f i x) \<longleftrightarrow> P x"
  shows "no_fatal (concat (map (\<lambda>(i, x). f i x) (enumerated xs))) \<longleftrightarrow> list_all P xs"
proof -
  have "no_fatal (concat (map (\<lambda>(i, x). f i x) (enumerated xs))) \<longleftrightarrow>
      (\<forall>p \<in> set (enumerated xs). P (snd p))"
    unfolding no_fatal_concat using assms by (intro ball_cong refl) (simp add: split_beta)
  also have "\<dots> \<longleftrightarrow> list_all P (map snd (enumerated xs))" by (simp only: list_all_iff set_map ball_simps)
  finally show ?thesis by simp
qed

lemma no_fatal_if: "no_fatal (if b then es else []) \<longleftrightarrow> (b \<longrightarrow> no_fatal es)"
  by (cases b) simp_all

lemma no_fatal_map: "no_fatal (map f xs) \<longleftrightarrow> (\<forall>x \<in> set xs. \<not> is_fatal (f x))"
  by simp

lemma no_fatal_single: "no_fatal [e] \<longleftrightarrow> \<not> is_fatal e"
  by simp

lemma check_visual_fatal: "no_fatal (check_visual path visual) \<longleftrightarrow> visual_ok visual"
  unfolding check_visual_def visual_ok_def no_fatal_append
  by (intro arg_cong2 [where f = conj]) (simp_all split: option.splits)

lemma climate_fatal:
  "no_fatal (validate_climate_visuals config) \<longleftrightarrow>
     list_all (\<lambda>c. case visual_of c of None \<Rightarrow> True | Some visual \<Rightarrow> visual_ok visual) (rc_components config)"
  unfolding validate_climate_visuals_def
proof (rule no_fatal_enumerated)
  fix i c
  show "no_fatal (case visual_of c of None \<Rightarrow> []
       | Some visual \<Rightarrow> check_visual (''climate['' @ show_nat i @ '']'') visual) \<longleftrightarrow>
     (case visual_of c of None \<Rightarrow> True | Some visual \<Rightarrow> visual_ok visual)"
    using check_visual_fatal by (cases "visual_of c") simp_all
qed

lemma budget_fatal:
  "no_fatal (check_orchestration_budget solution_id w steps) \<longleftrightarrow>
     list_all (\<lambda>step. case os_retry_policy step of
        None \<Rightarrow> True | Some policy \<Rightarrow> rp_total_budget policy \<le> w div 2) steps"
  unfolding check_orchestration_budget_def Let_def
proof (rule no_fatal_enumerated)
  fix i step
  show "no_fatal (case os_retry_policy step of None \<Rightarrow> []
       | Some policy \<Rightarrow> if w div 2 < rp_total_budget policy then [budget_exceeded solution_id w i step policy] else [])
     \<longleftrightarrow> (case os_retry_policy step of None \<Rightarrow> True | Some policy \<Rightarrow> rp_total_budget policy \<le> w div 2)"
    by (cases "os_retry_policy step") (simp_all add: budget_exceeded_def Let_def not_less)
qed

lemma solution_fatal:
  "no_fatal (validate_solution solutions solution_id types @ validate_orchestration_budget solutions solution_id)
   \<longleftrightarrow> solution_ok solutions solution_id (set types)"
proof (cases "solutions solution_id")
  case (Some sol)
  have "no_fatal (validate_solution solutions solution_id types) \<longleftrightarrow> set (cb_required (sd_bundle sol)) \<subseteq> set types"
    unfolding validate_solution_def Some option.case no_fatal_append no_fatal_map
    by (auto simp: required_missing_def not_in_bundle_def)
  moreover have "no_fatal (validate_orchestration_budget solutions solution_id) \<longleftrightarrow> budget_ok sol"
    using Some budget_fatal
    by (cases "sd_watchdog_ms sol") (simp_all add: validate_orchestration_budget_def budget_ok_def)
  ultimately show ?thesis unfolding no_fatal_append using Some by (simp add: solution_ok_def)
qed (simp add: validate_solution_def solution_ok_def)

lemma duplicate_channels_fatal:
  "no_fatal (duplicate_channels seen pins) \<longleftrightarrow> distinct pins \<and> seen \<inter> set pins = {}"
proof (induction pins arbitrary: seen)
  case (Cons pin pins)
  show ?case
    unfolding duplicate_channels.simps no_fatal_append no_fatal_if no_fatal_single Cons.IH by auto
qed simp

lemma check_channel_fatal: "no_fatal (check_channel p) \<longleftrightarrow> unat p \<notin> set USB_JTAG_PINS \<union> set FLASH_PINS"
  unfolding check_channel_def Let_def no_fatal_append no_fatal_if no_fatal_single by auto

lemma check_sigrok_fatal: "no_fatal (check_sigrok sigrok) \<longleftrightarrow> sigrok_ok sigrok"
  unfolding check_sigrok_def sigrok_ok_def no_fatal_append no_fatal_concat duplicate_channels_fatal
    check_channel_fatal no_fatal_if no_fatal_single
  by (auto simp: list_all_iff channel_count_error_def otg_warning_def)

section \<open>Properties\<close>

definition types_of :: "raw_config \<Rightarrow> string set" where
  "types_of config = cc_type ` set (rc_components config)"

lemma set_component_types [simp]: "set (component_types config) = types_of config"
  by (simp add: component_types_def types_of_def)

text \<open>Exactly which configurations pass stage 9: a network component is there if any of api,
  mqtt and ota is; every climate component has consistent temperatures; the solution, if one is
  named, is known, finds its required components and keeps every retry budget within half
  the watchdog window; and the logic analyzer, if there is one, runs on an ESP32-S3 with 8 or 16
  different channels, none on a reserved pin, within the limits for rate and depth.\<close>

theorem stage_9_passes_iff:
  "no_fatal (stage_9_final_validation solutions sigrok_from config) \<longleftrightarrow>
     (types_of config \<inter> {''api'', ''mqtt'', ''ota''} \<noteq> {} \<longrightarrow>
        types_of config \<inter> {''wifi'', ''ethernet''} \<noteq> {})
   \<and> list_all (\<lambda>c. case visual_of c of None \<Rightarrow> True | Some visual \<Rightarrow> visual_ok visual) (rc_components config)
   \<and> (case eb_solution (rc_esphome config) of
        None \<Rightarrow> True | Some solution_id \<Rightarrow> solution_ok solutions solution_id (types_of config))
   \<and> (case find (\<lambda>c. cc_type c = ''sigrok'') (rc_components config) of
        None \<Rightarrow> True
      | Some c \<Rightarrow> eb_platform (rc_esphome config) = ''esp32s3'' \<and>
          (case sigrok_from (cc_config c) of Inl _ \<Rightarrow> False | Inr sigrok \<Rightarrow> sigrok_ok sigrok))"
proof -
  have logger: "no_fatal (concat (map logger_info (rc_components config)))"
    by (auto simp: logger_info_def split: if_splits option.splits)
  have climate: "(''climate'' \<in> types_of config \<longrightarrow> no_fatal (validate_climate_visuals config)) \<longleftrightarrow>
      list_all (\<lambda>c. case visual_of c of None \<Rightarrow> True | Some visual \<Rightarrow> visual_ok visual) (rc_components config)"
  proof (cases "''climate'' \<in> types_of config")
    case False
    have "visual_of c = None" if "c \<in> set (rc_components config)" for c
    proof -
      have "cc_type c \<noteq> ''climate''" using False that unfolding types_of_def by (metis imageI)
      then show ?thesis by (simp add: visual_of_def)
    qed
    with False show ?thesis by (simp add: list_all_iff)
  qed (simp only: climate_fatal simp_thms)
  have solution: "no_fatal (case eb_solution (rc_esphome config) of None \<Rightarrow> []
       | Some solution_id \<Rightarrow> validate_solution solutions solution_id (component_types config) @
             validate_orchestration_budget solutions solution_id)
     \<longleftrightarrow> (case eb_solution (rc_esphome config) of
        None \<Rightarrow> True | Some solution_id \<Rightarrow> solution_ok solutions solution_id (types_of config))"
    using solution_fatal [of solutions _ "component_types config"]
    by (cases "eb_solution (rc_esphome config)") simp_all
  have sigrok: "(''sigrok'' \<in> types_of config \<longrightarrow> no_fatal (validate_sigrok sigrok_from config)) \<longleftrightarrow>
     (case find (\<lambda>c. cc_type c = ''sigrok'') (rc_components config) of
        None \<Rightarrow> True
      | Some c \<Rightarrow> eb_platform (rc_esphome config) = ''esp32s3'' \<and>
          (case sigrok_from (cc_config c) of Inl _ \<Rightarrow> False | Inr sigrok \<Rightarrow> sigrok_ok sigrok))"
    (is "?l \<longleftrightarrow> ?r")
  proof (cases "find (\<lambda>c. cc_type c = ''sigrok'') (rc_components config)")
    case None
    then have "''sigrok'' \<notin> types_of config" unfolding find_key_None types_of_def .
    with None show ?thesis by simp
  next
    case (Some c)
    then have "''sigrok'' \<in> types_of config"
      using find_key_None [of cc_type "''sigrok''" "rc_components config"] unfolding types_of_def by simp
    with Some show ?thesis
      by (cases "sigrok_from (cc_config c)") (simp_all add: validate_sigrok_def check_sigrok_fatal)
  qed
  have net: "\<not> no_fatal [needs_network n h]" for n h
    by (simp add: needs_network_def)
  show ?thesis
    unfolding stage_9_final_validation_def Let_def no_fatal_append no_fatal_if set_component_types
      climate solution sigrok
    using net logger by auto
qed

theorem stage_9_passes_iff_witness:
  "list_ex is_fatal (stage_9_final_validation Map.empty (\<lambda>_. Inr default_sigrok)
     (config_of [\<lparr>cc_type = ''api'', cc_platform = None, cc_config = JObj []\<rparr>]))"
  (is "list_ex is_fatal (stage_9_final_validation _ ?from ?config)")
proof -
  have "types_of ?config = {''api''}" by (simp add: types_of_def config_of_def)
  then have "\<not> no_fatal (stage_9_final_validation Map.empty ?from ?config)"
    unfolding stage_9_passes_iff by simp
  then show ?thesis by (auto simp: list_ex_iff)
qed

text \<open>C30. If stage 9 lets a solution with a watchdog pass, the waits of every one of its retry
  policies that the constructor accepts, all attempts at the largest backoff, take at most half
  of the watchdog window.\<close>

theorem stage_9_retries_within_watchdog:
  assumes "no_fatal (stage_9_final_validation solutions sigrok_from config)"
    and "eb_solution (rc_esphome config) = Some solution_id" and "solutions solution_id = Some sol"
    and "sd_watchdog_ms sol = Some w" and "step \<in> set (sd_fixed_orchestration sol)"
    and "os_retry_policy step = Some policy" and "retry_policy_valid policy"
  shows "2 * (unat (rp_max_attempts policy) * unat (rp_backoff_max policy)) \<le> unat w"
proof -
  have "\<forall>e \<in> set (validate_solution solutions solution_id (component_types config) @
      validate_orchestration_budget solutions solution_id). \<not> is_fatal e"
    using assms(1,2) by (simp add: stage_9_final_validation_def Let_def ball_Un)
  then have "budget_ok sol" unfolding solution_fatal using assms(3) by (simp add: solution_ok_def)
  then have "rp_total_budget policy \<le> w div 2" using assms(4-6) by (auto simp: budget_ok_def list_all_iff)
  then have "unat (rp_total_budget policy) \<le> unat w div 2" by (simp add: word_le_nat_alt unat_div)
  moreover have "unat (rp_max_attempts policy) * unat (rp_backoff_max policy) \<le> unat (rp_total_budget policy)"
    using assms(7) by (auto simp: retry_policy_valid_def dest!: new_retry_policy_Inr split: sum.splits)
  ultimately show ?thesis by linarith
qed

theorem stage_9_retries_within_watchdog_witness:
  "let policy = \<lparr>rp_max_attempts = 3, rp_backoff_initial = 10, rp_backoff_max = 50, rp_total_budget = 200\<rparr>
   in 2 * (unat (rp_max_attempts policy) * unat (rp_backoff_max policy)) \<le> unat (500 :: u32)"
proof -
  let ?policy = "\<lparr>rp_max_attempts = 3, rp_backoff_initial = 10, rp_backoff_max = 50, rp_total_budget = 200\<rparr>"
  let ?step = "\<lparr>os_id = ''publish'', os_label = ''Publish'', os_depends_on = [], os_retry_policy = Some ?policy\<rparr>"
  let ?sol = "\<lparr>sd_id = ''rover'', sd_fixed_orchestration = [?step], sd_variants = [],
     sd_bundle = \<lparr>cb_required = [], cb_optional = []\<rparr>, sd_watchdog_ms = Some 500\<rparr>"
  let ?config = "\<lparr>rc_esphome = minimal_esphome\<lparr>eb_solution := Some ''rover''\<rparr>, rc_packages = [],
     rc_subs = Map.empty, rc_components = []\<rparr>"
  have pass: "no_fatal (stage_9_final_validation [''rover'' \<mapsto> ?sol] (\<lambda>_. Inr default_sigrok) ?config)"
    by (simp add: stage_9_final_validation_def types_of_def validate_solution_def component_types_def
        validate_orchestration_budget_def check_orchestration_budget_def enumerated_def)
  have "retry_policy_valid ?policy" by (simp add: retry_policy_valid_def new_retry_policy_def)
  from stage_9_retries_within_watchdog [OF pass _ _ _ _ _ this, of "''rover''" ?sol 500 ?step]
  show ?thesis by (simp add: minimal_esphome_def)
qed

end
