(* ===== verification/DepOrder.thy ===== *)
theory DepOrder
  imports Registry "HOL-Library.Multiset"
begin

text \<open>
  The dependency graph of a validated configuration (\<open>DependencyGraph\<close> in
  \<open>rshome-config/src/validated.rs\<close>): its edge map, built edge by edge, and \<open>compute_order\<close>,
  the order that is used when the graph has a cycle. The edge map and the table of degrees
  are hash maps, here association lists without duplicate keys; the code sorts whatever it
  takes from them, so their order does not show in the result.

  The lemmas show that the order is a permutation of the nodes and that it respects every
  dependency of a component from which no cycle can be reached.
\<close>

type_synonym edge_map = "(string \<times> string list) list"

section \<open>The graph\<close>

definition deps_of :: "edge_map \<Rightarrow> string \<Rightarrow> string list" where
  "deps_of edges n = (case map_of edges n of Some deps \<Rightarrow> deps | None \<Rightarrow> [])"

definition add_dependency :: "string \<Rightarrow> string \<Rightarrow> edge_map \<Rightarrow> edge_map" where
  "add_dependency src dep edges = reg_insert src (deps_of edges src @ [dep]) edges"

definition all_nodes :: "edge_map \<Rightarrow> string list" where
  "all_nodes edges = remdups (concat (map (\<lambda>(src, deps). src # deps) edges))"

definition in_degrees :: "edge_map \<Rightarrow> (string \<times> nat) list" where
  "in_degrees edges = fold (\<lambda>(src, deps). reg_insert src (length deps)) edges (map (\<lambda>n. (n, 0)) (all_nodes edges))"

text \<open>The entry of \<open>dep\<close> in the reverse map: one copy of a component for every edge to \<open>dep\<close>.\<close>

definition dependents :: "edge_map \<Rightarrow> string \<Rightarrow> string list" where
  "dependents edges dep = concat (map (\<lambda>(src, deps). map (\<lambda>_. src) (filter (\<lambda>d. d = dep) deps)) edges)"

definition degree :: "(string \<times> nat) list \<Rightarrow> string \<Rightarrow> nat" where
  "degree deg n = (case map_of deg n of Some d \<Rightarrow> d | None \<Rightarrow> 0)"

fun release :: "string list \<Rightarrow> (string \<times> nat) list \<Rightarrow> string list \<Rightarrow> (string \<times> nat) list \<times> string list" where
  "release [] deg queue = (deg, queue)"
| "release (dep # deps) deg queue =
     (let d = degree deg dep in
      if d > 0
      then release deps (reg_insert dep (d - 1) deg) (if d - 1 = 0 then queue @ [dep] else queue)
      else release deps deg queue)"

section \<open>Termination\<close>

definition positive :: "(string \<times> nat) list \<Rightarrow> nat" where
  "positive deg = length (filter (\<lambda>p. 0 < snd p) deg)"

lemma degree_reg_insert [simp]: "degree (reg_insert k v m) n = (if n = k then v else degree m n)"
  by (simp add: degree_def)

lemma positive_reg_insert:
  "degree deg k = Suc d \<Longrightarrow> positive (reg_insert k d deg) + (if d = 0 then 1 else 0) = positive deg"
  by (induction k d deg rule: reg_insert.induct) (auto simp: degree_def positive_def split: if_splits)

lemma release_measure:
  "release deps deg queue = (deg', queue') \<Longrightarrow>
     length queue' + positive deg' = length queue + positive deg"
proof (induction deps deg queue rule: release.induct)
  case (2 dep deps deg queue)
  show ?case
  proof (cases "degree deg dep")
    case 0
    with "2.IH"(2) [OF refl] "2.prems" show ?thesis by simp
  next
    case (Suc d)
    with "2.IH"(1) [OF refl] "2.prems" positive_reg_insert [OF Suc] show ?thesis
      by (auto simp: Let_def split: if_splits)
  qed
qed simp

function kahn :: "edge_map \<Rightarrow> string list \<Rightarrow> (string \<times> nat) list \<Rightarrow> string list \<Rightarrow> string list" where
  "kahn edges [] deg order = order"
| "kahn edges (node # queue) deg order =
     (let (deg', queue') = release (sort (dependents edges node)) deg queue
      in kahn edges queue' deg' (order @ [node]))"
  by pat_completeness auto
termination
proof (relation "measure (\<lambda>(edges, queue, deg, order). length queue + positive deg)", goal_cases)
  case (2 edges node queue deg order x deg' queue')
  then have "release (sort (dependents edges node)) deg queue = (deg', queue')" by simp
  from release_measure [OF this] show ?case by simp
qed simp

definition compute_order :: "edge_map \<Rightarrow> string list" where
  "compute_order edges =
     (let deg = in_degrees edges;
          queue = sort (map fst (filter (\<lambda>p. snd p = 0) deg));
          order = kahn edges queue deg []
      in order @ sort (filter (\<lambda>n. n \<notin> set order) (all_nodes edges)))"

section \<open>Degrees\<close>

lemma count_sort [simp]: "count_list (sort xs) x = count_list xs x"
  by (metis count_mset mset_sort)

lemma length_filter_eq_count: "length (filter (\<lambda>d. d = x) xs) = count_list xs x"
  by (induction xs) auto

lemma count_dependents:
  "distinct (map fst edges) \<Longrightarrow> count_list (dependents edges dep) n = count_list (deps_of edges n) dep"
proof (induction edges)
  case (Cons p edges)
  obtain src deps where p: "p = (src, deps)" by (cases p)
  have copies: "count_list (map (\<lambda>_. src) ds) n = (if n = src then length ds else 0)" for ds :: "string list"
    by (induction ds) auto
  have here: "count_list (map (\<lambda>_. src) (filter (\<lambda>d. d = dep) deps)) n = (if n = src then count_list deps dep else 0)"
    by (simp add: copies length_filter_eq_count)
  have "map_of edges src = None" using Cons.prems p by (simp add: map_of_eq_None_iff)
  then have "n = src \<Longrightarrow> deps_of edges n = []" by (simp add: deps_of_def)
  then show ?case using Cons here by (simp add: p dependents_def deps_of_def)
qed (simp add: dependents_def deps_of_def)

lemma release_spec:
  assumes "\<forall>n. count_list deps n \<le> degree deg n" and "release deps deg queue = (deg', queue')"
  shows "\<exists>new. queue' = queue @ new \<and> distinct new
    \<and> set new = {n. 0 < count_list deps n \<and> degree deg n = count_list deps n}
    \<and> (\<forall>n. degree deg' n = degree deg n - count_list deps n)"
  using assms
proof (induction deps arbitrary: deg queue)
  case (Cons dep deps)
  obtain d where d: "degree deg dep = Suc d"
    using Cons.prems(1) [rule_format, of dep] by (cases "degree deg dep") simp_all
  let ?deg = "reg_insert dep d deg"
  have le: "\<forall>n. count_list deps n \<le> degree ?deg n"
    using Cons.prems(1) d by (auto split: if_splits)
  have "release deps ?deg (if d = 0 then queue @ [dep] else queue) = (deg', queue')"
    using Cons.prems(2) d by simp
  from Cons.IH [OF le this] obtain new where new: "queue' = (if d = 0 then queue @ [dep] else queue) @ new"
      "distinct new" "set new = {n. 0 < count_list deps n \<and> degree ?deg n = count_list deps n}"
      "\<forall>n. degree deg' n = degree ?deg n - count_list deps n" by blast
  have none: "d = 0 \<Longrightarrow> count_list deps dep = 0" using le [rule_format, of dep] by simp
  show ?case
  proof (cases "d = 0")
    case True
    then show ?thesis using new none d by (intro exI [of _ "dep # new"]) auto
  next
    case False
    then show ?thesis using new d by (intro exI [of _ new]) auto
  qed
qed simp

section \<open>The loop\<close>

text \<open>In a list that respects the dependencies everything comes after what it depends on.\<close>

definition deps_first :: "edge_map \<Rightarrow> string list \<Rightarrow> bool" where
  "deps_first edges order \<longleftrightarrow> (\<forall>xs n ys. order = xs @ n # ys \<longrightarrow> set (deps_of edges n) \<subseteq> set xs)"

lemma deps_first_snoc:
  assumes "deps_first edges order" and "set (deps_of edges n) \<subseteq> set order"
  shows "deps_first edges (order @ [n])"
  unfolding deps_first_def
proof (intro allI impI)
  fix xs m ys
  assume eq: "order @ [n] = xs @ m # ys"
  show "set (deps_of edges m) \<subseteq> set xs"
  proof (cases ys rule: rev_cases)
    case Nil
    with eq assms(2) show ?thesis by simp
  next
    case (snoc ys' y)
    with eq have "order = xs @ m # ys'" by simp
    with assms(1) show ?thesis unfolding deps_first_def by blast
  qed
qed

definition open_deps :: "edge_map \<Rightarrow> string list \<Rightarrow> string \<Rightarrow> nat" where
  "open_deps edges order n = length (filter (\<lambda>d. d \<notin> set order) (deps_of edges n))"

definition loop_inv :: "edge_map \<Rightarrow> string list \<Rightarrow> (string \<times> nat) list \<Rightarrow> string list \<Rightarrow> bool" where
  "loop_inv edges queue deg order \<longleftrightarrow>
     distinct (order @ queue) \<and>
     (\<forall>n. degree deg n = open_deps edges order n) \<and>
     (\<forall>n. n \<in> set order \<union> set queue \<longleftrightarrow> n \<in> set (all_nodes edges) \<and> degree deg n = 0) \<and>
     deps_first edges order"

lemma open_deps_snoc:
  "node \<notin> set order \<Longrightarrow>
     open_deps edges (order @ [node]) n = open_deps edges order n - count_list (deps_of edges n) node
     \<and> count_list (deps_of edges n) node \<le> open_deps edges order n"
proof -
  assume "node \<notin> set order"
  then have "length (filter (\<lambda>d. d \<notin> set order) ds) = length (filter (\<lambda>d. d \<notin> set (order @ [node])) ds) + count_list ds node"
    for ds by (induction ds) auto
  then show ?thesis by (simp add: open_deps_def)
qed

lemma open_deps_zero: "open_deps edges order n = 0 \<longleftrightarrow> set (deps_of edges n) \<subseteq> set order"
  by (auto simp: open_deps_def filter_empty_conv)

lemma deps_of_nodes: "deps_of edges n \<noteq> [] \<Longrightarrow> n \<in> set (all_nodes edges)"
  by (auto simp: deps_of_def all_nodes_def dest!: map_of_SomeD split: option.splits)

lemma loop_step:
  assumes "distinct (map fst edges)" and "loop_inv edges (node # queue) deg order"
    and "release (sort (dependents edges node)) deg queue = (deg', queue')"
  shows "loop_inv edges queue' deg' (order @ [node])"
proof -
  note inv = assms(2) [unfolded loop_inv_def]
  have fresh: "node \<notin> set order" using inv by simp
  have zero: "open_deps edges order node = 0" using inv by (metis Un_iff list.set_intros(1))
  have count: "count_list (sort (dependents edges node)) n = count_list (deps_of edges n) node" for n
    using count_dependents [OF assms(1)] by simp
  have le: "\<forall>n. count_list (sort (dependents edges node)) n \<le> degree deg n"
    using inv open_deps_snoc [OF fresh] unfolding count by simp
  obtain new where new: "queue' = queue @ new" "distinct new"
      "set new = {n. 0 < count_list (deps_of edges n) node \<and> degree deg n = count_list (deps_of edges n) node}"
      "\<forall>n. degree deg' n = degree deg n - count_list (deps_of edges n) node"
    using release_spec [OF le assms(3)] unfolding count by blast
  have deg': "degree deg' n = open_deps edges (order @ [node]) n" for n
    using new(4) inv open_deps_snoc [OF fresh] by simp
  have new_nodes: "set new \<subseteq> set (all_nodes edges)"
    using deps_of_nodes unfolding new(3) by (force simp: count_list_0_iff)
  have old: "n \<in> set order \<union> set (node # queue) \<longleftrightarrow> n \<in> set (all_nodes edges) \<and> degree deg n = 0" for n
    using inv by blast
  have "degree deg n \<noteq> 0" if "n \<in> set new" for n using that unfolding new(3) by simp
  then have "set new \<inter> (set order \<union> set (node # queue)) = {}" using old by blast
  then have d: "distinct ((order @ [node]) @ queue')" using inv new(1,2) by auto
  have members: "n \<in> set (order @ [node]) \<union> set queue' \<longleftrightarrow> n \<in> set (all_nodes edges) \<and> degree deg' n = 0" for n
  proof -
    have "degree deg' n = 0 \<longleftrightarrow> degree deg n = 0 \<or> n \<in> set new"
      using new(3,4) le [unfolded count, rule_format, of n] by auto
    moreover have "n \<in> set (order @ [node]) \<union> set queue' \<longleftrightarrow> n \<in> set order \<union> set (node # queue) \<or> n \<in> set new"
      unfolding new(1) by auto
    ultimately show ?thesis unfolding old using new_nodes by auto
  qed
  have "deps_first edges (order @ [node])"
    using inv zero by (intro deps_first_snoc) (simp_all add: open_deps_zero)
  with d deg' members show ?thesis unfolding loop_inv_def by blast
qed

lemma kahn_spec:
  assumes "distinct (map fst edges)" and "loop_inv edges queue deg order"
  shows "\<exists>deg'. loop_inv edges [] deg' (kahn edges queue deg order)"
  using assms
proof (induction edges queue deg order rule: kahn.induct)
  case (2 edges node queue deg order)
  obtain deg' queue' where r: "release (sort (dependents edges node)) deg queue = (deg', queue')"
    by (cases "release (sort (dependents edges node)) deg queue")
  show ?case using "2.IH" [OF r [symmetric] refl "2.prems"(1)] loop_step [OF "2.prems" r] r by simp
qed auto

section \<open>The whole order\<close>

lemma fold_insert_get:
  "distinct (map fst edges) \<Longrightarrow>
     map_of (fold (\<lambda>(src, deps). reg_insert src (length deps)) edges m) n =
       (case map_of edges n of Some deps \<Rightarrow> Some (length deps) | None \<Rightarrow> map_of m n)"
proof (induction edges arbitrary: m)
  case (Cons p edges)
  obtain src deps where p: "p = (src, deps)" by (cases p)
  have "map_of edges src = None" using Cons.prems p by (simp add: map_of_eq_None_iff)
  with Cons p show ?case by (auto split: option.splits)
qed simp

lemma fold_insert_keys:
  "distinct (map fst m) \<Longrightarrow> fst ` set edges \<subseteq> set (map fst m) \<Longrightarrow>
     distinct (map fst (fold (\<lambda>(src, deps). reg_insert src (length deps)) edges m))
     \<and> set (map fst (fold (\<lambda>(src, deps). reg_insert src (length deps)) edges m)) = set (map fst m)"
proof (induction edges arbitrary: m)
  case (Cons p edges)
  obtain src deps where p: "p = (src, deps)" by (cases p)
  have "set (map fst (reg_insert src (length deps) m)) = set (map fst m)"
    using Cons.prems(2) unfolding keys_reg_insert p by auto
  then show ?case using Cons.IH [of "reg_insert src (length deps) m"] Cons.prems distinct_reg_insert [OF Cons.prems(1)] p by simp
qed simp

lemma map_of_const: "map_of (map (\<lambda>n. (n, 0)) ns) n = (if n \<in> set ns then Some 0 else None)"
  by (induction ns) auto

lemma degree_in_degrees: "distinct (map fst edges) \<Longrightarrow> degree (in_degrees edges) n = length (deps_of edges n)"
  by (simp add: degree_def in_degrees_def fold_insert_get map_of_const deps_of_def split: option.splits)

lemma in_degrees_keys:
  "distinct (map fst (in_degrees edges)) \<and> fst ` set (in_degrees edges) = set (all_nodes edges)"
proof -
  have "fst ` set edges \<subseteq> set (map fst (map (\<lambda>n. (n, 0 :: nat)) (all_nodes edges)))"
    by (force simp: all_nodes_def)
  from fold_insert_keys [OF _ this] show ?thesis by (simp add: in_degrees_def o_def all_nodes_def)
qed

lemma zero_keys:
  "distinct (map fst deg) \<Longrightarrow>
     n \<in> fst ` set (filter (\<lambda>p. snd p = 0) deg) \<longleftrightarrow> n \<in> fst ` set deg \<and> degree deg n = 0"
proof (induction deg)
  case (Cons p deg)
  obtain k d where p: "p = (k, d)" by (cases p)
  have "map_of deg k = None" using Cons.prems p by (simp add: map_of_eq_None_iff)
  with Cons show ?case by (auto simp: p degree_def)
qed simp

lemma start_inv:
  assumes "distinct (map fst edges)"
  shows "loop_inv edges (sort (map fst (filter (\<lambda>p. snd p = 0) (in_degrees edges)))) (in_degrees edges) []"
proof -
  let ?deg = "in_degrees edges"
  have "n \<in> fst ` set (filter (\<lambda>p. snd p = 0) ?deg) \<longleftrightarrow> n \<in> set (all_nodes edges) \<and> degree ?deg n = 0" for n
    using zero_keys [of ?deg n] in_degrees_keys [of edges] by simp
  moreover have "distinct (map fst (filter (\<lambda>p. snd p = 0) ?deg))"
    using in_degrees_keys [of edges] by (simp add: distinct_map_filter)
  ultimately show ?thesis
    using degree_in_degrees [OF assms]
    by (simp add: loop_inv_def deps_first_def open_deps_def)
qed

definition ordered_part :: "edge_map \<Rightarrow> string list" where
  "ordered_part edges =
     kahn edges (sort (map fst (filter (\<lambda>p. snd p = 0) (in_degrees edges)))) (in_degrees edges) []"

lemma compute_order_split:
  "compute_order edges = ordered_part edges @ sort (filter (\<lambda>n. n \<notin> set (ordered_part edges)) (all_nodes edges))"
  by (simp add: compute_order_def ordered_part_def Let_def)

lemma ordered_part_spec:
  assumes "distinct (map fst edges)"
  shows "distinct (ordered_part edges) \<and> deps_first edges (ordered_part edges)
    \<and> (\<forall>n. n \<in> set (ordered_part edges) \<longleftrightarrow>
         n \<in> set (all_nodes edges) \<and> set (deps_of edges n) \<subseteq> set (ordered_part edges))"
proof -
  obtain deg' where "loop_inv edges [] deg' (ordered_part edges)"
    using kahn_spec [OF assms start_inv [OF assms]] unfolding ordered_part_def by blast
  then show ?thesis unfolding loop_inv_def using open_deps_zero by simp
qed

definition dep_rel :: "edge_map \<Rightarrow> (string \<times> string) set" where
  "dep_rel edges = {(dep, n). dep \<in> set (deps_of edges n)}"

lemma dep_in_nodes: "d \<in> set (deps_of edges n) \<Longrightarrow> d \<in> set (all_nodes edges)"
proof -
  assume d: "d \<in> set (deps_of edges n)"
  then obtain deps where "map_of edges n = Some deps" "d \<in> set deps"
    by (cases "map_of edges n") (auto simp: deps_of_def)
  then have "(n, deps) \<in> set edges" and "d \<in> set (n # deps)" by (simp_all add: map_of_SomeD)
  then show ?thesis unfolding all_nodes_def set_remdups set_concat set_map by blast
qed

lemma finite_dep_rel: "finite (dep_rel edges)"
proof (rule finite_subset)
  show "dep_rel edges \<subseteq> set (all_nodes edges) \<times> set (all_nodes edges)"
  proof (clarsimp simp: dep_rel_def)
    fix d n
    assume d: "d \<in> set (deps_of edges n)"
    then have "deps_of edges n \<noteq> []" by (cases "deps_of edges n") simp_all
    with d show "d \<in> set (all_nodes edges) \<and> n \<in> set (all_nodes edges)"
      using dep_in_nodes deps_of_nodes by blast
  qed
qed simp

text \<open>A component from which no cycle can be reached is in the ordered part.\<close>

lemma no_cycle_ordered:
  assumes "distinct (map fst edges)" and "n \<in> set (all_nodes edges)"
    and "\<forall>m. (m, n) \<in> (dep_rel edges)\<^sup>* \<longrightarrow> (m, m) \<notin> (dep_rel edges)\<^sup>+"
  shows "n \<in> set (ordered_part edges)"
proof -
  let ?R = "dep_rel edges"
  let ?S = "{m. (m, n) \<in> ?R\<^sup>*}"
  let ?R' = "{(d, m) \<in> ?R. m \<in> ?S}"
  have sub: "?R' \<subseteq> ?R" by blast
  have "acyclic ?R'"
  proof (rule acyclicI, intro allI notI)
    fix x
    assume c: "(x, x) \<in> ?R'\<^sup>+"
    then have "(x, x) \<in> ?R\<^sup>+" using trancl_mono [OF _ sub] by blast
    moreover obtain y where "(y, x) \<in> ?R'" using c by (blast elim: tranclE)
    then have "x \<in> ?S" by blast
    ultimately show False using assms(3) by blast
  qed
  moreover have "finite ?R'" using finite_subset [OF sub finite_dep_rel] .
  ultimately have "wf ?R'" by (rule finite_acyclic_wf [rotated])
  then have "m \<in> ?S \<Longrightarrow> m \<in> set (all_nodes edges) \<Longrightarrow> m \<in> set (ordered_part edges)" for m
  proof (induction m rule: wf_induct_rule)
    case (less m)
    have "d \<in> set (ordered_part edges)" if d: "d \<in> set (deps_of edges m)" for d
    proof -
      have "(d, m) \<in> ?R" using d by (simp add: dep_rel_def)
      then have "d \<in> ?S" using less.prems(1) by (auto intro: converse_rtrancl_into_rtrancl)
      with \<open>(d, m) \<in> ?R\<close> less.prems(1) show ?thesis using dep_in_nodes [OF d] by (intro less.IH) auto
    qed
    then show ?case using ordered_part_spec [OF assms(1)] less.prems(2) by blast
  qed
  then show ?thesis using assms(2) by blast
qed

section \<open>Properties\<close>

text \<open>C6. The order computed for a dependency graph contains every node exactly once, with or
  without cycles.\<close>

theorem compute_order_permutation:
  assumes "distinct (map fst edges)"
  shows "distinct (compute_order edges) \<and> set (compute_order edges) = set (all_nodes edges)"
  using ordered_part_spec [OF assms] unfolding compute_order_split
  by (auto simp: all_nodes_def)

theorem compute_order_permutation_witness:
  "distinct (compute_order [(''api'', [''wifi'']), (''a'', [''b'', ''wifi'']), (''b'', [''a''])])"
  using compute_order_permutation [of "[(''api'', [''wifi'']), (''a'', [''b'', ''wifi'']), (''b'', [''a''])]"] by simp

text \<open>C4. In that order every component from which no dependency cycle can be reached comes after
  everything it depends on, also when the graph has cycles elsewhere.\<close>

theorem compute_order_topological:
  assumes "distinct (map fst edges)" and "compute_order edges = xs @ n # ys"
    and "\<forall>m. (m, n) \<in> (dep_rel edges)\<^sup>* \<longrightarrow> (m, m) \<notin> (dep_rel edges)\<^sup>+"
  shows "set (deps_of edges n) \<subseteq> set xs"
proof -
  let ?rest = "sort (filter (\<lambda>n. n \<notin> set (ordered_part edges)) (all_nodes edges))"
  note spec = ordered_part_spec [OF assms(1)]
  have all: "distinct (compute_order edges)" "set (compute_order edges) = set (all_nodes edges)"
    using spec unfolding compute_order_split by (auto simp: all_nodes_def)
  have "n \<in> set (ordered_part edges)"
    using no_cycle_ordered [OF assms(1) _ assms(3)] all(2) assms(2) by auto
  then obtain as bs where o: "ordered_part edges = as @ n # bs" by (auto dest: split_list)
  have "as = xs"
  proof -
    have eq: "xs @ n # ys = as @ n # (bs @ ?rest)" using assms(2) o compute_order_split [of edges] by simp
    have "n \<notin> set xs" and "n \<notin> set ys" using all(1) unfolding assms(2) by simp_all
    with append_Cons_eq_iff [of n xs ys as "bs @ ?rest"] eq show ?thesis by simp
  qed
  with spec o show ?thesis unfolding deps_first_def by blast
qed

theorem compute_order_topological_witness:
  "set (deps_of [(''api'', [''wifi'']), (''a'', [''b'']), (''b'', [''a''])] ''api'') \<subseteq> {''wifi''}"
proof -
  let ?g = "[(''api'', [''wifi'']), (''a'', [''b'']), (''b'', [''a''])]"
  have order: "compute_order ?g = [''wifi''] @ ''api'' # [''a'', ''b'']" by code_simp
  have rel: "dep_rel ?g = {(''wifi'', ''api''), (''b'', ''a''), (''a'', ''b'')}"
    by (auto simp: dep_rel_def deps_of_def split: if_splits)
  have into: "m \<in> {''wifi'', ''api''}" if "(m, n) \<in> (dep_rel ?g)\<^sup>*" "n \<in> {''wifi'', ''api''}" for m n
    using that by (induction rule: converse_rtrancl_induct) (auto simp: rel)
  have none: "(m, m) \<notin> (dep_rel ?g)\<^sup>+" if "m \<in> {''wifi'', ''api''}" for m
  proof
    assume "(m, m) \<in> (dep_rel ?g)\<^sup>+"
    then obtain k where k: "(m, k) \<in> dep_rel ?g" "(k, m) \<in> (dep_rel ?g)\<^sup>*" by (blast dest: tranclD)
    from into [OF k(2) that] k(1) that have "m = ''wifi''" "k = ''api''" by (auto simp: rel)
    with k(2) show False
      by (cases rule: rtranclE) (auto simp: rel)
  qed
  have "\<forall>m. (m, ''api'') \<in> (dep_rel ?g)\<^sup>* \<longrightarrow> (m, m) \<notin> (dep_rel ?g)\<^sup>+"
    using into none by blast
  from compute_order_topological [OF _ order this] show ?thesis by simp
qed

end
