(* ===== verification/ComponentDag.thy ===== *)
theory ComponentDag
  imports DepOrder
begin

text \<open>
  The petgraph-backed dependency graph of a component selection (\<open>ComponentDag\<close> in
  \<open>rshome-schema/src/graph.rs\<close>). A node is its index in the list of nodes, an edge a pair of
  indices with the reason for it. The graph algorithms of the petgraph crate are a parameter:
  a record of the three functions the code calls on the plain edge list.
\<close>

record component_node =
  cn_id :: string
  cn_is_auto_loaded :: bool
  cn_exclusive_group :: "string option"

datatype dep_edge = Explicit | AutoLoad

record component_dag =
  cg_nodes :: "component_node list"
  cg_edges :: "((nat \<times> nat) \<times> dep_edge) list"

text \<open>\<open>is_cyclic_directed\<close>, \<open>toposort\<close> (a node of a cycle or the order) and
  \<open>neighbors_directed(_, Incoming)\<close>, on a number of nodes and a list of edges.\<close>

record petgraph =
  pg_is_cyclic :: "nat \<Rightarrow> (nat \<times> nat) list \<Rightarrow> bool"
  pg_toposort :: "nat \<Rightarrow> (nat \<times> nat) list \<Rightarrow> nat + nat list"
  pg_incoming :: "(nat \<times> nat) list \<Rightarrow> nat \<Rightarrow> nat list"

definition dag_nodes :: "registry \<Rightarrow> string list \<Rightarrow> string list \<Rightarrow> component_node list" where
  "dag_nodes reg selected expanded =
     map (\<lambda>cid. \<lparr>cn_id = cid, cn_is_auto_loaded = cid \<notin> set selected,
                 cn_exclusive_group = Option.bind (reg_get reg cid) cd_exclusive_group\<rparr>) expanded"

definition edges_to :: "string list \<Rightarrow> nat \<Rightarrow> dep_edge \<Rightarrow> string list \<Rightarrow> ((nat \<times> nat) \<times> dep_edge) list" where
  "edges_to expanded dependent kind deps =
     List.map_filter (\<lambda>dep. map_option (\<lambda>prereq. ((prereq, dependent), kind)) (position (\<lambda>x. x = dep) expanded)) deps"

definition dag_edges :: "registry \<Rightarrow> string list \<Rightarrow> ((nat \<times> nat) \<times> dep_edge) list" where
  "dag_edges reg expanded =
     concat (map (\<lambda>(dependent, cid). case reg_get reg cid of
         None \<Rightarrow> []
       | Some def \<Rightarrow> edges_to expanded dependent AutoLoad (cd_auto_load def) @
                     edges_to expanded dependent Explicit (cd_dependencies def)) (enumerated expanded))"

definition node_id :: "component_dag \<Rightarrow> nat \<Rightarrow> string" where
  "node_id dag i = cn_id (cg_nodes dag ! i)"

definition from_registry :: "petgraph \<Rightarrow> registry \<Rightarrow> string list \<Rightarrow> string option + component_dag" where
  "from_registry pg reg selected =
     (let expanded = resolve_auto_load reg selected;
          dag = \<lparr>cg_nodes = dag_nodes reg selected expanded, cg_edges = dag_edges reg expanded\<rparr>;
          n = length (cg_nodes dag);
          es = map fst (cg_edges dag)
      in if pg_is_cyclic pg n es
         then Inl (case pg_toposort pg n es of Inl i \<Rightarrow> Some (node_id dag i) | Inr _ \<Rightarrow> None)
         else Inr dag)"

definition topological_order :: "petgraph \<Rightarrow> component_dag \<Rightarrow> string + string list" where
  "topological_order pg dag =
     (case pg_toposort pg (length (cg_nodes dag)) (map fst (cg_edges dag)) of
        Inr order \<Rightarrow> Inr (map (node_id dag) order)
      | Inl i \<Rightarrow> Inl (node_id dag i))"

definition to_edge_map :: "petgraph \<Rightarrow> component_dag \<Rightarrow> edge_map" where
  "to_edge_map pg dag =
     concat (map (\<lambda>i. let deps = map (node_id dag) (pg_incoming pg (map fst (cg_edges dag)) i)
                      in if deps \<noteq> [] then [(node_id dag i, deps)] else []) [0..<length (cg_nodes dag)])"

section \<open>The dependency graph of a validated configuration\<close>

record dependency_graph =
  dg_edges :: edge_map
  dg_order :: "string list"
  dg_dag :: "component_dag option"

definition from_dag :: "petgraph \<Rightarrow> component_dag \<Rightarrow> dependency_graph" where
  "from_dag pg dag =
     \<lparr>dg_edges = to_edge_map pg dag,
      dg_order = (case topological_order pg dag of Inr order \<Rightarrow> order | Inl _ \<Rightarrow> []),
      dg_dag = Some dag\<rparr>"

text \<open>The edges the pipeline adds by hand when the graph has a cycle.\<close>

definition manual_edges :: "registry \<Rightarrow> string list \<Rightarrow> edge_map" where
  "manual_edges reg resolved =
     fold (\<lambda>cid edges. case reg_get reg cid of
         None \<Rightarrow> edges
       | Some def \<Rightarrow> fold (add_dependency cid) (cd_auto_load def)
                       (fold (add_dependency cid) (cd_dependencies def) edges)) resolved []"

definition build_graph :: "petgraph \<Rightarrow> registry \<Rightarrow> string list \<Rightarrow> dependency_graph" where
  "build_graph pg reg resolved =
     (case from_registry pg reg resolved of
        Inr dag \<Rightarrow> from_dag pg dag
      | Inl _ \<Rightarrow> let edges = manual_edges reg resolved
                 in \<lparr>dg_edges = edges, dg_order = compute_order edges, dg_dag = None\<rparr>)"

lemma distinct_add_dependency:
  "distinct (map fst edges) \<Longrightarrow> distinct (map fst (add_dependency src dep edges))"
  by (simp add: add_dependency_def distinct_reg_insert)

lemma distinct_add_dependencies:
  "distinct (map fst edges) \<Longrightarrow> distinct (map fst (fold (add_dependency src) deps edges))"
  by (induction deps arbitrary: edges) (simp_all add: distinct_add_dependency)

lemma distinct_manual_edges: "distinct (map fst (manual_edges reg resolved))"
proof -
  have "distinct (map fst edges) \<Longrightarrow> distinct (map fst (fold (\<lambda>cid edges. case reg_get reg cid of
         None \<Rightarrow> edges
       | Some def \<Rightarrow> fold (add_dependency cid) (cd_auto_load def)
                       (fold (add_dependency cid) (cd_dependencies def) edges)) resolved edges))" for edges
    by (induction resolved arbitrary: edges) (simp_all add: distinct_add_dependencies split: option.splits)
  then show ?thesis unfolding manual_edges_def by simp
qed

end
