(* ===== verification/ConfigPipeline.thy ===== *)
theory ConfigPipeline
  imports StageMerge StageTrust StageFinal ComponentDag
begin

text \<open>
  The validation pipeline (\<open>rshome-config/src/pipeline.rs\<close>): all stages in order, stopping at
  the first with a fatal diagnostic, and the validated configuration that is built when none
  has one. What the crates do not implement themselves (the catalogue of solutions, Unicode
  tables, serde's reader for the sigrok block, petgraph) comes in a record of externals.

  The lemmas lift the facts about the single stages to the result of the pipeline.
\<close>

section \<open>Validated configurations\<close>

record validated_esphome_block =
  ve_name :: string
  ve_chip_target :: chip_target
  ve_board :: string
  ve_friendly_name :: "string option"
  ve_framework_type :: framework_type
  ve_project :: "project_config option"
  ve_solution_id :: "string option"
  ve_solution_variant_id :: "string option"

record validated_component =
  vm_component_id :: string
  vm_platform_type :: "string option"
  vm_index :: nat
  vm_entity_id :: "string option"
  vm_config :: json
  vm_auto_loaded :: bool

record validated_config =
  vc_esphome :: validated_esphome_block
  vc_components :: "validated_component list"
  vc_active_flags :: "string list"
  vc_pin_allocations :: "pin_allocation list"
  vc_dependency_graph :: dependency_graph

datatype validation_result = Valid validated_config | Invalid "validation_error list"

fun result_is_valid :: "validation_result \<Rightarrow> bool" where
  "result_is_valid (Valid _) = True"
| "result_is_valid (Invalid _) = False"

fun result_ok :: "validation_result \<Rightarrow> validated_config option" where
  "result_ok (Valid v) = Some v"
| "result_ok (Invalid _) = None"

fun result_errors :: "validation_result \<Rightarrow> validation_error list" where
  "result_errors (Valid _) = []"
| "result_errors (Invalid es) = es"

record externals =
  ex_solutions :: solution_registry
  ex_unicode :: unicode
  ex_upper :: "string \<Rightarrow> string"
  ex_sigrok :: sigrok_reader
  ex_petgraph :: petgraph

record validation_pipeline =
  pl_registry :: registry
  pl_allow_list :: allow_list

section \<open>Building the result\<close>

definition flag_candidates :: "string list" where
  "flag_candidates = [''USE_SENSOR'', ''USE_BINARY_SENSOR'', ''USE_SWITCH'', ''USE_LIGHT'', ''USE_CLIMATE'',
     ''USE_FAN'', ''USE_COVER'', ''USE_LOCK'', ''USE_MEDIA_PLAYER'', ''USE_NUMBER'', ''USE_SELECT'',
     ''USE_TEXT'', ''USE_BUTTON'', ''USE_EVENT'', ''USE_TEXT_SENSOR'', ''USE_ALARM_CONTROL_PANEL'',
     ''USE_WIFI'', ''USE_API'', ''USE_MQTT'', ''USE_OTA'', ''USE_LOGGER'', ''USE_I2C'', ''USE_SPI'',
     ''USE_UART'', ''USE_DHT'']"

definition push_absent :: "(string \<Rightarrow> bool) \<Rightarrow> string \<Rightarrow> string list \<Rightarrow> string list" where
  "push_absent wanted f flags = (if wanted f \<and> f \<notin> set flags then flags @ [f] else flags)"

definition sort_dedup :: "string list \<Rightarrow> string list" where
  "sort_dedup xs = remdups_adj (sort xs)"

definition active_flags :: "externals \<Rightarrow> registry \<Rightarrow> string list \<Rightarrow> variant_resolution \<Rightarrow> string list" where
  "active_flags ex reg resolved vr =
     (let ff = from_components reg resolved;
          own = filter (ff_contains ff) (map (\<lambda>cid. ''USE_'' @ ex_upper ex cid) resolved);
          base = sort_dedup (fold (push_absent (ff_contains ff)) flag_candidates own);
          added = fold (push_absent (\<lambda>_. True)) (vr_active_flag_add vr) base;
          kept = (if vr_active_flag_remove vr \<noteq> []
                  then filter (\<lambda>f. f \<notin> set (vr_active_flag_remove vr)) added else added)
      in sort_dedup kept)"

definition explicit_component :: "nat \<Rightarrow> component_config \<Rightarrow> validated_component" where
  "explicit_component idx c =
     \<lparr>vm_component_id = component_effective_id c,
      vm_platform_type = (case cc_platform c of Some _ \<Rightarrow> Some (cc_type c) | None \<Rightarrow> None),
      vm_index = idx, vm_entity_id = get_str ''id'' (cc_config c), vm_config = cc_config c,
      vm_auto_loaded = False\<rparr>"

definition auto_component :: "string \<Rightarrow> validated_component" where
  "auto_component auto_id =
     \<lparr>vm_component_id = auto_id, vm_platform_type = None, vm_index = 0, vm_entity_id = None,
      vm_config = JObj [], vm_auto_loaded = True\<rparr>"

definition validated_components :: "raw_config \<Rightarrow> string list \<Rightarrow> validated_component list" where
  "validated_components config resolved =
     (let explicit_ids = map component_effective_id (rc_components config) in
      map (\<lambda>(idx, c). explicit_component idx c) (type_indexed (\<lambda>_. 0) (rc_components config)) @
      map auto_component (filter (\<lambda>cid. cid \<notin> set explicit_ids) resolved))"

definition validated_esphome ::
    "raw_config \<Rightarrow> preload_context \<Rightarrow> variant_resolution \<Rightarrow> validated_esphome_block" where
  "validated_esphome config ctx vr =
     (let e = rc_esphome config in
      \<lparr>ve_name = eb_name e, ve_chip_target = pc_chip_target ctx, ve_board = pc_board ctx,
       ve_friendly_name = eb_friendly_name e, ve_framework_type = pc_framework_type ctx,
       ve_project = eb_project e, ve_solution_id = eb_solution e,
       ve_solution_variant_id = vr_variant_id vr\<rparr>)"

definition build_validated ::
    "externals \<Rightarrow> registry \<Rightarrow> raw_config \<Rightarrow> preload_context \<Rightarrow> variant_resolution \<Rightarrow> string list \<Rightarrow>
     resource_tracker \<Rightarrow> validated_config" where
  "build_validated ex reg config ctx vr resolved tracker =
     \<lparr>vc_esphome = validated_esphome config ctx vr,
      vc_components = validated_components config resolved,
      vc_active_flags = active_flags ex reg resolved vr,
      vc_pin_allocations = rt_pins tracker,
      vc_dependency_graph = build_graph (ex_petgraph ex) reg resolved\<rparr>"

section \<open>The pipeline\<close>

text \<open>What the pipeline does with the diagnostics of one stage: append them to those it has and
  return if one of them is fatal.\<close>

definition proceed ::
    "validation_error list \<Rightarrow> validation_error list \<Rightarrow> (validation_error list \<Rightarrow> validation_result) \<Rightarrow>
     validation_result" where
  "proceed all_errors errs rest =
     (if list_ex is_fatal errs then Invalid (all_errors @ errs) else rest (all_errors @ errs))"

definition finish ::
    "externals \<Rightarrow> registry \<Rightarrow> raw_config \<Rightarrow> preload_context \<Rightarrow> variant_resolution \<Rightarrow> string list \<Rightarrow>
     resource_tracker \<Rightarrow> validation_error list \<Rightarrow> validation_result" where
  "finish ex reg config ctx vr resolved tracker all_errors =
     (if list_ex is_fatal all_errors then Invalid all_errors
      else Valid (build_validated ex reg config ctx vr resolved tracker))"

text \<open>Stages 7 to 13 and the construction of the result.\<close>

definition check_stages ::
    "externals \<Rightarrow> registry \<Rightarrow> raw_config \<Rightarrow> preload_context \<Rightarrow> variant_resolution \<Rightarrow> string list \<Rightarrow>
     validation_error list \<Rightarrow> validation_result" where
  "check_stages ex reg config ctx vr resolved all_errors =
     proceed all_errors (stage_7_validate_schemas config) (\<lambda>all_errors.
       let (config, _, s8) = stage_8_resolve_ids (ex_unicode ex) config in
       proceed all_errors s8 (\<lambda>all_errors.
       proceed all_errors (stage_9_final_validation (ex_solutions ex) (ex_sigrok ex) config) (\<lambda>all_errors.
       let (tracker, s10) = stage_10_check_pin_conflicts config (pc_chip_target ctx) in
       proceed all_errors s10 (\<lambda>all_errors.
       proceed all_errors (stage_11_check_exclusive_groups reg config) (\<lambda>all_errors.
       proceed all_errors (stage_12_validate_profile reg config) (\<lambda>all_errors.
       proceed all_errors (stage_13_check_secret_fields reg config) (\<lambda>all_errors.
       finish ex reg config ctx vr resolved tracker all_errors)))))))"

text \<open>Stages 5 and 6.\<close>

definition load_stages ::
    "externals \<Rightarrow> registry \<Rightarrow> raw_config \<Rightarrow> variant_resolution \<Rightarrow> validation_error list \<Rightarrow> validation_result" where
  "load_stages ex reg config vr all_errors =
     (case stage_5_preload_esphome_block config of
        Inl errs \<Rightarrow> Invalid (all_errors @ errs)
      | Inr ctx \<Rightarrow>
          let (resolved, s6) = stage_6_load_components reg config in
          proceed all_errors s6 (check_stages ex reg config ctx vr resolved))"

definition validate :: "validation_pipeline \<Rightarrow> externals \<Rightarrow> raw_config \<Rightarrow> package_store \<Rightarrow> validation_result" where
  "validate p ex config store =
     (let (config, s1) = stage_1_merge_packages store config in
      proceed [] s1 (\<lambda>all_errors.
        let (config, s2) = stage_2_apply_substitutions config;
            all_errors = all_errors @ s2;
            (config, s3) = stage_3_process_extend_remove config in
        proceed all_errors s3 (\<lambda>all_errors.
        let (config, vr, s3_5) = stage_3_5_resolve_variant (ex_solutions ex) config in
        proceed all_errors s3_5 (\<lambda>all_errors.
        proceed all_errors (stage_4_resolve_external_components (pl_allow_list p) config) (\<lambda>all_errors.
        load_stages ex (pl_registry p) config vr all_errors)))))"

record partial_config =
  pt_esphome :: "esphome_block option"
  pt_components :: "component_config list"
  pt_subs :: "string \<rightharpoonup> string"

definition partial_esphome :: esphome_block where
  "partial_esphome = \<lparr>eb_name = ''partial'', eb_platform = ''esp32'', eb_board = ''esp32dev'',
     eb_friendly_name = None, eb_framework = None, eb_includes = [], eb_libraries = [], eb_project = None,
     eb_area = None, eb_min_version = None, eb_profile = None, eb_solution = None, eb_variant = None\<rparr>"

definition validate_partial :: "partial_config \<Rightarrow> validation_error list" where
  "validate_partial part =
     (let config = \<lparr>rc_esphome = (case pt_esphome part of Some e \<Rightarrow> e | None \<Rightarrow> partial_esphome),
                    rc_packages = [], rc_subs = pt_subs part, rc_components = pt_components part\<rparr>;
          (config, s2) = stage_2_apply_substitutions config
      in s2 @
         (case stage_5_preload_esphome_block config of Inl errs \<Rightarrow> errs | Inr _ \<Rightarrow> []) @
         stage_7_validate_schemas config)"

section \<open>What a valid result went through\<close>

lemma proceed_Valid:
  "proceed all_errors errs rest = Valid v \<longleftrightarrow> no_fatal errs \<and> rest (all_errors @ errs) = Valid v"
  by (auto simp: proceed_def list_ex_iff)

lemma check_stages_Valid:
  assumes "check_stages ex reg config ctx vr resolved all_errors = Valid v"
  obtains config8 table s8 tracker s10 where
    "stage_8_resolve_ids (ex_unicode ex) config = (config8, table, s8)" "no_fatal s8"
    "stage_10_check_pin_conflicts config8 (pc_chip_target ctx) = (tracker, s10)" "no_fatal s10"
    "no_fatal (stage_9_final_validation (ex_solutions ex) (ex_sigrok ex) config8)"
    "no_fatal (stage_11_check_exclusive_groups reg config8)"
    "no_fatal (stage_13_check_secret_fields reg config8)"
    "v = build_validated ex reg config8 ctx vr resolved tracker"
proof -
  obtain config8 table s8 where s8: "stage_8_resolve_ids (ex_unicode ex) config = (config8, table, s8)"
    by (cases "stage_8_resolve_ids (ex_unicode ex) config")
  obtain tracker s10 where s10: "stage_10_check_pin_conflicts config8 (pc_chip_target ctx) = (tracker, s10)"
    by (cases "stage_10_check_pin_conflicts config8 (pc_chip_target ctx)")
  note run = assms [unfolded check_stages_def s8 s10 Let_def prod.case proceed_Valid finish_def]
  show thesis
    by (rule that [OF s8 _ s10]) (use run in \<open>auto split: if_splits\<close>)
qed

lemma validate_Valid:
  assumes "validate p ex config store = Valid v"
  obtains config' vr ctx resolved s6 all_errors where
    "stage_5_preload_esphome_block config' = Inr ctx"
    "stage_6_load_components (pl_registry p) config' = (resolved, s6)" "no_fatal s6"
    "check_stages ex (pl_registry p) config' ctx vr resolved all_errors = Valid v"
proof -
  obtain config1 s1 where s1: "stage_1_merge_packages store config = (config1, s1)" by fastforce
  obtain config2 s2 where s2: "stage_2_apply_substitutions config1 = (config2, s2)" by fastforce
  obtain config3 s3 where s3: "stage_3_process_extend_remove config2 = (config3, s3)" by fastforce
  obtain config' vr s3_5 where s35: "stage_3_5_resolve_variant (ex_solutions ex) config3 = (config', vr, s3_5)"
    by (cases "stage_3_5_resolve_variant (ex_solutions ex) config3")
  note run = assms [unfolded validate_def s1 s2 s3 s35 Let_def prod.case proceed_Valid load_stages_def]
  obtain ctx where ctx: "stage_5_preload_esphome_block config' = Inr ctx"
    using run by (auto split: sum.splits)
  obtain resolved s6 where s6: "stage_6_load_components (pl_registry p) config' = (resolved, s6)" by fastforce
  note run' = run [unfolded ctx s6 sum.case prod.case proceed_Valid]
  show thesis by (rule that [OF ctx s6]) (use run' in blast)+
qed

lemma closure_frame:
  assumes "list_all2 (\<lambda>c c'. cc_type c' = cc_type c \<and> cc_platform c' = cc_platform c)
     (rc_components config) (rc_components config')"
  shows "map component_effective_id (rc_components config') = map component_effective_id (rc_components config)"
  using assms by (induction rule: list_all2_induct) (auto simp: component_effective_id_def split: option.splits)

lemma validated_ids:
  assumes "component_effective_id ` set (rc_components config) \<subseteq> set resolved"
  shows "vm_component_id ` set (validated_components config resolved) = set resolved"
proof -
  have "vm_component_id ` set (map (\<lambda>(idx, c). explicit_component idx c) (type_indexed (\<lambda>_. 0) (rc_components config)))
      = component_effective_id ` snd ` set (type_indexed (\<lambda>_. 0) (rc_components config))"
    by (force simp: explicit_component_def)
  also have "snd ` set (type_indexed (\<lambda>_. 0) (rc_components config)) = set (rc_components config)"
    by (rule set_type_indexed)
  finally show ?thesis using assms
    by (auto simp: validated_components_def Let_def image_Un auto_component_def image_image)
qed

lemma resolved_closure:
  assumes "stage_6_load_components reg config = (resolved, s6)" and "no_fatal s6"
    and "stage_8_resolve_ids uc config = (config8, table, s8)" and "no_fatal s8"
  shows "set resolved = closure_of reg config" and "closure_of reg config8 = closure_of reg config"
    and "vm_component_id ` set (validated_components config8 resolved) = closure_of reg config"
proof -
  show r: "set resolved = closure_of reg config" using stage_6_spec [OF assms(1)] assms(2) by blast
  have "list_all2 (\<lambda>c c'. cc_type c' = cc_type c \<and> cc_platform c' = cc_platform c)
      (rc_components config) (rc_components config8)"
    by (rule list_all2_mono [OF stage_8_spec [OF assms(3,4), THEN conjunct2, THEN conjunct2, THEN conjunct2]]) blast
  from arg_cong [OF closure_frame [OF this], of set]
  have ids: "component_effective_id ` set (rc_components config8) = component_effective_id ` set (rc_components config)"
    by simp
  then show "closure_of reg config8 = closure_of reg config" by (simp add: closure_of_def)
  have "component_effective_id ` set (rc_components config8) \<subseteq> set resolved"
    unfolding ids r closure_of_def by blast
  from validated_ids [OF this] r
  show "vm_component_id ` set (validated_components config8 resolved) = closure_of reg config" by simp
qed

section \<open>Properties\<close>

text \<open>A pipeline with two components, for concrete runs.\<close>

definition sample_externals :: externals where
  "sample_externals = \<lparr>ex_solutions = Map.empty, ex_unicode = ascii_unicode, ex_upper = (\<lambda>s. s),
     ex_sigrok = (\<lambda>_. Inr default_sigrok),
     ex_petgraph = \<lparr>pg_is_cyclic = (\<lambda>_ _. False), pg_toposort = (\<lambda>n _. Inr [0..<n]),
                    pg_incoming = (\<lambda>_ _. [])\<rparr>\<rparr>"

definition sample_pipeline :: validation_pipeline where
  "sample_pipeline = \<lparr>pl_registry = [(''bus'', default_def\<lparr>cd_id := ''bus''\<rparr>),
     (''meter'', default_def\<lparr>cd_id := ''meter'', cd_auto_load := [''bus'']\<rparr>)], pl_allow_list = []\<rparr>"

definition sample_config :: raw_config where
  "sample_config = config_of [\<lparr>cc_type = ''meter'', cc_platform = None,
     cc_config = JObj [(''id'', JStr ''m''), (''pin'', JNum (PosInt 4))]\<rparr>]"

lemma sample_fields:
  "rc_packages sample_config = []" "rc_esphome sample_config = minimal_esphome"
  "rc_components sample_config = [\<lparr>cc_type = ''meter'', cc_platform = None,
     cc_config = JObj [(''id'', JStr ''m''), (''pin'', JNum (PosInt 4))]\<rparr>]"
  by (simp_all add: sample_config_def config_of_def)

lemma sample_changes:
  "rc_components (fst (stage_2_apply_substitutions sample_config)) = rc_components sample_config"
  "snd (stage_2_apply_substitutions sample_config) = []"
  "directive_loop 0 (rc_components sample_config) = (rc_components sample_config, [])"
  "collect_ids (enumerated (rc_components sample_config)) [] =
     ([(''m'', \<lparr>ie_id = ''m'', ie_component_index = 0, ie_component_type = ''meter''\<rparr>)], [])"
  "assign_ids ascii_unicode (enumerated (rc_components sample_config))
       [(''m'', \<lparr>ie_id = ''m'', ie_component_index = 0, ie_component_type = ''meter''\<rparr>)] =
     (rc_components sample_config, [(''m'', \<lparr>ie_id = ''m'', ie_component_index = 0, ie_component_type = ''meter''\<rparr>)])"
  by code_simp+

lemma sample_stages:
  "stage_1_merge_packages Map.empty sample_config = (sample_config, [])"
  "stage_2_apply_substitutions sample_config = (sample_config, [])"
  "stage_3_process_extend_remove sample_config = (sample_config, [])"
  "stage_3_5_resolve_variant Map.empty sample_config = (sample_config, default_resolution, [])"
  "\<exists>table. stage_8_resolve_ids ascii_unicode sample_config = (sample_config, table, [])"
  subgoal by (simp add: stage_1_merge_packages_def sample_fields)
  subgoal using sample_changes(1,2) by (simp add: stage_2_apply_substitutions_def Let_def)
  subgoal using sample_changes(3) by (simp add: stage_3_process_extend_remove_def)
  subgoal by (simp add: stage_3_5_resolve_variant_def sample_fields minimal_esphome_def)
  subgoal using sample_changes(4,5)
    by (simp add: stage_8_resolve_ids_def sample_fields enumerated_def is_ref_key_def check_ref_def)
  done

lemma sample_checks:
  "stage_4_resolve_external_components [] sample_config = []"
  "stage_5_preload_esphome_block sample_config = Inr \<lparr>pc_chip_target = Esp32, pc_board = ''esp32dev'',
     pc_framework_type = EspIdf, pc_framework_version = None\<rparr>"
  "stage_6_load_components (pl_registry sample_pipeline) sample_config = ([''bus'', ''meter''], [])"
  "stage_9_final_validation Map.empty (\<lambda>_. Inr default_sigrok) sample_config = []"
  "stage_10_check_pin_conflicts sample_config Esp32 =
     (new_tracker\<lparr>rt_pins := [\<lparr>pa_gpio_num = 4, pa_mode = PM_InputOutput, pa_component = ''meter'',
        pa_pull_mode = None, pa_inverted = False\<rparr>]\<rparr>, [])"
  "stage_11_check_exclusive_groups (pl_registry sample_pipeline) sample_config = []"
  "stage_12_validate_profile (pl_registry sample_pipeline) sample_config = []"
  "stage_13_check_secret_fields (pl_registry sample_pipeline) sample_config = []"
  by code_simp+

lemma sample_stage_7: "stage_7_validate_schemas sample_config = []"
  by (simp add: stage_7_validate_schemas_def sample_fields validate_component_def
      component_effective_id_def fields_for_def)

lemma sample_run:
  "\<exists>ctx tracker. validate sample_pipeline sample_externals sample_config Map.empty =
     Valid (build_validated sample_externals (pl_registry sample_pipeline) sample_config ctx default_resolution
              [''bus'', ''meter''] tracker)
   \<and> pa_gpio_num ` set (rt_pins tracker) = {4}"
proof -
  obtain table where t: "stage_8_resolve_ids ascii_unicode sample_config = (sample_config, table, [])"
    using sample_stages(5) by blast
  have ex: "ex_solutions sample_externals = Map.empty" "ex_unicode sample_externals = ascii_unicode"
      "ex_sigrok sample_externals = (\<lambda>_. Inr default_sigrok)" "pl_allow_list sample_pipeline = []"
    by (simp_all add: sample_externals_def sample_pipeline_def)
  show ?thesis
    by (simp add: validate_def load_stages_def check_stages_def proceed_def finish_def ex t sample_stages(1-4)
        sample_checks sample_stage_7 new_tracker_def)
      (intro exI conjI, rule refl, simp)
qed

text \<open>C1. In a validated configuration the components fit together: everything a component
  depends on or loads automatically is there, nothing it conflicts with is, and no two of them
  belong to the same exclusive group.\<close>

theorem valid_components_fit:
  assumes "validate p ex config store = Valid v"
    and "a \<in> vm_component_id ` set (vc_components v)" and "reg_get (pl_registry p) a = Some def"
  shows "set (cd_dependencies def) \<subseteq> vm_component_id ` set (vc_components v)
    \<and> set (cd_auto_load def) \<subseteq> vm_component_id ` set (vc_components v)
    \<and> set (cd_conflicts_with def) \<inter> vm_component_id ` set (vc_components v) = {}
    \<and> (\<forall>b \<in> vm_component_id ` set (vc_components v). \<forall>g.
         cd_exclusive_group def = Some g \<longrightarrow> group_of (pl_registry p) b = Some g \<longrightarrow> b = a)"
proof -
  let ?reg = "pl_registry p"
  obtain config' vr ctx resolved s6 es where s6: "stage_6_load_components ?reg config' = (resolved, s6)" "no_fatal s6"
    and run: "check_stages ex ?reg config' ctx vr resolved es = Valid v"
    by (rule validate_Valid [OF assms(1)])
  obtain config8 table s8 tracker s10 where s8: "stage_8_resolve_ids (ex_unicode ex) config' = (config8, table, s8)"
      "no_fatal s8"
    and s11: "no_fatal (stage_11_check_exclusive_groups ?reg config8)"
    and v: "v = build_validated ex ?reg config8 ctx vr resolved tracker"
    by (rule check_stages_Valid [OF run])
  note closure = resolved_closure [OF s6 s8]
  have present: "vm_component_id ` set (vc_components v) = closure_of ?reg config'"
    using closure(3) by (simp add: v build_validated_def)
  have a: "a \<in> closure_of ?reg config'" using assms(2) unfolding present .
  have auto: "set (cd_auto_load def) \<subseteq> closure_of ?reg config'"
  proof
    fix b
    assume "b \<in> set (cd_auto_load def)"
    then have "b \<in> set (auto_loads ?reg a)" using assms(3) by (simp add: auto_loads_def)
    then have "(a, b) \<in> auto_rel ?reg" unfolding auto_rel_def by blast
    with a show "b \<in> closure_of ?reg config'" unfolding closure_of_def by (blast intro: rtrancl_into_rtrancl)
  qed
  have "\<forall>b \<in> closure_of ?reg config'. \<forall>g. cd_exclusive_group def = Some g \<longrightarrow> group_of ?reg b = Some g \<longrightarrow> b = a"
    using s11 a assms(3) unfolding stage_11_spec closure(2) by (auto simp: group_of_def)
  with auto show ?thesis
    using stage_6_spec [OF s6(1), THEN conjunct1, THEN iffD1, OF s6(2)] a assms(3) unfolding present by blast
qed

theorem valid_components_fit_witness:
  "\<exists>v. validate sample_pipeline sample_externals sample_config Map.empty = Valid v
     \<and> ''bus'' \<in> vm_component_id ` set (vc_components v)"
proof -
  obtain ctx tracker where v: "validate sample_pipeline sample_externals sample_config Map.empty =
     Valid (build_validated sample_externals (pl_registry sample_pipeline) sample_config ctx default_resolution
              [''bus'', ''meter''] tracker)" (is "_ = Valid ?v")
    using sample_run by blast
  have "''meter'' \<in> vm_component_id ` set (vc_components ?v)"
    by (simp add: build_validated_def validated_components_def sample_fields explicit_component_def
        component_effective_id_def)
  moreover have "reg_get (pl_registry sample_pipeline) ''meter'' = Some (default_def\<lparr>cd_id := ''meter'', cd_auto_load := [''bus'']\<rparr>)"
    by (simp add: sample_pipeline_def)
  ultimately show ?thesis using v valid_components_fit [OF v] by fastforce
qed

text \<open>C2. In a validated configuration the shared resources are free of conflicts: no GPIO is
  allocated twice, every GPIO exists on the chip, is not reserved for its flash and is not
  input-only when it is driven, and the ids of the entities are pairwise different; and no
  registered secret field holds plain text.\<close>

theorem valid_resources:
  assumes "validate p ex config store = Valid v"
  shows "distinct (map pa_gpio_num (vc_pin_allocations v))
    \<and> list_all (\<lambda>a. let caps = capabilities_for (ve_chip_target (vc_esphome v)) in
         pa_gpio_num a \<le> ch_max_gpio caps \<and> pa_gpio_num a \<notin> set (ch_flash_reserved caps) \<and>
         (pa_gpio_num a \<in> set (ch_input_only caps) \<longrightarrow> \<not> requires_output (pa_mode a))) (vc_pin_allocations v)
    \<and> distinct (List.map_filter vm_entity_id (vc_components v))
    \<and> (\<forall>c \<in> set (vc_components v). \<forall>def. reg_get (pl_registry p) (vm_component_id c) = Some def \<longrightarrow>
         (\<forall>f \<in> set (cd_secret_fields def). \<forall>s. get_str f (vm_config c) = Some s \<longrightarrow>
            s = [] \<or> starts_with ''!secret '' s))"
proof -
  let ?reg = "pl_registry p"
  obtain config' vr ctx resolved s6 es where run: "check_stages ex ?reg config' ctx vr resolved es = Valid v"
    by (rule validate_Valid [OF assms])
  obtain config8 table s8 tracker s10 where s8: "stage_8_resolve_ids (ex_unicode ex) config' = (config8, table, s8)"
      "no_fatal s8"
    and s10: "stage_10_check_pin_conflicts config8 (pc_chip_target ctx) = (tracker, s10)" "no_fatal s10"
    and s13: "no_fatal (stage_13_check_secret_fields ?reg config8)"
    and v: "v = build_validated ex ?reg config8 ctx vr resolved tracker"
    by (rule check_stages_Valid [OF run])
  have pins: "rt_pins tracker = map alloc_of (all_usages config8)" "distinct (map pu_gpio_num (all_usages config8))"
      "list_all (pin_fits (pc_chip_target ctx)) (all_usages config8)"
    using stage_10_spec [OF s10(1)] s10(2) by blast+
  have fields: "vc_pin_allocations v = rt_pins tracker" "ve_chip_target (vc_esphome v) = pc_chip_target ctx"
      "vc_components v = validated_components config8 resolved"
    by (simp_all add: v build_validated_def validated_esphome_def Let_def)
  have entities: "List.map_filter vm_entity_id (validated_components config8 resolved) = ids (rc_components config8)"
  proof -
    have "List.map_filter vm_entity_id (map (\<lambda>(idx, c). explicit_component idx c) (type_indexed f cs)) = ids cs" for f cs
      by (induction cs arbitrary: f) (simp_all add: List.map_filter_simps explicit_component_def split: option.splits)
    moreover have "List.map_filter vm_entity_id (map auto_component cids) = []" for cids
      by (induction cids) (simp_all add: List.map_filter_simps auto_component_def)
    moreover have "List.map_filter vm_entity_id (xs @ ys) = List.map_filter vm_entity_id xs @ List.map_filter vm_entity_id ys"
      for xs ys :: "validated_component list" by (simp add: List.map_filter_def)
    ultimately show ?thesis by (simp add: validated_components_def Let_def)
  qed
  have secret: "s = [] \<or> starts_with ''!secret '' s"
    if c: "c \<in> set (validated_components config8 resolved)" and def: "reg_get ?reg (vm_component_id c) = Some def"
      and f: "f \<in> set (cd_secret_fields def)" and s: "get_str f (vm_config c) = Some s" for c def f s
  proof -
    have "\<exists>c' \<in> set (rc_components config8). vm_component_id c = component_effective_id c' \<and> vm_config c = cc_config c'"
      using c s set_type_indexed [of "\<lambda>_. 0" "rc_components config8"]
      by (force simp: validated_components_def Let_def explicit_component_def auto_component_def get_str_def json_get_def)
    then show ?thesis using s13 def f s unfolding stage_13_spec by metis
  qed
  have "distinct (ids (rc_components config8))" using stage_8_spec [OF s8] by blast
  moreover have "list_all (\<lambda>a. let caps = capabilities_for (pc_chip_target ctx) in
         pa_gpio_num a \<le> ch_max_gpio caps \<and> pa_gpio_num a \<notin> set (ch_flash_reserved caps) \<and>
         (pa_gpio_num a \<in> set (ch_input_only caps) \<longrightarrow> \<not> requires_output (pa_mode a))) (rt_pins tracker)"
    using pins(3) unfolding pins(1) by (simp add: list_all_iff pin_fits_def alloc_of_def Let_def)
  moreover have "distinct (map pa_gpio_num (rt_pins tracker))" using pins(1,2) by (simp add: o_def)
  ultimately show ?thesis unfolding fields entities using secret by blast
qed

theorem valid_resources_witness:
  "\<exists>v. validate sample_pipeline sample_externals sample_config Map.empty = Valid v
     \<and> pa_gpio_num ` set (vc_pin_allocations v) = {4}
     \<and> distinct (map pa_gpio_num (vc_pin_allocations v))"
proof -
  obtain ctx tracker where v: "validate sample_pipeline sample_externals sample_config Map.empty =
     Valid (build_validated sample_externals (pl_registry sample_pipeline) sample_config ctx default_resolution
              [''bus'', ''meter''] tracker)" and pins: "pa_gpio_num ` set (rt_pins tracker) = {4}"
    using sample_run by blast
  from valid_resources [OF v] v pins show ?thesis by (simp add: build_validated_def)
qed

text \<open>C39. A configuration is only ever rejected for a reason: the diagnostics of a rejected one
  contain a fatal one.\<close>

theorem invalid_has_fatal:
  assumes "validate p ex config store = Invalid errors"
  shows "list_ex is_fatal errors"
proof -
  have proceed: "list_ex is_fatal es'"
    if "proceed es errs rest = Invalid es'" and "\<And>es es'. rest es = Invalid es' \<Longrightarrow> list_ex is_fatal es'"
    for es errs es' rest
    using that by (auto simp: proceed_def split: if_splits)
  have finish: "list_ex is_fatal es'" if "finish ex reg config ctx vr resolved tracker es = Invalid es'"
    for reg config ctx vr resolved tracker es es'
    using that by (simp add: finish_def split: if_splits)
  have check: "list_ex is_fatal es'" if "check_stages ex reg config ctx vr resolved es = Invalid es'"
    for reg config ctx vr resolved es es'
    using that unfolding check_stages_def Let_def
    by (elim proceed) (auto split: prod.splits elim!: proceed finish)
  have stage_5: "list_ex is_fatal es" if "stage_5_preload_esphome_block config = Inl es" for config es
    using that
    by (auto simp: stage_5_preload_esphome_block_def Let_def resolve_framework_def unsupported_platform_def
        unknown_framework_def split: if_splits option.splits prod.splits)
  have load: "list_ex is_fatal es'" if "load_stages ex reg config vr es = Invalid es'" for reg config vr es es'
    using that unfolding load_stages_def Let_def
    by (auto split: sum.splits prod.splits elim!: proceed check dest: stage_5)
  show ?thesis
    using assms unfolding validate_def Let_def
    by (auto split: prod.splits elim!: proceed load)
qed

theorem invalid_has_fatal_witness:
  "\<exists>errors. validate sample_pipeline sample_externals (config_of [\<lparr>cc_type = ''nosuch'', cc_platform = None,
       cc_config = JObj []\<rparr>]) Map.empty = Invalid errors \<and> list_ex is_fatal errors"
proof -
  have "\<not> result_is_valid (validate sample_pipeline sample_externals (config_of [\<lparr>cc_type = ''nosuch'',
     cc_platform = None, cc_config = JObj []\<rparr>]) Map.empty)" (is "\<not> result_is_valid ?r")
    by code_simp
  then obtain errors where "?r = Invalid errors" by (cases ?r) auto
  with invalid_has_fatal [OF this] show ?thesis by blast
qed

end
