(* ===== verification/EntityTypes.thy ===== *)
theory EntityTypes
  imports Json
begin

text \<open>
  The data of the entity runtime (\<open>rshome-entity\<close>): identifiers, states, commands and
  descriptors. An \<open>EntityId\<close> is the text \<open>domain.object_id\<close>; the attribute maps are
  \<open>HashMap\<close>s, so they are maps here.

  The lemmas relate the identifier to its two parts and a state to the domain it belongs to.
\<close>

section \<open>Identifiers\<close>

type_synonym entity_id = string
type_synonym device_id = string
type_synonym area_id = string

definition new_entity_id :: "string \<Rightarrow> string \<Rightarrow> entity_id" where
  "new_entity_id domain oid = domain @ ''.'' @ oid"

text \<open>\<open>split('.').next()\<close> and \<open>split('.').nth(1)\<close>.\<close>

definition id_domain :: "entity_id \<Rightarrow> string" where
  "id_domain eid = (case nth_piece CHR ''.'' 0 eid of Some d \<Rightarrow> d | None \<Rightarrow> [])"

definition id_object :: "entity_id \<Rightarrow> string" where
  "id_object eid = (case nth_piece CHR ''.'' 1 eid of Some d \<Rightarrow> d | None \<Rightarrow> [])"

lemma id_domain_new: "CHR ''.'' \<notin> set domain \<Longrightarrow> id_domain (new_entity_id domain oid) = domain"
  by (simp add: id_domain_def new_entity_id_def nth_piece_def split_on_append)

lemma id_object_new:
  "CHR ''.'' \<notin> set domain \<Longrightarrow> CHR ''.'' \<notin> set oid \<Longrightarrow> id_object (new_entity_id domain oid) = oid"
  by (simp add: id_object_def new_entity_id_def nth_piece_def split_on_append split_on_single)

section \<open>States\<close>

datatype cover_state = CoverOpen | CoverClosed | CoverOpening | CoverClosing | CoverStopped

datatype lock_state = Locked | Unlocked | Locking | Unlocking | Jammed

datatype media_state = MediaIdle | MediaPlaying | MediaPaused | MediaBuffering | MediaOff | MediaStandby

datatype alarm_state = Disarmed | ArmedHome | ArmedAway | AlarmPending | Triggered

type_synonym attributes = "string \<rightharpoonup> json"
type_synonym rgb = "u8 \<times> u8 \<times> u8"

datatype entity_state =
    Sensor f64 "string option" attributes
  | BinarySensor bool attributes
  | Switch bool
  | Number f64 f64 f64 f64 "string option"
  | Select string "string list"
  | TextValue string
  | Button
  | Event string attributes
  | Light bool "f64 option" "u16 option" "rgb option" "string option"
  | Climate string "f64 option" "f64 option" "string option"
  | Fan bool "u8 option" "bool option" "string option"
  | Cover cover_state "u8 option" "u8 option"
  | Lock lock_state
  | MediaPlayer media_state "f64 option" "bool option" "string option"
  | AlarmControlPanel alarm_state "string option"
  | TextSensor string
  | Update string "string option" bool
  | Unavailable

text \<open>The domain a state belongs to; an unavailable entity belongs to none.\<close>

fun state_domain :: "entity_state \<Rightarrow> string option" where
  "state_domain (Sensor _ _ _) = Some ''sensor''"
| "state_domain (BinarySensor _ _) = Some ''binary_sensor''"
| "state_domain (Switch _) = Some ''switch''"
| "state_domain (Number _ _ _ _ _) = Some ''number''"
| "state_domain (Select _ _) = Some ''select''"
| "state_domain (TextValue _) = Some ''text''"
| "state_domain Button = Some ''button''"
| "state_domain (Event _ _) = Some ''event''"
| "state_domain (Light _ _ _ _ _) = Some ''light''"
| "state_domain (Climate _ _ _ _) = Some ''climate''"
| "state_domain (Fan _ _ _ _) = Some ''fan''"
| "state_domain (Cover _ _ _) = Some ''cover''"
| "state_domain (Lock _) = Some ''lock''"
| "state_domain (MediaPlayer _ _ _ _) = Some ''media_player''"
| "state_domain (AlarmControlPanel _ _) = Some ''alarm_control_panel''"
| "state_domain (TextSensor _) = Some ''text_sensor''"
| "state_domain (Update _ _ _) = Some ''update''"
| "state_domain Unavailable = None"

section \<open>Commands and descriptors\<close>

datatype entity_command =
    TurnOn
  | TurnOff
  | Toggle
  | SetValue f64
  | SetOption string
  | SetText string
  | SetLightBrightness f64
  | SetLightColor "rgb option" "u16 option"
  | SetClimateMode string
  | SetClimateTemp f64
  | SetFanSpeed u8
  | SetCoverPosition u8
  | PressButton

datatype entity_category = NoCategory | ConfigCategory | DiagnosticCategory

record entity_descriptor =
  ed_entity_id :: entity_id
  ed_name :: string
  ed_icon :: "string option"
  ed_device_id :: "device_id option"
  ed_area_id :: "area_id option"
  ed_category :: entity_category
  ed_domain_id :: string
  ed_feature_set :: "string list"
  ed_device_class :: "string option"

record device_descriptor =
  dv_device_id :: device_id
  dv_name :: string
  dv_model :: "string option"
  dv_manufacturer :: "string option"
  dv_sw_version :: "string option"
  dv_area_id :: "area_id option"

text \<open>The change that an entity broadcasts, without the time stamp.\<close>

record state_changed =
  sc_entity_id :: entity_id
  sc_old :: entity_state
  sc_new :: entity_state

end
