(* ===== verification/Domains.thy ===== *)
theory Domains
  imports EntityTypes
begin

text \<open>
  The entity domains of \<open>rshome-entity/src/domains\<close>. A \<open>DomainDef\<close> is a record with the
  methods of the trait; the seventeen built-in domains are its instances, in the order in
  which \<open>BUILT_IN\<close> lists them. \<open>CommandNotApplicable\<close> carries the command itself where the
  code stores its debug print.

  The lemmas tabulate which commands a domain accepts and show that a command never moves
  an entity to another domain.
\<close>

section \<open>The trait\<close>

datatype domain_error = CommandNotApplicable string entity_command | ReadOnly string

record domain_def =
  dd_id :: string
  dd_required :: "string list"
  dd_optional :: "string list"
  dd_device_classes :: "string list"
  dd_services :: "string list \<Rightarrow> string list"
  dd_apply :: "entity_state \<Rightarrow> entity_command \<Rightarrow> domain_error + entity_state"
  dd_encode :: "string \<Rightarrow> json \<Rightarrow> entity_command option"

definition read_only_apply :: "string \<Rightarrow> entity_state \<Rightarrow> entity_command \<Rightarrow> domain_error + entity_state" where
  "read_only_apply domain state cmd = Inl (ReadOnly domain)"

section \<open>Domains that accept commands\<close>

definition switch_apply :: "entity_state \<Rightarrow> entity_command \<Rightarrow> domain_error + entity_state" where
  "switch_apply state cmd =
     (case (state, cmd) of
        (Switch _, TurnOn) \<Rightarrow> Inr (Switch True)
      | (Switch _, TurnOff) \<Rightarrow> Inr (Switch False)
      | (Switch is_on, Toggle) \<Rightarrow> Inr (Switch (\<not> is_on))
      | _ \<Rightarrow> Inl (CommandNotApplicable ''switch'' cmd))"

definition on_off_encode :: "string \<Rightarrow> entity_command option" where
  "on_off_encode service =
     (if service = ''turn_on'' then Some TurnOn
      else if service = ''turn_off'' then Some TurnOff
      else if service = ''toggle'' then Some Toggle
      else None)"

definition switch_encode :: "string \<Rightarrow> json \<Rightarrow> entity_command option" where
  "switch_encode service data = on_off_encode service"

definition switch_domain :: domain_def where
  "switch_domain = \<lparr>dd_id = ''switch'', dd_required = [''state'', ''toggle''], dd_optional = [],
     dd_device_classes = [''outlet'', ''switch''],
     dd_services = (\<lambda>_. [''turn_on'', ''turn_off'', ''toggle'']),
     dd_apply = switch_apply, dd_encode = switch_encode\<rparr>"

definition light_apply :: "entity_state \<Rightarrow> entity_command \<Rightarrow> domain_error + entity_state" where
  "light_apply state cmd =
     (case (state, cmd) of
        (Light _ brightness color_temp rgb color_mode, TurnOn) \<Rightarrow>
          Inr (Light True brightness color_temp rgb color_mode)
      | (Light _ brightness color_temp rgb color_mode, TurnOff) \<Rightarrow>
          Inr (Light False brightness color_temp rgb color_mode)
      | (Light is_on brightness color_temp rgb color_mode, Toggle) \<Rightarrow>
          Inr (Light (\<not> is_on) brightness color_temp rgb color_mode)
      | (Light is_on _ color_temp rgb color_mode, SetLightBrightness b) \<Rightarrow>
          Inr (Light is_on (Some b) color_temp rgb color_mode)
      | (Light is_on brightness _ _ _, SetLightColor rgb color_temp) \<Rightarrow>
          Inr (Light is_on brightness color_temp rgb None)
      | _ \<Rightarrow> Inl (CommandNotApplicable ''light'' cmd))"

definition light_encode :: "string \<Rightarrow> json \<Rightarrow> entity_command option" where
  "light_encode service data =
     (if service = ''turn_on'' then
        (case Option.bind (json_get ''brightness'' data) as_f64 of
           Some b \<Rightarrow> Some (SetLightBrightness (f64_div b (f64_of_nat 255)))
         | None \<Rightarrow> Some TurnOn)
      else if service = ''turn_off'' then Some TurnOff
      else if service = ''toggle'' then Some Toggle
      else None)"

definition light_domain :: domain_def where
  "light_domain = \<lparr>dd_id = ''light'', dd_required = [''state'', ''toggle''],
     dd_optional = [''brightness'', ''color_rgb'', ''color_temp''],
     dd_device_classes = [],
     dd_services = (\<lambda>_. [''turn_on'', ''turn_off'', ''toggle'']),
     dd_apply = light_apply, dd_encode = light_encode\<rparr>"

definition climate_apply :: "entity_state \<Rightarrow> entity_command \<Rightarrow> domain_error + entity_state" where
  "climate_apply state cmd =
     (case (state, cmd) of
        (Climate _ current_temp target_temp hvac_action, SetClimateMode mode) \<Rightarrow>
          Inr (Climate mode current_temp target_temp hvac_action)
      | (Climate mode current_temp _ hvac_action, SetClimateTemp t) \<Rightarrow>
          Inr (Climate mode current_temp (Some t) hvac_action)
      | _ \<Rightarrow> Inl (CommandNotApplicable ''climate'' cmd))"

definition climate_encode :: "string \<Rightarrow> json \<Rightarrow> entity_command option" where
  "climate_encode service data =
     (if service = ''set_temperature'' then
        map_option SetClimateTemp (Option.bind (json_get ''temperature'' data) as_f64)
      else if service = ''set_hvac_mode'' then
        map_option SetClimateMode (get_str ''hvac_mode'' data)
      else None)"

definition climate_domain :: domain_def where
  "climate_domain = \<lparr>dd_id = ''climate'', dd_required = [''state'', ''set_mode''],
     dd_optional = [''target_temp'', ''current_temp''],
     dd_device_classes = [],
     dd_services = (\<lambda>_. [''set_hvac_mode'', ''set_temperature'']),
     dd_apply = climate_apply, dd_encode = climate_encode\<rparr>"

definition fan_apply :: "entity_state \<Rightarrow> entity_command \<Rightarrow> domain_error + entity_state" where
  "fan_apply state cmd =
     (case (state, cmd) of
        (Fan is_on _ oscillating direction, SetFanSpeed s) \<Rightarrow> Inr (Fan is_on (Some s) oscillating direction)
      | (Fan _ speed oscillating direction, TurnOn) \<Rightarrow> Inr (Fan True speed oscillating direction)
      | (Fan _ speed oscillating direction, TurnOff) \<Rightarrow> Inr (Fan False speed oscillating direction)
      | _ \<Rightarrow> Inl (CommandNotApplicable ''fan'' cmd))"

text \<open>\<open>(pct / 100.0 * 255.0).round() as u8\<close>.\<close>

definition percent_to_speed :: "f64 \<Rightarrow> u8" where
  "percent_to_speed pct = f64_as_u8 (f64_round (f64_mul (f64_div pct (f64_of_nat 100)) (f64_of_nat 255)))"

definition fan_encode :: "string \<Rightarrow> json \<Rightarrow> entity_command option" where
  "fan_encode service data =
     (if service = ''set_percentage'' then
        map_option (\<lambda>pct. SetFanSpeed (percent_to_speed pct)) (Option.bind (json_get ''percentage'' data) as_f64)
      else on_off_encode service)"

definition fan_domain :: domain_def where
  "fan_domain = \<lparr>dd_id = ''fan'', dd_required = [''state'', ''toggle''],
     dd_optional = [''speed'', ''oscillate'', ''direction'', ''set_percentage''],
     dd_device_classes = [],
     dd_services = (\<lambda>_. [''turn_on'', ''turn_off'', ''toggle'', ''set_percentage'']),
     dd_apply = fan_apply, dd_encode = fan_encode\<rparr>"

definition position_state :: "u8 \<Rightarrow> cover_state" where
  "position_state p = (if p = 100 then CoverOpen else if p = 0 then CoverClosed else CoverStopped)"

definition cover_apply :: "entity_state \<Rightarrow> entity_command \<Rightarrow> domain_error + entity_state" where
  "cover_apply state cmd =
     (case (state, cmd) of
        (Cover _ _ tilt, SetCoverPosition p) \<Rightarrow> Inr (Cover (position_state p) (Some p) tilt)
      | _ \<Rightarrow> Inl (CommandNotApplicable ''cover'' cmd))"

definition cover_encode :: "string \<Rightarrow> json \<Rightarrow> entity_command option" where
  "cover_encode service data =
     (if service = ''open_cover'' then Some (SetCoverPosition 100)
      else if service = ''close_cover'' then Some (SetCoverPosition 0)
      else if service = ''set_cover_position'' then
        map_option (\<lambda>pos. SetCoverPosition (of_nat pos)) (Option.bind (json_get ''position'' data) as_u64)
      else None)"

definition cover_domain :: domain_def where
  "cover_domain = \<lparr>dd_id = ''cover'', dd_required = [''state''],
     dd_optional = [''position'', ''tilt'', ''open_cover'', ''close_cover'', ''set_cover_position''],
     dd_device_classes = [''blind'', ''curtain'', ''garage'', ''shutter''],
     dd_services = (\<lambda>_. [''open_cover'', ''close_cover'', ''set_cover_position'']),
     dd_apply = cover_apply, dd_encode = cover_encode\<rparr>"

definition lock_apply :: "entity_state \<Rightarrow> entity_command \<Rightarrow> domain_error + entity_state" where
  "lock_apply state cmd =
     (case (state, cmd) of
        (Lock _, TurnOn) \<Rightarrow> Inr (Lock Locked)
      | (Lock _, TurnOff) \<Rightarrow> Inr (Lock Unlocked)
      | _ \<Rightarrow> Inl (CommandNotApplicable ''lock'' cmd))"

definition lock_encode :: "string \<Rightarrow> json \<Rightarrow> entity_command option" where
  "lock_encode service data =
     (if service = ''lock'' then Some TurnOn else if service = ''unlock'' then Some TurnOff else None)"

definition lock_domain :: domain_def where
  "lock_domain = \<lparr>dd_id = ''lock'', dd_required = [''lock'', ''unlock''], dd_optional = [],
     dd_device_classes = [], dd_services = (\<lambda>_. [''lock'', ''unlock'']),
     dd_apply = lock_apply, dd_encode = lock_encode\<rparr>"

definition number_apply :: "entity_state \<Rightarrow> entity_command \<Rightarrow> domain_error + entity_state" where
  "number_apply state cmd =
     (case (state, cmd) of
        (Number _ mn mx step unit, SetValue v) \<Rightarrow> Inr (Number v mn mx step unit)
      | _ \<Rightarrow> Inl (CommandNotApplicable ''number'' cmd))"

definition number_encode :: "string \<Rightarrow> json \<Rightarrow> entity_command option" where
  "number_encode service data =
     (if service = ''set_value'' then map_option SetValue (Option.bind (json_get ''value'' data) as_f64) else None)"

definition number_domain :: domain_def where
  "number_domain = \<lparr>dd_id = ''number'', dd_required = [''state'', ''set_value''], dd_optional = [''unit''],
     dd_device_classes = [], dd_services = (\<lambda>_. [''set_value'']),
     dd_apply = number_apply, dd_encode = number_encode\<rparr>"

definition select_apply :: "entity_state \<Rightarrow> entity_command \<Rightarrow> domain_error + entity_state" where
  "select_apply state cmd =
     (case (state, cmd) of
        (Select _ options, SetOption opt) \<Rightarrow> Inr (Select opt options)
      | _ \<Rightarrow> Inl (CommandNotApplicable ''select'' cmd))"

definition select_encode :: "string \<Rightarrow> json \<Rightarrow> entity_command option" where
  "select_encode service data =
     (if service = ''select_option'' then map_option SetOption (get_str ''option'' data) else None)"

definition select_domain :: domain_def where
  "select_domain = \<lparr>dd_id = ''select'', dd_required = [''state'', ''set_option''], dd_optional = [],
     dd_device_classes = [], dd_services = (\<lambda>_. [''select_option'']),
     dd_apply = select_apply, dd_encode = select_encode\<rparr>"

definition text_apply :: "entity_state \<Rightarrow> entity_command \<Rightarrow> domain_error + entity_state" where
  "text_apply state cmd =
     (case (state, cmd) of
        (TextValue _, SetText t) \<Rightarrow> Inr (TextValue t)
      | _ \<Rightarrow> Inl (CommandNotApplicable ''text'' cmd))"

definition text_encode :: "string \<Rightarrow> json \<Rightarrow> entity_command option" where
  "text_encode service data =
     (if service = ''set_value'' then map_option SetText (get_str ''value'' data) else None)"

definition text_domain :: domain_def where
  "text_domain = \<lparr>dd_id = ''text'', dd_required = [''state'', ''set_text''], dd_optional = [],
     dd_device_classes = [], dd_services = (\<lambda>_. [''set_value'']),
     dd_apply = text_apply, dd_encode = text_encode\<rparr>"

definition button_apply :: "entity_state \<Rightarrow> entity_command \<Rightarrow> domain_error + entity_state" where
  "button_apply state cmd =
     (case (state, cmd) of
        (Button, PressButton) \<Rightarrow> Inr Button
      | _ \<Rightarrow> Inl (CommandNotApplicable ''button'' cmd))"

definition button_encode :: "string \<Rightarrow> json \<Rightarrow> entity_command option" where
  "button_encode service data = (if service = ''press'' then Some PressButton else None)"

definition button_domain :: domain_def where
  "button_domain = \<lparr>dd_id = ''button'', dd_required = [''press''], dd_optional = [],
     dd_device_classes = [''restart'', ''update''], dd_services = (\<lambda>_. [''press'']),
     dd_apply = button_apply, dd_encode = button_encode\<rparr>"

definition media_player_apply :: "entity_state \<Rightarrow> entity_command \<Rightarrow> domain_error + entity_state" where
  "media_player_apply state cmd =
     (case (state, cmd) of
        (MediaPlayer _ volume muted title, TurnOn) \<Rightarrow> Inr (MediaPlayer MediaStandby volume muted title)
      | (MediaPlayer _ volume muted title, TurnOff) \<Rightarrow> Inr (MediaPlayer MediaOff volume muted title)
      | _ \<Rightarrow> Inl (CommandNotApplicable ''media_player'' cmd))"

definition media_player_encode :: "string \<Rightarrow> json \<Rightarrow> entity_command option" where
  "media_player_encode service data =
     (if service = ''volume_set'' then map_option SetValue (Option.bind (json_get ''volume_level'' data) as_f64)
      else on_off_encode service)"

definition media_player_domain :: domain_def where
  "media_player_domain = \<lparr>dd_id = ''media_player'', dd_required = [''state'', ''toggle''],
     dd_optional = [''volume_set''],
     dd_device_classes = [''speaker'', ''tv'', ''receiver''],
     dd_services = (\<lambda>_. [''turn_on'', ''turn_off'', ''toggle'', ''volume_set'']),
     dd_apply = media_player_apply, dd_encode = media_player_encode\<rparr>"

section \<open>Read-only domains\<close>

definition sensor_domain :: domain_def where
  "sensor_domain = \<lparr>dd_id = ''sensor'', dd_required = [''state''], dd_optional = [''unit''],
     dd_device_classes = [''temperature'', ''humidity'', ''pressure'', ''illuminance'', ''power'', ''energy'',
       ''voltage'', ''current'', ''battery'', ''signal_strength''],
     dd_services = (\<lambda>_. []), dd_apply = read_only_apply ''sensor'', dd_encode = (\<lambda>_ _. None)\<rparr>"

definition binary_sensor_domain :: domain_def where
  "binary_sensor_domain = \<lparr>dd_id = ''binary_sensor'', dd_required = [''state''], dd_optional = [],
     dd_device_classes = [''motion'', ''door'', ''window'', ''smoke'', ''moisture'', ''occupancy'', ''vibration''],
     dd_services = (\<lambda>_. []), dd_apply = read_only_apply ''binary_sensor'', dd_encode = (\<lambda>_ _. None)\<rparr>"

definition alarm_panel_domain :: domain_def where
  "alarm_panel_domain = \<lparr>dd_id = ''alarm_control_panel'', dd_required = [''state''], dd_optional = [],
     dd_device_classes = [],
     dd_services = (\<lambda>_. []), dd_apply = read_only_apply ''alarm_control_panel'', dd_encode = (\<lambda>_ _. None)\<rparr>"

definition text_sensor_domain :: domain_def where
  "text_sensor_domain = \<lparr>dd_id = ''text_sensor'', dd_required = [''state''], dd_optional = [],
     dd_device_classes = [],
     dd_services = (\<lambda>_. []), dd_apply = read_only_apply ''text_sensor'', dd_encode = (\<lambda>_ _. None)\<rparr>"

definition update_domain :: domain_def where
  "update_domain = \<lparr>dd_id = ''update'', dd_required = [''state''], dd_optional = [],
     dd_device_classes = [''firmware''],
     dd_services = (\<lambda>_. []), dd_apply = read_only_apply ''update'', dd_encode = (\<lambda>_ _. None)\<rparr>"

definition event_domain :: domain_def where
  "event_domain = \<lparr>dd_id = ''event'', dd_required = [''state''], dd_optional = [],
     dd_device_classes = [''button'', ''doorbell'', ''motion''],
     dd_services = (\<lambda>_. []), dd_apply = read_only_apply ''event'', dd_encode = (\<lambda>_ _. None)\<rparr>"

section \<open>The registry\<close>

definition built_in_domains :: "domain_def list" where
  "built_in_domains =
     [sensor_domain, binary_sensor_domain, switch_domain, light_domain, climate_domain, fan_domain,
      cover_domain, lock_domain, number_domain, select_domain, text_domain, button_domain,
      media_player_domain, alarm_panel_domain, text_sensor_domain, update_domain, event_domain]"

definition get_domain :: "string \<Rightarrow> domain_def option" where
  "get_domain domain_id = map_of (map (\<lambda>d. (dd_id d, d)) built_in_domains) domain_id"

definition all_def_features :: "domain_def \<Rightarrow> string list" where
  "all_def_features def = dd_required def @ dd_optional def"

definition resolve_wire_type :: "string \<Rightarrow> (string \<times> string list) option" where
  "resolve_wire_type wire_type =
     map_option (\<lambda>def. (dd_id def, all_def_features def)) (get_domain wire_type)"

definition required_features :: "string \<Rightarrow> string list option" where
  "required_features domain_id = map_option dd_required (get_domain domain_id)"

definition feature_services :: "string \<Rightarrow> string list" where
  "feature_services feat =
     (if feat = ''toggle'' then [''turn_on'', ''turn_off'', ''toggle'']
      else if feat = ''set_mode'' then [''set_hvac_mode'']
      else if feat = ''set_text'' then [''set_value'']
      else if feat = ''set_option'' then [''select_option'']
      else if feat = ''target_temp'' then [''set_temperature'']
      else if feat \<in> {''set_value'', ''press'', ''lock'', ''unlock'', ''volume_set'', ''open_cover'',
                       ''close_cover'', ''set_cover_position'', ''set_percentage''} then [feat]
      else [])"

definition services_for :: "string \<Rightarrow> string list \<Rightarrow> string list" where
  "services_for domain_id features =
     (case get_domain domain_id of
        None \<Rightarrow> []
      | Some def \<Rightarrow>
          concat (map feature_services (filter (\<lambda>feat. feat \<in> set features) (all_def_features def))))"

definition is_legal :: "string \<Rightarrow> string list \<Rightarrow> bool" where
  "is_legal domain_id features =
     (case get_domain domain_id of
        None \<Rightarrow> False
      | Some def \<Rightarrow> list_all (\<lambda>r. r \<in> set features) (dd_required def))"


section \<open>What the domains accept\<close>

text \<open>The intended table: the domains whose entities obey a command.\<close>

fun accepts :: "string \<Rightarrow> entity_command \<Rightarrow> bool" where
  "accepts d TurnOn = (d \<in> {''switch'', ''light'', ''fan'', ''lock'', ''media_player''})"
| "accepts d TurnOff = (d \<in> {''switch'', ''light'', ''fan'', ''lock'', ''media_player''})"
| "accepts d Toggle = (d \<in> {''switch'', ''light''})"
| "accepts d (SetValue _) = (d = ''number'')"
| "accepts d (SetOption _) = (d = ''select'')"
| "accepts d (SetText _) = (d = ''text'')"
| "accepts d (SetLightBrightness _) = (d = ''light'')"
| "accepts d (SetLightColor _ _) = (d = ''light'')"
| "accepts d (SetClimateMode _) = (d = ''climate'')"
| "accepts d (SetClimateTemp _) = (d = ''climate'')"
| "accepts d (SetFanSpeed _) = (d = ''fan'')"
| "accepts d (SetCoverPosition _) = (d = ''cover'')"
| "accepts d PressButton = (d = ''button'')"

lemmas domain_defs =
  sensor_domain_def binary_sensor_domain_def switch_domain_def light_domain_def climate_domain_def
  fan_domain_def cover_domain_def lock_domain_def number_domain_def select_domain_def text_domain_def
  button_domain_def media_player_domain_def alarm_panel_domain_def text_sensor_domain_def
  update_domain_def event_domain_def

lemmas apply_defs =
  read_only_apply_def switch_apply_def light_apply_def climate_apply_def fan_apply_def cover_apply_def
  lock_apply_def number_apply_def select_apply_def text_apply_def button_apply_def media_player_apply_def

lemmas encode_defs =
  switch_encode_def light_encode_def climate_encode_def fan_encode_def cover_encode_def lock_encode_def
  number_encode_def select_encode_def text_encode_def button_encode_def media_player_encode_def
  on_off_encode_def

lemma get_domain_mem: "get_domain d = Some def \<Longrightarrow> dd_id def = d \<and> def \<in> set built_in_domains"
  unfolding get_domain_def by (drule map_of_SomeD) auto

text \<open>A domain obeys the table when it accepts exactly the commands listed for it, on the
  states of its own kind, and answers with a state of that kind.\<close>

definition obeys :: "entity_state \<Rightarrow> entity_command \<Rightarrow> domain_def \<Rightarrow> bool" where
  "obeys s cmd def \<longleftrightarrow>
     (case dd_apply def s cmd of
        Inl _ \<Rightarrow> \<not> (state_domain s = Some (dd_id def) \<and> accepts (dd_id def) cmd)
      | Inr s' \<Rightarrow> state_domain s = Some (dd_id def) \<and> accepts (dd_id def) cmd \<and> state_domain s' = state_domain s)"

lemma on_off_obey:
  "obeys s cmd switch_domain" "obeys s cmd light_domain" "obeys s cmd fan_domain"
  unfolding obeys_def domain_defs apply_defs by (cases s; simp split: entity_command.splits)+

lemma openable_obey:
  "obeys s cmd lock_domain" "obeys s cmd media_player_domain" "obeys s cmd cover_domain" "obeys s cmd climate_domain"
  unfolding obeys_def domain_defs apply_defs by (cases s; simp split: entity_command.splits)+

lemma settable_obey:
  "obeys s cmd number_domain" "obeys s cmd select_domain" "obeys s cmd text_domain" "obeys s cmd button_domain"
  unfolding obeys_def domain_defs apply_defs by (cases s; simp split: entity_command.splits)+

lemma read_only_obeys:
  "dd_apply def = read_only_apply (dd_id def) \<Longrightarrow>
     dd_id def \<in> {''sensor'', ''binary_sensor'', ''alarm_control_panel'', ''text_sensor'', ''update'', ''event''} \<Longrightarrow>
     obeys s cmd def"
  unfolding obeys_def read_only_apply_def by (cases cmd) auto

lemma sensors_obey:
  "obeys s cmd sensor_domain" "obeys s cmd binary_sensor_domain" "obeys s cmd alarm_panel_domain"
  "obeys s cmd text_sensor_domain" "obeys s cmd update_domain" "obeys s cmd event_domain"
  by (rule read_only_obeys; simp add: domain_defs)+

lemma built_in_obey: "list_all (obeys s cmd) built_in_domains"
  by (simp add: built_in_domains_def on_off_obey openable_obey settable_obey sensors_obey)

text \<open>A command as the registry applies it: by the id of the domain, when there is one.\<close>

definition apply_in :: "string \<Rightarrow> entity_state \<Rightarrow> entity_command \<Rightarrow> (domain_error + entity_state) option" where
  "apply_in domain_id state cmd = map_option (\<lambda>def. dd_apply def state cmd) (get_domain domain_id)"

lemma apply_in_obeys:
  assumes "apply_in d s cmd = Some r"
  shows "(case r of Inl _ \<Rightarrow> \<not> (state_domain s = Some d \<and> accepts d cmd)
          | Inr s' \<Rightarrow> state_domain s = Some d \<and> accepts d cmd \<and> state_domain s' = Some d)"
proof -
  obtain def where def: "get_domain d = Some def" "r = dd_apply def s cmd"
    using assms by (auto simp: apply_in_def)
  have "obeys s cmd def" and "dd_id def = d"
    using get_domain_mem [OF def(1)] built_in_obey by (auto simp: list_all_iff)
  then show ?thesis using def(2) by (auto simp: obeys_def split: sum.splits)
qed

lemma registered_accepts:
  assumes "get_domain d = Some def"
  shows "(\<exists>s'. dd_apply def s cmd = Inr s') \<longleftrightarrow> state_domain s = Some d \<and> accepts d cmd"
    and "dd_apply def s cmd = Inr s' \<Longrightarrow> state_domain s' = state_domain s"
  using assms apply_in_obeys [of d s cmd "dd_apply def s cmd"] by (auto simp: apply_in_def split: sum.splits)

lemma accepting_registered: "accepts d cmd \<Longrightarrow> get_domain d \<noteq> None"
  by (cases cmd) (auto simp: get_domain_def built_in_domains_def domain_defs)

text \<open>Commands are typed: applying a command to an entity of a built-in domain succeeds
  exactly when the state is of that domain's variant and the command is one the domain is
  listed for, the new state is of the same variant, and an unavailable entity refuses
  every command.\<close>
theorem commands_are_typed:
  assumes "get_domain d = Some def"
  shows "((\<exists>s'. dd_apply def s cmd = Inr s') \<longleftrightarrow> state_domain s = Some d \<and> accepts d cmd)
    \<and> (\<forall>s'. dd_apply def s cmd = Inr s' \<longrightarrow> state_domain s' = state_domain s)
    \<and> (\<exists>e. dd_apply def Unavailable cmd = Inl e)"
  using registered_accepts [OF assms] by (metis old.sum.exhaust option.distinct(1) state_domain.simps(18))

theorem commands_are_typed_witness:
  "(\<exists>s'. dd_apply switch_domain (Switch True) Toggle = Inr s') \<and> accepts ''switch'' Toggle
    \<and> dd_apply switch_domain (Switch True) Toggle = Inr (Switch False)"
proof -
  have def: "get_domain ''switch'' = Some switch_domain"
    by (simp add: get_domain_def built_in_domains_def domain_defs)
  have "dd_apply switch_domain (Switch True) Toggle = Inr (Switch False)"
    by (simp add: switch_domain_def switch_apply_def)
  with commands_are_typed [OF def, of "Switch True" Toggle] show ?thesis by simp
qed

section \<open>The advertised services\<close>

text \<open>The services whose command the domain refuses although it advertises them.\<close>

definition dead_services :: "(string \<times> string) list" where
  "dead_services = [(''fan'', ''toggle''), (''media_player'', ''toggle''), (''media_player'', ''volume_set'')]"

text \<open>Service data with every field that an encoder reads, once with a numeric and once
  with a textual \<open>value\<close>.\<close>

definition full_data :: "json \<Rightarrow> json" where
  "full_data value = JObj [(''brightness'', JNum (PosInt 1)), (''hvac_mode'', JStr ''heat''),
     (''option'', JStr ''a''), (''percentage'', JNum (PosInt 1)), (''position'', JNum (PosInt 1)),
     (''temperature'', JNum (PosInt 1)), (''value'', value), (''volume_level'', JNum (PosInt 1))]"

definition encodable :: "domain_def \<Rightarrow> string \<Rightarrow> bool" where
  "encodable def svc \<longleftrightarrow>
     dd_encode def svc (full_data (JNum (PosInt 1))) \<noteq> None \<or> dd_encode def svc (full_data (JStr ''a'')) \<noteq> None"

definition serves :: "domain_def \<Rightarrow> bool" where
  "serves def \<longleftrightarrow>
     (\<forall>fs. dd_services def fs = dd_services def [])
     \<and> set (concat (map feature_services (all_def_features def))) = set (dd_services def [])
     \<and> list_all (encodable def) (dd_services def [])
     \<and> (\<forall>svc data cmd. dd_encode def svc data = Some cmd \<longrightarrow>
          svc \<in> set (dd_services def []) \<and> (accepts (dd_id def) cmd \<longleftrightarrow> (dd_id def, svc) \<notin> set dead_services))"

named_theorems service_simps \<open>evaluation of the service tables of a domain\<close>

lemmas [service_simps] =
  encode_defs all_def_features_def feature_services_def json_get_def get_str_def dead_services_def

lemma on_off_serve:
  "serves switch_domain" "serves light_domain" "serves fan_domain" "serves media_player_domain" "serves lock_domain"
  unfolding serves_def encodable_def full_data_def domain_defs
  by (auto simp: service_simps split: if_splits option.splits)

lemma settable_serve:
  "serves climate_domain" "serves cover_domain" "serves number_domain" "serves select_domain" "serves text_domain"
  "serves button_domain"
  unfolding serves_def encodable_def full_data_def domain_defs
  by (auto simp: service_simps split: if_splits option.splits)

lemma sensors_serve:
  "serves sensor_domain" "serves binary_sensor_domain" "serves alarm_panel_domain" "serves text_sensor_domain"
  "serves update_domain" "serves event_domain"
  unfolding serves_def domain_defs by (simp_all add: service_simps)

lemma built_in_serve: "list_all serves built_in_domains"
  by (simp add: built_in_domains_def on_off_serve settable_serve sensors_serve)

lemma services_for_all:
  "get_domain d = Some def \<Longrightarrow>
     set (services_for d (all_def_features def)) = set (concat (map feature_services (all_def_features def)))"
  by (simp add: services_for_def)

lemma services_for_mono: "set fs \<subseteq> set gs \<Longrightarrow> set (services_for d fs) \<subseteq> set (services_for d gs)"
  by (auto simp: services_for_def split: option.splits)

text \<open>The services derived from the feature names are the services the domain lists
  itself, they are exactly the ones its encoder understands, and an encoded command is
  obeyed by every entity of the domain, except for the toggle of fans and media players and
  the volume of media players: these are advertised, encoded and then refused.\<close>
theorem advertised_services:
  assumes "get_domain d = Some def"
  shows "set (services_for d (all_def_features def)) = set (dd_services def fs)
    \<and> (\<forall>svc. svc \<in> set (dd_services def fs) \<longleftrightarrow> (\<exists>data. dd_encode def svc data \<noteq> None))
    \<and> (\<forall>svc data cmd s. dd_encode def svc data = Some cmd \<and> state_domain s = Some d \<longrightarrow>
         ((\<exists>s'. dd_apply def s cmd = Inr s') \<longleftrightarrow> (d, svc) \<notin> set dead_services))"
proof -
  have id: "dd_id def = d" and mem: "def \<in> set built_in_domains" using get_domain_mem [OF assms] by auto
  from mem have "serves def" using built_in_serve by (simp add: list_all_iff)
  then have fs: "dd_services def fs = dd_services def []"
    and eq: "set (concat (map feature_services (all_def_features def))) = set (dd_services def [])"
    and enc: "\<And>svc. svc \<in> set (dd_services def []) \<Longrightarrow> encodable def svc"
    and dec: "\<And>svc data cmd. dd_encode def svc data = Some cmd \<Longrightarrow>
          svc \<in> set (dd_services def []) \<and> (accepts (dd_id def) cmd \<longleftrightarrow> (dd_id def, svc) \<notin> set dead_services)"
    unfolding serves_def by (auto simp: list_all_iff)
  have "set (services_for d (all_def_features def)) = set (dd_services def fs)"
    using services_for_all [OF assms] eq fs by simp
  moreover have "svc \<in> set (dd_services def fs) \<longleftrightarrow> (\<exists>data. dd_encode def svc data \<noteq> None)" for svc
    using enc [of svc] dec [of svc] fs unfolding encodable_def by (metis option.exhaust)
  moreover have "(\<exists>s'. dd_apply def s cmd = Inr s') \<longleftrightarrow> (d, svc) \<notin> set dead_services"
    if "dd_encode def svc data = Some cmd" "state_domain s = Some d" for svc data cmd s
    using dec [OF that(1)] id that(2) registered_accepts [OF assms] by simp
  ultimately show ?thesis by blast
qed

theorem advertised_services_witness:
  "set (services_for ''fan'' (all_def_features fan_domain)) = {''turn_on'', ''turn_off'', ''toggle'', ''set_percentage''}
    \<and> (\<exists>e. dd_apply fan_domain (Fan True None None None) Toggle = Inl e)"
proof -
  have def: "get_domain ''fan'' = Some fan_domain"
    by (simp add: get_domain_def built_in_domains_def domain_defs)
  have enc: "dd_encode fan_domain ''toggle'' JNull = Some Toggle"
    by (simp add: fan_domain_def fan_encode_def on_off_encode_def)
  have dead: "(''fan'', ''toggle'') \<in> set dead_services" by (simp add: dead_services_def)
  have "\<nexists>s'. dd_apply fan_domain (Fan True None None None) Toggle = Inr s'"
    using advertised_services [OF def, of "[]"] enc dead by (metis state_domain.simps(11))
  then have "\<exists>e. dd_apply fan_domain (Fan True None None None) Toggle = Inl e" by (metis sum.exhaust)
  moreover have "set (services_for ''fan'' (all_def_features fan_domain)) = {''turn_on'', ''turn_off'', ''toggle'', ''set_percentage''}"
    using advertised_services [OF def, of "[]"] by (simp add: fan_domain_def)
  ultimately show ?thesis by simp
qed

end
