(* ===== verification/StateStore.thy ===== *)
theory StateStore
  imports EntityTypes Maps
begin

text \<open>
  The state store (\<open>rshome-state/src/store.rs\<close>): the last state of every entity, the time it
  was stored and the sending half of a \<open>tokio::sync::watch\<close> channel. The store is a
  \<open>HashMap\<close>, the times are numbers passed in, and the channel is a parameter: a record of
  the operations the store calls, over an arbitrary type of channels. What the store relies
  on is the channel's documentation, stated in \<open>watch_contract\<close>.

  \<open>StateUpdater\<close>, the trait through which entities write their state, is the locale
  \<open>state_updater\<close>; the store is its instance.
\<close>

section \<open>Watch channels\<close>

text \<open>
  \<open>wo_channel v\<close> is a new channel with its first receiver, \<open>wo_drop\<close> the loss of one receiver,
  \<open>wo_send\<close> the call of \<open>Sender::send\<close> with its result ignored, \<open>wo_current\<close> what a receiver
  borrows.
\<close>

record 'w watch_ops =
  wo_channel :: "entity_state option \<Rightarrow> 'w"
  wo_drop :: "'w \<Rightarrow> 'w"
  wo_send :: "entity_state option \<Rightarrow> 'w \<Rightarrow> 'w"
  wo_subscribe :: "'w \<Rightarrow> 'w"
  wo_current :: "'w \<Rightarrow> entity_state option"
  wo_receivers :: "'w \<Rightarrow> nat"

text \<open>
  The documented behaviour: \<open>send\<close> fails when every receiver has been dropped, and then the
  value is not made available to future receivers; \<open>subscribe\<close> adds a receiver of the
  current value.
\<close>

definition watch_contract :: "'w watch_ops \<Rightarrow> bool" where
  "watch_contract ops \<longleftrightarrow>
     (\<forall>v. wo_current ops (wo_channel ops v) = v \<and> wo_receivers ops (wo_channel ops v) = 1)
     \<and> (\<forall>w. wo_current ops (wo_drop ops w) = wo_current ops w
          \<and> wo_receivers ops (wo_drop ops w) = wo_receivers ops w - 1)
     \<and> (\<forall>v w. wo_current ops (wo_send ops v w) = (if wo_receivers ops w = 0 then wo_current ops w else v)
          \<and> wo_receivers ops (wo_send ops v w) = wo_receivers ops w)
     \<and> (\<forall>w. wo_current ops (wo_subscribe ops w) = wo_current ops w
          \<and> wo_receivers ops (wo_subscribe ops w) = Suc (wo_receivers ops w))"

lemma watch_contract_simps:
  assumes "watch_contract ops"
  shows "wo_current ops (wo_channel ops v) = v" "wo_receivers ops (wo_channel ops v) = 1"
    and "wo_current ops (wo_drop ops w) = wo_current ops w"
    and "wo_receivers ops (wo_drop ops w) = wo_receivers ops w - 1"
    and "wo_current ops (wo_send ops v w) = (if wo_receivers ops w = 0 then wo_current ops w else v)"
    and "wo_receivers ops (wo_send ops v w) = wo_receivers ops w"
    and "wo_current ops (wo_subscribe ops w) = wo_current ops w"
    and "wo_receivers ops (wo_subscribe ops w) = Suc (wo_receivers ops w)"
  using assms unfolding watch_contract_def by blast+

section \<open>The store\<close>

type_synonym 'w store = "(entity_id \<times> entity_state \<times> nat \<times> 'w) list"

definition store_update :: "'w watch_ops \<Rightarrow> nat \<Rightarrow> entity_id \<Rightarrow> entity_state \<Rightarrow> 'w store \<Rightarrow> 'w store" where
  "store_update ops now eid state st =
     (case map_of st eid of
        Some (_, _, tx) \<Rightarrow> reg_insert eid (state, now, wo_send ops (Some state) tx) st
      | None \<Rightarrow> reg_insert eid (state, now, wo_drop ops (wo_channel ops (Some state))) st)"

definition store_get :: "entity_id \<Rightarrow> 'w store \<Rightarrow> entity_state option" where
  "store_get eid st = map_option fst (map_of st eid)"

definition store_get_all :: "'w store \<Rightarrow> (entity_id \<times> entity_state) list" where
  "store_get_all st = map (\<lambda>(k, s, _, _). (k, s)) st"

text \<open>The receiver handed out is a receiver of the channel stored under the id.\<close>

definition store_subscribe :: "'w watch_ops \<Rightarrow> nat \<Rightarrow> entity_id \<Rightarrow> 'w store \<Rightarrow> 'w store" where
  "store_subscribe ops now eid st =
     (case map_of st eid of
        Some (s, t, tx) \<Rightarrow> reg_insert eid (s, t, wo_subscribe ops tx) st
      | None \<Rightarrow> reg_insert eid (Unavailable, now, wo_channel ops None) st)"

definition store_list_ids :: "'w store \<Rightarrow> entity_id list" where
  "store_list_ids st = map fst st"

definition store_count :: "'w store \<Rightarrow> nat" where
  "store_count st = length st"

definition last_updated :: "entity_id \<Rightarrow> 'w store \<Rightarrow> nat option" where
  "last_updated eid st = map_option (\<lambda>(_, t, _). t) (map_of st eid)"

record state_snapshot =
  sn_entity_id :: entity_id
  sn_state :: entity_state
  sn_last_updated :: nat

definition store_snapshot :: "entity_id \<Rightarrow> 'w store \<Rightarrow> state_snapshot option" where
  "store_snapshot eid st =
     map_option (\<lambda>(s, t, _). \<lparr>sn_entity_id = eid, sn_state = s, sn_last_updated = t\<rparr>) (map_of st eid)"

definition snapshot_all :: "'w store \<Rightarrow> state_snapshot list" where
  "snapshot_all st = map (\<lambda>(k, s, t, _). \<lparr>sn_entity_id = k, sn_state = s, sn_last_updated = t\<rparr>) st"

text \<open>
  The snapshot file is the JSON object of the serialised states; reading it back yields its
  entries in some order. \<open>to_value\<close> and \<open>from_value\<close> are serde's conversions of a state.
\<close>

definition persist_snapshot :: "(entity_state \<Rightarrow> json option) \<Rightarrow> 'w store \<Rightarrow> (string \<times> json) list" where
  "persist_snapshot to_value st =
     concat (map (\<lambda>(k, s, _, _). case to_value s of Some v \<Rightarrow> [(k, v)] | None \<Rightarrow> []) st)"

fun restore_snapshot ::
    "'w watch_ops \<Rightarrow> nat \<Rightarrow> (json \<Rightarrow> entity_state option) \<Rightarrow> (string \<times> json) list \<Rightarrow> 'w store \<Rightarrow> 'w store \<times> nat" where
  "restore_snapshot ops now from_value [] st = (st, 0)"
| "restore_snapshot ops now from_value ((id_str, value) # snap) st =
     (case from_value value of
        None \<Rightarrow> restore_snapshot ops now from_value snap st
      | Some state \<Rightarrow>
          (case split_once ''.'' id_str of
             None \<Rightarrow> restore_snapshot ops now from_value snap st
           | Some (domain, oid) \<Rightarrow>
               (let (st', n) = restore_snapshot ops now from_value snap
                                 (store_update ops now (new_entity_id domain oid) state st)
                in (st', Suc n))))"

section \<open>The trait\<close>

locale state_updater =
  fixes update :: "entity_id \<Rightarrow> entity_state \<Rightarrow> 's \<Rightarrow> 's"
    and lookup :: "entity_id \<Rightarrow> 's \<Rightarrow> entity_state option"
  assumes lookup_update: "lookup eid' (update eid s st) = (if eid' = eid then Some s else lookup eid' st)"
begin

text \<open>A sequence of writes leaves the last state written to each entity.\<close>

definition write_all :: "(entity_id \<times> entity_state) list \<Rightarrow> 's \<Rightarrow> 's" where
  "write_all ws st = fold (\<lambda>(eid, s). update eid s) ws st"

lemma lookup_write_all:
  "lookup eid (write_all ws st) = (case map_of (rev ws) eid of Some s \<Rightarrow> Some s | None \<Rightarrow> lookup eid st)"
proof (induction ws arbitrary: st)
  case (Cons w ws)
  then show ?case
    by (cases w) (auto simp: write_all_def lookup_update map_add_def split: option.splits)
qed (simp add: write_all_def)

lemma write_all_distinct:
  "distinct (map fst ws) \<Longrightarrow> (eid, s) \<in> set ws \<Longrightarrow> lookup eid (write_all ws st) = Some s"
  by (simp add: lookup_write_all rev_map [symmetric])

end

lemma store_get_update: "store_get eid' (store_update ops now eid s st) = (if eid' = eid then Some s else store_get eid' st)"
  by (auto simp: store_get_def store_update_def split: option.splits)

interpretation store: state_updater "store_update ops now" store_get for ops now
  by unfold_locales (rule store_get_update)

lemma distinct_store_update: "distinct (store_list_ids st) \<Longrightarrow> distinct (store_list_ids (store_update ops now eid s st))"
  by (auto simp: store_update_def store_list_ids_def distinct_reg_insert split: option.splits)

lemma distinct_store_subscribe: "distinct (store_list_ids st) \<Longrightarrow> distinct (store_list_ids (store_subscribe ops now eid st))"
  by (auto simp: store_subscribe_def store_list_ids_def distinct_reg_insert split: option.splits)

section \<open>Subscriptions\<close>

text \<open>What a receiver of an entity's channel borrows.\<close>

definition borrowed :: "'w watch_ops \<Rightarrow> entity_id \<Rightarrow> 'w store \<Rightarrow> entity_state option" where
  "borrowed ops eid st = Option.bind (map_of st eid) (\<lambda>(_, _, tx). wo_current ops tx)"

definition receivers :: "'w watch_ops \<Rightarrow> entity_id \<Rightarrow> 'w store \<Rightarrow> nat" where
  "receivers ops eid st = (case map_of st eid of Some (_, _, tx) \<Rightarrow> wo_receivers ops tx | None \<Rightarrow> 0)"

lemma update_unwatched:
  assumes "watch_contract ops"
  shows "receivers ops eid st = 0 \<Longrightarrow> receivers ops eid (store_update ops now eid s st) = 0"
    and "receivers ops eid st = 0 \<Longrightarrow> borrowed ops eid (store_update ops now eid s st) =
           (if map_of st eid = None then Some s else borrowed ops eid st)"
  using watch_contract_simps [OF assms]
  by (auto simp: receivers_def borrowed_def store_update_def split: option.splits)

lemma update_present [simp]: "map_of (store_update ops now eid s st) eid \<noteq> None"
  by (auto simp: store_update_def split: option.splits)

lemma update_watched:
  assumes "watch_contract ops" and "0 < receivers ops eid st"
  shows "receivers ops eid (store_update ops now eid s st) = receivers ops eid st"
    and "borrowed ops eid (store_update ops now eid s st) = Some s"
  using assms watch_contract_simps [OF assms(1)]
  by (auto simp: receivers_def borrowed_def store_update_def split: option.splits)

lemma subscribe_watches:
  assumes "watch_contract ops"
  shows "0 < receivers ops eid (store_subscribe ops now eid st)"
    and "borrowed ops eid (store_subscribe ops now eid st) = borrowed ops eid st"
    and "store_get eid (store_subscribe ops now eid st) = (if map_of st eid = None then Some Unavailable else store_get eid st)"
  using watch_contract_simps [OF assms]
  by (auto simp: receivers_def borrowed_def store_subscribe_def store_get_def split: option.splits)

definition updates :: "'w watch_ops \<Rightarrow> entity_id \<Rightarrow> (nat \<times> entity_state) list \<Rightarrow> 'w store \<Rightarrow> 'w store" where
  "updates ops eid = fold (\<lambda>(now, s). store_update ops now eid s)"

lemma updates_unwatched:
  assumes "watch_contract ops" and "receivers ops eid st = 0" and "map_of st eid \<noteq> None"
  shows "borrowed ops eid (updates ops eid us st) = borrowed ops eid st"
  using assms(2,3)
proof (induction us arbitrary: st)
  case (Cons u us)
  then show ?case
    using update_unwatched [OF assms(1), of eid st "fst u" "snd u"] update_present [of ops "fst u" eid "snd u" st]
    by (simp add: updates_def split_beta del: update_present not_None_eq)
qed (simp add: updates_def)

lemma updates_watched:
  assumes "watch_contract ops" and "0 < receivers ops eid st"
  shows "borrowed ops eid (updates ops eid (us @ [(now, s)]) st) = Some s"
proof -
  have "0 < receivers ops eid (updates ops eid us st)" using assms(2)
  proof (induction us arbitrary: st)
    case (Cons u us)
    then show ?case
      using update_watched [OF assms(1), of eid st "fst u" "snd u"] by (simp add: updates_def split_beta)
  qed (simp add: updates_def)
  from update_watched(2) [OF assms(1) this] show ?thesis by (simp add: updates_def)
qed

lemma get_updates: "us \<noteq> [] \<Longrightarrow> store_get eid (updates ops eid us st) = Some (snd (last us))"
  by (induction us rule: rev_induct) (auto simp: updates_def store_get_update split_beta)

text \<open>What a subscriber sees. A receiver that exists while the entity is updated shows
  the last state written. A receiver taken out after a series of updates that nobody
  watched shows the first of them, however many followed, while the store itself
  answers with the last one.\<close>
theorem subscriber_view:
  assumes "watch_contract ops"
  shows "borrowed ops eid (updates ops eid (us @ [(now, s)]) (store_subscribe ops t eid st)) = Some s
    \<and> (store_get eid st = None \<longrightarrow>
         borrowed ops eid (store_subscribe ops t eid (updates ops eid ((now, s) # us) st)) = Some s
         \<and> store_get eid (store_subscribe ops t eid (updates ops eid ((now, s) # us) st))
             = Some (snd (last ((now, s) # us))))"
proof (intro conjI impI)
  show "borrowed ops eid (updates ops eid (us @ [(now, s)]) (store_subscribe ops t eid st)) = Some s"
    by (rule updates_watched [OF assms subscribe_watches(1) [OF assms]])
next
  assume fresh: "store_get eid st = None"
  let ?st = "store_update ops now eid s st"
  have none: "map_of st eid = None" using fresh by (simp add: store_get_def)
  then have "receivers ops eid st = 0" by (simp add: receivers_def)
  with none have st: "receivers ops eid ?st = 0" "borrowed ops eid ?st = Some s" "map_of ?st eid \<noteq> None"
    using update_unwatched [OF assms, of eid st now s] by simp_all
  have "updates ops eid ((now, s) # us) st = updates ops eid us ?st" by (simp add: updates_def)
  then show "borrowed ops eid (store_subscribe ops t eid (updates ops eid ((now, s) # us) st)) = Some s"
    using updates_unwatched [OF assms st(1,3)] st(2) subscribe_watches(2) [OF assms] by simp
  have "store_get eid (updates ops eid ((now, s) # us) st) = Some (snd (last ((now, s) # us)))"
    by (rule get_updates) simp
  then show "store_get eid (store_subscribe ops t eid (updates ops eid ((now, s) # us) st))
      = Some (snd (last ((now, s) # us)))"
    using subscribe_watches(3) [OF assms] by (auto simp: store_get_def)
qed

text \<open>A channel as its value and its number of receivers.\<close>

definition counted_watch :: "(entity_state option \<times> nat) watch_ops" where
  "counted_watch = \<lparr>wo_channel = (\<lambda>v. (v, 1)), wo_drop = (\<lambda>(v, n). (v, n - 1)),
     wo_send = (\<lambda>v (w, n). (if n = 0 then w else v, n)), wo_subscribe = (\<lambda>(v, n). (v, Suc n)),
     wo_current = fst, wo_receivers = snd\<rparr>"

lemma counted_watch_contract: "watch_contract counted_watch"
  by (simp add: watch_contract_def counted_watch_def split_beta)

theorem subscriber_view_witness:
  "(let st = store_subscribe counted_watch 3 ''switch.a''
               (updates counted_watch ''switch.a'' [(1, Switch True), (2, Switch False)] [])
    in borrowed counted_watch ''switch.a'' st = Some (Switch True) \<and> store_get ''switch.a'' st = Some (Switch False))"
  using subscriber_view [OF counted_watch_contract, of "''switch.a''" "[(2, Switch False)]" 1 "Switch True" 3 "[]"]
  by (simp add: Let_def store_get_def)

section \<open>Snapshots\<close>

lemma split_once_dot: "split_once ''.'' k = Some (d, o') \<Longrightarrow> new_entity_id d o' = k"
  using split_once_Some [of "''.''" k d o'] by (simp add: new_entity_id_def)

lemma split_once_dot_None: "split_once ''.'' k = None \<longleftrightarrow> CHR ''.'' \<notin> set k"
  by (simp add: split_once_None_iff sublist_def in_set_conv_decomp [of _ k])

text \<open>The writes a snapshot file stands for.\<close>

definition restored :: "(json \<Rightarrow> entity_state option) \<Rightarrow> (string \<times> json) list \<Rightarrow> (entity_id \<times> entity_state) list" where
  "restored from_value snap =
     concat (map (\<lambda>(k, v). case from_value v of
         Some s \<Rightarrow> if split_once ''.'' k = None then [] else [(k, s)]
       | None \<Rightarrow> []) snap)"

lemma restored_Cons:
  "restored from_value ((k, v) # snap) =
     (case from_value v of
        Some s \<Rightarrow> if split_once ''.'' k = None then [] else [(k, s)]
      | None \<Rightarrow> []) @ restored from_value snap"
  by (simp add: restored_def)

lemma restore_writes:
  "restore_snapshot ops now from_value snap st =
     (store.write_all ops now (restored from_value snap) st, length (restored from_value snap))"
proof (induction ops now from_value snap st rule: restore_snapshot.induct)
  case (2 ops now from_value k v snap st)
  show ?case
  proof (cases "from_value v = None \<or> split_once ''.'' k = None")
    case True
    then show ?thesis using 2(1,2) by (auto simp: restored_Cons split: option.splits)
  next
    case False
    then obtain s d o' where s: "from_value v = Some s" and k: "split_once ''.'' k = Some (d, o')" by auto
    show ?thesis
      using 2(3) [OF s k refl] s k split_once_dot [OF k] by (simp add: restored_Cons store.write_all_def)
  qed
qed (simp add: restored_def store.write_all_def)

lemma restored_persisted:
  assumes "list_all (\<lambda>(_, s). Option.bind (to_value s) from_value = Some s) (store_get_all st)"
    and "list_all (\<lambda>k. CHR ''.'' \<in> set k) (store_list_ids st)"
  shows "restored from_value (persist_snapshot to_value st) = store_get_all st"
  using assms
proof (induction st)
  case (Cons e st)
  obtain k s t tx where e: "e = (k, s, t, tx)" by (cases e)
  obtain v where v: "to_value s = Some v" "from_value v = Some s"
    using Cons.prems(1) e by (cases "to_value s") (auto simp: store_get_all_def)
  have "split_once ''.'' k \<noteq> None" using Cons.prems e split_once_dot_None [of k] by (simp add: store_list_ids_def)
  then show ?case
    using Cons e v by (simp add: persist_snapshot_def store_get_all_def store_list_ids_def restored_Cons)
qed (simp add: restored_def persist_snapshot_def store_get_all_def)

lemma store_get_all_iff: "map_of (store_get_all st) eid = store_get eid st"
  by (induction st) (auto simp: store_get_all_def store_get_def)

text \<open>A snapshot written to disk and read back into an empty store restores the state of
  every entity and reports their number, provided that serde reads back the states it wrote and
  that every entity id has the form \<open>domain.object\<close>.\<close>
theorem snapshot_roundtrip:
  assumes serde: "list_all (\<lambda>(_, s). Option.bind (to_value s) from_value = Some s) (store_get_all st)"
    and ids: "list_all (\<lambda>k. CHR ''.'' \<in> set k) (store_list_ids st)"
    and distinct: "distinct (store_list_ids st)"
    and restore: "restore_snapshot ops now from_value (persist_snapshot to_value st) [] = (st', n)"
  shows "(\<forall>eid. store_get eid st' = store_get eid st) \<and> n = store_count st"
proof -
  have writes: "restored from_value (persist_snapshot to_value st) = store_get_all st"
    by (rule restored_persisted [OF serde ids])
  have keys: "map fst (store_get_all st) = store_list_ids st"
    by (simp add: store_get_all_def store_list_ids_def split_beta comp_def)
  have "store_get eid st' = store_get eid st" for eid
  proof -
    have "store_get eid st' = map_of (rev (store_get_all st)) eid"
      using restore restore_writes [of ops now from_value "persist_snapshot to_value st" "[]"] writes
        store.lookup_write_all [of eid ops now "store_get_all st" "[]"]
      by (auto simp: store_get_def split: option.splits)
    also have "\<dots> = map_of (store_get_all st) eid"
      using distinct keys by (metis distinct_rev map_of_inject_set rev_map set_rev)
    finally show ?thesis by (simp add: store_get_all_iff)
  qed
  moreover have "n = store_count st"
    using restore restore_writes [of ops now from_value "persist_snapshot to_value st" "[]"] writes
    by (simp add: store_get_all_def store_count_def)
  ultimately show ?thesis by simp
qed

text \<open>The externally tagged form in which serde writes a switch.\<close>

definition switch_value :: "entity_state \<Rightarrow> json option" where
  "switch_value s = (case s of Switch b \<Rightarrow> Some (JObj [(''Switch'', JObj [(''is_on'', JBool b)])]) | _ \<Rightarrow> None)"

definition value_switch :: "json \<Rightarrow> entity_state option" where
  "value_switch v =
     (case Option.bind (json_get ''Switch'' v) (json_get ''is_on'') of Some (JBool b) \<Rightarrow> Some (Switch b) | _ \<Rightarrow> None)"

theorem snapshot_roundtrip_witness:
  "(let st = store_update counted_watch 7 ''switch.a'' (Switch True) [];
        (st', n) = restore_snapshot counted_watch 9 value_switch (persist_snapshot switch_value st) []
    in store_get ''switch.a'' st' = Some (Switch True) \<and> n = 1)"
proof -
  let ?st = "store_update counted_watch 7 ''switch.a'' (Switch True) []"
  obtain st' n where r: "restore_snapshot counted_watch 9 value_switch (persist_snapshot switch_value ?st) [] = (st', n)"
    by fastforce
  have st: "store_get_all ?st = [(''switch.a'', Switch True)]" "store_list_ids ?st = [''switch.a'']"
    by (simp_all add: store_update_def store_get_all_def store_list_ids_def)
  have "(\<forall>eid. store_get eid st' = store_get eid ?st) \<and> n = store_count ?st"
    by (rule snapshot_roundtrip [OF _ _ _ r]) (simp_all add: st switch_value_def value_switch_def json_get_def)
  moreover have "store_get ''switch.a'' ?st = Some (Switch True)" "store_count ?st = 1"
    by (simp_all add: store_get_update) (simp add: store_count_def store_update_def)
  ultimately show ?thesis using r by simp
qed

end
