(* ===== verification/EntityRuntime.thy ===== *)
theory EntityRuntime
  imports Domains StateStore
begin

text \<open>
  Entities and devices at run time (\<open>rshome-entity\<close>: \<open>entity_actor.rs\<close>, \<open>device_actor.rs\<close>,
  \<open>device_manager.rs\<close>, \<open>registry.rs\<close>). Every entity is an actor with a mailbox; the actors
  share the state store and the entity registry. A world holds the shared objects and the
  living actors. Entity messages are queued and delivered one at a time in any order
  between actors; a message to a device or to the device manager is handled when it is
  sent. Actor references are numbers, and a send to an actor that has ended fails.

  The lemmas show that the store tells the state of the entities (the invariant \<open>coherent\<close>)
  and that all runs refine a map of states that only commands, settings and removals change.
\<close>

section \<open>State\<close>

datatype entity_msg = GetState | SetState entity_state | Command entity_command | StopEntity

record entity_actor =
  ea_descriptor :: entity_descriptor
  ea_state :: entity_state
  ea_mailbox :: "entity_msg list"

text \<open>What an entity actor sends out: the answer to \<open>GetState\<close> and its change events.\<close>

datatype entity_output = Replied entity_state | Changed state_changed

type_synonym actor_ref = nat

record entity_registry =
  er_inner :: "(entity_id \<times> actor_ref) list"
  er_descriptors :: "(entity_id \<times> entity_descriptor) list"

record device_actor =
  da_descriptor :: device_descriptor
  da_entity_refs :: "(entity_id \<times> actor_ref) list"

record 'w world =
  w_store :: "'w store"
  w_registry :: entity_registry
  w_entities :: "(actor_ref \<times> entity_actor) list"
  w_devices :: "(actor_ref \<times> device_actor) list"
  w_manager :: "(device_id \<times> device_descriptor \<times> actor_ref) list"
  w_next :: actor_ref

definition actor_id_of :: "entity_actor \<Rightarrow> entity_id" where
  "actor_id_of ea = ed_entity_id (ea_descriptor ea)"

section \<open>The registry of entities\<close>

definition register_entity :: "entity_id \<Rightarrow> actor_ref \<Rightarrow> entity_registry \<Rightarrow> entity_registry" where
  "register_entity eid r reg = reg\<lparr>er_inner := reg_insert eid r (er_inner reg)\<rparr>"

definition register_descriptor :: "entity_descriptor \<Rightarrow> entity_registry \<Rightarrow> entity_registry" where
  "register_descriptor d reg = reg\<lparr>er_descriptors := reg_insert (ed_entity_id d) d (er_descriptors reg)\<rparr>"

definition get_descriptor :: "entity_id \<Rightarrow> entity_registry \<Rightarrow> entity_descriptor option" where
  "get_descriptor eid reg = map_of (er_descriptors reg) eid"

definition registered :: "entity_id \<Rightarrow> entity_registry \<Rightarrow> actor_ref option" where
  "registered eid reg = map_of (er_inner reg) eid"

definition unregister :: "entity_id \<Rightarrow> entity_registry \<Rightarrow> entity_registry" where
  "unregister eid reg =
     \<lparr>er_inner = reg_remove eid (er_inner reg), er_descriptors = reg_remove eid (er_descriptors reg)\<rparr>"

definition list_all_ids :: "entity_registry \<Rightarrow> entity_id list" where
  "list_all_ids reg = map fst (er_inner reg)"

definition list_by_domain :: "string \<Rightarrow> entity_registry \<Rightarrow> entity_id list" where
  "list_by_domain domain reg = filter (\<lambda>eid. id_domain eid = domain) (map fst (er_inner reg))"

definition entity_count :: "entity_registry \<Rightarrow> nat" where
  "entity_count reg = length (er_inner reg)"

section \<open>An entity\<close>

definition set_state_internal ::
    "'w watch_ops \<Rightarrow> nat \<Rightarrow> entity_state \<Rightarrow> entity_actor \<Rightarrow> 'w store \<Rightarrow> entity_actor \<times> 'w store \<times> entity_output list" where
  "set_state_internal ops now new_state ea st =
     (ea\<lparr>ea_state := new_state\<rparr>, store_update ops now (actor_id_of ea) new_state st,
      [Changed \<lparr>sc_entity_id = actor_id_of ea, sc_old = ea_state ea, sc_new = new_state\<rparr>])"

definition apply_command ::
    "'w watch_ops \<Rightarrow> nat \<Rightarrow> entity_command \<Rightarrow> entity_actor \<Rightarrow> 'w store \<Rightarrow> entity_actor \<times> 'w store \<times> entity_output list" where
  "apply_command ops now cmd ea st =
     (case get_domain (ed_domain_id (ea_descriptor ea)) of
        Some domain \<Rightarrow>
          (case dd_apply domain (ea_state ea) cmd of
             Inr new_state \<Rightarrow> set_state_internal ops now new_state ea st
           | Inl _ \<Rightarrow> (ea, st, []))
      | None \<Rightarrow> (ea, st, []))"

text \<open>The handler; the last component is the request to stop.\<close>

definition entity_handle ::
    "'w watch_ops \<Rightarrow> nat \<Rightarrow> entity_msg \<Rightarrow> entity_actor \<Rightarrow> 'w store \<Rightarrow>
     (entity_actor \<times> 'w store \<times> entity_output list) \<times> bool" where
  "entity_handle ops now msg ea st =
     (case msg of
        GetState \<Rightarrow> ((ea, st, [Replied (ea_state ea)]), False)
      | SetState new_state \<Rightarrow> (set_state_internal ops now new_state ea st, False)
      | Command cmd \<Rightarrow> (apply_command ops now cmd ea st, False)
      | StopEntity \<Rightarrow> ((ea, st, []), True))"

definition entity_post_stop :: "'w watch_ops \<Rightarrow> nat \<Rightarrow> entity_actor \<Rightarrow> 'w store \<Rightarrow> 'w store" where
  "entity_post_stop ops now ea st = store_update ops now (actor_id_of ea) Unavailable st"

section \<open>Sending and delivering\<close>

definition send_entity :: "actor_ref \<Rightarrow> entity_msg \<Rightarrow> 'w world \<Rightarrow> bool \<times> 'w world" where
  "send_entity r msg w =
     (case map_of (w_entities w) r of
        None \<Rightarrow> (False, w)
      | Some ea \<Rightarrow> (True, w\<lparr>w_entities := reg_insert r (ea\<lparr>ea_mailbox := ea_mailbox ea @ [msg]\<rparr>) (w_entities w)\<rparr>))"

text \<open>The actor \<open>r\<close> takes its next message; when it stops it leaves the world after \<open>post_stop\<close>.\<close>

definition deliver :: "'w watch_ops \<Rightarrow> nat \<Rightarrow> actor_ref \<Rightarrow> 'w world \<Rightarrow> 'w world \<times> entity_output list" where
  "deliver ops now r w =
     (case map_of (w_entities w) r of
        None \<Rightarrow> (w, [])
      | Some ea \<Rightarrow>
          (case ea_mailbox ea of
             [] \<Rightarrow> (w, [])
           | msg # rest \<Rightarrow>
               (case entity_handle ops now msg (ea\<lparr>ea_mailbox := rest\<rparr>) (w_store w) of
                  ((ea', st, out), False) \<Rightarrow>
                    (w\<lparr>w_store := st, w_entities := reg_insert r ea' (w_entities w)\<rparr>, out)
                | ((ea', st, out), True) \<Rightarrow>
                    (w\<lparr>w_store := entity_post_stop ops now ea' st, w_entities := reg_remove r (w_entities w)\<rparr>, out))))"

section \<open>Devices\<close>

definition spawn_entity :: "entity_descriptor \<Rightarrow> entity_state \<Rightarrow> 'w world \<Rightarrow> actor_ref \<times> 'w world" where
  "spawn_entity d s w =
     (w_next w, w\<lparr>w_entities := reg_insert (w_next w) \<lparr>ea_descriptor = d, ea_state = s, ea_mailbox = []\<rparr> (w_entities w),
                 w_next := Suc (w_next w)\<rparr>)"

definition on_device :: "actor_ref \<Rightarrow> (device_actor \<Rightarrow> 'w world \<Rightarrow> 'w world) \<Rightarrow> 'w world \<Rightarrow> 'w world" where
  "on_device dr f w = (case map_of (w_devices w) dr of None \<Rightarrow> w | Some da \<Rightarrow> f da w)"

definition put_device :: "actor_ref \<Rightarrow> device_actor \<Rightarrow> 'w world \<Rightarrow> 'w world" where
  "put_device dr da w = w\<lparr>w_devices := reg_insert dr da (w_devices w)\<rparr>"

definition update_info :: "actor_ref \<Rightarrow> device_descriptor \<Rightarrow> 'w world \<Rightarrow> 'w world" where
  "update_info dr d = on_device dr (\<lambda>da. put_device dr (da\<lparr>da_descriptor := d\<rparr>))"

definition add_entity ::
    "'w watch_ops \<Rightarrow> nat \<Rightarrow> actor_ref \<Rightarrow> entity_descriptor \<Rightarrow> entity_state \<Rightarrow> 'w world \<Rightarrow> 'w world" where
  "add_entity ops now dr d s = on_device dr (\<lambda>da w.
     (let eid = ed_entity_id d;
          w1 = w\<lparr>w_store := store_update ops now eid s (w_store w),
                 w_registry := register_descriptor d (w_registry w)\<rparr>;
          (r, w2) = spawn_entity d s w1
      in put_device dr (da\<lparr>da_entity_refs := reg_insert eid r (da_entity_refs da)\<rparr>)
           (w2\<lparr>w_registry := register_entity eid r (w_registry w2)\<rparr>)))"

definition attach_entity :: "actor_ref \<Rightarrow> entity_descriptor \<Rightarrow> actor_ref \<Rightarrow> 'w world \<Rightarrow> 'w world" where
  "attach_entity dr d r = on_device dr (\<lambda>da w.
     put_device dr (da\<lparr>da_entity_refs := reg_insert (ed_entity_id d) r (da_entity_refs da)\<rparr>)
       (w\<lparr>w_registry := register_entity (ed_entity_id d) r (register_descriptor d (w_registry w))\<rparr>))"

definition remove_entity :: "actor_ref \<Rightarrow> entity_id \<Rightarrow> 'w world \<Rightarrow> 'w world" where
  "remove_entity dr eid = on_device dr (\<lambda>da w.
     (case map_of (da_entity_refs da) eid of
        None \<Rightarrow> w
      | Some r \<Rightarrow>
          (let (_, w1) = send_entity r StopEntity
                 (put_device dr (da\<lparr>da_entity_refs := reg_remove eid (da_entity_refs da)\<rparr>) w)
           in w1\<lparr>w_registry := unregister eid (w_registry w1)\<rparr>)))"

definition device_entities :: "actor_ref \<Rightarrow> 'w world \<Rightarrow> entity_id list option" where
  "device_entities dr w = map_option (\<lambda>da. map fst (da_entity_refs da)) (map_of (w_devices w) dr)"

definition stop_entities :: "(entity_id \<times> actor_ref) list \<Rightarrow> 'w world \<Rightarrow> 'w world" where
  "stop_entities refs w =
     fold (\<lambda>(eid, r) w. (let (_, w1) = send_entity r StopEntity w
                         in w1\<lparr>w_registry := unregister eid (w_registry w1)\<rparr>)) refs w"

definition stop_device :: "actor_ref \<Rightarrow> 'w world \<Rightarrow> 'w world" where
  "stop_device dr = on_device dr (\<lambda>da w.
     (stop_entities (da_entity_refs da) w)\<lparr>w_devices := reg_remove dr (w_devices w)\<rparr>)"

section \<open>The device manager\<close>

definition spawn_device :: "device_descriptor \<Rightarrow> 'w world \<Rightarrow> actor_ref \<times> 'w world" where
  "spawn_device d w =
     (w_next w, w\<lparr>w_devices := reg_insert (w_next w) \<lparr>da_descriptor = d, da_entity_refs = []\<rparr> (w_devices w),
                 w_next := Suc (w_next w)\<rparr>)"

definition add_device :: "device_descriptor \<Rightarrow> 'w world \<Rightarrow> actor_ref \<times> 'w world" where
  "add_device d w =
     (let did = dv_device_id d;
          fresh = (\<lambda>w. let (dr, w1) = spawn_device d w
                       in (dr, w1\<lparr>w_manager := reg_insert did (d, dr) (w_manager w1)\<rparr>))
      in case map_of (w_manager w) did of
           None \<Rightarrow> fresh w
         | Some (_, dr) \<Rightarrow>
             (let w1 = w\<lparr>w_manager := reg_insert did (d, dr) (w_manager w)\<rparr>
              in if map_of (w_devices w) dr \<noteq> None then (dr, update_info dr d w1) else fresh w1))"

definition remove_device :: "device_id \<Rightarrow> 'w world \<Rightarrow> 'w world" where
  "remove_device did w =
     (case map_of (w_manager w) did of
        None \<Rightarrow> w
      | Some (_, dr) \<Rightarrow> stop_device dr (w\<lparr>w_manager := reg_remove did (w_manager w)\<rparr>))"

definition get_device :: "device_id \<Rightarrow> 'w world \<Rightarrow> actor_ref option" where
  "get_device did w = map_option snd (map_of (w_manager w) did)"

definition list_devices :: "'w world \<Rightarrow> device_descriptor list" where
  "list_devices w = map (\<lambda>(_, d, _). d) (w_manager w)"

definition entities_for_device :: "device_id \<Rightarrow> 'w world \<Rightarrow> entity_id list" where
  "entities_for_device did w =
     (case map_of (w_manager w) did of
        None \<Rightarrow> []
      | Some (_, dr) \<Rightarrow> (case device_entities dr w of Some ids \<Rightarrow> ids | None \<Rightarrow> []))"

definition stop_manager :: "'w world \<Rightarrow> 'w world" where
  "stop_manager w = fold (\<lambda>(_, _, dr). stop_device dr) (w_manager w) w"

section \<open>Runs\<close>

text \<open>The actor \<open>r\<close> is told to stop by its supervisor: it ends without taking another message.\<close>

definition stop_signal :: "'w watch_ops \<Rightarrow> nat \<Rightarrow> actor_ref \<Rightarrow> 'w world \<Rightarrow> 'w world" where
  "stop_signal ops now r w =
     (case map_of (w_entities w) r of
        None \<Rightarrow> w
      | Some ea \<Rightarrow> w\<lparr>w_store := entity_post_stop ops now ea (w_store w), w_entities := reg_remove r (w_entities w)\<rparr>)"

datatype event =
    Send actor_ref entity_msg
  | Deliver nat actor_ref
  | StopSignal nat actor_ref
  | AddEntity nat actor_ref entity_descriptor entity_state
  | AttachEntity actor_ref entity_descriptor actor_ref
  | RemoveEntity actor_ref entity_id
  | UpdateInfo actor_ref device_descriptor
  | StopDevice actor_ref
  | AddDevice device_descriptor
  | RemoveDevice device_id
  | StopManager

fun perform :: "'w watch_ops \<Rightarrow> event \<Rightarrow> 'w world \<Rightarrow> 'w world" where
  "perform ops (Send r msg) w = snd (send_entity r msg w)"
| "perform ops (Deliver now r) w = fst (deliver ops now r w)"
| "perform ops (StopSignal now r) w = stop_signal ops now r w"
| "perform ops (AddEntity now dr d s) w = add_entity ops now dr d s w"
| "perform ops (AttachEntity dr d r) w = attach_entity dr d r w"
| "perform ops (RemoveEntity dr eid) w = remove_entity dr eid w"
| "perform ops (UpdateInfo dr d) w = update_info dr d w"
| "perform ops (StopDevice dr) w = stop_device dr w"
| "perform ops (AddDevice d) w = snd (add_device d w)"
| "perform ops (RemoveDevice did) w = remove_device did w"
| "perform ops StopManager w = stop_manager w"

definition initial_world :: "'w world" where
  "initial_world = \<lparr>w_store = [], w_registry = \<lparr>er_inner = [], er_descriptors = []\<rparr>, w_entities = [],
     w_devices = [], w_manager = [], w_next = 0\<rparr>"

definition living_ids :: "'w world \<Rightarrow> entity_id set" where
  "living_ids w = (\<lambda>(_, ea). actor_id_of ea) ` set (w_entities w)"

text \<open>An entity is only added under an id that no living actor uses, one that is still to
  handle its \<open>StopEntity\<close> included. The code does not check this.\<close>

fun fresh_event :: "event \<Rightarrow> 'w world \<Rightarrow> bool" where
  "fresh_event (AddEntity _ _ d _) w = (ed_entity_id d \<notin> living_ids w)"
| "fresh_event _ w = True"

inductive reachable :: "'w watch_ops \<Rightarrow> 'w world \<Rightarrow> bool" for ops where
  initial: "reachable ops initial_world"
| step: "reachable ops w \<Longrightarrow> fresh_event ev w \<Longrightarrow> reachable ops (perform ops ev w)"

section \<open>The store and the actors agree\<close>

text \<open>The living entities: their reference, id and state.\<close>

definition cells :: "'w world \<Rightarrow> (actor_ref \<times> entity_id \<times> entity_state) list" where
  "cells w = map (\<lambda>(r, ea). (r, actor_id_of ea, ea_state ea)) (w_entities w)"

definition coherent :: "'w world \<Rightarrow> bool" where
  "coherent w \<longleftrightarrow>
     distinct (map fst (cells w)) \<and> distinct (map (fst \<circ> snd) (cells w))
     \<and> (\<forall>(r, eid, s) \<in> set (cells w). r < w_next w \<and> store_get eid (w_store w) = Some s)"

text \<open>Steps that touch neither the store nor what the actors are and hold.\<close>

definition same_cells :: "'w world \<Rightarrow> 'w world \<Rightarrow> bool" where
  "same_cells w w' \<longleftrightarrow> w_store w' = w_store w \<and> w_next w \<le> w_next w' \<and> cells w' = cells w"

lemma same_cells_refl [simp]: "same_cells w w"
  by (simp add: same_cells_def)

lemma same_cells_trans: "same_cells w w' \<Longrightarrow> same_cells w' w'' \<Longrightarrow> same_cells w w''"
  by (simp add: same_cells_def)

lemma same_cells_frame:
  "w_store w' = w_store w \<Longrightarrow> w_next w \<le> w_next w' \<Longrightarrow> w_entities w' = w_entities w \<Longrightarrow> same_cells w w'"
  by (simp add: same_cells_def cells_def)

lemma coherent_same: "same_cells w w' \<Longrightarrow> coherent w \<Longrightarrow> coherent w'"
  by (fastforce simp: same_cells_def coherent_def)

lemma map_reg_insert_same:
  "map_of m k = Some v \<Longrightarrow> f (k, v') = f (k, v) \<Longrightarrow> map f (reg_insert k v' m) = map f m"
  by (induction m) auto

lemma send_same: "same_cells w (snd (send_entity r msg w))"
  by (auto simp: send_entity_def same_cells_def cells_def actor_id_of_def intro!: map_reg_insert_same split: option.splits)

text \<open>The steps of devices and of the manager, except for the addition of an entity.\<close>

lemma on_device_same:
  "(\<And>da. map_of (w_devices w) dr = Some da \<Longrightarrow> same_cells w (f da w)) \<Longrightarrow> same_cells w (on_device dr f w)"
  by (auto simp: on_device_def split: option.splits)

lemma put_device_same: "same_cells w w' \<Longrightarrow> same_cells w (put_device dr da w')"
  by (rule same_cells_trans) (auto simp: put_device_def intro: same_cells_frame)

lemma update_info_same: "same_cells w (update_info dr d w)"
  unfolding update_info_def by (intro on_device_same put_device_same) simp

lemma attach_same: "same_cells w (attach_entity dr d r w)"
  unfolding attach_entity_def by (intro on_device_same put_device_same) (simp add: same_cells_frame)

lemma send_unregister_same:
  "same_cells w (let (_, w1) = send_entity r msg w in w1\<lparr>w_registry := f w1\<rparr>)"
  by (rule same_cells_trans [OF send_same [of w r msg]]) (auto simp: split_beta Let_def intro: same_cells_frame)

lemma remove_same: "same_cells w (remove_entity dr eid w)"
  unfolding remove_entity_def
proof (rule on_device_same, goal_cases)
  case (1 da)
  have "same_cells w (let (_, w1) = send_entity r StopEntity (put_device dr da' w)
          in w1\<lparr>w_registry := unregister eid (w_registry w1)\<rparr>)" for r da'
    by (rule same_cells_trans [OF put_device_same [OF same_cells_refl] send_unregister_same])
  then show ?case by (auto split: option.splits)
qed

lemma stop_entities_same: "same_cells w (stop_entities refs w)"
proof (induction refs arbitrary: w)
  case (Cons x refs)
  have eq: "stop_entities (x # refs) w =
      stop_entities refs (let (_, w1) = send_entity (snd x) StopEntity w
                          in w1\<lparr>w_registry := unregister (fst x) (w_registry w1)\<rparr>)"
    by (simp add: stop_entities_def split_beta)
  show ?case unfolding eq by (rule same_cells_trans [OF send_unregister_same Cons.IH])
qed (simp add: stop_entities_def)

lemma stop_device_same: "same_cells w (stop_device dr w)"
  unfolding stop_device_def
  by (rule on_device_same, rule same_cells_trans [OF stop_entities_same], rule same_cells_frame) simp_all

lemma spawn_device_same: "same_cells w (snd (spawn_device d w))"
  by (simp add: spawn_device_def same_cells_frame)

lemma set_manager_same: "same_cells w (w\<lparr>w_manager := m\<rparr>)"
  by (simp add: same_cells_frame)

lemma enrol_device_same:
  "same_cells w (snd (let (dr, w1) = spawn_device d w in (dr, w1\<lparr>w_manager := reg_insert did (d, dr) (w_manager w1)\<rparr>)))"
  by (simp add: spawn_device_def same_cells_frame)

lemma add_device_same: "same_cells w (snd (add_device d w))"
proof (cases "map_of (w_manager w) (dv_device_id d)")
  case None
  then show ?thesis using enrol_device_same unfolding add_device_def Let_def by simp
next
  case (Some entry)
  let ?w1 = "w\<lparr>w_manager := reg_insert (dv_device_id d) (d, snd entry) (w_manager w)\<rparr>"
  have "same_cells w (update_info (snd entry) d ?w1)"
    by (rule same_cells_trans [OF set_manager_same update_info_same])
  moreover have "same_cells w (snd (let (dr, w1) = spawn_device d ?w1
      in (dr, w1\<lparr>w_manager := reg_insert (dv_device_id d) (d, dr) (w_manager w1)\<rparr>)))"
    by (rule same_cells_trans [OF set_manager_same enrol_device_same])
  ultimately show ?thesis using Some unfolding add_device_def Let_def by (simp add: split_beta)
qed

lemma remove_device_same: "same_cells w (remove_device did w)"
proof (cases "map_of (w_manager w) did")
  case (Some entry)
  have "same_cells w (stop_device (snd entry) (w\<lparr>w_manager := reg_remove did (w_manager w)\<rparr>))"
    by (rule same_cells_trans [OF set_manager_same stop_device_same])
  then show ?thesis using Some by (simp add: remove_device_def split_beta)
qed (simp add: remove_device_def)

lemma stop_manager_same: "same_cells w (stop_manager w)"
proof -
  have "same_cells w (fold (\<lambda>(_, _, dr). stop_device dr) ds w)" for ds :: "(device_id \<times> device_descriptor \<times> actor_ref) list"
    by (induction ds arbitrary: w) (simp_all add: split_beta, metis same_cells_trans stop_device_same)
  then show ?thesis by (simp add: stop_manager_def)
qed

section \<open>Steps that change an entity\<close>

abbreviation cell_of :: "actor_ref \<times> entity_actor \<Rightarrow> actor_ref \<times> entity_id \<times> entity_state" where
  "cell_of \<equiv> \<lambda>(r, ea). (r, actor_id_of ea, ea_state ea)"

lemma cells_put:
  "distinct (map fst m) \<Longrightarrow> map_of m r = Some ea \<Longrightarrow> actor_id_of ea' = actor_id_of ea \<Longrightarrow>
     map cell_of (reg_insert r ea' m)
       = map (\<lambda>(r', eid, s). (r', eid, if r' = r then ea_state ea' else s)) (map cell_of m)"
proof (induction m)
  case (Cons p m)
  have keep: "map (\<lambda>(r', eid, s). (r', eid, if r' = r then ea_state ea' else s)) (map cell_of m) = map cell_of m"
    if "r \<notin> fst ` set m"
    using that by (auto simp: rev_image_eqI)
  show ?case
  proof (cases "fst p = r")
    case True
    then have "r \<notin> fst ` set m" using Cons.prems(1) by auto
    then show ?thesis using True Cons.prems(2,3) keep by (cases p) (simp del: map_map)
  next
    case False
    then show ?thesis using Cons by (cases p) simp
  qed
qed simp

lemma cells_drop: "map cell_of (reg_remove r m) = filter (\<lambda>c. fst c \<noteq> r) (map cell_of m)"
  by (induction m) (auto simp: reg_remove_def)

lemma coherent_refs: "coherent w \<Longrightarrow> distinct (map fst (w_entities w))"
  by (simp add: coherent_def cells_def comp_def split_beta)

lemma coherent_cell:
  assumes "coherent w" and "map_of (w_entities w) r = Some ea"
  shows "(r, actor_id_of ea, ea_state ea) \<in> set (cells w)"
    and "store_get (actor_id_of ea) (w_store w) = Some (ea_state ea)" and "r < w_next w"
proof -
  show cell: "(r, actor_id_of ea, ea_state ea) \<in> set (cells w)"
    using map_of_SomeD [OF assms(2)] by (force simp: cells_def)
  then show "store_get (actor_id_of ea) (w_store w) = Some (ea_state ea)" and "r < w_next w"
    using assms(1) by (auto simp: coherent_def)
qed

lemma coherent_other:
  assumes "coherent w" and "(r, eid, s) \<in> set (cells w)" and "(r', eid, s') \<in> set (cells w)"
  shows "r' = r"
proof -
  have "inj_on (fst \<circ> snd) (set (cells w))" using assms(1) by (auto simp: coherent_def distinct_map)
  from inj_onD [OF this _ assms(2,3)] show ?thesis by simp
qed

lemma coherent_write:
  assumes "coherent w" and "(r, eid, s) \<in> set (cells w)"
    and cells: "cells w' = map (\<lambda>(r', eid, s0). (r', eid, if r' = r then s' else s0)) (cells w)"
    and store: "\<And>e. store_get e (w_store w') = (if e = eid then Some s' else store_get e (w_store w))"
    and "w_next w' = w_next w"
  shows "coherent w'"
proof -
  have keys: "map fst (cells w') = map fst (cells w)" "map (fst \<circ> snd) (cells w') = map (fst \<circ> snd) (cells w)"
    unfolding cells by (simp_all add: comp_def split_beta)
  have "r' < w_next w' \<and> store_get e (w_store w') = Some s1" if mem: "(r', e, s1) \<in> set (cells w')" for r' e s1
  proof -
    obtain s0 where s0: "(r', e, s0) \<in> set (cells w)" "s1 = (if r' = r then s' else s0)"
      using mem unfolding cells by auto
    have "e = eid \<longleftrightarrow> r' = r"
    proof
      assume "e = eid"
      with coherent_other [OF assms(1,2)] s0(1) show "r' = r" by simp
    next
      assume "r' = r"
      moreover have "inj_on fst (set (cells w))" using assms(1) by (simp add: coherent_def distinct_map)
      ultimately show "e = eid" using inj_onD [of fst "set (cells w)"] s0(1) assms(2) by fastforce
    qed
    then show ?thesis using s0 assms(1,5) store by (auto simp: coherent_def)
  qed
  then show ?thesis using assms(1) keys by (auto simp: coherent_def)
qed

lemma coherent_end:
  assumes "coherent w" and "(r, eid, s) \<in> set (cells w)"
    and cells: "cells w' = filter (\<lambda>c. fst c \<noteq> r) (cells w)"
    and store: "\<And>e. e \<noteq> eid \<Longrightarrow> store_get e (w_store w') = store_get e (w_store w)"
    and "w_next w' = w_next w"
  shows "coherent w'"
proof -
  have other: "e \<noteq> eid" "(r', e, s1) \<in> set (cells w)" if "(r', e, s1) \<in> set (cells w')" for r' e s1
    using that coherent_other [OF assms(1,2)] unfolding cells by auto
  have "\<forall>(r', e, s1) \<in> set (cells w'). r' < w_next w' \<and> store_get e (w_store w') = Some s1"
  proof clarify
    fix r' e s1
    assume "(r', e, s1) \<in> set (cells w')"
    from other [OF this] show "r' < w_next w' \<and> store_get e (w_store w') = Some s1"
      using assms(1,5) store [of e] by (auto simp: coherent_def)
  qed
  moreover have "distinct (map fst (cells w'))" "distinct (map (fst \<circ> snd) (cells w'))"
    using assms(1) unfolding cells by (simp_all add: coherent_def distinct_map_filter)
  ultimately show ?thesis by (simp add: coherent_def)
qed

lemma coherent_spawn:
  assumes "coherent w" and "eid \<notin> living_ids w"
    and cells: "cells w' = cells w @ [(w_next w, eid, s)]"
    and store: "\<And>e. store_get e (w_store w') = (if e = eid then Some s else store_get e (w_store w))"
    and "w_next w' = Suc (w_next w)"
  shows "coherent w'"
proof -
  have new: "e \<noteq> eid" if "(r, e, s1) \<in> set (cells w)" for r e s1
    using that assms(2) by (force simp: living_ids_def cells_def)
  have "w_next w \<notin> fst ` set (cells w)" using assms(1) by (fastforce simp: coherent_def)
  moreover have "eid \<notin> (fst \<circ> snd) ` set (cells w)" using new by force
  ultimately have "distinct (map fst (cells w'))" "distinct (map (fst \<circ> snd) (cells w'))"
    using assms(1) unfolding cells by (simp_all add: coherent_def)
  moreover have "\<forall>(r, e, s1) \<in> set (cells w'). r < w_next w' \<and> store_get e (w_store w') = Some s1"
  proof clarify
    fix r e s1
    assume mem: "(r, e, s1) \<in> set (cells w')"
    show "r < w_next w' \<and> store_get e (w_store w') = Some s1"
    proof (cases "(r, e, s1) \<in> set (cells w)")
      case True
      then show ?thesis using new [OF True] assms(1,5) store [of e] by (auto simp: coherent_def)
    next
      case False
      then show ?thesis using mem assms(5) store unfolding cells by auto
    qed
  qed
  ultimately show ?thesis by (simp add: coherent_def)
qed

section \<open>The specification: a map of states\<close>

text \<open>What one step may do to the map: nothing, let an entity obey a command of its domain, or
  give an entity a new state.\<close>

datatype effect = NoEffect | Obey entity_id string entity_command | Put entity_id entity_state

definition obey :: "string \<Rightarrow> entity_command \<Rightarrow> entity_state \<Rightarrow> entity_state" where
  "obey d cmd s = (case apply_in d s cmd of Some (Inr s') \<Rightarrow> s' | _ \<Rightarrow> s)"

fun spec_effect :: "effect \<Rightarrow> (entity_id \<rightharpoonup> entity_state) \<Rightarrow> (entity_id \<rightharpoonup> entity_state)" where
  "spec_effect NoEffect a = a"
| "spec_effect (Obey eid d cmd) a = a(eid := map_option (obey d cmd) (a eid))"
| "spec_effect (Put eid s) a = a(eid \<mapsto> s)"

definition message_effect :: "entity_actor \<Rightarrow> effect" where
  "message_effect ea =
     (case ea_mailbox ea of
        [] \<Rightarrow> NoEffect
      | msg # _ \<Rightarrow>
          (case msg of
             GetState \<Rightarrow> NoEffect
           | SetState s \<Rightarrow> Put (actor_id_of ea) s
           | Command cmd \<Rightarrow> Obey (actor_id_of ea) (ed_domain_id (ea_descriptor ea)) cmd
           | StopEntity \<Rightarrow> Put (actor_id_of ea) Unavailable))"

text \<open>Which effect an event has, read off the message that is delivered.\<close>

fun effect_of :: "event \<Rightarrow> 'w world \<Rightarrow> effect" where
  "effect_of (Deliver _ r) w = (case map_of (w_entities w) r of Some ea \<Rightarrow> message_effect ea | None \<Rightarrow> NoEffect)"
| "effect_of (StopSignal _ r) w = (case map_of (w_entities w) r of Some ea \<Rightarrow> Put (actor_id_of ea) Unavailable | None \<Rightarrow> NoEffect)"
| "effect_of (AddEntity _ dr d s) w = (if map_of (w_devices w) dr = None then NoEffect else Put (ed_entity_id d) s)"
| "effect_of _ w = NoEffect"

definition view :: "'w world \<Rightarrow> entity_id \<rightharpoonup> entity_state" where
  "view w eid = store_get eid (w_store w)"

text \<open>A step is sound when it keeps the invariant and does to the map what its effect says.\<close>

definition sound :: "effect \<Rightarrow> 'w world \<Rightarrow> 'w world \<Rightarrow> bool" where
  "sound eff w w' \<longleftrightarrow> coherent w' \<and> view w' = spec_effect eff (view w)"

lemma sound_same: "coherent w \<Longrightarrow> same_cells w w' \<Longrightarrow> sound NoEffect w w'"
  using coherent_same [of w w'] by (auto simp: sound_def view_def same_cells_def fun_eq_iff)

lemma sound_write:
  assumes "coherent w" and "map_of (w_entities w) r = Some ea"
    and "actor_id_of ea' = actor_id_of ea" and "ea_state ea' = s"
  shows "sound (Put (actor_id_of ea) s) w
           (w\<lparr>w_store := store_update ops now (actor_id_of ea) s (w_store w), w_entities := reg_insert r ea' (w_entities w)\<rparr>)"
    (is "sound _ _ ?w'")
proof -
  have "coherent ?w'"
    by (rule coherent_write [OF assms(1) coherent_cell(1) [OF assms(1,2)], of _ "ea_state ea'"])
       (simp_all add: cells_def cells_put [OF coherent_refs [OF assms(1)] assms(2,3)] store_get_update
          assms(4) [symmetric] del: map_map list.map_comp)
  then show ?thesis by (auto simp: sound_def view_def store_get_update fun_eq_iff)
qed

lemma sound_end:
  assumes "coherent w" and "map_of (w_entities w) r = Some ea" and "actor_id_of ea' = actor_id_of ea"
  shows "sound (Put (actor_id_of ea) Unavailable) w
           (w\<lparr>w_store := entity_post_stop ops now ea' (w_store w), w_entities := reg_remove r (w_entities w)\<rparr>)"
    (is "sound _ _ ?w'")
proof -
  have "coherent ?w'"
    by (rule coherent_end [OF assms(1) coherent_cell(1) [OF assms(1,2)]])
       (simp_all add: cells_def cells_drop entity_post_stop_def store_get_update assms(3))
  then show ?thesis by (auto simp: sound_def view_def store_get_update fun_eq_iff entity_post_stop_def assms(3))
qed

lemma sound_quiet:
  assumes "coherent w" and "map_of (w_entities w) r = Some ea"
  shows "sound NoEffect w (w\<lparr>w_entities := reg_insert r (ea\<lparr>ea_mailbox := rest\<rparr>) (w_entities w)\<rparr>)"
  by (rule sound_same [OF assms(1)])
     (simp add: same_cells_def cells_def map_reg_insert_same [OF assms(2)] actor_id_of_def)

lemma sound_command:
  assumes "coherent w" and "map_of (w_entities w) r = Some ea"
    and "apply_command ops now cmd (ea\<lparr>ea_mailbox := rest\<rparr>) (w_store w) = (ea', st, out)"
  shows "sound (Obey (actor_id_of ea) (ed_domain_id (ea_descriptor ea)) cmd) w
           (w\<lparr>w_store := st, w_entities := reg_insert r ea' (w_entities w)\<rparr>)"
proof -
  let ?d = "ed_domain_id (ea_descriptor ea)" and ?s = "ea_state ea"
  have stored: "view w (actor_id_of ea) = Some ?s"
    using coherent_cell(2) [OF assms(1,2)] by (simp add: view_def)
  show ?thesis
  proof (cases "\<exists>s'. apply_in ?d ?s cmd = Some (Inr s')")
    case True
    then obtain s' where s': "apply_in ?d ?s cmd = Some (Inr s')" by blast
    then have "spec_effect (Obey (actor_id_of ea) ?d cmd) (view w) = spec_effect (Put (actor_id_of ea) s') (view w)"
      using stored by (auto simp: fun_eq_iff obey_def)
    then show ?thesis
      using assms(3) s' sound_write [OF assms(1,2), of "ea\<lparr>ea_mailbox := rest, ea_state := s'\<rparr>" s' ops now]
      by (auto simp: sound_def apply_in_def apply_command_def set_state_internal_def actor_id_of_def)
  next
    case False
    then have "obey ?d cmd ?s = ?s" by (auto simp: obey_def split: option.splits sum.splits)
    then have "spec_effect (Obey (actor_id_of ea) ?d cmd) (view w) = view w" using stored by (auto simp: fun_eq_iff)
    moreover have "ea' = ea\<lparr>ea_mailbox := rest\<rparr>" "st = w_store w"
      using assms(3) False by (auto simp: apply_command_def apply_in_def split: option.splits sum.splits)
    ultimately show ?thesis using sound_quiet [OF assms(1,2), of rest] by (simp add: sound_def)
  qed
qed

lemma sound_deliver:
  assumes "coherent w"
  shows "sound (effect_of (Deliver now r) w) w (fst (deliver ops now r w))"
proof (cases "\<exists>ea msg rest. map_of (w_entities w) r = Some ea \<and> ea_mailbox ea = msg # rest")
  case False
  then have "fst (deliver ops now r w) = w" and "effect_of (Deliver now r) w = NoEffect"
    by (auto simp: deliver_def message_effect_def neq_Nil_conv split: option.splits list.splits)
  then show ?thesis using assms by (simp add: sound_same)
next
  case True
  then obtain ea msg rest where ea: "map_of (w_entities w) r = Some ea" and mail: "ea_mailbox ea = msg # rest" by blast
  let ?ea = "ea\<lparr>ea_mailbox := rest\<rparr>"
  show ?thesis
  proof (cases msg)
    case GetState
    then show ?thesis
      using ea mail sound_quiet [OF assms ea, of rest] by (simp add: deliver_def entity_handle_def message_effect_def)
  next
    case (SetState s)
    then show ?thesis
      using ea mail sound_write [OF assms ea, of "?ea\<lparr>ea_state := s\<rparr>" s ops now]
      by (simp add: deliver_def entity_handle_def message_effect_def set_state_internal_def actor_id_of_def)
  next
    case (Command cmd)
    obtain ea' st out where "apply_command ops now cmd ?ea (w_store w) = (ea', st, out)" by (metis prod.exhaust)
    then show ?thesis
      using ea mail Command sound_command [OF assms ea] by (simp add: deliver_def entity_handle_def message_effect_def)
  next
    case StopEntity
    then show ?thesis
      using ea mail sound_end [OF assms ea, of ?ea ops now]
      by (simp add: deliver_def entity_handle_def message_effect_def actor_id_of_def)
  qed
qed

lemma sound_stop_signal: "coherent w \<Longrightarrow> sound (effect_of (StopSignal now r) w) w (stop_signal ops now r w)"
  using sound_end [of w r _ _ ops now] by (auto simp: stop_signal_def sound_same split: option.splits)

lemma sound_add:
  assumes "coherent w" and "ed_entity_id d \<notin> living_ids w"
  shows "sound (effect_of (AddEntity now dr d s) w) w (add_entity ops now dr d s w)"
proof (cases "map_of (w_devices w) dr")
  case None
  then show ?thesis using assms(1) by (simp add: add_entity_def on_device_def sound_same)
next
  case (Some da)
  let ?w' = "add_entity ops now dr d s w"
  have new: "w_next w \<notin> fst ` set (w_entities w)" using assms(1) by (fastforce simp: coherent_def cells_def)
  have store: "w_store ?w' = store_update ops now (ed_entity_id d) s (w_store w)" "w_next ?w' = Suc (w_next w)"
    and entities: "w_entities ?w' = w_entities w @ [(w_next w, \<lparr>ea_descriptor = d, ea_state = s, ea_mailbox = []\<rparr>)]"
    using Some new
    by (simp_all add: add_entity_def on_device_def put_device_def spawn_entity_def Let_def reg_insert_new)
  have "coherent ?w'"
    by (rule coherent_spawn [OF assms]) (simp_all add: cells_def entities store store_get_update actor_id_of_def)
  then show ?thesis using Some by (auto simp: sound_def view_def fun_eq_iff store store_get_update)
qed

lemma sound_perform: "coherent w \<Longrightarrow> fresh_event ev w \<Longrightarrow> sound (effect_of ev w) w (perform ops ev w)"
  using sound_deliver sound_stop_signal sound_add sound_same [OF _ send_same] sound_same [OF _ attach_same]
    sound_same [OF _ remove_same] sound_same [OF _ update_info_same] sound_same [OF _ stop_device_same]
    sound_same [OF _ add_device_same] sound_same [OF _ remove_device_same] sound_same [OF _ stop_manager_same]
  by (cases ev) (simp_all only: perform.simps effect_of.simps fresh_event.simps)

lemma reachable_coherent: "reachable ops w \<Longrightarrow> coherent w"
proof (induction rule: reachable.induct)
  case initial
  show ?case by (simp add: coherent_def cells_def initial_world_def)
next
  case (step w ev)
  then show ?case using sound_perform [of w ev ops] by (simp add: sound_def)
qed

text \<open>C8. The store tells the state of the entities: in every reachable world a living entity
  actor is in the state that the store holds for its id, and no two living actors share
  an id, as long as entities are only added under ids that no living actor uses.\<close>
theorem store_is_current:
  assumes "reachable ops w" and "map_of (w_entities w) r = Some ea"
  shows "store_get (actor_id_of ea) (w_store w) = Some (ea_state ea)
    \<and> (\<forall>r' ea'. map_of (w_entities w) r' = Some ea' \<and> actor_id_of ea' = actor_id_of ea \<longrightarrow> r' = r)"
proof (intro conjI allI impI)
  note coherent = reachable_coherent [OF assms(1)]
  show "store_get (actor_id_of ea) (w_store w) = Some (ea_state ea)" by (rule coherent_cell(2) [OF coherent assms(2)])
  fix r' ea'
  assume "map_of (w_entities w) r' = Some ea' \<and> actor_id_of ea' = actor_id_of ea"
  then show "r' = r"
    using coherent_other [OF coherent coherent_cell(1) [OF coherent assms(2)]] coherent_cell(1) [OF coherent, of r' ea']
    by auto
qed

text \<open>C3. The runtime refines a map from entities to states: a step changes the map exactly as
  the specification says for the message it delivers. A command has the effect that the
  domain tables give for the state in the map, a setting replaces the state, a stop makes the
  entity unavailable, and no other step, of a device or of the manager, changes it. As in every
  reachable world, an entity is added under an id that no living actor uses (\<open>fresh_event\<close>), which the
  code does not check.\<close>
theorem runtime_refines_map:
  assumes "reachable ops w" and "fresh_event ev w"
  shows "view (perform ops ev w) = spec_effect (effect_of ev w) (view w)"
  using sound_perform [OF reachable_coherent [OF assms(1)] assms(2)] by (simp add: sound_def)

section \<open>Two short runs\<close>

definition lamp :: entity_descriptor where
  "lamp = \<lparr>ed_entity_id = ''switch.lamp'', ed_name = ''Lamp'', ed_icon = None, ed_device_id = Some ''d'',
     ed_area_id = None, ed_category = NoCategory, ed_domain_id = ''switch'',
     ed_feature_set = [''state'', ''toggle''], ed_device_class = None\<rparr>"

definition board :: device_descriptor where
  "board = \<lparr>dv_device_id = ''d'', dv_name = ''Board'', dv_model = None, dv_manufacturer = None,
     dv_sw_version = None, dv_area_id = None\<rparr>"

fun performs :: "'w watch_ops \<Rightarrow> event list \<Rightarrow> 'w world \<Rightarrow> 'w world" where
  "performs ops [] w = w"
| "performs ops (ev # evs) w = performs ops evs (perform ops ev w)"

named_theorems run_simps \<open>evaluation of concrete runs\<close>

lemmas [run_simps] =
  add_device_def spawn_device_def update_info_def on_device_def put_device_def add_entity_def spawn_entity_def
  remove_entity_def send_entity_def deliver_def entity_handle_def apply_command_def set_state_internal_def
  entity_post_stop_def register_entity_def register_descriptor_def unregister_def registered_def reg_remove_def
  actor_id_of_def initial_world_def store_update_def store_get_def lamp_def board_def Let_def
  get_domain_def built_in_domains_def domain_defs switch_apply_def

definition lamp_world :: "(entity_state option \<times> nat) world" where
  "lamp_world = performs counted_watch [AddDevice board, AddEntity 1 0 lamp (Switch False)] initial_world"

lemma lamp_reachable: "reachable counted_watch lamp_world"
proof -
  have "reachable counted_watch (perform counted_watch (AddEntity 1 0 lamp (Switch False))
          (perform counted_watch (AddDevice board) initial_world))"
    by (intro reachable.intros) (simp_all add: living_ids_def run_simps)
  then show ?thesis by (simp add: lamp_world_def)
qed

lemma lamp_actor:
  "map_of (w_entities lamp_world) 1 = Some \<lparr>ea_descriptor = lamp, ea_state = Switch False, ea_mailbox = []\<rparr>"
  by (simp add: lamp_world_def run_simps)

theorem store_is_current_witness: "store_get ''switch.lamp'' (w_store lamp_world) = Some (Switch False)"
  using store_is_current [OF lamp_reachable lamp_actor] by (simp add: actor_id_of_def lamp_def)

theorem runtime_refines_map_witness:
  "view (perform counted_watch (Deliver 3 1) (perform counted_watch (Send 1 (Command TurnOn)) lamp_world)) ''switch.lamp''
     = Some (Switch True)"
proof -
  let ?w = "perform counted_watch (Send 1 (Command TurnOn)) lamp_world"
  have r: "reachable counted_watch ?w" using reachable.step [OF lamp_reachable, of "Send 1 (Command TurnOn)"] by simp
  have eff: "effect_of (Deliver 3 1) ?w = Obey ''switch.lamp'' ''switch'' TurnOn"
    by (simp add: send_entity_def lamp_actor message_effect_def actor_id_of_def del: One_nat_def) (simp add: lamp_def)
  have "view ?w ''switch.lamp'' = Some (Switch False)"
    using coherent_cell(2) [OF reachable_coherent [OF lamp_reachable] lamp_actor]
    by (simp add: view_def send_entity_def lamp_actor actor_id_of_def del: One_nat_def) (simp add: lamp_def)
  moreover have "obey ''switch'' TurnOn (Switch False) = Switch True"
    by (simp add: obey_def apply_in_def run_simps)
  ultimately show ?thesis using runtime_refines_map [OF r, of "Deliver 3 1"] eff by (simp del: perform.simps effect_of.simps)
qed

text \<open>The assumption on added ids is needed. When an entity is removed and added again
  before its first actor has handled the stop message, that actor's \<open>post_stop\<close> runs after the
  new one has stored its state: the store then reports the registered, living entity as
  unavailable.\<close>
theorem readded_entity_unavailable:
  "(let w = performs counted_watch
              [RemoveEntity 0 ''switch.lamp'', AddEntity 4 0 lamp (Switch True), Deliver 5 1] lamp_world
    in registered ''switch.lamp'' (w_registry w) = Some 2
       \<and> map_option ea_state (map_of (w_entities w) 2) = Some (Switch True)
       \<and> view w ''switch.lamp'' = Some Unavailable)"
  by (simp add: lamp_world_def view_def run_simps)

end
