(* ===== verification/Services.thy ===== *)
theory Services
  imports EntityRuntime
begin

text \<open>
  Service calls (\<open>rshome-svc\<close>): the table of services, the translation of a service into an
  entity command, the resolution of a target to entity actors and the dispatch of the
  command to them. The service registry acts on the world of \<open>EntityRuntime\<close>; the device
  manager it asks is the world's, when it was given one.

  The lemmas follow a call from its arguments to the state store.
\<close>

section \<open>Data\<close>

datatype service_target =
    AllEntities
  | EntityIds "entity_id list"
  | TargetDevice device_id
  | TargetDomain string

record service_descriptor =
  sd_domain :: string
  sd_service :: string
  sd_description :: "string option"

datatype service_error = ServiceNotFound string string | NoTargets | EntityError string

type_synonym services = "((string \<times> string) \<times> service_descriptor) list"

section \<open>Commands and services\<close>

definition command_for_service :: "string \<Rightarrow> string \<Rightarrow> json \<Rightarrow> entity_command option" where
  "command_for_service domain service data =
     (case get_domain domain of
        Some def \<Rightarrow> dd_encode def service data
      | None \<Rightarrow>
          (let alias = (\<lambda>canonical. Option.bind (get_domain canonical) (\<lambda>def. dd_encode def service data))
           in if domain = ''input_number'' then alias ''number''
              else if domain = ''input_select'' then alias ''select''
              else if domain = ''input_text'' then alias ''text''
              else on_off_encode service))"

definition builtin_services :: "(string \<times> string) list" where
  "builtin_services =
     concat (map (\<lambda>def. (case resolve_wire_type (dd_id def) of
         Some (_, features) \<Rightarrow> map (\<lambda>svc. (dd_id def, svc)) (services_for (dd_id def) features)
       | None \<Rightarrow> [])) built_in_domains)"

definition register_service :: "service_descriptor \<Rightarrow> services \<Rightarrow> services" where
  "register_service d services = reg_insert (sd_domain d, sd_service d) d services"

definition new_services :: services where
  "new_services = fold (\<lambda>(domain, service).
     register_service \<lparr>sd_domain = domain, sd_service = service, sd_description = None\<rparr>) builtin_services []"

definition list_services :: "services \<Rightarrow> service_descriptor list" where
  "list_services services = map snd services"

section \<open>Targets\<close>

definition refs_of :: "entity_id list \<Rightarrow> entity_registry \<Rightarrow> actor_ref list" where
  "refs_of ids reg = List.map_filter (\<lambda>eid. registered eid reg) ids"

definition resolve_target :: "bool \<Rightarrow> service_target \<Rightarrow> 'w world \<Rightarrow> actor_ref list" where
  "resolve_target has_manager target w =
     (case target of
        AllEntities \<Rightarrow> refs_of (list_all_ids (w_registry w)) (w_registry w)
      | EntityIds ids \<Rightarrow> refs_of ids (w_registry w)
      | TargetDomain domain \<Rightarrow> refs_of (list_by_domain domain (w_registry w)) (w_registry w)
      | TargetDevice did \<Rightarrow>
          if has_manager then refs_of (entities_for_device did w) (w_registry w) else [])"

section \<open>Calls\<close>

definition send_all :: "actor_ref list \<Rightarrow> entity_msg \<Rightarrow> 'w world \<Rightarrow> 'w world" where
  "send_all refs msg w = fold (\<lambda>r w. snd (send_entity r msg w)) refs w"

definition service_call ::
    "services \<Rightarrow> bool \<Rightarrow> string \<Rightarrow> string \<Rightarrow> service_target \<Rightarrow> json \<Rightarrow> 'w world \<Rightarrow> (service_error + nat) \<times> 'w world" where
  "service_call services has_manager domain service target data w =
     (if map_of services (domain, service) = None then (Inl (ServiceNotFound domain service), w)
      else let refs = resolve_target has_manager target w
        in if refs = [] then (Inl NoTargets, w)
           else case command_for_service domain service data of
                  Some cmd \<Rightarrow> (Inr (length refs), send_all refs (Command cmd) w)
                | None \<Rightarrow> (Inr 0, w))"

section \<open>Facts\<close>

lemma send_all_same: "same_cells w (send_all refs msg w)"
proof (induction refs arbitrary: w)
  case (Cons r refs)
  have "same_cells w (snd (send_entity r msg w))" by (rule send_same)
  then show ?case using Cons [of "snd (send_entity r msg w)"] by (auto simp: send_all_def intro: same_cells_trans)
qed (simp add: send_all_def)

lemma service_call_same: "same_cells w (snd (service_call services m domain service target data w))"
  using send_all_same by (auto simp: service_call_def Let_def split: option.splits)

lemma distinct_domain_ids: "distinct (map dd_id built_in_domains)"
  by (simp add: built_in_domains_def domain_defs)

lemma get_domain_id: "def \<in> set built_in_domains \<Longrightarrow> get_domain (dd_id def) = Some def"
  unfolding get_domain_def
  by (rule map_of_is_SomeI) (auto simp: comp_def distinct_domain_ids)

lemma new_services_keys: "map_of new_services (d, svc) \<noteq> None \<longleftrightarrow> (d, svc) \<in> set builtin_services"
proof -
  have "dom (map_of (fold (\<lambda>(domain, service).
            register_service \<lparr>sd_domain = domain, sd_service = service, sd_description = None\<rparr>) xs m))
          = set xs \<union> dom (map_of m)" for xs :: "(string \<times> string) list" and m
    by (induction xs arbitrary: m) (auto simp: register_service_def)
  from this [of builtin_services "[]"] show ?thesis by (force simp: new_services_def)
qed

lemma builtin_services_iff:
  "(d, svc) \<in> set builtin_services \<longleftrightarrow>
     (\<exists>def. get_domain d = Some def \<and> svc \<in> set (services_for d (all_def_features def)))"
proof -
  have "(d, svc) \<in> set builtin_services \<longleftrightarrow>
      (\<exists>def \<in> set built_in_domains. dd_id def = d \<and> svc \<in> set (services_for d (all_def_features def)))"
    by (auto simp: builtin_services_def resolve_wire_type_def get_domain_id)
  also have "\<dots> \<longleftrightarrow> (\<exists>def. get_domain d = Some def \<and> svc \<in> set (services_for d (all_def_features def)))"
    using get_domain_mem get_domain_id by metis
  finally show ?thesis .
qed

lemma builtin_services_listed:
  assumes "get_domain d = Some def"
  shows "(d, svc) \<in> set builtin_services \<longleftrightarrow> svc \<in> set (dd_services def [])"
proof -
  have "serves def" using get_domain_mem [OF assms] built_in_serve by (simp add: list_all_iff)
  then show ?thesis using assms services_for_all [OF assms] by (simp add: builtin_services_iff serves_def)
qed

lemma get_domain_named:
  "get_domain ''switch'' = Some switch_domain" "get_domain ''cover'' = Some cover_domain"
  "get_domain ''climate'' = Some climate_domain"
  by (simp_all add: get_domain_def built_in_domains_def domain_defs)

section \<open>A call end to end\<close>

lemma call_reaches_store:
  assumes run: "reachable ops w"
    and entity: "registered eid (w_registry w) = Some r" "map_of (w_entities w) r = Some ea" "ea_mailbox ea = []"
    and service: "map_of services (domain, service) \<noteq> None"
    and cmd: "command_for_service domain service data = Some cmd"
    and call: "service_call services m domain service (EntityIds [eid]) data w = (reply, w1)"
  shows "reply = Inr 1
    \<and> view (fst (deliver ops now r w1)) =
        (view w)(actor_id_of ea \<mapsto> obey (ed_domain_id (ea_descriptor ea)) cmd (ea_state ea))"
proof -
  note coherent = reachable_coherent [OF run]
  have refs: "resolve_target m (EntityIds [eid]) w = [r]"
    using entity(1) by (simp add: resolve_target_def refs_of_def List.map_filter_def)
  have w1: "w1 = snd (send_entity r (Command cmd) w)" and reply: "reply = Inr 1"
    using call service cmd refs by (auto simp: service_call_def send_all_def)
  have same: "same_cells w w1" unfolding w1 by (rule send_same)
  have "effect_of (Deliver now r) w1 = Obey (actor_id_of ea) (ed_domain_id (ea_descriptor ea)) cmd"
    using entity(2,3) by (simp add: w1 send_entity_def message_effect_def actor_id_of_def)
  moreover have "sound (effect_of (Deliver now r) w1) w1 (fst (deliver ops now r w1))"
    by (rule sound_deliver [OF coherent_same [OF same coherent]])
  moreover have "view w1 = view w" using same by (auto simp: view_def same_cells_def fun_eq_iff)
  moreover have "view w (actor_id_of ea) = Some (ea_state ea)"
    using coherent_cell(2) [OF coherent entity(2)] by (simp add: view_def)
  ultimately show ?thesis using reply by (auto simp: sound_def fun_eq_iff)
qed

text \<open>A service call itself changes no entity state, and its answer says what happened: an
  unregistered service and an empty target are errors, a service without command for the
  data answers 0 and sends nothing, and otherwise the answer is the number of entities the
  target resolved to.\<close>
theorem service_call_answer:
  "view (snd (service_call services m domain service target data w)) = view w
   \<and> fst (service_call services m domain service target data w) =
      (if map_of services (domain, service) = None then Inl (ServiceNotFound domain service)
       else if resolve_target m target w = [] then Inl NoTargets
       else case command_for_service domain service data of
              None \<Rightarrow> Inr 0
            | Some _ \<Rightarrow> Inr (length (resolve_target m target w)))
   \<and> (fst (service_call services m domain service target data w) \<in> {Inl NoTargets, Inr 0} \<longrightarrow>
        snd (service_call services m domain service target data w) = w)"
proof (intro conjI)
  show "view (snd (service_call services m domain service target data w)) = view w"
    using service_call_same [of w services m domain service target data] by (simp add: view_def same_cells_def fun_eq_iff)
qed (auto simp: service_call_def Let_def split: option.splits)

theorem service_call_answer_witness:
  "fst (service_call new_services True ''switch'' ''explode'' AllEntities JNull lamp_world)
     = Inl (ServiceNotFound ''switch'' ''explode'')"
proof -
  have "\<not> map_of new_services (''switch'', ''explode'') \<noteq> None"
    unfolding new_services_keys builtin_services_listed [OF get_domain_named(1)] by (simp add: switch_domain_def)
  then show ?thesis
    using service_call_answer [of new_services True "''switch''" "''explode''" AllEntities JNull lamp_world] by simp
qed

text \<open>C19. From the call to the store: calling a registered service on one registered entity
  whose mailbox is empty answers 1, and when the entity has handled the message the store
  holds the state that the entity's domain computes for the encoded command, every other
  entity being as before.\<close>
theorem service_call_reaches_store:
  assumes run: "reachable ops w"
    and entity: "registered eid (w_registry w) = Some r" "map_of (w_entities w) r = Some ea" "ea_mailbox ea = []"
    and service: "map_of services (domain, service) \<noteq> None"
    and cmd: "command_for_service domain service data = Some cmd"
    and call: "service_call services m domain service (EntityIds [eid]) data w = (reply, w1)"
  shows "reply = Inr 1
    \<and> view (fst (deliver ops now r w1)) =
        (view w)(actor_id_of ea \<mapsto> obey (ed_domain_id (ea_descriptor ea)) cmd (ea_state ea))"
  by (rule call_reaches_store [OF assms])

theorem service_call_reaches_store_witness:
  "(let (reply, w1) = service_call new_services False ''switch'' ''toggle'' (EntityIds [''switch.lamp'']) JNull lamp_world
    in reply = Inr 1 \<and> view (fst (deliver counted_watch 9 1 w1)) ''switch.lamp'' = Some (Switch True))"
proof -
  obtain reply w1 where call:
    "service_call new_services False ''switch'' ''toggle'' (EntityIds [''switch.lamp'']) JNull lamp_world = (reply, w1)"
    by (metis prod.exhaust)
  have reg: "registered ''switch.lamp'' (w_registry lamp_world) = Some 1" by (simp add: lamp_world_def run_simps)
  have svc: "map_of new_services (''switch'', ''toggle'') \<noteq> None"
    unfolding new_services_keys builtin_services_listed [OF get_domain_named(1)] by (simp add: switch_domain_def)
  have cmd: "command_for_service ''switch'' ''toggle'' JNull = Some Toggle"
    by (simp add: command_for_service_def get_domain_named switch_domain_def switch_encode_def on_off_encode_def)
  have obey: "obey ''switch'' Toggle (Switch False) = Switch True"
    by (simp add: obey_def apply_in_def run_simps)
  show ?thesis
    using service_call_reaches_store [OF lamp_reachable reg lamp_actor _ svc cmd call, of 9] call obey
    by (simp add: actor_id_of_def lamp_def)
qed

end
