(* ===== verification/NativeApi.thy ===== *)
theory NativeApi
  imports Services
begin

text \<open>
  The messages of the native API (\<open>rshome-native-api\<close>): entity keys (\<open>fnv.rs\<close>), the frames
  that announce entities and push states (\<open>entity_list.rs\<close>, \<open>state_push.rs\<close>) and the
  dispatch of command frames to services (\<open>command_dispatch.rs\<close>). Protobuf encoding and
  decoding belong to \<open>prost\<close>: a frame that is sent is the message it encodes, and the
  decoders of the commands are a parameter. Of the generated message types the fields that
  the crate reads or sets are kept.

  The lemmas concern entity keys, the mode numbers of climates and the way of a command
  frame to the entity it addresses.
\<close>

section \<open>Keys\<close>

definition fnv_prime :: u32 where
  "fnv_prime = 0x01000193"

definition fnv_step :: "u32 \<Rightarrow> char \<Rightarrow> u32" where
  "fnv_step h b = (h XOR of_char b) * fnv_prime"

definition fnv1a_32 :: "string \<Rightarrow> u32" where
  "fnv1a_32 s = fold (\<lambda>b h. fnv_step h b) s 0x811c9dc5"

definition entity_key :: "entity_id \<Rightarrow> u32" where
  "entity_key eid = fnv1a_32 (id_object eid)"

section \<open>Message numbers\<close>

definition HELLO_REQUEST :: u32 where "HELLO_REQUEST = 1"
definition HELLO_RESPONSE :: u32 where "HELLO_RESPONSE = 2"
definition DISCONNECT_REQUEST :: u32 where "DISCONNECT_REQUEST = 5"
definition DISCONNECT_RESPONSE :: u32 where "DISCONNECT_RESPONSE = 6"
definition PING_REQUEST :: u32 where "PING_REQUEST = 7"
definition PING_RESPONSE :: u32 where "PING_RESPONSE = 8"
definition DEVICE_INFO_REQUEST :: u32 where "DEVICE_INFO_REQUEST = 9"
definition DEVICE_INFO_RESPONSE :: u32 where "DEVICE_INFO_RESPONSE = 10"
definition LIST_ENTITIES_REQUEST :: u32 where "LIST_ENTITIES_REQUEST = 11"
definition LIST_ENTITIES_DONE :: u32 where "LIST_ENTITIES_DONE = 19"
definition SUBSCRIBE_STATES :: u32 where "SUBSCRIBE_STATES = 20"
definition COVER_COMMAND :: u32 where "COVER_COMMAND = 29"
definition FAN_COMMAND :: u32 where "FAN_COMMAND = 30"
definition SWITCH_COMMAND :: u32 where "SWITCH_COMMAND = 33"
definition BUTTON_COMMAND :: u32 where "BUTTON_COMMAND = 34"
definition LIGHT_COMMAND :: u32 where "LIGHT_COMMAND = 36"
definition CLIMATE_COMMAND :: u32 where "CLIMATE_COMMAND = 48"
definition NUMBER_COMMAND :: u32 where "NUMBER_COMMAND = 51"
definition SELECT_COMMAND :: u32 where "SELECT_COMMAND = 55"

lemmas msg_types =
  HELLO_REQUEST_def HELLO_RESPONSE_def DISCONNECT_REQUEST_def DISCONNECT_RESPONSE_def PING_REQUEST_def
  PING_RESPONSE_def DEVICE_INFO_REQUEST_def DEVICE_INFO_RESPONSE_def LIST_ENTITIES_REQUEST_def
  LIST_ENTITIES_DONE_def SUBSCRIBE_STATES_def COVER_COMMAND_def FAN_COMMAND_def SWITCH_COMMAND_def
  BUTTON_COMMAND_def LIGHT_COMMAND_def CLIMATE_COMMAND_def NUMBER_COMMAND_def SELECT_COMMAND_def

section \<open>States and entities as messages\<close>

type_synonym i32 = "32 word"

definition climate_mode_to_int :: "string \<Rightarrow> i32" where
  "climate_mode_to_int mode =
     (if mode = ''off'' then 0 else if mode = ''heat_cool'' then 1 else if mode = ''cool'' then 2
      else if mode = ''heat'' then 3 else if mode = ''fan_only'' then 4 else if mode = ''dry'' then 5
      else if mode = ''auto'' then 6 else 0)"

definition climate_int_to_mode :: "i32 \<Rightarrow> string" where
  "climate_int_to_mode mode =
     (if mode = 0 then ''off'' else if mode = 1 then ''heat_cool'' else if mode = 2 then ''cool''
      else if mode = 3 then ''heat'' else if mode = 4 then ''fan_only'' else if mode = 5 then ''dry''
      else if mode = 6 then ''auto'' else ''off'')"

text \<open>The state responses; the first component is the key. A light carries its brightness and
  colour, a climate its mode, current and target temperature, a cover its position and
  operation.\<close>

datatype state_response =
    SensorStateResponse u32 f32
  | BinarySensorStateResponse u32 bool
  | SwitchStateResponse u32 bool
  | LightStateResponse u32 bool f32 f32 f32 f32
  | ClimateStateResponse u32 i32 f32 f32
  | FanStateResponse u32 bool i32
  | CoverStateResponse u32 f32 i32
  | NumberStateResponse u32 f32
  | SelectStateResponse u32 string
  | TextSensorStateResponse u32 string

abbreviation f32_zero :: f32 where
  "f32_zero \<equiv> F_Fin False 0"

definition opt_f32 :: "f64 option \<Rightarrow> f32" where
  "opt_f32 t = (case t of Some x \<Rightarrow> f64_as_f32 x | None \<Rightarrow> f32_zero)"

definition light_colour :: "rgb option \<Rightarrow> f32 \<times> f32 \<times> f32" where
  "light_colour c =
     (case c of
        Some (r, g, b) \<Rightarrow> (f32_over (f32_of_u8 r) 255, f32_over (f32_of_u8 g) 255, f32_over (f32_of_u8 b) 255)
      | None \<Rightarrow> (f32_zero, f32_zero, f32_zero))"

definition cover_operation :: "cover_state \<Rightarrow> i32" where
  "cover_operation c = (case c of CoverOpening \<Rightarrow> 1 | CoverClosing \<Rightarrow> 2 | _ \<Rightarrow> 0)"

definition state_to_frame :: "entity_id \<Rightarrow> entity_state \<Rightarrow> state_response option" where
  "state_to_frame eid state =
     (let key = entity_key eid in
      case state of
        Sensor value _ _ \<Rightarrow> Some (SensorStateResponse key (f64_as_f32 value))
      | BinarySensor is_on _ \<Rightarrow> Some (BinarySensorStateResponse key is_on)
      | Switch is_on \<Rightarrow> Some (SwitchStateResponse key is_on)
      | Light is_on brightness _ c _ \<Rightarrow>
          (case light_colour c of (r, g, b) \<Rightarrow> Some (LightStateResponse key is_on (opt_f32 brightness) r g b))
      | Climate mode current target _ \<Rightarrow>
          Some (ClimateStateResponse key (climate_mode_to_int mode) (opt_f32 current) (opt_f32 target))
      | Fan is_on speed _ _ \<Rightarrow> Some (FanStateResponse key is_on (case speed of Some s \<Rightarrow> ucast s | None \<Rightarrow> 0))
      | Cover c pos _ \<Rightarrow>
          Some (CoverStateResponse key
            (f32_over (f32_of_u8 (case pos of Some p \<Rightarrow> p | None \<Rightarrow> 0)) 100) (cover_operation c))
      | Number value _ _ _ _ \<Rightarrow> Some (NumberStateResponse key (f64_as_f32 value))
      | Select current _ \<Rightarrow> Some (SelectStateResponse key current)
      | TextSensor value \<Rightarrow> Some (TextSensorStateResponse key value)
      | _ \<Rightarrow> None)"

record list_header =
  lh_object_id :: string
  lh_key :: u32
  lh_name :: string
  lh_unique_id :: string

datatype list_response =
    ListSensor list_header string
  | ListBinarySensor list_header
  | ListSwitch list_header
  | ListLight list_header bool
  | ListClimate list_header
  | ListFan list_header
  | ListCover list_header
  | ListNumber list_header f32 f32 f32 string
  | ListSelect list_header "string list"
  | ListTextSensor list_header

definition entity_to_list_frame :: "entity_id \<Rightarrow> entity_state \<Rightarrow> list_response option" where
  "entity_to_list_frame eid state =
     (let h = \<lparr>lh_object_id = id_object eid, lh_key = entity_key eid, lh_name = id_object eid, lh_unique_id = eid\<rparr>;
          unit_text = (\<lambda>u. case u of Some t \<Rightarrow> t | None \<Rightarrow> [])
      in case state of
           Sensor _ u _ \<Rightarrow> Some (ListSensor h (unit_text u))
         | BinarySensor _ _ \<Rightarrow> Some (ListBinarySensor h)
         | Switch _ \<Rightarrow> Some (ListSwitch h)
         | Light _ brightness _ _ _ \<Rightarrow> Some (ListLight h (brightness \<noteq> None))
         | Climate _ _ _ _ \<Rightarrow> Some (ListClimate h)
         | Fan _ _ _ _ \<Rightarrow> Some (ListFan h)
         | Cover _ _ _ \<Rightarrow> Some (ListCover h)
         | Number _ mn mx step u \<Rightarrow>
             Some (ListNumber h (f64_as_f32 mn) (f64_as_f32 mx) (f64_as_f32 step) (unit_text u))
         | Select _ options \<Rightarrow> Some (ListSelect h options)
         | TextSensor _ \<Rightarrow> Some (ListTextSensor h)
         | _ \<Rightarrow> None)"

text \<open>The entities in the order of their ids. Asking an actor for its state queues \<open>GetState\<close>
  behind its other messages; \<open>asked\<close> is the answer, \<open>None\<close> when the actor is gone.\<close>

definition build_entity_list :: "(actor_ref \<Rightarrow> entity_state option) \<Rightarrow> entity_registry \<Rightarrow> list_response list" where
  "build_entity_list asked reg =
     concat (map (\<lambda>eid. case Option.bind (registered eid reg) asked of
         None \<Rightarrow> []
       | Some state \<Rightarrow>
           if state = Unavailable then []
           else (case entity_to_list_frame eid state of Some f \<Rightarrow> [f] | None \<Rightarrow> []))
       (sort (list_all_ids reg)))"

section \<open>Commands\<close>

record switch_request =
  sw_key :: u32
  sw_state :: bool

record light_request =
  li_key :: u32
  li_has_state :: bool
  li_state :: bool
  li_has_brightness :: bool
  li_brightness :: f32
  li_has_rgb :: bool
  li_red :: f32
  li_green :: f32
  li_blue :: f32

record climate_request =
  cl_key :: u32
  cl_has_mode :: bool
  cl_mode :: i32
  cl_has_target :: bool
  cl_target :: f32

record fan_request =
  fa_key :: u32
  fa_has_state :: bool
  fa_state :: bool
  fa_has_speed_level :: bool
  fa_speed_level :: i32

record cover_request =
  co_key :: u32
  co_has_position :: bool
  co_position :: f32
  co_stop :: bool

record number_request =
  nu_key :: u32
  nu_state :: f32

record select_request =
  se_key :: u32
  se_state :: string

record button_request =
  bu_key :: u32

text \<open>\<open>prost\<close>'s decoders; \<open>None\<close> is a decode error.\<close>

record decoders =
  dc_switch :: "u8 list \<Rightarrow> switch_request option"
  dc_light :: "u8 list \<Rightarrow> light_request option"
  dc_climate :: "u8 list \<Rightarrow> climate_request option"
  dc_fan :: "u8 list \<Rightarrow> fan_request option"
  dc_cover :: "u8 list \<Rightarrow> cover_request option"
  dc_number :: "u8 list \<Rightarrow> number_request option"
  dc_select :: "u8 list \<Rightarrow> select_request option"
  dc_button :: "u8 list \<Rightarrow> button_request option"

datatype api_error = EntityNotFound u32 | ServiceFailed service_error | DecodeFailed

definition find_entity_id :: "u32 \<Rightarrow> entity_registry \<Rightarrow> entity_id option" where
  "find_entity_id key reg = find (\<lambda>eid. entity_key eid = key) (list_all_ids reg)"

definition call_service ::
    "services \<Rightarrow> bool \<Rightarrow> string \<Rightarrow> string \<Rightarrow> entity_id \<Rightarrow> json \<Rightarrow> 'w world \<Rightarrow> (api_error + unit) \<times> 'w world" where
  "call_service services m domain service eid data w =
     (case service_call services m domain service (EntityIds [eid]) data w of
        (Inl e, w') \<Rightarrow> (Inl (ServiceFailed e), w')
      | (Inr _, w') \<Rightarrow> (Inr (), w'))"

text \<open>\<open>json!\<close> of a float is null unless the float is finite; of a signed integer it keeps the sign apart.\<close>

definition json_float :: "f64 \<Rightarrow> json" where
  "json_float x = (case x of F_Fin _ _ \<Rightarrow> JNum (Float x) | _ \<Rightarrow> JNull)"

definition json_i32 :: "i32 \<Rightarrow> json" where
  "json_i32 n = JNum (if sint n < 0 then NegInt (scast n) else PosInt (scast n))"

definition json_u8 :: "u8 \<Rightarrow> json" where
  "json_u8 n = JNum (PosInt (ucast n))"

text \<open>\<open>data["k"] = v\<close> when the condition holds.\<close>

definition set_when :: "bool \<Rightarrow> string \<Rightarrow> json \<Rightarrow> (string \<times> json) list \<Rightarrow> (string \<times> json) list" where
  "set_when c k v m = (if c then obj_insert k v m else m)"

definition on_off_service :: "bool \<Rightarrow> bool \<Rightarrow> string" where
  "on_off_service has_state state = (if has_state \<and> \<not> state then ''turn_off'' else ''turn_on'')"

text \<open>The service that each command becomes.\<close>

definition light_service :: "light_request \<Rightarrow> string \<times> json" where
  "light_service cmd =
     (on_off_service (li_has_state cmd) (li_state cmd),
      JObj (set_when (li_has_rgb cmd) ''rgb_color''
              (JArr (map (\<lambda>c. json_u8 (f64_as_u8 (f32_times c 255))) [li_red cmd, li_green cmd, li_blue cmd]))
           (set_when (li_has_brightness cmd) ''brightness'' (json_float (li_brightness cmd)) [])))"

definition climate_service :: "climate_request \<Rightarrow> string \<times> json" where
  "climate_service cmd =
     (''set_temperature'',
      JObj (set_when (cl_has_target cmd) ''temperature'' (json_float (cl_target cmd))
           (set_when (cl_has_mode cmd) ''hvac_mode'' (JStr (climate_int_to_mode (cl_mode cmd))) [])))"

definition fan_service :: "fan_request \<Rightarrow> string \<times> json" where
  "fan_service cmd =
     (on_off_service (fa_has_state cmd) (fa_state cmd),
      JObj (set_when (fa_has_speed_level cmd) ''percentage'' (json_i32 (fa_speed_level cmd)) []))"

definition cover_service :: "cover_request \<Rightarrow> string \<times> json" where
  "cover_service cmd =
     (if co_stop cmd then (''stop_cover'', JNull)
      else (''set_cover_position'',
            JObj (set_when (co_has_position cmd) ''position'' (json_u8 (f64_as_u8 (f32_times (co_position cmd) 100))) [])))"

text \<open>Decode, look the key up, call the service.\<close>

definition dispatch_to ::
    "services \<Rightarrow> bool \<Rightarrow> string \<Rightarrow> (u32 \<times> string \<times> json) option \<Rightarrow> 'w world \<Rightarrow> (api_error + unit) \<times> 'w world" where
  "dispatch_to services m domain request w =
     (case request of
        None \<Rightarrow> (Inl DecodeFailed, w)
      | Some (key, service, data) \<Rightarrow>
          (case find_entity_id key (w_registry w) of
             None \<Rightarrow> (Inl (EntityNotFound key), w)
           | Some eid \<Rightarrow> call_service services m domain service eid data w))"

definition dispatch ::
    "decoders \<Rightarrow> services \<Rightarrow> bool \<Rightarrow> u32 \<Rightarrow> u8 list \<Rightarrow> 'w world \<Rightarrow> (api_error + unit) \<times> 'w world" where
  "dispatch dc services m msg_type payload w =
     (if msg_type = SWITCH_COMMAND then
        dispatch_to services m ''switch''
          (map_option (\<lambda>cmd. (sw_key cmd, if sw_state cmd then ''turn_on'' else ''turn_off'', JNull)) (dc_switch dc payload)) w
      else if msg_type = LIGHT_COMMAND then
        dispatch_to services m ''light'' (map_option (\<lambda>cmd. (li_key cmd, light_service cmd)) (dc_light dc payload)) w
      else if msg_type = CLIMATE_COMMAND then
        dispatch_to services m ''climate'' (map_option (\<lambda>cmd. (cl_key cmd, climate_service cmd)) (dc_climate dc payload)) w
      else if msg_type = FAN_COMMAND then
        dispatch_to services m ''fan'' (map_option (\<lambda>cmd. (fa_key cmd, fan_service cmd)) (dc_fan dc payload)) w
      else if msg_type = COVER_COMMAND then
        dispatch_to services m ''cover'' (map_option (\<lambda>cmd. (co_key cmd, cover_service cmd)) (dc_cover dc payload)) w
      else if msg_type = NUMBER_COMMAND then
        dispatch_to services m ''number''
          (map_option (\<lambda>cmd. (nu_key cmd, ''set_value'', JObj [(''value'', json_float (nu_state cmd))])) (dc_number dc payload)) w
      else if msg_type = SELECT_COMMAND then
        dispatch_to services m ''select''
          (map_option (\<lambda>cmd. (se_key cmd, ''select_option'', JObj [(''option'', JStr (se_state cmd))])) (dc_select dc payload)) w
      else if msg_type = BUTTON_COMMAND then
        dispatch_to services m ''button'' (map_option (\<lambda>cmd. (bu_key cmd, ''press'', JNull)) (dc_button dc payload)) w
      else (Inr (), w))"

section \<open>Keys of entities\<close>

text \<open>The prime is odd, so multiplication by it can be undone and a step loses nothing.\<close>

lemma fnv_prime_inverse: "fnv_prime * 0x359C449B = 1"
  by (simp add: fnv_prime_def)

lemma fnv_prime_cancel: "a * fnv_prime = b * fnv_prime \<longleftrightarrow> a = b"
proof
  assume "a * fnv_prime = b * fnv_prime"
  then have "a * (fnv_prime * 0x359C449B) = b * (fnv_prime * 0x359C449B)"
    by (simp only: mult.assoc [symmetric])
  then show "a = b" by (simp only: fnv_prime_inverse mult_1_right)
qed simp

lemma xor_right_cancel: "g XOR x = h XOR x \<longleftrightarrow> g = (h :: u32)"
proof
  assume "g XOR x = h XOR x"
  then have "(g XOR x) XOR x = (h XOR x) XOR x" by (rule arg_cong)
  then show "g = h" by (simp add: xor.assoc)
qed simp

lemma fnv_step_inject: "fnv_step g b = fnv_step h b \<longleftrightarrow> g = h"
  by (simp add: fnv_step_def fnv_prime_cancel xor_right_cancel)

lemma of_char_u32_inject: "(of_char a :: u32) = of_char b \<longleftrightarrow> a = b"
proof
  have "unat (of_nat (of_char c) :: u32) = of_char c" for c
  proof -
    have "(of_char c :: nat) < 2 ^ LENGTH(32)" by (rule less_trans [OF nat_of_char_less_256]) simp
    then show ?thesis by (simp only: unat_of_nat mod_less)
  qed
  then have "unat (of_char c :: u32) = of_char c" for c by (simp only: of_nat_of_char)
  then show "(of_char a :: u32) = of_char b \<Longrightarrow> a = b" by (metis of_char_eq_iff)
qed simp

lemma fnv_step_char: "fnv_step h a = fnv_step h b \<longleftrightarrow> a = b"
  unfolding fnv_step_def fnv_prime_cancel xor.commute [of h] xor_right_cancel of_char_u32_inject ..

lemma fold_fnv_inject: "fold (\<lambda>b h. fnv_step h b) s g = fold (\<lambda>b h. fnv_step h b) s h \<longleftrightarrow> g = h"
  by (induction s arbitrary: g h) (auto simp: fnv_step_inject)

text \<open>Entity keys: the key depends on the object id alone, so entities of different domains
  with the same object id share it; two object ids that differ in exactly one character
  never do.\<close>
theorem entity_keys:
  assumes "CHR ''.'' \<notin> set d" "CHR ''.'' \<notin> set d'" "CHR ''.'' \<notin> set (u @ a # v)" "b \<noteq> CHR ''.''"
  shows "entity_key (new_entity_id d (u @ a # v)) = entity_key (new_entity_id d' (u @ a # v))
    \<and> (entity_key (new_entity_id d (u @ a # v)) = entity_key (new_entity_id d' (u @ b # v)) \<longleftrightarrow> a = b)"
proof -
  have "CHR ''.'' \<notin> set (u @ b # v)" using assms(3,4) by auto
  then have ids: "id_object (new_entity_id d (u @ a # v)) = u @ a # v" "id_object (new_entity_id d' (u @ a # v)) = u @ a # v"
    "id_object (new_entity_id d' (u @ b # v)) = u @ b # v"
    using assms by (simp_all add: id_object_new)
  show ?thesis
    unfolding entity_key_def ids fnv1a_32_def by (simp add: fold_fnv_inject fnv_step_char)
qed

theorem entity_keys_witness:
  "entity_key ''sensor.temp'' = entity_key ''switch.temp'' \<and> entity_key ''sensor.temp'' \<noteq> entity_key ''switch.tamp''"
  using entity_keys [of "''sensor''" "''switch''" "''t''" "CHR ''e''" "''mp''" "CHR ''a''"]
  by (auto simp: new_entity_id_def)

text \<open>The value the unit test of the crate fixes.\<close>

lemma fnv1a_temp: "fnv1a_32 ''temp'' = 3223044039"
  by (simp add: fnv1a_32_def fnv_step_def fnv_prime_def)

lemma climate_mode_roundtrip: "climate_mode_to_int (climate_int_to_mode n) = (if n \<in> {1, 2, 3, 4, 5, 6} then n else 0)"
  by (auto simp: climate_mode_to_int_def climate_int_to_mode_def)

section \<open>Command frames\<close>

lemma find_filter: "find P xs = (case filter P xs of [] \<Rightarrow> None | x # _ \<Rightarrow> Some x)"
  by (induction xs) auto

lemma dispatch_simps:
  "dispatch dc services m SWITCH_COMMAND payload w =
     dispatch_to services m ''switch''
       (map_option (\<lambda>cmd. (sw_key cmd, if sw_state cmd then ''turn_on'' else ''turn_off'', JNull)) (dc_switch dc payload)) w"
  "dispatch dc services m CLIMATE_COMMAND payload w =
     dispatch_to services m ''climate'' (map_option (\<lambda>cmd. (cl_key cmd, climate_service cmd)) (dc_climate dc payload)) w"
  "dispatch dc services m COVER_COMMAND payload w =
     dispatch_to services m ''cover'' (map_option (\<lambda>cmd. (co_key cmd, cover_service cmd)) (dc_cover dc payload)) w"
  by (simp_all add: dispatch_def msg_types)

lemma service_call_no_command:
  "command_for_service domain service data = None \<Longrightarrow> snd (service_call services m domain service target data w) = w"
  by (simp add: service_call_def Let_def)

lemma service_call_unknown:
  "map_of services (domain, service) = None \<Longrightarrow>
     service_call services m domain service target data w = (Inl (ServiceNotFound domain service), w)"
  by (simp add: service_call_def)

lemma dispatch_no_command:
  assumes "command_for_service domain service data = None"
  shows "snd (dispatch_to services m domain (Some (key, service, data)) w) = w"
proof (cases "find_entity_id key (w_registry w)")
  case (Some eid)
  then show ?thesis
    using service_call_no_command [OF assms, of services m "EntityIds [eid]" w]
    by (auto simp: dispatch_to_def call_service_def split: prod.splits sum.splits)
qed (simp add: dispatch_to_def)

lemma stop_cover_unknown: "map_of new_services (''cover'', ''stop_cover'') = None"
proof -
  have "\<not> map_of new_services (''cover'', ''stop_cover'') \<noteq> None"
    unfolding new_services_keys builtin_services_listed [OF get_domain_named(2)] by (simp add: cover_domain_def)
  then show ?thesis by simp
qed

lemma climate_mode_no_command:
  "\<not> cl_has_target cmd \<Longrightarrow>
     command_for_service ''climate'' (fst (climate_service cmd)) (snd (climate_service cmd)) = None"
  by (simp add: climate_service_def command_for_service_def get_domain_named climate_domain_def
        climate_encode_def set_when_def json_get_def)

text \<open>Two commands of the protocol have no effect. A climate command that sets the mode but
  no target temperature is turned into a call of \<open>set_temperature\<close> without a temperature,
  for which there is no command: nothing is sent. A cover command with \<open>stop\<close> is turned into
  a call of \<open>stop_cover\<close>, a service that no domain offers: it fails as unknown.\<close>
theorem lost_commands:
  assumes climate: "dc_climate dc payload = Some cl" "\<not> cl_has_target cl"
    and cover: "dc_cover dc payload' = Some co" "co_stop co" "find_entity_id (co_key co) (w_registry w) = Some eid"
  shows "snd (dispatch dc services m CLIMATE_COMMAND payload w) = w
    \<and> dispatch dc new_services m COVER_COMMAND payload' w
        = (Inl (ServiceFailed (ServiceNotFound ''cover'' ''stop_cover'')), w)"
proof
  show "snd (dispatch dc services m CLIMATE_COMMAND payload w) = w"
    using climate(1) dispatch_no_command [OF climate_mode_no_command [OF climate(2)]] by (simp add: dispatch_simps)
  show "dispatch dc new_services m COVER_COMMAND payload' w
      = (Inl (ServiceFailed (ServiceNotFound ''cover'' ''stop_cover'')), w)"
    using cover service_call_unknown [OF stop_cover_unknown, of m "EntityIds [eid]" JNull w]
    by (simp add: dispatch_simps dispatch_to_def call_service_def cover_service_def)
qed

text \<open>Decoders that ignore the payload.\<close>

definition fixed_decoders :: "climate_request \<Rightarrow> cover_request \<Rightarrow> switch_request \<Rightarrow> decoders" where
  "fixed_decoders cl co sw = \<lparr>dc_switch = (\<lambda>_. Some sw), dc_light = (\<lambda>_. None), dc_climate = (\<lambda>_. Some cl),
     dc_fan = (\<lambda>_. None), dc_cover = (\<lambda>_. Some co), dc_number = (\<lambda>_. None), dc_select = (\<lambda>_. None),
     dc_button = (\<lambda>_. None)\<rparr>"

definition lamp_key :: u32 where
  "lamp_key = entity_key ''switch.lamp''"

definition demo_decoders :: decoders where
  "demo_decoders = fixed_decoders
     \<lparr>cl_key = 1, cl_has_mode = True, cl_mode = 3, cl_has_target = False, cl_target = f32_zero\<rparr>
     \<lparr>co_key = lamp_key, co_has_position = False, co_position = f32_zero, co_stop = True\<rparr>
     \<lparr>sw_key = lamp_key, sw_state = True\<rparr>"

lemma lamp_registry: "er_inner (w_registry lamp_world) = [(''switch.lamp'', 1)]"
  by (simp add: lamp_world_def run_simps)

lemma find_lamp: "find_entity_id lamp_key (w_registry lamp_world) = Some ''switch.lamp''"
  by (simp add: find_entity_id_def list_all_ids_def lamp_registry lamp_key_def)

theorem lost_commands_witness:
  "snd (dispatch demo_decoders new_services True CLIMATE_COMMAND [] lamp_world) = lamp_world
   \<and> fst (dispatch demo_decoders new_services True COVER_COMMAND [] lamp_world)
       = Inl (ServiceFailed (ServiceNotFound ''cover'' ''stop_cover''))"
  using lost_commands [of demo_decoders "[]" _ "[]" _ lamp_world "''switch.lamp''" new_services True]
  by (simp add: demo_decoders_def fixed_decoders_def find_lamp)

text \<open>C24. From the frame to the store: a switch command whose key belongs to one registered
  switch, and to no other registered entity, is answered without error, and when the switch
  has handled its message the store holds the state the client asked for, every other
  entity being as before.\<close>
theorem switch_frame_reaches_store:
  assumes run: "reachable ops w"
    and frame: "dc_switch dc payload = Some cmd" "sw_key cmd = entity_key eid"
    and unique: "filter (\<lambda>e. entity_key e = entity_key eid) (list_all_ids (w_registry w)) = [eid]"
    and switch: "registered eid (w_registry w) = Some r" "map_of (w_entities w) r = Some ea" "ea_mailbox ea = []"
      "ed_domain_id (ea_descriptor ea) = ''switch''" "ea_state ea = Switch b"
    and call: "dispatch dc new_services m SWITCH_COMMAND payload w = (reply, w1)"
  shows "reply = Inr ()
    \<and> view (fst (deliver ops now r w1)) = (view w)(actor_id_of ea \<mapsto> Switch (sw_state cmd))"
proof -
  let ?service = "if sw_state cmd then ''turn_on'' else ''turn_off''"
  have found: "find_entity_id (sw_key cmd) (w_registry w) = Some eid"
    using unique unfolding find_entity_id_def frame(2) by (simp add: find_filter)
  have service: "map_of new_services (''switch'', ?service) \<noteq> None"
    unfolding new_services_keys builtin_services_listed [OF get_domain_named(1)] by (simp add: switch_domain_def)
  have cmd: "command_for_service ''switch'' ?service JNull = Some (if sw_state cmd then TurnOn else TurnOff)"
    by (simp add: command_for_service_def get_domain_named switch_domain_def switch_encode_def on_off_encode_def)
  have obey: "obey ''switch'' (if sw_state cmd then TurnOn else TurnOff) (Switch b) = Switch (sw_state cmd)"
    by (simp add: obey_def apply_in_def run_simps)
  obtain reply' w' where sc: "service_call new_services m ''switch'' ?service (EntityIds [eid]) JNull w = (reply', w')"
    by (metis prod.exhaust)
  note spec = call_reaches_store [OF run switch(1-3) service cmd sc, of now]
  have "(reply, w1) = (Inr (), w')"
    using call sc spec found frame(1) by (simp add: dispatch_simps dispatch_to_def call_service_def)
  then show ?thesis using spec obey switch(4,5) by simp
qed

theorem switch_frame_reaches_store_witness:
  "view (fst (deliver counted_watch 9 1 (snd (dispatch demo_decoders new_services True SWITCH_COMMAND [] lamp_world))))
     ''switch.lamp'' = Some (Switch True)"
proof -
  obtain reply w1 where call: "dispatch demo_decoders new_services True SWITCH_COMMAND [] lamp_world = (reply, w1)"
    by (metis prod.exhaust)
  have dec: "dc_switch demo_decoders [] = Some \<lparr>sw_key = lamp_key, sw_state = True\<rparr>"
    by (simp add: demo_decoders_def fixed_decoders_def)
  have reg: "registered ''switch.lamp'' (w_registry lamp_world) = Some 1"
    by (simp add: registered_def lamp_registry)
  show ?thesis
    using switch_frame_reaches_store [OF lamp_reachable dec _ _ reg lamp_actor _ _ _ call, of False 9]
    by (simp add: call lamp_key_def list_all_ids_def lamp_registry actor_id_of_def lamp_def)
qed

end
