(* ===== verification/Connection.thy ===== *)
theory Connection
  imports NativeApi
begin

text \<open>
  One client connection of the native API (\<open>connection.rs\<close>) and the server that accepts
  connections (\<open>server.rs\<close>). A connection is a state machine driven by the frames of the
  client, state updates from its watchers, a keepalive tick every five seconds and the end
  of the stream; its steps send frames and may call services on the world. Times are
  nanoseconds. The content of the constant fields of a response is left out.

  The lemmas give the order of frames of every session, the end of an idle session, what
  repeated subscriptions do, and the number of connections the server ever serves.
\<close>

section \<open>The connection actor\<close>

datatype conn_state = AwaitingHello | Active bool | Disconnecting

datatype connection_msg =
    InboundFrame u32 "u8 list"
  | StateUpdate entity_id entity_state
  | KeepaliveTick
  | ReaderClosed

datatype out_frame =
    HelloResponse nat nat string
  | PingResponse
  | DeviceInfoResponse string
  | EntityFrame list_response
  | ListEntitiesDone
  | StateFrame state_response
  | DisconnectResponse

text \<open>\<open>cn_watchers\<close> lists the entity of every watcher task spawned; \<open>cn_stopped\<close> is the request
  to stop after the present message.\<close>

record connection =
  cn_state :: conn_state
  cn_device_name :: string
  cn_last_activity :: nat
  cn_watchers :: "entity_id list"
  cn_stopped :: bool

record 'w environment =
  en_decoders :: decoders
  en_services :: services
  en_manager :: bool
  en_asked :: "'w world \<Rightarrow> actor_ref \<Rightarrow> entity_state option"

definition new_connection :: "string \<Rightarrow> nat \<Rightarrow> connection" where
  "new_connection name now = \<lparr>cn_state = AwaitingHello, cn_device_name = name, cn_last_activity = now,
     cn_watchers = [], cn_stopped = False\<rparr>"

definition conn_stop :: "connection \<Rightarrow> connection" where
  "conn_stop c = c\<lparr>cn_stopped := True\<rparr>"

definition is_command :: "u32 \<Rightarrow> bool" where
  "is_command t = (t \<in> {SWITCH_COMMAND, LIGHT_COMMAND, CLIMATE_COMMAND, FAN_COMMAND, COVER_COMMAND,
     NUMBER_COMMAND, SELECT_COMMAND, BUTTON_COMMAND})"

text \<open>The push of the current states on a subscription.\<close>

definition state_frames :: "entity_id \<Rightarrow> entity_state \<Rightarrow> out_frame list" where
  "state_frames eid state = (case state_to_frame eid state of Some f \<Rightarrow> [StateFrame f] | None \<Rightarrow> [])"

definition push_states :: "entity_id list \<Rightarrow> 'w world \<Rightarrow> out_frame list" where
  "push_states ids w =
     concat (map (\<lambda>eid. case store_get eid (w_store w) of Some s \<Rightarrow> state_frames eid s | None \<Rightarrow> []) ids)"

definition handle_frame ::
    "'w environment \<Rightarrow> u32 \<Rightarrow> u8 list \<Rightarrow> connection \<Rightarrow> 'w world \<Rightarrow> connection \<times> 'w world \<times> out_frame list" where
  "handle_frame env t payload c w =
     (case cn_state c of
        AwaitingHello \<Rightarrow>
          if t = HELLO_REQUEST
          then (c\<lparr>cn_state := Active False\<rparr>, w, [HelloResponse 1 10 (cn_device_name c)])
          else (conn_stop c, w, [])
      | Active subscribed \<Rightarrow>
          if t = PING_REQUEST then (c, w, [PingResponse])
          else if t = DEVICE_INFO_REQUEST then (c, w, [DeviceInfoResponse (cn_device_name c)])
          else if t = LIST_ENTITIES_REQUEST then
            (c, w, map EntityFrame (build_entity_list (en_asked env w) (w_registry w)) @ [ListEntitiesDone])
          else if t = SUBSCRIBE_STATES then
            (let ids = sort (list_all_ids (w_registry w))
             in (c\<lparr>cn_state := Active True, cn_watchers := cn_watchers c @ ids\<rparr>, w, push_states ids w))
          else if t = DISCONNECT_REQUEST then
            (conn_stop (c\<lparr>cn_state := Disconnecting\<rparr>), w, [DisconnectResponse])
          else if is_command t then
            (c, snd (dispatch (en_decoders env) (en_services env) (en_manager env) t payload w), [])
          else (c, w, [])
      | Disconnecting \<Rightarrow> (c, w, []))"

definition IDLE_LIMIT :: nat where
  "IDLE_LIMIT = 30 * 1000000000"

definition handle_connection ::
    "'w environment \<Rightarrow> nat \<Rightarrow> connection_msg \<Rightarrow> connection \<Rightarrow> 'w world \<Rightarrow> connection \<times> 'w world \<times> out_frame list" where
  "handle_connection env now msg c w =
     (case msg of
        InboundFrame t payload \<Rightarrow> handle_frame env t payload (c\<lparr>cn_last_activity := now\<rparr>) w
      | StateUpdate eid state \<Rightarrow> (c, w, if cn_state c = Active True then state_frames eid state else [])
      | KeepaliveTick \<Rightarrow> (if now - cn_last_activity c > IDLE_LIMIT then conn_stop c else c, w, [])
      | ReaderClosed \<Rightarrow> (conn_stop c, w, []))"

section \<open>Sessions\<close>

text \<open>A session is a connection that handles messages until it is stopped, while the rest of
  the program changes the world in between; the last argument is what it has sent.\<close>

inductive session :: "'w environment \<Rightarrow> connection \<Rightarrow> 'w world \<Rightarrow> out_frame list \<Rightarrow> bool" for env where
  start: "session env (new_connection name now) w []"
| message: "session env c w outs \<Longrightarrow> \<not> cn_stopped c \<Longrightarrow> handle_connection env now msg c w = (c', w', new) \<Longrightarrow>
    session env c' w' (outs @ new)"
| others: "session env c w outs \<Longrightarrow> session env c w' outs"

fun is_hello :: "out_frame \<Rightarrow> bool" where
  "is_hello (HelloResponse _ _ _) = True"
| "is_hello _ = False"

fun is_state :: "out_frame \<Rightarrow> bool" where
  "is_state (StateFrame _) = True"
| "is_state _ = False"

text \<open>Frames of an active session.\<close>

definition plain :: "out_frame list \<Rightarrow> bool" where
  "plain outs \<longleftrightarrow> list_all (\<lambda>f. \<not> is_hello f \<and> f \<noteq> DisconnectResponse) outs"

definition protocol :: "connection \<Rightarrow> out_frame list \<Rightarrow> bool" where
  "protocol c outs \<longleftrightarrow>
     (case cn_state c of
        AwaitingHello \<Rightarrow> outs = [] \<and> cn_watchers c = []
      | Active subscribed \<Rightarrow>
          (\<exists>hello rest. outs = hello # rest \<and> is_hello hello \<and> plain rest
             \<and> (\<not> subscribed \<longrightarrow> list_all (\<lambda>f. \<not> is_state f) rest \<and> cn_watchers c = []))
      | Disconnecting \<Rightarrow>
          cn_stopped c \<and> (\<exists>hello rest. outs = hello # rest @ [DisconnectResponse] \<and> is_hello hello \<and> plain rest))"

lemma plain_simps [simp]: "plain []" "plain (xs @ ys) \<longleftrightarrow> plain xs \<and> plain ys" "plain (x # xs) \<longleftrightarrow> plain [x] \<and> plain xs"
  by (auto simp: plain_def)

lemma plain_state_frames [simp]: "plain (state_frames eid s)"
  by (auto simp: plain_def state_frames_def split: option.splits)

lemma plain_push_states [simp]: "plain (push_states ids w)"
  by (induction ids) (auto simp: push_states_def split: option.splits)

lemma plain_entities [simp]: "plain (map EntityFrame fs)" "list_all (\<lambda>f. \<not> is_state f) (map EntityFrame fs)"
  by (auto simp: plain_def list_all_iff)

lemma protocol_active:
  "protocol c outs \<Longrightarrow> cn_state c = Active b \<Longrightarrow> cn_state c' = Active b \<Longrightarrow> cn_watchers c' = cn_watchers c \<Longrightarrow>
     plain new \<Longrightarrow> b \<or> list_all (\<lambda>f. \<not> is_state f) new \<Longrightarrow> protocol c' (outs @ new)"
  by (fastforce simp: protocol_def)

lemma frame_keeps_protocol:
  assumes inv: "protocol c outs" and live: "\<not> cn_stopped c" and step: "handle_frame env t payload c w = (c', w', new)"
  shows "protocol c' (outs @ new)"
proof (cases "cn_state c")
  case AwaitingHello
  then show ?thesis
    using inv step by (auto simp: protocol_def handle_frame_def conn_stop_def split: if_splits)
next
  case (Active b)
  obtain hello rest where outs: "outs = hello # rest" "is_hello hello" "plain rest"
    using inv Active by (auto simp: protocol_def)
  consider "t = SUBSCRIBE_STATES" | "t = DISCONNECT_REQUEST" | "t \<noteq> SUBSCRIBE_STATES" "t \<noteq> DISCONNECT_REQUEST" by blast
  then show ?thesis
  proof cases
    case 1
    then show ?thesis
      using step Active outs by (auto simp: handle_frame_def protocol_def Let_def msg_types)
  next
    case 2
    then show ?thesis
      using step Active outs by (auto simp: handle_frame_def protocol_def conn_stop_def msg_types)
  next
    case 3
    have "cn_state c' = Active b \<and> cn_watchers c' = cn_watchers c \<and> plain new \<and> list_all (\<lambda>f. \<not> is_state f) new"
      using step Active 3 by (auto simp: handle_frame_def plain_def list_all_iff split: if_splits)
    then show ?thesis using protocol_active [OF inv Active] by blast
  qed
next
  case Disconnecting
  then show ?thesis using inv live by (simp add: protocol_def)
qed

lemma protocol_activity: "protocol (c\<lparr>cn_last_activity := now\<rparr>) outs = protocol c outs"
  by (cases "cn_state c") (simp_all add: protocol_def)

lemma protocol_stop: "protocol c outs \<Longrightarrow> protocol (conn_stop c) outs"
  by (cases "cn_state c") (simp_all add: protocol_def conn_stop_def)

lemma handle_keeps_protocol:
  assumes "protocol c outs" and "\<not> cn_stopped c" and "handle_connection env now msg c w = (c', w', new)"
  shows "protocol c' (outs @ new)"
proof (cases msg)
  case (InboundFrame t payload)
  have "protocol (c\<lparr>cn_last_activity := now\<rparr>) outs" using assms(1) by (simp add: protocol_activity)
  from frame_keeps_protocol [OF this] show ?thesis using assms(2,3) InboundFrame by (simp add: handle_connection_def)
next
  case (StateUpdate eid state)
  then have c': "c' = c" "new = (if cn_state c = Active True then state_frames eid state else [])"
    using assms(3) by (auto simp: handle_connection_def)
  show ?thesis
  proof (cases "cn_state c = Active True")
    case True
    then show ?thesis using protocol_active [OF assms(1) True, of c new] c' by simp
  qed (use assms(1) c' in simp)
next
  case KeepaliveTick
  then show ?thesis using assms(1,3) protocol_stop by (auto simp: handle_connection_def split: if_splits)
next
  case ReaderClosed
  then show ?thesis using assms(1,3) protocol_stop by (auto simp: handle_connection_def)
qed

lemma session_protocol: "session env c w outs \<Longrightarrow> protocol c outs"
proof (induction rule: session.induct)
  case (message c w outs now msg c' w' new)
  then show ?case using handle_keeps_protocol by metis
qed (auto simp: protocol_def new_connection_def)

text \<open>C10. The order of frames in every session: nothing is sent before the client has said hello,
  the first frame is the hello response and it is sent once, states are only sent (and
  watchers only started) after a subscription, and a disconnect response is the last frame
  of a session that has been stopped.\<close>
theorem session_frame_order:
  assumes "session env c w outs"
  shows "(outs = [] \<longleftrightarrow> cn_state c = AwaitingHello)
    \<and> length (filter is_hello outs) \<le> 1 \<and> (outs \<noteq> [] \<longrightarrow> is_hello (hd outs))
    \<and> ((\<exists>f \<in> set outs. is_state f) \<or> cn_watchers c \<noteq> [] \<longrightarrow> cn_state c \<in> {Active True, Disconnecting})
    \<and> (DisconnectResponse \<in> set outs \<longleftrightarrow> cn_state c = Disconnecting)
    \<and> (cn_state c = Disconnecting \<longrightarrow> cn_stopped c \<and> last outs = DisconnectResponse)"
proof -
  note p = session_protocol [OF assms]
  have none: "filter is_hello rest = []" if "plain rest" for rest
    using that by (auto simp: plain_def list_all_iff filter_empty_conv)
  have hello: "\<not> is_state hello \<and> hello \<noteq> DisconnectResponse" if "is_hello hello" for hello
    using that by (cases hello) auto
  show ?thesis
  proof (cases "cn_state c")
    case AwaitingHello
    then show ?thesis using p by (simp add: protocol_def)
  next
    case (Active b)
    then obtain h rest where r: "outs = h # rest" "is_hello h" "plain rest"
      "\<not> b \<longrightarrow> list_all (\<lambda>f. \<not> is_state f) rest \<and> cn_watchers c = []"
      using p by (auto simp: protocol_def)
    have "DisconnectResponse \<notin> set rest" using r(3) by (auto simp: plain_def list_all_iff)
    then show ?thesis using r none [OF r(3)] hello [OF r(2)] Active by (cases b) (auto simp: list_all_iff)
  next
    case Disconnecting
    then obtain h rest where r: "cn_stopped c" "outs = h # rest @ [DisconnectResponse]" "is_hello h" "plain rest"
      using p by (auto simp: protocol_def)
    then show ?thesis using none [OF r(4)] hello [OF r(3)] Disconnecting by auto
  qed
qed

definition demo_environment :: "(entity_state option \<times> nat) environment" where
  "demo_environment = \<lparr>en_decoders = demo_decoders, en_services = new_services, en_manager = False,
     en_asked = (\<lambda>w r. map_option ea_state (map_of (w_entities w) r))\<rparr>"

lemma hello_session:
  "session demo_environment ((new_connection ''hub'' 5)\<lparr>cn_state := Active False\<rparr>) lamp_world [HelloResponse 1 10 ''hub'']"
proof -
  have "session demo_environment ((new_connection ''hub'' 5)\<lparr>cn_state := Active False\<rparr>) lamp_world ([] @ [HelloResponse 1 10 ''hub''])"
  proof (rule session.message [OF session.start, where now = 5 and msg = "InboundFrame HELLO_REQUEST []"])
    show "\<not> cn_stopped (new_connection ''hub'' 5)" by (simp add: new_connection_def)
    show "handle_connection demo_environment 5 (InboundFrame HELLO_REQUEST []) (new_connection ''hub'' 5) lamp_world
        = ((new_connection ''hub'' 5)\<lparr>cn_state := Active False\<rparr>, lamp_world, [HelloResponse 1 10 ''hub''])"
      by (simp add: handle_connection_def handle_frame_def new_connection_def)
  qed
  then show ?thesis by simp
qed

theorem session_frame_order_witness:
  "length (filter is_hello [HelloResponse 1 10 ''hub'']) \<le> 1 \<and> is_hello (hd [HelloResponse 1 10 ''hub''])"
  using session_frame_order [OF hello_session] by simp

section \<open>Commands\<close>

text \<open>A client can only act on entities in an active session: a message that changes the
  world or asks a service is a command frame handled in the active state, and the change is
  what the dispatch of that frame does.\<close>
theorem commands_need_active:
  assumes "handle_connection env now msg c w = (c', w', new)" and "w' \<noteq> w"
  shows "\<exists>b t payload. cn_state c = Active b \<and> msg = InboundFrame t payload \<and> is_command t
    \<and> w' = snd (dispatch (en_decoders env) (en_services env) (en_manager env) t payload w) \<and> new = []"
  using assms
  by (auto simp: handle_connection_def handle_frame_def Let_def split: connection_msg.splits conn_state.splits if_splits)

lemma switch_dispatch_changes:
  "snd (dispatch demo_decoders new_services False SWITCH_COMMAND [] lamp_world)
     = snd (send_entity 1 (Command TurnOn) lamp_world)"
proof -
  have service: "map_of new_services (''switch'', ''turn_on'') \<noteq> None"
    unfolding new_services_keys builtin_services_listed [OF get_domain_named(1)] by (simp add: switch_domain_def)
  have cmd: "command_for_service ''switch'' ''turn_on'' JNull = Some TurnOn"
    by (simp add: command_for_service_def get_domain_named switch_domain_def switch_encode_def on_off_encode_def)
  have "resolve_target False (EntityIds [''switch.lamp'']) lamp_world = [1]"
    by (simp add: resolve_target_def refs_of_def List.map_filter_def registered_def lamp_registry)
  then have "service_call new_services False ''switch'' ''turn_on'' (EntityIds [''switch.lamp'']) JNull lamp_world
      = (Inr 1, snd (send_entity 1 (Command TurnOn) lamp_world))"
    using service cmd by (simp add: service_call_def send_all_def)
  then show ?thesis
    by (simp add: dispatch_simps dispatch_to_def call_service_def demo_decoders_def fixed_decoders_def find_lamp)
qed

theorem commands_need_active_witness:
  "\<exists>w'. handle_connection demo_environment 6 (InboundFrame SWITCH_COMMAND [])
        ((new_connection ''hub'' 5)\<lparr>cn_state := Active False\<rparr>) lamp_world
      = ((new_connection ''hub'' 6)\<lparr>cn_state := Active False\<rparr>, w', [])
    \<and> w' \<noteq> lamp_world \<and> is_command SWITCH_COMMAND"
proof -
  let ?w' = "snd (send_entity 1 (Command TurnOn) lamp_world)"
  let ?c = "(new_connection ''hub'' 5)\<lparr>cn_state := Active False\<rparr>"
  have step: "handle_connection demo_environment 6 (InboundFrame SWITCH_COMMAND []) ?c lamp_world
      = ((new_connection ''hub'' 6)\<lparr>cn_state := Active False\<rparr>, ?w', [])"
    using switch_dispatch_changes
    by (simp add: handle_connection_def handle_frame_def new_connection_def demo_environment_def is_command_def msg_types)
  have "map_of (w_entities ?w') 1 \<noteq> map_of (w_entities lamp_world) 1"
    unfolding send_entity_def lamp_actor by (simp add: lamp_actor del: One_nat_def)
  then have changed: "?w' \<noteq> lamp_world" by metis
  from commands_need_active [OF step changed] have "is_command SWITCH_COMMAND" by auto
  then show ?thesis using step changed by blast
qed

section \<open>Idle sessions\<close>

text \<open>Messages handled one after the other until the connection stops.\<close>

fun handle_all :: "'w environment \<Rightarrow> (nat \<times> connection_msg) list \<Rightarrow> connection \<Rightarrow> 'w world \<Rightarrow> connection \<times> 'w world" where
  "handle_all env [] c w = (c, w)"
| "handle_all env ((now, msg) # msgs) c w =
     (if cn_stopped c then (c, w)
      else case handle_connection env now msg c w of (c', w', _) \<Rightarrow> handle_all env msgs c' w')"

lemma handle_all_stopped: "cn_stopped c \<Longrightarrow> handle_all env msgs c w = (c, w)"
  by (cases msgs) auto

lemma quiet_keeps_activity:
  assumes "handle_connection env now msg c w = (c', w', new)" and "\<nexists>t payload. msg = InboundFrame t payload"
  shows "cn_last_activity c' = cn_last_activity c"
  using assms by (cases msg) (auto simp: handle_connection_def conn_stop_def split: if_splits)

lemma idle_stops:
  "list_all (\<lambda>(_, msg). \<nexists>t payload. msg = InboundFrame t payload) msgs \<Longrightarrow> (t, KeepaliveTick) \<in> set msgs \<Longrightarrow>
     IDLE_LIMIT < t - cn_last_activity c \<Longrightarrow> cn_stopped (fst (handle_all env msgs c w))"
proof (induction msgs arbitrary: c w)
  case (Cons m msgs)
  obtain now msg where m: "m = (now, msg)" by (cases m)
  obtain c' w' new where step: "handle_connection env now msg c w = (c', w', new)" by (metis prod.exhaust)
  show ?case
  proof (cases "cn_stopped c \<or> (t, KeepaliveTick) \<in> set msgs")
    case True
    have "cn_last_activity c' = cn_last_activity c" using quiet_keeps_activity [OF step] Cons.prems(1) m by auto
    then show ?thesis using True Cons step m by (auto simp: handle_all_stopped)
  next
    case False
    then have "m = (t, KeepaliveTick)" using Cons.prems(2) by simp
    then have "cn_stopped c'" using step m Cons.prems(3) by (auto simp: handle_connection_def conn_stop_def)
    then show ?thesis using step m handle_all_stopped [of c' env msgs w'] by auto
  qed
qed simp

text \<open>C36. Idle sessions end: when no frame arrives any more, whatever state updates come in
  between, the first eight keepalive ticks, five seconds apart and starting at any time
  after the last frame, stop the connection.\<close>
theorem idle_session_ends:
  assumes "cn_last_activity c \<le> t0"
    and "list_all (\<lambda>(_, msg). \<nexists>t payload. msg = InboundFrame t payload) msgs"
    and "list_all (\<lambda>i. (t0 + i * 5000000000, KeepaliveTick) \<in> set msgs) [0..<8]"
  shows "cn_stopped (fst (handle_all env msgs c w))"
proof (rule idle_stops [OF assms(2)])
  show "(t0 + 7 * 5000000000, KeepaliveTick) \<in> set msgs"
    using assms(3) unfolding list_all_iff by (rule bspec) simp
  show "IDLE_LIMIT < t0 + 7 * 5000000000 - cn_last_activity c" using assms(1) by (simp add: IDLE_LIMIT_def)
qed

theorem idle_session_ends_witness:
  "cn_stopped (fst (handle_all demo_environment (map (\<lambda>i. (i * 5000000000, KeepaliveTick)) [0..<8])
     (new_connection ''hub'' 0) lamp_world))"
  using idle_session_ends [of "new_connection ''hub'' 0" 0 "map (\<lambda>i. (i * 5000000000, KeepaliveTick)) [0..<8]"]
  by (simp add: new_connection_def list_all_iff)

section \<open>Repeated subscriptions\<close>

lemma subscribe_step:
  assumes "cn_state c = Active b"
  shows "handle_connection env now (InboundFrame SUBSCRIBE_STATES payload) c w =
    (c\<lparr>cn_last_activity := now, cn_state := Active True,
       cn_watchers := cn_watchers c @ sort (list_all_ids (w_registry w))\<rparr>, w,
     push_states (sort (list_all_ids (w_registry w))) w)"
  using assms by (simp add: handle_connection_def handle_frame_def msg_types Let_def)

lemma subscribe_all:
  "cn_state c = Active b \<Longrightarrow> \<not> cn_stopped c \<Longrightarrow>
     cn_watchers (fst (handle_all env (map (\<lambda>t. (t, InboundFrame SUBSCRIBE_STATES [])) ts) c w))
       = cn_watchers c @ concat (replicate (length ts) (sort (list_all_ids (w_registry w))))"
  by (induction ts arbitrary: c b) (simp_all add: subscribe_step)

text \<open>Subscriptions accumulate: every subscribe request starts a further watcher for every
  registered entity and none is ever replaced, so after \<open>n\<close> requests each change of a state
  is sent \<open>n\<close> times.\<close>
theorem subscriptions_accumulate:
  assumes "cn_state c = Active b" and "\<not> cn_stopped c" and "cn_watchers c = []"
    and "distinct (list_all_ids (w_registry w))" and "eid \<in> set (list_all_ids (w_registry w))"
  shows "count_list (cn_watchers (fst (handle_all env (map (\<lambda>t. (t, InboundFrame SUBSCRIBE_STATES [])) ts) c w))) eid
    = length ts"
proof -
  have one: "count_list (sort (list_all_ids (w_registry w))) eid = 1"
  proof -
    have "count_list xs eid = 1" if "distinct xs" "eid \<in> set xs" for xs :: "entity_id list"
      using that by (induction xs) auto
    then show ?thesis using assms(4,5) by simp
  qed
  have "count_list (concat (replicate n xs)) eid = n * count_list xs eid" for n and xs :: "entity_id list"
    by (induction n) simp_all
  then show ?thesis using assms(1-3) by (simp add: subscribe_all one)
qed

theorem subscriptions_accumulate_witness:
  "count_list (cn_watchers (fst (handle_all demo_environment
      (map (\<lambda>t. (t, InboundFrame SUBSCRIBE_STATES [])) [6, 7, 8])
      ((new_connection ''hub'' 5)\<lparr>cn_state := Active False\<rparr>) lamp_world))) ''switch.lamp'' = 3"
  using subscriptions_accumulate [of "(new_connection ''hub'' 5)\<lparr>cn_state := Active False\<rparr>" False lamp_world "''switch.lamp''"
      demo_environment "[6, 7, 8]"]
  by (simp add: new_connection_def list_all_ids_def lamp_registry)

section \<open>The server\<close>

definition MAX_CONNECTIONS :: nat where
  "MAX_CONNECTIONS = 3"

text \<open>A new stream comes with the reference its connection actor would get; the end of a
  connection is not a message to the server.\<close>

datatype server_msg = StartServer bool | NewConnection actor_ref | StopServer

record server =
  se_connections :: "actor_ref option list"
  se_stopped :: bool

definition new_server :: server where
  "new_server = \<lparr>se_connections = replicate MAX_CONNECTIONS None, se_stopped = False\<rparr>"

fun fill_slot :: "actor_ref \<Rightarrow> actor_ref option list \<Rightarrow> actor_ref option list" where
  "fill_slot r [] = []"
| "fill_slot r (None # slots) = Some r # slots"
| "fill_slot r (Some s # slots) = Some s # fill_slot r slots"

definition handle_server :: "server_msg \<Rightarrow> server \<Rightarrow> server" where
  "handle_server msg sv =
     (case msg of
        StartServer bound \<Rightarrow> if bound then sv else sv\<lparr>se_stopped := True\<rparr>
      | NewConnection r \<Rightarrow>
          if length (filter (\<lambda>s. s \<noteq> None) (se_connections sv)) \<ge> MAX_CONNECTIONS then sv
          else sv\<lparr>se_connections := fill_slot r (se_connections sv)\<rparr>
      | StopServer \<Rightarrow> sv\<lparr>se_connections := map (\<lambda>_. None) (se_connections sv), se_stopped := True\<rparr>)"

text \<open>The messages of a run, and the streams for which a connection actor was spawned.\<close>

fun serve :: "server_msg list \<Rightarrow> server \<Rightarrow> actor_ref list" where
  "serve [] sv = []"
| "serve (msg # msgs) sv =
     (if se_stopped sv then []
      else let sv' = handle_server msg sv
        in (case msg of NewConnection r \<Rightarrow> if se_connections sv' \<noteq> se_connections sv then [r] else [] | _ \<Rightarrow> [])
           @ serve msgs sv')"

definition free_slots :: "server \<Rightarrow> nat" where
  "free_slots sv = length (filter (\<lambda>s. s = None) (se_connections sv))"

lemma free_fill:
  "length (filter (\<lambda>s. s = None) (fill_slot r slots))
     = (if None \<in> set slots then length (filter (\<lambda>s. s = None) slots) - 1 else length (filter (\<lambda>s. s = None) slots))"
  "fill_slot r slots \<noteq> slots \<longleftrightarrow> None \<in> set slots"
  by (induction r slots rule: fill_slot.induct) (auto simp: filter_empty_conv Suc_diff_le Suc_le_eq length_greater_0_conv [symmetric] simp del: length_greater_0_conv)

lemma free_slots_step:
  "free_slots (handle_server msg sv) \<le>
     (if msg = StopServer then length (se_connections sv) else free_slots sv)"
  using free_fill(1) [of _ "se_connections sv"]
  by (auto simp: handle_server_def free_slots_def split: server_msg.splits)

lemma accept_uses_slot:
  assumes "se_connections (handle_server (NewConnection r) sv) \<noteq> se_connections sv"
  shows "Suc (free_slots (handle_server (NewConnection r) sv)) = free_slots sv"
proof -
  have "None \<in> set (se_connections sv)"
    using assms free_fill(2) [of r "se_connections sv"] by (auto simp: handle_server_def split: if_splits)
  then have "filter (\<lambda>s. s = None) (se_connections sv) \<noteq> []" by (auto simp: filter_empty_conv)
  then show ?thesis
    using assms \<open>None \<in> set (se_connections sv)\<close> free_fill(1) [of r "se_connections sv"]
    by (auto simp: handle_server_def free_slots_def Suc_pred split: if_splits)
qed

lemma serve_slots: "length (serve msgs sv) \<le> free_slots sv"
proof (induction msgs arbitrary: sv)
  case (Cons msg msgs)
  show ?case
  proof (cases msg)
    case (NewConnection r)
    then show ?thesis
      using Cons [of "handle_server msg sv"] accept_uses_slot [of r sv] free_slots_step [of msg sv]
      by (auto simp: Let_def)
  next
    case (StartServer b)
    then show ?thesis using Cons [of "handle_server msg sv"] free_slots_step [of msg sv] by (auto simp: Let_def)
  next
    case StopServer
    then have "serve (msg # msgs) sv = []" by (cases msgs) (auto simp: handle_server_def Let_def)
    then show ?thesis by simp
  qed
qed simp

text \<open>The server serves three connections in its life: whatever happens, and even if every
  accepted connection has ended, a fourth stream is never given a connection actor, because
  a slot is only emptied when the server stops.\<close>
theorem three_connections_ever: "length (serve msgs new_server) \<le> 3"
  using serve_slots [of msgs new_server] by (simp add: new_server_def free_slots_def MAX_CONNECTIONS_def)

lemma serve_example: "serve (map NewConnection [10, 11, 12, 13]) new_server = [10, 11, 12]"
  by (simp add: new_server_def handle_server_def MAX_CONNECTIONS_def numeral_3_eq_3 Let_def)

end
