(* ===== verification/Supervisor.thy ===== *)
theory Supervisor
  imports Maps
begin

text \<open>
  The actor runtime (\<open>rshome-actor\<close>): the loop of one actor (\<open>run_actor_loop\<close>), the restart
  limit (\<open>check_restart_limit\<close>) and the two supervisors of \<open>system.rs\<close>. What tokio delivers,
  a message, a stop signal, the way a task ended, the present instant and the fresh actor
  ids, are inputs of the steps. Instants are nanoseconds.

  The lemmas bound the restarts in any window of time and show which bookkeeping the
  supervisors keep.
\<close>

section \<open>The actor loop\<close>

text \<open>
  The outcome of one \<open>select!\<close>: a message, all senders gone, or a change of the stop flag
  (\<open>None\<close> when the sender of the flag is gone). A handler returns the actor's next state and
  whether \<open>ctx.stop()\<close> was called, or panics.
\<close>

datatype 'm loop_event = Received 'm | MailboxClosed | StopChanged "bool option"

datatype 's loop_result = Waiting 's | LoopExited 's | LoopPanicked

fun actor_loop :: "('m \<Rightarrow> 's \<Rightarrow> ('s \<times> bool) option) \<Rightarrow> 'm loop_event list \<Rightarrow> 's \<Rightarrow> 's loop_result" where
  "actor_loop handle [] s = Waiting s"
| "actor_loop handle (Received m # evs) s =
     (case handle m s of
        None \<Rightarrow> LoopPanicked
      | Some (s', stop_requested) \<Rightarrow> if stop_requested then LoopExited s' else actor_loop handle evs s')"
| "actor_loop handle (MailboxClosed # evs) s = LoopExited s"
| "actor_loop handle (StopChanged res # evs) s =
     (if res = Some True then LoopExited s else actor_loop handle evs s)"

section \<open>The restart limit\<close>

definition check_restart_limit :: "nat \<Rightarrow> u32 \<Rightarrow> u64 \<Rightarrow> nat list \<Rightarrow> bool \<times> nat list" where
  "check_restart_limit now max_restarts within_secs restart_times =
     (let window = unat within_secs * 1000000000;
          kept = filter (\<lambda>t. now - t < window) restart_times
      in if length kept < unat max_restarts then (True, kept @ [now]) else (False, kept))"

datatype supervisor_strategy =
    OneForOne u32 u64
  | AllForOne u32 u64
  | RestartN nat u64
  | Escalate

definition default_strategy :: supervisor_strategy where
  "default_strategy = OneForOne 3 60"

section \<open>Children and tasks\<close>

type_synonym actor_id = nat

record child_handle =
  ch_id :: actor_id
  ch_stop :: bool
  ch_restart_times :: "nat list"
  ch_strategy :: supervisor_strategy

record supervision =
  sv_tasks :: "actor_id list"
  sv_children :: "child_handle list"

text \<open>\<open>register\<close> and \<open>deregister\<close> of the system handle, a map keyed by id.\<close>

definition register_task :: "actor_id \<Rightarrow> supervision \<Rightarrow> supervision" where
  "register_task aid sv = sv\<lparr>sv_tasks := (if aid \<in> set (sv_tasks sv) then sv_tasks sv else sv_tasks sv @ [aid])\<rparr>"

definition deregister_task :: "actor_id \<Rightarrow> supervision \<Rightarrow> supervision" where
  "deregister_task aid sv = sv\<lparr>sv_tasks := filter (\<lambda>i. i \<noteq> aid) (sv_tasks sv)\<rparr>"

definition remove_child :: "actor_id \<Rightarrow> supervision \<Rightarrow> supervision" where
  "remove_child aid sv = sv\<lparr>sv_children := filter (\<lambda>c. ch_id c \<noteq> aid) (sv_children sv)\<rparr>"

text \<open>\<open>iter_mut().find(...)\<close> and an assignment to what was found.\<close>

fun update_child :: "actor_id \<Rightarrow> (child_handle \<Rightarrow> child_handle) \<Rightarrow> child_handle list \<Rightarrow> child_handle list" where
  "update_child aid f [] = []"
| "update_child aid f (c # cs) = (if ch_id c = aid then f c # cs else c # update_child aid f cs)"

definition spawn_actor_under :: "actor_id \<Rightarrow> supervisor_strategy \<Rightarrow> supervision \<Rightarrow> supervision" where
  "spawn_actor_under aid strategy sv =
     (register_task aid sv)\<lparr>sv_children := sv_children sv @
        [\<lparr>ch_id = aid, ch_stop = False, ch_restart_times = [], ch_strategy = strategy\<rparr>]\<rparr>"

text \<open>The end of an actor's loop without panic: every child is told to stop, then the task
  is deregistered.\<close>

definition stop_children :: "child_handle list \<Rightarrow> child_handle list" where
  "stop_children cs = map (\<lambda>c. c\<lparr>ch_stop := True\<rparr>) cs"

definition shutdown :: "supervision \<Rightarrow> supervision \<times> actor_id list" where
  "shutdown sv = (sv\<lparr>sv_tasks := []\<rparr>, sv_tasks sv)"

section \<open>Supervisors\<close>

datatype task_end = Returned | Panicked | Cancelled

text \<open>The check of the limit on the child's own record; a child that is gone gets no restart.\<close>

definition restart_allowed :: "nat \<Rightarrow> u32 \<Rightarrow> u64 \<Rightarrow> actor_id \<Rightarrow> supervision \<Rightarrow> bool \<times> supervision" where
  "restart_allowed now max_restarts within_secs aid sv =
     (case find (\<lambda>c. ch_id c = aid) (sv_children sv) of
        None \<Rightarrow> (False, sv)
      | Some ch \<Rightarrow>
          (let (allowed, times) = check_restart_limit now max_restarts within_secs (ch_restart_times ch)
           in (allowed, sv\<lparr>sv_children :=
                 update_child aid (\<lambda>c. c\<lparr>ch_restart_times := times\<rparr>) (sv_children sv)\<rparr>)))"

definition stop_siblings :: "actor_id \<Rightarrow> supervision \<Rightarrow> supervision" where
  "stop_siblings aid sv =
     sv\<lparr>sv_children := map (\<lambda>c. if ch_id c \<noteq> aid then c\<lparr>ch_stop := True\<rparr> else c) (sv_children sv)\<rparr>"

text \<open>The monitor of an actor spawned without a typed factory: it never restarts.\<close>

definition supervisor_monitor :: "nat \<Rightarrow> supervisor_strategy \<Rightarrow> task_end \<Rightarrow> actor_id \<Rightarrow> supervision \<Rightarrow> supervision" where
  "supervisor_monitor now strategy result aid sv =
     deregister_task aid
       (case result of
          Returned \<Rightarrow> remove_child aid sv
        | Panicked \<Rightarrow>
            (case strategy of
               OneForOne max_restarts within_secs \<Rightarrow>
                 remove_child aid (snd (restart_allowed now max_restarts within_secs aid sv))
             | RestartN max_n within_secs \<Rightarrow>
                 remove_child aid (snd (restart_allowed now (of_nat max_n) within_secs aid sv))
             | AllForOne _ _ \<Rightarrow> remove_child aid (stop_siblings aid sv)
             | Escalate \<Rightarrow> remove_child aid sv)
        | Cancelled \<Rightarrow> remove_child aid sv)"

text \<open>
  One round of \<open>typed_restart_monitor\<close>: the task of \<open>aid\<close> has ended; the round either
  finishes or starts a new instance under a fresh id and goes on with that id.
\<close>

definition give_up :: "actor_id \<Rightarrow> supervision \<Rightarrow> actor_id option \<times> supervision" where
  "give_up aid sv = (None, deregister_task aid (remove_child aid sv))"

definition restart_as :: "actor_id \<Rightarrow> actor_id \<Rightarrow> supervision \<Rightarrow> actor_id option \<times> supervision" where
  "restart_as new_id aid sv =
     (let sv1 = register_task new_id sv;
          sv2 = sv1\<lparr>sv_children := update_child aid (\<lambda>c. c\<lparr>ch_id := new_id, ch_stop := False\<rparr>) (sv_children sv1)\<rparr>
      in (Some new_id, deregister_task aid sv2))"

definition limited_restart ::
    "nat \<Rightarrow> actor_id \<Rightarrow> u32 \<Rightarrow> u64 \<Rightarrow> actor_id \<Rightarrow> supervision \<Rightarrow> actor_id option \<times> supervision" where
  "limited_restart now new_id max_restarts within_secs aid sv =
     (let (allowed, sv') = restart_allowed now max_restarts within_secs aid sv
      in if allowed then restart_as new_id aid sv' else give_up aid sv')"

definition typed_restart_monitor ::
    "supervisor_strategy \<Rightarrow> nat \<Rightarrow> actor_id \<Rightarrow> task_end \<Rightarrow> actor_id \<Rightarrow> supervision \<Rightarrow> actor_id option \<times> supervision" where
  "typed_restart_monitor strategy now new_id result aid sv =
     (case result of
        Returned \<Rightarrow> give_up aid sv
      | Panicked \<Rightarrow>
          (case strategy of
             OneForOne max_restarts within_secs \<Rightarrow> limited_restart now new_id max_restarts within_secs aid sv
           | RestartN max_n within_secs \<Rightarrow> limited_restart now new_id (of_nat max_n) within_secs aid sv
           | AllForOne _ _ \<Rightarrow> give_up aid (stop_siblings aid sv)
           | Escalate \<Rightarrow> give_up aid sv)
      | Cancelled \<Rightarrow> give_up aid sv)"

text \<open>The monitor's loop over a series of task ends, with the instants of its restarts.\<close>

fun monitor_run ::
    "supervisor_strategy \<Rightarrow> (nat \<times> actor_id \<times> task_end) list \<Rightarrow> actor_id \<Rightarrow> supervision \<Rightarrow>
     nat list \<times> actor_id option \<times> supervision" where
  "monitor_run strategy [] aid sv = ([], Some aid, sv)"
| "monitor_run strategy ((now, new_id, result) # evs) aid sv =
     (case typed_restart_monitor strategy now new_id result aid sv of
        (None, sv') \<Rightarrow> ([], None, sv')
      | (Some aid', sv') \<Rightarrow> (let (ts, r) = monitor_run strategy evs aid' sv' in (now # ts, r)))"

section \<open>The restart limit over time\<close>

definition window_ns :: "u64 \<Rightarrow> nat" where
  "window_ns w = unat w * 1000000000"

text \<open>The instants in \<open>[u, u + w)\<close>.\<close>

definition in_window :: "nat \<Rightarrow> nat \<Rightarrow> nat list \<Rightarrow> nat" where
  "in_window u w ts = length (filter (\<lambda>t. u \<le> t \<and> t < u + w) ts)"

text \<open>The record kept after a check, when \<open>past\<close> are all the restarts so far.\<close>

definition recorded :: "nat \<Rightarrow> nat \<Rightarrow> nat list \<Rightarrow> nat list \<Rightarrow> bool" where
  "recorded w now past kept \<longleftrightarrow> (\<forall>t \<in> set past. t \<le> now) \<and> filter (\<lambda>t. now - t < w) kept = filter (\<lambda>t. now - t < w) past"

definition limited :: "nat \<Rightarrow> nat \<Rightarrow> nat list \<Rightarrow> bool" where
  "limited n w ts \<longleftrightarrow> (\<forall>u. in_window u w ts \<le> n)"

lemma filter_later:
  assumes "recorded w t0 past kept" and "t0 \<le> (now :: nat)"
  shows "filter (\<lambda>t. now - t < w) kept = filter (\<lambda>t. now - t < w) past"
proof -
  have "filter (\<lambda>t. now - t < w) xs = filter (\<lambda>t. now - t < w) (filter (\<lambda>t. t0 - t < w) xs)" for xs
    using assms(2) by (auto intro!: filter_cong)
  with assms(1) show ?thesis unfolding recorded_def by metis
qed

lemma limited_snoc:
  assumes "limited n w past" and "\<forall>t \<in> set past. t \<le> now" and "length (filter (\<lambda>t. now - t < w) past) < n"
  shows "limited n w (past @ [now])"
  unfolding limited_def
proof
  fix u
  show "in_window u w (past @ [now]) \<le> n"
  proof (cases "u \<le> now \<and> now < u + w")
    case True
    have "filter (\<lambda>t. u \<le> t \<and> t < u + w) past = filter (\<lambda>t. u \<le> t) (filter (\<lambda>t. now - t < w) past)"
      using assms(2) True by (auto intro!: filter_cong)
    then have "length (filter (\<lambda>t. u \<le> t \<and> t < u + w) past) \<le> length (filter (\<lambda>t. now - t < w) past)"
      by (metis length_filter_le)
    then show ?thesis using assms(3) True by (simp add: in_window_def)
  next
    case False
    then have "in_window u w (past @ [now]) = in_window u w past" by (auto simp: in_window_def)
    then show ?thesis using assms(1) by (simp add: limited_def)
  qed
qed

text \<open>One check: the restarts it has allowed so far stay limited, and the record stays right.\<close>

lemma check_restart_limit_spec:
  assumes "recorded (window_ns w) t0 past kept" and "t0 \<le> now" and "limited (unat n) (window_ns w) past"
    and "check_restart_limit now n w kept = (allowed, times')"
  shows "recorded (window_ns w) now (if allowed then past @ [now] else past) times'
    \<and> limited (unat n) (window_ns w) (if allowed then past @ [now] else past)
    \<and> (allowed \<longleftrightarrow> length (filter (\<lambda>t. now - t < window_ns w) past) < unat n)"
proof -
  have old: "\<forall>t \<in> set past. t \<le> now" using assms(1,2) by (auto simp: recorded_def)
  note later = filter_later [OF assms(1,2)]
  show ?thesis
    using assms(3,4) old later limited_snoc [OF assms(3) old]
    by (auto simp: check_restart_limit_def recorded_def window_ns_def Let_def split: if_splits)
qed

section \<open>The typed monitor\<close>

fun restart_limit :: "supervisor_strategy \<Rightarrow> (u32 \<times> u64) option" where
  "restart_limit (OneForOne n w) = Some (n, w)"
| "restart_limit (RestartN n w) = Some (of_nat n, w)"
| "restart_limit _ = None"

abbreviation child :: "actor_id \<Rightarrow> supervision \<Rightarrow> child_handle option" where
  "child aid sv \<equiv> find (\<lambda>c. ch_id c = aid) (sv_children sv)"

abbreviation child_ids :: "supervision \<Rightarrow> actor_id list" where
  "child_ids sv \<equiv> map ch_id (sv_children sv)"

lemma find_update_child:
  "(\<And>c. ch_id (f c) = aid') \<Longrightarrow> aid' = aid \<or> aid' \<notin> ch_id ` set cs \<Longrightarrow>
     find (\<lambda>c. ch_id c = aid') (update_child aid f cs) = map_option f (find (\<lambda>c. ch_id c = aid) cs)"
  by (induction cs) auto

lemma find_update_keep:
  "find (\<lambda>c. ch_id c = aid) (update_child aid (\<lambda>c. c\<lparr>ch_restart_times := ts\<rparr>) cs)
     = map_option (\<lambda>c. c\<lparr>ch_restart_times := ts\<rparr>) (find (\<lambda>c. ch_id c = aid) cs)"
  by (induction cs) auto

lemma ids_update_times: "map ch_id (update_child aid (\<lambda>c. c\<lparr>ch_restart_times := ts\<rparr>) cs) = map ch_id cs"
  by (induction cs) auto

lemma ids_update_id:
  "set (map ch_id (update_child aid (\<lambda>c. c\<lparr>ch_id := new_id, ch_stop := False\<rparr>) cs)) \<subseteq> insert new_id (ch_id ` set cs)"
  by (induction cs) auto

lemma typed_monitor_restarts:
  assumes "typed_restart_monitor strategy now new_id result aid sv = (Some aid', sv')"
  obtains n w sv1 where "restart_limit strategy = Some (n, w)" and "result = Panicked" and "aid' = new_id"
    and "restart_allowed now n w aid sv = (True, sv1)" and "sv' = snd (restart_as new_id aid sv1)"
  using assms
  by (auto simp: typed_restart_monitor_def limited_restart_def give_up_def restart_as_def Let_def
           split: task_end.splits supervisor_strategy.splits prod.splits if_splits)

lemma restart_allowed_True:
  assumes "restart_allowed now n w aid sv = (True, sv')"
  obtains ch kept where "child aid sv = Some ch"
    and "check_restart_limit now n w (ch_restart_times ch) = (True, kept)"
    and "sv' = sv\<lparr>sv_children := update_child aid (\<lambda>c. c\<lparr>ch_restart_times := kept\<rparr>) (sv_children sv)\<rparr>"
  using assms by (auto simp: restart_allowed_def split: option.splits prod.splits)

text \<open>After a restart the handle of the child carries the new id and the updated record.\<close>

lemma restarted_child:
  assumes "child aid sv = Some ch" and "new_id \<notin> set (child_ids sv)"
    and "sv' = snd (restart_as new_id aid (sv\<lparr>sv_children := update_child aid (\<lambda>c. c\<lparr>ch_restart_times := kept\<rparr>) (sv_children sv)\<rparr>))"
  shows "\<exists>ch'. child new_id sv' = Some ch' \<and> ch_restart_times ch' = kept"
    and "set (child_ids sv') \<subseteq> insert new_id (set (child_ids sv))"
proof -
  let ?cs = "update_child aid (\<lambda>c. c\<lparr>ch_restart_times := kept\<rparr>) (sv_children sv)"
  have cs: "sv_children sv' = update_child aid (\<lambda>c. c\<lparr>ch_id := new_id, ch_stop := False\<rparr>) ?cs"
    using assms(3) by (simp add: restart_as_def register_task_def deregister_task_def Let_def)
  have "new_id \<notin> ch_id ` set ?cs" using assms(2) ids_update_times [of aid kept "sv_children sv"] by (metis list.set_map)
  then show "\<exists>ch'. child new_id sv' = Some ch' \<and> ch_restart_times ch' = kept"
    using assms(1) find_update_child [of "\<lambda>c. c\<lparr>ch_id := new_id, ch_stop := False\<rparr>" new_id aid ?cs]
    by (simp add: cs find_update_keep)
  show "set (child_ids sv') \<subseteq> insert new_id (set (child_ids sv))"
    unfolding cs using ids_update_id [of aid new_id ?cs] ids_update_times [of aid kept "sv_children sv"]
    by (metis list.set_map)
qed

lemma monitor_run_limited:
  assumes "restart_limit strategy = Some (n, w)"
  shows "monitor_run strategy evs aid sv = (ts, r) \<Longrightarrow> child aid sv = Some ch \<Longrightarrow>
    recorded (window_ns w) t0 past (ch_restart_times ch) \<Longrightarrow> limited (unat n) (window_ns w) past \<Longrightarrow>
    sorted (t0 # map fst evs) \<Longrightarrow> distinct (map (fst \<circ> snd) evs) \<Longrightarrow>
    set (map (fst \<circ> snd) evs) \<inter> set (child_ids sv) = {} \<Longrightarrow>
    limited (unat n) (window_ns w) (past @ ts)"
proof (induction evs arbitrary: aid sv ts r ch t0 past)
  case (Cons ev evs)
  obtain now new_id result where ev: "ev = (now, new_id, result)" by (cases ev)
  obtain next_id sv' where step: "typed_restart_monitor strategy now new_id result aid sv = (next_id, sv')"
    by fastforce
  show ?case
  proof (cases next_id)
    case None
    then show ?thesis using Cons.prems(1,4) step ev by simp
  next
    case (Some aid')
    from typed_monitor_restarts [OF step [unfolded Some]] assms
    obtain sv1 where id': "aid' = new_id" and allowed: "restart_allowed now n w aid sv = (True, sv1)"
      and sv': "sv' = snd (restart_as new_id aid sv1)"
      by (metis option.inject prod.inject)
    from restart_allowed_True [OF allowed] Cons.prems(2) obtain kept
      where check: "check_restart_limit now n w (ch_restart_times ch) = (True, kept)"
        and sv1: "sv1 = sv\<lparr>sv_children := update_child aid (\<lambda>c. c\<lparr>ch_restart_times := kept\<rparr>) (sv_children sv)\<rparr>"
      by (metis option.inject)
    have fresh: "new_id \<notin> set (child_ids sv)" using Cons.prems(7) ev by auto
    note next_child = restarted_child [OF Cons.prems(2) fresh sv' [unfolded sv1]]
    obtain ch' where ch': "child new_id sv' = Some ch'" "ch_restart_times ch' = kept" using next_child(1) by blast
    have le: "t0 \<le> now" using Cons.prems(5) ev by simp
    note spec = check_restart_limit_spec [OF Cons.prems(3) le Cons.prems(4) check]
    obtain ts' where ts': "monitor_run strategy evs new_id sv' = (ts', r)" and ts: "ts = now # ts'"
      using Cons.prems(1) step Some ev id' by (auto split: prod.splits)
    have "limited (unat n) (window_ns w) ((past @ [now]) @ ts')"
    proof (rule Cons.IH [OF ts' ch'(1)])
      show "recorded (window_ns w) now (past @ [now]) (ch_restart_times ch')"
        and "limited (unat n) (window_ns w) (past @ [now])" using spec ch'(2) by simp_all
      show "sorted (now # map fst evs)" "distinct (map (fst \<circ> snd) evs)" using Cons.prems(5,6) ev by (simp_all add: comp_def)
      show "set (map (fst \<circ> snd) evs) \<inter> set (child_ids sv') = {}"
      proof -
        have "set (map (fst \<circ> snd) evs) \<inter> insert new_id (set (child_ids sv)) = {}"
          using Cons.prems(6,7) ev by (simp add: comp_def)
        then show ?thesis using next_child(2) by blast
      qed
    qed
    then show ?thesis by (simp add: ts)
  qed
qed simp

text \<open>C5. Restarts are rate limited: whatever a freshly spawned actor does and however often
  it panics, its supervisor restarts it at most \<open>max_restarts\<close> times in any window of
  \<open>within_secs\<close> seconds (for \<open>RestartN\<close>, the limit reduced to 32 bits).\<close>
theorem restarts_rate_limited:
  assumes limit: "restart_limit strategy = Some (n, w)"
    and spawned: "sv = spawn_actor_under aid strategy sv0"
    and ids: "aid \<notin> set (child_ids sv0)" "distinct (map (fst \<circ> snd) evs)"
      "set (map (fst \<circ> snd) evs) \<inter> set (child_ids sv) = {}"
    and time: "sorted (map fst evs)"
    and run: "monitor_run strategy evs aid sv = (ts, r)"
  shows "in_window u (unat w * 1000000000) ts \<le> unat n"
proof -
  have "child aid sv0 = None" using ids(1) by (auto simp: find_None_iff)
  then have ch: "child aid sv = Some \<lparr>ch_id = aid, ch_stop = False, ch_restart_times = [], ch_strategy = strategy\<rparr>"
    using spawned by (simp add: spawn_actor_under_def register_task_def find_append)
  have "limited (unat n) (window_ns w) ([] @ ts)"
    by (rule monitor_run_limited [OF limit run ch, where ?t0.0 = 0])
       (use ids(2,3) time in \<open>auto simp: recorded_def limited_def in_window_def\<close>)
  then show ?thesis by (simp add: limited_def window_ns_def)
qed

theorem restarts_rate_limited_witness:
  "(let sv = spawn_actor_under 1 (OneForOne 1 60) \<lparr>sv_tasks = [], sv_children = []\<rparr>
    in fst (monitor_run (OneForOne 1 60) [(5, 2, Panicked), (6, 3, Panicked)] 1 sv) = [5]
       \<and> in_window 0 60000000000 (fst (monitor_run (OneForOne 1 60) [(5, 2, Panicked), (6, 3, Panicked)] 1 sv)) \<le> 1)"
proof -
  let ?sv = "spawn_actor_under 1 (OneForOne 1 60) \<lparr>sv_tasks = [], sv_children = []\<rparr>"
  obtain ts r where run: "monitor_run (OneForOne 1 60) [(5, 2, Panicked), (6, 3, Panicked)] 1 ?sv = (ts, r)"
    by (metis prod.exhaust)
  have "in_window 0 (unat (60 :: u64) * 1000000000) ts \<le> unat (1 :: u32)"
  proof (rule restarts_rate_limited [OF _ refl _ _ _ _ run])
    show "restart_limit (OneForOne 1 60) = Some (1, 60)" by simp
    show "set (map (fst \<circ> snd) [(5, 2, Panicked), (6, 3, Panicked)]) \<inter> set (child_ids ?sv) = {}"
      by (simp add: spawn_actor_under_def register_task_def)
  qed simp_all
  moreover have "fst (monitor_run (OneForOne 1 60) [(5, 2, Panicked), (6, 3, Panicked)] 1 ?sv) = [5]"
    by (simp add: typed_restart_monitor_def limited_restart_def restart_allowed_def check_restart_limit_def
          restart_as_def give_up_def spawn_actor_under_def register_task_def deregister_task_def remove_child_def)
  ultimately show ?thesis using run by (simp add: Let_def)
qed

section \<open>Bookkeeping\<close>

text \<open>The children and tasks are those of the rest of the system and this actor's own.\<close>

definition owns :: "actor_id set \<Rightarrow> actor_id set \<Rightarrow> actor_id \<Rightarrow> supervision \<Rightarrow> bool" where
  "owns children tasks aid sv \<longleftrightarrow>
     distinct (child_ids sv) \<and> set (child_ids sv) \<subseteq> insert aid children \<and> aid \<notin> children
     \<and> set (sv_tasks sv) \<subseteq> insert aid tasks \<and> aid \<notin> tasks"

lemma restart_allowed_frame:
  assumes "restart_allowed now n w aid sv = (b, sv')"
  shows "child_ids sv' = child_ids sv" and "sv_tasks sv' = sv_tasks sv"
  using assms ids_update_times by (auto simp: restart_allowed_def split: option.splits prod.splits)

lemma stop_siblings_frame: "child_ids (stop_siblings aid sv) = child_ids sv" "sv_tasks (stop_siblings aid sv) = sv_tasks sv"
  by (auto simp: stop_siblings_def)

lemma give_up_clears:
  "set (child_ids (snd (give_up aid sv))) = set (child_ids sv) - {aid}"
  "set (sv_tasks (snd (give_up aid sv))) = set (sv_tasks sv) - {aid}"
  by (auto simp: give_up_def deregister_task_def remove_child_def)

lemma typed_monitor_gives_up:
  assumes "typed_restart_monitor strategy now new_id result aid sv = (None, sv')"
  shows "set (child_ids sv') = set (child_ids sv) - {aid}" and "set (sv_tasks sv') = set (sv_tasks sv) - {aid}"
proof -
  have "\<exists>sv1. sv' = snd (give_up aid sv1) \<and> child_ids sv1 = child_ids sv \<and> sv_tasks sv1 = sv_tasks sv"
    using assms
    by (auto simp: typed_restart_monitor_def limited_restart_def restart_as_def Let_def
             split: task_end.splits supervisor_strategy.splits prod.splits if_splits)
       (metis restart_allowed_frame stop_siblings_frame snd_conv)+
  then show "set (child_ids sv') = set (child_ids sv) - {aid}" and "set (sv_tasks sv') = set (sv_tasks sv) - {aid}"
    using give_up_clears by metis+
qed

lemma ids_replaced:
  "distinct (map ch_id cs) \<Longrightarrow>
     map ch_id (update_child aid (\<lambda>c. c\<lparr>ch_id := new_id, ch_stop := False\<rparr>) cs)
       = map (\<lambda>i. if i = aid then new_id else i) (map ch_id cs)"
proof (induction cs)
  case (Cons c cs)
  have "map (\<lambda>i. if i = aid then new_id else i) xs = xs" if "aid \<notin> set xs" for xs
    using that by (intro map_idI) auto
  then show ?case using Cons by (cases "ch_id c = aid") (simp_all del: map_map)
qed simp

lemma restart_keeps_owns:
  assumes "owns children tasks aid sv" and "new_id \<notin> children" and "new_id \<notin> tasks" and "new_id \<noteq> aid"
  shows "owns children tasks new_id (snd (restart_as new_id aid sv))"
proof -
  let ?sv = "snd (restart_as new_id aid sv)"
  have ids: "child_ids ?sv = map (\<lambda>i. if i = aid then new_id else i) (child_ids sv)"
    using assms(1) ids_replaced [of "sv_children sv" aid new_id]
    by (simp add: owns_def restart_as_def register_task_def deregister_task_def Let_def)
  have "inj_on (\<lambda>i. if i = aid then new_id else i) (set (child_ids sv))"
    using assms by (auto simp: inj_on_def owns_def)
  then have "distinct (child_ids ?sv)"
    using assms(1) unfolding ids by (subst distinct_map) (simp add: owns_def)
  moreover have "set (child_ids ?sv) \<subseteq> insert new_id children"
    using assms(1) unfolding ids by (auto simp: owns_def)
  moreover have "set (sv_tasks ?sv) \<subseteq> insert new_id tasks"
    using assms(1) by (auto simp: owns_def restart_as_def register_task_def deregister_task_def Let_def split: if_splits)
  ultimately show ?thesis using assms(2,3) by (simp add: owns_def)
qed

lemma monitor_run_owns:
  "monitor_run strategy evs aid sv = (ts, r, sv') \<Longrightarrow> owns children tasks aid sv \<Longrightarrow>
     distinct (aid # map (fst \<circ> snd) evs) \<Longrightarrow> set (map (fst \<circ> snd) evs) \<inter> (children \<union> tasks) = {} \<Longrightarrow>
     (case r of
        Some aid' \<Rightarrow> owns children tasks aid' sv'
      | None \<Rightarrow> set (child_ids sv') \<subseteq> children \<and> set (sv_tasks sv') \<subseteq> tasks)"
proof (induction evs arbitrary: aid sv ts)
  case (Cons ev evs)
  obtain now new_id result where ev: "ev = (now, new_id, result)" by (cases ev)
  obtain next_id sv1 where step: "typed_restart_monitor strategy now new_id result aid sv = (next_id, sv1)"
    by fastforce
  show ?case
  proof (cases next_id)
    case None
    then have "r = None" "sv' = sv1" using Cons.prems(1) step ev by auto
    then show ?thesis using typed_monitor_gives_up [OF step [unfolded None]] Cons.prems(2) by (auto simp: owns_def)
  next
    case (Some aid')
    from typed_monitor_restarts [OF step [unfolded Some]] obtain n w sv2 where id': "aid' = new_id"
      and allowed: "restart_allowed now n w aid sv = (True, sv2)" and sv1: "sv1 = snd (restart_as new_id aid sv2)"
      by metis
    have "owns children tasks aid sv2"
      using Cons.prems(2) restart_allowed_frame [OF allowed] by (simp add: owns_def)
    then have "owns children tasks new_id sv1"
      unfolding sv1 by (rule restart_keeps_owns) (use Cons.prems(3,4) ev in auto)
    moreover obtain ts' where "monitor_run strategy evs new_id sv1 = (ts', r, sv')"
      using Cons.prems(1) step Some ev id' by (auto split: prod.splits)
    ultimately show ?thesis
      using Cons.IH [of new_id sv1 ts'] Cons.prems(3,4) ev by (simp add: comp_def)
  qed
qed (auto split: option.splits)

text \<open>Supervision leaves nothing behind. While a spawned actor is restarted it has exactly
  one child handle, under the id of its latest instance, and once its monitor has finished,
  because the actor returned, was cancelled, or is not restarted any more, neither a child
  handle nor a task of any of its instances remains.\<close>
theorem supervision_cleans_up:
  assumes "distinct (child_ids sv0)" and "aid \<notin> set (child_ids sv0) \<union> set (sv_tasks sv0)"
    and "distinct (aid # map (fst \<circ> snd) evs)"
    and "set (map (fst \<circ> snd) evs) \<inter> (set (child_ids sv0) \<union> set (sv_tasks sv0)) = {}"
    and "monitor_run strategy evs aid (spawn_actor_under aid strategy sv0) = (ts, r, sv')"
  shows "(case r of
      Some aid' \<Rightarrow> owns (set (child_ids sv0)) (set (sv_tasks sv0)) aid' sv'
    | None \<Rightarrow> set (child_ids sv') \<subseteq> set (child_ids sv0) \<and> set (sv_tasks sv') \<subseteq> set (sv_tasks sv0))"
proof (rule monitor_run_owns [OF assms(5) _ assms(3,4)])
  show "owns (set (child_ids sv0)) (set (sv_tasks sv0)) aid (spawn_actor_under aid strategy sv0)"
    using assms(1,2) by (auto simp: owns_def spawn_actor_under_def register_task_def)
qed

theorem supervision_cleans_up_witness:
  "(let sv0 = \<lparr>sv_tasks = [7], sv_children = []\<rparr>;
        (ts, r, sv') = monitor_run Escalate [(5, 2, Panicked)] 1 (spawn_actor_under 1 Escalate sv0)
    in r = None \<and> set (sv_tasks sv') \<subseteq> {7})"
proof -
  let ?sv0 = "\<lparr>sv_tasks = [7], sv_children = []\<rparr> :: supervision"
  obtain ts r sv' where run: "monitor_run Escalate [(5, 2, Panicked)] 1 (spawn_actor_under 1 Escalate ?sv0) = (ts, r, sv')"
    by (metis prod.exhaust)
  have "r = None" using run by (auto simp: typed_restart_monitor_def give_up_def)
  moreover have "(case r of
      Some aid' \<Rightarrow> owns (set (child_ids ?sv0)) (set (sv_tasks ?sv0)) aid' sv'
    | None \<Rightarrow> set (child_ids sv') \<subseteq> set (child_ids ?sv0) \<and> set (sv_tasks sv') \<subseteq> set (sv_tasks ?sv0))"
    by (rule supervision_cleans_up [OF _ _ _ _ run]) simp_all
  ultimately show ?thesis using run by simp
qed

end
