(* ===== verification/DomainSpecs.thy ===== *)
theory DomainSpecs
  imports Domains
begin

text \<open>
  The serialisable description of a domain (\<open>rshome-entity/src/domains/spec.rs\<close>) and the
  registry that extensions add their own domains to. The registry is a \<open>HashMap\<close>, a map
  here.

  The lemmas show what a successful registration means and that no sequence of
  registrations can change a domain that is already there.
\<close>

section \<open>Specifications\<close>

record service_spec =
  ss_name :: string
  ss_schema :: "json option"

datatype domain_spec_error =
    MissingRequiredFeature string
  | DomainIdCollision string
  | NamespaceViolation string

record domain_spec =
  ds_domain_id :: string
  ds_required_features :: "string list"
  ds_optional_features :: "string list"
  ds_device_classes :: "string list"
  ds_services :: "service_spec list"
  ds_is_built_in :: bool

definition RESERVED_PREFIXES :: "string list" where
  "RESERVED_PREFIXES = [''rshome_'', ''esphome_'', ''ha_'']"

definition from_def :: "domain_def \<Rightarrow> domain_spec" where
  "from_def def =
     \<lparr>ds_domain_id = dd_id def, ds_required_features = dd_required def, ds_optional_features = dd_optional def,
      ds_device_classes = dd_device_classes def,
      ds_services = map (\<lambda>name. \<lparr>ss_name = name, ss_schema = None\<rparr>) (dd_services def (all_def_features def)),
      ds_is_built_in = True\<rparr>"

definition extension ::
    "string \<Rightarrow> string list \<Rightarrow> string list \<Rightarrow> string list \<Rightarrow> service_spec list \<Rightarrow> domain_spec" where
  "extension sid required optional classes services =
     \<lparr>ds_domain_id = sid, ds_required_features = required, ds_optional_features = optional,
      ds_device_classes = classes, ds_services = services, ds_is_built_in = False\<rparr>"

definition validate_features :: "domain_spec \<Rightarrow> string list \<Rightarrow> domain_spec_error + unit" where
  "validate_features spec features =
     (case find (\<lambda>req. req \<notin> set features) (ds_required_features spec) of
        Some req \<Rightarrow> Inl (MissingRequiredFeature req)
      | None \<Rightarrow> Inr ())"

definition validate_device_class :: "domain_spec \<Rightarrow> string \<Rightarrow> bool" where
  "validate_device_class spec class = (ds_device_classes spec = [] \<or> class \<in> set (ds_device_classes spec))"

definition has_service :: "domain_spec \<Rightarrow> string \<Rightarrow> bool" where
  "has_service spec name = list_ex (\<lambda>s. ss_name s = name) (ds_services spec)"

definition spec_features :: "domain_spec \<Rightarrow> string list" where
  "spec_features spec = ds_required_features spec @ ds_optional_features spec"

definition reserved_name :: "string \<Rightarrow> bool" where
  "reserved_name f = list_ex (\<lambda>p. starts_with p f) RESERVED_PREFIXES"

definition validate_extension_features :: "string list \<Rightarrow> domain_spec_error + unit" where
  "validate_extension_features features =
     (case find reserved_name features of
        Some f \<Rightarrow> Inl (NamespaceViolation f)
      | None \<Rightarrow> Inr ())"

section \<open>The registry\<close>

type_synonym spec_registry = "string \<rightharpoonup> domain_spec"

definition built_in_specs :: spec_registry where
  "built_in_specs = fold (\<lambda>def specs. specs(ds_domain_id (from_def def) \<mapsto> from_def def)) built_in_domains Map.empty"

definition empty_specs :: spec_registry where
  "empty_specs = Map.empty"

definition register_extension :: "domain_spec \<Rightarrow> spec_registry \<Rightarrow> domain_spec_error + spec_registry" where
  "register_extension spec specs =
     (if specs (ds_domain_id spec) \<noteq> None then Inl (DomainIdCollision (ds_domain_id spec))
      else case validate_extension_features (spec_features spec) of
        Inl e \<Rightarrow> Inl e
      | Inr _ \<Rightarrow> Inr (specs(ds_domain_id spec \<mapsto> spec)))"

section \<open>Facts\<close>

lemma validate_features_iff: "validate_features spec fs = Inr () \<longleftrightarrow> set (ds_required_features spec) \<subseteq> set fs"
  by (auto simp: validate_features_def find_None_iff split: option.splits dest: find_Some_mem)

lemma validate_extension_iff: "validate_extension_features fs = Inr () \<longleftrightarrow> list_all (\<lambda>f. \<not> reserved_name f) fs"
  by (auto simp: validate_extension_features_def find_None_iff list_all_iff split: option.splits dest: find_Some_mem)

lemma register_extension_Inr:
  "register_extension spec specs = Inr specs' \<longleftrightarrow>
     specs (ds_domain_id spec) = None \<and> list_all (\<lambda>f. \<not> reserved_name f) (spec_features spec)
     \<and> specs' = specs(ds_domain_id spec \<mapsto> spec)"
  using validate_extension_iff [of "spec_features spec"]
  by (auto simp: register_extension_def split: sum.splits)

lemma built_in_specs_map: "built_in_specs = map_of (map (\<lambda>d. (dd_id d, from_def d)) built_in_domains)"
  unfolding built_in_specs_def built_in_domains_def by (simp add: domain_defs from_def_def fun_upd_twist)

lemma map_of_keyed: "map_of (map (\<lambda>x. (k x, f x)) xs) d = map_option f (map_of (map (\<lambda>x. (k x, x)) xs) d)"
  by (induction xs) auto

lemma built_in_specs_get: "built_in_specs d = map_option from_def (get_domain d)"
  unfolding built_in_specs_map get_domain_def by (rule map_of_keyed)

text \<open>A sequence of attempts to register extensions; a refused one changes nothing.\<close>

definition register_all :: "domain_spec list \<Rightarrow> spec_registry \<Rightarrow> spec_registry" where
  "register_all = fold (\<lambda>spec specs. case register_extension spec specs of Inl _ \<Rightarrow> specs | Inr specs' \<Rightarrow> specs')"

lemma register_all_Cons:
  "register_all (spec # specs) reg =
     register_all specs (case register_extension spec reg of Inl _ \<Rightarrow> reg | Inr reg' \<Rightarrow> reg')"
  by (simp add: register_all_def)

lemma register_all_keeps: "reg d = Some x \<Longrightarrow> register_all specs reg d = Some x"
proof (induction specs arbitrary: reg)
  case (Cons spec specs)
  then show ?case
    by (cases "d = ds_domain_id spec") (auto simp: register_all_Cons register_extension_Inr split: sum.splits)
qed (simp add: register_all_def)

lemma register_all_new:
  "register_all specs reg d = Some x \<Longrightarrow> reg d \<noteq> Some x \<Longrightarrow>
     x \<in> set specs \<and> ds_domain_id x = d \<and> list_all (\<lambda>f. \<not> reserved_name f) (spec_features x)"
proof (induction specs arbitrary: reg)
  case (Cons spec specs)
  then show ?case
    by (cases "register_extension spec reg")
       (fastforce simp: register_all_Cons register_extension_Inr split: if_splits)+
qed (simp add: register_all_def)

text \<open>Extension domains can never replace or shadow a built-in one: whatever
  specifications are offered for registration, the description of a built-in domain stays
  the one derived from its definition, and every other registered domain has exactly the
  id it is filed under and no feature in a reserved namespace.\<close>
theorem extensions_never_override:
  "(\<forall>d def. get_domain d = Some def \<longrightarrow> register_all specs built_in_specs d = Some (from_def def))
   \<and> (\<forall>d x. get_domain d = None \<and> register_all specs built_in_specs d = Some x \<longrightarrow>
        x \<in> set specs \<and> ds_domain_id x = d \<and> list_all (\<lambda>f. \<not> reserved_name f) (spec_features x))"
proof (rule conjI; intro allI impI)
  fix d def
  assume "get_domain d = Some def"
  then show "register_all specs built_in_specs d = Some (from_def def)"
    by (intro register_all_keeps) (simp add: built_in_specs_get)
next
  fix d x
  assume "get_domain d = None \<and> register_all specs built_in_specs d = Some x"
  then show "x \<in> set specs \<and> ds_domain_id x = d \<and> list_all (\<lambda>f. \<not> reserved_name f) (spec_features x)"
    using register_all_new [of specs built_in_specs d x] by (simp add: built_in_specs_get)
qed

theorem extensions_never_override_witness:
  "register_all [extension ''sensor'' [] [] [] [], extension ''pool'' [''state''] [] [] []] built_in_specs ''sensor''
     = Some (from_def sensor_domain)"
  using extensions_never_override [of "[extension ''sensor'' [] [] [] [], extension ''pool'' [''state''] [] [] []]"]
  by (simp add: get_domain_def built_in_domains_def domain_defs)

end
