(* ===== verification/Workflow.thy ===== *)
theory Workflow
  imports Services
begin

text \<open>
  Workflows (\<open>rshome-wf\<close>): their definitions (\<open>definition.rs\<close>), the execution of step lists
  (\<open>pipeline.rs\<close>), run-to-completion state machines (\<open>rtc.rs\<close>) and the engine that keeps the
  workflows and their runs (\<open>engine.rs\<close>). Steps act on the world of the entity runtime; the
  parameters are serde's conversions of a state, the answer of an entity that is asked for
  its state, what the rest of the program does during a delay, and the fresh run ids.

  The lemmas concern the conditions, the states a machine can reach and the status of runs.
\<close>

section \<open>Definitions\<close>

datatype trigger_def =
    ManualTrigger
  | EntityStateChange string "string option" "string option"
  | TimePattern string
  | Webhook string

fun trigger_type_name :: "trigger_def \<Rightarrow> string" where
  "trigger_type_name ManualTrigger = ''manual''"
| "trigger_type_name (EntityStateChange _ _ _) = ''entity_state_change''"
| "trigger_type_name (TimePattern _) = ''time_pattern''"
| "trigger_type_name (Webhook _) = ''webhook''"

datatype call_target = CallAll | CallEntity string | CallDomain string

datatype step_def =
    Condition string "string option"
  | ServiceCall string string call_target json
  | Delay u64
  | SetEntityState string json
  | LogMessage string

record transition_def =
  tr_event :: string
  tr_guard :: "string option"
  tr_target_state :: string
  tr_actions :: "step_def list"

record state_def =
  st_name :: string
  st_entry_actions :: "step_def list"
  st_exit_actions :: "step_def list"
  st_transitions :: "transition_def list"

datatype workflow_mode = Pipeline "step_def list" | RunToCompletion "state_def list"

fun mode_type_name :: "workflow_mode \<Rightarrow> string" where
  "mode_type_name (Pipeline _) = ''pipeline''"
| "mode_type_name (RunToCompletion _) = ''run_to_completion''"

record workflow_definition =
  wd_workflow_id :: string
  wd_name :: string
  wd_description :: "string option"
  wd_trigger :: trigger_def
  wd_mode :: workflow_mode

record workflow_info =
  wi_workflow_id :: string
  wi_name :: string
  wi_trigger_type :: string
  wi_mode_type :: string

definition info_from_definition :: "workflow_definition \<Rightarrow> workflow_info" where
  "info_from_definition def =
     \<lparr>wi_workflow_id = wd_workflow_id def, wi_name = wd_name def,
      wi_trigger_type = trigger_type_name (wd_trigger def), wi_mode_type = mode_type_name (wd_mode def)\<rparr>"

datatype run_status = Running | Completed | Failed

datatype wf_error =
    WorkflowNotFound string
  | RunNotFound string
  | ActiveRunsExist
  | ConditionFailed string
  | InvalidExpression string
  | NoSuchEntity string
  | StateMachineError string
  | ActorFailed string
  | ServiceCallFailed service_error

record run_info =
  ri_run_id :: string
  ri_workflow_id :: string
  ri_status :: run_status
  ri_error :: "wf_error option"

section \<open>Conditions\<close>

text \<open>\<open>splitn(3, ' ')\<close> with exactly three parts.\<close>

definition splitn_3 :: "string \<Rightarrow> (string \<times> string \<times> string) option" where
  "splitn_3 s =
     (case split_once '' '' s of
        None \<Rightarrow> None
      | Some (a, rest) \<Rightarrow> map_option (\<lambda>(b, c). (a, b, c)) (split_once '' '' rest))"

definition extract_entity_fields :: "json \<Rightarrow> wf_error + (string \<times> json) list" where
  "extract_entity_fields value =
     (case value of
        JObj [(_, JObj inner)] \<Rightarrow> Inr inner
      | JObj [_] \<Rightarrow> Inl (InvalidExpression ''entity state variant has no object fields'')
      | JStr s \<Rightarrow> Inl (ConditionFailed (''entity state is '' @ quoted s @ '' (no fields)''))
      | _ \<Rightarrow> Inl (InvalidExpression ''unexpected entity state JSON shape''))"

definition compare_numbers :: "f64 \<Rightarrow> string \<Rightarrow> f64 \<Rightarrow> wf_error + bool" where
  "compare_numbers act op ex =
     (if op = ''=='' then Inr (f64_lt (f64_abs (f64_sub act ex)) f64_epsilon)
      else if op = ''!='' then Inr (f64_le f64_epsilon (f64_abs (f64_sub act ex)))
      else if op = ''>'' then Inr (f64_lt ex act)
      else if op = ''<'' then Inr (f64_lt act ex)
      else if op = ''>='' then Inr (f64_le ex act)
      else if op = ''<='' then Inr (f64_le act ex)
      else Inl (InvalidExpression (''unknown op '' @ quoted op @ '' for number'')))"

definition compare_field_value :: "json \<Rightarrow> string \<Rightarrow> string \<Rightarrow> wf_error + bool" where
  "compare_field_value actual op expected =
     (case actual of
        JBool b \<Rightarrow>
          if op = ''=='' then Inr (b = (expected = ''true''))
          else if op = ''!='' then Inr (b \<noteq> (expected = ''true''))
          else Inl (InvalidExpression (''op '' @ quoted op @ '' not supported for bool''))
      | JNum n \<Rightarrow>
          (case parse_f64 expected of
             None \<Rightarrow> Inl (InvalidExpression (''cannot parse '' @ quoted expected @ '' as number''))
           | Some ex \<Rightarrow> compare_numbers (case as_f64 (JNum n) of Some x \<Rightarrow> x | None \<Rightarrow> F_Fin False 0) op ex)
      | JStr s \<Rightarrow>
          if op = ''=='' then Inr (s = expected)
          else if op = ''!='' then Inr (s \<noteq> expected)
          else Inl (InvalidExpression (''op '' @ quoted op @ '' not supported for string''))
      | _ \<Rightarrow> Inl (InvalidExpression ''unsupported JSON value type for comparison''))"

text \<open>What the runner is given: the conversions, the answers of entities and the passing of time.\<close>

record 'w runner =
  ru_services :: services
  ru_manager :: bool
  ru_asked :: "'w world \<Rightarrow> actor_ref \<Rightarrow> entity_state option"
  ru_to_value :: "entity_state \<Rightarrow> string + json"
  ru_from_value :: "json \<Rightarrow> string + entity_state"
  ru_elapse :: "nat \<Rightarrow> 'w world \<Rightarrow> 'w world"

definition check_expression :: "json \<Rightarrow> string \<Rightarrow> (string \<times> string \<times> string) \<Rightarrow> wf_error + unit" where
  "check_expression state_json expression parts =
     (case parts of (field, op, expected) \<Rightarrow>
        (case extract_entity_fields state_json of
           Inl e \<Rightarrow> Inl e
         | Inr entries \<Rightarrow>
             (case map_of entries field of
                None \<Rightarrow> Inl (InvalidExpression (''field '' @ quoted field @ '' not found in entity state''))
              | Some actual \<Rightarrow>
                  (case compare_field_value actual op expected of
                     Inl e \<Rightarrow> Inl e
                   | Inr True \<Rightarrow> Inr ()
                   | Inr False \<Rightarrow> Inl (ConditionFailed expression)))))"

definition eval_condition :: "'w runner \<Rightarrow> string \<Rightarrow> string option \<Rightarrow> 'w world \<Rightarrow> wf_error + unit" where
  "eval_condition ru expression entity w =
     (case entity of
        None \<Rightarrow>
          if trim expression = ''true'' then Inr ()
          else if trim expression = ''false'' then Inl (ConditionFailed expression)
          else Inl (InvalidExpression (''expression '' @ quoted expression @ '' requires entity_id''))
      | Some eid \<Rightarrow>
          (case registered eid (w_registry w) of
             None \<Rightarrow> Inl (NoSuchEntity eid)
           | Some r \<Rightarrow>
               (case ru_asked ru w r of
                  None \<Rightarrow> Inl (ActorFailed ''actor channel disconnected'')
                | Some state \<Rightarrow>
                    (case splitn_3 expression of
                       None \<Rightarrow> Inl (InvalidExpression (''expected field op value, got: '' @ quoted expression))
                     | Some parts \<Rightarrow>
                         (case ru_to_value ru state of
                            Inl e \<Rightarrow> Inl (InvalidExpression e)
                          | Inr v \<Rightarrow> check_expression v expression parts)))))"

section \<open>Steps\<close>

definition to_service_target :: "call_target \<Rightarrow> service_target" where
  "to_service_target t =
     (case t of CallAll \<Rightarrow> AllEntities | CallEntity eid \<Rightarrow> EntityIds [eid] | CallDomain d \<Rightarrow> TargetDomain d)"

definition execute_step :: "'w runner \<Rightarrow> step_def \<Rightarrow> 'w world \<Rightarrow> (wf_error + unit) \<times> 'w world" where
  "execute_step ru step w =
     (case step of
        LogMessage _ \<Rightarrow> (Inr (), w)
      | Delay duration_ms \<Rightarrow> (Inr (), ru_elapse ru (unat duration_ms) w)
      | Condition expression entity \<Rightarrow> (eval_condition ru expression entity w, w)
      | ServiceCall domain service target data \<Rightarrow>
          (case service_call (ru_services ru) (ru_manager ru) domain service (to_service_target target) data w of
             (Inl e, w') \<Rightarrow> (Inl (ServiceCallFailed e), w')
           | (Inr _, w') \<Rightarrow> (Inr (), w'))
      | SetEntityState eid state \<Rightarrow>
          (case registered eid (w_registry w) of
             None \<Rightarrow> (Inl (NoSuchEntity eid), w)
           | Some r \<Rightarrow>
               (case ru_from_value ru state of
                  Inl e \<Rightarrow> (Inl (InvalidExpression e), w)
                | Inr new_state \<Rightarrow>
                    (case send_entity r (SetState new_state) w of
                       (True, w') \<Rightarrow> (Inr (), w')
                     | (False, w') \<Rightarrow> (Inl (ActorFailed ''actor channel disconnected''), w')))))"

fun execute :: "'w runner \<Rightarrow> step_def list \<Rightarrow> 'w world \<Rightarrow> (wf_error + unit) \<times> 'w world" where
  "execute ru [] w = (Inr (), w)"
| "execute ru (step # steps) w =
     (case execute_step ru step w of
        (Inl e, w') \<Rightarrow> (Inl e, w')
      | (Inr _, w') \<Rightarrow> execute ru steps w')"

section \<open>Run-to-completion state machines\<close>

record rtc_handle =
  rh_current_state :: string
  rh_states :: "state_def list"

definition find_state :: "string \<Rightarrow> state_def list \<Rightarrow> state_def option" where
  "find_state name states = find (\<lambda>s. st_name s = name) states"

definition is_in_terminal_state :: "rtc_handle \<Rightarrow> string \<Rightarrow> bool" where
  "is_in_terminal_state h name =
     (case find_state name (rh_states h) of None \<Rightarrow> True | Some s \<Rightarrow> st_transitions s = [])"

text \<open>A transition is a candidate unless its guard is literally false.\<close>

definition transition_matches :: "string \<Rightarrow> transition_def \<Rightarrow> bool" where
  "transition_matches event t \<longleftrightarrow>
     tr_event t = event \<and> (case tr_guard t of None \<Rightarrow> True | Some g \<Rightarrow> trim g \<noteq> ''false'')"

definition bad_guard :: "transition_def \<Rightarrow> string option" where
  "bad_guard t =
     (case tr_guard t of
        None \<Rightarrow> None
      | Some g \<Rightarrow> if trim g \<noteq> ''true'' \<and> trim g \<noteq> ''false'' then Some g else None)"

text \<open>Exit actions, transition actions, the change of state, entry actions; the first error
  ends the dispatch, after which the handle may already be in the new state.\<close>

definition take_transition ::
    "'w runner \<Rightarrow> rtc_handle \<Rightarrow> state_def \<Rightarrow> transition_def \<Rightarrow> state_def \<Rightarrow> 'w world \<Rightarrow>
     (wf_error + string) \<times> rtc_handle \<times> 'w world" where
  "take_transition ru h state t target w =
     (case execute ru (st_exit_actions state) w of
        (Inl e, w1) \<Rightarrow> (Inl e, h, w1)
      | (Inr _, w1) \<Rightarrow>
          (case execute ru (tr_actions t) w1 of
             (Inl e, w2) \<Rightarrow> (Inl e, h, w2)
           | (Inr _, w2) \<Rightarrow>
               (let h' = h\<lparr>rh_current_state := tr_target_state t\<rparr>
                in case execute ru (st_entry_actions target) w2 of
                     (Inl e, w3) \<Rightarrow> (Inl e, h', w3)
                   | (Inr _, w3) \<Rightarrow> (Inr (tr_target_state t), h', w3))))"

definition dispatch_event ::
    "'w runner \<Rightarrow> string \<Rightarrow> rtc_handle \<Rightarrow> 'w world \<Rightarrow> (wf_error + string) \<times> rtc_handle \<times> 'w world" where
  "dispatch_event ru event h w =
     (case find_state (rh_current_state h) (rh_states h) of
        None \<Rightarrow> (Inl (StateMachineError (''current state '' @ quoted (rh_current_state h) @ '' not found in definition'')), h, w)
      | Some state \<Rightarrow>
          (case find (transition_matches event) (st_transitions state) of
             None \<Rightarrow> (Inr (rh_current_state h), h, w)
           | Some t \<Rightarrow>
               (case bad_guard t of
                  Some g \<Rightarrow> (Inl (InvalidExpression (''guard '' @ quoted g @ '' is not a literal boolean (Phase 5 limitation)'')), h, w)
                | None \<Rightarrow>
                    (case find_state (tr_target_state t) (rh_states h) of
                       None \<Rightarrow> (Inl (StateMachineError (''target state '' @ quoted (tr_target_state t) @ '' not found'')), h, w)
                     | Some target \<Rightarrow> take_transition ru h state t target w))))"

definition start_machine :: "'w runner \<Rightarrow> state_def list \<Rightarrow> string \<Rightarrow> 'w world \<Rightarrow> (wf_error + rtc_handle) \<times> 'w world" where
  "start_machine ru states initial w =
     (case find_state initial states of
        None \<Rightarrow> (Inl (StateMachineError (''initial state '' @ quoted initial @ '' not found'')), w)
      | Some state \<Rightarrow>
          (case execute ru (st_entry_actions state) w of
             (Inl e, w') \<Rightarrow> (Inl e, w')
           | (Inr _, w') \<Rightarrow> (Inr \<lparr>rh_current_state = initial, rh_states = states\<rparr>, w')))"

section \<open>The engine\<close>

text \<open>\<open>we_tasks\<close> are the pipeline runs whose task has not reported back.\<close>

record engine =
  we_workflows :: "(string \<times> workflow_definition) list"
  we_runs :: "(string \<times> run_info) list"
  we_rtc_runs :: "(string \<times> string \<times> rtc_handle) list"
  we_tasks :: "(string \<times> step_def list) list"

definition create_workflow :: "string \<Rightarrow> workflow_definition \<Rightarrow> engine \<Rightarrow> engine" where
  "create_workflow wid def en =
     en\<lparr>we_workflows := reg_insert wid (def\<lparr>wd_workflow_id := wid\<rparr>) (we_workflows en)\<rparr>"

definition list_workflows :: "engine \<Rightarrow> workflow_info list" where
  "list_workflows en = map (\<lambda>(_, d). info_from_definition d) (we_workflows en)"

definition get_workflow :: "string \<Rightarrow> engine \<Rightarrow> wf_error + workflow_definition" where
  "get_workflow wid en = (case map_of (we_workflows en) wid of Some d \<Rightarrow> Inr d | None \<Rightarrow> Inl (WorkflowNotFound wid))"

definition has_active_run :: "string \<Rightarrow> engine \<Rightarrow> bool" where
  "has_active_run wid en = list_ex (\<lambda>(_, r). ri_workflow_id r = wid \<and> ri_status r = Running) (we_runs en)"

definition delete_workflow :: "string \<Rightarrow> engine \<Rightarrow> (wf_error + unit) \<times> engine" where
  "delete_workflow wid en =
     (if map_of (we_workflows en) wid = None then (Inl (WorkflowNotFound wid), en)
      else if has_active_run wid en then (Inl ActiveRunsExist, en)
      else (Inr (), en\<lparr>we_workflows := reg_remove wid (we_workflows en)\<rparr>))"

text \<open>\<open>if let Some(r) = self.runs.get_mut(..)\<close>.\<close>

definition set_run :: "string \<Rightarrow> run_status \<Rightarrow> wf_error option \<Rightarrow> engine \<Rightarrow> engine" where
  "set_run rid status err en =
     (case map_of (we_runs en) rid of
        None \<Rightarrow> en
      | Some r \<Rightarrow> en\<lparr>we_runs := reg_insert rid (r\<lparr>ri_status := status, ri_error := err\<rparr>) (we_runs en)\<rparr>)"

definition run_workflow ::
    "'w runner \<Rightarrow> string \<Rightarrow> string \<Rightarrow> engine \<Rightarrow> 'w world \<Rightarrow> (wf_error + string) \<times> engine \<times> 'w world" where
  "run_workflow ru rid wid en w =
     (case map_of (we_workflows en) wid of
        None \<Rightarrow> (Inl (WorkflowNotFound wid), en, w)
      | Some workflow \<Rightarrow>
          (let en1 = en\<lparr>we_runs := reg_insert rid
                 \<lparr>ri_run_id = rid, ri_workflow_id = wid, ri_status = Running, ri_error = None\<rparr> (we_runs en)\<rparr>
           in case wd_mode workflow of
                Pipeline steps \<Rightarrow> (Inr rid, en1\<lparr>we_tasks := we_tasks en1 @ [(rid, steps)]\<rparr>, w)
              | RunToCompletion states \<Rightarrow>
                  (let initial = (case states of [] \<Rightarrow> [] | s # _ \<Rightarrow> st_name s)
                   in case start_machine ru states initial w of
                        (Inr h, w') \<Rightarrow> (Inr rid, en1\<lparr>we_rtc_runs := reg_insert wid (rid, h) (we_rtc_runs en1)\<rparr>, w')
                      | (Inl e, w') \<Rightarrow> (Inr rid, set_run rid Failed (Some e) en1, w'))))"

definition get_run_status :: "string \<Rightarrow> engine \<Rightarrow> wf_error + run_info" where
  "get_run_status rid en = (case map_of (we_runs en) rid of Some r \<Rightarrow> Inr r | None \<Rightarrow> Inl (RunNotFound rid))"

text \<open>A pipeline task runs its steps and reports back with \<open>RunCompleted\<close>.\<close>

definition finish_task :: "'w runner \<Rightarrow> string \<Rightarrow> engine \<Rightarrow> 'w world \<Rightarrow> engine \<times> 'w world" where
  "finish_task ru rid en w =
     (case map_of (we_tasks en) rid of
        None \<Rightarrow> (en, w)
      | Some steps \<Rightarrow>
          (case execute ru steps w of
             (result, w') \<Rightarrow>
               ((case result of
                   Inr _ \<Rightarrow> set_run rid Completed None
                 | Inl e \<Rightarrow> set_run rid Failed (Some e)) (en\<lparr>we_tasks := reg_remove rid (we_tasks en)\<rparr>), w')))"

text \<open>\<open>r.status = Completed\<close> leaves the error as it is.\<close>

definition complete_run :: "string \<Rightarrow> engine \<Rightarrow> engine" where
  "complete_run rid en =
     (case map_of (we_runs en) rid of
        None \<Rightarrow> en
      | Some r \<Rightarrow> en\<lparr>we_runs := reg_insert rid (r\<lparr>ri_status := Completed\<rparr>) (we_runs en)\<rparr>)"

definition engine_dispatch :: "'w runner \<Rightarrow> string \<Rightarrow> string \<Rightarrow> engine \<Rightarrow> 'w world \<Rightarrow> engine \<times> 'w world" where
  "engine_dispatch ru wid event en w =
     (case map_of (we_rtc_runs en) wid of
        None \<Rightarrow> (en, w)
      | Some (rid, h) \<Rightarrow>
          (let en1 = en\<lparr>we_rtc_runs := reg_remove wid (we_rtc_runs en)\<rparr>
           in case dispatch_event ru event h w of
                (Inr new_state, h', w') \<Rightarrow>
                  (if is_in_terminal_state h' new_state then (complete_run rid en1, w')
                   else (en1\<lparr>we_rtc_runs := reg_insert wid (rid, h') (we_rtc_runs en1)\<rparr>, w'))
              | (Inl e, _, w') \<Rightarrow> (set_run rid Failed (Some e) en1, w')))"

text \<open>One message of the engine's mailbox, or a change of the world beside it. The ids are
  those \<open>Uuid::new_v4\<close> draws, taken to be fresh.\<close>

inductive engine_step :: "'w runner \<Rightarrow> engine \<times> 'w world \<Rightarrow> engine \<times> 'w world \<Rightarrow> bool" for ru where
  Create: "wid \<notin> fst ` set (we_workflows en) \<Longrightarrow> engine_step ru (en, w) (create_workflow wid def en, w)"
| Delete: "engine_step ru (en, w) (snd (delete_workflow wid en), w)"
| Run: "rid \<notin> fst ` set (we_runs en) \<Longrightarrow> engine_step ru (en, w) (snd (run_workflow ru rid wid en w))"
| Finish: "engine_step ru (en, w) (finish_task ru rid en w)"
| Dispatch: "engine_step ru (en, w) (engine_dispatch ru wid event en w)"
| Outside: "engine_step ru (en, w) (en, w')"

definition empty_engine :: engine where
  "empty_engine = \<lparr>we_workflows = [], we_runs = [], we_rtc_runs = [], we_tasks = []\<rparr>"

abbreviation engine_steps :: "'w runner \<Rightarrow> engine \<times> 'w world \<Rightarrow> engine \<times> 'w world \<Rightarrow> bool" where
  "engine_steps ru \<equiv> (engine_step ru)\<^sup>*\<^sup>*"

section \<open>Steps and transitions\<close>

lemma execute_append:
  "execute ru (xs @ ys) w =
     (case execute ru xs w of (Inl e, w') \<Rightarrow> (Inl e, w') | (Inr _, w') \<Rightarrow> execute ru ys w')"
  by (induction xs arbitrary: w) (auto split: prod.splits sum.splits)

lemma execute_stops:
  "execute_step ru s w = (Inl e, w') \<Longrightarrow> execute ru (s # steps) w = (Inl e, w')"
  by simp

lemma find_state_name: "find_state n states = Some s \<Longrightarrow> st_name s = n \<and> s \<in> set states"
  by (auto simp: find_state_def find_Some_iff)

lemma find_first_state: "find_state (st_name s) (s # ss) = Some s"
  by (simp add: find_state_def)

lemma matching_bad_guard:
  "find (transition_matches event) ts = Some t \<Longrightarrow>
     bad_guard t = None \<longleftrightarrow> (case tr_guard t of None \<Rightarrow> True | Some g \<Rightarrow> trim g = ''true'')"
  by (auto simp: find_Some_iff transition_matches_def bad_guard_def split: option.splits)

definition machine_ok :: "rtc_handle \<Rightarrow> bool" where
  "machine_ok h \<longleftrightarrow> find_state (rh_current_state h) (rh_states h) \<noteq> None"

lemma started_machine_ok: "start_machine ru states initial w = (Inr h, w') \<Longrightarrow> machine_ok h"
  by (auto simp: start_machine_def machine_ok_def split: option.splits prod.splits sum.splits)

lemma take_transition_states:
  "take_transition ru h state t target w = (r, h', w') \<Longrightarrow>
     rh_states h' = rh_states h \<and> rh_current_state h' \<in> {rh_current_state h, tr_target_state t}"
  by (auto simp: take_transition_def Let_def split: prod.splits sum.splits)

lemma dispatch_machine_ok:
  assumes "machine_ok h" "dispatch_event ru event h w = (r, h', w')"
  shows "machine_ok h'"
  using assms
  by (auto simp: dispatch_event_def machine_ok_def split: option.splits dest!: take_transition_states)

lemma take_transition_result:
  "take_transition ru h state t target w = (Inr n, h', w') \<Longrightarrow>
     n = tr_target_state t \<and> h' = h\<lparr>rh_current_state := n\<rparr>"
  by (auto simp: take_transition_def Let_def split: prod.splits sum.splits)

lemma dispatch_result:
  "dispatch_event ru event h w = (Inr n, h', w') \<Longrightarrow> h' = h\<lparr>rh_current_state := n\<rparr>"
  by (auto simp: dispatch_event_def split: option.splits dest!: take_transition_result)

section \<open>The runs of the engine\<close>

definition run_is_running :: "string \<Rightarrow> string \<Rightarrow> engine \<Rightarrow> bool" where
  "run_is_running rid wid en \<longleftrightarrow>
     (case map_of (we_runs en) rid of None \<Rightarrow> False | Some r \<Rightarrow> ri_workflow_id r = wid \<and> ri_status r = Running)"

text \<open>Every live machine belongs to a running run of its workflow and is in one of its states;
  every task belongs to a running run; no run has two of them.\<close>

definition engine_ok :: "engine \<Rightarrow> bool" where
  "engine_ok en \<longleftrightarrow>
     (\<forall>wid rid h. map_of (we_rtc_runs en) wid = Some (rid, h) \<longrightarrow>
        machine_ok h \<and> run_is_running rid wid en \<and> rid \<notin> fst ` set (we_tasks en)) \<and>
     (\<forall>rid \<in> fst ` set (we_tasks en). \<exists>wid. run_is_running rid wid en)"

lemma engine_ok_machine:
  "engine_ok en \<Longrightarrow> map_of (we_rtc_runs en) wid = Some (rid, h) \<Longrightarrow>
     machine_ok h \<and> run_is_running rid wid en \<and> rid \<notin> fst ` set (we_tasks en)"
  by (simp add: engine_ok_def)

lemma run_is_running_unique: "run_is_running rid a en \<Longrightarrow> run_is_running rid b en \<Longrightarrow> a = b"
  by (auto simp: run_is_running_def split: option.splits)

lemma engine_ok_empty: "engine_ok empty_engine"
  by (simp add: engine_ok_def empty_engine_def)

lemma set_run_other [simp]: "rid' \<noteq> rid \<Longrightarrow> run_is_running rid' wid (set_run rid st e en) = run_is_running rid' wid en"
  by (simp add: set_run_def run_is_running_def split: option.splits)

lemma complete_run_other [simp]: "rid' \<noteq> rid \<Longrightarrow> run_is_running rid' wid (complete_run rid en) = run_is_running rid' wid en"
  by (simp add: complete_run_def run_is_running_def split: option.splits)

lemma set_run_rest [simp]:
  "we_workflows (set_run rid st e en) = we_workflows en"
  "we_rtc_runs (set_run rid st e en) = we_rtc_runs en"
  "we_tasks (set_run rid st e en) = we_tasks en"
  by (simp_all add: set_run_def split: option.splits)

lemma complete_run_rest [simp]:
  "we_workflows (complete_run rid en) = we_workflows en"
  "we_rtc_runs (complete_run rid en) = we_rtc_runs en"
  "we_tasks (complete_run rid en) = we_tasks en"
  by (simp_all add: complete_run_def split: option.splits)

lemma run_is_running_cong:
  "we_runs en' = we_runs en \<Longrightarrow> run_is_running rid wid en' = run_is_running rid wid en"
  by (simp add: run_is_running_def)

lemma run_is_running_update [simp]:
  "run_is_running rid wid (we_workflows_update f en) = run_is_running rid wid en"
  "run_is_running rid wid (we_rtc_runs_update g en) = run_is_running rid wid en"
  "run_is_running rid wid (we_tasks_update t en) = run_is_running rid wid en"
  by (simp_all add: run_is_running_def)

lemma running_key: "run_is_running rid wid en \<Longrightarrow> rid \<in> fst ` set (we_runs en)"
  by (force simp: run_is_running_def dest: map_of_SomeD split: option.splits)

definition add_run :: "string \<Rightarrow> string \<Rightarrow> engine \<Rightarrow> engine" where
  "add_run rid wid en = en\<lparr>we_runs := reg_insert rid
     \<lparr>ri_run_id = rid, ri_workflow_id = wid, ri_status = Running, ri_error = None\<rparr> (we_runs en)\<rparr>"

lemma add_run_rest [simp]:
  "we_workflows (add_run rid wid en) = we_workflows en"
  "we_rtc_runs (add_run rid wid en) = we_rtc_runs en"
  "we_tasks (add_run rid wid en) = we_tasks en"
  by (simp_all add: add_run_def)

lemma add_run_running [simp]:
  "run_is_running rid' wid' (add_run rid wid en) = (if rid' = rid then wid' = wid else run_is_running rid' wid' en)"
  by (auto simp: add_run_def run_is_running_def)

text \<open>The four outcomes of \<open>run_workflow\<close>.\<close>

lemma run_workflow_cases:
  obtains "map_of (we_workflows en) wid = None" "run_workflow ru rid wid en w = (Inl (WorkflowNotFound wid), en, w)"
  | d steps where "map_of (we_workflows en) wid = Some d" "wd_mode d = Pipeline steps"
      "run_workflow ru rid wid en w = (Inr rid, (add_run rid wid en)\<lparr>we_tasks := we_tasks en @ [(rid, steps)]\<rparr>, w)"
  | d states h w' where "map_of (we_workflows en) wid = Some d" "wd_mode d = RunToCompletion states"
      "start_machine ru states (case states of [] \<Rightarrow> [] | s # _ \<Rightarrow> st_name s) w = (Inr h, w')"
      "run_workflow ru rid wid en w =
         (Inr rid, (add_run rid wid en)\<lparr>we_rtc_runs := reg_insert wid (rid, h) (we_rtc_runs en)\<rparr>, w')"
  | d states e w' where "map_of (we_workflows en) wid = Some d" "wd_mode d = RunToCompletion states"
      "start_machine ru states (case states of [] \<Rightarrow> [] | s # _ \<Rightarrow> st_name s) w = (Inl e, w')"
      "run_workflow ru rid wid en w = (Inr rid, set_run rid Failed (Some e) (add_run rid wid en), w')"
proof (cases "map_of (we_workflows en) wid")
  case None
  then show ?thesis using that(1) by (simp add: run_workflow_def)
next
  case (Some d)
  show ?thesis
  proof (cases "wd_mode d")
    case (Pipeline steps)
    then show ?thesis using Some that(2) by (simp add: run_workflow_def add_run_def)
  next
    case (RunToCompletion states)
    obtain r w' where s: "start_machine ru states (case states of [] \<Rightarrow> [] | s # _ \<Rightarrow> st_name s) w = (r, w')"
      by force
    then show ?thesis using Some RunToCompletion that(3,4)
      by (cases r) (auto simp: run_workflow_def add_run_def)
  qed
qed

lemma engine_okI:
  assumes "\<And>wid rid h. map_of (we_rtc_runs en) wid = Some (rid, h) \<Longrightarrow>
      machine_ok h \<and> run_is_running rid wid en \<and> rid \<notin> fst ` set (we_tasks en)"
    and "\<And>rid. rid \<in> fst ` set (we_tasks en) \<Longrightarrow> \<exists>wid. run_is_running rid wid en"
  shows "engine_ok en"
  using assms unfolding engine_ok_def by blast

lemma engine_ok_task: "engine_ok en \<Longrightarrow> rid \<in> fst ` set (we_tasks en) \<Longrightarrow> \<exists>wid. run_is_running rid wid en"
  unfolding engine_ok_def by blast

lemma add_run_ok:
  assumes ok: "engine_ok en" and fresh: "rid \<notin> fst ` set (we_runs en)"
  shows "engine_ok (add_run rid wid en)" "rid \<notin> fst ` set (we_tasks en)"
proof -
  show notask: "rid \<notin> fst ` set (we_tasks en)" using engine_ok_task [OF ok] fresh running_key by blast
  show "engine_ok (add_run rid wid en)"
  proof (rule engine_okI)
    fix wid' rid' h
    assume "map_of (we_rtc_runs (add_run rid wid en)) wid' = Some (rid', h)"
    then have m: "machine_ok h" "run_is_running rid' wid' en" "rid' \<notin> fst ` set (we_tasks en)"
      using engine_ok_machine [OF ok, of wid' rid' h] by simp_all
    have "rid' \<noteq> rid" using running_key [OF m(2)] fresh by metis
    then show "machine_ok h \<and> run_is_running rid' wid' (add_run rid wid en) \<and> rid' \<notin> fst ` set (we_tasks (add_run rid wid en))"
      using m by simp
  next
    fix rid' assume "rid' \<in> fst ` set (we_tasks (add_run rid wid en))"
    then have "rid' \<in> fst ` set (we_tasks en)" by simp
    moreover from this have "rid' \<noteq> rid" using notask by metis
    ultimately show "\<exists>wid'. run_is_running rid' wid' (add_run rid wid en)"
      using engine_ok_task [OF ok, of rid'] by simp
  qed
qed

lemma add_task_ok:
  assumes ok: "engine_ok en" and run: "run_is_running rid wid en"
    and no: "\<And>wid' h. map_of (we_rtc_runs en) wid' \<noteq> Some (rid, h)"
  shows "engine_ok (en\<lparr>we_tasks := we_tasks en @ [(rid, steps)]\<rparr>)"
proof (rule engine_okI)
  fix wid' rid' h
  assume "map_of (we_rtc_runs (en\<lparr>we_tasks := we_tasks en @ [(rid, steps)]\<rparr>)) wid' = Some (rid', h)"
  then have m: "map_of (we_rtc_runs en) wid' = Some (rid', h)" by simp
  then have "rid' \<noteq> rid" using no by blast
  then show "machine_ok h \<and> run_is_running rid' wid' (en\<lparr>we_tasks := we_tasks en @ [(rid, steps)]\<rparr>) \<and>
      rid' \<notin> fst ` set (we_tasks (en\<lparr>we_tasks := we_tasks en @ [(rid, steps)]\<rparr>))"
    using engine_ok_machine [OF ok m] by simp
next
  fix rid' assume "rid' \<in> fst ` set (we_tasks (en\<lparr>we_tasks := we_tasks en @ [(rid, steps)]\<rparr>))"
  then show "\<exists>wid'. run_is_running rid' wid' (en\<lparr>we_tasks := we_tasks en @ [(rid, steps)]\<rparr>)"
    using engine_ok_task [OF ok, of rid'] run by auto
qed

lemma set_machine_ok:
  assumes ok: "engine_ok en" and run: "run_is_running rid wid en" and h: "machine_ok h"
    and no: "rid \<notin> fst ` set (we_tasks en)"
  shows "engine_ok (en\<lparr>we_rtc_runs := reg_insert wid (rid, h) (we_rtc_runs en)\<rparr>)"
proof (rule engine_okI)
  fix wid' rid' h'
  assume m: "map_of (we_rtc_runs (en\<lparr>we_rtc_runs := reg_insert wid (rid, h) (we_rtc_runs en)\<rparr>)) wid' = Some (rid', h')"
  show "machine_ok h' \<and> run_is_running rid' wid' (en\<lparr>we_rtc_runs := reg_insert wid (rid, h) (we_rtc_runs en)\<rparr>) \<and>
      rid' \<notin> fst ` set (we_tasks (en\<lparr>we_rtc_runs := reg_insert wid (rid, h) (we_rtc_runs en)\<rparr>))"
  proof (cases "wid' = wid")
    case True
    then show ?thesis using m run h no by simp
  next
    case False
    then show ?thesis using m engine_ok_machine [OF ok, of wid' rid' h'] by simp
  qed
next
  fix rid' assume "rid' \<in> fst ` set (we_tasks (en\<lparr>we_rtc_runs := reg_insert wid (rid, h) (we_rtc_runs en)\<rparr>))"
  then show "\<exists>wid'. run_is_running rid' wid' (en\<lparr>we_rtc_runs := reg_insert wid (rid, h) (we_rtc_runs en)\<rparr>)"
    using engine_ok_task [OF ok, of rid'] by simp
qed

lemma remove_machine_ok: "engine_ok en \<Longrightarrow> engine_ok (en\<lparr>we_rtc_runs := reg_remove wid (we_rtc_runs en)\<rparr>)"
  using engine_ok_machine [of en] engine_ok_task [of en]
  by (intro engine_okI) (auto split: if_splits)

text \<open>A run that has neither a machine nor a task may end.\<close>

lemma end_run_ok:
  assumes ok: "engine_ok en"
    and no: "\<And>wid' h. map_of (we_rtc_runs en) wid' \<noteq> Some (rid, h)" "rid \<notin> fst ` set (we_tasks en)"
  shows "engine_ok (set_run rid st e en)" "engine_ok (complete_run rid en)"
proof -
  have o: "map_of (we_rtc_runs en) wid' = Some (rid', h) \<Longrightarrow> rid' \<noteq> rid"
    "rid' \<in> fst ` set (we_tasks en) \<Longrightarrow> rid' \<noteq> rid" for wid' rid' h
    using no by auto
  show "engine_ok (set_run rid st e en)" "engine_ok (complete_run rid en)"
    by (rule engine_okI, simp add: o(1) engine_ok_machine [OF ok], simp only: set_run_rest complete_run_rest,
        metis o(2) engine_ok_task [OF ok] set_run_other complete_run_other)+
qed

lemma run_workflow_ok:
  assumes ok: "engine_ok en" and fresh: "rid \<notin> fst ` set (we_runs en)"
  shows "engine_ok (fst (snd (run_workflow ru rid wid en w)))"
proof -
  note add = add_run_ok(1) [OF ok fresh, of wid] add_run_ok(2) [OF ok fresh]
  have no: "map_of (we_rtc_runs (add_run rid wid en)) wid' \<noteq> Some (rid, h)" for wid' h
  proof
    assume "map_of (we_rtc_runs (add_run rid wid en)) wid' = Some (rid, h)"
    then have "run_is_running rid wid' en" using engine_ok_machine [OF ok, of wid' rid h] by simp
    then show False using running_key fresh by metis
  qed
  show ?thesis
  proof (cases rule: run_workflow_cases [of en wid ru rid w])
    case 1
    then show ?thesis using ok by simp
  next
    case (2 d steps)
    then show ?thesis using add_task_ok [OF add(1) _ no, of wid steps] by simp
  next
    case (3 d states h w')
    then show ?thesis using set_machine_ok [OF add(1), of rid wid h] add(2) started_machine_ok [OF 3(3)] by simp
  next
    case (4 d states e w')
    then show ?thesis using end_run_ok(1) [OF add(1) no] add(2) by simp
  qed
qed

lemma finish_task_ok:
  assumes ok: "engine_ok en"
  shows "engine_ok (fst (finish_task ru rid en w))"
proof (cases "map_of (we_tasks en) rid")
  case None
  then show ?thesis using ok by (simp add: finish_task_def)
next
  case (Some steps)
  let ?en = "en\<lparr>we_tasks := reg_remove rid (we_tasks en)\<rparr>"
  have task: "rid \<in> fst ` set (we_tasks en)" using Some map_of_SomeD by force
  have "engine_ok ?en"
  proof (rule engine_okI)
    fix rid' assume "rid' \<in> fst ` set (we_tasks ?en)"
    then have "rid' \<in> fst ` set (we_tasks en)" by auto
    then show "\<exists>wid. run_is_running rid' wid ?en" using engine_ok_task [OF ok, of rid'] by simp
  qed (use engine_ok_machine [OF ok] in auto)
  moreover have "map_of (we_rtc_runs ?en) wid' \<noteq> Some (rid, h)" for wid' h
    using engine_ok_machine [OF ok] task by auto
  moreover have "rid \<notin> fst ` set (we_tasks ?en)" by auto
  ultimately have "engine_ok (set_run rid st e ?en)" for st e
    using end_run_ok(1) by blast
  then show ?thesis using Some by (auto simp: finish_task_def split: prod.splits sum.splits)
qed

lemma drop_machine_ok:
  assumes ok: "engine_ok en" and h: "map_of (we_rtc_runs en) wid = Some (rid, h)"
  shows "engine_ok (set_run rid st e (en\<lparr>we_rtc_runs := reg_remove wid (we_rtc_runs en)\<rparr>))"
    and "engine_ok (complete_run rid (en\<lparr>we_rtc_runs := reg_remove wid (we_rtc_runs en)\<rparr>))"
proof -
  let ?en = "en\<lparr>we_rtc_runs := reg_remove wid (we_rtc_runs en)\<rparr>"
  note m = engine_ok_machine [OF ok]
  have "map_of (we_rtc_runs ?en) wid' \<noteq> Some (rid, h')" for wid' h'
    using m [of wid' rid h'] m [OF h] run_is_running_unique by (auto split: if_splits)
  moreover have "rid \<notin> fst ` set (we_tasks ?en)" using m [OF h] by simp
  ultimately show "engine_ok (set_run rid st e ?en)" and "engine_ok (complete_run rid ?en)"
    using end_run_ok [OF remove_machine_ok [OF ok]] by blast+
qed

lemma engine_dispatch_ok:
  assumes ok: "engine_ok en"
  shows "engine_ok (fst (engine_dispatch ru wid event en w))"
proof (cases "map_of (we_rtc_runs en) wid")
  case None
  then show ?thesis using ok by (simp add: engine_dispatch_def)
next
  case (Some p)
  obtain rid h where p: "map_of (we_rtc_runs en) wid = Some (rid, h)" using Some by (cases p) simp
  obtain r h' w' where d: "dispatch_event ru event h w = (r, h', w')" by (metis prod_cases3)
  have "machine_ok h'" using engine_ok_machine [OF ok p] d dispatch_machine_ok by blast
  then have "engine_ok (en\<lparr>we_rtc_runs := reg_insert wid (rid, h') (reg_remove wid (we_rtc_runs en))\<rparr>)"
    using set_machine_ok [OF remove_machine_ok [OF ok, of wid], of rid wid h'] engine_ok_machine [OF ok p] by simp
  then show ?thesis using p d drop_machine_ok [OF ok p]
    by (cases r) (simp_all add: engine_dispatch_def Let_def)
qed

lemma create_workflow_ok: "engine_ok en \<Longrightarrow> engine_ok (create_workflow wid def en)"
  by (simp add: engine_ok_def create_workflow_def)

lemma delete_workflow_ok: "engine_ok en \<Longrightarrow> engine_ok (snd (delete_workflow wid en))"
  by (simp add: engine_ok_def delete_workflow_def)

lemma engine_step_ok: "engine_step ru s s' \<Longrightarrow> engine_ok (fst s) \<Longrightarrow> engine_ok (fst s')"
proof (induction rule: engine_step.induct)
  case (Create wid en w def)
  then show ?case using create_workflow_ok by simp
next
  case (Delete en w wid)
  then show ?case using delete_workflow_ok by simp
next
  case (Run rid en w wid)
  then show ?case using run_workflow_ok by simp
next
  case (Finish en w rid)
  then show ?case using finish_task_ok by simp
next
  case (Dispatch en w wid event)
  then show ?case using engine_dispatch_ok by simp
qed simp

lemma engine_steps_ok: "engine_steps ru s s' \<Longrightarrow> engine_ok (fst s) \<Longrightarrow> engine_ok (fst s')"
  by (induction rule: rtranclp_induct) (auto dest: engine_step_ok)

section \<open>Orphaned runs\<close>

text \<open>A run that is marked running although nothing is left that could end it.\<close>

definition orphaned :: "string \<Rightarrow> string \<Rightarrow> engine \<Rightarrow> bool" where
  "orphaned rid wid en \<longleftrightarrow>
     run_is_running rid wid en \<and> (\<forall>m \<in> set (we_rtc_runs en). fst (snd m) \<noteq> rid) \<and>
     rid \<notin> fst ` set (we_tasks en) \<and> wid \<in> fst ` set (we_workflows en)"

lemma running_has_active: "run_is_running rid wid en \<Longrightarrow> has_active_run wid en"
  by (auto simp: run_is_running_def has_active_run_def list_ex_iff dest!: map_of_SomeD split: option.splits)

lemma orphaned_delete: "orphaned rid wid en \<Longrightarrow> delete_workflow wid en = (Inl ActiveRunsExist, en)"
  by (auto simp: orphaned_def delete_workflow_def running_has_active map_of_eq_None_iff)

lemma orphaned_run:
  assumes "orphaned rid wid en" "rid' \<notin> fst ` set (we_runs en)"
  shows "orphaned rid wid (fst (snd (run_workflow ru rid' wid' en w)))"
proof -
  have ne: "rid' \<noteq> rid" using assms running_key orphaned_def by blast
  show ?thesis
  proof (cases rule: run_workflow_cases [of en wid' ru rid' w])
    case 1
    then show ?thesis using assms(1) by simp
  next
    case (2 d steps)
    then show ?thesis using assms(1) ne by (simp add: orphaned_def)
  next
    case (3 d states h w')
    have "\<forall>m \<in> set (reg_insert wid' (rid', h) (we_rtc_runs en)). fst (snd m) \<noteq> rid"
      using assms(1) ne by (intro reg_insert_all) (simp_all add: orphaned_def)
    then show ?thesis using 3 assms(1) ne by (simp add: orphaned_def)
  next
    case (4 d states e w')
    then show ?thesis using assms(1) ne by (simp add: orphaned_def)
  qed
qed

lemma orphaned_step:
  "engine_step ru s s' \<Longrightarrow> orphaned rid wid (fst s) \<Longrightarrow> orphaned rid wid (fst s')"
proof (induction rule: engine_step.induct)
  case (Create wid' en w def)
  then show ?case by (simp add: create_workflow_def orphaned_def reg_insert_key)
next
  case (Delete en w wid')
  then show ?case
    by (cases "wid' = wid") (auto simp: orphaned_delete, auto simp: delete_workflow_def orphaned_def)
next
  case (Run rid' en w wid')
  then show ?case using orphaned_run by simp
next
  case (Finish en w rid')
  show ?case
  proof (cases "map_of (we_tasks en) rid'")
    case None
    then show ?thesis using Finish by (simp add: finish_task_def)
  next
    case (Some steps)
    then have "rid' \<noteq> rid" using Finish map_of_SomeD [OF Some] by (force simp: orphaned_def)
    then show ?thesis using Finish Some
      by (auto simp: finish_task_def orphaned_def split: prod.splits sum.splits)
  qed
next
  case (Dispatch en w wid' event)
  show ?case
  proof (cases "map_of (we_rtc_runs en) wid'")
    case None
    then show ?thesis using Dispatch by (simp add: engine_dispatch_def)
  next
    case (Some p)
    obtain rid' h where p: "map_of (we_rtc_runs en) wid' = Some (rid', h)" using Some by (cases p) simp
    have ne: "rid' \<noteq> rid" using Dispatch map_of_SomeD [OF p] by (force simp: orphaned_def)
    obtain r h' w' where d: "dispatch_event ru event h w = (r, h', w')" by (metis prod_cases3)
    have "\<forall>m \<in> set (reg_insert wid' (rid', h') (reg_remove wid' (we_rtc_runs en))). fst (snd m) \<noteq> rid"
      using Dispatch ne by (intro reg_insert_all) (simp_all add: orphaned_def)
    then show ?thesis using Dispatch ne p d
      by (cases r) (simp_all add: engine_dispatch_def orphaned_def Let_def)
  qed
qed simp

lemma orphaned_steps:
  "engine_steps ru s s' \<Longrightarrow> orphaned rid wid (fst s) \<Longrightarrow> orphaned rid wid (fst s')"
  by (induction rule: rtranclp_induct) (auto dest: orphaned_step)

lemma rerun_orphans:
  assumes ok: "engine_ok en" and h: "map_of (we_rtc_runs en) wid = Some (rid, h)"
    and dis: "distinct (map fst (we_rtc_runs en))"
    and fresh: "rid2 \<notin> fst ` set (we_runs en)"
    and run: "run_workflow ru rid2 wid en w = (Inr rid2, en2, w2)"
    and started: "map_of (we_rtc_runs en2) wid = Some (rid2, h2)"
  shows "orphaned rid wid en2"
proof -
  have ru: "run_is_running rid wid en" and nt: "rid \<notin> fst ` set (we_tasks en)"
    using engine_ok_machine [OF ok h] by simp_all
  have ne: "rid \<noteq> rid2" using running_key [OF ru] fresh by metis
  have only: "(wid', rid, h') \<in> set (we_rtc_runs en) \<Longrightarrow> wid' = wid" for wid' h'
    using engine_ok_machine [OF ok, of wid' rid h'] run_is_running_unique [OF ru, of wid'] dis by simp
  have known: "wid \<in> fst ` set (we_workflows en)"
    using run by (cases "map_of (we_workflows en) wid") (simp add: run_workflow_def, force dest: map_of_SomeD)
  show ?thesis
  proof (cases rule: run_workflow_cases [of en wid ru rid2 w])
    case (3 d states h3 w3)
    have "\<forall>m \<in> set (reg_insert wid (rid2, h3) (we_rtc_runs en)). fst (snd m) \<noteq> rid"
      using only ne set_reg_insert [OF dis, of wid "(rid2, h3)"] by auto
    then show ?thesis using run 3 ne ru nt known by (auto simp: orphaned_def)
  qed (use run started h ne in auto)
qed

lemma rtc_runs_distinct_step:
  "engine_step ru s s' \<Longrightarrow> distinct (map fst (we_rtc_runs (fst s))) \<Longrightarrow> distinct (map fst (we_rtc_runs (fst s')))"
proof (induction rule: engine_step.induct)
  case (Run rid en w wid)
  then show ?case
    by (cases rule: run_workflow_cases [of en wid ru rid w]) (simp_all add: distinct_reg_insert)
next
  case (Dispatch en w wid event)
  then show ?case
    by (auto simp: engine_dispatch_def Let_def distinct_reg_insert distinct_reg_remove
        split: option.splits prod.splits sum.splits)
qed (auto simp: create_workflow_def delete_workflow_def finish_task_def split: option.splits prod.splits sum.splits)

lemma rtc_runs_distinct:
  "engine_steps ru s s' \<Longrightarrow> distinct (map fst (we_rtc_runs (fst s))) \<Longrightarrow> distinct (map fst (we_rtc_runs (fst s')))"
  by (induction rule: rtranclp_induct) (auto dest: rtc_runs_distinct_step)

lemma reachable_engine:
  assumes "engine_steps ru (empty_engine, w0) (en, w)"
  shows "engine_ok en" "distinct (map fst (we_rtc_runs en))"
  using engine_steps_ok [OF assms] rtc_runs_distinct [OF assms] engine_ok_empty
  by (simp_all add: empty_engine_def)

section \<open>Properties\<close>

lemma execute_step_error: "fst (execute_step ru s w) \<noteq> Inl (StateMachineError m)"
  by (auto simp: execute_step_def eval_condition_def check_expression_def extract_entity_fields_def
      compare_field_value_def compare_numbers_def split: step_def.splits option.splits sum.splits prod.splits
      json.splits list.splits bool.splits)

lemma execute_error: "fst (execute ru steps w) \<noteq> Inl (StateMachineError m)"
proof (induction steps arbitrary: w)
  case (Cons s steps)
  show ?case
  proof (cases "execute_step ru s w")
    case (Pair r w')
    then show ?thesis using Cons.IH [of w'] execute_step_error [of ru s w m] by (cases r) simp_all
  qed
qed simp

lemma take_transition_error: "fst (take_transition ru h state t target w) \<noteq> Inl (StateMachineError m)"
  using execute_error [of ru "st_exit_actions state" w m]
    execute_error [of ru "tr_actions t" _ m] execute_error [of ru "st_entry_actions target" _ m]
  by (auto simp: take_transition_def Let_def split: prod.splits sum.splits) (metis fst_conv)+

lemma dispatch_error:
  assumes "find_state (rh_current_state h) (rh_states h) \<noteq> None"
    and "dispatch_event ru event h w = (Inl (StateMachineError m), h', w')"
  shows "\<exists>n. m = ''target state '' @ quoted n @ '' not found''"
proof -
  obtain state where s: "find_state (rh_current_state h) (rh_states h) = Some state" using assms(1) by blast
  have "\<And>t target. take_transition ru h state t target w \<noteq> (Inl (StateMachineError m), h', w')"
    using take_transition_error by (metis fst_conv)
  then show ?thesis using assms(2) s by (auto simp: dispatch_event_def split: option.splits)
qed

text \<open>C26. In every engine that any sequence of messages reaches from the empty one, each live state
  machine is in a state its definition has and belongs to a run of its own workflow that is
  marked running; the only error of the machine itself an event can cause is a transition
  whose target is not defined, never ``current state not found''.\<close>

theorem live_machines_are_well_defined:
  assumes "engine_steps ru (empty_engine, w0) (en, w)"
    and "map_of (we_rtc_runs en) wid = Some (rid, h)"
  shows "find_state (rh_current_state h) (rh_states h) \<noteq> None \<and> run_is_running rid wid en
    \<and> (dispatch_event ru event h w = (Inl (StateMachineError m), h', w') \<longrightarrow>
         (\<exists>n. m = ''target state '' @ quoted n @ '' not found''))"
  using engine_ok_machine [OF reachable_engine(1) [OF assms(1)] assms(2)] dispatch_error [of h ru event w m h' w']
  by (simp add: machine_ok_def)

definition blinker :: "state_def list" where
  "blinker =
     [\<lparr>st_name = ''A'', st_entry_actions = [], st_exit_actions = [LogMessage ''leaving''],
       st_transitions = [\<lparr>tr_event = ''go'', tr_guard = Some '' true '', tr_target_state = ''B'', tr_actions = [Delay 5]\<rparr>]\<rparr>,
      \<lparr>st_name = ''B'', st_entry_actions = [], st_exit_actions = [],
       st_transitions = [\<lparr>tr_event = ''go'', tr_guard = None, tr_target_state = ''A'', tr_actions = []\<rparr>,
                         \<lparr>tr_event = ''lost'', tr_guard = None, tr_target_state = ''C'', tr_actions = []\<rparr>]\<rparr>]"

definition demo_runner :: "(entity_state option \<times> nat) runner" where
  "demo_runner = \<lparr>ru_services = new_services, ru_manager = False,
     ru_asked = (\<lambda>w r. map_option ea_state (map_of (w_entities w) r)),
     ru_to_value = (\<lambda>_. Inr JNull), ru_from_value = (\<lambda>_. Inr (Switch True)), ru_elapse = (\<lambda>_ w. w)\<rparr>"

definition blink :: workflow_definition where
  "blink = \<lparr>wd_workflow_id = [], wd_name = ''blink'', wd_description = None, wd_trigger = ManualTrigger,
     wd_mode = RunToCompletion blinker\<rparr>"

definition blink_engine :: engine where
  "blink_engine = create_workflow ''wf'' blink empty_engine"

definition started_engine :: "engine \<times> (entity_state option \<times> nat) world" where
  "started_engine = snd (run_workflow demo_runner ''r1'' ''wf'' blink_engine lamp_world)"

lemmas blink_simps = blink_engine_def started_engine_def create_workflow_def blink_def blinker_def empty_engine_def
  run_workflow_def start_machine_def find_state_def Let_def

lemma started_steps: "engine_steps demo_runner (empty_engine, lamp_world) started_engine"
proof -
  have "engine_step demo_runner (empty_engine, lamp_world) (blink_engine, lamp_world)"
    unfolding blink_engine_def by (intro engine_step.Create) (simp add: empty_engine_def)
  moreover have "engine_step demo_runner (blink_engine, lamp_world) started_engine"
    unfolding started_engine_def by (intro engine_step.Run) (simp add: blink_simps)
  ultimately show ?thesis by simp
qed

lemma started_engine_value:
  "started_engine = (blink_engine\<lparr>we_runs := [(''r1'', \<lparr>ri_run_id = ''r1'', ri_workflow_id = ''wf'', ri_status = Running, ri_error = None\<rparr>)],
     we_rtc_runs := [(''wf'', ''r1'', \<lparr>rh_current_state = ''A'', rh_states = blinker\<rparr>)]\<rparr>, lamp_world)"
  by (simp add: blink_simps)

theorem live_machines_are_well_defined_witness:
  "find_state ''A'' blinker \<noteq> None \<and> run_is_running ''r1'' ''wf'' (fst started_engine)"
  using live_machines_are_well_defined [of demo_runner lamp_world "fst started_engine" "snd started_engine"
      "''wf''" "''r1''" "\<lparr>rh_current_state = ''A'', rh_states = blinker\<rparr>"] started_steps
  by (simp add: started_engine_value)

text \<open>Running a state-machine workflow again while its first run is still going loses the first
  machine: from then on, whatever messages follow, the first run stays marked running and the
  workflow can never be deleted.\<close>

theorem second_run_orphans_the_first:
  assumes "engine_steps ru (empty_engine, w0) (en, w)"
    and "map_of (we_rtc_runs en) wid = Some (rid, h)"
    and "rid2 \<notin> fst ` set (we_runs en)"
    and "run_workflow ru rid2 wid en w = (Inr rid2, en2, w2)"
    and "map_of (we_rtc_runs en2) wid = Some (rid2, h2)"
    and "engine_steps ru (en2, w2) (en3, w3)"
  shows "run_is_running rid wid en3 \<and> delete_workflow wid en3 = (Inl ActiveRunsExist, en3)"
proof -
  have "orphaned rid wid en2"
    using rerun_orphans [OF reachable_engine(1) [OF assms(1)] assms(2) reachable_engine(2) [OF assms(1)] assms(3-5)] .
  then have "orphaned rid wid en3" using orphaned_steps [OF assms(6)] by simp
  then show ?thesis using orphaned_delete by (simp add: orphaned_def)
qed

theorem second_run_orphans_the_first_witness:
  "let (en2, w2) = snd (run_workflow demo_runner ''r2'' ''wf'' (fst started_engine) lamp_world);
       (en3, w3) = engine_dispatch demo_runner ''wf'' ''go'' en2 w2
   in delete_workflow ''wf'' en3 = (Inl ActiveRunsExist, en3)"
proof -
  obtain en2 w2 where r: "run_workflow demo_runner ''r2'' ''wf'' (fst started_engine) lamp_world = (Inr ''r2'', en2, w2)"
    and m: "map_of (we_rtc_runs en2) ''wf'' = Some (''r2'', \<lparr>rh_current_state = ''A'', rh_states = blinker\<rparr>)"
    by (simp add: started_engine_value blink_simps)
  obtain en3 w3 where d: "engine_dispatch demo_runner ''wf'' ''go'' en2 w2 = (en3, w3)" by force
  have steps: "engine_steps demo_runner (en2, w2) (en3, w3)"
    using engine_step.Dispatch [of demo_runner en2 w2 "''wf''" "''go''"] d by simp
  have pre: "engine_steps demo_runner (empty_engine, lamp_world) (fst started_engine, lamp_world)"
    using started_steps by (simp add: started_engine_value)
  have first: "map_of (we_rtc_runs (fst started_engine)) ''wf'' = Some (''r1'', \<lparr>rh_current_state = ''A'', rh_states = blinker\<rparr>)"
    and fresh: "''r2'' \<notin> fst ` set (we_runs (fst started_engine))"
    by (simp_all add: started_engine_value)
  show ?thesis using second_run_orphans_the_first [OF pre first fresh r m steps] r d by simp
qed

text \<open>A transition is the execution of one list, the exit actions, the actions of the transition
  and the entry actions in this order: the dispatch answers the new state when every action
  succeeds, else the error of the first that fails, in the world that this list leaves.\<close>

theorem transition_runs_actions_in_order:
  assumes "find_state (rh_current_state h) (rh_states h) = Some state"
    and "find (transition_matches event) (st_transitions state) = Some t"
    and "tr_guard t = None \<or> map_option trim (tr_guard t) = Some ''true''"
    and "find_state (tr_target_state t) (rh_states h) = Some target"
  shows "(let (r, w') = execute ru (st_exit_actions state @ tr_actions t @ st_entry_actions target) w;
              (answer, h', w'') = dispatch_event ru event h w
          in answer = (case r of Inr _ \<Rightarrow> Inr (tr_target_state t) | Inl e \<Rightarrow> Inl e) \<and> w'' = w' \<and>
             (case r of Inr _ \<Rightarrow> h' = h\<lparr>rh_current_state := tr_target_state t\<rparr> | Inl _ \<Rightarrow> rh_states h' = rh_states h))"
proof -
  have "bad_guard t = None" using assms(3) by (auto simp: bad_guard_def)
  then have "dispatch_event ru event h w = take_transition ru h state t target w"
    using assms by (simp add: dispatch_event_def)
  then show ?thesis
    by (auto simp: take_transition_def execute_append Let_def split: prod.splits sum.splits)
qed

theorem transition_runs_actions_in_order_witness:
  "fst (dispatch_event demo_runner ''go'' \<lparr>rh_current_state = ''A'', rh_states = blinker\<rparr> lamp_world) = Inr ''B''"
  using transition_runs_actions_in_order [of "\<lparr>rh_current_state = ''A'', rh_states = blinker\<rparr>" "hd blinker" "''go''"
      "hd (st_transitions (hd blinker))" "hd (tl blinker)" demo_runner lamp_world]
  by (simp add: blinker_def find_state_def transition_matches_def trim_def is_space_def execute_step_def split: prod.splits)

lemma execute_first_error:
  "execute ru steps w = (Inl e, w') \<Longrightarrow>
     \<exists>before s behind w1. steps = before @ s # behind \<and> execute ru before w = (Inr (), w1) \<and>
        execute_step ru s w1 = (Inl e, w')"
proof (induction steps arbitrary: w)
  case (Cons s steps)
  obtain r w1 where s: "execute_step ru s w = (r, w1)" by force
  show ?case
  proof (cases r)
    case (Inl e')
    then have "execute_step ru s w = (Inl e, w')" using s Cons.prems by simp
    then show ?thesis by (metis append_Nil execute.simps(1))
  next
    case (Inr u)
    then have "execute ru steps w1 = (Inl e, w')" using s Cons.prems by simp
    from Cons.IH [OF this] obtain before t behind w2 where "steps = before @ t # behind"
      "execute ru before w1 = (Inr (), w2)" "execute_step ru t w2 = (Inl e, w')" by blast
    moreover from this have "execute ru (s # before) w = (Inr (), w2)" using s Inr by simp
    ultimately show ?thesis by (metis append_Cons)
  qed
qed simp

text \<open>A list of steps fails exactly with the first step that fails, after all the steps before it
  succeeded, and no step behind it is executed.\<close>

theorem pipeline_stops_at_first_error:
  "execute ru steps w = (Inl e, w') \<longleftrightarrow>
     (\<exists>before s behind w1. steps = before @ s # behind \<and> execute ru before w = (Inr (), w1) \<and>
        execute_step ru s w1 = (Inl e, w'))"
  using execute_first_error [of ru steps w e w'] by (auto simp: execute_append)

end
