(* ===== verification/LinkTypes.thy ===== *)
theory LinkTypes
  imports NativeApi StageIds
begin

text \<open>
  The client side of the native API, \<open>rshome-device-link\<close>: the data it shares between the
  manager and the sessions (\<open>manager.rs\<close>, \<open>bindings.rs\<close>, \<open>error.rs\<close>), the identities of
  devices found by mDNS (\<open>discovery.rs\<close>), the choice of the transport (\<open>security.rs\<close>) and
  the frames of the Noise transport (\<open>noise_transport.rs\<close>). Base64, the Noise cipher and
  what mDNS reports are parameters. Wall-clock times are counted in nanoseconds.

  The lemmas concern the identities and the round trip of a Noise frame.
\<close>

section \<open>Discovered devices\<close>

record discovered_device =
  dd_device_id :: device_id
  dd_service_fullname :: string
  dd_hostname :: string
  dd_ip :: string
  dd_port :: u16
  dd_device_name :: string
  dd_version :: string
  dd_friendly_name :: "string option"
  dd_first_seen_at :: nat
  dd_last_seen_at :: nat
  dd_is_stale :: bool

definition device_slug :: "unicode \<Rightarrow> string \<Rightarrow> string" where
  "device_slug uc name =
     join ''_'' (filter (\<lambda>s. s \<noteq> [])
       (split_on CHR ''_''
         (concat (map (\<lambda>c. if uc_alnum uc c then c else ''_'') (utf8_chars (uc_lower uc name))))))"

definition is_hexdigit :: "char \<Rightarrow> bool" where
  "is_hexdigit c \<longleftrightarrow> (let n = (of_char c :: nat) in
     (48 \<le> n \<and> n \<le> 57) \<or> (65 \<le> n \<and> n \<le> 70) \<or> (97 \<le> n \<and> n \<le> 102))"

definition device_id_from_mac :: "string \<Rightarrow> device_id" where
  "device_id_from_mac mac = ''esphome:'' @ to_lower (filter is_hexdigit mac)"

text \<open>\<open>trim_end_matches\<close> takes the suffix away as often as it is there.\<close>

function trim_end_matches :: "string \<Rightarrow> string \<Rightarrow> string" where
  "trim_end_matches pat s =
     (if pat \<noteq> [] \<and> suffix pat s then trim_end_matches pat (take (length s - length pat) s) else s)"
  by pat_completeness auto
termination
  by (relation "measure (\<lambda>(pat, s). length s)") (auto simp: suffix_def)

declare trim_end_matches.simps [simp del]

definition clean_hostname :: "string \<Rightarrow> string" where
  "clean_hostname h = trim_end_matches ''.local'' (trim_end_matches ''.'' h)"

definition device_id_from_hostname :: "string \<Rightarrow> device_id" where
  "device_id_from_hostname hostname = ''esphome-host:'' @ clean_hostname hostname"

text \<open>What mDNS resolves.\<close>

record service_info =
  si_addresses :: "string list"
  si_port :: u16
  si_hostname :: string
  si_properties :: "(string \<times> string) list"
  si_fullname :: string

definition first_label :: "string \<Rightarrow> string" where
  "first_label fullname = hd (split_on CHR ''.'' fullname)"

definition build_discovered :: "nat \<Rightarrow> service_info \<Rightarrow> discovered_device option" where
  "build_discovered now info =
     (case si_addresses info of
        [] \<Rightarrow> None
      | ip # _ \<Rightarrow>
          (let hostname = clean_hostname (si_hostname info);
               props = map_of (si_properties info)
           in Some
             \<lparr>dd_device_id = (case props ''mac'' of Some mac \<Rightarrow> device_id_from_mac mac | None \<Rightarrow> device_id_from_hostname hostname),
              dd_service_fullname = si_fullname info,
              dd_hostname = hostname,
              dd_ip = ip,
              dd_port = si_port info,
              dd_device_name = first_label (si_fullname info),
              dd_version = (case props ''version'' of Some v \<Rightarrow> v | None \<Rightarrow> ''unknown''),
              dd_friendly_name = props ''friendly_name'',
              dd_first_seen_at = now,
              dd_last_seen_at = now,
              dd_is_stale = False\<rparr>))"

definition fullname_to_device_id :: "string \<Rightarrow> device_id" where
  "fullname_to_device_id fullname = device_id_from_hostname (first_label fullname)"

section \<open>Security\<close>

record device_security_config =
  noise_psk :: "string option"

datatype psk_error = Base64 string | WrongLength nat

definition uses_noise :: "device_security_config \<Rightarrow> bool" where
  "uses_noise cfg \<longleftrightarrow> noise_psk cfg \<noteq> None"

definition decode_psk ::
    "(string \<Rightarrow> string + u8 list) \<Rightarrow> device_security_config \<Rightarrow> (psk_error + u8 list) option" where
  "decode_psk base64 cfg =
     (case noise_psk cfg of
        None \<Rightarrow> None
      | Some b64 \<Rightarrow> Some
          (case base64 b64 of
             Inl e \<Rightarrow> Inl (Base64 e)
           | Inr bytes \<Rightarrow> if length bytes \<noteq> 32 then Inl (WrongLength (length bytes)) else Inr bytes))"

section \<open>Connected devices and sessions\<close>

datatype session_status =
    StDiscovered
  | StConnecting
  | StHandshaking
  | StActive
  | StBackoff u32 u64
  | StUnsupportedAuth
  | StUnavailable

record connected_device =
  cd_device_id :: device_id
  cd_discovered :: discovered_device
  cd_name :: string
  cd_friendly_name :: "string option"
  cd_mac_address :: "string option"
  cd_model :: "string option"
  cd_sw_version :: "string option"
  cd_status :: session_status
  cd_entity_count :: nat
  cd_auth_mode :: "string option"
  cd_last_error :: "string option"

record device_link_limits =
  max_devices :: nat
  max_entities :: nat
  max_connections_per_device :: nat

definition default_limits :: device_link_limits where
  "default_limits = \<lparr>max_devices = 100, max_entities = 10000, max_connections_per_device = 1\<rparr>"

datatype command_capabilities = Controllable | ReadOnly

record imported_binding =
  ib_local_entity_id :: entity_id
  ib_device_id :: device_id
  ib_remote_key :: u32
  ib_remote_object_id :: string
  ib_remote_unique_id :: "string option"
  ib_remote_domain :: string
  ib_command_capabilities :: command_capabilities

definition command_capabilities_for_domain :: "string \<Rightarrow> command_capabilities" where
  "command_capabilities_for_domain domain =
     (if domain \<in> {''sensor'', ''binary_sensor'', ''text_sensor''} then ReadOnly else Controllable)"

text \<open>The errors a command is answered with; \<open>io::Error\<close> is its text.\<close>

datatype link_error =
    Connect string
  | SessionNotActive
  | LinkEntityNotFound string
  | CommandNotSupported string

text \<open>What a session tells its manager.\<close>

record session_identity =
  id_provisional :: device_id
  id_canonical :: device_id
  id_name :: string
  id_friendly_name :: "string option"
  id_mac_address :: "string option"
  id_model :: "string option"
  id_sw_version :: "string option"

section \<open>Reconnecting\<close>

text \<open>In seconds.\<close>

definition backoff_delay :: "u32 \<Rightarrow> u64" where
  "backoff_delay attempt = [1, 2, 4, 8, 16, 30] ! (min (unat attempt) 5)"

definition opt_str :: "string \<Rightarrow> string option" where
  "opt_str s = (if s = [] then None else Some s)"

section \<open>Noise frames\<close>

text \<open>The cipher of \<open>snow\<close>: sealing and opening a message moves the state of the transport on;
  \<open>None\<close> is an error. \<open>be_bytes\<close> and \<open>be_value\<close> are \<open>to_be_bytes\<close> and \<open>from_be_bytes\<close>.\<close>

record 's noise_cipher =
  nc_seal :: "'s \<Rightarrow> u8 list \<Rightarrow> (u8 list \<times> 's) option"
  nc_open :: "'s \<Rightarrow> u8 list \<Rightarrow> (u8 list \<times> 's) option"

definition NOISE_PREAMBLE :: u8 where "NOISE_PREAMBLE = 1"

definition be_bytes :: "u16 \<Rightarrow> u8 list" where
  "be_bytes n = [ucast (drop_bit 8 n), ucast n]"

definition be_value :: "u8 \<Rightarrow> u8 \<Rightarrow> u16" where
  "be_value a b = push_bit 8 (ucast a) OR ucast b"

definition noise_send_frame ::
    "'s noise_cipher \<Rightarrow> u32 \<Rightarrow> u8 list \<Rightarrow> 's \<Rightarrow> (u8 list \<times> 's) option" where
  "noise_send_frame nc msg_type payload s =
     (case nc_seal nc s (be_bytes (ucast msg_type) @ payload) of
        None \<Rightarrow> None
      | Some (ciphertext, s') \<Rightarrow>
          Some (NOISE_PREAMBLE # be_bytes (of_nat (length ciphertext)) @ ciphertext, s'))"

datatype noise_error = ReadFailed | BadPreamble u8 | DecryptFailed | PlaintextTooShort

text \<open>The bytes are all that arrive before the connection ends; the inner result is \<open>None\<close> at its
  end. A failed read leaves nothing to read.\<close>

definition noise_recv_frame ::
    "'s noise_cipher \<Rightarrow> u8 list \<Rightarrow> 's \<Rightarrow> (noise_error + u32 \<times> u8 list) option \<times> u8 list \<times> 's" where
  "noise_recv_frame nc bytes s =
     (case bytes of
        [] \<Rightarrow> (None, [], s)
      | preamble # rest \<Rightarrow>
          if preamble \<noteq> NOISE_PREAMBLE then (Some (Inl (BadPreamble preamble)), rest, s)
          else (case rest of
            a # b # rest' \<Rightarrow>
              (let frame_len = unat (be_value a b)
               in if length rest' < frame_len then (Some (Inl ReadFailed), [], s)
                  else (case nc_open nc s (take frame_len rest') of
                      None \<Rightarrow> (Some (Inl DecryptFailed), drop frame_len rest', s)
                    | Some (plaintext, s') \<Rightarrow>
                        ((case plaintext of
                            c # d # payload \<Rightarrow> Some (Inr (ucast (be_value c d), payload))
                          | _ \<Rightarrow> Some (Inl PlaintextTooShort)), drop frame_len rest', s')))
          | _ \<Rightarrow> (Some (Inl ReadFailed), [], s)))"

lemma be_roundtrip: "be_value (ucast (drop_bit 8 n)) (ucast n) = n"
  unfolding be_value_def
  by (rule bit_eqI) (auto simp: bit_or_iff bit_push_bit_iff bit_ucast_iff bit_drop_bit_eq)

text \<open>What \<open>snow\<close> promises of two linked transports: messages of at most 65535 bytes, each 16
  bytes longer than its text, which the other side opens.\<close>

definition noise_contract :: "'s noise_cipher \<Rightarrow> ('s \<Rightarrow> 's \<Rightarrow> bool) \<Rightarrow> bool" where
  "noise_contract nc linked \<longleftrightarrow>
     (\<forall>s r p c s'. linked s r \<longrightarrow> nc_seal nc s p = Some (c, s') \<longrightarrow>
        length c < 65536 \<and> (\<exists>r'. nc_open nc r c = Some (p, r') \<and> linked s' r'))"

lemma recv_sent:
  assumes "noise_contract nc linked" and "linked s r" and "unat msg_type < 65536"
    and "noise_send_frame nc msg_type payload s = Some (wire, s')"
  shows "\<exists>r'. noise_recv_frame nc (wire @ behind) r = (Some (Inr (msg_type, payload)), behind, r') \<and> linked s' r'"
proof -
  obtain c where c: "nc_seal nc s (be_bytes (ucast msg_type) @ payload) = Some (c, s')"
    and wire: "wire = NOISE_PREAMBLE # be_bytes (of_nat (length c)) @ c"
    using assms(4) by (auto simp: noise_send_frame_def split: option.splits prod.splits)
  obtain r' where len: "length c < 65536" and op: "nc_open nc r c = Some (be_bytes (ucast msg_type) @ payload, r')"
    and link: "linked s' r'"
    using assms(1,2) c unfolding noise_contract_def by metis
  have "unat (of_nat (length c) :: u16) = length c" using len by (simp add: unat_of_nat)
  moreover have "ucast (ucast msg_type :: u16) = msg_type"
    using assms(3) by (simp add: word_unat_eq_iff unsigned_ucast_eq unsigned_take_bit_eq take_bit_nat_eq_self_iff)
  ultimately show ?thesis
    using op link by (simp add: noise_recv_frame_def wire be_bytes_def be_roundtrip)
qed

text \<open>A Noise frame that was sent is received as it was sent, with whatever follows it left for
  the next frame and the two transports still linked.\<close>

theorem noise_frame_roundtrip:
  assumes "noise_contract nc linked" and "linked s r" and "unat msg_type < 65536"
    and "noise_send_frame nc msg_type payload s = Some (wire, s')"
  shows "\<exists>r'. noise_recv_frame nc (wire @ behind) r = (Some (Inr (msg_type, payload)), behind, r') \<and> linked s' r'"
  by (rule recv_sent [OF assms])

text \<open>A cipher for the example: the states count the messages, which are sealed with sixteen
  copies of the count.\<close>

definition counting_cipher :: "nat noise_cipher" where
  "counting_cipher =
     \<lparr>nc_seal = (\<lambda>n p. if length p + 16 < 65536 then Some (p @ replicate 16 (of_nat n), Suc n) else None),
      nc_open = (\<lambda>n c. if 16 \<le> length c \<and> drop (length c - 16) c = replicate 16 (of_nat n)
                       then Some (take (length c - 16) c, Suc n) else None)\<rparr>"

lemma counting_contract: "noise_contract counting_cipher (=)"
  by (auto simp: noise_contract_def counting_cipher_def split: if_splits)

theorem noise_frame_roundtrip_witness:
  "\<exists>wire. noise_send_frame counting_cipher 33 [7, 8] 5 = Some (wire, 6)
     \<and> noise_recv_frame counting_cipher (wire @ [1]) 5 = (Some (Inr (33, [7, 8])), [1], 6)"
proof -
  obtain wire where w: "noise_send_frame counting_cipher 33 [7, 8] 5 = Some (wire, 6)"
    by (simp add: noise_send_frame_def counting_cipher_def be_bytes_def)
  from noise_frame_roundtrip [OF counting_contract refl _ w, of "[1]"] w show ?thesis by auto
qed

section \<open>Identities\<close>

lemma mac_hostname_ids: "device_id_from_mac mac \<noteq> device_id_from_hostname h"
  by (simp add: device_id_from_mac_def device_id_from_hostname_def)

text \<open>A device whose mDNS record carries its MAC address is never found again when the record is
  removed: no service name is mapped to the identity under which it was announced.\<close>

theorem removal_misses_mac_devices:
  assumes "build_discovered now info = Some d" and "map_of (si_properties info) ''mac'' \<noteq> None"
  shows "fullname_to_device_id name \<noteq> dd_device_id d"
proof -
  obtain mac where "map_of (si_properties info) ''mac'' = Some mac" using assms(2) by blast
  then have "dd_device_id d = device_id_from_mac mac"
    using assms(1) by (auto simp: build_discovered_def Let_def split: list.splits)
  then show ?thesis using mac_hostname_ids by (metis fullname_to_device_id_def)
qed

theorem removal_misses_mac_devices_witness:
  "build_discovered 0 \<lparr>si_addresses = [''10.0.0.7''], si_port = 6053, si_hostname = ''lamp.local.'',
       si_properties = [(''mac'', ''AA:BB'')], si_fullname = ''lamp._esphomelib._tcp.local.''\<rparr> \<noteq> None
   \<and> map_option dd_device_id (build_discovered 0 \<lparr>si_addresses = [''10.0.0.7''], si_port = 6053, si_hostname = ''lamp.local.'',
       si_properties = [(''mac'', ''AA:BB'')], si_fullname = ''lamp._esphomelib._tcp.local.''\<rparr>)
     \<noteq> Some (fullname_to_device_id ''lamp._esphomelib._tcp.local.'')"
proof -
  let ?info = "\<lparr>si_addresses = [''10.0.0.7''], si_port = 6053, si_hostname = ''lamp.local.'',
       si_properties = [(''mac'', ''AA:BB'')], si_fullname = ''lamp._esphomelib._tcp.local.''\<rparr> :: service_info"
  obtain d where d: "build_discovered 0 ?info = Some d" by (simp add: build_discovered_def Let_def)
  show ?thesis using removal_misses_mac_devices [OF d, of "''lamp._esphomelib._tcp.local.''"] d by simp
qed

section \<open>Names of imported entities\<close>

definition imported_object_id :: "string \<Rightarrow> string \<Rightarrow> string" where
  "imported_object_id slug oid = slug @ ''__'' @ oid"

lemma split_on_pieces: "p \<in> set (split_on d s) \<Longrightarrow> d \<notin> set p"
  by (induction s arbitrary: p) (auto split: if_splits list.splits)

lemma split_once_skip:
  assumes "CHR ''_'' \<notin> set p" and "split_once ''__'' s = Some (a, b)"
  shows "split_once ''__'' (p @ s) = Some (p @ a, b)"
  using assms by (induction p) auto

lemma split_once_underscores:
  "list_all (\<lambda>p. p \<noteq> [] \<and> CHR ''_'' \<notin> set p) ps \<Longrightarrow>
     split_once ''__'' (join ''_'' ps @ ''__'' @ oid) = Some (join ''_'' ps, oid)"
proof (induction "''_''" ps rule: join.induct)
  case 1
  show ?case by simp
next
  case (2 p)
  then show ?case using split_once_skip [of p "''__'' @ oid" "[]" oid] by simp
next
  case (3 p q qs)
  let ?t = "join ''_'' (q # qs)"
  have rest: "split_once ''__'' (?t @ ''__'' @ oid) = Some (?t, oid)" using 3 by simp
  obtain c q' where q: "q = c # q'" "c \<noteq> CHR ''_''" using "3.prems" by (cases q) auto
  then have "hd ?t \<noteq> CHR ''_''" "?t \<noteq> []" by (cases qs; simp)+
  then have "split_once ''__'' (''_'' @ ?t @ ''__'' @ oid) = Some (''_'' @ ?t, oid)"
    using rest by (cases ?t) (auto simp: prefix_def)
  then show ?case using split_once_skip [of p "''_'' @ ?t @ ''__'' @ oid"] "3.prems" by simp
qed

lemma split_imported:
  "split_once ''__'' (imported_object_id (device_slug uc name) oid) = Some (device_slug uc name, oid)"
proof -
  have "list_all (\<lambda>p. p \<noteq> [] \<and> CHR ''_'' \<notin> set p) (filter (\<lambda>p. p \<noteq> []) (split_on CHR ''_'' s))" for s
    using split_on_pieces by (auto simp: list_all_iff)
  from split_once_underscores [OF this] show ?thesis by (simp only: imported_object_id_def device_slug_def)
qed

text \<open>The object id of an imported entity determines the slug of its device and the object id
  the device gave it, so entities of devices with different slugs never share an id.\<close>

theorem imported_ids_unambiguous:
  "imported_object_id (device_slug uc a) oid = imported_object_id (device_slug uc b) oid'
     \<longleftrightarrow> device_slug uc a = device_slug uc b \<and> oid = oid'"
proof
  assume "imported_object_id (device_slug uc a) oid = imported_object_id (device_slug uc b) oid'"
  then have "Some (device_slug uc a, oid) = Some (device_slug uc b, oid')"
    using split_imported [of uc a oid] split_imported [of uc b oid'] by (simp only:)
  then show "device_slug uc a = device_slug uc b \<and> oid = oid'" by simp
qed simp

lemma backoff_bounds: "1 \<le> backoff_delay n \<and> backoff_delay n \<le> 30"
proof -
  have "list_all (\<lambda>i. 1 \<le> [1, 2, 4, 8, 16, 30 :: u64] ! i \<and> [1, 2, 4, 8, 16, 30 :: u64] ! i \<le> 30) [0..<6]" by code_simp
  moreover have "min (unat n) 5 \<in> set [0..<6]" by simp
  ultimately show ?thesis unfolding backoff_delay_def list_all_iff by blast
qed

end
