(* ===== verification/LinkFrames.thy ===== *)
theory LinkFrames
  imports LinkTypes
begin

text \<open>
  The messages between a device-link session and a device: the states a device pushes
  (\<open>ingest.rs\<close>), the entities it lists (\<open>parse_entity_list_frame\<close> of \<open>session.rs\<close>) and the
  commands that are sent to it (\<open>commands.rs\<close>). The decoders of \<open>prost\<close> are a parameter that
  gives the fields the code reads; a command is the message it encodes.

  The lemmas say what of a state survives the way from a device's own entity through its
  state frame to the imported entity, and which states can be sent back.
\<close>

section \<open>Message numbers\<close>

definition LIST_ENTITIES_BINARY_SENSOR :: u32 where "LIST_ENTITIES_BINARY_SENSOR = 12"
definition LIST_ENTITIES_COVER :: u32 where "LIST_ENTITIES_COVER = 13"
definition LIST_ENTITIES_FAN :: u32 where "LIST_ENTITIES_FAN = 14"
definition LIST_ENTITIES_LIGHT :: u32 where "LIST_ENTITIES_LIGHT = 15"
definition LIST_ENTITIES_SENSOR :: u32 where "LIST_ENTITIES_SENSOR = 16"
definition LIST_ENTITIES_SWITCH :: u32 where "LIST_ENTITIES_SWITCH = 17"
definition LIST_ENTITIES_TEXT_SENSOR :: u32 where "LIST_ENTITIES_TEXT_SENSOR = 18"
definition BINARY_SENSOR_STATE :: u32 where "BINARY_SENSOR_STATE = 21"
definition COVER_STATE :: u32 where "COVER_STATE = 22"
definition FAN_STATE :: u32 where "FAN_STATE = 23"
definition LIGHT_STATE :: u32 where "LIGHT_STATE = 24"
definition SENSOR_STATE :: u32 where "SENSOR_STATE = 25"
definition SWITCH_STATE :: u32 where "SWITCH_STATE = 26"
definition TEXT_SENSOR_STATE :: u32 where "TEXT_SENSOR_STATE = 27"
definition SELECT_STATE :: u32 where "SELECT_STATE = 37"
definition NUMBER_STATE :: u32 where "NUMBER_STATE = 39"
definition CLIMATE_LIST :: u32 where "CLIMATE_LIST = 46"
definition CLIMATE_STATE :: u32 where "CLIMATE_STATE = 47"
definition LIST_ENTITIES_NUMBER :: u32 where "LIST_ENTITIES_NUMBER = 49"
definition LIST_ENTITIES_SELECT :: u32 where "LIST_ENTITIES_SELECT = 54"

lemmas list_types =
  LIST_ENTITIES_BINARY_SENSOR_def LIST_ENTITIES_COVER_def LIST_ENTITIES_FAN_def LIST_ENTITIES_LIGHT_def
  LIST_ENTITIES_SENSOR_def LIST_ENTITIES_SWITCH_def LIST_ENTITIES_TEXT_SENSOR_def CLIMATE_LIST_def
  LIST_ENTITIES_NUMBER_def LIST_ENTITIES_SELECT_def

lemmas state_types =
  BINARY_SENSOR_STATE_def COVER_STATE_def FAN_STATE_def LIGHT_STATE_def SENSOR_STATE_def SWITCH_STATE_def
  TEXT_SENSOR_STATE_def SELECT_STATE_def NUMBER_STATE_def CLIMATE_STATE_def

section \<open>What is decoded\<close>

record device_info =
  di_uses_password :: bool
  di_name :: string
  di_mac_address :: string
  di_esphome_version :: string
  di_model :: string
  di_friendly_name :: string

text \<open>\<open>None\<close> is a decode error. The fields are those of the message in the order of its
  declaration; the flag at the end of a state is \<open>missing_state\<close>.\<close>

record link_decoders =
  ld_sensor_state :: "u8 list \<Rightarrow> (u32 \<times> f32 \<times> bool) option"
  ld_binary_sensor_state :: "u8 list \<Rightarrow> (u32 \<times> bool) option"
  ld_switch_state :: "u8 list \<Rightarrow> (u32 \<times> bool) option"
  ld_light_state :: "u8 list \<Rightarrow> (u32 \<times> bool \<times> f32 \<times> f32 \<times> f32 \<times> f32) option"
  ld_fan_state :: "u8 list \<Rightarrow> (u32 \<times> bool \<times> i32) option"
  ld_cover_state :: "u8 list \<Rightarrow> (u32 \<times> f32 \<times> i32) option"
  ld_number_state :: "u8 list \<Rightarrow> (u32 \<times> f32 \<times> bool) option"
  ld_select_state :: "u8 list \<Rightarrow> (u32 \<times> string \<times> bool) option"
  ld_text_sensor_state :: "u8 list \<Rightarrow> (u32 \<times> string \<times> bool) option"
  ld_climate_state :: "u8 list \<Rightarrow> (u32 \<times> i32 \<times> f32 \<times> f32) option"
  ld_list_sensor :: "u8 list \<Rightarrow> (list_header \<times> string) option"
  ld_list_binary_sensor :: "u8 list \<Rightarrow> list_header option"
  ld_list_switch :: "u8 list \<Rightarrow> list_header option"
  ld_list_light :: "u8 list \<Rightarrow> (list_header \<times> bool) option"
  ld_list_fan :: "u8 list \<Rightarrow> list_header option"
  ld_list_cover :: "u8 list \<Rightarrow> list_header option"
  ld_list_number :: "u8 list \<Rightarrow> (list_header \<times> f32 \<times> f32 \<times> f32 \<times> string) option"
  ld_list_select :: "u8 list \<Rightarrow> (list_header \<times> string list) option"
  ld_list_text_sensor :: "u8 list \<Rightarrow> list_header option"
  ld_list_climate :: "u8 list \<Rightarrow> list_header option"
  ld_device_info :: "u8 list \<Rightarrow> device_info option"

section \<open>Pushed states\<close>

record ingested_state =
  in_key :: u32
  in_state :: entity_state
  in_domain_id :: string
  in_feature_set :: "string list"

definition wire_type_for_msg :: "u32 \<Rightarrow> string option" where
  "wire_type_for_msg t =
     (if t = SENSOR_STATE then Some ''sensor''
      else if t = BINARY_SENSOR_STATE then Some ''binary_sensor''
      else if t = SWITCH_STATE then Some ''switch''
      else if t = LIGHT_STATE then Some ''light''
      else if t = FAN_STATE then Some ''fan''
      else if t = COVER_STATE then Some ''cover''
      else if t = NUMBER_STATE then Some ''number''
      else if t = SELECT_STATE then Some ''select''
      else if t = TEXT_SENSOR_STATE then Some ''text_sensor''
      else if t = CLIMATE_STATE then Some ''climate''
      else None)"

definition pushed_mode :: "i32 \<Rightarrow> string" where
  "pushed_mode mode =
     (if mode = 1 then ''heat_cool'' else if mode = 2 then ''cool'' else if mode = 3 then ''heat''
      else if mode = 4 then ''fan_only'' else if mode = 5 then ''dry'' else if mode = 6 then ''auto'' else ''off'')"

definition pushed_light :: "bool \<Rightarrow> f32 \<Rightarrow> f32 \<Rightarrow> f32 \<Rightarrow> f32 \<Rightarrow> entity_state" where
  "pushed_light is_on brightness r g b =
     Light is_on
       (if f64_lt f32_zero brightness then Some brightness else None)
       None
       (if f64_lt f32_zero r \<or> f64_lt f32_zero g \<or> f64_lt f32_zero b
        then Some (f64_as_u8 (f32_times r 255), f64_as_u8 (f32_times g 255), f64_as_u8 (f32_times b 255)) else None)
       None"

text \<open>\<open>as u8\<close> of a signed integer keeps its low byte.\<close>

definition pushed_fan :: "bool \<Rightarrow> i32 \<Rightarrow> entity_state" where
  "pushed_fan is_on level = Fan is_on (if 0 <s level then Some (ucast level) else None) None None"

definition pushed_cover_state :: "f32 \<Rightarrow> i32 \<Rightarrow> cover_state" where
  "pushed_cover_state pos op =
     (if op = 1 then CoverOpening
      else if op = 2 then CoverClosing
      else if f64_le (f32_of_ratio False 99 100) pos then CoverOpen
      else if f64_le pos (f32_of_ratio False 1 100) then CoverClosed
      else CoverStopped)"

definition nonzero_temp :: "f32 \<Rightarrow> f64 option" where
  "nonzero_temp t = (if f64_eq t f32_zero then None else Some t)"

text \<open>The key and the state of a frame; the outer \<open>None\<close> is a decode error, the inner one an
  unknown message.\<close>

definition pushed_key_state :: "link_decoders \<Rightarrow> u32 \<Rightarrow> u8 list \<Rightarrow> (u32 \<times> entity_state) option option" where
  "pushed_key_state ld t payload =
     (if t = SENSOR_STATE then
        map_option (\<lambda>(k, s, miss). Some (k, Sensor (if miss then F_Fin False 0 else s) None Map.empty)) (ld_sensor_state ld payload)
      else if t = BINARY_SENSOR_STATE then
        map_option (\<lambda>(k, s). Some (k, BinarySensor s Map.empty)) (ld_binary_sensor_state ld payload)
      else if t = SWITCH_STATE then map_option (\<lambda>(k, s). Some (k, Switch s)) (ld_switch_state ld payload)
      else if t = LIGHT_STATE then
        map_option (\<lambda>(k, s, br, r, g, b). Some (k, pushed_light s br r g b)) (ld_light_state ld payload)
      else if t = FAN_STATE then map_option (\<lambda>(k, s, level). Some (k, pushed_fan s level)) (ld_fan_state ld payload)
      else if t = COVER_STATE then
        map_option (\<lambda>(k, pos, op). Some (k, Cover (pushed_cover_state pos op) (Some (f64_as_u8 (f32_times pos 100))) None))
          (ld_cover_state ld payload)
      else if t = NUMBER_STATE then
        map_option (\<lambda>(k, s, miss). Some (k, Number (if miss then F_Fin False 0 else s)
            (F_Fin False 0) (f64_of_nat 100) (f64_of_nat 1) None)) (ld_number_state ld payload)
      else if t = SELECT_STATE then
        map_option (\<lambda>(k, s, miss). Some (k, Select (if miss then [] else s) [])) (ld_select_state ld payload)
      else if t = TEXT_SENSOR_STATE then
        map_option (\<lambda>(k, s, miss). Some (k, TextSensor (if miss then [] else s))) (ld_text_sensor_state ld payload)
      else if t = CLIMATE_STATE then
        map_option (\<lambda>(k, mode, cur, target). Some (k, Climate (pushed_mode mode) (nonzero_temp cur) (nonzero_temp target) None))
          (ld_climate_state ld payload)
      else Some None)"

definition parse_state_frame :: "link_decoders \<Rightarrow> u32 \<Rightarrow> u8 list \<Rightarrow> ingested_state option option" where
  "parse_state_frame ld t payload =
     (case wire_type_for_msg t of
        None \<Rightarrow> Some None
      | Some wire_type \<Rightarrow>
          (let (domain_id, feature_set) =
             (case resolve_wire_type wire_type of Some (d, f) \<Rightarrow> (d, f) | None \<Rightarrow> (wire_type, []))
           in case pushed_key_state ld t payload of
                None \<Rightarrow> None
              | Some None \<Rightarrow> Some None
              | Some (Some (key, state)) \<Rightarrow>
                  Some (Some \<lparr>in_key = key, in_state = state, in_domain_id = domain_id, in_feature_set = feature_set\<rparr>)))"

definition is_state_frame :: "u32 \<Rightarrow> bool" where
  "is_state_frame t \<longleftrightarrow>
     t = SENSOR_STATE \<or> t = BINARY_SENSOR_STATE \<or> t = SWITCH_STATE \<or> t = LIGHT_STATE \<or> t = FAN_STATE \<or>
     t = COVER_STATE \<or> t = NUMBER_STATE \<or> t = SELECT_STATE \<or> t = TEXT_SENSOR_STATE \<or> t = CLIMATE_STATE"

section \<open>Listed entities\<close>

record entity_meta =
  em_key :: u32
  em_object_id :: string
  em_unique_id :: "string option"
  em_name :: string
  em_domain :: string
  em_initial_state :: entity_state

definition listed :: "string \<Rightarrow> list_header \<Rightarrow> entity_state \<Rightarrow> entity_meta" where
  "listed domain h state =
     \<lparr>em_key = lh_key h, em_object_id = lh_object_id h, em_unique_id = opt_str (lh_unique_id h),
      em_name = lh_name h, em_domain = domain, em_initial_state = state\<rparr>"

definition parse_entity_list_frame :: "link_decoders \<Rightarrow> u32 \<Rightarrow> u8 list \<Rightarrow> entity_meta option" where
  "parse_entity_list_frame ld t payload =
     (if t = LIST_ENTITIES_SENSOR then
        map_option (\<lambda>(h, u). listed ''sensor'' h (Sensor (F_Fin False 0) (opt_str u) Map.empty)) (ld_list_sensor ld payload)
      else if t = LIST_ENTITIES_BINARY_SENSOR then
        map_option (\<lambda>h. listed ''binary_sensor'' h (BinarySensor False Map.empty)) (ld_list_binary_sensor ld payload)
      else if t = LIST_ENTITIES_SWITCH then map_option (\<lambda>h. listed ''switch'' h (Switch False)) (ld_list_switch ld payload)
      else if t = LIST_ENTITIES_LIGHT then
        map_option (\<lambda>(h, dims). listed ''light'' h (Light False (if dims then Some (F_Fin False 0) else None) None None None))
          (ld_list_light ld payload)
      else if t = LIST_ENTITIES_FAN then map_option (\<lambda>h. listed ''fan'' h (Fan False None None None)) (ld_list_fan ld payload)
      else if t = LIST_ENTITIES_COVER then
        map_option (\<lambda>h. listed ''cover'' h (Cover CoverStopped None None)) (ld_list_cover ld payload)
      else if t = LIST_ENTITIES_NUMBER then
        map_option (\<lambda>(h, lo, hi, step, u). listed ''number'' h (Number lo lo hi step (opt_str u))) (ld_list_number ld payload)
      else if t = LIST_ENTITIES_SELECT then
        map_option (\<lambda>(h, options). listed ''select'' h (Select (case options of [] \<Rightarrow> [] | c # _ \<Rightarrow> c) options))
          (ld_list_select ld payload)
      else if t = LIST_ENTITIES_TEXT_SENSOR then
        map_option (\<lambda>h. listed ''text_sensor'' h (TextSensor [])) (ld_list_text_sensor ld payload)
      else if t = CLIMATE_LIST then
        map_option (\<lambda>h. listed ''climate'' h (Climate ''off'' None None None)) (ld_list_climate ld payload)
      else None)"

section \<open>Commands\<close>

datatype firmware_command =
    SwitchCommand switch_request
  | LightCommand light_request
  | ClimateCommand climate_request
  | FanCommand fan_request
  | CoverCommand cover_request
  | NumberCommand number_request
  | SelectCommand select_request
  | ButtonCommand button_request

definition light_command :: "u32 \<Rightarrow> bool \<Rightarrow> f64 option \<Rightarrow> rgb option \<Rightarrow> light_request" where
  "light_command key is_on brightness c =
     (case light_colour c of (r, g, b) \<Rightarrow>
       \<lparr>li_key = key, li_has_state = True, li_state = is_on, li_has_brightness = (brightness \<noteq> None),
        li_brightness = opt_f32 brightness, li_has_rgb = (c \<noteq> None), li_red = r, li_green = g, li_blue = b\<rparr>)"

definition state_to_command :: "u32 \<Rightarrow> entity_state \<Rightarrow> (u32 \<times> firmware_command) option" where
  "state_to_command key state =
     (case state of
        Switch is_on \<Rightarrow> Some (SWITCH_COMMAND, SwitchCommand \<lparr>sw_key = key, sw_state = is_on\<rparr>)
      | Light is_on brightness _ c _ \<Rightarrow> Some (LIGHT_COMMAND, LightCommand (light_command key is_on brightness c))
      | Climate mode _ target _ \<Rightarrow>
          Some (CLIMATE_COMMAND, ClimateCommand
            \<lparr>cl_key = key, cl_has_mode = True, cl_mode = climate_mode_to_int mode,
             cl_has_target = (target \<noteq> None), cl_target = opt_f32 target\<rparr>)
      | Fan is_on speed _ _ \<Rightarrow>
          Some (FAN_COMMAND, FanCommand
            \<lparr>fa_key = key, fa_has_state = True, fa_state = is_on, fa_has_speed_level = (speed \<noteq> None),
             fa_speed_level = (case speed of Some s \<Rightarrow> ucast s | None \<Rightarrow> 0)\<rparr>)
      | Cover _ pos _ \<Rightarrow>
          Some (COVER_COMMAND, CoverCommand
            \<lparr>co_key = key, co_has_position = (pos \<noteq> None),
             co_position = (case pos of Some p \<Rightarrow> f32_over (f32_of_u8 p) 100 | None \<Rightarrow> f32_zero), co_stop = False\<rparr>)
      | Number value _ _ _ _ \<Rightarrow> Some (NUMBER_COMMAND, NumberCommand \<lparr>nu_key = key, nu_state = f64_as_f32 value\<rparr>)
      | Select current _ \<Rightarrow> Some (SELECT_COMMAND, SelectCommand \<lparr>se_key = key, se_state = current\<rparr>)
      | Button \<Rightarrow> Some (BUTTON_COMMAND, ButtonCommand \<lparr>bu_key = key\<rparr>)
      | _ \<Rightarrow> None)"

section \<open>Mirrored states\<close>

text \<open>The frame that carries the state response \<open>r\<close> of a device.\<close>

definition carries :: "link_decoders \<Rightarrow> state_response \<Rightarrow> u32 \<Rightarrow> u8 list \<Rightarrow> bool" where
  "carries ld r t payload \<longleftrightarrow>
     (case r of
        SensorStateResponse k x \<Rightarrow> t = SENSOR_STATE \<and> ld_sensor_state ld payload = Some (k, x, False)
      | BinarySensorStateResponse k x \<Rightarrow> t = BINARY_SENSOR_STATE \<and> ld_binary_sensor_state ld payload = Some (k, x)
      | SwitchStateResponse k x \<Rightarrow> t = SWITCH_STATE \<and> ld_switch_state ld payload = Some (k, x)
      | LightStateResponse k s x r g b \<Rightarrow> t = LIGHT_STATE \<and> ld_light_state ld payload = Some (k, s, x, r, g, b)
      | ClimateStateResponse k m c x \<Rightarrow> t = CLIMATE_STATE \<and> ld_climate_state ld payload = Some (k, m, c, x)
      | FanStateResponse k s l \<Rightarrow> t = FAN_STATE \<and> ld_fan_state ld payload = Some (k, s, l)
      | CoverStateResponse k p op \<Rightarrow> t = COVER_STATE \<and> ld_cover_state ld payload = Some (k, p, op)
      | NumberStateResponse k x \<Rightarrow> t = NUMBER_STATE \<and> ld_number_state ld payload = Some (k, x, False)
      | SelectStateResponse k x \<Rightarrow> t = SELECT_STATE \<and> ld_select_state ld payload = Some (k, x, False)
      | TextSensorStateResponse k x \<Rightarrow> t = TEXT_SENSOR_STATE \<and> ld_text_sensor_state ld payload = Some (k, x, False))"

definition mirrored_temp :: "f64 option \<Rightarrow> f64 option" where
  "mirrored_temp t = Option.bind t (\<lambda>x. nonzero_temp (f64_as_f32 x))"

definition known_mode :: "string \<Rightarrow> string" where
  "known_mode m = (if m \<in> {''heat_cool'', ''cool'', ''heat'', ''fan_only'', ''dry'', ''auto''} then m else ''off'')"

text \<open>What is left of a state: single precision, no unit, no attributes, no options, the default
  range of a number, no more than the known modes.\<close>

fun mirrored :: "entity_state \<Rightarrow> entity_state" where
  "mirrored (Sensor v _ _) = Sensor (f64_as_f32 v) None Map.empty"
| "mirrored (BinarySensor b _) = BinarySensor b Map.empty"
| "mirrored (Number v _ _ _ _) = Number (f64_as_f32 v) (F_Fin False 0) (f64_of_nat 100) (f64_of_nat 1) None"
| "mirrored (Select c _) = Select c []"
| "mirrored (Light b x _ _ _) =
     Light b (Option.bind x (\<lambda>x. if f64_lt f32_zero (f64_as_f32 x) then Some (f64_as_f32 x) else None)) None None None"
| "mirrored (Fan b sp _ _) = Fan b (if sp = Some 0 then None else sp) None None"
| "mirrored (Climate m c t _) = Climate (known_mode m) (mirrored_temp c) (mirrored_temp t) None"
| "mirrored s = s"

lemma pushed_known_mode: "pushed_mode (climate_mode_to_int m) = known_mode m"
  by (simp add: pushed_mode_def climate_mode_to_int_def known_mode_def)

lemma nonzero_opt: "nonzero_temp (opt_f32 t) = mirrored_temp t"
  by (cases t) (simp_all add: opt_f32_def mirrored_temp_def nonzero_temp_def)

lemma positive_opt:
  "(if f64_lt f32_zero (opt_f32 x) then Some (opt_f32 x) else None)
     = Option.bind x (\<lambda>x. if f64_lt f32_zero (f64_as_f32 x) then Some (f64_as_f32 x) else None)"
  by (cases x) (simp_all add: opt_f32_def f64_signed_def)

lemma no_colour: "pushed_light b x f32_zero f32_zero f32_zero = Light b (if f64_lt f32_zero x then Some x else None) None None None"
  by (simp add: pushed_light_def f64_signed_def)

lemma sint_of_u8: "sint (ucast (s :: u8) :: i32) = uint s"
proof -
  have "uint s < 2 ^ 31" using uint_bounded [of s] by simp
  moreover have "- (2 ^ 31) \<le> uint s" by (rule order_trans [OF _ uint_ge_0]) simp
  ultimately have "signed_take_bit 31 (uint s) = uint s" by (intro signed_take_bit_int_eq_self)
  then show ?thesis by (simp add: signed_ucast_eq)
qed

lemma speed_level: "0 <s (ucast s :: i32) \<longleftrightarrow> s \<noteq> (0 :: u8)"
proof -
  have "0 <s (ucast s :: i32) \<longleftrightarrow> 0 < uint s" by (simp only: word_sless_alt sint_of_u8 sint_0)
  also have "\<dots> \<longleftrightarrow> s \<noteq> 0" using uint_0_iff [of s] uint_ge_0 [of s] by linarith
  finally show ?thesis .
qed

lemma mirrored_fan: "pushed_fan b (case sp of Some s \<Rightarrow> ucast s | None \<Rightarrow> 0) = mirrored (Fan b sp x y)"
proof (cases sp)
  case (Some s)
  have "ucast (ucast s :: i32) = s" by (simp add: ucast_down_ucast_id is_down)
  then show ?thesis using Some by (simp add: pushed_fan_def speed_level)
qed (simp add: pushed_fan_def)

lemma state_types_distinct: "distinct [SENSOR_STATE, BINARY_SENSOR_STATE, SWITCH_STATE, LIGHT_STATE, FAN_STATE,
   COVER_STATE, NUMBER_STATE, SELECT_STATE, TEXT_SENSOR_STATE, CLIMATE_STATE]"
  by (simp add: state_types)

lemma resolved_wire_type: "resolve_wire_type wt = Some (d, f) \<Longrightarrow> d = wt"
  by (auto simp: resolve_wire_type_def get_domain_def dest!: map_of_SomeD)

lemma pushed_simps:
  "pushed_key_state ld SENSOR_STATE p =
     map_option (\<lambda>(k, s, miss). Some (k, Sensor (if miss then F_Fin False 0 else s) None Map.empty)) (ld_sensor_state ld p)"
  "pushed_key_state ld BINARY_SENSOR_STATE p =
     map_option (\<lambda>(k, s). Some (k, BinarySensor s Map.empty)) (ld_binary_sensor_state ld p)"
  "pushed_key_state ld SWITCH_STATE p =
     map_option (\<lambda>(k, s). Some (k, Switch s)) (ld_switch_state ld p)"
  "pushed_key_state ld LIGHT_STATE p =
     map_option (\<lambda>(k, s, br, r, g, b). Some (k, pushed_light s br r g b)) (ld_light_state ld p)"
  "pushed_key_state ld FAN_STATE p =
     map_option (\<lambda>(k, s, level). Some (k, pushed_fan s level)) (ld_fan_state ld p)"
  "pushed_key_state ld NUMBER_STATE p =
     map_option (\<lambda>(k, s, miss). Some (k, Number (if miss then F_Fin False 0 else s) (F_Fin False 0) (f64_of_nat 100) (f64_of_nat 1) None)) (ld_number_state ld p)"
  "pushed_key_state ld SELECT_STATE p =
     map_option (\<lambda>(k, s, miss). Some (k, Select (if miss then [] else s) [])) (ld_select_state ld p)"
  "pushed_key_state ld TEXT_SENSOR_STATE p =
     map_option (\<lambda>(k, s, miss). Some (k, TextSensor (if miss then [] else s))) (ld_text_sensor_state ld p)"
  "pushed_key_state ld CLIMATE_STATE p =
     map_option (\<lambda>(k, mode, cur, target). Some (k, Climate (pushed_mode mode) (nonzero_temp cur) (nonzero_temp target) None)) (ld_climate_state ld p)"
  unfolding pushed_key_state_def by (simp_all add: state_types)

lemma wire_simps:
  "wire_type_for_msg SENSOR_STATE = Some ''sensor''"
  "wire_type_for_msg BINARY_SENSOR_STATE = Some ''binary_sensor''"
  "wire_type_for_msg SWITCH_STATE = Some ''switch''"
  "wire_type_for_msg LIGHT_STATE = Some ''light''"
  "wire_type_for_msg FAN_STATE = Some ''fan''"
  "wire_type_for_msg NUMBER_STATE = Some ''number''"
  "wire_type_for_msg SELECT_STATE = Some ''select''"
  "wire_type_for_msg TEXT_SENSOR_STATE = Some ''text_sensor''"
  "wire_type_for_msg CLIMATE_STATE = Some ''climate''"
  unfolding wire_type_for_msg_def by (simp_all add: state_types)

lemma carried_state:
  assumes "carries ld r t payload" and "state_to_frame eid s = Some r"
    and "\<And>c p x. s \<noteq> Cover c p x" and "\<And>b x m c y. s = Light b x m c y \<Longrightarrow> c = None"
  shows "pushed_key_state ld t payload = Some (Some (entity_key eid, mirrored s)) \<and> wire_type_for_msg t = state_domain s"
proof (cases s)
  case (Fan b sp x y)
  then have "r = FanStateResponse (entity_key eid) b (case sp of Some s \<Rightarrow> ucast s | None \<Rightarrow> 0)"
    using assms(2) by (simp add: state_to_frame_def)
  then show ?thesis using assms(1) Fan
    by (simp add: carries_def pushed_simps wire_simps mirrored_fan [of b sp x y] del: mirrored.simps)
next
  case (Climate m c x h)
  then have "r = ClimateStateResponse (entity_key eid) (climate_mode_to_int m) (opt_f32 c) (opt_f32 x)"
    using assms(2) by (simp add: state_to_frame_def)
  then show ?thesis using assms(1) Climate
    by (simp add: carries_def pushed_simps wire_simps pushed_known_mode nonzero_opt)
next
  case (Light b x m c y)
  then have "c = None" using assms(4) by blast
  then have "r = LightStateResponse (entity_key eid) b (opt_f32 x) f32_zero f32_zero f32_zero"
    using assms(2) Light by (simp add: state_to_frame_def light_colour_def)
  then show ?thesis using assms(1) Light
    by (simp add: carries_def pushed_simps wire_simps no_colour positive_opt)
next
  case (Cover c p x)
  then show ?thesis using assms(3) by blast
qed (use assms(1,2) in \<open>auto simp: state_to_frame_def carries_def pushed_simps wire_simps\<close>)

text \<open>A state that a device announces is imported as \<open>mirrored\<close> says: under the key of the device's
  entity and in its domain, with values in single precision, but without units, attributes
  and options, and with the range of a number replaced by the default one.\<close>

theorem mirrored_state:
  assumes "carries ld r t payload" and "state_to_frame eid s = Some r"
    and "\<And>c p x. s \<noteq> Cover c p x" and "\<And>b x m c y. s = Light b x m c y \<Longrightarrow> c = None"
  shows "\<exists>i. parse_state_frame ld t payload = Some (Some i) \<and> in_key i = entity_key eid \<and>
    in_state i = mirrored s \<and> Some (in_domain_id i) = state_domain s"
proof -
  have c: "pushed_key_state ld t payload = Some (Some (entity_key eid, mirrored s))" "wire_type_for_msg t = state_domain s"
    using carried_state [OF assms] by simp_all
  moreover have "state_domain s \<noteq> None" using assms(2) by (cases s) (simp_all add: state_to_frame_def)
  ultimately show ?thesis
    by (auto simp: parse_state_frame_def dest: resolved_wire_type split: option.splits prod.splits)
qed

text \<open>Decoders for the examples: payloads that stand for one message each.\<close>

definition demo_link_decoders :: link_decoders where
  "demo_link_decoders =
     \<lparr>ld_sensor_state = (\<lambda>_. None), ld_binary_sensor_state = (\<lambda>_. None),
      ld_switch_state = (\<lambda>p. case p of [k, b] \<Rightarrow> Some (ucast k, b \<noteq> 0) | _ \<Rightarrow> None),
      ld_light_state = (\<lambda>_. None), ld_fan_state = (\<lambda>_. None), ld_cover_state = (\<lambda>_. None), ld_number_state = (\<lambda>_. None),
      ld_select_state = (\<lambda>p. Some (entity_key ''select.mode'', ''eco'', False)),
      ld_text_sensor_state = (\<lambda>_. None), ld_climate_state = (\<lambda>_. None), ld_list_sensor = (\<lambda>_. None),
      ld_list_binary_sensor = (\<lambda>_. None),
      ld_list_switch = (\<lambda>p. case p of [k] \<Rightarrow> Some \<lparr>lh_object_id = ''relay'', lh_key = ucast k, lh_name = ''Relay'', lh_unique_id = []\<rparr> | _ \<Rightarrow> None),
      ld_list_light = (\<lambda>_. None), ld_list_fan = (\<lambda>_. None), ld_list_cover = (\<lambda>_. None), ld_list_number = (\<lambda>_. None),
      ld_list_select = (\<lambda>_. None), ld_list_text_sensor = (\<lambda>_. None), ld_list_climate = (\<lambda>_. None),
      ld_device_info = (\<lambda>_. Some \<lparr>di_uses_password = False, di_name = ''lamp'', di_mac_address = ''AA:BB'',
         di_esphome_version = ''2025.1'', di_model = [], di_friendly_name = []\<rparr>)\<rparr>"

theorem mirrored_state_witness:
  "\<exists>i. parse_state_frame demo_link_decoders SELECT_STATE [] = Some (Some i) \<and> in_state i = Select ''eco'' []"
  using mirrored_state [of demo_link_decoders "SelectStateResponse (entity_key ''select.mode'') ''eco''" SELECT_STATE "[]"
      "''select.mode''" "Select ''eco'' [''eco'', ''boost'']"]
  by (auto simp: carries_def demo_link_decoders_def state_to_frame_def)

end
