(* ===== verification/LinkSession.thy ===== *)
theory LinkSession
  imports LinkFrames
begin

text \<open>
  One session of the device link (\<open>session.rs\<close>): it connects to a device, goes through the
  handshake, imports the device's entities into the entity runtime and then mirrors states
  and relays commands. The handlers act on the session and on the world of the entity
  runtime and list what the session sends out. Every TCP connection has a number; the
  answers of the network, of the Noise handshake and of the device manager, the clock and
  the decoders are parameters of the single message (\<open>link_env\<close>). Instants count
  nanoseconds. An imported entity writes through the \<open>RemoteStateUpdater\<close> of its session,
  so the delivery of its messages (\<open>deliver_remote\<close>) also yields commands to relay.

  The lemmas concern the frames on each connection, the echo of pushed states and the
  reconnects.
\<close>

section \<open>State\<close>

datatype client_frame =
    HelloFrame
  | DeviceInfoFrame
  | ListEntitiesFrame
  | SubscribeStatesFrame
  | PingFrame
  | PongFrame
  | CommandFrame u32 firmware_command

datatype handshake_phase = AwaitHello | AwaitDeviceInfo | CollectingEntities "entity_meta list"

datatype session_fsm =
    SessionIdle
  | SessionHandshake nat handshake_phase
  | SessionActive nat
  | SessionReconnecting
  | SessionStopped

datatype session_msg =
    ConnectMsg
  | ReconnectMsg
  | InboundFrameMsg u32 "u8 list"
  | ReaderClosed
  | InboundFrameError
  | RelayCommand entity_id entity_state
  | SendCommand entity_id entity_state
  | PingTick
  | StopSession

datatype session_out =
    ToldStatus device_id session_status nat
  | ToldIdentity session_identity
  | StartedReader nat
  | Sent nat client_frame
  | ReconnectIn u64
  | StartedTicker
  | Answered "link_error + unit"

text \<open>\<open>se_next_conn\<close> numbers the connections; \<open>se_stopped\<close> is the request to stop.\<close>

record device_session =
  se_device :: discovered_device
  se_security :: device_security_config
  se_fsm :: session_fsm
  se_key_to_entity :: "(u32 \<times> entity_id) list"
  se_entity_to_key :: "(entity_id \<times> u32) list"
  se_entity_refs :: "(entity_id \<times> actor_ref) list"
  se_bindings :: "(entity_id \<times> imported_binding) list"
  se_device_ref :: "actor_ref option"
  se_firmware_states :: "(entity_id \<times> entity_state) list"
  se_reconnect_attempts :: u32
  se_last_activity :: "nat option"
  se_canonical_id :: "device_id option"
  se_info_name :: "string option"
  se_info_model :: "string option"
  se_info_sw_version :: "string option"
  se_limits :: device_link_limits
  se_next_conn :: nat
  se_stopped :: bool

definition new_session :: "discovered_device \<Rightarrow> device_security_config \<Rightarrow> device_link_limits \<Rightarrow> device_session" where
  "new_session d cfg limits =
     \<lparr>se_device = d, se_security = cfg, se_fsm = SessionIdle, se_key_to_entity = [], se_entity_to_key = [],
      se_entity_refs = [], se_bindings = [], se_device_ref = None, se_firmware_states = [], se_reconnect_attempts = 0,
      se_last_activity = None, se_canonical_id = None, se_info_name = None, se_info_model = None,
      se_info_sw_version = None, se_limits = limits, se_next_conn = 0, se_stopped = False\<rparr>"

record 'w link_env =
  le_unicode :: unicode
  le_decoders :: link_decoders
  le_ops :: "'w watch_ops"
  le_base64 :: "string \<Rightarrow> string + u8 list"
  le_now :: nat
  le_tcp :: bool
  le_noise :: bool
  le_device_manager :: bool
  le_write :: "string + unit"

definition MAX_ENTITIES_PER_DEVICE :: nat where "MAX_ENTITIES_PER_DEVICE = 512"
definition CLIENT_INACTIVITY_TIMEOUT :: nat where "CLIENT_INACTIVITY_TIMEOUT = 30 * 1000000000"

section \<open>The state updater of imported entities\<close>

text \<open>\<open>PartialEq\<close> of states: floats compare as floats.\<close>

fun opt_eq :: "('a \<Rightarrow> 'a \<Rightarrow> bool) \<Rightarrow> 'a option \<Rightarrow> 'a option \<Rightarrow> bool" where
  "opt_eq f None None = True"
| "opt_eq f (Some x) (Some y) = f x y"
| "opt_eq f _ _ = False"

definition state_eq :: "entity_state \<Rightarrow> entity_state \<Rightarrow> bool" where
  "state_eq s t =
     (case s of
        Sensor v u a \<Rightarrow> (case t of Sensor v' u' a' \<Rightarrow> f64_eq v v' \<and> u = u' \<and> a = a' | _ \<Rightarrow> False)
      | Number v lo hi st u \<Rightarrow>
          (case t of Number v' lo' hi' st' u' \<Rightarrow>
             f64_eq v v' \<and> f64_eq lo lo' \<and> f64_eq hi hi' \<and> f64_eq st st' \<and> u = u' | _ \<Rightarrow> False)
      | Light b x ct c m \<Rightarrow>
          (case t of Light b' x' ct' c' m' \<Rightarrow> b = b' \<and> opt_eq f64_eq x x' \<and> ct = ct' \<and> c = c' \<and> m = m' | _ \<Rightarrow> False)
      | Climate m c x h \<Rightarrow>
          (case t of Climate m' c' x' h' \<Rightarrow> m = m' \<and> opt_eq f64_eq c c' \<and> opt_eq f64_eq x x' \<and> h = h' | _ \<Rightarrow> False)
      | MediaPlayer st v m ti \<Rightarrow>
          (case t of MediaPlayer st' v' m' ti' \<Rightarrow> st = st' \<and> opt_eq f64_eq v v' \<and> m = m' \<and> ti = ti' | _ \<Rightarrow> False)
      | _ \<Rightarrow> s = t)"

text \<open>The command, if any, that the update of an entity's state sends to the session. The store is
  updated in any case.\<close>

definition remote_update :: "(entity_id \<times> entity_state) list \<Rightarrow> entity_id \<Rightarrow> entity_state \<Rightarrow> (entity_id \<times> entity_state) list" where
  "remote_update firmware eid state =
     (if state = Unavailable then []
      else if (case map_of firmware eid of Some s \<Rightarrow> state_eq s state | None \<Rightarrow> False) then []
      else [(eid, state)])"

fun relays :: "(entity_id \<times> entity_state) list \<Rightarrow> entity_output \<Rightarrow> session_msg list" where
  "relays firmware (Changed c) = map (\<lambda>(eid, s). RelayCommand eid s) (remote_update firmware (sc_entity_id c) (sc_new c))"
| "relays firmware (Replied _) = []"

text \<open>The imported entity \<open>r\<close> takes its next message.\<close>

definition deliver_remote ::
    "'w watch_ops \<Rightarrow> nat \<Rightarrow> actor_ref \<Rightarrow> device_session \<Rightarrow> 'w world \<Rightarrow> 'w world \<times> session_msg list" where
  "deliver_remote ops now r s w =
     (case deliver ops now r w of (w', out) \<Rightarrow> (w', concat (map (relays (se_firmware_states s)) out)))"

section \<open>Connecting\<close>

definition told_status :: "device_session \<Rightarrow> session_status \<Rightarrow> nat \<Rightarrow> session_out" where
  "told_status s st n = ToldStatus (dd_device_id (se_device s)) st n"

definition backoff_status :: "device_session \<Rightarrow> session_out" where
  "backoff_status s =
     told_status s (StBackoff (se_reconnect_attempts s) (backoff_delay (se_reconnect_attempts s))) (length (se_key_to_entity s))"

definition schedule_reconnect :: "device_session \<Rightarrow> device_session \<times> session_out list" where
  "schedule_reconnect s =
     (s\<lparr>se_reconnect_attempts := se_reconnect_attempts s + 1, se_fsm := SessionReconnecting\<rparr>,
      [backoff_status s, ReconnectIn (backoff_delay (se_reconnect_attempts s))])"

definition mark_entities_unavailable :: "device_session \<Rightarrow> 'w world \<Rightarrow> device_session \<times> 'w world" where
  "mark_entities_unavailable s w =
     (s\<lparr>se_firmware_states := fold (\<lambda>(eid, _). reg_remove eid) (se_entity_refs s) (se_firmware_states s)\<rparr>,
      fold (\<lambda>(_, r) w. snd (send_entity r (SetState Unavailable) w)) (se_entity_refs s) w)"

definition open_connection :: "device_session \<Rightarrow> device_session \<times> session_out list" where
  "open_connection s =
     (let c = se_next_conn s
      in (s\<lparr>se_fsm := SessionHandshake c AwaitHello, se_next_conn := Suc c\<rparr>,
          [StartedReader c, Sent c HelloFrame, told_status s StHandshaking (length (se_key_to_entity s))]))"

definition connect_and_send_hello :: "'w link_env \<Rightarrow> device_session \<Rightarrow> device_session \<times> session_out list" where
  "connect_and_send_hello env s =
     (let (s', out) =
        (if \<not> le_tcp env then schedule_reconnect s
         else if uses_noise (se_security s) then
           (case decode_psk (le_base64 env) (se_security s) of
              Some (Inr psk) \<Rightarrow> if le_noise env then open_connection s else schedule_reconnect s
            | Some (Inl e) \<Rightarrow> schedule_reconnect s
            | None \<Rightarrow> open_connection s)
         else open_connection s)
      in (s', told_status s StConnecting (length (se_key_to_entity s)) # out))"

section \<open>Importing entities\<close>

definition entity_id_of :: "string \<Rightarrow> entity_meta \<Rightarrow> entity_id" where
  "entity_id_of slug m = new_entity_id (em_domain m) (imported_object_id slug (em_object_id m))"

definition binding_of :: "device_id \<Rightarrow> string \<Rightarrow> entity_meta \<Rightarrow> imported_binding" where
  "binding_of did slug m =
     \<lparr>ib_local_entity_id = entity_id_of slug m, ib_device_id = did, ib_remote_key = em_key m,
      ib_remote_object_id = em_object_id m, ib_remote_unique_id = em_unique_id m,
      ib_remote_domain = em_domain m, ib_command_capabilities = command_capabilities_for_domain (em_domain m)\<rparr>"

definition map_entity :: "device_id \<Rightarrow> string \<Rightarrow> entity_meta \<Rightarrow> device_session \<Rightarrow> device_session" where
  "map_entity did slug m s =
     (let eid = entity_id_of slug m in
      s\<lparr>se_key_to_entity := reg_insert (em_key m) eid (se_key_to_entity s),
        se_entity_to_key := reg_insert eid (em_key m) (se_entity_to_key s),
        se_bindings := reg_insert eid (binding_of did slug m) (se_bindings s)\<rparr>)"

definition attach_to :: "actor_ref option \<Rightarrow> entity_descriptor \<Rightarrow> actor_ref \<Rightarrow> 'w world \<Rightarrow> 'w world" where
  "attach_to dr d r w = (case dr of Some dr \<Rightarrow> attach_entity dr d r w | None \<Rightarrow> w)"

definition import_entity ::
    "'w link_env \<Rightarrow> device_id \<Rightarrow> string \<Rightarrow> entity_meta \<Rightarrow> device_session \<times> 'w world \<Rightarrow> device_session \<times> 'w world" where
  "import_entity env did slug m sw =
     (let eid = entity_id_of slug m; s = map_entity did slug m (fst sw); w = snd sw in
      if map_of (se_entity_refs s) eid \<noteq> None then (s, w)
      else (case resolve_wire_type (em_domain m) of
          None \<Rightarrow> (s, w)
        | Some (domain_id, feature_set) \<Rightarrow>
            (let d = \<lparr>ed_entity_id = eid, ed_name = em_name m, ed_icon = None, ed_device_id = Some did, ed_area_id = None,
                   ed_category = NoCategory, ed_domain_id = domain_id, ed_feature_set = feature_set, ed_device_class = None\<rparr>
             in case registered eid (w_registry w) of
                  Some r \<Rightarrow>
                    (s\<lparr>se_entity_refs := reg_insert eid r (se_entity_refs s)\<rparr>,
                     attach_to (se_device_ref s) d r (w\<lparr>w_registry := register_descriptor d (w_registry w)\<rparr>))
                | None \<Rightarrow>
                    (let w1 = w\<lparr>w_store := store_update (le_ops env) (le_now env) eid (em_initial_state m) (w_store w)\<rparr>;
                         (r, w2) = spawn_entity d (em_initial_state m) w1;
                         w3 = w2\<lparr>w_registry := register_entity eid r (register_descriptor d (w_registry w2))\<rparr>
                     in (s\<lparr>se_entity_refs := reg_insert eid r (se_entity_refs s)\<rparr>, attach_to (se_device_ref s) d r w3)))))"

text \<open>Entities that the device no longer lists.\<close>

definition retire_missing :: "entity_id list \<Rightarrow> device_session \<times> 'w world \<Rightarrow> device_session \<times> 'w world" where
  "retire_missing current sw =
     (case sw of (s, w) \<Rightarrow>
        (let gone = filter (\<lambda>(eid, _). eid \<notin> set current) (se_entity_refs s)
         in (s\<lparr>se_firmware_states := fold (\<lambda>(eid, _). reg_remove eid) gone (se_firmware_states s)\<rparr>,
             fold (\<lambda>(_, r) w. snd (send_entity r (SetState Unavailable) w)) gone w)))"

definition link_device_descriptor :: "device_session \<Rightarrow> device_descriptor" where
  "link_device_descriptor s =
     \<lparr>dv_device_id = (case se_canonical_id s of Some c \<Rightarrow> c | None \<Rightarrow> dd_device_id (se_device s)),
      dv_name = (case se_info_name s of Some n \<Rightarrow> n | None \<Rightarrow> dd_device_name (se_device s)),
      dv_model = se_info_model s,
      dv_manufacturer = Some ''ESPHome-compatible'',
      dv_sw_version = (case se_info_sw_version s of Some v \<Rightarrow> Some v | None \<Rightarrow> Some (dd_version (se_device s))),
      dv_area_id = None\<rparr>"

text \<open>The device actor, created once.\<close>

definition ensure_device :: "'w link_env \<Rightarrow> device_session \<Rightarrow> 'w world \<Rightarrow> (device_session \<times> 'w world) option" where
  "ensure_device env s w =
     (if se_device_ref s \<noteq> None then Some (s, w)
      else if le_device_manager env then
        (case add_device (link_device_descriptor s) w of (dr, w') \<Rightarrow> Some (s\<lparr>se_device_ref := Some dr\<rparr>, w'))
      else None)"

text \<open>Whether the listed entities exceed the limits, of this device or of the program.\<close>

definition new_entities_needed :: "string \<Rightarrow> entity_meta list \<Rightarrow> device_session \<Rightarrow> 'w world \<Rightarrow> nat" where
  "new_entities_needed slug entities s w =
     length (filter (\<lambda>m. map_of (se_entity_refs s) (entity_id_of slug m) = None \<and>
                         registered (entity_id_of slug m) (w_registry w) = None) entities)"

definition too_many :: "string \<Rightarrow> entity_meta list \<Rightarrow> device_session \<Rightarrow> 'w world \<Rightarrow> bool" where
  "too_many slug entities s w \<longleftrightarrow>
     length entities > min (max_entities (se_limits s)) MAX_ENTITIES_PER_DEVICE \<or>
     entity_count (w_registry w) + new_entities_needed slug entities s w > max_entities (se_limits s)"

definition finalize_entities ::
    "'w link_env \<Rightarrow> entity_meta list \<Rightarrow> device_session \<Rightarrow> 'w world \<Rightarrow> device_session \<times> 'w world \<times> session_out list" where
  "finalize_entities env entities s w =
     (let slug = device_slug (le_unicode env) (dd_device_name (se_device s));
          did = (case se_canonical_id s of Some c \<Rightarrow> c | None \<Rightarrow> dd_device_id (se_device s))
      in case ensure_device env s w of
           None \<Rightarrow> (s, w, [])
         | Some (s1, w1) \<Rightarrow>
             if entities = [] then (s1, w1, [])
             else if too_many slug entities s1 w1 then
               (case mark_entities_unavailable s1 w1 of
                  (s2, w2) \<Rightarrow> (case schedule_reconnect s2 of (s3, out) \<Rightarrow> (s3, w2, out)))
             else
               (case retire_missing (map (entity_id_of slug) entities) (fold (import_entity env did slug) entities (s1, w1)) of
                  (s2, w2) \<Rightarrow> (s2, w2, [])))"

section \<open>Frames from the device\<close>

definition identity_of :: "device_session \<Rightarrow> device_info \<Rightarrow> session_identity" where
  "identity_of s di =
     \<lparr>id_provisional = dd_device_id (se_device s),
      id_canonical = (if di_mac_address di \<noteq> [] then device_id_from_mac (di_mac_address di) else dd_device_id (se_device s)),
      id_name = di_name di, id_friendly_name = opt_str (di_friendly_name di), id_mac_address = opt_str (di_mac_address di),
      id_model = opt_str (di_model di), id_sw_version = opt_str (di_esphome_version di)\<rparr>"

definition device_info_response ::
    "nat \<Rightarrow> device_info \<Rightarrow> device_session \<Rightarrow> device_session \<times> session_out list" where
  "device_info_response c di s =
     (let ident = identity_of s di;
          s1 = s\<lparr>se_info_name := Some (di_name di), se_info_model := opt_str (di_model di),
                 se_info_sw_version := opt_str (di_esphome_version di), se_canonical_id := Some (id_canonical ident)\<rparr>
      in if di_uses_password di then
           (s1\<lparr>se_stopped := True, se_fsm := SessionReconnecting\<rparr>,
            [ToldIdentity ident, told_status s StUnsupportedAuth 0])
         else (s1\<lparr>se_fsm := SessionHandshake c (CollectingEntities [])\<rparr>, [ToldIdentity ident, Sent c ListEntitiesFrame]))"

text \<open>The end of the list: import the entities, subscribe, become active.\<close>

definition list_done ::
    "'w link_env \<Rightarrow> nat \<Rightarrow> entity_meta list \<Rightarrow> device_session \<Rightarrow> 'w world \<Rightarrow> device_session \<times> 'w world \<times> session_out list" where
  "list_done env c entities s w =
     (case finalize_entities env entities s w of
        (s1, w1, out) \<Rightarrow>
          (s1\<lparr>se_reconnect_attempts := 0, se_last_activity := Some (le_now env), se_fsm := SessionActive c\<rparr>, w1,
           out @ [Sent c SubscribeStatesFrame, told_status s StActive (length (se_entity_refs s1)), StartedTicker]))"

definition handle_handshake ::
    "'w link_env \<Rightarrow> u32 \<Rightarrow> u8 list \<Rightarrow> nat \<Rightarrow> handshake_phase \<Rightarrow> device_session \<Rightarrow> 'w world \<Rightarrow>
     device_session \<times> 'w world \<times> session_out list" where
  "handle_handshake env t payload c phase s w =
     (case phase of
        AwaitHello \<Rightarrow>
          if t = HELLO_RESPONSE
          then (s\<lparr>se_fsm := SessionHandshake c AwaitDeviceInfo\<rparr>, w, [Sent c DeviceInfoFrame])
          else (s, w, [])
      | AwaitDeviceInfo \<Rightarrow>
          if t = DEVICE_INFO_RESPONSE
          then (case ld_device_info (le_decoders env) payload of
                  None \<Rightarrow> (case schedule_reconnect s of (s', out) \<Rightarrow> (s', w, out))
                | Some di \<Rightarrow> (case device_info_response c di s of (s', out) \<Rightarrow> (s', w, out)))
          else (s, w, [])
      | CollectingEntities entities \<Rightarrow>
          if t = LIST_ENTITIES_DONE then list_done env c entities s w
          else (case parse_entity_list_frame (le_decoders env) t payload of
                  None \<Rightarrow> (s, w, [])
                | Some m \<Rightarrow> (s\<lparr>se_fsm := SessionHandshake c (CollectingEntities (entities @ [m]))\<rparr>, w, [])))"

definition ingest_state :: "'w link_env \<Rightarrow> u32 \<Rightarrow> u8 list \<Rightarrow> device_session \<Rightarrow> 'w world \<Rightarrow> device_session \<times> 'w world" where
  "ingest_state env t payload s w =
     (case parse_state_frame (le_decoders env) t payload of
        Some (Some i) \<Rightarrow>
          (case map_of (se_key_to_entity s) (in_key i) of
             None \<Rightarrow> (s, w)
           | Some eid \<Rightarrow>
               (case map_of (se_entity_refs s) eid of
                  None \<Rightarrow> (s, w)
                | Some r \<Rightarrow>
                    (s\<lparr>se_firmware_states := reg_insert eid (in_state i) (se_firmware_states s)\<rparr>,
                     snd (send_entity r (SetState (in_state i)) w))))
      | _ \<Rightarrow> (s, w))"

definition handle_active ::
    "'w link_env \<Rightarrow> u32 \<Rightarrow> u8 list \<Rightarrow> nat \<Rightarrow> device_session \<Rightarrow> 'w world \<Rightarrow> device_session \<times> 'w world \<times> session_out list" where
  "handle_active env t payload c s w =
     (if is_state_frame t then (case ingest_state env t payload s w of (s', w') \<Rightarrow> (s', w', []))
      else if t = PING_REQUEST then (s, w, [Sent c PongFrame])
      else (s, w, []))"

definition handle_inbound ::
    "'w link_env \<Rightarrow> u32 \<Rightarrow> u8 list \<Rightarrow> device_session \<Rightarrow> 'w world \<Rightarrow> device_session \<times> 'w world \<times> session_out list" where
  "handle_inbound env t payload s w =
     (let s = s\<lparr>se_last_activity := Some (le_now env)\<rparr> in
      case se_fsm s of
        SessionHandshake c phase \<Rightarrow> handle_handshake env t payload c phase s w
      | SessionActive c \<Rightarrow> handle_active env t payload c s w
      | _ \<Rightarrow> (s, w, []))"

section \<open>Commands to the device\<close>

definition relay_command_to_firmware :: "entity_id \<Rightarrow> entity_state \<Rightarrow> device_session \<Rightarrow> session_out list" where
  "relay_command_to_firmware eid state s =
     (case map_of (se_entity_to_key s) eid of
        None \<Rightarrow> []
      | Some key \<Rightarrow>
          (case state_to_command key state of
             None \<Rightarrow> []
           | Some (t, cmd) \<Rightarrow> (case se_fsm s of SessionActive c \<Rightarrow> [Sent c (CommandFrame t cmd)] | _ \<Rightarrow> [])))"

definition send_command_to_firmware :: "'w link_env \<Rightarrow> entity_id \<Rightarrow> entity_state \<Rightarrow> device_session \<Rightarrow> session_out list" where
  "send_command_to_firmware env eid state s =
     (case map_of (se_entity_to_key s) eid of
        None \<Rightarrow> [Answered (Inl (LinkEntityNotFound eid))]
      | Some key \<Rightarrow>
          (case state_to_command key state of
             None \<Rightarrow> [Answered (Inl (CommandNotSupported eid))]
           | Some (t, cmd) \<Rightarrow>
               (case se_fsm s of
                  SessionActive c \<Rightarrow>
                    [Sent c (CommandFrame t cmd), Answered (case le_write env of Inl e \<Rightarrow> Inl (Connect e) | Inr u \<Rightarrow> Inr u)]
                | _ \<Rightarrow> [Answered (Inl SessionNotActive)])))"

section \<open>The handler\<close>

definition lost_connection :: "device_session \<Rightarrow> 'w world \<Rightarrow> device_session \<times> 'w world \<times> session_out list" where
  "lost_connection s w =
     (case mark_entities_unavailable s w of
        (s1, w1) \<Rightarrow> (case schedule_reconnect s1 of (s2, out) \<Rightarrow> (s2, w1, out)))"

definition ping_tick :: "'w link_env \<Rightarrow> device_session \<Rightarrow> 'w world \<Rightarrow> device_session \<times> 'w world \<times> session_out list" where
  "ping_tick env s w =
     (case se_fsm s of
        SessionActive c \<Rightarrow>
          if (case se_last_activity s of Some l \<Rightarrow> CLIENT_INACTIVITY_TIMEOUT \<le> le_now env - l | None \<Rightarrow> False)
          then lost_connection s w
          else (s, w, [Sent c PingFrame])
      | _ \<Rightarrow> (s, w, []))"

definition handle_session ::
    "'w link_env \<Rightarrow> session_msg \<Rightarrow> device_session \<Rightarrow> 'w world \<Rightarrow> device_session \<times> 'w world \<times> session_out list" where
  "handle_session env msg s w =
     (case msg of
        ConnectMsg \<Rightarrow> (case connect_and_send_hello env s of (s', out) \<Rightarrow> (s', w, out))
      | ReconnectMsg \<Rightarrow> (case connect_and_send_hello env s of (s', out) \<Rightarrow> (s', w, out))
      | InboundFrameMsg t payload \<Rightarrow> handle_inbound env t payload s w
      | ReaderClosed \<Rightarrow> lost_connection s w
      | InboundFrameError \<Rightarrow> (case lost_connection s w of (s', w', out) \<Rightarrow> (s', w', backoff_status s # out))
      | RelayCommand eid state \<Rightarrow> (s, w, relay_command_to_firmware eid state s)
      | SendCommand eid state \<Rightarrow> (s, w, send_command_to_firmware env eid state s)
      | PingTick \<Rightarrow> ping_tick env s w
      | StopSession \<Rightarrow>
          (case mark_entities_unavailable s w of
             (s', w') \<Rightarrow> (s'\<lparr>se_fsm := SessionStopped, se_stopped := True\<rparr>, w', [])))"

text \<open>After a request to stop, \<open>post_stop\<close> runs and no further message is taken. The tasks and actors the
  session spawned end with it; this is the supervision of \<open>rshome-actor\<close> and not part of this state.\<close>

definition session_post_stop :: "device_session \<Rightarrow> 'w world \<Rightarrow> device_session \<times> 'w world" where
  "session_post_stop s w =
     (case mark_entities_unavailable s w of (s', w') \<Rightarrow> (s'\<lparr>se_fsm := SessionStopped\<rparr>, w'))"

definition session_receive ::
    "'w link_env \<Rightarrow> session_msg \<Rightarrow> device_session \<Rightarrow> 'w world \<Rightarrow> device_session \<times> 'w world \<times> session_out list" where
  "session_receive env msg s w =
     (if se_stopped s then (s, w, [])
      else (case handle_session env msg s w of
          (s', w', out) \<Rightarrow>
            if se_stopped s' then (case session_post_stop s' w' of (s'', w'') \<Rightarrow> (s'', w'', out)) else (s', w', out)))"

section \<open>What a message does to the connection\<close>

fun sent_frames :: "session_out list \<Rightarrow> (nat \<times> client_frame) list" where
  "sent_frames [] = []"
| "sent_frames (Sent c f # outs) = (c, f) # sent_frames outs"
| "sent_frames (_ # outs) = sent_frames outs"

lemma sent_frames_append [simp]: "sent_frames (xs @ ys) = sent_frames xs @ sent_frames ys"
  by (induction xs rule: sent_frames.induct) simp_all

definition steady :: "client_frame \<Rightarrow> bool" where
  "steady f \<longleftrightarrow> f \<notin> {HelloFrame, DeviceInfoFrame, ListEntitiesFrame, SubscribeStatesFrame}"

inductive effect :: "session_fsm \<Rightarrow> nat \<Rightarrow> session_fsm \<Rightarrow> nat \<Rightarrow> (nat \<times> client_frame) list \<Rightarrow> bool" where
  quiet: "effect f n f n []"
| lost: "effect f n SessionReconnecting n []"
| ended: "effect f n SessionStopped n []"
| opened: "effect f n (SessionHandshake n AwaitHello) (Suc n) [(n, HelloFrame)]"
| greeted: "effect (SessionHandshake c AwaitHello) n (SessionHandshake c AwaitDeviceInfo) n [(c, DeviceInfoFrame)]"
| identified: "effect (SessionHandshake c AwaitDeviceInfo) n (SessionHandshake c (CollectingEntities [])) n [(c, ListEntitiesFrame)]"
| listed: "effect (SessionHandshake c (CollectingEntities es)) n (SessionHandshake c (CollectingEntities es')) n []"
| activated: "effect (SessionHandshake c (CollectingEntities es)) n (SessionActive c) n [(c, SubscribeStatesFrame)]"
| talked: "steady f \<Longrightarrow> effect (SessionActive c) n (SessionActive c) n [(c, f)]"

lemma mark_frame [simp]:
  "se_fsm (fst (mark_entities_unavailable s w)) = se_fsm s"
  "se_next_conn (fst (mark_entities_unavailable s w)) = se_next_conn s"
  "se_stopped (fst (mark_entities_unavailable s w)) = se_stopped s"
  "se_reconnect_attempts (fst (mark_entities_unavailable s w)) = se_reconnect_attempts s"
  "se_entity_refs (fst (mark_entities_unavailable s w)) = se_entity_refs s"
  "se_key_to_entity (fst (mark_entities_unavailable s w)) = se_key_to_entity s"
  "se_device (fst (mark_entities_unavailable s w)) = se_device s"
  by (simp_all add: mark_entities_unavailable_def)

lemma schedule_frame [simp]:
  "se_fsm (fst (schedule_reconnect s)) = SessionReconnecting"
  "se_next_conn (fst (schedule_reconnect s)) = se_next_conn s"
  "se_stopped (fst (schedule_reconnect s)) = se_stopped s"
  "se_entity_refs (fst (schedule_reconnect s)) = se_entity_refs s"
  "sent_frames (snd (schedule_reconnect s)) = []"
  by (simp_all add: schedule_reconnect_def backoff_status_def told_status_def)

lemma import_frame [simp]:
  "se_fsm (fst (import_entity env did slug m sw)) = se_fsm (fst sw)"
  "se_next_conn (fst (import_entity env did slug m sw)) = se_next_conn (fst sw)"
  "se_stopped (fst (import_entity env did slug m sw)) = se_stopped (fst sw)"
  by (simp_all add: import_entity_def map_entity_def Let_def split: option.splits prod.splits)

lemma import_all_frame [simp]:
  "se_fsm (fst (fold (import_entity env did slug) ms sw)) = se_fsm (fst sw)"
  "se_next_conn (fst (fold (import_entity env did slug) ms sw)) = se_next_conn (fst sw)"
  "se_stopped (fst (fold (import_entity env did slug) ms sw)) = se_stopped (fst sw)"
  by (induction ms arbitrary: sw) simp_all

lemma retire_frame [simp]:
  "se_fsm (fst (retire_missing current sw)) = se_fsm (fst sw)"
  "se_next_conn (fst (retire_missing current sw)) = se_next_conn (fst sw)"
  "se_stopped (fst (retire_missing current sw)) = se_stopped (fst sw)"
  by (simp_all add: retire_missing_def Let_def split: prod.splits)

lemma ensure_frame:
  "ensure_device env s w = Some (s', w') \<Longrightarrow>
     se_fsm s' = se_fsm s \<and> se_next_conn s' = se_next_conn s \<and> se_stopped s' = se_stopped s \<and>
     se_reconnect_attempts s' = se_reconnect_attempts s \<and> se_entity_refs s' = se_entity_refs s \<and>
     se_key_to_entity s' = se_key_to_entity s \<and> se_device s' = se_device s \<and> se_limits s' = se_limits s"
  by (auto simp: ensure_device_def split: if_splits prod.splits)

lemma finalize_frame:
  assumes "finalize_entities env es s w = (s', w', out)"
  shows "se_next_conn s' = se_next_conn s \<and> se_stopped s' = se_stopped s \<and> sent_frames out = []"
proof (cases "ensure_device env s w")
  case None
  then show ?thesis using assms by (simp add: finalize_entities_def Let_def)
next
  case (Some p)
  obtain s1 w1 where p: "ensure_device env s w = Some (s1, w1)" using Some by (cases p) simp
  then show ?thesis
    using assms ensure_frame [OF p] by (auto simp: finalize_entities_def Let_def prod.case_eq_if split: if_splits)
qed

lemma connect_effect:
  "effect (se_fsm s) (se_next_conn s) (se_fsm (fst (connect_and_send_hello env s)))
     (se_next_conn (fst (connect_and_send_hello env s))) (sent_frames (snd (connect_and_send_hello env s)))"
  by (simp add: connect_and_send_hello_def open_connection_def told_status_def Let_def prod.case_eq_if
      effect.intros split: option.splits sum.splits)

lemma lost_effect:
  "lost_connection s w = (s', w', out) \<Longrightarrow>
     se_fsm s' = SessionReconnecting \<and> se_next_conn s' = se_next_conn s \<and> se_stopped s' = se_stopped s \<and> sent_frames out = []"
  by (auto simp: lost_connection_def prod.case_eq_if)

lemma ingest_frame [simp]:
  "se_fsm (fst (ingest_state env t payload s w)) = se_fsm s"
  "se_next_conn (fst (ingest_state env t payload s w)) = se_next_conn s"
  "se_stopped (fst (ingest_state env t payload s w)) = se_stopped s"
  by (simp_all add: ingest_state_def split: option.splits)

lemma handshake_effect:
  assumes "handle_handshake env t payload c ph s w = (s', w', out)" and "se_fsm s = SessionHandshake c ph"
  shows "effect (se_fsm s) (se_next_conn s) (se_fsm s') (se_next_conn s') (sent_frames out)"
proof (cases ph)
  case AwaitHello
  then show ?thesis using assms by (auto simp: handle_handshake_def effect.intros split: if_splits)
next
  case AwaitDeviceInfo
  then show ?thesis using assms
    by (auto simp: handle_handshake_def device_info_response_def told_status_def Let_def prod.case_eq_if effect.intros
        split: if_splits option.splits)
next
  case (CollectingEntities es)
  show ?thesis
  proof (cases "t = LIST_ENTITIES_DONE")
    case True
    obtain s1 w1 o1 where f: "finalize_entities env es s w = (s1, w1, o1)" by (metis prod_cases3)
    have "se_fsm s' = SessionActive c" "se_next_conn s' = se_next_conn s" "sent_frames out = [(c, SubscribeStatesFrame)]"
      using assms(1) CollectingEntities True f finalize_frame [OF f]
      by (auto simp: handle_handshake_def list_done_def told_status_def)
    then show ?thesis using assms(2) CollectingEntities by (simp add: effect.activated)
  next
    case False
    then show ?thesis using assms CollectingEntities
      by (auto simp: handle_handshake_def effect.intros split: option.splits)
  qed
qed

lemma command_effect:
  "effect (se_fsm s) n (se_fsm s) n (sent_frames (relay_command_to_firmware eid st s))"
  "effect (se_fsm s) n (se_fsm s) n (sent_frames (send_command_to_firmware env eid st s))"
  by (auto simp: relay_command_to_firmware_def send_command_to_firmware_def steady_def effect.intros
      split: option.splits session_fsm.splits)

lemma inbound_effect:
  assumes "handle_inbound env t payload s w = (s', w', out)"
  shows "effect (se_fsm s) (se_next_conn s) (se_fsm s') (se_next_conn s') (sent_frames out)"
proof (cases "se_fsm s")
  case (SessionHandshake c ph)
  then show ?thesis
    using assms handshake_effect [of env t payload c ph "s\<lparr>se_last_activity := Some (le_now env)\<rparr>" w s' w' out]
    by (simp add: handle_inbound_def Let_def)
next
  case (SessionActive c)
  then show ?thesis using assms
    by (auto simp: handle_inbound_def handle_active_def steady_def Let_def prod.case_eq_if effect.intros split: if_splits)
qed (use assms in \<open>auto simp: handle_inbound_def effect.intros\<close>)

lemma session_effect:
  assumes "handle_session env msg s w = (s', w', out)"
  shows "effect (se_fsm s) (se_next_conn s) (se_fsm s') (se_next_conn s') (sent_frames out)"
proof (cases msg)
  case ConnectMsg
  then show ?thesis using assms connect_effect [of s env] by (auto simp: handle_session_def prod.case_eq_if)
next
  case ReconnectMsg
  then show ?thesis using assms connect_effect [of s env] by (auto simp: handle_session_def prod.case_eq_if)
next
  case (InboundFrameMsg t p)
  then show ?thesis using assms inbound_effect by (simp add: handle_session_def)
next
  case ReaderClosed
  then show ?thesis using assms lost_effect [of s w s' w' out] by (simp add: handle_session_def effect.lost)
next
  case InboundFrameError
  obtain s1 w1 o1 where l: "lost_connection s w = (s1, w1, o1)" by (metis prod_cases3)
  then show ?thesis using assms InboundFrameError lost_effect [OF l]
    by (auto simp: handle_session_def backoff_status_def told_status_def effect.lost)
next
  case (RelayCommand eid st)
  then show ?thesis using assms command_effect by (auto simp: handle_session_def)
next
  case (SendCommand eid st)
  then show ?thesis using assms command_effect by (auto simp: handle_session_def)
next
  case PingTick
  then show ?thesis using assms lost_effect [of s w s' w' out]
    by (auto simp: handle_session_def ping_tick_def steady_def effect.intros split: session_fsm.splits if_splits)
next
  case StopSession
  then show ?thesis using assms by (auto simp: handle_session_def prod.case_eq_if effect.ended)
qed

section \<open>Runs of a session\<close>

text \<open>A session takes messages until it stops, while the rest of the program changes the world; each
  \<open>ReconnectIn\<close> starts a timer that sends one \<open>ReconnectMsg\<close>. The third argument counts the
  timers that have not fired, the last one is what the session has sent out.\<close>

definition is_timer :: "session_out \<Rightarrow> bool" where
  "is_timer x = (case x of ReconnectIn _ \<Rightarrow> True | _ \<Rightarrow> False)"

definition timers :: "session_out list \<Rightarrow> nat" where
  "timers outs = length (filter is_timer outs)"

inductive link_run :: "device_session \<Rightarrow> 'w world \<Rightarrow> nat \<Rightarrow> session_out list \<Rightarrow> bool" where
  start: "link_run (new_session d cfg limits) w 0 []"
| message: "link_run s w pending outs \<Longrightarrow> (msg = ReconnectMsg \<Longrightarrow> 0 < pending) \<Longrightarrow>
    session_receive env msg s w = (s', w', new) \<Longrightarrow>
    link_run s' w' (pending - (if msg = ReconnectMsg then 1 else 0) + timers new) (outs @ new)"
| others: "link_run s w pending outs \<Longrightarrow> link_run s w' pending outs"

definition opening_frames :: "client_frame list" where
  "opening_frames = [HelloFrame, DeviceInfoFrame, ListEntitiesFrame, SubscribeStatesFrame]"

definition frames_on :: "nat \<Rightarrow> (nat \<times> client_frame) list \<Rightarrow> client_frame list" where
  "frames_on c fs = map snd (filter (\<lambda>(c', _). c' = c) fs)"

definition well_ordered :: "client_frame list \<Rightarrow> bool" where
  "well_ordered fs \<longleftrightarrow> (\<exists>n rest. fs = take n opening_frames @ rest \<and> list_all steady rest \<and> (rest \<noteq> [] \<longrightarrow> n = 4))"

fun phase_frames :: "handshake_phase \<Rightarrow> client_frame list" where
  "phase_frames AwaitHello = [HelloFrame]"
| "phase_frames AwaitDeviceInfo = [HelloFrame, DeviceInfoFrame]"
| "phase_frames (CollectingEntities _) = [HelloFrame, DeviceInfoFrame, ListEntitiesFrame]"

fun expects :: "session_fsm \<Rightarrow> nat \<Rightarrow> (nat \<times> client_frame) list \<Rightarrow> bool" where
  "expects (SessionHandshake c ph) n fs = (c < n \<and> frames_on c fs = phase_frames ph)"
| "expects (SessionActive c) n fs = (c < n \<and> (\<exists>rest. frames_on c fs = opening_frames @ rest \<and> list_all steady rest))"
| "expects _ n fs = True"

definition ordered_frames :: "session_fsm \<Rightarrow> nat \<Rightarrow> (nat \<times> client_frame) list \<Rightarrow> bool" where
  "ordered_frames f n fs \<longleftrightarrow> (\<forall>c. well_ordered (frames_on c fs)) \<and> (\<forall>c \<ge> n. frames_on c fs = []) \<and> expects f n fs"

lemma frames_on_append [simp]: "frames_on c (xs @ ys) = frames_on c xs @ frames_on c ys"
  by (simp add: frames_on_def)

lemma frames_on_single [simp]: "frames_on c [(c', f)] = (if c' = c then [f] else [])" "frames_on c [] = []"
  by (simp_all add: frames_on_def)

lemma well_ordered_prefixes [simp]:
  "well_ordered []" "well_ordered [HelloFrame]" "well_ordered [HelloFrame, DeviceInfoFrame]"
  "well_ordered [HelloFrame, DeviceInfoFrame, ListEntitiesFrame]"
proof -
  have "well_ordered (take n opening_frames)" for n unfolding well_ordered_def by (intro exI [of _ n] exI [of _ "[]"]) simp
  from this [of 0] this [of 1] this [of 2] this [of 3]
  show "well_ordered []" "well_ordered [HelloFrame]" "well_ordered [HelloFrame, DeviceInfoFrame]"
    "well_ordered [HelloFrame, DeviceInfoFrame, ListEntitiesFrame]"
    by (simp_all add: opening_frames_def numeral_2_eq_2 numeral_3_eq_3)
qed

lemma well_ordered_open [simp]: "list_all steady rest \<Longrightarrow> well_ordered (opening_frames @ rest)"
  unfolding well_ordered_def by (intro exI [of _ 4] exI [of _ rest]) (simp add: opening_frames_def)

lemma effect_ordered:
  "effect f n f' n' new \<Longrightarrow> ordered_frames f n fs \<Longrightarrow> ordered_frames f' n' (fs @ new)"
proof (induction rule: effect.induct)
  case (activated c es n)
  then have c: "frames_on c fs = [HelloFrame, DeviceInfoFrame, ListEntitiesFrame]" by (simp add: ordered_frames_def)
  have "well_ordered (opening_frames @ [])" by (rule well_ordered_open) simp
  then have "well_ordered (frames_on c' (fs @ [(c, SubscribeStatesFrame)]))" for c'
    using activated c by (auto simp: ordered_frames_def opening_frames_def)
  then show ?case using activated c by (auto simp: ordered_frames_def opening_frames_def)
next
  case (talked g c n)
  then obtain rest where rest: "frames_on c fs = opening_frames @ rest" "list_all steady rest" by (auto simp: ordered_frames_def)
  have "well_ordered (opening_frames @ rest @ [g])" by (rule well_ordered_open) (use rest talked in simp)
  then show ?case using talked rest by (auto simp: ordered_frames_def)
qed (auto simp: ordered_frames_def)

lemma receive_effect:
  assumes "session_receive env msg s w = (s', w', out)"
  shows "\<exists>f. effect (se_fsm s) (se_next_conn s) f (se_next_conn s') (sent_frames out) \<and> se_fsm s' \<in> {f, SessionStopped}"
proof (cases "se_stopped s")
  case True
  then show ?thesis using assms by (auto simp: session_receive_def intro: effect.quiet)
next
  case False
  obtain s1 w1 o1 where h: "handle_session env msg s w = (s1, w1, o1)" by (metis prod_cases3)
  show ?thesis using assms False h session_effect [OF h]
    by (auto simp: session_receive_def session_post_stop_def prod.case_eq_if split: if_splits)
qed

lemma run_ordered: "link_run s w pending outs \<Longrightarrow> ordered_frames (se_fsm s) (se_next_conn s) (sent_frames outs)"
proof (induction rule: link_run.induct)
  case (start d cfg limits w)
  show ?case by (simp add: ordered_frames_def new_session_def)
next
  case (message s w pending outs msg env s' w' new)
  obtain f where "effect (se_fsm s) (se_next_conn s) f (se_next_conn s') (sent_frames new)" "se_fsm s' \<in> {f, SessionStopped}"
    using receive_effect [OF message(3)] by blast
  then show ?case using effect_ordered [OF _ message(4)] by (auto simp: ordered_frames_def)
qed

text \<open>C13. On every connection a session opens in its life, whatever messages, answers of the network and
  changes of the world it meets, the frames it sends are \<open>Hello\<close>, the request of the device
  info, the request of the entities, the subscription, in this order and each once, and only
  then pings, pongs and commands.\<close>

theorem session_opens_in_order:
  assumes "link_run s w pending outs"
  shows "\<exists>n rest. frames_on c (sent_frames outs) = take n opening_frames @ rest \<and> list_all steady rest \<and> (rest \<noteq> [] \<longrightarrow> n = 4)"
  using run_ordered [OF assms] by (simp add: ordered_frames_def well_ordered_def)

section \<open>Reconnecting\<close>

definition soon :: "session_out \<Rightarrow> bool" where
  "soon x = (case x of ReconnectIn d \<Rightarrow> 1 \<le> d \<and> d \<le> 30 | _ \<Rightarrow> True)"

text \<open>What the handlers guarantee of timers: they are short, and a session that is left reconnecting
  has just started one or was waiting already.\<close>

definition timed :: "session_fsm \<Rightarrow> session_fsm \<Rightarrow> session_out list \<Rightarrow> bool" where
  "timed f f' out \<longleftrightarrow> list_all soon out \<and> (f' = SessionReconnecting \<longrightarrow> f = SessionReconnecting \<or> 0 < timers out)"

lemma schedule_timed [simp]: "list_all soon (snd (schedule_reconnect s))" "timers (snd (schedule_reconnect s)) = 1"
  using backoff_bounds [of "se_reconnect_attempts s"]
  by (simp_all add: schedule_reconnect_def backoff_status_def told_status_def soon_def timers_def is_timer_def)

lemma soon_simps [simp]:
  "soon (Sent c f)" "soon (ToldStatus i st n)" "soon (ToldIdentity d)" "soon (Answered r)" "soon StartedTicker" "soon (StartedReader c)"
  "soon (told_status s st n)" "soon (backoff_status s)"
  by (simp_all add: soon_def told_status_def backoff_status_def)

lemma timers_simps [simp]: "timers [] = 0" "timers (x # xs) = (if is_timer x then 1 else 0) + timers xs"
  by (simp_all add: timers_def)

lemma connect_timed:
  "list_all soon (snd (connect_and_send_hello env s)) \<and>
     (se_fsm (fst (connect_and_send_hello env s)) = SessionReconnecting \<longrightarrow> 0 < timers (snd (connect_and_send_hello env s)))"
  by (simp add: connect_and_send_hello_def open_connection_def Let_def prod.case_eq_if split: option.splits sum.splits)

lemma lost_timed: "lost_connection s w = (s', w', out) \<Longrightarrow> list_all soon out \<and> 0 < timers out"
  by (auto simp: lost_connection_def prod.case_eq_if)

lemma finalize_soon [simp]: "list_all soon (snd (snd (finalize_entities env es s w)))"
  by (auto simp: finalize_entities_def Let_def prod.case_eq_if split: option.splits if_splits)

lemma handshake_timed:
  assumes "handle_handshake env t payload c ph s w = (s', w', out)" and "se_fsm s = SessionHandshake c ph"
  shows "list_all soon out \<and> (se_fsm s' = SessionReconnecting \<longrightarrow> se_stopped s' \<or> 0 < timers out)"
proof (cases ph)
  case AwaitHello
  then show ?thesis using assms by (auto simp: handle_handshake_def split: if_splits)
next
  case AwaitDeviceInfo
  then show ?thesis using assms
    by (auto simp: handle_handshake_def device_info_response_def Let_def prod.case_eq_if split: if_splits option.splits)
next
  case (CollectingEntities es)
  then show ?thesis using assms
    by (auto simp: handle_handshake_def list_done_def prod.case_eq_if
        split: if_splits option.splits)
qed

lemma command_timed:
  "list_all soon (relay_command_to_firmware eid st s)" "list_all soon (send_command_to_firmware env eid st s)"
  by (simp_all add: relay_command_to_firmware_def send_command_to_firmware_def split: option.splits session_fsm.splits)

lemma inbound_timed:
  assumes "handle_inbound env t payload s w = (s', w', out)"
  shows "list_all soon out \<and>
    (se_fsm s' = SessionReconnecting \<longrightarrow> se_stopped s' \<or> 0 < timers out \<or> se_fsm s = SessionReconnecting)"
proof (cases "se_fsm s")
  case (SessionHandshake c ph)
  then show ?thesis
    using assms handshake_timed [of env t payload c ph "s\<lparr>se_last_activity := Some (le_now env)\<rparr>" w s' w' out]
    by (simp add: handle_inbound_def Let_def)
qed (use assms in \<open>auto simp: handle_inbound_def handle_active_def Let_def prod.case_eq_if split: if_splits\<close>)

lemma session_timed:
  assumes "handle_session env msg s w = (s', w', out)"
  shows "list_all soon out \<and>
    (se_fsm s' = SessionReconnecting \<longrightarrow> se_stopped s' \<or> 0 < timers out \<or> se_fsm s = SessionReconnecting \<and> msg \<noteq> ReconnectMsg)"
proof (cases msg)
  case (InboundFrameMsg t p)
  then show ?thesis using assms inbound_timed [of env t p s w s' w' out] by (simp add: handle_session_def)
next
  case InboundFrameError
  obtain s1 w1 o1 where l: "lost_connection s w = (s1, w1, o1)" by (metis prod_cases3)
  then show ?thesis using assms InboundFrameError lost_timed [OF l] by (auto simp: handle_session_def)
next
  case ReaderClosed
  then show ?thesis using assms lost_timed [of s w s' w' out] by (simp add: handle_session_def)
next
  case PingTick
  then show ?thesis using assms lost_timed [of s w s' w' out]
    by (auto simp: handle_session_def ping_tick_def split: session_fsm.splits if_splits)
qed (use assms connect_timed [of env s] command_timed in \<open>auto simp: handle_session_def prod.case_eq_if\<close>)

lemma receive_timed:
  assumes "session_receive env msg s w = (s', w', out)"
  shows "list_all soon out \<and>
    (se_fsm s' = SessionReconnecting \<longrightarrow> 0 < timers out \<or> se_fsm s = SessionReconnecting \<and> (msg \<noteq> ReconnectMsg \<or> se_stopped s))"
proof (cases "se_stopped s")
  case True
  then show ?thesis using assms by (auto simp: session_receive_def)
next
  case False
  obtain s1 w1 o1 where h: "handle_session env msg s w = (s1, w1, o1)" by (metis prod_cases3)
  show ?thesis using assms False h session_timed [OF h]
    by (auto simp: session_receive_def session_post_stop_def prod.case_eq_if split: if_splits)
qed

lemma stopped_fsm: "link_run s w pending outs \<Longrightarrow> se_stopped s \<Longrightarrow> se_fsm s = SessionStopped"
proof (induction rule: link_run.induct)
  case (message s w pending outs msg env s' w' new)
  then show ?case
    by (auto simp: session_receive_def session_post_stop_def prod.case_eq_if split: if_splits prod.splits)
qed (simp_all add: new_session_def)

text \<open>A session never gets stuck after losing its device: whenever it is reconnecting, a timer that
  will make it try again is running, and every timer a session starts fires within thirty
  seconds.\<close>

theorem reconnect_always_pending:
  assumes "link_run s w pending outs"
  shows "(se_fsm s = SessionReconnecting \<longrightarrow> 0 < pending) \<and> (\<forall>d. ReconnectIn d \<in> set outs \<longrightarrow> 1 \<le> d \<and> d \<le> 30)"
proof -
  have "(se_fsm s = SessionReconnecting \<longrightarrow> 0 < pending) \<and> list_all soon outs"
    using assms
  proof (induction rule: link_run.induct)
    case (start d cfg limits w)
    show ?case by (simp add: new_session_def)
  next
    case (message s w pending outs msg env s' w' new)
    then show ?case using receive_timed [OF message(3)] stopped_fsm [OF message(1)] by auto
  qed
  then show ?thesis by (auto simp: list_all_iff soon_def)
qed

section \<open>Example\<close>

definition lamp_device :: discovered_device where
  "lamp_device = \<lparr>dd_device_id = ''esphome-host:lamp'', dd_service_fullname = ''lamp._esphomelib._tcp.local.'',
     dd_hostname = ''lamp'', dd_ip = ''10.0.0.7'', dd_port = 6053, dd_device_name = ''lamp'', dd_version = ''2025.1'',
     dd_friendly_name = None, dd_first_seen_at = 0, dd_last_seen_at = 0, dd_is_stale = False\<rparr>"

definition demo_link :: "(entity_state option \<times> nat) link_env" where
  "demo_link = \<lparr>le_unicode = ascii_unicode, le_decoders = demo_link_decoders, le_ops = counted_watch,
     le_base64 = (\<lambda>_. Inl ''no base64''), le_now = 0, le_tcp = True, le_noise = False, le_device_manager = True, le_write = Inr ()\<rparr>"

definition lamp_session :: device_session where
  "lamp_session = new_session lamp_device \<lparr>noise_psk = None\<rparr> default_limits"

lemmas lamp_session_simps = lamp_session_def new_session_def lamp_device_def demo_link_def

lemma lamp_connects:
  "link_run (lamp_session\<lparr>se_fsm := SessionHandshake 0 AwaitHello, se_next_conn := 1\<rparr>) lamp_world 0
     [ToldStatus ''esphome-host:lamp'' StConnecting 0, StartedReader 0, Sent 0 HelloFrame,
      ToldStatus ''esphome-host:lamp'' StHandshaking 0]"
proof -
  have "link_run lamp_session lamp_world 0 []" unfolding lamp_session_def by (rule link_run.start)
  from link_run.message [OF this, of ConnectMsg demo_link] show ?thesis
    by (simp add: session_receive_def handle_session_def connect_and_send_hello_def open_connection_def uses_noise_def
        told_status_def is_timer_def lamp_session_simps)
qed

theorem session_opens_in_order_witness:
  "\<exists>n rest. [HelloFrame] = take n opening_frames @ rest \<and> list_all steady rest \<and> (rest \<noteq> [] \<longrightarrow> n = 4)"
  using session_opens_in_order [OF lamp_connects, of 0] by simp

theorem reconnect_always_pending_witness:
  "\<exists>s w outs. link_run s (w :: (entity_state option \<times> nat) world) 1 outs \<and> se_fsm s = SessionReconnecting \<and> outs \<noteq> []"
proof -
  let ?s = "fst (session_receive (demo_link\<lparr>le_tcp := False\<rparr>) ConnectMsg lamp_session lamp_world)"
  let ?w = "fst (snd (session_receive (demo_link\<lparr>le_tcp := False\<rparr>) ConnectMsg lamp_session lamp_world))"
  let ?o = "snd (snd (session_receive (demo_link\<lparr>le_tcp := False\<rparr>) ConnectMsg lamp_session lamp_world))"
  have "link_run lamp_session lamp_world 0 []" unfolding lamp_session_def by (rule link_run.start)
  from link_run.message [OF this, of ConnectMsg "demo_link\<lparr>le_tcp := False\<rparr>" ?s ?w ?o]
  have run: "link_run ?s ?w (timers ?o) ?o" by simp
  have r: "se_fsm ?s = SessionReconnecting" "timers ?o = 1" "?o \<noteq> []"
    by (simp_all add: session_receive_def handle_session_def connect_and_send_hello_def schedule_reconnect_def
        is_timer_def told_status_def backoff_status_def lamp_session_simps)
  have "0 < timers ?o" using reconnect_always_pending [OF run] r(1) by simp
  then show ?thesis using run r by (metis)
qed

section \<open>Too many entities\<close>

text \<open>A device that lists more entities than a device may have is not backed off from: no entity is
  imported and a reconnect is scheduled, but the session goes on to subscribe, tells the
  manager that it is active and forgets its failed attempts, so the next try comes after the
  shortest delay again.\<close>

theorem oversized_device_is_active:
  assumes "se_fsm s = SessionHandshake c (CollectingEntities es)" and "\<not> se_stopped s"
    and "MAX_ENTITIES_PER_DEVICE < length es" and "le_device_manager env"
    and "session_receive env (InboundFrameMsg LIST_ENTITIES_DONE payload) s w = (s', w', out)"
  shows "se_fsm s' = SessionActive c \<and> se_reconnect_attempts s' = 0 \<and> se_entity_refs s' = se_entity_refs s
    \<and> out = [backoff_status s, ReconnectIn (backoff_delay (se_reconnect_attempts s)), Sent c SubscribeStatesFrame,
             told_status s StActive (length (se_entity_refs s)), StartedTicker]"
proof -
  let ?s = "s\<lparr>se_last_activity := Some (le_now env)\<rparr>"
  have "ensure_device env ?s w \<noteq> None" using assms(4) by (simp add: ensure_device_def prod.case_eq_if)
  then obtain s1 w1 where e: "ensure_device env ?s w = Some (s1, w1)" by (cases "ensure_device env ?s w") auto
  have big: "too_many slug es s1 w1" "es \<noteq> []" for slug using assms(3) by (auto simp: too_many_def)
  let ?s2 = "fst (mark_entities_unavailable s1 w1)"
  have "finalize_entities env es ?s w =
      (fst (schedule_reconnect ?s2), snd (mark_entities_unavailable s1 w1), snd (schedule_reconnect ?s2))"
    using e big by (simp add: finalize_entities_def Let_def prod.case_eq_if)
  then have "list_done env c es ?s w = ((fst (schedule_reconnect ?s2))\<lparr>se_reconnect_attempts := 0,
        se_last_activity := Some (le_now env), se_fsm := SessionActive c\<rparr>, snd (mark_entities_unavailable s1 w1),
      snd (schedule_reconnect ?s2) @
        [Sent c SubscribeStatesFrame, told_status ?s2 StActive (length (se_entity_refs s1)), StartedTicker])"
    using ensure_frame [OF e] by (simp add: list_done_def told_status_def schedule_reconnect_def)
  moreover have "session_receive env (InboundFrameMsg LIST_ENTITIES_DONE payload) s w = list_done env c es ?s w"
    using assms(1,2) ensure_frame [OF e] calculation
    by (simp add: session_receive_def handle_session_def handle_inbound_def handle_handshake_def Let_def)
  ultimately show ?thesis
    using assms(5) ensure_frame [OF e]
    by (auto simp: schedule_reconnect_def backoff_status_def told_status_def)
qed

definition crowded_session :: device_session where
  "crowded_session = lamp_session\<lparr>se_fsm := SessionHandshake 0 (CollectingEntities
     (map (\<lambda>n. listed ''switch'' \<lparr>lh_object_id = show_nat n, lh_key = of_nat n, lh_name = [], lh_unique_id = []\<rparr> (Switch False))
       [0..<513])), se_next_conn := 1, se_reconnect_attempts := 4\<rparr>"

theorem oversized_device_is_active_witness:
  "se_fsm (fst (session_receive demo_link (InboundFrameMsg LIST_ENTITIES_DONE []) crowded_session lamp_world)) = SessionActive 0
   \<and> se_reconnect_attempts (fst (session_receive demo_link (InboundFrameMsg LIST_ENTITIES_DONE []) crowded_session lamp_world)) = 0"
proof -
  obtain s' w' out where r: "session_receive demo_link (InboundFrameMsg LIST_ENTITIES_DONE []) crowded_session lamp_world = (s', w', out)"
    by (metis prod_cases3)
  show ?thesis
    using oversized_device_is_active [OF _ _ _ _ r, of 0] r
    by (simp add: crowded_session_def lamp_session_simps MAX_ENTITIES_PER_DEVICE_def)
qed

section \<open>The echo of a pushed state\<close>

text \<open>When a device pushes two different states of an entity before the entity has handled the
  first, the entity's change to the first state is taken for a local command: the session sends
  the outdated state back to the device.\<close>

theorem pushed_state_echoed:
  assumes "se_fsm s = SessionActive c" and "\<not> se_stopped s"
    and "map_of (se_key_to_entity s) key = Some eid" and "map_of (se_entity_to_key s) eid = Some key"
    and "map_of (se_entity_refs s) eid = Some r"
    and "map_of (w_entities w) r = Some ea" and "ea_mailbox ea = []" and "actor_id_of ea = eid"
    and "parse_state_frame (le_decoders env) t p = Some (Some i)" and "in_key i = key" and "is_state_frame t"
    and "parse_state_frame (le_decoders env) t q = Some (Some j)" and "in_key j = key"
    and "\<not> state_eq (in_state j) (in_state i)" and "in_state i \<noteq> Unavailable"
    and "state_to_command key (in_state i) = Some (ct, cmd)"
    and "session_receive env (InboundFrameMsg t p) s w = (s1, w1, o1)"
    and "session_receive env (InboundFrameMsg t q) s1 w1 = (s2, w2, o2)"
    and "deliver_remote (le_ops env) now r s2 w2 = (w3, msgs)"
  shows "msgs = [RelayCommand eid (in_state i)] \<and>
    session_receive env (RelayCommand eid (in_state i)) s2 w3 = (s2, w3, [Sent c (CommandFrame ct cmd)])"
proof -
  let ?act = "Some (le_now env)"
  have s1: "s1 = s\<lparr>se_last_activity := ?act, se_firmware_states := reg_insert eid (in_state i) (se_firmware_states s)\<rparr>"
    and w1: "w1 = snd (send_entity r (SetState (in_state i)) w)"
    using assms(1-3,5,9-11,17)
    by (simp_all add: session_receive_def handle_session_def handle_inbound_def handle_active_def ingest_state_def)
  have s2: "s2 = s1\<lparr>se_last_activity := ?act, se_firmware_states := reg_insert eid (in_state j) (se_firmware_states s1)\<rparr>"
    and w2: "w2 = snd (send_entity r (SetState (in_state j)) w1)"
    using assms(1-3,5,11-13,18) s1
    by (simp_all add: session_receive_def handle_session_def handle_inbound_def handle_active_def ingest_state_def)
  have box: "map_of (w_entities w2) r = Some (ea\<lparr>ea_mailbox := [SetState (in_state i), SetState (in_state j)]\<rparr>)"
    using w1 w2 assms(6,7) by (simp add: send_entity_def)
  have "msgs = [RelayCommand eid (in_state i)]"
    using assms(8,14,15,19) box s2
    by (auto simp: deliver_remote_def deliver_def entity_handle_def set_state_internal_def remote_update_def actor_id_of_def)
  moreover have "session_receive env (RelayCommand eid (in_state i)) s2 w3 = (s2, w3, [Sent c (CommandFrame ct cmd)])"
    using assms(1,2,4,16) s1 s2
    by (simp add: session_receive_def handle_session_def relay_command_to_firmware_def)
  ultimately show ?thesis by simp
qed

definition active_lamp :: device_session where
  "active_lamp = lamp_session\<lparr>se_fsm := SessionActive 0, se_next_conn := 1, se_key_to_entity := [(7, ''switch.lamp'')],
     se_entity_to_key := [(''switch.lamp'', 7)], se_entity_refs := [(''switch.lamp'', 1)]\<rparr>"

theorem pushed_state_echoed_witness:
  "let (s1, w1, o1) = session_receive demo_link (InboundFrameMsg SWITCH_STATE [7, 1]) active_lamp lamp_world;
       (s2, w2, o2) = session_receive demo_link (InboundFrameMsg SWITCH_STATE [7, 0]) s1 w1
   in snd (deliver_remote counted_watch 0 1 s2 w2) = [RelayCommand ''switch.lamp'' (Switch True)]"
proof -
  obtain s1 w1 o1 where r1: "session_receive demo_link (InboundFrameMsg SWITCH_STATE [7, 1]) active_lamp lamp_world = (s1, w1, o1)"
    by (metis prod_cases3)
  obtain s2 w2 o2 where r2: "session_receive demo_link (InboundFrameMsg SWITCH_STATE [7, 0]) s1 w1 = (s2, w2, o2)"
    by (metis prod_cases3)
  obtain w3 msgs where d: "deliver_remote (le_ops demo_link) 0 1 s2 w2 = (w3, msgs)" by force
  have frame: "\<exists>i. parse_state_frame (le_decoders demo_link) SWITCH_STATE [7, b] = Some (Some i) \<and> in_key i = 7 \<and> in_state i = Switch (b \<noteq> 0)" for b
    by (cases "resolve_wire_type ''switch''")
      (auto simp: demo_link_def demo_link_decoders_def parse_state_frame_def wire_simps pushed_simps)
  obtain i where i: "parse_state_frame (le_decoders demo_link) SWITCH_STATE [7, 1] = Some (Some i)" "in_key i = 7" "in_state i = Switch True"
    using frame [of 1] by auto
  obtain j where j: "parse_state_frame (le_decoders demo_link) SWITCH_STATE [7, 0] = Some (Some j)" "in_key j = 7" "in_state j = Switch False"
    using frame [of 0] by auto
  have "msgs = [RelayCommand ''switch.lamp'' (in_state i)]"
    using pushed_state_echoed [of active_lamp 0 7 "''switch.lamp''" 1 lamp_world _ demo_link SWITCH_STATE "[7, 1]" i
        "[7, 0]" j SWITCH_COMMAND "SwitchCommand \<lparr>sw_key = 7, sw_state = True\<rparr>", OF _ _ _ _ _ lamp_actor _ _
        i(1) i(2) _ j(1) j(2) _ _ _ r1 r2 d]
    by (simp add: active_lamp_def lamp_session_simps actor_id_of_def lamp_def is_state_frame_def i j state_eq_def
        state_to_command_def del: One_nat_def)
  then show ?thesis using r1 r2 d i(3) by (simp add: demo_link_def)
qed

end
