(* ===== verification/LinkManager.thy ===== *)
theory LinkManager
  imports LinkSession
begin

text \<open>
  The manager of the device link (\<open>manager.rs\<close>): it keeps what mDNS discovers, spawns a session
  for every discovered device, collects the identities and states the sessions report and
  answers queries. Sessions are numbers; \<open>alive\<close> tells whether a session still takes
  messages, \<open>now\<close> is the wall clock.

  The lemmas show the bounds of the tables and that the two maps between the provisional
  and the canonical identities of devices stay inverse to each other, and what the check
  for duplicate devices does to a session that connects a second time.
\<close>

section \<open>State\<close>

record link_status =
  ls_device_id :: device_id
  ls_name :: string
  ls_hostname :: string
  ls_ip :: string
  ls_port :: u16
  ls_version :: string
  ls_status :: session_status
  ls_entity_count :: nat
  ls_mac_address :: "string option"
  ls_model :: "string option"
  ls_sw_version :: "string option"
  ls_friendly_name :: "string option"
  ls_auth_mode :: "string option"
  ls_last_error :: "string option"

record resource_usage =
  us_discovered_count :: nat
  us_discovered_cap :: nat
  us_active_sessions :: nat
  us_session_cap :: nat

record link_manager =
  lm_discovered :: "(device_id \<times> discovered_device) list"
  lm_canonical :: "(device_id \<times> connected_device) list"
  lm_provisional_to_canonical :: "(device_id \<times> device_id) list"
  lm_canonical_to_provisional :: "(device_id \<times> device_id) list"
  lm_restored :: "(device_id \<times> connected_device) list"
  lm_sessions :: "(device_id \<times> actor_ref) list"
  lm_limits :: device_link_limits
  lm_security_configs :: "(device_id \<times> device_security_config) list"
  lm_next :: actor_ref
  lm_stopped :: bool

datatype manager_msg =
    ListDiscovered
  | ListConnected
  | GetStatus device_id
  | GetResourceUsage
  | SetDeviceSecurityConfig device_id device_security_config
  | SeedRestoredDevice connected_device
  | DeviceDiscovered discovered_device
  | DeviceRemoved device_id
  | SessionIdentityResolved session_identity
  | SessionStatusChanged device_id session_status nat
  | CheckStaleness
  | DispatchCommand device_id entity_id entity_state
  | StopLinkManager

datatype manager_out =
    DiscoveredList "discovered_device list"
  | ConnectedList "connected_device list"
  | StatusReply "link_status option"
  | UsageReply resource_usage
  | SpawnedSession actor_ref discovered_device device_security_config
  | SentSession actor_ref session_msg
  | DispatchReply "link_error + unit"

definition MAX_DISCOVERED :: nat where "MAX_DISCOVERED = 256"
definition MAX_ACTIVE_SESSIONS :: nat where "MAX_ACTIVE_SESSIONS = 128"
definition STALE_AFTER :: nat where "STALE_AFTER = 90 * 1000000000"
definition STALE_EVICTION :: nat where "STALE_EVICTION = 600 * 1000000000"

definition new_manager :: "device_link_limits \<Rightarrow> link_manager" where
  "new_manager limits =
     \<lparr>lm_discovered = [], lm_canonical = [], lm_provisional_to_canonical = [], lm_canonical_to_provisional = [],
      lm_restored = [], lm_sessions = [], lm_limits = limits, lm_security_configs = [], lm_next = 0, lm_stopped = False\<rparr>"

section \<open>Operations\<close>

definition session_cap :: "link_manager \<Rightarrow> nat" where
  "session_cap m = min (max_devices (lm_limits m)) MAX_ACTIVE_SESSIONS"

definition security_config_for :: "device_id \<Rightarrow> link_manager \<Rightarrow> device_security_config" where
  "security_config_for p m =
     (case map_of (lm_security_configs m) p of Some cfg \<Rightarrow> cfg | None \<Rightarrow> \<lparr>noise_psk = None\<rparr>)"

definition spawn_session :: "discovered_device \<Rightarrow> link_manager \<Rightarrow> link_manager \<times> manager_out list" where
  "spawn_session d m =
     (if map_of (lm_sessions m) (dd_device_id d) \<noteq> None then (m, [])
      else if max_connections_per_device (lm_limits m) = 0 then (m, [])
      else if session_cap m = 0 then (m, [])
      else if length (lm_sessions m) \<ge> session_cap m then (m, [])
      else (m\<lparr>lm_sessions := reg_insert (dd_device_id d) (lm_next m) (lm_sessions m), lm_next := Suc (lm_next m)\<rparr>,
            [SpawnedSession (lm_next m) d (security_config_for (dd_device_id d) m)]))"

definition status_from_connected :: "connected_device \<Rightarrow> link_status" where
  "status_from_connected cd =
     \<lparr>ls_device_id = cd_device_id cd, ls_name = cd_name cd, ls_hostname = dd_hostname (cd_discovered cd),
      ls_ip = dd_ip (cd_discovered cd), ls_port = dd_port (cd_discovered cd), ls_version = dd_version (cd_discovered cd),
      ls_status = cd_status cd, ls_entity_count = cd_entity_count cd, ls_mac_address = cd_mac_address cd,
      ls_model = cd_model cd, ls_sw_version = cd_sw_version cd, ls_friendly_name = cd_friendly_name cd,
      ls_auth_mode = cd_auth_mode cd, ls_last_error = cd_last_error cd\<rparr>"

definition status_from_discovered :: "discovered_device \<Rightarrow> link_status" where
  "status_from_discovered dd =
     \<lparr>ls_device_id = dd_device_id dd, ls_name = dd_device_name dd, ls_hostname = dd_hostname dd, ls_ip = dd_ip dd,
      ls_port = dd_port dd, ls_version = dd_version dd, ls_status = StDiscovered, ls_entity_count = 0,
      ls_mac_address = None, ls_model = None, ls_sw_version = None, ls_friendly_name = dd_friendly_name dd,
      ls_auth_mode = None, ls_last_error = None\<rparr>"

definition list_connected :: "link_manager \<Rightarrow> connected_device list" where
  "list_connected m =
     map snd (lm_canonical m) @ map snd (filter (\<lambda>(i, _). map_of (lm_canonical m) i = None) (lm_restored m))"

definition get_status :: "device_id \<Rightarrow> link_manager \<Rightarrow> link_status option" where
  "get_status i m =
     (case map_of (lm_canonical m) i of
        Some cd \<Rightarrow> Some (status_from_connected cd)
      | None \<Rightarrow>
          (case Option.bind (map_of (lm_provisional_to_canonical m) i) (map_of (lm_canonical m)) of
             Some cd \<Rightarrow> Some (status_from_connected cd)
           | None \<Rightarrow>
               (case map_of (lm_discovered m) i of
                  Some dd \<Rightarrow> Some (status_from_discovered dd)
                | None \<Rightarrow>
                    (case map_of (lm_restored m) i of
                       Some cd \<Rightarrow> Some (status_from_connected cd)
                     | None \<Rightarrow> map_option status_from_connected
                         (find (\<lambda>cd. dd_device_id (cd_discovered cd) = i) (map snd (lm_restored m)))))))"

definition usage :: "link_manager \<Rightarrow> resource_usage" where
  "usage m = \<lparr>us_discovered_count = length (lm_discovered m), us_discovered_cap = MAX_DISCOVERED,
     us_active_sessions = length (lm_sessions m), us_session_cap = session_cap m\<rparr>"

definition device_discovered :: "nat \<Rightarrow> discovered_device \<Rightarrow> link_manager \<Rightarrow> link_manager \<times> manager_out list" where
  "device_discovered now d m =
     (case map_of (lm_discovered m) (dd_device_id d) of
        Some existing \<Rightarrow>
          (m\<lparr>lm_discovered := reg_insert (dd_device_id d) (existing\<lparr>dd_last_seen_at := now, dd_is_stale := False\<rparr>) (lm_discovered m)\<rparr>, [])
      | None \<Rightarrow>
          if length (lm_discovered m) \<ge> MAX_DISCOVERED then (m, [])
          else (case spawn_session d m of
              (m', out) \<Rightarrow> (m'\<lparr>lm_discovered := reg_insert (dd_device_id d) d (lm_discovered m')\<rparr>, out)))"

definition stop_of :: "device_id \<Rightarrow> link_manager \<Rightarrow> manager_out list" where
  "stop_of p m = (case map_of (lm_sessions m) p of Some r \<Rightarrow> [SentSession r StopSession] | None \<Rightarrow> [])"

definition session_is_active :: "device_id \<Rightarrow> link_manager \<Rightarrow> bool" where
  "session_is_active p m \<longleftrightarrow>
     (case Option.bind (map_of (lm_provisional_to_canonical m) p) (map_of (lm_canonical m)) of
        Some cd \<Rightarrow> cd_status cd = StActive
      | None \<Rightarrow> False)"

definition mark_stale :: "discovered_device \<Rightarrow> discovered_device" where
  "mark_stale d = d\<lparr>dd_is_stale := True\<rparr>"

definition device_removed :: "device_id \<Rightarrow> link_manager \<Rightarrow> link_manager \<times> manager_out list" where
  "device_removed p m =
     (if session_is_active p m then
        ((case map_of (lm_discovered m) p of
            Some d \<Rightarrow> m\<lparr>lm_discovered := reg_insert p (mark_stale d) (lm_discovered m)\<rparr>
          | None \<Rightarrow> m), [])
      else
        (let m1 = m\<lparr>lm_discovered := reg_remove p (lm_discovered m)\<rparr>;
             m2 = (case map_of (lm_provisional_to_canonical m1) p of
                     None \<Rightarrow> m1
                   | Some c \<Rightarrow> m1\<lparr>lm_provisional_to_canonical := reg_remove p (lm_provisional_to_canonical m1),
                                 lm_canonical_to_provisional := reg_remove c (lm_canonical_to_provisional m1),
                                 lm_canonical := reg_remove c (lm_canonical m1)\<rparr>)
         in (m2\<lparr>lm_sessions := reg_remove p (lm_sessions m2)\<rparr>, stop_of p m2)))"

definition auth_mode_for :: "device_id \<Rightarrow> link_manager \<Rightarrow> string" where
  "auth_mode_for p m =
     (case map_of (lm_security_configs m) p of
        Some cfg \<Rightarrow> if noise_psk cfg \<noteq> None then ''noise'' else ''cleartext''
      | None \<Rightarrow> ''cleartext'')"

definition identity_resolved :: "session_identity \<Rightarrow> link_manager \<Rightarrow> link_manager \<times> manager_out list" where
  "identity_resolved ident m =
     (let p = id_provisional ident; c = id_canonical ident;
          m1 = m\<lparr>lm_restored := reg_remove c (lm_restored m)\<rparr>
      in if map_of (lm_canonical m1) c \<noteq> None then (m1, stop_of p m1)
         else (case map_of (lm_discovered m1) p of
             None \<Rightarrow> (m1, [])
           | Some d \<Rightarrow>
               (m1\<lparr>lm_canonical := reg_insert c
                    \<lparr>cd_device_id = c, cd_discovered = d, cd_name = id_name ident, cd_friendly_name = id_friendly_name ident,
                     cd_mac_address = id_mac_address ident, cd_model = id_model ident, cd_sw_version = id_sw_version ident,
                     cd_status = StHandshaking, cd_entity_count = 0, cd_auth_mode = Some (auth_mode_for p m1), cd_last_error = None\<rparr>
                    (lm_canonical m1),
                   lm_provisional_to_canonical := reg_insert p c (lm_provisional_to_canonical m1),
                   lm_canonical_to_provisional := reg_insert c p (lm_canonical_to_provisional m1)\<rparr>, [])))"

definition status_changed :: "device_id \<Rightarrow> session_status \<Rightarrow> nat \<Rightarrow> link_manager \<Rightarrow> link_manager" where
  "status_changed p st n m =
     (let c = (case map_of (lm_provisional_to_canonical m) p of Some c \<Rightarrow> c | None \<Rightarrow> p)
      in case map_of (lm_canonical m) c of
           None \<Rightarrow> m
         | Some cd \<Rightarrow> m\<lparr>lm_canonical := reg_insert c (cd\<lparr>cd_status := st, cd_entity_count := n\<rparr>) (lm_canonical m)\<rparr>)"

text \<open>\<open>elapsed().unwrap_or(Duration::MAX)\<close>: a time that lies ahead counts as long ago.\<close>

definition seen_ago :: "nat \<Rightarrow> nat \<Rightarrow> discovered_device \<Rightarrow> bool" where
  "seen_ago now limit d \<longleftrightarrow> now < dd_last_seen_at d \<or> limit \<le> now - dd_last_seen_at d"

definition evicted :: "nat \<Rightarrow> link_manager \<Rightarrow> device_id \<times> discovered_device \<Rightarrow> bool" where
  "evicted now m e \<longleftrightarrow>
     (case e of (_, d) \<Rightarrow> dd_is_stale d \<and> seen_ago now STALE_EVICTION d \<and>
        map_of (lm_provisional_to_canonical m) (dd_device_id d) = None)"

definition check_staleness :: "nat \<Rightarrow> link_manager \<Rightarrow> link_manager \<times> manager_out list" where
  "check_staleness now m =
     (let m1 = m\<lparr>lm_discovered := map (\<lambda>(i, d). (i, if seen_ago now STALE_AFTER d then mark_stale d else d)) (lm_discovered m)\<rparr>;
          gone = map fst (filter (evicted now m1) (lm_discovered m1))
      in (m1\<lparr>lm_discovered := fold reg_remove gone (lm_discovered m1), lm_sessions := fold reg_remove gone (lm_sessions m1)\<rparr>,
          concat (map (\<lambda>p. stop_of p m1) gone)))"

definition dispatch_command ::
    "(actor_ref \<Rightarrow> bool) \<Rightarrow> device_id \<Rightarrow> entity_id \<Rightarrow> entity_state \<Rightarrow> link_manager \<Rightarrow> manager_out list" where
  "dispatch_command alive i eid st m =
     (let p = (case map_of (lm_canonical_to_provisional m) i of Some p \<Rightarrow> p | None \<Rightarrow> i)
      in case map_of (lm_sessions m) p of
           None \<Rightarrow> [DispatchReply (Inl SessionNotActive)]
         | Some r \<Rightarrow> if alive r then [SentSession r (SendCommand eid st)] else [DispatchReply (Inl SessionNotActive)])"

definition stop_link_manager :: "link_manager \<Rightarrow> link_manager \<times> manager_out list" where
  "stop_link_manager m =
     (m\<lparr>lm_sessions := [], lm_canonical := [], lm_restored := [], lm_provisional_to_canonical := [],
        lm_canonical_to_provisional := [], lm_stopped := True\<rparr>,
      map (\<lambda>(_, r). SentSession r StopSession) (lm_sessions m))"

definition handle_manager ::
    "(actor_ref \<Rightarrow> bool) \<Rightarrow> nat \<Rightarrow> manager_msg \<Rightarrow> link_manager \<Rightarrow> link_manager \<times> manager_out list" where
  "handle_manager alive now msg m =
     (case msg of
        ListDiscovered \<Rightarrow> (m, [DiscoveredList (map snd (lm_discovered m))])
      | ListConnected \<Rightarrow> (m, [ConnectedList (list_connected m)])
      | GetStatus i \<Rightarrow> (m, [StatusReply (get_status i m)])
      | GetResourceUsage \<Rightarrow> (m, [UsageReply (usage m)])
      | SetDeviceSecurityConfig i cfg \<Rightarrow> (m\<lparr>lm_security_configs := reg_insert i cfg (lm_security_configs m)\<rparr>, [])
      | SeedRestoredDevice cd \<Rightarrow> (m\<lparr>lm_restored := reg_insert (cd_device_id cd) cd (lm_restored m)\<rparr>, [])
      | DeviceDiscovered d \<Rightarrow> device_discovered now d m
      | DeviceRemoved p \<Rightarrow> device_removed p m
      | SessionIdentityResolved ident \<Rightarrow> identity_resolved ident m
      | SessionStatusChanged p st n \<Rightarrow> (status_changed p st n m, [])
      | CheckStaleness \<Rightarrow> check_staleness now m
      | DispatchCommand i eid st \<Rightarrow> (m, dispatch_command alive i eid st m)
      | StopLinkManager \<Rightarrow> stop_link_manager m)"

text \<open>What a session tells, as a message to the manager.\<close>

fun told :: "session_out \<Rightarrow> manager_msg list" where
  "told (ToldStatus p st n) = [SessionStatusChanged p st n]"
| "told (ToldIdentity ident) = [SessionIdentityResolved ident]"
| "told _ = []"

section \<open>Bounds and identities\<close>

definition bounded :: "link_manager \<Rightarrow> bool" where
  "bounded m \<longleftrightarrow> length (lm_discovered m) \<le> MAX_DISCOVERED \<and> length (lm_sessions m) \<le> session_cap m"

text \<open>Every provisional identity is the one under which its canonical identity was resolved, and the
  canonical identities are those of the connected devices.\<close>

definition linked_ids :: "(device_id \<rightharpoonup> device_id) \<Rightarrow> (device_id \<rightharpoonup> device_id) \<Rightarrow> device_id set \<Rightarrow> bool" where
  "linked_ids p2c c2p connected \<longleftrightarrow> (\<forall>p c. p2c p = Some c \<longrightarrow> c2p c = Some p) \<and> dom c2p = connected"

definition identities_ok :: "link_manager \<Rightarrow> bool" where
  "identities_ok m \<longleftrightarrow>
     linked_ids (map_of (lm_provisional_to_canonical m)) (map_of (lm_canonical_to_provisional m)) (dom (map_of (lm_canonical m)))"

lemma linked_insert:
  "linked_ids p2c c2p connected \<Longrightarrow> c \<notin> connected \<Longrightarrow> linked_ids (p2c(p \<mapsto> c)) (c2p(c \<mapsto> p)) (insert c connected)"
  by (auto simp: linked_ids_def dom_def)

lemma linked_remove:
  "linked_ids p2c c2p connected \<Longrightarrow> p2c p = Some c \<Longrightarrow> linked_ids (p2c(p := None)) (c2p(c := None)) (connected - {c})"
  unfolding linked_ids_def by (auto split: if_splits) (metis option.inject)

lemma linked_connected: "linked_ids p2c c2p connected \<Longrightarrow> p2c p = Some c \<Longrightarrow> c \<in> connected"
  by (auto simp: linked_ids_def dom_def)

lemma spawn_bounded:
  "length (lm_sessions m) \<le> session_cap m \<Longrightarrow>
     length (lm_sessions (fst (spawn_session d m))) \<le> session_cap m \<and>
     lm_discovered (fst (spawn_session d m)) = lm_discovered m \<and> lm_limits (fst (spawn_session d m)) = lm_limits m \<and>
     lm_canonical (fst (spawn_session d m)) = lm_canonical m \<and>
     lm_provisional_to_canonical (fst (spawn_session d m)) = lm_provisional_to_canonical m \<and>
     lm_canonical_to_provisional (fst (spawn_session d m)) = lm_canonical_to_provisional m"
  by (auto simp: spawn_session_def length_reg_insert)

lemma session_cap_update [simp]:
  "session_cap (lm_discovered_update a m) = session_cap m"
  "session_cap (lm_canonical_update b m) = session_cap m"
  "session_cap (lm_provisional_to_canonical_update c m) = session_cap m"
  "session_cap (lm_canonical_to_provisional_update d m) = session_cap m"
  "session_cap (lm_restored_update e m) = session_cap m"
  "session_cap (lm_sessions_update f m) = session_cap m"
  "session_cap (lm_security_configs_update g m) = session_cap m"
  "session_cap (lm_stopped_update h m) = session_cap m"
  by (simp_all add: session_cap_def)

lemma session_cap_cong: "lm_limits m' = lm_limits m \<Longrightarrow> session_cap m' = session_cap m"
  by (simp add: session_cap_def)

definition manager_ok :: "link_manager \<Rightarrow> bool" where
  "manager_ok m \<longleftrightarrow> bounded m \<and> identities_ok m"

lemma ok_frame:
  assumes "manager_ok m" and "lm_canonical m' = lm_canonical m"
    and "lm_provisional_to_canonical m' = lm_provisional_to_canonical m"
    and "lm_canonical_to_provisional m' = lm_canonical_to_provisional m" and "lm_limits m' = lm_limits m"
    and "length (lm_discovered m') \<le> MAX_DISCOVERED" and "length (lm_sessions m') \<le> session_cap m"
  shows "manager_ok m'"
  using assms session_cap_cong [OF assms(5)] by (simp add: manager_ok_def bounded_def identities_ok_def)

lemma ok_bounds: "manager_ok m \<Longrightarrow> length (lm_discovered m) \<le> MAX_DISCOVERED \<and> length (lm_sessions m) \<le> session_cap m"
  by (simp add: manager_ok_def bounded_def)

lemma known_length: "map_of m k = Some v \<Longrightarrow> length (reg_insert k w m) = length m"
  by (force simp: length_reg_insert dest: map_of_SomeD)

lemma discovered_ok:
  assumes ok: "manager_ok m"
  shows "manager_ok (fst (device_discovered now d m))"
proof (cases "map_of (lm_discovered m) (dd_device_id d)")
  case None
  show ?thesis
  proof (cases "length (lm_discovered m) \<ge> MAX_DISCOVERED")
    case True
    then show ?thesis using None ok by (simp add: device_discovered_def)
  next
    case False
    then show ?thesis using None ok_bounds [OF ok] spawn_bounded [of m d]
      by (intro ok_frame [OF ok]) (simp_all add: device_discovered_def prod.case_eq_if length_reg_insert)
  qed
next
  case (Some e)
  then show ?thesis using ok_bounds [OF ok]
    by (intro ok_frame [OF ok]) (simp_all add: device_discovered_def known_length)
qed

lemma removed_ok:
  assumes ok: "manager_ok m"
  shows "manager_ok (fst (device_removed p m))"
proof (cases "session_is_active p m")
  case True
  then show ?thesis using ok_bounds [OF ok]
    by (intro ok_frame [OF ok]) (simp_all add: device_removed_def known_length split: option.splits)
next
  case False
  have len: "length (reg_remove p (lm_discovered m)) \<le> MAX_DISCOVERED" "length (reg_remove p (lm_sessions m)) \<le> session_cap m"
    using ok_bounds [OF ok] length_reg_remove [of p "lm_discovered m"] length_reg_remove [of p "lm_sessions m"] by linarith+
  show ?thesis
  proof (cases "map_of (lm_provisional_to_canonical m) p")
    case None
    then show ?thesis using False len
      by (intro ok_frame [OF ok]) (simp_all add: device_removed_def Let_def)
  next
    case (Some c)
    have "dom (map_of (reg_remove c (lm_canonical m))) = dom (map_of (lm_canonical m)) - {c}" by simp
    then show ?thesis using ok False len Some
        linked_remove [where p2c = "map_of (lm_provisional_to_canonical m)" and p = p and c = c]
      by (simp add: manager_ok_def bounded_def identities_ok_def device_removed_def Let_def)
  qed
qed

lemma resolved_ok: "manager_ok m \<Longrightarrow> manager_ok (fst (identity_resolved ident m))"
  by (auto simp: manager_ok_def bounded_def identities_ok_def identity_resolved_def Let_def
      split: option.splits dest: linked_insert)

lemma status_ok: "manager_ok m \<Longrightarrow> manager_ok (status_changed p st n m)"
  by (auto simp: manager_ok_def bounded_def identities_ok_def status_changed_def Let_def insert_absorb domI
      split: option.splits)

lemma staleness_ok:
  assumes ok: "manager_ok m"
  shows "manager_ok (fst (check_staleness now m))"
  using ok_bounds [OF ok]
  by (intro ok_frame [OF ok])
    (simp_all add: check_staleness_def Let_def order_trans [OF length_remove_all])

lemma handle_manager_ok: "manager_ok m \<Longrightarrow> manager_ok (fst (handle_manager alive now msg m))"
proof (cases msg)
  case (DeviceDiscovered d)
  then show "manager_ok m \<Longrightarrow> ?thesis" by (simp add: handle_manager_def discovered_ok)
next
  case (DeviceRemoved p)
  then show "manager_ok m \<Longrightarrow> ?thesis" by (simp add: handle_manager_def removed_ok)
next
  case (SessionIdentityResolved ident)
  then show "manager_ok m \<Longrightarrow> ?thesis" by (simp add: handle_manager_def resolved_ok)
next
  case (SessionStatusChanged p st n)
  then show "manager_ok m \<Longrightarrow> ?thesis" by (simp add: handle_manager_def status_ok)
next
  case CheckStaleness
  then show "manager_ok m \<Longrightarrow> ?thesis" by (simp add: handle_manager_def staleness_ok)
next
  case StopLinkManager
  then show "manager_ok m \<Longrightarrow> ?thesis"
    by (simp add: handle_manager_def stop_link_manager_def manager_ok_def bounded_def identities_ok_def linked_ids_def)
qed (simp_all add: handle_manager_def manager_ok_def bounded_def identities_ok_def)

text \<open>A run: the messages with the time and the living sessions at their arrival.\<close>

fun run_manager :: "(nat \<times> (actor_ref \<Rightarrow> bool) \<times> manager_msg) list \<Rightarrow> link_manager \<Rightarrow> link_manager \<times> manager_out list" where
  "run_manager [] m = (m, [])"
| "run_manager ((now, alive, msg) # rest) m =
     (case handle_manager alive now msg m of (m1, out1) \<Rightarrow>
        (case run_manager rest m1 of (m2, out2) \<Rightarrow> (m2, out1 @ out2)))"

lemma run_manager_ok: "manager_ok m \<Longrightarrow> manager_ok (fst (run_manager msgs m))"
proof (induction msgs m rule: run_manager.induct)
  case (2 now alive msg rest m)
  then show ?case
    using handle_manager_ok [of m alive now msg] by (cases "handle_manager alive now msg m") (auto split: prod.splits)
qed simp

lemma new_manager_ok: "manager_ok (new_manager limits)"
  by (simp add: manager_ok_def bounded_def identities_ok_def linked_ids_def new_manager_def)

text \<open>C14. Whatever messages the manager handles from its start, it never keeps more than 256 discovered
  devices nor more sessions than its limits allow, and the identities stay consistent: a
  provisional identity leads to a connected device and back to itself, and exactly the
  connected devices have a provisional identity.\<close>

theorem manager_tables_consistent:
  "let m = fst (run_manager msgs (new_manager limits)) in
    length (lm_discovered m) \<le> 256 \<and> length (lm_sessions m) \<le> min (max_devices (lm_limits m)) 128 \<and>
    (\<forall>p c. map_of (lm_provisional_to_canonical m) p = Some c \<longrightarrow>
       map_of (lm_canonical_to_provisional m) c = Some p \<and> map_of (lm_canonical m) c \<noteq> None) \<and>
    (\<forall>c. map_of (lm_canonical_to_provisional m) c \<noteq> None \<longleftrightarrow> map_of (lm_canonical m) c \<noteq> None)"
proof -
  have "manager_ok (fst (run_manager msgs (new_manager limits)))" by (intro run_manager_ok new_manager_ok)
  then show ?thesis
    by (auto simp: manager_ok_def bounded_def identities_ok_def linked_ids_def dom_def session_cap_def Let_def
        MAX_DISCOVERED_def MAX_ACTIVE_SESSIONS_def set_eq_iff)
qed

section \<open>A session that connects again\<close>

text \<open>The manager still knows the session \<open>r\<close> of the device \<open>p\<close>, resolved to \<open>c\<close>.\<close>

definition knows :: "device_id \<Rightarrow> device_id \<Rightarrow> actor_ref \<Rightarrow> link_manager \<Rightarrow> bool" where
  "knows p c r m \<longleftrightarrow> manager_ok m \<and> map_of (lm_canonical_to_provisional m) c = Some p \<and>
     map_of (lm_provisional_to_canonical m) p \<noteq> None \<and> map_of (lm_sessions m) p = Some r \<and>
     (\<exists>d. map_of (lm_discovered m) p = Some d) \<and>
     (\<forall>i d. (i, d) \<in> set (lm_discovered m) \<longrightarrow> dd_device_id d = i)"

lemma knows_canonical: "knows p c r m \<Longrightarrow> map_of (lm_canonical m) c \<noteq> None"
  by (auto simp: knows_def manager_ok_def identities_ok_def linked_ids_def)

lemma set_reg_insert_cases: "(i, x) \<in> set (reg_insert k v m) \<Longrightarrow> (i, x) = (k, v) \<or> (i, x) \<in> set m"
  using reg_insert_subset [of k v m] by blast

lemma knows_discovered:
  assumes "knows p c r m"
  shows "knows p c r (fst (device_discovered now d m))"
proof -
  have ids: "\<forall>i d'. (i, d') \<in> set (lm_discovered (fst (device_discovered now d m))) \<longrightarrow> dd_device_id d' = i"
  proof (intro allI impI)
    fix i d'
    assume "(i, d') \<in> set (lm_discovered (fst (device_discovered now d m)))"
    then show "dd_device_id d' = i"
      using assms map_of_SomeD [of "lm_discovered m" "dd_device_id d"]
      by (force simp: knows_def device_discovered_def spawn_session_def prod.case_eq_if split: option.splits if_splits
          dest!: set_reg_insert_cases)
  qed
  moreover have "map_of (lm_sessions (fst (device_discovered now d m))) p = Some r"
    "map_of (lm_discovered (fst (device_discovered now d m))) p \<noteq> None"
    using assms by (auto simp: knows_def device_discovered_def spawn_session_def split: option.splits)
  moreover have "lm_canonical_to_provisional (fst (device_discovered now d m)) = lm_canonical_to_provisional m"
    "lm_provisional_to_canonical (fst (device_discovered now d m)) = lm_provisional_to_canonical m"
    by (auto simp: device_discovered_def spawn_session_def split: option.splits)
  ultimately show ?thesis using assms discovered_ok by (simp add: knows_def)
qed

lemma knows_removed:
  assumes k: "knows p c r m" and ne: "q \<noteq> p"
  shows "knows p c r (fst (device_removed q m))"
proof -
  have link: "map_of (lm_provisional_to_canonical m) q = Some c' \<Longrightarrow> c' \<noteq> c" for c'
    using k ne by (auto simp: knows_def manager_ok_def identities_ok_def linked_ids_def)
  have "\<forall>i d'. (i, d') \<in> set (lm_discovered (fst (device_removed q m))) \<longrightarrow> dd_device_id d' = i"
    using k by (auto simp: knows_def device_removed_def mark_stale_def Let_def split: option.splits if_splits
        dest!: set_reg_insert_cases dest: map_of_SomeD)
  moreover have "map_of (lm_sessions (fst (device_removed q m))) p = Some r"
    "map_of (lm_discovered (fst (device_removed q m))) p \<noteq> None"
    "map_of (lm_provisional_to_canonical (fst (device_removed q m))) p \<noteq> None"
    "map_of (lm_canonical_to_provisional (fst (device_removed q m))) c = Some p"
    using k ne link by (auto simp: knows_def device_removed_def Let_def split: option.splits)
  ultimately show ?thesis using k removed_ok by (simp add: knows_def)
qed

lemma knows_resolved:
  assumes k: "knows p c r m"
  shows "knows p c r (fst (identity_resolved ident m))"
  using k knows_canonical [OF k] resolved_ok [of m ident]
  by (auto simp: knows_def identity_resolved_def Let_def split: option.splits)

lemma set_remove_all: "set (fold reg_remove ks m) \<subseteq> set m"
proof (induction ks arbitrary: m)
  case (Cons k ks)
  have "set (fold reg_remove ks (reg_remove k m)) \<subseteq> set (reg_remove k m)" by (rule Cons.IH)
  then show ?case by auto
qed simp

lemma knows_staleness:
  assumes k: "knows p c r m"
  shows "knows p c r (fst (check_staleness now m))"
proof -
  define m1 where "m1 = m\<lparr>lm_discovered := map (\<lambda>(i, d). (i, if seen_ago now STALE_AFTER d then mark_stale d else d)) (lm_discovered m)\<rparr>"
  define gone where "gone = map fst (filter (evicted now m1) (lm_discovered m1))"
  have res: "fst (check_staleness now m) = m1\<lparr>lm_discovered := fold reg_remove gone (lm_discovered m1), lm_sessions := fold reg_remove gone (lm_sessions m1)\<rparr>"
    by (simp add: check_staleness_def m1_def gone_def Let_def)
  have ids: "(i, d) \<in> set (lm_discovered m1) \<Longrightarrow> dd_device_id d = i" for i d
    using k by (auto simp: m1_def knows_def mark_stale_def split: if_splits)
  have "p \<notin> set gone"
  proof
    assume "p \<in> set gone"
    then obtain d where "(p, d) \<in> set (lm_discovered m1)" "evicted now m1 (p, d)" by (auto simp: gone_def)
    then have "map_of (lm_provisional_to_canonical m) p = None" using ids by (force simp: evicted_def m1_def)
    then show False using k by (simp add: knows_def)
  qed
  moreover have "map_of (lm_discovered m1) p \<noteq> None"
    using k by (auto simp: m1_def knows_def map_of_map [symmetric] case_prod_unfold map_of_eq_None_iff dest!: map_of_SomeD) force
  moreover have "\<forall>i d. (i, d) \<in> set (lm_discovered (fst (check_staleness now m))) \<longrightarrow> dd_device_id d = i"
  proof (intro allI impI)
    fix i d
    assume "(i, d) \<in> set (lm_discovered (fst (check_staleness now m)))"
    then have "(i, d) \<in> set (lm_discovered m1)" using set_remove_all [of gone "lm_discovered m1"] by (auto simp: res)
    then show "dd_device_id d = i" by (rule ids)
  qed
  moreover have "lm_sessions m1 = lm_sessions m" "lm_canonical_to_provisional m1 = lm_canonical_to_provisional m"
    "lm_provisional_to_canonical m1 = lm_provisional_to_canonical m" by (simp_all add: m1_def)
  ultimately show ?thesis
    using k staleness_ok [of m now] by (simp add: knows_def res map_of_remove_all)
qed

lemma knows_handle:
  assumes k: "knows p c r m" and msg: "msg \<noteq> DeviceRemoved p" "msg \<noteq> StopLinkManager"
  shows "knows p c r (fst (handle_manager alive now msg m))"
proof (cases msg)
  case (DeviceDiscovered d)
  then show ?thesis using knows_discovered [OF k] by (simp add: handle_manager_def)
next
  case (DeviceRemoved q)
  then show ?thesis using knows_removed [OF k] msg by (simp add: handle_manager_def)
next
  case (SessionIdentityResolved ident)
  then show ?thesis using knows_resolved [OF k] by (simp add: handle_manager_def)
next
  case (SessionStatusChanged q st n)
  have "manager_ok (status_changed q st n m)" using k status_ok by (simp add: knows_def)
  then show ?thesis using k SessionStatusChanged
    by (auto simp: knows_def handle_manager_def status_changed_def Let_def split: option.splits)
next
  case CheckStaleness
  then show ?thesis using knows_staleness [OF k] by (simp add: handle_manager_def)
qed (use k msg handle_manager_ok [of m alive now msg] in \<open>simp_all add: knows_def handle_manager_def\<close>)

lemma knows_run:
  "knows p c r m \<Longrightarrow> list_all (\<lambda>(_, _, msg). msg \<noteq> DeviceRemoved p \<and> msg \<noteq> StopLinkManager) msgs \<Longrightarrow>
     knows p c r (fst (run_manager msgs m))"
proof (induction msgs m rule: run_manager.induct)
  case (2 now alive msg rest m)
  then show ?case
    using knows_handle [of p c r m msg alive now] by (cases "handle_manager alive now msg m") (auto split: prod.splits)
qed simp

text \<open>C29. A session is stopped by its own reconnect. Once the manager has accepted the identity of a
  discovered device with a session, and as long as the device is not removed from mDNS, the same
  session telling its identity again, as it does in the handshake of every reconnect, is taken
  for a duplicate and told to stop; and a new announcement of the device does not bring a session
  back.\<close>

theorem reconnected_session_is_stopped:
  assumes start: "manager_ok m" "\<forall>i d. (i, d) \<in> set (lm_discovered m) \<longrightarrow> dd_device_id d = i"
    and device: "map_of (lm_discovered m) (id_provisional ident) \<noteq> None" "map_of (lm_sessions m) (id_provisional ident) = Some r"
    and first: "map_of (lm_canonical m) (id_canonical ident) = None"
    and quiet: "list_all (\<lambda>(_, _, msg). msg \<noteq> DeviceRemoved (id_provisional ident) \<and> msg \<noteq> StopLinkManager) msgs"
    and run: "m' = fst (run_manager msgs (fst (identity_resolved ident m)))"
  shows "snd (handle_manager alive now (SessionIdentityResolved ident) m') = [SentSession r StopSession] \<and>
    (dd_device_id d = id_provisional ident \<longrightarrow>
       snd (handle_manager alive now (DeviceDiscovered d) (fst (handle_manager alive now (SessionIdentityResolved ident) m'))) = [])"
proof -
  let ?p = "id_provisional ident" and ?c = "id_canonical ident"
  have "knows ?p ?c r (fst (identity_resolved ident m))"
    using start device first resolved_ok [OF start(1), of ident]
    by (auto simp: knows_def identity_resolved_def Let_def)
  then have k: "knows ?p ?c r m'" unfolding run using quiet by (rule knows_run)
  have "snd (handle_manager alive now (SessionIdentityResolved ident) m') = [SentSession r StopSession]"
    using k knows_canonical [OF k] by (simp add: handle_manager_def identity_resolved_def stop_of_def knows_def Let_def)
  moreover have "knows ?p ?c r (fst (handle_manager alive now (SessionIdentityResolved ident) m'))"
    by (rule knows_handle [OF k]) simp_all
  ultimately show ?thesis
    by (auto simp: knows_def device_discovered_def handle_manager_def [of _ _ "DeviceDiscovered d"])
qed

definition lamp_identity :: session_identity where
  "lamp_identity = \<lparr>id_provisional = ''esphome-host:lamp'', id_canonical = ''esphome:aabb'', id_name = ''lamp'',
     id_friendly_name = None, id_mac_address = Some ''AA:BB'', id_model = None, id_sw_version = None\<rparr>"

definition lamp_manager :: link_manager where
  "lamp_manager = fst (device_discovered 0 lamp_device (new_manager default_limits))"

lemmas lamp_manager_simps = lamp_manager_def device_discovered_def spawn_session_def new_manager_def session_cap_def
  default_limits_def lamp_device_def MAX_DISCOVERED_def MAX_ACTIVE_SESSIONS_def

theorem reconnected_session_is_stopped_witness:
  "snd (handle_manager (\<lambda>_. True) 9 (SessionIdentityResolved lamp_identity)
      (fst (run_manager [(1, \<lambda>_. True, SessionStatusChanged ''esphome-host:lamp'' StActive 3),
                         (2, \<lambda>_. True, SessionStatusChanged ''esphome-host:lamp'' (StBackoff 0 1) 3)]
        (fst (identity_resolved lamp_identity lamp_manager)))))
     = [SentSession 0 StopSession]"
proof -
  have "manager_ok lamp_manager" unfolding lamp_manager_def by (intro discovered_ok new_manager_ok)
  then show ?thesis
    using reconnected_session_is_stopped [of lamp_manager lamp_identity 0
        "[(1, \<lambda>_. True, SessionStatusChanged ''esphome-host:lamp'' StActive 3),
          (2, \<lambda>_. True, SessionStatusChanged ''esphome-host:lamp'' (StBackoff 0 1) 3)]" _ "\<lambda>_. True" 9 lamp_device]
    by (simp add: lamp_manager_simps lamp_identity_def)
qed

theorem manager_tables_consistent_witness:
  "length (lm_discovered (fst (run_manager [(0, \<lambda>_. True, DeviceDiscovered lamp_device)] (new_manager default_limits)))) \<le> 256"
  using manager_tables_consistent [of "[(0, \<lambda>_. True, DeviceDiscovered lamp_device)]" default_limits] by (simp only: Let_def)

end
