(* ===== verification/Capability.thy ===== *)
theory Capability
  imports Maps
begin

text \<open>
  The capability handles of the WASM host (\<open>rshome-wasm-host/src/capability.rs\<close>). A handle
  is a 64-bit number that carries the id of an object, a generation and the rights of its
  holder; the registry of a kind of objects checks the first two against its table and
  takes the rights from the handle itself. The table is a concurrent map and its operations
  are atomic here; the counter of ids and the generations wrap at their width.

  The lemmas show that encoding loses nothing, that live objects have different ids, for
  how long a revocation lasts and what a check of the rights is worth.
\<close>

section \<open>Handles\<close>

type_synonym handle = u64
type_synonym rights = u16

definition READ :: rights where "READ = 0x0001"
definition WRITE :: rights where "WRITE = 0x0002"
definition INVOKE :: rights where "INVOKE = 0x0004"
definition ADMIN :: rights where "ADMIN = 0x0008"
definition ALL_RIGHTS :: rights where "ALL_RIGHTS = 0x000F"

definition INVALID_HANDLE :: handle where "INVALID_HANDLE = 0"

definition encode_handle :: "u32 \<Rightarrow> u16 \<Rightarrow> rights \<Rightarrow> handle" where
  "encode_handle object_id generation r =
     (push_bit 32 (ucast object_id) OR push_bit 16 (ucast generation)) OR ucast r"

text \<open>\<open>Rights::from_bits_truncate\<close> keeps the known bits; \<open>contains\<close> is inclusion of the bits.\<close>

definition from_bits_truncate :: "u16 \<Rightarrow> rights" where
  "from_bits_truncate b = b AND ALL_RIGHTS"

definition has_rights :: "rights \<Rightarrow> rights \<Rightarrow> bool" where
  "has_rights have need \<longleftrightarrow> have AND need = need"

definition decode_handle :: "handle \<Rightarrow> u32 \<times> u16 \<times> rights" where
  "decode_handle h =
     (ucast (drop_bit 32 h), ucast (drop_bit 16 h AND 0xFFFF), from_bits_truncate (ucast (h AND 0xFFFF)))"

abbreviation object_of :: "handle \<Rightarrow> u32" where
  "object_of h \<equiv> fst (decode_handle h)"

abbreviation generation_of :: "handle \<Rightarrow> u16" where
  "generation_of h \<equiv> fst (snd (decode_handle h))"

abbreviation rights_of :: "handle \<Rightarrow> rights" where
  "rights_of h \<equiv> snd (snd (decode_handle h))"

section \<open>The registry of objects\<close>

datatype cap_error =
    NotFound
  | Revoked
  | InsufficientRights rights rights

record 'a object_entry =
  oe_value :: 'a
  oe_generation :: u16

record 'a object_registry =
  or_inner :: "(u32 \<times> 'a object_entry) list"
  or_next_id :: u32

definition new_entry :: "'a \<Rightarrow> 'a object_entry" where
  "new_entry v = \<lparr>oe_value = v, oe_generation = 1\<rparr>"

definition new_object_registry :: "'a object_registry" where
  "new_object_registry = \<lparr>or_inner = [], or_next_id = 1\<rparr>"

definition alloc :: "'a \<Rightarrow> rights \<Rightarrow> 'a object_registry \<Rightarrow> handle \<times> 'a object_registry" where
  "alloc v r reg =
     (let i = or_next_id reg
      in (encode_handle i 1 r,
          \<lparr>or_inner = reg_insert i (new_entry v) (or_inner reg), or_next_id = i + 1\<rparr>))"

definition cap_get :: "'a object_registry \<Rightarrow> handle \<Rightarrow> rights \<Rightarrow> cap_error + 'a object_entry" where
  "cap_get reg h need =
     (let (i, gen, have) = decode_handle h
      in case map_of (or_inner reg) i of
           None \<Rightarrow> Inl NotFound
         | Some entry \<Rightarrow>
             if oe_generation entry \<noteq> gen then Inl Revoked
             else if \<not> has_rights have need then Inl (InsufficientRights need have)
             else Inr entry)"

definition get_any :: "'a object_registry \<Rightarrow> handle \<Rightarrow> cap_error + 'a object_entry" where
  "get_any reg h =
     (let (i, gen, _) = decode_handle h
      in case map_of (or_inner reg) i of
           None \<Rightarrow> Inl NotFound
         | Some entry \<Rightarrow> if oe_generation entry \<noteq> gen then Inl Revoked else Inr entry)"

definition revoke :: "handle \<Rightarrow> 'a object_registry \<Rightarrow> (cap_error + unit) \<times> 'a object_registry" where
  "revoke h reg =
     (let (i, gen, _) = decode_handle h
      in case map_of (or_inner reg) i of
           None \<Rightarrow> (Inl NotFound, reg)
         | Some entry \<Rightarrow>
             if oe_generation entry \<noteq> gen then (Inl Revoked, reg)
             else (Inr (), reg\<lparr>or_inner := reg_insert i (entry\<lparr>oe_generation := oe_generation entry + 1\<rparr>) (or_inner reg)\<rparr>))"

text \<open>The entry is removed before its generation is looked at.\<close>

definition cap_remove :: "handle \<Rightarrow> 'a object_registry \<Rightarrow> (cap_error + unit) \<times> 'a object_registry" where
  "cap_remove h reg =
     (let (i, gen, _) = decode_handle h
      in case map_of (or_inner reg) i of
           None \<Rightarrow> (Inl NotFound, reg)
         | Some entry \<Rightarrow>
             (if oe_generation entry \<noteq> gen then Inl Revoked else Inr (),
              reg\<lparr>or_inner := reg_remove i (or_inner reg)\<rparr>))"

definition cap_len :: "'a object_registry \<Rightarrow> nat" where
  "cap_len reg = length (or_inner reg)"

text \<open>The operations a guest can cause, in any order and with any handle.\<close>

datatype 'a cap_op =
    Alloc 'a rights
  | Revoke handle
  | Remove handle

fun cap_step :: "'a cap_op \<Rightarrow> 'a object_registry \<Rightarrow> 'a object_registry" where
  "cap_step (Alloc v r) reg = snd (alloc v r reg)"
| "cap_step (Revoke h) reg = snd (revoke h reg)"
| "cap_step (Remove h) reg = snd (cap_remove h reg)"

definition cap_run :: "'a cap_op list \<Rightarrow> 'a object_registry \<Rightarrow> 'a object_registry" where
  "cap_run ops reg = fold cap_step ops reg"

section \<open>Encoding\<close>

lemma low_16: "(0xFFFF :: u64) = mask 16"
  by (simp add: mask_eq_exp_minus_1)

lemma low_16_shift: "(0xFFF0 :: u64) = push_bit 4 (mask 12)"
  by (simp add: mask_eq_exp_minus_1)

lemma no_high_bits [simp]: "\<not> bit (g :: u16) (16 + n)" "\<not> bit (g :: u16) (32 + n)"
  by (auto dest: bit_imp_le_length)

lemma decode_encode_handle: "decode_handle (encode_handle i g r) = (i, g, r AND ALL_RIGHTS)"
  unfolding decode_handle_def encode_handle_def from_bits_truncate_def low_16
  by (intro prod_eqI) (auto intro!: bit_word_eqI simp: bit_simps dest: bit_imp_le_length)

lemma ALL_RIGHTS_mask: "ALL_RIGHTS = mask 4"
  by (simp add: ALL_RIGHTS_def mask_eq_exp_minus_1)

lemma bit_handle:
  "bit (encode_handle i g r) n \<longleftrightarrow>
     (if n < 16 then bit r n else if n < 32 then bit g (n - 16) else n < 64 \<and> bit i (n - 32))"
  by (auto simp: encode_handle_def bit_simps dest: bit_imp_le_length)

lemma encode_decode_handle:
  "encode_handle (object_of h) (generation_of h) (rights_of h) = h AND NOT 0xFFF0"
proof (rule bit_word_eqI)
  fix n assume "n < LENGTH(64)"
  then show "bit (encode_handle (object_of h) (generation_of h) (rights_of h)) n = bit (h AND NOT 0xFFF0) n"
    by (auto simp: low_16_shift bit_handle decode_handle_def from_bits_truncate_def ALL_RIGHTS_mask low_16 bit_simps)
qed

lemma decode_widened: "decode_handle (h OR ucast r) = (object_of h, generation_of h, rights_of h OR (r AND ALL_RIGHTS))"
  unfolding decode_handle_def from_bits_truncate_def ALL_RIGHTS_mask low_16
  by (intro prod_eqI) (auto intro!: bit_word_eqI simp: bit_simps dest: bit_imp_le_length)

section \<open>What a check means\<close>

lemma cap_get_Inr:
  "cap_get reg h need = Inr e \<longleftrightarrow>
     map_of (or_inner reg) (object_of h) = Some e \<and> oe_generation e = generation_of h
     \<and> has_rights (rights_of h) need"
  by (auto simp: cap_get_def split: prod.splits option.splits)

lemma get_any_Inr:
  "get_any reg h = Inr e \<longleftrightarrow>
     map_of (or_inner reg) (object_of h) = Some e \<and> oe_generation e = generation_of h"
  by (auto simp: get_any_def split: prod.splits option.splits)

section \<open>The course of a registry\<close>

fun allocs :: "'a cap_op list \<Rightarrow> nat" where
  "allocs [] = 0"
| "allocs (Alloc _ _ # ops) = Suc (allocs ops)"
| "allocs (_ # ops) = allocs ops"

fun revokes :: "u32 \<Rightarrow> 'a cap_op list \<Rightarrow> nat" where
  "revokes i [] = 0"
| "revokes i (Revoke h # ops) = (if object_of h = i then Suc (revokes i ops) else revokes i ops)"
| "revokes i (_ # ops) = revokes i ops"

text \<open>How many ids are left before the counter wraps.\<close>

definition ids_left :: "'a object_registry \<Rightarrow> nat" where
  "ids_left reg = 2 ^ 32 - 1 - unat (or_next_id reg)"

lemma next_id_Suc: "0 < ids_left reg \<Longrightarrow> unat (or_next_id reg + 1) = Suc (unat (or_next_id reg))"
  by (simp add: ids_left_def unat_word_ariths)

lemma decoded: "decode_handle h = (object_of h, generation_of h, rights_of h)"
  by simp

lemma snd_revoke:
  "snd (revoke h reg) =
     (case map_of (or_inner reg) (object_of h) of
        None \<Rightarrow> reg
      | Some e \<Rightarrow>
          if oe_generation e \<noteq> generation_of h then reg
          else reg\<lparr>or_inner := reg_insert (object_of h) (e\<lparr>oe_generation := oe_generation e + 1\<rparr>) (or_inner reg)\<rparr>)"
  by (auto simp: revoke_def split: prod.splits option.splits)

lemma fst_revoke: "fst (revoke h reg) = Inr () \<longleftrightarrow> (\<exists>e. get_any reg h = Inr e)"
  by (auto simp: revoke_def get_any_def split: prod.splits option.splits)

lemma snd_cap_remove:
  "snd (cap_remove h reg) =
     (if map_of (or_inner reg) (object_of h) = None then reg
      else reg\<lparr>or_inner := reg_remove (object_of h) (or_inner reg)\<rparr>)"
  by (auto simp: cap_remove_def split: prod.splits option.splits)

lemma next_id_steps [simp]:
  "or_next_id (snd (alloc v r reg)) = or_next_id reg + 1"
  "or_next_id (snd (revoke h reg)) = or_next_id reg"
  "or_next_id (snd (cap_remove h reg)) = or_next_id reg"
  by (auto simp: alloc_def Let_def snd_revoke snd_cap_remove split: option.splits)

lemma next_id_run: "or_next_id (cap_run ops reg) = or_next_id reg + of_nat (allocs ops)"
proof (induction ops arbitrary: reg)
  case (Cons op ops)
  then show ?case by (cases op) (simp_all add: cap_run_def)
qed (simp add: cap_run_def)

text \<open>An id is in use up to \<open>n\<close> when it is not zero and below \<open>n\<close>: no allocation takes it again.\<close>

definition issued :: "u32 \<Rightarrow> 'a object_registry \<Rightarrow> bool" where
  "issued i reg \<longleftrightarrow> unat i < unat (or_next_id reg)"

lemma ids_left_step:
  "allocs (op # ops) \<le> ids_left reg \<Longrightarrow> allocs ops \<le> ids_left (cap_step op reg)"
  by (cases op) (auto simp: ids_left_def unat_word_ariths)

lemma issued_step: "allocs [op] \<le> ids_left reg \<Longrightarrow> issued i reg \<Longrightarrow> issued i (cap_step op reg)"
  by (cases op) (auto simp: issued_def ids_left_def unat_word_ariths)

lemma allocs_hd: "allocs (op # ops) \<le> k \<Longrightarrow> allocs [op] \<le> k"
  by (cases op) auto

text \<open>One operation on an id that was issued: the entry goes, or stays with the generation
  bumped by a revocation that names it.\<close>

lemma entry_step:
  assumes "issued i reg"
  shows "map_of (or_inner (cap_step op reg)) i = None \<or>
         (\<exists>e n. map_of (or_inner reg) i = Some e \<and> n \<le> revokes i [op]
            \<and> map_of (or_inner (cap_step op reg)) i = Some (e\<lparr>oe_generation := oe_generation e + of_nat n\<rparr>))"
proof (cases op)
  case (Alloc v r)
  then show ?thesis
    using assms by (cases "map_of (or_inner reg) i") (auto simp: alloc_def Let_def issued_def)
next
  case (Revoke h)
  then show ?thesis
    by (cases "map_of (or_inner reg) i")
       (auto simp: snd_revoke split: option.splits intro: exI [of _ 0] exI [of _ 1])
next
  case (Remove h)
  then show ?thesis
    by (cases "map_of (or_inner reg) i") (auto simp: snd_cap_remove)
qed

lemma entry_run:
  assumes "issued i reg" and "allocs ops \<le> ids_left reg"
  shows "map_of (or_inner (cap_run ops reg)) i = None \<or>
         (\<exists>e n. map_of (or_inner reg) i = Some e \<and> n \<le> revokes i ops
            \<and> map_of (or_inner (cap_run ops reg)) i = Some (e\<lparr>oe_generation := oe_generation e + of_nat n\<rparr>))"
  using assms
proof (induction ops arbitrary: reg)
  case Nil
  then show ?case
    by (cases "map_of (or_inner reg) i") (auto simp: cap_run_def)
next
  case (Cons op ops)
  let ?reg = "cap_step op reg"
  have run: "cap_run (op # ops) reg = cap_run ops ?reg" by (simp add: cap_run_def)
  have split: "revokes i (op # ops) = revokes i [op] + revokes i ops"
    by (cases op) auto
  have "issued i ?reg" using Cons.prems allocs_hd issued_step by blast
  then have IH: "map_of (or_inner (cap_run ops ?reg)) i = None \<or>
      (\<exists>e n. map_of (or_inner ?reg) i = Some e \<and> n \<le> revokes i ops
         \<and> map_of (or_inner (cap_run ops ?reg)) i = Some (e\<lparr>oe_generation := oe_generation e + of_nat n\<rparr>))"
    using Cons.IH Cons.prems(2) ids_left_step by blast
  show ?case
  proof (cases "map_of (or_inner (cap_run ops ?reg)) i")
    case None
    then show ?thesis using run by simp
  next
    case (Some x)
    with IH obtain e n where e: "map_of (or_inner ?reg) i = Some e" "n \<le> revokes i ops"
      and x: "x = e\<lparr>oe_generation := oe_generation e + of_nat n\<rparr>" by auto
    from entry_step [OF Cons.prems(1), of op] e(1)
    obtain d m where d: "map_of (or_inner reg) i = Some d" "m \<le> revokes i [op]"
      and "e = d\<lparr>oe_generation := oe_generation d + of_nat m\<rparr>" by auto
    then have "x = d\<lparr>oe_generation := oe_generation d + of_nat (m + n)\<rparr>"
      using x by (simp add: add.assoc)
    moreover have "m + n \<le> revokes i (op # ops)" using d(2) e(2) split by simp
    ultimately show ?thesis unfolding run Some d(1) by blast
  qed
qed

lemma entry_untouched:
  assumes "issued i reg" and "allocs ops \<le> ids_left reg"
    and "\<forall>h. Revoke h \<in> set ops \<or> Remove h \<in> set ops \<longrightarrow> object_of h \<noteq> i"
  shows "map_of (or_inner (cap_run ops reg)) i = map_of (or_inner reg) i"
  using assms
proof (induction ops arbitrary: reg)
  case (Cons op ops)
  have "map_of (or_inner (cap_step op reg)) i = map_of (or_inner reg) i"
    using Cons.prems(1, 3)
    by (cases op) (auto simp: alloc_def Let_def issued_def snd_revoke snd_cap_remove split: option.splits)
  moreover have "issued i (cap_step op reg)" using Cons.prems allocs_hd issued_step by blast
  ultimately show ?case
    using Cons.IH [of "cap_step op reg"] Cons.prems ids_left_step by (auto simp: cap_run_def)
qed (simp add: cap_run_def)

text \<open>All objects in the table have an id that was issued, as long as the counter has not
  wrapped.\<close>

definition registry_ok :: "'a object_registry \<Rightarrow> bool" where
  "registry_ok reg \<longleftrightarrow> (\<forall>i \<in> fst ` set (or_inner reg). issued i reg)"

lemma entry_keys:
  "fst ` set (or_inner (snd (revoke h reg))) \<subseteq> fst ` set (or_inner reg)"
  "fst ` set (or_inner (snd (cap_remove h reg))) \<subseteq> fst ` set (or_inner reg)"
  using keys_reg_insert [of "object_of h" _ "or_inner reg"]
  by (auto simp: snd_revoke snd_cap_remove dest: map_of_SomeD split: option.splits if_splits intro: rev_image_eqI)

lemma registry_ok_step:
  assumes "registry_ok reg" and "allocs [op] \<le> ids_left reg"
  shows "registry_ok (cap_step op reg)"
proof -
  have "issued i (cap_step op reg)" if i: "i \<in> fst ` set (or_inner (cap_step op reg))" for i
  proof (cases "i \<in> fst ` set (or_inner reg)")
    case True
    then show ?thesis using assms issued_step by (auto simp: registry_ok_def)
  next
    case False
    show ?thesis
    proof (cases op)
      case (Alloc v r)
      then have "i = or_next_id reg"
        using i False keys_reg_insert [of "or_next_id reg" "new_entry v" "or_inner reg"]
        by (simp add: alloc_def Let_def)
      then show ?thesis using Alloc assms(2) next_id_Suc [of reg] by (simp add: issued_def)
    next
      case (Revoke h)
      then show ?thesis using i False entry_keys(1) [of h reg] by (simp add: subset_iff)
    next
      case (Remove h)
      then show ?thesis using i False entry_keys(2) [of h reg] by (simp add: subset_iff)
    qed
  qed
  then show ?thesis by (simp add: registry_ok_def)
qed

lemma registry_ok_run:
  "registry_ok reg \<Longrightarrow> allocs ops \<le> ids_left reg \<Longrightarrow> registry_ok (cap_run ops reg)"
proof (induction ops arbitrary: reg)
  case (Cons op ops)
  then show ?case
    using registry_ok_step [of reg op] ids_left_step allocs_hd by (fastforce simp: cap_run_def)
qed (simp add: cap_run_def)

lemma registry_ok_new: "registry_ok new_object_registry"
  by (simp add: registry_ok_def new_object_registry_def)

lemma ids_left_run: "allocs (ops @ ops') \<le> ids_left reg \<Longrightarrow> allocs ops' \<le> ids_left (cap_run ops reg)"
proof (induction ops arbitrary: reg)
  case (Cons op ops)
  then show ?case using ids_left_step [of op "ops @ ops'" reg] by (simp add: cap_run_def)
qed (simp add: cap_run_def)

lemma allocs_append [simp]: "allocs (ops @ ops') = allocs ops + allocs ops'"
  by (induction ops rule: allocs.induct) auto

lemma ids_left_new: "ids_left new_object_registry = 2 ^ 32 - 2"
  by (simp add: ids_left_def new_object_registry_def)

lemma started:
  fixes before after :: "'a cap_op list"
  assumes "allocs before + allocs after < 2 ^ 32 - 1"
  shows "registry_ok (cap_run before new_object_registry)"
    and "allocs after \<le> ids_left (cap_run before new_object_registry)"
  using assms registry_ok_run [OF registry_ok_new, of before] ids_left_run [of before after new_object_registry]
  by (simp_all add: ids_left_new)

section \<open>Properties\<close>

text \<open>Encoding a handle and decoding it gives back the object, the generation and the
  known bits of the rights, and a handle is determined by what decoding yields up to the
  twelve bits between the rights and the generation, which no operation looks at.\<close>
theorem handle_roundtrip:
  "decode_handle (encode_handle i g r) = (i, g, r AND ALL_RIGHTS)
   \<and> (case decode_handle h of (i', g', r') \<Rightarrow> encode_handle i' g' r' = h AND NOT 0xFFF0)"
  using encode_decode_handle [of h] by (cases "decode_handle h") (simp add: decode_encode_handle)

text \<open>C7. Revocation is final. In any course of allocations, revocations and removals on a
  registry, with whatever handles, from the moment a handle was revoked neither it nor any
  other handle on the same object with the same generation is accepted again, provided that
  fewer than 2^32 - 1 objects are allocated (the ids wrap at 32 bits) and the object is
  named in fewer than 2^16 - 1 further revocations (the generations wrap at 16 bits).\<close>
theorem revocation_is_final:
  assumes "allocs before + allocs after < 2 ^ 32 - 1"
    and "fst (revoke h (cap_run before new_object_registry)) = Inr ()"
    and "revokes (object_of h) after < 2 ^ 16 - 1"
    and "object_of h' = object_of h" and "generation_of h' = generation_of h"
  shows "\<nexists>e. get_any (cap_run after (snd (revoke h (cap_run before new_object_registry)))) h' = Inr e"
proof -
  let ?reg = "cap_run before new_object_registry"
  let ?gone = "snd (revoke h ?reg)"
  note ok = started [OF assms(1)]
  from assms(2) obtain e where e: "map_of (or_inner ?reg) (object_of h) = Some e" "oe_generation e = generation_of h"
    by (auto simp: fst_revoke get_any_Inr)
  then have "issued (object_of h) ?reg"
    using ok(1) by (auto simp: registry_ok_def map_of_eq_None_iff dest!: map_of_SomeD intro: rev_image_eqI)
  then have "issued (object_of h) ?gone" by (simp add: issued_def)
  moreover have "allocs after \<le> ids_left ?gone" using ok(2) by (simp add: ids_left_def)
  moreover have "map_of (or_inner ?gone) (object_of h) = Some (e\<lparr>oe_generation := generation_of h + 1\<rparr>)"
    using e by (simp add: snd_revoke)
  ultimately consider "map_of (or_inner (cap_run after ?gone)) (object_of h) = None"
    | n where "n < 2 ^ 16 - 1" "map_of (or_inner (cap_run after ?gone)) (object_of h)
         = Some (e\<lparr>oe_generation := generation_of h + 1 + of_nat n\<rparr>)"
    using entry_run [of "object_of h" ?gone after] assms(3) by simp (meson le_less_trans)
  note after = this
  have "1 + of_nat n \<noteq> (0 :: u16)" if "n < 2 ^ 16 - 1" for n
  proof
    assume "1 + of_nat n = (0 :: u16)"
    then have "of_nat (Suc n) = (0 :: u16)" by simp
    then have "(2 :: nat) ^ 16 dvd Suc n" by (simp only: word_of_nat_eq_0_iff) simp
    with that show False by (auto dest: dvd_imp_le)
  qed
  then show ?thesis using assms(4, 5) by (cases rule: after) (auto simp: get_any_Inr add.assoc)
qed

theorem revocation_is_final_witness:
  "get_any (cap_run [Alloc ''door'' READ, Revoke (encode_handle 1 2 READ)]
       (snd (revoke (encode_handle 1 1 READ) (cap_run [Alloc ''lamp'' READ] new_object_registry))))
     (encode_handle 1 1 ALL_RIGHTS) = Inl Revoked"
proof -
  let ?after = "[Alloc ''door'' READ, Revoke (encode_handle 1 2 READ)]"
  let ?h = "encode_handle 1 1 READ"
  let ?gone = "snd (revoke ?h (cap_run [Alloc ''lamp'' READ] new_object_registry))"
  have "get_any (cap_run [Alloc ''lamp'' READ] new_object_registry) ?h = Inr (new_entry ''lamp'')"
    by (simp add: get_any_Inr decode_encode_handle cap_run_def alloc_def new_object_registry_def new_entry_def)
  then have "\<nexists>e. get_any (cap_run ?after ?gone) (encode_handle 1 1 ALL_RIGHTS) = Inr e"
    by (intro revocation_is_final) (auto simp: fst_revoke decode_encode_handle)
  moreover have "map_of (or_inner (cap_run ?after ?gone)) 1 \<noteq> None"
    by (simp add: cap_run_def alloc_def new_object_registry_def new_entry_def snd_revoke decode_encode_handle)
  ultimately show ?thesis
    by (auto simp: get_any_def decode_encode_handle split: option.splits)
qed

text \<open>A handle keeps working: from an allocation on, as long as no operation names its
  object and the ids do not wrap, the handle gives the object it was allocated for, and a
  checked access succeeds exactly when the handle holds the rights that are required.\<close>
theorem handle_stays_valid:
  assumes "allocs before + Suc (allocs after) < 2 ^ 32 - 1"
    and "alloc v r (cap_run before new_object_registry) = (h, reg)"
    and "\<forall>h'. Revoke h' \<in> set after \<or> Remove h' \<in> set after \<longrightarrow> object_of h' \<noteq> object_of h"
  shows "get_any (cap_run after reg) h = Inr (new_entry v)
    \<and> cap_get (cap_run after reg) h need =
        (if has_rights (r AND ALL_RIGHTS) need then Inr (new_entry v)
         else Inl (InsufficientRights need (r AND ALL_RIGHTS)))"
proof -
  let ?old = "cap_run before new_object_registry"
  have h: "decode_handle h = (or_next_id ?old, 1, r AND ALL_RIGHTS)"
    and reg: "reg = cap_step (Alloc v r) ?old"
    using assms(2) by (auto simp: alloc_def Let_def decode_encode_handle)
  have room: "allocs (Alloc v r # after) \<le> ids_left ?old"
    using started(2) [of before "Alloc v r # after"] assms(1) by simp
  then have "issued (or_next_id ?old) reg"
    using next_id_Suc [of ?old] by (simp add: reg issued_def)
  moreover have "allocs after \<le> ids_left reg" unfolding reg by (rule ids_left_step [OF room])
  ultimately have "map_of (or_inner (cap_run after reg)) (or_next_id ?old) = map_of (or_inner reg) (or_next_id ?old)"
    using assms(3) h by (intro entry_untouched) simp_all
  then show ?thesis
    using h by (simp add: get_any_def cap_get_def reg alloc_def Let_def new_entry_def)
qed

theorem handle_stays_valid_witness:
  "cap_get (cap_run [Alloc ''door'' READ, Revoke (encode_handle 2 1 READ)]
      (snd (alloc ''lamp'' (READ OR WRITE) new_object_registry))) (encode_handle 1 1 (READ OR WRITE)) WRITE
   = Inr (new_entry ''lamp'')"
  using handle_stays_valid [of "[]" "[Alloc ''door'' READ, Revoke (encode_handle 2 1 READ)]" "''lamp''"
      "READ OR WRITE" "encode_handle 1 1 (READ OR WRITE)"
      "snd (alloc ''lamp'' (READ OR WRITE) new_object_registry)" WRITE]
  by (simp add: cap_run_def alloc_def new_object_registry_def decode_encode_handle
      has_rights_def READ_def WRITE_def ALL_RIGHTS_def)

text \<open>The rights of a handle are what its holder says they are: the registry keeps no
  record of what was granted, so whoever holds any accepted handle on an object passes every
  check of rights by setting the lowest four bits of the number.\<close>
theorem rights_are_self_asserted:
  assumes "get_any reg h = Inr e" and "has_rights ALL_RIGHTS need"
  shows "cap_get reg (h OR ucast ALL_RIGHTS) need = Inr e"
proof -
  have "rights_of h OR (ALL_RIGHTS AND ALL_RIGHTS) = ALL_RIGHTS"
    by (auto intro!: bit_word_eqI simp: decode_handle_def from_bits_truncate_def ALL_RIGHTS_mask bit_simps)
  then show ?thesis using assms by (simp add: cap_get_Inr get_any_Inr decode_widened)
qed

theorem rights_are_self_asserted_witness:
  "cap_get (snd (alloc ''lamp'' READ new_object_registry)) (encode_handle 1 1 READ) ADMIN
     = Inl (InsufficientRights ADMIN READ)
   \<and> cap_get (snd (alloc ''lamp'' READ new_object_registry)) (encode_handle 1 1 READ OR ucast ALL_RIGHTS) ADMIN
     = Inr (new_entry ''lamp'')"
proof
  show "cap_get (snd (alloc ''lamp'' READ new_object_registry)) (encode_handle 1 1 READ) ADMIN
     = Inl (InsufficientRights ADMIN READ)"
    by (simp add: cap_get_def decode_encode_handle alloc_def new_object_registry_def new_entry_def
        has_rights_def READ_def ADMIN_def ALL_RIGHTS_def)
next
  have "get_any (snd (alloc ''lamp'' READ new_object_registry)) (encode_handle 1 1 READ) = Inr (new_entry ''lamp'')"
    by (simp add: get_any_def decode_encode_handle alloc_def new_object_registry_def new_entry_def)
  then show "cap_get (snd (alloc ''lamp'' READ new_object_registry)) (encode_handle 1 1 READ OR ucast ALL_RIGHTS) ADMIN
     = Inr (new_entry ''lamp'')"
    by (rule rights_are_self_asserted) (simp add: has_rights_def ADMIN_def ALL_RIGHTS_def)
qed

text \<open>A removal that fails removes all the same: with a handle whose generation is out
  of date the answer is that it was revoked, and the object is gone for every holder of a
  valid handle.\<close>
theorem refused_removal_deletes:
  assumes "fst (cap_remove h reg) = Inl Revoked" and "object_of h' = object_of h"
  shows "get_any reg h = Inl Revoked \<and> get_any (snd (cap_remove h reg)) h' = Inl NotFound"
  using assms
  by (auto simp: cap_remove_def get_any_def split: prod.splits option.splits if_splits)

theorem refused_removal_deletes_witness:
  "get_any (snd (cap_remove (encode_handle 1 9 0) (snd (alloc ''lamp'' READ new_object_registry))))
     (encode_handle 1 1 READ) = Inl NotFound"
  using refused_removal_deletes
    [of "encode_handle 1 9 0" "snd (alloc ''lamp'' READ new_object_registry)" "encode_handle 1 1 READ"]
  by (simp add: cap_remove_def decode_encode_handle alloc_def new_object_registry_def new_entry_def)

end
