(* ===== verification/DomainLowering.thy ===== *)
theory DomainLowering
  imports Capability DomainSpecs EntityRuntime
begin

text \<open>
  What an integration registers with the host (\<open>rshome-wasm-host\<close>:
  \<open>domain_lowering.rs\<close>, \<open>context.rs\<close> and the bridges of entities, devices, services,
  coordinators and discovery). The validation against the domain specifications and the
  capability registries of one integration; the reader of JSON states is a parameter.

  The lemmas show which registrations pass, that a registered entity starts in a state of
  its domain, and how far a handle on an entity reaches into the runtime.
\<close>

section \<open>Validation against the specifications\<close>

datatype lowering_error =
    UnknownDomain string
  | InvalidFeatures domain_spec_error
  | InvalidDeviceClass string string
  | InvalidService string string
  | StateSerialization string
  | ExtensionRegistration domain_spec_error

record entity_registration =
  rg_platform :: string
  rg_unique_id :: string
  rg_descriptor :: entity_descriptor
  rg_initial_state :: entity_state

definition validate_entity_registration ::
    "spec_registry \<Rightarrow> string \<Rightarrow> string list \<Rightarrow> string option \<Rightarrow> lowering_error + unit" where
  "validate_entity_registration specs domain_id features device_class =
     (case specs domain_id of
        None \<Rightarrow> Inl (UnknownDomain domain_id)
      | Some spec \<Rightarrow>
          (case validate_features spec features of
             Inl e \<Rightarrow> Inl (InvalidFeatures e)
           | Inr _ \<Rightarrow>
               (case device_class of
                  Some class \<Rightarrow>
                    if \<not> validate_device_class spec class then Inl (InvalidDeviceClass domain_id class) else Inr ()
                | None \<Rightarrow> Inr ())))"

definition default_state_for_domain :: "string \<Rightarrow> entity_state" where
  "default_state_for_domain d =
     (if d = ''sensor'' then Sensor (f64_of_nat 0) None Map.empty
      else if d = ''binary_sensor'' then BinarySensor False Map.empty
      else if d = ''switch'' then Switch False
      else if d = ''light'' then Light False None None None None
      else if d = ''climate'' then Climate ''off'' None None None
      else if d = ''fan'' then Fan False None None None
      else if d = ''cover'' then Cover CoverClosed None None
      else if d = ''lock'' then Lock Locked
      else if d = ''number'' then Number (f64_of_nat 0) (f64_of_nat 0) (f64_of_nat 100) (f64_of_nat 1) None
      else if d = ''select'' then Select [] []
      else if d = ''text'' then TextValue []
      else if d = ''button'' then Button
      else if d = ''event'' then Event [] Map.empty
      else if d = ''media_player'' then MediaPlayer MediaIdle None None None
      else if d = ''alarm_control_panel'' then AlarmControlPanel Disarmed None
      else if d = ''text_sensor'' then TextSensor []
      else if d = ''update'' then Update [] None False
      else Unavailable)"

definition lower_register_entity ::
    "spec_registry \<Rightarrow> string \<Rightarrow> string \<Rightarrow> string \<Rightarrow> string list \<Rightarrow> string option \<Rightarrow> lowering_error + entity_registration" where
  "lower_register_entity specs domain_id unique_id nm features device_class =
     (case validate_entity_registration specs domain_id features device_class of
        Inl e \<Rightarrow> Inl e
      | Inr _ \<Rightarrow>
          Inr \<lparr>rg_platform = domain_id, rg_unique_id = unique_id,
               rg_descriptor =
                 \<lparr>ed_entity_id = new_entity_id domain_id unique_id, ed_name = nm, ed_icon = None,
                  ed_device_id = None, ed_area_id = None, ed_category = NoCategory, ed_domain_id = domain_id,
                  ed_feature_set = features, ed_device_class = device_class\<rparr>,
               rg_initial_state = default_state_for_domain domain_id\<rparr>)"

definition lower_register_service :: "spec_registry \<Rightarrow> string \<Rightarrow> string \<Rightarrow> lowering_error + unit" where
  "lower_register_service specs domain_id service_name =
     (case specs domain_id of
        None \<Rightarrow> Inl (UnknownDomain domain_id)
      | Some spec \<Rightarrow>
          if \<not> has_service spec service_name then Inl (InvalidService domain_id service_name) else Inr ())"

text \<open>\<open>read\<close> stands for \<open>serde_json::from_slice\<close>: a state or the message of its error.\<close>

definition lower_state_update ::
    "(u8 list \<Rightarrow> string + entity_state) \<Rightarrow> spec_registry \<Rightarrow> string \<Rightarrow> u8 list \<Rightarrow> lowering_error + entity_state" where
  "lower_state_update read specs domain_id state_bytes =
     (case specs domain_id of
        None \<Rightarrow> Inl (UnknownDomain domain_id)
      | Some _ \<Rightarrow>
          (case read state_bytes of
             Inl e \<Rightarrow> Inl (StateSerialization e)
           | Inr s \<Rightarrow> Inr s))"

definition register_extension_domain :: "domain_spec \<Rightarrow> spec_registry \<Rightarrow> lowering_error + spec_registry" where
  "register_extension_domain spec specs =
     (case register_extension spec specs of
        Inl e \<Rightarrow> Inl (ExtensionRegistration e)
      | Inr specs' \<Rightarrow> Inr specs')"

section \<open>The context of an integration\<close>

record entity_handle_value =
  eh_platform :: string
  eh_unique_id :: string

record device_handle_value =
  dh_name :: string
  dh_model :: "string option"
  dh_manufacturer :: "string option"
  dh_unique_id :: string

record service_handle_value =
  sh_domain :: string
  sh_name :: string

record coordinator_handle_value =
  ch_name :: string
  ch_interval_ms :: u64

record capability_context =
  cx_entity_reg :: "entity_handle_value object_registry"
  cx_device_reg :: "device_handle_value object_registry"
  cx_service_reg :: "service_handle_value object_registry"
  cx_coordinator_reg :: "coordinator_handle_value object_registry"
  cx_discovery_reg :: "string object_registry"
  cx_specs :: spec_registry

definition new_context :: capability_context where
  "new_context =
     \<lparr>cx_entity_reg = new_object_registry, cx_device_reg = new_object_registry,
      cx_service_reg = new_object_registry, cx_coordinator_reg = new_object_registry,
      cx_discovery_reg = new_object_registry, cx_specs = built_in_specs\<rparr>"

definition alloc_entity :: "string \<Rightarrow> string \<Rightarrow> capability_context \<Rightarrow> handle \<times> capability_context" where
  "alloc_entity platform unique_id cx =
     (let (h, reg) = alloc \<lparr>eh_platform = platform, eh_unique_id = unique_id\<rparr> (READ OR WRITE) (cx_entity_reg cx)
      in (h, cx\<lparr>cx_entity_reg := reg\<rparr>))"

definition alloc_device ::
    "string \<Rightarrow> string option \<Rightarrow> string option \<Rightarrow> string \<Rightarrow> capability_context \<Rightarrow> handle \<times> capability_context" where
  "alloc_device nm model manufacturer unique_id cx =
     (let (h, reg) = alloc \<lparr>dh_name = nm, dh_model = model, dh_manufacturer = manufacturer, dh_unique_id = unique_id\<rparr>
                       (READ OR WRITE) (cx_device_reg cx)
      in (h, cx\<lparr>cx_device_reg := reg\<rparr>))"

definition alloc_service :: "string \<Rightarrow> string \<Rightarrow> capability_context \<Rightarrow> handle \<times> capability_context" where
  "alloc_service domain nm cx =
     (let (h, reg) = alloc \<lparr>sh_domain = domain, sh_name = nm\<rparr> INVOKE (cx_service_reg cx)
      in (h, cx\<lparr>cx_service_reg := reg\<rparr>))"

definition alloc_coordinator :: "string \<Rightarrow> u64 \<Rightarrow> capability_context \<Rightarrow> handle \<times> capability_context" where
  "alloc_coordinator nm interval_ms cx =
     (let (h, reg) = alloc \<lparr>ch_name = nm, ch_interval_ms = interval_ms\<rparr> INVOKE (cx_coordinator_reg cx)
      in (h, cx\<lparr>cx_coordinator_reg := reg\<rparr>))"

definition alloc_discovery :: "string \<Rightarrow> capability_context \<Rightarrow> handle \<times> capability_context" where
  "alloc_discovery protocol cx =
     (let (h, reg) = alloc protocol READ (cx_discovery_reg cx) in (h, cx\<lparr>cx_discovery_reg := reg\<rparr>))"

definition domain_aware_register_entity ::
    "string \<Rightarrow> string \<Rightarrow> string \<Rightarrow> string list \<Rightarrow> string option \<Rightarrow> capability_context \<Rightarrow>
     (lowering_error + handle \<times> entity_registration) \<times> capability_context" where
  "domain_aware_register_entity domain_id unique_id nm features device_class cx =
     (case lower_register_entity (cx_specs cx) domain_id unique_id nm features device_class of
        Inl e \<Rightarrow> (Inl e, cx)
      | Inr reg \<Rightarrow>
          let (h, cx') = alloc_entity (rg_platform reg) (rg_unique_id reg) cx in (Inr (h, reg), cx'))"

section \<open>The bridges\<close>

text \<open>The raw registrations of the import layer take the registry and drop the configuration.\<close>

definition bridge_register_entity ::
    "string \<Rightarrow> string \<Rightarrow> u8 list \<Rightarrow> entity_handle_value object_registry \<Rightarrow> handle \<times> entity_handle_value object_registry" where
  "bridge_register_entity platform unique_id config reg =
     alloc \<lparr>eh_platform = platform, eh_unique_id = unique_id\<rparr> (READ OR WRITE) reg"

definition bridge_register_device ::
    "string \<Rightarrow> string option \<Rightarrow> string option \<Rightarrow> string \<Rightarrow> device_handle_value object_registry \<Rightarrow>
     handle \<times> device_handle_value object_registry" where
  "bridge_register_device nm model manufacturer unique_id reg =
     alloc \<lparr>dh_name = nm, dh_model = model, dh_manufacturer = manufacturer, dh_unique_id = unique_id\<rparr> (READ OR WRITE) reg"

definition bridge_register_service ::
    "string \<Rightarrow> string \<Rightarrow> u8 list \<Rightarrow> service_handle_value object_registry \<Rightarrow> handle \<times> service_handle_value object_registry" where
  "bridge_register_service domain nm schema reg = alloc \<lparr>sh_domain = domain, sh_name = nm\<rparr> INVOKE reg"

definition create_coordinator ::
    "string \<Rightarrow> u64 \<Rightarrow> coordinator_handle_value object_registry \<Rightarrow> handle \<times> coordinator_handle_value object_registry" where
  "create_coordinator nm interval_ms reg = alloc \<lparr>ch_name = nm, ch_interval_ms = interval_ms\<rparr> INVOKE reg"

definition subscribe_discovery :: "string \<Rightarrow> string object_registry \<Rightarrow> handle \<times> string object_registry" where
  "subscribe_discovery protocol reg = alloc protocol READ reg"

definition unsubscribe_discovery :: "handle \<Rightarrow> string object_registry \<Rightarrow> (cap_error + unit) \<times> string object_registry" where
  "unsubscribe_discovery h reg = revoke h reg"

definition update_entity_state ::
    "entity_handle_value object_registry \<Rightarrow> handle \<Rightarrow> entity_state \<Rightarrow> 'w world \<Rightarrow> (cap_error + unit) \<times> 'w world" where
  "update_entity_state entity_reg h state w =
     (case cap_get entity_reg h WRITE of
        Inl e \<Rightarrow> (Inl e, w)
      | Inr entry \<Rightarrow>
          let entity_id = new_entity_id (eh_platform (oe_value entry)) (eh_unique_id (oe_value entry))
          in (case registered entity_id (w_registry w) of
                None \<Rightarrow> (Inl NotFound, w)
              | Some r \<Rightarrow> (Inr (), snd (send_entity r (SetState state) w))))"

section \<open>Facts\<close>

lemma validate_registration_iff:
  "validate_entity_registration specs d fs dc = Inr () \<longleftrightarrow>
     (\<exists>spec. specs d = Some spec \<and> set (ds_required_features spec) \<subseteq> set fs
        \<and> (case dc of None \<Rightarrow> True | Some c \<Rightarrow> validate_device_class spec c))"
proof (cases "specs d")
  case (Some spec)
  then show ?thesis
    using validate_features_iff [of spec fs]
    by (cases "validate_features spec fs") (auto simp: validate_entity_registration_def split: option.splits)
qed (simp add: validate_entity_registration_def)

lemma lower_register_Inr:
  "lower_register_entity specs d u nm fs dc = Inr reg \<longleftrightarrow>
     validate_entity_registration specs d fs dc = Inr () \<and>
     reg = \<lparr>rg_platform = d, rg_unique_id = u,
            rg_descriptor =
              \<lparr>ed_entity_id = new_entity_id d u, ed_name = nm, ed_icon = None,
               ed_device_id = None, ed_area_id = None, ed_category = NoCategory, ed_domain_id = d,
               ed_feature_set = fs, ed_device_class = dc\<rparr>,
            rg_initial_state = default_state_for_domain d\<rparr>"
  by (auto simp: lower_register_entity_def split: sum.splits)

lemma default_states_typed: "list_all (\<lambda>def. state_domain (default_state_for_domain (dd_id def)) = Some (dd_id def)) built_in_domains"
  unfolding built_in_domains_def by (simp add: domain_defs default_state_for_domain_def)

lemma default_state_typed: "get_domain d = Some def \<Longrightarrow> state_domain (default_state_for_domain d) = Some d"
  using default_states_typed get_domain_mem [of d def] by (auto simp: list_all_iff)

lemma built_in_ids:
  "map dd_id built_in_domains =
     [''sensor'', ''binary_sensor'', ''switch'', ''light'', ''climate'', ''fan'', ''cover'', ''lock'', ''number'',
      ''select'', ''text'', ''button'', ''media_player'', ''alarm_control_panel'', ''text_sensor'', ''update'', ''event'']"
  by (simp add: built_in_domains_def domain_defs)

lemma get_domain_None: "get_domain d = None \<longleftrightarrow> d \<notin> set (map dd_id built_in_domains)"
  by (force simp: get_domain_def map_of_eq_None_iff)

lemma default_state_extension: "get_domain d = None \<Longrightarrow> default_state_for_domain d = Unavailable"
  unfolding get_domain_None built_in_ids by (simp add: default_state_for_domain_def)

lemma alloc_get:
  "alloc v r reg = (h, reg') \<Longrightarrow>
     cap_get reg' h need =
       (if has_rights (r AND ALL_RIGHTS) need then Inr (new_entry v)
        else Inl (InsufficientRights need (r AND ALL_RIGHTS)))"
  by (auto simp: alloc_def Let_def cap_get_def decode_encode_handle new_entry_def)

lemma granted_write [simp]: "has_rights ((READ OR WRITE) AND ALL_RIGHTS) WRITE"
  by (simp add: has_rights_def READ_def WRITE_def ALL_RIGHTS_def)

section \<open>Properties\<close>

text \<open>C37. What a registration grants is typed. Whatever extension domains were registered
  before, an accepted registration in a built-in domain lists the features the domain
  requires and a device class it knows, its descriptor carries the entity id made of the
  domain and the unique id, and the entity starts in a state of exactly that domain; an
  entity of an extension domain starts unavailable.\<close>
theorem registrations_are_typed:
  assumes "lower_register_entity (register_all specs built_in_specs) d u nm fs dc = Inr reg"
  shows "ed_entity_id (rg_descriptor reg) = new_entity_id d u \<and> ed_domain_id (rg_descriptor reg) = d
    \<and> (case get_domain d of
         Some def \<Rightarrow> state_domain (rg_initial_state reg) = Some d \<and> set (dd_required def) \<subseteq> set fs
           \<and> (case dc of None \<Rightarrow> True | Some c \<Rightarrow> dd_device_classes def = [] \<or> c \<in> set (dd_device_classes def))
       | None \<Rightarrow> rg_initial_state reg = Unavailable)"
proof -
  from assms have ok: "validate_entity_registration (register_all specs built_in_specs) d fs dc = Inr ()"
    and reg: "rg_initial_state reg = default_state_for_domain d" "ed_entity_id (rg_descriptor reg) = new_entity_id d u"
      "ed_domain_id (rg_descriptor reg) = d"
    by (auto simp: lower_register_Inr)
  show ?thesis
  proof (cases "get_domain d")
    case None
    then show ?thesis using reg default_state_extension by simp
  next
    case (Some def)
    then have "register_all specs built_in_specs d = Some (from_def def)"
      by (intro register_all_keeps) (simp add: built_in_specs_get)
    then show ?thesis
      using ok Some reg default_state_typed [OF Some]
      by (auto simp: validate_registration_iff from_def_def validate_device_class_def split: option.splits)
  qed
qed

theorem registrations_are_typed_witness:
  "\<exists>reg. lower_register_entity (register_all [] built_in_specs) ''switch'' ''lamp'' ''Lamp'' [''state'', ''toggle''] None = Inr reg
     \<and> state_domain (rg_initial_state reg) = Some ''switch''"
proof -
  have def: "get_domain ''switch'' = Some switch_domain"
    by (simp add: get_domain_def built_in_domains_def domain_defs)
  then have "validate_entity_registration (register_all [] built_in_specs) ''switch'' [''state'', ''toggle''] None = Inr ()"
    by (simp add: validate_registration_iff register_all_def built_in_specs_get from_def_def domain_defs)
  then obtain reg where
    "lower_register_entity (register_all [] built_in_specs) ''switch'' ''lamp'' ''Lamp'' [''state'', ''toggle''] None = Inr reg"
    by (simp add: lower_register_entity_def)
  from registrations_are_typed [OF this] this def show ?thesis by simp
qed

text \<open>The domain of a state update is only looked up, never compared with the state: two
  registered domains accept the same bytes and yield the same state from them, so a sensor
  can be given the state of a switch.\<close>
theorem state_updates_not_typed:
  assumes "specs d \<noteq> None" and "specs d' \<noteq> None"
  shows "lower_state_update read specs d bytes = lower_state_update read specs d' bytes
    \<and> (read bytes = Inr s \<longrightarrow> lower_state_update read specs d bytes = Inr s)"
  using assms by (auto simp: lower_state_update_def split: option.splits sum.splits)

theorem state_updates_not_typed_witness:
  "lower_state_update (\<lambda>_. Inr (Switch True)) built_in_specs ''sensor'' [] = Inr (Switch True)"
proof -
  have "built_in_specs ''sensor'' \<noteq> None"
    by (simp add: built_in_specs_get get_domain_def built_in_domains_def domain_defs)
  then show ?thesis
    using state_updates_not_typed [of built_in_specs "''sensor''" "''sensor''" "\<lambda>_. Inr (Switch True)" "[]" "Switch True"]
    by simp
qed

text \<open>A handle reaches every entity of the runtime. Registering an entity checks nothing
  and starts no actor, so an integration that registers the platform and the unique id of
  any living entity, whoever owns it, gets a handle through which its next state update is
  stored as the state of that entity; under an id that no living entity has, every update
  through the new handle is answered with an error.\<close>
theorem integration_sets_any_entity:
  assumes "bridge_register_entity p u config reg = (h, reg')"
  shows "(registered (new_entity_id p u) (w_registry w) = None \<longrightarrow>
            update_entity_state reg' h s w = (Inl NotFound, w))
    \<and> (\<forall>r ea. registered (new_entity_id p u) (w_registry w) = Some r \<and> map_of (w_entities w) r = Some ea
          \<and> ea_mailbox ea = [] \<longrightarrow>
        fst (update_entity_state reg' h s w) = Inr ()
        \<and> store_get (actor_id_of ea) (w_store (fst (deliver ops now r (snd (update_entity_state reg' h s w))))) = Some s)"
proof -
  have get: "cap_get reg' h WRITE = Inr (new_entry \<lparr>eh_platform = p, eh_unique_id = u\<rparr>)"
    using alloc_get [of _ _ reg h reg' WRITE] assms by (simp add: bridge_register_entity_def)
  then show ?thesis
    by (auto simp: update_entity_state_def new_entry_def send_entity_def deliver_def entity_handle_def
        set_state_internal_def store_get_update actor_id_of_def)
qed

theorem integration_sets_any_entity_witness:
  "store_get ''switch.lamp'' (w_store (fst (deliver counted_watch 5 1
      (snd (update_entity_state (snd (bridge_register_entity ''switch'' ''lamp'' [] new_object_registry))
        (fst (bridge_register_entity ''switch'' ''lamp'' [] new_object_registry)) (Switch True) lamp_world)))))
   = Some (Switch True)"
proof -
  have "registered (new_entity_id ''switch'' ''lamp'') (w_registry lamp_world) = Some 1"
    by (simp add: lamp_world_def new_entity_id_def run_simps)
  then show ?thesis
    using integration_sets_any_entity [of "''switch''" "''lamp''" "[]" new_object_registry
        "fst (bridge_register_entity ''switch'' ''lamp'' [] new_object_registry)"
        "snd (bridge_register_entity ''switch'' ''lamp'' [] new_object_registry)" lamp_world "Switch True" counted_watch 5]
      lamp_actor
    by (simp add: actor_id_of_def lamp_def)
qed

end
