(* ===== verification/WasmHost.thy ===== *)
theory WasmHost
  imports DomainLowering
begin

text \<open>
  The host of the WASM integrations (\<open>rshome-wasm-host\<close>: \<open>host_actor.rs\<close>,
  \<open>integration_actor.rs\<close>, \<open>guest.rs\<close>). A guest is a value of a type \<open>'g\<close> with its exported
  functions as state transformers; a call runs on a blocking thread, and a panic there comes
  back as the text of the join error. The host loads guests and keeps the tables of the
  running integrations; each integration is an actor with a mailbox of its own. When the host
  asks an integration for diagnostics it waits, so the integration first handles what is in
  its mailbox.

  The lemmas show that the tables and the living actors agree in every run and in what order
  the functions of a guest are called during its life.
\<close>

section \<open>Guests\<close>

type_synonym key_values = "(string \<times> string) list"
type_synonym 'r joined = "string + 'r"

record 'g guest_ops =
  g_setup :: "key_values \<Rightarrow> 'g \<Rightarrow> (string + unit) joined \<times> 'g"
  g_teardown :: "'g \<Rightarrow> 'g"
  g_config_flow_step :: "string \<Rightarrow> key_values option \<Rightarrow> 'g \<Rightarrow> (string + u8 list) joined \<times> 'g"
  g_coordinator_update :: "u64 \<Rightarrow> 'g \<Rightarrow> (string + u8 list) joined \<times> 'g"
  g_get_diagnostics :: "'g \<Rightarrow> key_values joined \<times> 'g"
  g_repair_step :: "string \<Rightarrow> string \<Rightarrow> key_values option \<Rightarrow> 'g \<Rightarrow> (string + u8 list) joined \<times> 'g"

text \<open>The guest that wraps a WASM component; its bytes are its state. The checks of \<open>new\<close>
  are all the validation there is, and every export but \<open>setup\<close> is still to come.\<close>

definition WASM_MAGIC :: "u8 list" where
  "WASM_MAGIC = [0x00, 0x61, 0x73, 0x6D]"

definition new_wasm_guest :: "u8 list \<Rightarrow> string + u8 list" where
  "new_wasm_guest wasm_bytes =
     (if length wasm_bytes < 8 then Inl ''WASM bytes too short''
      else if take 4 wasm_bytes \<noteq> WASM_MAGIC then Inl (''invalid WASM magic (expected '' @ CHR 0x5C # ''0asm)'')
      else Inr wasm_bytes)"

definition deferred :: string where
  "deferred = ''WasmGuest component execution not yet implemented (Phase 6)''"

definition wasm_guest :: "u8 list guest_ops" where
  "wasm_guest =
     \<lparr>g_setup = (\<lambda>_ g. (Inr (Inr ()), g)), g_teardown = (\<lambda>g. g),
      g_config_flow_step = (\<lambda>_ _ g. (Inr (Inl deferred), g)),
      g_coordinator_update = (\<lambda>_ g. (Inr (Inl deferred), g)),
      g_get_diagnostics = (\<lambda>g. (Inr [(''status'', ''wasm_execution_deferred'')], g)),
      g_repair_step = (\<lambda>_ _ _ g. (Inr (Inl deferred), g))\<rparr>"

text \<open>The test double records every call.\<close>

datatype guest_call =
    SetupCall key_values
  | TeardownCall
  | ConfigFlowCall string "key_values option"
  | CoordinatorCall u64
  | DiagnosticsCall
  | RepairCall string string "key_values option"

record mock_guest =
  mg_calls :: "guest_call list"
  mg_setup_error :: "string option"
  mg_config_flow_bytes :: "u8 list"
  mg_config_flow_error :: "string option"
  mg_coordinator_bytes :: "u8 list"
  mg_coordinator_error :: "string option"
  mg_diagnostics :: key_values
  mg_repair_bytes :: "u8 list"
  mg_repair_error :: "string option"

definition record_call :: "guest_call \<Rightarrow> mock_guest \<Rightarrow> mock_guest" where
  "record_call c g = g\<lparr>mg_calls := mg_calls g @ [c]\<rparr>"

definition outcome :: "string option \<Rightarrow> 'r \<Rightarrow> string + 'r" where
  "outcome err r = (case err of Some e \<Rightarrow> Inl e | None \<Rightarrow> Inr r)"

definition mock_ops :: "mock_guest guest_ops" where
  "mock_ops =
     \<lparr>g_setup = (\<lambda>config g. (Inr (outcome (mg_setup_error g) ()), record_call (SetupCall config) g)),
      g_teardown = (\<lambda>g. record_call TeardownCall g),
      g_config_flow_step = (\<lambda>step_id user_input g.
        (Inr (outcome (mg_config_flow_error g) (mg_config_flow_bytes g)), record_call (ConfigFlowCall step_id user_input) g)),
      g_coordinator_update = (\<lambda>h g.
        (Inr (outcome (mg_coordinator_error g) (mg_coordinator_bytes g)), record_call (CoordinatorCall h) g)),
      g_get_diagnostics = (\<lambda>g. (Inr (mg_diagnostics g), record_call DiagnosticsCall g)),
      g_repair_step = (\<lambda>repair_id step_id user_input g.
        (Inr (outcome (mg_repair_error g) (mg_repair_bytes g)), record_call (RepairCall repair_id step_id user_input) g))\<rparr>"

section \<open>An integration\<close>

text \<open>The number of a message stands for its reply channel.\<close>

datatype integration_msg =
    ConfigFlowStep string "key_values option" nat
  | RunCoordinator u64
  | RepairStep string string "key_values option" nat
  | GetDiagnostics nat
  | StopIntegration

datatype integration_reply =
    StepResult nat "string + u8 list"
  | Diagnostics nat key_values

record 'g integration_actor =
  ia_name :: string
  ia_guest :: 'g
  ia_ctx :: capability_context
  ia_mailbox :: "integration_msg list"

definition new_integration :: "string \<Rightarrow> 'g \<Rightarrow> capability_context \<Rightarrow> 'g integration_actor" where
  "new_integration nm guest cx = \<lparr>ia_name = nm, ia_guest = guest, ia_ctx = cx, ia_mailbox = []\<rparr>"

definition step_result :: "(string + u8 list) joined \<Rightarrow> string + u8 list" where
  "step_result r = (case r of Inl e \<Rightarrow> Inl (''spawn_blocking panicked: '' @ e) | Inr res \<Rightarrow> res)"

text \<open>The handler; the last component is the request to stop.\<close>

definition integration_handle ::
    "'g guest_ops \<Rightarrow> integration_msg \<Rightarrow> 'g integration_actor \<Rightarrow> 'g integration_actor \<times> integration_reply list \<times> bool" where
  "integration_handle ops msg ia =
     (case msg of
        ConfigFlowStep step_id user_input ch \<Rightarrow>
          let (r, g) = g_config_flow_step ops step_id user_input (ia_guest ia)
          in (ia\<lparr>ia_guest := g\<rparr>, [StepResult ch (step_result r)], False)
      | RunCoordinator h \<Rightarrow> (ia\<lparr>ia_guest := snd (g_coordinator_update ops h (ia_guest ia))\<rparr>, [], False)
      | RepairStep repair_id step_id user_input ch \<Rightarrow>
          let (r, g) = g_repair_step ops repair_id step_id user_input (ia_guest ia)
          in (ia\<lparr>ia_guest := g\<rparr>, [StepResult ch (step_result r)], False)
      | GetDiagnostics ch \<Rightarrow>
          let (r, g) = g_get_diagnostics ops (ia_guest ia)
          in (ia\<lparr>ia_guest := g\<rparr>, [Diagnostics ch (case r of Inl _ \<Rightarrow> [] | Inr kvs \<Rightarrow> kvs)], False)
      | StopIntegration \<Rightarrow> (ia, [], True))"

definition integration_post_stop :: "'g guest_ops \<Rightarrow> 'g integration_actor \<Rightarrow> 'g" where
  "integration_post_stop ops ia = g_teardown ops (ia_guest ia)"

section \<open>The host\<close>

type_synonym integration_id = string

definition new_integration_id :: "u64 \<Rightarrow> integration_id" where
  "new_integration_id n = ''integration_'' @ show_nat (unat n)"

datatype integration_status = StatusRunning | StatusFailed

record integration_info =
  ii_id :: integration_id
  ii_name :: string
  ii_status :: integration_status

datatype host_error =
    IntegrationNotFound integration_id
  | WasmValidation string
  | SetupFailed string
  | ActorError string

datatype host_msg =
    Load string "u8 list" key_values
  | Unload integration_id
  | ListIntegrations
  | HostDiagnostics integration_id
  | StopHost

datatype host_reply =
    Loaded "host_error + integration_id"
  | Unloaded "host_error + unit"
  | Listed "integration_info list"
  | HostDiagnosed "host_error + key_values"
  | FromIntegration integration_reply

text \<open>The world of a host: its two tables, the counter of ids, the integration actors that
  live, and what became of the other guests: torn down at their end, or dropped when their
  setup failed.\<close>

record 'g host_world =
  hw_integrations :: "(integration_id \<times> actor_ref) list"
  hw_info :: "(integration_id \<times> integration_info) list"
  hw_next_id :: u64
  hw_actors :: "(actor_ref \<times> 'g integration_actor) list"
  hw_next :: actor_ref
  hw_ended :: "'g list"
  hw_rejected :: "'g list"
  hw_stopped :: bool

definition new_host :: "'g host_world" where
  "new_host =
     \<lparr>hw_integrations = [], hw_info = [], hw_next_id = 1, hw_actors = [], hw_next = 0,
      hw_ended = [], hw_rejected = [], hw_stopped = False\<rparr>"

text \<open>The factory of the production constructor.\<close>

definition wasm_factory :: "u8 list \<Rightarrow> host_error + u8 list" where
  "wasm_factory bytes = (case new_wasm_guest bytes of Inl e \<Rightarrow> Inl (WasmValidation e) | Inr g \<Rightarrow> Inr g)"

definition end_actor :: "'g guest_ops \<Rightarrow> actor_ref \<Rightarrow> 'g integration_actor \<Rightarrow> 'g host_world \<Rightarrow> 'g host_world" where
  "end_actor ops r ia w =
     w\<lparr>hw_actors := reg_remove r (hw_actors w), hw_ended := hw_ended w @ [integration_post_stop ops ia]\<rparr>"

definition send_integration :: "actor_ref \<Rightarrow> integration_msg \<Rightarrow> 'g host_world \<Rightarrow> bool \<times> 'g host_world" where
  "send_integration r msg w =
     (case map_of (hw_actors w) r of
        None \<Rightarrow> (False, w)
      | Some ia \<Rightarrow> (True, w\<lparr>hw_actors := reg_insert r (ia\<lparr>ia_mailbox := ia_mailbox ia @ [msg]\<rparr>) (hw_actors w)\<rparr>))"

text \<open>The actor \<open>r\<close> takes its next message.\<close>

definition integration_step :: "'g guest_ops \<Rightarrow> actor_ref \<Rightarrow> 'g host_world \<Rightarrow> integration_reply list \<times> 'g host_world" where
  "integration_step ops r w =
     (case map_of (hw_actors w) r of
        None \<Rightarrow> ([], w)
      | Some ia \<Rightarrow>
          (case ia_mailbox ia of
             [] \<Rightarrow> ([], w)
           | msg # rest \<Rightarrow>
               (case integration_handle ops msg (ia\<lparr>ia_mailbox := rest\<rparr>) of
                  (ia', out, False) \<Rightarrow> (out, w\<lparr>hw_actors := reg_insert r ia' (hw_actors w)\<rparr>)
                | (ia', out, True) \<Rightarrow> (out, end_actor ops r ia' w))))"

text \<open>The actor \<open>r\<close> handles \<open>n\<close> messages.\<close>

fun integration_steps :: "'g guest_ops \<Rightarrow> actor_ref \<Rightarrow> nat \<Rightarrow> 'g host_world \<Rightarrow> integration_reply list \<times> 'g host_world" where
  "integration_steps ops r 0 w = ([], w)"
| "integration_steps ops r (Suc n) w =
     (let (out, w1) = integration_step ops r w; (outs, w2) = integration_steps ops r n w1 in (out @ outs, w2))"

definition load_integration ::
    "'g guest_ops \<Rightarrow> (u8 list \<Rightarrow> host_error + 'g) \<Rightarrow> string \<Rightarrow> u8 list \<Rightarrow> key_values \<Rightarrow>
     'g host_world \<Rightarrow> (host_error + integration_id) \<times> 'g host_world" where
  "load_integration ops factory nm wasm_bytes config w =
     (if list_ex (\<lambda>i. ii_name i = nm) (map snd (hw_info w))
      then (Inl (SetupFailed (''integration '' @ quoted nm @ '' already loaded'')), w)
      else case factory wasm_bytes of
        Inl e \<Rightarrow> (Inl e, w)
      | Inr guest \<Rightarrow>
          (case g_setup ops config guest of
             (Inr (Inr _), g) \<Rightarrow>
               let r = hw_next w; i = new_integration_id (hw_next_id w)
               in (Inr i,
                   w\<lparr>hw_actors := reg_insert r (new_integration nm g new_context) (hw_actors w), hw_next := Suc r,
                     hw_next_id := hw_next_id w + 1,
                     hw_integrations := reg_insert i r (hw_integrations w),
                     hw_info := reg_insert i \<lparr>ii_id = i, ii_name = nm, ii_status = StatusRunning\<rparr> (hw_info w)\<rparr>)
           | (Inr (Inl e), g) \<Rightarrow> (Inl (SetupFailed e), w\<lparr>hw_rejected := hw_rejected w @ [g]\<rparr>)
           | (Inl e, g) \<Rightarrow> (Inl (SetupFailed e), w\<lparr>hw_rejected := hw_rejected w @ [g]\<rparr>)))"

definition unload_integration :: "integration_id \<Rightarrow> 'g host_world \<Rightarrow> (host_error + unit) \<times> 'g host_world" where
  "unload_integration i w =
     (case map_of (hw_integrations w) i of
        None \<Rightarrow> (Inl (IntegrationNotFound i), w)
      | Some r \<Rightarrow>
          (Inr (),
           snd (send_integration r StopIntegration
             (w\<lparr>hw_integrations := reg_remove i (hw_integrations w), hw_info := reg_remove i (hw_info w)\<rparr>))))"

text \<open>The wait of the host: the integration works off its mailbox up to the request, whose
  channel \<open>ch\<close> is fresh. When the actor ends before, the channel is dropped.\<close>

definition diagnose ::
    "'g guest_ops \<Rightarrow> nat \<Rightarrow> integration_id \<Rightarrow> 'g host_world \<Rightarrow>
     (host_error + key_values) \<times> integration_reply list \<times> 'g host_world" where
  "diagnose ops ch i w =
     (case map_of (hw_integrations w) i of
        None \<Rightarrow> (Inl (IntegrationNotFound i), [], w)
      | Some r \<Rightarrow>
          (case map_of (hw_actors w) r of
             None \<Rightarrow> (Inl (ActorError ''actor disconnected''), [], w)
           | Some ia \<Rightarrow>
               let (out, w') = integration_steps ops r (Suc (length (ia_mailbox ia)))
                                 (snd (send_integration r (GetDiagnostics ch) w))
               in (case find (\<lambda>rep. case rep of Diagnostics c _ \<Rightarrow> c = ch | _ \<Rightarrow> False) out of
                     Some (Diagnostics _ kvs) \<Rightarrow> (Inr kvs, out, w')
                   | _ \<Rightarrow> (Inl (ActorError ''reply channel dropped''), out, w'))))"

text \<open>Stopping the host stops its children: each is torn down, whatever its mailbox holds.\<close>

definition stop_host :: "'g guest_ops \<Rightarrow> 'g host_world \<Rightarrow> 'g host_world" where
  "stop_host ops w =
     w\<lparr>hw_stopped := True, hw_ended := hw_ended w @ map (\<lambda>(_, ia). integration_post_stop ops ia) (hw_actors w),
       hw_actors := []\<rparr>"

definition handle_host ::
    "'g guest_ops \<Rightarrow> (u8 list \<Rightarrow> host_error + 'g) \<Rightarrow> nat \<Rightarrow> host_msg \<Rightarrow> 'g host_world \<Rightarrow> host_reply list \<times> 'g host_world" where
  "handle_host ops factory ch msg w =
     (case msg of
        Load nm wasm_bytes config \<Rightarrow>
          let (r, w') = load_integration ops factory nm wasm_bytes config w in ([Loaded r], w')
      | Unload i \<Rightarrow> let (r, w') = unload_integration i w in ([Unloaded r], w')
      | ListIntegrations \<Rightarrow> ([Listed (map snd (hw_info w))], w)
      | HostDiagnostics i \<Rightarrow>
          let (r, out, w') = diagnose ops ch i w in (map FromIntegration out @ [HostDiagnosed r], w')
      | StopHost \<Rightarrow> ([], stop_host ops w))"

section \<open>Runs\<close>

text \<open>What happens to a host: its own messages (with a fresh channel for a diagnosis), the
  messages that coordinators and the user interface send to an integration, and the steps of
  the integrations. Only the host sends \<open>StopIntegration\<close>.\<close>

datatype host_event =
    HostEvent nat host_msg
  | ToIntegration actor_ref integration_msg
  | IntegrationRuns actor_ref

fun perform_host :: "'g guest_ops \<Rightarrow> (u8 list \<Rightarrow> host_error + 'g) \<Rightarrow> host_event \<Rightarrow> 'g host_world \<Rightarrow> 'g host_world" where
  "perform_host ops factory (HostEvent ch msg) w =
     (if hw_stopped w then w else snd (handle_host ops factory ch msg w))"
| "perform_host ops factory (ToIntegration r msg) w =
     (if msg = StopIntegration then w else snd (send_integration r msg w))"
| "perform_host ops factory (IntegrationRuns r) w = snd (integration_step ops r w)"

definition run_host ::
    "'g guest_ops \<Rightarrow> (u8 list \<Rightarrow> host_error + 'g) \<Rightarrow> host_event list \<Rightarrow> 'g host_world \<Rightarrow> 'g host_world" where
  "run_host ops factory evs w = fold (perform_host ops factory) evs w"

fun loads :: "host_event list \<Rightarrow> nat" where
  "loads [] = 0"
| "loads (HostEvent _ (Load _ _ _) # evs) = Suc (loads evs)"
| "loads (_ # evs) = loads evs"

section \<open>The tables and the actors\<close>

definition tables_ok :: "'g host_world \<Rightarrow> bool" where
  "tables_ok w \<longleftrightarrow>
     distinct (map fst (hw_info w)) \<and> fst ` set (hw_integrations w) = fst ` set (hw_info w)
     \<and> (\<forall>(i, x) \<in> set (hw_info w). ii_id x = i \<and> ii_status x = StatusRunning)
     \<and> inj_on (\<lambda>(i, x). ii_name x) (set (hw_info w))
     \<and> (\<forall>i \<in> fst ` set (hw_info w). \<exists>n. n < unat (hw_next_id w) \<and> i = ''integration_'' @ show_nat n)"

text \<open>The table of references agrees with the actors below \<open>n\<close>: an actor has a stop in its
  mailbox exactly when it is not in the table, and what is in the table lives, until the
  host has stopped.\<close>

definition stopping :: "'g integration_actor \<Rightarrow> bool" where
  "stopping ia \<longleftrightarrow> StopIntegration \<in> set (ia_mailbox ia)"

definition agree ::
    "(integration_id \<rightharpoonup> actor_ref) \<Rightarrow> (actor_ref \<rightharpoonup> 'g integration_actor) \<Rightarrow> actor_ref \<Rightarrow> bool \<Rightarrow> bool" where
  "agree I A n stopped \<longleftrightarrow>
     (\<forall>r ia. A r = Some ia \<longrightarrow> r < n \<and> (stopping ia \<longleftrightarrow> (\<forall>i. I i \<noteq> Some r)))
     \<and> (\<forall>i r. I i = Some r \<longrightarrow> r < n \<and> (stopped \<or> (\<exists>ia. A r = Some ia)))
     \<and> (\<forall>i j r. I i = Some r \<longrightarrow> I j = Some r \<longrightarrow> i = j)"

definition actors_ok :: "'g host_world \<Rightarrow> bool" where
  "actors_ok w \<longleftrightarrow> agree (map_of (hw_integrations w)) (map_of (hw_actors w)) (hw_next w) (hw_stopped w)"

lemma agree_put:
  assumes "agree I A n st" and "A r = Some ia" and "stopping ia' = stopping ia"
  shows "agree I (A(r \<mapsto> ia')) n st"
  using assms by (auto simp: agree_def)

lemma agree_drop:
  assumes "agree I A n st" and "A r = Some ia" and "stopping ia"
  shows "agree I (A(r := None)) n st"
  using assms by (auto simp: agree_def)

lemma agree_new:
  assumes "agree I A n st" and "I i = None" and "\<not> stopping ia"
  shows "agree (I(i \<mapsto> n)) (A(n \<mapsto> ia)) (Suc n) st"
proof -
  have "I j \<noteq> Some n" for j using assms(1) by (auto simp: agree_def)
  then show ?thesis
    using assms unfolding agree_def by (auto simp: less_Suc_eq split: if_splits) (metis option.distinct(1))
qed

lemma agree_unload:
  assumes "agree I A n st" and "I i = Some r" and "A r = Some ia" and "stopping ia'"
  shows "agree (I(i := None)) (A(r \<mapsto> ia')) n st"
proof -
  have "I j = Some r \<longleftrightarrow> j = i" for j using assms(1, 2) by (auto simp: agree_def)
  then show ?thesis
    using assms unfolding agree_def by (auto split: if_splits) (metis option.inject)
qed

lemma agree_stop: "agree I A n st \<Longrightarrow> agree I Map.empty n True"
  by (simp add: agree_def)

definition host_ok :: "'g host_world \<Rightarrow> bool" where
  "host_ok w \<longleftrightarrow> tables_ok w \<and> actors_ok w"

lemma handle_frame:
  "integration_handle ops msg ia = (ia', out, b) \<Longrightarrow>
     ia_mailbox ia' = ia_mailbox ia \<and> ia_name ia' = ia_name ia \<and> (b \<longleftrightarrow> msg = StopIntegration)"
  by (cases msg) (auto simp: integration_handle_def split: prod.splits)

lemma tables_frame:
  "hw_info w' = hw_info w \<Longrightarrow> hw_integrations w' = hw_integrations w \<Longrightarrow> hw_next_id w' = hw_next_id w \<Longrightarrow>
     tables_ok w \<Longrightarrow> tables_ok w'"
  by (simp add: tables_ok_def)

text \<open>A step of the integrations changes nothing but the actors.\<close>

definition same_tables :: "'g host_world \<Rightarrow> 'g host_world \<Rightarrow> bool" where
  "same_tables w w' \<longleftrightarrow>
     hw_info w' = hw_info w \<and> hw_integrations w' = hw_integrations w \<and> hw_next_id w' = hw_next_id w
     \<and> hw_next w' = hw_next w \<and> hw_stopped w' = hw_stopped w"

lemma send_ok:
  assumes "send_integration r msg w = (sent, w')" and "msg \<noteq> StopIntegration" and "actors_ok w"
  shows "actors_ok w' \<and> same_tables w w'"
proof (cases "map_of (hw_actors w) r")
  case None
  then show ?thesis using assms by (simp add: send_integration_def same_tables_def)
next
  case (Some ia)
  have "agree (map_of (hw_integrations w)) ((map_of (hw_actors w))(r \<mapsto> ia\<lparr>ia_mailbox := ia_mailbox ia @ [msg]\<rparr>))
          (hw_next w) (hw_stopped w)"
    using assms(2, 3) Some by (intro agree_put) (auto simp: actors_ok_def stopping_def)
  then show ?thesis using assms(1) Some by (auto simp: send_integration_def same_tables_def actors_ok_def)
qed

lemma step_ok:
  assumes "integration_step ops r w = (out, w')" and "actors_ok w"
  shows "actors_ok w' \<and> same_tables w w'"
proof (cases "map_of (hw_actors w) r")
  case None
  then show ?thesis using assms by (simp add: integration_step_def same_tables_def)
next
  case (Some ia)
  show ?thesis
  proof (cases "ia_mailbox ia")
    case Nil
    then show ?thesis using Some assms by (simp add: integration_step_def same_tables_def)
  next
    case (Cons msg rest)
    obtain ia' o1 b where h: "integration_handle ops msg (ia\<lparr>ia_mailbox := rest\<rparr>) = (ia', o1, b)"
      by (metis prod_cases3)
    note f = handle_frame [OF h]
    let ?A = "map_of (hw_actors w)"
    have "agree (map_of (hw_integrations w)) (if b then ?A(r := None) else ?A(r \<mapsto> ia')) (hw_next w) (hw_stopped w)"
      using assms(2) Some f Cons agree_put [of _ ?A _ _ r ia ia'] agree_drop [of _ ?A _ _ r ia]
      by (auto simp: actors_ok_def stopping_def)
    then show ?thesis
      using Some Cons assms(1) h
      by (cases b) (auto simp: integration_step_def end_actor_def same_tables_def actors_ok_def)
  qed
qed

lemma same_tables_trans: "same_tables w w1 \<Longrightarrow> same_tables w1 w2 \<Longrightarrow> same_tables w w2"
  by (simp add: same_tables_def)

lemma steps_ok:
  "integration_steps ops r n w = (out, w') \<Longrightarrow> actors_ok w \<Longrightarrow> actors_ok w' \<and> same_tables w w'"
proof (induction n arbitrary: w out)
  case 0
  then show ?case by (simp add: same_tables_def)
next
  case (Suc n)
  obtain o1 w1 o2 where "integration_step ops r w = (o1, w1)" "integration_steps ops r n w1 = (o2, w')"
    using Suc.prems(1) by (auto split: prod.splits)
  then show ?case using Suc step_ok same_tables_trans by blast
qed

lemma diagnose_ok:
  assumes "diagnose ops ch i w = (res, out, w')" and "actors_ok w"
  shows "actors_ok w' \<and> same_tables w w'"
proof (cases "map_of (hw_integrations w) i")
  case None
  then show ?thesis using assms by (simp add: diagnose_def same_tables_def)
next
  case (Some r)
  show ?thesis
  proof (cases "map_of (hw_actors w) r")
    case None
    then show ?thesis using Some assms by (simp add: diagnose_def same_tables_def)
  next
    case (Some ia)
    obtain sent w1 where send: "send_integration r (GetDiagnostics ch) w = (sent, w1)" by fastforce
    obtain outs w2 where steps: "integration_steps ops r (Suc (length (ia_mailbox ia))) w1 = (outs, w2)" by fastforce
    have "w' = w2"
      using assms(1) Some \<open>map_of (hw_integrations w) i = Some r\<close> send steps
      by (auto simp: diagnose_def simp del: integration_steps.simps split: option.splits integration_reply.splits)
    then show ?thesis
      using send_ok [OF send _ assms(2)] steps_ok [OF steps] same_tables_trans by blast
  qed
qed

lemma load_ok:
  assumes "load_integration ops factory nm bytes config w = (res, w')" and "host_ok w"
    and "unat (hw_next_id w) + 1 < 2 ^ 64"
  shows "host_ok w' \<and> (hw_next_id w' = hw_next_id w \<or> hw_next_id w' = hw_next_id w + 1)"
proof (cases "\<exists>i. res = Inr i")
  case False
  then have "hw_info w' = hw_info w" "hw_integrations w' = hw_integrations w" "hw_next_id w' = hw_next_id w"
    "hw_actors w' = hw_actors w" "hw_next w' = hw_next w" "hw_stopped w' = hw_stopped w"
    using assms(1) by (auto simp: load_integration_def Let_def split: if_splits sum.splits prod.splits)
  then show ?thesis using assms(2) by (simp add: host_ok_def tables_ok_def actors_ok_def)
next
  case True
  let ?i = "new_integration_id (hw_next_id w)"
  obtain g where new: "\<not> list_ex (\<lambda>i. ii_name i = nm) (map snd (hw_info w))"
    and w': "w' = w\<lparr>hw_actors := reg_insert (hw_next w) (new_integration nm g new_context) (hw_actors w),
                   hw_next := Suc (hw_next w), hw_next_id := hw_next_id w + 1,
                   hw_integrations := reg_insert ?i (hw_next w) (hw_integrations w),
                   hw_info := reg_insert ?i \<lparr>ii_id = ?i, ii_name = nm, ii_status = StatusRunning\<rparr> (hw_info w)\<rparr>"
    using assms(1) True by (auto simp: load_integration_def Let_def split: if_splits sum.splits prod.splits)
  have fresh: "?i \<notin> fst ` set (hw_info w)"
    using assms(2) show_nat_inj by (fastforce simp: host_ok_def tables_ok_def new_integration_id_def)
  then have none: "?i \<notin> fst ` set (hw_integrations w)" using assms(2) by (simp add: host_ok_def tables_ok_def)
  have next_id: "unat (hw_next_id w + 1) = Suc (unat (hw_next_id w))"
    using assms(3) by (simp add: unat_word_ariths)
  have "agree ((map_of (hw_integrations w))(?i \<mapsto> hw_next w)) ((map_of (hw_actors w))(hw_next w \<mapsto> new_integration nm g new_context))
          (Suc (hw_next w)) (hw_stopped w)"
    using assms(2) none
    by (intro agree_new) (auto simp: host_ok_def actors_ok_def stopping_def new_integration_def map_of_eq_None_iff)
  moreover have "tables_ok w'"
    using assms(2) new fresh none
    by (fastforce simp: tables_ok_def host_ok_def w' reg_insert_new next_id inj_on_def list_ex_iff
        new_integration_id_def less_Suc_eq)
  ultimately show ?thesis by (simp add: host_ok_def actors_ok_def w')
qed

lemma image_reg_remove: "fst ` set (reg_remove i m) = fst ` set m - {i}"
  by (force simp: reg_remove_def)

lemma tables_remove:
  assumes "tables_ok w" and "hw_info w' = reg_remove i (hw_info w)"
    and "hw_integrations w' = reg_remove i (hw_integrations w)" and "hw_next_id w' = hw_next_id w"
  shows "tables_ok w'"
proof -
  note ok = assms(1) [unfolded tables_ok_def]
  have "distinct (map fst (hw_info w'))" using ok assms(2) by (simp add: distinct_reg_remove)
  moreover have "fst ` set (hw_integrations w') = fst ` set (hw_info w')"
    unfolding assms(2, 3) image_reg_remove using ok by simp
  moreover have "\<forall>(i, x) \<in> set (hw_info w'). ii_id x = i \<and> ii_status x = StatusRunning"
    using ok assms(2) by simp
  moreover have "inj_on (\<lambda>(i, x). ii_name x) (set (hw_info w'))"
    using ok assms(2) by (elim conjE inj_on_subset) simp
  moreover have "\<forall>i \<in> fst ` set (hw_info w'). \<exists>n. n < unat (hw_next_id w') \<and> i = ''integration_'' @ show_nat n"
    unfolding assms(2, 4) image_reg_remove using ok by blast
  ultimately show ?thesis unfolding tables_ok_def by blast
qed

lemma unload_ok:
  assumes "unload_integration i w = (res, w')" and "host_ok w" and "\<not> hw_stopped w"
  shows "host_ok w' \<and> hw_next_id w' = hw_next_id w"
proof (cases "map_of (hw_integrations w) i")
  case None
  then show ?thesis using assms by (simp add: unload_integration_def)
next
  case (Some r)
  have agree: "agree (map_of (hw_integrations w)) (map_of (hw_actors w)) (hw_next w) (hw_stopped w)"
    and tables: "tables_ok w"
    using assms(2) by (simp_all add: host_ok_def actors_ok_def)
  then obtain ia where ia: "map_of (hw_actors w) r = Some ia"
    using Some assms(3) unfolding agree_def by blast
  let ?ia = "ia\<lparr>ia_mailbox := ia_mailbox ia @ [StopIntegration]\<rparr>"
  have w': "w' = w\<lparr>hw_integrations := reg_remove i (hw_integrations w), hw_info := reg_remove i (hw_info w),
      hw_actors := reg_insert r ?ia (hw_actors w)\<rparr>"
    using assms(1) Some ia by (simp add: unload_integration_def send_integration_def)
  have "agree ((map_of (hw_integrations w))(i := None)) ((map_of (hw_actors w))(r \<mapsto> ?ia)) (hw_next w) (hw_stopped w)"
    by (rule agree_unload [OF agree Some ia]) (simp add: stopping_def)
  moreover have "tables_ok w'"
    by (rule tables_remove [OF tables, of _ i]) (simp_all add: w')
  ultimately show ?thesis by (simp add: host_ok_def actors_ok_def w')
qed

lemma stop_ok: "host_ok w \<Longrightarrow> host_ok (stop_host ops w) \<and> hw_next_id (stop_host ops w) = hw_next_id w"
  by (auto simp: host_ok_def stop_host_def actors_ok_def tables_ok_def dest: agree_stop)

lemma same_host_ok: "host_ok w \<Longrightarrow> actors_ok w' \<Longrightarrow> same_tables w w' \<Longrightarrow> host_ok w' \<and> hw_next_id w' = hw_next_id w"
  by (auto simp: host_ok_def same_tables_def intro: tables_frame)

lemma perform_ok:
  assumes "host_ok w" and "unat (hw_next_id w) + loads [ev] < 2 ^ 64"
  shows "host_ok (perform_host ops factory ev w)
    \<and> unat (hw_next_id (perform_host ops factory ev w)) \<le> unat (hw_next_id w) + loads [ev]"
proof (cases ev)
  case (HostEvent ch msg)
  show ?thesis
  proof (cases "hw_stopped w")
    case False
    show ?thesis
    proof (cases msg)
      case (Load nm bytes config)
      obtain res w' where l: "load_integration ops factory nm bytes config w = (res, w')" by fastforce
      then show ?thesis
        using load_ok [OF l assms(1)] assms(2) HostEvent Load False
        by (auto simp: handle_host_def unat_word_ariths)
    next
      case (Unload i)
      obtain res w' where "unload_integration i w = (res, w')" by fastforce
      then show ?thesis
        using unload_ok assms(1) HostEvent Unload False by (fastforce simp: handle_host_def)
    next
      case (HostDiagnostics i)
      obtain res out w' where d: "diagnose ops ch i w = (res, out, w')" by (metis prod_cases3)
      then show ?thesis
        using diagnose_ok [OF d] same_host_ok assms(1) HostEvent HostDiagnostics False
        by (auto simp: handle_host_def host_ok_def)
    qed (use assms HostEvent stop_ok in \<open>auto simp: handle_host_def\<close>)
  qed (use assms HostEvent in simp)
next
  case (ToIntegration r msg)
  obtain sent w' where send: "send_integration r msg w = (sent, w')" by fastforce
  then show ?thesis
    using send_ok [OF send] same_host_ok assms(1) ToIntegration by (auto simp: host_ok_def)
next
  case (IntegrationRuns r)
  obtain out w' where step: "integration_step ops r w = (out, w')" by fastforce
  then show ?thesis
    using step_ok [OF step] same_host_ok assms(1) IntegrationRuns by (auto simp: host_ok_def)
qed

lemma loads_Cons: "loads (ev # evs) = loads [ev] + loads evs"
proof (cases ev)
  case (HostEvent ch msg)
  then show ?thesis by (cases msg) auto
qed auto

lemma run_host_ok:
  "host_ok w \<Longrightarrow> unat (hw_next_id w) + loads evs < 2 ^ 64 \<Longrightarrow> host_ok (run_host ops factory evs w)"
proof (induction evs arbitrary: w)
  case (Cons ev evs)
  let ?w = "perform_host ops factory ev w"
  have "host_ok ?w \<and> unat (hw_next_id ?w) \<le> unat (hw_next_id w) + loads [ev]"
    using Cons.prems loads_Cons [of ev evs] by (intro perform_ok) auto
  then show ?case
    using Cons.IH [of ?w] Cons.prems(2) loads_Cons [of ev evs] by (simp add: run_host_def)
qed (simp add: run_host_def)

lemma host_ok_new: "host_ok new_host"
  by (simp add: host_ok_def tables_ok_def actors_ok_def agree_def new_host_def)

section \<open>The life of a guest\<close>

fun inner_call :: "guest_call \<Rightarrow> bool" where
  "inner_call (SetupCall _) = False"
| "inner_call TeardownCall = False"
| "inner_call _ = True"

definition serving :: "mock_guest \<Rightarrow> bool" where
  "serving g \<longleftrightarrow> (\<exists>config rest. mg_calls g = SetupCall config # rest \<and> list_all inner_call rest)"

definition torn_down :: "mock_guest \<Rightarrow> bool" where
  "torn_down g \<longleftrightarrow> (\<exists>config rest. mg_calls g = SetupCall config # rest @ [TeardownCall] \<and> list_all inner_call rest)"

definition refused :: "mock_guest \<Rightarrow> bool" where
  "refused g \<longleftrightarrow> (\<exists>config. mg_calls g = [SetupCall config]) \<and> mg_setup_error g \<noteq> None"

definition guests_ok :: "mock_guest host_world \<Rightarrow> bool" where
  "guests_ok w \<longleftrightarrow>
     (\<forall>e \<in> set (hw_actors w). serving (ia_guest (snd e)))
     \<and> (\<forall>g \<in> set (hw_ended w). torn_down g) \<and> (\<forall>g \<in> set (hw_rejected w). refused g)"

lemma serving_call: "inner_call c \<Longrightarrow> serving g \<Longrightarrow> serving (record_call c g)"
  by (auto simp: serving_def record_call_def)

lemma serving_teardown: "serving g \<Longrightarrow> torn_down (g_teardown mock_ops g)"
  by (auto simp: serving_def torn_down_def mock_ops_def record_call_def)

lemma handle_serving:
  "integration_handle mock_ops msg ia = (ia', out, b) \<Longrightarrow> serving (ia_guest ia) \<Longrightarrow> serving (ia_guest ia')"
  by (cases msg) (auto simp: integration_handle_def mock_ops_def serving_call)

lemma guests_put:
  assumes "guests_ok w" and "serving (ia_guest ia)"
  shows "guests_ok (w\<lparr>hw_actors := reg_insert r ia (hw_actors w)\<rparr>)"
proof -
  have "\<forall>e \<in> set (reg_insert r ia (hw_actors w)). serving (ia_guest (snd e))"
    using assms by (intro reg_insert_all) (simp_all add: guests_ok_def)
  then show ?thesis using assms(1) by (simp add: guests_ok_def)
qed

lemma guests_mem: "guests_ok w \<Longrightarrow> map_of (hw_actors w) r = Some ia \<Longrightarrow> serving (ia_guest ia)"
  by (auto simp: guests_ok_def dest!: map_of_SomeD)

lemma guests_send:
  "guests_ok w \<Longrightarrow> guests_ok (snd (send_integration r msg w))"
  using guests_mem [of w r] by (auto simp: send_integration_def intro: guests_put split: option.splits)

lemma guests_step:
  assumes "guests_ok w"
  shows "guests_ok (snd (integration_step mock_ops r w))"
proof (cases "map_of (hw_actors w) r")
  case (Some ia)
  show ?thesis
  proof (cases "ia_mailbox ia")
    case (Cons msg rest)
    obtain ia' out b where h: "integration_handle mock_ops msg (ia\<lparr>ia_mailbox := rest\<rparr>) = (ia', out, b)"
      by (metis prod_cases3)
    have s: "serving (ia_guest ia')"
      using handle_serving [OF h] guests_mem [OF assms Some] by simp
    show ?thesis
    proof (cases b)
      case True
      then show ?thesis
        using Some Cons h assms serving_teardown [OF s]
        by (auto simp: integration_step_def end_actor_def guests_ok_def integration_post_stop_def)
    next
      case False
      then show ?thesis using Some Cons h guests_put [OF assms s] by (simp add: integration_step_def)
    qed
  qed (use assms Some in \<open>simp add: integration_step_def\<close>)
qed (use assms in \<open>simp add: integration_step_def\<close>)

lemma guests_steps: "guests_ok w \<Longrightarrow> guests_ok (snd (integration_steps mock_ops r n w))"
proof (induction n arbitrary: w)
  case (Suc n)
  obtain o1 w1 where s: "integration_step mock_ops r w = (o1, w1)" by fastforce
  then have "guests_ok w1" using guests_step [OF Suc.prems, of r] by simp
  from Suc.IH [OF this] s show ?case by (cases "integration_steps mock_ops r n w1") simp
qed simp

lemma guests_diagnose:
  assumes "diagnose mock_ops ch i w = (res, out, w')" and "guests_ok w"
  shows "guests_ok w'"
proof -
  have "w' = w \<or> (\<exists>r n. w' = snd (integration_steps mock_ops r n (snd (send_integration r (GetDiagnostics ch) w))))"
  proof (cases "map_of (hw_integrations w) i")
    case (Some r)
    show ?thesis
    proof (cases "map_of (hw_actors w) r")
      case None
      then show ?thesis using Some assms(1) by (simp add: diagnose_def)
    next
      case (Some ia)
      obtain outs w2 where s: "integration_steps mock_ops r (Suc (length (ia_mailbox ia)))
          (snd (send_integration r (GetDiagnostics ch) w)) = (outs, w2)" by fastforce
      then have "w' = w2"
        using assms(1) Some \<open>map_of (hw_integrations w) i = Some r\<close>
        by (auto simp: diagnose_def simp del: integration_steps.simps split: option.splits integration_reply.splits)
      then show ?thesis using s by (metis snd_conv)
    qed
  qed (use assms(1) in \<open>simp add: diagnose_def\<close>)
  then show ?thesis using guests_steps guests_send assms(2) by auto
qed

lemma guests_load:
  assumes "guests_ok w" and "\<And>bytes g. factory bytes = Inr g \<Longrightarrow> mg_calls g = []"
  shows "guests_ok (snd (load_integration mock_ops factory nm bytes config w))"
proof (cases "factory bytes")
  case (Inr g)
  show ?thesis
  proof (cases "mg_setup_error g")
    case None
    have "serving (record_call (SetupCall config) g)"
      using assms(2) [OF Inr] by (simp add: serving_def record_call_def)
    then show ?thesis
      using guests_put [OF assms(1), of "new_integration nm (record_call (SetupCall config) g) new_context" "hw_next w"] Inr None assms(1)
      by (simp add: load_integration_def mock_ops_def outcome_def Let_def guests_ok_def new_integration_def)
  next
    case (Some e)
    have "refused (record_call (SetupCall config) g)"
      using assms(2) [OF Inr] Some by (simp add: refused_def record_call_def)
    then show ?thesis
      using Inr Some assms(1) by (auto simp: load_integration_def mock_ops_def outcome_def guests_ok_def)
  qed
qed (use assms(1) in \<open>simp add: load_integration_def\<close>)

lemma guests_unload: "guests_ok w \<Longrightarrow> guests_ok (snd (unload_integration i w))"
  by (auto simp: unload_integration_def split: option.splits intro!: guests_send) (simp add: guests_ok_def)

lemma guests_stop: "guests_ok w \<Longrightarrow> guests_ok (stop_host mock_ops w)"
  by (auto simp: stop_host_def guests_ok_def integration_post_stop_def intro!: serving_teardown dest: bspec)

lemma guests_perform:
  assumes "guests_ok w" and "\<And>bytes g. factory bytes = Inr g \<Longrightarrow> mg_calls g = []"
  shows "guests_ok (perform_host mock_ops factory ev w)"
proof (cases ev)
  case (HostEvent ch msg)
  have "guests_ok (snd (handle_host mock_ops factory ch msg w))"
  proof (cases msg)
    case (Load nm bytes config)
    have "guests_ok (snd (load_integration mock_ops factory nm bytes config w))"
      by (rule guests_load [OF assms(1)]) (rule assms(2))
    with Load show ?thesis
      by (cases "load_integration mock_ops factory nm bytes config w") (simp add: handle_host_def)
  next
    case (Unload i)
    then show ?thesis
      using guests_unload [OF assms(1), of i]
      by (cases "unload_integration i w") (simp add: handle_host_def)
  next
    case (HostDiagnostics i)
    obtain res out w' where "diagnose mock_ops ch i w = (res, out, w')" by (metis prod_cases3)
    with HostDiagnostics show ?thesis
      using guests_diagnose [OF _ assms(1)] by (simp add: handle_host_def)
  qed (use assms(1) guests_stop in \<open>simp_all add: handle_host_def\<close>)
  then show ?thesis using assms(1) HostEvent by simp
qed (use assms(1) guests_send guests_step in auto)

lemma guests_run:
  assumes "\<And>bytes g. factory bytes = Inr g \<Longrightarrow> mg_calls g = []"
  shows "guests_ok w \<Longrightarrow> guests_ok (run_host mock_ops factory evs w)"
proof (induction evs arbitrary: w)
  case (Cons ev evs)
  have "guests_ok (perform_host mock_ops factory ev w)"
    by (rule guests_perform [OF Cons.prems]) (rule assms)
  then show ?case using Cons.IH by (simp add: run_host_def)
qed (simp add: run_host_def)

section \<open>Properties\<close>

text \<open>C32. In every run of the host with fewer than 2^64 - 1 loads its two tables have the same
  ids, no two running integrations have the same name, every entry carries its own id, and
  the tables agree with the actors: until the host stops, each entry of the table has a living
  actor of its own that no stop awaits, and every other living actor has a stop in its
  mailbox.\<close>
theorem host_tables_consistent:
  assumes "loads evs < 2 ^ 64 - 1"
  shows "host_ok (run_host ops factory evs new_host)"
  by (rule run_host_ok [OF host_ok_new]) (use assms in \<open>simp add: new_host_def\<close>)

definition plain_mock :: mock_guest where
  "plain_mock = \<lparr>mg_calls = [], mg_setup_error = None, mg_config_flow_bytes = [], mg_config_flow_error = None,
     mg_coordinator_bytes = [], mg_coordinator_error = None, mg_diagnostics = [(''status'', ''ok'')],
     mg_repair_bytes = [], mg_repair_error = None\<rparr>"

definition mock_factory :: "u8 list \<Rightarrow> host_error + mock_guest" where
  "mock_factory bytes = (if bytes = [] then Inl (WasmValidation ''empty'') else Inr plain_mock)"

definition short_life :: "host_event list" where
  "short_life =
     [HostEvent 0 (Load ''hue'' [1] []), HostEvent 0 (Load ''hue'' [2] []), ToIntegration 0 (RunCoordinator 7),
      HostEvent 1 (HostDiagnostics ''integration_1''), HostEvent 0 (Unload ''integration_1''), IntegrationRuns 0]"

lemmas host_simps =
  short_life_def run_host_def handle_host_def load_integration_def unload_integration_def diagnose_def
  send_integration_def integration_step_def integration_handle_def end_actor_def integration_post_stop_def
  mock_factory_def plain_mock_def mock_ops_def outcome_def record_call_def new_host_def new_integration_def
  new_integration_id_def reg_remove_def Let_def

lemma short_life_value:
  "mg_calls (hd (hw_ended (run_host mock_ops mock_factory short_life new_host)))
     = [SetupCall [], CoordinatorCall 7, DiagnosticsCall, TeardownCall]
   \<and> length (hw_ended (run_host mock_ops mock_factory short_life new_host)) = 1
   \<and> hw_integrations (run_host mock_ops mock_factory short_life new_host) = []"
  by (simp add: host_simps show_nat.simps digit_char_def char_of_def bit_Suc_0_iff)

theorem host_tables_consistent_witness:
  "host_ok (run_host mock_ops mock_factory short_life new_host)"
  by (rule host_tables_consistent) (simp add: short_life_def)

text \<open>The life of a guest. With guests that record their calls, in every run each guest
  was set up exactly once, before any other call; as long as it serves it was never torn
  down; and once its integration has ended it was torn down exactly once, as the last call.
  A guest whose setup failed gets no other call at all.\<close>
theorem guest_lifecycle:
  assumes "\<And>bytes g. factory bytes = Inr g \<Longrightarrow> mg_calls g = []"
  shows "(\<forall>(r, ia) \<in> set (hw_actors (run_host mock_ops factory evs new_host)). serving (ia_guest ia))
    \<and> list_all torn_down (hw_ended (run_host mock_ops factory evs new_host))
    \<and> list_all refused (hw_rejected (run_host mock_ops factory evs new_host))"
proof -
  have "guests_ok (run_host mock_ops factory evs new_host)"
    by (rule guests_run [OF assms]) (auto simp: guests_ok_def new_host_def)
  then show ?thesis by (auto simp: guests_ok_def list_all_iff)
qed

theorem guest_lifecycle_witness:
  "torn_down (hd (hw_ended (run_host mock_ops mock_factory short_life new_host)))"
proof -
  have "mg_calls g = []" if "mock_factory bytes = Inr g" for bytes g
    using that by (auto simp: mock_factory_def plain_mock_def split: if_splits)
  from guest_lifecycle [of mock_factory short_life, OF this] show ?thesis
    using short_life_value by (cases "hw_ended (run_host mock_ops mock_factory short_life new_host)") auto
qed

end
