(* ===== verification/Graphs.thy ===== *)
theory Graphs
  imports ComponentDag Solution
begin

text \<open>
  The layered graphs of \<open>rshome-schema/src/graph.rs\<close>: the layers and the transitive
  dependencies of the component graph, the orchestration of the steps of a solution with its
  critical path, the build pipeline and the signal paths. The algorithms of petgraph are the
  parameter of \<open>ComponentDag\<close>; what the code relies on is the contract \<open>petgraph_laws\<close>, which
  a reference implementation satisfies.

  The lemmas show that the layers order the nodes by the longest path that leads to them,
  that the walk over the dependencies ends and finds exactly what is reachable, and that the
  critical path is a longest path.
\<close>

section \<open>Layers\<close>

type_synonym edges = "(nat \<times> nat) list"

text \<open>One more than the greatest depth among the predecessors that have one.\<close>

definition greatest :: "nat list \<Rightarrow> nat" where
  "greatest ds = fold max ds 0"

definition next_depth :: "nat list \<Rightarrow> nat" where
  "next_depth ds = (if ds = [] then 0 else Suc (greatest ds))"

definition node_depth :: "petgraph \<Rightarrow> edges \<Rightarrow> (nat \<times> nat) list \<Rightarrow> nat \<Rightarrow> nat" where
  "node_depth pg es depth ni = next_depth (List.map_filter (map_of depth) (pg_incoming pg es ni))"

definition depths :: "petgraph \<Rightarrow> edges \<Rightarrow> nat list \<Rightarrow> (nat \<times> nat) list" where
  "depths pg es order = fold (\<lambda>ni depth. reg_insert ni (node_depth pg es depth ni) depth) order []"

text \<open>\<open>parallel_layers\<close> and the two \<open>parallel_stages\<close> have the same body over the names of
  their nodes.\<close>

definition layers_of :: "petgraph \<Rightarrow> nat \<Rightarrow> edges \<Rightarrow> (nat \<Rightarrow> string) \<Rightarrow> string list list" where
  "layers_of pg n es name =
     (case pg_toposort pg n es of
        Inl _ \<Rightarrow> []
      | Inr order \<Rightarrow>
          let depth = depths pg es order
          in map (\<lambda>d. sort (map (\<lambda>(ni, _). name ni) (filter (\<lambda>(_, e). e = d) depth)))
               [0..<Suc (greatest (map snd depth))])"

definition dag_edge_list :: "component_dag \<Rightarrow> edges" where
  "dag_edge_list dag = map fst (cg_edges dag)"

definition is_acyclic_dag :: "petgraph \<Rightarrow> component_dag \<Rightarrow> bool" where
  "is_acyclic_dag pg dag \<longleftrightarrow> \<not> pg_is_cyclic pg (length (cg_nodes dag)) (dag_edge_list dag)"

definition parallel_layers :: "petgraph \<Rightarrow> component_dag \<Rightarrow> string list list" where
  "parallel_layers pg dag = layers_of pg (length (cg_nodes dag)) (dag_edge_list dag) (node_id dag)"

section \<open>Transitive dependencies\<close>

text \<open>The loop over the stack, whose top is the head of the list. It may not end when the
  predecessors never run out.\<close>

definition visit :: "nat list \<Rightarrow> nat list \<times> nat list \<Rightarrow> nat list \<times> nat list" where
  "visit ns st = fold (\<lambda>v (visited, stack). if v \<in> set visited then (visited, stack) else (v # visited, v # stack)) ns st"

partial_function (option) deps_loop :: "petgraph \<Rightarrow> edges \<Rightarrow> nat list \<times> nat list \<Rightarrow> nat list option" where
  "deps_loop pg es st =
     (if snd st = [] then Some (fst st)
      else deps_loop pg es (visit (pg_incoming pg es (hd (snd st))) (fst st, tl (snd st))))"

definition transitive_deps :: "petgraph \<Rightarrow> component_dag \<Rightarrow> string \<Rightarrow> string list option" where
  "transitive_deps pg dag cid =
     (case position (\<lambda>x. cn_id x = cid) (cg_nodes dag) of
        None \<Rightarrow> Some []
      | Some start \<Rightarrow> map_option (\<lambda>visited. sort (map (node_id dag) visited)) (deps_loop pg (dag_edge_list dag) ([], [start])))"

section \<open>Orchestration\<close>

record orchestration_node =
  on_step_id :: string
  on_label :: string

record orchestration_dag =
  od_nodes :: "orchestration_node list"
  od_edges :: edges

text \<open>The index of a step id: the last node that was inserted under it.\<close>

definition step_index :: "string list \<Rightarrow> string \<Rightarrow> nat option" where
  "step_index ids i = map_of (rev (zip ids [0..<length ids])) i"

definition orchestration_edges :: "orchestration_step list \<Rightarrow> edges" where
  "orchestration_edges steps =
     (let ids = map os_id steps; ix = (\<lambda>s. the (step_index ids (os_id s)))
      in if list_all (\<lambda>s. os_depends_on s = []) steps \<and> 1 < length steps
         then map (\<lambda>i. (ix (steps ! (i - 1)), ix (steps ! i))) [1..<length steps]
         else concat (map (\<lambda>s. List.map_filter (\<lambda>dep. map_option (\<lambda>prereq. (prereq, ix s)) (step_index ids dep))
                            (os_depends_on s)) steps))"

definition from_steps :: "petgraph \<Rightarrow> orchestration_step list \<Rightarrow> string option + orchestration_dag" where
  "from_steps pg steps =
     (let nodes = map (\<lambda>s. \<lparr>on_step_id = os_id s, on_label = os_label s\<rparr>) steps;
          es = orchestration_edges steps
      in if pg_is_cyclic pg (length nodes) es
         then Inl (case pg_toposort pg (length nodes) es of Inl i \<Rightarrow> Some (on_step_id (nodes ! i)) | Inr _ \<Rightarrow> None)
         else Inr \<lparr>od_nodes = nodes, od_edges = es\<rparr>)"

definition step_name :: "orchestration_dag \<Rightarrow> nat \<Rightarrow> string" where
  "step_name dag i = on_step_id (od_nodes dag ! i)"

definition execution_order :: "petgraph \<Rightarrow> orchestration_dag \<Rightarrow> string + string list" where
  "execution_order pg dag =
     (case pg_toposort pg (length (od_nodes dag)) (od_edges dag) of
        Inr order \<Rightarrow> Inr (map (step_name dag) order)
      | Inl i \<Rightarrow> Inl (step_name dag i))"

definition orchestration_stages :: "petgraph \<Rightarrow> orchestration_dag \<Rightarrow> string list list" where
  "orchestration_stages pg dag = layers_of pg (length (od_nodes dag)) (od_edges dag) (step_name dag)"

text \<open>\<open>max_by_key\<close> keeps the last of several greatest elements.\<close>

definition max_by_dist :: "(nat \<times> nat) list \<Rightarrow> (nat \<times> nat) option" where
  "max_by_dist ps =
     fold (\<lambda>p best. case best of None \<Rightarrow> Some p | Some q \<Rightarrow> if snd q \<le> snd p then Some p else best) ps None"

definition dist_step ::
    "petgraph \<Rightarrow> edges \<Rightarrow> nat \<Rightarrow> (nat \<times> nat) list \<times> (nat \<times> nat) list \<Rightarrow> (nat \<times> nat) list \<times> (nat \<times> nat) list" where
  "dist_step pg es ni dp =
     (let (dist, pred) = dp
      in case max_by_dist (List.map_filter (\<lambda>dep. map_option (\<lambda>d. (dep, d)) (map_of dist dep)) (pg_incoming pg es ni)) of
           None \<Rightarrow> (reg_insert ni 0 dist, pred)
         | Some (dep, d) \<Rightarrow> (reg_insert ni (d + 1) dist, reg_insert ni dep pred))"

text \<open>The walk back along the predecessors.\<close>

partial_function (option) walk_back :: "(nat \<times> nat) list \<Rightarrow> nat \<Rightarrow> nat list option" where
  "walk_back pred cur =
     (case map_of pred cur of
        None \<Rightarrow> Some [cur]
      | Some p \<Rightarrow> Option.bind (walk_back pred p) (\<lambda>path. Some (path @ [cur])))"

text \<open>The end is searched in the iteration order of a hash map, \<open>hash_order\<close>.\<close>

definition critical_path ::
    "petgraph \<Rightarrow> ((nat \<times> nat) list \<Rightarrow> (nat \<times> nat) list) \<Rightarrow> orchestration_dag \<Rightarrow> string list option" where
  "critical_path pg hash_order dag =
     (case pg_toposort pg (length (od_nodes dag)) (od_edges dag) of
        Inl _ \<Rightarrow> Some []
      | Inr order \<Rightarrow>
          let (dist, pred) = fold (dist_step pg (od_edges dag)) order ([], [])
          in case max_by_dist (hash_order dist) of
               None \<Rightarrow> Some []
             | Some (e, _) \<Rightarrow> map_option (map (step_name dag)) (walk_back pred e))"

section \<open>The build pipeline\<close>

datatype build_stage_kind =
    ValidateStage
  | CodegenComponent
  | CodegenTemplate
  | SetTarget
  | BuildStage
  | FlashStage
  | SizeReport

record build_stage_node =
  bn_id :: string
  bn_label :: string
  bn_kind :: build_stage_kind

record build_dag =
  bd_nodes :: "build_stage_node list"
  bd_edges :: edges

definition stage_node :: "string \<Rightarrow> string \<Rightarrow> build_stage_kind \<Rightarrow> build_stage_node" where
  "stage_node i label kind = \<lparr>bn_id = i, bn_label = label, bn_kind = kind\<rparr>"

text \<open>The nodes in the order in which they are added: node 0 validates, then come the
  components, then the target, the build, the optional flash and the size report.\<close>

definition stages_from_components :: "string list \<Rightarrow> bool \<Rightarrow> build_dag" where
  "stages_from_components component_ids include_flash =
     (let codegen = map (\<lambda>c. stage_node (''codegen_'' @ c) (''Codegen: '' @ c) CodegenComponent) component_ids;
          k = length component_ids;
          set_target = k + 1; build = k + 2; after = k + 3;
          size_report = (if include_flash then k + 4 else k + 3)
      in \<lparr>bd_nodes =
            [stage_node ''validate'' ''Validate Config'' ValidateStage] @ codegen @
            [stage_node ''set_target'' ''Set Target'' SetTarget, stage_node ''build'' ''Build'' BuildStage] @
            (if include_flash then [stage_node ''flash'' ''Flash'' FlashStage] else []) @
            [stage_node ''size_report'' ''Size Report'' SizeReport],
          bd_edges =
            map (\<lambda>i. (0, i)) [1..<k + 1] @ map (\<lambda>i. (i, set_target)) [1..<k + 1] @ [(set_target, build)] @
            (if include_flash then [(build, after)] else []) @ [(build, size_report)]\<rparr>)"

definition build_name :: "build_dag \<Rightarrow> nat \<Rightarrow> string" where
  "build_name dag i = bn_id (bd_nodes dag ! i)"

definition build_stages :: "petgraph \<Rightarrow> build_dag \<Rightarrow> string list list" where
  "build_stages pg dag = layers_of pg (length (bd_nodes dag)) (bd_edges dag) (build_name dag)"

section \<open>Signal paths\<close>

text \<open>The surfaces are enumerations of the platform; the graph does not look at them.\<close>

record ('i, 't, 'o, 'f) signal_path =
  sp_source :: 'i
  sp_transforms :: "'t list"
  sp_sink :: 'o
  sp_feedback :: "'f list"

datatype ('i, 't, 'o, 'f) signal_node =
    SourceNode 'i
  | Transform 't
  | Sink 'o
  | Feedback 'f

record ('i, 't, 'o, 'f) signal_dag =
  sg_nodes :: "('i, 't, 'o, 'f) signal_node list"
  sg_edges :: edges

definition from_signal_path :: "('i, 't, 'o, 'f) signal_path \<Rightarrow> ('i, 't, 'o, 'f) signal_dag" where
  "from_signal_path path =
     (let sink = length (sp_transforms path) + 1
      in \<lparr>sg_nodes = SourceNode (sp_source path) # map Transform (sp_transforms path) @ Sink (sp_sink path) # map Feedback (sp_feedback path),
          sg_edges = map (\<lambda>i. (i, i + 1)) [0..<sink] @
                     map (\<lambda>i. (sink, sink + 1 + i)) [0..<length (sp_feedback path)]\<rparr>)"

section \<open>JSON\<close>

definition json_obj :: "(string \<times> json) list \<Rightarrow> json" where
  "json_obj kvs = JObj (fold (\<lambda>(k, v). obj_insert k v) kvs [])"

definition json_index :: "nat \<Rightarrow> json" where
  "json_index i = JNum (PosInt (of_nat i))"

definition json_layers :: "string list list \<Rightarrow> json" where
  "json_layers ls = JArr (map (\<lambda>l. JArr (map JStr l)) ls)"

definition json_named_edges :: "(nat \<Rightarrow> string) \<Rightarrow> edges \<Rightarrow> json" where
  "json_named_edges name es =
     JArr (map (\<lambda>(u, v). json_obj [(''from'', JStr (name u)), (''to'', JStr (name v))]) es)"

fun dep_edge_name :: "dep_edge \<Rightarrow> string" where
  "dep_edge_name Explicit = ''explicit''"
| "dep_edge_name AutoLoad = ''auto_load''"

fun build_kind_name :: "build_stage_kind \<Rightarrow> string" where
  "build_kind_name ValidateStage = ''validate''"
| "build_kind_name CodegenComponent = ''codegen_component''"
| "build_kind_name CodegenTemplate = ''codegen_template''"
| "build_kind_name SetTarget = ''set_target''"
| "build_kind_name BuildStage = ''build''"
| "build_kind_name FlashStage = ''flash''"
| "build_kind_name SizeReport = ''size_report''"

definition component_dag_json :: "petgraph \<Rightarrow> component_dag \<Rightarrow> json" where
  "component_dag_json pg dag =
     json_obj
       [(''nodes'', JArr (map (\<lambda>n. json_obj
            [(''id'', JStr (cn_id n)), (''is_auto_loaded'', JBool (cn_is_auto_loaded n)),
             (''exclusive_group'', case cn_exclusive_group n of None \<Rightarrow> JNull | Some g \<Rightarrow> JStr g)]) (cg_nodes dag))),
        (''edges'', JArr (map (\<lambda>((u, v), kind). json_obj
            [(''from'', JStr (node_id dag u)), (''to'', JStr (node_id dag v)), (''kind'', JStr (dep_edge_name kind))])
          (cg_edges dag))),
        (''layers'', json_layers (parallel_layers pg dag))]"

definition orchestration_dag_json :: "petgraph \<Rightarrow> orchestration_dag \<Rightarrow> json" where
  "orchestration_dag_json pg dag =
     json_obj
       [(''nodes'', JArr (map (\<lambda>n. json_obj [(''id'', JStr (on_step_id n)), (''label'', JStr (on_label n))]) (od_nodes dag))),
        (''edges'', json_named_edges (step_name dag) (od_edges dag)),
        (''layers'', json_layers (orchestration_stages pg dag))]"

definition build_dag_json :: "petgraph \<Rightarrow> build_dag \<Rightarrow> json" where
  "build_dag_json pg dag =
     json_obj
       [(''nodes'', JArr (map (\<lambda>n. json_obj
            [(''id'', JStr (bn_id n)), (''label'', JStr (bn_label n)), (''kind'', JStr (build_kind_name (bn_kind n)))])
          (bd_nodes dag))),
        (''edges'', json_named_edges (build_name dag) (bd_edges dag)),
        (''layers'', json_layers (build_stages pg dag))]"

text \<open>\<open>node_json\<close> is the derived serialisation of a signal node.\<close>

definition signal_dag_json :: "(('i, 't, 'o, 'f) signal_node \<Rightarrow> json) \<Rightarrow> ('i, 't, 'o, 'f) signal_dag \<Rightarrow> json" where
  "signal_dag_json node_json dag =
     json_obj
       [(''nodes'', JArr (map (\<lambda>(i, n). json_obj [(''index'', json_index i), (''node'', node_json n)])
          (enumerated (sg_nodes dag)))),
        (''edges'', JArr (map (\<lambda>(u, v). json_obj [(''from'', json_index u), (''to'', json_index v)]) (sg_edges dag)))]"

section \<open>What the code relies on of petgraph\<close>

definition edges_in :: "nat \<Rightarrow> edges \<Rightarrow> bool" where
  "edges_in n es \<longleftrightarrow> list_all (\<lambda>(u, v). u < n \<and> v < n) es"

text \<open>Every node comes after all its predecessors.\<close>

definition preds_first :: "edges \<Rightarrow> nat list \<Rightarrow> bool" where
  "preds_first es order \<longleftrightarrow> (\<forall>i < length order. \<forall>u. (u, order ! i) \<in> set es \<longrightarrow> u \<in> set (take i order))"

locale petgraph_laws =
  fixes pg :: petgraph
  assumes is_cyclic: "edges_in n es \<Longrightarrow> pg_is_cyclic pg n es \<longleftrightarrow> \<not> acyclic (set es)"
    and toposort_Inr: "edges_in n es \<Longrightarrow> pg_toposort pg n es = Inr order \<Longrightarrow>
      distinct order \<and> set order = {..<n} \<and> preds_first es order"
    and toposort_acyclic: "edges_in n es \<Longrightarrow> acyclic (set es) \<Longrightarrow> \<exists>order. pg_toposort pg n es = Inr order"
    and toposort_Inl: "edges_in n es \<Longrightarrow> pg_toposort pg n es = Inl i \<Longrightarrow> i < n \<and> (i, i) \<in> (set es)\<^sup>+"
    and incoming: "set (pg_incoming pg es v) = {u. (u, v) \<in> set es}"

section \<open>Facts on depths\<close>

lemma fold_max: "fold max ds a \<in> insert a (set ds) \<and> (\<forall>d \<in> insert a (set ds). d \<le> fold max ds (a :: nat))"
proof -
  have "fold max ds a = Max (set (a # ds))" by (simp only: Max.set_eq_fold)
  then show ?thesis using Max_in [of "set (a # ds)"] by simp
qed

lemma sort_mset: "mset xs = mset ys \<Longrightarrow> sort xs = sort (ys :: string list)"
  by (rule properties_for_sort) simp_all

lemma greatest_ge: "d \<in> set ds \<Longrightarrow> d \<le> greatest ds"
  using fold_max [of ds 0] by (simp add: greatest_def)

lemma greatest_in: "ds \<noteq> [] \<Longrightarrow> greatest ds \<in> set ds"
  using fold_max [of ds 0] by (cases ds) (auto simp: greatest_def)

lemma greatest_cong: "set ds = set ds' \<Longrightarrow> greatest ds = greatest ds'"
  by (metis greatest_ge greatest_in antisym empty_set set_empty)

lemma next_depth_cong: "set ds = set ds' \<Longrightarrow> next_depth ds = next_depth ds'"
  unfolding next_depth_def using greatest_cong [of ds ds'] by (metis set_empty)

lemma next_depth_greater: "d \<in> set ds \<Longrightarrow> d < next_depth ds"
  using greatest_ge [of d ds] by (auto simp: next_depth_def)

lemma next_depth_Suc: "next_depth ds = Suc k \<Longrightarrow> k \<in> set ds"
  using greatest_in [of ds] by (auto simp: next_depth_def split: if_splits)

lemma preds_first_snoc: "preds_first es (xs @ [v]) \<longleftrightarrow> preds_first es xs \<and> (\<forall>u. (u, v) \<in> set es \<longrightarrow> u \<in> set xs)"
proof -
  have "((xs @ [v]) ! i, take i (xs @ [v])) = (xs ! i, take i xs)" if "i < length xs" for i
    using that by (simp add: nth_append)
  then show ?thesis
    unfolding preds_first_def length_append_singleton All_less_Suc by (auto simp: nth_append)
qed

lemma preds_first_mem: "preds_first es xs \<Longrightarrow> w \<in> set xs \<Longrightarrow> (u, w) \<in> set es \<Longrightarrow> u \<in> set xs"
  by (metis preds_first_def in_set_conv_nth in_set_takeD)

text \<open>A depth function: its value is determined by the values at the predecessors.\<close>

definition depth_fun :: "petgraph \<Rightarrow> edges \<Rightarrow> nat set \<Rightarrow> (nat \<Rightarrow> nat) \<Rightarrow> bool" where
  "depth_fun pg es V \<delta> \<longleftrightarrow> (\<forall>v \<in> V. \<delta> v = next_depth (map \<delta> (pg_incoming pg es v)))"

lemma depths_snoc: "depths pg es (xs @ [v]) = reg_insert v (node_depth pg es (depths pg es xs) v) (depths pg es xs)"
  by (simp add: depths_def)

context petgraph_laws
begin

lemma depths_spec:
  assumes "distinct order" and "preds_first es order"
  shows "map fst (depths pg es order) = order
    \<and> depth_fun pg es (set order) (\<lambda>v. the (map_of (depths pg es order) v))"
  using assms
proof (induction order rule: rev_induct)
  case Nil
  then show ?case by (simp add: depths_def depth_fun_def)
next
  case (snoc v xs)
  let ?D = "depths pg es xs"
  let ?d = "node_depth pg es ?D v"
  have xs: "distinct xs" "preds_first es xs" and v: "v \<notin> set xs"
    and new: "\<And>u. (u, v) \<in> set es \<Longrightarrow> u \<in> set xs"
    using snoc.prems by (auto simp: preds_first_snoc)
  with snoc.IH have keys: "map fst ?D = xs"
    and df: "depth_fun pg es (set xs) (\<lambda>v. the (map_of ?D v))" by auto
  have preds: "u \<in> set xs" if "w \<in> set (xs @ [v])" "(u, w) \<in> set es" for u w
    using that new preds_first_mem [OF xs(2)] by auto
  have dom: "map_of ?D u = None \<longleftrightarrow> u \<notin> set xs" for u
    using arg_cong [OF keys, of set] by (simp add: map_of_eq_None_iff)
  have D: "depths pg es (xs @ [v]) = ?D @ [(v, ?d)]"
    using v dom [of v] by (simp add: depths_snoc reg_insert_new map_of_eq_None_iff)
  have old: "map_of (?D @ [(v, ?d)]) u = map_of ?D u" if "u \<in> set xs" for u
    using that dom [of u] by (auto simp: map_add_def split: option.splits)
  have here: "map_of (?D @ [(v, ?d)]) v = Some ?d"
    using v dom [of v] by (simp add: map_add_def)
  have "List.map_filter (map_of ?D) us = map (\<lambda>u. the (map_of ?D u)) us" if "set us \<subseteq> set xs" for us
    using that
  proof (induction us)
    case (Cons u us)
    then show ?case using dom [of u] by (auto simp: List.map_filter_simps split: option.splits)
  qed (simp add: List.map_filter_simps)
  then have d: "?d = next_depth (map (\<lambda>u. the (map_of ?D u)) (pg_incoming pg es v))"
    unfolding node_depth_def using new incoming [of es v] by (metis mem_Collect_eq subsetI)
  have "map (\<lambda>u. the (map_of (?D @ [(v, ?d)]) u)) (pg_incoming pg es w) = map (\<lambda>u. the (map_of ?D u)) (pg_incoming pg es w)"
    if w: "w \<in> set (xs @ [v])" for w
  proof (rule map_cong [OF refl])
    fix u assume "u \<in> set (pg_incoming pg es w)"
    then have "u \<in> set xs" using preds [OF w] incoming [of es w] by blast
    then show "the (map_of (?D @ [(v, ?d)]) u) = the (map_of ?D u)" using old by simp
  qed
  note same = this
  have "the (map_of (?D @ [(v, ?d)]) w) = next_depth (map (\<lambda>u. the (map_of (?D @ [(v, ?d)]) u)) (pg_incoming pg es w))"
    if w: "w \<in> set (xs @ [v])" for w
  proof (cases "w = v")
    case True
    then show ?thesis unfolding same [OF w] using here d by simp
  next
    case False
    then have "w \<in> set xs" using w by simp
    then show ?thesis unfolding same [OF w] old [OF \<open>w \<in> set xs\<close>] using df by (simp add: depth_fun_def)
  qed
  then show ?case unfolding D depth_fun_def using keys by simp
qed

lemma depth_edge: "depth_fun pg es V \<delta> \<Longrightarrow> v \<in> V \<Longrightarrow> (u, v) \<in> set es \<Longrightarrow> \<delta> u < \<delta> v"
  using next_depth_greater [of "\<delta> u" "map \<delta> (pg_incoming pg es v)"] incoming [of es v] by (auto simp: depth_fun_def)

lemma depth_pred:
  assumes "depth_fun pg es V \<delta>" and "v \<in> V" and "\<delta> v = Suc k"
  shows "\<exists>u. (u, v) \<in> set es \<and> \<delta> u = k"
proof -
  have "next_depth (map \<delta> (pg_incoming pg es v)) = Suc k" using assms by (simp add: depth_fun_def)
  then have "k \<in> \<delta> ` set (pg_incoming pg es v)" using next_depth_Suc by fastforce
  then show ?thesis using incoming [of es v] by auto
qed

lemma depth_unique:
  assumes "depth_fun pg es (set order) \<delta>" and "depth_fun pg es (set order) \<delta>'" and "preds_first es order"
  shows "\<forall>v \<in> set order. \<delta> v = \<delta>' v"
proof -
  have "\<delta> (order ! i) = \<delta>' (order ! i)" if "i < length order" for i
    using that
  proof (induction i rule: less_induct)
    case (less i)
    have "\<delta> u = \<delta>' u" if "u \<in> set (pg_incoming pg es (order ! i))" for u
    proof -
      have "u \<in> set (take i order)"
        using that incoming [of es "order ! i"] assms(3) less.prems by (auto simp: preds_first_def)
      then show ?thesis using less by (auto simp: in_set_conv_nth)
    qed
    then have "map \<delta> (pg_incoming pg es (order ! i)) = map \<delta>' (pg_incoming pg es (order ! i))" by simp
    moreover have "order ! i \<in> set order" using less.prems by simp
    ultimately show ?case using assms(1, 2) unfolding depth_fun_def by metis
  qed
  then show ?thesis by (metis in_set_conv_nth)
qed

lemma ordered:
  assumes "edges_in n es" and "acyclic (set es)"
  obtains order where "pg_toposort pg n es = Inr order" "distinct order" "set order = {..<n}" "preds_first es order"
  using toposort_acyclic [OF assms] toposort_Inr [OF assms(1)] by blast

lemma depth_exists:
  assumes "edges_in n es" and "acyclic (set es)"
  shows "\<exists>\<delta>. depth_fun pg es {..<n} \<delta>"
  using ordered [OF assms] depths_spec by metis

lemma depths_pairs:
  assumes "distinct order" and "preds_first es order" and "depth_fun pg es (set order) \<delta>"
  shows "depths pg es order = map (\<lambda>v. (v, \<delta> v)) order"
proof -
  let ?D = "depths pg es order"
  note spec = depths_spec [OF assms(1, 2)]
  have keys: "map fst ?D = order" using spec by simp
  have "snd p = \<delta> (fst p)" if "p \<in> set ?D" for p
  proof -
    have "map_of ?D (fst p) = Some (snd p)" using that assms(1) spec by (simp add: map_of_is_SomeI)
    moreover have "fst p \<in> set order" using that arg_cong [OF keys, of set] by auto
    ultimately show ?thesis using depth_unique [OF _ assms(3, 2)] spec by fastforce
  qed
  then have "?D = map (\<lambda>p. (fst p, \<delta> (fst p))) ?D" by (intro map_idI [symmetric]) (metis prod.collapse)
  also have "\<dots> = map (\<lambda>v. (v, \<delta> v)) (map fst ?D)" by simp
  finally show ?thesis using keys by simp
qed

text \<open>Layers do not depend on the order that petgraph chose.\<close>

lemma layers_canonical:
  assumes "edges_in n es" and "acyclic (set es)" and "depth_fun pg es {..<n} \<delta>"
  shows "layers_of pg n es name =
     map (\<lambda>d. sort (map name (filter (\<lambda>v. \<delta> v = d) [0..<n]))) [0..<Suc (greatest (map \<delta> [0..<n]))]"
proof -
  obtain order where o: "pg_toposort pg n es = Inr order" "distinct order" "set order = {..<n}" "preds_first es order"
    using ordered [OF assms(1, 2)] .
  have D: "depths pg es order = map (\<lambda>v. (v, \<delta> v)) order"
    using depths_pairs [OF o(2, 4)] assms(3) o(3) by simp
  have same: "mset order = mset [0..<n]"
    using set_eq_iff_mset_eq_distinct [of order "[0..<n]"] o(2, 3) by (simp add: lessThan_atLeast0)
  have layer: "sort (map (\<lambda>(ni, _). name ni) (filter (\<lambda>(_, e). e = d) (map (\<lambda>v. (v, \<delta> v)) order)))
      = sort (map name (filter (\<lambda>v. \<delta> v = d) [0..<n]))" for d
  proof (rule sort_mset)
    have "map (\<lambda>(ni, _). name ni) (filter (\<lambda>(_, e). e = d) (map (\<lambda>v. (v, \<delta> v)) xs))
        = map name (filter (\<lambda>v. \<delta> v = d) xs)" for xs
      by (induction xs) simp_all
    then show "mset (map (\<lambda>(ni, _). name ni) (filter (\<lambda>(_, e). e = d) (map (\<lambda>v. (v, \<delta> v)) order)))
        = mset (map name (filter (\<lambda>v. \<delta> v = d) [0..<n]))"
      by (simp only: mset_map mset_filter same)
  qed
  have "set (map snd (map (\<lambda>v. (v, \<delta> v)) order)) = set (map \<delta> [0..<n])"
    unfolding set_map image_image o(3) by (simp add: lessThan_atLeast0)
  then have "greatest (map snd (map (\<lambda>v. (v, \<delta> v)) order)) = greatest (map \<delta> [0..<n])"
    by (rule greatest_cong)
  then show ?thesis unfolding layers_of_def o(1) sum.case D Let_def layer by (simp only:)
qed

end

lemma concat_by_depth:
  "mset (concat (map (\<lambda>d. filter (\<lambda>v. f v = d) xs) [0..<k])) = filter_mset (\<lambda>v. f v < k) (mset xs)"
proof (induction k)
  case (Suc k)
  have "filter_mset (\<lambda>v. f v < Suc k) (mset xs) = filter_mset (\<lambda>v. f v < k) (mset xs) + filter_mset (\<lambda>v. f v = k) (mset xs)"
    by (induction xs) auto
  then show ?case using Suc by (simp add: mset_filter)
qed simp

lemma mset_concat_map: "mset (concat (map (\<lambda>x. sort (map g (f x))) xs)) = image_mset g (mset (concat (map f xs)))"
  by (induction xs) simp_all

text \<open>Layers of a graph: all names once, each layer sorted, every edge leads to a later layer,
  and what is not in the first layer has a predecessor in the layer right before.\<close>

definition layered :: "(nat \<Rightarrow> string) \<Rightarrow> nat \<Rightarrow> edges \<Rightarrow> string list list \<Rightarrow> bool" where
  "layered name n es ls \<longleftrightarrow>
     mset (concat ls) = mset (map name [0..<n]) \<and> list_all sorted ls
     \<and> (\<forall>(u, v) \<in> set es. \<exists>j k. j < k \<and> k < length ls \<and> name u \<in> set (ls ! j) \<and> name v \<in> set (ls ! k))
     \<and> (\<forall>k. Suc k < length ls \<longrightarrow> (\<forall>x \<in> set (ls ! Suc k). \<exists>(u, v) \<in> set es. name v = x \<and> name u \<in> set (ls ! k)))"

context petgraph_laws
begin

lemma layers_layered:
  assumes "edges_in n es" and "acyclic (set es)"
  shows "layered name n es (layers_of pg n es name)"
proof -
  obtain \<delta> where \<delta>: "depth_fun pg es {..<n} \<delta>" using depth_exists [OF assms] by blast
  let ?m = "Suc (greatest (map \<delta> [0..<n]))"
  let ?ls = "layers_of pg n es name"
  note ls = layers_canonical [OF assms \<delta>, of name]
  have len: "length ?ls = ?m" unfolding ls by simp
  have nth: "set (?ls ! d) = name ` {v. v < n \<and> \<delta> v = d}" if "d < ?m" for d
    using that unfolding ls by (auto simp del: upt_Suc)
  have below: "\<delta> v < ?m" if "v < n" for v
    using greatest_ge [of "\<delta> v" "map \<delta> [0..<n]"] that by simp
  have "mset (concat ?ls) = image_mset name (filter_mset (\<lambda>v. \<delta> v < ?m) (mset [0..<n]))"
    unfolding ls mset_concat_map concat_by_depth ..
  also have "filter_mset (\<lambda>v. \<delta> v < ?m) (mset [0..<n]) = mset [0..<n]"
    using below by (auto simp: filter_mset_eq_conv simp del: upt_Suc)
  finally have "mset (concat ?ls) = mset (map name [0..<n])" by simp
  moreover have "list_all sorted ?ls" unfolding ls by (simp add: list_all_iff)
  moreover have "\<exists>j k. j < k \<and> k < length ?ls \<and> name u \<in> set (?ls ! j) \<and> name v \<in> set (?ls ! k)"
    if "(u, v) \<in> set es" for u v
  proof -
    have "u < n" "v < n" using that assms(1) by (auto simp: edges_in_def list_all_iff)
    then show ?thesis
      using depth_edge [OF \<delta> _ that] below nth len by (intro exI [of _ "\<delta> u"] exI [of _ "\<delta> v"]) auto
  qed
  moreover have "\<exists>(u, v) \<in> set es. name v = x \<and> name u \<in> set (?ls ! k)"
    if "Suc k < length ?ls" "x \<in> set (?ls ! Suc k)" for k x
  proof -
    from that obtain v where v: "v < n" "\<delta> v = Suc k" "x = name v" using nth len by auto
    then obtain u where u: "(u, v) \<in> set es" "\<delta> u = k" using depth_pred [OF \<delta>] by blast
    then have "u < n" using assms(1) by (auto simp: edges_in_def list_all_iff)
    then show ?thesis using u v that(1) nth len by (intro bexI [OF _ u(1)]) auto
  qed
  ultimately show ?thesis unfolding layered_def by blast
qed

end

section \<open>The walk over the dependencies\<close>

lemma visit_spec:
  "\<exists>new. visit ns (vis, st) = (new @ vis, new @ st) \<and> distinct new \<and> set new = set ns - set vis"
proof (induction ns arbitrary: vis st)
  case (Cons v ns)
  show ?case
  proof (cases "v \<in> set vis")
    case True
    then show ?thesis using Cons [of vis st] by (auto simp: visit_def)
  next
    case False
    obtain new where new: "visit ns (v # vis, v # st) = (new @ v # vis, new @ v # st)" "distinct new"
      "set new = set ns - set (v # vis)"
      using Cons [of "v # vis" "v # st"] by blast
    have "visit (v # ns) (vis, st) = visit ns (v # vis, v # st)" using False by (simp add: visit_def)
    then show ?thesis using new False by (intro exI [of _ "new @ [v]"]) auto
  qed
qed (simp add: visit_def)

definition upstream :: "edges \<Rightarrow> nat \<Rightarrow> nat set" where
  "upstream es s = {u. (u, s) \<in> (set es)\<^sup>+}"

lemma upstream_bound: "edges_in n es \<Longrightarrow> upstream es s \<subseteq> {..<n}"
proof
  fix u assume "edges_in n es" and "u \<in> upstream es s"
  then obtain w where "(u, w) \<in> set es" by (auto simp: upstream_def dest: tranclD)
  then show "u \<in> {..<n}" using \<open>edges_in n es\<close> by (auto simp: edges_in_def list_all_iff)
qed

lemma upstream_closed: "v \<in> insert s (upstream es s) \<Longrightarrow> (u, v) \<in> set es \<Longrightarrow> u \<in> upstream es s"
  by (auto simp: upstream_def intro: trancl_into_trancl2)

lemma upstream_least:
  assumes "\<And>u v. v \<in> insert s V \<Longrightarrow> (u, v) \<in> set es \<Longrightarrow> u \<in> V"
  shows "upstream es s \<subseteq> V"
proof
  fix u assume "u \<in> upstream es s"
  then have "(u, s) \<in> (set es)\<^sup>+" by (simp add: upstream_def)
  then show "u \<in> V" by (induction rule: converse_trancl_induct) (use assms in auto)
qed

context petgraph_laws
begin

lemma deps_loop_spec:
  assumes "edges_in n es" and "distinct vis" and "set vis \<subseteq> upstream es s" and "set stack \<subseteq> insert s (set vis)"
    and "\<And>u v. v \<in> insert s (set vis) \<Longrightarrow> v \<notin> set stack \<Longrightarrow> (u, v) \<in> set es \<Longrightarrow> u \<in> set vis"
  shows "\<exists>r. deps_loop pg es (vis, stack) = Some r \<and> distinct r \<and> set r = upstream es s"
  using assms(2-5)
proof (induction "2 * (n - length vis) + length stack" arbitrary: vis stack rule: less_induct)
  case less
  show ?case
  proof (cases stack)
    case Nil
    then have "upstream es s \<subseteq> set vis" using less.prems(4) by (intro upstream_least) auto
    then show ?thesis using Nil less.prems(1, 2) by (auto simp: deps_loop.simps)
  next
    case (Cons ni rest)
    obtain new where v: "visit (pg_incoming pg es ni) (vis, rest) = (new @ vis, new @ rest)" "distinct new"
      "set new = set (pg_incoming pg es ni) - set vis"
      using visit_spec by blast
    have ni: "ni \<in> insert s (upstream es s)" using Cons less.prems(2, 3) by auto
    have new: "set new = {u. (u, ni) \<in> set es} - set vis" using v(3) incoming [of es ni] by simp
    have up: "set (new @ vis) \<subseteq> upstream es s" using new upstream_closed [OF ni] less.prems(2) by auto
    have dist: "distinct (new @ vis)" using v(2) new less.prems(1) by auto
    have "length (new @ vis) = card (set (new @ vis))" using distinct_card [OF dist] by simp
    also have "\<dots> \<le> card {..<n}"
      using up upstream_bound [OF assms(1), of s] by (intro card_mono) auto
    finally have "length (new @ vis) \<le> n" by simp
    then have "2 * (n - length (new @ vis)) + length (new @ rest) < 2 * (n - length vis) + length stack"
      using Cons by simp
    from less.hyps [OF this dist up] obtain r where
      "deps_loop pg es (new @ vis, new @ rest) = Some r" "distinct r" "set r = upstream es s"
      using less.prems(3, 4) new Cons by fastforce
    then show ?thesis
      using Cons v(1) by (subst deps_loop.simps) simp
  qed
qed

lemma deps_loop_start:
  "edges_in n es \<Longrightarrow> \<exists>r. deps_loop pg es ([], [s]) = Some r \<and> distinct r \<and> set r = upstream es s"
  by (rule deps_loop_spec) auto

end

section \<open>The critical path\<close>

lemma max_by_dist_snoc:
  "max_by_dist (ps @ [p]) =
     (case max_by_dist ps of None \<Rightarrow> Some p | Some q \<Rightarrow> if snd q \<le> snd p then Some p else Some q)"
  by (simp add: max_by_dist_def split: option.splits)

lemma max_by_dist_spec:
  "case max_by_dist ps of
     None \<Rightarrow> ps = []
   | Some p \<Rightarrow> p \<in> set ps \<and> (\<forall>q \<in> set ps. snd q \<le> snd p)"
proof (induction ps rule: rev_induct)
  case Nil
  then show ?case by (simp add: max_by_dist_def)
next
  case (snoc p ps)
  then show ?case by (auto simp: max_by_dist_snoc split: option.splits)
qed

definition is_path :: "edges \<Rightarrow> nat list \<Rightarrow> bool" where
  "is_path es p \<longleftrightarrow> successively (\<lambda>u v. (u, v) \<in> set es) p"

lemma is_path_snoc: "is_path es (p @ [v]) \<longleftrightarrow> is_path es p \<and> (p \<noteq> [] \<longrightarrow> (last p, v) \<in> set es)"
  by (auto simp: is_path_def successively_append_iff)

context petgraph_laws
begin

lemma dist_fold:
  assumes "distinct order" and "preds_first es order" and "depth_fun pg es (set order) \<delta>"
    and "fold (dist_step pg es) order ([], []) = (dist, pred)"
  shows "dist = map (\<lambda>v. (v, \<delta> v)) order
    \<and> (\<forall>v u. map_of pred v = Some u \<longrightarrow> v \<in> set order \<and> (u, v) \<in> set es \<and> \<delta> v = Suc (\<delta> u))
    \<and> (\<forall>v \<in> set order. map_of pred v = None \<longrightarrow> \<delta> v = 0)"
  using assms
proof (induction order arbitrary: dist pred rule: rev_induct)
  case Nil
  then show ?case by simp
next
  case (snoc v xs)
  obtain d0 p0 where f: "fold (dist_step pg es) xs ([], []) = (d0, p0)" by fastforce
  have xs: "distinct xs" "preds_first es xs" "v \<notin> set xs" and new: "\<And>u. (u, v) \<in> set es \<Longrightarrow> u \<in> set xs"
    and df: "depth_fun pg es (set xs) \<delta>"
    using snoc.prems by (auto simp: preds_first_snoc depth_fun_def)
  note IH = snoc.IH [OF xs(1, 2) df f]
  let ?us = "pg_incoming pg es v"
  have "List.map_filter (\<lambda>dep. map_option (\<lambda>d. (dep, d)) (map_of d0 dep)) us = map (\<lambda>u. (u, \<delta> u)) us"
    if "set us \<subseteq> set xs" for us
    using that
  proof (induction us)
    case (Cons u us)
    then have "map_of d0 u = Some (\<delta> u)" using IH by (simp add: map_of_map_restrict)
    then show ?case using Cons by (simp add: List.map_filter_simps)
  qed (simp add: List.map_filter_simps)
  then have us: "List.map_filter (\<lambda>dep. map_option (\<lambda>d. (dep, d)) (map_of d0 dep)) ?us = map (\<lambda>u. (u, \<delta> u)) ?us"
    using new incoming [of es v] by (metis mem_Collect_eq subsetI)
  have dv: "\<delta> v = next_depth (map \<delta> ?us)" using snoc.prems(3) by (simp add: depth_fun_def)
  have fresh: "v \<notin> fst ` set d0" using IH xs(3) by auto
  have step: "dist_step pg es v (d0, p0) = (dist, pred)" using snoc.prems(4) f by simp
  show ?case
  proof (cases "max_by_dist (map (\<lambda>u. (u, \<delta> u)) ?us)")
    case None
    then have "?us = []" using max_by_dist_spec [of "map (\<lambda>u. (u, \<delta> u)) ?us"] by simp
    then have "\<delta> v = 0" using dv by (simp add: next_depth_def)
    then show ?thesis
      using step us None IH fresh by (auto simp: dist_step_def reg_insert_new)
  next
    case (Some p)
    obtain u d where p: "p = (u, d)" by fastforce
    have "u \<in> set ?us" "d = \<delta> u" and best: "\<forall>w \<in> set ?us. \<delta> w \<le> d"
      using max_by_dist_spec [of "map (\<lambda>u. (u, \<delta> u)) ?us"] Some p by auto
    then have "greatest (map \<delta> ?us) = d"
      using greatest_ge [of "\<delta> u" "map \<delta> ?us"] greatest_in [of "map \<delta> ?us"] by force
    then have "\<delta> v = Suc (\<delta> u)" using dv \<open>u \<in> set ?us\<close> \<open>d = \<delta> u\<close> by (auto simp: next_depth_def)
    moreover have "(u, v) \<in> set es" using \<open>u \<in> set ?us\<close> incoming [of es v] by simp
    ultimately show ?thesis
      using step us Some p IH fresh \<open>d = \<delta> u\<close> by (auto simp: dist_step_def reg_insert_new split: if_splits)
  qed
qed

lemma walk_back_spec:
  assumes "\<And>v u. map_of pred v = Some u \<Longrightarrow> (u, v) \<in> set es \<and> \<delta> v = Suc (\<delta> u)"
    and "\<And>v. v \<in> V \<Longrightarrow> map_of pred v = None \<Longrightarrow> \<delta> v = 0"
    and "\<And>u v. (u, v) \<in> set es \<Longrightarrow> u \<in> V"
    and "v \<in> V"
  shows "\<exists>p. walk_back pred v = Some p \<and> p \<noteq> [] \<and> last p = v \<and> length p = Suc (\<delta> v) \<and> is_path es p \<and> set p \<subseteq> V"
  using assms(4)
proof (induction "\<delta> v" arbitrary: v)
  case 0
  then have "map_of pred v = None" using assms(1) by (metis nat.simps(3) not_None_eq)
  then show ?case using 0 by (subst walk_back.simps) (simp add: is_path_def)
next
  case (Suc k)
  then obtain u where u: "map_of pred v = Some u" using assms(2) by fastforce
  then have e: "(u, v) \<in> set es" "\<delta> v = Suc (\<delta> u)" using assms(1) by blast+
  then obtain p where p: "walk_back pred u = Some p" "p \<noteq> []" "last p = u" "length p = Suc (\<delta> u)" "is_path es p" "set p \<subseteq> V"
    using Suc.hyps(1) [of u] Suc.hyps(2) assms(3) by fastforce
  then show ?case using u e Suc.prems by (subst walk_back.simps) (simp add: is_path_snoc)
qed

lemma path_bounded:
  assumes "depth_fun pg es V \<delta>" and "is_path es q" and "q \<noteq> []" and "set q \<subseteq> V"
  shows "length q \<le> Suc (\<delta> (last q))"
  using assms(2-4)
proof (induction q rule: rev_induct)
  case (snoc v q)
  show ?case
  proof (cases "q = []")
    case False
    then have "length q \<le> Suc (\<delta> (last q))" "(last q, v) \<in> set es" using snoc by (auto simp: is_path_snoc)
    then show ?thesis using depth_edge [OF assms(1), of v "last q"] snoc.prems(3) by simp
  qed simp
qed simp

lemma critical_spec:
  assumes "edges_in (length (od_nodes dag)) (od_edges dag)" and "acyclic (set (od_edges dag))"
    and "\<And>ps. mset (hash_order ps) = mset ps"
  shows "\<exists>p. critical_path pg hash_order dag = Some (map (step_name dag) p)
    \<and> is_path (od_edges dag) p \<and> set p \<subseteq> {..<length (od_nodes dag)}
    \<and> (\<forall>q. is_path (od_edges dag) q \<and> set q \<subseteq> {..<length (od_nodes dag)} \<longrightarrow> length q \<le> length p)"
proof -
  let ?n = "length (od_nodes dag)" and ?es = "od_edges dag"
  obtain order where o: "pg_toposort pg ?n ?es = Inr order" "distinct order" "set order = {..<?n}" "preds_first ?es order"
    using ordered [OF assms(1, 2)] .
  obtain \<delta> where \<delta>: "depth_fun pg ?es {..<?n} \<delta>" using depth_exists [OF assms(1, 2)] by blast
  obtain dist pred where f: "fold (dist_step pg ?es) order ([], []) = (dist, pred)" by fastforce
  note spec = dist_fold [OF o(2, 4) \<delta> [folded o(3)] f]
  have hash: "set (hash_order dist) = (\<lambda>v. (v, \<delta> v)) ` {..<?n}"
    using spec assms(3) [of dist] o(3) by (metis mset_eq_setD set_map)
  show ?thesis
  proof (cases "max_by_dist (hash_order dist)")
    case None
    then have "{..<?n} = {}" using hash max_by_dist_spec [of "hash_order dist"] by auto
    moreover have "is_path ?es []" by (simp add: is_path_def)
    ultimately show ?thesis using None o(1) f by (intro exI [of _ "[]"]) (auto simp: critical_path_def)
  next
    case (Some ed)
    then have "ed \<in> set (hash_order dist)" and top: "\<And>x. x \<in> set (hash_order dist) \<Longrightarrow> snd x \<le> snd ed"
      using max_by_dist_spec [of "hash_order dist"] by auto
    then obtain e where e: "ed = (e, \<delta> e)" "e < ?n" using hash by auto
    have best: "\<delta> v \<le> \<delta> e" if "v < ?n" for v
      using top [of "(v, \<delta> v)"] that hash e(1) by auto
    have "\<exists>p. walk_back pred e = Some p \<and> p \<noteq> [] \<and> last p = e \<and> length p = Suc (\<delta> e) \<and> is_path ?es p \<and> set p \<subseteq> {..<?n}"
      by (rule walk_back_spec) (use spec o(3) e(2) assms(1) in \<open>auto simp: edges_in_def list_all_iff\<close>)
    then obtain p where p: "walk_back pred e = Some p" "length p = Suc (\<delta> e)" "is_path ?es p" "set p \<subseteq> {..<?n}"
      by blast
    have "length q \<le> length p" if "is_path ?es q" "set q \<subseteq> {..<?n}" for q
    proof (cases "q = []")
      case False
      then have "last q < ?n" using that(2) last_in_set by blast
      then show ?thesis using path_bounded [OF \<delta> that(1) False that(2)] best [of "last q"] p(2) by simp
    qed simp
    then show ?thesis using p Some e(1) o(1) f by (intro exI [of _ p]) (simp add: critical_path_def)
  qed
qed

end

section \<open>The graphs the code builds\<close>

lemma step_index_Some: "step_index ids i = Some k \<Longrightarrow> k < length ids \<and> ids ! k = i"
  by (auto simp: step_index_def set_zip dest!: map_of_SomeD)

lemma step_index_mem: "i \<in> set ids \<Longrightarrow> \<exists>k. step_index ids i = Some k"
  by (cases "step_index ids i") (auto simp: step_index_def map_of_eq_None_iff set_zip in_set_conv_nth image_iff)

lemma orchestration_edges_in: "edges_in (length steps) (orchestration_edges steps)"
proof -
  have ix: "the (step_index (map os_id steps) (os_id s)) < length steps" if "s \<in> set steps" for s
    using step_index_mem [of "os_id s" "map os_id steps"] step_index_Some [of "map os_id steps"] that by fastforce
  show ?thesis
    using ix step_index_Some [of "map os_id steps"]
    by (fastforce simp: edges_in_def orchestration_edges_def Let_def list_all_iff set_map_filter)
qed

lemma dag_edges_in: "edges_in (length expanded) (map fst (dag_edges reg expanded))"
  by (fastforce simp: edges_in_def dag_edges_def edges_to_def list_all_iff set_map_filter set_enumerated position_Some
      split: option.splits)

section \<open>A reference implementation of petgraph\<close>

definition ready :: "edges \<Rightarrow> nat list \<Rightarrow> nat \<Rightarrow> bool" where
  "ready es placed v \<longleftrightarrow> list_all (\<lambda>(u, w). w = v \<longrightarrow> u \<in> set placed) es"

function topo_loop :: "edges \<Rightarrow> nat list \<Rightarrow> nat list \<Rightarrow> nat list \<times> nat list" where
  "topo_loop es placed left =
     (case find (ready es placed) left of
        None \<Rightarrow> (placed, left)
      | Some v \<Rightarrow> topo_loop es (placed @ [v]) (remove1 v left))"
  by pat_completeness auto
termination
  by (relation "measure (\<lambda>(_, _, left). length left)")
     (auto dest!: find_Some_mem simp: length_remove1 intro: Nat.diff_less length_pos_if_in_set)

declare topo_loop.simps [simp del]

definition reference_petgraph :: petgraph where
  "reference_petgraph =
     \<lparr>pg_is_cyclic = (\<lambda>n es. snd (topo_loop es [] [0..<n]) \<noteq> []),
      pg_toposort = (\<lambda>n es. case topo_loop es [] [0..<n] of
          (order, []) \<Rightarrow> Inr order
        | (_, left) \<Rightarrow> Inl (case find (\<lambda>i. (i, i) \<in> (set es)\<^sup>+) [0..<n] of Some i \<Rightarrow> i | None \<Rightarrow> hd left)),
      pg_incoming = (\<lambda>es v. map fst (filter (\<lambda>e. snd e = v) es))\<rparr>"

lemma topo_loop_spec:
  assumes "topo_loop es placed left = (order, rest)" and "distinct (placed @ left)" and "preds_first es placed"
  shows "distinct (order @ rest) \<and> set (order @ rest) = set (placed @ left) \<and> preds_first es order
    \<and> (\<forall>v \<in> set rest. \<not> ready es order v)"
  using assms
proof (induction es placed left rule: topo_loop.induct)
  case (1 es placed left)
  show ?case
  proof (cases "find (ready es placed) left")
    case None
    then have "order = placed" "rest = left" using "1.prems"(1) by (simp_all add: topo_loop.simps [of es placed])
    moreover have "\<forall>v \<in> set left. \<not> ready es placed v" using None by (simp add: find_None_iff)
    ultimately show ?thesis using "1.prems" by simp
  next
    case (Some v)
    then have v: "v \<in> set left" "ready es placed v" using find_Some_mem by fast+
    have "preds_first es (placed @ [v])"
      using v(2) "1.prems"(3) by (auto simp: preds_first_snoc ready_def list_all_iff)
    moreover have "distinct ((placed @ [v]) @ remove1 v left)"
      using "1.prems"(2) v(1) by (auto simp: distinct_remove1)
    ultimately show ?thesis
      using "1.IH" [OF Some] "1.prems"(1, 2) Some v(1) by (auto simp: topo_loop.simps [of es placed])
  qed
qed

lemma preds_first_acyclic:
  assumes "distinct order" and "preds_first es order" and "\<And>u v. (u, v) \<in> set es \<Longrightarrow> v \<in> set order"
  shows "acyclic (set es)"
proof -
  define ix where "ix v = the (map_of (zip order [0..<length order]) v)" for v
  have ix: "ix (order ! i) = i" if "i < length order" for i
    using map_of_zip_nth [of order "[0..<length order]" i] assms(1) that by (simp add: ix_def)
  have "set es \<subseteq> measure ix"
  proof (intro subrelI, simp)
    fix u v assume e: "(u, v) \<in> set es"
    then obtain i where i: "i < length order" "order ! i = v" using assms(3) by (metis in_set_conv_nth)
    then have "u \<in> set (take i order)" using assms(2) e unfolding preds_first_def by blast
    then obtain j where "j < i" "order ! j = u" using i(1) by (auto simp: in_set_conv_nth)
    then show "ix u < ix v" using ix [of i] ix [of j] i by auto
  qed
  then show ?thesis by (metis wf_measure wf_subset wf_acyclic)
qed

lemma stuck_cyclic:
  assumes "edges_in n es" and "rest \<noteq> []" and "set (order @ rest) = {..<n}" and "\<forall>v \<in> set rest. \<not> ready es order v"
  shows "\<not> acyclic (set es)"
proof
  assume "acyclic (set es)"
  then have "wf (set es)" by (simp add: finite_acyclic_wf)
  then obtain v where v: "v \<in> set rest" "\<And>u. (u, v) \<in> set es \<Longrightarrow> u \<notin> set rest"
    using assms(2) unfolding wf_eq_minimal by (metis hd_in_set)
  then have "ready es order v"
    using assms(1, 3) by (fastforce simp: ready_def list_all_iff edges_in_def)
  then show False using assms(4) v(1) by blast
qed

lemma cycle_node:
  assumes "edges_in n es" and "\<not> acyclic (set es)"
  shows "\<exists>i. find (\<lambda>i. (i, i) \<in> (set es)\<^sup>+) [0..<n] = Some i \<and> i < n \<and> (i, i) \<in> (set es)\<^sup>+"
proof -
  from assms(2) obtain i where i: "(i, i) \<in> (set es)\<^sup>+" by (auto simp: acyclic_def)
  then have "i < n" using upstream_bound [OF assms(1), of i] by (auto simp: upstream_def)
  then have "find (\<lambda>i. (i, i) \<in> (set es)\<^sup>+) [0..<n] \<noteq> None" using i by (auto simp: find_None_iff)
  then obtain j where "find (\<lambda>i. (i, i) \<in> (set es)\<^sup>+) [0..<n] = Some j" by blast
  then show ?thesis using find_Some_mem by fastforce
qed

interpretation ref: petgraph_laws reference_petgraph
proof
  fix n es order i v
  show "set (pg_incoming reference_petgraph es v) = {u. (u, v) \<in> set es}"
    by (force simp: reference_petgraph_def)
  assume es: "edges_in n es"
  obtain order' left where t: "topo_loop es [] [0..<n] = (order', left)" by fastforce
  have spec: "distinct (order' @ left)" "set (order' @ left) = {..<n}" "preds_first es order'"
    "\<forall>v \<in> set left. \<not> ready es order' v"
    using topo_loop_spec [OF t] by (auto simp: preds_first_def)
  have acyc: "acyclic (set es)" if "left = []"
    using that spec es by (intro preds_first_acyclic [of order']) (auto simp: edges_in_def list_all_iff)
  have stuck: "\<not> acyclic (set es)" if "left \<noteq> []"
    by (rule stuck_cyclic [OF es that spec(2, 4)])
  show "pg_is_cyclic reference_petgraph n es \<longleftrightarrow> \<not> acyclic (set es)"
    using t acyc stuck by (auto simp: reference_petgraph_def)
  show "\<exists>order. pg_toposort reference_petgraph n es = Inr order" if "acyclic (set es)"
    using t stuck that by (cases left) (auto simp: reference_petgraph_def)
  show "distinct order \<and> set order = {..<n} \<and> preds_first es order"
    if "pg_toposort reference_petgraph n es = Inr order"
    using that t spec by (cases left) (auto simp: reference_petgraph_def)
  show "i < n \<and> (i, i) \<in> (set es)\<^sup>+" if "pg_toposort reference_petgraph n es = Inl i"
    using that t stuck cycle_node [OF es] by (cases left) (auto simp: reference_petgraph_def)
qed

end
