(* ===== verification/GraphProperties.thy ===== *)
theory GraphProperties
  imports Graphs
begin

text \<open>
  What the graphs of \<open>Graphs\<close> promise to their callers, for every petgraph that keeps the
  contract \<open>petgraph_laws\<close>: the layers of the component graph, the end of the walk over the
  dependencies, the order of the steps, their critical path, and the stages of a build.
  Each is applied to the reference implementation.
\<close>

section \<open>Component graph\<close>

lemma from_registry_acyclic:
  assumes "petgraph_laws pg" and "from_registry pg reg selected = Inr dag"
  shows "edges_in (length (cg_nodes dag)) (dag_edge_list dag) \<and> acyclic (set (dag_edge_list dag))"
proof -
  let ?ex = "resolve_auto_load reg selected"
  have dag: "dag = \<lparr>cg_nodes = dag_nodes reg selected ?ex, cg_edges = dag_edges reg ?ex\<rparr>"
    and "\<not> pg_is_cyclic pg (length (dag_nodes reg selected ?ex)) (map fst (dag_edges reg ?ex))"
    using assms(2) by (auto simp: from_registry_def Let_def split: if_splits)
  moreover have "length (dag_nodes reg selected ?ex) = length ?ex" by (simp add: dag_nodes_def)
  ultimately show ?thesis
    using petgraph_laws.is_cyclic [OF assms(1) dag_edges_in] dag_edges_in [of ?ex reg] by (simp add: dag_edge_list_def)
qed

text \<open>The layers of a component graph hold every selected or auto-loaded component once,
  each layer is sorted, every dependency leads from an earlier to a later layer, and a component
  that is not in the first layer has a dependency in the layer right before its own.\<close>

theorem component_layers:
  assumes "petgraph_laws pg" and "from_registry pg reg selected = Inr dag"
  shows "layered (node_id dag) (length (cg_nodes dag)) (dag_edge_list dag) (parallel_layers pg dag)"
  using petgraph_laws.layers_layered [OF assms(1)] from_registry_acyclic [OF assms]
  by (simp add: parallel_layers_def)

text \<open>C31. The walk over the dependencies ends, although the graph may have cycles: it returns
  the sorted ids of exactly the nodes from which the component is reached, and nothing for an
  id that is not in the graph.\<close>

theorem transitive_deps_ends:
  assumes "petgraph_laws pg" and "edges_in (length (cg_nodes dag)) (dag_edge_list dag)"
  shows "\<exists>r. transitive_deps pg dag cid = Some r
    \<and> (case position (\<lambda>x. cn_id x = cid) (cg_nodes dag) of
         None \<Rightarrow> r = []
       | Some s \<Rightarrow> sorted r \<and> mset r = image_mset (node_id dag) (mset_set (upstream (dag_edge_list dag) s)))"
proof (cases "position (\<lambda>x. cn_id x = cid) (cg_nodes dag)")
  case None
  then show ?thesis by (simp add: transitive_deps_def)
next
  case (Some s)
  obtain r where "deps_loop pg (dag_edge_list dag) ([], [s]) = Some r" "distinct r" "set r = upstream (dag_edge_list dag) s"
    using petgraph_laws.deps_loop_start [OF assms] by blast
  moreover from this have "mset_set (upstream (dag_edge_list dag) s) = mset r" by (metis mset_set_set)
  ultimately show ?thesis using Some by (simp add: transitive_deps_def)
qed

section \<open>Steps\<close>

definition occurs_before :: "'a list \<Rightarrow> 'a \<Rightarrow> 'a \<Rightarrow> bool" where
  "occurs_before xs a b \<longleftrightarrow> (\<exists>j < length xs. xs ! j = b \<and> a \<in> set (take j xs))"

lemma from_steps_dag:
  assumes "petgraph_laws pg" and "from_steps pg steps = Inr dag"
  shows "od_nodes dag = map (\<lambda>s. \<lparr>on_step_id = os_id s, on_label = os_label s\<rparr>) steps
    \<and> od_edges dag = orchestration_edges steps \<and> edges_in (length steps) (od_edges dag) \<and> acyclic (set (od_edges dag))"
  using assms(2) orchestration_edges_in [of steps] petgraph_laws.is_cyclic [OF assms(1) orchestration_edges_in, of steps]
  by (auto simp: from_steps_def Let_def split: if_splits)

lemma map_step_name:
  assumes "od_nodes dag = map (\<lambda>s. \<lparr>on_step_id = os_id s, on_label = os_label s\<rparr>) steps"
  shows "map (step_name dag) [0..<length steps] = map os_id steps"
  using assms by (intro nth_equalityI) (simp_all add: step_name_def)

lemma step_index_distinct:
  assumes "distinct ids" and "i < length ids"
  shows "step_index ids (ids ! i) = Some i"
  using step_index_mem [of "ids ! i" ids] step_index_Some [of ids "ids ! i"] assms nth_eq_iff_index_eq by fastforce

lemma chain_edges:
  assumes "distinct (map os_id steps)" and "list_all (\<lambda>s. os_depends_on s = []) steps"
  shows "set (orchestration_edges steps) = {(i - 1, i) | i. 0 < i \<and> i < length steps}"
proof -
  have "the (step_index (map os_id steps) (os_id (steps ! i))) = i" if "i < length steps" for i
    using step_index_distinct [OF assms(1), of i] that by simp
  note ix = this
  show ?thesis
  proof (cases "1 < length steps")
    case True
    then have "set (orchestration_edges steps) = (\<lambda>i. (the (step_index (map os_id steps) (os_id (steps ! (i - 1)))),
        the (step_index (map os_id steps) (os_id (steps ! i))))) ` {1..<length steps}"
      using assms(2) by (simp add: orchestration_edges_def Let_def)
    also have "\<dots> = (\<lambda>i. (i - 1, i)) ` {1..<length steps}" using ix by (intro image_cong) auto
    also have "\<dots> = {(i - 1, i) | i. 0 < i \<and> i < length steps}" by force
    finally show ?thesis .
  next
    case False
    then have "orchestration_edges steps = []"
      using assms(2) by (auto simp: orchestration_edges_def Let_def list_all_iff List.map_filter_simps)
    then show ?thesis using False by auto
  qed
qed

lemma chain_order:
  assumes "distinct order" and "set order = {..<n}" and "preds_first es order"
    and "set es = {(i - 1, i) | i. 0 < i \<and> i < n}"
  shows "order = [0..<n]"
proof -
  have len: "length order = n" using distinct_card [OF assms(1)] assms(2) by simp
  have "order ! i = i" if "i < n" for i
    using that
  proof (induction i rule: less_induct)
    case (less i)
    have take: "set (take i order) = {..<i}"
    proof -
      have "take i order = map (\<lambda>j. j) [0..<i]" using less len by (intro nth_equalityI) simp_all
      then show ?thesis by (simp add: lessThan_atLeast0)
    qed
    have "order ! i \<in> {..<n}" using less.prems len assms(2) by (metis nth_mem)
    moreover have "order ! i \<notin> {..<i}"
      using less len assms(1) by (metis lessThan_iff nat_neq_iff nth_eq_iff_index_eq order_less_trans)
    moreover have "order ! i - 1 < i" if "0 < order ! i" "order ! i < n"
    proof -
      have "(order ! i - 1, order ! i) \<in> set es" using that assms(4) by blast
      then show ?thesis using assms(3) less.prems len take unfolding preds_first_def by blast
    qed
    ultimately show ?case by fastforce
  qed
  then show ?thesis using len by (intro nth_equalityI) simp_all
qed

lemma execution_order_correct:
  assumes "petgraph_laws pg" and "from_steps pg steps = Inr dag" and "distinct (map os_id steps)"
  shows "\<exists>order. execution_order pg dag = Inr order \<and> mset order = mset (map os_id steps)
    \<and> (if list_all (\<lambda>s. os_depends_on s = []) steps then order = map os_id steps
       else \<forall>s \<in> set steps. \<forall>dep \<in> set (os_depends_on s).
              dep \<in> set (map os_id steps) \<longrightarrow> occurs_before order dep (os_id s))"
proof -
  note dag = from_steps_dag [OF assms(1, 2)]
  let ?n = "length steps" and ?ids = "map os_id steps"
  have n: "length (od_nodes dag) = ?n" using dag by simp
  have name: "step_name dag i = ?ids ! i" if "i < ?n" for i using dag that by (simp add: step_name_def)
  obtain order where o: "pg_toposort pg ?n (od_edges dag) = Inr order" "distinct order" "set order = {..<?n}"
    "preds_first (od_edges dag) order"
    using petgraph_laws.ordered [OF assms(1)] dag by blast
  have e: "execution_order pg dag = Inr (map (step_name dag) order)" using o(1) n by (simp add: execution_order_def)
  have "mset order = mset [0..<?n]"
    using set_eq_iff_mset_eq_distinct [of order "[0..<?n]"] o(2, 3) by (simp add: lessThan_atLeast0)
  then have perm: "mset (map (step_name dag) order) = mset ?ids"
    using map_step_name [of dag steps] dag by (metis mset_map)
  show ?thesis
  proof (cases "list_all (\<lambda>s. os_depends_on s = []) steps")
    case True
    then have "order = [0..<?n]" using chain_order [OF o(2-4)] chain_edges [OF assms(3)] dag by simp
    then show ?thesis using True e perm map_step_name [of dag steps] dag by simp
  next
    case False
    have "occurs_before (map (step_name dag) order) dep (os_id s)"
      if s: "s \<in> set steps" and d: "dep \<in> set (os_depends_on s)" "dep \<in> set ?ids" for s dep
    proof -
      obtain i where i: "i < ?n" "steps ! i = s" using s by (auto simp: in_set_conv_nth)
      obtain k where k: "step_index ?ids dep = Some k" "k < ?n" "?ids ! k = dep"
        using step_index_mem [OF d(2)] step_index_Some [of ?ids dep] by auto
      have ix: "step_index ?ids (os_id s) = Some i" using step_index_distinct [OF assms(3), of i] i by simp
      have "(k, i) \<in> set (od_edges dag)"
        using False dag s d(1) k(1) ix
        by (force simp: orchestration_edges_def Let_def set_map_filter)
      moreover obtain j where j: "j < length order" "order ! j = i" using o(3) i(1) by (metis in_set_conv_nth lessThan_iff)
      ultimately have "k \<in> set (take j order)" using o(4) by (auto simp: preds_first_def)
      then have "dep \<in> set (take j (map (step_name dag) order))"
        using name [of k] k by (force simp: take_map)
      then show ?thesis using j name [of i] i by (auto simp: occurs_before_def)
    qed
    then show ?thesis using False e perm by simp
  qed
qed

text \<open>Steps whose dependencies name earlier steps form no cycle.\<close>

fun deps_earlier :: "string list \<Rightarrow> orchestration_step list \<Rightarrow> bool" where
  "deps_earlier seen [] = True"
| "deps_earlier seen (s # ss) =
     (os_id s \<notin> set seen \<and> list_all (\<lambda>d. d \<in> set seen) (os_depends_on s) \<and> deps_earlier (os_id s # seen) ss)"

lemma deps_earlier_ids: "deps_earlier seen steps \<Longrightarrow> distinct (map os_id steps) \<and> set (map os_id steps) \<inter> set seen = {}"
  by (induction seen steps rule: deps_earlier.induct) auto

lemma deps_earlier_nth:
  "deps_earlier seen steps \<Longrightarrow> i < length steps \<Longrightarrow>
     set (os_depends_on (steps ! i)) \<subseteq> set seen \<union> set (take i (map os_id steps))"
proof (induction seen steps arbitrary: i rule: deps_earlier.induct)
  case (2 seen s ss)
  then show ?case by (cases i) (fastforce simp: list_all_iff)+
qed simp

lemma in_order_edges:
  assumes "deps_earlier [] steps" and "(k, i) \<in> set (orchestration_edges steps)"
  shows "k < i"
proof -
  let ?ids = "map os_id steps"
  note ids = deps_earlier_ids [OF assms(1), THEN conjunct1]
  show ?thesis
  proof (cases "list_all (\<lambda>s. os_depends_on s = []) steps")
    case True
    then show ?thesis using chain_edges [OF ids] assms(2) by auto
  next
    case False
    then obtain s dep where s: "s \<in> set steps" "dep \<in> set (os_depends_on s)" "step_index ?ids dep = Some k"
      "i = the (step_index ?ids (os_id s))"
      using assms(2) by (auto simp: orchestration_edges_def Let_def set_map_filter)
    obtain j where j: "j < length steps" "steps ! j = s" using s(1) by (auto simp: in_set_conv_nth)
    have i: "i = j" using step_index_distinct [OF ids, of j] j s(4) by simp
    have "dep \<in> set (take j ?ids)" using deps_earlier_nth [OF assms(1) j(1)] s(2) j(2) by auto
    then obtain k' where k': "k' < j" "?ids ! k' = dep" using j(1) by (auto simp: in_set_conv_nth)
    then have "k = k'" using step_index_distinct [OF ids, of k'] j(1) s(3) by simp
    then show ?thesis using k'(1) i by simp
  qed
qed

lemma in_order_executable:
  assumes "petgraph_laws pg" and "deps_earlier [] steps"
  shows "\<exists>dag. from_steps pg steps = Inr dag"
proof -
  have "set (orchestration_edges steps) \<subseteq> less_than" using in_order_edges [OF assms(2)] by auto
  then have "acyclic (set (orchestration_edges steps))" using acyclic_subset [OF wf_acyclic [OF wf_less_than]] by blast
  then show ?thesis
    using petgraph_laws.is_cyclic [OF assms(1) orchestration_edges_in, of steps] by (simp add: from_steps_def Let_def)
qed

text \<open>The execution order of steps that form no cycle holds each step once. Where no step
  declares a dependency the steps run in the order given; otherwise each declared dependency
  that names a step comes before the step that declares it.\<close>

theorem execution_respects_dependencies:
  assumes "petgraph_laws pg" and "from_steps pg steps = Inr dag" and "distinct (map os_id steps)"
  shows "\<exists>order. execution_order pg dag = Inr order \<and> mset order = mset (map os_id steps)
    \<and> (if list_all (\<lambda>s. os_depends_on s = []) steps then order = map os_id steps
       else \<forall>s \<in> set steps. \<forall>dep \<in> set (os_depends_on s).
              dep \<in> set (map os_id steps) \<longrightarrow> occurs_before order dep (os_id s))"
  by (rule execution_order_correct [OF assms])

text \<open>The critical path of steps that form no cycle is found whatever the iteration order
  of the hash map, follows the declared dependencies, and no other path is longer.\<close>

theorem critical_path_longest:
  assumes "petgraph_laws pg" and "from_steps pg steps = Inr dag" and "\<And>ps. mset (hash_order ps) = mset ps"
  shows "\<exists>p. critical_path pg hash_order dag = Some (map (step_name dag) p)
    \<and> is_path (od_edges dag) p \<and> set p \<subseteq> {..<length (od_nodes dag)}
    \<and> (\<forall>q. is_path (od_edges dag) q \<and> set q \<subseteq> {..<length (od_nodes dag)} \<longrightarrow> length q \<le> length p)"
proof -
  have "edges_in (length (od_nodes dag)) (od_edges dag)" "acyclic (set (od_edges dag))"
    using from_steps_dag [OF assms(1, 2)] by auto
  then show ?thesis by (rule petgraph_laws.critical_spec [OF assms(1)]) (rule assms(3))
qed

section \<open>Build stages\<close>

lemma greatest_eqI: "m \<in> set ds \<Longrightarrow> (\<And>d. d \<in> set ds \<Longrightarrow> d \<le> m) \<Longrightarrow> greatest ds = m"
  by (metis antisym greatest_ge greatest_in list.set_cases list.distinct(1))

lemma depth_funI:
  assumes "petgraph_laws pg"
    and "\<And>u v. (u, v) \<in> set es \<Longrightarrow> \<delta> u < \<delta> v"
    and "\<And>v. v < n \<Longrightarrow> \<delta> v = 0 \<or> (\<exists>u. (u, v) \<in> set es \<and> \<delta> v = Suc (\<delta> u))"
  shows "depth_fun pg es {..<n} \<delta>"
  unfolding depth_fun_def
proof
  fix v assume v: "v \<in> {..<n}"
  have preds: "set (map \<delta> (pg_incoming pg es v)) = \<delta> ` {u. (u, v) \<in> set es}"
    using petgraph_laws.incoming [OF assms(1)] by simp
  show "\<delta> v = next_depth (map \<delta> (pg_incoming pg es v))"
  proof (cases "\<delta> v")
    case 0
    then have "pg_incoming pg es v = []"
      using assms(2) [of _ v] petgraph_laws.incoming [OF assms(1), of es v] by (cases "pg_incoming pg es v") auto
    then show ?thesis using 0 by (simp add: next_depth_def)
  next
    case (Suc k)
    then obtain u where u: "(u, v) \<in> set es" "\<delta> u = k" using assms(3) [of v] v by auto
    have "greatest (map \<delta> (pg_incoming pg es v)) = k"
      by (rule greatest_eqI) (use preds u assms(2) [of _ v] Suc in fastforce)+
    moreover have "map \<delta> (pg_incoming pg es v) \<noteq> []" using preds u(1) by (metis empty_iff image_eqI mem_Collect_eq set_empty)
    ultimately show ?thesis using Suc by (simp add: next_depth_def)
  qed
qed

lemma ascending_acyclic: "(\<And>u v. (u, v) \<in> set es \<Longrightarrow> u < (v :: nat)) \<Longrightarrow> acyclic (set es)"
  by (rule wf_acyclic, rule wf_subset [OF wf_less_than]) auto

definition build_depth :: "nat \<Rightarrow> nat \<Rightarrow> nat" where
  "build_depth k v =
     (if v = 0 then 0 else if v \<le> k then 1
      else (if k = 0 then 0 else 2) + (if v = k + 1 then 0 else if v = k + 2 then 1 else 2))"

lemma build_shape:
  assumes "petgraph_laws pg"
  shows "let dag = stages_from_components cs flash; n = length cs + (if flash then 5 else 4)
    in length (bd_nodes dag) = n \<and> edges_in n (bd_edges dag) \<and> acyclic (set (bd_edges dag))
      \<and> depth_fun pg (bd_edges dag) {..<n} (build_depth (length cs))"
proof -
  let ?k = "length cs" and ?es = "bd_edges (stages_from_components cs flash)" and ?n = "length cs + (if flash then 5 else 4)"
  have es: "set ?es = (\<lambda>i. (0, i)) ` {1..<?k + 1} \<union> (\<lambda>i. (i, ?k + 1)) ` {1..<?k + 1} \<union> {(?k + 1, ?k + 2)}
      \<union> (if flash then {(?k + 2, ?k + 3), (?k + 2, ?k + 4)} else {(?k + 2, ?k + 3)})"
    by (auto simp: stages_from_components_def Let_def)
  have "\<And>u v. (u, v) \<in> set ?es \<Longrightarrow> u < v" unfolding es by (auto split: if_splits)
  then have "acyclic (set ?es)" by (rule ascending_acyclic)
  moreover have "edges_in ?n ?es" unfolding edges_in_def list_all_iff es by auto
  moreover have "length (bd_nodes (stages_from_components cs flash)) = ?n" by (simp add: stages_from_components_def Let_def)
  moreover have "depth_fun pg ?es {..<?n} (build_depth ?k)"
  proof (rule depth_funI [OF assms])
    show "build_depth ?k u < build_depth ?k v" if "(u, v) \<in> set ?es" for u v
      using that unfolding es by (auto simp: build_depth_def split: if_splits)
    show "build_depth ?k v = 0 \<or> (\<exists>u. (u, v) \<in> set ?es \<and> build_depth ?k v = Suc (build_depth ?k u))" if v: "v < ?n" for v
    proof -
      consider "v = 0" | "0 < v" "v \<le> ?k" | "v = ?k + 1" | "v = ?k + 2" | "v = ?k + 3" | "v = ?k + 4" "flash"
        using v by (auto split: if_splits) linarith+
      then show ?thesis
      proof cases
        case 1 then show ?thesis by (simp add: build_depth_def)
      next
        case 2 then show ?thesis unfolding es by (intro disjI2 exI [of _ 0]) (auto simp: build_depth_def)
      next
        case 3 then show ?thesis unfolding es by (cases "?k = 0") (auto simp: build_depth_def Suc_le_eq intro!: exI [of _ 1])
      next
        case 4 then show ?thesis unfolding es by (intro disjI2 exI [of _ "?k + 1"]) (auto simp: build_depth_def)
      next
        case 5 then show ?thesis unfolding es by (intro disjI2 exI [of _ "?k + 2"]) (auto simp: build_depth_def)
      next
        case 6 then show ?thesis unfolding es by (intro disjI2 exI [of _ "?k + 2"]) (auto simp: build_depth_def)
      qed
    qed
  qed
  ultimately show ?thesis by (simp add: Let_def)
qed

lemma filter_upt_range: "a \<le> b \<Longrightarrow> b \<le> n \<Longrightarrow> (\<And>v. v < n \<Longrightarrow> P v \<longleftrightarrow> a \<le> v \<and> v < b) \<Longrightarrow> filter P [0..<n] = [a..<b]"
proof (induction n arbitrary: b)
  case (Suc n)
  show ?case
  proof (cases "b = Suc n")
    case True
    show ?thesis
    proof (cases "a = Suc n")
      case True
      then show ?thesis using Suc.prems \<open>b = Suc n\<close> by (auto simp: filter_empty_conv simp del: upt_Suc)
    next
      case False
      then have "filter P [0..<n] = [a..<n]" using Suc.prems True by (intro Suc.IH) auto
      then show ?thesis using Suc.prems True False by simp
    qed
  next
    case False
    then have "filter P [0..<n] = [a..<b]" using Suc.prems by (intro Suc.IH) auto
    then show ?thesis using Suc.prems False by auto
  qed
qed simp

lemma build_layers:
  assumes "petgraph_laws pg"
  shows "build_stages pg (stages_from_components cs flash) =
    map (\<lambda>d. sort (map (build_name (stages_from_components cs flash))
           (filter (\<lambda>v. build_depth (length cs) v = d) [0..<length cs + (if flash then 5 else 4)])))
      [0..<Suc (greatest (map (build_depth (length cs)) [0..<length cs + (if flash then 5 else 4)]))]"
  using petgraph_laws.layers_canonical [OF assms] build_shape [OF assms, of cs flash]
  unfolding build_stages_def Let_def by metis

lemma build_names:
  "map (build_name (stages_from_components cs flash)) [Suc 0..<Suc (length cs)] = map (\<lambda>c. ''codegen_'' @ c) cs"
  by (intro nth_equalityI) (simp_all add: build_name_def stages_from_components_def Let_def nth_append stage_node_def del: upt_Suc)

lemma build_name_0: "build_name (stages_from_components cs flash) 0 = ''validate''"
  by (simp add: build_name_def stages_from_components_def Let_def stage_node_def)

lemma build_name_after:
  "build_name (stages_from_components cs flash) (length cs + Suc i) =
     ([''set_target'', ''build''] @ (if flash then [''flash''] else []) @ [''size_report'']) ! i"
  if "i < (if flash then 4 else 3)"
proof -
  have "i = 0 \<or> i = 1 \<or> i = 2 \<or> i = 3" using that by (auto split: if_splits)
  then show ?thesis using that
    by (auto simp: build_name_def stages_from_components_def Let_def nth_append stage_node_def split: if_splits)
qed

lemma build_greatest:
  "greatest (map (build_depth k) [0..<k + (if flash then 5 else 4)]) = (if k = 0 then 2 else 4)"
proof (rule greatest_eqI)
  have "build_depth k (k + 3) = (if k = 0 then 2 else 4)" by (simp add: build_depth_def)
  then show "(if k = 0 then 2 else 4) \<in> set (map (build_depth k) [0..<k + (if flash then 5 else 4)])"
    by (auto intro!: image_eqI [of _ _ "k + 3"])
qed (auto simp: build_depth_def split: if_splits)

text \<open>The stages of a build: the configuration is validated alone, the components are
  generated together, then the target is set, the firmware built, and it is flashed and measured
  side by side. With no component to generate, nothing connects the target to the validation and
  both are in the first stage.\<close>

theorem build_pipeline_stages:
  assumes "petgraph_laws pg"
  shows "build_stages pg (stages_from_components cs flash) =
    (if cs = [] then [[''set_target'', ''validate'']]
     else [[''validate''], sort (map (\<lambda>c. ''codegen_'' @ c) cs), [''set_target'']])
    @ [[''build''], if flash then [''flash'', ''size_report''] else [''size_report'']]"
proof -
  let ?k = "length cs" and ?n = "length cs + (if flash then 5 else 4)" and ?name = "build_name (stages_from_components cs flash)"
  let ?layer = "\<lambda>d. sort (map ?name (filter (\<lambda>v. build_depth ?k v = d) [0..<?n]))"
  have tail: "?name (?k + 1) = ''set_target''" "?name (?k + 2) = ''build''"
    "map ?name [?k + 3..<?n] = (if flash then [''flash'', ''size_report''] else [''size_report''])"
    using build_name_after [of 0 flash cs] build_name_after [of 1 flash cs] build_name_after [of 2 flash cs]
      build_name_after [of 3 flash cs]
    by (auto simp: upt_rec numeral_eq_Suc)
  have "sort [''flash'', ''size_report''] = [''flash'', ''size_report'']" by code_simp
  then have last: "sort (if flash then [''flash'', ''size_report''] else [''size_report'']) =
      (if flash then [''flash'', ''size_report''] else [''size_report''])" by simp
  show ?thesis
  proof (cases "cs = []")
    case True
    have one: "[0..<2] = [0, ?k + 1]" "[2..<3] = [?k + 2]" using True by (simp_all add: upt_rec)
    have layer: "filter (\<lambda>v. build_depth ?k v = 0) [0..<?n] = [0..<2]"
      "filter (\<lambda>v. build_depth ?k v = 1) [0..<?n] = [2..<3]"
      "filter (\<lambda>v. build_depth ?k v = 2) [0..<?n] = [?k + 3..<?n]"
      by (rule filter_upt_range; auto simp: build_depth_def True)+
    have "sort [''validate'', ''set_target''] = [''set_target'', ''validate'']" by code_simp
    then have "?layer 0 = [''set_target'', ''validate'']"
      unfolding layer(1) one list.map tail build_name_0 by simp
    moreover have "?layer 1 = [''build'']" unfolding layer(2) one list.map tail by simp
    moreover have "?layer 2 = (if flash then [''flash'', ''size_report''] else [''size_report''])"
      unfolding layer(3) tail(3) by (rule last)
    moreover have "[0..<Suc 2] = [0, 1, 2]" by (simp add: upt_rec)
    ultimately show ?thesis unfolding build_layers [OF assms] build_greatest using True by simp
  next
    case False
    have one: "[0..<1] = [0]" "[?k + 1..<?k + 2] = [?k + 1]" "[?k + 2..<?k + 3] = [?k + 2]"
      by (simp_all add: upt_rec)
    have layer: "filter (\<lambda>v. build_depth ?k v = 0) [0..<?n] = [0..<1]"
      "filter (\<lambda>v. build_depth ?k v = 1) [0..<?n] = [1..<?k + 1]"
      "filter (\<lambda>v. build_depth ?k v = 2) [0..<?n] = [?k + 1..<?k + 2]"
      "filter (\<lambda>v. build_depth ?k v = 3) [0..<?n] = [?k + 2..<?k + 3]"
      "filter (\<lambda>v. build_depth ?k v = 4) [0..<?n] = [?k + 3..<?n]"
      by (rule filter_upt_range; use False in \<open>auto simp: build_depth_def\<close>)+
    have "?layer 0 = [''validate'']" unfolding layer(1) one using build_name_0 [of cs flash] by simp
    moreover have "?layer 1 = sort (map (\<lambda>c. ''codegen_'' @ c) cs)"
      unfolding layer(2) using build_names [of cs flash] by (simp del: upt_Suc)
    moreover have "?layer 2 = [''set_target'']" "?layer 3 = [''build'']"
      unfolding layer(3, 4) one using tail by simp_all
    moreover have "?layer 4 = (if flash then [''flash'', ''size_report''] else [''size_report''])"
      unfolding layer(5) tail(3) by (rule last)
    moreover have "[0..<Suc 4] = [0, 1, 2, 3, 4]" by (simp add: upt_rec)
    moreover define names where "names = map (\<lambda>c. ''codegen_'' @ c) cs"
    ultimately show ?thesis
      unfolding build_layers [OF assms] build_greatest names_def [symmetric] using False by simp
  qed
qed

section \<open>On the reference implementation\<close>

declare topo_loop.simps [code] deps_loop.simps [code] walk_back.simps [code]

definition chain_registry :: registry where
  "chain_registry =
     [(''network'', default_def\<lparr>cd_id := ''network''\<rparr>),
      (''wifi'', default_def\<lparr>cd_id := ''wifi'', cd_auto_load := [''network'']\<rparr>),
      (''mqtt'', default_def\<lparr>cd_id := ''mqtt'', cd_dependencies := [''network'', ''wifi'']\<rparr>)]"

definition chain_dag :: component_dag where
  "chain_dag =
     \<lparr>cg_nodes = dag_nodes chain_registry [''wifi'', ''mqtt''] [''mqtt'', ''network'', ''wifi''],
      cg_edges = dag_edges chain_registry [''mqtt'', ''network'', ''wifi'']\<rparr>"

definition retry_steps :: "orchestration_step list" where
  "retry_steps = map (\<lambda>(i, deps). \<lparr>os_id = i, os_label = i, os_depends_on = deps, os_retry_policy = None\<rparr>)
     [(''report'', [''scan'', ''connect'']), (''scan'', []), (''connect'', [''scan''])]"

lemma chain_selection: "from_registry reference_petgraph chain_registry [''wifi'', ''mqtt''] = Inr chain_dag"
  by code_simp

theorem component_layers_witness:
  "layered (node_id chain_dag) (length (cg_nodes chain_dag)) (dag_edge_list chain_dag) (parallel_layers reference_petgraph chain_dag)
   \<and> parallel_layers reference_petgraph chain_dag = [[''network''], [''wifi''], [''mqtt'']]"
proof (rule conjI)
  show "parallel_layers reference_petgraph chain_dag = [[''network''], [''wifi''], [''mqtt'']]"
    by code_simp
qed (rule component_layers [OF ref.petgraph_laws_axioms chain_selection])


theorem transitive_deps_ends_witness:
  "transitive_deps reference_petgraph chain_dag ''mqtt'' = Some [''network'', ''wifi'']
   \<and> sorted [''network'', ''wifi'']
   \<and> mset [''network'', ''wifi''] = image_mset (node_id chain_dag) (mset_set (upstream (dag_edge_list chain_dag) 0))"
proof -
  have "edges_in (length (cg_nodes chain_dag)) (dag_edge_list chain_dag)" by code_simp
  from transitive_deps_ends [OF ref.petgraph_laws_axioms this, of "''mqtt''"]
  obtain r where r: "transitive_deps reference_petgraph chain_dag ''mqtt'' = Some r"
    "case position (\<lambda>x. cn_id x = ''mqtt'') (cg_nodes chain_dag) of
         None \<Rightarrow> r = []
       | Some s \<Rightarrow> sorted r \<and> mset r = image_mset (node_id chain_dag) (mset_set (upstream (dag_edge_list chain_dag) s))"
    by blast
  moreover have "transitive_deps reference_petgraph chain_dag ''mqtt'' = Some [''network'', ''wifi'']" by code_simp
  moreover have "position (\<lambda>x. cn_id x = ''mqtt'') (cg_nodes chain_dag) = Some 0" by code_simp
  ultimately show ?thesis by simp
qed

definition retry_dag :: orchestration_dag where
  "retry_dag =
     \<lparr>od_nodes = map (\<lambda>s. \<lparr>on_step_id = os_id s, on_label = os_label s\<rparr>) retry_steps,
      od_edges = orchestration_edges retry_steps\<rparr>"

lemma retry_dag: "from_steps reference_petgraph retry_steps = Inr retry_dag"
  by code_simp

theorem execution_respects_dependencies_witness:
  "execution_order reference_petgraph retry_dag = Inr [''scan'', ''connect'', ''report'']
   \<and> occurs_before [''scan'', ''connect'', ''report''] ''connect'' ''report''"
proof -
  have "distinct (map os_id retry_steps)" by code_simp
  from execution_respects_dependencies [OF ref.petgraph_laws_axioms retry_dag this]
  obtain order where o: "execution_order reference_petgraph retry_dag = Inr order"
    "if list_all (\<lambda>s. os_depends_on s = []) retry_steps then order = map os_id retry_steps
     else \<forall>s \<in> set retry_steps. \<forall>dep \<in> set (os_depends_on s).
              dep \<in> set (map os_id retry_steps) \<longrightarrow> occurs_before order dep (os_id s)"
    by blast
  moreover have "execution_order reference_petgraph retry_dag = Inr [''scan'', ''connect'', ''report'']" by code_simp
  moreover have "\<not> list_all (\<lambda>s. os_depends_on s = []) retry_steps" by code_simp
  ultimately show ?thesis by (simp add: retry_steps_def)
qed

theorem critical_path_longest_witness:
  "\<exists>p. critical_path reference_petgraph rev retry_dag = Some (map (step_name retry_dag) p)
     \<and> map (step_name retry_dag) p = [''scan'', ''connect'', ''report''] \<and> is_path (od_edges retry_dag) p
     \<and> length [1, 0 :: nat] \<le> length p"
proof -
  have "critical_path reference_petgraph rev retry_dag = Some [''scan'', ''connect'', ''report'']" by code_simp
  moreover have "is_path (od_edges retry_dag) [1, 0]" by code_simp
  moreover have "set [1, 0] \<subseteq> {..<length (od_nodes retry_dag)}" by code_simp
  moreover obtain p where "critical_path reference_petgraph rev retry_dag = Some (map (step_name retry_dag) p)"
    "is_path (od_edges retry_dag) p"
    "\<forall>q. is_path (od_edges retry_dag) q \<and> set q \<subseteq> {..<length (od_nodes retry_dag)} \<longrightarrow> length q \<le> length p"
    using critical_path_longest [OF ref.petgraph_laws_axioms retry_dag, of rev] by auto
  ultimately show ?thesis by (intro exI [of _ p]) auto
qed

theorem build_pipeline_stages_witness:
  "build_stages reference_petgraph (stages_from_components [''wifi'', ''api''] True) =
     [[''validate''], [''codegen_api'', ''codegen_wifi''], [''set_target''], [''build''], [''flash'', ''size_report'']]"
proof -
  have "sort (map (\<lambda>c. ''codegen_'' @ c) [''wifi'', ''api'']) = [''codegen_api'', ''codegen_wifi'']" by code_simp
  then show ?thesis by (simp add: build_pipeline_stages [OF ref.petgraph_laws_axioms])
qed

end
