(* ===== verification/Platform.thy ===== *)
theory Platform
  imports Graphs Maps
begin

text \<open>
  The vocabulary of the platform model (\<open>rshome-schema/src/platform.rs\<close>) and the tables that
  drive the wizard: capabilities, roles, signal surfaces, form factors, topologies and the
  targets of the platform catalogue. An enumeration is a datatype whose constructors carry the
  name of the Rust variant after a prefix of the type. Descriptions and translations, which
  are only displayed, are left out.
\<close>

section \<open>Text and ordered maps\<close>

text \<open>Characters outside ASCII, by their UTF-8 bytes.\<close>

definition utf8 :: "nat list \<Rightarrow> string" where
  "utf8 bs = map char_of bs"

text \<open>\<open>BTreeMap\<close>: an association list whose keys ascend. \<open>bt_alter\<close> is the entry of a key,
  \<open>bt_insert\<close> the insertion.\<close>

fun bt_alter :: "'k::linorder \<Rightarrow> ('v option \<Rightarrow> 'v) \<Rightarrow> ('k \<times> 'v) list \<Rightarrow> ('k \<times> 'v) list" where
  "bt_alter k f [] = [(k, f None)]"
| "bt_alter k f ((l, w) # m) =
     (if k = l then (k, f (Some w)) # m
      else if k < l then (k, f None) # (l, w) # m
      else (l, w) # bt_alter k f m)"

definition bt_insert :: "'k::linorder \<Rightarrow> 'v \<Rightarrow> ('k \<times> 'v) list \<Rightarrow> ('k \<times> 'v) list" where
  "bt_insert k v = bt_alter k (\<lambda>_. v)"

definition bt_of_list :: "('k::linorder \<times> 'v) list \<Rightarrow> ('k \<times> 'v) list" where
  "bt_of_list kvs = fold (\<lambda>(k, v). bt_insert k v) kvs []"

abbreviation bt_sorted :: "('k::linorder \<times> 'v) list \<Rightarrow> bool" where
  "bt_sorted m \<equiv> sorted_wrt (<) (map fst m)"

lemma map_of_bt_alter: "bt_sorted m \<Longrightarrow> map_of (bt_alter k f m) = (map_of m)(k \<mapsto> f (map_of m k))"
proof (induction k f m rule: bt_alter.induct)
  case (2 k f l w m)
  have "map_of m k = None" if "k < l"
    using 2(2) that by (force simp: map_of_eq_None_iff)
  then show ?case using 2 by (auto simp: fun_eq_iff)
qed simp

lemma keys_bt_alter: "set (map fst (bt_alter k f m)) = insert k (set (map fst m))"
  by (induction k f m rule: bt_alter.induct) auto

lemma bt_sorted_alter: "bt_sorted m \<Longrightarrow> bt_sorted (bt_alter k f m)"
proof (induction k f m rule: bt_alter.induct)
  case (2 k f l w m)
  then show ?case using keys_bt_alter [of k f m] by auto
qed simp

lemma bt_sorted_insert: "bt_sorted m \<Longrightarrow> bt_sorted (bt_insert k v m)"
  by (simp add: bt_insert_def bt_sorted_alter)

lemma map_of_bt_insert: "bt_sorted m \<Longrightarrow> map_of (bt_insert k v m) = (map_of m)(k \<mapsto> v)"
  by (simp add: bt_insert_def map_of_bt_alter)

lemma bt_sorted_distinct: "bt_sorted m \<Longrightarrow> distinct (map fst m)"
  by (induction m) force+

section \<open>Enumerations\<close>

datatype (plugins only: code) capability =
    Cap_DualCoreCpu | Cap_SingleCoreCpu | Cap_Wifi | Cap_Ble | Cap_UsbOtg | Cap_UsbSerialJtag
  | Cap_Gptimer | Cap_Ledc | Cap_Mcpwm | Cap_Rmt | Cap_Pcnt | Cap_Gpio | Cap_Uart | Cap_I2c
  | Cap_Spi | Cap_I2s | Cap_Adc | Cap_Touch | Cap_TemperatureSensor | Cap_Lcd | Cap_Camera
  | Cap_AudioI2s | Cap_Thread | Cap_Zigbee | Cap_Psram | Cap_MotorControl | Cap_Imu
  | Cap_LongRange | Cap_Csi | Cap_FailsafeStop | Cap_ApSta | Cap_Bridge | Cap_EspNow
  | Cap_MeshLite | Cap_CanBus | Cap_Rs485

datatype domain_kind =
    Dom_VehicleAircraftControl | Dom_IotDeviceTooling | Dom_HomeDataCenter | Dom_EdgeAi

datatype mcu_role =
    Role_RemoteControlTx | Role_SmartphoneGateway | Role_ControlBoard
  | Role_ControlTelemetryBoard | Role_AllInOneCam | Role_VideoBoard | Role_ReceiverDirectDrive

datatype (plugins only: code) input_surface =
    In_ButtonGpio | In_TouchPad | In_UartRx | In_UsbCdcCommand | In_RotaryEncoder
  | In_AdcVoltage | In_I2cSensor | In_SpiSensor | In_UartSensor | In_PulseCounter
  | In_CaptureSignal | In_TimerTick | In_InterruptEvent | In_WifiEvent | In_BleEvent
  | In_WakeupReason | In_CameraFrame | In_AudioInput | In_ServiceCall | In_ApiCommand
  | In_MqttMessage | In_EspNowData | In_CanBusFrame | In_Rs485Data

datatype (plugins only: code) transform_node =
    Tr_UartProtocolParse | Tr_CommandDispatch | Tr_SensorFrameDecode | Tr_Debounce | Tr_Filter
  | Tr_Calibration | Tr_Normalization | Tr_Threshold | Tr_Mapping | Tr_StateMachine
  | Tr_PidLoop | Tr_SafetyInterlock | Tr_PeriodicTask | Tr_DelayedAction | Tr_PwmSchedule
  | Tr_CaptureCompare | Tr_OneToOne | Tr_OneToMany | Tr_ManyToOne | Tr_ClosedLoopFeedback
  | Tr_JpegEncode | Tr_AudioEncode | Tr_ProtobufEncode | Tr_CanFrameDecode
  | Tr_Rs485ProtocolDecode

datatype (plugins only: code) output_surface =
    Out_GpioLevel | Out_LedcPwm | Out_McpwmPwm | Out_RmtWaveform | Out_RelayDrive
  | Out_MotorDrive | Out_ServoDrive | Out_BuzzerDrive | Out_UartTx | Out_UsbTx
  | Out_I2cMasterWrite | Out_SpiMasterWrite | Out_WifiPacket | Out_BlePacket | Out_StatusLed
  | Out_LcdFrame | Out_AudioStream | Out_NetworkApiState | Out_HttpMjpegStream
  | Out_RtspStream | Out_EspNowData | Out_CanBusTx | Out_Rs485Tx | Out_SdCardWrite

datatype (plugins only: code) feedback_surface =
    Fb_SerialLog | Fb_UsbSerialJtag | Fb_DebugPinToggle | Fb_RuntimeMetrics | Fb_LedIndicator
  | Fb_DisplayText | Fb_SoundFeedback | Fb_PhysicalMotion | Fb_ApiState | Fb_MqttPublish
  | Fb_WebStatus | Fb_BusErrorAlert

datatype (plugins only: code) form_factor_family =
    Ffam_GroundWheeledReactive | Ffam_GroundWheeledBalancing | Ffam_GroundLegged
  | Ffam_AquaticSurface | Ffam_AquaticSubmerged | Ffam_AerialMultirotor
  | Ffam_AerialHelicopter | Ffam_AerialFixedwing | Ffam_AerialVtol | Ffam_LighterThanAir
  | Ffam_Articulated | Ffam_Agricultural | Ffam_Construction | Ffam_Climbing | Ffam_Amphibious
  | Ffam_SoftContinuum | Ffam_EducationalModular | Ffam_JumpingHopping

datatype (plugins only: code) form_factor =
    Ff_Wheeled2wdDiff | Ff_Wheeled4wdDiff | Ff_Wheeled4wdAckermann | Ff_Wheeled6wd
  | Ff_Mecanum4wheel | Ff_Omniwheel3wheel | Ff_Omniwheel4wheel | Ff_BigfootMonsterTruck
  | Ff_BigfootRockCrawler | Ff_AtvOffroad | Ff_DriftRallyRacer | Ff_TrackedSkidsteer
  | Ff_Balance2wheel | Ff_BalanceUnicycle | Ff_Ballbot | Ff_BipedHumanoid | Ff_Quadruped
  | Ff_Hexapod | Ff_Octopod | Ff_BoatSingleRudder | Ff_BoatTwinPropDiff | Ff_Hovercraft
  | Ff_Hydrofoil | Ff_Sailboat | Ff_Rov4thruster | Ff_Rov6thruster | Ff_AuvTorpedo
  | Ff_QuadcopterX | Ff_QuadcopterPlus | Ff_Tricopter | Ff_Hexacopter | Ff_OctocopterX
  | Ff_OctocopterCoax | Ff_HeliSingleRotor | Ff_HeliCoaxial | Ff_HeliTandem
  | Ff_FixedwingStandard | Ff_FixedwingVtail | Ff_FlyingWing | Ff_Glider | Ff_VtolTailsitter
  | Ff_VtolTiltrotor | Ff_VtolQuadplane | Ff_VtolBicopter | Ff_LtaBlimp | Ff_LtaAirship
  | Ff_SnakeSerpentine | Ff_WormModular | Ff_RollingBall | Ff_AutonomousMower | Ff_SprayerSpot
  | Ff_TractorTowedImplement | Ff_ExcavatorArm | Ff_CraneBoom | Ff_SkidSteerLoader
  | Ff_WallClimbingSuction | Ff_CableClimbing | Ff_MagneticClimber
  | Ff_AmphibiousWheelsPlusProp | Ff_SoftGripper | Ff_TentacleArm | Ff_ModularCubelets
  | Ff_JumpingRobot | Ff_Grasshopper

datatype sensor_tier =
    Tier_Basic6ax | Tier_Standard9ax | Tier_Advanced10ax | Tier_Research

datatype sensor_requirement =
    Needs_Gps | Needs_GpsRtk | Needs_Depth | Needs_PressureStrain | Needs_JointEncoder
  | Needs_Adhesion | Needs_WaterContact

datatype companion_link =
    Link_Uart | Link_Can | Link_I2c

datatype (plugins only: code) actuator_family =
    Act_BrushedHbridge | Act_BrushlessEscPwm | Act_BrushlessEscDshot | Act_SteeringServo
  | Act_MixedDiffDrive | Act_MixedAckermann | Act_QuadMix | Act_HydraulicJoint
  | Act_PneumaticChamber | Act_TendonCable | Act_ThrusterVector | Act_HeliSwashplate
  | Act_FixedwingSurfaces | Act_VtolTransition

datatype power_rail =
    Rail_SingleLogicOnly | Rail_DualLogicMotor | Rail_TripleMotorServoLogic

datatype topology_kind =
    Topo_DiyLowcost | Topo_StandardFpv | Topo_ResearchHybrid

datatype implementation_family =
    Impl_EspDrone | Impl_Ardupilot | Impl_Px4 | Impl_Betaflight | Impl_Custom
  | Impl_BrookesiaService | Impl_EspAdf | Impl_EspIotSolution

datatype control_uplink =
    Up_None | Up_EspNow | Up_WifiMesh | Up_Wifi80211lr | Up_BleMesh | Up_Crsf | Up_Sbus
  | Up_WifiMavlink | Up_WifiCrtp | Up_BleGatt | Up_UsbCdc

datatype video_downlink =
    Vid_None | Vid_MjpegHttp | Vid_MjpegUart | Vid_AnalogVtx | Vid_DjiO4 | Vid_Hdzero
  | Vid_Walksnail | Vid_WebrtcSbc

datatype telemetry_kind =
    Tel_None | Tel_MavlinkWifi | Tel_MavlinkUart | Tel_CrsfTelemetry | Tel_DshotTelemetry
  | Tel_CustomUart

datatype killswitch_source =
    Kill_RcSwitch | Kill_RxLoss | Kill_TimeoutNoPacket | Kill_EmergencyButton
  | Kill_SbcHeartbeatLoss | Kill_LowVoltage

datatype rx_loss_behavior =
    Loss_MotorCutoff | Loss_HoverHold | Loss_Rth | Loss_GlideTrim | Loss_Unpowered
  | Loss_PassthroughLast

datatype stop_wiring =
    Stop_None | Stop_GpioPulldown | Stop_RelayCutoff | Stop_EscDshotCmd

datatype chip_family =
    Chip_Esp32D0wd | Chip_Esp32C6 | Chip_Esp32S3

datatype chip_coverage =
    Cov_Preferred | Cov_Caveat | Cov_Insufficient

datatype role_status =
    Status_Supported | Status_Warning | Status_Hidden

datatype solution_kind =
    Kind_FirmwareAppliance | Kind_ConnectivityBridge | Kind_VoiceNode

datatype network_topology =
    Net_Star | Net_PointToPoint | Net_Mesh | Net_Local | Net_None

datatype codegen_path =
    Path_BrookesiaManaged | Path_SelfHosted

datatype ha_entity_kind =
    Ha_BinarySensor | Ha_Sensor | Ha_Switch | Ha_Light | Ha_Climate | Ha_Button | Ha_TextSensor
  | Ha_Number | Ha_Select

text \<open>The names serde gives to the links of a vehicle.\<close>

fun uplink_name :: "control_uplink \<Rightarrow> string" where
  "uplink_name Up_None = ''none''"
| "uplink_name Up_EspNow = ''esp_now''"
| "uplink_name Up_WifiMesh = ''wifi_mesh''"
| "uplink_name Up_Wifi80211lr = ''wifi_80211lr''"
| "uplink_name Up_BleMesh = ''ble_mesh''"
| "uplink_name Up_Crsf = ''crsf''"
| "uplink_name Up_Sbus = ''sbus''"
| "uplink_name Up_WifiMavlink = ''wifi_mavlink''"
| "uplink_name Up_WifiCrtp = ''wifi_crtp''"
| "uplink_name Up_BleGatt = ''ble_gatt''"
| "uplink_name Up_UsbCdc = ''usb_cdc''"

fun telemetry_name :: "telemetry_kind \<Rightarrow> string" where
  "telemetry_name Tel_None = ''none''"
| "telemetry_name Tel_MavlinkWifi = ''mavlink_wifi''"
| "telemetry_name Tel_MavlinkUart = ''mavlink_uart''"
| "telemetry_name Tel_CrsfTelemetry = ''crsf_telemetry''"
| "telemetry_name Tel_DshotTelemetry = ''dshot_telemetry''"
| "telemetry_name Tel_CustomUart = ''custom_uart''"

text \<open>The chip families in the order of their declaration.\<close>

fun chip_rank :: "chip_family \<Rightarrow> nat" where
  "chip_rank Chip_Esp32D0wd = 0"
| "chip_rank Chip_Esp32C6 = 1"
| "chip_rank Chip_Esp32S3 = 2"

lemma chip_rank_inj: "chip_rank a = chip_rank b \<Longrightarrow> a = b"
  by (cases a; cases b) simp_all

instantiation chip_family :: linorder
begin

definition less_eq_chip_family :: "chip_family \<Rightarrow> chip_family \<Rightarrow> bool" where
  "less_eq_chip_family a b \<longleftrightarrow> chip_rank a \<le> chip_rank b"

definition less_chip_family :: "chip_family \<Rightarrow> chip_family \<Rightarrow> bool" where
  "less_chip_family a b \<longleftrightarrow> chip_rank a < chip_rank b"

instance
  by standard (auto simp: less_eq_chip_family_def less_chip_family_def dest: chip_rank_inj)

end

definition is_vehicle_bound :: "mcu_role \<Rightarrow> bool" where
  "is_vehicle_bound r \<longleftrightarrow> r = Role_ControlBoard \<or> r = Role_ControlTelemetryBoard \<or> r = Role_AllInOneCam"

definition all_chip_targets :: "chip_target list" where
  "all_chip_targets = [Esp32, Esp32S2, Esp32S3, Esp32C2, Esp32C3, Esp32C5, Esp32C6, Esp32C61, Esp32H2, Esp32P4]"

section \<open>Pins and failsafe policies\<close>

record pin_assignment =
  pa_function :: string
  pa_default_gpio :: u8
  pa_alternatives :: "u8 list"
  pa_capability :: string

record failsafe_info =
  fi_killswitch_source :: "killswitch_source list"
  fi_rx_loss_behavior :: "rx_loss_behavior option"
  fi_watchdog_ms :: "u32 option"
  fi_emergency_stop_wiring :: stop_wiring

section \<open>Topologies\<close>

definition all_roles :: "mcu_role list" where
  "all_roles = [Role_RemoteControlTx, Role_SmartphoneGateway, Role_ControlBoard, Role_ControlTelemetryBoard,
     Role_AllInOneCam, Role_VideoBoard, Role_ReceiverDirectDrive]"

text \<open>Every role is supported unless it is overridden; the last of several overrides holds.\<close>

definition topology_role_compat :: "(mcu_role \<times> role_status) list \<Rightarrow> mcu_role \<Rightarrow> role_status option" where
  "topology_role_compat overrides =
     fold (\<lambda>(r, s) m. m(r \<mapsto> s)) overrides (fold (\<lambda>r m. m(r \<mapsto> Status_Supported)) all_roles Map.empty)"

record topology_meta =
  tm_id :: topology_kind
  tm_label :: string
  tm_role_compatibility :: "mcu_role \<Rightarrow> role_status option"

definition default_topology_meta :: "topology_meta list" where
  "default_topology_meta =
     [\<lparr>tm_id = Topo_DiyLowcost, tm_label = ''DIY / Low-cost'',
       tm_role_compatibility = topology_role_compat
         [(Role_ReceiverDirectDrive, Status_Warning), (Role_VideoBoard, Status_Hidden)]\<rparr>,
      \<lparr>tm_id = Topo_StandardFpv, tm_label = ''Standard FPV'',
       tm_role_compatibility = topology_role_compat
         [(Role_ControlTelemetryBoard, Status_Warning), (Role_AllInOneCam, Status_Hidden),
          (Role_ReceiverDirectDrive, Status_Warning)]\<rparr>,
      \<lparr>tm_id = Topo_ResearchHybrid, tm_label = ''Research / Hybrid'',
       tm_role_compatibility = topology_role_compat
         [(Role_AllInOneCam, Status_Hidden), (Role_ReceiverDirectDrive, Status_Hidden)]\<rparr>]"

section \<open>Form factors\<close>

record form_factor_meta =
  fm_id :: form_factor
  fm_family :: form_factor_family
  fm_label :: string
  fm_min_sensor_tier :: sensor_tier
  fm_actuator_family :: "actuator_family option"

definition form_factors_1 :: "form_factor_meta list" where
  "form_factors_1 = map (\<lambda>(i, fam, l, tier, act). \<lparr>fm_id = i, fm_family = fam, fm_label = l,
      fm_min_sensor_tier = tier, fm_actuator_family = act\<rparr>)
    [(Ff_Wheeled2wdDiff, Ffam_GroundWheeledReactive, ''2WD differential'', Tier_Basic6ax, Some Act_MixedDiffDrive),
     (Ff_Wheeled4wdDiff, Ffam_GroundWheeledReactive, ''4WD differential'', Tier_Basic6ax, Some Act_MixedDiffDrive),
     (Ff_Wheeled4wdAckermann, Ffam_GroundWheeledReactive, ''4WD Ackermann'', Tier_Basic6ax, Some Act_MixedAckermann),
     (Ff_Wheeled6wd, Ffam_GroundWheeledReactive, ''6WD rover'', Tier_Basic6ax, Some Act_MixedDiffDrive),
     (Ff_Mecanum4wheel, Ffam_GroundWheeledReactive, ''Mecanum (4 wheels)'', Tier_Standard9ax, Some Act_MixedDiffDrive),
     (Ff_Omniwheel3wheel, Ffam_GroundWheeledReactive, ''Omni-wheel (3 wheels)'', Tier_Standard9ax, Some Act_MixedDiffDrive),
     (Ff_Omniwheel4wheel, Ffam_GroundWheeledReactive, ''Omni-wheel (4 wheels)'', Tier_Standard9ax, Some Act_MixedDiffDrive),
     (Ff_BigfootMonsterTruck, Ffam_GroundWheeledReactive, ''Monster truck'', Tier_Basic6ax, Some Act_MixedAckermann),
     (Ff_BigfootRockCrawler, Ffam_GroundWheeledReactive, ''Rock crawler (4-wheel-steer)'', Tier_Basic6ax, Some Act_MixedAckermann),
     (Ff_AtvOffroad, Ffam_GroundWheeledReactive, ''ATV / offroad'', Tier_Basic6ax, Some Act_MixedAckermann),
     (Ff_DriftRallyRacer, Ffam_GroundWheeledReactive, ''Drift / rally racer'', Tier_Basic6ax, Some Act_BrushlessEscDshot),
     (Ff_TrackedSkidsteer, Ffam_GroundWheeledReactive, ''Tracked skid-steer (tank)'', Tier_Basic6ax, Some Act_MixedDiffDrive),
     (Ff_Balance2wheel, Ffam_GroundWheeledBalancing, ''Self-balancing 2-wheel'', Tier_Standard9ax, Some Act_MixedDiffDrive)]"

definition form_factors_2 :: "form_factor_meta list" where
  "form_factors_2 = map (\<lambda>(i, fam, l, tier, act). \<lparr>fm_id = i, fm_family = fam, fm_label = l,
      fm_min_sensor_tier = tier, fm_actuator_family = act\<rparr>)
    [(Ff_BalanceUnicycle, Ffam_GroundWheeledBalancing, ''Unicycle (self-balancing)'', Tier_Advanced10ax, Some Act_MixedDiffDrive),
     (Ff_Ballbot, Ffam_GroundWheeledBalancing, ''Ballbot'', Tier_Advanced10ax, Some Act_MixedDiffDrive),
     (Ff_BipedHumanoid, Ffam_GroundLegged, ''Biped humanoid'', Tier_Standard9ax, None),
     (Ff_Quadruped, Ffam_GroundLegged, ''Quadruped'', Tier_Standard9ax, None),
     (Ff_Hexapod, Ffam_GroundLegged, ''Hexapod'', Tier_Standard9ax, None),
     (Ff_Octopod, Ffam_GroundLegged, ''Octopod'', Tier_Standard9ax, None),
     (Ff_BoatSingleRudder, Ffam_AquaticSurface, ''Boat (1 prop + rudder)'', Tier_Basic6ax, Some Act_MixedAckermann),
     (Ff_BoatTwinPropDiff, Ffam_AquaticSurface, ''Twin-prop boat (differential)'', Tier_Basic6ax, Some Act_MixedDiffDrive),
     (Ff_Hovercraft, Ffam_AquaticSurface, ''Hovercraft'', Tier_Standard9ax, Some Act_MixedAckermann),
     (Ff_Hydrofoil, Ffam_AquaticSurface, ''Hydrofoil'', Tier_Standard9ax, Some Act_FixedwingSurfaces),
     (Ff_Sailboat, Ffam_AquaticSurface, ''Autonomous sailboat'', Tier_Standard9ax, Some Act_SteeringServo),
     (Ff_Rov4thruster, Ffam_AquaticSubmerged, ''ROV (4 thrusters)'', Tier_Standard9ax, Some Act_ThrusterVector),
     (Ff_Rov6thruster, Ffam_AquaticSubmerged, ''ROV (6 thrusters, vectored)'', Tier_Standard9ax, Some Act_ThrusterVector)]"

definition form_factors_3 :: "form_factor_meta list" where
  "form_factors_3 = map (\<lambda>(i, fam, l, tier, act). \<lparr>fm_id = i, fm_family = fam, fm_label = l,
      fm_min_sensor_tier = tier, fm_actuator_family = act\<rparr>)
    [(Ff_AuvTorpedo, Ffam_AquaticSubmerged, ''AUV torpedo'', Tier_Research, Some Act_ThrusterVector),
     (Ff_QuadcopterX, Ffam_AerialMultirotor, ''Quadcopter X'', Tier_Standard9ax, Some Act_QuadMix),
     (Ff_QuadcopterPlus, Ffam_AerialMultirotor, ''Quadcopter +'', Tier_Standard9ax, Some Act_QuadMix),
     (Ff_Tricopter, Ffam_AerialMultirotor, ''Tricopter'', Tier_Standard9ax, Some Act_QuadMix),
     (Ff_Hexacopter, Ffam_AerialMultirotor, ''Hexacopter'', Tier_Standard9ax, Some Act_QuadMix),
     (Ff_OctocopterX, Ffam_AerialMultirotor, ''Octocopter X'', Tier_Standard9ax, Some Act_QuadMix),
     (Ff_OctocopterCoax, Ffam_AerialMultirotor, ''Octocopter coaxial'', Tier_Standard9ax, Some Act_QuadMix),
     (Ff_HeliSingleRotor, Ffam_AerialHelicopter, ''Helicopter (single rotor)'', Tier_Standard9ax, Some Act_HeliSwashplate),
     (Ff_HeliCoaxial, Ffam_AerialHelicopter, ''Coaxial helicopter'', Tier_Standard9ax, Some Act_HeliSwashplate),
     (Ff_HeliTandem, Ffam_AerialHelicopter, ''Tandem helicopter'', Tier_Standard9ax, Some Act_HeliSwashplate),
     (Ff_FixedwingStandard, Ffam_AerialFixedwing, ''Fixed-wing (standard)'', Tier_Standard9ax, Some Act_FixedwingSurfaces),
     (Ff_FixedwingVtail, Ffam_AerialFixedwing, ''Fixed-wing V-tail'', Tier_Standard9ax, Some Act_FixedwingSurfaces),
     (Ff_FlyingWing, Ffam_AerialFixedwing, ''Flying wing'', Tier_Standard9ax, Some Act_FixedwingSurfaces)]"

definition form_factors_4 :: "form_factor_meta list" where
  "form_factors_4 = map (\<lambda>(i, fam, l, tier, act). \<lparr>fm_id = i, fm_family = fam, fm_label = l,
      fm_min_sensor_tier = tier, fm_actuator_family = act\<rparr>)
    [(Ff_Glider, Ffam_AerialFixedwing, ''Glider'', Tier_Standard9ax, Some Act_FixedwingSurfaces),
     (Ff_VtolTailsitter, Ffam_AerialVtol, ''Tail-sitter VTOL'', Tier_Advanced10ax, Some Act_VtolTransition),
     (Ff_VtolTiltrotor, Ffam_AerialVtol, ''Tilt-rotor VTOL'', Tier_Advanced10ax, Some Act_VtolTransition),
     (Ff_VtolQuadplane, Ffam_AerialVtol, ''Quadplane VTOL'', Tier_Advanced10ax, Some Act_VtolTransition),
     (Ff_VtolBicopter, Ffam_AerialVtol, ''Bicopter VTOL'', Tier_Advanced10ax, Some Act_VtolTransition),
     (Ff_LtaBlimp, Ffam_LighterThanAir, ''Blimp'', Tier_Basic6ax, Some Act_ThrusterVector),
     (Ff_LtaAirship, Ffam_LighterThanAir, ''Airship (rigid/semi-rigid)'', Tier_Basic6ax, Some Act_FixedwingSurfaces),
     (Ff_SnakeSerpentine, Ffam_Articulated, ''Snake / serpentine'', Tier_Standard9ax, Some Act_TendonCable),
     (Ff_WormModular, Ffam_Articulated, ''Modular worm'', Tier_Basic6ax, Some Act_PneumaticChamber),
     (Ff_RollingBall, Ffam_Articulated, ''Rolling ball'', Tier_Standard9ax, Some Act_TendonCable),
     (Ff_AutonomousMower, Ffam_Agricultural, ''Autonomous mower'', Tier_Standard9ax, Some Act_MixedDiffDrive),
     (Ff_SprayerSpot, Ffam_Agricultural, ''Spot sprayer'', Tier_Standard9ax, Some Act_MixedAckermann),
     (Ff_TractorTowedImplement, Ffam_Agricultural, ''Tractor + implement (full-size)'', Tier_Research, Some Act_HydraulicJoint)]"

definition form_factors_5 :: "form_factor_meta list" where
  "form_factors_5 = map (\<lambda>(i, fam, l, tier, act). \<lparr>fm_id = i, fm_family = fam, fm_label = l,
      fm_min_sensor_tier = tier, fm_actuator_family = act\<rparr>)
    [(Ff_ExcavatorArm, Ffam_Construction, ''Excavator arm'', Tier_Advanced10ax, Some Act_HydraulicJoint),
     (Ff_CraneBoom, Ffam_Construction, ''Crane boom'', Tier_Standard9ax, Some Act_HydraulicJoint),
     (Ff_SkidSteerLoader, Ffam_Construction, ''Skid-steer loader'', Tier_Standard9ax, Some Act_HydraulicJoint),
     (Ff_WallClimbingSuction, Ffam_Climbing, ''Wall climber (suction)'', Tier_Standard9ax, Some Act_PneumaticChamber),
     (Ff_CableClimbing, Ffam_Climbing, ''Cable climber'', Tier_Basic6ax, Some Act_MixedDiffDrive),
     (Ff_MagneticClimber, Ffam_Climbing, ''Magnetic climber'', Tier_Standard9ax, Some Act_TendonCable),
     (Ff_AmphibiousWheelsPlusProp, Ffam_Amphibious, ''Amphibious (wheels + prop)'', Tier_Standard9ax, None),
     (Ff_SoftGripper, Ffam_SoftContinuum, ''Soft gripper'', Tier_Basic6ax, Some Act_PneumaticChamber),
     (Ff_TentacleArm, Ffam_SoftContinuum, ''Tentacle arm (continuum)'', Tier_Standard9ax, Some Act_TendonCable),
     (Ff_ModularCubelets, Ffam_EducationalModular, ''Modular cubelets'', Tier_Basic6ax, None),
     (Ff_JumpingRobot, Ffam_JumpingHopping, ''Jumping robot'', Tier_Advanced10ax, None),
     (Ff_Grasshopper, Ffam_JumpingHopping, ''Grasshopper'', Tier_Advanced10ax, None)]"

definition default_form_factor_meta :: "form_factor_meta list" where
  "default_form_factor_meta = form_factors_1 @ form_factors_2 @ form_factors_3 @ form_factors_4 @ form_factors_5"

section \<open>Platform catalogue\<close>

record platform_target =
  pt_id :: string
  pt_target :: chip_target
  pt_capabilities :: "capability list"
  pt_inputs :: "input_surface list"
  pt_transforms :: "transform_node list"
  pt_outputs :: "output_surface list"
  pt_feedbacks :: "feedback_surface list"
  pt_feedback_paths :: "(input_surface, transform_node, output_surface, feedback_surface) signal_path list"

definition target_esp32 :: platform_target where
  "target_esp32 = \<lparr>pt_id = ''esp32'', pt_target = Esp32,
 pt_capabilities = [Cap_DualCoreCpu, Cap_Wifi, Cap_Ble, Cap_Gptimer, Cap_Ledc, Cap_Mcpwm, Cap_Rmt, Cap_Pcnt,
      Cap_Gpio, Cap_Uart, Cap_I2c, Cap_Spi, Cap_I2s, Cap_Adc, Cap_Touch, Cap_TemperatureSensor, Cap_EspNow],
 pt_inputs = [In_ButtonGpio, In_TouchPad, In_UartRx, In_AdcVoltage, In_I2cSensor, In_SpiSensor,
      In_UartSensor, In_PulseCounter, In_CaptureSignal, In_TimerTick, In_InterruptEvent, In_WifiEvent,
      In_BleEvent, In_WakeupReason, In_ServiceCall, In_ApiCommand, In_MqttMessage, In_EspNowData],
 pt_transforms = [Tr_UartProtocolParse, Tr_CommandDispatch, Tr_SensorFrameDecode, Tr_Debounce, Tr_Filter,
      Tr_Calibration, Tr_Normalization, Tr_Threshold, Tr_Mapping, Tr_StateMachine, Tr_PidLoop,
      Tr_SafetyInterlock, Tr_PeriodicTask, Tr_DelayedAction, Tr_PwmSchedule, Tr_CaptureCompare, Tr_OneToOne,
      Tr_OneToMany, Tr_ManyToOne, Tr_ClosedLoopFeedback],
 pt_outputs = [Out_GpioLevel, Out_LedcPwm, Out_McpwmPwm, Out_RmtWaveform, Out_RelayDrive, Out_MotorDrive,
      Out_ServoDrive, Out_BuzzerDrive, Out_UartTx, Out_I2cMasterWrite, Out_SpiMasterWrite, Out_WifiPacket,
      Out_BlePacket, Out_StatusLed, Out_NetworkApiState, Out_EspNowData],
 pt_feedbacks = [Fb_SerialLog, Fb_DebugPinToggle, Fb_RuntimeMetrics, Fb_LedIndicator, Fb_ApiState,
      Fb_MqttPublish, Fb_WebStatus],
    pt_feedback_paths = []\<rparr>"

definition target_esp32s3 :: platform_target where
  "target_esp32s3 = \<lparr>pt_id = ''esp32s3'', pt_target = Esp32S3,
 pt_capabilities = [Cap_DualCoreCpu, Cap_Wifi, Cap_Ble, Cap_UsbOtg, Cap_UsbSerialJtag, Cap_Gptimer,
      Cap_Ledc, Cap_Mcpwm, Cap_Rmt, Cap_Pcnt, Cap_Gpio, Cap_Uart, Cap_I2c, Cap_Spi, Cap_I2s, Cap_Adc,
      Cap_Touch, Cap_TemperatureSensor, Cap_Lcd, Cap_Camera, Cap_AudioI2s, Cap_Psram, Cap_EspNow],
 pt_inputs = [In_ButtonGpio, In_TouchPad, In_UartRx, In_UsbCdcCommand, In_RotaryEncoder, In_AdcVoltage,
      In_I2cSensor, In_SpiSensor, In_UartSensor, In_PulseCounter, In_CaptureSignal, In_TimerTick,
      In_InterruptEvent, In_WifiEvent, In_BleEvent, In_WakeupReason, In_CameraFrame, In_AudioInput,
      In_ServiceCall, In_ApiCommand, In_MqttMessage, In_EspNowData],
 pt_transforms = [Tr_UartProtocolParse, Tr_CommandDispatch, Tr_SensorFrameDecode, Tr_Debounce, Tr_Filter,
      Tr_Calibration, Tr_Normalization, Tr_Threshold, Tr_Mapping, Tr_StateMachine, Tr_PidLoop,
      Tr_SafetyInterlock, Tr_PeriodicTask, Tr_DelayedAction, Tr_PwmSchedule, Tr_CaptureCompare, Tr_OneToOne,
      Tr_OneToMany, Tr_ManyToOne, Tr_ClosedLoopFeedback, Tr_JpegEncode, Tr_AudioEncode, Tr_ProtobufEncode],
 pt_outputs = [Out_GpioLevel, Out_LedcPwm, Out_McpwmPwm, Out_RmtWaveform, Out_RelayDrive, Out_MotorDrive,
      Out_ServoDrive, Out_BuzzerDrive, Out_UartTx, Out_UsbTx, Out_I2cMasterWrite, Out_SpiMasterWrite,
      Out_WifiPacket, Out_BlePacket, Out_StatusLed, Out_LcdFrame, Out_AudioStream, Out_NetworkApiState,
      Out_HttpMjpegStream, Out_RtspStream, Out_EspNowData],
 pt_feedbacks = [Fb_SerialLog, Fb_UsbSerialJtag, Fb_DebugPinToggle, Fb_RuntimeMetrics, Fb_LedIndicator,
      Fb_DisplayText, Fb_SoundFeedback, Fb_PhysicalMotion, Fb_ApiState, Fb_MqttPublish, Fb_WebStatus],
 pt_feedback_paths = [\<lparr>sp_source = In_UartRx, sp_transforms = [Tr_UartProtocolParse, Tr_Mapping,
      Tr_StateMachine], sp_sink = Out_McpwmPwm, sp_feedback = [Fb_SerialLog,
      Fb_PhysicalMotion]\<rparr>]\<rparr>"

definition target_esp32c6 :: platform_target where
  "target_esp32c6 = \<lparr>pt_id = ''esp32c6'', pt_target = Esp32C6,
 pt_capabilities = [Cap_SingleCoreCpu, Cap_Wifi, Cap_Ble, Cap_UsbSerialJtag, Cap_Gptimer, Cap_Ledc, Cap_Rmt,
      Cap_Pcnt, Cap_Gpio, Cap_Uart, Cap_I2c, Cap_Spi, Cap_Adc, Cap_TemperatureSensor, Cap_Thread,
      Cap_Zigbee, Cap_EspNow, Cap_MeshLite],
 pt_inputs = [In_ButtonGpio, In_UartRx, In_AdcVoltage, In_I2cSensor, In_SpiSensor, In_UartSensor,
      In_PulseCounter, In_TimerTick, In_InterruptEvent, In_WifiEvent, In_BleEvent, In_WakeupReason,
      In_ServiceCall, In_ApiCommand, In_MqttMessage, In_EspNowData],
 pt_transforms = [Tr_UartProtocolParse, Tr_CommandDispatch, Tr_SensorFrameDecode, Tr_Debounce, Tr_Filter,
      Tr_Calibration, Tr_Normalization, Tr_Threshold, Tr_Mapping, Tr_StateMachine, Tr_PidLoop,
      Tr_SafetyInterlock, Tr_PeriodicTask, Tr_DelayedAction, Tr_PwmSchedule, Tr_OneToOne, Tr_OneToMany,
      Tr_ManyToOne, Tr_ClosedLoopFeedback],
 pt_outputs = [Out_GpioLevel, Out_LedcPwm, Out_RmtWaveform, Out_RelayDrive, Out_UartTx, Out_I2cMasterWrite,
      Out_SpiMasterWrite, Out_WifiPacket, Out_BlePacket, Out_StatusLed, Out_NetworkApiState,
      Out_EspNowData],
 pt_feedbacks = [Fb_SerialLog, Fb_UsbSerialJtag, Fb_RuntimeMetrics, Fb_LedIndicator, Fb_ApiState,
      Fb_MqttPublish, Fb_WebStatus],
    pt_feedback_paths = []\<rparr>"

definition esp_idf_default :: "platform_target list" where
  "esp_idf_default = [target_esp32, target_esp32s3, target_esp32c6]"

end
