(* ===== verification/Catalog.thy ===== *)
theory Catalog
  imports Platform Graphs
begin

text \<open>
  Solutions as the wizard sees them (\<open>rshome-schema/src/solution.rs\<close>): the record with the
  annotations of a vehicle, its registry, and the detection of GPIO conflicts between solutions
  on one chip (\<open>rshome-wizard/src/pin_conflict.rs\<close>).

  The lemmas give the closed form of the table of pin uses, characterise the reported conflicts
  and show that they do not depend on the order of the solutions.
\<close>

section \<open>Exported entities\<close>

record command_binding =
  hc_command :: string
  hc_service_function :: string
  hc_parameter_map :: "(string \<times> json) list"

record state_binding =
  hs_source_event :: string
  hs_field_map :: "(string \<times> string) list"

record ha_entity =
  he_kind :: ha_entity_kind
  he_object_id :: string
  he_unique_id :: "string option"
  he_name :: string
  he_device_class :: "string option"
  he_unit_of_measurement :: "string option"
  he_entity_category :: "string option"
  he_icon :: "string option"
  he_command_bindings :: "command_binding list"
  he_state_binding :: "state_binding option"
  he_availability_event :: "string option"

definition switch_entity :: "string \<Rightarrow> string \<Rightarrow> command_binding list \<Rightarrow> state_binding \<Rightarrow> ha_entity" where
  "switch_entity i name commands state =
     \<lparr>he_kind = Ha_Switch, he_object_id = i, he_unique_id = None, he_name = name, he_device_class = Some ''switch'',
      he_unit_of_measurement = None, he_entity_category = None, he_icon = None, he_command_bindings = commands,
      he_state_binding = Some state, he_availability_event = None\<rparr>"

definition sensor_entity :: "string \<Rightarrow> string \<Rightarrow> string \<Rightarrow> string \<Rightarrow> state_binding \<Rightarrow> ha_entity" where
  "sensor_entity i name device_class unit state =
     \<lparr>he_kind = Ha_Sensor, he_object_id = i, he_unique_id = None, he_name = name, he_device_class = Some device_class,
      he_unit_of_measurement = Some unit, he_entity_category = None, he_icon = None, he_command_bindings = [],
      he_state_binding = Some state, he_availability_event = None\<rparr>"

definition climate_entity :: "string \<Rightarrow> string \<Rightarrow> command_binding list \<Rightarrow> state_binding \<Rightarrow> ha_entity" where
  "climate_entity i name commands state =
     \<lparr>he_kind = Ha_Climate, he_object_id = i, he_unique_id = None, he_name = name, he_device_class = None,
      he_unit_of_measurement = Some (utf8 [194, 176] @ ''C''), he_entity_category = None, he_icon = None,
      he_command_bindings = commands, he_state_binding = Some state, he_availability_event = None\<rparr>"

section \<open>Runtime bindings\<close>

record managed_component =
  mc_name :: string
  mc_version :: "string option"
  mc_git :: "string option"
  mc_namespace :: "string option"

record runtime_binding =
  rb_family :: "string option"
  rb_managed_components :: "managed_component list"
  rb_custom_components :: "string list"
  rb_parameter_projection :: "(string \<times> string) list"
  rb_board_assembly :: "string option"
  rb_ha_entities :: "ha_entity list"
  rb_codegen_path :: codegen_path

definition default_runtime_binding :: runtime_binding where
  "default_runtime_binding =
     \<lparr>rb_family = None, rb_managed_components = [], rb_custom_components = [], rb_parameter_projection = [],
      rb_board_assembly = None, rb_ha_entities = [], rb_codegen_path = Path_BrookesiaManaged\<rparr>"

record runtime_binding_overlay =
  ro_add_managed_components :: "managed_component list"
  ro_remove_managed_components :: "string list"
  ro_add_custom_components :: "string list"
  ro_remove_custom_components :: "string list"
  ro_board_assembly :: "string option"

definition default_overlay :: runtime_binding_overlay where
  "default_overlay =
     \<lparr>ro_add_managed_components = [], ro_remove_managed_components = [], ro_add_custom_components = [],
      ro_remove_custom_components = [], ro_board_assembly = None\<rparr>"

section \<open>Solutions\<close>

record enum_option =
  eo_value :: string
  eo_label :: string

record parameter_dependency =
  pd_parameter_id :: string
  pd_when_value :: string
  pd_when_not_value :: "string option"

record user_parameter =
  up_id :: string
  up_label :: string
  up_required :: bool
  up_secret :: bool
  up_default_value :: "json option"
  up_enum_values :: "enum_option list option"
  up_depends_on :: "parameter_dependency option"

text \<open>The overrides of parameters of a variant are empty in every solution of the catalogue.\<close>

record catalog_variant = solution_variant +
  cv_label :: string
  cv_required_caps :: "capability list"
  cv_parameter_defaults :: "(string \<times> json) list"
  cv_add_external_contracts :: "string list"
  cv_runtime_binding_override :: "runtime_binding_overlay option"

record scheduling_policy =
  sc_id :: string
  sc_label :: string
  sc_decisions :: "string list"

type_synonym solution_path = "(input_surface, transform_node, output_surface, feedback_surface) signal_path"

text \<open>What the pipeline reads of a solution is the parent record \<open>solution_def\<close>; the watchdog of
  its failsafe policy is \<open>sd_watchdog_ms\<close>.\<close>

record catalog_solution = solution_def +
  cs_label :: string
  cs_kind :: solution_kind
  cs_supported_modules :: "string list"
  cs_fixed_inputs :: "input_surface list"
  cs_fixed_outputs :: "output_surface list"
  cs_scheduling :: scheduling_policy
  cs_user_parameters :: "user_parameter list"
  cs_feedback_paths :: "solution_path list"
  cs_variants :: "catalog_variant list"
  cs_runtime_binding :: runtime_binding
  cs_external_contracts :: "string list"
  cs_network_topology :: network_topology
  cs_domain :: "domain_kind option"
  cs_architecture_tier :: "mcu_role option"
  cs_communication_chains :: "mcu_role list option"
  cs_pin_assignments :: "pin_assignment list option"
  cs_topology_category :: "topology_kind option"
  cs_family :: "implementation_family option"
  cs_form_factor_families :: "form_factor list option"
  cs_control_uplink :: "control_uplink option"
  cs_video_downlink :: "video_downlink option"
  cs_telemetry :: "telemetry_kind option"
  cs_sensor_tier_min :: "sensor_tier option"
  cs_required_sensors :: "sensor_requirement list"
  cs_companion_link :: "companion_link option"
  cs_actuator_family :: "actuator_family option"
  cs_power_rails :: "power_rail option"
  cs_failsafe :: "failsafe_info option"
  cs_chip_coverage :: "(chip_family \<times> chip_coverage) list option"

section \<open>Registry\<close>

text \<open>A \<open>BTreeMap\<close> from ids to solutions.\<close>

type_synonym catalog = "(string \<times> catalog_solution) list"

definition catalog_register :: "catalog_solution \<Rightarrow> catalog \<Rightarrow> catalog" where
  "catalog_register s reg = bt_insert (sd_id s) s reg"

definition catalog_get :: "catalog \<Rightarrow> string \<Rightarrow> catalog_solution option" where
  "catalog_get reg i = map_of reg i"

definition catalog_all :: "catalog \<Rightarrow> catalog_solution list" where
  "catalog_all reg = map snd reg"

definition for_module :: "catalog \<Rightarrow> string \<Rightarrow> catalog_solution list" where
  "for_module reg m = filter (\<lambda>s. m \<in> set (cs_supported_modules s)) (catalog_all reg)"

definition for_kind :: "catalog \<Rightarrow> solution_kind \<Rightarrow> catalog_solution list" where
  "for_kind reg k = filter (\<lambda>s. cs_kind s = k) (catalog_all reg)"

fun topology_of_uplink :: "control_uplink option \<Rightarrow> topology_kind option" where
  "topology_of_uplink (Some Up_Crsf) = Some Topo_StandardFpv"
| "topology_of_uplink (Some Up_WifiMavlink) = Some Topo_ResearchHybrid"
| "topology_of_uplink (Some Up_None) = None"
| "topology_of_uplink None = None"
| "topology_of_uplink (Some _) = Some Topo_DiyLowcost"

fun topology_of_video :: "video_downlink option \<Rightarrow> topology_kind option" where
  "topology_of_video (Some Vid_AnalogVtx) = Some Topo_StandardFpv"
| "topology_of_video (Some Vid_MjpegUart) = Some Topo_StandardFpv"
| "topology_of_video (Some Vid_MjpegHttp) = Some Topo_DiyLowcost"
| "topology_of_video (Some Vid_WebrtcSbc) = Some Topo_ResearchHybrid"
| "topology_of_video _ = None"

definition populate_topology :: "catalog_solution \<Rightarrow> catalog_solution" where
  "populate_topology s =
     (if cs_domain s \<noteq> Some Dom_VehicleAircraftControl then s
      else if cs_topology_category s \<noteq> None then s
      else if sd_id s = ''mcu_sbc_bridge_solution'' then s\<lparr>cs_topology_category := Some Topo_ResearchHybrid\<rparr>
      else case topology_of_uplink (cs_control_uplink s) of
             Some t \<Rightarrow> s\<lparr>cs_topology_category := Some t\<rparr>
           | None \<Rightarrow> s\<lparr>cs_topology_category := topology_of_video (cs_video_downlink s)\<rparr>)"

definition populate_topology_category :: "catalog \<Rightarrow> catalog" where
  "populate_topology_category reg = map (\<lambda>(i, s). (i, populate_topology s)) reg"

section \<open>GPIO conflicts\<close>

record gpio_conflict =
  pc_gpio :: u8
  pc_chip :: chip_family
  pc_solutions :: "string \<times> string"
  pc_functions :: "string \<times> string"

definition chip_is_compatible :: "catalog_solution \<Rightarrow> chip_family \<Rightarrow> bool" where
  "chip_is_compatible s chip =
     (case cs_chip_coverage s of None \<Rightarrow> True | Some cov \<Rightarrow> map_of cov chip \<noteq> Some Cov_Insufficient)"

text \<open>The uses of pins: the GPIO, the id of the solution and the function.\<close>

type_synonym pin_use = "string \<times> string"

definition pin_uses :: "catalog_solution list \<Rightarrow> chip_family \<Rightarrow> (u8 \<times> pin_use) list" where
  "pin_uses sols chip =
     concat (map (\<lambda>s. if chip_is_compatible s chip
       then (case cs_pin_assignments s of
               None \<Rightarrow> []
             | Some pins \<Rightarrow> map (\<lambda>p. (pa_default_gpio p, sd_id s, pa_function p)) pins)
       else []) sols)"

definition by_gpio :: "(u8 \<times> pin_use) list \<Rightarrow> (u8 \<times> pin_use list) list" where
  "by_gpio uses =
     fold (\<lambda>(g, u). bt_alter g (\<lambda>us. (case us of None \<Rightarrow> [] | Some us \<Rightarrow> us) @ [u])) uses []"

text \<open>All pairs of positions \<open>i < j\<close>.\<close>

fun pairs :: "'a list \<Rightarrow> ('a \<times> 'a) list" where
  "pairs [] = []"
| "pairs (x # xs) = map (Pair x) xs @ pairs xs"

definition conflict_of :: "chip_family \<Rightarrow> u8 \<Rightarrow> pin_use \<times> pin_use \<Rightarrow> gpio_conflict option" where
  "conflict_of chip gpio uv =
     (let (u, v) = uv
      in if snd u = snd v then None
         else let (a, b) = (if fst u \<le> fst v then (u, v) else (v, u))
              in Some \<lparr>pc_gpio = gpio, pc_chip = chip, pc_solutions = (fst a, fst b), pc_functions = (snd a, snd b)\<rparr>)"

definition detect_conflicts :: "catalog_solution list \<Rightarrow> chip_family \<Rightarrow> gpio_conflict list" where
  "detect_conflicts sols chip =
     concat (map (\<lambda>(gpio, uses). if length uses < 2 then [] else List.map_filter (conflict_of chip gpio) (pairs uses))
       (by_gpio (pin_uses sols chip)))"

section \<open>The table of pin uses\<close>

abbreviation uses_of :: "u8 \<Rightarrow> (u8 \<times> pin_use) list \<Rightarrow> pin_use list" where
  "uses_of g uses \<equiv> map snd (filter (\<lambda>p. fst p = g) uses)"

lemma by_gpio_snoc:
  "by_gpio (uses @ [(g, u)]) = bt_alter g (\<lambda>us. (case us of None \<Rightarrow> [] | Some us \<Rightarrow> us) @ [u]) (by_gpio uses)"
  by (simp add: by_gpio_def)

lemma by_gpio_spec:
  "bt_sorted (by_gpio uses)
   \<and> map_of (by_gpio uses) = (\<lambda>g. if g \<in> fst ` set uses then Some (uses_of g uses) else None)"
proof (induction uses rule: rev_induct)
  case Nil
  then show ?case by (simp add: by_gpio_def fun_eq_iff)
next
  case (snoc x uses)
  obtain g u where x: "x = (g, u)" by (cases x)
  have "filter (\<lambda>p. fst p = g) uses = []" if "g \<notin> fst ` set uses"
    using that by (force simp: filter_empty_conv)
  then show ?case
    using snoc unfolding x by_gpio_snoc by (auto simp: map_of_bt_alter bt_sorted_alter fun_eq_iff)
qed

lemma by_gpio_mem: "(g, us) \<in> set (by_gpio uses) \<longleftrightarrow> g \<in> fst ` set uses \<and> us = uses_of g uses"
proof -
  have "(g, us) \<in> set (by_gpio uses) \<longleftrightarrow> map_of (by_gpio uses) g = Some us"
    using by_gpio_spec [of uses] bt_sorted_distinct by (metis map_of_eq_Some_iff)
  then show ?thesis using by_gpio_spec [of uses] by auto
qed

lemma set_pairs: "(u, v) \<in> set (pairs xs) \<longleftrightarrow> (\<exists>i j. i < j \<and> j < length xs \<and> xs ! i = u \<and> xs ! j = v)"
proof (induction xs)
  case (Cons x xs)
  have "(\<exists>i j. i < j \<and> j < length (x # xs) \<and> (x # xs) ! i = u \<and> (x # xs) ! j = v)
      \<longleftrightarrow> (x = u \<and> v \<in> set xs) \<or> (\<exists>i j. i < j \<and> j < length xs \<and> xs ! i = u \<and> xs ! j = v)" (is "?l \<longleftrightarrow> ?r")
  proof
    assume ?l
    then obtain i j where ij: "i < j" "j < length (x # xs)" "(x # xs) ! i = u" "(x # xs) ! j = v" by blast
    then obtain j' where j: "j = Suc j'" by (cases j) auto
    show ?r using ij j by (cases i) auto
  next
    assume ?r
    then show ?l
    proof
      assume "x = u \<and> v \<in> set xs"
      then obtain j where "j < length xs" "xs ! j = v" by (auto simp: in_set_conv_nth)
      then show ?l using \<open>x = u \<and> v \<in> set xs\<close> by (intro exI [of _ 0] exI [of _ "Suc j"]) simp
    next
      assume "\<exists>i j. i < j \<and> j < length xs \<and> xs ! i = u \<and> xs ! j = v"
      then obtain i j where "i < j" "j < length xs" "xs ! i = u" "xs ! j = v" by blast
      then show ?l by (intro exI [of _ "Suc i"] exI [of _ "Suc j"]) simp
    qed
  qed
  then show ?case using Cons by auto
qed simp

lemma pairs_short: "length xs < 2 \<Longrightarrow> pairs xs = []"
  by (cases xs rule: remdups_adj.cases) simp_all

lemma detect_conflicts_alt:
  "detect_conflicts sols chip =
     concat (map (\<lambda>(g, us). List.map_filter (conflict_of chip g) (pairs us)) (by_gpio (pin_uses sols chip)))"
proof -
  have "(if length us < 2 then [] else List.map_filter (conflict_of chip g) (pairs us)) =
      List.map_filter (conflict_of chip g) (pairs us)" for g us
    by (simp add: pairs_short List.map_filter_simps)
  then show ?thesis by (simp only: detect_conflicts_def)
qed

lemma detect_conflicts_mem:
  "c \<in> set (detect_conflicts sols chip) \<longleftrightarrow>
     (\<exists>g u v. (u, v) \<in> set (pairs (uses_of g (pin_uses sols chip))) \<and> conflict_of chip g (u, v) = Some c)"
proof -
  let ?uses = "pin_uses sols chip"
  have "c \<in> set (detect_conflicts sols chip) \<longleftrightarrow>
      (\<exists>g us. (g, us) \<in> set (by_gpio ?uses) \<and> (\<exists>uv \<in> set (pairs us). conflict_of chip g uv = Some c))"
    unfolding detect_conflicts_alt by (force simp: set_map_filter)
  also have "\<dots> \<longleftrightarrow> (\<exists>g. g \<in> fst ` set ?uses \<and> (\<exists>uv \<in> set (pairs (uses_of g ?uses)). conflict_of chip g uv = Some c))"
    unfolding by_gpio_mem by blast
  also have "\<dots> \<longleftrightarrow> (\<exists>g. \<exists>uv \<in> set (pairs (uses_of g ?uses)). conflict_of chip g uv = Some c)"
  proof -
    have "g \<in> fst ` set ?uses" if "uv \<in> set (pairs (uses_of g ?uses))" for g uv
    proof (rule ccontr)
      assume "g \<notin> fst ` set ?uses"
      then have "filter (\<lambda>p. fst p = g) ?uses = []" by (force simp: filter_empty_conv)
      then show False using that by simp
    qed
    then show ?thesis by blast
  qed
  finally show ?thesis by (simp add: Bex_def)
qed

text \<open>The conflicts of two uses, whatever their order, when different solutions make them or they
  agree.\<close>

lemma conflict_of_swap: "fst u \<noteq> fst v \<or> snd u = snd v \<Longrightarrow> conflict_of chip g (u, v) = conflict_of chip g (v, u)"
  by (auto simp: conflict_of_def)

lemma conflict_of_Some: "(\<exists>c. conflict_of chip g (u, v) = Some c) \<longleftrightarrow> snd u \<noteq> snd v"
  by (auto simp: conflict_of_def split: if_splits)

lemma conflict_of_refl: "conflict_of chip g (u, u) = None"
  by (simp add: conflict_of_def)

lemma pairs_mem: "(u, v) \<in> set (pairs xs) \<Longrightarrow> u \<in> set xs \<and> v \<in> set xs"
  by (auto simp: set_pairs)

lemma mem_pairs:
  assumes "u \<in> set xs" and "v \<in> set xs" and "u \<noteq> v"
  shows "(u, v) \<in> set (pairs xs) \<or> (v, u) \<in> set (pairs xs)"
proof -
  from assms obtain i j where "i < length xs" "xs ! i = u" "j < length xs" "xs ! j = v"
    by (auto simp: in_set_conv_nth)
  then show ?thesis using assms(3) unfolding set_pairs by (metis nat_neq_iff)
qed

text \<open>A use stands for a solution that the chip can run and one of its functions on a GPIO.\<close>

definition books :: "catalog_solution \<Rightarrow> u8 \<Rightarrow> string \<Rightarrow> bool" where
  "books s g f \<longleftrightarrow>
     (case cs_pin_assignments s of
        None \<Rightarrow> False
      | Some pins \<Rightarrow> (g, f) \<in> set (map (\<lambda>p. (pa_default_gpio p, pa_function p)) pins))"

lemma pin_uses_mem:
  "(g, i, f) \<in> set (pin_uses sols chip) \<longleftrightarrow>
     (\<exists>s \<in> set sols. chip_is_compatible s chip \<and> sd_id s = i \<and> books s g f)"
proof -
  define row where "row s = (if chip_is_compatible s chip
       then (case cs_pin_assignments s of
               None \<Rightarrow> []
             | Some pins \<Rightarrow> map (\<lambda>p. (pa_default_gpio p, sd_id s, pa_function p)) pins)
       else [])" for s
  have "(g, i, f) \<in> set (row s) \<longleftrightarrow> chip_is_compatible s chip \<and> sd_id s = i \<and> books s g f" for s
  proof (cases "cs_pin_assignments s")
    case (Some pins)
    have "(\<lambda>p. (pa_default_gpio p, sd_id s, pa_function p)) ` set pins =
        (\<lambda>(g, f). (g, sd_id s, f)) ` (\<lambda>p. (pa_default_gpio p, pa_function p)) ` set pins"
      unfolding image_image by simp
    moreover have "(g, i, f) \<in> (\<lambda>(g, f). (g, sd_id s, f)) ` X \<longleftrightarrow> sd_id s = i \<and> (g, f) \<in> X" for X by auto
    ultimately have "(g, i, f) \<in> (\<lambda>p. (pa_default_gpio p, sd_id s, pa_function p)) ` set pins \<longleftrightarrow>
        sd_id s = i \<and> (g, f) \<in> (\<lambda>p. (pa_default_gpio p, pa_function p)) ` set pins" by (simp only:)
    then show ?thesis
      unfolding books_def row_def Some option.case set_map 
      by (cases "chip_is_compatible s chip") (simp_all only: if_True if_False list.set empty_iff set_map simp_thms)
  next
    case None
    then show ?thesis
      unfolding books_def row_def None option.case
      by (cases "chip_is_compatible s chip") (simp_all only: if_True if_False list.set empty_iff simp_thms)
  qed
  moreover have "pin_uses sols chip = concat (map row sols)" unfolding pin_uses_def row_def [abs_def] ..
  ultimately show ?thesis by (simp only: set_concat set_map UN_iff bex_simps)
qed

lemma uses_of_mem: "u \<in> set (uses_of g uses) \<longleftrightarrow> (g, u) \<in> set uses"
proof -
  have "u \<in> set (uses_of g uses) \<longleftrightarrow> u \<in> snd ` {p \<in> set uses. fst p = g}" by simp
  also have "\<dots> \<longleftrightarrow> (g, u) \<in> set uses"
  proof
    assume "(g, u) \<in> set uses"
    then show "u \<in> snd ` {p \<in> set uses. fst p = g}" by (intro image_eqI [of _ _ "(g, u)"]) simp_all
  qed auto
  finally show ?thesis .
qed

lemma conflict_free:
  "detect_conflicts sols chip = [] \<longleftrightarrow>
     (\<forall>g u v. (g, u) \<in> set (pin_uses sols chip) \<longrightarrow> (g, v) \<in> set (pin_uses sols chip) \<longrightarrow> snd u = snd v)"
  (is "_ \<longleftrightarrow> ?r")
proof -
  let ?uses = "pin_uses sols chip"
  have "detect_conflicts sols chip = [] \<longleftrightarrow> (\<forall>c. c \<notin> set (detect_conflicts sols chip))" by (metis all_not_in_conv set_empty)
  also have "\<dots> \<longleftrightarrow> (\<forall>g u v. (u, v) \<in> set (pairs (uses_of g ?uses)) \<longrightarrow> snd u = snd v)"
    unfolding detect_conflicts_mem using conflict_of_Some by blast
  also have "\<dots> \<longleftrightarrow> ?r"
  proof
    assume l: "\<forall>g u v. (u, v) \<in> set (pairs (uses_of g ?uses)) \<longrightarrow> snd u = snd v"
    show ?r
    proof (intro allI impI)
      fix g u v assume uv: "(g, u) \<in> set ?uses" "(g, v) \<in> set ?uses"
      show "snd u = snd v"
      proof (cases "u = v")
        case False
        then show ?thesis using mem_pairs [of u "uses_of g ?uses" v] uv l unfolding uses_of_mem by metis
      qed simp
    qed
  next
    assume ?r
    then show "\<forall>g u v. (u, v) \<in> set (pairs (uses_of g ?uses)) \<longrightarrow> snd u = snd v"
      using pairs_mem uses_of_mem by meson
  qed
  finally show ?thesis .
qed

section \<open>Properties\<close>

text \<open>Solutions can share a chip exactly when each GPIO is booked for one function by all the
  solutions the chip can run. This includes the pins of a single solution: one that books a
  GPIO twice conflicts with itself.\<close>

theorem conflict_free_iff:
  "detect_conflicts sols chip = [] \<longleftrightarrow>
     (\<forall>s \<in> set sols. \<forall>t \<in> set sols. \<forall>g f f'. chip_is_compatible s chip \<longrightarrow> chip_is_compatible t chip \<longrightarrow>
        books s g f \<longrightarrow> books t g f' \<longrightarrow> f = f')"
  unfolding conflict_free split_paired_All snd_conv pin_uses_mem by blast

text \<open>C27. When no solution books a GPIO twice and their ids differ, the conflicts are exactly the
  pairs of solutions with different functions on one GPIO, each named in the order of the ids:
  none is missed and the answer does not depend on the order of the solutions.\<close>

theorem conflicts_are_double_bookings:
  assumes "\<And>s g f f'. s \<in> set sols \<Longrightarrow> books s g f \<Longrightarrow> books s g f' \<Longrightarrow> f = f'"
    and "distinct (map sd_id sols)"
  shows "c \<in> set (detect_conflicts sols chip) \<longleftrightarrow>
    (\<exists>s \<in> set sols. \<exists>t \<in> set sols. \<exists>g f f'. chip_is_compatible s chip \<and> chip_is_compatible t chip
       \<and> books s g f \<and> books t g f' \<and> f \<noteq> f' \<and> sd_id s < sd_id t
       \<and> c = \<lparr>pc_gpio = g, pc_chip = chip, pc_solutions = (sd_id s, sd_id t), pc_functions = (f, f')\<rparr>)"
    (is "?l \<longleftrightarrow> ?r")
proof
  assume ?l
  then obtain g u v where uv: "(u, v) \<in> set (pairs (uses_of g (pin_uses sols chip)))" "conflict_of chip g (u, v) = Some c"
    unfolding detect_conflicts_mem by blast
  obtain i f j f' where u: "u = (i, f)" and v: "v = (j, f')" by (cases u; cases v)
  have "(g, i, f) \<in> set (pin_uses sols chip)" "(g, j, f') \<in> set (pin_uses sols chip)"
    using pairs_mem [OF uv(1)] unfolding uses_of_mem u v by auto
  then obtain s t where st: "s \<in> set sols" "chip_is_compatible s chip" "sd_id s = i" "books s g f"
    "t \<in> set sols" "chip_is_compatible t chip" "sd_id t = j" "books t g f'"
    unfolding pin_uses_mem by blast
  have ff: "f \<noteq> f'" using uv(2) u v by (auto simp: conflict_of_def)
  have "i \<noteq> j"
  proof
    assume "i = j"
    then have "s = t" using st assms(2) by (metis distinct_map inj_on_def)
    then show False using assms(1) st ff by blast
  qed
  then consider "i < j" | "j < i" by fastforce
  then show ?r
  proof cases
    case 1
    then have "i \<le> j" by simp
    then have "c = \<lparr>pc_gpio = g, pc_chip = chip, pc_solutions = (i, j), pc_functions = (f, f')\<rparr>"
      using uv(2) ff u v by (simp add: conflict_of_def)
    then show ?thesis using st ff 1 by blast
  next
    case 2
    then have "\<not> i \<le> j" by simp
    then have "c = \<lparr>pc_gpio = g, pc_chip = chip, pc_solutions = (j, i), pc_functions = (f', f)\<rparr>"
      using uv(2) ff u v by (simp add: conflict_of_def)
    then show ?thesis using st ff 2 by metis
  qed
next
  assume ?r
  then obtain s t g f f' where st: "s \<in> set sols" "t \<in> set sols" "chip_is_compatible s chip" "chip_is_compatible t chip"
    "books s g f" "books t g f'" "f \<noteq> f'" "sd_id s < sd_id t"
    and c: "c = \<lparr>pc_gpio = g, pc_chip = chip, pc_solutions = (sd_id s, sd_id t), pc_functions = (f, f')\<rparr>" by blast
  let ?u = "(sd_id s, f)" and ?v = "(sd_id t, f')"
  have "(g, ?u) \<in> set (pin_uses sols chip)" "(g, ?v) \<in> set (pin_uses sols chip)"
    unfolding pin_uses_mem using st by blast+
  then have "(?u, ?v) \<in> set (pairs (uses_of g (pin_uses sols chip))) \<or> (?v, ?u) \<in> set (pairs (uses_of g (pin_uses sols chip)))"
    using mem_pairs [of ?u "uses_of g (pin_uses sols chip)" ?v] st(7) unfolding uses_of_mem by simp
  moreover have "conflict_of chip g (?u, ?v) = Some c" "conflict_of chip g (?v, ?u) = Some c"
    using st(7, 8) c by (auto simp: conflict_of_def)
  ultimately show ?l unfolding detect_conflicts_mem by blast
qed

text \<open>A registry looks up what was registered last under an id, in the order of the ids.\<close>

theorem catalog_register_get:
  assumes "bt_sorted reg"
  shows "catalog_get (catalog_register s reg) i = (if i = sd_id s then Some s else catalog_get reg i)
    \<and> bt_sorted (catalog_register s reg)"
  using assms by (simp add: catalog_get_def catalog_register_def map_of_bt_insert bt_sorted_insert)

definition new_topology :: "catalog_solution \<Rightarrow> topology_kind option" where
  "new_topology s =
     (if cs_domain s \<noteq> Some Dom_VehicleAircraftControl \<or> cs_topology_category s \<noteq> None then cs_topology_category s
      else if sd_id s = ''mcu_sbc_bridge_solution'' then Some Topo_ResearchHybrid
      else case topology_of_uplink (cs_control_uplink s) of
             Some t \<Rightarrow> Some t
           | None \<Rightarrow> topology_of_video (cs_video_downlink s))"

text \<open>Populating the topologies changes nothing but missing topologies of vehicle solutions and
  keeps explicit ones, so doing it again changes nothing.\<close>

theorem populate_topology_idempotent:
  "populate_topology_category (populate_topology_category reg) = populate_topology_category reg
   \<and> map fst (populate_topology_category reg) = map fst reg
   \<and> list_all2 (\<lambda>(_, s) (_, t). \<exists>c. t = s\<lparr>cs_topology_category := c\<rparr> \<and> (cs_topology_category s \<noteq> None \<longrightarrow> t = s)) reg
       (populate_topology_category reg)"
proof -
  have same: "populate_topology s = s\<lparr>cs_topology_category := new_topology s\<rparr>" for s
    by (auto simp: populate_topology_def new_topology_def split: option.splits)
  have "new_topology (s\<lparr>cs_topology_category := new_topology s\<rparr>) = new_topology s" for s
    by (auto simp: new_topology_def split: option.splits)
  then have again: "populate_topology (populate_topology s) = populate_topology s" for s
    unfolding same [of s] same [of "s\<lparr>cs_topology_category := new_topology s\<rparr>"] by simp
  have keep: "cs_topology_category s \<noteq> None \<Longrightarrow> populate_topology s = s" for s
    by (simp add: populate_topology_def)
  have "list_all2 (\<lambda>(_, s) (_, t). \<exists>c. t = s\<lparr>cs_topology_category := c\<rparr> \<and> (cs_topology_category s \<noteq> None \<longrightarrow> t = s)) reg
       (populate_topology_category reg)"
    unfolding populate_topology_category_def list_all2_map2
    by (rule list_all2_refl) (use same keep in auto)
  moreover have "populate_topology_category (populate_topology_category reg) = populate_topology_category reg"
    using again by (simp add: populate_topology_category_def case_prod_beta comp_def)
  ultimately show ?thesis by (simp add: populate_topology_category_def case_prod_beta comp_def)
qed

section \<open>Examples\<close>

text \<open>A solution with the given pins and nothing else, as the unit tests build it.\<close>

definition plain_solution :: "string \<Rightarrow> (u8 \<times> string) list \<Rightarrow> catalog_solution" where
  "plain_solution i pins =
     \<lparr>sd_id = i, sd_fixed_orchestration = [], sd_variants = [], sd_bundle = \<lparr>cb_required = [], cb_optional = []\<rparr>,
      sd_watchdog_ms = None, cs_label = i, cs_kind = Kind_FirmwareAppliance, cs_supported_modules = [],
      cs_fixed_inputs = [], cs_fixed_outputs = [],
      cs_scheduling = \<lparr>sc_id = ''test'', sc_label = ''test'', sc_decisions = []\<rparr>, cs_user_parameters = [],
      cs_feedback_paths = [], cs_variants = [], cs_runtime_binding = default_runtime_binding, cs_external_contracts = [],
      cs_network_topology = Net_Star, cs_domain = None, cs_architecture_tier = None, cs_communication_chains = None,
      cs_pin_assignments = Some (map (\<lambda>(g, f). \<lparr>pa_function = f, pa_default_gpio = g, pa_alternatives = [],
        pa_capability = ''test''\<rparr>) pins),
      cs_topology_category = None, cs_family = None, cs_form_factor_families = None, cs_control_uplink = None,
      cs_video_downlink = None, cs_telemetry = None, cs_sensor_tier_min = None, cs_required_sensors = [],
      cs_companion_link = None, cs_actuator_family = None, cs_power_rails = None, cs_failsafe = None,
      cs_chip_coverage = None\<rparr>"

lemma plain_solution_simps [simp]:
  "sd_id (plain_solution i pins) = i" "chip_is_compatible (plain_solution i pins) chip"
  "books (plain_solution i pins) g f \<longleftrightarrow> (g, f) \<in> set pins"
proof -
  have "set (map (\<lambda>p. (pa_default_gpio p, pa_function p)) (map (\<lambda>(g, f). \<lparr>pa_function = f, pa_default_gpio = g,
      pa_alternatives = [], pa_capability = ''test''\<rparr>) pins)) = set pins"
    by (simp only: map_map comp_def) (simp add: case_prod_beta)
  then show "books (plain_solution i pins) g f \<longleftrightarrow> (g, f) \<in> set pins"
    unfolding books_def plain_solution_def catalog_solution.simps option.case by (simp only:)
qed (simp_all add: plain_solution_def chip_is_compatible_def)

theorem conflict_free_iff_witness:
  "detect_conflicts [plain_solution ''a'' [(21, ''i2c_sda'')], plain_solution ''b'' [(21, ''i2c_sda''), (4, ''led'')]] Chip_Esp32S3 = []"
  by (simp add: conflict_free_iff)

theorem conflicts_are_double_bookings_witness:
  "\<lparr>pc_gpio = 10, pc_chip = Chip_Esp32S3, pc_solutions = (''alpha'', ''beta''), pc_functions = (''motor_a_pwm'', ''status_led'')\<rparr>
   \<in> set (detect_conflicts [plain_solution ''beta'' [(10, ''status_led'')], plain_solution ''alpha'' [(10, ''motor_a_pwm'')]] Chip_Esp32S3)"
  (is "?c \<in> set (detect_conflicts ?sols _)")
proof -
  have ids: "distinct (map sd_id ?sols)" by simp
  have "f = f'" if "s \<in> set ?sols" "books s g f" "books s g f'" for s g f f'
    using that by auto
  moreover have "\<exists>s \<in> set ?sols. \<exists>t \<in> set ?sols. \<exists>g f f'. chip_is_compatible s Chip_Esp32S3 \<and> chip_is_compatible t Chip_Esp32S3
      \<and> books s g f \<and> books t g f' \<and> f \<noteq> f' \<and> sd_id s < sd_id t
      \<and> ?c = \<lparr>pc_gpio = g, pc_chip = Chip_Esp32S3, pc_solutions = (sd_id s, sd_id t), pc_functions = (f, f')\<rparr>"
    by simp
  ultimately show ?thesis using conflicts_are_double_bookings [OF _ ids] by blast
qed

theorem catalog_register_get_witness:
  "catalog_get (catalog_register (plain_solution ''b'' []) [(''a'', plain_solution ''a'' [])]) ''b'' = Some (plain_solution ''b'' [])"
  using catalog_register_get [of "[(''a'', plain_solution ''a'' [])]" "plain_solution ''b'' []" "''b''"] by simp

theorem populate_topology_idempotent_witness:
  "populate_topology_category [(''a'', plain_solution ''a'' [])] = [(''a'', plain_solution ''a'' [])]
   \<and> populate_topology_category (populate_topology_category [(''a'', plain_solution ''a'' [])]) = [(''a'', plain_solution ''a'' [])]"
proof -
  have "populate_topology_category [(''a'', plain_solution ''a'' [])] = [(''a'', plain_solution ''a'' [])]"
    by (simp add: populate_topology_category_def populate_topology_def plain_solution_def)
  then show ?thesis using populate_topology_idempotent [of "[(''a'', plain_solution ''a'' [])]"] by simp
qed

end
