(* ===== verification/Workspace.thy ===== *)
theory Workspace
  imports Catalog
begin

text \<open>
  The validation of a workspace of saved profiles (\<open>rshome-wizard/src/workspace.rs\<close>): unknown
  solutions, the pairing of transmitters and receiver_profiles over their control uplinks and telemetry,
  and GPIO conflicts among the profiles of one chip family.

  The main lemma states exactly when a workspace is accepted.
\<close>

section \<open>Profiles and errors\<close>

record saved_profile =
  pf_label :: string
  pf_chip_target :: chip_family
  pf_solution_id :: string
  pf_parameter_values :: "(string \<times> json) list"

type_synonym workspace = "saved_profile list"

datatype ws_error_kind =
    We_UnknownSolution
  | We_UnmatchedTxUplink
  | We_UnmatchedRxUplink
  | We_ChainTelemetryMismatch
  | We_PinConflict
  | We_ParameterizedUplinkInvalid

record ws_error =
  we_kind :: ws_error_kind
  we_message :: string
  we_profiles :: "string list"

type_synonym resolved = "(saved_profile \<times> catalog_solution option) list"

text \<open>The profiles whose solution is known.\<close>

definition known :: "resolved \<Rightarrow> (saved_profile \<times> catalog_solution) list" where
  "known rs = List.map_filter (\<lambda>(p, s). map_option (Pair p) s) rs"

section \<open>Links\<close>

definition effective_control_uplink :: "saved_profile \<Rightarrow> catalog_solution \<Rightarrow> string option" where
  "effective_control_uplink p s =
     (if sd_id s = ''phone_bridge_solution''
      then Option.bind (map_of (pf_parameter_values p) ''vehicle_side_protocol'') as_str
      else map_option uplink_name (cs_control_uplink s))"

fun sends :: "mcu_role option \<Rightarrow> bool" where
  "sends (Some Role_RemoteControlTx) = True"
| "sends (Some Role_SmartphoneGateway) = True"
| "sends _ = False"

fun receives :: "mcu_role option \<Rightarrow> bool" where
  "receives (Some Role_ControlBoard) = True"
| "receives (Some Role_ControlTelemetryBoard) = True"
| "receives (Some Role_AllInOneCam) = True"
| "receives _ = False"

definition sender_profiles :: "resolved \<Rightarrow> (saved_profile \<times> catalog_solution) list" where
  "sender_profiles rs = filter (\<lambda>(_, s). sends (cs_architecture_tier s)) (known rs)"

definition receiver_profiles :: "resolved \<Rightarrow> (saved_profile \<times> catalog_solution) list" where
  "receiver_profiles rs = filter (\<lambda>(_, s). receives (cs_architecture_tier s)) (known rs)"

definition dash :: string where
  "dash = utf8 [226, 128, 148]"

text \<open>The first receiver on the uplink of a transmitter is its peer.\<close>

definition peer :: "(saved_profile \<times> catalog_solution) list \<Rightarrow> string \<Rightarrow> (saved_profile \<times> catalog_solution) option" where
  "peer rx u = find (\<lambda>(_, r). map_option uplink_name (cs_control_uplink r) = Some u) rx"

definition check_telemetry :: "saved_profile \<times> catalog_solution \<Rightarrow> saved_profile \<times> catalog_solution \<Rightarrow> ws_error list" where
  "check_telemetry ps qr =
     (case (cs_telemetry (snd ps), cs_telemetry (snd qr)) of
        (Some a, Some b) \<Rightarrow>
          if telemetry_name a \<noteq> telemetry_name b
          then [\<lparr>we_kind = We_ChainTelemetryMismatch,
                 we_message = ''TX '' @ quoted (pf_label (fst ps)) @ '' telemetry = '' @ telemetry_name a @
                   ''; RX '' @ quoted (pf_label (fst qr)) @ '' telemetry = '' @ telemetry_name b @ '' '' @ dash @
                   '' must agree'',
                 we_profiles = [pf_label (fst ps), pf_label (fst qr)]\<rparr>]
          else []
      | _ \<Rightarrow> [])"

definition check_sender ::
    "(saved_profile \<times> catalog_solution) list \<Rightarrow> saved_profile \<times> catalog_solution \<Rightarrow> ws_error list" where
  "check_sender rx ps =
     (let (p, s) = ps
      in case effective_control_uplink p s of
           None \<Rightarrow>
             [\<lparr>we_kind = We_ParameterizedUplinkInvalid,
               we_message = ''profile '' @ quoted (pf_label p) @ '' (solution '' @ quoted (sd_id s) @
                 '') has a parameterized control_uplink but the required parameter is missing or invalid'',
               we_profiles = [pf_label p]\<rparr>]
         | Some u \<Rightarrow>
             (case peer rx u of
                None \<Rightarrow>
                  [\<lparr>we_kind = We_UnmatchedTxUplink,
                    we_message = ''TX profile '' @ quoted (pf_label p) @ '' speaks '' @ quoted u @
                      '' uplink; no RX profile in this workspace matches'',
                    we_profiles = [pf_label p]\<rparr>]
              | Some qr \<Rightarrow> check_telemetry ps qr))"

definition check_receiver ::
    "(saved_profile \<times> catalog_solution) list \<Rightarrow> saved_profile \<times> catalog_solution \<Rightarrow> ws_error list" where
  "check_receiver tx qr =
     (let (q, r) = qr
      in case cs_control_uplink r of
           None \<Rightarrow> []
         | Some k \<Rightarrow>
             if list_ex (\<lambda>(p, s). effective_control_uplink p s = Some (uplink_name k)) tx then []
             else [\<lparr>we_kind = We_UnmatchedRxUplink,
                    we_message = ''RX profile '' @ quoted (pf_label q) @ '' expects '' @ quoted (uplink_name k) @
                      '' uplink; no TX profile in this workspace provides it'',
                    we_profiles = [pf_label q]\<rparr>])"

definition validate_pairs :: "resolved \<Rightarrow> ws_error list" where
  "validate_pairs rs =
     concat (map (check_sender (receiver_profiles rs)) (sender_profiles rs)) @ concat (map (check_receiver (sender_profiles rs)) (receiver_profiles rs))"

section \<open>Pins of a chip family\<close>

fun show_family :: "chip_family \<Rightarrow> string" where
  "show_family Chip_Esp32D0wd = ''Esp32D0wd''"
| "show_family Chip_Esp32C6 = ''Esp32C6''"
| "show_family Chip_Esp32S3 = ''Esp32S3''"

definition by_chip :: "resolved \<Rightarrow> (chip_family \<times> (saved_profile \<times> catalog_solution) list) list" where
  "by_chip rs =
     fold (\<lambda>ps. bt_alter (pf_chip_target (fst ps)) (\<lambda>es. (case es of None \<Rightarrow> [] | Some es \<Rightarrow> es) @ [ps])) (known rs) []"

text \<open>The label of a solution: of its last profile on the chip.\<close>

definition label_of :: "(saved_profile \<times> catalog_solution) list \<Rightarrow> string \<Rightarrow> string" where
  "label_of es i = (case map_of (rev (map (\<lambda>(p, s). (sd_id s, pf_label p)) es)) i of Some l \<Rightarrow> l | None \<Rightarrow> i)"

definition conflict_error :: "(saved_profile \<times> catalog_solution) list \<Rightarrow> chip_family \<Rightarrow> gpio_conflict \<Rightarrow> ws_error" where
  "conflict_error es chip c =
     (let a = label_of es (fst (pc_solutions c)); b = label_of es (snd (pc_solutions c))
      in \<lparr>we_kind = We_PinConflict,
          we_message = ''GPIO '' @ show_nat (unat (pc_gpio c)) @ '' on '' @ show_family chip @ '': '' @ quoted a @
            '' uses it as '' @ quoted (fst (pc_functions c)) @ ''; '' @ quoted b @ '' uses it as '' @
            quoted (snd (pc_functions c)) @ '' '' @ dash @ '' pick distinct pins or split onto separate boards'',
          we_profiles = [a, b]\<rparr>)"

definition chip_errors :: "chip_family \<Rightarrow> (saved_profile \<times> catalog_solution) list \<Rightarrow> ws_error list" where
  "chip_errors chip es = (if length es < 2 then [] else map (conflict_error es chip) (detect_conflicts (map snd es) chip))"

definition validate_pin_conflicts :: "resolved \<Rightarrow> ws_error list" where
  "validate_pin_conflicts rs = concat (map (\<lambda>(chip, es). chip_errors chip es) (by_chip rs))"

section \<open>Workspaces\<close>

definition resolve_profiles :: "workspace \<Rightarrow> catalog \<Rightarrow> resolved" where
  "resolve_profiles ws reg = map (\<lambda>p. (p, catalog_get reg (pf_solution_id p))) ws"

definition unknown_error :: "saved_profile \<Rightarrow> ws_error" where
  "unknown_error p =
     \<lparr>we_kind = We_UnknownSolution,
      we_message = ''profile '' @ quoted (pf_label p) @ '' references solution '' @ quoted (pf_solution_id p) @
        '' which is not in the registry'',
      we_profiles = [pf_label p]\<rparr>"

definition validate_workspace :: "workspace \<Rightarrow> catalog \<Rightarrow> ws_error list" where
  "validate_workspace ws reg =
     (let rs = resolve_profiles ws reg
      in map (\<lambda>(p, _). unknown_error p) (filter (\<lambda>(_, s). s = None) rs) @ validate_pairs rs @ validate_pin_conflicts rs)"

section \<open>When a workspace is accepted\<close>

definition telemetry_agrees :: "catalog_solution \<Rightarrow> catalog_solution \<Rightarrow> bool" where
  "telemetry_agrees s r \<longleftrightarrow> (\<forall>a b. cs_telemetry s = Some a \<longrightarrow> cs_telemetry r = Some b \<longrightarrow> a = b)"

lemma telemetry_name_inj: "telemetry_name a = telemetry_name b \<longleftrightarrow> a = b"
  by (cases a; cases b) simp_all

lemma check_telemetry_empty: "check_telemetry ps qr = [] \<longleftrightarrow> telemetry_agrees (snd ps) (snd qr)"
  by (auto simp: check_telemetry_def telemetry_agrees_def telemetry_name_inj split: option.splits)

lemma check_sender_empty:
  "check_sender rx (p, s) = [] \<longleftrightarrow>
     (\<exists>u q r. effective_control_uplink p s = Some u \<and> peer rx u = Some (q, r) \<and> telemetry_agrees s r)"
  by (auto simp: check_sender_def check_telemetry_empty split: option.splits)

lemma check_receiver_empty:
  "check_receiver tx (q, r) = [] \<longleftrightarrow>
     (\<forall>k. cs_control_uplink r = Some k \<longrightarrow> (\<exists>(p, s) \<in> set tx. effective_control_uplink p s = Some (uplink_name k)))"
  by (auto simp: check_receiver_def list_ex_iff split: option.splits)

lemma by_chip_spec:
  "bt_sorted (fold (\<lambda>ps. bt_alter (f ps) (\<lambda>es. (case es of None \<Rightarrow> [] | Some es \<Rightarrow> es) @ [ps])) xs [])
   \<and> map_of (fold (\<lambda>ps. bt_alter (f ps) (\<lambda>es. (case es of None \<Rightarrow> [] | Some es \<Rightarrow> es) @ [ps])) xs []) =
     (\<lambda>c. if c \<in> f ` set xs then Some (filter (\<lambda>ps. f ps = c) xs) else None)"
proof (induction xs rule: rev_induct)
  case (snoc x xs)
  have "filter (\<lambda>ps. f ps = c) xs = []" if "c \<notin> f ` set xs" for c
    using that by (auto simp: filter_empty_conv)
  then show ?case using snoc by (auto simp: map_of_bt_alter bt_sorted_alter fun_eq_iff)
qed (simp add: fun_eq_iff)

definition on_chip :: "resolved \<Rightarrow> chip_family \<Rightarrow> (saved_profile \<times> catalog_solution) list" where
  "on_chip rs chip = filter (\<lambda>ps. pf_chip_target (fst ps) = chip) (known rs)"

lemma by_chip_mem: "(chip, es) \<in> set (by_chip rs) \<longleftrightarrow> es = on_chip rs chip \<and> es \<noteq> []"
proof -
  note spec = by_chip_spec [of "\<lambda>ps. pf_chip_target (fst ps)" "known rs", folded by_chip_def]
  have "(chip, es) \<in> set (by_chip rs) \<longleftrightarrow> map_of (by_chip rs) chip = Some es"
    using spec bt_sorted_distinct by (metis map_of_eq_Some_iff)
  moreover have ne: "on_chip rs chip \<noteq> [] \<longleftrightarrow> chip \<in> (\<lambda>ps. pf_chip_target (fst ps)) ` set (known rs)"
    by (force simp: on_chip_def filter_empty_conv)
  have "map_of (by_chip rs) chip = (if on_chip rs chip \<noteq> [] then Some (on_chip rs chip) else None)"
    unfolding ne using spec by (simp add: on_chip_def)
  ultimately show ?thesis by auto
qed

lemma validate_pin_conflicts_mem:
  "e \<in> set (validate_pin_conflicts rs) \<longleftrightarrow> (\<exists>chip. e \<in> set (chip_errors chip (on_chip rs chip)))"
proof -
  have "e \<in> set (validate_pin_conflicts rs) \<longleftrightarrow> (\<exists>chip es. (chip, es) \<in> set (by_chip rs) \<and> e \<in> set (chip_errors chip es))"
    by (force simp: validate_pin_conflicts_def)
  also have "\<dots> \<longleftrightarrow> (\<exists>chip. on_chip rs chip \<noteq> [] \<and> e \<in> set (chip_errors chip (on_chip rs chip)))"
    unfolding by_chip_mem by blast
  also have "\<dots> \<longleftrightarrow> (\<exists>chip. e \<in> set (chip_errors chip (on_chip rs chip)))"
    by (metis chip_errors_def empty_iff length_0_conv list.set(1) zero_less_numeral)
  finally show ?thesis .
qed

lemma validate_pin_conflicts_empty:
  "validate_pin_conflicts rs = [] \<longleftrightarrow>
     (\<forall>chip. 2 \<le> length (on_chip rs chip) \<longrightarrow> detect_conflicts (map snd (on_chip rs chip)) chip = [])"
proof -
  have "validate_pin_conflicts rs = [] \<longleftrightarrow> (\<forall>chip. chip_errors chip (on_chip rs chip) = [])"
    using validate_pin_conflicts_mem [of _ rs] by (metis all_not_in_conv set_empty)
  then show ?thesis by (auto simp: chip_errors_def)
qed

lemma label_of_last:
  assumes "i \<in> (\<lambda>(p, s). sd_id s) ` set es"
  shows "\<exists>before p s after. es = before @ (p, s) # after \<and> sd_id s = i \<and> label_of es i = pf_label p
    \<and> (\<forall>(q, t) \<in> set after. sd_id t \<noteq> i)"
  using assms
proof (induction es rule: rev_induct)
  case (snoc x es)
  obtain p s where x: "x = (p, s)" by (cases x)
  show ?case
  proof (cases "sd_id s = i")
    case True
    then show ?thesis unfolding x by (intro exI [of _ es] exI [of _ p] exI [of _ s] exI [of _ "[]"]) (simp add: label_of_def)
  next
    case False
    then obtain pre q t post where "es = pre @ (q, t) # post" "sd_id t = i" "label_of es i = pf_label q"
      "\<forall>(q, t) \<in> set post. sd_id t \<noteq> i"
      using snoc x by auto
    then show ?thesis using False unfolding x
      by (intro exI [of _ pre] exI [of _ q] exI [of _ t] exI [of _ "post @ [(p, s)]"]) (simp add: label_of_def)
  qed
qed simp

lemma conflict_solutions:
  assumes "c \<in> set (detect_conflicts sols chip)"
  shows "fst (pc_solutions c) \<in> sd_id ` set sols \<and> snd (pc_solutions c) \<in> sd_id ` set sols"
proof -
  obtain g u v where uv: "(u, v) \<in> set (pairs (uses_of g (pin_uses sols chip)))" and c: "conflict_of chip g (u, v) = Some c"
    using assms unfolding detect_conflicts_mem by blast
  obtain i f j f' where u: "u = (i, f)" and v: "v = (j, f')" by (cases u; cases v)
  have "i \<in> sd_id ` set sols" "j \<in> sd_id ` set sols"
    using pairs_mem [OF uv] unfolding uses_of_mem u v pin_uses_mem by auto
  then show ?thesis using c u v by (auto simp: conflict_of_def split: if_splits)
qed

section \<open>Properties\<close>

text \<open>C17. A workspace is accepted exactly when every profile names a registered solution, every
  transmitter has an uplink, a receiver on it and the same telemetry as the first such receiver,
  every receiver with an uplink has a transmitter on it, and the solutions of the profiles on one
  chip family have no GPIO conflict.\<close>

theorem workspace_accepted_iff:
  "validate_workspace ws reg = [] \<longleftrightarrow>
     (let rs = resolve_profiles ws reg
      in (\<forall>p \<in> set ws. catalog_get reg (pf_solution_id p) \<noteq> None)
       \<and> (\<forall>(p, s) \<in> set (sender_profiles rs). \<exists>u q r. effective_control_uplink p s = Some u
            \<and> peer (receiver_profiles rs) u = Some (q, r) \<and> telemetry_agrees s r)
       \<and> (\<forall>(q, r) \<in> set (receiver_profiles rs). \<forall>k. cs_control_uplink r = Some k \<longrightarrow>
            (\<exists>(p, s) \<in> set (sender_profiles rs). effective_control_uplink p s = Some (uplink_name k)))
       \<and> (\<forall>chip. 2 \<le> length (on_chip rs chip) \<longrightarrow> detect_conflicts (map snd (on_chip rs chip)) chip = []))"
proof -
  let ?rs = "resolve_profiles ws reg"
  have unknown: "map (\<lambda>(p, _). unknown_error p) (filter (\<lambda>(_, s). s = None) ?rs) = [] \<longleftrightarrow>
      (\<forall>p \<in> set ws. catalog_get reg (pf_solution_id p) \<noteq> None)"
    by (auto simp: resolve_profiles_def filter_empty_conv)
  have tx: "concat (map (check_sender (receiver_profiles ?rs)) (sender_profiles ?rs)) = [] \<longleftrightarrow>
      (\<forall>(p, s) \<in> set (sender_profiles ?rs). \<exists>u q r. effective_control_uplink p s = Some u
            \<and> peer (receiver_profiles ?rs) u = Some (q, r) \<and> telemetry_agrees s r)"
    unfolding concat_eq_Nil_conv using check_sender_empty by fastforce
  have rx: "concat (map (check_receiver (sender_profiles ?rs)) (receiver_profiles ?rs)) = [] \<longleftrightarrow>
      (\<forall>(q, r) \<in> set (receiver_profiles ?rs). \<forall>k. cs_control_uplink r = Some k \<longrightarrow>
            (\<exists>(p, s) \<in> set (sender_profiles ?rs). effective_control_uplink p s = Some (uplink_name k)))"
    unfolding concat_eq_Nil_conv using check_receiver_empty by fastforce
  show ?thesis
    unfolding validate_workspace_def Let_def append_is_Nil_conv validate_pairs_def unknown tx rx
      validate_pin_conflicts_empty by blast
qed

text \<open>An error about pins names, for each of its solutions, the last profile on the chip that
  uses it: a profile that is followed by another of the same solution is never named.\<close>

theorem conflicts_name_last_profile:
  assumes "e \<in> set (validate_pin_conflicts (resolve_profiles ws reg))"
  shows "we_kind e = We_PinConflict
    \<and> (\<exists>chip. \<forall>l \<in> set (we_profiles e). \<exists>before p s after.
         on_chip (resolve_profiles ws reg) chip = before @ (p, s) # after \<and> l = pf_label p
         \<and> (\<forall>(q, t) \<in> set after. sd_id t \<noteq> sd_id s))"
proof -
  let ?rs = "resolve_profiles ws reg"
  obtain chip c where c: "c \<in> set (detect_conflicts (map snd (on_chip ?rs chip)) chip)"
    and e: "e = conflict_error (on_chip ?rs chip) chip c"
    using assms unfolding validate_pin_conflicts_mem by (auto simp: chip_errors_def split: if_splits)
  have "\<exists>pre p s post. on_chip ?rs chip = pre @ (p, s) # post \<and> l = pf_label p \<and> (\<forall>(q, t) \<in> set post. sd_id t \<noteq> sd_id s)"
    if "l \<in> set (we_profiles e)" for l
  proof -
    from that obtain i where i: "i = fst (pc_solutions c) \<or> i = snd (pc_solutions c)" "l = label_of (on_chip ?rs chip) i"
      unfolding e by (auto simp: conflict_error_def Let_def)
    have "i \<in> sd_id ` set (map snd (on_chip ?rs chip))" using conflict_solutions [OF c] i(1) by blast
    then have "i \<in> (\<lambda>(p, s). sd_id s) ` set (on_chip ?rs chip)" by (auto simp: image_image case_prod_beta)
    from label_of_last [OF this] show ?thesis using i(2) by blast
  qed
  moreover have "we_kind e = We_PinConflict" unfolding e by (simp add: conflict_error_def Let_def)
  ultimately show ?thesis by blast
qed

section \<open>Examples\<close>

definition sample_catalog :: catalog where
  "sample_catalog = bt_of_list (map (\<lambda>s. (sd_id s, s))
     [plain_solution ''rx'' [(21, ''i2c_sda'')]
        \<lparr>cs_architecture_tier := Some Role_ControlBoard, cs_control_uplink := Some Up_Crsf, cs_telemetry := Some Tel_CrsfTelemetry\<rparr>,
      plain_solution ''tx'' [(4, ''joystick'')]
        \<lparr>cs_architecture_tier := Some Role_RemoteControlTx, cs_control_uplink := Some Up_Crsf, cs_telemetry := Some Tel_CrsfTelemetry\<rparr>,
      plain_solution ''motor'' [(4, ''pwm'')]])"

definition profile_of :: "string \<Rightarrow> string \<Rightarrow> saved_profile" where
  "profile_of label i = \<lparr>pf_label = label, pf_chip_target = Chip_Esp32S3, pf_solution_id = i, pf_parameter_values = []\<rparr>"

theorem workspace_accepted_iff_witness:
  "validate_workspace [profile_of ''radio'' ''tx'', profile_of ''car'' ''rx''] sample_catalog = []
   \<and> list_all (\<lambda>(p, s). effective_control_uplink p s \<noteq> None)
       (sender_profiles (resolve_profiles [profile_of ''radio'' ''tx'', profile_of ''car'' ''rx''] sample_catalog))"
proof -
  have "validate_workspace [profile_of ''radio'' ''tx'', profile_of ''car'' ''rx''] sample_catalog = []" by code_simp
  moreover from this have "\<forall>(p, s) \<in> set (sender_profiles (resolve_profiles [profile_of ''radio'' ''tx'', profile_of ''car'' ''rx''] sample_catalog)).
      \<exists>u. effective_control_uplink p s = Some u"
    unfolding workspace_accepted_iff Let_def by blast
  ultimately show ?thesis by (auto simp: list_all_iff)
qed

theorem conflicts_name_last_profile_witness:
  "map we_profiles (validate_pin_conflicts (resolve_profiles
     [profile_of ''first'' ''motor'', profile_of ''second'' ''motor'', profile_of ''radio'' ''tx''] sample_catalog)) =
     [[''second'', ''radio''], [''second'', ''radio'']]
   \<and> we_kind (hd (validate_pin_conflicts (resolve_profiles
     [profile_of ''first'' ''motor'', profile_of ''second'' ''motor'', profile_of ''radio'' ''tx''] sample_catalog))) = We_PinConflict"
  (is "map we_profiles ?es = _ \<and> _")
proof -
  have l: "map we_profiles ?es = [[''second'', ''radio''], [''second'', ''radio'']]" by code_simp
  then have "?es \<noteq> []" by auto
  then have "hd ?es \<in> set ?es" by simp
  then show ?thesis using l conflicts_name_last_profile [of "hd ?es"] by simp
qed

end
