(* ===== verification/PinMap.thy ===== *)
theory PinMap
  imports Platform Pins
begin

text \<open>
  The pin picker of the wizard (\<open>rshome-wizard/src/pin_map.rs\<close>): the capabilities of the GPIOs
  of each chip and the descriptors built from them. The lemmas compare the tables with those of
  the pipeline (\<open>Pins\<close>) and the modes the picker offers with what stage 10 accepts.
\<close>

record chip_pins =
  cp_max_gpio :: u8
  cp_input_only :: "u8 list"
  cp_flash_reserved :: "u8 list"
  cp_strapping :: "u8 list"
  cp_adc_capable :: "u8 list"
  cp_touch_capable :: "u8 list"

fun chip_pins_of :: "chip_target \<Rightarrow> chip_pins" where
  "chip_pins_of Esp32 =
     \<lparr>cp_max_gpio = 39, cp_input_only = [34, 35, 36, 37, 38, 39], cp_flash_reserved = [6, 7, 8, 9, 10, 11],
      cp_strapping = [0, 2, 5, 12, 15], cp_adc_capable = [32, 33, 34, 35, 36, 37, 38, 39],
      cp_touch_capable = [0, 2, 4, 12, 13, 14, 15, 27, 32, 33]\<rparr>"
| "chip_pins_of Esp32S2 =
     \<lparr>cp_max_gpio = 46, cp_input_only = [46], cp_flash_reserved = [26, 27, 28, 29, 30, 31, 32],
      cp_strapping = [0, 45, 46], cp_adc_capable = [1, 2, 3, 4, 5, 6, 7, 8, 9, 10, 11, 12, 13, 14, 15, 16, 17,
        18, 19, 20],
      cp_touch_capable = [1, 2, 3, 4, 5, 6, 7, 8, 9, 10, 11, 12, 13, 14]\<rparr>"
| "chip_pins_of Esp32S3 =
     \<lparr>cp_max_gpio = 48, cp_input_only = [], cp_flash_reserved = [26, 27, 28, 29, 30, 31, 32],
      cp_strapping = [0, 3, 45, 46], cp_adc_capable = [1, 2, 3, 4, 5, 6, 7, 8, 9, 10],
      cp_touch_capable = [1, 2, 3, 4, 5, 6, 7, 8, 9, 10, 11, 12, 13, 14]\<rparr>"
| "chip_pins_of Esp32C2 =
     \<lparr>cp_max_gpio = 20, cp_input_only = [], cp_flash_reserved = [12, 13, 14, 15, 16, 17],
      cp_strapping = [8, 9], cp_adc_capable = [0, 1, 2, 3, 4],
      cp_touch_capable = []\<rparr>"
| "chip_pins_of Esp32C3 =
     \<lparr>cp_max_gpio = 21, cp_input_only = [], cp_flash_reserved = [11, 12, 13, 14, 15, 16, 17],
      cp_strapping = [2, 8, 9], cp_adc_capable = [0, 1, 2, 3, 4, 5],
      cp_touch_capable = []\<rparr>"
| "chip_pins_of Esp32C5 =
     \<lparr>cp_max_gpio = 28, cp_input_only = [], cp_flash_reserved = [24, 25, 26, 27, 28],
      cp_strapping = [7, 8, 27], cp_adc_capable = [0, 1, 2, 3, 4, 5, 6],
      cp_touch_capable = []\<rparr>"
| "chip_pins_of Esp32C6 =
     \<lparr>cp_max_gpio = 30, cp_input_only = [], cp_flash_reserved = [24, 25, 26, 27, 28, 29, 30],
      cp_strapping = [8, 9, 15], cp_adc_capable = [0, 1, 2, 3, 4, 5, 6],
      cp_touch_capable = []\<rparr>"
| "chip_pins_of Esp32C61 =
     \<lparr>cp_max_gpio = 24, cp_input_only = [], cp_flash_reserved = [12, 13, 14, 15, 16, 17],
      cp_strapping = [5, 8, 9], cp_adc_capable = [0, 1, 2, 3, 4, 5],
      cp_touch_capable = []\<rparr>"
| "chip_pins_of Esp32H2 =
     \<lparr>cp_max_gpio = 27, cp_input_only = [], cp_flash_reserved = [15, 16, 17, 18, 19, 20, 21],
      cp_strapping = [8, 9, 25], cp_adc_capable = [1, 2, 3, 4, 5],
      cp_touch_capable = []\<rparr>"
| "chip_pins_of Esp32P4 =
     \<lparr>cp_max_gpio = 54, cp_input_only = [], cp_flash_reserved = [],
      cp_strapping = [34, 35], cp_adc_capable = [16, 17, 18, 19, 20, 21, 22, 23, 49, 50, 51, 52, 53, 54],
      cp_touch_capable = [2, 3, 4, 5, 6, 7, 8, 9, 10, 11, 12, 13, 14, 15]\<rparr>"

record pin_info =
  pi_gpio_num :: u8
  pi_input_only :: bool
  pi_flash_reserved :: bool
  pi_is_strapping :: bool
  pi_supported_modes :: "string list"
  pi_description :: string

definition pin_modes :: "chip_pins \<Rightarrow> u8 \<Rightarrow> string list" where
  "pin_modes caps gpio =
     [''input''] @
     (if gpio \<notin> set (cp_input_only caps) \<and> gpio \<notin> set (cp_flash_reserved caps)
      then [''output'', ''pwm'', ''i2c_sda'', ''i2c_scl'', ''spi_mosi'', ''spi_miso'', ''spi_clk'', ''spi_cs'', ''uart''] else []) @
     (if gpio \<in> set (cp_adc_capable caps) then [''analog''] else []) @
     (if gpio \<in> set (cp_touch_capable caps) then [''touch''] else [])"

definition pin_notes :: "chip_pins \<Rightarrow> u8 \<Rightarrow> string list" where
  "pin_notes caps gpio =
     (if gpio \<in> set (cp_flash_reserved caps) then [''flash-reserved''] else []) @
     (if gpio \<in> set (cp_strapping caps) then [''strapping''] else []) @
     (if gpio \<in> set (cp_input_only caps) then [''input-only''] else []) @
     (if gpio \<in> set (cp_adc_capable caps) then [''ADC-capable''] else []) @
     (if gpio \<in> set (cp_touch_capable caps) then [''touch-capable''] else [])"

definition describe_pin :: "chip_pins \<Rightarrow> u8 \<Rightarrow> pin_info" where
  "describe_pin caps gpio =
     \<lparr>pi_gpio_num = gpio, pi_input_only = (gpio \<in> set (cp_input_only caps)),
      pi_flash_reserved = (gpio \<in> set (cp_flash_reserved caps)), pi_is_strapping = (gpio \<in> set (cp_strapping caps)),
      pi_supported_modes = pin_modes caps gpio,
      pi_description = (let name = ''GPIO '' @ show_nat (unat gpio); notes = pin_notes caps gpio
        in if notes = [] then name else name @ '' ('' @ join '', '' notes @ '')'')\<rparr>"

definition chip_pin_info :: "chip_target \<Rightarrow> pin_info list" where
  "chip_pin_info target =
     (let caps = chip_pins_of target in map (\<lambda>i. describe_pin caps (of_nat i)) [0..<Suc (unat (cp_max_gpio caps))])"

text \<open>What stage 10 accepts, up to warnings.\<close>

fun only_warns :: "pin_error \<Rightarrow> bool" where
  "only_warns (StrappingPinWarning _ _ _) = True"
| "only_warns _ = False"

definition stage_10_accepts :: "chip_target \<Rightarrow> u8 \<Rightarrow> pin_mode \<Rightarrow> bool" where
  "stage_10_accepts target gpio mode \<longleftrightarrow>
     list_all only_warns (pin_errors target
       \<lparr>pa_gpio_num = gpio, pa_mode = mode, pa_component = [], pa_pull_mode = None, pa_inverted = False\<rparr>)"

fun mode_of_name :: "string \<Rightarrow> pin_mode option" where
  "mode_of_name m = map_of
     [(''input'', PM_Input), (''output'', PM_Output), (''pwm'', PM_PwmOutput), (''i2c_sda'', PM_I2cSda),
      (''i2c_scl'', PM_I2cScl), (''spi_mosi'', PM_SpiMosi), (''spi_miso'', PM_SpiMiso), (''spi_clk'', PM_SpiClk),
      (''spi_cs'', PM_SpiCs), (''uart'', PM_Uart), (''analog'', PM_Analog), (''touch'', PM_Touch)] m"

lemma tables_agree:
  "cp_max_gpio (chip_pins_of t) = ch_max_gpio (capabilities_for t)
   \<and> cp_input_only (chip_pins_of t) = ch_input_only (capabilities_for t)
   \<and> cp_flash_reserved (chip_pins_of t) = ch_flash_reserved (capabilities_for t)
   \<and> cp_strapping (chip_pins_of t) = ch_strapping (capabilities_for t)"
  by (cases t) simp_all

lemma stage_10_accepts_iff:
  "stage_10_accepts t g m \<longleftrightarrow> g \<le> cp_max_gpio (chip_pins_of t) \<and> g \<notin> set (cp_flash_reserved (chip_pins_of t))
     \<and> (g \<in> set (cp_input_only (chip_pins_of t)) \<longrightarrow> \<not> requires_output m)"
  using tables_agree [of t] by (auto simp: stage_10_accepts_def pin_errors_def Let_def)

lemma chip_pin_info_mem:
  "pin \<in> set (chip_pin_info t) \<longleftrightarrow> (\<exists>g. g \<le> cp_max_gpio (chip_pins_of t) \<and> pin = describe_pin (chip_pins_of t) g)"
proof -
  have "(of_nat ` {0..<Suc (unat m)} :: u8 set) = {g. g \<le> m}" for m :: u8
  proof (intro equalityI subsetI)
    fix g assume "g \<in> (of_nat ` {0..<Suc (unat m)} :: u8 set)"
    then obtain i where i: "g = of_nat i" "i \<le> unat m" by auto
    moreover have "unat m < 2 ^ 8" using unsigned_less [of m] by simp
    ultimately have "unat g = i" by (simp add: unsigned_of_nat take_bit_nat_eq_self)
    then show "g \<in> {g. g \<le> m}" using i by (simp add: word_le_nat_alt)
  next
    fix g assume "g \<in> {g. g \<le> m}"
    then have "unat g \<in> {0..<Suc (unat m)}" by (simp add: word_le_nat_alt)
    then show "g \<in> of_nat ` {0..<Suc (unat m)}" by (intro image_eqI [of _ _ "unat g"]) simp_all
  qed
  moreover have "set (chip_pin_info t) =
      describe_pin (chip_pins_of t) ` of_nat ` {0..<Suc (unat (cp_max_gpio (chip_pins_of t)))}"
    unfolding chip_pin_info_def Let_def set_map set_upt image_image ..
  ultimately show ?thesis by auto
qed

section \<open>Properties\<close>

text \<open>The picker and the pipeline use the same tables of pins, for every chip.\<close>

theorem pin_tables_mirror:
  "cp_max_gpio (chip_pins_of t) = ch_max_gpio (capabilities_for t)
   \<and> cp_input_only (chip_pins_of t) = ch_input_only (capabilities_for t)
   \<and> cp_flash_reserved (chip_pins_of t) = ch_flash_reserved (capabilities_for t)
   \<and> cp_strapping (chip_pins_of t) = ch_strapping (capabilities_for t)"
  by (rule tables_agree)

text \<open>C33. Every mode the picker offers for a pin that is not reserved for flash passes stage 10 of
  the pipeline, and every output mode that passes is offered. A pin reserved for flash is offered
  as an input although stage 10 rejects it in every mode.\<close>

theorem pin_picker_agrees:
  assumes "pin \<in> set (chip_pin_info t)"
  shows "(\<not> pi_flash_reserved pin \<longrightarrow> (\<forall>m \<in> set (pi_supported_modes pin). \<forall>mode. mode_of_name m = Some mode \<longrightarrow>
            stage_10_accepts t (pi_gpio_num pin) mode))
    \<and> (\<forall>m mode. mode_of_name m = Some mode \<longrightarrow> requires_output mode \<longrightarrow> stage_10_accepts t (pi_gpio_num pin) mode \<longrightarrow>
            m \<in> set (pi_supported_modes pin))
    \<and> (pi_flash_reserved pin \<longrightarrow> ''input'' \<in> set (pi_supported_modes pin)
            \<and> (\<forall>mode. \<not> stage_10_accepts t (pi_gpio_num pin) mode))"
proof -
  let ?caps = "chip_pins_of t"
  obtain g where g: "g \<le> cp_max_gpio ?caps" "pin = describe_pin ?caps g"
    using assms unfolding chip_pin_info_mem by blast
  have "stage_10_accepts t g mode"
    if "m \<in> set (pin_modes ?caps g)" "mode_of_name m = Some mode" "g \<notin> set (cp_flash_reserved ?caps)" for m mode
    using that g(1) by (auto simp: stage_10_accepts_iff pin_modes_def requires_output_def split: if_splits)
  moreover have "m \<in> set (pin_modes ?caps g)"
    if "mode_of_name m = Some mode" "requires_output mode" "stage_10_accepts t g mode" for m mode
    using that by (auto simp: stage_10_accepts_iff pin_modes_def requires_output_def split: if_splits)
  moreover have "\<not> stage_10_accepts t g mode" if "g \<in> set (cp_flash_reserved ?caps)" for mode
    using that by (simp add: stage_10_accepts_iff)
  moreover have "''input'' \<in> set (pin_modes ?caps g)" by (simp add: pin_modes_def)
  ultimately show ?thesis unfolding g(2) by (simp add: describe_pin_def)
qed

theorem pin_picker_agrees_witness:
  "\<exists>pin \<in> set (chip_pin_info Esp32). pi_gpio_num pin = 6 \<and> ''input'' \<in> set (pi_supported_modes pin)
     \<and> \<not> stage_10_accepts Esp32 6 PM_Input"
proof -
  have pin: "describe_pin (chip_pins_of Esp32) 6 \<in> set (chip_pin_info Esp32)"
    unfolding chip_pin_info_mem by (intro exI [of _ 6]) simp
  show ?thesis by (rule bexI [OF _ pin]) (use pin_picker_agrees [OF pin] in \<open>simp add: describe_pin_def\<close>)
qed

end
