(* ===== verification/SolutionParts.thy ===== *)
theory SolutionParts
  imports Catalog
begin

text \<open>
  The parts the solutions of the catalogue share (\<open>rshome-schema/src/solution.rs\<close>, lines 592 to
  2311): runtime bindings, user parameters and pin assignments that several solutions take from a
  function of the source. As in the records, what is only displayed is left out: descriptions,
  translations and the names of steps of signal paths.
\<close>

section \<open>Rows\<close>

text \<open>The source writes these records out; each row gives the fields that are not fixed.\<close>

definition steps :: "(string \<times> string \<times> string list) list \<Rightarrow> orchestration_step list" where
  "steps rows = map (\<lambda>(i, l, ds). \<lparr>os_id = i, os_label = l, os_depends_on = ds, os_retry_policy = None\<rparr>) rows"

definition enum_options :: "(string \<times> string) list \<Rightarrow> enum_option list" where
  "enum_options rows = map (\<lambda>(v, l). \<lparr>eo_value = v, eo_label = l\<rparr>) rows"

definition managed :: "(string \<times> string option \<times> string option \<times> string option) list \<Rightarrow> managed_component list" where
  "managed rows = map (\<lambda>(n, v, g, ns). \<lparr>mc_name = n, mc_version = v, mc_git = g, mc_namespace = ns\<rparr>) rows"

definition pin_list :: "(string \<times> u8 \<times> u8 list \<times> string) list \<Rightarrow> pin_assignment list" where
  "pin_list rows = map (\<lambda>(f, g, alts, c).
     \<lparr>pa_function = f, pa_default_gpio = g, pa_alternatives = alts, pa_capability = c\<rparr>) rows"

section \<open>Runtime bindings\<close>

definition brookesia_wifi_binding :: runtime_binding where
  "brookesia_wifi_binding = default_runtime_binding\<lparr>rb_family := Some ''brookesia_service'',
     rb_managed_components := managed [(''brookesia_lib_utils'', Some ''~0.7'', None, None),
       (''brookesia_service_manager'', Some ''~0.7'', None, None), (''brookesia_service_helper'', Some ''~0.7'', None, None),
       (''brookesia_service_wifi'', Some ''~0.7'', None, None), (''brookesia_service_nvs'', Some ''~0.7'', None, None)]\<rparr>"

definition brookesia_vehicle_binding :: "string list \<Rightarrow> runtime_binding" where
  "brookesia_vehicle_binding custom =
     brookesia_wifi_binding\<lparr>rb_family := Some ''esp-drone'', rb_custom_components := custom\<rparr>"

section \<open>Parameters and pins\<close>

definition vehicle_type_param :: user_parameter where
 "vehicle_type_param = \<lparr>up_id = ''vehicle_type'', up_label = ''Vehicle Type'', up_required = True,
     up_secret = False, up_default_value = Some (JStr ''car''), up_enum_values = Some (enum_options
     [(''car'', ''Ground Car''), (''drone'', ''Drone / Quadcopter''), (''boat'', ''Boat / ROV'')]),
     up_depends_on = None\<rparr>"

definition control_protocol_param :: user_parameter where
 "control_protocol_param = \<lparr>up_id = ''control_protocol'', up_label = ''Control Protocol'',
     up_required = True, up_secret = False, up_default_value = Some (JStr ''wifi_mavlink''), up_enum_values
     = Some (enum_options [(''elrs_crsf'', ''ELRS (CRSF)''), (''crossfire_crsf'', ''TBS Crossfire (CRSF)''),
     (''sbus'', ''SBUS''), (''esp_now'', ''ESP-NOW''), (''wifi_lr'', ''802.11 LR''), (''wifi_mavlink'',
     ''WiFi + MAVLink'')]), up_depends_on = None\<rparr>"

definition imu_axis_tier_param :: user_parameter where
 "imu_axis_tier_param = \<lparr>up_id = ''imu_axis_tier'', up_label = ''IMU Axis Tier'', up_required =
     False, up_secret = False, up_default_value = Some (JStr ''none''), up_enum_values = Some (enum_options
     [(''none'', ''No IMU''), (''6_axis'', ''6-Axis (Accel + Gyro)''), (''9_axis'',
     ''9-Axis (+ Magnetometer)''), (''10_axis'', ''10-Axis (+ Barometer)'')]), up_depends_on = None\<rparr>"

definition imu_chip_param :: user_parameter where
 "imu_chip_param = \<lparr>up_id = ''imu_chip'', up_label = ''IMU Chip'', up_required = False, up_secret =
     False, up_default_value = Some (JStr ''mpu6050''), up_enum_values = Some (enum_options [(''mpu6050'',
     ''MPU6050''), (''bmi270'', ''BMI270''), (''icm42688p'', ''ICM-42688-P''), (''icm20948'',
     ''ICM-20948''), (''lsm9ds1'', ''LSM9DS1''), (''bno055'', ''BNO055''), (''icm20948_bmp280'',
     ''ICM-20948 + BMP280''), (''bno055_bmp388'', ''BNO055 + BMP388'')]), up_depends_on = Some
     \<lparr>pd_parameter_id = ''imu_axis_tier'', pd_when_value = [], pd_when_not_value = Some
     ''none''\<rparr>\<rparr>"

definition actuator_type_param :: user_parameter where
 "actuator_type_param = \<lparr>up_id = ''actuator_type'', up_label = ''Actuator Type'', up_required = True,
     up_secret = False, up_default_value = Some (JStr ''h_bridge_2wd''), up_enum_values = Some (enum_options
     [(''h_bridge_2wd'', ''H-Bridge 2WD Differential''), (''h_bridge_4wd'', ''H-Bridge 4WD Differential''),
     (''esc_servo_ackermann'', ''ESC + Servo (Ackermann)''), (''esc_differential'', ''ESC Differential''),
     (''brushless_quad'', ''4x Brushless (Quadcopter)'')]), up_depends_on = None\<rparr>"

definition camera_sensor_param :: user_parameter where
 "camera_sensor_param = \<lparr>up_id = ''camera_sensor'', up_label = ''Camera Sensor'', up_required =
     False, up_secret = False, up_default_value = Some (JStr ''ov2640''), up_enum_values = Some
     (enum_options [(''ov2640'', ''OV2640 (2MP)''), (''ov3660'', ''OV3660 (3MP)''), (''ov5640'',
     ''OV5640 (5MP)'')]), up_depends_on = None\<rparr>"

definition frame_size_param :: user_parameter where
 "frame_size_param = \<lparr>up_id = ''frame_size'', up_label = ''Frame Size'', up_required = False,
     up_secret = False, up_default_value = Some (JStr ''qvga''), up_enum_values = Some (enum_options
     [(''qqvga'', ''QQVGA (160x120)''), (''qvga'', ''QVGA (320x240)''), (''vga'', ''VGA (640x480)''),
     (''svga'', ''SVGA (800x600)'')]), up_depends_on = None\<rparr>"

definition control_rate_hz_param :: user_parameter where
 "control_rate_hz_param = \<lparr>up_id = ''control_rate_hz'', up_label = ''Control Rate (Hz)'', up_required
     = False, up_secret = False, up_default_value = Some (JStr ''100''), up_enum_values = Some (enum_options
     [(''50'', ''50 Hz''), (''100'', ''100 Hz''), (''250'', ''250 Hz''), (''500'', ''500 Hz''), (''1000'',
     ''1000 Hz'')]), up_depends_on = None\<rparr>"

definition failsafe_timeout_ms_param :: user_parameter where
 "failsafe_timeout_ms_param = \<lparr>up_id = ''failsafe_timeout_ms'', up_label = ''Failsafe Timeout (ms)'',
     up_required = False, up_secret = False, up_default_value = Some (JStr ''500''), up_enum_values = Some
     (enum_options [(''200'', ''200 ms''), (''500'', ''500 ms''), (''1000'', ''1000 ms''), (''2000'',
     ''2000 ms'')]), up_depends_on = None\<rparr>"

definition phone_side_link_param :: user_parameter where
 "phone_side_link_param = \<lparr>up_id = ''phone_side_link'', up_label = ''Phone-side link'', up_required =
     True, up_secret = False, up_default_value = Some (JStr ''ble_gatt''), up_enum_values = Some
     (enum_options [(''ble_gatt'', ''BLE GATT''), (''usb_cdc'', ''USB CDC'')]), up_depends_on =
     None\<rparr>"

definition vehicle_side_protocol_param :: user_parameter where
 "vehicle_side_protocol_param = \<lparr>up_id = ''vehicle_side_protocol'', up_label =
     ''Vehicle-side protocol'', up_required = True, up_secret = False, up_default_value = Some (JStr
     ''esp_now''), up_enum_values = Some (enum_options [(''esp_now'', ''ESP-NOW''), (''wifi_mesh'',
     ''Wi-Fi Mesh''), (''wifi_80211lr'', ''802.11 LR''), (''ble_mesh'', ''BLE Mesh'')]), up_depends_on =
     None\<rparr>"

definition wifi_ssid_param :: user_parameter where
 "wifi_ssid_param = \<lparr>up_id = ''wifi_ssid'', up_label = ''Wi-Fi SSID'', up_required = True, up_secret
     = False, up_default_value = Some (JStr ''rshome-gcs''), up_enum_values = None, up_depends_on =
     None\<rparr>"

definition wifi_password_param :: user_parameter where
 "wifi_password_param = \<lparr>up_id = ''wifi_password'', up_label = ''Wi-Fi password'', up_required =
     False, up_secret = True, up_default_value = Some (JStr []), up_enum_values = None, up_depends_on =
     None\<rparr>"

definition mavlink_udp_port_param :: user_parameter where
 "mavlink_udp_port_param = \<lparr>up_id = ''mavlink_udp_port'', up_label = ''MAVLink UDP port'',
     up_required = True, up_secret = False, up_default_value = Some (JStr ''14550''), up_enum_values = None,
     up_depends_on = None\<rparr>"

definition telemetry_rate_hz_param :: user_parameter where
 "telemetry_rate_hz_param = \<lparr>up_id = ''telemetry_rate_hz'', up_label = ''Telemetry rate (Hz)'',
     up_required = True, up_secret = False, up_default_value = Some (JStr ''4''), up_enum_values = Some
     (enum_options [(''1'', ''1 Hz''), (''4'', ''4 Hz''), (''10'', ''10 Hz''), (''20'', ''20 Hz''), (''50'',
     ''50 Hz'')]), up_depends_on = None\<rparr>"

definition webrtc_signaling_url_param :: user_parameter where
 "webrtc_signaling_url_param = \<lparr>up_id = ''webrtc_signaling_url'', up_label =
     ''WebRTC signaling URL'', up_required = False, up_secret = False, up_default_value = Some (JStr []),
     up_enum_values = None, up_depends_on = None\<rparr>"

definition safe_stop_timeout_ms_param :: user_parameter where
 "safe_stop_timeout_ms_param = \<lparr>up_id = ''safe_stop_timeout_ms'', up_label =
     ''SAFE_STOP Timeout (ms)'', up_required = False, up_secret = False, up_default_value = Some (JStr
     ''1000''), up_enum_values = Some (enum_options [(''500'', ''500 ms''), (''1000'', ''1000 ms''),
     (''2000'', ''2000 ms''), (''5000'', ''5000 ms'')]), up_depends_on = None\<rparr>"

definition direct_probe_threshold_param :: user_parameter where
 "direct_probe_threshold_param = \<lparr>up_id = ''direct_probe_threshold'', up_label =
     ''Direct Probe Threshold'', up_required = False, up_secret = False, up_default_value = Some (JStr
     ''-60''), up_enum_values = Some (enum_options [(''-50'', ''-50 dBm''), (''-60'', ''-60 dBm''),
     (''-70'', ''-70 dBm''), (''-80'', ''-80 dBm'')]), up_depends_on = None\<rparr>"

definition fallback_rssi_threshold_param :: user_parameter where
 "fallback_rssi_threshold_param = \<lparr>up_id = ''fallback_rssi_threshold'', up_label =
     ''Fallback RSSI Threshold'', up_required = False, up_secret = False, up_default_value = Some (JStr
     ''-75''), up_enum_values = Some (enum_options [(''-65'', ''-65 dBm''), (''-75'', ''-75 dBm''),
     (''-85'', ''-85 dBm'')]), up_depends_on = None\<rparr>"

definition iot_poll_interval_param :: user_parameter where
 "iot_poll_interval_param = \<lparr>up_id = ''poll_interval_ms'', up_label = ''Poll Interval (ms)'',
     up_required = False, up_secret = False, up_default_value = Some (JStr ''5000''), up_enum_values = Some
     (enum_options [(''1000'', ''1 s''), (''5000'', ''5 s''), (''10000'', ''10 s''), (''30000'', ''30 s''),
     (''60000'', ''60 s'')]), up_depends_on = None\<rparr>"

definition uplink_protocol_param :: user_parameter where
 "uplink_protocol_param = \<lparr>up_id = ''uplink_protocol'', up_label = ''Uplink Protocol'', up_required =
     True, up_secret = False, up_default_value = Some (JStr ''ha_native_api''), up_enum_values = Some
     (enum_options [(''ha_native_api'', ''rshome-ha API''), (''mqtt'', ''MQTT'')]), up_depends_on =
     None\<rparr>"

definition vehicle_control_pins :: "pin_assignment list" where
 "vehicle_control_pins = pin_list [(''Motor A PWM'', 16, [33, 32], ''MotorControl''), (''Motor A DIR'', 17,
     [33], ''MotorControl''), (''Motor B PWM'', 18, [25, 26], ''MotorControl''), (''Motor B DIR'', 19, [27],
     ''MotorControl''), (''IMU SDA'', 21, [13, 14], ''I2c''), (''IMU SCL'', 22, [14, 13], ''I2c''),
     (''RC UART RX'', 4, [36], ''Uart''), (''RC UART TX'', 5, [39], ''Uart''), (''Status LED'', 2, [15],
     ''Gpio''), (''Battery ADC'', 34, [36, 39], ''Adc'')]"

definition vehicle_car_pins :: "pin_assignment list" where
 "vehicle_car_pins = vehicle_control_pins @ pin_list [(''Failsafe Relay'', 25, [26], ''FailsafeStop'')]"

definition dual_mcu_control_board_pins :: "pin_assignment list" where
 "dual_mcu_control_board_pins = vehicle_car_pins @ pin_list [(''Interboard TX'', 43, [], ''Uart''),
     (''Interboard RX'', 44, [], ''Uart'')]"

definition dual_mcu_camera_board_pins :: "pin_assignment list" where
 "dual_mcu_camera_board_pins = pin_list [(''CAM PCLK'', 13, [], ''Camera''), (''CAM VSYNC'', 6, [],
     ''Camera''), (''CAM HREF'', 7, [], ''Camera''), (''CAM XCLK'', 14, [], ''Camera''), (''CAM SDA'', 4,
     [], ''I2c''), (''CAM SCL'', 5, [], ''I2c''), (''Interboard TX'', 43, [], ''Uart''), (''Interboard RX'',
     44, [], ''Uart'')]"

definition all_in_one_cam_pins :: "pin_assignment list" where
 "all_in_one_cam_pins = vehicle_control_pins @ pin_list [(''CAM PCLK'', 13, [], ''Camera''), (''CAM VSYNC'',
     6, [], ''Camera''), (''CAM HREF'', 7, [], ''Camera''), (''CAM XCLK'', 14, [], ''Camera''),
     (''CAM SDA (SCCB)'', 10, [], ''I2c''), (''CAM SCL (SCCB)'', 11, [], ''I2c''), (''CAM D4'', 36, [],
     ''Camera''), (''CAM D5'', 37, [], ''Camera'')]"

definition remote_control_tx_pins :: "pin_assignment list" where
 "remote_control_tx_pins = pin_list [(''Joystick X ADC'', 1, [2, 3], ''Adc''), (''Joystick Y ADC'', 2, [1,
     3], ''Adc''), (''Joystick Z ADC'', 3, [1, 4], ''Adc''), (''Throttle ADC'', 4, [5, 6], ''Adc''),
     (''Button A'', 5, [6, 7], ''Gpio''), (''Button B'', 6, [7, 8], ''Gpio''), (''Button C'', 7, [8, 9],
     ''Gpio''), (''Button D'', 8, [9, 10], ''Gpio''), (''Status LED'', 48, [38], ''Gpio''),
     (''Battery ADC'', 9, [10], ''Adc'')]"

definition video_board_pins :: "pin_assignment list" where
 "video_board_pins = dual_mcu_camera_board_pins @ pin_list [(''Status LED'', 48, [38], ''Gpio'')]"

definition receiver_direct_drive_pins :: "pin_assignment list" where
 "receiver_direct_drive_pins = pin_list [(''RC UART RX'', 4, [36], ''Uart''), (''RC UART TX'', 5, [39],
     ''Uart''), (''Servo/ESC CH1'', 16, [17], ''MotorControl''), (''Servo/ESC CH2'', 17, [18],
     ''MotorControl''), (''Servo/ESC CH3'', 18, [19], ''MotorControl''), (''Servo/ESC CH4'', 19, [20],
     ''MotorControl''), (''Failsafe Relay'', 25, [26], ''FailsafeStop''), (''Status LED'', 2, [15],
     ''Gpio'')]"

definition gateway_pins :: "pin_assignment list" where
 "gateway_pins = pin_list [(''Status LED'', 2, [15], ''Gpio''), (''UART TX (to vehicle)'', 43, [],
     ''Uart''), (''UART RX (from vehicle)'', 44, [], ''Uart''), (''Battery ADC'', 34, [36], ''Adc'')]"

definition iot_sensor_pins :: "pin_assignment list" where
 "iot_sensor_pins = pin_list [(''I2C SDA'', 21, [13, 14], ''I2c''), (''I2C SCL'', 22, [14, 13], ''I2c''),
     (''SPI MOSI'', 11, [35], ''Spi''), (''SPI CLK'', 12, [36], ''Spi''), (''SPI CS (SD)'', 10, [34],
     ''Spi''), (''Status LED'', 48, [38, 2], ''Gpio''), (''Battery ADC'', 1, [2, 3], ''Adc'')]"

definition iot_debug_probe_pins :: "pin_assignment list" where
 "iot_debug_probe_pins = pin_list [(''Target UART RX'', 4, [44], ''Uart''), (''Target UART TX'', 5, [43],
     ''Uart''), (''Status LED'', 48, [38, 2], ''Gpio'')]"

definition iot_i2c_analyzer_pins :: "pin_assignment list" where
 "iot_i2c_analyzer_pins = pin_list [(''I2C SDA'', 21, [13, 6], ''I2c''), (''I2C SCL'', 22, [14, 7],
     ''I2c''), (''Status LED'', 48, [38, 2], ''Gpio'')]"

definition iot_display_pins :: "pin_assignment list" where
 "iot_display_pins = pin_list [(''SPI MOSI'', 11, [35], ''Spi''), (''SPI CLK'', 12, [36], ''Spi''),
     (''LCD CS'', 10, [34], ''Spi''), (''LCD DC'', 9, [33], ''Gpio''), (''LCD RST'', 8, [18], ''Gpio''),
     (''LCD Backlight'', 7, [17], ''Ledc''), (''Encoder A'', 5, [15], ''Gpio''), (''Encoder B'', 6, [16],
     ''Gpio''), (''Encoder Button'', 4, [0], ''Gpio''), (''I2C SDA'', 21, [13], ''I2c''), (''I2C SCL'', 22,
     [14], ''I2c'')]"

definition iot_sigrok_la_pins :: "pin_assignment list" where
 "iot_sigrok_la_pins = pin_list [(''LA CH0'', 4, [6, 15], ''Gpio''), (''LA CH1'', 5, [7, 16], ''Gpio''),
     (''LA CH2'', 6, [8, 17], ''Gpio''), (''LA CH3'', 7, [9, 18], ''Gpio''), (''LA CH4'', 15, [4, 35],
     ''Gpio''), (''LA CH5'', 16, [5, 36], ''Gpio''), (''LA CH6'', 17, [37, 38], ''Gpio''), (''LA CH7'', 18,
     [33, 34], ''Gpio''), (''Status LED'', 48, [38, 2], ''Gpio'')]"

definition iot_led_strip_pins :: "pin_assignment list" where
 "iot_led_strip_pins = pin_list [(''LED Data (RMT)'', 48, [38, 8], ''Rmt''), (''Status LED'', 2, [15],
     ''Gpio'')]"

definition iot_ld2410_pins :: "pin_assignment list" where
 "iot_ld2410_pins = pin_list [(''LD2410 UART RX'', 17, [44], ''Uart''), (''LD2410 UART TX'', 18, [43],
     ''Uart''), (''LD2410 OUT (raw presence)'', 4, [5], ''Gpio''), (''Status LED'', 48, [38, 2], ''Gpio'')]"

definition iot_ct_clamp_pins :: "pin_assignment list" where
 "iot_ct_clamp_pins = pin_list [(''CT Phase A ADC'', 1, [2, 3], ''Adc''), (''CT Phase B ADC'', 2, [3, 4],
     ''Adc''), (''CT Phase C ADC'', 3, [4, 5], ''Adc''), (''AC Voltage Reference ADC'', 4, [5, 6], ''Adc''),
     (''Status LED'', 48, [38, 2], ''Gpio'')]"

definition iot_air_quality_pins :: "pin_assignment list" where
 "iot_air_quality_pins = pin_list [(''PMS UART RX'', 17, [44], ''Uart''), (''PMS UART TX'', 18, [43],
     ''Uart''), (''PMS SET (sleep)'', 5, [6], ''Gpio''), (''SCD40 I2C SDA'', 21, [13, 14], ''I2c''),
     (''SCD40 I2C SCL'', 22, [14, 13], ''I2c''), (''Status LED'', 48, [38, 2], ''Gpio'')]"

definition iot_sx1302_pins :: "pin_assignment list" where
 "iot_sx1302_pins = pin_list [(''SX1302 SPI MOSI'', 11, [35], ''Spi''), (''SX1302 SPI MISO'', 13, [37],
     ''Spi''), (''SX1302 SPI CLK'', 12, [36], ''Spi''), (''SX1302 SPI CS'', 10, [34], ''Spi''),
     (''SX1302 RST'', 9, [33], ''Gpio''), (''SX1302 INT'', 8, [18], ''Gpio''), (''Status LED'', 48, [38, 2],
     ''Gpio'')]"

definition storage_backend_param :: user_parameter where
 "storage_backend_param = \<lparr>up_id = ''storage_backend'', up_label = ''Storage Backend'', up_required =
     True, up_secret = False, up_default_value = Some (JStr ''sd_card''), up_enum_values = Some
     (enum_options [(''sd_card'', ''SD Card (SPI)''), (''flash'', ''Internal Flash''), (''usb_export'',
     ''USB CDC Export'')]), up_depends_on = None\<rparr>"

definition upload_mode_param :: user_parameter where
 "upload_mode_param = \<lparr>up_id = ''upload_mode'', up_label = ''Upload Mode'', up_required = False,
     up_secret = False, up_default_value = Some (JStr ''manual''), up_enum_values = Some (enum_options
     [(''manual'', ''Manual (USB)''), (''wifi_batch'', ''WiFi Batch Upload'')]), up_depends_on =
     None\<rparr>"

definition display_driver_param :: user_parameter where
 "display_driver_param = \<lparr>up_id = ''display_driver'', up_label = ''Display Driver'', up_required =
     True, up_secret = False, up_default_value = Some (JStr ''st7789''), up_enum_values = Some (enum_options
     [(''st7789'', ''ST7789 (240x240 / 320x240)''), (''ili9341'', ''ILI9341 (320x240)''), (''ssd1306'',
     ''SSD1306 (128x64 OLED)''), (''sh1106'', ''SH1106 (128x64 OLED)'')]), up_depends_on = None\<rparr>"

definition led_type_param :: user_parameter where
 "led_type_param = \<lparr>up_id = ''led_type'', up_label = ''LED Type'', up_required = True, up_secret =
     False, up_default_value = Some (JStr ''ws2812b''), up_enum_values = Some (enum_options [(''ws2812b'',
     ''WS2812B (NeoPixel)''), (''sk6812'', ''SK6812 (RGBW)''), (''apa102'', ''APA102 (DotStar)'')]),
     up_depends_on = None\<rparr>"

end
