(* ===== verification/Solutions1.thy ===== *)
theory Solutions1
  imports SolutionParts
begin

text \<open>
  The first part of the solutions that \<open>default_solution_registry\<close> registers, in the order of
  \<open>rshome-schema/src/solution.rs\<close>: one definition for each, named by its id, and one for each of
  its longer fields.
\<close>

definition composite_device_firmware_steps :: "orchestration_step list" where
 "composite_device_firmware_steps = steps [(''usb_init'', ''Initialize USB composite device'', []),
     (''mount_storage'', ''Mount mass storage volume'', []), (''cdc_bridge'', ''Start CDC serial bridge'',
     [])]"

definition composite_device_firmware_params :: "user_parameter list" where
 "composite_device_firmware_params = [\<lparr>up_id = ''volume_label'', up_label = ''Volume Label'',
     up_required = False, up_secret = False, up_default_value = Some (JStr ''BOOTSTICK''), up_enum_values =
     None, up_depends_on = None\<rparr>]"

definition composite_device_firmware_paths :: "solution_path list" where
 "composite_device_firmware_paths = [\<lparr>sp_source = In_UsbCdcCommand, sp_transforms =
     [Tr_UartProtocolParse], sp_sink = Out_StatusLed, sp_feedback = [Fb_UsbSerialJtag]\<rparr>]"

definition composite_device_firmware_variants :: "catalog_variant list" where
 "composite_device_firmware_variants = [\<lparr>sv_id = ''profile_a'', sv_add_components = [''wifi''],
     sv_remove_components = [], sv_active_flag_add = [], sv_active_flag_remove = [], cv_label =
     ''Profile A '' @ utf8 [226, 128, 148] @ '' Mass Storage + WiFi Bridge'', cv_required_caps =
     [Cap_UsbOtg, Cap_Wifi], cv_parameter_defaults = [], cv_add_external_contracts = [],
     cv_runtime_binding_override = None\<rparr>, \<lparr>sv_id = ''profile_b'', sv_add_components = [],
     sv_remove_components = [''wifi''], sv_active_flag_add = [], sv_active_flag_remove = [], cv_label =
     ''Profile B '' @ utf8 [226, 128, 148] @ '' Mass Storage Only'', cv_required_caps = [Cap_UsbOtg],
     cv_parameter_defaults = [], cv_add_external_contracts = [], cv_runtime_binding_override =
     None\<rparr>]"

definition solution_composite_device_firmware :: catalog_solution where
 "solution_composite_device_firmware = \<lparr>sd_id = ''composite_device_firmware'', sd_fixed_orchestration
     = composite_device_firmware_steps, sd_variants = map solution_variant.truncate
     composite_device_firmware_variants, sd_bundle = \<lparr>cb_required = [''uart''], cb_optional =
     [''wifi'', ''ota'']\<rparr>, sd_watchdog_ms = None, cs_label = ''USB Composite Device Firmware'',
     cs_kind = Kind_FirmwareAppliance, cs_supported_modules = [''esp32s3_wroom1''], cs_fixed_inputs =
     [In_UsbCdcCommand], cs_fixed_outputs = [Out_UsbTx, Out_StatusLed], cs_scheduling = \<lparr>sc_id =
     ''dual_task'', sc_label = ''Dual-task (USB + WiFi)'', sc_decisions = [''USB MSC on core 0'',
     ''WiFi + CDC on core 1'']\<rparr>, cs_user_parameters = composite_device_firmware_params,
     cs_feedback_paths = composite_device_firmware_paths, cs_variants = composite_device_firmware_variants,
     cs_runtime_binding = default_runtime_binding, cs_external_contracts = [], cs_network_topology =
     Net_None, cs_domain = None, cs_architecture_tier = None, cs_communication_chains = None,
     cs_pin_assignments = None, cs_topology_category = None, cs_family = None, cs_form_factor_families =
     None, cs_control_uplink = None, cs_video_downlink = None, cs_telemetry = None, cs_sensor_tier_min =
     None, cs_required_sensors = [], cs_companion_link = None, cs_actuator_family = None, cs_power_rails =
     None, cs_failsafe = None, cs_chip_coverage = None\<rparr>"

definition camera_stream_steps :: "orchestration_step list" where
 "camera_stream_steps = steps [(''capture'', ''Capture camera frame'', []), (''encode'', ''JPEG encode'',
     []), (''stream'', ''HTTP MJPEG stream'', [])]"

definition camera_stream_params :: "user_parameter list" where
 "camera_stream_params = [frame_size_param, \<lparr>up_id = ''stream_fps'', up_label = ''Stream FPS'',
     up_required = False, up_secret = False, up_default_value = Some (JStr ''15''), up_enum_values = Some
     (enum_options [(''5'', ''5 fps''), (''10'', ''10 fps''), (''15'', ''15 fps''), (''25'', ''25 fps'')]),
     up_depends_on = None\<rparr>]"

definition camera_stream_paths :: "solution_path list" where
 "camera_stream_paths = [\<lparr>sp_source = In_CameraFrame, sp_transforms = [Tr_JpegEncode], sp_sink =
     Out_HttpMjpegStream, sp_feedback = [Fb_WebStatus]\<rparr>]"

definition solution_camera_stream :: catalog_solution where
 "solution_camera_stream = \<lparr>sd_id = ''camera_stream'', sd_fixed_orchestration = camera_stream_steps,
     sd_variants = [], sd_bundle = \<lparr>cb_required = [''wifi''], cb_optional = [''ota'']\<rparr>,
     sd_watchdog_ms = None, cs_label = ''Camera MJPEG Stream'', cs_kind = Kind_FirmwareAppliance,
     cs_supported_modules = [''esp32s3_wroom1''], cs_fixed_inputs = [In_CameraFrame], cs_fixed_outputs =
     [Out_HttpMjpegStream, Out_NetworkApiState], cs_scheduling = \<lparr>sc_id = ''periodic_capture'',
     sc_label = ''Periodic capture (configurable FPS)'', sc_decisions = [''Capture at target FPS'']\<rparr>,
     cs_user_parameters = camera_stream_params, cs_feedback_paths = camera_stream_paths, cs_variants = [],
     cs_runtime_binding = brookesia_wifi_binding, cs_external_contracts = [], cs_network_topology =
     Net_Star, cs_domain = None, cs_architecture_tier = None, cs_communication_chains = None,
     cs_pin_assignments = None, cs_topology_category = None, cs_family = None, cs_form_factor_families =
     None, cs_control_uplink = None, cs_video_downlink = None, cs_telemetry = None, cs_sensor_tier_min =
     None, cs_required_sensors = [], cs_companion_link = None, cs_actuator_family = None, cs_power_rails =
     None, cs_failsafe = None, cs_chip_coverage = None\<rparr>"

definition sensor_hub_steps :: "orchestration_step list" where
 "sensor_hub_steps = steps [(''poll_sensors'', ''Poll sensors periodically'', []), (''publish_state'',
     ''Publish state to rshome-ha'', [])]"

definition sensor_hub_params :: "user_parameter list" where
 "sensor_hub_params = [\<lparr>up_id = ''primary_sensor'', up_label = ''Primary Sensor'', up_required =
     True, up_secret = False, up_default_value = Some (JStr ''bme280_i2c''), up_enum_values = Some
     (enum_options [(''bme280_i2c'', ''BME280 (temp/humidity/pressure, I2C 0x76)''), (''bme680_bsec'',
     ''BME680 (temp/humidity/pressure/gas, I2C 0x76)''), (''sht3x'', ''SHT3x (temp/humidity, I2C 0x44)''),
     (''htu21d'', ''HTU21D (temp/humidity, I2C 0x40)''), (''bh1750'', ''BH1750 (ambient light, I2C 0x23)''),
     (''dht'', ''DHT22 (temp/humidity, single-wire GPIO)''), (''ds18x20'',
     ''DS18B20 (temperature, 1-Wire GPIO)''), (''adc'', ''ADC (raw voltage, analog pin)'')]), up_depends_on
     = None\<rparr>, iot_poll_interval_param, \<lparr>up_id = ''secondary_sensor'', up_label =
     ''Secondary Sensor (optional)'', up_required = False, up_secret = False, up_default_value = Some (JStr
     ''none''), up_enum_values = Some (enum_options [(''none'', ''None''), (''bh1750'',
     ''BH1750 (ambient light, I2C 0x23)''), (''bme280_i2c'', ''BME280 (temp/humidity/pressure, I2C 0x76)''),
     (''sht3x'', ''SHT3x (temp/humidity, I2C 0x44)''), (''adc'', ''ADC (raw voltage, analog pin)'')]),
     up_depends_on = None\<rparr>]"

definition sensor_hub_paths :: "solution_path list" where
 "sensor_hub_paths = [\<lparr>sp_source = In_I2cSensor, sp_transforms = [Tr_SensorFrameDecode, Tr_Filter],
     sp_sink = Out_NetworkApiState, sp_feedback = [Fb_ApiState]\<rparr>]"

definition sensor_hub_runtime :: runtime_binding where
 "sensor_hub_runtime = brookesia_wifi_binding\<lparr>rb_ha_entities := [sensor_entity ''room_temperature''
     ''Room Temperature'' ''temperature'' (utf8 [194, 176] @ ''C'') \<lparr>hs_source_event =
     ''bme280_0.updated'', hs_field_map = bt_of_list [(''temperature'', ''value'')]\<rparr>, sensor_entity
     ''room_humidity'' ''Room Humidity'' ''humidity'' ''%'' \<lparr>hs_source_event = ''bme280_0.updated'',
     hs_field_map = bt_of_list [(''humidity'', ''value'')]\<rparr>, sensor_entity ''room_pressure''
     ''Room Pressure'' ''pressure'' ''hPa'' \<lparr>hs_source_event = ''bme280_0.updated'', hs_field_map =
     bt_of_list [(''pressure'', ''value'')]\<rparr>]\<rparr>"

definition solution_sensor_hub :: catalog_solution where
 "solution_sensor_hub = \<lparr>sd_id = ''sensor_hub'', sd_fixed_orchestration = sensor_hub_steps,
     sd_variants = [], sd_bundle = \<lparr>cb_required = [''wifi'', ''sensor'', ''binary_sensor''],
     cb_optional = [''switch'', ''i2c'', ''uart'', ''ota'', ''api'']\<rparr>, sd_watchdog_ms = None,
     cs_label = ''Multi-Sensor Hub'', cs_kind = Kind_FirmwareAppliance, cs_supported_modules =
     [''esp32s3_wroom1'', ''esp32c6_wroom1''], cs_fixed_inputs = [In_I2cSensor, In_AdcVoltage,
     In_ButtonGpio], cs_fixed_outputs = [Out_GpioLevel, Out_RelayDrive, Out_NetworkApiState], cs_scheduling
     = \<lparr>sc_id = ''periodic_poll'', sc_label = ''Periodic sensor polling'', sc_decisions =
     [''Poll interval per sensor'']\<rparr>, cs_user_parameters = sensor_hub_params, cs_feedback_paths =
     sensor_hub_paths, cs_variants = [], cs_runtime_binding = sensor_hub_runtime, cs_external_contracts =
     [''rshome-ha Native API''], cs_network_topology = Net_Star, cs_domain = Some Dom_IotDeviceTooling,
     cs_architecture_tier = None, cs_communication_chains = None, cs_pin_assignments = Some iot_sensor_pins,
     cs_topology_category = None, cs_family = None, cs_form_factor_families = None, cs_control_uplink =
     None, cs_video_downlink = None, cs_telemetry = None, cs_sensor_tier_min = None, cs_required_sensors =
     [], cs_companion_link = None, cs_actuator_family = None, cs_power_rails = None, cs_failsafe = None,
     cs_chip_coverage = None\<rparr>"

definition phone_browser_video_solution_steps :: "orchestration_step list" where
 "phone_browser_video_solution_steps = steps [(''wifi_softap'', ''Start SoftAP or APSTA'', []),
     (''camera_init'', ''Initialize camera sensor'', []), (''http_stream'',
     ''Start HTTP MJPEG stream server'', [])]"

definition phone_browser_video_solution_params :: "user_parameter list" where
 "phone_browser_video_solution_params = [camera_sensor_param, frame_size_param, \<lparr>up_id =
     ''jpeg_quality'', up_label = ''JPEG Quality'', up_required = False, up_secret = False, up_default_value
     = Some (JStr ''12''), up_enum_values = Some (enum_options [(''8'', ''8 (High quality)''), (''12'',
     ''12 (Standard)''), (''20'', ''20 (Low)''), (''40'', ''40 (Very low)'')]), up_depends_on =
     None\<rparr>, \<lparr>up_id = ''stream_fps'', up_label = ''Stream FPS'', up_required = False, up_secret
     = False, up_default_value = Some (JStr ''15''), up_enum_values = Some (enum_options [(''5'',
     ''5 fps''), (''10'', ''10 fps''), (''15'', ''15 fps''), (''25'', ''25 fps'')]), up_depends_on =
     None\<rparr>, \<lparr>up_id = ''wifi_mode'', up_label = ''WiFi Mode'', up_required = True, up_secret =
     False, up_default_value = Some (JStr ''softap''), up_enum_values = Some (enum_options [(''softap'',
     ''SoftAP''), (''sta'', ''Station''), (''ap_sta'', ''AP+STA'')]), up_depends_on = None\<rparr>]"

definition phone_browser_video_solution_paths :: "solution_path list" where
 "phone_browser_video_solution_paths = [\<lparr>sp_source = In_CameraFrame, sp_transforms = [Tr_JpegEncode],
     sp_sink = Out_HttpMjpegStream, sp_feedback = [Fb_WebStatus]\<rparr>]"

definition phone_browser_video_solution :: catalog_solution where
 "phone_browser_video_solution = \<lparr>sd_id = ''phone_browser_video_solution'', sd_fixed_orchestration =
     phone_browser_video_solution_steps, sd_variants = [], sd_bundle = \<lparr>cb_required = [''wifi''],
     cb_optional = [''ota'']\<rparr>, sd_watchdog_ms = None, cs_label =
     ''Phone Browser Video (HTTP MJPEG)'', cs_kind = Kind_FirmwareAppliance, cs_supported_modules =
     [''esp32s3_wroom1''], cs_fixed_inputs = [In_CameraFrame], cs_fixed_outputs = [Out_HttpMjpegStream],
     cs_scheduling = \<lparr>sc_id = ''periodic_capture'', sc_label = ''Periodic capture at target FPS'',
     sc_decisions = [''Capture '' @ utf8 [226, 134, 146] @ '' JPEG '' @ utf8 [226, 134, 146] @
     '' HTTP multipart boundary'']\<rparr>, cs_user_parameters = phone_browser_video_solution_params,
     cs_feedback_paths = phone_browser_video_solution_paths, cs_variants = [], cs_runtime_binding =
     brookesia_wifi_binding, cs_external_contracts = [], cs_network_topology = Net_Star, cs_domain = None,
     cs_architecture_tier = None, cs_communication_chains = None, cs_pin_assignments = None,
     cs_topology_category = None, cs_family = Some Impl_EspIotSolution, cs_form_factor_families = None,
     cs_control_uplink = None, cs_video_downlink = None, cs_telemetry = None, cs_sensor_tier_min = None,
     cs_required_sensors = [], cs_companion_link = None, cs_actuator_family = None, cs_power_rails = None,
     cs_failsafe = None, cs_chip_coverage = None\<rparr>"

definition phone_rtsp_av_solution_steps :: "orchestration_step list" where
 "phone_rtsp_av_solution_steps = steps [(''wifi_init'', ''Initialize WiFi (SoftAP or STA)'', []),
     (''camera_init'', ''Initialize camera sensor'', []), (''audio_init'', ''Initialize I2S audio input'',
     []), (''rtsp_server'', ''Start RTSP server (MJPEG + G711A)'', [])]"

definition phone_rtsp_av_solution_params :: "user_parameter list" where
 "phone_rtsp_av_solution_params = [camera_sensor_param, \<lparr>up_id = ''audio_enable'', up_label =
     ''Enable Audio'', up_required = False, up_secret = False, up_default_value = Some (JBool True),
     up_enum_values = None, up_depends_on = None\<rparr>, \<lparr>up_id = ''video_fps'', up_label =
     ''Video FPS'', up_required = False, up_secret = False, up_default_value = Some (JStr ''15''),
     up_enum_values = Some (enum_options [(''10'', ''10 fps''), (''15'', ''15 fps''), (''25'', ''25 fps''),
     (''30'', ''30 fps'')]), up_depends_on = None\<rparr>, \<lparr>up_id = ''rtsp_port'', up_label =
     ''RTSP Port'', up_required = False, up_secret = False, up_default_value = Some (JStr ''554''),
     up_enum_values = Some (enum_options [(''554'', ''554 (standard)''), (''8554'', ''8554''), (''8080'',
     ''8080'')]), up_depends_on = None\<rparr>, \<lparr>up_id = ''client_type'', up_label = ''Client Type'',
     up_required = False, up_secret = False, up_default_value = Some (JStr ''vlc''), up_enum_values = Some
     (enum_options [(''vlc'', ''VLC''), (''ffplay'', ''ffplay''), (''browser'', ''Browser'')]),
     up_depends_on = None\<rparr>]"

definition phone_rtsp_av_solution_paths :: "solution_path list" where
 "phone_rtsp_av_solution_paths = [\<lparr>sp_source = In_CameraFrame, sp_transforms = [Tr_JpegEncode,
     Tr_AudioEncode], sp_sink = Out_RtspStream, sp_feedback = [Fb_RuntimeMetrics]\<rparr>]"

definition phone_rtsp_av_solution :: catalog_solution where
 "phone_rtsp_av_solution = \<lparr>sd_id = ''phone_rtsp_av_solution'', sd_fixed_orchestration =
     phone_rtsp_av_solution_steps, sd_variants = [], sd_bundle = \<lparr>cb_required = [''wifi''],
     cb_optional = [''ota'']\<rparr>, sd_watchdog_ms = None, cs_label = ''Phone RTSP Audio/Video'', cs_kind
     = Kind_FirmwareAppliance, cs_supported_modules = [''esp32s3_wroom1''], cs_fixed_inputs =
     [In_CameraFrame, In_AudioInput], cs_fixed_outputs = [Out_RtspStream], cs_scheduling = \<lparr>sc_id =
     ''rtsp_pipeline'', sc_label = ''RTSP pipeline (ADF element chain)'', sc_decisions = [''Video: camera ''
     @ utf8 [226, 134, 146] @ '' JPEG '' @ utf8 [226, 134, 146] @ '' RTP'', ''Audio: I2S '' @ utf8 [226,
     134, 146] @ '' G711A '' @ utf8 [226, 134, 146] @ '' RTP'']\<rparr>, cs_user_parameters =
     phone_rtsp_av_solution_params, cs_feedback_paths = phone_rtsp_av_solution_paths, cs_variants = [],
     cs_runtime_binding = brookesia_wifi_binding, cs_external_contracts = [], cs_network_topology =
     Net_Star, cs_domain = None, cs_architecture_tier = None, cs_communication_chains = None,
     cs_pin_assignments = None, cs_topology_category = None, cs_family = Some Impl_EspAdf,
     cs_form_factor_families = None, cs_control_uplink = None, cs_video_downlink = None, cs_telemetry =
     None, cs_sensor_tier_min = None, cs_required_sensors = [], cs_companion_link = None, cs_actuator_family
     = None, cs_power_rails = None, cs_failsafe = None, cs_chip_coverage = None\<rparr>"

definition direct_control_solution_steps :: "orchestration_step list" where
 "direct_control_solution_steps = steps [(''wifi_softap'', ''Start SoftAP for phone connection'', []),
     (''udp_listener'', ''Start UDP listener on port 2390'', []), (''crtp_dispatch'',
     ''CRTP packet dispatch to commander'', []), (''stabilizer_loop'', ''Stabilizer task: sensors '' @ utf8
     [226, 134, 146] @ '' controller '' @ utf8 [226, 134, 146] @ '' motors'', [])]"

definition direct_control_solution_params :: "user_parameter list" where
 "direct_control_solution_params = [vehicle_type_param, control_protocol_param, actuator_type_param,
     imu_axis_tier_param, imu_chip_param, control_rate_hz_param, failsafe_timeout_ms_param, \<lparr>up_id =
     ''app_compat_mode'', up_label = ''App Compatibility Mode'', up_required = False, up_secret = False,
     up_default_value = Some (JBool True), up_enum_values = None, up_depends_on = None\<rparr>]"

definition direct_control_solution_paths :: "solution_path list" where
 "direct_control_solution_paths = [\<lparr>sp_source = In_WifiEvent, sp_transforms = [Tr_CommandDispatch,
     Tr_PidLoop, Tr_SafetyInterlock], sp_sink = Out_MotorDrive, sp_feedback = [Fb_PhysicalMotion]\<rparr>]"

definition direct_control_solution :: catalog_solution where
 "direct_control_solution = \<lparr>sd_id = ''direct_control_solution'', sd_fixed_orchestration =
     direct_control_solution_steps, sd_variants = [], sd_bundle = \<lparr>cb_required = [''wifi''],
     cb_optional = [''ota'']\<rparr>, sd_watchdog_ms = Some 500, cs_label = ''Vehicle Control Board'',
     cs_kind = Kind_FirmwareAppliance, cs_supported_modules = [''esp32s3_wroom1''], cs_fixed_inputs =
     [In_WifiEvent], cs_fixed_outputs = [Out_MotorDrive, Out_StatusLed], cs_scheduling = \<lparr>sc_id =
     ''realtime_control'', sc_label = ''Real-time control loop'', sc_decisions = [''UDP '' @ utf8 [226, 134,
     146] @ '' CRTP '' @ utf8 [226, 134, 146] @ '' commander at control_rate_hz'',
     ''Stabilizer runs at fixed rate independent of command arrival'',
     ''Failsafe timeout triggers safe stop'']\<rparr>, cs_user_parameters = direct_control_solution_params,
     cs_feedback_paths = direct_control_solution_paths, cs_variants = [], cs_runtime_binding =
     (brookesia_vehicle_binding [''rshome_motor_control'', ''rshome_imu''])\<lparr>rb_board_assembly :=
     Some ''esp32s3_va_wheeled_diff_assembly''\<rparr>, cs_external_contracts =
     [''ESP-Drone App Protocol (UDP/CRTP)''], cs_network_topology = Net_Star, cs_domain = Some
     Dom_VehicleAircraftControl, cs_architecture_tier = Some Role_ControlBoard, cs_communication_chains =
     None, cs_pin_assignments = Some vehicle_control_pins, cs_topology_category = None, cs_family = Some
     Impl_EspDrone, cs_form_factor_families = Some [Ff_Wheeled2wdDiff, Ff_Wheeled4wdDiff, Ff_Wheeled6wd,
     Ff_TrackedSkidsteer], cs_control_uplink = Some Up_WifiCrtp, cs_video_downlink = Some Vid_None,
     cs_telemetry = Some Tel_CustomUart, cs_sensor_tier_min = Some Tier_Basic6ax, cs_required_sensors = [],
     cs_companion_link = None, cs_actuator_family = Some Act_MixedDiffDrive, cs_power_rails = Some
     Rail_DualLogicMotor, cs_failsafe = Some \<lparr>fi_killswitch_source = [Kill_RxLoss,
     Kill_TimeoutNoPacket], fi_rx_loss_behavior = Some Loss_MotorCutoff, fi_watchdog_ms = Some 500,
     fi_emergency_stop_wiring = Stop_GpioPulldown\<rparr>, cs_chip_coverage = Some (bt_of_list
     [(Chip_Esp32C6, Cov_Preferred), (Chip_Esp32S3, Cov_Preferred), (Chip_Esp32D0wd, Cov_Caveat)])\<rparr>"

definition direct_control_video_solution_steps :: "orchestration_step list" where
 "direct_control_video_solution_steps = steps [(''wifi_softap'', ''Start SoftAP'', []), (''control_init'',
     ''Initialize UDP/CRTP control chain'', []), (''video_init'',
     ''Initialize camera + HTTP MJPEG (async, after control)'', [])]"

definition direct_control_video_solution_params :: "user_parameter list" where
 "direct_control_video_solution_params = [vehicle_type_param, control_protocol_param, actuator_type_param,
     imu_axis_tier_param, imu_chip_param, camera_sensor_param, \<lparr>up_id = ''video_protocol'', up_label
     = ''Video Protocol'', up_required = False, up_secret = False, up_default_value = Some (JStr
     ''http_mjpeg''), up_enum_values = Some (enum_options [(''http_mjpeg'', ''HTTP MJPEG''), (''rtsp'',
     ''RTSP'')]), up_depends_on = None\<rparr>, frame_size_param, \<lparr>up_id = ''video_enable_on_boot'',
     up_label = ''Enable Video on Boot'', up_required = False, up_secret = False, up_default_value = Some
     (JBool False), up_enum_values = None, up_depends_on = None\<rparr>, \<lparr>up_id =
     ''dual_mode_relay'', up_label = ''Dual-Mode Relay'', up_required = False, up_secret = False,
     up_default_value = Some (JBool False), up_enum_values = None, up_depends_on = None\<rparr>,
     \<lparr>up_id = ''default_mode'', up_label = ''Default Mode'', up_required = False, up_secret = False,
     up_default_value = Some (JStr ''relay''), up_enum_values = Some (enum_options [(''relay'', ''Relay''),
     (''direct'', ''Direct'')]), up_depends_on = Some \<lparr>pd_parameter_id = ''dual_mode_relay'',
     pd_when_value = ''true'', pd_when_not_value = None\<rparr>\<rparr>, safe_stop_timeout_ms_param,
     direct_probe_threshold_param, fallback_rssi_threshold_param]"

definition direct_control_video_solution_paths :: "solution_path list" where
 "direct_control_video_solution_paths = [\<lparr>sp_source = In_WifiEvent, sp_transforms =
     [Tr_CommandDispatch, Tr_PidLoop], sp_sink = Out_MotorDrive, sp_feedback = [Fb_PhysicalMotion]\<rparr>,
     \<lparr>sp_source = In_CameraFrame, sp_transforms = [Tr_JpegEncode], sp_sink = Out_HttpMjpegStream,
     sp_feedback = [Fb_WebStatus]\<rparr>]"

definition direct_control_video_solution :: catalog_solution where
 "direct_control_video_solution = \<lparr>sd_id = ''direct_control_video_solution'', sd_fixed_orchestration
     = direct_control_video_solution_steps, sd_variants = [], sd_bundle = \<lparr>cb_required = [''wifi''],
     cb_optional = [''ota'']\<rparr>, sd_watchdog_ms = Some 500, cs_label = ''Direct Control + Video'',
     cs_kind = Kind_FirmwareAppliance, cs_supported_modules = [''esp32s3_wroom1''], cs_fixed_inputs =
     [In_WifiEvent, In_CameraFrame], cs_fixed_outputs = [Out_MotorDrive, Out_HttpMjpegStream,
     Out_StatusLed], cs_scheduling = \<lparr>sc_id = ''control_priority'', sc_label =
     ''Control-priority dual task'', sc_decisions = [''Control loop on high-priority task'',
     ''Video capture on lower-priority task'', ''Video yields to control under load'']\<rparr>,
     cs_user_parameters = direct_control_video_solution_params, cs_feedback_paths =
     direct_control_video_solution_paths, cs_variants = [], cs_runtime_binding = (brookesia_vehicle_binding
     [''rshome_motor_control'', ''rshome_imu'']), cs_external_contracts =
     [''ESP-Drone App Protocol (UDP/CRTP)''], cs_network_topology = Net_Star, cs_domain = Some
     Dom_VehicleAircraftControl, cs_architecture_tier = Some Role_AllInOneCam, cs_communication_chains =
     None, cs_pin_assignments = Some all_in_one_cam_pins, cs_topology_category = None, cs_family = Some
     Impl_EspDrone, cs_form_factor_families = Some [Ff_Wheeled4wdAckermann, Ff_BigfootMonsterTruck,
     Ff_BigfootRockCrawler, Ff_AtvOffroad, Ff_DriftRallyRacer], cs_control_uplink = Some Up_WifiCrtp,
     cs_video_downlink = Some Vid_MjpegHttp, cs_telemetry = Some Tel_CustomUart, cs_sensor_tier_min = Some
     Tier_Basic6ax, cs_required_sensors = [], cs_companion_link = None, cs_actuator_family = Some
     Act_MixedAckermann, cs_power_rails = Some Rail_TripleMotorServoLogic, cs_failsafe = Some
     \<lparr>fi_killswitch_source = [Kill_RxLoss, Kill_TimeoutNoPacket], fi_rx_loss_behavior = Some
     Loss_MotorCutoff, fi_watchdog_ms = Some 500, fi_emergency_stop_wiring = Stop_GpioPulldown\<rparr>,
     cs_chip_coverage = Some (bt_of_list [(Chip_Esp32S3, Cov_Preferred), (Chip_Esp32C6, Cov_Insufficient),
     (Chip_Esp32D0wd, Cov_Insufficient)])\<rparr>"

definition direct_control_telemetry_solution_steps :: "orchestration_step list" where
 "direct_control_telemetry_solution_steps = steps [(''wifi_softap'',
     ''Start SoftAP for phone + ground-station connection'', []), (''udp_listener'',
     ''Start UDP listener on port 2390 (CRTP control)'', [''wifi_softap'']), (''mavlink_listener'',
     ''Start MAVLink UDP server on port 14550 (telemetry)'', [''wifi_softap'']), (''control_loop'',
     ''Stabilizer loop: CRTP setpoint '' @ utf8 [226, 134, 146] @ '' mix '' @ utf8 [226, 134, 146] @
     '' motors; emit MAVLink telemetry @ telemetry_rate_hz'', [''udp_listener'', ''mavlink_listener''])]"

definition direct_control_telemetry_solution_params :: "user_parameter list" where
 "direct_control_telemetry_solution_params = [vehicle_type_param, control_protocol_param,
     actuator_type_param, imu_axis_tier_param, imu_chip_param, control_rate_hz_param,
     failsafe_timeout_ms_param, \<lparr>up_id = ''mavlink_system_id'', up_label = ''MAVLink System ID'',
     up_required = False, up_secret = False, up_default_value = Some (JStr ''1''), up_enum_values = None,
     up_depends_on = None\<rparr>, \<lparr>up_id = ''telemetry_rate_hz'', up_label =
     ''Telemetry Rate (Hz)'', up_required = False, up_secret = False, up_default_value = Some (JStr ''10''),
     up_enum_values = Some (enum_options [(''1'', ''1 Hz''), (''5'', ''5 Hz''), (''10'', ''10 Hz''),
     (''50'', ''50 Hz'')]), up_depends_on = None\<rparr>]"

definition direct_control_telemetry_solution_paths :: "solution_path list" where
 "direct_control_telemetry_solution_paths = [\<lparr>sp_source = In_WifiEvent, sp_transforms =
     [Tr_CommandDispatch, Tr_PidLoop, Tr_SafetyInterlock], sp_sink = Out_MotorDrive, sp_feedback =
     [Fb_PhysicalMotion]\<rparr>, \<lparr>sp_source = In_TimerTick, sp_transforms = [Tr_ProtobufEncode,
     Tr_PeriodicTask], sp_sink = Out_WifiPacket, sp_feedback = [Fb_WebStatus]\<rparr>]"

definition direct_control_telemetry_solution :: catalog_solution where
 "direct_control_telemetry_solution = \<lparr>sd_id = ''direct_control_telemetry_solution'',
     sd_fixed_orchestration = direct_control_telemetry_solution_steps, sd_variants = [], sd_bundle =
     \<lparr>cb_required = [''wifi''], cb_optional = [''ota'']\<rparr>, sd_watchdog_ms = Some 500, cs_label
     = ''Direct Control + WiFi Telemetry'', cs_kind = Kind_FirmwareAppliance, cs_supported_modules =
     [''esp32s3_wroom1'', ''esp32s3_mini1''], cs_fixed_inputs = [In_WifiEvent], cs_fixed_outputs =
     [Out_MotorDrive, Out_WifiPacket, Out_StatusLed], cs_scheduling = \<lparr>sc_id =
     ''control_with_telemetry'', sc_label = ''Real-time control + async telemetry'', sc_decisions =
     [''Control loop on a dedicated high-priority task at control_rate_hz'',
     ''MAVLink telemetry on a lower-priority task; control NEVER yields to telemetry'',
     ''Failsafe: rx_loss + timeout_no_packet '' @ utf8 [226, 134, 146] @
     '' motor cutoff within watchdog_ms'']\<rparr>, cs_user_parameters =
     direct_control_telemetry_solution_params, cs_feedback_paths = direct_control_telemetry_solution_paths,
     cs_variants = [], cs_runtime_binding = (brookesia_vehicle_binding [''rshome_motor_control'',
     ''rshome_imu'', ''rshome_failsafe'']), cs_external_contracts = [''ESP-Drone App Protocol (UDP/CRTP)'',
     ''MAVLink v2 over UDP (port 14550, QGroundControl)''], cs_network_topology = Net_Star, cs_domain = Some
     Dom_VehicleAircraftControl, cs_architecture_tier = Some Role_ControlTelemetryBoard,
     cs_communication_chains = None, cs_pin_assignments = Some vehicle_car_pins, cs_topology_category =
     None, cs_family = Some Impl_EspDrone, cs_form_factor_families = Some [Ff_Wheeled2wdDiff,
     Ff_Wheeled4wdDiff, Ff_Wheeled4wdAckermann, Ff_Wheeled6wd, Ff_TrackedSkidsteer], cs_control_uplink =
     Some Up_WifiCrtp, cs_video_downlink = Some Vid_None, cs_telemetry = Some Tel_MavlinkWifi,
     cs_sensor_tier_min = Some Tier_Basic6ax, cs_required_sensors = [], cs_companion_link = None,
     cs_actuator_family = Some Act_MixedDiffDrive, cs_power_rails = Some Rail_DualLogicMotor, cs_failsafe =
     Some \<lparr>fi_killswitch_source = [Kill_RxLoss, Kill_TimeoutNoPacket], fi_rx_loss_behavior = Some
     Loss_MotorCutoff, fi_watchdog_ms = Some 500, fi_emergency_stop_wiring = Stop_GpioPulldown\<rparr>,
     cs_chip_coverage = Some (bt_of_list [(Chip_Esp32S3, Cov_Preferred), (Chip_Esp32C6, Cov_Preferred),
     (Chip_Esp32D0wd, Cov_Caveat)])\<rparr>"

definition dual_mcu_car_solution_steps :: "orchestration_step list" where
 "dual_mcu_car_solution_steps = steps [(''control_board_init'',
     ''Control board: motor + IMU + RC + failsafe init'', []), (''camera_board_init'',
     ''Camera board: camera + MJPEG + WiFi init'', []), (''interboard_link'',
     ''Inter-board UART link: heartbeat + vision results'', []), (''control_loop'',
     ''Control loop: RC input '' @ utf8 [226, 134, 146] @ '' PID '' @ utf8 [226, 134, 146] @ '' safety '' @
     utf8 [226, 134, 146] @ '' motors'', [])]"

definition dual_mcu_car_solution_params :: "user_parameter list" where
 "dual_mcu_car_solution_params = [vehicle_type_param, control_protocol_param, actuator_type_param,
     imu_axis_tier_param, imu_chip_param, \<lparr>up_id = ''interboard_baud'', up_label =
     ''Inter-Board Baud Rate'', up_required = False, up_secret = False, up_default_value = Some (JNum
     (PosInt 460800)), up_enum_values = Some (enum_options [(''115200'', ''115200''), (''230400'',
     ''230400''), (''460800'', ''460800''), (''921600'', ''921600'')]), up_depends_on = None\<rparr>]"

definition dual_mcu_car_solution_paths :: "solution_path list" where
 "dual_mcu_car_solution_paths = [\<lparr>sp_source = In_WifiEvent, sp_transforms = [Tr_CommandDispatch,
     Tr_PidLoop, Tr_SafetyInterlock], sp_sink = Out_MotorDrive, sp_feedback = [Fb_PhysicalMotion]\<rparr>,
     \<lparr>sp_source = In_CameraFrame, sp_transforms = [Tr_JpegEncode], sp_sink = Out_HttpMjpegStream,
     sp_feedback = [Fb_WebStatus]\<rparr>]"

definition dual_mcu_car_solution :: catalog_solution where
 "dual_mcu_car_solution = \<lparr>sd_id = ''dual_mcu_car_solution'', sd_fixed_orchestration =
     dual_mcu_car_solution_steps, sd_variants = [], sd_bundle = \<lparr>cb_required = [''wifi''],
     cb_optional = [''ota'']\<rparr>, sd_watchdog_ms = Some 500, cs_label =
     ''Dual-MCU Car (CAM + Control)'', cs_kind = Kind_FirmwareAppliance, cs_supported_modules =
     [''esp32s3_wroom1'', ''esp32s3_wroom1''], cs_fixed_inputs = [In_WifiEvent, In_CameraFrame],
     cs_fixed_outputs = [Out_MotorDrive, Out_HttpMjpegStream, Out_StatusLed], cs_scheduling = \<lparr>sc_id
     = ''dual_board_split'', sc_label = ''Dual-board task split'', sc_decisions =
     [''Control board: real-time motor/safety loop at control_rate_hz'',
     ''Camera board: MJPEG streaming at target FPS, async to control'',
     ''Inter-board: 20ms heartbeat, 200ms link-loss timeout'',
     ''Camera board failure does NOT affect control board safety'']\<rparr>, cs_user_parameters =
     dual_mcu_car_solution_params, cs_feedback_paths = dual_mcu_car_solution_paths, cs_variants = [],
     cs_runtime_binding = (brookesia_vehicle_binding [''rshome_motor_control'', ''rshome_imu'',
     ''rshome_failsafe'', ''rshome_interboard'']), cs_external_contracts =
     [''Inter-board UART protocol (binary frames)'', ''ESP-Drone App Protocol (UDP/CRTP, optional)''],
     cs_network_topology = Net_Star, cs_domain = Some Dom_VehicleAircraftControl, cs_architecture_tier =
     Some Role_ControlBoard, cs_communication_chains = None, cs_pin_assignments = Some
     dual_mcu_control_board_pins, cs_topology_category = None, cs_family = Some Impl_EspDrone,
     cs_form_factor_families = Some [Ff_Wheeled2wdDiff, Ff_Wheeled4wdDiff, Ff_Wheeled6wd,
     Ff_TrackedSkidsteer], cs_control_uplink = Some Up_WifiCrtp, cs_video_downlink = Some Vid_MjpegUart,
     cs_telemetry = Some Tel_MavlinkWifi, cs_sensor_tier_min = Some Tier_Basic6ax, cs_required_sensors = [],
     cs_companion_link = None, cs_actuator_family = Some Act_MixedDiffDrive, cs_power_rails = Some
     Rail_DualLogicMotor, cs_failsafe = Some \<lparr>fi_killswitch_source = [Kill_RxLoss,
     Kill_TimeoutNoPacket, Kill_SbcHeartbeatLoss], fi_rx_loss_behavior = Some Loss_MotorCutoff,
     fi_watchdog_ms = Some 500, fi_emergency_stop_wiring = Stop_GpioPulldown\<rparr>, cs_chip_coverage =
     Some (bt_of_list [(Chip_Esp32C6, Cov_Preferred), (Chip_Esp32S3, Cov_Preferred), (Chip_Esp32D0wd,
     Cov_Caveat)])\<rparr>"

definition balance_stabilizer_solution_steps :: "orchestration_step list" where
 "balance_stabilizer_solution_steps = steps [(''imu_calibrate'',
     ''Calibrate IMU at rest (gyro zero, accel pitch reference)'', []), (''esp_now_init'',
     ''Initialize ESP-NOW receiver for remote command'', []), (''estop_wire'',
     ''Bind emergency-stop GPIO (active-low pulldown to motor enable)'', []), (''balance_loop'',
     ''500 Hz IMU loop on core 1: AHRS '' @ utf8 [226, 134, 146] @ '' outer pendulum PID '' @ utf8 [226,
     134, 146] @ '' inner diff-drive PID '' @ utf8 [226, 134, 146] @ '' H-bridge'', [''imu_calibrate'',
     ''esp_now_init'', ''estop_wire''])]"

definition balance_stabilizer_solution_params :: "user_parameter list" where
 "balance_stabilizer_solution_params = [\<lparr>up_id = ''balance_loop_hz'', up_label =
     ''Balance Loop Rate (Hz)'', up_required = False, up_secret = False, up_default_value = Some (JStr
     ''500''), up_enum_values = Some (enum_options [(''250'', ''250 Hz''), (''500'', ''500 Hz''), (''1000'',
     ''1000 Hz'')]), up_depends_on = None\<rparr>, imu_axis_tier_param, imu_chip_param, \<lparr>up_id =
     ''tilt_pid_kp'', up_label = ''Tilt PID Kp'', up_required = False, up_secret = False, up_default_value =
     Some (JStr ''18.0''), up_enum_values = None, up_depends_on = None\<rparr>, \<lparr>up_id =
     ''tilt_pid_ki'', up_label = ''Tilt PID Ki'', up_required = False, up_secret = False, up_default_value =
     Some (JStr ''0.5''), up_enum_values = None, up_depends_on = None\<rparr>, \<lparr>up_id =
     ''tilt_pid_kd'', up_label = ''Tilt PID Kd'', up_required = False, up_secret = False, up_default_value =
     Some (JStr ''1.2''), up_enum_values = None, up_depends_on = None\<rparr>, \<lparr>up_id =
     ''fall_angle_deg'', up_label = ''Fall-Detection Angle ('' @ utf8 [194, 176] @ '')'', up_required =
     False, up_secret = False, up_default_value = Some (JStr ''30''), up_enum_values = Some (enum_options
     [(''20'', ''20'' @ utf8 [194, 176]), (''30'', ''30'' @ utf8 [194, 176]), (''45'', ''45'' @ utf8 [194,
     176])]), up_depends_on = None\<rparr>, failsafe_timeout_ms_param]"

definition balance_stabilizer_solution_paths :: "solution_path list" where
 "balance_stabilizer_solution_paths = [\<lparr>sp_source = In_I2cSensor, sp_transforms = [Tr_Filter,
     Tr_PidLoop, Tr_PidLoop, Tr_SafetyInterlock], sp_sink = Out_MotorDrive, sp_feedback =
     [Fb_PhysicalMotion, Fb_LedIndicator]\<rparr>]"

definition balance_stabilizer_solution :: catalog_solution where
 "balance_stabilizer_solution = \<lparr>sd_id = ''balance_stabilizer_solution'', sd_fixed_orchestration =
     balance_stabilizer_solution_steps, sd_variants = [], sd_bundle = \<lparr>cb_required = [], cb_optional
     = [''ota'']\<rparr>, sd_watchdog_ms = Some 100, cs_label = ''Self-Balancing 2-Wheel Stabilizer'',
     cs_kind = Kind_FirmwareAppliance, cs_supported_modules = [''esp32s3_wroom1'', ''esp32s3_mini1'',
     ''esp32c6_wroom1'', ''esp32c6_mini1''], cs_fixed_inputs = [In_I2cSensor, In_EspNowData, In_ButtonGpio],
     cs_fixed_outputs = [Out_MotorDrive, Out_StatusLed], cs_scheduling = \<lparr>sc_id =
     ''balance_dual_core'', sc_label = ''Dual-core split: IMU on core 1, comms on core 0'', sc_decisions =
     [''Core 1 pinned IMU/PID loop at 500 Hz '' @ utf8 [226, 128, 148] @
     '' no blocking calls, no logging in the hot path'',
     ''Core 0 handles ESP-NOW receive + telemetry UART'',
     ''Fall detection or e-stop fires the gpio_pulldown enable line in the same tick'']\<rparr>,
     cs_user_parameters = balance_stabilizer_solution_params, cs_feedback_paths =
     balance_stabilizer_solution_paths, cs_variants = [], cs_runtime_binding = (brookesia_vehicle_binding
     [''rshome_motor_control'', ''rshome_imu'', ''rshome_failsafe'']), cs_external_contracts =
     [''ESP-NOW broadcast frame (4-byte packed control payload)''], cs_network_topology = Net_PointToPoint,
     cs_domain = Some Dom_VehicleAircraftControl, cs_architecture_tier = Some Role_ControlBoard,
     cs_communication_chains = None, cs_pin_assignments = Some vehicle_car_pins, cs_topology_category =
     None, cs_family = Some Impl_Custom, cs_form_factor_families = Some [Ff_Balance2wheel],
     cs_control_uplink = Some Up_EspNow, cs_video_downlink = Some Vid_None, cs_telemetry = Some
     Tel_CustomUart, cs_sensor_tier_min = Some Tier_Standard9ax, cs_required_sensors = [], cs_companion_link
     = None, cs_actuator_family = Some Act_MixedDiffDrive, cs_power_rails = Some Rail_DualLogicMotor,
     cs_failsafe = Some \<lparr>fi_killswitch_source = [Kill_RxLoss, Kill_TimeoutNoPacket,
     Kill_EmergencyButton], fi_rx_loss_behavior = Some Loss_MotorCutoff, fi_watchdog_ms = Some 100,
     fi_emergency_stop_wiring = Stop_GpioPulldown\<rparr>, cs_chip_coverage = Some (bt_of_list
     [(Chip_Esp32S3, Cov_Preferred), (Chip_Esp32C6, Cov_Caveat), (Chip_Esp32D0wd,
     Cov_Insufficient)])\<rparr>"

definition remote_control_tx_solution_steps :: "orchestration_step list" where
 "remote_control_tx_solution_steps = steps [(''init_inputs'', ''Initialize joystick ADC + buttons'', []),
     (''start_tx'', ''Start ESP-NOW / WiFi TX link'', [''init_inputs''])]"

definition remote_control_tx_solution_params :: "user_parameter list" where
 "remote_control_tx_solution_params = [\<lparr>up_id = ''input_source'', up_label = ''Input Source'',
     up_required = True, up_secret = False, up_default_value = Some (JStr ''joystick_adc''), up_enum_values
     = Some (enum_options [(''joystick_adc'', ''Joystick + Buttons (ADC/GPIO)''), (''usb_phone'',
     ''USB from Phone''), (''ble_phone'', ''BLE from Phone'')]), up_depends_on = None\<rparr>, \<lparr>up_id
     = ''tx_protocol'', up_label = ''TX Protocol'', up_required = True, up_secret = False, up_default_value
     = Some (JStr ''esp_now''), up_enum_values = Some (enum_options [(''esp_now'', ''ESP-NOW''),
     (''wifi_udp'', ''WiFi UDP''), (''wifi_lr'', ''802.11 LR''), (''wifi_mavlink'', ''WiFi + MAVLink'')]),
     up_depends_on = None\<rparr>, \<lparr>up_id = ''num_channels'', up_label = ''Control Channels'',
     up_required = False, up_secret = False, up_default_value = Some (JStr ''4''), up_enum_values = Some
     (enum_options [(''2'', ''2 ch''), (''4'', ''4 ch''), (''8'', ''8 ch'')]), up_depends_on = None\<rparr>,
     control_rate_hz_param]"

definition remote_control_tx_solution :: catalog_solution where
 "remote_control_tx_solution = \<lparr>sd_id = ''remote_control_tx_solution'', sd_fixed_orchestration =
     remote_control_tx_solution_steps, sd_variants = [], sd_bundle = \<lparr>cb_required = [''wifi''],
     cb_optional = []\<rparr>, sd_watchdog_ms = None, cs_label = ''Remote Control / Phone Bridge (TX)'',
     cs_kind = Kind_FirmwareAppliance, cs_supported_modules = [''esp32c6_wroom1'', ''esp32c6_mini1'',
     ''esp32s3_wroom1''], cs_fixed_inputs = [In_ButtonGpio], cs_fixed_outputs = [Out_WifiPacket],
     cs_scheduling = \<lparr>sc_id = ''periodic_tx'', sc_label = ''Periodic TX at control_rate_hz'',
     sc_decisions = []\<rparr>, cs_user_parameters = remote_control_tx_solution_params, cs_feedback_paths =
     [], cs_variants = [], cs_runtime_binding = default_runtime_binding, cs_external_contracts = [],
     cs_network_topology = Net_PointToPoint, cs_domain = Some Dom_VehicleAircraftControl,
     cs_architecture_tier = Some Role_RemoteControlTx, cs_communication_chains = None, cs_pin_assignments =
     Some remote_control_tx_pins, cs_topology_category = None, cs_family = Some Impl_Custom,
     cs_form_factor_families = None, cs_control_uplink = Some Up_Wifi80211lr, cs_video_downlink = Some
     Vid_None, cs_telemetry = Some Tel_None, cs_sensor_tier_min = None, cs_required_sensors = [],
     cs_companion_link = None, cs_actuator_family = None, cs_power_rails = Some Rail_SingleLogicOnly,
     cs_failsafe = None, cs_chip_coverage = Some (bt_of_list [(Chip_Esp32C6, Cov_Preferred), (Chip_Esp32S3,
     Cov_Preferred), (Chip_Esp32D0wd, Cov_Caveat)])\<rparr>"

definition video_board_solution_steps :: "orchestration_step list" where
 "video_board_solution_steps = steps [(''init_camera'', ''Initialize camera + PSRAM'', []),
     (''start_stream'', ''Start HTTP/MJPEG stream + inter-board UART'', [''init_camera''])]"

definition video_board_solution_params :: "user_parameter list" where
 "video_board_solution_params = [camera_sensor_param, frame_size_param, \<lparr>up_id = ''stream_fps'',
     up_label = ''Stream FPS'', up_required = False, up_secret = False, up_default_value = Some (JStr
     ''15''), up_enum_values = Some (enum_options [(''5'', ''5 fps''), (''10'', ''10 fps''), (''15'',
     ''15 fps''), (''25'', ''25 fps'')]), up_depends_on = None\<rparr>, \<lparr>up_id = ''video_output'',
     up_label = ''Video Output'', up_required = True, up_secret = False, up_default_value = Some (JStr
     ''wifi_mjpeg''), up_enum_values = Some (enum_options [(''wifi_mjpeg'', ''WiFi HTTP MJPEG''),
     (''wifi_rtsp'', ''WiFi RTSP''), (''analog_vtx'', ''Analog 5.8G VTX''), (''digital_vtx'',
     ''Digital VTX (DJI/HDZero/Walksnail)'')]), up_depends_on = None\<rparr>, \<lparr>up_id =
     ''rx_protocol'', up_label = ''RX Protocol'', up_required = False, up_secret = False, up_default_value =
     Some (JStr ''uart_binary''), up_enum_values = Some (enum_options [(''uart_binary'', ''UART Binary''),
     (''uart_mavlink'', ''UART MAVLink'')]), up_depends_on = None\<rparr>, \<lparr>up_id =
     ''interboard_baud'', up_label = ''Inter-Board Baud Rate'', up_required = False, up_secret = False,
     up_default_value = Some (JStr ''460800''), up_enum_values = Some (enum_options [(''115200'',
     ''115200''), (''460800'', ''460800''), (''921600'', ''921600'')]), up_depends_on = None\<rparr>]"

definition video_board_solution :: catalog_solution where
 "video_board_solution = \<lparr>sd_id = ''video_board_solution'', sd_fixed_orchestration =
     video_board_solution_steps, sd_variants = [], sd_bundle = \<lparr>cb_required = [''wifi''], cb_optional
     = []\<rparr>, sd_watchdog_ms = None, cs_label = ''Video Board (Camera + UART)'', cs_kind =
     Kind_FirmwareAppliance, cs_supported_modules = [''esp32s3_wroom1''], cs_fixed_inputs =
     [In_CameraFrame], cs_fixed_outputs = [Out_HttpMjpegStream], cs_scheduling = \<lparr>sc_id =
     ''camera_loop'', sc_label = ''Camera capture + stream loop'', sc_decisions = []\<rparr>,
     cs_user_parameters = video_board_solution_params, cs_feedback_paths = [], cs_variants = [],
     cs_runtime_binding = default_runtime_binding, cs_external_contracts = [], cs_network_topology =
     Net_PointToPoint, cs_domain = Some Dom_VehicleAircraftControl, cs_architecture_tier = Some
     Role_VideoBoard, cs_communication_chains = None, cs_pin_assignments = Some video_board_pins,
     cs_topology_category = None, cs_family = Some Impl_Custom, cs_form_factor_families = None,
     cs_control_uplink = Some Up_None, cs_video_downlink = Some Vid_MjpegUart, cs_telemetry = Some Tel_None,
     cs_sensor_tier_min = None, cs_required_sensors = [], cs_companion_link = None, cs_actuator_family =
     None, cs_power_rails = Some Rail_SingleLogicOnly, cs_failsafe = None, cs_chip_coverage = Some
     (bt_of_list [(Chip_Esp32S3, Cov_Preferred), (Chip_Esp32C6, Cov_Insufficient), (Chip_Esp32D0wd,
     Cov_Insufficient)])\<rparr>"

definition analog_vtx_passthrough_solution_steps :: "orchestration_step list" where
 "analog_vtx_passthrough_solution_steps = steps [(''init_camera'',
     ''Initialize camera + PSRAM frame buffers'', []), (''init_vtx'',
     ''Power VTX + apply default channel/power'', [''init_camera''])]"

definition analog_vtx_passthrough_solution_params :: "user_parameter list" where
 "analog_vtx_passthrough_solution_params = [camera_sensor_param, \<lparr>up_id = ''vtx_channel'', up_label =
     ''VTX Channel'', up_required = True, up_secret = False, up_default_value = Some (JStr ''R1''),
     up_enum_values = Some (enum_options [(''R1'', ''R1 (5658)''), (''R2'', ''R2 (5695)''), (''R3'',
     ''R3 (5732)''), (''R4'', ''R4 (5769)''), (''R5'', ''R5 (5806)''), (''R6'', ''R6 (5843)''), (''R7'',
     ''R7 (5880)''), (''R8'', ''R8 (5917)'')]), up_depends_on = None\<rparr>, \<lparr>up_id =
     ''vtx_power_mw'', up_label = ''VTX Power (mW)'', up_required = False, up_secret = False,
     up_default_value = Some (JStr ''25''), up_enum_values = Some (enum_options [(''25'',
     ''25 mW (CE/race)''), (''200'', ''200 mW''), (''500'', ''500 mW''), (''800'', ''800 mW'')]),
     up_depends_on = None\<rparr>, \<lparr>up_id = ''smartaudio_enabled'', up_label =
     ''SmartAudio Control'', up_required = False, up_secret = False, up_default_value = Some (JBool False),
     up_enum_values = None, up_depends_on = None\<rparr>]"

definition analog_vtx_passthrough_solution_paths :: "solution_path list" where
 "analog_vtx_passthrough_solution_paths = [\<lparr>sp_source = In_CameraFrame, sp_transforms =
     [Tr_OneToOne], sp_sink = Out_GpioLevel, sp_feedback = [Fb_LedIndicator]\<rparr>]"

definition analog_vtx_passthrough_solution :: catalog_solution where
 "analog_vtx_passthrough_solution = \<lparr>sd_id = ''analog_vtx_passthrough_solution'',
     sd_fixed_orchestration = analog_vtx_passthrough_solution_steps, sd_variants = [], sd_bundle =
     \<lparr>cb_required = [], cb_optional = [''ota'']\<rparr>, sd_watchdog_ms = None, cs_label =
     ''Analog VTX Passthrough (Camera + 5.8 GHz)'', cs_kind = Kind_FirmwareAppliance, cs_supported_modules =
     [''esp32s3_wroom1''], cs_fixed_inputs = [In_CameraFrame], cs_fixed_outputs = [Out_GpioLevel],
     cs_scheduling = \<lparr>sc_id = ''vtx_idle'', sc_label = ''Camera + VTX powered, MCU mostly idle'',
     sc_decisions = [''Camera DVP runs continuously; analog VTX consumes the signal directly'',
     ''MCU has no realtime obligations once camera + VTX are up'']\<rparr>, cs_user_parameters =
     analog_vtx_passthrough_solution_params, cs_feedback_paths = analog_vtx_passthrough_solution_paths,
     cs_variants = [], cs_runtime_binding = default_runtime_binding, cs_external_contracts =
     [''SmartAudio v2 (optional)''], cs_network_topology = Net_None, cs_domain = Some
     Dom_VehicleAircraftControl, cs_architecture_tier = Some Role_VideoBoard, cs_communication_chains =
     None, cs_pin_assignments = Some video_board_pins, cs_topology_category = None, cs_family = Some
     Impl_Custom, cs_form_factor_families = None, cs_control_uplink = Some Up_None, cs_video_downlink = Some
     Vid_AnalogVtx, cs_telemetry = Some Tel_None, cs_sensor_tier_min = None, cs_required_sensors = [],
     cs_companion_link = None, cs_actuator_family = None, cs_power_rails = Some Rail_DualLogicMotor,
     cs_failsafe = None, cs_chip_coverage = Some (bt_of_list [(Chip_Esp32S3, Cov_Preferred), (Chip_Esp32C6,
     Cov_Insufficient), (Chip_Esp32D0wd, Cov_Insufficient)])\<rparr>"

definition receiver_direct_drive_solution_steps :: "orchestration_step list" where
 "receiver_direct_drive_solution_steps = steps [(''init_rx'',
     ''Initialize RX (CRSF/SBUS/ESP-NOW/802.11 LR)'', []), (''passthrough'', ''RX channel '' @ utf8 [226,
     134, 146] @ '' PWM output passthrough + failsafe'', [''init_rx''])]"

definition receiver_direct_drive_solution_params :: "user_parameter list" where
 "receiver_direct_drive_solution_params = [control_protocol_param, \<lparr>up_id = ''output_channels'',
     up_label = ''Output Channels'', up_required = True, up_secret = False, up_default_value = Some (JStr
     ''4''), up_enum_values = Some (enum_options [(''2'', ''2 ch''), (''4'', ''4 ch''), (''6'', ''6 ch''),
     (''8'', ''8 ch'')]), up_depends_on = None\<rparr>, \<lparr>up_id = ''output_type'', up_label =
     ''Output Type'', up_required = True, up_secret = False, up_default_value = Some (JStr ''servo_pwm''),
     up_enum_values = Some (enum_options [(''servo_pwm'', ''Servo PWM (1-2ms)''), (''esc_pwm'',
     ''ESC PWM''), (''dshot'', ''DShot'')]), up_depends_on = None\<rparr>, failsafe_timeout_ms_param]"

definition receiver_direct_drive_solution :: catalog_solution where
 "receiver_direct_drive_solution = \<lparr>sd_id = ''receiver_direct_drive_solution'',
     sd_fixed_orchestration = receiver_direct_drive_solution_steps, sd_variants = [], sd_bundle =
     \<lparr>cb_required = [''wifi''], cb_optional = []\<rparr>, sd_watchdog_ms = None, cs_label = utf8
     [226, 154, 160] @ utf8 [239, 184, 143] @ '' Receiver Passthrough (Legacy RX '' @ utf8 [226, 134, 146] @
     '' PWM)'', cs_kind = Kind_FirmwareAppliance, cs_supported_modules = [''esp32c6_wroom1'',
     ''esp32c6_mini1''], cs_fixed_inputs = [In_WifiEvent], cs_fixed_outputs = [Out_GpioLevel], cs_scheduling
     = \<lparr>sc_id = ''rx_passthrough'', sc_label = ''RX passthrough at packet rate'', sc_decisions =
     []\<rparr>, cs_user_parameters = receiver_direct_drive_solution_params, cs_feedback_paths = [],
     cs_variants = [], cs_runtime_binding = default_runtime_binding, cs_external_contracts = [],
     cs_network_topology = Net_PointToPoint, cs_domain = Some Dom_VehicleAircraftControl,
     cs_architecture_tier = Some Role_ReceiverDirectDrive, cs_communication_chains = None,
     cs_pin_assignments = Some receiver_direct_drive_pins, cs_topology_category = None, cs_family = Some
     Impl_Custom, cs_form_factor_families = None, cs_control_uplink = Some Up_Crsf, cs_video_downlink = Some
     Vid_None, cs_telemetry = Some Tel_CrsfTelemetry, cs_sensor_tier_min = None, cs_required_sensors = [],
     cs_companion_link = None, cs_actuator_family = None, cs_power_rails = None, cs_failsafe = Some
     \<lparr>fi_killswitch_source = [Kill_RxLoss], fi_rx_loss_behavior = Some Loss_PassthroughLast,
     fi_watchdog_ms = None, fi_emergency_stop_wiring = Stop_None\<rparr>, cs_chip_coverage = Some
     (bt_of_list [(Chip_Esp32C6, Cov_Preferred), (Chip_Esp32S3, Cov_Caveat), (Chip_Esp32D0wd,
     Cov_Caveat)])\<rparr>"

definition sbus_passthrough_solution_steps :: "orchestration_step list" where
 "sbus_passthrough_solution_steps = steps [(''sbus_uart_init'',
     ''Initialize SBUS UART (100000 baud, 8E2, inverted)'', []), (''passthrough'', ''Decode SBUS frame '' @
     utf8 [226, 134, 146] @ '' fan out to PWM channels (no PID, no mixing)'', [''sbus_uart_init''])]"

definition sbus_passthrough_solution_params :: "user_parameter list" where
 "sbus_passthrough_solution_params = [\<lparr>up_id = ''output_channels'', up_label = ''Output Channels'',
     up_required = True, up_secret = False, up_default_value = Some (JStr ''4''), up_enum_values = Some
     (enum_options [(''2'', ''2 ch''), (''4'', ''4 ch''), (''6'', ''6 ch''), (''8'', ''8 ch'')]),
     up_depends_on = None\<rparr>, \<lparr>up_id = ''output_type'', up_label = ''Output Type'', up_required
     = True, up_secret = False, up_default_value = Some (JStr ''servo_pwm''), up_enum_values = Some
     (enum_options [(''servo_pwm'', ''Servo PWM (1-2 ms, 50 Hz)''), (''esc_pwm'', ''ESC PWM (1-2 ms, 50'' @
     utf8 [226, 128, 147] @ ''500 Hz)'')]), up_depends_on = None\<rparr>, \<lparr>up_id = ''sbus_invert'',
     up_label = ''Invert SBUS Line'', up_required = False, up_secret = False, up_default_value = Some (JBool
     True), up_enum_values = None, up_depends_on = None\<rparr>]"

definition sbus_passthrough_solution_paths :: "solution_path list" where
 "sbus_passthrough_solution_paths = [\<lparr>sp_source = In_UartRx, sp_transforms = [Tr_UartProtocolParse,
     Tr_OneToMany], sp_sink = Out_ServoDrive, sp_feedback = [Fb_PhysicalMotion]\<rparr>]"

definition sbus_passthrough_solution :: catalog_solution where
 "sbus_passthrough_solution = \<lparr>sd_id = ''sbus_passthrough_solution'', sd_fixed_orchestration =
     sbus_passthrough_solution_steps, sd_variants = [], sd_bundle = \<lparr>cb_required = [], cb_optional =
     [''ota'']\<rparr>, sd_watchdog_ms = None, cs_label = utf8 [226, 154, 160] @ utf8 [239, 184, 143] @
     '' SBUS Passthrough (Legacy RX '' @ utf8 [226, 134, 146] @ '' PWM)'', cs_kind = Kind_FirmwareAppliance,
     cs_supported_modules = [''esp32c6_wroom1'', ''esp32c6_mini1'', ''esp32s3_wroom1'', ''esp32s3_mini1''],
     cs_fixed_inputs = [In_UartRx], cs_fixed_outputs = [Out_ServoDrive, Out_StatusLed], cs_scheduling =
     \<lparr>sc_id = ''sbus_passthrough'', sc_label = ''SBUS frame-driven passthrough'', sc_decisions =
     [''Frame-driven: PWM updates ride on SBUS frame arrival'', ''No firmware watchdog '' @ utf8 [226, 128,
     148] @ '' failsafe behaviour is whatever the SBUS receiver was configured to do'', utf8 [226, 154, 160]
     @ utf8 [239, 184, 143] @
     '' Not recommended for new builds; offered for compatibility with existing SBUS gear'']\<rparr>,
     cs_user_parameters = sbus_passthrough_solution_params, cs_feedback_paths =
     sbus_passthrough_solution_paths, cs_variants = [], cs_runtime_binding = default_runtime_binding,
     cs_external_contracts = [''SBUS (Futaba) RC protocol''], cs_network_topology = Net_PointToPoint,
     cs_domain = Some Dom_VehicleAircraftControl, cs_architecture_tier = Some Role_ReceiverDirectDrive,
     cs_communication_chains = None, cs_pin_assignments = Some receiver_direct_drive_pins,
     cs_topology_category = None, cs_family = Some Impl_Custom, cs_form_factor_families = None,
     cs_control_uplink = Some Up_Sbus, cs_video_downlink = Some Vid_None, cs_telemetry = Some Tel_None,
     cs_sensor_tier_min = None, cs_required_sensors = [], cs_companion_link = None, cs_actuator_family =
     None, cs_power_rails = Some Rail_TripleMotorServoLogic, cs_failsafe = Some \<lparr>fi_killswitch_source
     = [Kill_RxLoss], fi_rx_loss_behavior = Some Loss_PassthroughLast, fi_watchdog_ms = None,
     fi_emergency_stop_wiring = Stop_None\<rparr>, cs_chip_coverage = Some (bt_of_list [(Chip_Esp32S3,
     Cov_Preferred), (Chip_Esp32C6, Cov_Preferred), (Chip_Esp32D0wd, Cov_Caveat)])\<rparr>"

definition quad_stabilizer_solution_steps :: "orchestration_step list" where
 "quad_stabilizer_solution_steps = steps [(''crsf_rx_init'', ''Initialize CRSF UART receiver'', []),
     (''imu_calibrate'', ''Calibrate IMU (accel/gyro zero; mag if present)'', []), (''stabilizer_loop'',
     ''Stabilizer loop @ control_rate_hz: sensor '' @ utf8 [226, 134, 146] @ '' AHRS '' @ utf8 [226, 134,
     146] @ '' PID '' @ utf8 [226, 134, 146] @ '' mix '' @ utf8 [226, 134, 146] @ '' DShot'',
     [''crsf_rx_init'', ''imu_calibrate''])]"

definition quad_stabilizer_solution_params :: "user_parameter list" where
 "quad_stabilizer_solution_params = [vehicle_type_param, imu_axis_tier_param, imu_chip_param,
     control_rate_hz_param, failsafe_timeout_ms_param]"

definition quad_stabilizer_solution_paths :: "solution_path list" where
 "quad_stabilizer_solution_paths = [\<lparr>sp_source = In_UartRx, sp_transforms = [Tr_CommandDispatch,
     Tr_PidLoop, Tr_SafetyInterlock], sp_sink = Out_MotorDrive, sp_feedback = [Fb_PhysicalMotion]\<rparr>]"

definition quad_stabilizer_solution_variants :: "catalog_variant list" where
 "quad_stabilizer_solution_variants = [\<lparr>sv_id = ''pwm'', sv_add_components = [], sv_remove_components
     = [], sv_active_flag_add = [], sv_active_flag_remove = [], cv_label = ''PWM (LEDC)'', cv_required_caps
     = [], cv_parameter_defaults = [], cv_add_external_contracts = [], cv_runtime_binding_override =
     None\<rparr>, \<lparr>sv_id = ''dshot'', sv_add_components = [], sv_remove_components = [],
     sv_active_flag_add = [''USE_DSHOT''], sv_active_flag_remove = [], cv_label = ''DShot600 over RMT'',
     cv_required_caps = [], cv_parameter_defaults = [], cv_add_external_contracts =
     [''DShot600 ESC protocol over RMT''], cv_runtime_binding_override = Some
     (default_overlay\<lparr>ro_board_assembly := Some
     ''esp32s3_va_multirotor_dshot_assembly''\<rparr>)\<rparr>, \<lparr>sv_id = ''bdshot'',
     sv_add_components = [], sv_remove_components = [], sv_active_flag_add = [''USE_BDSHOT''],
     sv_active_flag_remove = [], cv_label = ''Bidirectional DShot (eRPM RX)'', cv_required_caps = [],
     cv_parameter_defaults = [], cv_add_external_contracts =
     [''Bidirectional DShot600 over RMT (TX + eRPM RX; requires BLHeli_32/AM32 ESC firmware)''],
     cv_runtime_binding_override = Some (default_overlay\<lparr>ro_board_assembly := Some
     ''esp32s3_va_multirotor_bdshot_assembly''\<rparr>)\<rparr>]"

definition quad_stabilizer_solution :: catalog_solution where
 "quad_stabilizer_solution = \<lparr>sd_id = ''quad_stabilizer_solution'', sd_fixed_orchestration =
     quad_stabilizer_solution_steps, sd_variants = map solution_variant.truncate
     quad_stabilizer_solution_variants, sd_bundle = \<lparr>cb_required = [''wifi''], cb_optional =
     [''ota'']\<rparr>, sd_watchdog_ms = Some 100, cs_label = ''Quadrotor Stabilizer'', cs_kind =
     Kind_FirmwareAppliance, cs_supported_modules = [''esp32s3_wroom1'', ''esp32s3_mini1''], cs_fixed_inputs
     = [In_UartRx, In_I2cSensor], cs_fixed_outputs = [Out_MotorDrive, Out_StatusLed], cs_scheduling =
     \<lparr>sc_id = ''stabilizer_1khz'', sc_label = ''1 kHz stabilizer loop'', sc_decisions =
     [''Stabilizer runs on a dedicated core-pinned task; no blocking syscalls in the loop'',
     ''CRSF channel-packet arrival triggers a setpoint update; the loop itself free-runs at control_rate_hz'',
     ''Low-voltage or watchdog timeout cuts motors via DShot special command'']\<rparr>, cs_user_parameters
     = quad_stabilizer_solution_params, cs_feedback_paths = quad_stabilizer_solution_paths, cs_variants =
     quad_stabilizer_solution_variants, cs_runtime_binding = (brookesia_vehicle_binding
     [''rshome_motor_control'', ''rshome_imu''])\<lparr>rb_board_assembly := Some
     ''esp32s3_va_multirotor_assembly''\<rparr>, cs_external_contracts = [''CRSF (ExpressLRS) RC protocol'',
     ''DShot ESC protocol''], cs_network_topology = Net_Star, cs_domain = Some Dom_VehicleAircraftControl,
     cs_architecture_tier = Some Role_ControlBoard, cs_communication_chains = None, cs_pin_assignments =
     Some vehicle_control_pins, cs_topology_category = None, cs_family = Some Impl_Px4,
     cs_form_factor_families = Some [Ff_QuadcopterX, Ff_QuadcopterPlus, Ff_Tricopter, Ff_Hexacopter,
     Ff_OctocopterX, Ff_OctocopterCoax], cs_control_uplink = Some Up_Crsf, cs_video_downlink = Some
     Vid_None, cs_telemetry = Some Tel_CrsfTelemetry, cs_sensor_tier_min = Some Tier_Standard9ax,
     cs_required_sensors = [], cs_companion_link = None, cs_actuator_family = Some Act_QuadMix,
     cs_power_rails = Some Rail_DualLogicMotor, cs_failsafe = Some \<lparr>fi_killswitch_source =
     [Kill_RcSwitch, Kill_RxLoss, Kill_LowVoltage], fi_rx_loss_behavior = Some Loss_MotorCutoff,
     fi_watchdog_ms = Some 100, fi_emergency_stop_wiring = Stop_EscDshotCmd\<rparr>, cs_chip_coverage = Some
     (bt_of_list [(Chip_Esp32S3, Cov_Preferred), (Chip_Esp32C6, Cov_Insufficient), (Chip_Esp32D0wd,
     Cov_Insufficient)])\<rparr>"

section \<open>All of them\<close>

definition solutions_1 :: "catalog_solution list" where
  "solutions_1 = [solution_composite_device_firmware,
     solution_camera_stream,
     solution_sensor_hub,
     phone_browser_video_solution,
     phone_rtsp_av_solution,
     direct_control_solution,
     direct_control_video_solution,
     direct_control_telemetry_solution,
     dual_mcu_car_solution,
     balance_stabilizer_solution,
     remote_control_tx_solution,
     video_board_solution,
     analog_vtx_passthrough_solution,
     receiver_direct_drive_solution,
     sbus_passthrough_solution,
     quad_stabilizer_solution]"

end
