(* ===== verification/Solutions2.thy ===== *)
theory Solutions2
  imports SolutionParts
begin

text \<open>
  The second part of the solutions that \<open>default_solution_registry\<close> registers, in the order of
  \<open>rshome-schema/src/solution.rs\<close>: one definition for each, named by its id, and one for each of
  its longer fields.
\<close>

definition fixedwing_stabilizer_solution_steps :: "orchestration_step list" where
 "fixedwing_stabilizer_solution_steps = steps [(''crsf_rx_init'', ''Initialize CRSF UART receiver'', []),
     (''imu_calibrate'', ''Calibrate IMU (accel/gyro/mag)'', []), (''stabilizer_loop'',
     ''Stabilizer @ control_rate_hz: CRSF '' @ utf8 [226, 134, 146] @ '' AHRS '' @ utf8 [226, 134, 146] @
     '' attitude PID '' @ utf8 [226, 134, 146] @ '' surface mix '' @ utf8 [226, 134, 146] @ '' PWM'',
     [''crsf_rx_init'', ''imu_calibrate'']), (''rx_loss_glide'',
     ''On RX loss: hold trim attitude (gentle bank), throttle low, until link returns'',
     [''stabilizer_loop''])]"

definition fixedwing_stabilizer_solution_params :: "user_parameter list" where
 "fixedwing_stabilizer_solution_params = [\<lparr>up_id = ''airframe_variant'', up_label =
     ''Airframe Variant'', up_required = True, up_secret = False, up_default_value = Some (JStr
     ''standard''), up_enum_values = Some (enum_options [(''standard'',
     ''Standard (aileron + elevator + rudder + throttle)''), (''vtail'',
     ''V-tail (ruddervator + aileron + throttle)''), (''flying_wing'',
     ''Flying wing (elevons + throttle)''), (''glider'',
     ''Glider (aileron + elevator [+ rudder], no throttle)'')]), up_depends_on = None\<rparr>,
     imu_axis_tier_param, imu_chip_param, control_rate_hz_param, failsafe_timeout_ms_param, \<lparr>up_id =
     ''low_voltage_cutoff_v'', up_label = ''Low-Voltage Cutoff (V)'', up_required = False, up_secret =
     False, up_default_value = Some (JStr ''3.3''), up_enum_values = Some (enum_options [(''3.0'',
     ''3.0 V/cell''), (''3.3'', ''3.3 V/cell''), (''3.5'', ''3.5 V/cell'')]), up_depends_on = None\<rparr>]"

definition fixedwing_stabilizer_solution_paths :: "solution_path list" where
 "fixedwing_stabilizer_solution_paths = [\<lparr>sp_source = In_UartRx, sp_transforms = [Tr_CommandDispatch,
     Tr_PidLoop, Tr_Mapping, Tr_SafetyInterlock], sp_sink = Out_ServoDrive, sp_feedback =
     [Fb_PhysicalMotion]\<rparr>]"

definition fixedwing_stabilizer_solution :: catalog_solution where
 "fixedwing_stabilizer_solution = \<lparr>sd_id = ''fixedwing_stabilizer_solution'', sd_fixed_orchestration
     = fixedwing_stabilizer_solution_steps, sd_variants = [], sd_bundle = \<lparr>cb_required = [],
     cb_optional = [''ota'']\<rparr>, sd_watchdog_ms = Some 250, cs_label = ''Fixed-Wing Stabilizer'',
     cs_kind = Kind_FirmwareAppliance, cs_supported_modules = [''esp32s3_wroom1'', ''esp32s3_mini1''],
     cs_fixed_inputs = [In_UartRx, In_I2cSensor], cs_fixed_outputs = [Out_ServoDrive, Out_McpwmPwm,
     Out_StatusLed], cs_scheduling = \<lparr>sc_id = ''stabilizer_500hz'', sc_label =
     ''500 Hz stabilizer loop'', sc_decisions =
     [''Stabilizer runs on a dedicated core-pinned task; no blocking syscalls in the loop'',
     ''CRSF channel-packet arrival triggers a setpoint update; the loop free-runs at control_rate_hz'',
     ''RX loss '' @ utf8 [226, 134, 146] @
     '' glide_trim (hold low-bank attitude + throttle low) until link returns or watchdog expires; then relay_cutoff'']\<rparr>,
     cs_user_parameters = fixedwing_stabilizer_solution_params, cs_feedback_paths =
     fixedwing_stabilizer_solution_paths, cs_variants = [], cs_runtime_binding = (brookesia_vehicle_binding
     [''rshome_motor_control'', ''rshome_imu'', ''rshome_failsafe'']), cs_external_contracts =
     [''CRSF (ExpressLRS) RC protocol'', ''Servo PWM (1-2 ms)''], cs_network_topology = Net_Star, cs_domain
     = Some Dom_VehicleAircraftControl, cs_architecture_tier = Some Role_ControlBoard,
     cs_communication_chains = None, cs_pin_assignments = Some vehicle_control_pins, cs_topology_category =
     None, cs_family = Some Impl_Ardupilot, cs_form_factor_families = Some [Ff_FixedwingStandard,
     Ff_FixedwingVtail, Ff_FlyingWing, Ff_Glider], cs_control_uplink = Some Up_Crsf, cs_video_downlink =
     Some Vid_None, cs_telemetry = Some Tel_CrsfTelemetry, cs_sensor_tier_min = Some Tier_Standard9ax,
     cs_required_sensors = [], cs_companion_link = None, cs_actuator_family = Some Act_FixedwingSurfaces,
     cs_power_rails = Some Rail_TripleMotorServoLogic, cs_failsafe = Some \<lparr>fi_killswitch_source =
     [Kill_RcSwitch, Kill_RxLoss, Kill_LowVoltage], fi_rx_loss_behavior = Some Loss_GlideTrim,
     fi_watchdog_ms = Some 250, fi_emergency_stop_wiring = Stop_RelayCutoff\<rparr>, cs_chip_coverage = Some
     (bt_of_list [(Chip_Esp32S3, Cov_Preferred), (Chip_Esp32C6, Cov_Insufficient), (Chip_Esp32D0wd,
     Cov_Insufficient)])\<rparr>"

definition elrs_crsf_brushed_solution_steps :: "orchestration_step list" where
 "elrs_crsf_brushed_solution_steps = steps [(''crsf_rx_init'',
     ''Initialize CRSF UART receiver at 420000 baud'', []), (''imu_calibrate'',
     ''Calibrate IMU (skipped when imu_axis_tier = none)'', []), (''control_loop'', ''CRSF decode '' @ utf8
     [226, 134, 146] @ '' diff-drive mix '' @ utf8 [226, 134, 146] @ '' H-bridge PWM'',
     [''crsf_rx_init''])]"

definition elrs_crsf_brushed_solution_params :: "user_parameter list" where
 "elrs_crsf_brushed_solution_params = [vehicle_type_param, imu_axis_tier_param, imu_chip_param,
     control_rate_hz_param, failsafe_timeout_ms_param]"

definition elrs_crsf_brushed_solution_paths :: "solution_path list" where
 "elrs_crsf_brushed_solution_paths = [\<lparr>sp_source = In_UartRx, sp_transforms = [Tr_CommandDispatch,
     Tr_SafetyInterlock], sp_sink = Out_MotorDrive, sp_feedback = [Fb_PhysicalMotion]\<rparr>]"

definition elrs_crsf_brushed_solution :: catalog_solution where
 "elrs_crsf_brushed_solution = \<lparr>sd_id = ''elrs_crsf_brushed_solution'', sd_fixed_orchestration =
     elrs_crsf_brushed_solution_steps, sd_variants = [], sd_bundle = \<lparr>cb_required = [], cb_optional =
     [''ota'']\<rparr>, sd_watchdog_ms = Some 250, cs_label = ''ELRS CRSF '' @ utf8 [226, 134, 146] @
     '' Brushed H-Bridge'', cs_kind = Kind_FirmwareAppliance, cs_supported_modules = [''esp32s3_wroom1'',
     ''esp32s3_mini1'', ''esp32c6_wroom1'', ''esp32c6_mini1''], cs_fixed_inputs = [In_UartRx, In_I2cSensor],
     cs_fixed_outputs = [Out_MotorDrive, Out_StatusLed], cs_scheduling = \<lparr>sc_id = ''crsf_mixing'',
     sc_label = ''CRSF decode + mixing loop'', sc_decisions =
     [''CRSF packet arrival event-drives the setpoint; mix runs on every packet'',
     ''RC-switch kill cuts H-bridge enable line immediately (gpio_pulldown)'']\<rparr>, cs_user_parameters =
     elrs_crsf_brushed_solution_params, cs_feedback_paths = elrs_crsf_brushed_solution_paths, cs_variants =
     [], cs_runtime_binding = (brookesia_vehicle_binding [''rshome_motor_control'',
     ''rshome_imu''])\<lparr>rb_board_assembly := Some ''esp32s3_va_elrs_crsf_assembly''\<rparr>,
     cs_external_contracts = [''CRSF (ExpressLRS) RC protocol''], cs_network_topology = Net_Star, cs_domain
     = Some Dom_VehicleAircraftControl, cs_architecture_tier = Some Role_ControlBoard,
     cs_communication_chains = None, cs_pin_assignments = Some vehicle_control_pins, cs_topology_category =
     None, cs_family = Some Impl_Betaflight, cs_form_factor_families = Some [Ff_Wheeled2wdDiff,
     Ff_Wheeled4wdDiff, Ff_Wheeled6wd, Ff_TrackedSkidsteer], cs_control_uplink = Some Up_Crsf,
     cs_video_downlink = Some Vid_None, cs_telemetry = Some Tel_CrsfTelemetry, cs_sensor_tier_min = Some
     Tier_Basic6ax, cs_required_sensors = [], cs_companion_link = None, cs_actuator_family = Some
     Act_BrushedHbridge, cs_power_rails = Some Rail_DualLogicMotor, cs_failsafe = Some
     \<lparr>fi_killswitch_source = [Kill_RcSwitch, Kill_RxLoss], fi_rx_loss_behavior = Some
     Loss_MotorCutoff, fi_watchdog_ms = Some 250, fi_emergency_stop_wiring = Stop_GpioPulldown\<rparr>,
     cs_chip_coverage = Some (bt_of_list [(Chip_Esp32S3, Cov_Preferred), (Chip_Esp32C6, Cov_Preferred),
     (Chip_Esp32D0wd, Cov_Caveat)])\<rparr>"

definition elrs_crsf_brushless_solution_steps :: "orchestration_step list" where
 "elrs_crsf_brushless_solution_steps = steps [(''crsf_rx_init'',
     ''Initialize CRSF UART receiver at 420000 baud'', []), (''imu_calibrate'',
     ''Calibrate IMU (skipped when imu_axis_tier = none)'', []), (''control_loop'', ''CRSF decode '' @ utf8
     [226, 134, 146] @ '' Ackermann mix '' @ utf8 [226, 134, 146] @ '' ESC PWM + steering servo'',
     [''crsf_rx_init''])]"

definition elrs_crsf_brushless_solution_params :: "user_parameter list" where
 "elrs_crsf_brushless_solution_params = [vehicle_type_param, imu_axis_tier_param, imu_chip_param,
     control_rate_hz_param, failsafe_timeout_ms_param, \<lparr>up_id = ''crsf_uart_rx_gpio'', up_label =
     ''CRSF UART RX GPIO'', up_required = True, up_secret = False, up_default_value = Some (JStr ''5''),
     up_enum_values = Some (enum_options [(''5'', ''GPIO 5 (default)''), (''16'', ''GPIO 16''), (''17'',
     ''GPIO 17'')]), up_depends_on = None\<rparr>, \<lparr>up_id = ''esc_protocol'', up_label =
     ''ESC Protocol'', up_required = True, up_secret = False, up_default_value = Some (JStr ''pwm''),
     up_enum_values = Some (enum_options [(''pwm'', ''Analog PWM (50-500 Hz)''), (''dshot300'',
     ''DShot300''), (''dshot600'', ''DShot600''), (''bdshot'', ''Bidirectional DShot'')]), up_depends_on =
     None\<rparr>, \<lparr>up_id = ''imu_i2c_addr'', up_label = ''IMU I'' @ utf8 [194, 178] @ ''C Address'',
     up_required = False, up_secret = False, up_default_value = Some (JStr ''0x68''), up_enum_values = Some
     (enum_options [(''0x68'', ''0x68 (AD0=GND, default)''), (''0x69'', ''0x69 (AD0=VCC)'')]), up_depends_on
     = Some \<lparr>pd_parameter_id = ''imu_axis_tier'', pd_when_value = ''6ax'', pd_when_not_value = Some
     ''none''\<rparr>\<rparr>]"

definition elrs_crsf_brushless_solution_paths :: "solution_path list" where
 "elrs_crsf_brushless_solution_paths = [\<lparr>sp_source = In_UartRx, sp_transforms = [Tr_CommandDispatch,
     Tr_SafetyInterlock], sp_sink = Out_MotorDrive, sp_feedback = [Fb_PhysicalMotion]\<rparr>]"

definition elrs_crsf_brushless_solution :: catalog_solution where
 "elrs_crsf_brushless_solution = \<lparr>sd_id = ''elrs_crsf_brushless_solution'', sd_fixed_orchestration =
     elrs_crsf_brushless_solution_steps, sd_variants = [], sd_bundle = \<lparr>cb_required = [], cb_optional
     = [''ota'']\<rparr>, sd_watchdog_ms = Some 250, cs_label = ''ELRS CRSF '' @ utf8 [226, 134, 146] @
     '' Brushless ESC'', cs_kind = Kind_FirmwareAppliance, cs_supported_modules = [''esp32s3_wroom1'',
     ''esp32s3_mini1'', ''esp32c6_wroom1'', ''esp32c6_mini1''], cs_fixed_inputs = [In_UartRx, In_I2cSensor],
     cs_fixed_outputs = [Out_MotorDrive, Out_StatusLed], cs_scheduling = \<lparr>sc_id = ''crsf_mixing'',
     sc_label = ''CRSF decode + mixing loop'', sc_decisions =
     [''ESC PWM updated every CRSF packet (~50 Hz typical)'',
     ''Low-voltage kill cuts the ESC enable relay'']\<rparr>, cs_user_parameters =
     elrs_crsf_brushless_solution_params, cs_feedback_paths = elrs_crsf_brushless_solution_paths,
     cs_variants = [], cs_runtime_binding = (brookesia_vehicle_binding [''rshome_motor_control'',
     ''rshome_imu''])\<lparr>rb_board_assembly := Some ''esp32s3_va_elrs_crsf_assembly''\<rparr>,
     cs_external_contracts = [''CRSF (ExpressLRS) RC protocol'', ''ESC PWM''], cs_network_topology =
     Net_Star, cs_domain = Some Dom_VehicleAircraftControl, cs_architecture_tier = Some Role_ControlBoard,
     cs_communication_chains = None, cs_pin_assignments = Some vehicle_control_pins, cs_topology_category =
     None, cs_family = Some Impl_Betaflight, cs_form_factor_families = Some [Ff_Wheeled4wdAckermann,
     Ff_BigfootMonsterTruck, Ff_BigfootRockCrawler, Ff_AtvOffroad, Ff_DriftRallyRacer], cs_control_uplink =
     Some Up_Crsf, cs_video_downlink = Some Vid_None, cs_telemetry = Some Tel_CrsfTelemetry,
     cs_sensor_tier_min = Some Tier_Basic6ax, cs_required_sensors = [], cs_companion_link = None,
     cs_actuator_family = Some Act_BrushlessEscPwm, cs_power_rails = Some Rail_TripleMotorServoLogic,
     cs_failsafe = Some \<lparr>fi_killswitch_source = [Kill_RcSwitch, Kill_RxLoss, Kill_LowVoltage],
     fi_rx_loss_behavior = Some Loss_MotorCutoff, fi_watchdog_ms = Some 250, fi_emergency_stop_wiring =
     Stop_RelayCutoff\<rparr>, cs_chip_coverage = Some (bt_of_list [(Chip_Esp32S3, Cov_Preferred),
     (Chip_Esp32C6, Cov_Preferred), (Chip_Esp32D0wd, Cov_Caveat)])\<rparr>"

definition elrs_crsf_dshot_solution_steps :: "orchestration_step list" where
 "elrs_crsf_dshot_solution_steps = steps [(''crsf_rx_init'',
     ''Initialize CRSF UART receiver at 420000 baud'', []), (''dshot_init'',
     ''Initialize DShot600 output on RMT peripheral'', []), (''control_loop'', ''CRSF decode '' @ utf8 [226,
     134, 146] @ '' DShot throttle commands + telemetry poll'', [''crsf_rx_init'', ''dshot_init''])]"

definition elrs_crsf_dshot_solution_params :: "user_parameter list" where
 "elrs_crsf_dshot_solution_params = [vehicle_type_param, imu_axis_tier_param, imu_chip_param,
     control_rate_hz_param, failsafe_timeout_ms_param]"

definition elrs_crsf_dshot_solution_paths :: "solution_path list" where
 "elrs_crsf_dshot_solution_paths = [\<lparr>sp_source = In_UartRx, sp_transforms = [Tr_CommandDispatch,
     Tr_SafetyInterlock], sp_sink = Out_MotorDrive, sp_feedback = [Fb_PhysicalMotion]\<rparr>]"

definition elrs_crsf_dshot_solution :: catalog_solution where
 "elrs_crsf_dshot_solution = \<lparr>sd_id = ''elrs_crsf_dshot_solution'', sd_fixed_orchestration =
     elrs_crsf_dshot_solution_steps, sd_variants = [], sd_bundle = \<lparr>cb_required = [], cb_optional =
     [''ota'']\<rparr>, sd_watchdog_ms = Some 250, cs_label = ''ELRS CRSF '' @ utf8 [226, 134, 146] @
     '' DShot ESC'', cs_kind = Kind_FirmwareAppliance, cs_supported_modules = [''esp32s3_wroom1'',
     ''esp32s3_mini1'', ''esp32c6_wroom1'', ''esp32c6_mini1''], cs_fixed_inputs = [In_UartRx, In_I2cSensor],
     cs_fixed_outputs = [Out_MotorDrive, Out_StatusLed], cs_scheduling = \<lparr>sc_id = ''crsf_dshot'',
     sc_label = ''CRSF decode + DShot output loop'', sc_decisions =
     [''DShot frame emitted every control period; telemetry polled between frames'',
     ''Emergency stop uses DShot special command 21 (motor beep/stop) instead of GPIO'']\<rparr>,
     cs_user_parameters = elrs_crsf_dshot_solution_params, cs_feedback_paths =
     elrs_crsf_dshot_solution_paths, cs_variants = [], cs_runtime_binding = (brookesia_vehicle_binding
     [''rshome_motor_control'', ''rshome_imu''])\<lparr>rb_board_assembly := Some
     ''esp32s3_va_elrs_crsf_assembly''\<rparr>, cs_external_contracts = [''CRSF (ExpressLRS) RC protocol'',
     ''DShot ESC protocol''], cs_network_topology = Net_Star, cs_domain = Some Dom_VehicleAircraftControl,
     cs_architecture_tier = Some Role_ControlBoard, cs_communication_chains = None, cs_pin_assignments =
     Some vehicle_control_pins, cs_topology_category = None, cs_family = Some Impl_Betaflight,
     cs_form_factor_families = Some [Ff_Wheeled4wdAckermann, Ff_DriftRallyRacer], cs_control_uplink = Some
     Up_Crsf, cs_video_downlink = Some Vid_None, cs_telemetry = Some Tel_DshotTelemetry, cs_sensor_tier_min
     = Some Tier_Basic6ax, cs_required_sensors = [], cs_companion_link = None, cs_actuator_family = Some
     Act_BrushlessEscDshot, cs_power_rails = Some Rail_DualLogicMotor, cs_failsafe = Some
     \<lparr>fi_killswitch_source = [Kill_RcSwitch, Kill_RxLoss, Kill_LowVoltage], fi_rx_loss_behavior =
     Some Loss_MotorCutoff, fi_watchdog_ms = Some 250, fi_emergency_stop_wiring = Stop_EscDshotCmd\<rparr>,
     cs_chip_coverage = Some (bt_of_list [(Chip_Esp32S3, Cov_Preferred), (Chip_Esp32C6, Cov_Preferred),
     (Chip_Esp32D0wd, Cov_Caveat)])\<rparr>"

definition elrs_crsf_mavlink_solution_steps :: "orchestration_step list" where
 "elrs_crsf_mavlink_solution_steps = steps [(''crsf_rx_init'',
     ''Initialize CRSF UART receiver at 420000 baud'', []), (''imu_calibrate'', ''Calibrate IMU'', []),
     (''mavlink_wifi_start'', ''Start MAVLink UDP listener on port 14550 (QGroundControl)'', []),
     (''control_loop'', ''CRSF decode '' @ utf8 [226, 134, 146] @ '' Ackermann mix '' @ utf8 [226, 134, 146]
     @ '' ESC + servo; publish MAVLink state'', [''crsf_rx_init'', ''mavlink_wifi_start''])]"

definition elrs_crsf_mavlink_solution_params :: "user_parameter list" where
 "elrs_crsf_mavlink_solution_params = [vehicle_type_param, imu_axis_tier_param, imu_chip_param,
     control_rate_hz_param, failsafe_timeout_ms_param]"

definition elrs_crsf_mavlink_solution_paths :: "solution_path list" where
 "elrs_crsf_mavlink_solution_paths = [\<lparr>sp_source = In_UartRx, sp_transforms = [Tr_CommandDispatch,
     Tr_SafetyInterlock], sp_sink = Out_MotorDrive, sp_feedback = [Fb_PhysicalMotion]\<rparr>,
     \<lparr>sp_source = In_I2cSensor, sp_transforms = [Tr_CommandDispatch], sp_sink = Out_NetworkApiState,
     sp_feedback = []\<rparr>]"

definition elrs_crsf_mavlink_solution :: catalog_solution where
 "elrs_crsf_mavlink_solution = \<lparr>sd_id = ''elrs_crsf_mavlink_solution'', sd_fixed_orchestration =
     elrs_crsf_mavlink_solution_steps, sd_variants = [], sd_bundle = \<lparr>cb_required = [''wifi''],
     cb_optional = [''ota'']\<rparr>, sd_watchdog_ms = Some 250, cs_label = ''ELRS CRSF '' @ utf8 [226, 134,
     146] @ '' MAVLink Bridge'', cs_kind = Kind_FirmwareAppliance, cs_supported_modules =
     [''esp32s3_wroom1'', ''esp32s3_mini1'', ''esp32c6_wroom1'', ''esp32c6_mini1''], cs_fixed_inputs =
     [In_UartRx, In_I2cSensor, In_WifiEvent], cs_fixed_outputs = [Out_MotorDrive, Out_StatusLed],
     cs_scheduling = \<lparr>sc_id = ''crsf_mavlink'', sc_label = ''CRSF mixing + MAVLink publish loop'',
     sc_decisions = [''Control loop runs independently of MAVLink; telemetry publishes at 10 Hz'',
     ''Rx-loss triggers RTH (ardurover-style) rather than motor cutoff'']\<rparr>, cs_user_parameters =
     elrs_crsf_mavlink_solution_params, cs_feedback_paths = elrs_crsf_mavlink_solution_paths, cs_variants =
     [], cs_runtime_binding = (brookesia_vehicle_binding [''rshome_motor_control'',
     ''rshome_imu''])\<lparr>rb_board_assembly := Some ''esp32s3_va_elrs_crsf_assembly''\<rparr>,
     cs_external_contracts = [''CRSF (ExpressLRS) RC protocol'', ''MAVLink 2 over UDP (QGroundControl)''],
     cs_network_topology = Net_Star, cs_domain = Some Dom_VehicleAircraftControl, cs_architecture_tier =
     Some Role_ControlTelemetryBoard, cs_communication_chains = None, cs_pin_assignments = Some
     vehicle_control_pins, cs_topology_category = None, cs_family = Some Impl_Ardupilot,
     cs_form_factor_families = Some [Ff_Wheeled4wdAckermann, Ff_AtvOffroad, Ff_BigfootMonsterTruck,
     Ff_AutonomousMower, Ff_SprayerSpot], cs_control_uplink = Some Up_Crsf, cs_video_downlink = Some
     Vid_None, cs_telemetry = Some Tel_MavlinkWifi, cs_sensor_tier_min = Some Tier_Standard9ax,
     cs_required_sensors = [Needs_Gps], cs_companion_link = None, cs_actuator_family = Some
     Act_BrushlessEscPwm, cs_power_rails = Some Rail_TripleMotorServoLogic, cs_failsafe = Some
     \<lparr>fi_killswitch_source = [Kill_RcSwitch, Kill_RxLoss, Kill_LowVoltage], fi_rx_loss_behavior =
     Some Loss_Rth, fi_watchdog_ms = Some 250, fi_emergency_stop_wiring = Stop_RelayCutoff\<rparr>,
     cs_chip_coverage = Some (bt_of_list [(Chip_Esp32S3, Cov_Preferred), (Chip_Esp32C6, Cov_Preferred),
     (Chip_Esp32D0wd, Cov_Caveat)])\<rparr>"

definition esp_now_tx_solution_steps :: "orchestration_step list" where
 "esp_now_tx_solution_steps = steps [(''joystick_adc_init'',
     ''Initialize joystick ADC channels + button GPIOs'', []), (''esp_now_broadcast'',
     ''Broadcast channel packet at control_rate_hz'', [''joystick_adc_init''])]"

definition esp_now_tx_solution_paths :: "solution_path list" where
 "esp_now_tx_solution_paths = [\<lparr>sp_source = In_AdcVoltage, sp_transforms = [Tr_CommandDispatch],
     sp_sink = Out_EspNowData, sp_feedback = []\<rparr>]"

definition esp_now_tx_solution :: catalog_solution where
 "esp_now_tx_solution = \<lparr>sd_id = ''esp_now_tx_solution'', sd_fixed_orchestration =
     esp_now_tx_solution_steps, sd_variants = [], sd_bundle = \<lparr>cb_required = [], cb_optional =
     [''ota'']\<rparr>, sd_watchdog_ms = None, cs_label = ''ESP-NOW TX (handheld)'', cs_kind =
     Kind_FirmwareAppliance, cs_supported_modules = [''esp32s3_wroom1'', ''esp32s3_mini1'',
     ''esp32c6_wroom1'', ''esp32c6_mini1''], cs_fixed_inputs = [In_AdcVoltage, In_ButtonGpio],
     cs_fixed_outputs = [Out_EspNowData, Out_StatusLed], cs_scheduling = \<lparr>sc_id = ''tx_broadcast'',
     sc_label = ''Joystick sample + broadcast loop'', sc_decisions =
     [''Sample ADC every control period; broadcast unconditionally'',
     ''No retransmit; receivers handle their own failsafe on link loss'']\<rparr>, cs_user_parameters =
     [control_rate_hz_param], cs_feedback_paths = esp_now_tx_solution_paths, cs_variants = [],
     cs_runtime_binding = (brookesia_vehicle_binding []), cs_external_contracts =
     [''ESP-NOW broadcast protocol''], cs_network_topology = Net_PointToPoint, cs_domain = Some
     Dom_VehicleAircraftControl, cs_architecture_tier = Some Role_RemoteControlTx, cs_communication_chains =
     None, cs_pin_assignments = Some remote_control_tx_pins, cs_topology_category = None, cs_family = Some
     Impl_Custom, cs_form_factor_families = None, cs_control_uplink = Some Up_EspNow, cs_video_downlink =
     Some Vid_None, cs_telemetry = Some Tel_None, cs_sensor_tier_min = None, cs_required_sensors = [],
     cs_companion_link = None, cs_actuator_family = None, cs_power_rails = Some Rail_SingleLogicOnly,
     cs_failsafe = None, cs_chip_coverage = Some (bt_of_list [(Chip_Esp32S3, Cov_Preferred), (Chip_Esp32C6,
     Cov_Preferred), (Chip_Esp32D0wd, Cov_Caveat)])\<rparr>"

definition elrs_tx_solution_steps :: "orchestration_step list" where
 "elrs_tx_solution_steps = steps [(''joystick_adc_init'', ''Initialize joystick ADC + switch GPIOs'', []),
     (''crsf_tx_init'', ''Initialize CRSF UART TX to radio module at 420000 baud'', []),
     (''crsf_frame_loop'',
     ''Pack sticks + switches into CRSF frame; emit at control_rate_hz; decode RX telemetry'',
     [''joystick_adc_init'', ''crsf_tx_init''])]"

definition elrs_tx_solution_paths :: "solution_path list" where
 "elrs_tx_solution_paths = [\<lparr>sp_source = In_AdcVoltage, sp_transforms = [Tr_CommandDispatch], sp_sink
     = Out_UartTx, sp_feedback = [Fb_LedIndicator]\<rparr>]"

definition elrs_tx_solution :: catalog_solution where
 "elrs_tx_solution = \<lparr>sd_id = ''elrs_tx_solution'', sd_fixed_orchestration = elrs_tx_solution_steps,
     sd_variants = [], sd_bundle = \<lparr>cb_required = [], cb_optional = [''ota'']\<rparr>, sd_watchdog_ms
     = None, cs_label = ''ELRS CRSF TX (handheld)'', cs_kind = Kind_FirmwareAppliance, cs_supported_modules
     = [''esp32s3_wroom1'', ''esp32s3_mini1'', ''esp32c6_wroom1'', ''esp32c6_mini1''], cs_fixed_inputs =
     [In_AdcVoltage, In_ButtonGpio, In_UartRx], cs_fixed_outputs = [Out_UartTx, Out_StatusLed],
     cs_scheduling = \<lparr>sc_id = ''elrs_tx_loop'', sc_label =
     ''CRSF frame emission + telemetry decode'', sc_decisions =
     [''Channel frame sent at fixed cadence (250'' @ utf8 [226, 128, 147] @ ''500 Hz typical)'',
     ''RX telemetry (RSSI / LQ / battery) displayed on status UI'']\<rparr>, cs_user_parameters =
     [control_rate_hz_param], cs_feedback_paths = elrs_tx_solution_paths, cs_variants = [],
     cs_runtime_binding = (brookesia_vehicle_binding []), cs_external_contracts =
     [''CRSF (ExpressLRS) RC protocol'', ''ExpressLRS TX firmware lineage''], cs_network_topology =
     Net_None, cs_domain = Some Dom_VehicleAircraftControl, cs_architecture_tier = Some
     Role_RemoteControlTx, cs_communication_chains = None, cs_pin_assignments = Some remote_control_tx_pins,
     cs_topology_category = None, cs_family = Some Impl_Betaflight, cs_form_factor_families = None,
     cs_control_uplink = Some Up_Crsf, cs_video_downlink = Some Vid_None, cs_telemetry = Some
     Tel_CrsfTelemetry, cs_sensor_tier_min = None, cs_required_sensors = [], cs_companion_link = None,
     cs_actuator_family = None, cs_power_rails = Some Rail_SingleLogicOnly, cs_failsafe = None,
     cs_chip_coverage = Some (bt_of_list [(Chip_Esp32S3, Cov_Preferred), (Chip_Esp32C6, Cov_Preferred),
     (Chip_Esp32D0wd, Cov_Caveat)])\<rparr>"

definition phone_bridge_solution_steps :: "orchestration_step list" where
 "phone_bridge_solution_steps = steps [(''phone_link_init'',
     ''Initialize the phone-side link (BLE GATT service or USB CDC)'', []), (''vehicle_link_init'',
     ''Initialize vehicle-side protocol (ESP-NOW / Wi-Fi Mesh / 802.11 LR / BLE Mesh)'', []),
     (''bidirectional_relay'', ''Forward phone '' @ utf8 [226, 134, 146] @
     '' vehicle commands and vehicle '' @ utf8 [226, 134, 146] @ '' phone telemetry'', [''phone_link_init'',
     ''vehicle_link_init''])]"

definition phone_bridge_solution_params :: "user_parameter list" where
 "phone_bridge_solution_params = [phone_side_link_param, vehicle_side_protocol_param,
     control_rate_hz_param]"

definition phone_bridge_solution_paths :: "solution_path list" where
 "phone_bridge_solution_paths = [\<lparr>sp_source = In_BleEvent, sp_transforms = [Tr_CommandDispatch],
     sp_sink = Out_EspNowData, sp_feedback = []\<rparr>, \<lparr>sp_source = In_EspNowData, sp_transforms =
     [Tr_CommandDispatch], sp_sink = Out_BlePacket, sp_feedback = []\<rparr>]"

definition phone_bridge_solution :: catalog_solution where
 "phone_bridge_solution = \<lparr>sd_id = ''phone_bridge_solution'', sd_fixed_orchestration =
     phone_bridge_solution_steps, sd_variants = [], sd_bundle = \<lparr>cb_required = [''wifi''],
     cb_optional = [''ota'']\<rparr>, sd_watchdog_ms = None, cs_label = ''Phone '' @ utf8 [226, 134, 148] @
     '' Vehicle Bridge'', cs_kind = Kind_ConnectivityBridge, cs_supported_modules = [''esp32s3_wroom1'',
     ''esp32s3_mini1'', ''esp32c6_wroom1'', ''esp32c6_mini1''], cs_fixed_inputs = [In_BleEvent,
     In_UsbCdcCommand, In_EspNowData, In_WifiEvent], cs_fixed_outputs = [Out_EspNowData, Out_WifiPacket,
     Out_BlePacket, Out_StatusLed], cs_scheduling = \<lparr>sc_id = ''relay_loop'', sc_label =
     ''Bidirectional relay between phone and vehicle'', sc_decisions =
     [''No state buffering; frames forwarded as they arrive'', ''Gateway is stateless '' @ utf8 [226, 128,
     148] @
     '' if phone-side or vehicle-side link drops, the other side times out via its own failsafe'']\<rparr>,
     cs_user_parameters = phone_bridge_solution_params, cs_feedback_paths = phone_bridge_solution_paths,
     cs_variants = [], cs_runtime_binding = (brookesia_vehicle_binding []), cs_external_contracts =
     [''BLE GATT service (phone app)'', ''USB CDC (tethered phone)'',
     ''ESP-NOW / Wi-Fi Mesh / 802.11 LR / BLE Mesh (vehicle side)''], cs_network_topology = Net_Mesh,
     cs_domain = Some Dom_VehicleAircraftControl, cs_architecture_tier = Some Role_SmartphoneGateway,
     cs_communication_chains = None, cs_pin_assignments = Some remote_control_tx_pins, cs_topology_category
     = None, cs_family = Some Impl_Custom, cs_form_factor_families = None, cs_control_uplink = Some
     Up_BleGatt, cs_video_downlink = Some Vid_None, cs_telemetry = Some Tel_CustomUart, cs_sensor_tier_min =
     None, cs_required_sensors = [], cs_companion_link = None, cs_actuator_family = None, cs_power_rails =
     Some Rail_SingleLogicOnly, cs_failsafe = None, cs_chip_coverage = Some (bt_of_list [(Chip_Esp32S3,
     Cov_Preferred), (Chip_Esp32C6, Cov_Preferred), (Chip_Esp32D0wd, Cov_Caveat)])\<rparr>"

definition phone_bridge_crsf_solution_steps :: "orchestration_step list" where
 "phone_bridge_crsf_solution_steps = steps [(''phone_link_init'',
     ''Initialize phone-side link (BLE GATT or USB CDC)'', []), (''crsf_uart_init'',
     ''Initialize CRSF UART TX at 420000 baud to the ELRS module'', []), (''phone_to_crsf_relay'',
     ''Phone stick input '' @ utf8 [226, 134, 146] @ '' CRSF channel packet every packet_rate_ms'',
     [''phone_link_init'', ''crsf_uart_init'']), (''crsf_telemetry_relay'',
     ''CRSF telemetry (battery / RSSI / LQ) '' @ utf8 [226, 134, 146] @ '' phone app'', [''crsf_uart_init'',
     ''phone_link_init''])]"

definition phone_bridge_crsf_solution_params :: "user_parameter list" where
 "phone_bridge_crsf_solution_params = [phone_side_link_param, \<lparr>up_id = ''crsf_uart_tx_gpio'',
     up_label = ''CRSF UART TX GPIO'', up_required = True, up_secret = False, up_default_value = Some (JStr
     ''17''), up_enum_values = Some (enum_options [(''17'', ''GPIO 17 (default)''), (''43'', ''GPIO 43''),
     (''6'', ''GPIO 6'')]), up_depends_on = None\<rparr>, \<lparr>up_id = ''packet_rate_hz'', up_label =
     ''CRSF Packet Rate (Hz)'', up_required = True, up_secret = False, up_default_value = Some (JStr
     ''500''), up_enum_values = Some (enum_options [(''50'', ''50 Hz''), (''250'', ''250 Hz''), (''500'',
     ''500 Hz (default)''), (''1000'', ''1000 Hz'')]), up_depends_on = None\<rparr>, \<lparr>up_id =
     ''failsafe_throttle'', up_label = ''Failsafe Throttle ('' @ utf8 [194, 181] @ ''s)'', up_required =
     False, up_secret = False, up_default_value = Some (JStr ''988''), up_enum_values = Some (enum_options
     [(''988'', ''988 '' @ utf8 [194, 181] @ ''s '' @ utf8 [226, 128, 148] @ '' throttle cut''), (''1500'',
     ''1500 '' @ utf8 [194, 181] @ ''s '' @ utf8 [226, 128, 148] @ '' center'')]), up_depends_on =
     None\<rparr>]"

definition phone_bridge_crsf_solution_paths :: "solution_path list" where
 "phone_bridge_crsf_solution_paths = [\<lparr>sp_source = In_BleEvent, sp_transforms = [Tr_CommandDispatch,
     Tr_Mapping], sp_sink = Out_UartTx, sp_feedback = [Fb_PhysicalMotion]\<rparr>]"

definition phone_bridge_crsf_solution :: catalog_solution where
 "phone_bridge_crsf_solution = \<lparr>sd_id = ''phone_bridge_crsf_solution'', sd_fixed_orchestration =
     phone_bridge_crsf_solution_steps, sd_variants = [], sd_bundle = \<lparr>cb_required = [], cb_optional =
     [''ota'']\<rparr>, sd_watchdog_ms = None, cs_label = ''Phone '' @ utf8 [226, 134, 148] @
     '' CRSF Bridge (ELRS)'', cs_kind = Kind_ConnectivityBridge, cs_supported_modules = [''esp32s3_wroom1'',
     ''esp32s3_mini1'', ''esp32c6_wroom1'', ''esp32c6_mini1''], cs_fixed_inputs = [In_BleEvent,
     In_UsbCdcCommand, In_UartRx], cs_fixed_outputs = [Out_UartTx, Out_BlePacket, Out_StatusLed],
     cs_scheduling = \<lparr>sc_id = ''crsf_relay_loop'', sc_label = ''Phone '' @ utf8 [226, 134, 148] @
     '' CRSF packet-rate relay'', sc_decisions =
     [''CRSF channel packets emitted at packet_rate_hz (default 500 Hz; ELRS-compatible)'',
     ''Phone-link loss '' @ utf8 [226, 134, 146] @
     '' gateway stops emitting; ELRS module drives its own failsafe'',
     ''CRSF RX telemetry (battery, RSSI, LQ) forwarded to phone opportunistically'']\<rparr>,
     cs_user_parameters = phone_bridge_crsf_solution_params, cs_feedback_paths =
     phone_bridge_crsf_solution_paths, cs_variants = [], cs_runtime_binding = (brookesia_vehicle_binding
     []), cs_external_contracts = [''BLE GATT service (phone app)'', ''USB CDC (tethered phone)'',
     ''CRSF (ExpressLRS) UART '' @ utf8 [226, 128, 148] @ '' external ELRS TX module''], cs_network_topology
     = Net_PointToPoint, cs_domain = Some Dom_VehicleAircraftControl, cs_architecture_tier = Some
     Role_SmartphoneGateway, cs_communication_chains = None, cs_pin_assignments = Some
     remote_control_tx_pins, cs_topology_category = None, cs_family = Some Impl_Betaflight,
     cs_form_factor_families = None, cs_control_uplink = Some Up_Crsf, cs_video_downlink = Some Vid_None,
     cs_telemetry = Some Tel_CrsfTelemetry, cs_sensor_tier_min = None, cs_required_sensors = [],
     cs_companion_link = None, cs_actuator_family = None, cs_power_rails = Some Rail_SingleLogicOnly,
     cs_failsafe = None, cs_chip_coverage = Some (bt_of_list [(Chip_Esp32S3, Cov_Preferred), (Chip_Esp32C6,
     Cov_Preferred), (Chip_Esp32D0wd, Cov_Caveat)])\<rparr>"

definition mcu_sbc_bridge_solution_steps :: "orchestration_step list" where
 "mcu_sbc_bridge_solution_steps = steps [(''crsf_rx_init'', ''Initialize CRSF UART RX at 420000 baud'', []),
     (''sbc_uart_bridge'', ''Forward MAVLink between SBC (Pi/Jetson) and motor driver'', []),
     (''safety_loop'', ''MCU-retained safety: rx_loss + sbc_heartbeat_loss '' @ utf8 [226, 134, 146] @
     '' motor cutoff'', [''crsf_rx_init'', ''sbc_uart_bridge''])]"

definition mcu_sbc_bridge_solution_params :: "user_parameter list" where
 "mcu_sbc_bridge_solution_params = [vehicle_type_param, imu_axis_tier_param, imu_chip_param,
     control_rate_hz_param, failsafe_timeout_ms_param]"

definition mcu_sbc_bridge_solution_paths :: "solution_path list" where
 "mcu_sbc_bridge_solution_paths = [\<lparr>sp_source = In_UartRx, sp_transforms = [Tr_CommandDispatch,
     Tr_SafetyInterlock], sp_sink = Out_MotorDrive, sp_feedback = [Fb_PhysicalMotion]\<rparr>]"

definition mcu_sbc_bridge_solution :: catalog_solution where
 "mcu_sbc_bridge_solution = \<lparr>sd_id = ''mcu_sbc_bridge_solution'', sd_fixed_orchestration =
     mcu_sbc_bridge_solution_steps, sd_variants = [], sd_bundle = \<lparr>cb_required = [], cb_optional =
     [''ota'']\<rparr>, sd_watchdog_ms = Some 500, cs_label = ''MCU '' @ utf8 [226, 134, 148] @
     '' SBC bridge'', cs_kind = Kind_FirmwareAppliance, cs_supported_modules = [''esp32s3_wroom1'',
     ''esp32s3_mini1'', ''esp32c6_wroom1'', ''esp32c6_mini1''], cs_fixed_inputs = [In_UartRx, In_I2cSensor],
     cs_fixed_outputs = [Out_MotorDrive, Out_StatusLed], cs_scheduling = \<lparr>sc_id =
     ''sbc_bridge_loop'', sc_label = ''Safety-gated SBC bridge'', sc_decisions =
     [''SBC heartbeat arrives every 100ms; missing >500ms '' @ utf8 [226, 134, 146] @ '' motor cutoff'',
     ''Control commands pass through SBC; MCU retains final kill authority'']\<rparr>, cs_user_parameters =
     mcu_sbc_bridge_solution_params, cs_feedback_paths = mcu_sbc_bridge_solution_paths, cs_variants = [],
     cs_runtime_binding = (brookesia_vehicle_binding [''rshome_motor_control'',
     ''rshome_imu''])\<lparr>rb_board_assembly := Some ''esp32s3_va_sbc_bridge_assembly''\<rparr>,
     cs_external_contracts = [''CRSF (ExpressLRS) RC protocol'', ''MAVLink 2 over UART (SBC)''],
     cs_network_topology = Net_None, cs_domain = Some Dom_VehicleAircraftControl, cs_architecture_tier =
     Some Role_ControlBoard, cs_communication_chains = None, cs_pin_assignments = Some vehicle_control_pins,
     cs_topology_category = None, cs_family = Some Impl_Custom, cs_form_factor_families = None,
     cs_control_uplink = Some Up_Crsf, cs_video_downlink = Some Vid_None, cs_telemetry = Some
     Tel_MavlinkUart, cs_sensor_tier_min = Some Tier_Basic6ax, cs_required_sensors = [], cs_companion_link =
     Some Link_Uart, cs_actuator_family = Some Act_BrushlessEscPwm, cs_power_rails = Some
     Rail_TripleMotorServoLogic, cs_failsafe = Some \<lparr>fi_killswitch_source = [Kill_RxLoss,
     Kill_SbcHeartbeatLoss], fi_rx_loss_behavior = Some Loss_MotorCutoff, fi_watchdog_ms = Some 500,
     fi_emergency_stop_wiring = Stop_GpioPulldown\<rparr>, cs_chip_coverage = Some (bt_of_list
     [(Chip_Esp32S3, Cov_Preferred), (Chip_Esp32C6, Cov_Preferred), (Chip_Esp32D0wd, Cov_Caveat)])\<rparr>"

definition video_board_sbc_companion_solution_steps :: "orchestration_step list" where
 "video_board_sbc_companion_solution_steps = steps [(''camera_init'',
     ''Initialize camera (LCD_CAM / DVP interface)'', []), (''sbc_uart_stream'',
     ''Stream raw frames to SBC for WebRTC encode'', [''camera_init''])]"

definition video_board_sbc_companion_solution_params :: "user_parameter list" where
 "video_board_sbc_companion_solution_params = [wifi_ssid_param, wifi_password_param, mavlink_udp_port_param,
     telemetry_rate_hz_param]"

definition video_board_sbc_companion_solution_paths :: "solution_path list" where
 "video_board_sbc_companion_solution_paths = [\<lparr>sp_source = In_CameraFrame, sp_transforms =
     [Tr_CommandDispatch], sp_sink = Out_UartTx, sp_feedback = []\<rparr>]"

definition video_board_sbc_companion_solution :: catalog_solution where
 "video_board_sbc_companion_solution = \<lparr>sd_id = ''video_board_sbc_companion_solution'',
     sd_fixed_orchestration = video_board_sbc_companion_solution_steps, sd_variants = [], sd_bundle =
     \<lparr>cb_required = [], cb_optional = [''ota'']\<rparr>, sd_watchdog_ms = None, cs_label =
     ''Video board + SBC (WebRTC)'', cs_kind = Kind_ConnectivityBridge, cs_supported_modules =
     [''esp32s3_wroom1'', ''esp32s3_mini1''], cs_fixed_inputs = [In_CameraFrame, In_UartRx],
     cs_fixed_outputs = [Out_UartTx, Out_StatusLed], cs_scheduling = \<lparr>sc_id = ''camera_to_sbc'',
     sc_label = ''Frame capture + UART DMA to SBC'', sc_decisions =
     [''Frames streamed raw; H.264/H.265 encode runs on the SBC'', ''No MCU-side buffer '' @ utf8 [226, 128,
     148] @ '' back-pressure handled by SBC'']\<rparr>, cs_user_parameters =
     video_board_sbc_companion_solution_params, cs_feedback_paths =
     video_board_sbc_companion_solution_paths, cs_variants = [], cs_runtime_binding =
     (brookesia_vehicle_binding [''rshome_camera'']), cs_external_contracts =
     [''UART stream to SBC encoder'', ''WebRTC (served from SBC)''], cs_network_topology = Net_None,
     cs_domain = Some Dom_VehicleAircraftControl, cs_architecture_tier = Some Role_VideoBoard,
     cs_communication_chains = None, cs_pin_assignments = Some video_board_pins, cs_topology_category =
     None, cs_family = Some Impl_Custom, cs_form_factor_families = None, cs_control_uplink = Some Up_None,
     cs_video_downlink = Some Vid_WebrtcSbc, cs_telemetry = Some Tel_MavlinkUart, cs_sensor_tier_min = None,
     cs_required_sensors = [], cs_companion_link = Some Link_Uart, cs_actuator_family = None, cs_power_rails
     = Some Rail_SingleLogicOnly, cs_failsafe = None, cs_chip_coverage = Some (bt_of_list [(Chip_Esp32S3,
     Cov_Preferred), (Chip_Esp32C6, Cov_Insufficient), (Chip_Esp32D0wd, Cov_Insufficient)])\<rparr>"

definition mavlink_groundstation_solution_steps :: "orchestration_step list" where
 "mavlink_groundstation_solution_steps = steps [(''wifi_connect'', ''Connect to home network'', []),
     (''mavlink_udp_relay'', ''UDP '' @ utf8 [226, 134, 148] @
     '' UART relay on port 14550 (QGroundControl)'', [''wifi_connect''])]"

definition mavlink_groundstation_solution_params :: "user_parameter list" where
 "mavlink_groundstation_solution_params = [wifi_ssid_param, wifi_password_param, mavlink_udp_port_param,
     telemetry_rate_hz_param]"

definition mavlink_groundstation_solution_paths :: "solution_path list" where
 "mavlink_groundstation_solution_paths = [\<lparr>sp_source = In_WifiEvent, sp_transforms =
     [Tr_CommandDispatch], sp_sink = Out_WifiPacket, sp_feedback = []\<rparr>]"

definition mavlink_groundstation_solution :: catalog_solution where
 "mavlink_groundstation_solution = \<lparr>sd_id = ''mavlink_groundstation_solution'',
     sd_fixed_orchestration = mavlink_groundstation_solution_steps, sd_variants = [], sd_bundle =
     \<lparr>cb_required = [''wifi''], cb_optional = [''ota'']\<rparr>, sd_watchdog_ms = None, cs_label =
     ''MAVLink Groundstation (QGC)'', cs_kind = Kind_ConnectivityBridge, cs_supported_modules =
     [''esp32s3_wroom1'', ''esp32s3_mini1'', ''esp32c6_wroom1'', ''esp32c6_mini1''], cs_fixed_inputs =
     [In_WifiEvent, In_UartRx], cs_fixed_outputs = [Out_WifiPacket, Out_StatusLed], cs_scheduling =
     \<lparr>sc_id = ''mavlink_relay'', sc_label = ''Bidirectional MAVLink relay'', sc_decisions =
     [''Frames forwarded with no filtering; QGC sees the fleet directly'']\<rparr>, cs_user_parameters =
     mavlink_groundstation_solution_params, cs_feedback_paths = mavlink_groundstation_solution_paths,
     cs_variants = [], cs_runtime_binding = (brookesia_vehicle_binding []), cs_external_contracts =
     [''MAVLink 2 over UDP (QGroundControl)''], cs_network_topology = Net_Star, cs_domain = Some
     Dom_VehicleAircraftControl, cs_architecture_tier = Some Role_SmartphoneGateway, cs_communication_chains
     = None, cs_pin_assignments = None, cs_topology_category = None, cs_family = Some Impl_Ardupilot,
     cs_form_factor_families = None, cs_control_uplink = Some Up_WifiMavlink, cs_video_downlink = Some
     Vid_None, cs_telemetry = Some Tel_MavlinkWifi, cs_sensor_tier_min = None, cs_required_sensors = [],
     cs_companion_link = None, cs_actuator_family = None, cs_power_rails = Some Rail_SingleLogicOnly,
     cs_failsafe = None, cs_chip_coverage = Some (bt_of_list [(Chip_Esp32S3, Cov_Preferred), (Chip_Esp32C6,
     Cov_Preferred), (Chip_Esp32D0wd, Cov_Caveat)])\<rparr>"

definition web_ui_groundstation_solution_steps :: "orchestration_step list" where
 "web_ui_groundstation_solution_steps = steps [(''wifi_connect'', ''Connect to home network'', []),
     (''signaling_relay'', ''WebRTC signaling relay to SBC-hosted UI'', [''wifi_connect''])]"

definition web_ui_groundstation_solution_params :: "user_parameter list" where
 "web_ui_groundstation_solution_params = [wifi_ssid_param, wifi_password_param, mavlink_udp_port_param,
     telemetry_rate_hz_param, webrtc_signaling_url_param]"

definition web_ui_groundstation_solution_paths :: "solution_path list" where
 "web_ui_groundstation_solution_paths = [\<lparr>sp_source = In_WifiEvent, sp_transforms =
     [Tr_CommandDispatch], sp_sink = Out_NetworkApiState, sp_feedback = []\<rparr>]"

definition web_ui_groundstation_solution :: catalog_solution where
 "web_ui_groundstation_solution = \<lparr>sd_id = ''web_ui_groundstation_solution'', sd_fixed_orchestration
     = web_ui_groundstation_solution_steps, sd_variants = [], sd_bundle = \<lparr>cb_required = [''wifi''],
     cb_optional = [''ota'']\<rparr>, sd_watchdog_ms = None, cs_label = ''Web UI Groundstation (WebRTC)'',
     cs_kind = Kind_ConnectivityBridge, cs_supported_modules = [''esp32s3_wroom1'', ''esp32s3_mini1'',
     ''esp32c6_wroom1'', ''esp32c6_mini1''], cs_fixed_inputs = [In_WifiEvent, In_UartRx], cs_fixed_outputs =
     [Out_WifiPacket, Out_NetworkApiState, Out_StatusLed], cs_scheduling = \<lparr>sc_id =
     ''webrtc_signaling'', sc_label = ''WebRTC signaling + MAVLink side-channel'', sc_decisions =
     [''Media stream served from SBC; ESP32 only handles signaling + MAVLink'']\<rparr>, cs_user_parameters
     = web_ui_groundstation_solution_params, cs_feedback_paths = web_ui_groundstation_solution_paths,
     cs_variants = [], cs_runtime_binding = (brookesia_vehicle_binding []), cs_external_contracts =
     [''WebRTC signaling (browser '' @ utf8 [226, 134, 148] @ '' SBC)'',
     ''MAVLink 2 over UART (to vehicle)''], cs_network_topology = Net_Star, cs_domain = Some
     Dom_VehicleAircraftControl, cs_architecture_tier = Some Role_SmartphoneGateway, cs_communication_chains
     = None, cs_pin_assignments = None, cs_topology_category = None, cs_family = Some Impl_Custom,
     cs_form_factor_families = None, cs_control_uplink = Some Up_WifiMavlink, cs_video_downlink = Some
     Vid_WebrtcSbc, cs_telemetry = Some Tel_MavlinkWifi, cs_sensor_tier_min = None, cs_required_sensors =
     [], cs_companion_link = None, cs_actuator_family = None, cs_power_rails = Some Rail_SingleLogicOnly,
     cs_failsafe = None, cs_chip_coverage = Some (bt_of_list [(Chip_Esp32S3, Cov_Preferred), (Chip_Esp32C6,
     Cov_Preferred), (Chip_Esp32D0wd, Cov_Caveat)])\<rparr>"

definition mecanum_control_solution_steps :: "orchestration_step list" where
 "mecanum_control_solution_steps = steps [(''esp_now_init'', ''Initialize ESP-NOW receiver'', []),
     (''imu_calibrate'', ''Calibrate IMU (yaw lock for holonomic motion)'', []), (''control_loop'',
     ''Decode (vx, vy, '' @ utf8 [207, 137] @ '') command '' @ utf8 [226, 134, 146] @
     '' mecanum/omni allocation '' @ utf8 [226, 134, 146] @ '' 3-4 wheel PWMs'', [''esp_now_init'',
     ''imu_calibrate''])]"

definition mecanum_control_solution_params :: "user_parameter list" where
 "mecanum_control_solution_params = [\<lparr>up_id = ''wheel_layout'', up_label = ''Wheel Layout'',
     up_required = True, up_secret = False, up_default_value = Some (JStr ''mecanum_4wheel''),
     up_enum_values = Some (enum_options [(''mecanum_4wheel'', ''Mecanum 4-wheel (90'' @ utf8 [194, 176] @
     '')''), (''omniwheel_3wheel'', ''Omni 3-wheel (120'' @ utf8 [194, 176] @ '')''), (''omniwheel_4wheel'',
     ''Omni 4-wheel (90'' @ utf8 [194, 176] @ '')'')]), up_depends_on = None\<rparr>, imu_axis_tier_param,
     imu_chip_param, control_rate_hz_param, failsafe_timeout_ms_param]"

definition mecanum_control_solution_paths :: "solution_path list" where
 "mecanum_control_solution_paths = [\<lparr>sp_source = In_EspNowData, sp_transforms = [Tr_CommandDispatch,
     Tr_Mapping, Tr_SafetyInterlock], sp_sink = Out_MotorDrive, sp_feedback = [Fb_PhysicalMotion]\<rparr>]"

definition mecanum_control_solution :: catalog_solution where
 "mecanum_control_solution = \<lparr>sd_id = ''mecanum_control_solution'', sd_fixed_orchestration =
     mecanum_control_solution_steps, sd_variants = [], sd_bundle = \<lparr>cb_required = [], cb_optional =
     [''ota'']\<rparr>, sd_watchdog_ms = Some 500, cs_label = ''Mecanum / Omni Holonomic Drive'', cs_kind =
     Kind_FirmwareAppliance, cs_supported_modules = [''esp32s3_wroom1'', ''esp32s3_mini1''], cs_fixed_inputs
     = [In_EspNowData, In_I2cSensor], cs_fixed_outputs = [Out_MotorDrive, Out_StatusLed], cs_scheduling =
     \<lparr>sc_id = ''holonomic_loop'', sc_label = ''200 Hz holonomic allocation loop'', sc_decisions =
     [''Allocation matrix recomputed only when wheel layout config changes (mecanum vs omni3 vs omni4)'',
     ''IMU yaw runs at 200 Hz; wheel velocity setpoints update on every ESP-NOW packet'']\<rparr>,
     cs_user_parameters = mecanum_control_solution_params, cs_feedback_paths =
     mecanum_control_solution_paths, cs_variants = [], cs_runtime_binding = (brookesia_vehicle_binding
     [''rshome_motor_control'', ''rshome_imu'', ''rshome_failsafe'']), cs_external_contracts =
     [''ESP-NOW (vx,vy,'' @ utf8 [207, 137] @ '') command frame''], cs_network_topology = Net_PointToPoint,
     cs_domain = Some Dom_VehicleAircraftControl, cs_architecture_tier = Some Role_ControlBoard,
     cs_communication_chains = None, cs_pin_assignments = Some vehicle_control_pins, cs_topology_category =
     None, cs_family = Some Impl_Custom, cs_form_factor_families = Some [Ff_Mecanum4wheel,
     Ff_Omniwheel3wheel, Ff_Omniwheel4wheel], cs_control_uplink = Some Up_EspNow, cs_video_downlink = Some
     Vid_None, cs_telemetry = Some Tel_CustomUart, cs_sensor_tier_min = Some Tier_Standard9ax,
     cs_required_sensors = [], cs_companion_link = None, cs_actuator_family = Some Act_MixedDiffDrive,
     cs_power_rails = Some Rail_DualLogicMotor, cs_failsafe = Some \<lparr>fi_killswitch_source =
     [Kill_RxLoss, Kill_TimeoutNoPacket], fi_rx_loss_behavior = Some Loss_MotorCutoff, fi_watchdog_ms = Some
     500, fi_emergency_stop_wiring = Stop_GpioPulldown\<rparr>, cs_chip_coverage = Some (bt_of_list
     [(Chip_Esp32S3, Cov_Preferred), (Chip_Esp32C6, Cov_Caveat), (Chip_Esp32D0wd,
     Cov_Insufficient)])\<rparr>"

definition marine_surface_solution_steps :: "orchestration_step list" where
 "marine_surface_solution_steps = steps [(''crsf_rx_init'', ''Initialize CRSF UART receiver'', []),
     (''mavlink_init'', ''Initialize MAVLink WiFi telemetry to ground station'', []), (''imu_gps_init'',
     ''Initialize IMU + GPS for RTH path'', []), (''control_loop'', ''CRSF '' @ utf8 [226, 134, 146] @
     '' marine mix (single rudder | twin-prop diff | sail+rudder) '' @ utf8 [226, 134, 146] @
     '' actuators'', [''crsf_rx_init'', ''imu_gps_init''])]"

definition marine_surface_solution_params :: "user_parameter list" where
 "marine_surface_solution_params = [\<lparr>up_id = ''hull_type'', up_label = ''Hull Type'', up_required =
     True, up_secret = False, up_default_value = Some (JStr ''single_rudder''), up_enum_values = Some
     (enum_options [(''single_rudder'', ''Single Rudder + Prop''), (''twin_prop_diff'',
     ''Twin Prop Differential''), (''hovercraft'', ''Hovercraft''), (''hydrofoil'', ''Hydrofoil''),
     (''sailboat'', ''Sailboat'')]), up_depends_on = None\<rparr>, imu_axis_tier_param, imu_chip_param,
     failsafe_timeout_ms_param]"

definition marine_surface_solution_paths :: "solution_path list" where
 "marine_surface_solution_paths = [\<lparr>sp_source = In_UartRx, sp_transforms = [Tr_CommandDispatch,
     Tr_Mapping, Tr_SafetyInterlock], sp_sink = Out_ServoDrive, sp_feedback = [Fb_PhysicalMotion]\<rparr>]"

definition marine_surface_solution :: catalog_solution where
 "marine_surface_solution = \<lparr>sd_id = ''marine_surface_solution'', sd_fixed_orchestration =
     marine_surface_solution_steps, sd_variants = [], sd_bundle = \<lparr>cb_required = [''wifi''],
     cb_optional = [''ota'']\<rparr>, sd_watchdog_ms = Some 1000, cs_label =
     ''Marine Surface (Boat / Hovercraft / Sailboat)'', cs_kind = Kind_FirmwareAppliance,
     cs_supported_modules = [''esp32s3_wroom1'', ''esp32s3_mini1'', ''esp32c6_wroom1''], cs_fixed_inputs =
     [In_UartRx, In_I2cSensor, In_WifiEvent], cs_fixed_outputs = [Out_ServoDrive, Out_MotorDrive,
     Out_WifiPacket], cs_scheduling = \<lparr>sc_id = ''marine_loop'', sc_label =
     ''50 Hz marine control loop'', sc_decisions = [''Slow loop (50 Hz) '' @ utf8 [226, 128, 148] @
     '' boats/hovercraft don'' @ utf8 [39] @ ''t need fast reaction'', ''RX loss '' @ utf8 [226, 134, 146] @
     '' return-to-home (RTH) using GPS heading; relay_cutoff at 1000 ms watchdog'']\<rparr>,
     cs_user_parameters = marine_surface_solution_params, cs_feedback_paths = marine_surface_solution_paths,
     cs_variants = [], cs_runtime_binding = (brookesia_vehicle_binding [''rshome_motor_control'',
     ''rshome_imu'', ''rshome_failsafe''])\<lparr>rb_board_assembly := Some
     ''esp32s3_va_marine_assembly''\<rparr>, cs_external_contracts = [''CRSF (ExpressLRS)'',
     ''MAVLink v2 over WiFi''], cs_network_topology = Net_Star, cs_domain = Some Dom_VehicleAircraftControl,
     cs_architecture_tier = Some Role_ControlBoard, cs_communication_chains = None, cs_pin_assignments =
     Some vehicle_car_pins, cs_topology_category = None, cs_family = Some Impl_Ardupilot,
     cs_form_factor_families = Some [Ff_BoatSingleRudder, Ff_BoatTwinPropDiff, Ff_Hovercraft, Ff_Hydrofoil,
     Ff_Sailboat], cs_control_uplink = Some Up_Crsf, cs_video_downlink = Some Vid_None, cs_telemetry = Some
     Tel_MavlinkWifi, cs_sensor_tier_min = Some Tier_Basic6ax, cs_required_sensors = [], cs_companion_link =
     None, cs_actuator_family = Some Act_MixedAckermann, cs_power_rails = Some Rail_TripleMotorServoLogic,
     cs_failsafe = Some \<lparr>fi_killswitch_source = [Kill_RcSwitch, Kill_RxLoss, Kill_LowVoltage],
     fi_rx_loss_behavior = Some Loss_Rth, fi_watchdog_ms = Some 1000, fi_emergency_stop_wiring =
     Stop_RelayCutoff\<rparr>, cs_chip_coverage = Some (bt_of_list [(Chip_Esp32S3, Cov_Preferred),
     (Chip_Esp32C6, Cov_Preferred), (Chip_Esp32D0wd, Cov_Caveat)])\<rparr>"

section \<open>All of them\<close>

definition solutions_2 :: "catalog_solution list" where
  "solutions_2 = [fixedwing_stabilizer_solution,
     elrs_crsf_brushed_solution,
     elrs_crsf_brushless_solution,
     elrs_crsf_dshot_solution,
     elrs_crsf_mavlink_solution,
     esp_now_tx_solution,
     elrs_tx_solution,
     phone_bridge_solution,
     phone_bridge_crsf_solution,
     mcu_sbc_bridge_solution,
     video_board_sbc_companion_solution,
     mavlink_groundstation_solution,
     web_ui_groundstation_solution,
     mecanum_control_solution,
     marine_surface_solution]"

end
