(* ===== verification/Solutions3.thy ===== *)
theory Solutions3
  imports SolutionParts
begin

text \<open>
  The third part of the solutions that \<open>default_solution_registry\<close> registers, in the order of
  \<open>rshome-schema/src/solution.rs\<close>: one definition for each, named by its id, and one for each of
  its longer fields.
\<close>

definition lta_slow_actuator_solution_steps :: "orchestration_step list" where
 "lta_slow_actuator_solution_steps = steps [(''crsf_rx_init'', ''Initialize CRSF UART receiver'', []),
     (''camera_init'', ''Initialize camera + MJPEG HTTP server'', []), (''control_loop'',
     ''Slow loop (10 Hz): CRSF '' @ utf8 [226, 134, 146] @ '' 2 thrusters + rudder servo'',
     [''crsf_rx_init''])]"

definition lta_slow_actuator_solution_params :: "user_parameter list" where
 "lta_slow_actuator_solution_params = [\<lparr>up_id = ''envelope_type'', up_label = ''Envelope Type'',
     up_required = True, up_secret = False, up_default_value = Some (JStr ''blimp''), up_enum_values = Some
     (enum_options [(''blimp'', ''Blimp (non-rigid)''), (''airship'', ''Airship (semi-rigid)'')]),
     up_depends_on = None\<rparr>, \<lparr>up_id = ''thruster_count'', up_label = ''Thruster Count'',
     up_required = False, up_secret = False, up_default_value = Some (JStr ''2''), up_enum_values = Some
     (enum_options [(''1'', ''1 (single)''), (''2'', ''2 (twin)''), (''3'', ''3 (twin + vertical)'')]),
     up_depends_on = None\<rparr>, failsafe_timeout_ms_param]"

definition lta_slow_actuator_solution_paths :: "solution_path list" where
 "lta_slow_actuator_solution_paths = [\<lparr>sp_source = In_UartRx, sp_transforms = [Tr_CommandDispatch,
     Tr_Mapping], sp_sink = Out_MotorDrive, sp_feedback = [Fb_PhysicalMotion]\<rparr>]"

definition lta_slow_actuator_solution :: catalog_solution where
 "lta_slow_actuator_solution = \<lparr>sd_id = ''lta_slow_actuator_solution'', sd_fixed_orchestration =
     lta_slow_actuator_solution_steps, sd_variants = [], sd_bundle = \<lparr>cb_required = [''wifi''],
     cb_optional = [''ota'']\<rparr>, sd_watchdog_ms = Some 1000, cs_label =
     ''LTA Blimp / Airship Controller'', cs_kind = Kind_FirmwareAppliance, cs_supported_modules =
     [''esp32s3_wroom1''], cs_fixed_inputs = [In_UartRx, In_CameraFrame], cs_fixed_outputs =
     [Out_MotorDrive, Out_ServoDrive, Out_HttpMjpegStream], cs_scheduling = \<lparr>sc_id = ''lta_slow'',
     sc_label = ''10 Hz slow control loop'', sc_decisions = [''Blimp dynamics are slow '' @ utf8 [226, 128,
     148] @ '' 10 Hz is plenty'',
     ''On RX loss: trim attitude (slow drift) for 1 s, then cut thrusters'']\<rparr>, cs_user_parameters =
     lta_slow_actuator_solution_params, cs_feedback_paths = lta_slow_actuator_solution_paths, cs_variants =
     [], cs_runtime_binding = (brookesia_vehicle_binding [''rshome_motor_control'']), cs_external_contracts
     = [''CRSF (ExpressLRS)''], cs_network_topology = Net_Star, cs_domain = Some Dom_VehicleAircraftControl,
     cs_architecture_tier = Some Role_ControlBoard, cs_communication_chains = None, cs_pin_assignments =
     Some vehicle_control_pins, cs_topology_category = None, cs_family = Some Impl_Custom,
     cs_form_factor_families = Some [Ff_LtaBlimp, Ff_LtaAirship], cs_control_uplink = Some Up_Crsf,
     cs_video_downlink = Some Vid_MjpegHttp, cs_telemetry = Some Tel_MavlinkWifi, cs_sensor_tier_min = Some
     Tier_Basic6ax, cs_required_sensors = [], cs_companion_link = None, cs_actuator_family = Some
     Act_MixedDiffDrive, cs_power_rails = Some Rail_DualLogicMotor, cs_failsafe = Some
     \<lparr>fi_killswitch_source = [Kill_RcSwitch, Kill_RxLoss], fi_rx_loss_behavior = Some Loss_GlideTrim,
     fi_watchdog_ms = Some 1000, fi_emergency_stop_wiring = Stop_None\<rparr>, cs_chip_coverage = Some
     (bt_of_list [(Chip_Esp32S3, Cov_Preferred), (Chip_Esp32C6, Cov_Insufficient), (Chip_Esp32D0wd,
     Cov_Insufficient)])\<rparr>"

definition agri_tool_dispatch_solution_steps :: "orchestration_step list" where
 "agri_tool_dispatch_solution_steps = steps [(''crsf_rx_init'', ''Initialize CRSF UART'', []),
     (''tool_safety_init'', ''Bind tool e-stop GPIO + bumper interrupt'', []), (''control_loop'', ''CRSF ''
     @ utf8 [226, 134, 146] @ '' wheeled mix + tool actuator (mower blade / pump / PTO)'',
     [''crsf_rx_init'', ''tool_safety_init''])]"

definition agri_tool_dispatch_solution_params :: "user_parameter list" where
 "agri_tool_dispatch_solution_params = [\<lparr>up_id = ''tool_kind'', up_label = ''Agricultural Tool'',
     up_required = True, up_secret = False, up_default_value = Some (JStr ''mower_blade''), up_enum_values =
     Some (enum_options [(''mower_blade'', ''Mower Blade (brushless)''), (''sprayer_pump'',
     ''Sprayer Pump + Boom Servos''), (''pto_three_point'', ''PTO + 3-Point Hitch'')]), up_depends_on =
     None\<rparr>, \<lparr>up_id = ''drive_type'', up_label = ''Drive Type'', up_required = True, up_secret
     = False, up_default_value = Some (JStr ''ackermann''), up_enum_values = Some (enum_options [(''diff'',
     ''Differential (mower)''), (''ackermann'', ''Ackermann (sprayer)''), (''tractor'',
     ''Heavy 4WD (tractor)'')]), up_depends_on = None\<rparr>, imu_axis_tier_param, imu_chip_param,
     failsafe_timeout_ms_param]"

definition agri_tool_dispatch_solution_paths :: "solution_path list" where
 "agri_tool_dispatch_solution_paths = [\<lparr>sp_source = In_UartRx, sp_transforms = [Tr_CommandDispatch,
     Tr_Mapping, Tr_SafetyInterlock], sp_sink = Out_MotorDrive, sp_feedback = [Fb_PhysicalMotion]\<rparr>]"

definition agri_tool_dispatch_solution :: catalog_solution where
 "agri_tool_dispatch_solution = \<lparr>sd_id = ''agri_tool_dispatch_solution'', sd_fixed_orchestration =
     agri_tool_dispatch_solution_steps, sd_variants = [], sd_bundle = \<lparr>cb_required = [''wifi''],
     cb_optional = [''ota'']\<rparr>, sd_watchdog_ms = Some 500, cs_label =
     ''Agricultural Tool Dispatch (Mower / Sprayer / Tractor)'', cs_kind = Kind_FirmwareAppliance,
     cs_supported_modules = [''esp32s3_wroom1'', ''esp32s3_mini1''], cs_fixed_inputs = [In_UartRx,
     In_I2cSensor, In_ButtonGpio], cs_fixed_outputs = [Out_MotorDrive, Out_ServoDrive, Out_RelayDrive],
     cs_scheduling = \<lparr>sc_id = ''agri_loop'', sc_label =
     ''100 Hz wheeled control + event-driven tool dispatch'', sc_decisions =
     [''Wheel control runs at 100 Hz; tool actuator updates only on operator command'',
     ''Bumper/e-stop interrupt cuts BOTH wheels and tool actuator'',
     ''GPS-conditioned RTH on RX loss'']\<rparr>, cs_user_parameters = agri_tool_dispatch_solution_params,
     cs_feedback_paths = agri_tool_dispatch_solution_paths, cs_variants = [], cs_runtime_binding =
     (brookesia_vehicle_binding [''rshome_motor_control'', ''rshome_imu'', ''rshome_failsafe'']),
     cs_external_contracts = [''CRSF (ExpressLRS)'', ''MAVLink v2 (optional ground station)''],
     cs_network_topology = Net_Star, cs_domain = Some Dom_VehicleAircraftControl, cs_architecture_tier =
     Some Role_ControlTelemetryBoard, cs_communication_chains = None, cs_pin_assignments = Some
     vehicle_car_pins, cs_topology_category = None, cs_family = Some Impl_Ardupilot, cs_form_factor_families
     = Some [Ff_AutonomousMower, Ff_SprayerSpot, Ff_TractorTowedImplement], cs_control_uplink = Some
     Up_Crsf, cs_video_downlink = Some Vid_None, cs_telemetry = Some Tel_MavlinkWifi, cs_sensor_tier_min =
     Some Tier_Research, cs_required_sensors = [Needs_Gps], cs_companion_link = None, cs_actuator_family =
     Some Act_MixedAckermann, cs_power_rails = Some Rail_TripleMotorServoLogic, cs_failsafe = Some
     \<lparr>fi_killswitch_source = [Kill_RcSwitch, Kill_RxLoss, Kill_EmergencyButton, Kill_LowVoltage],
     fi_rx_loss_behavior = Some Loss_Rth, fi_watchdog_ms = Some 500, fi_emergency_stop_wiring =
     Stop_RelayCutoff\<rparr>, cs_chip_coverage = Some (bt_of_list [(Chip_Esp32S3, Cov_Preferred),
     (Chip_Esp32C6, Cov_Caveat), (Chip_Esp32D0wd, Cov_Insufficient)])\<rparr>"

definition heli_stabilizer_solution_steps :: "orchestration_step list" where
 "heli_stabilizer_solution_steps = steps [(''crsf_rx_init'', ''Initialize CRSF UART receiver'', []),
     (''imu_calibrate'', ''Calibrate 9-axis IMU'', []), (''stabilizer_loop'', ''1 kHz stabilizer: CRSF '' @
     utf8 [226, 134, 146] @ '' AHRS '' @ utf8 [226, 134, 146] @ '' attitude PID '' @ utf8 [226, 134, 146] @
     '' swashplate mix '' @ utf8 [226, 134, 146] @ '' servo PWM + ESC'', [''crsf_rx_init'',
     ''imu_calibrate''])]"

definition heli_stabilizer_solution_params :: "user_parameter list" where
 "heli_stabilizer_solution_params = [\<lparr>up_id = ''rotor_config'', up_label = ''Rotor Configuration'',
     up_required = True, up_secret = False, up_default_value = Some (JStr ''single_rotor''), up_enum_values
     = Some (enum_options [(''single_rotor'', ''Single Rotor + Tail''), (''coaxial'', ''Coaxial''),
     (''tandem'', ''Tandem (Chinook)'')]), up_depends_on = None\<rparr>, \<lparr>up_id =
     ''swashplate_type'', up_label = ''Swashplate Type'', up_required = True, up_secret = False,
     up_default_value = Some (JStr ''ccpm_3servo_120''), up_enum_values = Some (enum_options
     [(''ccpm_3servo_120'', ''3-Servo CCPM (120'' @ utf8 [194, 176] @ '')''), (''ccpm_3servo_140'',
     ''3-Servo CCPM (140'' @ utf8 [194, 176] @ '')''), (''h1_mechanical'', ''H-1 Mechanical Mix'')]),
     up_depends_on = Some \<lparr>pd_parameter_id = ''rotor_config'', pd_when_value = ''single_rotor'',
     pd_when_not_value = None\<rparr>\<rparr>, imu_axis_tier_param, imu_chip_param, control_rate_hz_param,
     failsafe_timeout_ms_param]"

definition heli_stabilizer_solution_paths :: "solution_path list" where
 "heli_stabilizer_solution_paths = [\<lparr>sp_source = In_UartRx, sp_transforms = [Tr_CommandDispatch,
     Tr_PidLoop, Tr_Mapping, Tr_SafetyInterlock], sp_sink = Out_ServoDrive, sp_feedback =
     [Fb_PhysicalMotion]\<rparr>]"

definition heli_stabilizer_solution :: catalog_solution where
 "heli_stabilizer_solution = \<lparr>sd_id = ''heli_stabilizer_solution'', sd_fixed_orchestration =
     heli_stabilizer_solution_steps, sd_variants = [], sd_bundle = \<lparr>cb_required = [], cb_optional =
     [''ota'']\<rparr>, sd_watchdog_ms = Some 100, cs_label = ''Helicopter Stabilizer'', cs_kind =
     Kind_FirmwareAppliance, cs_supported_modules = [''esp32s3_wroom1'', ''esp32s3_mini1''], cs_fixed_inputs
     = [In_UartRx, In_I2cSensor], cs_fixed_outputs = [Out_ServoDrive, Out_MotorDrive, Out_StatusLed],
     cs_scheduling = \<lparr>sc_id = ''heli_1khz'', sc_label = ''1 kHz stabilizer + swashplate mix'',
     sc_decisions = [''Swashplate mix runs at 1 kHz (3-servo CCPM standard)'',
     ''Tail rotor: separate ESC for single-rotor; coax has no tail; tandem syncs both heads'',
     ''RX loss cuts main + tail ESC via DShot kill command within 100 ms'']\<rparr>, cs_user_parameters =
     heli_stabilizer_solution_params, cs_feedback_paths = heli_stabilizer_solution_paths, cs_variants = [],
     cs_runtime_binding = (brookesia_vehicle_binding [''rshome_motor_control'', ''rshome_imu'',
     ''rshome_failsafe''])\<lparr>rb_board_assembly := Some ''esp32s3_va_multirotor_assembly''\<rparr>,
     cs_external_contracts = [''CRSF (ExpressLRS)'', ''DShot ESC''], cs_network_topology = Net_Star,
     cs_domain = Some Dom_VehicleAircraftControl, cs_architecture_tier = Some Role_ControlBoard,
     cs_communication_chains = None, cs_pin_assignments = Some vehicle_control_pins, cs_topology_category =
     None, cs_family = Some Impl_Ardupilot, cs_form_factor_families = Some [Ff_HeliSingleRotor,
     Ff_HeliCoaxial, Ff_HeliTandem], cs_control_uplink = Some Up_Crsf, cs_video_downlink = Some Vid_None,
     cs_telemetry = Some Tel_CrsfTelemetry, cs_sensor_tier_min = Some Tier_Standard9ax, cs_required_sensors
     = [], cs_companion_link = None, cs_actuator_family = Some Act_HeliSwashplate, cs_power_rails = Some
     Rail_TripleMotorServoLogic, cs_failsafe = Some \<lparr>fi_killswitch_source = [Kill_RcSwitch,
     Kill_RxLoss, Kill_LowVoltage], fi_rx_loss_behavior = Some Loss_MotorCutoff, fi_watchdog_ms = Some 100,
     fi_emergency_stop_wiring = Stop_EscDshotCmd\<rparr>, cs_chip_coverage = Some (bt_of_list
     [(Chip_Esp32S3, Cov_Preferred), (Chip_Esp32C6, Cov_Insufficient), (Chip_Esp32D0wd,
     Cov_Insufficient)])\<rparr>"

definition modular_dynamic_solution_steps :: "orchestration_step list" where
 "modular_dynamic_solution_steps = steps [(''i2c_scan'', ''Scan I'' @ utf8 [194, 178] @
     ''C bus for connected cubelets (addr discovery)'', []), (''esp_now_init'',
     ''Initialize ESP-NOW receiver (control commands)'', []), (''dispatch_loop'',
     ''Dispatch commands to discovered cubelets via I'' @ utf8 [194, 178] @
     ''C; handle hot-plug periodically'', [''i2c_scan'', ''esp_now_init''])]"

definition modular_dynamic_solution_params :: "user_parameter list" where
 "modular_dynamic_solution_params = [\<lparr>up_id = ''rescan_interval_ms'', up_label =
     ''Topology Re-scan Interval (ms)'', up_required = False, up_secret = False, up_default_value = Some
     (JStr ''1000''), up_enum_values = Some (enum_options [(''500'', ''500 ms''), (''1000'', ''1 s''),
     (''5000'', ''5 s'')]), up_depends_on = None\<rparr>, \<lparr>up_id = ''i2c_baud_hz'', up_label = ''I''
     @ utf8 [194, 178] @ ''C Bus Clock (Hz)'', up_required = False, up_secret = False, up_default_value =
     Some (JStr ''100000''), up_enum_values = Some (enum_options [(''100000'', ''100 kHz (standard)''),
     (''400000'', ''400 kHz (fast)'')]), up_depends_on = None\<rparr>, failsafe_timeout_ms_param]"

definition modular_dynamic_solution_paths :: "solution_path list" where
 "modular_dynamic_solution_paths = [\<lparr>sp_source = In_EspNowData, sp_transforms = [Tr_CommandDispatch,
     Tr_OneToMany], sp_sink = Out_I2cMasterWrite, sp_feedback = [Fb_LedIndicator]\<rparr>]"

definition modular_dynamic_solution :: catalog_solution where
 "modular_dynamic_solution = \<lparr>sd_id = ''modular_dynamic_solution'', sd_fixed_orchestration =
     modular_dynamic_solution_steps, sd_variants = [], sd_bundle = \<lparr>cb_required = [], cb_optional =
     [''ota'']\<rparr>, sd_watchdog_ms = Some 500, cs_label = ''Modular Cubelets (Runtime Topology)'',
     cs_kind = Kind_FirmwareAppliance, cs_supported_modules = [''esp32c6_wroom1'', ''esp32c6_mini1'',
     ''esp32s3_wroom1''], cs_fixed_inputs = [In_I2cSensor, In_EspNowData, In_ServiceCall], cs_fixed_outputs
     = [Out_I2cMasterWrite, Out_MotorDrive], cs_scheduling = \<lparr>sc_id = ''modular_dispatch'', sc_label
     = ''Topology-driven dispatch (rescan on disconnect)'', sc_decisions =
     [''Initial scan on boot; periodic re-scan every 1 s; immediate re-scan on I'' @ utf8 [194, 178] @
     ''C NAK'', ''Each cubelet handles its own actuator; this MCU is a router, not a controller'']\<rparr>,
     cs_user_parameters = modular_dynamic_solution_params, cs_feedback_paths =
     modular_dynamic_solution_paths, cs_variants = [], cs_runtime_binding = (brookesia_vehicle_binding
     [''rshome_failsafe'']), cs_external_contracts = [''I'' @ utf8 [194, 178] @
     ''C cubelet handshake protocol (1 type byte at addr)''], cs_network_topology = Net_PointToPoint,
     cs_domain = Some Dom_VehicleAircraftControl, cs_architecture_tier = Some Role_ControlBoard,
     cs_communication_chains = None, cs_pin_assignments = Some vehicle_control_pins, cs_topology_category =
     None, cs_family = Some Impl_Custom, cs_form_factor_families = Some [Ff_ModularCubelets],
     cs_control_uplink = Some Up_EspNow, cs_video_downlink = Some Vid_None, cs_telemetry = Some
     Tel_CustomUart, cs_sensor_tier_min = Some Tier_Basic6ax, cs_required_sensors = [], cs_companion_link =
     None, cs_actuator_family = Some Act_MixedDiffDrive, cs_power_rails = Some Rail_DualLogicMotor,
     cs_failsafe = Some \<lparr>fi_killswitch_source = [Kill_RxLoss, Kill_TimeoutNoPacket],
     fi_rx_loss_behavior = Some Loss_MotorCutoff, fi_watchdog_ms = Some 500, fi_emergency_stop_wiring =
     Stop_GpioPulldown\<rparr>, cs_chip_coverage = Some (bt_of_list [(Chip_Esp32S3, Cov_Preferred),
     (Chip_Esp32C6, Cov_Preferred), (Chip_Esp32D0wd, Cov_Caveat)])\<rparr>"

definition hopping_ballistic_solution_steps :: "orchestration_step list" where
 "hopping_ballistic_solution_steps = steps [(''imu_baro_calibrate'',
     ''Calibrate IMU + barometer (advanced_10ax)'', []), (''spring_arm'',
     ''Wind torsion spring; latch in armed state'', []), (''release_loop'', ''On command: release latch '' @
     utf8 [226, 134, 146] @ '' ballistic phase '' @ utf8 [226, 134, 146] @ '' mid-air orientation hold '' @
     utf8 [226, 134, 146] @ '' landing recovery'', [''imu_baro_calibrate'', ''spring_arm''])]"

definition hopping_ballistic_solution_params :: "user_parameter list" where
 "hopping_ballistic_solution_params = [\<lparr>up_id = ''launch_mechanism'', up_label =
     ''Launch Mechanism'', up_required = True, up_secret = False, up_default_value = Some (JStr
     ''torsion_spring''), up_enum_values = Some (enum_options [(''compressed_spring'',
     ''Compressed Spring + Latch''), (''torsion_spring'', ''Motor-Wound Torsion Spring'')]), up_depends_on =
     None\<rparr>, \<lparr>up_id = ''imu_loop_hz'', up_label = ''Ballistic IMU Loop Rate (Hz)'', up_required
     = False, up_secret = False, up_default_value = Some (JStr ''1000''), up_enum_values = Some
     (enum_options [(''500'', ''500 Hz''), (''1000'', ''1 kHz'')]), up_depends_on = None\<rparr>,
     failsafe_timeout_ms_param]"

definition hopping_ballistic_solution_paths :: "solution_path list" where
 "hopping_ballistic_solution_paths = [\<lparr>sp_source = In_I2cSensor, sp_transforms = [Tr_Filter,
     Tr_StateMachine, Tr_PidLoop], sp_sink = Out_ServoDrive, sp_feedback = [Fb_PhysicalMotion]\<rparr>]"

definition hopping_ballistic_solution :: catalog_solution where
 "hopping_ballistic_solution = \<lparr>sd_id = ''hopping_ballistic_solution'', sd_fixed_orchestration =
     hopping_ballistic_solution_steps, sd_variants = [], sd_bundle = \<lparr>cb_required = [], cb_optional =
     [''ota'']\<rparr>, sd_watchdog_ms = Some 250, cs_label =
     ''Hopping / Jumping Robot (Ballistic Recovery)'', cs_kind = Kind_FirmwareAppliance,
     cs_supported_modules = [''esp32s3_wroom1'', ''esp32s3_mini1''], cs_fixed_inputs = [In_I2cSensor,
     In_EspNowData], cs_fixed_outputs = [Out_ServoDrive, Out_MotorDrive, Out_StatusLed], cs_scheduling =
     \<lparr>sc_id = ''hopping_state_machine'', sc_label =
     ''Hopping state machine (1 kHz IMU during ballistic)'', sc_decisions =
     [''Pre-jump: idle, wait for command'', ''Ballistic: 1 kHz IMU + tail/leg attitude correction'',
     ''Landing: detect via baro + accel impulse; cut motors briefly to absorb'',
     ''Recovered: re-arm spring on operator request'']\<rparr>, cs_user_parameters =
     hopping_ballistic_solution_params, cs_feedback_paths = hopping_ballistic_solution_paths, cs_variants =
     [], cs_runtime_binding = (brookesia_vehicle_binding [''rshome_motor_control'', ''rshome_imu'',
     ''rshome_failsafe''])\<lparr>rb_board_assembly := Some ''esp32s3_va_multirotor_assembly''\<rparr>,
     cs_external_contracts = [''ESP-NOW launch command''], cs_network_topology = Net_PointToPoint, cs_domain
     = Some Dom_VehicleAircraftControl, cs_architecture_tier = Some Role_ControlBoard,
     cs_communication_chains = None, cs_pin_assignments = Some vehicle_control_pins, cs_topology_category =
     None, cs_family = Some Impl_Custom, cs_form_factor_families = Some [Ff_JumpingRobot, Ff_Grasshopper],
     cs_control_uplink = Some Up_EspNow, cs_video_downlink = Some Vid_None, cs_telemetry = Some
     Tel_CustomUart, cs_sensor_tier_min = Some Tier_Advanced10ax, cs_required_sensors = [],
     cs_companion_link = None, cs_actuator_family = Some Act_SteeringServo, cs_power_rails = Some
     Rail_DualLogicMotor, cs_failsafe = Some \<lparr>fi_killswitch_source = [Kill_RxLoss,
     Kill_TimeoutNoPacket, Kill_EmergencyButton], fi_rx_loss_behavior = Some Loss_MotorCutoff,
     fi_watchdog_ms = Some 250, fi_emergency_stop_wiring = Stop_GpioPulldown\<rparr>, cs_chip_coverage =
     Some (bt_of_list [(Chip_Esp32S3, Cov_Preferred), (Chip_Esp32C6, Cov_Caveat), (Chip_Esp32D0wd,
     Cov_Insufficient)])\<rparr>"

definition amphibious_transition_solution_steps :: "orchestration_step list" where
 "amphibious_transition_solution_steps = steps [(''crsf_rx_init'', ''Initialize CRSF UART receiver'', []),
     (''water_sensor_init'', ''Initialize water-contact sensor (resistive or capacitive)'', []),
     (''control_loop'', ''Auto-switch on water detection: wheeled (Ackermann/diff) '' @ utf8 [226, 134, 148]
     @ '' marine (twin-prop) mix'', [''crsf_rx_init'', ''water_sensor_init''])]"

definition amphibious_transition_solution_params :: "user_parameter list" where
 "amphibious_transition_solution_params = [\<lparr>up_id = ''land_drive_type'', up_label =
     ''Land Drive Type'', up_required = True, up_secret = False, up_default_value = Some (JStr
     ''ackermann''), up_enum_values = Some (enum_options [(''diff'', ''4WD Differential''), (''ackermann'',
     ''Ackermann'')]), up_depends_on = None\<rparr>, \<lparr>up_id = ''water_sensor_threshold'', up_label =
     ''Water Sensor Threshold'', up_required = False, up_secret = False, up_default_value = Some (JStr
     ''2048''), up_enum_values = None, up_depends_on = None\<rparr>, imu_axis_tier_param, imu_chip_param,
     failsafe_timeout_ms_param]"

definition amphibious_transition_solution_paths :: "solution_path list" where
 "amphibious_transition_solution_paths = [\<lparr>sp_source = In_UartRx, sp_transforms =
     [Tr_CommandDispatch, Tr_StateMachine, Tr_Mapping, Tr_SafetyInterlock], sp_sink = Out_MotorDrive,
     sp_feedback = [Fb_PhysicalMotion]\<rparr>]"

definition amphibious_transition_solution :: catalog_solution where
 "amphibious_transition_solution = \<lparr>sd_id = ''amphibious_transition_solution'',
     sd_fixed_orchestration = amphibious_transition_solution_steps, sd_variants = [], sd_bundle =
     \<lparr>cb_required = [], cb_optional = [''ota'']\<rparr>, sd_watchdog_ms = Some 500, cs_label =
     ''Amphibious (Wheels + Props, Dual-Mode)'', cs_kind = Kind_FirmwareAppliance, cs_supported_modules =
     [''esp32s3_wroom1'', ''esp32s3_mini1''], cs_fixed_inputs = [In_UartRx, In_I2cSensor, In_AdcVoltage],
     cs_fixed_outputs = [Out_MotorDrive, Out_ServoDrive, Out_StatusLed], cs_scheduling = \<lparr>sc_id =
     ''amphibious_dual_mode'', sc_label = ''Dual-mode auto-switching'', sc_decisions =
     [''Land mode: wheels active, props off'', ''Water mode: props active, wheels off'',
     ''Transition: 500 ms hysteresis on water sensor to avoid mode chatter'']\<rparr>, cs_user_parameters =
     amphibious_transition_solution_params, cs_feedback_paths = amphibious_transition_solution_paths,
     cs_variants = [], cs_runtime_binding = (brookesia_vehicle_binding [''rshome_motor_control'',
     ''rshome_imu'', ''rshome_failsafe''])\<lparr>rb_board_assembly := Some
     ''esp32s3_va_marine_assembly''\<rparr>, cs_external_contracts = [''CRSF (ExpressLRS)''],
     cs_network_topology = Net_Star, cs_domain = Some Dom_VehicleAircraftControl, cs_architecture_tier =
     Some Role_ControlBoard, cs_communication_chains = None, cs_pin_assignments = Some vehicle_car_pins,
     cs_topology_category = None, cs_family = Some Impl_Ardupilot, cs_form_factor_families = Some
     [Ff_AmphibiousWheelsPlusProp], cs_control_uplink = Some Up_Crsf, cs_video_downlink = Some Vid_None,
     cs_telemetry = Some Tel_MavlinkWifi, cs_sensor_tier_min = Some Tier_Standard9ax, cs_required_sensors =
     [Needs_WaterContact], cs_companion_link = None, cs_actuator_family = Some Act_MixedAckermann,
     cs_power_rails = Some Rail_TripleMotorServoLogic, cs_failsafe = Some \<lparr>fi_killswitch_source =
     [Kill_RcSwitch, Kill_RxLoss, Kill_LowVoltage], fi_rx_loss_behavior = Some Loss_MotorCutoff,
     fi_watchdog_ms = Some 500, fi_emergency_stop_wiring = Stop_RelayCutoff\<rparr>, cs_chip_coverage = Some
     (bt_of_list [(Chip_Esp32S3, Cov_Preferred), (Chip_Esp32C6, Cov_Caveat), (Chip_Esp32D0wd,
     Cov_Insufficient)])\<rparr>"

definition vtol_transition_solution_steps :: "orchestration_step list" where
 "vtol_transition_solution_steps = steps [(''crsf_rx_init'', ''Initialize CRSF UART receiver'', []),
     (''imu_baro_calibrate'', ''Calibrate 10-axis IMU + barometer (transition phase needs altitude)'', []),
     (''transition_sm'', ''Transition state machine: HOVER '' @ utf8 [226, 134, 148] @ '' TRANSITION '' @
     utf8 [226, 134, 148] @ '' FORWARD; mix dispatched per state'', [''crsf_rx_init'',
     ''imu_baro_calibrate''])]"

definition vtol_transition_solution_params :: "user_parameter list" where
 "vtol_transition_solution_params = [\<lparr>up_id = ''vtol_type'', up_label = ''VTOL Type'', up_required =
     True, up_secret = False, up_default_value = Some (JStr ''tailsitter''), up_enum_values = Some
     (enum_options [(''tailsitter'', ''Tail-sitter''), (''tiltrotor'', ''Tilt-rotor''), (''quadplane'',
     ''Quadplane''), (''bicopter'', ''Bicopter'')]), up_depends_on = None\<rparr>, imu_axis_tier_param,
     imu_chip_param, control_rate_hz_param, failsafe_timeout_ms_param]"

definition vtol_transition_solution_paths :: "solution_path list" where
 "vtol_transition_solution_paths = [\<lparr>sp_source = In_UartRx, sp_transforms = [Tr_CommandDispatch,
     Tr_StateMachine, Tr_PidLoop, Tr_Mapping, Tr_SafetyInterlock], sp_sink = Out_ServoDrive, sp_feedback =
     [Fb_PhysicalMotion]\<rparr>]"

definition vtol_transition_solution :: catalog_solution where
 "vtol_transition_solution = \<lparr>sd_id = ''vtol_transition_solution'', sd_fixed_orchestration =
     vtol_transition_solution_steps, sd_variants = [], sd_bundle = \<lparr>cb_required = [''wifi''],
     cb_optional = [''ota'']\<rparr>, sd_watchdog_ms = Some 100, cs_label =
     ''VTOL Transition (Tail-sitter / Tilt-rotor / Quadplane / Bicopter)'', cs_kind =
     Kind_FirmwareAppliance, cs_supported_modules = [''esp32s3_wroom1'', ''esp32s3_mini1''], cs_fixed_inputs
     = [In_UartRx, In_I2cSensor, In_WifiEvent], cs_fixed_outputs = [Out_ServoDrive, Out_MotorDrive,
     Out_WifiPacket], cs_scheduling = \<lparr>sc_id = ''vtol_1khz'', sc_label =
     ''1 kHz VTOL transition mix'', sc_decisions =
     [''Stabilizer + transition mix at 1 kHz on core 1; MAVLink telemetry on core 0'', ''RX loss in HOVER ''
     @ utf8 [226, 134, 146] @ '' motor_cutoff. RX loss in FORWARD '' @ utf8 [226, 134, 146] @
     '' glide_trim until link returns or watchdog'',
     ''Transition direction inferred from airspeed + commanded tilt'']\<rparr>, cs_user_parameters =
     vtol_transition_solution_params, cs_feedback_paths = vtol_transition_solution_paths, cs_variants = [],
     cs_runtime_binding = (brookesia_vehicle_binding [''rshome_motor_control'', ''rshome_imu'',
     ''rshome_failsafe''])\<lparr>rb_board_assembly := Some ''esp32s3_va_multirotor_assembly''\<rparr>,
     cs_external_contracts = [''CRSF (ExpressLRS)'', ''MAVLink v2 over WiFi'', ''DShot ESC''],
     cs_network_topology = Net_Star, cs_domain = Some Dom_VehicleAircraftControl, cs_architecture_tier =
     Some Role_ControlBoard, cs_communication_chains = None, cs_pin_assignments = Some vehicle_control_pins,
     cs_topology_category = None, cs_family = Some Impl_Px4, cs_form_factor_families = Some
     [Ff_VtolTailsitter, Ff_VtolTiltrotor, Ff_VtolQuadplane, Ff_VtolBicopter], cs_control_uplink = Some
     Up_Crsf, cs_video_downlink = Some Vid_None, cs_telemetry = Some Tel_MavlinkWifi, cs_sensor_tier_min =
     Some Tier_Advanced10ax, cs_required_sensors = [], cs_companion_link = None, cs_actuator_family = Some
     Act_VtolTransition, cs_power_rails = Some Rail_TripleMotorServoLogic, cs_failsafe = Some
     \<lparr>fi_killswitch_source = [Kill_RcSwitch, Kill_RxLoss, Kill_LowVoltage], fi_rx_loss_behavior =
     Some Loss_HoverHold, fi_watchdog_ms = Some 100, fi_emergency_stop_wiring = Stop_EscDshotCmd\<rparr>,
     cs_chip_coverage = Some (bt_of_list [(Chip_Esp32S3, Cov_Preferred), (Chip_Esp32C6, Cov_Insufficient),
     (Chip_Esp32D0wd, Cov_Insufficient)])\<rparr>"

definition rov_thruster_allocation_solution_steps :: "orchestration_step list" where
 "rov_thruster_allocation_solution_steps = steps [(''wifi_mavlink_init'',
     ''Initialize tethered WiFi + MAVLink server'', []), (''imu_depth_init'',
     ''Initialize IMU + depth/pressure sensor'', []), (''sbc_uart_init'',
     ''Initialize UART link to SBC companion (MAVLink uart for video pipeline)'', []), (''thruster_loop'',
     ''MAVLink '' @ utf8 [226, 134, 146] @ '' 6-DOF setpoint '' @ utf8 [226, 134, 146] @
     '' thruster allocation matrix '' @ utf8 [226, 134, 146] @ '' ESCs'', [''wifi_mavlink_init'',
     ''imu_depth_init''])]"

definition rov_thruster_allocation_solution_params :: "user_parameter list" where
 "rov_thruster_allocation_solution_params = [\<lparr>up_id = ''thruster_layout'', up_label =
     ''Thruster Layout'', up_required = True, up_secret = False, up_default_value = Some (JStr
     ''rov_4thruster''), up_enum_values = Some (enum_options [(''rov_4thruster'',
     ''ROV 4-thruster (forward + vertical pair)''), (''rov_6thruster'', ''ROV 6-thruster (vectored)''),
     (''auv_torpedo'', ''AUV Torpedo (1 prop + control fins)'')]), up_depends_on = None\<rparr>,
     imu_axis_tier_param, imu_chip_param, failsafe_timeout_ms_param]"

definition rov_thruster_allocation_solution_paths :: "solution_path list" where
 "rov_thruster_allocation_solution_paths = [\<lparr>sp_source = In_WifiEvent, sp_transforms =
     [Tr_CommandDispatch, Tr_Mapping, Tr_SafetyInterlock], sp_sink = Out_MotorDrive, sp_feedback =
     [Fb_PhysicalMotion]\<rparr>]"

definition rov_thruster_allocation_solution :: catalog_solution where
 "rov_thruster_allocation_solution = \<lparr>sd_id = ''rov_thruster_allocation_solution'',
     sd_fixed_orchestration = rov_thruster_allocation_solution_steps, sd_variants = [], sd_bundle =
     \<lparr>cb_required = [''wifi''], cb_optional = [''ota'']\<rparr>, sd_watchdog_ms = Some 500, cs_label
     = ''ROV Thruster Allocation (Submerged 4/6 thruster)'', cs_kind = Kind_FirmwareAppliance,
     cs_supported_modules = [''esp32s3_wroom1'', ''esp32s3_mini1''], cs_fixed_inputs = [In_WifiEvent,
     In_I2cSensor, In_UartRx], cs_fixed_outputs = [Out_MotorDrive, Out_UartTx, Out_WifiPacket],
     cs_scheduling = \<lparr>sc_id = ''rov_holonomic'', sc_label = ''200 Hz 6-DOF allocation loop'',
     sc_decisions = [''Allocation matrix recomputed only when thruster_count config changes'',
     ''SBC heartbeat loss '' @ utf8 [226, 134, 146] @ '' unpowered (drift) '' @ utf8 [226, 128, 148] @
     '' surface team retrieves via tether'',
     ''Low voltage cuts thrusters but not telemetry tether'']\<rparr>, cs_user_parameters =
     rov_thruster_allocation_solution_params, cs_feedback_paths = rov_thruster_allocation_solution_paths,
     cs_variants = [], cs_runtime_binding = (brookesia_vehicle_binding [''rshome_motor_control'',
     ''rshome_imu'', ''rshome_failsafe'', ''rshome_interboard''])\<lparr>rb_board_assembly := Some
     ''esp32s3_va_sbc_bridge_assembly''\<rparr>, cs_external_contracts = [''MAVLink v2 over WiFi (tether)'',
     ''MAVLink uart to SBC'', ''WebRTC video from SBC (out-of-band)''], cs_network_topology = Net_Star,
     cs_domain = Some Dom_VehicleAircraftControl, cs_architecture_tier = Some Role_ControlBoard,
     cs_communication_chains = None, cs_pin_assignments = Some dual_mcu_control_board_pins,
     cs_topology_category = None, cs_family = Some Impl_Ardupilot, cs_form_factor_families = Some
     [Ff_Rov4thruster, Ff_Rov6thruster, Ff_AuvTorpedo], cs_control_uplink = Some Up_WifiMavlink,
     cs_video_downlink = Some Vid_WebrtcSbc, cs_telemetry = Some Tel_MavlinkUart, cs_sensor_tier_min = Some
     Tier_Standard9ax, cs_required_sensors = [Needs_Depth], cs_companion_link = Some Link_Uart,
     cs_actuator_family = Some Act_ThrusterVector, cs_power_rails = Some Rail_TripleMotorServoLogic,
     cs_failsafe = Some \<lparr>fi_killswitch_source = [Kill_SbcHeartbeatLoss, Kill_TimeoutNoPacket,
     Kill_LowVoltage], fi_rx_loss_behavior = Some Loss_Unpowered, fi_watchdog_ms = Some 500,
     fi_emergency_stop_wiring = Stop_RelayCutoff\<rparr>, cs_chip_coverage = Some (bt_of_list
     [(Chip_Esp32S3, Cov_Preferred), (Chip_Esp32C6, Cov_Insufficient), (Chip_Esp32D0wd,
     Cov_Insufficient)])\<rparr>"

definition legged_controller_solution_steps :: "orchestration_step list" where
 "legged_controller_solution_steps = steps [(''sbc_uart_init'',
     ''Initialize UART link to SBC (joint targets in, sensor states out)'', []), (''servo_bus_init'',
     ''Initialize servo bus (Dynamixel / Robotis / custom serial)'', []), (''imu_calibrate'',
     ''Calibrate body-frame IMU'', []), (''servo_loop'',
     ''200 Hz servo loop: SBC sends joint targets via UART '' @ utf8 [226, 134, 146] @
     '' MCU drives servos with deadline + failsafe'', [''sbc_uart_init'', ''servo_bus_init'',
     ''imu_calibrate''])]"

definition legged_controller_solution_params :: "user_parameter list" where
 "legged_controller_solution_params = [\<lparr>up_id = ''leg_count'', up_label = ''Leg Count'', up_required
     = True, up_secret = False, up_default_value = Some (JStr ''quadruped''), up_enum_values = Some
     (enum_options [(''biped'', ''Biped (2)''), (''quadruped'', ''Quadruped (4)''), (''hexapod'',
     ''Hexapod (6)''), (''octopod'', ''Octopod (8)'')]), up_depends_on = None\<rparr>, \<lparr>up_id =
     ''servo_bus'', up_label = ''Servo Bus'', up_required = True, up_secret = False, up_default_value = Some
     (JStr ''dynamixel''), up_enum_values = Some (enum_options [(''dynamixel'', ''Dynamixel TTL''),
     (''lx_lewansoul'', ''LX (LewanSoul/Hiwonder)''), (''pwm_bank'', ''PWM bank (12-24 ch)'')]),
     up_depends_on = None\<rparr>, imu_axis_tier_param, imu_chip_param, failsafe_timeout_ms_param]"

definition legged_controller_solution_paths :: "solution_path list" where
 "legged_controller_solution_paths = [\<lparr>sp_source = In_UartRx, sp_transforms = [Tr_UartProtocolParse,
     Tr_OneToMany, Tr_SafetyInterlock], sp_sink = Out_ServoDrive, sp_feedback =
     [Fb_PhysicalMotion]\<rparr>]"

definition legged_controller_solution :: catalog_solution where
 "legged_controller_solution = \<lparr>sd_id = ''legged_controller_solution'', sd_fixed_orchestration =
     legged_controller_solution_steps, sd_variants = [], sd_bundle = \<lparr>cb_required = [], cb_optional =
     [''ota'']\<rparr>, sd_watchdog_ms = Some 250, cs_label =
     ''Legged Robot Controller (MCU servo bus + SBC IK)'', cs_kind = Kind_FirmwareAppliance,
     cs_supported_modules = [''esp32s3_wroom1'', ''esp32s3_mini1''], cs_fixed_inputs = [In_UartRx,
     In_I2cSensor, In_ButtonGpio], cs_fixed_outputs = [Out_ServoDrive, Out_UartTx], cs_scheduling =
     \<lparr>sc_id = ''legged_servo_bus'', sc_label =
     ''200 Hz servo bus loop, SBC at higher-level cadence'', sc_decisions =
     [''MCU runs only the servo bus + failsafe; no kinematics'', ''SBC heartbeat loss within 250 ms '' @
     utf8 [226, 134, 146] @ '' cut servo power (unpowered)'',
     ''Emergency button is wired to the same GPIO that releases servo power'']\<rparr>, cs_user_parameters =
     legged_controller_solution_params, cs_feedback_paths = legged_controller_solution_paths, cs_variants =
     [], cs_runtime_binding = (brookesia_vehicle_binding [''rshome_motor_control'', ''rshome_imu'',
     ''rshome_failsafe'', ''rshome_interboard''])\<lparr>rb_board_assembly := Some
     ''esp32s3_va_sbc_bridge_assembly''\<rparr>, cs_external_contracts =
     [''UART joint-target protocol (SBC '' @ utf8 [226, 134, 146] @ '' MCU, 16-bit positions per joint)'',
     ''Dynamixel/LX/PWM servo bus''], cs_network_topology = Net_PointToPoint, cs_domain = Some
     Dom_VehicleAircraftControl, cs_architecture_tier = Some Role_ControlBoard, cs_communication_chains =
     None, cs_pin_assignments = Some dual_mcu_control_board_pins, cs_topology_category = None, cs_family =
     Some Impl_Custom, cs_form_factor_families = Some [Ff_BipedHumanoid, Ff_Quadruped, Ff_Hexapod,
     Ff_Octopod], cs_control_uplink = Some Up_WifiMavlink, cs_video_downlink = Some Vid_WebrtcSbc,
     cs_telemetry = Some Tel_MavlinkUart, cs_sensor_tier_min = Some Tier_Standard9ax, cs_required_sensors =
     [Needs_JointEncoder], cs_companion_link = Some Link_Uart, cs_actuator_family = Some Act_SteeringServo,
     cs_power_rails = Some Rail_TripleMotorServoLogic, cs_failsafe = Some \<lparr>fi_killswitch_source =
     [Kill_SbcHeartbeatLoss, Kill_EmergencyButton], fi_rx_loss_behavior = Some Loss_Unpowered,
     fi_watchdog_ms = Some 250, fi_emergency_stop_wiring = Stop_RelayCutoff\<rparr>, cs_chip_coverage = Some
     (bt_of_list [(Chip_Esp32S3, Cov_Preferred), (Chip_Esp32C6, Cov_Caveat), (Chip_Esp32D0wd,
     Cov_Insufficient)])\<rparr>"

definition articulated_sequencer_solution_steps :: "orchestration_step list" where
 "articulated_sequencer_solution_steps = steps [(''wifi_mavlink_init'',
     ''Initialize WiFi + MAVLink for ground-station coordination'', []), (''joint_bus_init'',
     ''Initialize per-joint actuator bus (servo / hydraulic valve / pneumatic chamber)'', []),
     (''sequencer_loop'', ''Sequenced joint update at 100 Hz with phase-locked timing per segment'',
     [''wifi_mavlink_init'', ''joint_bus_init''])]"

definition articulated_sequencer_solution_params :: "user_parameter list" where
 "articulated_sequencer_solution_params = [\<lparr>up_id = ''articulation_kind'', up_label =
     ''Articulated Platform'', up_required = True, up_secret = False, up_default_value = Some (JStr
     ''snake''), up_enum_values = Some (enum_options [(''snake'', ''Snake (modular segments)''), (''worm'',
     ''Worm (peristaltic)''), (''rolling_ball'', ''Rolling Ball (mass-shift)''), (''excavator'',
     ''Excavator Arm (4+ joints)''), (''crane'', ''Crane (slewing + luff + hoist)''), (''loader'',
     ''Skid-Steer Loader (bucket tilt/lift)''), (''soft_gripper'', ''Soft Gripper (pneumatic)''),
     (''tentacle'', ''Tentacle Arm (cable-driven)'')]), up_depends_on = None\<rparr>, \<lparr>up_id =
     ''joint_count'', up_label = ''Joint Count'', up_required = True, up_secret = False, up_default_value =
     Some (JStr ''8''), up_enum_values = Some (enum_options [(''3'', ''3 (crane base)''), (''4'',
     ''4 (excavator base)''), (''8'', ''8 (snake / worm)''), (''16'', ''16 (long snake / continuum)'')]),
     up_depends_on = None\<rparr>, failsafe_timeout_ms_param]"

definition articulated_sequencer_solution_paths :: "solution_path list" where
 "articulated_sequencer_solution_paths = [\<lparr>sp_source = In_WifiEvent, sp_transforms =
     [Tr_CommandDispatch, Tr_OneToMany, Tr_SafetyInterlock], sp_sink = Out_ServoDrive, sp_feedback =
     [Fb_PhysicalMotion]\<rparr>]"

definition articulated_sequencer_solution :: catalog_solution where
 "articulated_sequencer_solution = \<lparr>sd_id = ''articulated_sequencer_solution'',
     sd_fixed_orchestration = articulated_sequencer_solution_steps, sd_variants = [], sd_bundle =
     \<lparr>cb_required = [''wifi''], cb_optional = [''ota'']\<rparr>, sd_watchdog_ms = Some 500, cs_label
     = ''Articulated Sequencer (Snake / Crane / Excavator / Continuum)'', cs_kind = Kind_FirmwareAppliance,
     cs_supported_modules = [''esp32s3_wroom1'', ''esp32s3_mini1''], cs_fixed_inputs = [In_WifiEvent,
     In_I2cSensor, In_ButtonGpio], cs_fixed_outputs = [Out_ServoDrive, Out_RelayDrive, Out_WifiPacket],
     cs_scheduling = \<lparr>sc_id = ''articulated_sequencer'', sc_label =
     ''100 Hz sequenced joint update'', sc_decisions = [''Joints update in fixed phase order (head'' @ utf8
     [226, 134, 146] @ ''tail for snake; base'' @ utf8 [226, 134, 146] @ ''tip for crane)'',
     ''Emergency button cuts ALL joints simultaneously regardless of phase'', ''No MCU-side IK '' @ utf8
     [226, 128, 148] @ '' operator (or SBC) computes joint targets'']\<rparr>, cs_user_parameters =
     articulated_sequencer_solution_params, cs_feedback_paths = articulated_sequencer_solution_paths,
     cs_variants = [], cs_runtime_binding = (brookesia_vehicle_binding [''rshome_motor_control'',
     ''rshome_failsafe''])\<lparr>rb_board_assembly := Some ''esp32s3_va_sbc_bridge_assembly''\<rparr>,
     cs_external_contracts = [''MAVLink v2 over WiFi'', ''Per-segment servo / hydraulic valve protocol''],
     cs_network_topology = Net_Star, cs_domain = Some Dom_VehicleAircraftControl, cs_architecture_tier =
     Some Role_ControlTelemetryBoard, cs_communication_chains = None, cs_pin_assignments = Some
     vehicle_control_pins, cs_topology_category = None, cs_family = Some Impl_Custom,
     cs_form_factor_families = Some [Ff_SnakeSerpentine, Ff_WormModular, Ff_RollingBall, Ff_ExcavatorArm,
     Ff_CraneBoom, Ff_SkidSteerLoader, Ff_SoftGripper, Ff_TentacleArm], cs_control_uplink = Some
     Up_WifiMavlink, cs_video_downlink = Some Vid_None, cs_telemetry = Some Tel_CustomUart,
     cs_sensor_tier_min = Some Tier_Standard9ax, cs_required_sensors = [Needs_JointEncoder,
     Needs_PressureStrain], cs_companion_link = Some Link_Can, cs_actuator_family = Some Act_HydraulicJoint,
     cs_power_rails = Some Rail_TripleMotorServoLogic, cs_failsafe = Some \<lparr>fi_killswitch_source =
     [Kill_TimeoutNoPacket, Kill_EmergencyButton], fi_rx_loss_behavior = Some Loss_Unpowered, fi_watchdog_ms
     = Some 500, fi_emergency_stop_wiring = Stop_GpioPulldown\<rparr>, cs_chip_coverage = Some (bt_of_list
     [(Chip_Esp32S3, Cov_Preferred), (Chip_Esp32C6, Cov_Caveat), (Chip_Esp32D0wd,
     Cov_Insufficient)])\<rparr>"

definition climbing_controller_solution_steps :: "orchestration_step list" where
 "climbing_controller_solution_steps = steps [(''wifi_mavlink_init'', ''Initialize WiFi + MAVLink'', []),
     (''adhesion_init'', ''Initialize adhesion sensor (suction pressure / magnet current / cable tension)'',
     []), (''drive_loop'', ''Drive + adhesion control loop @ 100 Hz; lose adhesion '' @ utf8 [226, 134, 146]
     @ '' stop drive + alarm'', [''adhesion_init''])]"

definition climbing_controller_solution_params :: "user_parameter list" where
 "climbing_controller_solution_params = [\<lparr>up_id = ''adhesion_kind'', up_label =
     ''Adhesion Mechanism'', up_required = True, up_secret = False, up_default_value = Some (JStr
     ''suction''), up_enum_values = Some (enum_options [(''suction'', ''Vacuum Suction''), (''cable'',
     ''Cable Climbing''), (''magnetic'', ''Switchable Electromagnets'')]), up_depends_on = None\<rparr>,
     \<lparr>up_id = ''adhesion_threshold_pct'', up_label = ''Adhesion Threshold (%)'', up_required = False,
     up_secret = False, up_default_value = Some (JStr ''70''), up_enum_values = Some (enum_options [(''50'',
     ''50% (permissive)''), (''70'', ''70% (standard)''), (''85'', ''85% (strict)'')]), up_depends_on =
     None\<rparr>, imu_axis_tier_param, imu_chip_param, failsafe_timeout_ms_param]"

definition climbing_controller_solution_paths :: "solution_path list" where
 "climbing_controller_solution_paths = [\<lparr>sp_source = In_AdcVoltage, sp_transforms = [Tr_Filter,
     Tr_Threshold, Tr_SafetyInterlock, Tr_CommandDispatch], sp_sink = Out_MotorDrive, sp_feedback =
     [Fb_LedIndicator, Fb_SoundFeedback]\<rparr>]"

definition climbing_controller_solution :: catalog_solution where
 "climbing_controller_solution = \<lparr>sd_id = ''climbing_controller_solution'', sd_fixed_orchestration =
     climbing_controller_solution_steps, sd_variants = [], sd_bundle = \<lparr>cb_required = [''wifi''],
     cb_optional = [''ota'']\<rparr>, sd_watchdog_ms = Some 250, cs_label =
     ''Climbing Robot (Suction / Cable / Magnetic)'', cs_kind = Kind_FirmwareAppliance, cs_supported_modules
     = [''esp32s3_wroom1'', ''esp32s3_mini1''], cs_fixed_inputs = [In_WifiEvent, In_I2cSensor,
     In_AdcVoltage, In_ButtonGpio], cs_fixed_outputs = [Out_MotorDrive, Out_RelayDrive, Out_WifiPacket],
     cs_scheduling = \<lparr>sc_id = ''climbing_safety_first'', sc_label =
     ''100 Hz drive loop with adhesion-priority interlock'', sc_decisions =
     [''Adhesion sensor read at 200 Hz; out-of-range for >50 ms triggers full stop'',
     ''Drive output gated by adhesion-OK signal '' @ utf8 [226, 128, 148] @ '' no command can override'',
     ''Operator e-stop cuts both drive AND adhesion (controlled detach)'']\<rparr>, cs_user_parameters =
     climbing_controller_solution_params, cs_feedback_paths = climbing_controller_solution_paths,
     cs_variants = [], cs_runtime_binding = (brookesia_vehicle_binding [''rshome_motor_control'',
     ''rshome_imu'', ''rshome_failsafe'']), cs_external_contracts = [''MAVLink v2 over WiFi'',
     ''Adhesion sensor (analog)''], cs_network_topology = Net_Star, cs_domain = Some
     Dom_VehicleAircraftControl, cs_architecture_tier = Some Role_ControlBoard, cs_communication_chains =
     None, cs_pin_assignments = Some vehicle_car_pins, cs_topology_category = None, cs_family = Some
     Impl_Custom, cs_form_factor_families = Some [Ff_WallClimbingSuction, Ff_CableClimbing,
     Ff_MagneticClimber], cs_control_uplink = Some Up_WifiMavlink, cs_video_downlink = Some Vid_None,
     cs_telemetry = Some Tel_MavlinkWifi, cs_sensor_tier_min = Some Tier_Standard9ax, cs_required_sensors =
     [Needs_Adhesion], cs_companion_link = Some Link_Uart, cs_actuator_family = Some Act_MixedDiffDrive,
     cs_power_rails = Some Rail_TripleMotorServoLogic, cs_failsafe = Some \<lparr>fi_killswitch_source =
     [Kill_RxLoss, Kill_TimeoutNoPacket, Kill_EmergencyButton, Kill_LowVoltage], fi_rx_loss_behavior = Some
     Loss_MotorCutoff, fi_watchdog_ms = Some 250, fi_emergency_stop_wiring = Stop_RelayCutoff\<rparr>,
     cs_chip_coverage = Some (bt_of_list [(Chip_Esp32S3, Cov_Preferred), (Chip_Esp32C6, Cov_Caveat),
     (Chip_Esp32D0wd, Cov_Insufficient)])\<rparr>"

definition esp_now_sensor_solution_params :: "user_parameter list" where
 "esp_now_sensor_solution_params = [\<lparr>up_id = ''peer_mac'', up_label = ''Peer MAC Address'',
     up_required = True, up_secret = False, up_default_value = None, up_enum_values = None, up_depends_on =
     None\<rparr>, \<lparr>up_id = ''sleep_interval_s'', up_label = ''Sleep Interval (s)'', up_required =
     False, up_secret = False, up_default_value = Some (JStr ''60''), up_enum_values = Some (enum_options
     [(''10'', ''10 s''), (''30'', ''30 s''), (''60'', ''60 s''), (''300'', ''5 min'')]), up_depends_on =
     None\<rparr>]"

definition esp_now_sensor_solution_paths :: "solution_path list" where
 "esp_now_sensor_solution_paths = [\<lparr>sp_source = In_EspNowData, sp_transforms = [], sp_sink =
     Out_EspNowData, sp_feedback = [Fb_LedIndicator]\<rparr>]"

definition esp_now_sensor_solution :: catalog_solution where
 "esp_now_sensor_solution = \<lparr>sd_id = ''esp_now_sensor_solution'', sd_fixed_orchestration = [],
     sd_variants = [], sd_bundle = \<lparr>cb_required = [], cb_optional = []\<rparr>, sd_watchdog_ms =
     None, cs_label = ''ESP-NOW Sensor (Point-to-Point)'', cs_kind = Kind_ConnectivityBridge,
     cs_supported_modules = [''esp32c6_wroom1'', ''esp32s3_wroom1''], cs_fixed_inputs = [In_EspNowData,
     In_ServiceCall], cs_fixed_outputs = [Out_EspNowData], cs_scheduling = \<lparr>sc_id =
     ''periodic_wake'', sc_label = ''Periodic deep-sleep wake + transmit'', sc_decisions = [''Wake '' @ utf8
     [226, 134, 146] @ '' read sensor '' @ utf8 [226, 134, 146] @ '' ESP-NOW send '' @ utf8 [226, 134, 146]
     @ '' sleep'']\<rparr>, cs_user_parameters = esp_now_sensor_solution_params, cs_feedback_paths =
     esp_now_sensor_solution_paths, cs_variants = [], cs_runtime_binding =
     default_runtime_binding\<lparr>rb_family := Some ''brookesia_service'', rb_managed_components :=
     managed [(''esp-now'', Some ''*'', None, Some ''espressif'')], rb_codegen_path :=
     Path_BrookesiaManaged\<rparr>, cs_external_contracts = [''ESP-NOW protocol''], cs_network_topology =
     Net_PointToPoint, cs_domain = Some Dom_IotDeviceTooling, cs_architecture_tier = None,
     cs_communication_chains = None, cs_pin_assignments = None, cs_topology_category = None, cs_family =
     Some Impl_BrookesiaService, cs_form_factor_families = None, cs_control_uplink = None, cs_video_downlink
     = None, cs_telemetry = None, cs_sensor_tier_min = None, cs_required_sensors = [], cs_companion_link =
     None, cs_actuator_family = None, cs_power_rails = None, cs_failsafe = None, cs_chip_coverage =
     None\<rparr>"

definition mqtt_gateway_bridge_steps :: "orchestration_step list" where
 "mqtt_gateway_bridge_steps = steps [(''wifi_connect'', ''Connect to WiFi (STA mode)'', []),
     (''mqtt_connect'', ''Establish MQTT connection to broker'', [''wifi_connect'']), (''poll_or_receive'',
     ''Poll local sensors or receive ESP-NOW frames'', []), (''mqtt_publish'',
     ''Publish JSON payload to MQTT topic'', [''mqtt_connect'', ''poll_or_receive''])]"

definition mqtt_gateway_bridge_params :: "user_parameter list" where
 "mqtt_gateway_bridge_params = [\<lparr>up_id = ''broker_port'', up_label = ''Broker Port'', up_required =
     False, up_secret = False, up_default_value = Some (JStr ''1883''), up_enum_values = Some (enum_options
     [(''1883'', ''1883 (Standard)''), (''8883'', ''8883 (TLS)'')]), up_depends_on = None\<rparr>,
     \<lparr>up_id = ''mqtt_transport'', up_label = ''Transport'', up_required = False, up_secret = False,
     up_default_value = Some (JStr ''tcp''), up_enum_values = Some (enum_options [(''tcp'', ''TCP''),
     (''tls'', ''TLS'')]), up_depends_on = None\<rparr>, \<lparr>up_id = ''data_source'', up_label =
     ''Data Source'', up_required = True, up_secret = False, up_default_value = Some (JStr
     ''local_sensors''), up_enum_values = Some (enum_options [(''local_sensors'', ''Local Sensors''),
     (''espnow_relay'', ''ESP-NOW Relay''), (''both'', ''Both'')]), up_depends_on = None\<rparr>,
     iot_poll_interval_param\<lparr>up_depends_on := Some \<lparr>pd_parameter_id = ''data_source'',
     pd_when_value = [], pd_when_not_value = Some ''espnow_relay''\<rparr>\<rparr>]"

definition mqtt_gateway_bridge_paths :: "solution_path list" where
 "mqtt_gateway_bridge_paths = [\<lparr>sp_source = In_I2cSensor, sp_transforms = [Tr_SensorFrameDecode,
     Tr_Filter], sp_sink = Out_WifiPacket, sp_feedback = [Fb_MqttPublish]\<rparr>]"

definition solution_mqtt_gateway_bridge :: catalog_solution where
 "solution_mqtt_gateway_bridge = \<lparr>sd_id = ''mqtt_gateway_bridge'', sd_fixed_orchestration =
     mqtt_gateway_bridge_steps, sd_variants = [], sd_bundle = \<lparr>cb_required = [''wifi''], cb_optional
     = [''sensor'', ''i2c'', ''spi'', ''ota'']\<rparr>, sd_watchdog_ms = None, cs_label =
     ''MQTT Sensor Gateway'', cs_kind = Kind_ConnectivityBridge, cs_supported_modules = [''esp32s3_wroom1'',
     ''esp32c6_wroom1''], cs_fixed_inputs = [In_I2cSensor, In_AdcVoltage, In_EspNowData, In_MqttMessage],
     cs_fixed_outputs = [], cs_scheduling = \<lparr>sc_id = ''periodic_publish'', sc_label =
     ''Periodic sensor poll + MQTT publish'', sc_decisions =
     [''Poll interval per sensor, publish on change or interval'']\<rparr>, cs_user_parameters =
     mqtt_gateway_bridge_params, cs_feedback_paths = mqtt_gateway_bridge_paths, cs_variants = [],
     cs_runtime_binding = default_runtime_binding\<lparr>rb_family := Some ''brookesia_service'',
     rb_managed_components := managed [(''esp_mqtt'', Some ''*'', None, Some ''espressif'')],
     rb_codegen_path := Path_BrookesiaManaged\<rparr>, cs_external_contracts =
     [''MQTT 3.1.1 / 5.0 broker''], cs_network_topology = Net_Star, cs_domain = Some Dom_IotDeviceTooling,
     cs_architecture_tier = None, cs_communication_chains = None, cs_pin_assignments = None,
     cs_topology_category = None, cs_family = Some Impl_BrookesiaService, cs_form_factor_families = None,
     cs_control_uplink = None, cs_video_downlink = None, cs_telemetry = None, cs_sensor_tier_min = None,
     cs_required_sensors = [], cs_companion_link = None, cs_actuator_family = None, cs_power_rails = None,
     cs_failsafe = None, cs_chip_coverage = None\<rparr>"

definition ble_scanner_proxy_steps :: "orchestration_step list" where
 "ble_scanner_proxy_steps = steps [(''ble_init'', ''Initialize BLE scanner'', []), (''scan_advertisements'',
     ''Scan for BLE advertisements'', [''ble_init'']), (''parse_payload'',
     ''Decode manufacturer-specific data'', [''scan_advertisements'']), (''publish_state'',
     ''Relay parsed readings to rshome-ha or MQTT'', [''parse_payload''])]"

definition ble_scanner_proxy_params :: "user_parameter list" where
 "ble_scanner_proxy_params = [\<lparr>up_id = ''scan_mode'', up_label = ''Scan Mode'', up_required = False,
     up_secret = False, up_default_value = Some (JStr ''passive''), up_enum_values = Some (enum_options
     [(''passive'', ''Passive''), (''active'', ''Active'')]), up_depends_on = None\<rparr>, \<lparr>up_id =
     ''scan_interval_ms'', up_label = ''Scan Interval (ms)'', up_required = False, up_secret = False,
     up_default_value = Some (JStr ''320''), up_enum_values = Some (enum_options [(''320'', ''320 ms''),
     (''640'', ''640 ms''), (''1280'', ''1280 ms''), (''5000'', ''5000 ms'')]), up_depends_on =
     None\<rparr>, \<lparr>up_id = ''device_filter'', up_label = ''Device Filter'', up_required = False,
     up_secret = False, up_default_value = Some (JStr ''all''), up_enum_values = Some (enum_options
     [(''all'', ''All Devices''), (''xiaomi_miflora'', ''Xiaomi MiFlora''), (''switchbot'', ''SwitchBot''),
     (''ruuvi'', ''Ruuvi''), (''ibeacon'', ''iBeacon''), (''custom_mac'', ''Custom MAC'')]), up_depends_on =
     None\<rparr>, \<lparr>up_id = ''target_mac'', up_label = ''Target MAC Address'', up_required = False,
     up_secret = False, up_default_value = None, up_enum_values = None, up_depends_on = Some
     \<lparr>pd_parameter_id = ''device_filter'', pd_when_value = ''custom_mac'', pd_when_not_value =
     None\<rparr>\<rparr>, uplink_protocol_param]"

definition ble_scanner_proxy_paths :: "solution_path list" where
 "ble_scanner_proxy_paths = [\<lparr>sp_source = In_BleEvent, sp_transforms = [Tr_SensorFrameDecode,
     Tr_Filter], sp_sink = Out_NetworkApiState, sp_feedback = [Fb_ApiState]\<rparr>]"

definition ble_scanner_proxy_runtime :: runtime_binding where
 "ble_scanner_proxy_runtime = (default_runtime_binding\<lparr>rb_family := Some ''brookesia_service'',
     rb_managed_components := managed [(''esp_ble'', Some ''*'', None, Some ''espressif'')], rb_codegen_path
     := Path_BrookesiaManaged\<rparr>)\<lparr>rb_ha_entities := [sensor_entity ''ble_temperature''
     ''BLE Temperature'' ''temperature'' (utf8 [194, 176] @ ''C'') \<lparr>hs_source_event =
     ''ble_scanner_0.reading'', hs_field_map = bt_of_list [(''temperature'', ''value'')]\<rparr>,
     sensor_entity ''ble_humidity'' ''BLE Humidity'' ''humidity'' ''%'' \<lparr>hs_source_event =
     ''ble_scanner_0.reading'', hs_field_map = bt_of_list [(''humidity'', ''value'')]\<rparr>, sensor_entity
     ''ble_battery'' ''BLE Battery'' ''battery'' ''%'' \<lparr>hs_source_event = ''ble_scanner_0.reading'',
     hs_field_map = bt_of_list [(''battery'', ''value'')]\<rparr>, sensor_entity ''ble_rssi''
     ''BLE Signal Strength'' ''signal_strength'' ''dBm'' \<lparr>hs_source_event =
     ''ble_scanner_0.reading'', hs_field_map = bt_of_list [(''rssi'', ''value'')]\<rparr>]\<rparr>"

definition solution_ble_scanner_proxy :: catalog_solution where
 "solution_ble_scanner_proxy = \<lparr>sd_id = ''ble_scanner_proxy'', sd_fixed_orchestration =
     ble_scanner_proxy_steps, sd_variants = [], sd_bundle = \<lparr>cb_required = [''wifi''], cb_optional =
     [''sensor'', ''binary_sensor'', ''api'', ''ota'']\<rparr>, sd_watchdog_ms = None, cs_label =
     ''BLE Scanner Proxy'', cs_kind = Kind_ConnectivityBridge, cs_supported_modules = [''esp32s3_wroom1'',
     ''esp32c6_wroom1''], cs_fixed_inputs = [In_BleEvent, In_ServiceCall], cs_fixed_outputs =
     [Out_NetworkApiState], cs_scheduling = \<lparr>sc_id = ''continuous_scan'', sc_label =
     ''Continuous BLE scan + uplink publish'', sc_decisions =
     [''Scan window/interval, filter by device type'']\<rparr>, cs_user_parameters =
     ble_scanner_proxy_params, cs_feedback_paths = ble_scanner_proxy_paths, cs_variants = [],
     cs_runtime_binding = ble_scanner_proxy_runtime, cs_external_contracts = [''rshome-ha Native API''],
     cs_network_topology = Net_Star, cs_domain = Some Dom_IotDeviceTooling, cs_architecture_tier = None,
     cs_communication_chains = None, cs_pin_assignments = None, cs_topology_category = None, cs_family =
     Some Impl_BrookesiaService, cs_form_factor_families = None, cs_control_uplink = None, cs_video_downlink
     = None, cs_telemetry = None, cs_sensor_tier_min = None, cs_required_sensors = [], cs_companion_link =
     None, cs_actuator_family = None, cs_power_rails = None, cs_failsafe = None, cs_chip_coverage =
     None\<rparr>"

section \<open>All of them\<close>

definition solutions_3 :: "catalog_solution list" where
  "solutions_3 = [lta_slow_actuator_solution,
     agri_tool_dispatch_solution,
     heli_stabilizer_solution,
     modular_dynamic_solution,
     hopping_ballistic_solution,
     amphibious_transition_solution,
     vtol_transition_solution,
     rov_thruster_allocation_solution,
     legged_controller_solution,
     articulated_sequencer_solution,
     climbing_controller_solution,
     esp_now_sensor_solution,
     solution_mqtt_gateway_bridge,
     solution_ble_scanner_proxy]"

end
