(* ===== verification/Solutions4.thy ===== *)
theory Solutions4
  imports SolutionParts
begin

text \<open>
  The fourth part of the solutions that \<open>default_solution_registry\<close> registers, in the order of
  \<open>rshome-schema/src/solution.rs\<close>: one definition for each, named by its id, and one for each of
  its longer fields.
\<close>

definition env_data_logger_steps :: "orchestration_step list" where
 "env_data_logger_steps = steps [(''init_storage'', ''Initialize storage backend (SD/flash)'', []),
     (''init_sensors'', ''Initialize I2C/SPI/ADC sensors'', []), (''start_logging'',
     ''Start periodic logging loop'', [''init_storage'', ''init_sensors'']), (''batch_upload'',
     ''Batch upload via WiFi (optional)'', [''start_logging''])]"

definition env_data_logger_params :: "user_parameter list" where
 "env_data_logger_params = [iot_poll_interval_param\<lparr>up_id := ''log_interval_ms'', up_label :=
     ''Log Interval (ms)''\<rparr>, storage_backend_param, upload_mode_param, \<lparr>up_id =
     ''max_records'', up_label = ''Max Records'', up_required = False, up_secret = False, up_default_value =
     Some (JStr ''10000''), up_enum_values = Some (enum_options [(''1000'', ''1,000''), (''10000'',
     ''10,000''), (''100000'', ''100,000'')]), up_depends_on = None\<rparr>]"

definition env_data_logger_paths :: "solution_path list" where
 "env_data_logger_paths = [\<lparr>sp_source = In_I2cSensor, sp_transforms = [Tr_SensorFrameDecode,
     Tr_Filter], sp_sink = Out_SpiMasterWrite, sp_feedback = [Fb_LedIndicator, Fb_SerialLog]\<rparr>]"

definition solution_env_data_logger :: catalog_solution where
 "solution_env_data_logger = \<lparr>sd_id = ''env_data_logger'', sd_fixed_orchestration =
     env_data_logger_steps, sd_variants = [], sd_bundle = \<lparr>cb_required = [''spi'', ''sensor''],
     cb_optional = [''wifi'', ''i2c'', ''ota'']\<rparr>, sd_watchdog_ms = None, cs_label =
     ''Environment Data Logger'', cs_kind = Kind_FirmwareAppliance, cs_supported_modules =
     [''esp32s3_wroom1'', ''esp32c6_wroom1''], cs_fixed_inputs = [In_I2cSensor, In_SpiSensor, In_AdcVoltage,
     In_TimerTick], cs_fixed_outputs = [Out_SpiMasterWrite, Out_UsbTx, Out_NetworkApiState], cs_scheduling =
     \<lparr>sc_id = ''periodic_log'', sc_label = ''Periodic sensor poll + log to storage'', sc_decisions =
     [''Log interval per sensor, upload on schedule or manual'']\<rparr>, cs_user_parameters =
     env_data_logger_params, cs_feedback_paths = env_data_logger_paths, cs_variants = [], cs_runtime_binding
     = default_runtime_binding\<lparr>rb_family := Some ''brookesia_service'', rb_managed_components :=
     managed [(''esp_vfs_fat'', Some ''*'', None, Some ''espressif'')], rb_codegen_path :=
     Path_BrookesiaManaged\<rparr>, cs_external_contracts = [], cs_network_topology = Net_Star, cs_domain =
     Some Dom_IotDeviceTooling, cs_architecture_tier = None, cs_communication_chains = None,
     cs_pin_assignments = Some iot_sensor_pins, cs_topology_category = None, cs_family = Some
     Impl_BrookesiaService, cs_form_factor_families = None, cs_control_uplink = None, cs_video_downlink =
     None, cs_telemetry = None, cs_sensor_tier_min = None, cs_required_sensors = [], cs_companion_link =
     None, cs_actuator_family = None, cs_power_rails = None, cs_failsafe = None, cs_chip_coverage =
     None\<rparr>"

definition thread_zigbee_sensor_steps :: "orchestration_step list" where
 "thread_zigbee_sensor_steps = steps [(''thread_join'', ''Join Thread/Zigbee network'', []),
     (''sensor_init'', ''Initialize sensors'', []), (''start_reporting'', ''Start periodic reporting'',
     [''thread_join'', ''sensor_init''])]"

definition thread_zigbee_sensor_params :: "user_parameter list" where
 "thread_zigbee_sensor_params = [\<lparr>up_id = ''protocol'', up_label = ''Protocol'', up_required = True,
     up_secret = False, up_default_value = Some (JStr ''thread''), up_enum_values = Some (enum_options
     [(''thread'', ''Thread 1.3''), (''zigbee'', ''Zigbee 3.0'')]), up_depends_on = None\<rparr>,
     \<lparr>up_id = ''sensor_type'', up_label = ''Sensor Type'', up_required = True, up_secret = False,
     up_default_value = Some (JStr ''temperature''), up_enum_values = Some (enum_options [(''temperature'',
     ''Temperature/Humidity''), (''motion'', ''Motion (PIR)''), (''door_window'', ''Door/Window''),
     (''light'', ''Light Level'')]), up_depends_on = None\<rparr>, \<lparr>up_id = ''report_interval_s'',
     up_label = ''Report Interval (s)'', up_required = False, up_secret = False, up_default_value = Some
     (JStr ''60''), up_enum_values = Some (enum_options [(''10'', ''10 s''), (''30'', ''30 s''), (''60'',
     ''60 s''), (''300'', ''5 min'')]), up_depends_on = None\<rparr>]"

definition thread_zigbee_sensor_paths :: "solution_path list" where
 "thread_zigbee_sensor_paths = [\<lparr>sp_source = In_I2cSensor, sp_transforms = [Tr_SensorFrameDecode,
     Tr_Calibration], sp_sink = Out_NetworkApiState, sp_feedback = [Fb_LedIndicator, Fb_ApiState]\<rparr>]"

definition thread_zigbee_sensor_runtime :: runtime_binding where
 "thread_zigbee_sensor_runtime = default_runtime_binding\<lparr>rb_family := Some ''brookesia_service'',
     rb_managed_components := managed [(''esp_openthread'', Some ''*'', None, Some ''espressif''),
     (''esp_zigbee_lib'', Some ''*'', None, Some ''espressif'')], rb_codegen_path :=
     Path_BrookesiaManaged\<rparr>"

definition solution_thread_zigbee_sensor :: catalog_solution where
 "solution_thread_zigbee_sensor = \<lparr>sd_id = ''thread_zigbee_sensor'', sd_fixed_orchestration =
     thread_zigbee_sensor_steps, sd_variants = [], sd_bundle = \<lparr>cb_required = [], cb_optional =
     [''sensor'', ''binary_sensor'', ''i2c'']\<rparr>, sd_watchdog_ms = None, cs_label =
     ''Thread/Zigbee Sensor'', cs_kind = Kind_FirmwareAppliance, cs_supported_modules = [''esp32c6_wroom1'',
     ''esp32c6_mini1''], cs_fixed_inputs = [In_I2cSensor, In_AdcVoltage, In_ButtonGpio], cs_fixed_outputs =
     [Out_NetworkApiState], cs_scheduling = \<lparr>sc_id = ''periodic_report'', sc_label =
     ''Periodic sensor report over Thread/Zigbee'', sc_decisions =
     [''Report interval, sleep between reports'']\<rparr>, cs_user_parameters = thread_zigbee_sensor_params,
     cs_feedback_paths = thread_zigbee_sensor_paths, cs_variants = [], cs_runtime_binding =
     thread_zigbee_sensor_runtime, cs_external_contracts = [''Thread 1.3'', ''Zigbee 3.0''],
     cs_network_topology = Net_Mesh, cs_domain = Some Dom_IotDeviceTooling, cs_architecture_tier = None,
     cs_communication_chains = None, cs_pin_assignments = None, cs_topology_category = None, cs_family =
     Some Impl_BrookesiaService, cs_form_factor_families = None, cs_control_uplink = None, cs_video_downlink
     = None, cs_telemetry = None, cs_sensor_tier_min = None, cs_required_sensors = [], cs_companion_link =
     None, cs_actuator_family = None, cs_power_rails = None, cs_failsafe = None, cs_chip_coverage =
     None\<rparr>"

definition zigbee_thread_gateway_steps :: "orchestration_step list" where
 "zigbee_thread_gateway_steps = steps [(''wifi_init'', ''Connect to WiFi (uplink)'', []), (''thread_init'',
     ''Initialize Thread/Zigbee radio'', []), (''start_border_router'',
     ''Start border router / coordinator'', [''wifi_init'', ''thread_init'']), (''serve_api'',
     ''Serve device list to rshome-ha / MQTT'', [''start_border_router''])]"

definition zigbee_thread_gateway_params :: "user_parameter list" where
 "zigbee_thread_gateway_params = [\<lparr>up_id = ''gateway_mode'', up_label = ''Gateway Mode'', up_required
     = True, up_secret = False, up_default_value = Some (JStr ''thread_border_router''), up_enum_values =
     Some (enum_options [(''thread_border_router'', ''Thread Border Router''), (''zigbee_coordinator'',
     ''Zigbee Coordinator'')]), up_depends_on = None\<rparr>, \<lparr>up_id = ''network_name'', up_label =
     ''Network Name'', up_required = False, up_secret = False, up_default_value = Some (JStr
     ''rshome-mesh''), up_enum_values = None, up_depends_on = None\<rparr>, \<lparr>up_id = ''channel'',
     up_label = ''Radio Channel'', up_required = False, up_secret = False, up_default_value = Some (JStr
     ''15''), up_enum_values = Some (enum_options [(''15'', ''Ch 15 (default)''), (''20'', ''Ch 20''),
     (''25'', ''Ch 25'')]), up_depends_on = None\<rparr>, uplink_protocol_param]"

definition zigbee_thread_gateway_paths :: "solution_path list" where
 "zigbee_thread_gateway_paths = [\<lparr>sp_source = In_WifiEvent, sp_transforms = [Tr_CommandDispatch,
     Tr_OneToMany], sp_sink = Out_NetworkApiState, sp_feedback = [Fb_ApiState, Fb_WebStatus]\<rparr>]"

definition zigbee_thread_gateway_runtime :: runtime_binding where
 "zigbee_thread_gateway_runtime = (default_runtime_binding\<lparr>rb_family := Some ''brookesia_service'',
     rb_managed_components := managed [(''esp_openthread'', Some ''*'', None, Some ''espressif''),
     (''esp_zigbee_lib'', Some ''*'', None, Some ''espressif'')], rb_codegen_path :=
     Path_BrookesiaManaged\<rparr>)\<lparr>rb_ha_entities := [sensor_entity ''child_device_count''
     ''Connected Devices'' ''None'' ''devices'' \<lparr>hs_source_event = ''zigbee_gw_0.topology'',
     hs_field_map = bt_of_list [(''child_count'', ''value'')]\<rparr>, sensor_entity ''network_channel''
     ''Radio Channel'' ''None'' [] \<lparr>hs_source_event = ''zigbee_gw_0.topology'', hs_field_map =
     bt_of_list [(''channel'', ''value'')]\<rparr>, \<lparr>he_kind = Ha_BinarySensor, he_object_id =
     ''network_formed'', he_unique_id = None, he_name = ''Network Formed'', he_device_class = Some
     ''connectivity'', he_unit_of_measurement = None, he_entity_category = Some ''diagnostic'', he_icon =
     Some ''mdi:lan-connect'', he_command_bindings = [], he_state_binding = Some \<lparr>hs_source_event =
     ''zigbee_gw_0.topology'', hs_field_map = bt_of_list [(''formed'', ''state'')]\<rparr>,
     he_availability_event = None\<rparr>]\<rparr>"

definition solution_zigbee_thread_gateway :: catalog_solution where
 "solution_zigbee_thread_gateway = \<lparr>sd_id = ''zigbee_thread_gateway'', sd_fixed_orchestration =
     zigbee_thread_gateway_steps, sd_variants = [], sd_bundle = \<lparr>cb_required = [''wifi''],
     cb_optional = [''api'', ''ota'']\<rparr>, sd_watchdog_ms = None, cs_label =
     ''Thread Border Router / Zigbee Gateway'', cs_kind = Kind_ConnectivityBridge, cs_supported_modules =
     [''esp32c6_wroom1''], cs_fixed_inputs = [In_WifiEvent, In_BleEvent], cs_fixed_outputs =
     [Out_NetworkApiState, Out_WifiPacket], cs_scheduling = \<lparr>sc_id = ''event_driven_relay'', sc_label
     = ''Event-driven relay from Thread/Zigbee to WiFi'', sc_decisions =
     [''Forward on change, periodic keep-alive'']\<rparr>, cs_user_parameters =
     zigbee_thread_gateway_params, cs_feedback_paths = zigbee_thread_gateway_paths, cs_variants = [],
     cs_runtime_binding = zigbee_thread_gateway_runtime, cs_external_contracts = [''Thread Border Router'',
     ''Zigbee 3.0'', ''rshome-ha Native API''], cs_network_topology = Net_Mesh, cs_domain = Some
     Dom_IotDeviceTooling, cs_architecture_tier = None, cs_communication_chains = None, cs_pin_assignments =
     None, cs_topology_category = None, cs_family = Some Impl_BrookesiaService, cs_form_factor_families =
     None, cs_control_uplink = None, cs_video_downlink = None, cs_telemetry = None, cs_sensor_tier_min =
     None, cs_required_sensors = [], cs_companion_link = None, cs_actuator_family = None, cs_power_rails =
     None, cs_failsafe = None, cs_chip_coverage = None\<rparr>"

definition uart_debug_probe_steps :: "orchestration_step list" where
 "uart_debug_probe_steps = steps [(''usb_init'', ''Initialize USB CDC'', []), (''uart_init'',
     ''Initialize target UART'', []), (''start_capture'', ''Start UART capture'', [''usb_init'',
     ''uart_init'']), (''wifi_stream'', ''Stream to WiFi (optional)'', [''start_capture''])]"

definition uart_debug_probe_params :: "user_parameter list" where
 "uart_debug_probe_params = [\<lparr>up_id = ''baud_rate'', up_label = ''Baud Rate'', up_required = True,
     up_secret = False, up_default_value = Some (JStr ''115200''), up_enum_values = Some (enum_options
     [(''9600'', ''9600''), (''115200'', ''115200''), (''921600'', ''921600''), (''2000000'',
     ''2000000'')]), up_depends_on = None\<rparr>, \<lparr>up_id = ''capture_mode'', up_label =
     ''Capture Mode'', up_required = True, up_secret = False, up_default_value = Some (JStr
     ''passthrough''), up_enum_values = Some (enum_options [(''passthrough'', ''USB Passthrough''),
     (''log_to_flash'', ''Log to Flash''), (''wifi_stream'', ''WiFi Stream'')]), up_depends_on =
     None\<rparr>, \<lparr>up_id = ''timestamp_format'', up_label = ''Timestamp Format'', up_required =
     False, up_secret = False, up_default_value = Some (JStr ''millis''), up_enum_values = Some
     (enum_options [(''none'', ''None''), (''millis'', ''Milliseconds''), (''iso8601'', ''ISO 8601'')]),
     up_depends_on = None\<rparr>]"

definition uart_debug_probe_paths :: "solution_path list" where
 "uart_debug_probe_paths = [\<lparr>sp_source = In_UartRx, sp_transforms = [Tr_UartProtocolParse,
     Tr_Filter], sp_sink = Out_UsbTx, sp_feedback = [Fb_SerialLog, Fb_WebStatus]\<rparr>]"

definition solution_uart_debug_probe :: catalog_solution where
 "solution_uart_debug_probe = \<lparr>sd_id = ''uart_debug_probe'', sd_fixed_orchestration =
     uart_debug_probe_steps, sd_variants = [], sd_bundle = \<lparr>cb_required = [''uart''], cb_optional =
     [''wifi'', ''ota'']\<rparr>, sd_watchdog_ms = None, cs_label = ''UART Debug Probe'', cs_kind =
     Kind_FirmwareAppliance, cs_supported_modules = [''esp32s3_wroom1''], cs_fixed_inputs = [In_UartRx,
     In_UsbCdcCommand, In_TimerTick], cs_fixed_outputs = [Out_UsbTx, Out_WifiPacket, Out_StatusLed],
     cs_scheduling = \<lparr>sc_id = ''continuous_capture'', sc_label =
     ''Continuous UART capture + forwarding'', sc_decisions =
     [''Capture mode: passthrough, log, or WiFi stream'']\<rparr>, cs_user_parameters =
     uart_debug_probe_params, cs_feedback_paths = uart_debug_probe_paths, cs_variants = [],
     cs_runtime_binding = default_runtime_binding\<lparr>rb_family := Some ''brookesia_service'',
     rb_managed_components := [], rb_codegen_path := Path_BrookesiaManaged\<rparr>, cs_external_contracts =
     [], cs_network_topology = Net_Local, cs_domain = Some Dom_IotDeviceTooling, cs_architecture_tier =
     None, cs_communication_chains = None, cs_pin_assignments = Some iot_debug_probe_pins,
     cs_topology_category = None, cs_family = Some Impl_BrookesiaService, cs_form_factor_families = None,
     cs_control_uplink = None, cs_video_downlink = None, cs_telemetry = None, cs_sensor_tier_min = None,
     cs_required_sensors = [], cs_companion_link = None, cs_actuator_family = None, cs_power_rails = None,
     cs_failsafe = None, cs_chip_coverage = None\<rparr>"

definition i2c_bus_analyzer_steps :: "orchestration_step list" where
 "i2c_bus_analyzer_steps = steps [(''i2c_init'', ''Initialize I2C bus'', []), (''bus_scan'',
     ''Scan for I2C devices (0x00-0x7F)'', [''i2c_init'']), (''start_monitor'', ''Start traffic monitor'',
     [''bus_scan'']), (''serve_web_ui'', ''Serve web UI (AP mode)'', [''start_monitor''])]"

definition i2c_bus_analyzer_params :: "user_parameter list" where
 "i2c_bus_analyzer_params = [\<lparr>up_id = ''i2c_speed'', up_label = ''I2C Speed'', up_required = False,
     up_secret = False, up_default_value = Some (JStr ''400000''), up_enum_values = Some (enum_options
     [(''100000'', ''100 kHz (Standard)''), (''400000'', ''400 kHz (Fast)''), (''1000000'',
     ''1 MHz (Fast+)'')]), up_depends_on = None\<rparr>, \<lparr>up_id = ''scan_on_boot'', up_label =
     ''Scan on Boot'', up_required = False, up_secret = False, up_default_value = Some (JStr ''true''),
     up_enum_values = Some (enum_options [(''true'', ''Yes''), (''false'', ''No'')]), up_depends_on =
     None\<rparr>]"

definition i2c_bus_analyzer_paths :: "solution_path list" where
 "i2c_bus_analyzer_paths = [\<lparr>sp_source = In_I2cSensor, sp_transforms = [Tr_SensorFrameDecode,
     Tr_Filter], sp_sink = Out_NetworkApiState, sp_feedback = [Fb_WebStatus, Fb_SerialLog]\<rparr>]"

definition solution_i2c_bus_analyzer :: catalog_solution where
 "solution_i2c_bus_analyzer = \<lparr>sd_id = ''i2c_bus_analyzer'', sd_fixed_orchestration =
     i2c_bus_analyzer_steps, sd_variants = [], sd_bundle = \<lparr>cb_required = [''wifi'', ''i2c''],
     cb_optional = [''ota'']\<rparr>, sd_watchdog_ms = None, cs_label = ''I2C Bus Analyzer'', cs_kind =
     Kind_FirmwareAppliance, cs_supported_modules = [''esp32s3_wroom1'', ''esp32c6_wroom1''],
     cs_fixed_inputs = [In_I2cSensor, In_UsbCdcCommand, In_ServiceCall], cs_fixed_outputs =
     [Out_I2cMasterWrite, Out_NetworkApiState, Out_UsbTx], cs_scheduling = \<lparr>sc_id =
     ''continuous_scan'', sc_label = ''Continuous I2C bus scan + monitor'', sc_decisions =
     [''Scan on boot, monitor on demand'']\<rparr>, cs_user_parameters = i2c_bus_analyzer_params,
     cs_feedback_paths = i2c_bus_analyzer_paths, cs_variants = [], cs_runtime_binding =
     default_runtime_binding\<lparr>rb_family := Some ''brookesia_service'', rb_managed_components :=
     managed [(''brookesia_service_wifi'', Some ''~0.7'', None, None)], rb_codegen_path :=
     Path_BrookesiaManaged\<rparr>, cs_external_contracts = [], cs_network_topology = Net_Local, cs_domain =
     Some Dom_IotDeviceTooling, cs_architecture_tier = None, cs_communication_chains = None,
     cs_pin_assignments = Some iot_i2c_analyzer_pins, cs_topology_category = None, cs_family = Some
     Impl_BrookesiaService, cs_form_factor_families = None, cs_control_uplink = None, cs_video_downlink =
     None, cs_telemetry = None, cs_sensor_tier_min = None, cs_required_sensors = [], cs_companion_link =
     None, cs_actuator_family = None, cs_power_rails = None, cs_failsafe = None, cs_chip_coverage =
     None\<rparr>"

definition sigrok_logic_analyzer_steps :: "orchestration_step list" where
 "sigrok_logic_analyzer_steps = steps [(''usb_init'', ''Initialize USB Serial/JTAG transport'', []),
     (''capture_configure'', ''Configure LCD_CAM parallel capture + DMA'', []), (''sump_listen'',
     ''Listen for SUMP commands from host'', [''usb_init'', ''capture_configure'']), (''trigger_capture'',
     ''Arm trigger '' @ utf8 [226, 134, 146] @ '' capture '' @ utf8 [226, 134, 146] @ '' upload samples'',
     [''sump_listen''])]"

definition sigrok_logic_analyzer_params :: "user_parameter list" where
 "sigrok_logic_analyzer_params = [\<lparr>up_id = ''channel_count'', up_label = ''Channel Count'',
     up_required = True, up_secret = False, up_default_value = Some (JStr ''8''), up_enum_values = Some
     (enum_options [(''4'', ''4 channels''), (''8'', ''8 channels''), (''16'', ''16 channels'')]),
     up_depends_on = None\<rparr>, \<lparr>up_id = ''sample_rate'', up_label = ''Sample Rate'', up_required
     = True, up_secret = False, up_default_value = Some (JStr ''10000000''), up_enum_values = Some
     (enum_options [(''1000000'', ''1 MHz''), (''4000000'', ''4 MHz''), (''10000000'', ''10 MHz''),
     (''20000000'', ''20 MHz'')]), up_depends_on = None\<rparr>, \<lparr>up_id = ''capture_depth'', up_label
     = ''Capture Depth'', up_required = False, up_secret = False, up_default_value = Some (JStr ''100000''),
     up_enum_values = Some (enum_options [(''50000'', ''50K samples''), (''100000'', ''100K samples''),
     (''500000'', ''500K samples''), (''1000000'', ''1M samples'')]), up_depends_on = None\<rparr>,
     \<lparr>up_id = ''trigger_mode'', up_label = ''Trigger Mode'', up_required = False, up_secret = False,
     up_default_value = Some (JStr ''immediate''), up_enum_values = Some (enum_options [(''immediate'',
     ''Immediate''), (''edge_rising'', ''Rising Edge''), (''edge_falling'', ''Falling Edge''), (''pattern'',
     ''Pattern Match'')]), up_depends_on = None\<rparr>, \<lparr>up_id = ''transport'', up_label =
     ''USB Transport'', up_required = False, up_secret = False, up_default_value = Some (JStr
     ''usb_serial_jtag''), up_enum_values = Some (enum_options [(''usb_serial_jtag'', ''USB Serial/JTAG''),
     (''usb_otg_cdc'', ''USB-OTG CDC (TinyUSB)'')]), up_depends_on = None\<rparr>]"

definition sigrok_logic_analyzer_paths :: "solution_path list" where
 "sigrok_logic_analyzer_paths = [\<lparr>sp_source = In_CaptureSignal, sp_transforms = [Tr_CaptureCompare,
     Tr_Filter], sp_sink = Out_UsbTx, sp_feedback = [Fb_SerialLog]\<rparr>]"

definition solution_sigrok_logic_analyzer :: catalog_solution where
 "solution_sigrok_logic_analyzer = \<lparr>sd_id = ''sigrok_logic_analyzer'', sd_fixed_orchestration =
     sigrok_logic_analyzer_steps, sd_variants = [], sd_bundle = \<lparr>cb_required = [''sigrok''],
     cb_optional = [''wifi'', ''ota'']\<rparr>, sd_watchdog_ms = None, cs_label =
     ''sigrok Logic Analyzer (SUMP/OLS)'', cs_kind = Kind_FirmwareAppliance, cs_supported_modules =
     [''esp32s3_wroom1''], cs_fixed_inputs = [In_CaptureSignal, In_UsbCdcCommand], cs_fixed_outputs =
     [Out_UsbTx, Out_StatusLed], cs_scheduling = \<lparr>sc_id = ''host_driven'', sc_label =
     ''Host-driven capture cycle (SUMP protocol)'', sc_decisions =
     [''Capture starts on SUMP arm command from host'']\<rparr>, cs_user_parameters =
     sigrok_logic_analyzer_params, cs_feedback_paths = sigrok_logic_analyzer_paths, cs_variants = [],
     cs_runtime_binding = default_runtime_binding\<lparr>rb_family := Some ''brookesia_service'',
     rb_managed_components := [], rb_codegen_path := Path_BrookesiaManaged\<rparr>, cs_external_contracts =
     [], cs_network_topology = Net_Local, cs_domain = Some Dom_IotDeviceTooling, cs_architecture_tier =
     None, cs_communication_chains = None, cs_pin_assignments = Some iot_sigrok_la_pins,
     cs_topology_category = None, cs_family = Some Impl_BrookesiaService, cs_form_factor_families = None,
     cs_control_uplink = None, cs_video_downlink = None, cs_telemetry = None, cs_sensor_tier_min = None,
     cs_required_sensors = [], cs_companion_link = None, cs_actuator_family = None, cs_power_rails = None,
     cs_failsafe = None, cs_chip_coverage = None\<rparr>"

definition dashboard_display_steps :: "orchestration_step list" where
 "dashboard_display_steps = steps [(''display_init'', ''Initialize display driver'', []), (''sensor_init'',
     ''Initialize data sources'', []), (''start_render_loop'', ''Start render loop'', [''display_init'',
     ''sensor_init''])]"

definition dashboard_display_params :: "user_parameter list" where
 "dashboard_display_params = [display_driver_param, \<lparr>up_id = ''display_resolution'', up_label =
     ''Resolution'', up_required = False, up_secret = False, up_default_value = Some (JStr ''240x240''),
     up_enum_values = Some (enum_options [(''128x64'', ''128x64 (OLED)''), (''240x240'', ''240x240 (TFT)''),
     (''320x240'', ''320x240 (TFT)'')]), up_depends_on = None\<rparr>, \<lparr>up_id = ''data_source'',
     up_label = ''Data Source'', up_required = True, up_secret = False, up_default_value = Some (JStr
     ''local_sensors''), up_enum_values = Some (enum_options [(''local_sensors'', ''Local Sensors''),
     (''mqtt_subscribe'', ''MQTT Subscribe''), (''both'', ''Both'')]), up_depends_on = None\<rparr>,
     \<lparr>up_id = ''rotation'', up_label = ''Display Rotation'', up_required = False, up_secret = False,
     up_default_value = Some (JStr ''0''), up_enum_values = Some (enum_options [(''0'', ''0'' @ utf8 [194,
     176]), (''90'', ''90'' @ utf8 [194, 176]), (''180'', ''180'' @ utf8 [194, 176]), (''270'', ''270'' @
     utf8 [194, 176])]), up_depends_on = None\<rparr>]"

definition dashboard_display_paths :: "solution_path list" where
 "dashboard_display_paths = [\<lparr>sp_source = In_I2cSensor, sp_transforms = [Tr_SensorFrameDecode,
     Tr_Mapping], sp_sink = Out_LcdFrame, sp_feedback = [Fb_DisplayText, Fb_LedIndicator]\<rparr>,
     \<lparr>sp_source = In_RotaryEncoder, sp_transforms = [Tr_Debounce, Tr_StateMachine], sp_sink =
     Out_LcdFrame, sp_feedback = []\<rparr>]"

definition solution_dashboard_display :: catalog_solution where
 "solution_dashboard_display = \<lparr>sd_id = ''dashboard_display'', sd_fixed_orchestration =
     dashboard_display_steps, sd_variants = [], sd_bundle = \<lparr>cb_required = [''wifi'', ''spi''],
     cb_optional = [''i2c'', ''sensor'', ''ota'']\<rparr>, sd_watchdog_ms = None, cs_label =
     ''LCD Dashboard Display'', cs_kind = Kind_FirmwareAppliance, cs_supported_modules =
     [''esp32s3_wroom1''], cs_fixed_inputs = [In_I2cSensor, In_MqttMessage, In_RotaryEncoder,
     In_ButtonGpio], cs_fixed_outputs = [Out_LcdFrame, Out_StatusLed, Out_NetworkApiState], cs_scheduling =
     \<lparr>sc_id = ''render_loop'', sc_label = ''Display render loop + sensor poll'', sc_decisions =
     [''Refresh rate, page switching via encoder'']\<rparr>, cs_user_parameters = dashboard_display_params,
     cs_feedback_paths = dashboard_display_paths, cs_variants = [], cs_runtime_binding =
     default_runtime_binding\<lparr>rb_family := Some ''brookesia_service'', rb_managed_components :=
     managed [(''esp_lcd'', Some ''*'', None, Some ''espressif'')], rb_codegen_path :=
     Path_BrookesiaManaged\<rparr>, cs_external_contracts = [], cs_network_topology = Net_Star, cs_domain =
     Some Dom_IotDeviceTooling, cs_architecture_tier = None, cs_communication_chains = None,
     cs_pin_assignments = Some iot_display_pins, cs_topology_category = None, cs_family = Some
     Impl_BrookesiaService, cs_form_factor_families = None, cs_control_uplink = None, cs_video_downlink =
     None, cs_telemetry = None, cs_sensor_tier_min = None, cs_required_sensors = [], cs_companion_link =
     None, cs_actuator_family = None, cs_power_rails = None, cs_failsafe = None, cs_chip_coverage =
     None\<rparr>"

definition status_led_notifier_steps :: "orchestration_step list" where
 "status_led_notifier_steps = steps [(''led_init'', ''Initialize LED strip (RMT)'', []),
     (''connect_data_source'', ''Connect to data source (MQTT/sensor/API)'', []), (''start_animation_loop'',
     ''Start animation loop'', [''led_init'', ''connect_data_source''])]"

definition status_led_notifier_params :: "user_parameter list" where
 "status_led_notifier_params = [led_type_param, \<lparr>up_id = ''led_count'', up_label = ''LED Count'',
     up_required = True, up_secret = False, up_default_value = Some (JStr ''16''), up_enum_values = Some
     (enum_options [(''1'', ''1 (single)''), (''8'', ''8 (small ring)''), (''16'', ''16 (ring)''), (''30'',
     ''30 (strip 0.5m)''), (''60'', ''60 (strip 1m)''), (''144'', ''144 (strip 1m HD)'')]), up_depends_on =
     None\<rparr>, \<lparr>up_id = ''data_source'', up_label = ''Data Source'', up_required = True,
     up_secret = False, up_default_value = Some (JStr ''mqtt''), up_enum_values = Some (enum_options
     [(''mqtt'', ''MQTT Topic''), (''sensor'', ''Local Sensor''), (''api_command'',
     ''rshome-ha API Command'')]), up_depends_on = None\<rparr>, \<lparr>up_id = ''default_pattern'',
     up_label = ''Default Pattern'', up_required = False, up_secret = False, up_default_value = Some (JStr
     ''solid''), up_enum_values = Some (enum_options [(''solid'', ''Solid Color''), (''breathing'',
     ''Breathing''), (''chase'', ''Chase''), (''fire'', ''Fire'')]), up_depends_on = None\<rparr>]"

definition status_led_notifier_paths :: "solution_path list" where
 "status_led_notifier_paths = [\<lparr>sp_source = In_MqttMessage, sp_transforms = [Tr_CommandDispatch,
     Tr_Mapping], sp_sink = Out_RmtWaveform, sp_feedback = [Fb_LedIndicator, Fb_ApiState]\<rparr>,
     \<lparr>sp_source = In_I2cSensor, sp_transforms = [Tr_SensorFrameDecode, Tr_Threshold], sp_sink =
     Out_RmtWaveform, sp_feedback = []\<rparr>]"

definition status_led_notifier_runtime :: runtime_binding where
 "status_led_notifier_runtime = (default_runtime_binding\<lparr>rb_family := Some ''brookesia_service'',
     rb_managed_components := managed [(''led_strip'', Some ''*'', None, Some ''espressif'')],
     rb_codegen_path := Path_BrookesiaManaged\<rparr>)\<lparr>rb_ha_entities := [\<lparr>he_kind = Ha_Light,
     he_object_id = ''led_strip'', he_unique_id = None, he_name = ''LED Strip'', he_device_class = None,
     he_unit_of_measurement = None, he_entity_category = None, he_icon = Some ''mdi:led-strip-variant'',
     he_command_bindings = [\<lparr>hc_command = ''turn_on'', hc_service_function = ''led_strip_0.on'',
     hc_parameter_map = []\<rparr>, \<lparr>hc_command = ''turn_off'', hc_service_function =
     ''led_strip_0.off'', hc_parameter_map = []\<rparr>, \<lparr>hc_command = ''set_rgb'',
     hc_service_function = ''led_strip_0.set_color'', hc_parameter_map = []\<rparr>, \<lparr>hc_command =
     ''set_effect'', hc_service_function = ''led_strip_0.set_effect'', hc_parameter_map = []\<rparr>],
     he_state_binding = Some \<lparr>hs_source_event = ''led_strip_0.state'', hs_field_map = bt_of_list
     [(''on'', ''state''), (''brightness'', ''brightness''), (''r'', ''color_r''), (''g'', ''color_g''),
     (''b'', ''color_b''), (''effect'', ''effect'')]\<rparr>, he_availability_event = None\<rparr>]\<rparr>"

definition solution_status_led_notifier :: catalog_solution where
 "solution_status_led_notifier = \<lparr>sd_id = ''status_led_notifier'', sd_fixed_orchestration =
     status_led_notifier_steps, sd_variants = [], sd_bundle = \<lparr>cb_required = [''wifi''], cb_optional
     = [''light'', ''i2c'', ''sensor'', ''api'', ''ota'']\<rparr>, sd_watchdog_ms = None, cs_label =
     ''Addressable LED Status Notifier'', cs_kind = Kind_FirmwareAppliance, cs_supported_modules =
     [''esp32s3_wroom1'', ''esp32c6_wroom1''], cs_fixed_inputs = [In_MqttMessage, In_I2cSensor,
     In_ServiceCall, In_ApiCommand], cs_fixed_outputs = [Out_RmtWaveform, Out_StatusLed,
     Out_NetworkApiState], cs_scheduling = \<lparr>sc_id = ''animation_loop'', sc_label =
     ''LED animation loop driven by data events'', sc_decisions =
     [''Map data ranges to colors/patterns, animate transitions'']\<rparr>, cs_user_parameters =
     status_led_notifier_params, cs_feedback_paths = status_led_notifier_paths, cs_variants = [],
     cs_runtime_binding = status_led_notifier_runtime, cs_external_contracts = [''MQTT 3.1.1 / 5.0 broker'',
     ''rshome-ha Native API''], cs_network_topology = Net_Star, cs_domain = Some Dom_IotDeviceTooling,
     cs_architecture_tier = None, cs_communication_chains = None, cs_pin_assignments = Some
     iot_led_strip_pins, cs_topology_category = None, cs_family = Some Impl_BrookesiaService,
     cs_form_factor_families = None, cs_control_uplink = None, cs_video_downlink = None, cs_telemetry =
     None, cs_sensor_tier_min = None, cs_required_sensors = [], cs_companion_link = None, cs_actuator_family
     = None, cs_power_rails = None, cs_failsafe = None, cs_chip_coverage = None\<rparr>"

definition mesh_lite_network_solution_params :: "user_parameter list" where
 "mesh_lite_network_solution_params = [\<lparr>up_id = ''mesh_id'', up_label = ''Mesh Network ID'',
     up_required = True, up_secret = False, up_default_value = Some (JStr ''rshome-mesh''), up_enum_values =
     None, up_depends_on = None\<rparr>, \<lparr>up_id = ''is_root'', up_label = ''Root Node'', up_required
     = False, up_secret = False, up_default_value = Some (JBool False), up_enum_values = None, up_depends_on
     = None\<rparr>]"

definition mesh_lite_network_solution_paths :: "solution_path list" where
 "mesh_lite_network_solution_paths = [\<lparr>sp_source = In_WifiEvent, sp_transforms = [Tr_StateMachine],
     sp_sink = Out_WifiPacket, sp_feedback = [Fb_RuntimeMetrics]\<rparr>]"

definition mesh_lite_network_solution_runtime :: runtime_binding where
 "mesh_lite_network_solution_runtime = default_runtime_binding\<lparr>rb_family := Some
     ''brookesia_service'', rb_managed_components := managed [(''mesh_lite'', Some ''*'', None, Some
     ''espressif''), (''brookesia_service_wifi'', Some ''~0.7'', None, None)], rb_codegen_path :=
     Path_BrookesiaManaged\<rparr>"

definition mesh_lite_network_solution :: catalog_solution where
 "mesh_lite_network_solution = \<lparr>sd_id = ''mesh_lite_network_solution'', sd_fixed_orchestration = [],
     sd_variants = [], sd_bundle = \<lparr>cb_required = [''wifi''], cb_optional = []\<rparr>,
     sd_watchdog_ms = None, cs_label = ''ESP-Mesh-Lite Network (Multi-Hop Mesh)'', cs_kind =
     Kind_ConnectivityBridge, cs_supported_modules = [''esp32s3_wroom1'', ''esp32c6_wroom1''],
     cs_fixed_inputs = [In_WifiEvent, In_ServiceCall], cs_fixed_outputs = [Out_WifiPacket,
     Out_NetworkApiState], cs_scheduling = \<lparr>sc_id = ''mesh_event'', sc_label =
     ''Mesh event-driven (topology changes + data)'', sc_decisions =
     [''Root node: STA to router + mesh AP'', ''Non-root: mesh-only, auto-routing'']\<rparr>,
     cs_user_parameters = mesh_lite_network_solution_params, cs_feedback_paths =
     mesh_lite_network_solution_paths, cs_variants = [], cs_runtime_binding =
     mesh_lite_network_solution_runtime, cs_external_contracts = [''ESP-Mesh-Lite protocol''],
     cs_network_topology = Net_Mesh, cs_domain = None, cs_architecture_tier = None, cs_communication_chains
     = None, cs_pin_assignments = None, cs_topology_category = None, cs_family = Some Impl_BrookesiaService,
     cs_form_factor_families = None, cs_control_uplink = None, cs_video_downlink = None, cs_telemetry =
     None, cs_sensor_tier_min = None, cs_required_sensors = [], cs_companion_link = None, cs_actuator_family
     = None, cs_power_rails = None, cs_failsafe = None, cs_chip_coverage = None\<rparr>"

definition bus_sampler_solution_steps :: "orchestration_step list" where
 "bus_sampler_solution_steps = steps [(''bus_init'', ''Initialize CAN (TWAI) and RS485 (UART) drivers'',
     []), (''sd_mount'', ''Mount SD card and open log files'', [''bus_init'']), (''wifi_telemetry'',
     ''Start WiFi STA and HTTP telemetry server'', [])]"

definition bus_sampler_solution_paths :: "solution_path list" where
 "bus_sampler_solution_paths = [\<lparr>sp_source = In_CanBusFrame, sp_transforms = [Tr_CanFrameDecode],
     sp_sink = Out_SdCardWrite, sp_feedback = [Fb_BusErrorAlert]\<rparr>, \<lparr>sp_source = In_Rs485Data,
     sp_transforms = [Tr_Rs485ProtocolDecode], sp_sink = Out_SdCardWrite, sp_feedback =
     [Fb_BusErrorAlert]\<rparr>, \<lparr>sp_source = In_CanBusFrame, sp_transforms = [Tr_OneToMany], sp_sink
     = Out_NetworkApiState, sp_feedback = [Fb_WebStatus]\<rparr>]"

definition bus_sampler_solution_pins :: "pin_assignment list" where
 "bus_sampler_solution_pins = pin_list [(''CAN RX'', 26, [], ''CanBus''), (''CAN TX'', 27, [], ''CanBus''),
     (''RS485 RO'', 21, [], ''Rs485''), (''RS485 DI'', 22, [], ''Rs485''), (''RS485 DE'', 17, [],
     ''Rs485''), (''SD CS'', 13, [], ''Spi''), (''VIN ADC'', 36, [], ''Adc''), (''WS2812'', 4, [], ''Rmt''),
     (''Boot Key'', 0, [], ''Gpio'')]"

definition bus_sampler_solution :: catalog_solution where
 "bus_sampler_solution = \<lparr>sd_id = ''bus_sampler_solution'', sd_fixed_orchestration =
     bus_sampler_solution_steps, sd_variants = [], sd_bundle = \<lparr>cb_required = [''can_bus'',
     ''rs485_bus'', ''uart''], cb_optional = [''wifi'', ''ota'']\<rparr>, sd_watchdog_ms = None, cs_label =
     ''CAN/RS485 Bus Sampler'', cs_kind = Kind_FirmwareAppliance, cs_supported_modules =
     [''esp32_d0wd_v3''], cs_fixed_inputs = [In_CanBusFrame, In_Rs485Data, In_AdcVoltage, In_ButtonGpio],
     cs_fixed_outputs = [Out_SdCardWrite, Out_NetworkApiState, Out_StatusLed, Out_CanBusTx, Out_Rs485Tx],
     cs_scheduling = \<lparr>sc_id = ''dual_core_bus'', sc_label = ''Dual-core bus sampling'', sc_decisions
     = [''CAN RX task pinned to core 1'', ''RS485 RX + WiFi on core 0'', ''SD flush on 5s timer'']\<rparr>,
     cs_user_parameters = [], cs_feedback_paths = bus_sampler_solution_paths, cs_variants = [],
     cs_runtime_binding = brookesia_wifi_binding\<lparr>rb_board_assembly := Some ''esp32_can485_devboard'',
     rb_managed_components := rb_managed_components brookesia_wifi_binding @ managed [(''led_strip'', Some
     ''^2'', None, Some ''espressif'')]\<rparr>, cs_external_contracts = [], cs_network_topology = Net_Star,
     cs_domain = Some Dom_IotDeviceTooling, cs_architecture_tier = None, cs_communication_chains = None,
     cs_pin_assignments = Some bus_sampler_solution_pins, cs_topology_category = None, cs_family = None,
     cs_form_factor_families = None, cs_control_uplink = None, cs_video_downlink = None, cs_telemetry =
     None, cs_sensor_tier_min = None, cs_required_sensors = [], cs_companion_link = None, cs_actuator_family
     = None, cs_power_rails = None, cs_failsafe = None, cs_chip_coverage = None\<rparr>"

definition ld2410_presence_solution_steps :: "orchestration_step list" where
 "ld2410_presence_solution_steps = steps [(''init_uart'', ''Initialize UART2 for LD2410 at 256000 baud'',
     []), (''configure_ld2410'', ''Send config frames: sensitivity, max distance, timeout'',
     [''init_uart'']), (''detect_presence_loop'', ''Parse data frames '' @ utf8 [226, 134, 146] @
     '' presence + distance events'', [''configure_ld2410'']), (''publish_events'',
     ''Publish presence + distance to HA / MQTT'', [''detect_presence_loop''])]"

definition ld2410_presence_solution_params :: "user_parameter list" where
 "ld2410_presence_solution_params = [\<lparr>up_id = ''sensitivity_level'', up_label = ''Sensitivity'',
     up_required = False, up_secret = False, up_default_value = Some (JStr ''medium''), up_enum_values =
     Some (enum_options [(''low'', ''Low''), (''medium'', ''Medium''), (''high'', ''High'')]), up_depends_on
     = None\<rparr>, \<lparr>up_id = ''max_detection_cm'', up_label = ''Max Detection Range (cm)'',
     up_required = False, up_secret = False, up_default_value = Some (JStr ''600''), up_enum_values = Some
     (enum_options [(''200'', ''2 m (desk-scale)''), (''400'', ''4 m (room-scale)''), (''600'',
     ''6 m (full range)'')]), up_depends_on = None\<rparr>, \<lparr>up_id = ''presence_timeout_s'', up_label
     = ''Clear Timeout (s)'', up_required = False, up_secret = False, up_default_value = Some (JStr ''5''),
     up_enum_values = None, up_depends_on = None\<rparr>, uplink_protocol_param]"

definition ld2410_presence_solution_paths :: "solution_path list" where
 "ld2410_presence_solution_paths = [\<lparr>sp_source = In_UartSensor, sp_transforms =
     [Tr_UartProtocolParse, Tr_Threshold, Tr_Debounce], sp_sink = Out_NetworkApiState, sp_feedback =
     [Fb_LedIndicator, Fb_ApiState]\<rparr>]"

definition ld2410_presence_solution :: catalog_solution where
 "ld2410_presence_solution = \<lparr>sd_id = ''ld2410_presence_solution'', sd_fixed_orchestration =
     ld2410_presence_solution_steps, sd_variants = [], sd_bundle = \<lparr>cb_required = [''uart'',
     ''sensor'', ''wifi''], cb_optional = [''ota'', ''api'', ''mqtt'']\<rparr>, sd_watchdog_ms = None,
     cs_label = ''LD2410 mmWave Presence Sensor'', cs_kind = Kind_FirmwareAppliance, cs_supported_modules =
     [''esp32s3_wroom1'', ''esp32c6_wroom1''], cs_fixed_inputs = [In_UartSensor, In_TimerTick],
     cs_fixed_outputs = [Out_NetworkApiState, Out_StatusLed], cs_scheduling = \<lparr>sc_id =
     ''event_driven_presence'', sc_label = ''Event-driven presence detection'', sc_decisions =
     [''LD2410 UART frames at ~10 Hz; debounce with presence_timeout_s'',
     ''Only publish on state change or periodic heartbeat'']\<rparr>, cs_user_parameters =
     ld2410_presence_solution_params, cs_feedback_paths = ld2410_presence_solution_paths, cs_variants = [],
     cs_runtime_binding = brookesia_wifi_binding, cs_external_contracts = [], cs_network_topology =
     Net_Star, cs_domain = Some Dom_IotDeviceTooling, cs_architecture_tier = None, cs_communication_chains =
     None, cs_pin_assignments = Some iot_ld2410_pins, cs_topology_category = None, cs_family = Some
     Impl_BrookesiaService, cs_form_factor_families = None, cs_control_uplink = None, cs_video_downlink =
     None, cs_telemetry = None, cs_sensor_tier_min = None, cs_required_sensors = [], cs_companion_link =
     None, cs_actuator_family = None, cs_power_rails = None, cs_failsafe = None, cs_chip_coverage =
     None\<rparr>"

definition ct_clamp_power_monitor_solution_steps :: "orchestration_step list" where
 "ct_clamp_power_monitor_solution_steps = steps [(''init_adc'',
     ''Initialize ADC (ADC1 continuous mode, 12-bit)'', []), (''calibrate_offset'',
     ''Calibrate DC offset from 1-second idle sample'', [''init_adc'']), (''measure_rms_loop'',
     ''Sample at sample_rate_hz, compute true-RMS per phase'', [''calibrate_offset'']), (''publish_power'',
     ''Publish current / voltage / apparent power / energy counters'', [''measure_rms_loop''])]"

definition ct_clamp_power_monitor_solution_params :: "user_parameter list" where
 "ct_clamp_power_monitor_solution_params = [\<lparr>up_id = ''ct_ratio_a_to_ma'', up_label =
     ''CT Ratio (primary A : secondary mA)'', up_required = True, up_secret = False, up_default_value = Some
     (JStr ''100:50''), up_enum_values = Some (enum_options [(''20:25'', ''20A:25mA (low range)''),
     (''100:50'', ''100A:50mA (SCT-013-000)''), (''200:100'', ''200A:100mA'')]), up_depends_on =
     None\<rparr>, \<lparr>up_id = ''burden_resistor_ohm'', up_label = ''Burden Resistor ('' @ utf8 [206,
     169] @ '')'', up_required = False, up_secret = False, up_default_value = Some (JStr ''22''),
     up_enum_values = None, up_depends_on = None\<rparr>, \<lparr>up_id = ''sample_rate_hz'', up_label =
     ''ADC Sample Rate (Hz)'', up_required = False, up_secret = False, up_default_value = Some (JStr
     ''50''), up_enum_values = Some (enum_options [(''50'', ''50 Hz (coarse)''), (''200'', ''200 Hz''),
     (''500'', ''500 Hz (fine)'')]), up_depends_on = None\<rparr>, \<lparr>up_id = ''phases'', up_label =
     ''Phase Count'', up_required = False, up_secret = False, up_default_value = Some (JStr ''1''),
     up_enum_values = Some (enum_options [(''1'', ''Single-phase''), (''3'', ''Three-phase'')]),
     up_depends_on = None\<rparr>, \<lparr>up_id = ''report_interval_s'', up_label =
     ''Report Interval (s)'', up_required = False, up_secret = False, up_default_value = Some (JStr ''10''),
     up_enum_values = None, up_depends_on = None\<rparr>, uplink_protocol_param]"

definition ct_clamp_power_monitor_solution_paths :: "solution_path list" where
 "ct_clamp_power_monitor_solution_paths = [\<lparr>sp_source = In_AdcVoltage, sp_transforms =
     [Tr_Calibration, Tr_Filter, Tr_Normalization, Tr_PeriodicTask], sp_sink = Out_NetworkApiState,
     sp_feedback = [Fb_ApiState, Fb_RuntimeMetrics]\<rparr>]"

definition ct_clamp_power_monitor_solution :: catalog_solution where
 "ct_clamp_power_monitor_solution = \<lparr>sd_id = ''ct_clamp_power_monitor_solution'',
     sd_fixed_orchestration = ct_clamp_power_monitor_solution_steps, sd_variants = [], sd_bundle =
     \<lparr>cb_required = [''adc'', ''sensor'', ''wifi''], cb_optional = [''ota'', ''api'',
     ''mqtt'']\<rparr>, sd_watchdog_ms = None, cs_label = ''CT-Clamp Power Monitor'', cs_kind =
     Kind_FirmwareAppliance, cs_supported_modules = [''esp32s3_wroom1'', ''esp32c6_wroom1''],
     cs_fixed_inputs = [In_AdcVoltage, In_TimerTick], cs_fixed_outputs = [Out_NetworkApiState],
     cs_scheduling = \<lparr>sc_id = ''periodic_rms'', sc_label = ''Periodic RMS sampling + report'',
     sc_decisions = [''ADC at 50'' @ utf8 [226, 128, 147] @
     ''500 Hz per phase; RMS window 20 ms (50 Hz) or 16.6 ms (60 Hz)'',
     ''Report at report_interval_s; aggregate min/max/avg between reports'']\<rparr>, cs_user_parameters =
     ct_clamp_power_monitor_solution_params, cs_feedback_paths = ct_clamp_power_monitor_solution_paths,
     cs_variants = [], cs_runtime_binding = brookesia_wifi_binding\<lparr>rb_codegen_path :=
     Path_SelfHosted\<rparr>, cs_external_contracts = [], cs_network_topology = Net_Star, cs_domain = Some
     Dom_IotDeviceTooling, cs_architecture_tier = None, cs_communication_chains = None, cs_pin_assignments =
     Some iot_ct_clamp_pins, cs_topology_category = None, cs_family = Some Impl_Custom,
     cs_form_factor_families = None, cs_control_uplink = None, cs_video_downlink = None, cs_telemetry =
     None, cs_sensor_tier_min = None, cs_required_sensors = [], cs_companion_link = None, cs_actuator_family
     = None, cs_power_rails = None, cs_failsafe = None, cs_chip_coverage = None\<rparr>"

definition air_quality_pm_station_solution_steps :: "orchestration_step list" where
 "air_quality_pm_station_solution_steps = steps [(''init_pms'', ''Initialize PMS5003 UART + SET pin'', []),
     (''init_scd40'', ''Initialize SCD40 I'' @ utf8 [194, 178] @ ''C + set pressure/altitude compensation'',
     []), (''sample_combined_loop'', ''Read PM + CO'' @ utf8 [226, 130, 130] @
     ''/T/RH on sample_interval_s cadence'', [''init_pms'', ''init_scd40'']), (''publish_air_quality'',
     ''Publish readings (raw or AQI-derived) to HA / MQTT'', [''sample_combined_loop''])]"

definition air_quality_pm_station_solution_params :: "user_parameter list" where
 "air_quality_pm_station_solution_params = [\<lparr>up_id = ''pms_wake_cycle_s'', up_label =
     ''PMS Wake Cycle (s)'', up_required = False, up_secret = False, up_default_value = Some (JStr ''60''),
     up_enum_values = Some (enum_options [(''0'', ''Continuous''), (''60'', ''60 s''), (''300'',
     ''5 min'')]), up_depends_on = None\<rparr>, \<lparr>up_id = ''scd_altitude_m'', up_label =
     ''Installation Altitude (m)'', up_required = False, up_secret = False, up_default_value = Some (JStr
     ''0''), up_enum_values = None, up_depends_on = None\<rparr>, \<lparr>up_id = ''ambient_pressure_mbar'',
     up_label = ''Ambient Pressure (mbar)'', up_required = False, up_secret = False, up_default_value = Some
     (JStr ''1013''), up_enum_values = None, up_depends_on = None\<rparr>, \<lparr>up_id =
     ''sample_interval_s'', up_label = ''Sample Interval (s)'', up_required = False, up_secret = False,
     up_default_value = Some (JStr ''30''), up_enum_values = None, up_depends_on = None\<rparr>,
     \<lparr>up_id = ''publish_format'', up_label = ''Publish Format'', up_required = False, up_secret =
     False, up_default_value = Some (JStr ''raw''), up_enum_values = Some (enum_options [(''raw'', ''Raw (''
     @ utf8 [194, 181] @ ''g/m'' @ utf8 [194, 179] @ '', ppm)''), (''aqi_derived'', ''Raw + AQI'')]),
     up_depends_on = None\<rparr>, uplink_protocol_param]"

definition air_quality_pm_station_solution_paths :: "solution_path list" where
 "air_quality_pm_station_solution_paths = [\<lparr>sp_source = In_I2cSensor, sp_transforms =
     [Tr_SensorFrameDecode, Tr_Filter, Tr_PeriodicTask], sp_sink = Out_NetworkApiState, sp_feedback =
     [Fb_LedIndicator, Fb_ApiState]\<rparr>]"

definition air_quality_pm_station_solution :: catalog_solution where
 "air_quality_pm_station_solution = \<lparr>sd_id = ''air_quality_pm_station_solution'',
     sd_fixed_orchestration = air_quality_pm_station_solution_steps, sd_variants = [], sd_bundle =
     \<lparr>cb_required = [''uart'', ''i2c'', ''sensor'', ''wifi''], cb_optional = [''ota'', ''api'',
     ''mqtt'']\<rparr>, sd_watchdog_ms = None, cs_label = ''Air Quality Station (PM + CO'' @ utf8 [226, 130,
     130] @ '')'', cs_kind = Kind_FirmwareAppliance, cs_supported_modules = [''esp32s3_wroom1'',
     ''esp32c6_wroom1''], cs_fixed_inputs = [In_UartSensor, In_I2cSensor, In_TimerTick], cs_fixed_outputs =
     [Out_NetworkApiState], cs_scheduling = \<lparr>sc_id = ''air_quality_poll'', sc_label =
     ''Combined PM + CO'' @ utf8 [226, 130, 130] @ '' polling + publish'', sc_decisions =
     [''PMS5003 wake_cycle_s = 0 '' @ utf8 [226, 134, 146] @ '' continuous fan; >0 '' @ utf8 [226, 134, 146]
     @ '' duty-cycled'', ''SCD40 samples at 5-second cadence (sensor limit)'']\<rparr>, cs_user_parameters =
     air_quality_pm_station_solution_params, cs_feedback_paths = air_quality_pm_station_solution_paths,
     cs_variants = [], cs_runtime_binding = brookesia_wifi_binding, cs_external_contracts = [],
     cs_network_topology = Net_Star, cs_domain = Some Dom_IotDeviceTooling, cs_architecture_tier = None,
     cs_communication_chains = None, cs_pin_assignments = Some iot_air_quality_pins, cs_topology_category =
     None, cs_family = Some Impl_BrookesiaService, cs_form_factor_families = None, cs_control_uplink = None,
     cs_video_downlink = None, cs_telemetry = None, cs_sensor_tier_min = None, cs_required_sensors = [],
     cs_companion_link = None, cs_actuator_family = None, cs_power_rails = None, cs_failsafe = None,
     cs_chip_coverage = None\<rparr>"

definition lorawan_gateway_solution_steps :: "orchestration_step list" where
 "lorawan_gateway_solution_steps = steps [(''init_sx1302'',
     ''Initialize SX1302 SPI, load firmware, reset sequence'', []), (''load_channel_plan'',
     ''Load regional channel plan (8 channels)'', [''init_sx1302'']), (''rx_loop'',
     ''Continuous 8-channel RX + packet deduplication'', [''load_channel_plan'']), (''uplink_to_ns'',
     ''Forward uplinks to Network Server via Semtech UDP protocol'', [''rx_loop'']), (''downlink_schedule'',
     ''Schedule downlinks from NS on class-A RX windows'', [''uplink_to_ns''])]"

definition lorawan_gateway_solution_params :: "user_parameter list" where
 "lorawan_gateway_solution_params = [\<lparr>up_id = ''region'', up_label = ''LoRaWAN Region'', up_required
     = True, up_secret = False, up_default_value = Some (JStr ''eu868''), up_enum_values = Some
     (enum_options [(''eu868'', ''EU868''), (''us915'', ''US915''), (''cn470'', ''CN470''), (''as923'',
     ''AS923''), (''au915'', ''AU915'')]), up_depends_on = None\<rparr>, \<lparr>up_id =
     ''network_server_url'', up_label = ''Network Server URL'', up_required = True, up_secret = True,
     up_default_value = None, up_enum_values = None, up_depends_on = None\<rparr>, \<lparr>up_id =
     ''gateway_eui'', up_label = ''Gateway EUI'', up_required = False, up_secret = True, up_default_value =
     None, up_enum_values = None, up_depends_on = None\<rparr>, \<lparr>up_id = ''keepalive_interval_s'',
     up_label = ''Keepalive Interval (s)'', up_required = False, up_secret = False, up_default_value = Some
     (JStr ''10''), up_enum_values = None, up_depends_on = None\<rparr>]"

definition lorawan_gateway_solution_paths :: "solution_path list" where
 "lorawan_gateway_solution_paths = [\<lparr>sp_source = In_SpiSensor, sp_transforms = [Tr_SensorFrameDecode,
     Tr_Filter, Tr_ProtobufEncode], sp_sink = Out_NetworkApiState, sp_feedback = [Fb_RuntimeMetrics,
     Fb_LedIndicator]\<rparr>]"

definition lorawan_gateway_solution :: catalog_solution where
 "lorawan_gateway_solution = \<lparr>sd_id = ''lorawan_gateway_solution'', sd_fixed_orchestration =
     lorawan_gateway_solution_steps, sd_variants = [], sd_bundle = \<lparr>cb_required = [''spi'',
     ''wifi''], cb_optional = [''ota'', ''api'']\<rparr>, sd_watchdog_ms = None, cs_label =
     ''LoRaWAN Gateway (SX1302)'', cs_kind = Kind_ConnectivityBridge, cs_supported_modules =
     [''esp32s3_wroom1''], cs_fixed_inputs = [In_SpiSensor, In_TimerTick], cs_fixed_outputs =
     [Out_NetworkApiState, Out_SpiMasterWrite], cs_scheduling = \<lparr>sc_id = ''packet_forwarder'',
     sc_label = ''Continuous packet forwarder'', sc_decisions =
     [''Semtech UDP protocol (eu868/us915/cn470/as923/au915 selectable)'',
     ''Class-A devices: downlink within 1 s / 2 s RX1 / RX2 windows'',
     ''Keepalive to NS at keepalive_interval_s'']\<rparr>, cs_user_parameters =
     lorawan_gateway_solution_params, cs_feedback_paths = lorawan_gateway_solution_paths, cs_variants = [],
     cs_runtime_binding = brookesia_wifi_binding\<lparr>rb_codegen_path := Path_SelfHosted\<rparr>,
     cs_external_contracts = [''Semtech UDP Packet Forwarder Protocol''], cs_network_topology = Net_Star,
     cs_domain = Some Dom_IotDeviceTooling, cs_architecture_tier = None, cs_communication_chains = None,
     cs_pin_assignments = Some iot_sx1302_pins, cs_topology_category = None, cs_family = Some Impl_Custom,
     cs_form_factor_families = None, cs_control_uplink = None, cs_video_downlink = None, cs_telemetry =
     None, cs_sensor_tier_min = None, cs_required_sensors = [], cs_companion_link = None, cs_actuator_family
     = None, cs_power_rails = None, cs_failsafe = None, cs_chip_coverage = None\<rparr>"

section \<open>All of them\<close>

definition solutions_4 :: "catalog_solution list" where
  "solutions_4 = [solution_env_data_logger,
     solution_thread_zigbee_sensor,
     solution_zigbee_thread_gateway,
     solution_uart_debug_probe,
     solution_i2c_bus_analyzer,
     solution_sigrok_logic_analyzer,
     solution_dashboard_display,
     solution_status_led_notifier,
     mesh_lite_network_solution,
     bus_sampler_solution,
     ld2410_presence_solution,
     ct_clamp_power_monitor_solution,
     air_quality_pm_station_solution,
     lorawan_gateway_solution]"

end
