(* ===== verification/Assembly.thy ===== *)
theory Assembly
  imports Platform F64
begin

text \<open>
  Hardware modules (\<open>rshome-schema/src/module.rs\<close>) and hardware assemblies
  (\<open>rshome-schema/src/assembly.rs\<close>): their registries and the assembly the code derives for a
  module from its capabilities and constraints. The shipped assemblies are in the theory
  \<open>Boards\<close>. Descriptions and translations are left out.

  The lemmas characterise the derived peripherals; the property shows that a derived assembly is
  well formed for every module, whatever its capabilities and constraints say.
\<close>

section \<open>Modules\<close>

record module_def =
  md_id :: string
  md_label :: string
  md_target :: chip_target
  md_hardware_caps :: "capability list"
  md_constraints :: "string list"
  md_compatible_solutions :: "string list"
  md_domain :: "domain_kind option"

type_synonym module_registry = "(string \<times> module_def) list"

definition module_register :: "module_def \<Rightarrow> module_registry \<Rightarrow> module_registry" where
  "module_register m reg = bt_insert (md_id m) m reg"

definition module_get :: "module_registry \<Rightarrow> string \<Rightarrow> module_def option" where
  "module_get reg i = map_of reg i"

definition modules_for_target :: "module_registry \<Rightarrow> chip_target \<Rightarrow> module_def list" where
  "modules_for_target reg t = filter (\<lambda>m. md_target m = t) (map snd reg)"

definition module_esp32s3_wroom1 :: module_def where
  "module_esp32s3_wroom1 =
     \<lparr>md_id = ''esp32s3_wroom1'', md_label = ''ESP32-S3-WROOM-1'', md_target = Esp32S3,
      md_hardware_caps = [Cap_DualCoreCpu, Cap_Wifi, Cap_Ble, Cap_Gpio, Cap_I2c, Cap_Spi, Cap_Uart, Cap_I2s, Cap_Adc,
        Cap_Ledc, Cap_Mcpwm, Cap_Touch, Cap_UsbOtg, Cap_Camera, Cap_Psram, Cap_Rmt, Cap_MotorControl, Cap_Imu,
        Cap_FailsafeStop, Cap_ApSta, Cap_Bridge, Cap_LongRange, Cap_Csi, Cap_EspNow, Cap_MeshLite, Cap_AudioI2s],
      md_constraints = [''GPIO 26-32 used by flash (Quad SPI)'',
        ''GPIO 33-37 used by PSRAM (Octal SPI) when 8MB PSRAM variant''],
      md_compatible_solutions = [], md_domain = None\<rparr>"

definition module_esp32s3_mini1 :: module_def where
  "module_esp32s3_mini1 =
     \<lparr>md_id = ''esp32s3_mini1'', md_label = ''ESP32-S3-MINI-1'', md_target = Esp32S3,
      md_hardware_caps = [Cap_DualCoreCpu, Cap_Wifi, Cap_Ble, Cap_Gpio, Cap_I2c, Cap_Spi, Cap_Uart, Cap_I2s, Cap_Adc,
        Cap_Ledc, Cap_Mcpwm, Cap_Touch, Cap_UsbOtg, Cap_Camera, Cap_Psram, Cap_Rmt, Cap_MotorControl, Cap_Imu,
        Cap_FailsafeStop, Cap_ApSta, Cap_Bridge, Cap_LongRange, Cap_Csi, Cap_EspNow, Cap_MeshLite, Cap_AudioI2s],
      md_constraints = [''Fewer exposed GPIOs than WROOM-1 due to smaller package'',
        ''8MB flash + 2MB PSRAM (fixed, not configurable)''],
      md_compatible_solutions = [], md_domain = None\<rparr>"

definition module_esp32c6_wroom1 :: module_def where
  "module_esp32c6_wroom1 =
     \<lparr>md_id = ''esp32c6_wroom1'', md_label = ''ESP32-C6-WROOM-1'', md_target = Esp32C6,
      md_hardware_caps = [Cap_SingleCoreCpu, Cap_Wifi, Cap_Ble, Cap_Thread, Cap_Zigbee, Cap_Gpio, Cap_I2c, Cap_Spi,
        Cap_Uart, Cap_I2s, Cap_Adc, Cap_Ledc, Cap_Rmt, Cap_EspNow, Cap_MeshLite],
      md_constraints = [''No PSRAM'', ''No MCPWM (use LEDC for PWM)'', ''No camera DVP interface''],
      md_compatible_solutions = [], md_domain = None\<rparr>"

definition module_esp32c6_mini1 :: module_def where
  "module_esp32c6_mini1 =
     \<lparr>md_id = ''esp32c6_mini1'', md_label = ''ESP32-C6-MINI-1'', md_target = Esp32C6,
      md_hardware_caps = [Cap_SingleCoreCpu, Cap_Wifi, Cap_Ble, Cap_Thread, Cap_Zigbee, Cap_Gpio, Cap_I2c, Cap_Spi,
        Cap_Uart, Cap_I2s, Cap_Adc, Cap_Ledc, Cap_Rmt, Cap_EspNow, Cap_MeshLite],
      md_constraints = [''Fewer exposed GPIOs than WROOM-1'', ''No PSRAM''],
      md_compatible_solutions = [], md_domain = None\<rparr>"

definition module_esp32_d0wd_v3 :: module_def where
  "module_esp32_d0wd_v3 =
     \<lparr>md_id = ''esp32_d0wd_v3'', md_label = ''ESP32-D0WD-V3'', md_target = Esp32,
      md_hardware_caps = [Cap_DualCoreCpu, Cap_Wifi, Cap_Ble, Cap_Gpio, Cap_I2c, Cap_Spi, Cap_Uart, Cap_I2s, Cap_Adc,
        Cap_Ledc, Cap_Mcpwm, Cap_Touch, Cap_Rmt, Cap_CanBus, Cap_Rs485, Cap_EspNow],
      md_constraints = [''GPIO 6-11 used by internal flash (do not use)'', ''GPIO 34-39 are input-only'',
        ''No USB-OTG (uses CH343P USB-UART bridge)'', ''No PSRAM on D0WD-V3 variant''],
      md_compatible_solutions = [], md_domain = None\<rparr>"

definition shipped_modules :: "module_def list" where
  "shipped_modules = [module_esp32s3_wroom1, module_esp32s3_mini1, module_esp32c6_wroom1, module_esp32c6_mini1,
     module_esp32_d0wd_v3]"

definition default_module_registry :: module_registry where
  "default_module_registry = fold module_register shipped_modules []"

section \<open>Assemblies\<close>

record peripheral_decl =
  pd_name :: string
  pd_periph_type :: string
  pd_role :: string
  pd_config :: "(string \<times> json) list"

record device_decl =
  dd_name :: string
  dd_device_type :: string
  dd_peripherals :: "string list"
  dd_config :: "(string \<times> json) list"
  dd_dependencies :: "string list"

record assembly =
  as_id :: string
  as_label :: string
  as_target :: chip_target
  as_modules :: "string list"
  as_peripherals :: "peripheral_decl list"
  as_devices :: "device_decl list"
  as_hal_contracts :: "string list"

type_synonym assembly_registry = "(string \<times> assembly) list"

definition assembly_register :: "assembly \<Rightarrow> assembly_registry \<Rightarrow> assembly_registry" where
  "assembly_register a reg = bt_insert (as_id a) a reg"

definition assembly_get :: "assembly_registry \<Rightarrow> string \<Rightarrow> assembly option" where
  "assembly_get reg i = map_of reg i"

definition assemblies_for_target :: "assembly_registry \<Rightarrow> chip_target \<Rightarrow> assembly list" where
  "assemblies_for_target reg t = filter (\<lambda>a. as_target a = t) (map snd reg)"

section \<open>The assembly of a module\<close>

text \<open>\<open>str::parse::<u32>\<close> on a piece that holds only digits.\<close>

definition parse_u32_digits :: "string \<Rightarrow> u32 option" where
  "parse_u32_digits s = (if s \<noteq> [] \<and> digits_value s < 2 ^ 32 then Some (of_nat (digits_value s)) else None)"

definition extract_gpio_pins :: "string \<Rightarrow> u32 list" where
  "extract_gpio_pins constraint =
     (case split_once ''GPIO '' constraint of
        None \<Rightarrow> []
      | Some (_, after) \<Rightarrow>
          (let token = takeWhile (\<lambda>c. is_digit c \<or> c = CHR ''/'' \<or> c = CHR ''-'') after
           in List.map_filter parse_u32_digits (concat (map (split_on CHR ''-'') (split_on CHR ''/'' token)))))"

fun capability_to_peripheral :: "capability \<Rightarrow> (string \<times> string \<times> string) option" where
  "capability_to_peripheral Cap_Gpio = Some (''gpio'', ''output'', ''gpio_0'')"
| "capability_to_peripheral Cap_I2c = Some (''i2c'', ''master'', ''i2c_master_0'')"
| "capability_to_peripheral Cap_Spi = Some (''spi'', ''master'', ''spi_master_0'')"
| "capability_to_peripheral Cap_Uart = Some (''uart'', ''bidirectional'', ''uart_0'')"
| "capability_to_peripheral Cap_Adc = Some (''adc'', ''input'', ''adc_0'')"
| "capability_to_peripheral Cap_Camera = Some (''camera'', ''data_bus'', ''camera_0'')"
| "capability_to_peripheral Cap_Mcpwm = Some (''mcpwm'', ''motor_driver'', ''mcpwm_0'')"
| "capability_to_peripheral Cap_Ledc = Some (''ledc'', ''pwm'', ''ledc_0'')"
| "capability_to_peripheral Cap_I2s = Some (''i2s'', ''master'', ''i2s_0'')"
| "capability_to_peripheral Cap_Imu = Some (''imu'', ''sensor'', ''imu_0'')"
| "capability_to_peripheral Cap_FailsafeStop = Some (''failsafe'', ''controller'', ''failsafe_0'')"
| "capability_to_peripheral Cap_MotorControl = Some (''vehicle_control'', ''controller'', ''vehicle_ctrl_0'')"
| "capability_to_peripheral Cap_ApSta = Some (''gateway_bridge'', ''bridge'', ''gateway_0'')"
| "capability_to_peripheral Cap_LongRange = Some (''lr_comm'', ''link'', ''lr_link_0'')"
| "capability_to_peripheral Cap_Csi = Some (''csi'', ''sensor'', ''csi_0'')"
| "capability_to_peripheral _ = None"

definition device_types :: "(string \<times> string) list" where
  "device_types =
     [(''gpio'', ''gpio_ctrl''), (''i2c'', ''i2c_sensor''), (''spi'', ''spi_device''), (''uart'', ''uart_device''),
      (''adc'', ''adc_reader''), (''camera'', ''camera_capture''), (''mcpwm'', ''motor_driver''), (''ledc'', ''ledc_pwm''),
      (''i2s'', ''i2s_device''), (''imu'', ''imu_sensor''), (''failsafe'', ''failsafe_ctrl''),
      (''vehicle_control'', ''vehicle_ctrl''), (''gateway_bridge'', ''gateway_bridge''), (''lr_comm'', ''lr_link''),
      (''csi'', ''csi_sensor'')]"

definition periph_to_device_type :: "string \<Rightarrow> string" where
  "periph_to_device_type t = (case map_of device_types t of Some d \<Rightarrow> d | None \<Rightarrow> ''generic_device'')"

fun capability_to_hal_contract :: "capability \<Rightarrow> string option" where
  "capability_to_hal_contract Cap_Gpio = Some ''gpio_output''"
| "capability_to_hal_contract Cap_I2c = Some ''i2c_sensor''"
| "capability_to_hal_contract Cap_Spi = Some ''spi_device''"
| "capability_to_hal_contract Cap_Uart = Some ''uart_port''"
| "capability_to_hal_contract Cap_Adc = Some ''adc_input''"
| "capability_to_hal_contract Cap_Camera = Some ''camera_capture''"
| "capability_to_hal_contract Cap_MotorControl = Some ''motor_control''"
| "capability_to_hal_contract Cap_Imu = Some ''imu_sensor''"
| "capability_to_hal_contract Cap_FailsafeStop = Some ''failsafe_stop''"
| "capability_to_hal_contract Cap_Ledc = Some ''ledc_pwm''"
| "capability_to_hal_contract _ = None"

text \<open>Step 1: one peripheral for each type of peripheral, with the settings of its type.\<close>

definition default_config :: "string \<Rightarrow> (string \<times> json) list" where
  "default_config t =
     (if t = ''i2c'' then [(''freq_hz'', JNum (PosInt 400000))]
      else if t = ''uart'' then [(''baudrate'', JNum (PosInt 115200))] else [])"

definition add_peripheral :: "capability \<Rightarrow> peripheral_decl list \<times> string set \<Rightarrow> peripheral_decl list \<times> string set" where
  "add_peripheral cap st =
     (case capability_to_peripheral cap of
        None \<Rightarrow> st
      | Some (t, role, name) \<Rightarrow>
          (case st of (ps, seen) \<Rightarrow>
             if t \<in> seen then st
             else (ps @ [\<lparr>pd_name = name, pd_periph_type = t, pd_role = role, pd_config = default_config t\<rparr>], insert t seen)))"

definition derive_peripherals :: "capability list \<Rightarrow> peripheral_decl list" where
  "derive_peripherals caps = fst (fold add_peripheral caps ([], {}))"

text \<open>Step 2: settings from constraints. \<open>find\<close> and update of the first peripheral of a type.\<close>

fun configure :: "string \<Rightarrow> (string \<times> u32) list \<Rightarrow> peripheral_decl list \<Rightarrow> peripheral_decl list" where
  "configure t kvs [] = []"
| "configure t kvs (p # ps) =
     (if pd_periph_type p = t
      then p\<lparr>pd_config := fold (\<lambda>(k, n). bt_insert k (JNum (PosInt (ucast n)))) kvs (pd_config p)\<rparr> # ps
      else p # configure t kvs ps)"

text \<open>Lower case matters only for the words looked for, which no character outside ASCII is
  lowered into.\<close>

definition enrich :: "string \<Rightarrow> peripheral_decl list \<Rightarrow> peripheral_decl list" where
  "enrich constraint ps =
     (case extract_gpio_pins constraint of
        [] \<Rightarrow> ps
      | a # rest \<Rightarrow>
          (let lower = to_lower constraint;
               range = (case rest of b # _ \<Rightarrow> [(''pin_start'', a), (''pin_end'', b)] | [] \<Rightarrow> [])
           in if contains ''i2c'' lower \<and> rest \<noteq> [] then configure ''i2c'' [(''sda'', a), (''scl'', hd rest)] ps
              else if contains ''mcpwm'' lower \<or> contains ''motor'' lower then configure ''mcpwm'' range ps
              else if contains ''camera'' lower then configure ''camera'' range ps
              else if contains ''usb'' lower then ps
              else if contains ''failsafe'' lower \<or> contains ''relay'' lower then configure ''gpio'' [(''pin'', a)] ps
              else ps))"

text \<open>Step 3: a device for each peripheral.\<close>

definition device_of :: "peripheral_decl \<Rightarrow> device_decl" where
  "device_of p =
     (let t = periph_to_device_type (pd_periph_type p)
      in \<lparr>dd_name = t @ ''_0'', dd_device_type = t, dd_peripherals = [pd_name p],
          dd_config = [(''enabled'', JBool True)], dd_dependencies = []\<rparr>)"

text \<open>Step 4: the contracts, as a \<open>BTreeSet\<close>.\<close>

definition hal_contracts :: "capability list \<Rightarrow> string list" where
  "hal_contracts caps = map fst (fold (\<lambda>c. bt_insert c ()) (List.map_filter capability_to_hal_contract caps) [])"

definition from_module :: "module_def \<Rightarrow> assembly" where
  "from_module m =
     (let ps = fold enrich (md_constraints m) (derive_peripherals (md_hardware_caps m))
      in \<lparr>as_id = md_id m @ ''_assembly'', as_label = md_label m @ '' Assembly'', as_target = md_target m,
          as_modules = [md_id m], as_peripherals = ps, as_devices = map device_of ps,
          as_hal_contracts = hal_contracts (md_hardware_caps m)\<rparr>)"

section \<open>Registries\<close>

text \<open>Registering items of different ids one after the other: each is found, and they are listed in
  the order of the ids.\<close>

lemma registered:
  assumes "distinct (map k xs)"
  shows "bt_sorted (fold (\<lambda>x. bt_insert (k x) x) xs []) \<and>
    map_of (fold (\<lambda>x. bt_insert (k x) x) xs []) = map_of (map (\<lambda>x. (k x, x)) xs)"
  using assms
proof (induction xs rule: rev_induct)
  case (snoc x xs)
  have "map_of (map (\<lambda>x. (k x, x)) xs) (k x) = None" using snoc.prems by (auto simp: map_of_eq_None_iff)
  then have "map_of (map (\<lambda>x. (k x, x)) (xs @ [x])) = (map_of (map (\<lambda>x. (k x, x)) xs))(k x \<mapsto> x)"
    by (auto simp: fun_eq_iff map_add_def split: option.split)
  moreover have "bt_sorted (fold (\<lambda>x. bt_insert (k x) x) xs [])"
    "map_of (fold (\<lambda>x. bt_insert (k x) x) xs []) = map_of (map (\<lambda>x. (k x, x)) xs)"
    using snoc by simp_all
  ultimately show ?case by (simp only: fold_append fold_simps comp_def map_of_bt_insert bt_sorted_insert)
qed simp

lemma registered_get:
  assumes "distinct (map k xs)" and "x \<in> set xs"
  shows "map_of (fold (\<lambda>x. bt_insert (k x) x) xs []) (k x) = Some x"
proof -
  have "map fst (map (\<lambda>x. (k x, x)) xs) = map k xs" by simp
  then have "distinct (map fst (map (\<lambda>x. (k x, x)) xs))" using assms(1) by (simp only:)
  moreover have "(k x, x) \<in> set (map (\<lambda>x. (k x, x)) xs)" using assms(2) by simp
  ultimately show ?thesis using registered [OF assms(1)] by (metis map_of_is_SomeI)
qed

lemma registered_items:
  assumes "distinct (map k xs)"
  shows "set (map snd (fold (\<lambda>x. bt_insert (k x) x) xs [])) = set xs"
proof -
  let ?m = "fold (\<lambda>x. bt_insert (k x) x) xs []" and ?l = "map (\<lambda>x. (k x, x)) xs"
  note reg = registered [OF assms]
  have "map fst ?l = map k xs" by simp
  then have d: "distinct (map fst ?l)" using assms by (simp only:)
  have dm: "distinct (map fst ?m)" using reg bt_sorted_distinct by blast
  have "z \<in> set ?m \<longleftrightarrow> z \<in> set ?l" for z
    using map_of_eq_Some_iff [OF d, of "fst z" "snd z"] map_of_eq_Some_iff [OF dm, of "fst z" "snd z"] reg by simp
  then have "set ?m = set ?l" by blast
  then show ?thesis by (force simp: image_iff)
qed

section \<open>Derived peripherals\<close>

definition row :: "peripheral_decl \<Rightarrow> string \<times> string \<times> string" where
  "row p = (pd_periph_type p, pd_role p, pd_name p)"

abbreviation rows_of :: "capability list \<Rightarrow> (string \<times> string \<times> string) set" where
  "rows_of caps \<equiv> {r. \<exists>c \<in> set caps. capability_to_peripheral c = Some r}"

text \<open>The rows of the table of capabilities: type, role and name.\<close>

definition all_rows :: "(string \<times> string \<times> string) list" where
  "all_rows = List.map_filter capability_to_peripheral
     [Cap_Gpio, Cap_I2c, Cap_Spi, Cap_Uart, Cap_Adc, Cap_Camera, Cap_Mcpwm, Cap_Ledc, Cap_I2s, Cap_Imu, Cap_FailsafeStop,
      Cap_MotorControl, Cap_ApSta, Cap_LongRange, Cap_Csi]"

lemma capability_row: "capability_to_peripheral c = Some r \<Longrightarrow> r \<in> set all_rows"
  by (cases c) (simp_all add: all_rows_def List.map_filter_simps)

lemma all_rows_keys:
  "distinct (map fst all_rows)" "distinct (map (snd \<circ> snd) all_rows)"
  "distinct (map (periph_to_device_type \<circ> fst) all_rows)"
  by code_simp+

lemma rows_inj:
  "inj_on fst (set all_rows)" "inj_on (snd \<circ> snd) (set all_rows)" "inj_on (periph_to_device_type \<circ> fst) (set all_rows)"
  using all_rows_keys by (simp_all only: distinct_map)

lemma rows_of_rows: "rows_of caps \<subseteq> set all_rows"
  using capability_row by blast

lemma add_peripheral_cases:
  "capability_to_peripheral c = None \<Longrightarrow> add_peripheral c st = st"
  "capability_to_peripheral c = Some (t, role, name) \<Longrightarrow> t \<in> seen \<Longrightarrow> add_peripheral c (ps, seen) = (ps, seen)"
  "capability_to_peripheral c = Some (t, role, name) \<Longrightarrow> t \<notin> seen \<Longrightarrow> add_peripheral c (ps, seen) =
     (ps @ [\<lparr>pd_name = name, pd_periph_type = t, pd_role = role, pd_config = default_config t\<rparr>], insert t seen)"
  by (simp_all add: add_peripheral_def)

lemma derived:
  "fold add_peripheral caps ([], {}) = (ps, seen) \<Longrightarrow>
     distinct (map pd_periph_type ps) \<and> seen = fst ` rows_of caps \<and> row ` set ps = rows_of caps"
proof (induction caps arbitrary: ps seen rule: rev_induct)
  case (snoc c caps)
  obtain ps' seen' where f: "fold add_peripheral caps ([], {}) = (ps', seen')" by fastforce
  note IH = snoc.IH [OF f]
  have types: "fst ` rows_of caps = pd_periph_type ` set ps'"
    using IH by (metis (no_types, lifting) fst_conv image_cong image_image row_def)
  show ?case
  proof (cases "capability_to_peripheral c")
    case None
    then show ?thesis using snoc.prems f IH by (simp add: add_peripheral_cases(1))
  next
    case (Some r)
    obtain t role name where r: "r = (t, role, name)" by (cases r)
    have rows: "rows_of (caps @ [c]) = insert r (rows_of caps)" using Some by auto
    show ?thesis
    proof (cases "t \<in> seen'")
      case True
      then obtain r' where r': "r' \<in> rows_of caps" "fst r' = fst r" using IH r by auto
      then have "r' = r" using rows_inj(1) rows_of_rows capability_row [OF Some] by (metis (no_types, lifting) inj_on_def subsetD)
      then have "insert r (rows_of caps) = rows_of caps" using r'(1) by blast
      then show ?thesis using True snoc.prems f IH Some r rows by (simp add: add_peripheral_cases(2))
    next
      case False
      let ?p = "\<lparr>pd_name = name, pd_periph_type = t, pd_role = role, pd_config = default_config t\<rparr>"
      have ps: "ps = ps' @ [?p]" "seen = insert t seen'"
        using False snoc.prems f Some r by (simp_all add: add_peripheral_cases(3))
      have "row ?p = r" by (simp add: row_def r)
      then have "row ` set ps = insert r (rows_of caps)" using IH ps(1) by simp
      moreover have "distinct (map pd_periph_type ps)" using IH False types ps(1) by simp
      moreover have "seen = fst ` insert r (rows_of caps)" using IH ps(2) r by simp
      ultimately show ?thesis unfolding rows by blast
    qed
  qed
qed simp

lemma configure_rows: "map row (configure t kvs ps) = map row ps"
  by (induction ps) (simp_all add: row_def)

lemma enrich_rows: "map row (enrich c ps) = map row ps"
  by (simp add: enrich_def Let_def configure_rows split: list.split)

lemma fold_enrich_rows: "map row (fold enrich cs ps) = map row ps"
  by (induction cs arbitrary: ps) (simp_all add: enrich_rows)

lemma from_module_rows:
  "distinct (map pd_periph_type (as_peripherals (from_module m)))
   \<and> row ` set (as_peripherals (from_module m)) = rows_of (md_hardware_caps m)"
proof -
  let ?ds = "derive_peripherals (md_hardware_caps m)" and ?ps = "as_peripherals (from_module m)"
  have same: "map row ?ps = map row ?ds" by (simp add: from_module_def Let_def fold_enrich_rows)
  have fst: "map pd_periph_type xs = map fst (map row xs)" for xs by (simp add: row_def)
  show ?thesis
    using derived [of "md_hardware_caps m" ?ds] unfolding fst same
    by (metis (no_types, lifting) derive_peripherals_def fst list.set_map prod.collapse same)
qed

lemma distinct_rows_map:
  assumes "distinct (map pd_periph_type ps)" and "row ` set ps \<subseteq> set all_rows" and "inj_on f (set all_rows)"
  shows "distinct (map (f \<circ> row) ps)"
proof -
  have "distinct (map row ps)" using assms(1) unfolding row_def distinct_map by (auto simp: inj_on_def)
  then show ?thesis using assms(2, 3) by (metis distinct_map inj_on_subset list.set_map map_map)
qed

section \<open>Well-formed assemblies\<close>

text \<open>What the generator of board files relies on: names are unique and devices name declared
  peripherals.\<close>

definition assembly_ok :: "assembly \<Rightarrow> bool" where
  "assembly_ok a \<longleftrightarrow>
     distinct (map pd_name (as_peripherals a)) \<and> distinct (map dd_name (as_devices a))
     \<and> list_all (\<lambda>d. list_all (\<lambda>p. List.member (map pd_name (as_peripherals a)) p) (dd_peripherals d)) (as_devices a)"

lemma hal_contracts_spec:
  "bt_sorted (fold (\<lambda>c. bt_insert c ()) cs []) \<and> fst ` set (fold (\<lambda>c. bt_insert c ()) cs []) = set cs"
proof (induction cs rule: rev_induct)
  case (snoc c cs)
  let ?m = "fold (\<lambda>c. bt_insert c ()) cs []"
  have "bt_sorted (bt_insert c () ?m)" using snoc by (simp add: bt_sorted_insert)
  moreover have "dom (map_of (bt_insert c () ?m)) = insert c (dom (map_of ?m))"
    using snoc by (auto simp: map_of_bt_insert dom_def split: if_splits)
  ultimately show ?case using snoc by (simp add: dom_map_of_conv_image_fst)
qed simp

text \<open>C18. The assembly derived for a module is well formed whatever the module says: one peripheral
  for each type its capabilities map to, named and with the role of the table, one device for each
  peripheral, and the contracts of its capabilities once each in ascending order. Constraints can
  change settings, never the peripherals.\<close>

theorem from_module_well_formed:
  "assembly_ok (from_module m)
   \<and> {(pd_periph_type p, pd_role p, pd_name p) | p. p \<in> set (as_peripherals (from_module m))} =
       {r. \<exists>c \<in> set (md_hardware_caps m). capability_to_peripheral c = Some r}
   \<and> as_devices (from_module m) = map device_of (as_peripherals (from_module m))
   \<and> sorted_wrt (<) (as_hal_contracts (from_module m))
   \<and> set (as_hal_contracts (from_module m)) = {h. \<exists>c \<in> set (md_hardware_caps m). capability_to_hal_contract c = Some h}"
proof -
  let ?ps = "as_peripherals (from_module m)"
  note rows = from_module_rows [of m]
  have sub: "row ` set ?ps \<subseteq> set all_rows" using rows rows_of_rows by simp
  have devices: "as_devices (from_module m) = map device_of ?ps" by (simp add: from_module_def Let_def)
  have "map pd_name ?ps = map ((snd \<circ> snd) \<circ> row) ?ps" by (simp add: row_def)
  then have names: "distinct (map pd_name ?ps)" using distinct_rows_map [OF _ sub rows_inj(2)] rows by metis
  have "distinct (map (periph_to_device_type \<circ> fst \<circ> row) ?ps)"
    using distinct_rows_map [OF _ sub rows_inj(3)] rows by (simp add: comp_assoc)
  then have "distinct (map (\<lambda>p. periph_to_device_type (pd_periph_type p)) ?ps)" by (simp add: row_def comp_def)
  then have "distinct (map dd_name (as_devices (from_module m)))"
    unfolding devices by (auto simp: distinct_map inj_on_def device_of_def Let_def)
  then have "assembly_ok (from_module m)"
    using names unfolding assembly_ok_def devices
    by (auto simp: list_all_iff device_of_def Let_def)
  moreover have "{(pd_periph_type p, pd_role p, pd_name p) | p. p \<in> set ?ps} = row ` set ?ps"
    by (auto simp: row_def image_def)
  moreover have "set (List.map_filter capability_to_hal_contract (md_hardware_caps m)) =
      {h. \<exists>c \<in> set (md_hardware_caps m). capability_to_hal_contract c = Some h}"
    by (auto simp: set_map_filter)
  ultimately show ?thesis
    using rows devices hal_contracts_spec [of "List.map_filter capability_to_hal_contract (md_hardware_caps m)"]
    by (simp add: from_module_def Let_def hal_contracts_def)
qed

end
