(* ===== verification/Boards.thy ===== *)
theory Boards
  imports Assembly
begin

text \<open>
  The hardware assemblies the repository ships: \<open>default_assembly_registry\<close> of
  \<open>rshome-schema/src/assembly.rs\<close>, each with its peripherals and devices. The properties show that
  they are well formed and fit the modules they name.
\<close>

section \<open>Assemblies\<close>

definition esp32s3_gpio_relay_assembly_peripherals :: "peripheral_decl list" where
 "esp32s3_gpio_relay_assembly_peripherals = [\<lparr>pd_name = ''gpio_relay_output'', pd_periph_type =
     ''gpio'', pd_role = ''io'', pd_config = bt_of_list [(''pin'', JNum (PosInt 6)), (''mode'', JStr
     ''GPIO_MODE_OUTPUT''), (''default_level'', JNum (PosInt 0))]\<rparr>]"

definition esp32s3_gpio_relay_assembly_devices :: "device_decl list" where
 "esp32s3_gpio_relay_assembly_devices = [\<lparr>dd_name = ''gpio_ctrl_0'', dd_device_type = ''gpio_ctrl'',
     dd_peripherals = [''gpio_relay_output''], dd_config = bt_of_list [(''enabled'', JBool True),
     (''active_level'', JNum (PosInt 1))], dd_dependencies = []\<rparr>]"

definition esp32s3_gpio_relay_assembly :: "assembly" where
 "esp32s3_gpio_relay_assembly = \<lparr>as_id = ''esp32s3_gpio_relay_assembly'', as_label =
     ''ESP32-S3 GPIO Relay Assembly'', as_target = Esp32S3, as_modules = [''esp32s3_wroom1''],
     as_peripherals = esp32s3_gpio_relay_assembly_peripherals, as_devices =
     esp32s3_gpio_relay_assembly_devices, as_hal_contracts = [''gpio_output'']\<rparr>"

definition esp32s3_i2c_sensor_assembly_peripherals :: "peripheral_decl list" where
 "esp32s3_i2c_sensor_assembly_peripherals = [\<lparr>pd_name = ''i2c_master_0'', pd_periph_type = ''i2c'',
     pd_role = ''master'', pd_config = bt_of_list [(''sda'', JNum (PosInt 8)), (''scl'', JNum (PosInt 9)),
     (''freq_hz'', JNum (PosInt 400000))]\<rparr>]"

definition esp32s3_i2c_sensor_assembly_devices :: "device_decl list" where
 "esp32s3_i2c_sensor_assembly_devices = [\<lparr>dd_name = ''bme280_0'', dd_device_type = ''i2c_sensor'',
     dd_peripherals = [''i2c_master_0''], dd_config = bt_of_list [(''address'', JStr ''0x76''),
     (''sensor_type'', JStr ''bme280'')], dd_dependencies = []\<rparr>]"

definition esp32s3_i2c_sensor_assembly :: "assembly" where
 "esp32s3_i2c_sensor_assembly = \<lparr>as_id = ''esp32s3_i2c_sensor_assembly'', as_label =
     ''ESP32-S3 I2C Sensor Assembly'', as_target = Esp32S3, as_modules = [''esp32s3_wroom1''],
     as_peripherals = esp32s3_i2c_sensor_assembly_peripherals, as_devices =
     esp32s3_i2c_sensor_assembly_devices, as_hal_contracts = [''i2c_sensor'']\<rparr>"

definition esp32_can485_devboard_peripherals :: "peripheral_decl list" where
 "esp32_can485_devboard_peripherals = [\<lparr>pd_name = ''twai_0'', pd_periph_type = ''twai'', pd_role =
     ''controller'', pd_config = bt_of_list [(''rx_pin'', JNum (PosInt 26)), (''tx_pin'', JNum (PosInt
     27))]\<rparr>, \<lparr>pd_name = ''uart1_rs485'', pd_periph_type = ''uart'', pd_role =
     ''rs485_half_duplex'', pd_config = bt_of_list [(''rx_pin'', JNum (PosInt 21)), (''tx_pin'', JNum
     (PosInt 22)), (''de_pin'', JNum (PosInt 17))]\<rparr>, \<lparr>pd_name = ''spi_sd'', pd_periph_type =
     ''spi'', pd_role = ''master'', pd_config = bt_of_list [(''cs_pin'', JNum (PosInt 13)), (''sck_pin'',
     JNum (PosInt 14)), (''mosi_pin'', JNum (PosInt 15)), (''miso_pin'', JNum (PosInt 2))]\<rparr>,
     \<lparr>pd_name = ''adc_vin'', pd_periph_type = ''adc'', pd_role = ''input'', pd_config = bt_of_list
     [(''pin'', JNum (PosInt 36)), (''channel'', JStr ''ADC1_CH0'')]\<rparr>, \<lparr>pd_name = ''rmt_led'',
     pd_periph_type = ''rmt'', pd_role = ''output'', pd_config = bt_of_list [(''pin'', JNum (PosInt
     4))]\<rparr>, \<lparr>pd_name = ''gpio_key'', pd_periph_type = ''gpio'', pd_role = ''input'', pd_config
     = bt_of_list [(''pin'', JNum (PosInt 0)), (''mode'', JStr ''GPIO_MODE_INPUT'')]\<rparr>]"

definition esp32_can485_devboard_devices :: "device_decl list" where
 "esp32_can485_devboard_devices = [\<lparr>dd_name = ''can_0'', dd_device_type = ''can_transceiver'',
     dd_peripherals = [''twai_0''], dd_config = bt_of_list [(''baud_rate'', JNum (PosInt 500000)),
     (''mode'', JStr ''listen_only''), (''transceiver'', JStr ''CA-IS2062A'')], dd_dependencies =
     []\<rparr>, \<lparr>dd_name = ''rs485_0'', dd_device_type = ''rs485_transceiver'', dd_peripherals =
     [''uart1_rs485''], dd_config = bt_of_list [(''baud_rate'', JNum (PosInt 115200)), (''data_bits'', JNum
     (PosInt 8)), (''parity'', JStr ''none''), (''stop_bits'', JNum (PosInt 1)), (''transceiver'', JStr
     ''CA-IS2092A'')], dd_dependencies = []\<rparr>, \<lparr>dd_name = ''sd_0'', dd_device_type =
     ''sd_logger'', dd_peripherals = [''spi_sd''], dd_config = bt_of_list [(''mount_point'', JStr ''/sd''),
     (''max_file_size_mb'', JNum (PosInt 10)), (''flush_interval_s'', JNum (PosInt 5))], dd_dependencies =
     []\<rparr>, \<lparr>dd_name = ''led_0'', dd_device_type = ''ws2812_led'', dd_peripherals =
     [''rmt_led''], dd_config = bt_of_list [(''led_count'', JNum (PosInt 1))], dd_dependencies =
     [''led_strip'']\<rparr>, \<lparr>dd_name = ''vin_0'', dd_device_type = ''vin_monitor'', dd_peripherals
     = [''adc_vin''], dd_config = bt_of_list [(''divider_ratio'', JNum (Float (f64_of_ratio False 120 10))),
     (''low_voltage_threshold_mv'', JNum (PosInt 6000))], dd_dependencies = []\<rparr>, \<lparr>dd_name =
     ''key_0'', dd_device_type = ''boot_key'', dd_peripherals = [''gpio_key''], dd_config = bt_of_list
     [(''long_press_ms'', JNum (PosInt 1000))], dd_dependencies = []\<rparr>, \<lparr>dd_name =
     ''wifi_tel_0'', dd_device_type = ''wifi_telemetry'', dd_peripherals = [], dd_config = bt_of_list
     [(''port'', JNum (PosInt 80)), (''path'', JStr ''/status'')], dd_dependencies = []\<rparr>]"

definition esp32_can485_devboard :: "assembly" where
 "esp32_can485_devboard = \<lparr>as_id = ''esp32_can485_devboard'', as_label =
     ''WeActStudio CAN485DevBoard V1'', as_target = Esp32, as_modules = [''esp32_d0wd_v3''], as_peripherals
     = esp32_can485_devboard_peripherals, as_devices = esp32_can485_devboard_devices, as_hal_contracts =
     [''can_bus'', ''rs485_bus'', ''sd_card'', ''status_led'', ''voltage_monitor'', ''boot_key'',
     ''wifi_telemetry'']\<rparr>"

definition esp32s3_va_wheeled_diff_assembly_peripherals :: "peripheral_decl list" where
 "esp32s3_va_wheeled_diff_assembly_peripherals = [\<lparr>pd_name = ''mcpwm_left'', pd_periph_type =
     ''mcpwm'', pd_role = ''io'', pd_config = bt_of_list [(''timer_config'', JObj (bt_of_list
     [(''group_id'', JNum (PosInt 0)), (''clk_src'', JStr ''MCPWM_TIMER_CLK_SRC_DEFAULT''),
     (''resolution_hz'', JNum (PosInt 10000000)), (''count_mode'', JStr ''MCPWM_TIMER_COUNT_MODE_UP''),
     (''period_ticks'', JNum (PosInt 500))])), (''operator_config'', JObj (bt_of_list [(''group_id'', JNum
     (PosInt 0))])), (''comparator_configs'', JArr [JObj (bt_of_list [(''comparator'', JNum (PosInt 0))])]),
     (''generator_config'', JObj (bt_of_list [(''gpio_num'', JNum (PosInt 4))]))]\<rparr>, \<lparr>pd_name =
     ''mcpwm_right'', pd_periph_type = ''mcpwm'', pd_role = ''io'', pd_config = bt_of_list
     [(''timer_config'', JObj (bt_of_list [(''group_id'', JNum (PosInt 0)), (''clk_src'', JStr
     ''MCPWM_TIMER_CLK_SRC_DEFAULT''), (''resolution_hz'', JNum (PosInt 10000000)), (''count_mode'', JStr
     ''MCPWM_TIMER_COUNT_MODE_UP''), (''period_ticks'', JNum (PosInt 500))])), (''operator_config'', JObj
     (bt_of_list [(''group_id'', JNum (PosInt 0))])), (''comparator_configs'', JArr [JObj (bt_of_list
     [(''comparator'', JNum (PosInt 0))])]), (''generator_config'', JObj (bt_of_list [(''gpio_num'', JNum
     (PosInt 5))]))]\<rparr>, \<lparr>pd_name = ''i2c_imu'', pd_periph_type = ''i2c'', pd_role = ''master'',
     pd_config = bt_of_list [(''port'', JNum (PosInt 0)), (''clk_source'', JStr ''I2C_CLK_SRC_DEFAULT''),
     (''pins'', JObj (bt_of_list [(''sda'', JNum (PosInt 8)), (''scl'', JNum (PosInt 9))])),
     (''enable_internal_pullup'', JBool True), (''glitch_count'', JNum (PosInt 7)), (''intr_priority'', JNum
     (PosInt 1))]\<rparr>, \<lparr>pd_name = ''spi_aux'', pd_periph_type = ''spi'', pd_role = ''master'',
     pd_config = bt_of_list [(''spi_port'', JStr ''SPI2_HOST''), (''spi_bus_config'', JObj (bt_of_list
     [(''mosi_io_num'', JNum (PosInt 11)), (''miso_io_num'', JNum (PosInt 13)), (''sclk_io_num'', JNum
     (PosInt 12)), (''quadwp_io_num'', JNum (NegInt (-1))), (''quadhd_io_num'', JNum (NegInt (-1))),
     (''max_transfer_sz'', JNum (PosInt 4092))]))]\<rparr>, \<lparr>pd_name = ''gpio_status_led'',
     pd_periph_type = ''gpio'', pd_role = ''io'', pd_config = bt_of_list [(''pin'', JNum (PosInt 2)),
     (''mode'', JStr ''GPIO_MODE_OUTPUT''), (''default_level'', JNum (PosInt 0))]\<rparr>, \<lparr>pd_name =
     ''gpio_failsafe'', pd_periph_type = ''gpio'', pd_role = ''io'', pd_config = bt_of_list [(''pin'', JNum
     (PosInt 21)), (''mode'', JStr ''GPIO_MODE_OUTPUT''), (''default_level'', JNum (PosInt 0))]\<rparr>]"

definition esp32s3_va_wheeled_diff_assembly_devices :: "device_decl list" where
 "esp32s3_va_wheeled_diff_assembly_devices = [\<lparr>dd_name = ''status_led_0'', dd_device_type =
     ''gpio_ctrl'', dd_peripherals = [''gpio_status_led''], dd_config = bt_of_list [(''enabled'', JBool
     True), (''active_level'', JNum (PosInt 1))], dd_dependencies = []\<rparr>, \<lparr>dd_name =
     ''failsafe_gpio_0'', dd_device_type = ''gpio_ctrl'', dd_peripherals = [''gpio_failsafe''], dd_config =
     bt_of_list [(''enabled'', JBool True), (''active_level'', JNum (PosInt 1))], dd_dependencies =
     []\<rparr>, \<lparr>dd_name = ''motor_left'', dd_device_type = ''motor_driver'', dd_peripherals =
     [''mcpwm_left''], dd_config = bt_of_list [(''max_duty'', JNum (Float (f64_of_ratio False 8 10))),
     (''direction'', JStr ''forward'')], dd_dependencies = []\<rparr>, \<lparr>dd_name = ''motor_right'',
     dd_device_type = ''motor_driver'', dd_peripherals = [''mcpwm_right''], dd_config = bt_of_list
     [(''max_duty'', JNum (Float (f64_of_ratio False 8 10))), (''direction'', JStr ''forward'')],
     dd_dependencies = []\<rparr>, \<lparr>dd_name = ''imu_mpu6050'', dd_device_type = ''imu_sensor'',
     dd_peripherals = [''i2c_imu''], dd_config = bt_of_list [(''i2c_address'', JStr ''0x68''), (''poll_hz'',
     JNum (PosInt 50))], dd_dependencies = []\<rparr>, \<lparr>dd_name = ''failsafe_0'', dd_device_type =
     ''failsafe_ctrl'', dd_peripherals = [''gpio_failsafe''], dd_config = bt_of_list [(''timeout_ms'', JNum
     (PosInt 500)), (''active_level'', JNum (PosInt 1))], dd_dependencies = []\<rparr>, \<lparr>dd_name =
     ''vehicle_ctrl_0'', dd_device_type = ''vehicle_ctrl'', dd_peripherals = [], dd_config = bt_of_list
     [(''mixer'', JStr ''diff_drive''), (''failsafe_ref'', JStr ''failsafe_0''), (''motor_refs'', JArr [JStr
     ''motor_left'', JStr ''motor_right'']), (''target_throttle'', JNum (Float (f64_of_ratio False 0 10)))],
     dd_dependencies = []\<rparr>]"

definition esp32s3_va_wheeled_diff_assembly :: "assembly" where
 "esp32s3_va_wheeled_diff_assembly = \<lparr>as_id = ''esp32s3_va_wheeled_diff_assembly'', as_label =
     ''ESP32-S3 V&A Wheeled-Diff Dev Assembly'', as_target = Esp32S3, as_modules = [''esp32s3_wroom1''],
     as_peripherals = esp32s3_va_wheeled_diff_assembly_peripherals, as_devices =
     esp32s3_va_wheeled_diff_assembly_devices, as_hal_contracts = [''gpio_output'', ''motor_control'',
     ''imu_sensor'', ''failsafe_stop'', ''vehicle_control'']\<rparr>"

definition esp32s3_va_elrs_crsf_assembly_peripherals :: "peripheral_decl list" where
 "esp32s3_va_elrs_crsf_assembly_peripherals = [\<lparr>pd_name = ''uart_crsf'', pd_periph_type = ''uart'',
     pd_role = ''io'', pd_config = bt_of_list [(''uart_num'', JNum (PosInt 2)), (''tx_io_num'', JNum (PosInt
     17)), (''rx_io_num'', JNum (PosInt 18)), (''rts_io_num'', JNum (NegInt (-1))), (''cts_io_num'', JNum
     (NegInt (-1))), (''uart_config'', JObj (bt_of_list [(''baud_rate'', JNum (PosInt 420000)),
     (''data_bits'', JStr ''UART_DATA_8_BITS''), (''parity'', JStr ''UART_PARITY_DISABLE''), (''stop_bits'',
     JStr ''UART_STOP_BITS_1''), (''flow_ctrl'', JStr ''UART_HW_FLOWCTRL_DISABLE''), (''source_clk'', JStr
     ''UART_SCLK_DEFAULT'')]))]\<rparr>, \<lparr>pd_name = ''ledc_esc'', pd_periph_type = ''ledc'', pd_role
     = ''io'', pd_config = bt_of_list [(''gpio_num'', JNum (PosInt 4)), (''channel'', JStr
     ''LEDC_CHANNEL_0''), (''timer_sel'', JStr ''LEDC_TIMER_0''), (''freq_hz'', JNum (PosInt 50)),
     (''duty'', JNum (PosInt 0)), (''duty_resolution'', JStr ''LEDC_TIMER_14_BIT''), (''speed_mode'', JStr
     ''LEDC_LOW_SPEED_MODE'')]\<rparr>, \<lparr>pd_name = ''ledc_servo'', pd_periph_type = ''ledc'', pd_role
     = ''io'', pd_config = bt_of_list [(''gpio_num'', JNum (PosInt 5)), (''channel'', JStr
     ''LEDC_CHANNEL_1''), (''timer_sel'', JStr ''LEDC_TIMER_0''), (''freq_hz'', JNum (PosInt 50)),
     (''duty'', JNum (PosInt 0)), (''duty_resolution'', JStr ''LEDC_TIMER_14_BIT''), (''speed_mode'', JStr
     ''LEDC_LOW_SPEED_MODE'')]\<rparr>, \<lparr>pd_name = ''gpio_status_led'', pd_periph_type = ''gpio'',
     pd_role = ''io'', pd_config = bt_of_list [(''pin'', JNum (PosInt 2)), (''mode'', JStr
     ''GPIO_MODE_OUTPUT''), (''default_level'', JNum (PosInt 0))]\<rparr>, \<lparr>pd_name =
     ''gpio_failsafe'', pd_periph_type = ''gpio'', pd_role = ''io'', pd_config = bt_of_list [(''pin'', JNum
     (PosInt 21)), (''mode'', JStr ''GPIO_MODE_OUTPUT''), (''default_level'', JNum (PosInt 0))]\<rparr>]"

definition esp32s3_va_elrs_crsf_assembly_devices :: "device_decl list" where
 "esp32s3_va_elrs_crsf_assembly_devices = [\<lparr>dd_name = ''status_led_0'', dd_device_type =
     ''gpio_ctrl'', dd_peripherals = [''gpio_status_led''], dd_config = bt_of_list [(''enabled'', JBool
     True), (''active_level'', JNum (PosInt 1))], dd_dependencies = []\<rparr>, \<lparr>dd_name =
     ''failsafe_gpio_0'', dd_device_type = ''gpio_ctrl'', dd_peripherals = [''gpio_failsafe''], dd_config =
     bt_of_list [(''enabled'', JBool True), (''active_level'', JNum (PosInt 1))], dd_dependencies =
     []\<rparr>, \<lparr>dd_name = ''motor_esc_0'', dd_device_type = ''motor_driver'', dd_peripherals =
     [''ledc_esc''], dd_config = bt_of_list [(''max_duty'', JNum (Float (f64_of_ratio False 8 10))),
     (''direction'', JStr ''forward'')], dd_dependencies = []\<rparr>, \<lparr>dd_name = ''servo_steer_0'',
     dd_device_type = ''servo_control'', dd_peripherals = [''ledc_servo''], dd_config = bt_of_list
     [(''min_pulse_us'', JNum (PosInt 1000)), (''max_pulse_us'', JNum (PosInt 2000)), (''center_pulse_us'',
     JNum (PosInt 1500))], dd_dependencies = []\<rparr>, \<lparr>dd_name = ''crsf_rx_0'', dd_device_type =
     ''crsf_link'', dd_peripherals = [''uart_crsf''], dd_config = bt_of_list [(''baud_rate'', JNum (PosInt
     420000)), (''inverted'', JBool True)], dd_dependencies = []\<rparr>, \<lparr>dd_name = ''failsafe_0'',
     dd_device_type = ''failsafe_ctrl'', dd_peripherals = [''gpio_failsafe''], dd_config = bt_of_list
     [(''timeout_ms'', JNum (PosInt 500)), (''active_level'', JNum (PosInt 1))], dd_dependencies =
     []\<rparr>, \<lparr>dd_name = ''vehicle_ctrl_0'', dd_device_type = ''vehicle_ctrl'', dd_peripherals =
     [], dd_config = bt_of_list [(''mixer'', JStr ''single_motor_servo''), (''failsafe_ref'', JStr
     ''failsafe_0''), (''motor_refs'', JArr [JStr ''motor_esc_0'']), (''servo_ref'', JStr
     ''servo_steer_0''), (''target_throttle'', JNum (Float (f64_of_ratio False 0 10)))], dd_dependencies =
     []\<rparr>]"

definition esp32s3_va_elrs_crsf_assembly :: "assembly" where
 "esp32s3_va_elrs_crsf_assembly = \<lparr>as_id = ''esp32s3_va_elrs_crsf_assembly'', as_label =
     ''ESP32-S3 V&A ELRS/CRSF Dev Assembly'', as_target = Esp32S3, as_modules = [''esp32s3_wroom1''],
     as_peripherals = esp32s3_va_elrs_crsf_assembly_peripherals, as_devices =
     esp32s3_va_elrs_crsf_assembly_devices, as_hal_contracts = [''gpio_output'', ''motor_control'',
     ''servo_control'', ''crsf_link'', ''failsafe_stop'', ''vehicle_control'']\<rparr>"

definition esp32s3_va_multirotor_assembly_peripherals :: "peripheral_decl list" where
 "esp32s3_va_multirotor_assembly_peripherals = [\<lparr>pd_name = ''ledc_esc_0'', pd_periph_type = ''ledc'',
     pd_role = ''io'', pd_config = bt_of_list [(''gpio_num'', JNum (PosInt 4)), (''channel'', JStr
     ''LEDC_CHANNEL_0''), (''timer_sel'', JStr ''LEDC_TIMER_0''), (''freq_hz'', JNum (PosInt 50)),
     (''duty'', JNum (PosInt 0)), (''duty_resolution'', JStr ''LEDC_TIMER_14_BIT''), (''speed_mode'', JStr
     ''LEDC_LOW_SPEED_MODE'')]\<rparr>, \<lparr>pd_name = ''ledc_esc_1'', pd_periph_type = ''ledc'', pd_role
     = ''io'', pd_config = bt_of_list [(''gpio_num'', JNum (PosInt 5)), (''channel'', JStr
     ''LEDC_CHANNEL_1''), (''timer_sel'', JStr ''LEDC_TIMER_0''), (''freq_hz'', JNum (PosInt 50)),
     (''duty'', JNum (PosInt 0)), (''duty_resolution'', JStr ''LEDC_TIMER_14_BIT''), (''speed_mode'', JStr
     ''LEDC_LOW_SPEED_MODE'')]\<rparr>, \<lparr>pd_name = ''ledc_esc_2'', pd_periph_type = ''ledc'', pd_role
     = ''io'', pd_config = bt_of_list [(''gpio_num'', JNum (PosInt 6)), (''channel'', JStr
     ''LEDC_CHANNEL_2''), (''timer_sel'', JStr ''LEDC_TIMER_0''), (''freq_hz'', JNum (PosInt 50)),
     (''duty'', JNum (PosInt 0)), (''duty_resolution'', JStr ''LEDC_TIMER_14_BIT''), (''speed_mode'', JStr
     ''LEDC_LOW_SPEED_MODE'')]\<rparr>, \<lparr>pd_name = ''ledc_esc_3'', pd_periph_type = ''ledc'', pd_role
     = ''io'', pd_config = bt_of_list [(''gpio_num'', JNum (PosInt 7)), (''channel'', JStr
     ''LEDC_CHANNEL_3''), (''timer_sel'', JStr ''LEDC_TIMER_0''), (''freq_hz'', JNum (PosInt 50)),
     (''duty'', JNum (PosInt 0)), (''duty_resolution'', JStr ''LEDC_TIMER_14_BIT''), (''speed_mode'', JStr
     ''LEDC_LOW_SPEED_MODE'')]\<rparr>, \<lparr>pd_name = ''i2c_imu'', pd_periph_type = ''i2c'', pd_role =
     ''master'', pd_config = bt_of_list [(''port'', JNum (PosInt 0)), (''clk_source'', JStr
     ''I2C_CLK_SRC_DEFAULT''), (''pins'', JObj (bt_of_list [(''sda'', JNum (PosInt 8)), (''scl'', JNum
     (PosInt 9))])), (''enable_internal_pullup'', JBool True), (''glitch_count'', JNum (PosInt 7)),
     (''intr_priority'', JNum (PosInt 1))]\<rparr>, \<lparr>pd_name = ''adc_vbat'', pd_periph_type =
     ''adc'', pd_role = ''oneshot'', pd_config = bt_of_list [(''unit_id'', JStr ''ADC_UNIT_1''), (''atten'',
     JStr ''ADC_ATTEN_DB_12''), (''bit_width'', JStr ''ADC_BITWIDTH_DEFAULT''), (''channel_id'', JNum
     (PosInt 0))]\<rparr>, \<lparr>pd_name = ''gpio_status_led'', pd_periph_type = ''gpio'', pd_role =
     ''io'', pd_config = bt_of_list [(''pin'', JNum (PosInt 2)), (''mode'', JStr ''GPIO_MODE_OUTPUT''),
     (''default_level'', JNum (PosInt 0))]\<rparr>, \<lparr>pd_name = ''gpio_failsafe'', pd_periph_type =
     ''gpio'', pd_role = ''io'', pd_config = bt_of_list [(''pin'', JNum (PosInt 21)), (''mode'', JStr
     ''GPIO_MODE_OUTPUT''), (''default_level'', JNum (PosInt 0))]\<rparr>]"

definition esp32s3_va_multirotor_assembly_devices :: "device_decl list" where
 "esp32s3_va_multirotor_assembly_devices = [\<lparr>dd_name = ''status_led_0'', dd_device_type =
     ''gpio_ctrl'', dd_peripherals = [''gpio_status_led''], dd_config = bt_of_list [(''enabled'', JBool
     True), (''active_level'', JNum (PosInt 1))], dd_dependencies = []\<rparr>, \<lparr>dd_name =
     ''failsafe_gpio_0'', dd_device_type = ''gpio_ctrl'', dd_peripherals = [''gpio_failsafe''], dd_config =
     bt_of_list [(''enabled'', JBool True), (''active_level'', JNum (PosInt 1))], dd_dependencies =
     []\<rparr>, \<lparr>dd_name = ''motor_esc_0'', dd_device_type = ''motor_driver'', dd_peripherals =
     [''ledc_esc_0''], dd_config = bt_of_list [(''max_duty'', JNum (Float (f64_of_ratio False 8 10))),
     (''position'', JStr ''front_right'')], dd_dependencies = []\<rparr>, \<lparr>dd_name = ''motor_esc_1'',
     dd_device_type = ''motor_driver'', dd_peripherals = [''ledc_esc_1''], dd_config = bt_of_list
     [(''max_duty'', JNum (Float (f64_of_ratio False 8 10))), (''position'', JStr ''rear_right'')],
     dd_dependencies = []\<rparr>, \<lparr>dd_name = ''motor_esc_2'', dd_device_type = ''motor_driver'',
     dd_peripherals = [''ledc_esc_2''], dd_config = bt_of_list [(''max_duty'', JNum (Float (f64_of_ratio
     False 8 10))), (''position'', JStr ''rear_left'')], dd_dependencies = []\<rparr>, \<lparr>dd_name =
     ''motor_esc_3'', dd_device_type = ''motor_driver'', dd_peripherals = [''ledc_esc_3''], dd_config =
     bt_of_list [(''max_duty'', JNum (Float (f64_of_ratio False 8 10))), (''position'', JStr
     ''front_left'')], dd_dependencies = []\<rparr>, \<lparr>dd_name = ''imu_mpu6050'', dd_device_type =
     ''imu_sensor'', dd_peripherals = [''i2c_imu''], dd_config = bt_of_list [(''i2c_address'', JStr
     ''0x68''), (''poll_hz'', JNum (PosInt 50))], dd_dependencies = []\<rparr>, \<lparr>dd_name =
     ''vbat_monitor_0'', dd_device_type = ''vbat_monitor'', dd_peripherals = [''adc_vbat''], dd_config =
     bt_of_list [(''divider_ratio'', JNum (Float (f64_of_ratio False 110 10))), (''low_voltage_v'', JNum
     (Float (f64_of_ratio False 105 10))), (''poll_hz'', JNum (PosInt 2))], dd_dependencies = []\<rparr>,
     \<lparr>dd_name = ''failsafe_0'', dd_device_type = ''failsafe_ctrl'', dd_peripherals =
     [''gpio_failsafe''], dd_config = bt_of_list [(''timeout_ms'', JNum (PosInt 500)), (''active_level'',
     JNum (PosInt 1))], dd_dependencies = []\<rparr>, \<lparr>dd_name = ''vehicle_ctrl_0'', dd_device_type =
     ''vehicle_ctrl'', dd_peripherals = [], dd_config = bt_of_list [(''mixer'', JStr ''quad_x''),
     (''imu_ref'', JStr ''imu_mpu6050''), (''failsafe_ref'', JStr ''failsafe_0''), (''motor_refs'', JArr
     [JStr ''motor_esc_0'', JStr ''motor_esc_1'', JStr ''motor_esc_2'', JStr ''motor_esc_3'']),
     (''kp_roll'', JNum (Float (f64_of_ratio False 5 10))), (''kp_pitch'', JNum (Float (f64_of_ratio False 5
     10))), (''kp_yaw'', JNum (Float (f64_of_ratio False 3 10))), (''target_throttle'', JNum (Float
     (f64_of_ratio False 350 10)))], dd_dependencies = []\<rparr>]"

definition esp32s3_va_multirotor_assembly :: "assembly" where
 "esp32s3_va_multirotor_assembly = \<lparr>as_id = ''esp32s3_va_multirotor_assembly'', as_label =
     ''ESP32-S3 V&A Multirotor Dev Assembly'', as_target = Esp32S3, as_modules = [''esp32s3_wroom1''],
     as_peripherals = esp32s3_va_multirotor_assembly_peripherals, as_devices =
     esp32s3_va_multirotor_assembly_devices, as_hal_contracts = [''gpio_output'', ''motor_control'',
     ''imu_sensor'', ''vbat_monitor'', ''failsafe_stop'', ''vehicle_control'']\<rparr>"

definition esp32s3_va_multirotor_dshot_assembly_peripherals :: "peripheral_decl list" where
 "esp32s3_va_multirotor_dshot_assembly_peripherals = [\<lparr>pd_name = ''gpio_dshot_esc_0'', pd_periph_type
     = ''gpio'', pd_role = ''io'', pd_config = bt_of_list [(''pin'', JNum (PosInt 4)), (''mode'', JStr
     ''GPIO_MODE_OUTPUT''), (''default_level'', JNum (PosInt 0))]\<rparr>, \<lparr>pd_name =
     ''gpio_dshot_esc_1'', pd_periph_type = ''gpio'', pd_role = ''io'', pd_config = bt_of_list [(''pin'',
     JNum (PosInt 5)), (''mode'', JStr ''GPIO_MODE_OUTPUT''), (''default_level'', JNum (PosInt 0))]\<rparr>,
     \<lparr>pd_name = ''gpio_dshot_esc_2'', pd_periph_type = ''gpio'', pd_role = ''io'', pd_config =
     bt_of_list [(''pin'', JNum (PosInt 6)), (''mode'', JStr ''GPIO_MODE_OUTPUT''), (''default_level'', JNum
     (PosInt 0))]\<rparr>, \<lparr>pd_name = ''gpio_dshot_esc_3'', pd_periph_type = ''gpio'', pd_role =
     ''io'', pd_config = bt_of_list [(''pin'', JNum (PosInt 7)), (''mode'', JStr ''GPIO_MODE_OUTPUT''),
     (''default_level'', JNum (PosInt 0))]\<rparr>, \<lparr>pd_name = ''i2c_imu'', pd_periph_type = ''i2c'',
     pd_role = ''master'', pd_config = bt_of_list [(''port'', JNum (PosInt 0)), (''clk_source'', JStr
     ''I2C_CLK_SRC_DEFAULT''), (''pins'', JObj (bt_of_list [(''sda'', JNum (PosInt 8)), (''scl'', JNum
     (PosInt 9))])), (''enable_internal_pullup'', JBool True), (''glitch_count'', JNum (PosInt 7)),
     (''intr_priority'', JNum (PosInt 1))]\<rparr>, \<lparr>pd_name = ''gpio_status_led'', pd_periph_type =
     ''gpio'', pd_role = ''io'', pd_config = bt_of_list [(''pin'', JNum (PosInt 2)), (''mode'', JStr
     ''GPIO_MODE_OUTPUT''), (''default_level'', JNum (PosInt 0))]\<rparr>, \<lparr>pd_name =
     ''gpio_failsafe'', pd_periph_type = ''gpio'', pd_role = ''io'', pd_config = bt_of_list [(''pin'', JNum
     (PosInt 21)), (''mode'', JStr ''GPIO_MODE_OUTPUT''), (''default_level'', JNum (PosInt 0))]\<rparr>]"

definition esp32s3_va_multirotor_dshot_assembly_devices :: "device_decl list" where
 "esp32s3_va_multirotor_dshot_assembly_devices = [\<lparr>dd_name = ''status_led_0'', dd_device_type =
     ''gpio_ctrl'', dd_peripherals = [''gpio_status_led''], dd_config = bt_of_list [(''enabled'', JBool
     True), (''active_level'', JNum (PosInt 1))], dd_dependencies = []\<rparr>, \<lparr>dd_name =
     ''failsafe_gpio_0'', dd_device_type = ''gpio_ctrl'', dd_peripherals = [''gpio_failsafe''], dd_config =
     bt_of_list [(''enabled'', JBool True), (''active_level'', JNum (PosInt 1))], dd_dependencies =
     []\<rparr>, \<lparr>dd_name = ''motor_esc_0'', dd_device_type = ''motor_driver'', dd_peripherals =
     [''gpio_dshot_esc_0''], dd_config = bt_of_list [(''signaling'', JStr ''dshot600''), (''max_duty'', JNum
     (Float (f64_of_ratio False 8 10))), (''position'', JStr ''front_right'')], dd_dependencies =
     []\<rparr>, \<lparr>dd_name = ''motor_esc_1'', dd_device_type = ''motor_driver'', dd_peripherals =
     [''gpio_dshot_esc_1''], dd_config = bt_of_list [(''signaling'', JStr ''dshot600''), (''max_duty'', JNum
     (Float (f64_of_ratio False 8 10))), (''position'', JStr ''rear_right'')], dd_dependencies = []\<rparr>,
     \<lparr>dd_name = ''motor_esc_2'', dd_device_type = ''motor_driver'', dd_peripherals =
     [''gpio_dshot_esc_2''], dd_config = bt_of_list [(''signaling'', JStr ''dshot600''), (''max_duty'', JNum
     (Float (f64_of_ratio False 8 10))), (''position'', JStr ''rear_left'')], dd_dependencies = []\<rparr>,
     \<lparr>dd_name = ''motor_esc_3'', dd_device_type = ''motor_driver'', dd_peripherals =
     [''gpio_dshot_esc_3''], dd_config = bt_of_list [(''signaling'', JStr ''dshot600''), (''max_duty'', JNum
     (Float (f64_of_ratio False 8 10))), (''position'', JStr ''front_left'')], dd_dependencies = []\<rparr>,
     \<lparr>dd_name = ''imu_mpu6050'', dd_device_type = ''imu_sensor'', dd_peripherals = [''i2c_imu''],
     dd_config = bt_of_list [(''i2c_address'', JStr ''0x68''), (''poll_hz'', JNum (PosInt 50))],
     dd_dependencies = []\<rparr>, \<lparr>dd_name = ''failsafe_0'', dd_device_type = ''failsafe_ctrl'',
     dd_peripherals = [''gpio_failsafe''], dd_config = bt_of_list [(''timeout_ms'', JNum (PosInt 500)),
     (''active_level'', JNum (PosInt 1))], dd_dependencies = []\<rparr>]"

definition esp32s3_va_multirotor_dshot_assembly :: "assembly" where
 "esp32s3_va_multirotor_dshot_assembly = \<lparr>as_id = ''esp32s3_va_multirotor_dshot_assembly'', as_label
     = ''ESP32-S3 V&A Multirotor DShot Dev Assembly'', as_target = Esp32S3, as_modules =
     [''esp32s3_wroom1''], as_peripherals = esp32s3_va_multirotor_dshot_assembly_peripherals, as_devices =
     esp32s3_va_multirotor_dshot_assembly_devices, as_hal_contracts = [''gpio_output'', ''motor_control'',
     ''imu_sensor'', ''failsafe_stop'']\<rparr>"

definition esp32s3_va_multirotor_bdshot_assembly_peripherals :: "peripheral_decl list" where
 "esp32s3_va_multirotor_bdshot_assembly_peripherals = [\<lparr>pd_name = ''gpio_dshot_esc_0'',
     pd_periph_type = ''gpio'', pd_role = ''io'', pd_config = bt_of_list [(''pin'', JNum (PosInt 4)),
     (''mode'', JStr ''GPIO_MODE_OUTPUT''), (''default_level'', JNum (PosInt 0))]\<rparr>, \<lparr>pd_name =
     ''gpio_dshot_esc_1'', pd_periph_type = ''gpio'', pd_role = ''io'', pd_config = bt_of_list [(''pin'',
     JNum (PosInt 5)), (''mode'', JStr ''GPIO_MODE_OUTPUT''), (''default_level'', JNum (PosInt 0))]\<rparr>,
     \<lparr>pd_name = ''gpio_dshot_esc_2'', pd_periph_type = ''gpio'', pd_role = ''io'', pd_config =
     bt_of_list [(''pin'', JNum (PosInt 6)), (''mode'', JStr ''GPIO_MODE_OUTPUT''), (''default_level'', JNum
     (PosInt 0))]\<rparr>, \<lparr>pd_name = ''gpio_dshot_esc_3'', pd_periph_type = ''gpio'', pd_role =
     ''io'', pd_config = bt_of_list [(''pin'', JNum (PosInt 7)), (''mode'', JStr ''GPIO_MODE_OUTPUT''),
     (''default_level'', JNum (PosInt 0))]\<rparr>, \<lparr>pd_name = ''i2c_imu'', pd_periph_type = ''i2c'',
     pd_role = ''master'', pd_config = bt_of_list [(''port'', JNum (PosInt 0)), (''clk_source'', JStr
     ''I2C_CLK_SRC_DEFAULT''), (''pins'', JObj (bt_of_list [(''sda'', JNum (PosInt 8)), (''scl'', JNum
     (PosInt 9))])), (''enable_internal_pullup'', JBool True), (''glitch_count'', JNum (PosInt 7)),
     (''intr_priority'', JNum (PosInt 1))]\<rparr>, \<lparr>pd_name = ''gpio_status_led'', pd_periph_type =
     ''gpio'', pd_role = ''io'', pd_config = bt_of_list [(''pin'', JNum (PosInt 2)), (''mode'', JStr
     ''GPIO_MODE_OUTPUT''), (''default_level'', JNum (PosInt 0))]\<rparr>, \<lparr>pd_name =
     ''gpio_failsafe'', pd_periph_type = ''gpio'', pd_role = ''io'', pd_config = bt_of_list [(''pin'', JNum
     (PosInt 21)), (''mode'', JStr ''GPIO_MODE_OUTPUT''), (''default_level'', JNum (PosInt 0))]\<rparr>]"

definition esp32s3_va_multirotor_bdshot_assembly_devices :: "device_decl list" where
 "esp32s3_va_multirotor_bdshot_assembly_devices = [\<lparr>dd_name = ''status_led_0'', dd_device_type =
     ''gpio_ctrl'', dd_peripherals = [''gpio_status_led''], dd_config = bt_of_list [(''enabled'', JBool
     True), (''active_level'', JNum (PosInt 1))], dd_dependencies = []\<rparr>, \<lparr>dd_name =
     ''failsafe_gpio_0'', dd_device_type = ''gpio_ctrl'', dd_peripherals = [''gpio_failsafe''], dd_config =
     bt_of_list [(''enabled'', JBool True), (''active_level'', JNum (PosInt 1))], dd_dependencies =
     []\<rparr>, \<lparr>dd_name = ''motor_esc_0'', dd_device_type = ''motor_driver'', dd_peripherals =
     [''gpio_dshot_esc_0''], dd_config = bt_of_list [(''signaling'', JStr ''dshot600''), (''bidirectional'',
     JBool True), (''max_duty'', JNum (Float (f64_of_ratio False 8 10))), (''position'', JStr
     ''front_right'')], dd_dependencies = []\<rparr>, \<lparr>dd_name = ''motor_esc_1'', dd_device_type =
     ''motor_driver'', dd_peripherals = [''gpio_dshot_esc_1''], dd_config = bt_of_list [(''signaling'', JStr
     ''dshot600''), (''bidirectional'', JBool True), (''max_duty'', JNum (Float (f64_of_ratio False 8 10))),
     (''position'', JStr ''rear_right'')], dd_dependencies = []\<rparr>, \<lparr>dd_name = ''motor_esc_2'',
     dd_device_type = ''motor_driver'', dd_peripherals = [''gpio_dshot_esc_2''], dd_config = bt_of_list
     [(''signaling'', JStr ''dshot600''), (''bidirectional'', JBool True), (''max_duty'', JNum (Float
     (f64_of_ratio False 8 10))), (''position'', JStr ''rear_left'')], dd_dependencies = []\<rparr>,
     \<lparr>dd_name = ''motor_esc_3'', dd_device_type = ''motor_driver'', dd_peripherals =
     [''gpio_dshot_esc_3''], dd_config = bt_of_list [(''signaling'', JStr ''dshot600''), (''bidirectional'',
     JBool True), (''max_duty'', JNum (Float (f64_of_ratio False 8 10))), (''position'', JStr
     ''front_left'')], dd_dependencies = []\<rparr>, \<lparr>dd_name = ''imu_mpu6050'', dd_device_type =
     ''imu_sensor'', dd_peripherals = [''i2c_imu''], dd_config = bt_of_list [(''i2c_address'', JStr
     ''0x68''), (''poll_hz'', JNum (PosInt 50))], dd_dependencies = []\<rparr>, \<lparr>dd_name =
     ''failsafe_0'', dd_device_type = ''failsafe_ctrl'', dd_peripherals = [''gpio_failsafe''], dd_config =
     bt_of_list [(''timeout_ms'', JNum (PosInt 500)), (''active_level'', JNum (PosInt 1))], dd_dependencies
     = []\<rparr>]"

definition esp32s3_va_multirotor_bdshot_assembly :: "assembly" where
 "esp32s3_va_multirotor_bdshot_assembly = \<lparr>as_id = ''esp32s3_va_multirotor_bdshot_assembly'',
     as_label = ''ESP32-S3 V&A Multirotor bdshot Dev Assembly'', as_target = Esp32S3, as_modules =
     [''esp32s3_wroom1''], as_peripherals = esp32s3_va_multirotor_bdshot_assembly_peripherals, as_devices =
     esp32s3_va_multirotor_bdshot_assembly_devices, as_hal_contracts = [''gpio_output'', ''motor_control'',
     ''imu_sensor'', ''failsafe_stop'']\<rparr>"

definition esp32s3_va_sbc_bridge_assembly_peripherals :: "peripheral_decl list" where
 "esp32s3_va_sbc_bridge_assembly_peripherals = [\<lparr>pd_name = ''uart_sbc'', pd_periph_type = ''uart'',
     pd_role = ''io'', pd_config = bt_of_list [(''uart_num'', JNum (PosInt 1)), (''tx_io_num'', JNum (PosInt
     15)), (''rx_io_num'', JNum (PosInt 16)), (''rts_io_num'', JNum (NegInt (-1))), (''cts_io_num'', JNum
     (NegInt (-1))), (''uart_config'', JObj (bt_of_list [(''baud_rate'', JNum (PosInt 1000000)),
     (''data_bits'', JStr ''UART_DATA_8_BITS''), (''parity'', JStr ''UART_PARITY_DISABLE''), (''stop_bits'',
     JStr ''UART_STOP_BITS_1''), (''flow_ctrl'', JStr ''UART_HW_FLOWCTRL_DISABLE''), (''source_clk'', JStr
     ''UART_SCLK_DEFAULT'')]))]\<rparr>, \<lparr>pd_name = ''uart_crsf'', pd_periph_type = ''uart'', pd_role
     = ''io'', pd_config = bt_of_list [(''uart_num'', JNum (PosInt 2)), (''tx_io_num'', JNum (PosInt 17)),
     (''rx_io_num'', JNum (PosInt 18)), (''rts_io_num'', JNum (NegInt (-1))), (''cts_io_num'', JNum (NegInt
     (-1))), (''uart_config'', JObj (bt_of_list [(''baud_rate'', JNum (PosInt 420000)), (''data_bits'', JStr
     ''UART_DATA_8_BITS''), (''parity'', JStr ''UART_PARITY_DISABLE''), (''stop_bits'', JStr
     ''UART_STOP_BITS_1''), (''flow_ctrl'', JStr ''UART_HW_FLOWCTRL_DISABLE''), (''source_clk'', JStr
     ''UART_SCLK_DEFAULT'')]))]\<rparr>, \<lparr>pd_name = ''gpio_status_led'', pd_periph_type = ''gpio'',
     pd_role = ''io'', pd_config = bt_of_list [(''pin'', JNum (PosInt 2)), (''mode'', JStr
     ''GPIO_MODE_OUTPUT''), (''default_level'', JNum (PosInt 0))]\<rparr>, \<lparr>pd_name =
     ''gpio_failsafe'', pd_periph_type = ''gpio'', pd_role = ''io'', pd_config = bt_of_list [(''pin'', JNum
     (PosInt 21)), (''mode'', JStr ''GPIO_MODE_OUTPUT''), (''default_level'', JNum (PosInt 0))]\<rparr>]"

definition esp32s3_va_sbc_bridge_assembly_devices :: "device_decl list" where
 "esp32s3_va_sbc_bridge_assembly_devices = [\<lparr>dd_name = ''status_led_0'', dd_device_type =
     ''gpio_ctrl'', dd_peripherals = [''gpio_status_led''], dd_config = bt_of_list [(''enabled'', JBool
     True), (''active_level'', JNum (PosInt 1))], dd_dependencies = []\<rparr>, \<lparr>dd_name =
     ''failsafe_gpio_0'', dd_device_type = ''gpio_ctrl'', dd_peripherals = [''gpio_failsafe''], dd_config =
     bt_of_list [(''enabled'', JBool True), (''active_level'', JNum (PosInt 1))], dd_dependencies =
     []\<rparr>, \<lparr>dd_name = ''sbc_link_0'', dd_device_type = ''sbc_link'', dd_peripherals =
     [''uart_sbc''], dd_config = bt_of_list [(''baud_rate'', JNum (PosInt 1000000)), (''protocol'', JStr
     ''mavlink'')], dd_dependencies = []\<rparr>, \<lparr>dd_name = ''crsf_rx_0'', dd_device_type =
     ''crsf_link'', dd_peripherals = [''uart_crsf''], dd_config = bt_of_list [(''baud_rate'', JNum (PosInt
     420000)), (''inverted'', JBool True)], dd_dependencies = []\<rparr>, \<lparr>dd_name = ''failsafe_0'',
     dd_device_type = ''failsafe_ctrl'', dd_peripherals = [''gpio_failsafe''], dd_config = bt_of_list
     [(''timeout_ms'', JNum (PosInt 500)), (''active_level'', JNum (PosInt 1))], dd_dependencies =
     []\<rparr>]"

definition esp32s3_va_sbc_bridge_assembly :: "assembly" where
 "esp32s3_va_sbc_bridge_assembly = \<lparr>as_id = ''esp32s3_va_sbc_bridge_assembly'', as_label =
     ''ESP32-S3 V&A SBC Bridge Dev Assembly'', as_target = Esp32S3, as_modules = [''esp32s3_wroom1''],
     as_peripherals = esp32s3_va_sbc_bridge_assembly_peripherals, as_devices =
     esp32s3_va_sbc_bridge_assembly_devices, as_hal_contracts = [''gpio_output'', ''sbc_link'',
     ''crsf_link'', ''failsafe_stop'']\<rparr>"

definition esp32s3_va_marine_assembly_peripherals :: "peripheral_decl list" where
 "esp32s3_va_marine_assembly_peripherals = [\<lparr>pd_name = ''ledc_esc'', pd_periph_type = ''ledc'',
     pd_role = ''io'', pd_config = bt_of_list [(''gpio_num'', JNum (PosInt 4)), (''channel'', JStr
     ''LEDC_CHANNEL_0''), (''timer_sel'', JStr ''LEDC_TIMER_0''), (''freq_hz'', JNum (PosInt 50)),
     (''duty'', JNum (PosInt 0)), (''duty_resolution'', JStr ''LEDC_TIMER_14_BIT''), (''speed_mode'', JStr
     ''LEDC_LOW_SPEED_MODE'')]\<rparr>, \<lparr>pd_name = ''ledc_rudder'', pd_periph_type = ''ledc'',
     pd_role = ''io'', pd_config = bt_of_list [(''gpio_num'', JNum (PosInt 5)), (''channel'', JStr
     ''LEDC_CHANNEL_1''), (''timer_sel'', JStr ''LEDC_TIMER_0''), (''freq_hz'', JNum (PosInt 50)),
     (''duty'', JNum (PosInt 0)), (''duty_resolution'', JStr ''LEDC_TIMER_14_BIT''), (''speed_mode'', JStr
     ''LEDC_LOW_SPEED_MODE'')]\<rparr>, \<lparr>pd_name = ''gpio_water_sensor'', pd_periph_type = ''gpio'',
     pd_role = ''io'', pd_config = bt_of_list [(''pin'', JNum (PosInt 6)), (''mode'', JStr
     ''GPIO_MODE_INPUT''), (''pull_up'', JBool True), (''pull_down'', JBool False)]\<rparr>, \<lparr>pd_name
     = ''gpio_status_led'', pd_periph_type = ''gpio'', pd_role = ''io'', pd_config = bt_of_list [(''pin'',
     JNum (PosInt 2)), (''mode'', JStr ''GPIO_MODE_OUTPUT''), (''default_level'', JNum (PosInt 0))]\<rparr>,
     \<lparr>pd_name = ''gpio_failsafe'', pd_periph_type = ''gpio'', pd_role = ''io'', pd_config =
     bt_of_list [(''pin'', JNum (PosInt 21)), (''mode'', JStr ''GPIO_MODE_OUTPUT''), (''default_level'',
     JNum (PosInt 0))]\<rparr>]"

definition esp32s3_va_marine_assembly_devices :: "device_decl list" where
 "esp32s3_va_marine_assembly_devices = [\<lparr>dd_name = ''status_led_0'', dd_device_type = ''gpio_ctrl'',
     dd_peripherals = [''gpio_status_led''], dd_config = bt_of_list [(''enabled'', JBool True),
     (''active_level'', JNum (PosInt 1))], dd_dependencies = []\<rparr>, \<lparr>dd_name =
     ''failsafe_gpio_0'', dd_device_type = ''gpio_ctrl'', dd_peripherals = [''gpio_failsafe''], dd_config =
     bt_of_list [(''enabled'', JBool True), (''active_level'', JNum (PosInt 1))], dd_dependencies =
     []\<rparr>, \<lparr>dd_name = ''motor_esc_0'', dd_device_type = ''motor_driver'', dd_peripherals =
     [''ledc_esc''], dd_config = bt_of_list [(''max_duty'', JNum (Float (f64_of_ratio False 7 10))),
     (''waterproof'', JBool True)], dd_dependencies = []\<rparr>, \<lparr>dd_name = ''servo_rudder_0'',
     dd_device_type = ''servo_control'', dd_peripherals = [''ledc_rudder''], dd_config = bt_of_list
     [(''min_pulse_us'', JNum (PosInt 1000)), (''max_pulse_us'', JNum (PosInt 2000)), (''center_pulse_us'',
     JNum (PosInt 1500)), (''range_deg'', JNum (PosInt 60))], dd_dependencies = []\<rparr>, \<lparr>dd_name
     = ''water_sensor_0'', dd_device_type = ''gpio_input'', dd_peripherals = [''gpio_water_sensor''],
     dd_config = bt_of_list [(''active_level'', JNum (PosInt 0)), (''debounce_ms'', JNum (PosInt 50))],
     dd_dependencies = []\<rparr>, \<lparr>dd_name = ''failsafe_0'', dd_device_type = ''failsafe_ctrl'',
     dd_peripherals = [''gpio_failsafe''], dd_config = bt_of_list [(''timeout_ms'', JNum (PosInt 500)),
     (''active_level'', JNum (PosInt 1))], dd_dependencies = []\<rparr>, \<lparr>dd_name =
     ''vehicle_ctrl_0'', dd_device_type = ''vehicle_ctrl'', dd_peripherals = [], dd_config = bt_of_list
     [(''mixer'', JStr ''single_motor_servo''), (''failsafe_ref'', JStr ''failsafe_0''), (''motor_refs'',
     JArr [JStr ''motor_esc_0'']), (''servo_ref'', JStr ''servo_rudder_0''), (''target_throttle'', JNum
     (Float (f64_of_ratio False 0 10)))], dd_dependencies = []\<rparr>]"

definition esp32s3_va_marine_assembly :: "assembly" where
 "esp32s3_va_marine_assembly = \<lparr>as_id = ''esp32s3_va_marine_assembly'', as_label =
     ''ESP32-S3 V&A Marine Dev Assembly'', as_target = Esp32S3, as_modules = [''esp32s3_wroom1''],
     as_peripherals = esp32s3_va_marine_assembly_peripherals, as_devices =
     esp32s3_va_marine_assembly_devices, as_hal_contracts = [''gpio_output'', ''motor_control'',
     ''servo_control'', ''gpio_input'', ''failsafe_stop'', ''vehicle_control'']\<rparr>"

section \<open>Registry\<close>

definition shipped_assemblies :: "assembly list" where
  "shipped_assemblies = [esp32s3_gpio_relay_assembly,
     esp32s3_i2c_sensor_assembly,
     esp32_can485_devboard,
     esp32s3_va_wheeled_diff_assembly,
     esp32s3_va_elrs_crsf_assembly,
     esp32s3_va_multirotor_assembly,
     esp32s3_va_multirotor_dshot_assembly,
     esp32s3_va_multirotor_bdshot_assembly,
     esp32s3_va_sbc_bridge_assembly,
     esp32s3_va_marine_assembly]"

definition default_assembly_registry :: assembly_registry where
  "default_assembly_registry = fold assembly_register shipped_assemblies []"

section \<open>Properties\<close>

definition fits_modules :: "assembly \<Rightarrow> bool" where
  "fits_modules a \<longleftrightarrow> as_modules a \<noteq> []
     \<and> list_all (\<lambda>i. case module_get default_module_registry i of None \<Rightarrow> False | Some m \<Rightarrow> md_target m = as_target a) (as_modules a)"

text \<open>The devices a device refers to by its settings.\<close>

definition config_refs :: "device_decl \<Rightarrow> string list" where
  "config_refs d = concat (map (\<lambda>k. case map_of (dd_config d) k of
       Some (JStr s) \<Rightarrow> [s] | Some (JArr vs) \<Rightarrow> List.map_filter as_str vs | _ \<Rightarrow> [])
     [''failsafe_ref'', ''servo_ref'', ''imu_ref'', ''motor_refs''])"

definition refs_resolve :: "assembly \<Rightarrow> bool" where
  "refs_resolve a \<longleftrightarrow>
     list_all (\<lambda>d. list_all (\<lambda>r. r \<in> set (map dd_name (as_devices a))) (config_refs d)) (as_devices a)"

lemma shipped_ok: "list_all assembly_ok shipped_assemblies"
  by (simp add: shipped_assemblies_def assembly_ok_def
    esp32s3_gpio_relay_assembly_def esp32s3_gpio_relay_assembly_peripherals_def esp32s3_gpio_relay_assembly_devices_def
    esp32s3_i2c_sensor_assembly_def esp32s3_i2c_sensor_assembly_peripherals_def esp32s3_i2c_sensor_assembly_devices_def
    esp32_can485_devboard_def esp32_can485_devboard_peripherals_def esp32_can485_devboard_devices_def
    esp32s3_va_wheeled_diff_assembly_def esp32s3_va_wheeled_diff_assembly_peripherals_def esp32s3_va_wheeled_diff_assembly_devices_def
    esp32s3_va_elrs_crsf_assembly_def esp32s3_va_elrs_crsf_assembly_peripherals_def esp32s3_va_elrs_crsf_assembly_devices_def
    esp32s3_va_multirotor_assembly_def esp32s3_va_multirotor_assembly_peripherals_def esp32s3_va_multirotor_assembly_devices_def
    esp32s3_va_multirotor_dshot_assembly_def esp32s3_va_multirotor_dshot_assembly_peripherals_def esp32s3_va_multirotor_dshot_assembly_devices_def
    esp32s3_va_multirotor_bdshot_assembly_def esp32s3_va_multirotor_bdshot_assembly_peripherals_def esp32s3_va_multirotor_bdshot_assembly_devices_def
    esp32s3_va_sbc_bridge_assembly_def esp32s3_va_sbc_bridge_assembly_peripherals_def esp32s3_va_sbc_bridge_assembly_devices_def
    esp32s3_va_marine_assembly_def esp32s3_va_marine_assembly_peripherals_def esp32s3_va_marine_assembly_devices_def)

lemma shipped_ids: "distinct (map as_id shipped_assemblies)"
  by (simp add: shipped_assemblies_def
    esp32s3_gpio_relay_assembly_def
    esp32s3_i2c_sensor_assembly_def
    esp32_can485_devboard_def
    esp32s3_va_wheeled_diff_assembly_def
    esp32s3_va_elrs_crsf_assembly_def
    esp32s3_va_multirotor_assembly_def
    esp32s3_va_multirotor_dshot_assembly_def
    esp32s3_va_multirotor_bdshot_assembly_def
    esp32s3_va_sbc_bridge_assembly_def
    esp32s3_va_marine_assembly_def)

lemma assembly_get_default: "a \<in> set shipped_assemblies \<Longrightarrow> assembly_get default_assembly_registry (as_id a) = Some a"
  using registered_get [OF shipped_ids]
  by (simp add: assembly_get_def default_assembly_registry_def assembly_register_def [abs_def])

lemma module_ids: "distinct (map md_id shipped_modules)"
  by code_simp

lemma module_get_default: "m \<in> set shipped_modules \<Longrightarrow> module_get default_module_registry (md_id m) = Some m"
  using registered_get [OF module_ids] by (simp add: module_get_def default_module_registry_def module_register_def [abs_def])

lemma module_targets:
  "module_get default_module_registry ''esp32s3_wroom1'' = Some module_esp32s3_wroom1"
  "module_get default_module_registry ''esp32_d0wd_v3'' = Some module_esp32_d0wd_v3"
  using module_get_default [of module_esp32s3_wroom1] module_get_default [of module_esp32_d0wd_v3]
  by (simp_all add: shipped_modules_def module_esp32s3_wroom1_def module_esp32_d0wd_v3_def)

lemma shipped_fit: "list_all fits_modules shipped_assemblies"
  by (simp add: shipped_assemblies_def fits_modules_def module_targets module_esp32s3_wroom1_def module_esp32_d0wd_v3_def
    esp32s3_gpio_relay_assembly_def
    esp32s3_i2c_sensor_assembly_def
    esp32_can485_devboard_def
    esp32s3_va_wheeled_diff_assembly_def
    esp32s3_va_elrs_crsf_assembly_def
    esp32s3_va_multirotor_assembly_def
    esp32s3_va_multirotor_dshot_assembly_def
    esp32s3_va_multirotor_bdshot_assembly_def
    esp32s3_va_sbc_bridge_assembly_def
    esp32s3_va_marine_assembly_def)

lemma map_of_bt_of_list: "map_of (bt_of_list xs) = map_of (rev xs)"
proof -
  have "bt_sorted (bt_of_list xs) \<and> map_of (bt_of_list xs) = map_of (rev xs)"
    unfolding bt_of_list_def
    by (induction xs rule: rev_induct) (auto simp: bt_sorted_insert map_of_bt_insert)
  then show ?thesis ..
qed

lemma shipped_refs: "list_all refs_resolve shipped_assemblies"
  by (simp add: shipped_assemblies_def refs_resolve_def config_refs_def map_of_bt_of_list List.map_filter_simps
    esp32s3_gpio_relay_assembly_def esp32s3_gpio_relay_assembly_devices_def
    esp32s3_i2c_sensor_assembly_def esp32s3_i2c_sensor_assembly_devices_def
    esp32_can485_devboard_def esp32_can485_devboard_devices_def
    esp32s3_va_wheeled_diff_assembly_def esp32s3_va_wheeled_diff_assembly_devices_def
    esp32s3_va_elrs_crsf_assembly_def esp32s3_va_elrs_crsf_assembly_devices_def
    esp32s3_va_multirotor_assembly_def esp32s3_va_multirotor_assembly_devices_def
    esp32s3_va_multirotor_dshot_assembly_def esp32s3_va_multirotor_dshot_assembly_devices_def
    esp32s3_va_multirotor_bdshot_assembly_def esp32s3_va_multirotor_bdshot_assembly_devices_def
    esp32s3_va_sbc_bridge_assembly_def esp32s3_va_sbc_bridge_assembly_devices_def
    esp32s3_va_marine_assembly_def esp32s3_va_marine_assembly_devices_def)

text \<open>Every shipped assembly is found under its id and is well formed: names are unique, devices
  name declared peripherals, settings that refer to other devices name declared ones, and the
  modules it is made of are registered and have its chip.\<close>

theorem boards_well_formed:
  "list_all (\<lambda>a. assembly_get default_assembly_registry (as_id a) = Some a \<and> assembly_ok a \<and> refs_resolve a \<and> fits_modules a)
     shipped_assemblies
   \<and> set (map snd default_assembly_registry) = set shipped_assemblies"
proof -
  have "set (map snd default_assembly_registry) = set shipped_assemblies"
    unfolding default_assembly_registry_def assembly_register_def [abs_def] by (rule registered_items [OF shipped_ids])
  then show ?thesis using shipped_ok shipped_fit shipped_refs assembly_get_default unfolding list_all_iff by blast
qed

end
