(* ===== verification/Catalogue.thy ===== *)
theory Catalogue
  imports Solutions1 Solutions2 Solutions3 Solutions4 Boards Workspace GraphProperties
begin

text \<open>
  The solution catalogue the repository ships (\<open>default_solution_registry\<close> of
  \<open>rshome-schema/src/solution.rs\<close>) and what holds of all its solutions: they are found under their
  ids, their orchestration can be executed, and they name modules and boards that exist. Two
  properties relate the catalogue to the validation of workspaces: the transmitters and receivers
  that can be paired, and the receivers that no shipped transmitter reaches.
\<close>

section \<open>The catalogue\<close>

definition shipped_solutions :: "catalog_solution list" where
  "shipped_solutions = solutions_1 @ solutions_2 @ solutions_3 @ solutions_4"

definition default_solution_registry :: catalog where
  "default_solution_registry = populate_topology_category (fold catalog_register shipped_solutions [])"

lemma shipped_list_all:
  "list_all P solutions_1 \<Longrightarrow> list_all P solutions_2 \<Longrightarrow> list_all P solutions_3 \<Longrightarrow> list_all P solutions_4
   \<Longrightarrow> list_all P shipped_solutions"
  by (simp add: shipped_solutions_def)

section \<open>Modules and boards\<close>

definition module_target :: "string \<Rightarrow> chip_target option" where
  "module_target i = map_option md_target (module_get default_module_registry i)"

lemma module_target_table:
  "module_target ''esp32s3_wroom1'' = Some Esp32S3" "module_target ''esp32s3_mini1'' = Some Esp32S3"
  "module_target ''esp32c6_wroom1'' = Some Esp32C6" "module_target ''esp32c6_mini1'' = Some Esp32C6"
  "module_target ''esp32_d0wd_v3'' = Some Esp32"
  using module_get_default [of module_esp32s3_wroom1] module_get_default [of module_esp32s3_mini1]
    module_get_default [of module_esp32c6_wroom1] module_get_default [of module_esp32c6_mini1]
    module_get_default [of module_esp32_d0wd_v3]
  by (simp_all add: module_target_def shipped_modules_def module_esp32s3_wroom1_def module_esp32s3_mini1_def
    module_esp32c6_wroom1_def module_esp32c6_mini1_def module_esp32_d0wd_v3_def)

definition board_of :: "catalog_solution \<Rightarrow> string option" where
  "board_of s = rb_board_assembly (cs_runtime_binding s)"

definition board_modules :: "string \<Rightarrow> string list option" where
  "board_modules b = map_option as_modules (assembly_get default_assembly_registry b)"

lemma board_modules_table:
  "board_modules ''esp32_can485_devboard'' = Some [''esp32_d0wd_v3'']"
  "board_modules ''esp32s3_va_wheeled_diff_assembly'' = Some [''esp32s3_wroom1'']"
  "board_modules ''esp32s3_va_elrs_crsf_assembly'' = Some [''esp32s3_wroom1'']"
  "board_modules ''esp32s3_va_multirotor_assembly'' = Some [''esp32s3_wroom1'']"
  "board_modules ''esp32s3_va_multirotor_dshot_assembly'' = Some [''esp32s3_wroom1'']"
  "board_modules ''esp32s3_va_multirotor_bdshot_assembly'' = Some [''esp32s3_wroom1'']"
  "board_modules ''esp32s3_va_sbc_bridge_assembly'' = Some [''esp32s3_wroom1'']"
  "board_modules ''esp32s3_va_marine_assembly'' = Some [''esp32s3_wroom1'']"
  using assembly_get_default [of esp32_can485_devboard] assembly_get_default [of esp32s3_va_wheeled_diff_assembly]
    assembly_get_default [of esp32s3_va_elrs_crsf_assembly] assembly_get_default [of esp32s3_va_multirotor_assembly]
    assembly_get_default [of esp32s3_va_multirotor_dshot_assembly]
    assembly_get_default [of esp32s3_va_multirotor_bdshot_assembly]
    assembly_get_default [of esp32s3_va_sbc_bridge_assembly] assembly_get_default [of esp32s3_va_marine_assembly]
  by (simp_all add: board_modules_def shipped_assemblies_def esp32_can485_devboard_def esp32s3_va_wheeled_diff_assembly_def
    esp32s3_va_elrs_crsf_assembly_def esp32s3_va_multirotor_assembly_def esp32s3_va_multirotor_dshot_assembly_def
    esp32s3_va_multirotor_bdshot_assembly_def esp32s3_va_sbc_bridge_assembly_def esp32s3_va_marine_assembly_def)

text \<open>Modules that exist, and a board made of one of them.\<close>

definition hardware_ok :: "catalog_solution \<Rightarrow> bool" where
  "hardware_ok s \<longleftrightarrow> cs_supported_modules s \<noteq> [] \<and> list_all (\<lambda>i. module_target i \<noteq> None) (cs_supported_modules s)
     \<and> (case board_of s of None \<Rightarrow> True
        | Some b \<Rightarrow> (case board_modules b of None \<Rightarrow> False
            | Some ms \<Rightarrow> list_ex (\<lambda>m. m \<in> set (cs_supported_modules s)) ms))"

lemmas binding_defs = brookesia_vehicle_binding_def brookesia_wifi_binding_def default_runtime_binding_def

lemma hardware_1: "list_all hardware_ok solutions_1"
  by (simp add: solutions_1_def hardware_ok_def board_of_def module_target_table board_modules_table binding_defs
    solution_composite_device_firmware_def solution_camera_stream_def solution_sensor_hub_def
    sensor_hub_runtime_def phone_browser_video_solution_def phone_rtsp_av_solution_def
    direct_control_solution_def direct_control_video_solution_def direct_control_telemetry_solution_def
    dual_mcu_car_solution_def balance_stabilizer_solution_def remote_control_tx_solution_def
    video_board_solution_def analog_vtx_passthrough_solution_def receiver_direct_drive_solution_def
    sbus_passthrough_solution_def quad_stabilizer_solution_def)

lemma hardware_2: "list_all hardware_ok solutions_2"
  by (simp add: solutions_2_def hardware_ok_def board_of_def module_target_table board_modules_table binding_defs
    fixedwing_stabilizer_solution_def elrs_crsf_brushed_solution_def elrs_crsf_brushless_solution_def
    elrs_crsf_dshot_solution_def elrs_crsf_mavlink_solution_def esp_now_tx_solution_def elrs_tx_solution_def
    phone_bridge_solution_def phone_bridge_crsf_solution_def mcu_sbc_bridge_solution_def
    video_board_sbc_companion_solution_def mavlink_groundstation_solution_def web_ui_groundstation_solution_def
    mecanum_control_solution_def marine_surface_solution_def)

lemma hardware_3: "list_all hardware_ok solutions_3"
  by (simp add: solutions_3_def hardware_ok_def board_of_def module_target_table board_modules_table binding_defs
    lta_slow_actuator_solution_def agri_tool_dispatch_solution_def heli_stabilizer_solution_def
    modular_dynamic_solution_def hopping_ballistic_solution_def amphibious_transition_solution_def
    vtol_transition_solution_def rov_thruster_allocation_solution_def legged_controller_solution_def
    articulated_sequencer_solution_def climbing_controller_solution_def esp_now_sensor_solution_def
    solution_mqtt_gateway_bridge_def solution_ble_scanner_proxy_def ble_scanner_proxy_runtime_def)

lemma hardware_4: "list_all hardware_ok solutions_4"
  by (simp add: solutions_4_def hardware_ok_def board_of_def module_target_table board_modules_table binding_defs
    solution_env_data_logger_def solution_thread_zigbee_sensor_def thread_zigbee_sensor_runtime_def
    solution_zigbee_thread_gateway_def zigbee_thread_gateway_runtime_def solution_uart_debug_probe_def
    solution_i2c_bus_analyzer_def solution_sigrok_logic_analyzer_def solution_dashboard_display_def
    solution_status_led_notifier_def status_led_notifier_runtime_def mesh_lite_network_solution_def
    mesh_lite_network_solution_runtime_def bus_sampler_solution_def ld2410_presence_solution_def
    ct_clamp_power_monitor_solution_def air_quality_pm_station_solution_def lorawan_gateway_solution_def)

section \<open>Orchestration\<close>

definition steps_in_order :: "catalog_solution \<Rightarrow> bool" where
  "steps_in_order s = deps_earlier [] (sd_fixed_orchestration s)"

lemma steps_1: "list_all steps_in_order solutions_1"
  by (simp add: solutions_1_def steps_in_order_def steps_def
    solution_composite_device_firmware_def composite_device_firmware_steps_def solution_camera_stream_def
    camera_stream_steps_def solution_sensor_hub_def sensor_hub_steps_def phone_browser_video_solution_def
    phone_browser_video_solution_steps_def phone_rtsp_av_solution_def phone_rtsp_av_solution_steps_def
    direct_control_solution_def direct_control_solution_steps_def direct_control_video_solution_def
    direct_control_video_solution_steps_def direct_control_telemetry_solution_def
    direct_control_telemetry_solution_steps_def dual_mcu_car_solution_def dual_mcu_car_solution_steps_def
    balance_stabilizer_solution_def balance_stabilizer_solution_steps_def remote_control_tx_solution_def
    remote_control_tx_solution_steps_def video_board_solution_def video_board_solution_steps_def
    analog_vtx_passthrough_solution_def analog_vtx_passthrough_solution_steps_def
    receiver_direct_drive_solution_def receiver_direct_drive_solution_steps_def sbus_passthrough_solution_def
    sbus_passthrough_solution_steps_def quad_stabilizer_solution_def quad_stabilizer_solution_steps_def)

lemma steps_2: "list_all steps_in_order solutions_2"
  by (simp add: solutions_2_def steps_in_order_def steps_def
    fixedwing_stabilizer_solution_def fixedwing_stabilizer_solution_steps_def elrs_crsf_brushed_solution_def
    elrs_crsf_brushed_solution_steps_def elrs_crsf_brushless_solution_def elrs_crsf_brushless_solution_steps_def
    elrs_crsf_dshot_solution_def elrs_crsf_dshot_solution_steps_def elrs_crsf_mavlink_solution_def
    elrs_crsf_mavlink_solution_steps_def esp_now_tx_solution_def esp_now_tx_solution_steps_def
    elrs_tx_solution_def elrs_tx_solution_steps_def phone_bridge_solution_def phone_bridge_solution_steps_def
    phone_bridge_crsf_solution_def phone_bridge_crsf_solution_steps_def mcu_sbc_bridge_solution_def
    mcu_sbc_bridge_solution_steps_def video_board_sbc_companion_solution_def
    video_board_sbc_companion_solution_steps_def mavlink_groundstation_solution_def
    mavlink_groundstation_solution_steps_def web_ui_groundstation_solution_def
    web_ui_groundstation_solution_steps_def mecanum_control_solution_def mecanum_control_solution_steps_def
    marine_surface_solution_def marine_surface_solution_steps_def)

lemma steps_3: "list_all steps_in_order solutions_3"
  by (simp add: solutions_3_def steps_in_order_def steps_def
    lta_slow_actuator_solution_def lta_slow_actuator_solution_steps_def agri_tool_dispatch_solution_def
    agri_tool_dispatch_solution_steps_def heli_stabilizer_solution_def heli_stabilizer_solution_steps_def
    modular_dynamic_solution_def modular_dynamic_solution_steps_def hopping_ballistic_solution_def
    hopping_ballistic_solution_steps_def amphibious_transition_solution_def
    amphibious_transition_solution_steps_def vtol_transition_solution_def vtol_transition_solution_steps_def
    rov_thruster_allocation_solution_def rov_thruster_allocation_solution_steps_def
    legged_controller_solution_def legged_controller_solution_steps_def articulated_sequencer_solution_def
    articulated_sequencer_solution_steps_def climbing_controller_solution_def
    climbing_controller_solution_steps_def esp_now_sensor_solution_def solution_mqtt_gateway_bridge_def
    mqtt_gateway_bridge_steps_def solution_ble_scanner_proxy_def ble_scanner_proxy_steps_def)

lemma steps_4: "list_all steps_in_order solutions_4"
  by (simp add: solutions_4_def steps_in_order_def steps_def
    solution_env_data_logger_def env_data_logger_steps_def solution_thread_zigbee_sensor_def
    thread_zigbee_sensor_steps_def solution_zigbee_thread_gateway_def zigbee_thread_gateway_steps_def
    solution_uart_debug_probe_def uart_debug_probe_steps_def solution_i2c_bus_analyzer_def
    i2c_bus_analyzer_steps_def solution_sigrok_logic_analyzer_def sigrok_logic_analyzer_steps_def
    solution_dashboard_display_def dashboard_display_steps_def solution_status_led_notifier_def
    status_led_notifier_steps_def mesh_lite_network_solution_def bus_sampler_solution_def
    bus_sampler_solution_steps_def ld2410_presence_solution_def ld2410_presence_solution_steps_def
    ct_clamp_power_monitor_solution_def ct_clamp_power_monitor_solution_steps_def
    air_quality_pm_station_solution_def air_quality_pm_station_solution_steps_def lorawan_gateway_solution_def
    lorawan_gateway_solution_steps_def)

section \<open>Links\<close>

type_synonym link_row = "string \<times> control_uplink option \<times> telemetry_kind option"

definition link_of :: "catalog_solution \<Rightarrow> link_row" where
  "link_of s = (sd_id s, cs_control_uplink s, cs_telemetry s)"

definition transmits :: "catalog_solution \<Rightarrow> bool" where
  "transmits s \<longleftrightarrow> sends (cs_architecture_tier s) \<and> sd_id s \<noteq> ''phone_bridge_solution''"

definition receives_link :: "catalog_solution \<Rightarrow> bool" where
  "receives_link s \<longleftrightarrow> receives (cs_architecture_tier s)"

definition transmitters :: "link_row list" where
  "transmitters =
    [(''remote_control_tx_solution'', Some Up_Wifi80211lr, Some Tel_None),
     (''esp_now_tx_solution'', Some Up_EspNow, Some Tel_None),
     (''elrs_tx_solution'', Some Up_Crsf, Some Tel_CrsfTelemetry),
     (''phone_bridge_crsf_solution'', Some Up_Crsf, Some Tel_CrsfTelemetry),
     (''mavlink_groundstation_solution'', Some Up_WifiMavlink, Some Tel_MavlinkWifi),
     (''web_ui_groundstation_solution'', Some Up_WifiMavlink, Some Tel_MavlinkWifi)]"

definition receivers_shipped :: "link_row list" where
  "receivers_shipped =
    [(''direct_control_solution'', Some Up_WifiCrtp, Some Tel_CustomUart),
     (''direct_control_video_solution'', Some Up_WifiCrtp, Some Tel_CustomUart),
     (''direct_control_telemetry_solution'', Some Up_WifiCrtp, Some Tel_MavlinkWifi),
     (''dual_mcu_car_solution'', Some Up_WifiCrtp, Some Tel_MavlinkWifi),
     (''balance_stabilizer_solution'', Some Up_EspNow, Some Tel_CustomUart),
     (''quad_stabilizer_solution'', Some Up_Crsf, Some Tel_CrsfTelemetry),
     (''fixedwing_stabilizer_solution'', Some Up_Crsf, Some Tel_CrsfTelemetry),
     (''elrs_crsf_brushed_solution'', Some Up_Crsf, Some Tel_CrsfTelemetry),
     (''elrs_crsf_brushless_solution'', Some Up_Crsf, Some Tel_CrsfTelemetry),
     (''elrs_crsf_dshot_solution'', Some Up_Crsf, Some Tel_DshotTelemetry),
     (''elrs_crsf_mavlink_solution'', Some Up_Crsf, Some Tel_MavlinkWifi),
     (''mcu_sbc_bridge_solution'', Some Up_Crsf, Some Tel_MavlinkUart),
     (''mecanum_control_solution'', Some Up_EspNow, Some Tel_CustomUart),
     (''marine_surface_solution'', Some Up_Crsf, Some Tel_MavlinkWifi),
     (''lta_slow_actuator_solution'', Some Up_Crsf, Some Tel_MavlinkWifi),
     (''agri_tool_dispatch_solution'', Some Up_Crsf, Some Tel_MavlinkWifi),
     (''heli_stabilizer_solution'', Some Up_Crsf, Some Tel_CrsfTelemetry),
     (''modular_dynamic_solution'', Some Up_EspNow, Some Tel_CustomUart),
     (''hopping_ballistic_solution'', Some Up_EspNow, Some Tel_CustomUart),
     (''amphibious_transition_solution'', Some Up_Crsf, Some Tel_MavlinkWifi),
     (''vtol_transition_solution'', Some Up_Crsf, Some Tel_MavlinkWifi),
     (''rov_thruster_allocation_solution'', Some Up_WifiMavlink, Some Tel_MavlinkUart),
     (''legged_controller_solution'', Some Up_WifiMavlink, Some Tel_MavlinkUart),
     (''articulated_sequencer_solution'', Some Up_WifiMavlink, Some Tel_CustomUart),
     (''climbing_controller_solution'', Some Up_WifiMavlink, Some Tel_MavlinkWifi)]"

lemma tx_1: "map link_of (filter transmits solutions_1) =
    [(''remote_control_tx_solution'', Some Up_Wifi80211lr, Some Tel_None)]"
  by (simp add: solutions_1_def transmits_def link_of_def
    solution_composite_device_firmware_def solution_camera_stream_def solution_sensor_hub_def
    phone_browser_video_solution_def phone_rtsp_av_solution_def direct_control_solution_def
    direct_control_video_solution_def direct_control_telemetry_solution_def dual_mcu_car_solution_def
    balance_stabilizer_solution_def remote_control_tx_solution_def video_board_solution_def
    analog_vtx_passthrough_solution_def receiver_direct_drive_solution_def sbus_passthrough_solution_def
    quad_stabilizer_solution_def)

lemma tx_2: "map link_of (filter transmits solutions_2) =
    [(''esp_now_tx_solution'', Some Up_EspNow, Some Tel_None),
     (''elrs_tx_solution'', Some Up_Crsf, Some Tel_CrsfTelemetry),
     (''phone_bridge_crsf_solution'', Some Up_Crsf, Some Tel_CrsfTelemetry),
     (''mavlink_groundstation_solution'', Some Up_WifiMavlink, Some Tel_MavlinkWifi),
     (''web_ui_groundstation_solution'', Some Up_WifiMavlink, Some Tel_MavlinkWifi)]"
  by (simp add: solutions_2_def transmits_def link_of_def
    fixedwing_stabilizer_solution_def elrs_crsf_brushed_solution_def elrs_crsf_brushless_solution_def
    elrs_crsf_dshot_solution_def elrs_crsf_mavlink_solution_def esp_now_tx_solution_def elrs_tx_solution_def
    phone_bridge_solution_def phone_bridge_crsf_solution_def mcu_sbc_bridge_solution_def
    video_board_sbc_companion_solution_def mavlink_groundstation_solution_def web_ui_groundstation_solution_def
    mecanum_control_solution_def marine_surface_solution_def)

lemma tx_3: "map link_of (filter transmits solutions_3) =
    []"
  by (simp add: solutions_3_def transmits_def link_of_def
    lta_slow_actuator_solution_def agri_tool_dispatch_solution_def heli_stabilizer_solution_def
    modular_dynamic_solution_def hopping_ballistic_solution_def amphibious_transition_solution_def
    vtol_transition_solution_def rov_thruster_allocation_solution_def legged_controller_solution_def
    articulated_sequencer_solution_def climbing_controller_solution_def esp_now_sensor_solution_def
    solution_mqtt_gateway_bridge_def solution_ble_scanner_proxy_def)

lemma tx_4: "map link_of (filter transmits solutions_4) =
    []"
  by (simp add: solutions_4_def transmits_def link_of_def
    solution_env_data_logger_def solution_thread_zigbee_sensor_def solution_zigbee_thread_gateway_def
    solution_uart_debug_probe_def solution_i2c_bus_analyzer_def solution_sigrok_logic_analyzer_def
    solution_dashboard_display_def solution_status_led_notifier_def mesh_lite_network_solution_def
    bus_sampler_solution_def ld2410_presence_solution_def ct_clamp_power_monitor_solution_def
    air_quality_pm_station_solution_def lorawan_gateway_solution_def)

lemma rx_1: "map link_of (filter receives_link solutions_1) =
    [(''direct_control_solution'', Some Up_WifiCrtp, Some Tel_CustomUart),
     (''direct_control_video_solution'', Some Up_WifiCrtp, Some Tel_CustomUart),
     (''direct_control_telemetry_solution'', Some Up_WifiCrtp, Some Tel_MavlinkWifi),
     (''dual_mcu_car_solution'', Some Up_WifiCrtp, Some Tel_MavlinkWifi),
     (''balance_stabilizer_solution'', Some Up_EspNow, Some Tel_CustomUart),
     (''quad_stabilizer_solution'', Some Up_Crsf, Some Tel_CrsfTelemetry)]"
  by (simp add: solutions_1_def receives_link_def link_of_def
    solution_composite_device_firmware_def solution_camera_stream_def solution_sensor_hub_def
    phone_browser_video_solution_def phone_rtsp_av_solution_def direct_control_solution_def
    direct_control_video_solution_def direct_control_telemetry_solution_def dual_mcu_car_solution_def
    balance_stabilizer_solution_def remote_control_tx_solution_def video_board_solution_def
    analog_vtx_passthrough_solution_def receiver_direct_drive_solution_def sbus_passthrough_solution_def
    quad_stabilizer_solution_def)

lemma rx_2: "map link_of (filter receives_link solutions_2) =
    [(''fixedwing_stabilizer_solution'', Some Up_Crsf, Some Tel_CrsfTelemetry),
     (''elrs_crsf_brushed_solution'', Some Up_Crsf, Some Tel_CrsfTelemetry),
     (''elrs_crsf_brushless_solution'', Some Up_Crsf, Some Tel_CrsfTelemetry),
     (''elrs_crsf_dshot_solution'', Some Up_Crsf, Some Tel_DshotTelemetry),
     (''elrs_crsf_mavlink_solution'', Some Up_Crsf, Some Tel_MavlinkWifi),
     (''mcu_sbc_bridge_solution'', Some Up_Crsf, Some Tel_MavlinkUart),
     (''mecanum_control_solution'', Some Up_EspNow, Some Tel_CustomUart),
     (''marine_surface_solution'', Some Up_Crsf, Some Tel_MavlinkWifi)]"
  by (simp add: solutions_2_def receives_link_def link_of_def
    fixedwing_stabilizer_solution_def elrs_crsf_brushed_solution_def elrs_crsf_brushless_solution_def
    elrs_crsf_dshot_solution_def elrs_crsf_mavlink_solution_def esp_now_tx_solution_def elrs_tx_solution_def
    phone_bridge_solution_def phone_bridge_crsf_solution_def mcu_sbc_bridge_solution_def
    video_board_sbc_companion_solution_def mavlink_groundstation_solution_def web_ui_groundstation_solution_def
    mecanum_control_solution_def marine_surface_solution_def)

lemma rx_3: "map link_of (filter receives_link solutions_3) =
    [(''lta_slow_actuator_solution'', Some Up_Crsf, Some Tel_MavlinkWifi),
     (''agri_tool_dispatch_solution'', Some Up_Crsf, Some Tel_MavlinkWifi),
     (''heli_stabilizer_solution'', Some Up_Crsf, Some Tel_CrsfTelemetry),
     (''modular_dynamic_solution'', Some Up_EspNow, Some Tel_CustomUart),
     (''hopping_ballistic_solution'', Some Up_EspNow, Some Tel_CustomUart),
     (''amphibious_transition_solution'', Some Up_Crsf, Some Tel_MavlinkWifi),
     (''vtol_transition_solution'', Some Up_Crsf, Some Tel_MavlinkWifi),
     (''rov_thruster_allocation_solution'', Some Up_WifiMavlink, Some Tel_MavlinkUart),
     (''legged_controller_solution'', Some Up_WifiMavlink, Some Tel_MavlinkUart),
     (''articulated_sequencer_solution'', Some Up_WifiMavlink, Some Tel_CustomUart),
     (''climbing_controller_solution'', Some Up_WifiMavlink, Some Tel_MavlinkWifi)]"
  by (simp add: solutions_3_def receives_link_def link_of_def
    lta_slow_actuator_solution_def agri_tool_dispatch_solution_def heli_stabilizer_solution_def
    modular_dynamic_solution_def hopping_ballistic_solution_def amphibious_transition_solution_def
    vtol_transition_solution_def rov_thruster_allocation_solution_def legged_controller_solution_def
    articulated_sequencer_solution_def climbing_controller_solution_def esp_now_sensor_solution_def
    solution_mqtt_gateway_bridge_def solution_ble_scanner_proxy_def)

lemma rx_4: "map link_of (filter receives_link solutions_4) =
    []"
  by (simp add: solutions_4_def receives_link_def link_of_def
    solution_env_data_logger_def solution_thread_zigbee_sensor_def solution_zigbee_thread_gateway_def
    solution_uart_debug_probe_def solution_i2c_bus_analyzer_def solution_sigrok_logic_analyzer_def
    solution_dashboard_display_def solution_status_led_notifier_def mesh_lite_network_solution_def
    bus_sampler_solution_def ld2410_presence_solution_def ct_clamp_power_monitor_solution_def
    air_quality_pm_station_solution_def lorawan_gateway_solution_def)

lemma shipped_transmitters: "link_of ` set (filter transmits shipped_solutions) = set transmitters"
proof -
  have "map link_of (filter transmits shipped_solutions) = transmitters"
    by (simp only: shipped_solutions_def filter_append map_append tx_1 tx_2 tx_3 tx_4 transmitters_def append.simps)
  then show ?thesis by (metis list.set_map)
qed

lemma shipped_receivers: "link_of ` set (filter receives_link shipped_solutions) = set receivers_shipped"
proof -
  have "map link_of (filter receives_link shipped_solutions) = receivers_shipped"
    by (simp only: shipped_solutions_def filter_append map_append rx_1 rx_2 rx_3 rx_4 receivers_shipped_def append.simps)
  then show ?thesis by (metis list.set_map)
qed

definition links_agree :: "link_row \<Rightarrow> link_row \<Rightarrow> bool" where
  "links_agree a b \<longleftrightarrow> (case (a, b) of ((_, u, t), (_, u', t')) \<Rightarrow>
     u \<noteq> None \<and> u = u' \<and> (t = None \<or> t' = None \<or> t = t'))"

lemma uplink_name_inj: "uplink_name a = uplink_name b \<longleftrightarrow> a = b"
  by (cases a; cases b) simp_all

lemma known_pair: "known [(p, Some t), (q, Some r)] = [(p, t), (q, r)]"
  by (simp add: known_def List.map_filter_simps)

lemma pair_accepted:
  assumes "transmits t" and "receives_link r"
  shows "validate_pairs [(p, Some t), (q, Some r)] = [] \<longleftrightarrow> links_agree (link_of t) (link_of r)"
proof -
  have t: "sends (cs_architecture_tier t)" "\<not> receives (cs_architecture_tier t)" "sd_id t \<noteq> ''phone_bridge_solution''"
    using assms(1) by (auto simp: transmits_def elim: sends.elims)
  have r: "receives (cs_architecture_tier r)" "\<not> sends (cs_architecture_tier r)"
    using assms(2) by (auto simp: receives_link_def elim: receives.elims)
  have sides: "sender_profiles [(p, Some t), (q, Some r)] = [(p, t)]" "receiver_profiles [(p, Some t), (q, Some r)] = [(q, r)]"
    using t r by (simp_all add: sender_profiles_def receiver_profiles_def known_pair)
  have up: "effective_control_uplink p t = map_option uplink_name (cs_control_uplink t)"
    using t(3) by (simp add: effective_control_uplink_def)
  show ?thesis
    unfolding validate_pairs_def sides
    by (cases "cs_control_uplink t"; cases "cs_control_uplink r"; cases "cs_telemetry t"; cases "cs_telemetry r")
      (auto simp: check_sender_def check_receiver_def peer_def up links_agree_def link_of_def check_telemetry_def
        telemetry_name_inj uplink_name_inj)
qed

section \<open>Ids\<close>

lemma shipped_solution_ids: "distinct (map sd_id shipped_solutions)"
  by (simp add: shipped_solutions_def solutions_1_def solutions_2_def solutions_3_def solutions_4_def
    solution_composite_device_firmware_def solution_camera_stream_def solution_sensor_hub_def
    phone_browser_video_solution_def phone_rtsp_av_solution_def direct_control_solution_def
    direct_control_video_solution_def direct_control_telemetry_solution_def dual_mcu_car_solution_def
    balance_stabilizer_solution_def remote_control_tx_solution_def video_board_solution_def
    analog_vtx_passthrough_solution_def receiver_direct_drive_solution_def sbus_passthrough_solution_def
    quad_stabilizer_solution_def
    fixedwing_stabilizer_solution_def elrs_crsf_brushed_solution_def elrs_crsf_brushless_solution_def
    elrs_crsf_dshot_solution_def elrs_crsf_mavlink_solution_def esp_now_tx_solution_def elrs_tx_solution_def
    phone_bridge_solution_def phone_bridge_crsf_solution_def mcu_sbc_bridge_solution_def
    video_board_sbc_companion_solution_def mavlink_groundstation_solution_def web_ui_groundstation_solution_def
    mecanum_control_solution_def marine_surface_solution_def
    lta_slow_actuator_solution_def agri_tool_dispatch_solution_def heli_stabilizer_solution_def
    modular_dynamic_solution_def hopping_ballistic_solution_def amphibious_transition_solution_def
    vtol_transition_solution_def rov_thruster_allocation_solution_def legged_controller_solution_def
    articulated_sequencer_solution_def climbing_controller_solution_def esp_now_sensor_solution_def
    solution_mqtt_gateway_bridge_def solution_ble_scanner_proxy_def
    solution_env_data_logger_def solution_thread_zigbee_sensor_def solution_zigbee_thread_gateway_def
    solution_uart_debug_probe_def solution_i2c_bus_analyzer_def solution_sigrok_logic_analyzer_def
    solution_dashboard_display_def solution_status_led_notifier_def mesh_lite_network_solution_def
    bus_sampler_solution_def ld2410_presence_solution_def ct_clamp_power_monitor_solution_def
    air_quality_pm_station_solution_def lorawan_gateway_solution_def)

section \<open>Properties\<close>

text \<open>Each of the shipped solutions is found in the registry under its own id, with the topology
  its uplink implies, and the registry holds nothing else. The ids ascend.\<close>

theorem catalogue_lookup:
  "list_all (\<lambda>s. catalog_get default_solution_registry (sd_id s) = Some (populate_topology s)) shipped_solutions
   \<and> set (catalog_all default_solution_registry) = populate_topology ` set shipped_solutions
   \<and> sorted_wrt (<) (map fst default_solution_registry)"
proof -
  let ?reg = "fold catalog_register shipped_solutions []"
  have reg: "?reg = fold (\<lambda>s. bt_insert (sd_id s) s) shipped_solutions []"
    by (simp only: catalog_register_def [abs_def])
  have get: "catalog_get default_solution_registry i = map_option populate_topology (map_of ?reg i)" for i
    unfolding catalog_get_def default_solution_registry_def populate_topology_category_def by (simp add: map_of_map)
  have "list_all (\<lambda>s. catalog_get default_solution_registry (sd_id s) = Some (populate_topology s)) shipped_solutions"
    using registered_get [OF shipped_solution_ids] unfolding get reg list_all_iff by simp
  moreover have "set (catalog_all default_solution_registry) = populate_topology ` set (map snd ?reg)"
    by (force simp: catalog_all_def default_solution_registry_def populate_topology_category_def)
  moreover have "map fst default_solution_registry = map fst ?reg"
    by (simp add: default_solution_registry_def populate_topology_category_def case_prod_beta comp_def)
  ultimately show ?thesis
    using registered_items [OF shipped_solution_ids] registered [OF shipped_solution_ids] unfolding reg by simp
qed

text \<open>C20. The orchestration of every shipped solution can be executed: it forms no cycle, and its
  execution order holds each step once, after the steps it depends on. A solution whose steps declare
  no dependency runs them in the order given.\<close>

theorem catalogue_executable:
  assumes "petgraph_laws pg" and "s \<in> set shipped_solutions"
  shows "\<exists>dag order. from_steps pg (sd_fixed_orchestration s) = Inr dag \<and> execution_order pg dag = Inr order
    \<and> mset order = mset (map os_id (sd_fixed_orchestration s))
    \<and> (if list_all (\<lambda>t. os_depends_on t = []) (sd_fixed_orchestration s) then order = map os_id (sd_fixed_orchestration s)
       else \<forall>t \<in> set (sd_fixed_orchestration s). \<forall>dep \<in> set (os_depends_on t).
              dep \<in> set (map os_id (sd_fixed_orchestration s)) \<longrightarrow> occurs_before order dep (os_id t))"
proof -
  have "steps_in_order s"
    using shipped_list_all [OF steps_1 steps_2 steps_3 steps_4] assms(2) by (simp add: list_all_iff)
  then have d: "deps_earlier [] (sd_fixed_orchestration s)" by (simp add: steps_in_order_def)
  obtain dag where dag: "from_steps pg (sd_fixed_orchestration s) = Inr dag" using in_order_executable [OF assms(1) d] ..
  show ?thesis
    using execution_order_correct [OF assms(1) dag conjunct1 [OF deps_earlier_ids [OF d]]] dag by blast
qed

text \<open>Every shipped solution supports at least one module, all the modules it names are registered,
  and the board it names, when it names one, is registered and made of a module it supports.\<close>

theorem catalogue_hardware:
  "list_all hardware_ok shipped_solutions"
  by (rule shipped_list_all [OF hardware_1 hardware_2 hardware_3 hardware_4])

text \<open>The pairs that work.\<close>

definition working_pairs :: "(string list \<times> string list) list" where
  "working_pairs =
     [([''elrs_tx_solution'', ''phone_bridge_crsf_solution''],
       [''quad_stabilizer_solution'', ''fixedwing_stabilizer_solution'', ''elrs_crsf_brushed_solution'',
        ''elrs_crsf_brushless_solution'', ''heli_stabilizer_solution'']),
      ([''mavlink_groundstation_solution'', ''web_ui_groundstation_solution''], [''climbing_controller_solution''])]"

definition works :: "string \<Rightarrow> string \<Rightarrow> bool" where
  "works i j \<longleftrightarrow> list_ex (\<lambda>(ts, rs). i \<in> set ts \<and> j \<in> set rs) working_pairs"

lemma links_work:
  "list_all (\<lambda>a. list_all (\<lambda>b. links_agree a b = works (fst a) (fst b)) receivers_shipped) transmitters"
  by (simp add: transmitters_def receivers_shipped_def links_agree_def works_def working_pairs_def)

lemma shipped_link:
  assumes "t \<in> set shipped_solutions" and "transmits t" and "r \<in> set shipped_solutions" and "receives_link r"
  shows "links_agree (link_of t) (link_of r) = works (sd_id t) (sd_id r)"
proof -
  have "link_of t \<in> set transmitters" "link_of r \<in> set receivers_shipped"
    using assms shipped_transmitters shipped_receivers by auto
  then have "links_agree (link_of t) (link_of r) = works (fst (link_of t)) (fst (link_of r))"
    using links_work unfolding list_all_iff by blast
  then show ?thesis by (simp add: link_of_def)
qed

lemma populated_fields [simp]:
  "sd_id (populate_topology s) = sd_id s" "cs_architecture_tier (populate_topology s) = cs_architecture_tier s"
  "cs_control_uplink (populate_topology s) = cs_control_uplink s" "cs_telemetry (populate_topology s) = cs_telemetry s"
  "cs_pin_assignments (populate_topology s) = cs_pin_assignments s" "cs_chip_coverage (populate_topology s) = cs_chip_coverage s"
  by (simp_all add: populate_topology_def split: option.split)

lemma populated_views [simp]:
  "transmits (populate_topology s) = transmits s" "receives_link (populate_topology s) = receives_link s"
  "link_of (populate_topology s) = link_of s"
  by (simp_all add: transmits_def receives_link_def link_of_def)

lemma populated_conflicts: "detect_conflicts (map populate_topology sols) chip = detect_conflicts sols chip"
proof -
  have "pin_uses (map populate_topology sols) chip = pin_uses sols chip"
    by (induction sols) (simp_all add: pin_uses_def chip_is_compatible_def split: option.split)
  then show ?thesis by (simp add: detect_conflicts_def)
qed

lemma populated_pair: "detect_conflicts [populate_topology s, populate_topology t] chip = detect_conflicts [s, t] chip"
  using populated_conflicts [of "[s, t]"] by simp

lemma registry_get: "s \<in> set shipped_solutions \<Longrightarrow> catalog_get default_solution_registry (sd_id s) = Some (populate_topology s)"
  using catalogue_lookup by (simp add: list_all_iff)

lemma registry_member:
  assumes "catalog_get default_solution_registry i = Some s'"
  shows "\<exists>s \<in> set shipped_solutions. s' = populate_topology s \<and> sd_id s = i"
proof -
  have "map_of (fold (\<lambda>s. bt_insert (sd_id s) s) shipped_solutions []) i = map_of (map (\<lambda>s. (sd_id s, s)) shipped_solutions) i"
    using registered [OF shipped_solution_ids] by simp
  then have "\<exists>s. s' = populate_topology s \<and> map_of (map (\<lambda>s. (sd_id s, s)) shipped_solutions) i = Some s"
    using assms by (auto simp: catalog_get_def default_solution_registry_def populate_topology_category_def
      catalog_register_def [abs_def] map_of_map)
  then show ?thesis by (auto dest!: map_of_SomeD)
qed

text \<open>The pins of two profiles are compared when they have the same chip family.\<close>

lemma pair_conflicts:
  "validate_pin_conflicts [(p, Some s), (q, Some t)] = [] \<longleftrightarrow>
     (pf_chip_target p = pf_chip_target q \<longrightarrow> detect_conflicts [s, t] (pf_chip_target p) = [])"
proof -
  have on: "on_chip [(p, Some s), (q, Some t)] chip =
      (if pf_chip_target p = chip then [(p, s)] else []) @ (if pf_chip_target q = chip then [(q, t)] else [])" for chip
    by (simp add: on_chip_def known_pair)
  show ?thesis unfolding validate_pin_conflicts_empty on by auto
qed

text \<open>C15. A workspace of two profiles, one of a shipped transmitter and one of a shipped receiver, is
  accepted exactly when the solutions are one of twelve pairs (five receivers for ELRS or the CRSF
  bridge and one for the two ground stations) and either the profiles have different chip families
  or the default pins of the two solutions do not conflict on their chip. The labels and parameter
  values of the profiles do not matter. The phone bridge, whose uplink is a parameter without a
  fixed range, is not among the transmitters.\<close>

theorem shipped_pairs:
  assumes "t \<in> set shipped_solutions" and "transmits t" and "pf_solution_id p = sd_id t"
    and "r \<in> set shipped_solutions" and "receives_link r" and "pf_solution_id q = sd_id r"
  shows "validate_workspace [p, q] default_solution_registry = [] \<longleftrightarrow>
    works (sd_id t) (sd_id r)
    \<and> (pf_chip_target p = pf_chip_target q \<longrightarrow> detect_conflicts [t, r] (pf_chip_target p) = [])"
proof -
  have "resolve_profiles [p, q] default_solution_registry = [(p, Some (populate_topology t)), (q, Some (populate_topology r))]"
    using assms by (simp add: resolve_profiles_def registry_get)
  then have "validate_workspace [p, q] default_solution_registry = [] \<longleftrightarrow>
      links_agree (link_of t) (link_of r)
      \<and> (pf_chip_target p = pf_chip_target q \<longrightarrow> detect_conflicts [t, r] (pf_chip_target p) = [])"
    using assms pair_accepted [of "populate_topology t" "populate_topology r" p q]
    by (simp add: validate_workspace_def Let_def pair_conflicts populated_pair)
  then show ?thesis using shipped_link assms by simp
qed

text \<open>The four receivers controlled over WiFi CRTP, which no shipped transmitter speaks.\<close>

lemma crtp_receiver:
  assumes "s \<in> set shipped_solutions" and "receives_link s" and "cs_control_uplink s = Some Up_WifiCrtp"
    and "t \<in> set shipped_solutions" and "sends (cs_architecture_tier t)"
    and "effective_control_uplink p (populate_topology t) = Some (uplink_name Up_WifiCrtp)"
  shows "sd_id t = ''phone_bridge_solution''
    \<and> map_of (pf_parameter_values p) ''vehicle_side_protocol'' = Some (JStr ''wifi_crtp'')"
proof -
  have "\<not> transmits t"
  proof
    assume t: "transmits t"
    then have "link_of t \<in> set transmitters" using assms(4) shipped_transmitters by auto
    then have "cs_control_uplink t \<noteq> Some Up_WifiCrtp" by (auto simp: transmitters_def link_of_def)
    then show False
      using assms(6) t by (auto simp: effective_control_uplink_def transmits_def uplink_name_inj simp del: uplink_name.simps)
  qed
  then have i: "sd_id t = ''phone_bridge_solution''" using assms(5) by (simp add: transmits_def)
  then have "Option.bind (map_of (pf_parameter_values p) ''vehicle_side_protocol'') as_str = Some ''wifi_crtp''"
    using assms(6) by (simp add: effective_control_uplink_def)
  then obtain v where "map_of (pf_parameter_values p) ''vehicle_side_protocol'' = Some v" "as_str v = Some ''wifi_crtp''"
    by (auto simp: bind_eq_Some_conv)
  then show ?thesis using i by (cases v) simp_all
qed

text \<open>C16. However many profiles an accepted workspace has and in whatever order: when one of them is a
  receiver controlled over WiFi CRTP, another is a phone bridge whose protocol on the side of the
  vehicle was set to WiFi CRTP. No shipped transmitter speaks it.\<close>

theorem crtp_receivers_need_bridge:
  assumes "validate_workspace ws default_solution_registry = []" and "q \<in> set ws"
    and "r \<in> set shipped_solutions" and "pf_solution_id q = sd_id r" and "receives_link r"
    and "cs_control_uplink r = Some Up_WifiCrtp"
  shows "\<exists>p \<in> set ws. pf_solution_id p = ''phone_bridge_solution''
    \<and> map_of (pf_parameter_values p) ''vehicle_side_protocol'' = Some (JStr ''wifi_crtp'')"
proof -
  let ?rs = "resolve_profiles ws default_solution_registry"
  have known: "(p, s) \<in> set (known ?rs) \<longleftrightarrow> p \<in> set ws \<and> catalog_get default_solution_registry (pf_solution_id p) = Some s" for p s
    by (force simp: known_def resolve_profiles_def set_map_filter)
  have "(q, populate_topology r) \<in> set (receiver_profiles ?rs)"
    using assms(2, 4, 5) registry_get [OF assms(3)] by (simp add: receiver_profiles_def known receives_link_def)
  moreover have "concat (map (check_receiver (sender_profiles ?rs)) (receiver_profiles ?rs)) = []"
    using assms(1) by (simp add: validate_workspace_def validate_pairs_def Let_def)
  ultimately have "check_receiver (sender_profiles ?rs) (q, populate_topology r) = []" by (simp only: concat_eq_Nil_conv) auto
  then obtain p s where s: "(p, s) \<in> set (sender_profiles ?rs)" "effective_control_uplink p s = Some (uplink_name Up_WifiCrtp)"
    using assms(6) unfolding check_receiver_empty by auto
  then have p: "p \<in> set ws" "catalog_get default_solution_registry (pf_solution_id p) = Some s" "sends (cs_architecture_tier s)"
    by (simp_all add: sender_profiles_def known)
  then obtain t where t: "t \<in> set shipped_solutions" "s = populate_topology t" "sd_id t = pf_solution_id p"
    using registry_member by metis
  have "sd_id t = ''phone_bridge_solution''
      \<and> map_of (pf_parameter_values p) ''vehicle_side_protocol'' = Some (JStr ''wifi_crtp'')"
    by (rule crtp_receiver [OF assms(3, 5, 6) t(1)]) (use p(3) s(2) t(2) in simp_all)
  then show ?thesis using p(1) t(3) by auto
qed

section \<open>Examples\<close>

definition on_s3 :: "string \<Rightarrow> (string \<times> json) list \<Rightarrow> saved_profile" where
  "on_s3 i values = \<lparr>pf_label = i, pf_chip_target = Chip_Esp32S3, pf_solution_id = i, pf_parameter_values = values\<rparr>"

theorem shipped_pairs_witness:
  "validate_workspace [on_s3 ''elrs_tx_solution'' [], on_s3 ''quad_stabilizer_solution'' [] \<lparr>pf_chip_target := Chip_Esp32C6\<rparr>]
     default_solution_registry = []"
proof -
  let ?p = "on_s3 ''elrs_tx_solution'' []" and ?q = "on_s3 ''quad_stabilizer_solution'' [] \<lparr>pf_chip_target := Chip_Esp32C6\<rparr>"
  have "elrs_tx_solution \<in> set shipped_solutions" "quad_stabilizer_solution \<in> set shipped_solutions"
    by (simp_all add: shipped_solutions_def solutions_1_def solutions_2_def)
  moreover have "transmits elrs_tx_solution" "receives_link quad_stabilizer_solution"
    by (simp_all add: transmits_def receives_link_def elrs_tx_solution_def quad_stabilizer_solution_def)
  moreover have "sd_id elrs_tx_solution = ''elrs_tx_solution''" "sd_id quad_stabilizer_solution = ''quad_stabilizer_solution''"
    by (simp_all add: elrs_tx_solution_def quad_stabilizer_solution_def)
  ultimately show ?thesis
    using shipped_pairs [of elrs_tx_solution ?p quad_stabilizer_solution ?q]
    by (simp add: on_s3_def works_def working_pairs_def)
qed

definition bridge_profile :: saved_profile where
  "bridge_profile = on_s3 ''phone_bridge_solution'' [(''vehicle_side_protocol'', JStr ''wifi_crtp'')]"

definition car_profile :: saved_profile where
  "car_profile = on_s3 ''direct_control_solution'' [] \<lparr>pf_chip_target := Chip_Esp32C6\<rparr>"

lemma bridge_and_car:
  "phone_bridge_solution \<in> set shipped_solutions" "direct_control_solution \<in> set shipped_solutions"
  "sd_id phone_bridge_solution = ''phone_bridge_solution''" "sd_id direct_control_solution = ''direct_control_solution''"
  "cs_architecture_tier phone_bridge_solution = Some Role_SmartphoneGateway" "receives_link direct_control_solution"
  "cs_control_uplink direct_control_solution = Some Up_WifiCrtp"
  "cs_telemetry phone_bridge_solution = cs_telemetry direct_control_solution"
  by (simp_all add: shipped_solutions_def solutions_1_def solutions_2_def receives_link_def phone_bridge_solution_def
    direct_control_solution_def)

lemma bridge_drives_car: "validate_workspace [bridge_profile, car_profile] default_solution_registry = []"
proof -
  let ?b = "populate_topology phone_bridge_solution" and ?c = "populate_topology direct_control_solution"
  have sides: "sender_profiles [(bridge_profile, Some ?b), (car_profile, Some ?c)] = [(bridge_profile, ?b)]"
    "receiver_profiles [(bridge_profile, Some ?b), (car_profile, Some ?c)] = [(car_profile, ?c)]"
    using bridge_and_car(5, 6)
    by (auto simp: sender_profiles_def receiver_profiles_def known_pair receives_link_def elim: receives.elims)
  have up: "effective_control_uplink bridge_profile ?b = Some (uplink_name Up_WifiCrtp)"
    by (simp add: effective_control_uplink_def bridge_and_car bridge_profile_def on_s3_def)
  have "validate_pairs [(bridge_profile, Some ?b), (car_profile, Some ?c)] = []"
    unfolding validate_pairs_def sides
    by (simp add: check_sender_def check_receiver_def up peer_def bridge_and_car check_telemetry_def split: option.split
      del: uplink_name.simps)
  moreover have "validate_pin_conflicts [(bridge_profile, Some ?b), (car_profile, Some ?c)] = []"
    unfolding pair_conflicts by (simp add: bridge_profile_def car_profile_def on_s3_def)
  moreover have "pf_solution_id bridge_profile = sd_id phone_bridge_solution" "pf_solution_id car_profile = sd_id direct_control_solution"
    by (simp_all add: bridge_profile_def car_profile_def on_s3_def bridge_and_car)
  ultimately show ?thesis
    by (simp add: validate_workspace_def resolve_profiles_def registry_get bridge_and_car(1, 2) Let_def)
qed

theorem crtp_receivers_need_bridge_witness:
  "\<exists>p \<in> set [bridge_profile, car_profile]. pf_solution_id p = ''phone_bridge_solution''
    \<and> map_of (pf_parameter_values p) ''vehicle_side_protocol'' = Some (JStr ''wifi_crtp'')"
proof -
  have "car_profile \<in> set [bridge_profile, car_profile]" "pf_solution_id car_profile = sd_id direct_control_solution"
    by (simp_all add: car_profile_def on_s3_def bridge_and_car)
  from crtp_receivers_need_bridge [OF bridge_drives_car this(1) bridge_and_car(2) this(2) bridge_and_car(6, 7)] show ?thesis .
qed

theorem catalogue_executable_witness:
  "\<exists>dag order. from_steps reference_petgraph (sd_fixed_orchestration solution_composite_device_firmware) = Inr dag
     \<and> execution_order reference_petgraph dag = Inr order
     \<and> mset order = mset (map os_id (sd_fixed_orchestration solution_composite_device_firmware))"
proof -
  have "solution_composite_device_firmware \<in> set shipped_solutions" by (simp add: shipped_solutions_def solutions_1_def)
  from catalogue_executable [OF ref.petgraph_laws_axioms this] show ?thesis by blast
qed

end
