(* ===== verification/Snapshot.thy ===== *)
theory Snapshot
  imports EntityRuntime LinkManager
begin

text \<open>
  The snapshot of the running program (\<open>rshome-mcp/src/runtime.rs\<close>): what the daemon writes
  when it ends and reads when it starts, over the world of \<open>EntityRuntime\<close>. The link snapshots of
  the device link come from its manager (\<open>LinkManager.list_connected\<close>); the descriptors it is sent
  back on a restore are part of the result.

  The state an actor answers when it is asked is a parameter: it is the state it has after the
  messages before the question. The device manager is taken to be alive.

  The lemmas follow what a restore adds to a world; the property is the round trip.
\<close>

section \<open>Snapshots\<close>

record entity_snapshot =
  es_descriptor :: entity_descriptor
  es_state :: entity_state

record device_snapshot =
  ds_descriptor :: device_descriptor
  ds_entities :: "entity_snapshot list"
  ds_link :: "connected_device option"

record runtime_snapshot =
  rs_version :: u8
  rs_devices :: "device_snapshot list"
  rs_orphan_entities :: "entity_snapshot list"

text \<open>An \<open>io::Error\<close>: an error of an actor, or invalid data with its message.\<close>

datatype io_error = ActorGone | InvalidData string

definition SNAPSHOT_VERSION :: u8 where
  "SNAPSHOT_VERSION = 3"

definition SUPPORTED_SNAPSHOT_VERSIONS :: "u8 list" where
  "SUPPORTED_SNAPSHOT_VERSIONS = [2, SNAPSHOT_VERSION]"

abbreviation es_id :: "entity_snapshot \<Rightarrow> entity_id" where
  "es_id e \<equiv> ed_entity_id (es_descriptor e)"

abbreviation ds_id :: "device_snapshot \<Rightarrow> device_id" where
  "ds_id ds \<equiv> dv_device_id (ds_descriptor ds)"

section \<open>Writing a snapshot\<close>

definition synthesize_entity_descriptor :: "entity_id \<Rightarrow> device_id option \<Rightarrow> entity_descriptor" where
  "synthesize_entity_descriptor eid did =
     (let (domain, features) = (case resolve_wire_type (id_domain eid) of Some r \<Rightarrow> r | None \<Rightarrow> (id_domain eid, []))
      in \<lparr>ed_entity_id = eid, ed_name = map (\<lambda>c. if c = CHR ''_'' then CHR '' '' else c) (id_object eid), ed_icon = None,
          ed_device_id = did, ed_area_id = None, ed_category = NoCategory, ed_domain_id = domain,
          ed_feature_set = features, ed_device_class = None\<rparr>)"

definition load_entity_state ::
    "(actor_ref \<Rightarrow> io_error + entity_state) \<Rightarrow> 'w world \<Rightarrow> entity_id \<Rightarrow> io_error + entity_state option" where
  "load_entity_state ask w eid =
     (case store_get eid (w_store w) of
        Some s \<Rightarrow> Inr (Some s)
      | None \<Rightarrow>
          (case registered eid (w_registry w) of
             Some r \<Rightarrow> (case ask r of Inr s \<Rightarrow> Inr (Some s) | Inl e \<Rightarrow> Inl e)
           | None \<Rightarrow> Inr None))"

definition snapshot_entity ::
    "(actor_ref \<Rightarrow> io_error + entity_state) \<Rightarrow> 'w world \<Rightarrow> device_id option \<Rightarrow> entity_id \<Rightarrow> io_error + entity_snapshot option" where
  "snapshot_entity ask w fallback eid =
     (case load_entity_state ask w eid of
        Inl e \<Rightarrow> Inl e
      | Inr None \<Rightarrow> Inr None
      | Inr (Some s) \<Rightarrow>
          Inr (Some \<lparr>es_descriptor = (case get_descriptor eid (w_registry w) of
                                    Some d \<Rightarrow> d | None \<Rightarrow> synthesize_entity_descriptor eid fallback),
                     es_state = s\<rparr>))"

text \<open>The entities in turn; the ids of those that have a state are returned beside their snapshots.\<close>

fun snapshot_all_of ::
    "(entity_id \<Rightarrow> io_error + entity_snapshot option) \<Rightarrow> entity_id list \<Rightarrow> io_error + (entity_id \<times> entity_snapshot) list" where
  "snapshot_all_of f [] = Inr []"
| "snapshot_all_of f (eid # eids) =
     (case f eid of
        Inl e \<Rightarrow> Inl e
      | Inr r \<Rightarrow>
          (case snapshot_all_of f eids of
             Inl e \<Rightarrow> Inl e
           | Inr rest \<Rightarrow> Inr (case r of None \<Rightarrow> rest | Some s \<Rightarrow> (eid, s) # rest)))"

definition snapshot_device_entities ::
    "(actor_ref \<Rightarrow> io_error + entity_state) \<Rightarrow> 'w world \<Rightarrow> device_id \<Rightarrow> io_error + (entity_id \<times> entity_snapshot) list" where
  "snapshot_device_entities ask w did =
     (case (case get_device did w of
              None \<Rightarrow> Inr []
            | Some dr \<Rightarrow> (case device_entities dr w of Some eids \<Rightarrow> Inr eids | None \<Rightarrow> Inl ActorGone)) of
        Inl e \<Rightarrow> Inl e
      | Inr eids \<Rightarrow> snapshot_all_of (snapshot_entity ask w (Some did)) (sort eids))"

fun snapshot_devices ::
    "(actor_ref \<Rightarrow> io_error + entity_state) \<Rightarrow> 'w world \<Rightarrow> (device_id \<Rightarrow> connected_device option) \<Rightarrow> device_descriptor list
     \<Rightarrow> io_error + device_snapshot list \<times> entity_id list" where
  "snapshot_devices ask w links [] = Inr ([], [])"
| "snapshot_devices ask w links (d # ds) =
     (case snapshot_device_entities ask w (dv_device_id d) of
        Inl e \<Rightarrow> Inl e
      | Inr es \<Rightarrow>
          (case snapshot_devices ask w links ds of
             Inl e \<Rightarrow> Inl e
           | Inr (snaps, seen) \<Rightarrow>
               Inr (\<lparr>ds_descriptor = d, ds_entities = map snd es, ds_link = links (dv_device_id d)\<rparr> # snaps, map fst es @ seen)))"

definition snapshot_orphan_entities ::
    "(actor_ref \<Rightarrow> io_error + entity_state) \<Rightarrow> 'w world \<Rightarrow> entity_id list \<Rightarrow> io_error + (entity_id \<times> entity_snapshot) list" where
  "snapshot_orphan_entities ask w seen =
     snapshot_all_of (snapshot_entity ask w None)
       (sort (filter (\<lambda>eid. eid \<notin> set seen) (remdups (list_all_ids (w_registry w) @ store_list_ids (w_store w)))))"

text \<open>A later device with the id of an earlier one replaces it in the table of links.\<close>

definition snapshot_imported_links :: "connected_device list option \<Rightarrow> device_id \<Rightarrow> connected_device option" where
  "snapshot_imported_links connected =
     (case connected of None \<Rightarrow> Map.empty | Some cs \<Rightarrow> map_of (rev (map (\<lambda>c. (cd_device_id c, c)) cs)))"

definition build_snapshot ::
    "(actor_ref \<Rightarrow> io_error + entity_state) \<Rightarrow> connected_device list option \<Rightarrow> 'w world \<Rightarrow> io_error + runtime_snapshot" where
  "build_snapshot ask connected w =
     (case snapshot_devices ask w (snapshot_imported_links connected) (sort_key dv_device_id (list_devices w)) of
        Inl e \<Rightarrow> Inl e
      | Inr (devices, seen) \<Rightarrow>
          (case snapshot_orphan_entities ask w seen of
             Inl e \<Rightarrow> Inl e
           | Inr orphans \<Rightarrow>
               Inr \<lparr>rs_version = SNAPSHOT_VERSION, rs_devices = devices, rs_orphan_entities = map snd orphans\<rparr>))"

section \<open>Reading a snapshot\<close>

definition validate_snapshot :: "device_link_limits \<Rightarrow> runtime_snapshot \<Rightarrow> io_error + unit" where
  "validate_snapshot limits snap =
     (let devices = length (rs_devices snap);
          entities = sum_list (map (\<lambda>ds. length (ds_entities ds)) (rs_devices snap)) + length (rs_orphan_entities snap);
          cap = min (max_entities limits) MAX_ENTITIES_PER_DEVICE
      in if rs_version snap \<notin> set SUPPORTED_SNAPSHOT_VERSIONS
         then Inl (InvalidData (''unsupported snapshot version '' @ show_nat (unat (rs_version snap)) @
                ''; supported versions are [2, 3]''))
         else if max_devices limits < devices
         then Inl (InvalidData (''snapshot contains '' @ show_nat devices @ '' devices but max_devices is '' @
                show_nat (max_devices limits)))
         else if max_entities limits < entities
         then Inl (InvalidData (''snapshot contains '' @ show_nat entities @ '' entities but max_entities is '' @
                show_nat (max_entities limits)))
         else case find (\<lambda>ds. cap < length (ds_entities ds)) (rs_devices snap) of
                Some ds \<Rightarrow> Inl (InvalidData (''device '' @ ds_id ds @ '' exports '' @ show_nat (length (ds_entities ds)) @
                      '' entities but per-device cap is '' @ show_nat cap))
              | None \<Rightarrow> Inr ())"

definition restore_device_entity :: "'w watch_ops \<Rightarrow> nat \<Rightarrow> actor_ref \<Rightarrow> entity_snapshot \<Rightarrow> 'w world \<Rightarrow> 'w world" where
  "restore_device_entity ops now dr e = add_entity ops now dr (es_descriptor e) (es_state e)"

definition restore_orphan_entity :: "'w watch_ops \<Rightarrow> nat \<Rightarrow> entity_snapshot \<Rightarrow> 'w world \<Rightarrow> 'w world" where
  "restore_orphan_entity ops now e w =
     (let (r, w1) = spawn_entity (es_descriptor e) (es_state e)
                      (w\<lparr>w_store := store_update ops now (es_id e) (es_state e) (w_store w)\<rparr>)
      in w1\<lparr>w_registry := register_descriptor (es_descriptor e) (register_entity (es_id e) r (w_registry w1))\<rparr>)"

definition restore_device :: "'w watch_ops \<Rightarrow> nat \<Rightarrow> device_snapshot \<Rightarrow> 'w world \<Rightarrow> 'w world" where
  "restore_device ops now ds w =
     (let (dr, w1) = add_device (ds_descriptor ds) w in fold (restore_device_entity ops now dr) (ds_entities ds) w1)"

text \<open>What the device link is sent for a device: nothing when there is none.\<close>

definition link_seed :: "bool \<Rightarrow> device_snapshot \<Rightarrow> connected_device list" where
  "link_seed linked ds =
     (case ds_link ds of Some l \<Rightarrow> if linked then [l\<lparr>cd_status := StUnavailable\<rparr>] else [] | None \<Rightarrow> [])"

definition restore_structured_snapshot ::
    "'w watch_ops \<Rightarrow> nat \<Rightarrow> bool \<Rightarrow> runtime_snapshot \<Rightarrow> 'w world \<Rightarrow> 'w world \<times> connected_device list \<times> nat" where
  "restore_structured_snapshot ops now linked snap w =
     (fold (restore_orphan_entity ops now) (rs_orphan_entities snap) (fold (restore_device ops now) (rs_devices snap) w),
      concat (map (link_seed linked) (rs_devices snap)),
      sum_list (map (\<lambda>ds. length (ds_entities ds)) (rs_devices snap)) + length (rs_orphan_entities snap))"

definition restore_runtime ::
    "'w watch_ops \<Rightarrow> nat \<Rightarrow> device_link_limits \<Rightarrow> bool \<Rightarrow> runtime_snapshot \<Rightarrow> 'w world
     \<Rightarrow> io_error + 'w world \<times> connected_device list \<times> nat" where
  "restore_runtime ops now limits linked snap w =
     (case validate_snapshot limits snap of
        Inl e \<Rightarrow> Inl e
      | Inr _ \<Rightarrow> Inr (restore_structured_snapshot ops now linked snap w))"

text \<open>The file written before snapshots had a version: states by entity id, in the order of a hash
  map. \<open>from_value\<close> is serde's reading of a state.\<close>

fun restore_legacy_entries ::
    "'w watch_ops \<Rightarrow> nat \<Rightarrow> (json \<Rightarrow> entity_state option) \<Rightarrow> (string \<times> json) list \<Rightarrow> 'w world \<Rightarrow> 'w world \<times> nat" where
  "restore_legacy_entries ops now from_value [] w = (w, 0)"
| "restore_legacy_entries ops now from_value ((i, v) # rest) w =
     (case (from_value v, split_once ''.'' i) of
        (Some s, Some (domain, oid)) \<Rightarrow>
          (let d = synthesize_entity_descriptor (new_entity_id domain oid) None;
               (w', n) = restore_legacy_entries ops now from_value rest
                           (restore_orphan_entity ops now \<lparr>es_descriptor = d, es_state = s\<rparr> w)
           in (w', Suc n))
      | _ \<Rightarrow> restore_legacy_entries ops now from_value rest w)"

definition restore_legacy_snapshot ::
    "'w watch_ops \<Rightarrow> nat \<Rightarrow> device_link_limits \<Rightarrow> (json \<Rightarrow> entity_state option) \<Rightarrow> (string \<times> json) list \<Rightarrow> 'w world
     \<Rightarrow> io_error + 'w world \<times> nat" where
  "restore_legacy_snapshot ops now limits from_value entries w =
     (if max_entities limits < length entries
      then Inl (InvalidData (''snapshot contains '' @ show_nat (length entries) @ '' entities but max_entities is '' @
             show_nat (max_entities limits)))
      else Inr (restore_legacy_entries ops now from_value entries w))"

section \<open>What a restore adds\<close>

definition table :: "(entity_snapshot \<Rightarrow> 'b) \<Rightarrow> entity_snapshot list \<Rightarrow> entity_id \<rightharpoonup> 'b" where
  "table f es = map_of (rev (map (\<lambda>e. (es_id e, f e)) es))"

definition adds :: "entity_snapshot list \<Rightarrow> 'w world \<Rightarrow> 'w world \<Rightarrow> bool" where
  "adds es w w' \<longleftrightarrow>
     (\<lambda>i. store_get i (w_store w')) = (\<lambda>i. store_get i (w_store w)) ++ table es_state es
     \<and> (\<lambda>i. get_descriptor i (w_registry w')) = (\<lambda>i. get_descriptor i (w_registry w)) ++ table es_descriptor es
     \<and> set (store_list_ids (w_store w')) = set (store_list_ids (w_store w)) \<union> es_id ` set es
     \<and> set (list_all_ids (w_registry w')) = set (list_all_ids (w_registry w)) \<union> es_id ` set es"

lemma table_append: "table f (es @ fs) = table f es ++ table f fs"
  by (simp add: table_def)

lemma adds_same: "w_store w' = w_store w \<Longrightarrow> w_registry w' = w_registry w \<Longrightarrow> adds [] w w'"
  by (simp add: adds_def table_def)

lemma adds_trans: "adds es w w' \<Longrightarrow> adds fs w' w'' \<Longrightarrow> adds (es @ fs) w w''"
  by (simp add: adds_def table_append map_add_assoc Un_assoc image_Un)

lemma adds_fold: "(\<And>e v. adds [e] v (f e v)) \<Longrightarrow> adds es w (fold f es w)"
proof (induction es arbitrary: w)
  case (Cons e es)
  from Cons.IH [OF Cons.prems] have "adds es (f e w) (fold f es (f e w))" .
  from adds_trans [OF Cons.prems [of e w] this] show ?case by simp
qed (simp add: adds_same)

lemma store_ids_update: "set (store_list_ids (store_update ops now i s st)) = insert i (set (store_list_ids st))"
  by (simp add: store_list_ids_def store_update_def keys_reg_insert [unfolded list.set_map] split: option.split)

lemma adds_one:
  assumes "w_store w' = store_update ops now (es_id e) (es_state e) (w_store w)"
    and "get_descriptor' = (\<lambda>i. get_descriptor i (w_registry w'))"
    and "get_descriptor' = (\<lambda>i. get_descriptor i (w_registry w))(es_id e \<mapsto> es_descriptor e)"
    and "set (list_all_ids (w_registry w')) = insert (es_id e) (set (list_all_ids (w_registry w)))"
  shows "adds [e] w w'"
  using assms by (auto simp: adds_def table_def store_get_update store_ids_update fun_eq_iff)

lemma register_views:
  "get_descriptor i (register_entity k r reg) = get_descriptor i reg"
  "get_descriptor i (register_descriptor d reg) = (if i = ed_entity_id d then Some d else get_descriptor i reg)"
  "set (list_all_ids (register_entity k r reg)) = insert k (set (list_all_ids reg))"
  "list_all_ids (register_descriptor d reg) = list_all_ids reg"
  by (simp_all add: get_descriptor_def register_entity_def register_descriptor_def list_all_ids_def
    keys_reg_insert [unfolded list.set_map])

lemma restore_orphan_adds: "adds [e] w (restore_orphan_entity ops now e w)"
  by (rule adds_one [OF _ refl])
    (auto simp: restore_orphan_entity_def spawn_entity_def register_views fun_eq_iff)

lemma restore_orphan_devices:
  "w_manager (restore_orphan_entity ops now e w) = w_manager w \<and> w_devices (restore_orphan_entity ops now e w) = w_devices w"
  by (simp add: restore_orphan_entity_def spawn_entity_def)

lemma restore_orphans_devices:
  "w_manager (fold (restore_orphan_entity ops now) es w) = w_manager w
   \<and> w_devices (fold (restore_orphan_entity ops now) es w) = w_devices w"
  by (induction es arbitrary: w) (simp_all add: restore_orphan_devices)

lemma add_entity_known:
  assumes "map_of (w_devices w) dr = Some da"
  shows "adds [e] w (restore_device_entity ops now dr e w)
    \<and> w_manager (restore_device_entity ops now dr e w) = w_manager w
    \<and> w_next (restore_device_entity ops now dr e w) = Suc (w_next w)
    \<and> map_of (w_devices (restore_device_entity ops now dr e w)) =
        (map_of (w_devices w))(dr \<mapsto> da\<lparr>da_entity_refs := reg_insert (es_id e) (w_next w) (da_entity_refs da)\<rparr>)"
proof -
  have "adds [e] w (restore_device_entity ops now dr e w)"
    by (rule adds_one [OF _ refl])
      (auto simp: restore_device_entity_def add_entity_def on_device_def assms Let_def spawn_entity_def put_device_def
        register_views fun_eq_iff)
  then show ?thesis
    by (simp add: restore_device_entity_def add_entity_def on_device_def assms Let_def spawn_entity_def put_device_def)
qed

lemma restore_entities:
  assumes "map_of (w_devices w) dr = Some da" and "distinct (map fst (da_entity_refs da) @ map es_id es)"
  shows "adds es w (fold (restore_device_entity ops now dr) es w)
    \<and> w_manager (fold (restore_device_entity ops now dr) es w) = w_manager w
    \<and> w_next w \<le> w_next (fold (restore_device_entity ops now dr) es w)
    \<and> (\<exists>refs. map fst refs = map fst (da_entity_refs da) @ map es_id es
        \<and> map_of (w_devices (fold (restore_device_entity ops now dr) es w)) =
            (map_of (w_devices w))(dr \<mapsto> da\<lparr>da_entity_refs := refs\<rparr>))"
  using assms
proof (induction es arbitrary: w da)
  case Nil
  then show ?case by (auto simp: adds_same fun_eq_iff)
next
  case (Cons e es)
  let ?w = "restore_device_entity ops now dr e w"
  let ?da = "da\<lparr>da_entity_refs := reg_insert (es_id e) (w_next w) (da_entity_refs da)\<rparr>"
  note step = add_entity_known [OF Cons.prems(1), of e ops now]
  have refs: "map fst (da_entity_refs ?da) = map fst (da_entity_refs da) @ [es_id e]"
    using Cons.prems(2) by (auto simp: reg_insert_new)
  have "map_of (w_devices ?w) dr = Some ?da" using step by simp
  moreover have "distinct (map fst (da_entity_refs ?da) @ map es_id es)"
    unfolding refs using Cons.prems(2) by auto
  ultimately have IH: "adds es ?w (fold (restore_device_entity ops now dr) es ?w)
    \<and> w_manager (fold (restore_device_entity ops now dr) es ?w) = w_manager ?w
    \<and> w_next ?w \<le> w_next (fold (restore_device_entity ops now dr) es ?w)
    \<and> (\<exists>refs. map fst refs = map fst (da_entity_refs ?da) @ map es_id es
        \<and> map_of (w_devices (fold (restore_device_entity ops now dr) es ?w)) =
            (map_of (w_devices ?w))(dr \<mapsto> ?da\<lparr>da_entity_refs := refs\<rparr>))"
    by (rule Cons.IH)
  then obtain rs where rs: "map fst rs = map fst (da_entity_refs ?da) @ map es_id es"
    "map_of (w_devices (fold (restore_device_entity ops now dr) es ?w)) =
       (map_of (w_devices ?w))(dr \<mapsto> ?da\<lparr>da_entity_refs := rs\<rparr>)" by blast
  have "map fst rs = map fst (da_entity_refs da) @ map es_id (e # es)" using rs(1) refs by simp
  moreover have "map_of (w_devices (fold (restore_device_entity ops now dr) es ?w)) =
      (map_of (w_devices w))(dr \<mapsto> da\<lparr>da_entity_refs := rs\<rparr>)" using rs(2) step by simp
  moreover have "adds (e # es) w (fold (restore_device_entity ops now dr) es ?w)"
    using adds_trans [of "[e]" w ?w es] step IH by simp
  ultimately show ?case using IH step by auto
qed

section \<open>The restored devices\<close>

text \<open>The device manager's view: ids, descriptors and the entities of the device actors, with all
  references allocated.\<close>

definition rows :: "'w world \<Rightarrow> (device_id \<times> device_descriptor \<times> entity_id list option) list" where
  "rows w = map (\<lambda>(i, d, r). (i, d, map_option (\<lambda>da. map fst (da_entity_refs da)) (map_of (w_devices w) r))) (w_manager w)"

definition allocated :: "'w world \<Rightarrow> bool" where
  "allocated w \<longleftrightarrow> (\<forall>(i, d, r) \<in> set (w_manager w). r < w_next w)"

definition row_of :: "device_snapshot \<Rightarrow> device_id \<times> device_descriptor \<times> entity_id list option" where
  "row_of ds = (ds_id ds, ds_descriptor ds, Some (map es_id (ds_entities ds)))"

lemma restore_device_row:
  assumes "ds_id ds \<notin> fst ` set (w_manager w)" and "distinct (map es_id (ds_entities ds))" and "allocated w"
  shows "rows (restore_device ops now ds w) = rows w @ [row_of ds] \<and> allocated (restore_device ops now ds w)
    \<and> adds (ds_entities ds) w (restore_device ops now ds w)
    \<and> fst ` set (w_manager (restore_device ops now ds w)) = insert (ds_id ds) (fst ` set (w_manager w))"
proof -
  let ?i = "ds_id ds" and ?d = "ds_descriptor ds" and ?dr = "w_next w"
  let ?w1 = "w\<lparr>w_devices := reg_insert ?dr \<lparr>da_descriptor = ?d, da_entity_refs = []\<rparr> (w_devices w), w_next := Suc ?dr,
      w_manager := w_manager w @ [(?i, ?d, ?dr)]\<rparr>"
  have "map_of (w_manager w) ?i = None" using assms(1) by (simp add: map_of_eq_None_iff)
  then have add: "add_device ?d w = (?dr, ?w1)"
    using reg_insert_new [OF assms(1)] by (simp add: add_device_def Let_def spawn_device_def)
  let ?w2 = "fold (restore_device_entity ops now ?dr) (ds_entities ds) ?w1"
  have w2: "restore_device ops now ds w = ?w2" by (simp add: restore_device_def add)
  have da: "map_of (w_devices ?w1) ?dr = Some \<lparr>da_descriptor = ?d, da_entity_refs = []\<rparr>" by simp
  obtain refs where e: "adds (ds_entities ds) ?w1 ?w2" "w_manager ?w2 = w_manager ?w1" "w_next ?w1 \<le> w_next ?w2"
    "map fst refs = map es_id (ds_entities ds)"
    "map_of (w_devices ?w2) = (map_of (w_devices ?w1))(?dr \<mapsto> \<lparr>da_descriptor = ?d, da_entity_refs = refs\<rparr>)"
    using restore_entities [OF da, of "ds_entities ds" ops now] assms(2) by auto
  have devs: "map_of (w_devices ?w2) = (map_of (w_devices w))(?dr \<mapsto> \<lparr>da_descriptor = ?d, da_entity_refs = refs\<rparr>)"
    using e(5) by simp
  have below: "r < ?dr" if "(i, d, r) \<in> set (w_manager w)" for i d r using assms(3) that by (auto simp: allocated_def)
  have same: "map (\<lambda>(i, d, r). (i, d, map_option (\<lambda>da. map fst (da_entity_refs da)) (map_of (w_devices ?w2) r))) (w_manager w)
      = rows w"
    unfolding rows_def by (rule map_cong [OF refl]) (use below devs in force)
  have "rows ?w2 = rows w @ [row_of ds]"
    unfolding rows_def [of ?w2] e(2) using same devs e(4) by (simp add: row_of_def)
  moreover have "allocated ?w2" using below e(2, 3) unfolding allocated_def by fastforce
  moreover have "adds (ds_entities ds) w ?w2"
    using adds_trans [OF _ e(1), of "[]" w] by (simp add: adds_same)
  ultimately show ?thesis unfolding w2 e(2) by auto
qed

lemma restore_devices_rows:
  assumes "fst ` set (w_manager w) \<inter> set (map ds_id dss) = {}" and "distinct (map ds_id dss)" and "allocated w"
    and "\<forall>ds \<in> set dss. distinct (map es_id (ds_entities ds))"
  shows "rows (fold (restore_device ops now) dss w) = rows w @ map row_of dss
    \<and> adds (concat (map ds_entities dss)) w (fold (restore_device ops now) dss w)"
  using assms
proof (induction dss arbitrary: w)
  case (Cons ds dss)
  let ?w = "restore_device ops now ds w"
  have "ds_id ds \<notin> fst ` set (w_manager w)" "distinct (map es_id (ds_entities ds))" using Cons.prems by auto
  note step = restore_device_row [OF this Cons.prems(3), of ops now]
  have "fst ` set (w_manager ?w) \<inter> set (map ds_id dss) = {}" using Cons.prems step by auto
  then have "rows (fold (restore_device ops now) dss ?w) = rows ?w @ map row_of dss
      \<and> adds (concat (map ds_entities dss)) ?w (fold (restore_device ops now) dss ?w)"
    using Cons.IH [of ?w] Cons.prems step by auto
  then show ?case using step adds_trans [of "ds_entities ds" w ?w] by simp
qed (simp add: adds_same)

lemma rows_orphans: "rows (fold (restore_orphan_entity ops now) es w) = rows w"
  by (simp add: rows_def restore_orphans_devices)

section \<open>Writing what was read\<close>

definition all_entities :: "runtime_snapshot \<Rightarrow> entity_snapshot list" where
  "all_entities snap = concat (map ds_entities (rs_devices snap)) @ rs_orphan_entities snap"

text \<open>Snapshots as they are written: sorted, every device and every entity once, the current version.\<close>

definition snapshot_ok :: "runtime_snapshot \<Rightarrow> bool" where
  "snapshot_ok snap \<longleftrightarrow>
     rs_version snap = SNAPSHOT_VERSION
     \<and> sorted (map ds_id (rs_devices snap)) \<and> distinct (map ds_id (rs_devices snap))
     \<and> list_all (\<lambda>ds. sorted (map es_id (ds_entities ds))) (rs_devices snap)
     \<and> sorted (map es_id (rs_orphan_entities snap)) \<and> distinct (map es_id (all_entities snap))"

lemma table_mem:
  assumes "distinct (map es_id es)" and "e \<in> set es"
  shows "table f es (es_id e) = Some (f e)"
proof -
  let ?l = "rev (map (\<lambda>e. (es_id e, f e)) es)"
  have "map fst ?l = rev (map es_id es)" by (simp add: rev_map)
  then have "distinct (map fst ?l)" using assms(1) by (metis distinct_rev)
  moreover have "(es_id e, f e) \<in> set ?l" using assms(2) by simp
  ultimately show ?thesis unfolding table_def by (rule map_of_is_SomeI)
qed

lemma snapshot_all_of_known:
  "(\<And>e. e \<in> set es \<Longrightarrow> f (es_id e) = Inr (Some e)) \<Longrightarrow>
     snapshot_all_of f (map es_id es) = Inr (map (\<lambda>e. (es_id e, e)) es)"
  by (induction es) simp_all

lemma sort_key_sorted: "sorted (map f xs) \<Longrightarrow> sort_key f xs = xs"
proof (induction xs)
  case (Cons x xs)
  then have "insort_key f x xs = x # xs" by (cases xs) auto
  then show ?case using Cons by simp
qed simp

lemma rows_projections:
  "map fst (w_manager w) = map fst (rows w)" "list_devices w = map (fst \<circ> snd) (rows w)"
  by (auto simp: rows_def list_devices_def comp_def split_beta)

lemma device_of_row:
  assumes "(i, d, Some eids) \<in> set (rows w)" and "distinct (map fst (rows w))"
  shows "\<exists>r. get_device i w = Some r \<and> device_entities r w = Some eids"
proof -
  obtain r where r: "(i, d, r) \<in> set (w_manager w)" "map_option (\<lambda>da. map fst (da_entity_refs da)) (map_of (w_devices w) r) = Some eids"
    using assms(1) unfolding rows_def by (smt (verit) case_prod_beta fst_conv imageE list.set_map prod.collapse snd_conv)
  have "distinct (map fst (w_manager w))" using assms(2) rows_projections(1) [of w] by simp
  then have "map_of (w_manager w) i = Some (d, r)" using r(1) by simp
  then show ?thesis using r(2) by (auto simp: get_device_def device_entities_def)
qed

definition relinked :: "(device_id \<Rightarrow> connected_device option) \<Rightarrow> device_snapshot \<Rightarrow> device_snapshot" where
  "relinked links ds = ds\<lparr>ds_link := links (ds_id ds)\<rparr>"

lemma snapshot_devices_known:
  assumes "\<And>ds. ds \<in> set dss \<Longrightarrow> snapshot_device_entities ask w (ds_id ds) = Inr (map (\<lambda>e. (es_id e, e)) (ds_entities ds))"
  shows "snapshot_devices ask w links (map ds_descriptor dss) =
    Inr (map (relinked links) dss, map es_id (concat (map ds_entities dss)))"
  using assms
proof (induction dss)
  case (Cons ds dss)
  then have "snapshot_devices ask w links (map ds_descriptor dss) =
      Inr (map (relinked links) dss, map es_id (concat (map ds_entities dss)))" by simp
  moreover have "map snd (map (\<lambda>e. (es_id e, e)) es) = es" "map fst (map (\<lambda>e. (es_id e, e)) es) = map es_id es" for es
    by (simp_all add: comp_def)
  moreover have "snapshot_device_entities ask w (ds_id ds) = Inr (map (\<lambda>e. (es_id e, e)) (ds_entities ds))"
    using Cons.prems by simp
  ultimately show ?case by (simp add: relinked_def)
qed simp

lemma orphan_ids:
  assumes "sorted (map es_id os)" and "distinct (map es_id ds @ map es_id os)"
    and "set xs = es_id ` set ds \<union> es_id ` set os"
  shows "sort (filter (\<lambda>i. i \<notin> set (map es_id ds)) (remdups xs)) = map es_id os"
  by (rule sorted_distinct_set_unique) (use assms in auto)

lemma restored_snapshot_rewritten:
  fixes ops :: "'w watch_ops"
  assumes "snapshot_ok snap" and "restore_runtime ops now limits linked snap initial_world = Inr (w, seeds, n)"
  shows "build_snapshot ask connected w =
      Inr (snap\<lparr>rs_devices := map (\<lambda>ds. ds\<lparr>ds_link := snapshot_imported_links connected (ds_id ds)\<rparr>) (rs_devices snap)\<rparr>)
    \<and> n = length (all_entities snap)"
proof -
  let ?dss = "rs_devices snap" and ?os = "rs_orphan_entities snap" and ?es = "all_entities snap"
  let ?des = "concat (map ds_entities ?dss)" and ?links = "snapshot_imported_links connected"
  define v where "v = fold (restore_device ops now) ?dss (initial_world :: 'w world)"
  have w: "w = fold (restore_orphan_entity ops now) ?os v" and n: "n = length ?es"
    using assms(2) by (auto simp: restore_runtime_def restore_structured_snapshot_def v_def all_entities_def length_concat
      comp_def split: sum.splits)
  have ok: "distinct (map ds_id ?dss)" "sorted (map ds_id ?dss)" "distinct (map es_id ?es)" "sorted (map es_id ?os)"
    "rs_version snap = SNAPSHOT_VERSION" "\<forall>ds \<in> set ?dss. sorted (map es_id (ds_entities ds))"
    using assms(1) by (auto simp: snapshot_ok_def list_all_iff)
  have each: "\<forall>ds \<in> set ?dss. distinct (map es_id (ds_entities ds))"
  proof
    fix ds assume "ds \<in> set ?dss"
    then obtain xs ys where "?dss = xs @ ds # ys" by (metis split_list)
    then show "distinct (map es_id (ds_entities ds))" using ok(3) by (simp add: all_entities_def)
  qed
  have "rows v = map row_of ?dss \<and> adds ?des initial_world v"
    using restore_devices_rows [of "initial_world :: 'w world" ?dss ops now] ok(1) each
    unfolding v_def by (simp add: initial_world_def rows_def allocated_def)
  moreover have "adds ?os v w" unfolding w by (rule adds_fold) (rule restore_orphan_adds)
  ultimately have rows: "rows w = map row_of ?dss" and adds: "adds ?es initial_world w"
    using adds_trans [of ?des _ v ?os w] rows_orphans [of ops now ?os v] unfolding w all_entities_def by auto
  have states: "store_get (es_id e) (w_store w) = Some (es_state e)" "get_descriptor (es_id e) (w_registry w) = Some (es_descriptor e)"
    if "e \<in> set ?es" for e
    using adds table_mem [OF ok(3) that, of es_state] table_mem [OF ok(3) that, of es_descriptor]
    unfolding adds_def by (simp_all add: fun_eq_iff map_add_def)
  have entity: "snapshot_entity ask w fb (es_id e) = Inr (Some e)" if "e \<in> set ?es" for e fb
    using states [OF that] by (simp add: snapshot_entity_def load_entity_state_def)
  have ids: "set (list_all_ids (w_registry w) @ store_list_ids (w_store w)) = es_id ` set ?des \<union> es_id ` set ?os"
    using adds by (auto simp: adds_def initial_world_def list_all_ids_def store_list_ids_def all_entities_def)
  have keys: "distinct (map fst (rows w))" using ok(1) by (simp add: rows row_of_def comp_def)
  have "snapshot_device_entities ask w (ds_id ds) = Inr (map (\<lambda>e. (es_id e, e)) (ds_entities ds))" if "ds \<in> set ?dss" for ds
  proof -
    have "(ds_id ds, ds_descriptor ds, Some (map es_id (ds_entities ds))) \<in> set (rows w)"
      using that unfolding rows by (force simp: row_of_def)
    then obtain r where "get_device (ds_id ds) w = Some r" "device_entities r w = Some (map es_id (ds_entities ds))"
      using device_of_row [OF _ keys] by blast
    moreover have "sort (map es_id (ds_entities ds)) = map es_id (ds_entities ds)"
      using ok(6) that by (simp add: sorted_sort_id)
    moreover have "e \<in> set ?es" if "e \<in> set (ds_entities ds)" for e
      using that \<open>ds \<in> set ?dss\<close> by (auto simp: all_entities_def)
    ultimately show ?thesis
      using snapshot_all_of_known [of "ds_entities ds" "snapshot_entity ask w (Some (ds_id ds))"] entity
      by (simp add: snapshot_device_entities_def)
  qed
  from snapshot_devices_known [OF this]
  have devices: "snapshot_devices ask w ?links (map ds_descriptor ?dss) = Inr (map (relinked ?links) ?dss, map es_id ?des)" .
  have list: "sort_key dv_device_id (list_devices w) = map ds_descriptor ?dss"
    using sort_key_sorted [of dv_device_id "map ds_descriptor ?dss"] ok(2)
    by (simp add: rows_projections rows row_of_def comp_def)
  have "snapshot_orphan_entities ask w (map es_id ?des) = Inr (map (\<lambda>e. (es_id e, e)) ?os)"
    using orphan_ids [OF ok(4) _ ids] ok(3) snapshot_all_of_known [of ?os "snapshot_entity ask w None"] entity
    by (simp add: snapshot_orphan_entities_def all_entities_def)
  then have "build_snapshot ask connected w =
      Inr \<lparr>rs_version = SNAPSHOT_VERSION, rs_devices = map (relinked ?links) ?dss, rs_orphan_entities = ?os\<rparr>"
    using devices by (simp add: build_snapshot_def list comp_def)
  moreover have "\<dots> = Inr (snap\<lparr>rs_devices := map (\<lambda>ds. ds\<lparr>ds_link := ?links (ds_id ds)\<rparr>) ?dss\<rparr>)"
    using ok(5) by (simp add: relinked_def [abs_def])
  ultimately show ?thesis using n by simp
qed

section \<open>What is written\<close>

text \<open>The runtime's bookkeeping: the manager's keys are the ids of its descriptors, the registry's
  keys those of its descriptors, and no entity is attached twice.\<close>

definition consistent :: "'w world \<Rightarrow> bool" where
  "consistent w \<longleftrightarrow>
     distinct (map fst (w_manager w)) \<and> list_all (\<lambda>(i, d, _). dv_device_id d = i) (w_manager w)
     \<and> (\<forall>i d. get_descriptor i (w_registry w) = Some d \<longrightarrow> ed_entity_id d = i)
     \<and> (\<forall>i. distinct (entities_for_device i w))
     \<and> (\<forall>i j. i \<noteq> j \<longrightarrow> set (entities_for_device i w) \<inter> set (entities_for_device j w) = {})"

lemma snapshot_entity_id:
  assumes "consistent w" and "snapshot_entity ask w fb eid = Inr (Some e)"
  shows "es_id e = eid"
  using assms
  by (auto simp: snapshot_entity_def consistent_def synthesize_entity_descriptor_def split: sum.splits option.splits prod.splits)

lemma snapshot_all_of_spec:
  assumes "\<And>i e. f i = Inr (Some e) \<Longrightarrow> es_id e = i"
  shows "snapshot_all_of f eids = Inr ys \<Longrightarrow> sorted eids \<Longrightarrow> distinct eids \<Longrightarrow>
    map es_id (map snd ys) = map fst ys \<and> sorted (map fst ys) \<and> distinct (map fst ys) \<and> set (map fst ys) \<subseteq> set eids"
proof (induction eids arbitrary: ys)
  case (Cons i eids)
  from Cons.prems(1) obtain r rest where r: "f i = Inr r" "snapshot_all_of f eids = Inr rest"
    "ys = (case r of None \<Rightarrow> rest | Some s \<Rightarrow> (i, s) # rest)"
    by (auto split: sum.splits)
  have IH: "map es_id (map snd rest) = map fst rest" "sorted (map fst rest)" "distinct (map fst rest)"
    "set (map fst rest) \<subseteq> set eids" using Cons.IH [OF r(2)] Cons.prems by auto
  show ?case
  proof (cases r)
    case None
    then show ?thesis using IH r(3) by auto
  next
    case (Some e)
    then have "es_id e = i" using assms r(1) by simp
    moreover have "\<forall>j \<in> set (map fst rest). i \<le> j" "i \<notin> set (map fst rest)" using IH(4) Cons.prems by auto
    ultimately show ?thesis using IH r(3) Some by auto
  qed
qed simp

lemma snapshot_device_spec:
  assumes "consistent w" and "snapshot_device_entities ask w i = Inr ys"
  shows "map es_id (map snd ys) = map fst ys \<and> sorted (map fst ys) \<and> distinct (map fst ys)
    \<and> set (map fst ys) \<subseteq> set (entities_for_device i w)"
proof -
  have "snapshot_all_of (snapshot_entity ask w (Some i)) (sort (entities_for_device i w)) = Inr ys"
    using assms(2)
    by (auto simp: snapshot_device_entities_def get_device_def entities_for_device_def split: option.splits sum.splits)
  from snapshot_all_of_spec [OF snapshot_entity_id [OF assms(1)] this] show ?thesis
    using assms(1) by (simp add: consistent_def)
qed

lemma snapshot_devices_spec:
  assumes "consistent w"
  shows "snapshot_devices ask w links ds = Inr (snaps, seen) \<Longrightarrow> distinct (map dv_device_id ds) \<Longrightarrow>
    map ds_descriptor snaps = ds \<and> seen = map es_id (concat (map ds_entities snaps)) \<and> distinct seen
    \<and> (\<forall>s \<in> set snaps. sorted (map es_id (ds_entities s)))
    \<and> set seen \<subseteq> (\<Union>d \<in> set ds. set (entities_for_device (dv_device_id d) w))"
proof (induction ds arbitrary: snaps seen)
  case (Cons d ds)
  from Cons.prems(1) obtain ys snaps' seen' where e: "snapshot_device_entities ask w (dv_device_id d) = Inr ys"
    "snapshot_devices ask w links ds = Inr (snaps', seen')"
    "snaps = \<lparr>ds_descriptor = d, ds_entities = map snd ys, ds_link = links (dv_device_id d)\<rparr> # snaps'"
    "seen = map fst ys @ seen'"
    by (auto split: sum.splits prod.splits)
  note dev = snapshot_device_spec [OF assms e(1)]
  have IH: "map ds_descriptor snaps' = ds" "seen' = map es_id (concat (map ds_entities snaps'))" "distinct seen'"
    "\<forall>s \<in> set snaps'. sorted (map es_id (ds_entities s))"
    "set seen' \<subseteq> (\<Union>d \<in> set ds. set (entities_for_device (dv_device_id d) w))"
  proof -
    have "distinct (map dv_device_id ds)" using Cons.prems(2) by simp
    note all = Cons.IH [OF e(2) this]
    show "map ds_descriptor snaps' = ds" "seen' = map es_id (concat (map ds_entities snaps'))" "distinct seen'"
      "\<forall>s \<in> set snaps'. sorted (map es_id (ds_entities s))"
      "set seen' \<subseteq> (\<Union>d \<in> set ds. set (entities_for_device (dv_device_id d) w))"
      using all by blast+
  qed
  have apart: "set (entities_for_device (dv_device_id d) w) \<inter> set (entities_for_device (dv_device_id d') w) = {}"
    if "d' \<in> set ds" for d'
  proof -
    have "dv_device_id d \<noteq> dv_device_id d'" using that Cons.prems(2) by auto
    then show ?thesis using assms unfolding consistent_def by blast
  qed
  then have disj: "set (map fst ys) \<inter> set seen' = {}" using dev IH(5) by blast
  then have "distinct seen" using dev IH(3) e(4) by (simp only: distinct_append)
  moreover have "seen = map es_id (concat (map ds_entities snaps))" using dev IH(2) e(3, 4) by simp
  moreover have "set seen \<subseteq> (\<Union>d \<in> set (d # ds). set (entities_for_device (dv_device_id d) w))"
    using dev IH(5) e(4) by auto
  moreover have "sorted (map es_id (map snd ys))" using dev by metis
  then have "\<forall>s \<in> set snaps. sorted (map es_id (ds_entities s))" using IH(4) e(3) by (simp del: map_map)
  moreover have "map ds_descriptor snaps = d # ds" using IH(1) e(3) by simp
  ultimately show ?case by blast
qed simp

lemma written_snapshot_ok:
  assumes "consistent w" and "build_snapshot ask connected w = Inr snap"
  shows "snapshot_ok snap"
proof -
  let ?ds = "sort_key dv_device_id (list_devices w)"
  obtain devices seen orphans where b: "snapshot_devices ask w (snapshot_imported_links connected) ?ds = Inr (devices, seen)"
    "snapshot_orphan_entities ask w seen = Inr orphans"
    "snap = \<lparr>rs_version = SNAPSHOT_VERSION, rs_devices = devices, rs_orphan_entities = map snd orphans\<rparr>"
    using assms(2) by (auto simp: build_snapshot_def split: sum.splits prod.splits)
  have keys: "map dv_device_id (list_devices w) = map fst (w_manager w)"
    using assms(1) by (auto simp: consistent_def list_devices_def list_all_iff)
  have "distinct (map dv_device_id (list_devices w))" using assms(1) keys by (simp add: consistent_def)
  then have dist: "distinct (map dv_device_id ?ds)" by (metis distinct_map distinct_sort set_sort)
  note dev = snapshot_devices_spec [OF assms(1) b(1) dist]
  have "map dv_device_id (map ds_descriptor devices) = map dv_device_id ?ds" using dev by (simp only:)
  then have "map ds_id devices = map dv_device_id ?ds" unfolding map_map comp_def .
  then have ids: "sorted (map ds_id devices)" "distinct (map ds_id devices)" using dist by simp_all
  let ?xs = "sort (filter (\<lambda>i. i \<notin> set seen) (remdups (list_all_ids (w_registry w) @ store_list_ids (w_store w))))"
  have "snapshot_all_of (snapshot_entity ask w None) ?xs = Inr orphans"
    using b(2) by (simp add: snapshot_orphan_entities_def)
  then have spec: "map es_id (map snd orphans) = map fst orphans \<and> sorted (map fst orphans) \<and> distinct (map fst orphans)
      \<and> set (map fst orphans) \<subseteq> set ?xs"
    by (intro snapshot_all_of_spec [of "snapshot_entity ask w None"]) (simp_all add: snapshot_entity_id [OF assms(1)])
  moreover have "set ?xs \<inter> set seen = {}" by auto
  ultimately have orph: "map es_id (map snd orphans) = map fst orphans" "sorted (map fst orphans)" "distinct (map fst orphans)"
    "set (map fst orphans) \<inter> set seen = {}" by blast+
  have "map es_id (all_entities snap) = seen @ map fst orphans"
    using dev orph(1) b(3) by (simp add: all_entities_def)
  then have "distinct (map es_id (all_entities snap))"
    using dev orph(3, 4) by (simp only: distinct_append) blast
  moreover have "sorted (map es_id (map snd orphans))" using orph(1, 2) by (simp only:)
  moreover have "list_all (\<lambda>ds. sorted (map es_id (ds_entities ds))) devices" using dev by (simp add: list_all_iff)
  ultimately show ?thesis using ids unfolding snapshot_ok_def b(3) by simp
qed

section \<open>Properties\<close>

text \<open>C9. A snapshot of a consistent program, restored into a fresh program and written again, has the
  same devices and entities with the same descriptors and states: nothing is lost, duplicated or
  moved to another device over a restart, whatever the actors answer. The links are those the
  device link reports when the snapshot is written, so a program without a device link drops them.\<close>

theorem snapshot_survives_restart:
  fixes ops :: "'w watch_ops"
  assumes "consistent v" and "build_snapshot ask connected v = Inr snap"
    and "restore_runtime ops now limits linked snap initial_world = Inr (w, seeds, n)"
  shows "build_snapshot ask' connected' w =
      Inr (snap\<lparr>rs_devices := map (\<lambda>ds. ds\<lparr>ds_link := snapshot_imported_links connected' (ds_id ds)\<rparr>) (rs_devices snap)\<rparr>)
    \<and> n = length (all_entities snap)"
  by (rule restored_snapshot_rewritten [OF written_snapshot_ok [OF assms(1, 2)] assms(3)])

text \<open>A snapshot is read exactly when its version is 2 or 3 and it keeps the limits on devices,
  entities and entities of a device.\<close>

theorem snapshot_accepted_iff:
  "validate_snapshot limits snap = Inr () \<longleftrightarrow>
     (rs_version snap = 2 \<or> rs_version snap = 3) \<and> length (rs_devices snap) \<le> max_devices limits
     \<and> length (all_entities snap) \<le> max_entities limits
     \<and> list_all (\<lambda>ds. length (ds_entities ds) \<le> 512) (rs_devices snap)"
proof -
  have total: "length (all_entities snap) =
      sum_list (map (\<lambda>ds. length (ds_entities ds)) (rs_devices snap)) + length (rs_orphan_entities snap)"
    by (simp add: all_entities_def length_concat comp_def)
  have part: "length (ds_entities ds) \<le> length (all_entities snap)" if "ds \<in> set (rs_devices snap)" for ds
  proof -
    have "length (ds_entities ds) \<le> sum_list (map (\<lambda>ds. length (ds_entities ds)) (rs_devices snap))"
      using that by (intro member_le_sum_list) auto
    then show ?thesis unfolding total by simp
  qed
  have "find (\<lambda>ds. min (max_entities limits) 512 < length (ds_entities ds)) (rs_devices snap) = None \<longleftrightarrow>
      list_all (\<lambda>ds. length (ds_entities ds) \<le> 512) (rs_devices snap)"
    if "length (all_entities snap) \<le> max_entities limits"
    using part that by (force simp: find_None_iff list_all_iff)
  then show ?thesis
    by (auto simp: validate_snapshot_def Let_def total [symmetric] SUPPORTED_SNAPSHOT_VERSIONS_def SNAPSHOT_VERSION_def
      MAX_ENTITIES_PER_DEVICE_def split: option.split)
qed

section \<open>Examples\<close>

definition lamp_snapshot :: runtime_snapshot where
  "lamp_snapshot =
     \<lparr>rs_version = 3,
      rs_devices = [\<lparr>ds_descriptor = board, ds_entities = [\<lparr>es_descriptor = lamp, es_state = Switch False\<rparr>], ds_link = None\<rparr>],
      rs_orphan_entities = []\<rparr>"

lemma lamp_consistent: "consistent lamp_world"
  by (simp add: consistent_def lamp_world_def run_simps entities_for_device_def device_entities_def get_descriptor_def)

lemma lamp_written: "build_snapshot ask None lamp_world = Inr lamp_snapshot"
  by (simp add: build_snapshot_def snapshot_device_entities_def get_device_def device_entities_def list_devices_def
    snapshot_entity_def load_entity_state_def get_descriptor_def snapshot_orphan_entities_def list_all_ids_def
    store_list_ids_def snapshot_imported_links_def lamp_snapshot_def SNAPSHOT_VERSION_def lamp_world_def run_simps)

theorem snapshot_survives_restart_witness:
  "\<exists>w seeds. restore_runtime counted_watch 7 default_limits False lamp_snapshot initial_world = Inr (w, seeds, 1)
     \<and> build_snapshot (\<lambda>_. Inl ActorGone) None w = Inr lamp_snapshot"
proof -
  have "validate_snapshot default_limits lamp_snapshot = Inr ()"
    by (simp add: validate_snapshot_def lamp_snapshot_def default_limits_def SUPPORTED_SNAPSHOT_VERSIONS_def
      SNAPSHOT_VERSION_def MAX_ENTITIES_PER_DEVICE_def)
  then obtain w seeds n where r: "restore_runtime counted_watch 7 default_limits False lamp_snapshot initial_world = Inr (w, seeds, n)"
    by (simp add: restore_runtime_def restore_structured_snapshot_def)
  show ?thesis
    using snapshot_survives_restart [OF lamp_consistent lamp_written r, of "\<lambda>_. Inl ActorGone" None] r
    by (auto simp: lamp_snapshot_def all_entities_def snapshot_imported_links_def)
qed

end
