(* ===== verification/BoardYaml.thy ===== *)
theory BoardYaml
  imports Boards
begin

text \<open>
  The generator of board files (\<open>rshome-codegen/src/board_yaml.rs\<close>): an assembly written as the
  YAML files of \<open>esp_board_manager\<close>. JSON values of settings are written by a small printer of the
  code's own; \<open>json_text\<close> is serde's compact form, which the printer keeps as a fallback.

  The lemmas measure the indentation of the printer's output; the properties show that no setting
  can leave the block it is written in, and where the type of a scalar is lost.
\<close>

section \<open>Numbers and compact JSON\<close>

text \<open>serde prints doubles with the shortest digits that read back, always with a point or an
  exponent. Non-finite doubles are not JSON numbers.\<close>

definition json_decimal :: "nat \<Rightarrow> int \<Rightarrow> string" where
  "json_decimal d k =
     (let ds = show_nat d; n = int (length ds); point = n + k
      in if 0 \<le> k \<and> point \<le> 16 then ds @ pad_zeros (nat k) @ ''.0''
         else if 0 < point \<and> point \<le> 16 then take (nat point) ds @ ''.'' @ drop (nat point) ds
         else if - 5 < point \<and> point \<le> 0 then ''0.'' @ pad_zeros (nat (- point)) @ ds
         else (if n = 1 then ds else take 1 ds @ ''.'' @ drop 1 ds) @ ''e'' @
              (if point - 1 < 0 then ''-'' else []) @ show_nat (nat \<bar>point - 1\<bar>))"

fun json_double :: "f64 \<Rightarrow> string" where
  "json_double (F_Fin s m) =
     (if s then ''-'' else []) @ (if m = 0 then ''0.0'' else case shortest m of (d, k) \<Rightarrow> json_decimal d k)"
| "json_double _ = ''null''"

fun json_number :: "jnum \<Rightarrow> string" where
  "json_number (PosInt n) = show_nat (unat n)"
| "json_number (NegInt n) = ''-'' @ show_nat (nat (- sint n))"
| "json_number (Float x) = json_double x"

definition hex_digit :: "nat \<Rightarrow> char" where
  "hex_digit n = (if n < 10 then char_of (48 + n) else char_of (87 + n))"

definition json_escape :: "char \<Rightarrow> string" where
  "json_escape c =
     (let n = (of_char c :: nat); b = char_of (92 :: nat)
      in if n = 34 \<or> n = 92 then [b, c]
         else if n = 8 then [b, CHR ''b''] else if n = 9 then [b, CHR ''t''] else if n = 10 then [b, CHR ''n'']
         else if n = 12 then [b, CHR ''f''] else if n = 13 then [b, CHR ''r'']
         else if n < 32 then [b, CHR ''u'', CHR ''0'', CHR ''0'', hex_digit (n div 16), hex_digit (n mod 16)]
         else [c])"

definition quote_mark :: char where
  "quote_mark = CHR 0x22"

definition json_string :: "string \<Rightarrow> string" where
  "json_string s = quote_mark # concat (map json_escape s) @ [quote_mark]"

fun commas :: "string list \<Rightarrow> string" where
  "commas [] = []"
| "commas [x] = x"
| "commas (x # xs) = x @ '','' @ commas xs"

fun json_text :: "json \<Rightarrow> string" where
  "json_text JNull = ''null''"
| "json_text (JBool b) = (if b then ''true'' else ''false'')"
| "json_text (JNum n) = json_number n"
| "json_text (JStr s) = json_string s"
| "json_text (JArr vs) = ''['' @ commas (map json_text vs) @ '']''"
| "json_text (JObj kvs) = ''{'' @ commas (map (\<lambda>(k, v). json_string k @ '':'' @ json_text v) kvs) @ ''}''"

section \<open>YAML values\<close>

definition needs_quotes :: "string \<Rightarrow> bool" where
  "needs_quotes s \<longleftrightarrow> CHR '' '' \<in> set s \<or> CHR '':'' \<in> set s \<or> CHR ''#'' \<in> set s"

fun yaml_scalar :: "json \<Rightarrow> string" where
  "yaml_scalar (JBool b) = (if b then ''true'' else ''false'')"
| "yaml_scalar (JNum n) = json_number n"
| "yaml_scalar (JStr s) = (if needs_quotes s then quote_mark # s @ [quote_mark] else s)"
| "yaml_scalar JNull = ''null''"
| "yaml_scalar v = json_text v"

fun is_container :: "json \<Rightarrow> bool" where
  "is_container (JArr _) = True"
| "is_container (JObj _) = True"
| "is_container _ = False"

definition newline :: char where
  "newline = CHR 0x0A"

definition pad :: "nat \<Rightarrow> string" where
  "pad n = replicate n (CHR '' '')"

definition trim_newlines :: "string \<Rightarrow> string" where
  "trim_newlines s = dropWhile (\<lambda>c. c = newline) s"

text \<open>\<open>yaml_pairs\<close> are the entries of an object, \<open>yaml_items\<close> those of an array, and
  \<open>yaml_inline\<close> the entries of an object in an array, the first beside the dash.\<close>

fun yaml_value :: "json \<Rightarrow> nat \<Rightarrow> string"
  and yaml_pairs :: "(string \<times> json) list \<Rightarrow> nat \<Rightarrow> string"
  and yaml_items :: "json list \<Rightarrow> nat \<Rightarrow> string"
  and yaml_inline :: "bool \<Rightarrow> (string \<times> json) list \<Rightarrow> nat \<Rightarrow> string" where
  "yaml_value (JObj []) n = '' {}''"
| "yaml_value (JObj (kv # kvs)) n = yaml_pairs (kv # kvs) n"
| "yaml_value (JArr []) n = '' []''"
| "yaml_value (JArr (v # vs)) n = yaml_items (v # vs) n"
| "yaml_value (JBool b) n = yaml_scalar (JBool b)"
| "yaml_value (JNum x) n = yaml_scalar (JNum x)"
| "yaml_value (JStr s) n = yaml_scalar (JStr s)"
| "yaml_value JNull n = yaml_scalar JNull"
| "yaml_pairs [] n = []"
| "yaml_pairs ((k, v) # kvs) n =
     newline # pad n @ k @ '':'' @ (if is_container v then yaml_value v (n + 2) else CHR '' '' # yaml_scalar v) @ yaml_pairs kvs n"
| "yaml_items [] n = []"
| "yaml_items (JObj (kv # kvs) # vs) n = newline # pad n @ ''- '' @ yaml_inline True (kv # kvs) n @ yaml_items vs n"
| "yaml_items (JObj [] # vs) n = newline # pad n @ ''- '' @ trim_newlines (yaml_value (JObj []) (n + 2)) @ yaml_items vs n"
| "yaml_items (JArr xs # vs) n = newline # pad n @ ''- '' @ trim_newlines (yaml_value (JArr xs) (n + 2)) @ yaml_items vs n"
| "yaml_items (v # vs) n = newline # pad n @ ''- '' @ yaml_scalar v @ yaml_items vs n"
| "yaml_inline first [] n = []"
| "yaml_inline first ((k, v) # kvs) n =
     (if first then [] else newline # pad (n + 2)) @ k @ '':'' @
     (if is_container v then yaml_value v (n + 4) else CHR '' '' # yaml_scalar v) @ yaml_inline False kvs n"

section \<open>Board files\<close>

definition ESP_BOARD_MANAGER_BUILTIN_DEVICE_TYPES :: "string list" where
  "ESP_BOARD_MANAGER_BUILTIN_DEVICE_TYPES =
     [''audio_codec'', ''button'', ''camera'', ''custom'', ''display_lcd'', ''fs_fat'', ''fs_spiffs'', ''gpio_ctrl'',
      ''gpio_expander'', ''lcd_touch_i2c'', ''ledc_ctrl'', ''power_ctrl'', ''i2c_sensor'', ''onewire_sensor'', ''ds18b20'',
      ''dht'']"

definition resolve_device_type_yaml :: "string \<Rightarrow> string" where
  "resolve_device_type_yaml t = (if t \<in> set ESP_BOARD_MANAGER_BUILTIN_DEVICE_TYPES then t else ''custom'')"

text \<open>A line of a file: a line break, blanks and a text.\<close>

definition line :: "nat \<Rightarrow> string \<Rightarrow> string" where
  "line n s = newline # pad n @ s"

definition header_line :: string where
  "header_line = ''# Auto-generated by rshome-codegen. Do not edit.''"

definition generate_board_info :: "string \<Rightarrow> assembly \<Rightarrow> string" where
  "generate_board_info description a =
     header_line @ line 0 (''board_name: '' @ [quote_mark] @ as_label a @ [quote_mark]) @
     line 0 (''chip: '' @ to_idf_target (as_target a)) @ line 0 (''version: '' @ [quote_mark] @ ''1.0'' @ [quote_mark]) @
     line 0 (''description: '' @ [quote_mark] @ description @ [quote_mark])"

definition yaml_setting :: "string \<times> json \<Rightarrow> string" where
  "yaml_setting kv =
     line 6 (fst kv @ '':'') @
     (if is_container (snd kv) then yaml_value (snd kv) 8 else CHR '' '' # yaml_scalar (snd kv))"

definition yaml_config :: "(string \<times> json) list \<Rightarrow> string" where
  "yaml_config kvs = (if kvs = [] then [] else line 4 ''config:'' @ concat (map yaml_setting kvs))"

definition yaml_peripheral :: "peripheral_decl \<Rightarrow> string" where
  "yaml_peripheral p =
     line 2 (''- name: '' @ pd_name p) @ line 4 (''type: '' @ pd_periph_type p) @ line 4 (''role: '' @ pd_role p) @
     yaml_config (pd_config p)"

definition generate_peripherals :: "assembly \<Rightarrow> string" where
  "generate_peripherals a = header_line @ line 0 ''peripherals:'' @ concat (map yaml_peripheral (as_peripherals a))"

definition yaml_device :: "device_decl \<Rightarrow> string" where
  "yaml_device d =
     line 2 (''- name: '' @ dd_name d) @ line 4 (''type: '' @ resolve_device_type_yaml (dd_device_type d)) @
     (if dd_peripherals d = [] then []
      else line 4 ''peripherals:'' @ concat (map (\<lambda>p. line 6 (''- '' @ p)) (dd_peripherals d))) @
     yaml_config (dd_config d) @ line 4 ''dependencies:'' @
     (if dd_dependencies d = [] then line 6 ''[]'' else concat (map (\<lambda>x. line 6 (''- '' @ x)) (dd_dependencies d)))"

definition generate_devices :: "assembly \<Rightarrow> string" where
  "generate_devices a = header_line @ line 0 ''devices:'' @ concat (map yaml_device (as_devices a))"

section \<open>Indentation\<close>

definition unlines :: "string list \<Rightarrow> string" where
  "unlines ls = concat (map (\<lambda>l. newline # l) ls)"

definition indented_lines :: "nat \<Rightarrow> string list \<Rightarrow> bool" where
  "indented_lines n ls \<longleftrightarrow> (\<forall>l \<in> set ls. newline \<notin> set l \<and> prefix (pad n) l)"

text \<open>A text whose further lines are indented, and one that starts with such a line.\<close>

definition text_block :: "nat \<Rightarrow> string \<Rightarrow> bool" where
  "text_block n s \<longleftrightarrow> (\<exists>t ls. newline \<notin> set t \<and> s = t @ unlines ls \<and> indented_lines n ls)"

definition block :: "nat \<Rightarrow> string \<Rightarrow> bool" where
  "block n s \<longleftrightarrow> (\<exists>ls. s = unlines ls \<and> indented_lines n ls)"

named_theorems blocks \<open>what the printer's pieces are\<close>

lemma unlines_append: "unlines (ls @ ls') = unlines ls @ unlines ls'"
  by (simp add: unlines_def)

lemma unlines_snoc: "unlines (ls @ [l]) @ t = unlines (ls @ [l @ t])"
  by (simp add: unlines_def)

lemma text_plain: "newline \<notin> set s \<Longrightarrow> text_block n s"
  unfolding text_block_def by (intro exI [of _ s] exI [of _ "[]"]) (simp add: unlines_def indented_lines_def)

lemma text_append [blocks]:
  assumes "text_block n s" and "text_block n s'"
  shows "text_block n (s @ s')"
proof -
  obtain t ls t' ls' where s: "newline \<notin> set t" "s = t @ unlines ls" "indented_lines n ls"
    "newline \<notin> set t'" "s' = t' @ unlines ls'" "indented_lines n ls'"
    using assms unfolding text_block_def by blast
  show ?thesis
  proof (cases ls rule: rev_cases)
    case Nil
    then show ?thesis
      unfolding text_block_def using s by (intro exI [of _ "t @ t'"] exI [of _ ls']) (simp add: unlines_def)
  next
    case (snoc init l)
    have "s @ s' = t @ unlines (init @ [l @ t']) @ unlines ls'"
      using s snoc unlines_snoc [of init l t'] by (metis append.assoc)
    then have "s @ s' = t @ unlines (init @ [l @ t'] @ ls')" by (simp only: unlines_append append.assoc)
    moreover have "indented_lines n (init @ [l @ t'] @ ls')"
      using s snoc by (auto simp: indented_lines_def)
    ultimately show ?thesis unfolding text_block_def using s(1) by blast
  qed
qed

lemma pad_prefix: "n \<le> m \<Longrightarrow> prefix (pad n) (pad m @ s)"
  unfolding pad_def by (metis append.assoc le_add_diff_inverse prefixI replicate_add)

lemma pad_newline [simp]: "newline \<notin> set (pad n)"
  by (simp add: pad_def newline_def)

lemma line_block [blocks]:
  assumes "n \<le> m" and "text_block n s"
  shows "block n (line m s)"
proof -
  obtain t ls where s: "newline \<notin> set t" "s = t @ unlines ls" "indented_lines n ls"
    using assms(2) unfolding text_block_def by blast
  have "line m s = unlines ((pad m @ t) # ls)" using s(2) by (simp add: line_def unlines_def)
  moreover have "indented_lines n ((pad m @ t) # ls)"
    using s(1, 3) pad_prefix [OF assms(1)] by (simp add: indented_lines_def)
  ultimately show ?thesis unfolding block_def by blast
qed

lemma block_text: "block n s \<Longrightarrow> text_block n s"
  unfolding block_def text_block_def by (metis append_Nil empty_iff list.set(1))

lemma block_nil [blocks]: "block n []"
  unfolding block_def by (intro exI [of _ "[]"]) (simp add: unlines_def indented_lines_def)

lemma block_append [blocks]:
  assumes "block n s" and "block n s'"
  shows "block n (s @ s')"
proof -
  obtain ls ls' where "s = unlines ls" "indented_lines n ls" "s' = unlines ls'" "indented_lines n ls'"
    using assms unfolding block_def by blast
  then have "s @ s' = unlines (ls @ ls')" "indented_lines n (ls @ ls')"
    by (auto simp: unlines_append indented_lines_def)
  then show ?thesis unfolding block_def by blast
qed

lemma block_concat: "(\<And>x. x \<in> set xs \<Longrightarrow> block n (f x)) \<Longrightarrow> block n (concat (map f xs))"
  by (induction xs) (auto intro: block_nil block_append)

lemma line_append: "line m (s @ t) = line m s @ t"
  by (simp add: line_def)

lemma trim_text [blocks]:
  assumes "text_block n s"
  shows "text_block n (trim_newlines s)"
proof -
  have ls: "indented_lines n ls \<Longrightarrow> text_block n (trim_newlines (unlines ls))" for ls
  proof (induction ls)
    case Nil
    then show ?case by (simp add: unlines_def trim_newlines_def text_plain)
  next
    case (Cons l ls)
    show ?case
    proof (cases l)
      case Nil
      then have "trim_newlines (unlines (l # ls)) = trim_newlines (unlines ls)"
        by (simp add: unlines_def trim_newlines_def)
      then show ?thesis using Cons by (simp add: indented_lines_def)
    next
      case (Cons c cs)
      then have "trim_newlines (unlines (l # ls)) = l @ unlines ls"
        using \<open>indented_lines n (l # ls)\<close> by (auto simp: unlines_def trim_newlines_def indented_lines_def)
      then show ?thesis
        using \<open>indented_lines n (l # ls)\<close> unfolding text_block_def indented_lines_def by auto
    qed
  qed
  obtain t ls where s: "newline \<notin> set t" "s = t @ unlines ls" "indented_lines n ls"
    using assms unfolding text_block_def by blast
  show ?thesis
  proof (cases t)
    case Nil
    then show ?thesis using ls s by simp
  next
    case (Cons c cs)
    then have "trim_newlines s = s" using s by (auto simp: trim_newlines_def)
    then show ?thesis using assms by simp
  qed
qed

section \<open>The printer\<close>

text \<open>No text of the value has a line break.\<close>

fun plain :: "json \<Rightarrow> bool" where
  "plain (JStr s) = (newline \<notin> set s)"
| "plain (JArr vs) = list_all plain vs"
| "plain (JObj kvs) = list_all (\<lambda>(k, v). newline \<notin> set k \<and> plain v) kvs"
| "plain _ = True"

lemma digit_newline: "newline \<notin> set (show_nat n)"
proof (induction n rule: show_nat.induct)
  case (1 n)
  have d: "digit_char k \<noteq> newline" if "k < 10" for k
    using that by (simp add: digit_char_def newline_def char_of_eq_iff take_bit_eq_mod)
  show ?case
  proof (cases "n < 10")
    case True
    then show ?thesis using d [of n] by (simp add: show_nat.simps [of n])
  next
    case False
    then show ?thesis using 1 d [of "n mod 10"] by (auto simp: show_nat.simps [of n])
  qed
qed

lemma zeros_newline: "newline \<notin> set (pad_zeros k)"
  by (simp add: pad_zeros_def newline_def)

lemma letters_newline:
  "newline \<noteq> CHR ''0''" "newline \<noteq> CHR ''.''" "newline \<noteq> CHR ''e''" "newline \<noteq> CHR ''-''" "newline \<noteq> CHR ''n''"
  "newline \<noteq> CHR ''u''" "newline \<noteq> CHR ''l''" "newline \<noteq> CHR '' ''" "newline \<noteq> CHR '':''" "newline \<noteq> quote_mark"
  by (simp_all add: newline_def quote_mark_def)

lemma decimal_newline: "newline \<notin> set (json_decimal d k)"
  using digit_newline [of d] digit_newline [of "nat \<bar>int (length (show_nat d)) + k - 1\<bar>"] zeros_newline
  by (auto simp: json_decimal_def Let_def letters_newline dest: in_set_takeD in_set_dropD)

lemma number_newline: "newline \<notin> set (json_number x)"
proof (cases x)
  case (Float y)
  then show ?thesis using decimal_newline by (cases y) (auto simp: letters_newline split: prod.split)
qed (auto simp: digit_newline letters_newline)

lemma scalar_newline: "plain v \<Longrightarrow> \<not> is_container v \<Longrightarrow> newline \<notin> set (yaml_scalar v)"
  by (cases v) (auto simp: number_newline letters_newline, simp_all add: newline_def)

lemma dash_newline: "newline \<notin> set ''- ''" "newline \<notin> set '' {}''" "newline \<notin> set '' []''" "newline \<notin> set '':''"
  by (simp_all add: newline_def)

lemma cons_line: "newline # pad n @ s = line n s"
  by (simp add: line_def)

lemma text_cons [blocks]: "c \<noteq> newline \<Longrightarrow> text_block n s \<Longrightarrow> text_block n (c # s)"
  using text_append [of n "[c]" s] text_plain [of "[c]" n] by simp

lemma scalar_text: "plain v \<Longrightarrow> \<not> is_container v \<Longrightarrow> text_block n (yaml_scalar v)"
  by (rule text_plain) (rule scalar_newline)

lemma entry_text:
  assumes "newline \<notin> set k" and "plain v" and "is_container v \<Longrightarrow> text_block m (yaml_value v i)"
  shows "text_block m (k @ '':'' @ (if is_container v then yaml_value v i else CHR '' '' # yaml_scalar v))"
proof -
  have "text_block m (if is_container v then yaml_value v i else CHR '' '' # yaml_scalar v)"
    using assms(2, 3) scalar_text text_cons [of "CHR '' ''" m] letters_newline by simp
  then show ?thesis
    using text_append [OF text_plain [OF assms(1)] text_append [OF text_plain [OF dash_newline(4)]]] by blast
qed

lemma line_item: "m \<le> n \<Longrightarrow> text_block m x \<Longrightarrow> block m y \<Longrightarrow> block m (line n (x @ y))"
  by (rule line_block [OF _ text_append [OF _ block_text]])

lemma dash_item: "m \<le> n \<Longrightarrow> text_block m x \<Longrightarrow> block m y \<Longrightarrow> block m (newline # pad n @ ''- '' @ x @ y)"
  using line_item [of m n "''- '' @ x" y] text_append [OF text_plain [OF dash_newline(1)]] by (simp add: line_def)

lemma yaml_indented:
  "plain v \<Longrightarrow> m \<le> n \<Longrightarrow> text_block m (yaml_value v n)"
  "list_all (\<lambda>(k, v). newline \<notin> set k \<and> plain v) kvs \<Longrightarrow> m \<le> n \<Longrightarrow> block m (yaml_pairs kvs n)"
  "list_all plain vs \<Longrightarrow> m \<le> n \<Longrightarrow> block m (yaml_items vs n)"
  "list_all (\<lambda>(k, v). newline \<notin> set k \<and> plain v) kvs \<Longrightarrow> m \<le> n \<Longrightarrow> text_block m (yaml_inline first kvs n)"
proof (induction v n and kvs n and vs n and first kvs n rule: yaml_value_yaml_pairs_yaml_items_yaml_inline.induct)
  case (1 n)
  then show ?case using text_plain [OF dash_newline(2)] by simp
next
  case (2 kv kvs n)
  then show ?case using block_text by simp
next
  case (3 n)
  then show ?case using text_plain [OF dash_newline(3)] by simp
next
  case (4 v vs n)
  then show ?case using block_text by simp
next
  case (10 k v kvs n)
  let ?e = "k @ '':'' @ (if is_container v then yaml_value v (n + 2) else CHR '' '' # yaml_scalar v)"
  have "text_block m ?e" using entry_text [of k v m "n + 2"] 10 by simp
  moreover have "m \<le> n" "block m (yaml_pairs kvs n)" using 10 by simp_all
  ultimately have "block m (line n (?e @ yaml_pairs kvs n))" by (intro line_item)
  then show ?case by (simp add: line_def)
next
  case (12 kv kvs vs n)
  then show ?case using dash_item by simp
next
  case (13 vs n)
  then show ?case using dash_item [OF _ trim_text [OF text_plain [OF dash_newline(2)]]] by simp
next
  case (14 xs vs n)
  then show ?case using dash_item [OF _ trim_text] by simp
next
  case (17 first k v kvs n)
  let ?e = "k @ '':'' @ (if is_container v then yaml_value v (n + 4) else CHR '' '' # yaml_scalar v)"
  have e: "text_block m ?e" using entry_text [of k v m "n + 4"] 17 by simp
  have rest: "text_block m (yaml_inline False kvs n)" using 17 by simp
  show ?case
  proof (cases first)
    case True
    then show ?thesis using text_append [OF e rest] by simp
  next
    case False
    have "text_block m (line (n + 2) (?e @ yaml_inline False kvs n))"
      using block_text [OF line_block [OF _ text_append [OF e rest], of "n + 2"]] 17 by simp
    then show ?thesis using False by (simp add: line_def)
  qed
qed (simp_all only: yaml_value.simps yaml_pairs.simps yaml_items.simps yaml_inline.simps scalar_text is_container.simps
      not_False_eq_True block_nil block_text plain.simps list.pred_inject dash_item simp_thms)

section \<open>The files\<close>

definition setting_plain :: "string \<times> json \<Rightarrow> bool" where
  "setting_plain kv \<longleftrightarrow> newline \<notin> set (fst kv) \<and> plain (snd kv)"

definition device_plain :: "device_decl \<Rightarrow> bool" where
  "device_plain d \<longleftrightarrow> newline \<notin> set (dd_name d) \<and> list_all setting_plain (dd_config d)
     \<and> list_all (\<lambda>s. newline \<notin> set s) (dd_peripherals d) \<and> list_all (\<lambda>s. newline \<notin> set s) (dd_dependencies d)"

lemma setting_block: "setting_plain kv \<Longrightarrow> block 4 (yaml_setting kv)"
  using entry_text [of "fst kv" "snd kv" 4 8] yaml_indented(1) [of "snd kv" 4 8] line_block [of 4 6]
  by (simp add: setting_plain_def yaml_setting_def line_def)

lemma list_block: "list_all (\<lambda>s. newline \<notin> set s) xs \<Longrightarrow> block 4 (concat (map (\<lambda>x. line 6 (''- '' @ x)) xs))"
  by (rule block_concat, rule line_block)
    (auto simp: list_all_iff newline_def intro!: text_plain)

lemma config_block: "list_all setting_plain kvs \<Longrightarrow> block 4 (yaml_config kvs)"
  unfolding yaml_config_def
  by (auto simp: list_all_iff newline_def
    intro!: block_nil block_append line_block text_plain block_concat setting_block)

lemma device_type_newline: "newline \<notin> set (resolve_device_type_yaml t)"
proof -
  have "list_all (\<lambda>s. newline \<notin> set s) (''custom'' # ESP_BOARD_MANAGER_BUILTIN_DEVICE_TYPES)"
    by (simp add: ESP_BOARD_MANAGER_BUILTIN_DEVICE_TYPES_def newline_def)
  then show ?thesis by (auto simp: resolve_device_type_yaml_def list_all_iff)
qed

lemma device_block:
  assumes "device_plain d"
  shows "\<exists>rest. yaml_device d = line 2 (''- name: '' @ dd_name d) @ rest \<and> block 4 rest"
proof -
  let ?type = "line 4 (''type: '' @ resolve_device_type_yaml (dd_device_type d))"
  let ?per = "if dd_peripherals d = [] then []
      else line 4 ''peripherals:'' @ concat (map (\<lambda>p. line 6 (''- '' @ p)) (dd_peripherals d))"
  let ?deps = "if dd_dependencies d = [] then line 6 ''[]'' else concat (map (\<lambda>x. line 6 (''- '' @ x)) (dd_dependencies d))"
  have d: "list_all setting_plain (dd_config d)" "list_all (\<lambda>s. newline \<notin> set s) (dd_peripherals d)"
    "list_all (\<lambda>s. newline \<notin> set s) (dd_dependencies d)" using assms by (simp_all add: device_plain_def)
  have const: "block 4 (line 4 s)" "block 4 (line 6 s)" if "newline \<notin> set s" for s
    using line_block [of 4 4] line_block [of 4 6] text_plain [OF that] by simp_all
  have "block 4 ?type" using device_type_newline by (intro const) (simp add: newline_def)
  moreover have "block 4 ?per" using list_block [OF d(2)] const(1) [of "''peripherals:''"]
    by (auto simp: newline_def intro: block_nil block_append)
  moreover have "block 4 (line 4 ''dependencies:'')" by (rule const) (simp add: newline_def)
  moreover have "block 4 ?deps" using list_block [OF d(3)] const(2) [of "''[]''"] by (auto simp: newline_def)
  ultimately have "block 4 (?type @ ?per @ yaml_config (dd_config d) @ line 4 ''dependencies:'' @ ?deps)"
    using config_block [OF d(1)] by (intro block_append)
  then show ?thesis unfolding yaml_device_def by blast
qed

lemma split_unlines:
  "newline \<notin> set x \<Longrightarrow> \<forall>l \<in> set ls. newline \<notin> set l \<Longrightarrow> split_on newline (x @ unlines ls) = x # ls"
proof (induction ls arbitrary: x)
  case Nil
  then show ?case by (simp add: unlines_def split_on_single)
next
  case (Cons l ls)
  then show ?case using split_on_append [of newline x "l @ unlines ls"] by (simp add: unlines_def)
qed

text \<open>C28. When no name, key, value or reference of its devices has a line break, the device file of an
  assembly is, read line by line, its header followed by one list item for each device, in order: the
  line with the name of the device and then only lines indented by at least four blanks. No such
  setting, however deeply nested, ends its item or starts another one. The condition is needed, see
  \<open>line_break_starts_item\<close>: line breaks are printed as they are.\<close>

theorem device_file_items:
  assumes "list_all device_plain (as_devices a)"
  shows "\<exists>tails. length tails = length (as_devices a) \<and> list_all (list_all (prefix ''    '')) tails
    \<and> split_on newline (generate_devices a) =
        header_line # ''devices:'' # concat (map2 (\<lambda>d tail. (''  - name: '' @ dd_name d) # tail) (as_devices a) tails)"
proof -
  have items: "list_all device_plain ds \<Longrightarrow>
      \<exists>tails. length tails = length ds \<and> list_all (indented_lines 4) tails
        \<and> concat (map yaml_device ds) = unlines (concat (map2 (\<lambda>d tail. (''  - name: '' @ dd_name d) # tail) ds tails))" for ds
  proof (induction ds)
    case Nil
    then show ?case by (simp add: unlines_def)
  next
    case (Cons d ds)
    then obtain tails where t: "length tails = length ds" "list_all (indented_lines 4) tails"
      "concat (map yaml_device ds) = unlines (concat (map2 (\<lambda>d tail. (''  - name: '' @ dd_name d) # tail) ds tails))" by auto
    have "device_plain d" using Cons.prems by simp
    then obtain ls where ls: "yaml_device d = line 2 (''- name: '' @ dd_name d) @ unlines ls" "indented_lines 4 ls"
      using device_block unfolding block_def by blast
    have "line 2 (''- name: '' @ dd_name d) = newline # ''  - name: '' @ dd_name d" by (simp add: line_def pad_def numeral_2_eq_2)
    then have "yaml_device d = unlines ((''  - name: '' @ dd_name d) # ls)" using ls(1) by (simp add: unlines_def)
    then show ?case
      using t ls(2) by (intro exI [of _ "ls # tails"]) (simp add: unlines_append [symmetric])
  qed
  obtain tails where t: "length tails = length (as_devices a)" "list_all (indented_lines 4) tails"
    "concat (map yaml_device (as_devices a)) =
       unlines (concat (map2 (\<lambda>d tail. (''  - name: '' @ dd_name d) # tail) (as_devices a) tails))"
    using items [OF assms] by blast
  let ?items = "concat (map2 (\<lambda>d tail. (''  - name: '' @ dd_name d) # tail) (as_devices a) tails)"
  have "generate_devices a = header_line @ unlines (''devices:'' # ?items)"
    unfolding generate_devices_def t(3) by (simp add: line_def pad_def unlines_def)
  moreover have "newline \<notin> set header_line" by (simp add: header_line_def newline_def)
  moreover have "newline \<notin> set l" if l: "l \<in> set (''devices:'' # ?items)" for l
  proof -
    have names: "newline \<notin> set (''  - name: '' @ dd_name d)" if "d \<in> set (as_devices a)" for d
      using assms that by (auto simp: list_all_iff device_plain_def newline_def)
    consider "l = ''devices:''" | d tail where "(d, tail) \<in> set (zip (as_devices a) tails)"
      "l = ''  - name: '' @ dd_name d \<or> l \<in> set tail" using l by auto
    then show ?thesis
    proof cases
      case 1
      then show ?thesis by (simp add: newline_def)
    next
      case 2
      then have "d \<in> set (as_devices a)" "indented_lines 4 tail"
        using t(2) by (auto simp: list_all_iff dest: set_zip_leftD set_zip_rightD)
      then show ?thesis using 2 names unfolding indented_lines_def by blast
    qed
  qed
  ultimately have "split_on newline (generate_devices a) = header_line # ''devices:'' # ?items"
    using split_unlines [of header_line "''devices:'' # ?items"] by (metis list.set_intros(1))
  moreover have "list_all (list_all (prefix ''    '')) tails"
    using t(2) by (simp add: list_all_iff indented_lines_def pad_def numeral_eq_Suc)
  ultimately show ?thesis using t(1) by blast
qed

theorem device_file_items_witness:
  "\<exists>tails. length tails = length (as_devices esp32s3_gpio_relay_assembly) \<and> list_all (list_all (prefix ''    '')) tails
    \<and> split_on newline (generate_devices esp32s3_gpio_relay_assembly) =
        header_line # ''devices:'' #
        concat (map2 (\<lambda>d tail. (''  - name: '' @ dd_name d) # tail) (as_devices esp32s3_gpio_relay_assembly) tails)"
proof -
  have "list_all device_plain (as_devices esp32s3_gpio_relay_assembly)" by code_simp
  from device_file_items [OF this] show ?thesis .
qed

text \<open>A line break in a dependency ends the item of its device and starts another one.\<close>

lemma line_break_starts_item:
  "split_on newline (yaml_device \<lparr>dd_name = ''relay'', dd_device_type = ''gpio'', dd_peripherals = [], dd_config = [],
       dd_dependencies = [''a'' @ [newline] @ ''  - name: forged'']\<rparr>) =
     ['''', ''  - name: relay'', ''    type: '' @ resolve_device_type_yaml ''gpio'', ''    dependencies:'', ''      - a'',
      ''  - name: forged'']"
  by code_simp

text \<open>The printer forgets the type of a scalar: a string that spells a truth value, a number or null
  is written like that value. The shipped sensor board writes the text \<open>0x76\<close> of an address as a bare
  word, which YAML reads as a number.\<close>

theorem scalars_lose_type:
  "yaml_scalar (JStr ''true'') = yaml_scalar (JBool True) \<and> yaml_scalar (JStr ''null'') = yaml_scalar JNull
   \<and> yaml_scalar (JStr (show_nat (unat n))) = yaml_scalar (JNum (PosInt n))
   \<and> yaml_scalar (JStr ''0x76'') = ''0x76''"
proof -
  have digits: "set (show_nat k) \<subseteq> {c. 48 \<le> (of_char c :: nat) \<and> (of_char c :: nat) \<le> 57}" for k
  proof (induction k rule: show_nat.induct)
    case (1 k)
    have "of_char (digit_char j) = (48 + j :: nat)" if "j < 10" for j
      using that by (simp add: digit_char_def take_bit_eq_mod)
    then show ?case using 1 by (subst show_nat.simps) auto
  qed
  have "\<not> needs_quotes (show_nat k)" for k using digits [of k] by (auto simp: needs_quotes_def)
  then show ?thesis by (simp add: needs_quotes_def)
qed

end
