(* ===== verification/Codegen.thy ===== *)
theory Codegen
  imports BoardYaml ConfigPipeline NativeApi Catalog
begin

text \<open>
  The generator of ESP-IDF projects (\<open>rshome-codegen\<close>: \<open>generator.rs\<close>, \<open>brookesia.rs\<close>, \<open>cmake.rs\<close>,
  \<open>sdkconfig.rs\<close>, \<open>ha_adapter.rs\<close>). A project is a list of files written in turn, to a disk or to the
  memory of the thread; the texts are functions of the validated configuration.

  The disk is a parameter: what creating a directory and writing a file do to it, and the errors
  they raise. \<open>disk_laws\<close> states what the documentation of \<open>std::fs\<close> promises. The template engine
  (tera) is a parameter from a template and the name of the project.

  The property compares the project in memory with the one on the disk.
\<close>

section \<open>Texts\<close>

definition in_quotes :: "string \<Rightarrow> string" where
  "in_quotes s = quote_mark # s @ [quote_mark]"

definition text_of :: "string list \<Rightarrow> string" where
  "text_of ls = concat (map (\<lambda>l. l @ [newline]) ls)"

definition generate_root_cmake :: "string \<Rightarrow> string" where
  "generate_root_cmake project_name =
     text_of [''cmake_minimum_required(VERSION 3.16)'', [], ''include($ENV{IDF_PATH}/tools/cmake/project.cmake)'', [],
              ''project('' @ project_name @ '')'']"

text \<open>A list of quoted names under a keyword, or nothing.\<close>

definition cmake_section :: "string \<Rightarrow> string list \<Rightarrow> string" where
  "cmake_section keyword items =
     (if items = [] then []
      else line 4 keyword @ [newline] @ join [newline] (map (\<lambda>s. ''    '' @ in_quotes s) items))"

definition generate_component_cmake :: "string list \<Rightarrow> string list \<Rightarrow> string list \<Rightarrow> string" where
  "generate_component_cmake sources requires priv_requires =
     text_of [''idf_component_register(''] @ cmake_section ''SRCS'' sources @
     line 4 ''INCLUDE_DIRS'' @ line 4 (in_quotes ''include'') @
     cmake_section ''REQUIRES'' requires @ cmake_section ''PRIV_REQUIRES'' priv_requires @ line 0 '')'' @ [newline]"

definition wifi_lines :: "json \<Rightarrow> string list" where
  "wifi_lines cfg =
     (let mode_num = (if get_str ''provisioning_mode'' cfg = Some ''build_input'' then 1 else 0 :: nat);
          ssid = get_str ''ssid'' cfg;
          password = get_str ''password'' cfg;
          valid = (ssid \<noteq> None \<and> ssid \<noteq> Some [] \<and> password \<noteq> None \<and> password \<noteq> Some [])
      in [''#define RSHOME_WIFI_PROV_NVS         0'', ''#define RSHOME_WIFI_PROV_BUILD_INPUT 1'',
          ''#define RSHOME_WIFI_PROV_MODE        '' @ show_nat mode_num] @
         (if mode_num = 1
          then [''#define RSHOME_WIFI_BUILD_INPUT_VALID '' @ (if valid then ''1'' else ''0'')] @
               (case (ssid, password) of
                  (Some s, Some p) \<Rightarrow>
                    if valid
                    then [''#define RSHOME_WIFI_BUILD_SSID '' @ in_quotes s, ''#define RSHOME_WIFI_BUILD_PASSWORD '' @ in_quotes p]
                    else []
                | _ \<Rightarrow> [])
          else []))"

definition generate_defines_header :: "string list \<Rightarrow> json option \<Rightarrow> string" where
  "generate_defines_header flags wifi_config =
     text_of [''#pragma once'', ''// Auto-generated by rshome-codegen. Do not edit.'', []] @
     join [newline] (sort (map (\<lambda>f. ''#define '' @ f) flags @
       (case wifi_config of Some cfg \<Rightarrow> wifi_lines cfg | None \<Rightarrow> [])))"

fun sdkconfig_target :: "chip_target \<Rightarrow> string" where
  "sdkconfig_target Esp32 = ''esp32''"
| "sdkconfig_target Esp32S2 = ''esp32s2''"
| "sdkconfig_target Esp32S3 = ''esp32s3''"
| "sdkconfig_target Esp32C2 = ''esp32c2''"
| "sdkconfig_target Esp32C3 = ''esp32c3''"
| "sdkconfig_target Esp32C5 = ''esp32c5''"
| "sdkconfig_target Esp32C6 = ''esp32c6''"
| "sdkconfig_target Esp32C61 = ''esp32c61''"
| "sdkconfig_target Esp32H2 = ''esp32h2''"
| "sdkconfig_target Esp32P4 = ''esp32p4''"

definition generate_sdkconfig :: "validated_config \<Rightarrow> string" where
  "generate_sdkconfig config =
     (let has_flag = (\<lambda>f. f \<in> set (vc_active_flags config))
      in join [newline]
           ([''# Generated by rshome-codegen.'',
             ''CONFIG_IDF_TARGET='' @ in_quotes (sdkconfig_target (ve_chip_target (vc_esphome config))),
             ''CONFIG_ESPTOOLPY_FLASHSIZE_16MB=y'', ''CONFIG_PARTITION_TABLE_CUSTOM=y'',
             ''CONFIG_PARTITION_TABLE_CUSTOM_FILENAME='' @ in_quotes ''partitions.csv'', ''CONFIG_LOG_DEFAULT_LEVEL_INFO=y''] @
            (if has_flag ''USE_WIFI'' then [''CONFIG_ESP_WIFI_ENABLED=y'', ''CONFIG_LWIP_IPV4=y''] else []) @
            (if has_flag ''USE_BLE'' then [''CONFIG_BT_ENABLED=y'', ''CONFIG_BT_NIMBLE_ENABLED=y''] else []) @
            (if has_flag ''USE_API'' then [''CONFIG_MBEDTLS_TLS_SERVER=y'', ''CONFIG_MBEDTLS_TLS_CLIENT_ONLY=n''] else [])))"

fun entity_kind_name :: "ha_entity_kind \<Rightarrow> string" where
  "entity_kind_name Ha_BinarySensor = ''binary_sensor''"
| "entity_kind_name Ha_Sensor = ''sensor''"
| "entity_kind_name Ha_Switch = ''switch''"
| "entity_kind_name Ha_Light = ''light''"
| "entity_kind_name Ha_Climate = ''climate''"
| "entity_kind_name Ha_Button = ''button''"
| "entity_kind_name Ha_TextSensor = ''text_sensor''"
| "entity_kind_name Ha_Number = ''number''"
| "entity_kind_name Ha_Select = ''select''"

text \<open>\<open>{:08X}\<close>: eight capital hexadecimal digits.\<close>

definition upper_hex :: "nat \<Rightarrow> char" where
  "upper_hex n = (if n < 10 then char_of (48 + n) else char_of (55 + n))"

definition hex8 :: "u32 \<Rightarrow> string" where
  "hex8 w = map (\<lambda>i. upper_hex (unat (drop_bit (4 * i) w AND 15))) [7, 6, 5, 4, 3, 2, 1, 0]"

definition generate_ha_adapter_source :: "ha_entity list \<Rightarrow> string \<Rightarrow> string" where
  "generate_ha_adapter_source entities device_name =
     text_of [''#include '' @ in_quotes ''ha_export_adapter.h'', ''#include '' @ in_quotes ''esp_log.h'', [],
              ''void ha_export_adapter_init(void) {'',
              ''    ESP_LOGI('' @ in_quotes ''ha_export'' @ '', '' @
                in_quotes (''Registering '' @ show_nat (length entities) @ '' entities for '' @ device_name) @ '');''] @
     concat (map (\<lambda>e. text_of [''    /* '' @ entity_kind_name (he_kind e) @ '':'' @ he_object_id e @
       '' key=0x'' @ hex8 (fnv1a_32 (he_object_id e)) @ '' */'']) entities) @
     text_of [''}'']"

section \<open>Writing a project\<close>

text \<open>A path as its components. \<open>PathBuf\<close> compares paths by them.\<close>

type_synonym path = "string list"

datatype 'e codegen_error = Template string | Io path 'e | InvalidConfig string

text \<open>\<open>MEMORY_OUTPUT\<close> of the thread, and the disk.\<close>

record 'd project_output =
  memory_output :: "(path \<times> string) list option"
  disk :: 'd

record ('d, 'e) disk_ops =
  create_dir_all :: "path \<Rightarrow> 'd \<Rightarrow> ('e option \<times> 'd)"
  fs_write :: "path \<Rightarrow> string \<Rightarrow> 'd \<Rightarrow> ('e option \<times> 'd)"

record generated_project =
  gp_root_dir :: path
  gp_files_written :: "path list"
  gp_component_count :: nat

definition parent :: "path \<Rightarrow> path option" where
  "parent p = (if p = [] \<or> p = [''/''] then None else Some (butlast p))"

definition ensure_dir :: "('d, 'e) disk_ops \<Rightarrow> path \<Rightarrow> 'd project_output \<Rightarrow> ('e codegen_error + unit) \<times> 'd project_output" where
  "ensure_dir ops p s =
     (if p = [] \<or> memory_output s \<noteq> None then (Inr (), s)
      else (case create_dir_all ops p (disk s) of
              (None, d) \<Rightarrow> (Inr (), s\<lparr>disk := d\<rparr>)
            | (Some e, d) \<Rightarrow> (Inl (Io p e), s\<lparr>disk := d\<rparr>)))"

definition write_file :: "('d, 'e) disk_ops \<Rightarrow> path \<Rightarrow> string \<Rightarrow> 'd project_output \<Rightarrow> ('e codegen_error + path) \<times> 'd project_output" where
  "write_file ops p contents s =
     (case memory_output s of
        Some files \<Rightarrow> (Inr p, s\<lparr>memory_output := Some (bt_insert p contents files)\<rparr>)
      | None \<Rightarrow>
          (case (case parent p of Some q \<Rightarrow> ensure_dir ops q s | None \<Rightarrow> (Inr (), s)) of
             (Inl e, s') \<Rightarrow> (Inl e, s')
           | (Inr _, s') \<Rightarrow>
               (case fs_write ops p contents (disk s') of
                  (None, d) \<Rightarrow> (Inr p, s'\<lparr>disk := d\<rparr>)
                | (Some e, d) \<Rightarrow> (Inl (Io p e), s'\<lparr>disk := d\<rparr>))))"

text \<open>A step of the generator: a directory to create or a file to write.\<close>

datatype step = Ensure path | Write path string

fun run_steps :: "('d, 'e) disk_ops \<Rightarrow> step list \<Rightarrow> 'd project_output \<Rightarrow> ('e codegen_error + path list) \<times> 'd project_output" where
  "run_steps ops [] s = (Inr [], s)"
| "run_steps ops (Ensure p # ss) s =
     (case ensure_dir ops p s of (Inl e, s') \<Rightarrow> (Inl e, s') | (Inr _, s') \<Rightarrow> run_steps ops ss s')"
| "run_steps ops (Write p c # ss) s =
     (case write_file ops p c s of
        (Inl e, s') \<Rightarrow> (Inl e, s')
      | (Inr q, s') \<Rightarrow> (case run_steps ops ss s' of (Inl e, s'') \<Rightarrow> (Inl e, s'') | (Inr qs, s'') \<Rightarrow> (Inr (q # qs), s'')))"

definition MAIN_TEMPLATE :: string where
  "MAIN_TEMPLATE =
     text_of [''#include '' @ in_quotes ''esp_log.h'', ''#include '' @ in_quotes ''brookesia/service_manager.hpp'',
              ''#include '' @ in_quotes ''app_composition.h'', [],
              ''extern '' @ in_quotes ''C'' @ '' void app_main(void) {'',
              ''    ESP_LOGI('' @ in_quotes ''rshome'' @ '', '' @ in_quotes ''Starting {{ project_name }}'' @ '');'',
              ''    auto &services = esp_brookesia::service::ServiceManager::get_instance();'',
              ''    services.start();'', ''    app_composition_init();'', ''}'']"

definition COMPOSITION_TEMPLATE :: string where
  "COMPOSITION_TEMPLATE =
     text_of [''#include '' @ in_quotes ''app_composition.h'', ''#include '' @ in_quotes ''esp_log.h'', [],
              ''void app_composition_init(void) {'',
              ''    ESP_LOGI('' @ in_quotes ''rshome'' @ '', '' @ in_quotes ''Composition initialized for {{ project_name }}'' @ '');'',
              ''}'']"

definition COMPOSITION_HEADER :: string where
  "COMPOSITION_HEADER = text_of [''#pragma once'', [], ''void app_composition_init(void);'']"

definition PARTITIONS :: string where
  "PARTITIONS =
     text_of [''# Name,   Type, SubType, Offset,   Size,     Flags'', ''nvs,      data, nvs,     0x9000,   0x6000,'',
              ''phy_init, data, phy,     0xf000,   0x1000,'', ''factory,  app,  factory, 0x10000,  0x500000,'',
              ''storage,  data, spiffs,  0x510000, 0xAF0000,'']"

definition LICENSE :: string where
  "LICENSE =
     text_of [''SPDX-License-Identifier: MIT OR Apache-2.0'', [],
              ''The rshome SDK is available under either the MIT License or the Apache License,'',
              ''Version 2.0, at your option.'']"

definition idf_component_yml :: string where
  "idf_component_yml =
     text_of [''dependencies:'', ''  espressif/brookesia_service_manager:'', ''    version: '' @ in_quotes ''*'',
              ''  espressif/brookesia_service_custom:'', ''    version: '' @ in_quotes ''*'']"

text \<open>The project after its templates are rendered.\<close>

definition project_steps :: "validated_config \<Rightarrow> string \<Rightarrow> string \<Rightarrow> path \<Rightarrow> step list" where
  "project_steps config main composition out =
     [Write (out @ [''CMakeLists.txt'']) (generate_root_cmake (ve_name (vc_esphome config))),
      Write (out @ [''sdkconfig.defaults'']) (generate_sdkconfig config),
      Write (out @ [''partitions.csv'']) PARTITIONS,
      Write (out @ [''LICENSE'']) LICENSE,
      Ensure (out @ [''main'']),
      Write (out @ [''main'', ''CMakeLists.txt'']) (generate_component_cmake [''main.cpp''] [] [''brookesia_service_manager'']),
      Write (out @ [''main'', ''idf_component.yml'']) idf_component_yml,
      Write (out @ [''main'', ''main.cpp'']) main,
      Ensure (out @ [''components'', ''app'', ''include'']),
      Ensure (out @ [''components'', ''app'', ''src'']),
      Write (out @ [''components'', ''app'', ''CMakeLists.txt''])
        (generate_component_cmake [''src/app_composition.cpp''] [] [''brookesia_service_manager'', ''brookesia_service_custom'']),
      Write (out @ [''components'', ''app'', ''include'', ''app_composition.h'']) COMPOSITION_HEADER,
      Write (out @ [''components'', ''app'', ''src'', ''app_composition.cpp'']) composition]"

definition generate ::
    "('d, 'e) disk_ops \<Rightarrow> (string \<Rightarrow> string \<Rightarrow> string + string) \<Rightarrow> validated_config \<Rightarrow> path \<Rightarrow> 'd project_output
     \<Rightarrow> ('e codegen_error + generated_project) \<times> 'd project_output" where
  "generate ops tera config out s =
     (case ensure_dir ops out s of
        (Inl e, s') \<Rightarrow> (Inl e, s')
      | (Inr _, s') \<Rightarrow>
          (case (tera MAIN_TEMPLATE (ve_name (vc_esphome config)), tera COMPOSITION_TEMPLATE (ve_name (vc_esphome config))) of
             (Inl e, _) \<Rightarrow> (Inl (Template e), s')
           | (Inr _, Inl e) \<Rightarrow> (Inl (Template e), s')
           | (Inr main, Inr composition) \<Rightarrow>
               (case run_steps ops (project_steps config main composition out) s' of
                  (Inl e, s'') \<Rightarrow> (Inl e, s'')
                | (Inr files, s'') \<Rightarrow>
                    (Inr \<lparr>gp_root_dir = out, gp_files_written = files, gp_component_count = 1\<rparr>, s''))))"

definition generate_in_memory ::
    "('d, 'e) disk_ops \<Rightarrow> (string \<Rightarrow> string \<Rightarrow> string + string) \<Rightarrow> validated_config \<Rightarrow> 'd project_output
     \<Rightarrow> ('e codegen_error + (path \<times> string) list) \<times> 'd project_output" where
  "generate_in_memory ops tera config s =
     (case generate ops tera config [] (s\<lparr>memory_output := Some []\<rparr>) of
        (result, s') \<Rightarrow>
          let files = (case memory_output s' of Some fs \<Rightarrow> fs | None \<Rightarrow> [])
          in ((case result of Inl e \<Rightarrow> Inl e | Inr _ \<Rightarrow> Inr files), s'\<lparr>memory_output := None\<rparr>))"

section \<open>Motor backends\<close>

datatype motor_backend = Pwm | Dshot | Bdshot

definition MUTUALLY_EXCLUSIVE_FLAG_GROUPS :: "string list list" where
  "MUTUALLY_EXCLUSIVE_FLAG_GROUPS = [[''USE_DSHOT'', ''USE_BDSHOT'']]"

record variant_flag_conflict =
  vf_group :: "string list"
  vf_present :: "string list"

definition motor_control_backend :: "string list \<Rightarrow> motor_backend" where
  "motor_control_backend flags =
     (if ''USE_BDSHOT'' \<in> set flags then Bdshot
      else if ''USE_DSHOT'' \<in> set flags then Dshot else Pwm)"

definition detect_variant_flag_conflicts :: "string list \<Rightarrow> variant_flag_conflict list" where
  "detect_variant_flag_conflicts flags =
     List.map_filter
       (\<lambda>group. let present = filter (\<lambda>flag. flag \<in> set flags) group
                in if 2 \<le> length present then Some \<lparr>vf_group = group, vf_present = present\<rparr> else None)
       MUTUALLY_EXCLUSIVE_FLAG_GROUPS"

section \<open>Memory and disk\<close>

text \<open>What the program relies on in \<open>std::fs\<close>, for a view of the disk as a map of its files: a write
  that succeeds sets the one file, and creating directories changes no file.\<close>

definition disk_laws :: "('d, 'e) disk_ops \<Rightarrow> ('d \<Rightarrow> path \<rightharpoonup> string) \<Rightarrow> bool" where
  "disk_laws ops look \<longleftrightarrow>
     (\<forall>p c d d'. fs_write ops p c d = (None, d') \<longrightarrow> look d' = (look d)(p \<mapsto> c))
     \<and> (\<forall>p d d'. create_dir_all ops p d = (None, d') \<longrightarrow> look d' = look d)"

fun writes :: "step list \<Rightarrow> (path \<times> string) list" where
  "writes [] = []"
| "writes (Ensure p # ss) = writes ss"
| "writes (Write p c # ss) = (p, c) # writes ss"

lemma run_in_memory:
  "memory_output s = Some m \<Longrightarrow>
     run_steps ops ss s = (Inr (map fst (writes ss)), s\<lparr>memory_output := Some (fold (\<lambda>(p, c). bt_insert p c) (writes ss) m)\<rparr>)"
  by (induction ss arbitrary: s m rule: writes.induct) (simp_all add: ensure_dir_def write_file_def)

lemma ensure_dir_disk:
  "disk_laws ops look \<Longrightarrow> memory_output s = None \<Longrightarrow> ensure_dir ops p s = (Inr u, s') \<Longrightarrow>
     memory_output s' = None \<and> look (disk s') = look (disk s)"
  by (auto simp: ensure_dir_def disk_laws_def split: if_splits prod.splits option.splits)

lemma write_file_disk:
  assumes "disk_laws ops look" and "memory_output s = None" and "write_file ops p c s = (Inr q, s')"
  shows "q = p \<and> memory_output s' = None \<and> look (disk s') = (look (disk s))(p \<mapsto> c)"
proof -
  let ?e = "case parent p of Some q \<Rightarrow> ensure_dir ops q s | None \<Rightarrow> (Inr (), s)"
  obtain u t where e: "?e = (Inr u, t)" using assms(2, 3) by (cases ?e) (auto simp: write_file_def split: sum.splits)
  then have t: "memory_output t = None" "look (disk t) = look (disk s)"
    using ensure_dir_disk [OF assms(1, 2)] assms(2) by (auto split: option.splits)
  show ?thesis using assms e t by (auto simp: write_file_def disk_laws_def split: prod.splits option.splits)
qed

lemma run_on_disk:
  "disk_laws ops look \<Longrightarrow> memory_output s = None \<Longrightarrow> run_steps ops ss s = (Inr ps, s') \<Longrightarrow>
     ps = map fst (writes ss) \<and> memory_output s' = None \<and> look (disk s') = look (disk s) ++ map_of (rev (writes ss))"
proof (induction ss arbitrary: s ps rule: writes.induct)
  case (2 p ss)
  obtain u t where t: "ensure_dir ops p s = (Inr u, t)" using 2(4) by (auto split: prod.splits sum.splits)
  with 2(4) have "run_steps ops ss t = (Inr ps, s')" by simp
  moreover have "memory_output t = None" "look (disk t) = look (disk s)" using ensure_dir_disk [OF 2(2, 3) t] by simp_all
  ultimately show ?case using 2(1) [OF 2(2), of t ps] by simp
next
  case (3 p c ss)
  obtain q t qs where w: "write_file ops p c s = (Inr q, t)" "run_steps ops ss t = (Inr qs, s')" "ps = q # qs"
    using 3(4) by (auto split: prod.splits sum.splits)
  have t: "q = p" "memory_output t = None" "look (disk t) = (look (disk s))(p \<mapsto> c)"
    using write_file_disk [OF 3(2, 3) w(1)] by simp_all
  show ?case using 3(1) [OF 3(2) t(2) w(2)] t w(3) by (simp add: map_add_upd_left [symmetric] map_add_assoc fun_eq_iff map_add_def split: option.split)
qed simp

text \<open>Files moved below a directory.\<close>

definition below_dir :: "path \<Rightarrow> (path \<times> string) list \<Rightarrow> (path \<times> string) list" where
  "below_dir out files = map (\<lambda>f. (out @ fst f, snd f)) files"

lemma writes_project:
  "writes (project_steps config main composition out) = below_dir out (writes (project_steps config main composition []))"
  by (simp add: project_steps_def below_dir_def)

lemma map_of_below_dir: "map_of (below_dir out xs) (out @ p) = map_of xs p"
  by (induction xs) (auto simp: below_dir_def)

lemma map_of_outside_dir: "\<not> prefix out q \<Longrightarrow> map_of (below_dir out xs) q = None"
  by (induction xs) (auto simp: below_dir_def)

lemma map_of_in_dir: "map_of xs = map_of ys \<Longrightarrow> map_of (below_dir out xs) q = map_of (below_dir out ys) q"
  by (cases "prefix out q") (auto simp: prefix_def map_of_below_dir map_of_outside_dir)

text \<open>C21. Whatever the templates render to, a project that is written to a directory has the same files as
  the project generated in memory: afterwards the disk is the disk before with exactly the files in
  memory below the directory, and generating in memory leaves the disk and the thread as they were.\<close>

theorem project_in_memory_is_project_on_disk:
  assumes "disk_laws ops look" and "memory_output s = None" and "generate ops tera config out s = (Inr project, s')"
  shows "\<exists>files. generate_in_memory ops tera config s = (Inr files, s)
    \<and> look (disk s') = look (disk s) ++ map_of (below_dir out files)
    \<and> set (gp_files_written project) = fst ` set (below_dir out files)"
proof -
  let ?name = "ve_name (vc_esphome config)"
  obtain u t where t: "ensure_dir ops out s = (Inr u, t)"
    using assms(3) by (auto simp: generate_def split: prod.splits sum.splits)
  obtain main composition where r: "tera MAIN_TEMPLATE ?name = Inr main" "tera COMPOSITION_TEMPLATE ?name = Inr composition"
    using assms(3) t by (auto simp: generate_def split: sum.splits)
  let ?steps = "project_steps config main composition"
  obtain ps where p: "run_steps ops (?steps out) t = (Inr ps, s')" "gp_files_written project = ps"
    using assms(3) t r by (auto simp: generate_def split: prod.splits sum.splits)
  let ?files = "bt_of_list (writes (?steps []))"
  have mem: "generate_in_memory ops tera config s = (Inr ?files, s)"
    using r assms(2) run_in_memory [of "s\<lparr>memory_output := Some []\<rparr>" "[]" ops "?steps []"]
    by (simp add: generate_in_memory_def generate_def ensure_dir_def bt_of_list_def)
  have d: "memory_output t = None" "look (disk t) = look (disk s)" using ensure_dir_disk [OF assms(1, 2) t] by simp_all
  have files: "map_of ?files = map_of (rev (writes (?steps [])))" by (rule map_of_bt_of_list)
  have "map_of (rev (writes (?steps out))) = map_of (below_dir out ?files)"
    using map_of_in_dir [OF files [symmetric], of out] by (simp add: writes_project [of _ _ _ out] below_dir_def rev_map fun_eq_iff)
  then have disk: "look (disk s') = look (disk s) ++ map_of (below_dir out ?files)"
    using run_on_disk [OF assms(1) d(1) p(1)] d(2) by simp
  have "fst ` set ?files = fst ` set (writes (?steps []))"
    using files by (metis dom_map_of_conv_image_fst set_rev)
  moreover have "fst ` set (below_dir out xs) = (@) out ` fst ` set xs" for xs by (force simp: below_dir_def)
  moreover have "set ps = fst ` set (below_dir out (writes (?steps [])))"
    using run_on_disk [OF assms(1) d(1) p(1)] writes_project [of config main composition out] by simp
  ultimately show ?thesis using mem disk p(2) by auto
qed

section \<open>Example\<close>

definition map_disk :: "(path \<rightharpoonup> string, unit) disk_ops" where
  "map_disk = \<lparr>create_dir_all = \<lambda>p d. (None, d), fs_write = \<lambda>p c d. (None, d(p \<mapsto> c))\<rparr>"

definition plain_config :: validated_config where
  "plain_config =
     \<lparr>vc_esphome = \<lparr>ve_name = ''lamp'', ve_chip_target = Esp32S3, ve_board = ''esp32s3'', ve_friendly_name = None,
                   ve_framework_type = EspIdf, ve_project = None, ve_solution_id = None, ve_solution_variant_id = None\<rparr>,
      vc_components = [], vc_active_flags = [''USE_WIFI''], vc_pin_allocations = [],
      vc_dependency_graph = \<lparr>dg_edges = [], dg_order = [], dg_dag = None\<rparr>\<rparr>"

theorem project_in_memory_is_project_on_disk_witness:
  "\<exists>project files d. generate map_disk (\<lambda>t name. Inr name) plain_config [''out''] \<lparr>memory_output = None, disk = Map.empty\<rparr> =
        (Inr project, \<lparr>memory_output = None, disk = d\<rparr>)
     \<and> generate_in_memory map_disk (\<lambda>t name. Inr name) plain_config \<lparr>memory_output = None, disk = Map.empty\<rparr> =
        (Inr files, \<lparr>memory_output = None, disk = Map.empty\<rparr>)
     \<and> d = map_of (below_dir [''out''] files)"
proof -
  let ?s = "\<lparr>memory_output = None, disk = Map.empty\<rparr> :: (path \<rightharpoonup> string) project_output"
  have laws: "disk_laws map_disk id" by (simp add: disk_laws_def map_disk_def)
  obtain project d where g: "generate map_disk (\<lambda>t name. Inr name) plain_config [''out''] ?s = (Inr project, \<lparr>memory_output = None, disk = d\<rparr>)"
    by (simp add: generate_def project_steps_def ensure_dir_def write_file_def map_disk_def parent_def)
  show ?thesis
    using project_in_memory_is_project_on_disk [OF laws _ g] g by auto
qed

end
