(* ===== verification/Archive.thy ===== *)
theory Archive
  imports Codegen Graphs
begin

text \<open>
  The project archive of the wizard (\<open>rshome-wizard/src/bindings.rs\<close>): the generated files exported as
  JSON with contents in base64, and the export unpacked into a tree of directories.

  Base64 and the parsers of JSON and of configurations are parameters; \<open>base64_laws\<close> says that decoding
  undoes encoding. The tree is read back by \<open>file_at\<close>; the lemmas follow one insertion, and the
  property is the round trip from a configuration to its tree.
\<close>

section \<open>Export\<close>

definition json_size :: "nat \<Rightarrow> json" where
  "json_size n = JNum (PosInt (of_nat n))"

definition show_path :: "path \<Rightarrow> string" where
  "show_path p = (if p \<noteq> [] \<and> hd p = ''/'' then CHR ''/'' # join ''/'' (tl p) else join ''/'' p)"

fun show_codegen_error :: "('e \<Rightarrow> string) \<Rightarrow> 'e codegen_error \<Rightarrow> string" where
  "show_codegen_error show_io (Template e) = ''template error: '' @ e"
| "show_codegen_error show_io (Io p e) = ''I/O error writing '' @ show_path p @ '': '' @ show_io e"
| "show_codegen_error show_io (InvalidConfig e) = ''invalid configuration: '' @ e"

definition export_failure :: "string \<Rightarrow> json" where
  "export_failure message =
     json_obj [(''valid'', JBool False),
             (''errors'', JArr [json_obj [(''path'', JStr []), (''message'', JStr message), (''severity'', JStr ''error'')]])]"

definition file_entry :: "(string \<Rightarrow> string) \<Rightarrow> path \<times> string \<Rightarrow> json" where
  "file_entry encode pc = json_obj [(''path'', JStr (show_path (fst pc))), (''content_b64'', JStr (encode (snd pc)))]"

definition codegen_export ::
    "('d, 'e) disk_ops \<Rightarrow> (string \<Rightarrow> string \<Rightarrow> string + string) \<Rightarrow> ('e \<Rightarrow> string) \<Rightarrow> (string \<Rightarrow> string)
     \<Rightarrow> (validation_error list \<Rightarrow> json) \<Rightarrow> validation_pipeline \<Rightarrow> externals \<Rightarrow> string + raw_config \<Rightarrow> 'd project_output \<Rightarrow> json \<times> 'd project_output" where
  "codegen_export ops tera show_io encode errors_json pipeline ex parsed s =
     (case parsed of
        Inl e \<Rightarrow> (export_failure (''JSON parse error: '' @ e), s)
      | Inr config \<Rightarrow>
          (case validate pipeline ex config Map.empty of
             Invalid errors \<Rightarrow> (json_obj [(''valid'', JBool False), (''errors'', errors_json errors)], s)
           | Valid validated \<Rightarrow>
               (case generate_in_memory ops tera validated s of
                  (Inl e, s') \<Rightarrow> (export_failure (''codegen error: '' @ show_codegen_error show_io e), s')
                | (Inr files, s') \<Rightarrow>
                    (json_obj [(''valid'', JBool True), (''device_name'', JStr (ve_name (vc_esphome validated))),
                             (''chip_target'', JStr (show_chip (ve_chip_target (vc_esphome validated)))),
                             (''file_count'', json_size (length files)),
                             (''files'', JArr (map (file_entry encode) files))], s'))))"

section \<open>Unpacking\<close>

definition file_node :: "u64 \<Rightarrow> string \<Rightarrow> json" where
  "file_node bytes content_b64 =
     json_obj [(''type'', JStr ''file''), (''size'', JNum (PosInt bytes)), (''content_b64'', JStr content_b64)]"

definition dir_node :: "(string \<times> json) list \<Rightarrow> json" where
  "dir_node children = json_obj [(''type'', JStr ''dir''), (''children'', JObj children)]"

definition node_children :: "json \<Rightarrow> (string \<times> json) list option" where
  "node_children d = Option.bind (json_get ''children'' d) as_object"

definition set_children :: "(string \<times> json) list \<Rightarrow> json \<Rightarrow> json" where
  "set_children children d = (case d of JObj m \<Rightarrow> JObj (obj_insert ''children'' (JObj children) m) | _ \<Rightarrow> d)"

fun insert_into_tree :: "(string \<times> json) list \<Rightarrow> path \<Rightarrow> u64 \<Rightarrow> string \<Rightarrow> (string \<times> json) list" where
  "insert_into_tree tree [] bytes b64 = tree"
| "insert_into_tree tree [name] bytes b64 = obj_insert name (file_node bytes b64) tree"
| "insert_into_tree tree (name # part # parts) bytes b64 =
     (let dir = (case map_of tree name of Some d \<Rightarrow> d | None \<Rightarrow> dir_node [])
      in obj_insert name
           (case node_children dir of
              Some children \<Rightarrow> set_children (insert_into_tree children (part # parts) bytes b64) dir
            | None \<Rightarrow> dir) tree)"

definition decode_entry ::
    "(string \<Rightarrow> string) \<Rightarrow> (string \<Rightarrow> string option) \<Rightarrow> json \<Rightarrow> (string \<times> u64 \<times> string) option" where
  "decode_entry encode decode f =
     Option.bind (get_str ''path'' f) (\<lambda>p. Option.bind (get_str ''content_b64'' f) (\<lambda>b64.
       map_option (\<lambda>bytes. (p, of_nat (length bytes), encode bytes)) (decode b64)))"

definition unpack_tree :: "(string \<times> u64 \<times> string) list \<Rightarrow> (string \<times> json) list" where
  "unpack_tree files = fold (\<lambda>(p, bytes, b64) tree. insert_into_tree tree (split_on (CHR ''/'') p) bytes b64) files []"

fun as_bool :: "json \<Rightarrow> bool option" where
  "as_bool (JBool b) = Some b"
| "as_bool _ = None"

definition str_or_unknown :: "string \<Rightarrow> json \<Rightarrow> json" where
  "str_or_unknown k v = JStr (case get_str k v of Some s \<Rightarrow> s | None \<Rightarrow> ''unknown'')"

definition unpack_codegen_archive ::
    "(string \<Rightarrow> string) \<Rightarrow> (string \<Rightarrow> string option) \<Rightarrow> string + json \<Rightarrow> json" where
  "unpack_codegen_archive encode decode parsed =
     (case parsed of
        Inl e \<Rightarrow> json_obj [(''unpack_error'', JStr (''invalid JSON: '' @ e))]
      | Inr raw \<Rightarrow>
          if Option.bind (json_get ''valid'' raw) as_bool \<noteq> Some True
          then json_obj [(''unpack_error'', JStr ''codegen export is not valid''),
                       (''errors'', case json_get ''errors'' raw of Some e \<Rightarrow> e | None \<Rightarrow> JNull)]
          else (case Option.bind (json_get ''files'' raw) as_array of
                  None \<Rightarrow> json_obj [(''unpack_error'', JStr (''missing or invalid '' @ quoted ''files'' @ '' array''))]
                | Some files \<Rightarrow>
                    json_obj [(''device_name'', str_or_unknown ''device_name'' raw),
                            (''chip_target'', str_or_unknown ''chip_target'' raw),
                            (''file_count'', json_size (case Option.bind (json_get ''file_count'' raw) as_u64 of Some n \<Rightarrow> n | None \<Rightarrow> 0)),
                            (''tree'', JObj (unpack_tree (List.map_filter (decode_entry encode decode) files)))]))"

section \<open>The files of a tree\<close>

definition node_file :: "json \<Rightarrow> (u64 \<times> string) option" where
  "node_file v =
     (case (get_str ''type'' v, json_get ''size'' v, get_str ''content_b64'' v) of
        (Some t, Some (JNum (PosInt n)), Some b) \<Rightarrow> if t = ''file'' then Some (n, b) else None
      | _ \<Rightarrow> None)"

fun file_at :: "(string \<times> json) list \<Rightarrow> path \<Rightarrow> (u64 \<times> string) option" where
  "file_at tree [] = None"
| "file_at tree [x] = Option.bind (map_of tree x) node_file"
| "file_at tree (x # y # ys) = Option.bind (Option.bind (map_of tree x) node_children) (\<lambda>ch. file_at ch (y # ys))"

inductive archive_node :: "json \<Rightarrow> bool" where
  leaf: "archive_node (file_node n b)"
| folder: "sorted_keys ch \<Longrightarrow> \<forall>v \<in> snd ` set ch. archive_node v \<Longrightarrow> archive_node (dir_node ch)"

abbreviation archive :: "(string \<times> json) list \<Rightarrow> bool" where
  "archive t \<equiv> sorted_keys t \<and> (\<forall>v \<in> snd ` set t. archive_node v)"

named_theorems nodes \<open>fields of the nodes of a tree\<close>

lemma file_node_fields [nodes]:
  "node_children (file_node n b) = None" "node_file (file_node n b) = Some (n, b)"
  by (simp_all add: file_node_def node_children_def node_file_def json_obj_def json_get_def get_str_def)

lemma dir_node_fields [nodes]:
  "node_children (dir_node ch) = Some ch" "node_file (dir_node ch) = None" "set_children ch' (dir_node ch) = dir_node ch'"
  by (simp_all add: dir_node_def node_children_def node_file_def set_children_def json_obj_def json_get_def get_str_def)

lemma archive_insert_key: "archive t \<Longrightarrow> archive_node v \<Longrightarrow> archive (obj_insert k v t)"
  using values_obj_insert [of k v t] sorted_obj_insert [of t k v] by blast

lemma archive_lookup: "archive t \<Longrightarrow> map_of t k = Some v \<Longrightarrow> archive_node v"
  by (force dest: map_of_SomeD)

text \<open>The entry under which a longer path is inserted.\<close>

lemma entry_cases:
  assumes "archive t"
  obtains (leaf) n b where "map_of t k = Some (file_node n b)"
  | (folder) ch where "(case map_of t k of Some d \<Rightarrow> d | None \<Rightarrow> dir_node []) = dir_node ch" "archive ch"
      "map_of t k = Some (dir_node ch) \<or> map_of t k = None \<and> ch = []"
proof (cases "map_of t k")
  case None
  then show ?thesis using that(2) [of "[]"] by simp
next
  case (Some v)
  from archive_lookup [OF assms Some] show ?thesis
  proof cases
    case (leaf n b)
    then show ?thesis using that(1) Some by simp
  next
    case (folder ch)
    then show ?thesis using that(2) [of ch] Some by simp
  qed
qed

lemma archive_insert: "archive t \<Longrightarrow> archive (insert_into_tree t p n b)"
proof (induction t p n b rule: insert_into_tree.induct)
  case (2 tree name bytes b64)
  show ?case unfolding insert_into_tree.simps by (rule archive_insert_key [OF 2 archive_node.leaf])
next
  case (3 tree name part parts bytes b64)
  from 3(2) show ?case
  proof (cases rule: entry_cases [where k = name])
    case (leaf n b)
    then have "insert_into_tree tree (name # part # parts) bytes b64 = obj_insert name (file_node n b) tree" by (simp add: nodes)
    then show ?thesis using archive_insert_key [OF 3(2) archive_node.leaf, of name n b] by metis
  next
    case (folder ch)
    let ?ch = "insert_into_tree ch (part # parts) bytes b64"
    have "insert_into_tree tree (name # part # parts) bytes b64 = obj_insert name (dir_node ?ch) tree"
      using folder(1) by (simp add: nodes Let_def)
    moreover have "archive ?ch" by (rule 3(1) [OF folder(1) [symmetric] dir_node_fields(1) folder(2)])
    then have "archive_node (dir_node ?ch)" using archive_node.folder [of ?ch] by blast
    ultimately show ?thesis using archive_insert_key [OF 3(2), of "dir_node ?ch" name] by metis
  qed
qed simp

lemma file_at_child: "map_of t x = Some (dir_node ch) \<Longrightarrow> p \<noteq> [] \<Longrightarrow> file_at t (x # p) = file_at ch p"
  by (cases p) (simp_all add: nodes)

lemma file_at_key: "map_of t x = map_of u x \<Longrightarrow> file_at t (x # p) = file_at u (x # p)"
  by (cases p) simp_all

lemma file_at_Nil: "file_at [] p = None"
  by (cases "([] :: (string \<times> json) list, p)" rule: file_at.cases) auto

lemma file_at_empty: "file_at [] = Map.empty"
  by (rule ext) (rule file_at_Nil)

lemma file_at_insert:
  assumes "archive t" and "p \<noteq> []"
    and "\<And>q. strict_prefix q p \<Longrightarrow> file_at t q = None" and "\<And>q. strict_prefix p q \<Longrightarrow> file_at t q = None"
  shows "file_at (insert_into_tree t p n b) = (file_at t)(p \<mapsto> (n, b))"
  using assms
proof (induction t p n b rule: insert_into_tree.induct)
  case (2 tree name bytes b64)
  show ?case
  proof
    fix q
    show "file_at (insert_into_tree tree [name] bytes b64) q = ((file_at tree)([name] \<mapsto> (bytes, b64))) q"
    proof (cases "(tree, q)" rule: file_at.cases)
      case (3 t x y ys)
      then show ?thesis using 2(4) [of q] by (auto simp: map_of_obj_insert nodes)
    qed (auto simp: map_of_obj_insert nodes)
  qed
next
  case (3 tree name part parts bytes b64)
  let ?p = "part # parts"
  from 3(2) show ?case
  proof (cases rule: entry_cases [where k = name])
    case (leaf n b)
    then show ?thesis using 3(4) [of "[name]"] by (simp add: nodes)
  next
    case (folder ch)
    have below: "file_at tree (name # q) = file_at ch q" if "q \<noteq> []" for q
      using folder(3) that file_at_child [of tree name ch q] file_at_Nil by (cases q rule: remdups_adj.cases) auto
    have up: "file_at ch q = None" if "strict_prefix q ?p" for q
    proof (cases "q = []")
      case False
      have "file_at tree (name # q) = None" using that by (intro 3(4)) simp
      then show ?thesis using below [OF False] by argo
    qed simp
    have down: "file_at ch q = None" if "strict_prefix ?p q" for q
    proof -
      have "file_at tree (name # q) = None" using that by (intro 3(5)) simp
      moreover have "q \<noteq> []" using that by auto
      ultimately show ?thesis using below [of q] by argo
    qed
    let ?ch = "insert_into_tree ch ?p bytes b64"
    have ih: "file_at ?ch = (file_at ch)(?p \<mapsto> (bytes, b64))"
      using 3(1) [OF refl, of ch] folder(1, 2) up down by (simp add: nodes fun_upd_def)
    have ins: "insert_into_tree tree (name # ?p) bytes b64 = obj_insert name (dir_node ?ch) tree"
      using folder(1) by (simp add: nodes Let_def)
    show ?thesis
    proof
      fix q
      show "file_at (insert_into_tree tree (name # ?p) bytes b64) q = ((file_at tree)(name # ?p \<mapsto> (bytes, b64))) q"
      proof (cases q)
        case (Cons x q')
        consider "x \<noteq> name" | "x = name" "q' = []" | "x = name" "q' \<noteq> []" by blast
        then show ?thesis
        proof cases
          case 1
          then show ?thesis using Cons ins file_at_key [of "obj_insert name (dir_node ?ch) tree" x tree q'] by (simp add: map_of_obj_insert)
        next
          case 2
          then show ?thesis using Cons ins folder(3) by (auto simp: map_of_obj_insert nodes)
        next
          case 3
          then have "file_at (insert_into_tree tree (name # ?p) bytes b64) q = file_at ?ch q'"
            unfolding ins Cons using file_at_child [of "obj_insert name (dir_node ?ch) tree" name ?ch q'] by (simp add: map_of_obj_insert)
          then show ?thesis using Cons 3 ih below [of q'] by simp
        qed
      qed simp
    qed
  qed
qed simp

text \<open>Paths none of which runs through another.\<close>

definition apart :: "path list \<Rightarrow> bool" where
  "apart ps \<longleftrightarrow> list_all (\<lambda>p. p \<noteq> [] \<and> list_all (\<lambda>q. \<not> strict_prefix p q) ps) ps"

lemma unpack_files:
  assumes "archive t" and "\<And>p. file_at t p \<noteq> None \<Longrightarrow> p \<in> set ps" and "apart (ps @ map fst fs)"
  shows "archive (fold (\<lambda>(p, n, b) t. insert_into_tree t p n b) fs t)
    \<and> file_at (fold (\<lambda>(p, n, b) t. insert_into_tree t p n b) fs t) = file_at t ++ map_of (rev fs)"
  using assms
proof (induction fs arbitrary: t ps)
  case (Cons f fs)
  obtain p n b where f: "f = (p, n, b)" by (cases f)
  have p: "p \<noteq> []" "\<And>q. q \<in> set ps \<Longrightarrow> \<not> strict_prefix p q \<and> \<not> strict_prefix q p"
    using Cons.prems(3) f by (auto simp: apart_def list_all_iff)
  have ins: "file_at (insert_into_tree t p n b) = (file_at t)(p \<mapsto> (n, b))"
    using file_at_insert [OF Cons.prems(1) p(1)] p(2) Cons.prems(2) by (metis option.exhaust)
  have "q \<in> set (ps @ [p])" if "file_at (insert_into_tree t p n b) q \<noteq> None" for q
    using that Cons.prems(2) [of q] by (auto simp: ins split: if_splits)
  with Cons.IH [of "insert_into_tree t p n b" "ps @ [p]"] archive_insert [OF Cons.prems(1), of p n b] Cons.prems(3) f ins
  show ?case by (simp add: map_add_def fun_eq_iff split: option.split)
qed simp

section \<open>The round trip\<close>

definition base64_laws :: "(string \<Rightarrow> string) \<Rightarrow> (string \<Rightarrow> string option) \<Rightarrow> bool" where
  "base64_laws encode decode \<longleftrightarrow> (\<forall>bytes. decode (encode bytes) = Some bytes)"

definition project_paths :: "path list" where
  "project_paths =
     [[''CMakeLists.txt''], [''sdkconfig.defaults''], [''partitions.csv''], [''LICENSE''], [''main'', ''CMakeLists.txt''],
      [''main'', ''idf_component.yml''], [''main'', ''main.cpp''], [''components'', ''app'', ''CMakeLists.txt''],
      [''components'', ''app'', ''include'', ''app_composition.h''], [''components'', ''app'', ''src'', ''app_composition.cpp'']]"

lemma memory_project:
  assumes "generate_in_memory ops tera config s = (Inr files, s')"
  shows "distinct (map fst files)" and "set (map fst files) = set project_paths"
proof -
  let ?name = "ve_name (vc_esphome config)"
  obtain main composition where r: "tera MAIN_TEMPLATE ?name = Inr main" "tera COMPOSITION_TEMPLATE ?name = Inr composition"
    using assms by (auto simp: generate_in_memory_def generate_def ensure_dir_def split: sum.splits)
  let ?ws = "writes (project_steps config main composition [])"
  have files: "files = bt_of_list ?ws"
    using assms r run_in_memory [of "s\<lparr>memory_output := Some []\<rparr>" "[]" ops "project_steps config main composition []"]
    by (simp add: generate_in_memory_def generate_def ensure_dir_def bt_of_list_def)
  have "bt_sorted (fold (\<lambda>(k, v). bt_insert k v) kvs m)" if "bt_sorted m" for kvs and m :: "(path \<times> string) list"
    using that by (induction kvs arbitrary: m) (auto simp: bt_sorted_insert)
  then have "bt_sorted files" unfolding files bt_of_list_def by simp
  then show "distinct (map fst files)" by (simp add: strict_sorted_iff)
  have "fst ` set files = fst ` set ?ws"
    using map_of_bt_of_list [of ?ws] files by (metis dom_map_of_conv_image_fst set_rev)
  then show "set (map fst files) = set project_paths" by (simp add: project_steps_def project_paths_def)
qed

lemma paths_apart: "apart project_paths"
  by (simp add: apart_def project_paths_def strict_prefix_def)

lemma paths_split: "list_all (\<lambda>p. split_on (CHR ''/'') (show_path p) = p) project_paths"
  by (simp add: project_paths_def show_path_def)

lemma decode_file_entry:
  "base64_laws encode decode \<Longrightarrow>
     decode_entry encode decode (file_entry encode f) = Some (show_path (fst f), of_nat (length (snd f)), encode (snd f))"
  by (simp add: base64_laws_def decode_entry_def file_entry_def json_obj_def get_str_def json_get_def)

text \<open>C22. The archive the wizard exports for a valid configuration unpacks to a tree with exactly the
  generated files: each of the ten files is found at its path with the size and the base64 text of its
  content, and no other file is in the tree.\<close>

theorem unpacked_archive_is_project:
  assumes "base64_laws encode decode" and "validate pipeline ex config Map.empty = Valid validated"
    and "generate_in_memory ops tera validated s = (Inr files, s')"
  shows "\<exists>tree. unpack_codegen_archive encode decode
        (Inr (fst (codegen_export ops tera show_io encode errors_json pipeline ex (Inr config) s))) =
      json_obj [(''device_name'', JStr (ve_name (vc_esphome validated))),
              (''chip_target'', JStr (show_chip (ve_chip_target (vc_esphome validated)))),
              (''file_count'', json_size 10), (''tree'', JObj tree)]
    \<and> file_at tree = map_of (map (\<lambda>f. (fst f, of_nat (length (snd f)), encode (snd f))) files)"
proof -
  let ?fs = "map (\<lambda>f. (fst f, of_nat (length (snd f)) :: u64, encode (snd f))) files"
  have entries: "List.map_filter (decode_entry encode decode) (map (file_entry encode) files) =
      map (\<lambda>(p, r). (show_path p, r)) ?fs"
    by (induction files) (simp_all add: map_filter_simps decode_file_entry [OF assms(1)])
  have "split_on (CHR ''/'') (show_path p) = p" if "p \<in> fst ` set files" for p
    using that paths_split memory_project(2) [OF assms(3)] by (auto simp: list_all_iff)
  then have "unpack_tree (map (\<lambda>(p, r). (show_path p, r)) ?fs) = fold (\<lambda>(p, n, b) t. insert_into_tree t p n b) ?fs []"
    unfolding unpack_tree_def fold_map by (intro fold_cong) auto
  moreover have "apart (map fst ?fs)"
    using paths_apart memory_project(2) [OF assms(3)] by (auto simp: apart_def list_all_iff)
  ultimately have tree: "file_at (unpack_tree (map (\<lambda>(p, r). (show_path p, r)) ?fs)) = map_of (rev ?fs)"
    using unpack_files [of "[]" "[]" ?fs] by (simp add: file_at_empty)
  have "distinct (map fst ?fs)" using memory_project(1) [OF assms(3)] by (simp add: comp_def)
  then have "map_of (rev ?fs) = map_of ?fs" by (subst map_of_inject_set) (simp_all add: rev_map [symmetric] comp_def)
  moreover have "length files = 10"
    using memory_project [OF assms(3)] distinct_card [of "map fst files"] by (simp add: project_paths_def)
  ultimately show ?thesis
    using entries tree assms(2, 3)
    by (intro exI [of _ "unpack_tree (map (\<lambda>(p, r). (show_path p, r)) ?fs)"])
      (simp add: codegen_export_def unpack_codegen_archive_def json_obj_def json_get_def get_str_def str_or_unknown_def json_size_def)
qed

theorem unpacked_archive_is_project_witness:
  "\<exists>v files tree. validate sample_pipeline sample_externals sample_config Map.empty = Valid v
    \<and> unpack_codegen_archive id Some (Inr (fst (codegen_export map_disk (\<lambda>t name. Inr name) (\<lambda>_. []) id (\<lambda>_. JNull)
          sample_pipeline sample_externals (Inr sample_config) \<lparr>memory_output = None, disk = Map.empty\<rparr>))) =
        json_obj [(''device_name'', JStr (ve_name (vc_esphome v))), (''chip_target'', JStr (show_chip (ve_chip_target (vc_esphome v)))),
                (''file_count'', json_size 10), (''tree'', JObj tree)]
    \<and> file_at tree = map_of (map (\<lambda>f. (fst f, of_nat (length (snd f)), snd f)) files)"
proof -
  obtain v where v: "validate sample_pipeline sample_externals sample_config Map.empty = Valid v"
    using sample_run by blast
  let ?s = "\<lparr>memory_output = None, disk = Map.empty\<rparr> :: (path \<rightharpoonup> string) project_output"
  obtain files s' where g: "generate_in_memory map_disk (\<lambda>t name. Inr name) v ?s = (Inr files, s')"
    using run_in_memory [of "?s\<lparr>memory_output := Some []\<rparr>" "[]" map_disk] by (simp add: generate_in_memory_def generate_def ensure_dir_def)
  have laws: "base64_laws id Some" by (simp add: base64_laws_def)
  from unpacked_archive_is_project [OF laws v g, of "\<lambda>_. []" "\<lambda>_. JNull"] v show ?thesis by (auto simp: id_def)
qed

end
