(* ===== verification/Tools.thy ===== *)
theory Tools
  imports Workflow LinkManager
begin

text \<open>
  The tools of the MCP server (\<open>rshome-mcp/src/lib.rs\<close>) over the entity world, the services, the
  workflow engine and the device link. An answer is the record of the fields its JSON object has; an
  error keeps its category and what its message is made of.

  Random ids, the clock and serde's readers are parameters. The actors are taken to be alive; a device
  that has stopped answers with an error. Texts are trimmed of ASCII white space.

  The properties follow a state written by a tool to the tool that reads it, and the size that the
  check of an integration reports.
\<close>

datatype tool_error =
    ActorError
  | BadInput string
  | BadService service_error
  | BadWorkflow wf_error
  | UnknownObject string
  | UnavailableTool string

section \<open>Devices and entities\<close>

fun session_label :: "session_status \<Rightarrow> string" where
  "session_label StActive = ''connected''"
| "session_label StHandshaking = ''handshaking''"
| "session_label _ = ''disconnected''"

record device_entry =
  de_descriptor :: device_descriptor
  de_origin :: string
  de_session_status :: string

definition session_info :: "connected_device list option \<Rightarrow> device_id \<rightharpoonup> string \<times> string" where
  "session_info connected =
     (case connected of
        None \<Rightarrow> Map.empty
      | Some cs \<Rightarrow> map_of (rev (map (\<lambda>c. (cd_device_id c, ''imported'', session_label (cd_status c))) cs)))"

definition devices_list :: "link_manager option \<Rightarrow> 'w world \<Rightarrow> device_entry list" where
  "devices_list link w =
     (let info = session_info (map_option list_connected link)
      in map (\<lambda>d. let (origin, status) = (case info (dv_device_id d) of Some p \<Rightarrow> p | None \<Rightarrow> (''local'', ''local''))
                  in \<lparr>de_descriptor = d, de_origin = origin, de_session_status = status\<rparr>) (list_devices w))"

definition devices_get :: "device_id \<Rightarrow> 'w world \<Rightarrow> tool_error + device_descriptor \<times> entity_id list" where
  "devices_get did w =
     (case get_device did w of
        None \<Rightarrow> Inl (UnknownObject (''device not found: '' @ did))
      | Some dr \<Rightarrow>
          (case map_of (w_devices w) dr of
             None \<Rightarrow> Inl ActorError
           | Some da \<Rightarrow> Inr (da_descriptor da, map fst (da_entity_refs da))))"

record entities_list_input =
  li_domain :: "string option"
  li_device_id :: "device_id option"
  li_limit :: "nat option"

record entity_entry =
  en_entity_id :: entity_id
  en_domain :: string
  en_feature_set :: "string list"
  en_state :: "entity_state option"

definition entity_entry_of :: "'w world \<Rightarrow> entity_id \<Rightarrow> entity_entry" where
  "entity_entry_of w eid =
     \<lparr>en_entity_id = eid, en_domain = id_domain eid,
      en_feature_set = (case get_descriptor eid (w_registry w) of Some d \<Rightarrow> ed_feature_set d | None \<Rightarrow> []),
      en_state = store_get eid (w_store w)\<rparr>"

definition entities_list :: "entities_list_input \<Rightarrow> 'w world \<Rightarrow> entity_entry list" where
  "entities_list input w =
     (let eids = (case li_domain input of
                   Some d \<Rightarrow> list_by_domain d (w_registry w)
                 | None \<Rightarrow>
                     (case li_device_id input of
                        Some did \<Rightarrow> entities_for_device did w
                      | None \<Rightarrow> list_all_ids (w_registry w)));
          limit = (case li_limit input of Some n \<Rightarrow> n | None \<Rightarrow> 500)
      in map (entity_entry_of w) (take limit eids))"

definition entities_get_state :: "entity_id \<Rightarrow> 'w world \<Rightarrow> tool_error + state_snapshot" where
  "entities_get_state eid w =
     (case store_snapshot eid (w_store w) of
        Some s \<Rightarrow> Inr s
      | None \<Rightarrow> Inl (UnknownObject (''entity not found: '' @ eid)))"

text \<open>Without a limit the list ends after 500 entities.\<close>

lemma entities_list_length: "li_limit input = None \<Longrightarrow> length (entities_list input w) \<le> 500"
  by (simp add: entities_list_def Let_def)

text \<open>\<open>parsed\<close> is serde's reading of the text of the state.\<close>

definition entities_set_state ::
    "entity_id \<Rightarrow> string + entity_state \<Rightarrow> 'w world \<Rightarrow> (tool_error + entity_id \<times> entity_state) \<times> 'w world" where
  "entities_set_state eid parsed w =
     (case parsed of
        Inl e \<Rightarrow> (Inl (BadInput (''invalid state JSON: '' @ e)), w)
      | Inr new_state \<Rightarrow>
          (case registered eid (w_registry w) of
             None \<Rightarrow> (Inl (UnknownObject (''entity not found: '' @ eid)), w)
           | Some r \<Rightarrow>
               (case send_entity r (SetState new_state) w of
                  (True, w') \<Rightarrow> (Inr (eid, new_state), w')
                | (False, w') \<Rightarrow> (Inl ActorError, w'))))"

section \<open>Services\<close>

record services_call_input =
  ci_domain :: string
  ci_service :: string
  ci_target_entity_ids :: "entity_id list option"
  ci_target_device_id :: "device_id option"
  ci_data :: "json option"

definition call_target_of :: "services_call_input \<Rightarrow> service_target" where
  "call_target_of input =
     (case ci_target_entity_ids input of
        Some eids \<Rightarrow> EntityIds eids
      | None \<Rightarrow>
          (case ci_target_device_id input of
             Some dev \<Rightarrow> TargetDevice dev
           | None \<Rightarrow> TargetDomain (ci_domain input)))"

definition services_call :: "services \<Rightarrow> bool \<Rightarrow> services_call_input \<Rightarrow> 'w world \<Rightarrow> (tool_error + nat) \<times> 'w world" where
  "services_call services has_manager input w =
     (case service_call services has_manager (ci_domain input) (ci_service input) (call_target_of input)
             (case ci_data input of Some d \<Rightarrow> d | None \<Rightarrow> JNull) w of
        (Inr count, w') \<Rightarrow> (Inr count, w')
      | (Inl e, w') \<Rightarrow> (Inl (BadService e), w'))"

section \<open>Workflows\<close>

definition wf_trigger_from_str :: "string \<Rightarrow> trigger_def" where
  "wf_trigger_from_str s =
     (if s = ''entity_state_change'' then EntityStateChange [] None None
      else if s = ''time_pattern'' then TimePattern []
      else if s = ''webhook'' then Webhook []
      else ManualTrigger)"

record workflow_def =
  wk_workflow_id :: string
  wk_name :: string
  wk_description :: "string option"
  wk_trigger :: string
  wk_steps :: "json list"

record workflow_run =
  wr_run_id :: string
  wr_workflow_id :: string
  wr_status :: run_status
  wr_started_at :: string
  wr_completed_at :: "string option"
  wr_error :: "string option"

text \<open>The workflow engine, when one is attached, and the tables the server keeps without it.\<close>

record workflow_tools =
  wt_engine :: "engine option"
  wt_workflows :: "(string \<times> workflow_def) list"
  wt_runs :: "(string \<times> workflow_run) list"

record workflows_create_input =
  cr_name :: string
  cr_description :: "string option"
  cr_trigger :: "string option"
  cr_steps :: "json list option"

text \<open>The id, the name, the trigger and, without an engine, the number of steps. \<open>read_steps\<close> is serde's
  reading of the array of steps.\<close>

definition workflows_create ::
    "(json list \<Rightarrow> step_def list option) \<Rightarrow> string \<Rightarrow> workflows_create_input \<Rightarrow> workflow_tools
     \<Rightarrow> (string \<times> string \<times> string \<times> nat option) \<times> workflow_tools" where
  "workflows_create read_steps wid input t =
     (let trigger_str = (case cr_trigger input of Some s \<Rightarrow> s | None \<Rightarrow> ''manual'')
      in case wt_engine t of
           Some en \<Rightarrow>
             (let steps = (case Option.bind (cr_steps input) read_steps of Some ss \<Rightarrow> ss | None \<Rightarrow> []);
                  def = \<lparr>wd_workflow_id = [], wd_name = cr_name input, wd_description = cr_description input,
                         wd_trigger = wf_trigger_from_str trigger_str, wd_mode = Pipeline steps\<rparr>
              in ((wid, cr_name input, trigger_str, None), t\<lparr>wt_engine := Some (create_workflow wid def en)\<rparr>))
         | None \<Rightarrow>
             (let steps = (case cr_steps input of Some ss \<Rightarrow> ss | None \<Rightarrow> []);
                  def = \<lparr>wk_workflow_id = wid, wk_name = cr_name input, wk_description = cr_description input,
                         wk_trigger = trigger_str, wk_steps = steps\<rparr>
              in ((wid, cr_name input, trigger_str, Some (length steps)),
                  t\<lparr>wt_workflows := reg_insert wid def (wt_workflows t)\<rparr>)))"

datatype workflow_list = EngineList "workflow_info list" | StubList "(string \<times> string \<times> string option \<times> string \<times> nat) list"

definition workflows_list :: "workflow_tools \<Rightarrow> workflow_list" where
  "workflows_list t =
     (case wt_engine t of
        Some en \<Rightarrow> EngineList (list_workflows en)
      | None \<Rightarrow>
          StubList (map (\<lambda>(_, d). (wk_workflow_id d, wk_name d, wk_description d, wk_trigger d, length (wk_steps d)))
                      (wt_workflows t)))"

text \<open>The id of the run, the workflow and the status that is reported.\<close>

definition workflows_run ::
    "'w runner \<Rightarrow> string \<Rightarrow> nat \<Rightarrow> string \<Rightarrow> workflow_tools \<Rightarrow> 'w world
     \<Rightarrow> (tool_error + string \<times> string \<times> run_status) \<times> workflow_tools \<times> 'w world" where
  "workflows_run ru rid now wid t w =
     (case wt_engine t of
        Some en \<Rightarrow>
          (case run_workflow ru rid wid en w of
             (Inr rid', en', w') \<Rightarrow> (Inr (rid', wid, Running), t\<lparr>wt_engine := Some en'\<rparr>, w')
           | (Inl e, en', w') \<Rightarrow> (Inl (BadWorkflow e), t\<lparr>wt_engine := Some en'\<rparr>, w'))
      | None \<Rightarrow>
          (if map_of (wt_workflows t) wid = None
           then (Inl (UnknownObject (''workflow not found: '' @ wid)), t, w)
           else (Inr (rid, wid, Completed),
                 t\<lparr>wt_runs := reg_insert rid
                     \<lparr>wr_run_id = rid, wr_workflow_id = wid, wr_status = Completed, wr_started_at = show_nat now,
                      wr_completed_at = Some (show_nat now), wr_error = None\<rparr> (wt_runs t)\<rparr>, w)))"

datatype run_answer = EngineRun run_info | StubRun workflow_run

definition workflows_status :: "string \<Rightarrow> workflow_tools \<Rightarrow> tool_error + run_answer" where
  "workflows_status rid t =
     (case wt_engine t of
        Some en \<Rightarrow> (case get_run_status rid en of Inr info \<Rightarrow> Inr (EngineRun info) | Inl e \<Rightarrow> Inl (BadWorkflow e))
      | None \<Rightarrow>
          (case map_of (wt_runs t) rid of
             Some r \<Rightarrow> Inr (StubRun r)
           | None \<Rightarrow> Inl (UnknownObject (''run not found: '' @ rid))))"

section \<open>Device links and integrations\<close>

definition device_links_list_discovered :: "link_manager option \<Rightarrow> discovered_device list" where
  "device_links_list_discovered link = (case link of Some m \<Rightarrow> map snd (lm_discovered m) | None \<Rightarrow> [])"

definition device_links_status :: "device_id \<Rightarrow> link_manager option \<Rightarrow> tool_error + link_status" where
  "device_links_status did link =
     (case link of
        None \<Rightarrow> Inl (UnavailableTool ''DeviceLinkManagerActor not attached'')
      | Some m \<Rightarrow>
          (case get_status did m of
             Some s \<Rightarrow> Inr s
           | None \<Rightarrow> Inl (UnknownObject (''device not found: '' @ did))))"

definition base64_char :: "char \<Rightarrow> bool" where
  "base64_char c \<longleftrightarrow> is_alnum c \<or> c = CHR ''+'' \<or> c = CHR ''/'' \<or> c = CHR ''=''"

text \<open>The subtraction wraps, as in a release build; a debug build panics there.\<close>

definition base64_decode_len :: "string \<Rightarrow> u64 option" where
  "base64_decode_len text =
     (let s = trim text
      in if s = [] then None
         else if length s mod 4 \<noteq> 0 then None
         else if \<not> list_all base64_char s then None
         else Some (of_nat (length s div 4 * 3) - of_nat (length (takeWhile (\<lambda>c. c = CHR ''='') (rev s)))))"

definition integrations_validate :: "string \<Rightarrow> tool_error + u64" where
  "integrations_validate text =
     (case base64_decode_len text of Some n \<Rightarrow> Inr n | None \<Rightarrow> Inl (BadInput ''invalid base64 encoding''))"

section \<open>Resources\<close>

text \<open>\<open>resources.rs\<close>: what the tools answer, under the addresses of resources.\<close>

datatype resource =
    EntitiesConfig "(entity_id \<times> string) list"
  | ServicesConfig "service_descriptor list"
  | RuntimeInfo nat nat
  | StateResource state_snapshot
  | DeviceInfo device_descriptor "entity_id list"

datatype resource_error = ResourceNotFound string | ResourceActorError

definition state_uri :: "entity_id \<Rightarrow> string" where
  "state_uri eid = ''state://entities/'' @ eid"

definition device_uri :: "device_id \<Rightarrow> string" where
  "device_uri did = ''device://info/'' @ did"

definition read_resource :: "services \<Rightarrow> string \<Rightarrow> 'w world \<Rightarrow> resource_error + resource" where
  "read_resource services uri w =
     (if uri = ''ha://config/entities''
      then Inr (EntitiesConfig (map (\<lambda>i. (i, id_domain i)) (list_all_ids (w_registry w))))
      else if uri = ''ha://config/services'' then Inr (ServicesConfig (list_services services))
      else if uri = ''ha://runtime/info'' then Inr (RuntimeInfo (entity_count (w_registry w)) (store_count (w_store w)))
      else if starts_with (state_uri []) uri
      then (let eid = drop (length (state_uri [])) uri
            in case store_snapshot eid (w_store w) of
                 Some s \<Rightarrow> Inr (StateResource s)
               | None \<Rightarrow> Inl (ResourceNotFound (''entity not found: '' @ eid)))
      else if starts_with (device_uri []) uri
      then (let did = drop (length (device_uri [])) uri
            in case get_device did w of
                 None \<Rightarrow> Inl (ResourceNotFound (''device not found: '' @ did))
               | Some dr \<Rightarrow>
                   (case map_of (w_devices w) dr of
                      None \<Rightarrow> Inl ResourceActorError
                    | Some da \<Rightarrow> Inr (DeviceInfo (da_descriptor da) (map fst (da_entity_refs da)))))
      else Inl (ResourceNotFound (''unknown resource: '' @ uri)))"

fun resource_error_of :: "tool_error \<Rightarrow> resource_error" where
  "resource_error_of (UnknownObject e) = ResourceNotFound e"
| "resource_error_of _ = ResourceActorError"

text \<open>The resource of a state and the resource of a device answer what the tools for them answer, errors
  included, for every text that is given as an id.\<close>

theorem resources_agree_with_tools:
  "read_resource services (state_uri eid) w = map_sum resource_error_of StateResource (entities_get_state eid w)
   \<and> read_resource services (device_uri did) w =
       map_sum resource_error_of (\<lambda>(d, eids). DeviceInfo d eids) (devices_get did w)"
  by (simp add: read_resource_def state_uri_def device_uri_def entities_get_state_def devices_get_def split: option.split)

section \<open>A state through the tools\<close>

definition step_deliver :: "'w watch_ops \<Rightarrow> nat \<Rightarrow> actor_ref \<Rightarrow> 'w world \<Rightarrow> 'w world" where
  "step_deliver ops now r w = fst (deliver ops now r w)"

lemma handle_keeps:
  assumes "entity_handle ops now msg ea st = ((ea', st', out), stop)"
  shows "ea_mailbox ea' = ea_mailbox ea" and "actor_id_of ea' = actor_id_of ea" and "stop \<longleftrightarrow> msg = StopEntity"
  using assms
  by (auto simp: entity_handle_def set_state_internal_def apply_command_def actor_id_of_def
      split: entity_msg.splits option.splits sum.splits)

lemma step_deliver_other:
  assumes "map_of (w_entities w) r = Some ea" and "ea_mailbox ea = msg # rest" and "msg \<noteq> StopEntity"
  obtains ea' where "map_of (w_entities (step_deliver ops now r w)) r = Some ea'" "ea_mailbox ea' = rest"
    "actor_id_of ea' = actor_id_of ea"
proof -
  obtain ea' st out stop where h: "entity_handle ops now msg (ea\<lparr>ea_mailbox := rest\<rparr>) (w_store w) = ((ea', st, out), stop)"
    by (metis surj_pair)
  note k = handle_keeps [OF h]
  have "map_of (w_entities (step_deliver ops now r w)) r = Some ea'"
    using assms h k(3) by (simp add: step_deliver_def deliver_def)
  moreover have "ea_mailbox ea' = rest" "actor_id_of ea' = actor_id_of ea" using k(1, 2) by (simp_all add: actor_id_of_def)
  ultimately show ?thesis by (rule that)
qed

lemma drain_mailbox:
  assumes "map_of (w_entities w) r = Some ea" and "ea_mailbox ea = msgs @ [SetState s]" and "StopEntity \<notin> set msgs"
  shows "entities_get_state (actor_id_of ea) ((step_deliver ops now r ^^ Suc (length msgs)) w) =
      Inr \<lparr>sn_entity_id = actor_id_of ea, sn_state = s, sn_last_updated = now\<rparr>"
  using assms
proof (induction msgs arbitrary: w ea)
  case Nil
  then show ?case
    by (simp add: step_deliver_def deliver_def entity_handle_def set_state_internal_def entities_get_state_def
        store_snapshot_def store_update_def actor_id_of_def split: option.split)
next
  case (Cons m msgs)
  obtain ea' where ea': "map_of (w_entities (step_deliver ops now r w)) r = Some ea'" "ea_mailbox ea' = msgs @ [SetState s]"
    "actor_id_of ea' = actor_id_of ea"
    using step_deliver_other [OF Cons.prems(1), of m "msgs @ [SetState s]" ops now] Cons.prems(2, 3) by auto
  have "StopEntity \<notin> set msgs" using Cons.prems(3) by simp
  from Cons.IH [OF ea'(1, 2) this] show ?case using ea'(3) by (simp add: funpow_Suc_right del: funpow.simps)
qed

text \<open>A state that is written by a tool is read back by a tool: when the write is accepted and the
  entity has handled the messages that were queued before it, none of which stops it, and the write
  itself, the read answers the written state and the time it was stored.\<close>

theorem written_state_is_read:
  assumes "registered eid (w_registry w) = Some r" and "map_of (w_entities w) r = Some ea" and "actor_id_of ea = eid"
    and "StopEntity \<notin> set (ea_mailbox ea)" and "entities_set_state eid (Inr s) w = (answer, w1)"
  shows "answer = Inr (eid, s)
    \<and> entities_get_state eid ((step_deliver ops now r ^^ Suc (length (ea_mailbox ea))) w1) =
        Inr \<lparr>sn_entity_id = eid, sn_state = s, sn_last_updated = now\<rparr>"
proof -
  let ?ea = "ea\<lparr>ea_mailbox := ea_mailbox ea @ [SetState s]\<rparr>"
  have "answer = Inr (eid, s)" and w1: "w1 = w\<lparr>w_entities := reg_insert r ?ea (w_entities w)\<rparr>"
    using assms(1, 2, 5) by (simp_all add: entities_set_state_def send_entity_def)
  moreover have "map_of (w_entities w1) r = Some ?ea" "actor_id_of ?ea = eid"
    using assms(3) by (simp_all add: w1 actor_id_of_def)
  ultimately show ?thesis using drain_mailbox [of w1 r ?ea "ea_mailbox ea" s ops now] assms(4) by simp
qed

theorem written_state_is_read_witness:
  "(let (answer, w1) = entities_set_state ''switch.lamp'' (Inr (Switch True)) lamp_world
    in answer = Inr (''switch.lamp'', Switch True)
       \<and> entities_get_state ''switch.lamp'' (step_deliver counted_watch 9 1 w1) =
           Inr \<lparr>sn_entity_id = ''switch.lamp'', sn_state = Switch True, sn_last_updated = 9\<rparr>)"
proof -
  obtain answer w1 where call: "entities_set_state ''switch.lamp'' (Inr (Switch True)) lamp_world = (answer, w1)"
    by (metis prod.exhaust)
  have reg: "registered ''switch.lamp'' (w_registry lamp_world) = Some 1" by (simp add: lamp_world_def run_simps)
  show ?thesis
    using written_state_is_read [OF reg lamp_actor _ _ call, of counted_watch 9] call by (simp add: actor_id_of_def lamp_def)
qed

section \<open>Sizes of integrations\<close>

text \<open>The padding at the end of a text.\<close>

definition padding :: "string \<Rightarrow> nat" where
  "padding s = length (takeWhile (\<lambda>c. c = CHR ''='') (rev (trim s)))"

text \<open>The size reported for an accepted integration is three bytes for four characters less the
  padding whenever there is not more padding than that, as in every text base64 produces; but four
  equal signs are accepted too, and then the subtraction underflows to the largest word.\<close>

theorem reported_size:
  "(\<exists>n. base64_decode_len ''===='' = Some n \<and> unat n = 2 ^ 64 - 1)
   \<and> (length s < 2 ^ 64 \<and> padding s \<le> length (trim s) div 4 * 3 \<longrightarrow>
      (case base64_decode_len s of None \<Rightarrow> True | Some n \<Rightarrow> unat n + padding s = length (trim s) div 4 * 3))"
proof -
  have "base64_decode_len ''===='' = Some (- 1)"
    by (simp add: base64_decode_len_def trim_def is_space_def base64_char_def)
  then have first: "\<exists>n. base64_decode_len ''===='' = Some n \<and> unat n = 2 ^ 64 - 1" by (simp add: unsigned_minus_1_eq_mask mask_eq_exp_minus_1)
  have bound: "length (trim s) \<le> length s"
    unfolding trim_def using length_dropWhile_le le_trans length_rev by metis
  have "unat (of_nat a - of_nat b :: u64) = a - b" if "b \<le> a" "a < 2 ^ 64" for a b :: nat
  proof -
    have "of_nat a - of_nat b = (of_nat (a - b) :: u64)" using that(1) by (simp add: of_nat_diff)
    moreover have "a - b < 2 ^ 64" using that(2) by simp
    ultimately show ?thesis by (simp add: unsigned_of_nat take_bit_nat_eq_self)
  qed
  note sub = this
  have "unat n + padding s = length (trim s) div 4 * 3"
    if "base64_decode_len s = Some n" "length s < 2 ^ 64" "padding s \<le> length (trim s) div 4 * 3" for n
  proof -
    have "n = of_nat (length (trim s) div 4 * 3) - of_nat (padding s)"
      using that(1) unfolding base64_decode_len_def padding_def Let_def by (metis option.distinct(1) option.inject)
    moreover have "length (trim s) div 4 * 3 < 2 ^ 64" using bound that(2) by linarith
    ultimately have "unat n = length (trim s) div 4 * 3 - padding s" using sub [OF that(3)] by simp
    then show ?thesis using that(3) by simp
  qed
  then show ?thesis using first by (simp split: option.split)
qed

end
