(* ===== verification/History.thy ===== *)
theory History
  imports EntityTypes
begin

text \<open>
  The recorder of past states (\<open>rshome-state/src/history.rs\<close>): one row of a database table for each
  recorded state, under the microsecond of its time.

  The database (redb) is a parameter: its operations with the laws of an ordered table, \<open>table_laws\<close>. So
  is serde's writing and reading of a row, \<open>row_laws\<close>. A row that cannot be read from the
  database, which the code skips, counts as a range that cannot be read. A time is its distance from
  the epoch in microseconds, which is negative before it.

  The property says which of the recorded states a query returns.
\<close>

section \<open>Definitions\<close>

record 't table_ops =
  tb_insert :: "nat \<Rightarrow> string \<Rightarrow> 't \<Rightarrow> 't option"
  tb_range :: "nat \<Rightarrow> 't \<Rightarrow> (nat \<times> string) list option"

record row_codec =
  rw_write :: "entity_id \<times> entity_state \<Rightarrow> string"
  rw_read :: "string \<Rightarrow> (entity_id \<times> entity_state) option"

definition micros :: "int \<Rightarrow> nat" where
  "micros at = nat at"

text \<open>A failed write is dropped.\<close>

definition record_state :: "'t table_ops \<Rightarrow> row_codec \<Rightarrow> entity_id \<Rightarrow> entity_state \<Rightarrow> int \<Rightarrow> 't \<Rightarrow> 't" where
  "record_state ops rows eid state at t =
     (case tb_insert ops (micros at) (rw_write rows (eid, state)) t of Some t' \<Rightarrow> t' | None \<Rightarrow> t)"

definition query_history :: "'t table_ops \<Rightarrow> row_codec \<Rightarrow> entity_id \<Rightarrow> int \<Rightarrow> 't \<Rightarrow> (nat \<times> entity_state) list" where
  "query_history ops rows eid since t =
     (case tb_range ops (micros since) t of
        None \<Rightarrow> []
      | Some items \<Rightarrow>
          List.map_filter
            (\<lambda>(ts, bytes). case rw_read rows bytes of
               Some (entry_id, state) \<Rightarrow> if entry_id = eid then Some (ts mod 2 ^ 64, state) else None
             | None \<Rightarrow> None) items)"

section \<open>What is found again\<close>

text \<open>A table as a map: a write that succeeds sets its row, and the rows from a key on are listed by key.\<close>

definition table_laws :: "'t table_ops \<Rightarrow> ('t \<Rightarrow> nat \<rightharpoonup> string) \<Rightarrow> bool" where
  "table_laws ops look \<longleftrightarrow>
     (\<forall>k v t t'. tb_insert ops k v t = Some t' \<longrightarrow> look t' = (look t)(k \<mapsto> v))
     \<and> (\<forall>k t items. tb_range ops k t = Some items \<longrightarrow>
          sorted_wrt (<) (map fst items) \<and> set items = {(l, v). look t l = Some v \<and> k \<le> l})"

type_synonym state_record = "entity_id \<times> entity_state \<times> int"

text \<open>The rows of these records are read as they were written.\<close>

definition row_laws :: "row_codec \<Rightarrow> state_record list \<Rightarrow> bool" where
  "row_laws rows rs \<longleftrightarrow>
     list_all (\<lambda>(eid, state, at). rw_read rows (rw_write rows (eid, state)) = Some (eid, state) \<and> micros at < 2 ^ 64) rs"

text \<open>Records written in turn; \<open>None\<close> when a write failed.\<close>

fun record_all :: "'t table_ops \<Rightarrow> row_codec \<Rightarrow> state_record list \<Rightarrow> 't \<Rightarrow> 't option" where
  "record_all ops rows [] t = Some t"
| "record_all ops rows ((eid, state, at) # rs) t =
     (if tb_insert ops (micros at) (rw_write rows (eid, state)) t = None then None
      else record_all ops rows rs (record_state ops rows eid state at t))"

definition last_at :: "state_record list \<Rightarrow> nat \<rightharpoonup> entity_id \<times> entity_state" where
  "last_at rs = map_of (rev (map (\<lambda>(eid, state, at). (micros at, eid, state)) rs))"

lemma record_all_look:
  assumes "table_laws ops look"
  shows "record_all ops rows rs t = Some t' \<Longrightarrow>
    look t' = look t ++ (\<lambda>k. map_option (rw_write rows) (last_at rs k))"
proof (induction rs arbitrary: t)
  case Nil
  then show ?case by (simp add: last_at_def map_add_def fun_eq_iff)
next
  case (Cons r rs)
  obtain eid state at where r: "r = (eid, state, at)" by (cases r)
  obtain u where u: "tb_insert ops (micros at) (rw_write rows (eid, state)) t = Some u" "record_all ops rows rs u = Some t'"
    using Cons.prems by (auto simp: r record_state_def split: if_splits)
  have "look u = (look t)(micros at \<mapsto> rw_write rows (eid, state))"
    using assms u(1) by (simp add: table_laws_def)
  then show ?case
    using Cons.IH [OF u(2)] by (auto simp: r last_at_def map_add_def fun_eq_iff split: option.split)
qed

text \<open>C34. A query returns the states of the entity in the order of their times, and a recorded state is
  among them exactly when no state of any entity was recorded later for the same microsecond: two
  entities that change in one microsecond leave a single row.\<close>

theorem history_keeps_last_of_each_time:
  assumes "table_laws ops look" and "row_laws rows rs" and "look t = Map.empty" and "record_all ops rows rs t = Some t'"
    and "tb_range ops (micros since) t' \<noteq> None"
  shows "sorted_wrt (<) (map fst (query_history ops rows eid since t'))
    \<and> ((ts, state) \<in> set (query_history ops rows eid since t') \<longleftrightarrow> last_at rs ts = Some (eid, state) \<and> micros since \<le> ts)"
proof -
  obtain items where i: "tb_range ops (micros since) t' = Some items" using assms(5) by blast
  have look: "look t' k = map_option (rw_write rows) (last_at rs k)" for k
    using record_all_look [OF assms(1, 4)] assms(3) by (simp add: map_add_def split: option.split)
  have sorted: "sorted_wrt (<) (map fst items)"
    and set: "set items = {(l, v). look t' l = Some v \<and> micros since \<le> l}"
    using assms(1) i by (auto simp: table_laws_def)
  have row: "l < 2 ^ 64 \<and> rw_read rows (rw_write rows q) = Some q" if "last_at rs l = Some q" for l q
    using that assms(2) by (auto simp: last_at_def row_laws_def list_all_iff dest!: map_of_SomeD)
  let ?f = "\<lambda>(ts, bytes). case rw_read rows bytes of
    Some (entry_id, state) \<Rightarrow> if entry_id = eid then Some (ts mod 2 ^ 64, state) else None | None \<Rightarrow> None"
  have f: "?f p = Some (k, s) \<longleftrightarrow> last_at rs k = Some (eid, s) \<and> p = (k, rw_write rows (eid, s))" if "p \<in> set items" for p k s
  proof -
    have "look t' (fst p) = Some (snd p)" using that by (simp add: set split_beta)
    then obtain q where q: "last_at rs (fst p) = Some q" "snd p = rw_write rows q" by (auto simp: look)
    obtain l v e u where p: "p = (l, v)" "q = (e, u)" by (cases p, cases q) blast
    have m: "l mod 2 ^ 64 = l" and v: "rw_read rows v = Some (e, u)" and l: "last_at rs l = Some (e, u)"
      and w: "v = rw_write rows (e, u)"
      using row [OF q(1)] q by (simp_all add: p)
    have "?f p = (if e = eid then Some (l, u) else None)" unfolding p(1) by (simp only: prod.case v option.case m)
    then show ?thesis using l w by (cases "k = l") (auto simp: p(1))
  qed
  have "sorted_wrt (<) (map fst (List.map_filter ?f xs))" if "set xs \<subseteq> set items" "sorted_wrt (<) (map fst xs)" for xs
    using that
  proof (induction xs)
    case (Cons x xs)
    have "fst x < l" if "(l, s) \<in> set (List.map_filter ?f xs)" for l s
      using that Cons.prems f by (fastforce simp: set_map_filter)
    with Cons show ?case using f [of x] by (fastforce simp: map_filter_simps split: option.split)
  qed (simp add: map_filter_simps)
  from this [OF order.refl sorted] have "sorted_wrt (<) (map fst (query_history ops rows eid since t'))"
    by (simp add: query_history_def i)
  moreover have "(ts, state) \<in> set (query_history ops rows eid since t') \<longleftrightarrow>
      (\<exists>p \<in> set items. last_at rs ts = Some (eid, state) \<and> p = (ts, rw_write rows (eid, state)))"
    using f by (auto simp: query_history_def i set_map_filter)
  ultimately show ?thesis by (auto simp: set look)
qed

text \<open>A table as a list of writes, and rows that can tell a switch that is on from one that is off.\<close>

definition row_table :: "(nat \<times> string) list table_ops" where
  "row_table =
     \<lparr>tb_insert = \<lambda>k v t. Some ((k, v) # t),
      tb_range = \<lambda>k t. Some (map (\<lambda>l. (l, the (map_of t l))) (filter (\<lambda>l. k \<le> l) (sort (remdups (map fst t)))))\<rparr>"

definition switch_rows :: row_codec where
  "switch_rows =
     \<lparr>rw_write = \<lambda>(eid, state). (if state = Switch True then CHR ''1'' else CHR ''0'') # eid,
      rw_read = \<lambda>s. case s of [] \<Rightarrow> None | c # eid \<Rightarrow> Some (eid, Switch (c = CHR ''1''))\<rparr>"

lemma row_table_laws: "table_laws row_table map_of"
proof -
  have "sorted_wrt (<) (filter (\<lambda>l. k \<le> l) (sort (remdups (map fst t))))" for k :: nat and t :: "(nat \<times> string) list"
    by (rule sorted_wrt_filter) (simp add: strict_sorted_iff)
  moreover have "set (map (\<lambda>l. (l, the (map_of t l))) (filter (\<lambda>l. k \<le> l) (sort (remdups (map fst t))))) =
      {(l, v). map_of t l = Some v \<and> k \<le> l}" for k :: nat and t :: "(nat \<times> string) list"
  proof -
    have "fst ` set t = dom (map_of t)" by (simp add: dom_map_of_conv_image_fst)
    then show ?thesis by (auto simp del: dom_map_of_conv_image_fst)
  qed
  ultimately show ?thesis by (simp add: table_laws_def row_table_def comp_def)
qed

definition two_switches :: "state_record list" where
  "two_switches = [(''switch.a'', Switch True, 7), (''switch.b'', Switch False, 7), (''switch.a'', Switch False, 9)]"

theorem history_keeps_last_of_each_time_witness:
  "\<exists>t'. record_all row_table switch_rows two_switches [] = Some t'
     \<and> (7, Switch True) \<notin> set (query_history row_table switch_rows ''switch.a'' 0 t')
     \<and> (9, Switch False) \<in> set (query_history row_table switch_rows ''switch.a'' 0 t')"
proof -
  obtain t' where t': "record_all row_table switch_rows two_switches [] = Some t'"
    by (simp add: two_switches_def row_table_def)
  have "row_laws switch_rows two_switches" by (simp add: row_laws_def switch_rows_def two_switches_def micros_def)
  note h = history_keeps_last_of_each_time [OF row_table_laws this _ t', of 0 "''switch.a''"]
  show ?thesis
    using t' h [of 7 "Switch True"] h [of 9 "Switch False"]
    by (simp add: row_table_def last_at_def two_switches_def micros_def)
qed

end
