(* ===== verification/Legacy.thy ===== *)
theory Legacy
  imports Json
begin

text \<open>
  Solutions saved by older versions (\<open>rshome-schema/src/solution_legacy.rs\<close>): a field that was retired is
  reported once and removed before the solution is read. The warning is part of the result; \<open>show\<close>
  is serde's text of a value.
\<close>

record deprecation =
  dp_solution_id :: string
  dp_legacy_value :: string

definition has_legacy_implementation_family :: "json \<Rightarrow> bool" where
  "has_legacy_implementation_family v = (case as_object v of Some m \<Rightarrow> map_of m ''implementation_family'' \<noteq> None | None \<Rightarrow> False)"

definition read_legacy_implementation_family :: "json \<Rightarrow> string option" where
  "read_legacy_implementation_family v =
     Option.bind (as_object v) (\<lambda>m. Option.bind (map_of m ''implementation_family'') as_str)"

definition accept_legacy_solution_json :: "(json \<Rightarrow> string) \<Rightarrow> json \<Rightarrow> json \<times> deprecation option" where
  "accept_legacy_solution_json show v =
     (case v of
        JObj m \<Rightarrow>
          (case map_of m ''implementation_family'' of
             None \<Rightarrow> (v, None)
           | Some legacy \<Rightarrow>
               (let m' = filter (\<lambda>kv. fst kv \<noteq> ''implementation_family'') m
                in (JObj m',
                    Some \<lparr>dp_solution_id = (case get_str ''id'' (JObj m') of Some i \<Rightarrow> i | None \<Rightarrow> ''<unknown>''),
                          dp_legacy_value = (case as_str legacy of Some s \<Rightarrow> s | None \<Rightarrow> show legacy)\<rparr>)))
      | _ \<Rightarrow> (v, None))"

lemma filter_other_key: "l \<noteq> k \<Longrightarrow> map_of (filter (\<lambda>kv. fst kv \<noteq> k) m) l = map_of m l"
  by (induction m) auto

lemma filter_same_key: "map_of (filter (\<lambda>kv. fst kv \<noteq> k) m) k = None"
  by (induction m) auto

text \<open>Reading a saved solution removes exactly the retired field: no other field changes, the result
  has no retired field, and a warning with the old value is raised exactly when the field was there.\<close>

theorem legacy_field_removed:
  "(let (v', warning) = accept_legacy_solution_json show v
    in \<not> has_legacy_implementation_family v'
       \<and> (k \<noteq> ''implementation_family'' \<longrightarrow> json_get k v' = json_get k v)
       \<and> (warning \<noteq> None \<longleftrightarrow> has_legacy_implementation_family v)
       \<and> (\<not> has_legacy_implementation_family v \<longrightarrow> v' = v))"
  by (cases v)
    (auto simp: accept_legacy_solution_json_def has_legacy_implementation_family_def json_get_def filter_other_key
      filter_same_key Let_def split: option.split)

end
