(* ===== verification/AtomicFile.thy ===== *)
theory AtomicFile
  imports Codegen
begin

text \<open>
  Replacing a file (\<open>atomic_write\<close> of \<open>rshome-mcp/src/runtime.rs\<close>): the bytes go to a new file beside
  the target, which is then renamed over it. The calls of the standard library act on a disk with
  what a power loss does to it: the bytes of a file are safe once the file is synced, the name of a
  file once its directory is synced, and a rename replaces a name at once.

  The calls are a list of steps, of which a fault may stop any; the property says what can be found
  under the name of the target afterwards.
\<close>

section \<open>The disk\<close>

record inode =
  in_bytes :: string
  in_synced :: bool

text \<open>Under each name, the entries it had since its directory was synced, the present one last; after
  a power loss it has one of them.\<close>

record disk_state =
  dk_inodes :: "(nat \<times> inode) list"
  dk_next :: nat
  dk_names :: "(path \<times> nat option list) list"

definition entries :: "path \<Rightarrow> disk_state \<Rightarrow> nat option list" where
  "entries p d = (case map_of (dk_names d) p of Some es \<Rightarrow> es | None \<Rightarrow> [None])"

definition entry :: "path \<Rightarrow> disk_state \<Rightarrow> nat option" where
  "entry p d = last (entries p d)"

definition set_entry :: "path \<Rightarrow> nat option \<Rightarrow> disk_state \<Rightarrow> disk_state" where
  "set_entry p e d = d\<lparr>dk_names := reg_insert p (entries p d @ [e]) (dk_names d)\<rparr>"

definition put_inode :: "nat \<Rightarrow> inode \<Rightarrow> disk_state \<Rightarrow> disk_state" where
  "put_inode i n d = d\<lparr>dk_inodes := reg_insert i n (dk_inodes d)\<rparr>"

definition contents :: "path \<Rightarrow> disk_state \<Rightarrow> string option" where
  "contents p d = (case entry p d of None \<Rightarrow> None | Some i \<Rightarrow> map_option in_bytes (map_of (dk_inodes d) i))"

text \<open>What may be read under a name after a power loss. The bytes of a file that is not synced are
  any bytes.\<close>

definition found :: "disk_state \<Rightarrow> string option \<Rightarrow> nat option \<Rightarrow> bool" where
  "found d c e \<longleftrightarrow>
     (case e of
        None \<Rightarrow> c = None
      | Some i \<Rightarrow> (case map_of (dk_inodes d) i of
                     None \<Rightarrow> False
                   | Some n \<Rightarrow> c \<noteq> None \<and> (in_synced n \<longrightarrow> c = Some (in_bytes n))))"

definition survives :: "disk_state \<Rightarrow> path \<Rightarrow> string option \<Rightarrow> bool" where
  "survives d p c \<longleftrightarrow> list_ex (found d c) (entries p d)"

section \<open>Calls\<close>

datatype call =
    CreateDirAll path
  | CreateNew path
  | WriteAll nat string
  | SyncAll nat
  | Rename path path
  | SyncDir path

text \<open>An empty path cannot be opened, though \<open>create_dir_all\<close> accepts it.\<close>

fun do_call :: "call \<Rightarrow> disk_state \<Rightarrow> disk_state option" where
  "do_call (CreateDirAll p) d = Some d"
| "do_call (CreateNew p) d =
     (if entry p d \<noteq> None then None
      else Some (set_entry p (Some (dk_next d))
                  (put_inode (dk_next d) \<lparr>in_bytes = [], in_synced = False\<rparr> d\<lparr>dk_next := Suc (dk_next d)\<rparr>)))"
| "do_call (WriteAll i bytes) d =
     (case map_of (dk_inodes d) i of
        None \<Rightarrow> None
      | Some n \<Rightarrow> Some (put_inode i \<lparr>in_bytes = in_bytes n @ bytes, in_synced = False\<rparr> d))"
| "do_call (SyncAll i) d =
     (case map_of (dk_inodes d) i of None \<Rightarrow> None | Some n \<Rightarrow> Some (put_inode i (n\<lparr>in_synced := True\<rparr>) d))"
| "do_call (Rename a b) d =
     (case entry a d of None \<Rightarrow> None | Some i \<Rightarrow> Some (set_entry a None (set_entry b (Some i) d)))"
| "do_call (SyncDir p) d =
     (if p = [] then None
      else Some (d\<lparr>dk_names := map (\<lambda>(q, es). (q, if parent q = Some p then [last es] else es)) (dk_names d)\<rparr>))"

text \<open>A fault stops before the \<open>n\<close>th call; a write it stops has written the first \<open>k\<close> bytes.\<close>

fun run_calls :: "call list \<Rightarrow> (nat \<times> nat) option \<Rightarrow> disk_state \<Rightarrow> (call + unit) \<times> disk_state" where
  "run_calls [] fault d = (Inr (), d)"
| "run_calls (c # cs) fault d =
     (case fault of
        Some (0, k) \<Rightarrow>
          (Inl c, case c of
                    WriteAll i bytes \<Rightarrow> (case do_call (WriteAll i (take k bytes)) d of Some d' \<Rightarrow> d' | None \<Rightarrow> d)
                  | _ \<Rightarrow> d)
      | _ \<Rightarrow>
          (case do_call c d of
             None \<Rightarrow> (Inl c, d)
           | Some d' \<Rightarrow> run_calls cs (map_option (\<lambda>(n, k). (n - 1, k)) fault) d'))"

section \<open>Replacing a file\<close>

text \<open>Directories are created before the name of the file is looked at.\<close>

datatype write_error = NoParent path | NoFileName path | Refused call

definition file_name :: "path \<Rightarrow> string option" where
  "file_name p = (if p = [] \<or> last p \<in> {''/'', ''.'', ''..''} then None else Some (last p))"

text \<open>The unique id in the name of the new file is an input.\<close>

definition temp_path :: "path \<Rightarrow> string \<Rightarrow> string \<Rightarrow> path" where
  "temp_path dir name uuid = dir @ [''.'' @ name @ ''.tmp-'' @ uuid]"

definition atomic_write ::
    "path \<Rightarrow> string \<Rightarrow> string \<Rightarrow> (nat \<times> nat) option \<Rightarrow> disk_state \<Rightarrow> (write_error + unit) \<times> disk_state" where
  "atomic_write p bytes uuid fault d =
     (case parent p of
        None \<Rightarrow> (Inl (NoParent p), d)
      | Some dir \<Rightarrow>
          (case file_name p of
             None \<Rightarrow>
               (case run_calls [CreateDirAll dir] fault d of
                  (Inl c, d') \<Rightarrow> (Inl (Refused c), d')
                | (Inr _, d') \<Rightarrow> (Inl (NoFileName p), d'))
           | Some name \<Rightarrow>
               (let temp = temp_path dir name uuid;
                    file = dk_next d
                in case run_calls [CreateDirAll dir, CreateNew temp, WriteAll file bytes, SyncAll file, Rename temp p,
                         SyncDir dir] fault d of
                     (Inl c, d') \<Rightarrow> (Inl (Refused c), d')
                   | (Inr _, d') \<Rightarrow> (Inr (), d'))))"

section \<open>What the calls change\<close>

lemma entries_set_entry: "entries q (set_entry p e d) = (if q = p then entries p d @ [e] else entries q d)"
  by (simp add: entries_def set_entry_def)

lemma entries_other [simp]:
  "entries q (put_inode i n d) = entries q d" "entries q (d\<lparr>dk_next := k\<rparr>) = entries q d"
  "entries q (d\<lparr>dk_inodes := m\<rparr>) = entries q d"
  by (simp_all add: entries_def put_inode_def)

lemma map_of_synced:
  "map_of (map (\<lambda>(q, es). (q, if P q then [last es] else es)) m) q =
     map_option (\<lambda>es. if P q then [last es] else es) (map_of m q)"
  by (induction m) auto

lemma entries_sync_dir:
  "do_call (SyncDir dir) d = Some d' \<Longrightarrow>
     entries q d' = (if parent q = Some dir then [last (entries q d)] else entries q d)
     \<and> dk_inodes d' = dk_inodes d"
  by (auto simp: entries_def map_of_synced [where P = "\<lambda>q. parent q = Some dir"] split: if_splits option.split)

lemma inodes_fields [simp]:
  "map_of (dk_inodes (put_inode i n d)) = (map_of (dk_inodes d))(i \<mapsto> n)"
  "dk_inodes (set_entry p e d) = dk_inodes d" "dk_next (set_entry p e d) = dk_next d"
  "dk_next (put_inode i n d) = dk_next d"
  by (simp_all add: put_inode_def set_entry_def)

text \<open>Calls that leave the name of the target and the files that exist alone.\<close>

definition spared :: "path \<Rightarrow> disk_state \<Rightarrow> disk_state \<Rightarrow> bool" where
  "spared p d d' \<longleftrightarrow>
     entries p d' = entries p d \<and> (\<forall>i < dk_next d. map_of (dk_inodes d') i = map_of (dk_inodes d) i)"

lemma temp_path_other:
  assumes "parent p = Some dir" and "file_name p = Some name"
  shows "temp_path dir name uuid \<noteq> p"
proof
  assume "temp_path dir name uuid = p"
  then have "last p = ''.'' @ name @ ''.tmp-'' @ uuid" by (auto simp: temp_path_def)
  moreover have "last p = name" using assms(2) by (simp add: file_name_def split: if_splits)
  ultimately have "length name = length (''.'' @ name @ ''.tmp-'' @ uuid)" by simp
  then show False by simp
qed

text \<open>The four calls that prepare the new file.\<close>

definition prepared :: "path \<Rightarrow> nat \<Rightarrow> string \<Rightarrow> disk_state \<Rightarrow> bool" where
  "prepared temp file bytes d \<longleftrightarrow>
     entry temp d = Some file \<and> map_of (dk_inodes d) file = Some \<lparr>in_bytes = bytes, in_synced = True\<rparr>"

lemma prepare_new_file:
  fixes d :: disk_state
  assumes "temp \<noteq> p"
  defines "file \<equiv> dk_next d"
  shows "case run_calls [CreateDirAll dir, CreateNew temp, WriteAll file bytes, SyncAll file] fault d of
      (r, d') \<Rightarrow> spared p d d' \<and> (r = Inr () \<longrightarrow> prepared temp file bytes d')"
  using assms
  by (auto simp: spared_def prepared_def entries_set_entry entry_def Let_def less_Suc_eq
      split: option.splits nat.splits if_splits prod.splits)

lemma run_calls_append:
  "run_calls (as @ bs) fault d =
     (case run_calls as fault d of
        (Inl c, d') \<Rightarrow> (Inl c, d')
      | (Inr _, d') \<Rightarrow> run_calls bs (map_option (\<lambda>(n, k). (n - length as, k)) fault) d')"
proof (induction as arbitrary: fault d)
  case (Cons c as)
  consider "fault = None" | k where "fault = Some (0, k)" | n k where "fault = Some (Suc n, k)"
    by (metis not0_implies_Suc option.exhaust prod.exhaust)
  then show ?case by cases (simp_all add: Cons.IH split: option.split sum.split prod.split)
qed (simp add: option.map_id split_beta)

section \<open>All or nothing\<close>

text \<open>A name that survives a power loss with one content.\<close>

definition fixed :: "disk_state \<Rightarrow> string option \<Rightarrow> nat option \<Rightarrow> bool" where
  "fixed d c e \<longleftrightarrow>
     (case e of
        None \<Rightarrow> c = None
      | Some i \<Rightarrow> i < dk_next d \<and> (case map_of (dk_inodes d) i of
                                      None \<Rightarrow> False | Some n \<Rightarrow> in_synced n \<and> c = Some (in_bytes n)))"

definition settled :: "disk_state \<Rightarrow> path \<Rightarrow> string option \<Rightarrow> bool" where
  "settled d p c \<longleftrightarrow> list_all (fixed d c) (entries p d)"

lemma fixed_found:
  assumes "fixed d c e" and "\<forall>i < dk_next d. map_of (dk_inodes d') i = map_of (dk_inodes d) i" and "found d' c' e"
  shows "c' = c"
proof (cases e)
  case (Some i)
  then have "map_of (dk_inodes d') i = map_of (dk_inodes d) i" using assms(1, 2) by (simp add: fixed_def)
  then show ?thesis using assms(1, 3) Some by (simp add: fixed_def found_def split: option.splits)
qed (use assms in \<open>simp add: fixed_def found_def\<close>)

lemma settled_survives:
  assumes "settled d p c" and "spared p d d'" and "survives d' p c'"
  shows "c' = c"
proof -
  obtain e where "e \<in> set (entries p d)" "found d' c' e"
    using assms(2, 3) by (auto simp: spared_def survives_def list_ex_iff)
  then show ?thesis using assms(1, 2) fixed_found by (fastforce simp: settled_def spared_def list_all_iff)
qed

definition installed :: "path \<Rightarrow> nat \<Rightarrow> string \<Rightarrow> disk_state \<Rightarrow> disk_state \<Rightarrow> bool" where
  "installed p file bytes d d' \<longleftrightarrow>
     set (entries p d') \<subseteq> insert (Some file) (set (entries p d))
     \<and> map_of (dk_inodes d') file = Some \<lparr>in_bytes = bytes, in_synced = True\<rparr>
     \<and> (\<forall>i < dk_next d. map_of (dk_inodes d') i = map_of (dk_inodes d) i)"

lemma installed_survives:
  assumes "settled d p old" and "installed p file bytes d d'" and "survives d' p c"
  shows "c = old \<or> c = Some bytes"
proof -
  obtain e where e: "e \<in> set (entries p d')" "found d' c e" using assms(3) by (auto simp: survives_def list_ex_iff)
  show ?thesis
  proof (cases "e = Some file")
    case True
    then show ?thesis using e(2) assms(2) by (simp add: found_def installed_def)
  next
    case False
    then have "fixed d old e" using e(1) assms(1, 2) by (auto simp: installed_def settled_def list_all_iff)
    then show ?thesis using fixed_found [OF _ _ e(2)] assms(2) by (simp add: installed_def)
  qed
qed

lemma swap_names:
  assumes "prepared temp file bytes d'" and "spared p d d'" and "temp \<noteq> p" and "parent p = Some dir"
  shows "case run_calls [Rename temp p, SyncDir dir] fault d' of
      (r, d'') \<Rightarrow> (spared p d d'' \<or> installed p file bytes d d'')
        \<and> (r = Inr () \<longrightarrow> entries p d'' = [Some file] \<and> installed p file bytes d d'')"
  using assms
  by (auto simp: spared_def installed_def prepared_def entries_set_entry simp del: do_call.simps(6)
      dest!: entries_sync_dir split: option.splits nat.splits if_splits prod.splits)

lemma installed_reads:
  assumes "entries p d' = [Some file]" and "installed p file bytes d d'"
  shows "survives d' p c \<longleftrightarrow> c = Some bytes" and "contents p d' = Some bytes"
  using assms by (auto simp: survives_def found_def installed_def contents_def entry_def)

lemma atomic_write_spec:
  assumes "atomic_write p bytes uuid fault d = (r, d')"
  shows "(spared p d d' \<or> installed p (dk_next d) bytes d d')
    \<and> (r = Inr () \<longrightarrow> entries p d' = [Some (dk_next d)] \<and> installed p (dk_next d) bytes d d')"
proof (cases "\<exists>dir name. parent p = Some dir \<and> file_name p = Some name")
  case True
  then obtain dir name where p: "parent p = Some dir" "file_name p = Some name" by blast
  let ?temp = "temp_path dir name uuid" and ?file = "dk_next d"
  let ?first = "[CreateDirAll dir, CreateNew ?temp, WriteAll ?file bytes, SyncAll ?file]"
  note other = temp_path_other [OF p, of uuid]
  obtain r1 d1 where first: "run_calls ?first fault d = (r1, d1)" by fastforce
  then have new: "spared p d d1" "r1 = Inr () \<Longrightarrow> prepared ?temp ?file bytes d1"
    using prepare_new_file [OF other, where d = d and fault = fault and bytes = bytes and dir = dir] by simp_all
  have run: "run_calls (?first @ [Rename ?temp p, SyncDir dir]) fault d =
      (case r1 of Inl c \<Rightarrow> (Inl c, d1)
       | Inr _ \<Rightarrow> run_calls [Rename ?temp p, SyncDir dir] (map_option (\<lambda>(n, k). (n - length ?first, k)) fault) d1)"
    unfolding run_calls_append first by (simp split: sum.split)
  show ?thesis
  proof (cases r1)
    case (Inl c)
    then show ?thesis using assms new run by (auto simp: atomic_write_def p Let_def simp del: run_calls.simps)
  next
    case (Inr u)
    then have "prepared ?temp ?file bytes d1" using new(2) by simp
    note swap = swap_names [OF this new(1) other p(1), of "map_option (\<lambda>(n, k). (n - length ?first, k)) fault"]
    show ?thesis
      using assms swap run Inr by (auto simp: atomic_write_def p Let_def simp del: run_calls.simps split: sum.splits prod.splits)
  qed
next
  case False
  then show ?thesis using assms by (auto simp: atomic_write_def spared_def split: option.splits nat.splits sum.splits prod.splits)
qed

section \<open>Properties\<close>

text \<open>C11. Wherever a fault stops the writing of the snapshot file and whatever a power loss then does to
  the disk, the file has its old content or all of the new one; once the writing succeeds it has the
  new one.\<close>

theorem file_replaced_all_or_nothing:
  assumes "settled d p old"
  shows "case atomic_write p bytes uuid fault d of
      (r, d') \<Rightarrow> (\<forall>c. survives d' p c \<longrightarrow> c = old \<or> c = Some bytes)
        \<and> (r = Inr () \<longrightarrow> contents p d' = Some bytes \<and> (\<forall>c. survives d' p c \<longleftrightarrow> c = Some bytes))"
proof -
  obtain r d' where w: "atomic_write p bytes uuid fault d = (r, d')" by fastforce
  note spec = atomic_write_spec [OF w]
  have "c = old \<or> c = Some bytes" if "survives d' p c" for c
    using spec settled_survives [OF assms _ that] installed_survives [OF assms _ that] by blast
  moreover have "contents p d' = Some bytes \<and> (\<forall>c. survives d' p c \<longleftrightarrow> c = Some bytes)" if "r = Inr ()"
    using spec that installed_reads [of p d' "dk_next d" bytes d] by blast
  ultimately show ?thesis by (simp add: w)
qed

text \<open>The new file stays when a fault stops the writing, under a name that is never used again.\<close>

lemma failed_write_leaves_file:
  assumes "parent p = Some dir" and "file_name p = Some name" and "entry (temp_path dir name uuid) d = None"
  shows "contents (temp_path dir name uuid) (snd (atomic_write p bytes uuid (Some (4, 0)) d)) = Some bytes"
  using assms by (auto simp: atomic_write_def Let_def numeral_eq_Suc entry_def entries_set_entry contents_def)

text \<open>A file in the working directory is replaced, and then reported as an error.\<close>

lemma relative_path_fails_late:
  assumes "entry [''.state.json.tmp-7''] d = None"
  shows "case atomic_write [''state.json''] bytes ''7'' None d of
      (r, d') \<Rightarrow> r = Inl (Refused (SyncDir [])) \<and> contents [''state.json''] d' = Some bytes"
  using assms
  by (auto simp: atomic_write_def parent_def file_name_def temp_path_def Let_def entry_def entries_set_entry contents_def)

section \<open>Examples\<close>

definition state_path :: path where
  "state_path = [''/'', ''state.json'']"

definition old_disk :: disk_state where
  "old_disk = \<lparr>dk_inodes = [(0, \<lparr>in_bytes = ''old'', in_synced = True\<rparr>)], dk_next = 1, dk_names = [(state_path, [Some 0])]\<rparr>"

lemma old_disk_settled: "settled old_disk state_path (Some ''old'')"
  by (simp add: settled_def fixed_def entries_def old_disk_def)

text \<open>Stopped before the directory is synced, either content may be found.\<close>

lemma renamed_not_synced:
  "survives (snd (atomic_write state_path ''new'' ''7'' (Some (5, 0)) old_disk)) state_path (Some ''old'')"
  "survives (snd (atomic_write state_path ''new'' ''7'' (Some (5, 0)) old_disk)) state_path (Some ''new'')"
  by (simp_all add: atomic_write_def state_path_def old_disk_def parent_def file_name_def temp_path_def Let_def entry_def
    entries_def set_entry_def put_inode_def numeral_eq_Suc survives_def found_def)

theorem file_replaced_all_or_nothing_witness:
  "case atomic_write state_path ''new'' ''7'' (Some (2, 1)) old_disk of
      (r, d') \<Rightarrow> \<forall>c. survives d' state_path c \<longrightarrow> c = Some ''old'' \<or> c = Some ''new''"
  using file_replaced_all_or_nothing [OF old_disk_settled, of "''new''" "''7''" "Some (2, 1)"] by (simp split: prod.splits)

end
