(* ===== verification/Daemon.thy ===== *)
theory Daemon
  imports Snapshot AtomicFile Assembly
begin

text \<open>
  The daemon around the runtime (\<open>rshome-mcp/src/daemon.rs\<close>): its configuration from the environment,
  the restore of the snapshot when it starts, the socket, and the snapshot when it ends. A run is a
  function of the disk; what the clients and devices do to the world while it serves is an input, and
  so are serde, the answers of the actors and the faults of the disk.

  The properties compose the round trip of \<open>Snapshot\<close> with the writing of \<open>AtomicFile\<close>.
\<close>

section \<open>Configuration\<close>

record runtime_config =
  rc_version :: string
  rc_native_api_port :: u16
  rc_mdns_enabled :: bool
  rc_max_devices :: nat
  rc_max_entities :: nat
  rc_max_connections_per_device :: nat

definition default_runtime_config :: runtime_config where
  "default_runtime_config =
     \<lparr>rc_version = ''0.1.0'', rc_native_api_port = 6053, rc_mdns_enabled = True, rc_max_devices = 100,
      rc_max_entities = 10000, rc_max_connections_per_device = 1\<rparr>"

record daemon_config =
  dc_socket_path :: path
  dc_snapshot_path :: path
  dc_runtime :: runtime_config

text \<open>The components of a path: empty ones are dropped, and dots after the first.\<close>

definition path_of :: "string \<Rightarrow> path" where
  "path_of s =
     (case split_on CHR ''/'' s of
        [] \<Rightarrow> []
      | h # t \<Rightarrow>
          (let rest = filter (\<lambda>c. c \<noteq> [] \<and> c \<noteq> ''.'') t
           in if s = [] then [] else if h = [] then ''/'' # rest else h # rest))"

definition DEFAULT_SOCKET_PATH :: string where
  "DEFAULT_SOCKET_PATH = ''/run/rshome/rshome-ha-mcp.sock''"

definition DEFAULT_SNAPSHOT_PATH :: string where
  "DEFAULT_SNAPSHOT_PATH = ''/var/lib/rshome/rshome-ha-mcp-state.json''"

text \<open>\<open>str::parse::<usize>\<close>.\<close>

definition parse_usize :: "string \<Rightarrow> nat option" where
  "parse_usize s =
     (let digits = (case s of CHR ''+'' # rest \<Rightarrow> rest | _ \<Rightarrow> s)
      in if digits \<noteq> [] \<and> list_all is_digit digits \<and> digits_value digits < 2 ^ 64 then Some (digits_value digits) else None)"

definition parse_env_bool :: "(string \<rightharpoonup> string) \<Rightarrow> string \<Rightarrow> bool option" where
  "parse_env_bool env key =
     (case env key of
        None \<Rightarrow> None
      | Some value \<Rightarrow>
          (let v = to_lower (trim value)
           in if v \<in> set [''1'', ''true'', ''yes'', ''on''] then Some True
              else if v \<in> set [''0'', ''false'', ''no'', ''off''] then Some False else None))"

definition parse_env_usize :: "(string \<rightharpoonup> string) \<Rightarrow> string \<Rightarrow> nat option" where
  "parse_env_usize env key = Option.bind (env key) parse_usize"

definition env_path :: "(string \<rightharpoonup> string) \<Rightarrow> string \<Rightarrow> string \<Rightarrow> path" where
  "env_path env key dflt = path_of (case env key of Some p \<Rightarrow> p | None \<Rightarrow> dflt)"

abbreviation or_default :: "'a option \<Rightarrow> 'a \<Rightarrow> 'a" where
  "or_default x y \<equiv> (case x of Some v \<Rightarrow> v | None \<Rightarrow> y)"

definition from_env :: "(string \<rightharpoonup> string) \<Rightarrow> daemon_config" where
  "from_env env =
     (let dflt = default_runtime_config;
          connections = or_default (parse_env_usize env ''RSHOME_HA_MAX_CONNECTIONS_PER_DEVICE'')
                          (rc_max_connections_per_device dflt)
      in \<lparr>dc_socket_path = env_path env ''RSHOME_HA_MCP_SOCKET_PATH'' DEFAULT_SOCKET_PATH,
          dc_snapshot_path = env_path env ''RSHOME_HA_STATE_SNAPSHOT_PATH'' DEFAULT_SNAPSHOT_PATH,
          dc_runtime = dflt\<lparr>
            rc_mdns_enabled := or_default (parse_env_bool env ''RSHOME_HA_MDNS_ENABLED'') (rc_mdns_enabled dflt),
            rc_max_devices := or_default (parse_env_usize env ''RSHOME_HA_MAX_DEVICES'') (rc_max_devices dflt),
            rc_max_entities := or_default (parse_env_usize env ''RSHOME_HA_MAX_ENTITIES'') (rc_max_entities dflt),
            rc_max_connections_per_device := (if 1 < connections then 1 else connections)\<rparr>\<rparr>)"

definition runtime_config_to_device_link_limits :: "runtime_config \<Rightarrow> device_link_limits" where
  "runtime_config_to_device_link_limits c =
     \<lparr>max_devices = rc_max_devices c, max_entities = rc_max_entities c,
      max_connections_per_device = rc_max_connections_per_device c\<rparr>"

section \<open>The snapshot file\<close>

text \<open>serde: writing a snapshot, and reading a text as any JSON, as a snapshot, as the old table of
  states, and a JSON value as a state.\<close>

record snapshot_text =
  st_write :: "runtime_snapshot \<Rightarrow> string"
  st_value :: "string \<Rightarrow> json option"
  st_snapshot :: "string \<Rightarrow> string + runtime_snapshot"
  st_table :: "string \<Rightarrow> string + (string \<times> json) list"
  st_state :: "json \<Rightarrow> entity_state option"

definition is_structured :: "snapshot_text \<Rightarrow> string \<Rightarrow> bool" where
  "is_structured st text = (case st_value st text of None \<Rightarrow> False | Some v \<Rightarrow> json_get ''version'' v \<noteq> None)"

definition restore_from_file ::
    "snapshot_text \<Rightarrow> 'w watch_ops \<Rightarrow> nat \<Rightarrow> device_link_limits \<Rightarrow> bool \<Rightarrow> string \<Rightarrow> 'w world
     \<Rightarrow> io_error + 'w world \<times> connected_device list \<times> nat" where
  "restore_from_file st ops now limits linked text w =
     (if is_structured st text
      then (case st_snapshot st text of
              Inl e \<Rightarrow> Inl (InvalidData e)
            | Inr snap \<Rightarrow> restore_runtime ops now limits linked snap w)
      else (case st_table st text of
              Inl e \<Rightarrow> Inl (InvalidData e)
            | Inr old \<Rightarrow>
                (case restore_legacy_snapshot ops now limits (st_state st) old w of
                   Inl e \<Rightarrow> Inl e
                 | Inr (w', n) \<Rightarrow> Inr (w', [], n))))"

datatype daemon_error = Unprepared path | BindFailed path | AcceptFailed | NotBuilt io_error | NotWritten write_error

definition persist_to_file ::
    "snapshot_text \<Rightarrow> (actor_ref \<Rightarrow> io_error + entity_state) \<Rightarrow> connected_device list option \<Rightarrow> 'w world
     \<Rightarrow> path \<Rightarrow> string \<Rightarrow> (nat \<times> nat) option \<Rightarrow> disk_state \<Rightarrow> (daemon_error + unit) \<times> disk_state" where
  "persist_to_file st ask connected w p uuid fault d =
     (case build_snapshot ask connected w of
        Inl e \<Rightarrow> (Inl (NotBuilt e), d)
      | Inr snap \<Rightarrow>
          (case atomic_write p (st_write st snap) uuid fault d of
             (Inl e, d') \<Rightarrow> (Inl (NotWritten e), d')
           | (Inr _, d') \<Rightarrow> (Inr (), d')))"

section \<open>A run of the daemon\<close>

text \<open>How the loop of the daemon ends.\<close>

datatype loop_end = ShutdownRequested | AcceptError

record 'w surroundings =
  sr_text :: snapshot_text
  sr_ops :: "'w watch_ops"
  sr_now :: nat
  sr_dirs :: "path \<Rightarrow> bool"
  sr_binds :: bool
  sr_served :: "'w world \<Rightarrow> connected_device list \<Rightarrow> 'w world"
  sr_end :: loop_end
  sr_ask :: "actor_ref \<Rightarrow> io_error + entity_state"
  sr_connected :: "connected_device list"
  sr_uuid :: string
  sr_fault :: "(nat \<times> nat) option"

text \<open>\<open>sr_dirs\<close> says where directories can be created.\<close>

definition ensure_parent_dir :: "(path \<Rightarrow> bool) \<Rightarrow> path \<Rightarrow> bool" where
  "ensure_parent_dir dirs p = (case parent p of None \<Rightarrow> True | Some q \<Rightarrow> dirs q)"

definition exists_on :: "disk_state \<Rightarrow> path \<Rightarrow> bool" where
  "exists_on d p \<longleftrightarrow> entry p d \<noteq> None"

definition prepare_paths :: "(path \<Rightarrow> bool) \<Rightarrow> daemon_config \<Rightarrow> disk_state \<Rightarrow> daemon_error + disk_state" where
  "prepare_paths dirs cfg d =
     (if \<not> ensure_parent_dir dirs (dc_socket_path cfg) then Inl (Unprepared (dc_socket_path cfg))
      else if \<not> ensure_parent_dir dirs (dc_snapshot_path cfg) then Inl (Unprepared (dc_snapshot_path cfg))
      else Inr (if exists_on d (dc_socket_path cfg) then set_entry (dc_socket_path cfg) None d else d))"

definition cleanup_socket :: "path \<Rightarrow> disk_state \<Rightarrow> disk_state" where
  "cleanup_socket p d = (if exists_on d p then set_entry p None d else d)"

text \<open>A snapshot that cannot be restored is logged, and the daemon goes on with an empty world.\<close>

definition started :: "'w surroundings \<Rightarrow> daemon_config \<Rightarrow> disk_state \<Rightarrow> 'w world \<times> connected_device list" where
  "started sr cfg d =
     (case contents (dc_snapshot_path cfg) d of
        None \<Rightarrow> (initial_world, [])
      | Some text \<Rightarrow>
          (case restore_from_file (sr_text sr) (sr_ops sr) (sr_now sr)
                  (runtime_config_to_device_link_limits (dc_runtime cfg)) (rc_mdns_enabled (dc_runtime cfg)) text initial_world of
             Inl _ \<Rightarrow> (initial_world, [])
           | Inr (w, seeds, _) \<Rightarrow> (w, seeds)))"

text \<open>A bound socket is a new file.\<close>

definition bind_socket :: "bool \<Rightarrow> path \<Rightarrow> disk_state \<Rightarrow> daemon_error + disk_state" where
  "bind_socket binds p d =
     (if \<not> binds then Inl (BindFailed p)
      else case do_call (CreateNew p) d of None \<Rightarrow> Inl (BindFailed p) | Some d' \<Rightarrow> Inr d')"

definition run_daemon :: "'w surroundings \<Rightarrow> daemon_config \<Rightarrow> disk_state \<Rightarrow> (daemon_error + unit) \<times> disk_state" where
  "run_daemon sr cfg d =
     (case prepare_paths (sr_dirs sr) cfg d of
        Inl e \<Rightarrow> (Inl e, d)
      | Inr d1 \<Rightarrow>
          (let (w, seeds) = started sr cfg d1
           in case bind_socket (sr_binds sr) (dc_socket_path cfg) d1 of
                Inl e \<Rightarrow> (Inl e, d1)
              | Inr d2 \<Rightarrow>
                  (case sr_end sr of
                     AcceptError \<Rightarrow> (Inl AcceptFailed, d2)
                   | ShutdownRequested \<Rightarrow>
                       (let connected = (if rc_mdns_enabled (dc_runtime cfg) then Some (sr_connected sr) else None);
                            (r, d3) = persist_to_file (sr_text sr) (sr_ask sr) connected (sr_served sr w seeds)
                                        (dc_snapshot_path cfg) (sr_uuid sr) (sr_fault sr) d2
                        in (r, cleanup_socket (dc_socket_path cfg) d3)))))"

section \<open>What a run does to the disk\<close>

lemma entries_cleanup: "q \<noteq> p \<Longrightarrow> entries q (cleanup_socket p d) = entries q d"
  and inodes_cleanup: "dk_inodes (cleanup_socket p d) = dk_inodes d"
  by (simp_all add: cleanup_socket_def entries_set_entry)

lemma contents_prepared:
  assumes "prepare_paths dirs cfg d = Inr d1" and "dc_snapshot_path cfg \<noteq> dc_socket_path cfg"
  shows "contents (dc_snapshot_path cfg) d1 = contents (dc_snapshot_path cfg) d"
  using assms by (auto simp: prepare_paths_def contents_def entry_def entries_set_entry split: if_splits option.split)

lemma started_prepared:
  assumes "prepare_paths dirs cfg d = Inr d1" and "dc_snapshot_path cfg \<noteq> dc_socket_path cfg"
  shows "started sr cfg d1 = started sr cfg d"
  by (simp add: started_def contents_prepared [OF assms])

definition final_world :: "'w surroundings \<Rightarrow> daemon_config \<Rightarrow> disk_state \<Rightarrow> 'w world" where
  "final_world sr cfg d = (case started sr cfg d of (w, seeds) \<Rightarrow> sr_served sr w seeds)"

definition final_links :: "'w surroundings \<Rightarrow> daemon_config \<Rightarrow> connected_device list option" where
  "final_links sr cfg = (if rc_mdns_enabled (dc_runtime cfg) then Some (sr_connected sr) else None)"

text \<open>A run that ends well has written the snapshot of its last world.\<close>

lemma run_written:
  assumes "run_daemon sr cfg d = (Inr (), d')" and "dc_snapshot_path cfg \<noteq> dc_socket_path cfg"
  shows "\<exists>snap file d2 d3. build_snapshot (sr_ask sr) (final_links sr cfg) (final_world sr cfg d) = Inr snap
    \<and> atomic_write (dc_snapshot_path cfg) (st_write (sr_text sr) snap) (sr_uuid sr) (sr_fault sr) d2 = (Inr (), d3)
    \<and> d' = cleanup_socket (dc_socket_path cfg) d3"
proof -
  obtain d1 where d1: "prepare_paths (sr_dirs sr) cfg d = Inr d1"
    using assms(1) by (auto simp: run_daemon_def split: sum.splits)
  obtain w seeds where w: "started sr cfg d = (w, seeds)" by fastforce
  then have "started sr cfg d1 = (w, seeds)" using started_prepared [OF d1 assms(2), of sr] by simp
  then show ?thesis
    using assms(1) d1 w
    by (auto simp: run_daemon_def final_world_def final_links_def persist_to_file_def Let_def
      split: sum.splits prod.splits loop_end.splits) blast+
qed

lemma run_reads:
  assumes "run_daemon sr cfg d = (Inr (), d')" and "dc_snapshot_path cfg \<noteq> dc_socket_path cfg"
    and "build_snapshot (sr_ask sr) (final_links sr cfg) (final_world sr cfg d) = Inr snap"
  shows "contents (dc_snapshot_path cfg) d' = Some (st_write (sr_text sr) snap)"
    and "survives d' (dc_snapshot_path cfg) c \<longleftrightarrow> c = Some (st_write (sr_text sr) snap)"
proof -
  let ?p = "dc_snapshot_path cfg" and ?text = "st_write (sr_text sr) snap"
  obtain d2 d3 where w: "atomic_write ?p ?text (sr_uuid sr) (sr_fault sr) d2 = (Inr (), d3)"
    "d' = cleanup_socket (dc_socket_path cfg) d3"
    using run_written [OF assms(1, 2)] assms(3) by auto
  have "entries ?p d' = [Some (dk_next d2)]" "installed ?p (dk_next d2) ?text d2 d'"
    using atomic_write_spec [OF w(1)] entries_cleanup [OF assms(2)] inodes_cleanup w(2) by (simp_all add: installed_def)
  then show "contents ?p d' = Some ?text" "survives d' ?p c \<longleftrightarrow> c = Some ?text" by (rule installed_reads)+
qed

text \<open>serde reads back the snapshot it wrote, which is a JSON object with a version.\<close>

definition reads_back :: "snapshot_text \<Rightarrow> runtime_snapshot \<Rightarrow> bool" where
  "reads_back st snap \<longleftrightarrow> is_structured st (st_write st snap) \<and> st_snapshot st (st_write st snap) = Inr snap"

lemma build_empty: "build_snapshot ask connected initial_world = Inr \<lparr>rs_version = SNAPSHOT_VERSION, rs_devices = [], rs_orphan_entities = []\<rparr>"
  by (simp add: build_snapshot_def list_devices_def snapshot_orphan_entities_def list_all_ids_def store_list_ids_def
    initial_world_def)

section \<open>Properties\<close>

text \<open>C12. A daemon that ends well keeps its world: whatever a power loss does after its end, a daemon
  started with the same configuration, limits permitting, has all devices and entities with their
  descriptors and states.\<close>

theorem daemon_restart_keeps_world:
  fixes sr sr' :: "'w surroundings"
  assumes "run_daemon sr cfg d = (Inr (), d')" and "dc_snapshot_path cfg \<noteq> dc_socket_path cfg"
    and "consistent (final_world sr cfg d)"
    and "build_snapshot (sr_ask sr) (final_links sr cfg) (final_world sr cfg d) = Inr snap"
    and "validate_snapshot (runtime_config_to_device_link_limits (dc_runtime cfg)) snap = Inr ()"
    and "sr_text sr' = sr_text sr" and "reads_back (sr_text sr) snap"
    and "survives d' (dc_snapshot_path cfg) (contents (dc_snapshot_path cfg) e)"
  shows "build_snapshot ask' links' (fst (started sr' cfg e)) =
      Inr (snap\<lparr>rs_devices := map (\<lambda>ds. ds\<lparr>ds_link := snapshot_imported_links links' (ds_id ds)\<rparr>) (rs_devices snap)\<rparr>)"
proof -
  let ?limits = "runtime_config_to_device_link_limits (dc_runtime cfg)" and ?linked = "rc_mdns_enabled (dc_runtime cfg)"
  have stored: "contents (dc_snapshot_path cfg) e = Some (st_write (sr_text sr) snap)"
    using run_reads(2) [OF assms(1, 2, 4)] assms(8) by simp
  obtain w seeds n where r: "restore_runtime (sr_ops sr') (sr_now sr') ?limits ?linked snap initial_world = Inr (w, seeds, n)"
    using assms(5) by (auto simp: restore_runtime_def restore_structured_snapshot_def)
  then have "fst (started sr' cfg e) = w"
    using assms(6, 7) by (simp add: started_def stored restore_from_file_def reads_back_def)
  then show ?thesis
    using restored_snapshot_rewritten [OF written_snapshot_ok [OF assms(3, 4)] r] by simp
qed

text \<open>C38. A snapshot that cannot be restored, because its version is unknown, it exceeds the limits or
  serde does not read it, is lost: the daemon serves from an empty world, and when it ends well it
  replaces the file by the snapshot of what that became, whatever happened while it served. When
  nothing happened, this is the empty snapshot.\<close>

theorem rejected_snapshot_overwritten:
  assumes "contents (dc_snapshot_path cfg) d = Some text" and "dc_snapshot_path cfg \<noteq> dc_socket_path cfg"
    and "restore_from_file (sr_text sr) (sr_ops sr) (sr_now sr) (runtime_config_to_device_link_limits (dc_runtime cfg))
           (rc_mdns_enabled (dc_runtime cfg)) text initial_world = Inl err"
    and "run_daemon sr cfg d = (Inr (), d')"
  shows "\<exists>snap. build_snapshot (sr_ask sr) (final_links sr cfg) (sr_served sr initial_world []) = Inr snap
    \<and> contents (dc_snapshot_path cfg) d' = Some (st_write (sr_text sr) snap)
    \<and> (sr_served sr initial_world [] = initial_world \<longrightarrow>
        snap = \<lparr>rs_version = 3, rs_devices = [], rs_orphan_entities = []\<rparr>)"
proof -
  have final: "final_world sr cfg d = sr_served sr initial_world []"
    using assms(1, 3) by (simp add: final_world_def started_def)
  then obtain snap where snap: "build_snapshot (sr_ask sr) (final_links sr cfg) (sr_served sr initial_world []) = Inr snap"
    using run_written [OF assms(4, 2)] by auto
  then have "contents (dc_snapshot_path cfg) d' = Some (st_write (sr_text sr) snap)"
    using run_reads(1) [OF assms(4, 2)] final by simp
  moreover have "snap = \<lparr>rs_version = 3, rs_devices = [], rs_orphan_entities = []\<rparr>"
    if "sr_served sr initial_world [] = initial_world" using snap that by (simp add: build_empty SNAPSHOT_VERSION_def)
  ultimately show ?thesis using snap by blast
qed

text \<open>When accepting a client fails, the daemon ends at once: no snapshot is written and the socket
  stays.\<close>

lemma accept_error_keeps_nothing:
  assumes "sr_end sr = AcceptError" and "run_daemon sr cfg d = (r, d')" and "dc_snapshot_path cfg \<noteq> dc_socket_path cfg"
  shows "r \<noteq> Inr () \<and> entries (dc_snapshot_path cfg) d' = entries (dc_snapshot_path cfg) d"
  using assms
  by (auto simp: run_daemon_def prepare_paths_def bind_socket_def entries_set_entry Let_def
    split: sum.splits prod.splits if_splits)

text \<open>However the environment is set, a device has at most one connection.\<close>

lemma one_connection_per_device:
  "max_connections_per_device (runtime_config_to_device_link_limits (dc_runtime (from_env env))) \<le> 1"
  by (simp add: from_env_def runtime_config_to_device_link_limits_def Let_def)

section \<open>Examples\<close>

text \<open>A text format with one snapshot, and a file it does not read.\<close>

definition lamp_text :: snapshot_text where
  "lamp_text =
     \<lparr>st_write = (\<lambda>snap. if snap = lamp_snapshot then ''lamp'' else ''other''), st_value = (\<lambda>_. Some (JObj [(''version'', JNull)])),
      st_snapshot = (\<lambda>t. if t = ''lamp'' then Inr lamp_snapshot else Inl ''unreadable''), st_table = (\<lambda>_. Inl ''unreadable''),
      st_state = (\<lambda>_. None)\<rparr>"

definition lamp_daemon :: daemon_config where
  "lamp_daemon =
     \<lparr>dc_socket_path = [''/'', ''run.sock''], dc_snapshot_path = state_path, dc_runtime = default_runtime_config\<lparr>rc_mdns_enabled := False\<rparr>\<rparr>"

text \<open>A run in which a board with a lamp is added, and one in which nothing happens.\<close>

definition lamp_run :: "(entity_state option \<times> nat) surroundings" where
  "lamp_run =
     \<lparr>sr_text = lamp_text, sr_ops = counted_watch, sr_now = 7, sr_dirs = (\<lambda>_. True), sr_binds = True,
      sr_served = (\<lambda>_ _. lamp_world), sr_end = ShutdownRequested, sr_ask = (\<lambda>_. Inl ActorGone), sr_connected = [],
      sr_uuid = ''7'', sr_fault = None\<rparr>"

definition idle_run :: "(entity_state option \<times> nat) surroundings" where
  "idle_run = lamp_run\<lparr>sr_served := (\<lambda>w _. w)\<rparr>"

definition empty_disk :: disk_state where
  "empty_disk = \<lparr>dk_inodes = [], dk_next = 0, dk_names = []\<rparr>"

lemmas lamp_daemon_simps = lamp_daemon_def lamp_run_def idle_run_def state_path_def prepare_paths_def ensure_parent_dir_def
  exists_on_def bind_socket_def persist_to_file_def atomic_write_def parent_def file_name_def temp_path_def entry_def
  entries_def set_entry_def put_inode_def default_runtime_config_def Let_def

lemma lamp_run_ends: "\<exists>d'. run_daemon lamp_run lamp_daemon empty_disk = (Inr (), d')"
  by (simp add: run_daemon_def started_def contents_def empty_disk_def lamp_written lamp_daemon_simps)

lemma lamp_run_world:
  "final_world lamp_run lamp_daemon d = lamp_world" "final_links lamp_run lamp_daemon = None"
  "sr_ask lamp_run = (\<lambda>_. Inl ActorGone)" "sr_text lamp_run = lamp_text"
  "dc_snapshot_path lamp_daemon \<noteq> dc_socket_path lamp_daemon"
  by (simp_all add: final_world_def final_links_def lamp_run_def lamp_daemon_def state_path_def split_beta)

lemma lamp_reads_back: "reads_back lamp_text lamp_snapshot"
  by (simp add: reads_back_def is_structured_def lamp_text_def json_get_def)

theorem daemon_restart_keeps_world_witness:
  "\<exists>d'. run_daemon lamp_run lamp_daemon empty_disk = (Inr (), d')
     \<and> build_snapshot (\<lambda>_. Inl ActorGone) None (fst (started lamp_run lamp_daemon d')) = Inr lamp_snapshot"
proof -
  obtain d' where run: "run_daemon lamp_run lamp_daemon empty_disk = (Inr (), d')" using lamp_run_ends by blast
  note end_world = lamp_run_world
  have built: "build_snapshot (sr_ask lamp_run) (final_links lamp_run lamp_daemon) (final_world lamp_run lamp_daemon empty_disk) = Inr lamp_snapshot"
    by (simp add: end_world lamp_written)
  have fits: "validate_snapshot (runtime_config_to_device_link_limits (dc_runtime lamp_daemon)) lamp_snapshot = Inr ()"
    by (simp add: validate_snapshot_def lamp_snapshot_def lamp_daemon_def runtime_config_to_device_link_limits_def
      default_runtime_config_def SUPPORTED_SNAPSHOT_VERSIONS_def SNAPSHOT_VERSION_def MAX_ENTITIES_PER_DEVICE_def)
  have "consistent (final_world lamp_run lamp_daemon empty_disk)" "reads_back (sr_text lamp_run) lamp_snapshot"
    using lamp_consistent lamp_reads_back by (simp_all add: end_world)
  moreover have "survives d' (dc_snapshot_path lamp_daemon) (contents (dc_snapshot_path lamp_daemon) d')"
    using run_reads [OF run end_world(5) built] by simp
  ultimately have "build_snapshot (\<lambda>_. Inl ActorGone) None (fst (started lamp_run lamp_daemon d')) =
      Inr (lamp_snapshot\<lparr>rs_devices := map (\<lambda>ds. ds\<lparr>ds_link := snapshot_imported_links None (ds_id ds)\<rparr>) (rs_devices lamp_snapshot)\<rparr>)"
    using daemon_restart_keeps_world [OF run end_world(5) _ built fits refl] by blast
  then show ?thesis using run by (auto simp: lamp_snapshot_def snapshot_imported_links_def)
qed

theorem rejected_snapshot_overwritten_witness:
  "\<exists>d'. run_daemon idle_run lamp_daemon old_disk = (Inr (), d') \<and> contents state_path d' = Some ''other''"
proof -
  have stored: "contents (dc_snapshot_path lamp_daemon) old_disk = Some ''old''"
    by (simp add: contents_def entry_def entries_def old_disk_def lamp_daemon_def)
  have paths: "dc_snapshot_path lamp_daemon \<noteq> dc_socket_path lamp_daemon" by (simp add: lamp_daemon_def state_path_def)
  have rejected: "restore_from_file (sr_text idle_run) (sr_ops idle_run) (sr_now idle_run)
      (runtime_config_to_device_link_limits (dc_runtime lamp_daemon)) (rc_mdns_enabled (dc_runtime lamp_daemon)) ''old''
      (initial_world :: (entity_state option \<times> nat) world) = Inl (InvalidData ''unreadable'')"
    by (simp add: restore_from_file_def is_structured_def lamp_text_def json_get_def idle_run_def lamp_run_def)
  have "\<exists>d'. run_daemon idle_run lamp_daemon old_disk = (Inr (), d')"
    using rejected stored
    by (simp add: run_daemon_def started_def contents_def old_disk_def build_empty lamp_daemon_simps)
  then obtain d' where run: "run_daemon idle_run lamp_daemon old_disk = (Inr (), d')" by blast
  from rejected_snapshot_overwritten [OF stored paths rejected run]
  have "contents state_path d' = Some (st_write lamp_text \<lparr>rs_version = 3, rs_devices = [], rs_orphan_entities = []\<rparr>)"
    by (auto simp: idle_run_def lamp_run_def lamp_daemon_def)
  then show ?thesis using run by (simp add: lamp_text_def lamp_snapshot_def)
qed

end
