(* ===== verification/Spec2Isabelle.thy ===== *)
theory Spec2Isabelle
  imports Codec ConfigPipeline Connection Supervisor DomainSpecs Workflow LinkManager WasmHost GraphProperties Workspace PinMap Catalogue Snapshot BoardYaml Archive Tools History Legacy Daemon
begin

text \<open>
  Verification library of zt-edge, the Rust workspace under \<open>src/crates\<close>.

  \<^bold>\<open>The program.\<close> zt-edge does three things. A compiler turns a configuration of an ESP32 device into a
  validated configuration (\<open>rshome-config\<close>, over the registries of \<open>rshome-schema\<close>) and that into the
  sources of a firmware project (\<open>rshome-codegen\<close>). A wizard picks hardware, solutions and pins for it
  (\<open>rshome-wizard\<close>, over the catalogues of \<open>rshome-schema\<close>). A home automation server runs entities as
  actors (\<open>rshome-actor\<close>, \<open>rshome-entity\<close>, \<open>rshome-state\<close>), takes service calls and workflows
  (\<open>rshome-svc\<close>, \<open>rshome-wf\<close>), speaks the ESPHome native API as a server (\<open>rshome-native-api\<close>) and as a
  client (\<open>rshome-device-link\<close>), hosts WebAssembly integrations (\<open>rshome-wasm-host\<close>) and is driven by
  tools and saved by a daemon (\<open>rshome-mcp\<close>).

  \<^bold>\<open>Conventions.\<close> Names are those of the source. A struct is a \<open>record\<close>, an enum a \<open>datatype\<close>, a
  \<open>Result\<close> a sum whose left side is the error, integers have their width where it matters and are
  \<open>nat\<close> where the code counts elements of a collection. A \<open>String\<close> is the list of its bytes. A
  \<open>BTreeMap\<close> is an association list with ascending keys, a \<open>HashMap\<close> one with different keys whose order
  stands for the order of iteration, so a statement holds for every order. A method that changes \<open>self\<close>
  is a function from the old to the new state. An actor is a record with a mailbox; sending appends to
  it and one delivery handles its first message, and the order of deliveries is open.

  \<^bold>\<open>Theories.\<close>

  Foundations: \<open>Prelude\<close> (integers, byte strings, lists), \<open>Maps\<close> (hash maps), \<open>F64\<close> (doubles as signed
  multiples of the least double, with the operations and the shortest decimal text the program uses),
  \<open>Json\<close> (\<open>serde_json::Value\<close>).

  Configuration compiler (\<open>rshome-config\<close>): \<open>ConfigTypes\<close> holds \<open>raw.rs\<close> and \<open>error.rs\<close>. \<open>StageMerge\<close> has
  stages 1 to 3, \<open>StageTrust\<close> 3.5 to 5, \<open>StageLoad\<close> 6, \<open>StageSchema\<close> 7, \<open>StageIds\<close> 8, \<open>StageGuards\<close> 11
  to 13, \<open>Pins\<close> 10 with the resource tracker of \<open>pin.rs\<close>, \<open>StageFinal\<close> 9 with \<open>sigrok.rs\<close>. \<open>Solution\<close>
  and \<open>Registry\<close> are the parts of \<open>rshome-schema\<close> the stages read, the shipped component registry and
  the feature flags included. \<open>DepOrder\<close> and \<open>ComponentDag\<close> are the dependency graphs of the result, and
  \<open>ConfigPipeline\<close> runs the stages in the order of \<open>pipeline.rs\<close> and states what holds of every
  configuration that passes. \<open>Claims\<close> is the interface between a table of resources and the stages that
  ask for them.

  Generators: \<open>BoardYaml\<close> (\<open>board_yaml.rs\<close>), \<open>Codegen\<close> (\<open>generator.rs\<close>, \<open>brookesia.rs\<close>, \<open>cmake.rs\<close>,
  \<open>sdkconfig.rs\<close>, \<open>ha_adapter.rs\<close>), \<open>Archive\<close> (the export of a project and its unpacking, \<open>bindings.rs\<close>).

  Graphs and catalogues (\<open>rshome-schema\<close>): \<open>Graphs\<close> and \<open>GraphProperties\<close> (\<open>graph.rs\<close>), \<open>Platform\<close>
  (\<open>platform.rs\<close>), \<open>Catalog\<close> (the types of \<open>solution.rs\<close> and the GPIO conflicts of the wizard),
  \<open>SolutionParts\<close>, \<open>Solutions1\<close> to \<open>Solutions4\<close> (the 59 shipped solutions in the order of the source),
  \<open>Assembly\<close> and \<open>Boards\<close> (modules and boards), \<open>Catalogue\<close> (what holds of all that is shipped),
  \<open>Legacy\<close> (\<open>solution_legacy.rs\<close>). Wizard: \<open>Workspace\<close> (\<open>workspace.rs\<close>), \<open>PinMap\<close> (\<open>pin_map.rs\<close>).

  Runtime: \<open>EntityTypes\<close>, \<open>Domains\<close>, \<open>DomainSpecs\<close> and \<open>EntityRuntime\<close> (\<open>rshome-entity\<close>), \<open>StateStore\<close>
  and \<open>History\<close> (\<open>rshome-state\<close>), \<open>Services\<close> (\<open>rshome-svc\<close>), \<open>Workflow\<close> (\<open>rshome-wf\<close>), \<open>Supervisor\<close>
  (\<open>rshome-actor\<close>). Native API: \<open>Framing\<close>, \<open>Codec\<close>, \<open>NativeApi\<close>, \<open>Connection\<close>. Device link: \<open>LinkTypes\<close>,
  \<open>LinkFrames\<close>, \<open>LinkSession\<close>, \<open>LinkManager\<close>. WebAssembly host: \<open>Capability\<close>, \<open>DomainLowering\<close>,
  \<open>WasmHost\<close>. Daemon (\<open>rshome-mcp\<close>): \<open>Snapshot\<close> and \<open>AtomicFile\<close> (\<open>runtime.rs\<close>), \<open>Daemon\<close>
  (\<open>daemon.rs\<close>), \<open>Tools\<close> (\<open>lib.rs\<close>, \<open>resources.rs\<close>).

  \<^bold>\<open>State.\<close> \<open>EntityRuntime.world\<close> is the shared state of the server: the store (\<open>StateStore\<close>), the entity
  registry, the living entity and device actors with their mailboxes, and the table of the device
  manager. Services, workflows, native connections, the snapshot and the tools all act on it.
  \<open>Connection\<close> adds the state of one client, \<open>LinkSession\<close> and \<open>LinkManager\<close> those of the device link,
  \<open>WasmHost.host_world\<close> that of the host with its integrations, \<open>Workflow.engine\<close> that of the engine,
  \<open>Codegen.project_output\<close> the disk and the memory a project is written to, and
  \<open>AtomicFile.disk_state\<close> the disk of the daemon.

  \<^bold>\<open>What is shown.\<close>

  A configuration that passes the pipeline has registered components with all their dependencies and
  no conflicts, free and existing pins, different ids and no secret in plain text; warnings never stop
  the pipeline and fatal errors always do. The build order is a permutation of the components that
  puts dependencies first; with cycles, nothing is lost. Stages that are loops end, and auto-load is
  exactly reachability.

  A project written to disk is the project generated in memory, and the exported archive unpacks to
  exactly its files. Settings without line breaks cannot leave their block of a board file.

  The shipped catalogue: the execution order of every orchestration, the pairs of transmitters and
  receivers that a workspace may have, and the receivers that only a phone bridge can serve; a
  workspace is accepted exactly when its stated conditions hold; the two tables of pins agree.

  At run time the store holds the state of every living entity and the whole actor world refines a map
  from entities to states; a service call, a native switch command and a tool reach it. The snapshot
  file has its old or its new content whatever stops its writing, a daemon that ends well and is started
  again has its world, and the history keeps the last record of each time. Restarts are bounded in
  every window. The frame codec and its reader are independent of how the stream is cut. A connection sends its
  frames in the order of the protocol, a session opens in order, and the manager's tables stay
  consistent. A revoked capability stays revoked, registrations of integrations are typed, and the
  tables of the host agree.

  Each property stands below the text that states it, with an instance on concrete data where it has
  hypotheses; the other theorems are the steps to them and the behaviours that were found on the way.

  \<^bold>\<open>Interfaces.\<close> \<open>Framing.frame_codec\<close> (a codec and the task that reads a stream through it) is interpreted
  by \<open>Codec\<close>; \<open>Claims.first_come\<close> (a table that gives a resource to the first who asks) by the pins, buses
  and claims of \<open>Pins\<close>; \<open>StateStore.state_updater\<close> (the trait through which actors write) by the store;
  \<open>Graphs.petgraph_laws\<close> by a reference graph library.

  \<^bold>\<open>Parameters.\<close> Third-party code is a parameter, with what is assumed of it as named hypotheses: petgraph
  (\<open>petgraph_laws\<close>: topological orders, neighbours), the watch channels of tokio (\<open>watch_contract\<close>), serde's
  conversions, the cipher of the Noise handshake, the WebAssembly engine with its guests, the tables of
  Unicode (\<open>unicode\<close>, with ASCII as an instance), the reader of sigrok files, the disk (\<open>disk_laws\<close>), the
  template engine, base64 (\<open>base64_laws\<close>), the database of the history (\<open>table_laws\<close>). Instants, random
  ids, the fate of tasks and the answers of asked actors are inputs.

  \<^bold>\<open>Loops.\<close> Recursion is structural or has a measure, except in three places. \<open>Framing.drain\<close> has a unit of
  fuel for each byte of the buffer and one more, and a frame has at least one byte. \<open>F64.shortest\<close> tries
  700 decimal exponents from 309 down, more than a double can have. \<open>Graphs.deps_loop\<close> and
  \<open>Graphs.walk_back\<close> are partial functions, and they are shown to end (\<open>transitive_deps_ends\<close>,
  \<open>critical_path_longest\<close>).

  \<^bold>\<open>Not modelled.\<close> Sockets beyond their names, permissions and directories, and the scheduling of tokio; the generated protobuf
  code beyond the fields the program reads; logging; the exports of JSON schemas and the
  \<open>wasm-bindgen\<close> wrappers, which call what is modelled; the entity schemas of \<open>rshome-schema/src/entity.rs\<close>
  and the copies of registry records for the wizard, which have no operations; the SDK text printed for
  authors of integrations; descriptions, translations and other texts that are only displayed.
\<close>

end
